(* ===== verification/Prelude.thy ===== *)
theory Prelude
  imports Main "HOL-Library.AList" "HOL-Library.Sublist"
begin

text \<open>
  Shared vocabulary of the development: the JavaScript containers and string operations the
  services use, and the generic facts about them.
  \<^item> A JavaScript \<open>Map\<close> iterates in insertion order and keeps the position of a key
    that is set again: an association list with \<open>AList.update\<close> (set), \<open>AList.delete\<close>
    (delete) and \<open>map_of\<close> (get).
  \<^item> \<open>xs.slice(-limit)\<close> is \<open>slice_last\<close>; \<open>xs.splice(0, n)\<close> is \<open>splice_front\<close>.
  \<^item> \<open>undefined\<close>-able values are options; \<open>truthy_str\<close> is the truth value of an
    optional string (the empty string is falsy).
  \<^item> Numbers in template literals are printed by \<open>show_nat\<close> and \<open>show_int\<close>.
  \<^item> The locales \<open>machine\<close> and \<open>audited_machine\<close> are the contract every stateful
    service of the repository is shown to satisfy: an invariant kept by each operation is
    kept by every run, and a log each operation only extends is only extended by every run.
\<close>

named_theorems jsmap \<open>facts about insertion-ordered maps\<close>
named_theorems inv_intro \<open>operations keep the invariant of their component\<close>

section \<open>Insertion-ordered maps\<close>

type_synonym ('k, 'v) jsmap = "('k \<times> 'v) list"

declare map_of_eq_Some_iff [simp del]

abbreviation wf_map :: "('k, 'v) jsmap \<Rightarrow> bool" where
  "wf_map m \<equiv> distinct (map fst m)"

abbreviation map_values :: "('k, 'v) jsmap \<Rightarrow> 'v list" where
  "map_values m \<equiv> map snd m"

definition map_has :: "('k, 'v) jsmap \<Rightarrow> 'k \<Rightarrow> bool" where
  "map_has m k \<longleftrightarrow> map_of m k \<noteq> None"

lemma map_of_update [simp, jsmap]:
  "map_of (AList.update k v m) k' = (if k' = k then Some v else map_of m k')"
  by (simp add: update_conv)

lemma map_of_delete [simp, jsmap]:
  "map_of (AList.delete k m) k' = (if k' = k then None else map_of m k')"
  by (simp add: delete_conv)

lemma wf_update [simp, intro, jsmap]: "wf_map m \<Longrightarrow> wf_map (AList.update k v m)"
  by (rule distinct_update)

lemma wf_delete [simp, intro, jsmap]: "wf_map m \<Longrightarrow> wf_map (AList.delete k m)"
  by (rule distinct_delete)

lemma map_values_iff [jsmap]:
  "wf_map m \<Longrightarrow> v \<in> set (map_values m) \<longleftrightarrow> (\<exists>k. map_of m k = Some v)"
  by (force simp: map_of_eq_Some_iff)

lemma map_of_values: "map_of m k = Some v \<Longrightarrow> v \<in> set (map_values m)"
  by (force dest: map_of_SomeD)

lemma update_fresh [jsmap]: "map_of m k = None \<Longrightarrow> AList.update k v m = m @ [(k, v)]"
  by (induction m) (auto split: if_splits)

lemma map_values_update_subset:
  "set (map_values (AList.update k v m)) \<subseteq> insert v (set (map_values m))"
  by (induction m) auto

lemma map_values_delete_subset:
  "set (map_values (AList.delete k m)) \<subseteq> set (map_values m)"
  by (induction m) auto

lemma length_update:
  "length (AList.update k v m) = (if map_of m k = None then Suc (length m) else length m)"
  by (induction m) auto

lemma length_delete:
  "wf_map m \<Longrightarrow> length (AList.delete k m) = (if map_of m k = None then length m else length m - 1)"
proof (induction m)
  case Nil
  then show ?case by simp
next
  case (Cons p m)
  obtain k' v' where p: "p = (k', v')" by (cases p)
  show ?case
  proof (cases "k' = k")
    case True
    with Cons.prems p have "map_of m k = None" by (simp add: map_of_eq_None_iff)
    then have "AList.delete k m = m" by (simp add: delete_idem map_of_eq_None_iff)
    with True p show ?thesis by simp
  next
    case False
    have "map_of m k \<noteq> None \<Longrightarrow> 0 < length m" by (cases m) auto
    with False Cons p show ?thesis by auto
  qed
qed

section \<open>Arrays\<close>

definition slice_last :: "int \<Rightarrow> 'a list \<Rightarrow> 'a list" where
  \<comment> \<open>\<open>xs.slice(-limit)\<close>: \<open>-0\<close> is \<open>0\<close>, and a negative limit becomes a positive start\<close>
  "slice_last limit xs =
     (if 0 < limit then drop (length xs - nat limit) xs else drop (nat (- limit)) xs)"

lemma set_slice_last: "set (slice_last limit xs) \<subseteq> set xs"
  by (auto simp: slice_last_def dest: in_set_dropD)

lemma slice_last_zero: "slice_last 0 xs = xs"
  by (simp add: slice_last_def)

lemma length_slice_last: "0 < limit \<Longrightarrow> length (slice_last limit xs) = min (nat limit) (length xs)"
  by (simp add: slice_last_def)

lemma slice_last_suffix: "suffix (slice_last limit xs) xs"
  by (auto simp: slice_last_def suffix_drop)

definition splice_front :: "int \<Rightarrow> 'a list \<Rightarrow> 'a list \<times> 'a list" where
  \<comment> \<open>\<open>xs.splice(0, n)\<close>: the removed elements and the array that is left\<close>
  "splice_front n xs = (take (nat n) xs, drop (nat n) xs)"

lemma splice_front_append: "splice_front n xs = (ys, zs) \<Longrightarrow> xs = ys @ zs"
  by (auto simp: splice_front_def)

lemma find_filter: "List.find P xs = (case filter P xs of [] \<Rightarrow> None | x # _ \<Rightarrow> Some x)"
  by (induction xs) auto

lemma find_SomeD: "List.find P xs = Some x \<Longrightarrow> x \<in> set xs \<and> P x"
  by (induction xs) (auto split: if_splits)

lemma find_None_iff_all: "List.find P xs = None \<longleftrightarrow> (\<forall>x \<in> set xs. \<not> P x)"
  by (auto simp: find_None_iff)

section \<open>Strings\<close>

abbreviation truthy_str :: "string option \<Rightarrow> bool" where
  "truthy_str s \<equiv> (case s of None \<Rightarrow> False | Some t \<Rightarrow> t \<noteq> [])"

fun str_includes :: "string \<Rightarrow> string \<Rightarrow> bool" where
  "str_includes [] t = (t = [])"
| "str_includes (c # s) t = (prefix t (c # s) \<or> str_includes s t)"

lemma str_includes_sublist: "str_includes s t \<longleftrightarrow> sublist t s"
  by (induction s) (auto simp: sublist_Cons_right)

abbreviation str_starts_with :: "string \<Rightarrow> string \<Rightarrow> bool" where
  "str_starts_with s t \<equiv> prefix t s"

abbreviation str_ends_with :: "string \<Rightarrow> string \<Rightarrow> bool" where
  "str_ends_with s t \<equiv> suffix t s"

fun str_split :: "char \<Rightarrow> string \<Rightarrow> string list" where
  \<comment> \<open>\<open>s.split(c)\<close> for a one-character separator: never empty\<close>
  "str_split c [] = [[]]"
| "str_split c (x # s) =
     (if x = c then [] # str_split c s
      else case str_split c s of [] \<Rightarrow> [[x]] | w # ws \<Rightarrow> (x # w) # ws)"

fun str_join :: "string \<Rightarrow> string list \<Rightarrow> string" where
  "str_join sep [] = []"
| "str_join sep [w] = w"
| "str_join sep (w # v # ws) = w @ sep @ str_join sep (v # ws)"

lemma str_split_nonempty [simp]: "str_split c s \<noteq> []"
  by (induction s) (auto split: list.split)

lemma str_split_no_sep: "c \<notin> set s \<Longrightarrow> str_split c s = [s]"
  by (induction s) auto

lemma str_split_append: "c \<notin> set w \<Longrightarrow> str_split c (w @ c # s) = w # str_split c s"
  by (induction w) auto

lemma append_sep_inj:
  "c \<notin> set u \<Longrightarrow> c \<notin> set v \<Longrightarrow> u @ c # x = v @ c # y \<longleftrightarrow> u = v \<and> x = y"
  by (induction u arbitrary: v) (case_tac v, auto)+

lemma str_join_split: "str_join [c] (str_split c s) = s"
proof (induction s)
  case Nil
  then show ?case by simp
next
  case (Cons x s)
  obtain w ws where ws: "str_split c s = w # ws"
    by (cases "str_split c s") auto
  with Cons.IH show ?case
    by (cases ws) (auto simp: ws)
qed

definition em_dash :: string where
  \<comment> \<open>U+2014 in UTF-8\<close>
  "em_dash = [CHR 0xE2, CHR 0x80, CHR 0x94]"

definition ascii_lower :: "char \<Rightarrow> char" where
  "ascii_lower c = (let n = (of_char c :: nat) in if 65 \<le> n \<and> n \<le> 90 then char_of (n + 32) else c)"

definition ascii_upper :: "char \<Rightarrow> char" where
  "ascii_upper c = (let n = (of_char c :: nat) in if 97 \<le> n \<and> n \<le> 122 then char_of (n - 32) else c)"

section \<open>Decimal numbers\<close>

definition digit_char :: "nat \<Rightarrow> char" where
  "digit_char d = char_of (48 + d)"

fun show_nat :: "nat \<Rightarrow> string" where
  "show_nat n = (if n < 10 then [digit_char n] else show_nat (n div 10) @ [digit_char (n mod 10)])"

declare show_nat.simps [simp del]

definition show_int :: "int \<Rightarrow> string" where
  "show_int i = (if i < 0 then CHR ''-'' # show_nat (nat (- i)) else show_nat (nat i))"

definition digit_val :: "char \<Rightarrow> nat" where
  "digit_val c = of_char c - 48"

definition is_digit :: "char \<Rightarrow> bool" where
  "is_digit c \<longleftrightarrow> 48 \<le> (of_char c :: nat) \<and> (of_char c :: nat) \<le> 57"

definition read_nat :: "string \<Rightarrow> nat" where
  "read_nat s = foldl (\<lambda>n c. 10 * n + digit_val c) 0 s"

lemma digit_val_char [simp]: "d < 10 \<Longrightarrow> digit_val (digit_char d) = d"
  by (simp add: digit_val_def digit_char_def of_char_of)

lemma is_digit_char [simp]: "d < 10 \<Longrightarrow> is_digit (digit_char d)"
  by (simp add: is_digit_def digit_char_def of_char_of)

lemma read_show_nat: "read_nat (show_nat n) = n"
proof (induction n rule: show_nat.induct)
  case (1 n)
  show ?case
  proof (cases "n < 10")
    case True
    then show ?thesis by (simp add: show_nat.simps [of n] read_nat_def)
  next
    case False
    with 1 have "read_nat (show_nat (n div 10)) = n div 10" by simp
    with False show ?thesis by (simp add: show_nat.simps [of n] read_nat_def)
  qed
qed

lemma show_nat_inj: "show_nat m = show_nat n \<longleftrightarrow> m = n"
  by (metis read_show_nat)

lemma show_nat_digits: "\<forall>c \<in> set (show_nat n). is_digit c"
proof (induction n rule: show_nat.induct)
  case (1 n)
  then show ?case by (cases "n < 10") (auto simp: show_nat.simps [of n])
qed

lemma show_nat_nonempty [simp]: "show_nat n \<noteq> []"
  by (simp add: show_nat.simps [of n])

section \<open>Hexadecimal\<close>

definition hex_digit :: "nat \<Rightarrow> char" where
  "hex_digit d = (if d < 10 then char_of (48 + d) else char_of (87 + d))"

definition hex_val :: "char \<Rightarrow> nat option" where
  "hex_val c = (let n = of_char c :: nat in
     if 48 \<le> n \<and> n \<le> 57 then Some (n - 48)
     else if 97 \<le> n \<and> n \<le> 102 then Some (n - 87)
     else if 65 \<le> n \<and> n \<le> 70 then Some (n - 55)
     else None)"

fun hex_encode :: "string \<Rightarrow> string" where
  \<comment> \<open>\<open>buffer.toString('hex')\<close>\<close>
  "hex_encode [] = []"
| "hex_encode (c # s) =
     (let n = of_char c :: nat in hex_digit (n div 16) # hex_digit (n mod 16) # hex_encode s)"

fun hex_decode :: "string \<Rightarrow> string" where
  \<comment> \<open>\<open>Buffer.from(s, 'hex')\<close>: stops at the first pair that is not hexadecimal\<close>
  "hex_decode (a # b # s) =
     (case (hex_val a, hex_val b) of
        (Some x, Some y) \<Rightarrow> char_of (16 * x + y) # hex_decode s
      | _ \<Rightarrow> [])"
| "hex_decode _ = []"

lemma hex_val_digit: "d < 16 \<Longrightarrow> hex_val (hex_digit d) = Some d"
  by (auto simp: hex_val_def hex_digit_def of_char_of Let_def)

lemma hex_digit_not_colon: "d < 16 \<Longrightarrow> hex_digit d \<noteq> CHR '':''"
proof
  assume d: "d < 16" and eq: "hex_digit d = CHR '':''"
  have "hex_val (CHR '':'') = None" by code_simp
  with eq d hex_val_digit [of d] show False by simp
qed

lemma char_code_bound: "(of_char c :: nat) < 256"
  by (rule nat_of_char_less_256)

lemma hex_round_trip: "hex_decode (hex_encode s) = s"
proof (induction s)
  case Nil
  then show ?case by simp
next
  case (Cons c s)
  have "(of_char c :: nat) div 16 < 16" using char_code_bound [of c] by (simp add: less_mult_imp_div_less)
  then show ?case using Cons by (simp add: Let_def hex_val_digit)
qed

lemma hex_no_colon: "CHR '':'' \<notin> set (hex_encode s)"
proof (induction s)
  case Nil
  then show ?case by simp
next
  case (Cons c s)
  have "(of_char c :: nat) div 16 < 16" using char_code_bound [of c] by (simp add: less_mult_imp_div_less)
  then show ?case
    using Cons hex_digit_not_colon [of "of_char c div 16"] hex_digit_not_colon [of "of_char c mod 16"]
    by (auto simp: Let_def)
qed

section \<open>Stateful services as machines\<close>

locale machine =
  fixes step :: "'op \<Rightarrow> 's \<Rightarrow> 's"
    and inv :: "'s \<Rightarrow> bool"
  assumes inv_step: "inv s \<Longrightarrow> inv (step op s)"
begin

lemma inv_run: "inv s \<Longrightarrow> inv (fold step ops s)"
  by (induction ops arbitrary: s) (auto intro: inv_step)

end

locale audited_machine =
  fixes step :: "'op \<Rightarrow> 's \<Rightarrow> 's"
    and log :: "'s \<Rightarrow> 'e list"
  assumes log_step: "prefix (log s) (log (step op s))"
begin

lemma log_run: "prefix (log s) (log (fold step ops s))"
proof (induction ops arbitrary: s)
  case Nil
  then show ?case by simp
next
  case (Cons op ops)
  show ?case using prefix_order.trans [OF log_step Cons.IH] by simp
qed

end

end
