(* ===== verification/DsTypes.thy ===== *)
theory DsTypes
  imports Prelude
begin

text \<open>
  Types and error model of the flexible datastore (services/flexible-datastore/src/types and
  src/errors). Enumerations are datatypes, each with the string the code writes for it; a
  timestamp, whether the code keeps it as a \<open>Date\<close> or as an ISO string it made itself, is
  the instant in milliseconds. A method that throws returns \<open>Inl\<close> of the exception:
  \<open>PlainError\<close> for \<open>new Error(message)\<close>, \<open>DsError\<close> for the \<open>DatastoreError\<close>
  hierarchy, \<open>RuntimeError\<close> for what the language runtime itself throws.
\<close>

type_synonym instant = int

text \<open>
  \<open>Record<string, unknown>\<close> values are stored and returned but never inspected by the
  service: structural data.
\<close>

datatype jsdata =
  DUndefined
  | DStr string
  | DNum int
  | DBool bool
  | DArr "jsdata list"
  | DObj "(string \<times> jsdata) list"

type_synonym details = "(string \<times> jsdata) list"

abbreviation d_strings :: "string list \<Rightarrow> jsdata" where
  "d_strings ss \<equiv> DArr (map DStr ss)"

section \<open>Enumerations\<close>

datatype provider = MongoDB | DynamoDB | Firestore | CosmosDB

fun provider_str :: "provider \<Rightarrow> string" where
  "provider_str MongoDB = ''mongodb''"
| "provider_str DynamoDB = ''dynamodb''"
| "provider_str Firestore = ''firestore''"
| "provider_str CosmosDB = ''cosmosdb''"

definition ALL_PROVIDERS :: "provider list" where
  "ALL_PROVIDERS = [MongoDB, DynamoDB, Firestore, CosmosDB]"

datatype entity_domain =
  Users | Conversations | Messages | Settings | Audit | Sessions | Presence

fun domain_str :: "entity_domain \<Rightarrow> string" where
  "domain_str Users = ''users''"
| "domain_str Conversations = ''conversations''"
| "domain_str Messages = ''messages''"
| "domain_str Settings = ''settings''"
| "domain_str Audit = ''audit''"
| "domain_str Sessions = ''sessions''"
| "domain_str Presence = ''presence''"

datatype consistency_mode = Strong | Eventual | Cached

datatype health_status = Healthy | Degraded | Unhealthy | UnknownHealth

record health_report =
  hr_provider :: provider
  hr_status :: health_status
  hr_latencyMs :: int
  hr_checkedAt :: instant
  hr_details :: "details option"

lemma provider_str_inj [simp]: "provider_str p = provider_str q \<longleftrightarrow> p = q"
  by (cases p; cases q) simp_all

lemma domain_str_inj [simp]: "domain_str p = domain_str q \<longleftrightarrow> p = q"
  by (cases p; cases q) simp_all

lemma all_providers [simp]: "p \<in> set ALL_PROVIDERS"
  by (cases p) (simp_all add: ALL_PROVIDERS_def)

lemma provider_str_no_colon: "CHR '':'' \<notin> set (provider_str p)"
  by (cases p) simp_all

section \<open>Profiles\<close>

datatype profile_status = Draft | Validating | Active | Inactive | Failed

datatype auth_mode = ConnectionString | IamRole | ServiceAccount | AccessKey

datatype encryption_mode = ProviderManaged | CustomerManagedKey | PlatformEnvelope

record preflight_result =
  pf_connectivity :: bool
  pf_authentication :: bool
  pf_schemaReady :: bool
  pf_latencyMs :: int
  pf_passed :: bool
  pf_checkedAt :: instant
  pf_errors :: "string list"

record datastore_profile =
  dp_id :: string
  dp_tenantId :: string
  dp_projectId :: "string option"
  dp_provider :: provider
  dp_region :: string
  dp_endpoint :: string
  dp_authMode :: auth_mode
  dp_encryptionMode :: encryption_mode
  dp_allowedDomains :: "entity_domain list"
  dp_status :: profile_status
  dp_preflightResult :: "preflight_result option"
  dp_createdAt :: instant
  dp_updatedAt :: instant
  dp_activatedAt :: "instant option"
  dp_createdBy :: string

record routing_decision =
  rd_targetProvider :: provider
  rd_tenantId :: string
  rd_projectId :: "string option"
  rd_entityDomain :: entity_domain
  rd_consistencyMode :: consistency_mode
  rd_reason :: string
  rd_decidedAt :: instant
  rd_correlationId :: string

record residency_rule =
  rr_tenantId :: string
  rr_allowedRegions :: "string list"
  rr_allowedProviders :: "provider list"
  rr_legalHoldActive :: bool
  rr_retentionDays :: "int option"

record credential_record =
  cr_id :: string
  cr_profileId :: string
  cr_tenantId :: string
  cr_provider :: provider
  cr_authMode :: auth_mode
  cr_encryptedPayload :: string
  cr_expiresAt :: "string option"
  cr_rotatedAt :: "instant option"
  cr_createdAt :: instant
  cr_version :: int

datatype outcome = Success | Failure | Denied

record ds_audit_event =
  ae_id :: string
  ae_timestamp :: instant
  ae_tenantId :: string
  ae_actor :: string
  ae_action :: string
  ae_resource :: string
  ae_details :: details
  ae_correlationId :: string
  ae_outcome :: outcome

section \<open>The error model\<close>

datatype error_code =
  PROVIDER_UNAVAILABLE | CONNECTION_FAILED | AUTH_FAILED | TIMEOUT | THROTTLED
  | VALIDATION_ERROR | NOT_FOUND | CONFLICT | CAPACITY_EXCEEDED | UNSUPPORTED_OPERATION
  | CIRCUIT_OPEN | RESIDENCY_VIOLATION | LEGAL_HOLD_BLOCK | CREDENTIAL_EXPIRED
  | PREFLIGHT_FAILED | MIGRATION_ERROR | INTERNAL_ERROR

datatype error_details = DErrors "string list" | DRetryAfterMs int

record datastore_error =
  de_message :: string
  de_code :: error_code
  de_provider :: "string option"
  de_retryable :: bool
  de_statusCode :: int
  de_details :: "error_details option"

record error_opts =
  eo_provider :: "string option"
  eo_retryable :: "bool option"
  eo_statusCode :: "int option"
  eo_details :: "error_details option"

definition DatastoreError :: "string \<Rightarrow> error_code \<Rightarrow> error_opts \<Rightarrow> datastore_error" where
  "DatastoreError message code opts =
     \<lparr>de_message = message, de_code = code, de_provider = eo_provider opts,
      de_retryable = (case eo_retryable opts of None \<Rightarrow> False | Some b \<Rightarrow> b),
      de_statusCode = (case eo_statusCode opts of None \<Rightarrow> 500 | Some c \<Rightarrow> c),
      de_details = eo_details opts\<rparr>"

definition ProviderUnavailableError :: "string \<Rightarrow> string option \<Rightarrow> datastore_error" where
  "ProviderUnavailableError provider message =
     DatastoreError
       (case message of None \<Rightarrow> ''Provider '' @ provider @ '' is unavailable'' | Some m \<Rightarrow> m)
       PROVIDER_UNAVAILABLE
       \<lparr>eo_provider = Some provider, eo_retryable = Some True, eo_statusCode = Some 503,
        eo_details = None\<rparr>"

definition ConnectionFailedError :: "string \<Rightarrow> string option \<Rightarrow> datastore_error" where
  "ConnectionFailedError provider message =
     DatastoreError
       (case message of None \<Rightarrow> ''Connection to '' @ provider @ '' failed'' | Some m \<Rightarrow> m)
       CONNECTION_FAILED
       \<lparr>eo_provider = Some provider, eo_retryable = Some True, eo_statusCode = Some 503,
        eo_details = None\<rparr>"

definition UnsupportedOperationError :: "string \<Rightarrow> string \<Rightarrow> datastore_error" where
  "UnsupportedOperationError provider operation =
     DatastoreError
       (''Operation \"'' @ operation @ ''\" is not supported by provider '' @ provider)
       UNSUPPORTED_OPERATION
       \<lparr>eo_provider = Some provider, eo_retryable = Some False, eo_statusCode = Some 400,
        eo_details = None\<rparr>"

definition CircuitOpenError :: "string \<Rightarrow> datastore_error" where
  "CircuitOpenError provider =
     DatastoreError (''Circuit breaker open for provider '' @ provider) CIRCUIT_OPEN
       \<lparr>eo_provider = Some provider, eo_retryable = Some False, eo_statusCode = Some 503,
        eo_details = None\<rparr>"

definition ResidencyViolationError :: "string \<Rightarrow> string \<Rightarrow> datastore_error" where
  "ResidencyViolationError tenantId region =
     DatastoreError
       (''Residency policy violation for tenant '' @ tenantId @ '': region '' @ region
        @ '' not allowed'')
       RESIDENCY_VIOLATION
       \<lparr>eo_provider = None, eo_retryable = Some False, eo_statusCode = Some 403,
        eo_details = None\<rparr>"

definition LegalHoldBlockError :: "string \<Rightarrow> datastore_error" where
  "LegalHoldBlockError tenantId =
     DatastoreError
       (''Legal hold active for tenant '' @ tenantId @ '': destructive operation blocked'')
       LEGAL_HOLD_BLOCK
       \<lparr>eo_provider = None, eo_retryable = Some False, eo_statusCode = Some 403,
        eo_details = None\<rparr>"

definition PreflightFailedError :: "string \<Rightarrow> string list \<Rightarrow> datastore_error" where
  "PreflightFailedError profileId errors =
     DatastoreError
       (''Preflight validation failed for profile '' @ profileId @ '': '' @ str_join ''; '' errors)
       PREFLIGHT_FAILED
       \<lparr>eo_provider = None, eo_retryable = Some False, eo_statusCode = Some 422,
        eo_details = Some (DErrors errors)\<rparr>"

definition CredentialExpiredError :: "string \<Rightarrow> datastore_error" where
  "CredentialExpiredError provider =
     DatastoreError (''Credentials expired for provider '' @ provider) CREDENTIAL_EXPIRED
       \<lparr>eo_provider = Some provider, eo_retryable = Some False, eo_statusCode = Some 401,
        eo_details = None\<rparr>"

record throttled_error = datastore_error +
  te_retryAfterMs :: "int option"

definition ThrottledError :: "string \<Rightarrow> int option \<Rightarrow> throttled_error" where
  "ThrottledError provider retryAfterMs =
     datastore_error.extend
     (DatastoreError (''Request throttled by provider '' @ provider) THROTTLED
       \<lparr>eo_provider = Some provider, eo_retryable = Some True, eo_statusCode = Some 429,
        eo_details = (case retryAfterMs of None \<Rightarrow> None
          | Some ms \<Rightarrow> if ms \<noteq> 0 then Some (DRetryAfterMs ms) else None)\<rparr>)
     \<lparr>te_retryAfterMs = retryAfterMs\<rparr>"

datatype ds_exn = PlainError string | DsError datastore_error | RuntimeError

lemmas datastore_errors =
  DatastoreError_def ProviderUnavailableError_def ConnectionFailedError_def
  UnsupportedOperationError_def CircuitOpenError_def ResidencyViolationError_def
  LegalHoldBlockError_def PreflightFailedError_def CredentialExpiredError_def ThrottledError_def
  datastore_error.extend_def

end
