(* ===== verification/CircuitBreakers.thy ===== *)
theory CircuitBreakers
  imports DsTypes
begin

text \<open>
  The three circuit breakers of the repository: the provider breaker of the flexible datastore
  (fallback-controller.ts), the breaker around MongoDB connections (mongodb-service,
  connections/circuit-breaker.ts) and the breaker of the gateway (utils/circuit-breaker.ts).
  \<open>now\<close> is the reading of \<open>Date.now()\<close> an operation makes.

  The locale \<open>breaker\<close> is the contract their callers rely on: a breaker is blocked or
  not at an instant; a blocked breaker refuses; it stays blocked until its deadline; a failure
  while blocked cannot unblock it; a trial failure after the deadline blocks it again.
\<close>

section \<open>The contract of a breaker\<close>

locale breaker =
  fixes allow :: "int \<Rightarrow> 's \<Rightarrow> bool \<times> 's"
    and failure :: "int \<Rightarrow> 's \<Rightarrow> 's"
    and success :: "int \<Rightarrow> 's \<Rightarrow> 's"
    and opened :: "'s \<Rightarrow> bool"
    and trial :: "'s \<Rightarrow> bool"
    and deadline :: "'s \<Rightarrow> int"
    and cooldown :: "'s \<Rightarrow> int"
    and ok :: "'s \<Rightarrow> bool"
  assumes refuse: "ok s \<Longrightarrow> opened s \<Longrightarrow> now < deadline s \<Longrightarrow> allow now s = (False, s)"
    and admit: "ok s \<Longrightarrow> \<not> opened s \<or> deadline s \<le> now \<Longrightarrow> fst (allow now s)"
    and probe: "ok s \<Longrightarrow> opened s \<Longrightarrow> deadline s \<le> now \<Longrightarrow> trial (snd (allow now s))"
    and trip: "ok s \<Longrightarrow> trial s \<Longrightarrow> 0 < now \<Longrightarrow>
      opened (failure now s) \<and> deadline (failure now s) = now + cooldown s"
    and ok_allow: "ok s \<Longrightarrow> ok (snd (allow now s))"
    and ok_failure: "ok s \<Longrightarrow> 0 < now \<Longrightarrow> ok (failure now s)"
    and ok_success: "ok s \<Longrightarrow> ok (success now s)"
    and cooldown_allow: "cooldown (snd (allow now s)) = cooldown s"
begin

fun asks :: "int list \<Rightarrow> 's \<Rightarrow> bool list" where
  "asks [] s = []"
| "asks (t # ts) s = fst (allow t s) # asks ts (snd (allow t s))"

text \<open>However often an open breaker is asked before its deadline, it refuses every time.\<close>

lemma asks_refused:
  "ok s \<Longrightarrow> opened s \<Longrightarrow> \<forall>t \<in> set ts. t < deadline s \<Longrightarrow> asks ts s = replicate (length ts) False"
  by (induction ts) (auto simp: refuse)

text \<open>A probe that fails re-opens the breaker for a full cooldown.\<close>

lemma failed_probe_reopens:
  assumes "ok s" "opened s" "deadline s \<le> t" "t \<le> t'" "0 < t'" "now < t' + cooldown s"
  shows "fst (allow now (failure t' (snd (allow t s)))) = False"
proof -
  let ?p = "snd (allow t s)"
  have "trial ?p" "ok ?p" using assms by (auto intro: probe ok_allow)
  then have "opened (failure t' ?p)" "deadline (failure t' ?p) = t' + cooldown s" "ok (failure t' ?p)"
    using trip [of ?p t'] assms(5) by (auto simp: cooldown_allow intro: ok_failure)
  then show ?thesis using assms(6) by (simp add: refuse)
qed

end

section \<open>Flexible datastore: ProviderCircuitBreaker\<close>

record cb_config =
  cfg_failureThreshold :: int
  cfg_resetTimeoutMs :: int
  cfg_halfOpenMaxAttempts :: int

definition DEFAULT_CB_CONFIG :: cb_config where
  "DEFAULT_CB_CONFIG =
     \<lparr>cfg_failureThreshold = 5, cfg_resetTimeoutMs = 30000, cfg_halfOpenMaxAttempts = 2\<rparr>"

record cb_config_patch =
  cfp_failureThreshold :: "int option"
  cfp_resetTimeoutMs :: "int option"
  cfp_halfOpenMaxAttempts :: "int option"

definition merge_cb_config :: "cb_config \<Rightarrow> cb_config_patch option \<Rightarrow> cb_config" where
  \<comment> \<open>the spread \<open>{...DEFAULT_CB_CONFIG, ...config}\<close>\<close>
  "merge_cb_config d config = (case config of None \<Rightarrow> d | Some p \<Rightarrow>
     \<lparr>cfg_failureThreshold = (case cfp_failureThreshold p of None \<Rightarrow> cfg_failureThreshold d | Some x \<Rightarrow> x),
      cfg_resetTimeoutMs = (case cfp_resetTimeoutMs p of None \<Rightarrow> cfg_resetTimeoutMs d | Some x \<Rightarrow> x),
      cfg_halfOpenMaxAttempts = (case cfp_halfOpenMaxAttempts p of None \<Rightarrow> cfg_halfOpenMaxAttempts d | Some x \<Rightarrow> x)\<rparr>)"

datatype circuit_state = Closed | Open | HalfOpen

record provider_breaker =
  pb_state :: circuit_state
  pb_failures :: int
  pb_successes :: int
  pb_lastFailureTime :: int
  pb_config :: cb_config
  pb_provider :: provider

definition new_ProviderCircuitBreaker :: "provider \<Rightarrow> cb_config_patch option \<Rightarrow> provider_breaker" where
  "new_ProviderCircuitBreaker provider config =
     \<lparr>pb_state = Closed, pb_failures = 0, pb_successes = 0, pb_lastFailureTime = 0,
      pb_config = merge_cb_config DEFAULT_CB_CONFIG config, pb_provider = provider\<rparr>"

definition pb_getState :: "int \<Rightarrow> provider_breaker \<Rightarrow> circuit_state \<times> provider_breaker" where
  "pb_getState now cb =
     (let cb' =
        (if pb_state cb = Open then
           if cfg_resetTimeoutMs (pb_config cb) \<le> now - pb_lastFailureTime cb
           then cb\<lparr>pb_state := HalfOpen, pb_successes := 0\<rparr> else cb
         else cb)
      in (pb_state cb', cb'))"

definition pb_allowRequest :: "int \<Rightarrow> provider_breaker \<Rightarrow> bool \<times> provider_breaker" where
  "pb_allowRequest now cb =
     (case pb_getState now cb of (s, cb') \<Rightarrow> (s = Closed \<or> s = HalfOpen, cb'))"

definition pb_recordSuccess :: "provider_breaker \<Rightarrow> provider_breaker" where
  "pb_recordSuccess cb =
     (if pb_state cb = HalfOpen then
        let cb' = cb\<lparr>pb_successes := pb_successes cb + 1\<rparr>
        in if cfg_halfOpenMaxAttempts (pb_config cb) \<le> pb_successes cb'
           then cb'\<lparr>pb_state := Closed, pb_failures := 0, pb_successes := 0\<rparr> else cb'
      else if pb_state cb = Closed then cb\<lparr>pb_failures := 0\<rparr>
      else cb)"

definition pb_recordFailure :: "int \<Rightarrow> provider_breaker \<Rightarrow> provider_breaker" where
  "pb_recordFailure now cb =
     (let cb' = cb\<lparr>pb_failures := pb_failures cb + 1, pb_lastFailureTime := now\<rparr>
      in if pb_state cb' = HalfOpen then cb'\<lparr>pb_state := Open\<rparr>
         else if cfg_failureThreshold (pb_config cb') \<le> pb_failures cb' then cb'\<lparr>pb_state := Open\<rparr>
         else cb')"

definition pb_reset :: "provider_breaker \<Rightarrow> provider_breaker" where
  "pb_reset cb = cb\<lparr>pb_state := Closed, pb_failures := 0, pb_successes := 0\<rparr>"

lemmas provider_breaker_defs =
  pb_getState_def pb_allowRequest_def pb_recordSuccess_def pb_recordFailure_def pb_reset_def

interpretation provider_cb: breaker
  pb_allowRequest pb_recordFailure "\<lambda>_. pb_recordSuccess"
  "\<lambda>cb. pb_state cb = Open" "\<lambda>cb. pb_state cb = HalfOpen"
  "\<lambda>cb. pb_lastFailureTime cb + cfg_resetTimeoutMs (pb_config cb)"
  "\<lambda>cb. cfg_resetTimeoutMs (pb_config cb)" "\<lambda>_. True"
proof (unfold_locales, goal_cases)
  case (2 s now) then show ?case
    by (cases "pb_state s") (auto simp: provider_breaker_defs Let_def)
qed (auto simp: provider_breaker_defs Let_def split: if_splits)

text \<open>
  The closed breaker counts consecutive failures: after \<open>n\<close> of them without a success it is
  open exactly when \<open>n\<close> has reached the threshold.
\<close>

fun pb_failures_at :: "int list \<Rightarrow> provider_breaker \<Rightarrow> provider_breaker" where
  "pb_failures_at [] cb = cb"
| "pb_failures_at (t # ts) cb = pb_failures_at ts (pb_recordFailure t cb)"

lemma pb_failures_at_config: "pb_config (pb_failures_at ts cb) = pb_config cb"
  by (induction ts arbitrary: cb) (auto simp: pb_recordFailure_def Let_def)

lemma pb_failures_at_open: "pb_state cb = Open \<Longrightarrow> pb_state (pb_failures_at ts cb) = Open"
  by (induction ts arbitrary: cb) (auto simp: pb_recordFailure_def Let_def)

lemma pb_failures_at_closed:
  "pb_state cb = Closed \<Longrightarrow> pb_failures cb < cfg_failureThreshold (pb_config cb) \<Longrightarrow>
   pb_state (pb_failures_at ts cb) =
     (if cfg_failureThreshold (pb_config cb) \<le> pb_failures cb + int (length ts) then Open else Closed)"
proof (induction ts arbitrary: cb)
  case Nil
  then show ?case by simp
next
  case (Cons t ts)
  let ?cb = "pb_recordFailure t cb"
  show ?case
  proof (cases "cfg_failureThreshold (pb_config cb) \<le> pb_failures cb + 1")
    case True
    then have "pb_state ?cb = Open"
      using Cons.prems by (simp add: pb_recordFailure_def Let_def)
    then show ?thesis using True by (simp add: pb_failures_at_open)
  next
    case False
    then have "pb_state ?cb = Closed" "pb_failures ?cb = pb_failures cb + 1" "pb_config ?cb = pb_config cb"
      using Cons.prems by (auto simp: pb_recordFailure_def Let_def)
    then show ?thesis using Cons.IH [of ?cb] False by simp
  qed
qed

section \<open>MongoDB connections: CircuitBreaker\<close>

record cb_options =
  cbo_failureThreshold :: "int option"
  cbo_successThreshold :: "int option"
  cbo_timeout :: "int option"

record mongo_breaker =
  mb_state :: circuit_state
  mb_failureCount :: int
  mb_successCount :: int
  mb_lastFailureTime :: "int option"
  mb_failureThreshold :: int
  mb_successThreshold :: int
  mb_timeout :: int

definition or_default :: "int option \<Rightarrow> int \<Rightarrow> int" where
  \<comment> \<open>\<open>x || d\<close>: an absent or zero option is replaced\<close>
  "or_default x d = (case x of None \<Rightarrow> d | Some n \<Rightarrow> if n = 0 then d else n)"

definition new_CircuitBreaker :: "cb_options \<Rightarrow> mongo_breaker" where
  "new_CircuitBreaker options =
     \<lparr>mb_state = Closed, mb_failureCount = 0, mb_successCount = 0, mb_lastFailureTime = None,
      mb_failureThreshold = or_default (cbo_failureThreshold options) 5,
      mb_successThreshold = or_default (cbo_successThreshold options) 2,
      mb_timeout = or_default (cbo_timeout options) 60000\<rparr>"

definition mb_open :: "mongo_breaker \<Rightarrow> mongo_breaker" where
  "mb_open cb = cb\<lparr>mb_state := Open, mb_successCount := 0\<rparr>"

definition mb_close :: "mongo_breaker \<Rightarrow> mongo_breaker" where
  "mb_close cb = cb\<lparr>mb_state := Closed, mb_failureCount := 0, mb_successCount := 0\<rparr>"

definition mb_halfOpen :: "mongo_breaker \<Rightarrow> mongo_breaker" where
  "mb_halfOpen cb = cb\<lparr>mb_state := HalfOpen, mb_successCount := 0\<rparr>"

definition mb_recordSuccess :: "mongo_breaker \<Rightarrow> mongo_breaker" where
  "mb_recordSuccess cb =
     (if mb_state cb = HalfOpen then
        let cb' = cb\<lparr>mb_successCount := mb_successCount cb + 1\<rparr>
        in if mb_successThreshold cb' \<le> mb_successCount cb' then mb_close cb' else cb'
      else if mb_state cb = Closed then cb\<lparr>mb_failureCount := 0\<rparr>
      else cb)"

definition mb_recordFailure :: "int \<Rightarrow> mongo_breaker \<Rightarrow> mongo_breaker" where
  "mb_recordFailure now cb =
     (let cb' = cb\<lparr>mb_failureCount := mb_failureCount cb + 1, mb_lastFailureTime := Some now\<rparr>
      in if mb_state cb' = HalfOpen then mb_open cb'
         else if mb_state cb' = Closed then
           (if mb_failureThreshold cb' \<le> mb_failureCount cb' then mb_open cb' else cb')
         else cb')"

definition mb_isOpen :: "int \<Rightarrow> mongo_breaker \<Rightarrow> bool \<times> mongo_breaker" where
  "mb_isOpen now cb =
     (if mb_state cb = Open then
        (case mb_lastFailureTime cb of
           None \<Rightarrow> (True, cb)
         | Some t \<Rightarrow> if t \<noteq> 0 \<and> mb_timeout cb \<le> now - t then (False, mb_halfOpen cb) else (True, cb))
      else (False, cb))"

definition mb_reset :: "mongo_breaker \<Rightarrow> mongo_breaker" where
  "mb_reset cb = mb_close cb"

definition mb_allow :: "int \<Rightarrow> mongo_breaker \<Rightarrow> bool \<times> mongo_breaker" where
  "mb_allow now cb = (case mb_isOpen now cb of (b, cb') \<Rightarrow> (\<not> b, cb'))"

lemmas mongo_breaker_defs =
  mb_open_def mb_close_def mb_halfOpen_def mb_recordSuccess_def mb_recordFailure_def
  mb_isOpen_def mb_reset_def mb_allow_def

definition mb_ok :: "mongo_breaker \<Rightarrow> bool" where
  \<comment> \<open>an open breaker remembers when it last failed\<close>
  "mb_ok cb \<longleftrightarrow> (mb_state cb = Open \<longrightarrow> (\<exists>t. mb_lastFailureTime cb = Some t \<and> t \<noteq> 0))"

lemma mb_ok_new: "mb_ok (new_CircuitBreaker options)"
  by (simp add: mb_ok_def new_CircuitBreaker_def)

interpretation mongo_cb: breaker
  mb_allow mb_recordFailure "\<lambda>_. mb_recordSuccess"
  "\<lambda>cb. mb_state cb = Open" "\<lambda>cb. mb_state cb = HalfOpen"
  "\<lambda>cb. the (mb_lastFailureTime cb) + mb_timeout cb" mb_timeout mb_ok
proof (unfold_locales, goal_cases)
  case (5 s now) then show ?case
    by (auto simp: mongo_breaker_defs mb_ok_def split: option.splits if_splits)
qed (auto simp: mongo_breaker_defs mb_ok_def Let_def split: if_splits option.splits)

section \<open>Gateway: CircuitBreaker\<close>

record gateway_breaker =
  gb_state :: circuit_state
  gb_failureCount :: int
  gb_successCount :: int
  gb_lastFailureTime :: int
  gb_nextAttemptTime :: int
  gb_failureThreshold :: int
  gb_resetTimeout :: int
  gb_monitoringPeriod :: int

definition new_gateway_breaker :: "int \<Rightarrow> int \<Rightarrow> int \<Rightarrow> gateway_breaker" where
  "new_gateway_breaker failureThreshold resetTimeout monitoringPeriod =
     \<lparr>gb_state = Closed, gb_failureCount = 0, gb_successCount = 0, gb_lastFailureTime = 0,
      gb_nextAttemptTime = 0, gb_failureThreshold = failureThreshold,
      gb_resetTimeout = resetTimeout, gb_monitoringPeriod = monitoringPeriod\<rparr>"

definition gb_enter :: "int \<Rightarrow> gateway_breaker \<Rightarrow> bool \<times> gateway_breaker" where
  \<comment> \<open>the head of \<open>execute\<close>: whether \<open>fn\<close> is called\<close>
  "gb_enter now cb =
     (if gb_state cb = Open then
        if now < gb_nextAttemptTime cb then (False, cb)
        else (True, cb\<lparr>gb_state := HalfOpen, gb_successCount := 0, gb_failureCount := 0\<rparr>)
      else (True, cb))"

definition gb_onSuccess :: "gateway_breaker \<Rightarrow> gateway_breaker" where
  "gb_onSuccess cb =
     (let cb1 = cb\<lparr>gb_failureCount := 0\<rparr>
      in if gb_state cb1 = HalfOpen then
           let cb2 = cb1\<lparr>gb_successCount := gb_successCount cb1 + 1\<rparr>
           in if 2 \<le> gb_successCount cb2 then cb2\<lparr>gb_state := Closed, gb_successCount := 0\<rparr> else cb2
         else cb1)"

definition gb_getRecentFailureCount :: "int \<Rightarrow> gateway_breaker \<Rightarrow> int \<times> gateway_breaker" where
  "gb_getRecentFailureCount now cb =
     (if gb_monitoringPeriod cb < now - gb_lastFailureTime cb then (1, cb\<lparr>gb_failureCount := 1\<rparr>)
      else (gb_failureCount cb, cb))"

definition gb_onFailure :: "int \<Rightarrow> int \<Rightarrow> int \<Rightarrow> gateway_breaker \<Rightarrow> gateway_breaker" where
  \<comment> \<open>\<open>t\<close>, \<open>t'\<close>, \<open>t''\<close>: the successive readings of the clock\<close>
  "gb_onFailure t t' t'' cb =
     (let cb1 = cb\<lparr>gb_failureCount := gb_failureCount cb + 1, gb_lastFailureTime := t\<rparr>
      in if gb_state cb1 = HalfOpen then
           cb1\<lparr>gb_state := Open, gb_nextAttemptTime := t' + gb_resetTimeout cb1\<rparr>
         else case gb_getRecentFailureCount t' cb1 of (recentFailures, cb2) \<Rightarrow>
           if gb_failureThreshold cb2 \<le> recentFailures then
             cb2\<lparr>gb_state := Open, gb_nextAttemptTime := t'' + gb_resetTimeout cb2\<rparr>
           else cb2)"

definition gb_reset :: "gateway_breaker \<Rightarrow> gateway_breaker" where
  "gb_reset cb = cb\<lparr>gb_state := Closed, gb_failureCount := 0, gb_successCount := 0,
     gb_lastFailureTime := 0, gb_nextAttemptTime := 0\<rparr>"

datatype 'a exec_result = CircuitOpen | Threw | Returned 'a

definition gb_execute ::
  "int \<Rightarrow> int \<Rightarrow> 'a option \<Rightarrow> gateway_breaker \<Rightarrow> 'a exec_result \<times> gateway_breaker" where
  \<comment> \<open>\<open>execute\<close> entered at \<open>t0\<close>; \<open>fn\<close> settles at \<open>t1\<close>, with a value or (\<open>None\<close>) an error\<close>
  "gb_execute t0 t1 fn cb =
     (case gb_enter t0 cb of (enters, cb1) \<Rightarrow>
        if \<not> enters then (CircuitOpen, cb1)
        else case fn of
          Some r \<Rightarrow> (Returned r, gb_onSuccess cb1)
        | None \<Rightarrow> (Threw, gb_onFailure t1 t1 t1 cb1))"

lemmas gateway_breaker_defs =
  gb_enter_def gb_onSuccess_def gb_getRecentFailureCount_def gb_onFailure_def gb_reset_def

interpretation gateway_cb: breaker
  gb_enter "\<lambda>now. gb_onFailure now now now" "\<lambda>_. gb_onSuccess"
  "\<lambda>cb. gb_state cb = Open" "\<lambda>cb. gb_state cb = HalfOpen"
  gb_nextAttemptTime gb_resetTimeout "\<lambda>_. True"
  by unfold_locales (auto simp: gateway_breaker_defs Let_def split: if_splits prod.splits)

text \<open>
  The monitoring period never takes effect: \<open>onFailure\<close> has just stored the failure time it
  is compared with, so failures any time apart add up until the threshold opens the breaker.
\<close>

fun gb_failures_at :: "int list \<Rightarrow> gateway_breaker \<Rightarrow> gateway_breaker" where
  "gb_failures_at [] cb = cb"
| "gb_failures_at (t # ts) cb = gb_failures_at ts (gb_onFailure t t t cb)"

lemma gb_onFailure_closed:
  assumes "gb_state cb = Closed" "0 \<le> gb_monitoringPeriod cb"
  shows "gb_onFailure t t t cb =
    (let cb1 = cb\<lparr>gb_failureCount := gb_failureCount cb + 1, gb_lastFailureTime := t\<rparr>
     in if gb_failureThreshold cb \<le> gb_failureCount cb + 1
        then cb1\<lparr>gb_state := Open, gb_nextAttemptTime := t + gb_resetTimeout cb\<rparr> else cb1)"
  using assms by (simp add: gb_onFailure_def gb_getRecentFailureCount_def Let_def)

lemma gb_failures_at_open: "gb_state cb = Open \<Longrightarrow> gb_state (gb_failures_at ts cb) = Open"
  by (induction ts arbitrary: cb) (auto simp: gb_onFailure_def gb_getRecentFailureCount_def Let_def)

lemma gb_failures_at_closed:
  "gb_state cb = Closed \<Longrightarrow> 0 \<le> gb_monitoringPeriod cb \<Longrightarrow> gb_failureCount cb < gb_failureThreshold cb \<Longrightarrow>
   gb_state (gb_failures_at ts cb) =
     (if gb_failureThreshold cb \<le> gb_failureCount cb + int (length ts) then Open else Closed)"
proof (induction ts arbitrary: cb)
  case Nil
  then show ?case by simp
next
  case (Cons t ts)
  let ?cb = "gb_onFailure t t t cb"
  show ?case
  proof (cases "gb_failureThreshold cb \<le> gb_failureCount cb + 1")
    case True
    then have "gb_state ?cb = Open"
      using Cons.prems by (simp add: gb_onFailure_closed Let_def)
    then show ?thesis using True by (simp add: gb_failures_at_open)
  next
    case False
    then show ?thesis using Cons.IH [of ?cb] Cons.prems by (simp add: gb_onFailure_closed Let_def)
  qed
qed

section \<open>Properties\<close>

text \<open>
  While a breaker is open and its deadline has not passed it refuses every request, however
  often it is asked; a probe admitted after the deadline that fails closes the door again for a
  full cooldown. All three breakers of the repository keep this contract.
\<close>

lemma open_breakers_refuse:
  "(pb_state p = Open \<and> (\<forall>t \<in> set ts. t < pb_lastFailureTime p + cfg_resetTimeoutMs (pb_config p))
      \<longrightarrow> breaker.asks pb_allowRequest ts p = replicate (length ts) False)
   \<and> (mb_ok m \<and> mb_state m = Open \<and> (\<forall>t \<in> set ts. t < the (mb_lastFailureTime m) + mb_timeout m)
      \<longrightarrow> breaker.asks mb_allow ts m = replicate (length ts) False)
   \<and> (gb_state g = Open \<and> (\<forall>t \<in> set ts. t < gb_nextAttemptTime g)
      \<longrightarrow> breaker.asks gb_enter ts g = replicate (length ts) False)
   \<and> (pb_state p = Open \<and> pb_lastFailureTime p + cfg_resetTimeoutMs (pb_config p) \<le> t \<and> t \<le> t' \<and> 0 < t'
        \<and> now < t' + cfg_resetTimeoutMs (pb_config p)
      \<longrightarrow> \<not> fst (pb_allowRequest now (pb_recordFailure t' (snd (pb_allowRequest t p)))))"
  using provider_cb.asks_refused [of p ts] mongo_cb.asks_refused [of m ts] gateway_cb.asks_refused [of g ts]
    provider_cb.failed_probe_reopens [of p t t' now]
  by simp

lemma open_breakers_refuse_example:
  "breaker.asks pb_allowRequest [1100, 2000]
     (pb_failures_at [1000] (new_ProviderCircuitBreaker MongoDB
        (Some \<lparr>cfp_failureThreshold = Some 1, cfp_resetTimeoutMs = None, cfp_halfOpenMaxAttempts = None\<rparr>)))
   = [False, False]"
proof -
  let ?p = "pb_failures_at [1000] (new_ProviderCircuitBreaker MongoDB
        (Some \<lparr>cfp_failureThreshold = Some 1, cfp_resetTimeoutMs = None, cfp_halfOpenMaxAttempts = None\<rparr>))"
  have "pb_state ?p = Open \<and> pb_lastFailureTime ?p + cfg_resetTimeoutMs (pb_config ?p) = 31000" by code_simp
  then show ?thesis using open_breakers_refuse [of ?p "[1100, 2000]"] by simp
qed

text \<open>
  A fresh provider breaker is open after a row of failures exactly if there were at least
  as many as its threshold.
\<close>

lemma provider_breaker_threshold:
  assumes "0 < cfg_failureThreshold (merge_cb_config DEFAULT_CB_CONFIG config)"
  shows "pb_state (pb_failures_at ts (new_ProviderCircuitBreaker prov config)) = Open \<longleftrightarrow>
    cfg_failureThreshold (merge_cb_config DEFAULT_CB_CONFIG config) \<le> int (length ts)"
  using assms pb_failures_at_closed [of "new_ProviderCircuitBreaker prov config" ts]
  by (simp add: new_ProviderCircuitBreaker_def)

lemma provider_breaker_threshold_example:
  "pb_state (pb_failures_at [1, 2, 3, 4] (new_ProviderCircuitBreaker MongoDB None)) \<noteq> Open"
  using provider_breaker_threshold [of None "[1, 2, 3, 4]" MongoDB]
  by (simp add: merge_cb_config_def DEFAULT_CB_CONFIG_def)

text \<open>
  The gateway breaker never forgets a failure: its monitoring period is compared with the
  failure it has just recorded, so failures at any distance in time add up until the threshold
  opens it.
\<close>

lemma gateway_failures_never_expire:
  assumes "0 < threshold" and "0 \<le> period"
  shows "gb_state (gb_failures_at ts (new_gateway_breaker threshold reset period)) = Open \<longleftrightarrow>
    threshold \<le> int (length ts)"
  using assms gb_failures_at_closed [of "new_gateway_breaker threshold reset period" ts]
  by (simp add: new_gateway_breaker_def)

lemma gateway_failures_never_expire_example:
  "gb_state (gb_failures_at [0, 1000000, 2000000] (new_gateway_breaker 3 60000 10000)) = Open"
  using gateway_failures_never_expire [of 3 10000 "[0, 1000000, 2000000]" 60000] by simp

end
