(* ===== verification/DsFallback.thy ===== *)
theory DsFallback
  imports CircuitBreakers
begin

text \<open>
  The fallback controller of the flexible datastore (fallback/fallback-controller.ts): one
  breaker per provider, the fallback rules, the replay queue of failed writes and the health
  cache. The breakers are objects the controller shares with its callers; an operation a caller
  makes on the breaker of a provider is \<open>fc_on_breaker\<close>.
\<close>

datatype fail_policy = FailOpen | FailClosed

record fallback_rule =
  fr_domain :: entity_domain
  fr_failPolicy :: fail_policy
  fr_fallbackProvider :: provider

datatype replay_operation = ReplayCreate | ReplayUpdate | ReplayDelete

record replay_entry =
  re_id :: string
  re_tenantId :: string
  re_domain :: entity_domain
  re_operation :: replay_operation
  re_payload :: details
  re_originalProvider :: provider
  re_failedAt :: instant
  re_retryCount :: int

record fallback_controller =
  fc_breakers :: "(provider, provider_breaker) jsmap"
  fc_fallbackRules :: "fallback_rule list"
  fc_replayQueue :: "replay_entry list"
  fc_healthCache :: "(provider, health_report) jsmap"

definition new_FallbackController :: fallback_controller where
  "new_FallbackController =
     \<lparr>fc_breakers = [], fc_fallbackRules = [], fc_replayQueue = [], fc_healthCache = []\<rparr>"

definition getOrCreateBreaker ::
  "provider \<Rightarrow> cb_config_patch option \<Rightarrow> fallback_controller \<Rightarrow> provider_breaker \<times> fallback_controller" where
  "getOrCreateBreaker provider config fc =
     (case map_of (fc_breakers fc) provider of
        None \<Rightarrow>
          (let cb = new_ProviderCircuitBreaker provider config
           in (cb, fc\<lparr>fc_breakers := AList.update provider cb (fc_breakers fc)\<rparr>))
      | Some cb \<Rightarrow> (cb, fc))"

definition getBreaker :: "provider \<Rightarrow> fallback_controller \<Rightarrow> provider_breaker option" where
  "getBreaker provider fc = map_of (fc_breakers fc) provider"

definition fc_on_breaker ::
  "provider \<Rightarrow> (provider_breaker \<Rightarrow> provider_breaker) \<Rightarrow> fallback_controller \<Rightarrow> fallback_controller" where
  "fc_on_breaker provider f fc =
     (case map_of (fc_breakers fc) provider of
        None \<Rightarrow> fc
      | Some cb \<Rightarrow> fc\<lparr>fc_breakers := AList.update provider (f cb) (fc_breakers fc)\<rparr>)"

definition addFallbackRule :: "fallback_rule \<Rightarrow> fallback_controller \<Rightarrow> fallback_controller" where
  "addFallbackRule rule fc = fc\<lparr>fc_fallbackRules := fc_fallbackRules fc @ [rule]\<rparr>"

definition resolveFallback ::
  "int \<Rightarrow> provider \<Rightarrow> entity_domain \<Rightarrow> fallback_controller
     \<Rightarrow> (ds_exn + provider) \<times> fallback_controller" where
  "resolveFallback now provider domain fc =
     (case map_of (fc_breakers fc) provider of
        None \<Rightarrow> (Inr provider, fc)
      | Some cb \<Rightarrow>
          (case pb_allowRequest now cb of (allowed, cb') \<Rightarrow>
             let fc' = fc\<lparr>fc_breakers := AList.update provider cb' (fc_breakers fc)\<rparr>
             in if \<not> allowed then
                  (case List.find (\<lambda>r. fr_domain r = domain) (fc_fallbackRules fc') of
                     Some rule \<Rightarrow>
                       if fr_failPolicy rule = FailOpen then (Inr (fr_fallbackProvider rule), fc')
                       else (Inl (DsError (CircuitOpenError (provider_str provider))), fc')
                   | None \<Rightarrow> (Inl (DsError (CircuitOpenError (provider_str provider))), fc'))
                else (Inr provider, fc')))"

definition updateHealth :: "health_report \<Rightarrow> fallback_controller \<Rightarrow> fallback_controller" where
  "updateHealth report fc =
     fc\<lparr>fc_healthCache := AList.update (hr_provider report) report (fc_healthCache fc)\<rparr>"

definition getHealth :: "provider \<Rightarrow> fallback_controller \<Rightarrow> health_report option" where
  "getHealth provider fc = map_of (fc_healthCache fc) provider"

definition getAllHealth :: "fallback_controller \<Rightarrow> health_report list" where
  "getAllHealth fc = map_values (fc_healthCache fc)"

definition enqueueReplay :: "replay_entry \<Rightarrow> fallback_controller \<Rightarrow> fallback_controller" where
  "enqueueReplay entry fc = fc\<lparr>fc_replayQueue := fc_replayQueue fc @ [entry]\<rparr>"

definition dequeueReplay :: "int \<Rightarrow> fallback_controller \<Rightarrow> replay_entry list \<times> fallback_controller" where
  "dequeueReplay maxItems fc =
     (case splice_front maxItems (fc_replayQueue fc) of (removed, rest) \<Rightarrow>
        (removed, fc\<lparr>fc_replayQueue := rest\<rparr>))"

definition replayQueueSize :: "fallback_controller \<Rightarrow> nat" where
  "replayQueueSize fc = length (fc_replayQueue fc)"

definition getReplayQueue :: "fallback_controller \<Rightarrow> replay_entry list" where
  "getReplayQueue fc = fc_replayQueue fc"

section \<open>Well-formed controllers\<close>

datatype fc_op =
  OpGetOrCreate provider "cb_config_patch option"
  | OpSuccess provider
  | OpFailure int provider
  | OpResetBreaker provider
  | OpAddRule fallback_rule
  | OpResolve int provider entity_domain
  | OpHealth health_report
  | OpEnqueue replay_entry
  | OpDequeue int

fun fc_step :: "fc_op \<Rightarrow> fallback_controller \<Rightarrow> fallback_controller" where
  "fc_step (OpGetOrCreate p c) fc = snd (getOrCreateBreaker p c fc)"
| "fc_step (OpSuccess p) fc = fc_on_breaker p pb_recordSuccess fc"
| "fc_step (OpFailure now p) fc = fc_on_breaker p (pb_recordFailure now) fc"
| "fc_step (OpResetBreaker p) fc = fc_on_breaker p pb_reset fc"
| "fc_step (OpAddRule r) fc = addFallbackRule r fc"
| "fc_step (OpResolve now p d) fc = snd (resolveFallback now p d fc)"
| "fc_step (OpHealth r) fc = updateHealth r fc"
| "fc_step (OpEnqueue e) fc = enqueueReplay e fc"
| "fc_step (OpDequeue n) fc = snd (dequeueReplay n fc)"

definition fc_inv :: "fallback_controller \<Rightarrow> bool" where
  \<comment> \<open>one breaker and one health report per provider, each filed under its own provider\<close>
  "fc_inv fc \<longleftrightarrow> wf_map (fc_breakers fc) \<and> wf_map (fc_healthCache fc)
     \<and> (\<forall>p cb. map_of (fc_breakers fc) p = Some cb \<longrightarrow> pb_provider cb = p)
     \<and> (\<forall>p r. map_of (fc_healthCache fc) p = Some r \<longrightarrow> hr_provider r = p)"

lemma pb_provider_ops [simp]:
  "pb_provider (pb_recordSuccess cb) = pb_provider cb"
  "pb_provider (pb_recordFailure now cb) = pb_provider cb"
  "pb_provider (pb_reset cb) = pb_provider cb"
  "pb_provider (snd (pb_allowRequest now cb)) = pb_provider cb"
  "pb_provider (new_ProviderCircuitBreaker p config) = p"
  by (auto simp: provider_breaker_defs Let_def new_ProviderCircuitBreaker_def)

lemma fc_inv_new: "fc_inv new_FallbackController"
  by (simp add: fc_inv_def new_FallbackController_def)

lemma fc_inv_on_breaker:
  "fc_inv fc \<Longrightarrow> (\<And>cb. pb_provider (f cb) = pb_provider cb) \<Longrightarrow> fc_inv (fc_on_breaker p f fc)"
  by (auto simp: fc_inv_def fc_on_breaker_def split: option.splits)

lemma resolveFallback_state:
  "snd (resolveFallback now p d fc) = fc_on_breaker p (\<lambda>cb. snd (pb_allowRequest now cb)) fc"
  by (auto simp: resolveFallback_def fc_on_breaker_def Let_def split: option.splits prod.splits)

lemma fc_inv_step: "fc_inv fc \<Longrightarrow> fc_inv (fc_step op fc)"
proof (cases op)
  case (OpGetOrCreate p c)
  assume "fc_inv fc"
  then show ?thesis
    by (auto simp: OpGetOrCreate fc_inv_def getOrCreateBreaker_def Let_def split: option.splits)
qed (auto simp: resolveFallback_state intro!: fc_inv_on_breaker,
  auto simp: fc_inv_def addFallbackRule_def updateHealth_def enqueueReplay_def dequeueReplay_def
    split: prod.splits)

interpretation fc: machine fc_step fc_inv
  by unfold_locales (rule fc_inv_step)

section \<open>The replay queue is a queue\<close>

text \<open>The entries a run removes from the queue, in the order it hands them out.\<close>

fun fc_removed :: "fc_op list \<Rightarrow> fallback_controller \<Rightarrow> replay_entry list" where
  "fc_removed [] fc = []"
| "fc_removed (op # ops) fc =
     (case op of OpDequeue n \<Rightarrow> fst (dequeueReplay n fc) | _ \<Rightarrow> []) @ fc_removed ops (fc_step op fc)"

fun fc_enqueued :: "fc_op list \<Rightarrow> replay_entry list" where
  "fc_enqueued [] = []"
| "fc_enqueued (op # ops) = (case op of OpEnqueue e \<Rightarrow> [e] | _ \<Rightarrow> []) @ fc_enqueued ops"

lemma fc_queue_step:
  "fc_replayQueue fc @ (case op of OpEnqueue e \<Rightarrow> [e] | _ \<Rightarrow> []) =
   (case op of OpDequeue n \<Rightarrow> fst (dequeueReplay n fc) | _ \<Rightarrow> []) @ fc_replayQueue (fc_step op fc)"
  by (cases op)
    (auto simp: getOrCreateBreaker_def fc_on_breaker_def resolveFallback_state addFallbackRule_def
      updateHealth_def enqueueReplay_def dequeueReplay_def splice_front_def Let_def
      split: option.splits)

lemma fc_queue_run:
  "fc_replayQueue fc @ fc_enqueued ops = fc_removed ops fc @ fc_replayQueue (fold fc_step ops fc)"
proof (induction ops arbitrary: fc)
  case Nil
  then show ?case by simp
next
  case (Cons op ops)
  let ?out = "case op of OpDequeue n \<Rightarrow> fst (dequeueReplay n fc) | _ \<Rightarrow> []"
  have "fc_replayQueue fc @ fc_enqueued (op # ops)
      = (?out @ fc_replayQueue (fc_step op fc)) @ fc_enqueued ops"
    unfolding fc_queue_step [symmetric] by simp
  also have "\<dots> = ?out @ (fc_replayQueue (fc_step op fc) @ fc_enqueued ops)" by simp
  also have "\<dots> = ?out @ fc_removed ops (fc_step op fc) @ fc_replayQueue (fold fc_step ops (fc_step op fc))"
    unfolding Cons.IH ..
  finally show ?case by simp
qed

section \<open>Resolution\<close>

definition blocked :: "int \<Rightarrow> provider \<Rightarrow> fallback_controller \<Rightarrow> bool" where
  "blocked now p fc \<longleftrightarrow> (\<exists>cb. map_of (fc_breakers fc) p = Some cb \<and> pb_state cb = Open
     \<and> now < pb_lastFailureTime cb + cfg_resetTimeoutMs (pb_config cb))"

lemma resolveFallback_result:
  "fst (resolveFallback now p d fc) =
     (if \<not> blocked now p fc then Inr p
      else case List.find (\<lambda>r. fr_domain r = d) (fc_fallbackRules fc) of
        Some r \<Rightarrow> if fr_failPolicy r = FailOpen then Inr (fr_fallbackProvider r)
                  else Inl (DsError (CircuitOpenError (provider_str p)))
      | None \<Rightarrow> Inl (DsError (CircuitOpenError (provider_str p))))"
proof (cases "map_of (fc_breakers fc) p")
  case None
  then show ?thesis by (simp add: resolveFallback_def blocked_def)
next
  case (Some cb)
  have allow: "fst (pb_allowRequest now cb) \<longleftrightarrow> \<not> blocked now p fc"
    using provider_cb.refuse [of cb now] provider_cb.admit [of cb now] Some
    by (fastforce simp: blocked_def not_less)
  obtain b cb' where b: "pb_allowRequest now cb = (b, cb')" by (cases "pb_allowRequest now cb")
  with allow have "b \<longleftrightarrow> \<not> blocked now p fc" by simp
  with b Some show ?thesis
    by (auto simp: resolveFallback_def Let_def split: option.splits)
qed

section \<open>Properties\<close>

text \<open>
  A request is routed to the fallback provider of its domain exactly if the provider's
  breaker is open and its reset time has not passed and the first rule of the domain fails
  open; it is refused if that rule fails closed or there is none; otherwise it goes to the
  provider it asked for.
\<close>

lemma fallback_resolution:
  "fst (resolveFallback now p d fc) =
     (if \<not> blocked now p fc then Inr p
      else case List.find (\<lambda>r. fr_domain r = d) (fc_fallbackRules fc) of
        Some r \<Rightarrow> if fr_failPolicy r = FailOpen then Inr (fr_fallbackProvider r)
                  else Inl (DsError (CircuitOpenError (provider_str p)))
      | None \<Rightarrow> Inl (DsError (CircuitOpenError (provider_str p))))"
  by (rule resolveFallback_result)

text \<open>
  The replay queue loses, duplicates and reorders nothing: in every run of the fallback
  controller what was enqueued is what was handed out followed by what is still queued.
\<close>

lemma replay_queue_fifo:
  "fc_enqueued ops = fc_removed ops new_FallbackController
     @ getReplayQueue (fold fc_step ops new_FallbackController)"
  using fc_queue_run [of new_FallbackController ops]
  by (simp add: new_FallbackController_def getReplayQueue_def)

end
