(* ===== verification/DsPool.thy ===== *)
theory DsPool
  imports DsTypes Complex_Main
begin

text \<open>
  Connection pools of the flexible datastore (pool/connection-pool.ts): the tenant pool with its
  connection slots and its one-second sliding-window rate limit, and the pool manager.
  \<open>now\<close> is the reading of \<open>Date.now()\<close>. The saturation percentage is computed exactly, where
  the code rounds a quotient of doubles.
\<close>

record pool_config =
  pc_provider :: provider
  pc_tenantId :: string
  pc_maxConnections :: int
  pc_minConnections :: int
  pc_acquireTimeoutMs :: int
  pc_idleTimeoutMs :: int
  pc_maxRps :: int

record pool_config_patch =
  pcp_maxConnections :: "int option"
  pcp_minConnections :: "int option"
  pcp_acquireTimeoutMs :: "int option"
  pcp_idleTimeoutMs :: "int option"
  pcp_maxRps :: "int option"

abbreviation override :: "'a option \<Rightarrow> 'a \<Rightarrow> 'a" where
  "override x d \<equiv> (case x of None \<Rightarrow> d | Some y \<Rightarrow> y)"

definition patch_pool_config :: "pool_config \<Rightarrow> pool_config_patch \<Rightarrow> pool_config" where
  "patch_pool_config c p = c\<lparr>
     pc_maxConnections := override (pcp_maxConnections p) (pc_maxConnections c),
     pc_minConnections := override (pcp_minConnections p) (pc_minConnections c),
     pc_acquireTimeoutMs := override (pcp_acquireTimeoutMs p) (pc_acquireTimeoutMs c),
     pc_idleTimeoutMs := override (pcp_idleTimeoutMs p) (pc_idleTimeoutMs c),
     pc_maxRps := override (pcp_maxRps p) (pc_maxRps c)\<rparr>"

definition DEFAULT_POOL :: "provider \<Rightarrow> string \<Rightarrow> pool_config" where
  "DEFAULT_POOL provider tenantId =
     \<lparr>pc_provider = provider, pc_tenantId = tenantId, pc_maxConnections = 10,
      pc_minConnections = 1, pc_acquireTimeoutMs = 5000, pc_idleTimeoutMs = 60000,
      pc_maxRps = 200\<rparr>"

record pool_metrics =
  pm_provider :: provider
  pm_tenantId :: string
  pm_activeConnections :: int
  pm_idleConnections :: int
  pm_totalConnections :: int
  pm_waitingRequests :: int
  pm_requestsPerSecond :: int
  pm_throttledCount :: int
  pm_saturationPct :: int

section \<open>The tenant pool\<close>

record tenant_pool =
  tp_provider :: provider
  tp_tenantId :: string
  tp_config :: pool_config
  tp_active :: int
  tp_idle :: int
  tp_waiting :: int
  tp_throttledCount :: int
  tp_requestTimestamps :: "int list"

definition new_TenantPool :: "pool_config \<Rightarrow> tenant_pool" where
  "new_TenantPool config =
     \<lparr>tp_provider = pc_provider config, tp_tenantId = pc_tenantId config, tp_config = config,
      tp_active = 0, tp_idle = pc_minConnections config, tp_waiting = 0, tp_throttledCount = 0,
      tp_requestTimestamps = []\<rparr>"

definition pruneTimestamps :: "int \<Rightarrow> tenant_pool \<Rightarrow> tenant_pool" where
  "pruneTimestamps now p =
     (let oneSecAgo = now - 1000
      in p\<lparr>tp_requestTimestamps := filter (\<lambda>t. oneSecAgo < t) (tp_requestTimestamps p)\<rparr>)"

definition acquire :: "int \<Rightarrow> int \<Rightarrow> tenant_pool \<Rightarrow> bool \<times> tenant_pool" where
  \<comment> \<open>the clock is read twice: \<open>now\<close> for the pruning, \<open>later\<close> for the timestamp\<close>
  "acquire now later p =
     (let p = pruneTimestamps now p in
      if pc_maxRps (tp_config p) \<le> int (length (tp_requestTimestamps p))
      then (False, p\<lparr>tp_throttledCount := tp_throttledCount p + 1\<rparr>)
      else if pc_maxConnections (tp_config p) \<le> tp_active p
      then (False, p\<lparr>tp_waiting := tp_waiting p + 1\<rparr>)
      else (True, p\<lparr>tp_active := tp_active p + 1,
                    tp_idle := (if 0 < tp_idle p then tp_idle p - 1 else tp_idle p),
                    tp_requestTimestamps := tp_requestTimestamps p @ [later]\<rparr>))"

definition release :: "tenant_pool \<Rightarrow> tenant_pool" where
  "release p =
     (let p1 = (if 0 < tp_active p then p\<lparr>tp_active := tp_active p - 1\<rparr> else p);
          p2 = (if tp_active p1 + tp_idle p1 < pc_maxConnections (tp_config p1)
                then p1\<lparr>tp_idle := tp_idle p1 + 1\<rparr> else p1)
      in if 0 < tp_waiting p2 then p2\<lparr>tp_waiting := tp_waiting p2 - 1\<rparr> else p2)"

definition js_round :: "rat \<Rightarrow> int" where
  \<comment> \<open>\<open>Math.round\<close>: halves go up\<close>
  "js_round x = \<lfloor>x + 1 / 2\<rfloor>"

definition getMetrics :: "int \<Rightarrow> tenant_pool \<Rightarrow> pool_metrics \<times> tenant_pool" where
  "getMetrics now p =
     (let p = pruneTimestamps now p in
      (\<lparr>pm_provider = tp_provider p, pm_tenantId = tp_tenantId p,
        pm_activeConnections = tp_active p, pm_idleConnections = tp_idle p,
        pm_totalConnections = tp_active p + tp_idle p, pm_waitingRequests = tp_waiting p,
        pm_requestsPerSecond = int (length (tp_requestTimestamps p)),
        pm_throttledCount = tp_throttledCount p,
        pm_saturationPct =
          (if 0 < pc_maxConnections (tp_config p)
           then js_round (of_int (tp_active p) / of_int (pc_maxConnections (tp_config p)) * 100)
           else 0)\<rparr>, p))"

definition updateConfig :: "pool_config_patch \<Rightarrow> tenant_pool \<Rightarrow> tenant_pool" where
  "updateConfig patch p = p\<lparr>tp_config := patch_pool_config (tp_config p) patch\<rparr>"

lemmas pool_defs = pruneTimestamps_def acquire_def release_def getMetrics_def

datatype pool_op = PAcquire int int | PRelease | PMetrics int

fun pool_step :: "pool_op \<Rightarrow> tenant_pool \<Rightarrow> tenant_pool" where
  "pool_step (PAcquire now later) p = snd (acquire now later p)"
| "pool_step PRelease p = release p"
| "pool_step (PMetrics now) p = snd (getMetrics now p)"

lemma pool_step_config [simp]: "tp_config (pool_step op p) = tp_config p"
  by (cases op) (auto simp: pool_defs Let_def)

section \<open>Slots\<close>

definition pool_inv :: "tenant_pool \<Rightarrow> bool" where
  "pool_inv p \<longleftrightarrow> 0 \<le> tp_active p \<and> 0 \<le> tp_idle p \<and> 0 \<le> tp_waiting p \<and> 0 \<le> tp_throttledCount p
     \<and> tp_active p + tp_idle p \<le> pc_maxConnections (tp_config p)"

lemma pool_inv_new:
  "0 \<le> pc_minConnections c \<Longrightarrow> pc_minConnections c \<le> pc_maxConnections c \<Longrightarrow> pool_inv (new_TenantPool c)"
  by (simp add: pool_inv_def new_TenantPool_def)

lemma pool_inv_step: "pool_inv p \<Longrightarrow> pool_inv (pool_step op p)"
  by (cases op) (auto simp: pool_inv_def pool_defs Let_def)

interpretation pool: machine pool_step pool_inv
  by unfold_locales (rule pool_inv_step)

lemma saturation_bounds:
  assumes "pool_inv p"
  shows "0 \<le> pm_saturationPct (fst (getMetrics now p)) \<and> pm_saturationPct (fst (getMetrics now p)) \<le> 100"
proof (cases "0 < pc_maxConnections (tp_config p)")
  case False
  then show ?thesis by (simp add: getMetrics_def pruneTimestamps_def Let_def)
next
  case True
  let ?a = "tp_active p" and ?m = "pc_maxConnections (tp_config p)"
  let ?q = "of_int ?a / of_int ?m * (100 :: rat)"
  have am: "0 \<le> ?a" "?a \<le> ?m" using assms by (auto simp: pool_inv_def)
  have "(of_int ?a :: rat) / of_int ?m \<le> 1" using True am by simp
  from mult_right_mono [OF this, of 100] have "?q \<le> 100" by simp
  moreover have "0 \<le> ?q" using True am by simp
  ultimately have "0 \<le> js_round ?q" "js_round ?q \<le> 100"
    unfolding js_round_def by linarith+
  then show ?thesis using True by (simp add: getMetrics_def pruneTimestamps_def Let_def)
qed

section \<open>The sliding window\<close>

text \<open>The instants at which a run grants a connection, and the readings of the clock it makes.\<close>

fun pool_grants :: "pool_op list \<Rightarrow> tenant_pool \<Rightarrow> int list" where
  "pool_grants [] p = []"
| "pool_grants (op # ops) p =
     (case op of PAcquire now later \<Rightarrow> (if fst (acquire now later p) then [later] else []) | _ \<Rightarrow> [])
     @ pool_grants ops (pool_step op p)"

fun op_times :: "pool_op list \<Rightarrow> int list" where
  "op_times [] = []"
| "op_times (op # ops) =
     (case op of PAcquire now later \<Rightarrow> [now, later] | PRelease \<Rightarrow> [] | PMetrics now \<Rightarrow> [now]) @ op_times ops"

definition in_window :: "int \<Rightarrow> int list \<Rightarrow> int list" where
  "in_window t gs = filter (\<lambda>g. t - 1000 < g \<and> g \<le> t) gs"

text \<open>
  The history \<open>h\<close> of grants so far against the stored timestamps, at clock \<open>c\<close>: the stored
  timestamps are the grants after some cutoff that is at least a second ago.
\<close>

definition window_inv :: "int list \<Rightarrow> int \<Rightarrow> tenant_pool \<Rightarrow> bool" where
  "window_inv h c p \<longleftrightarrow> (\<forall>g \<in> set h. g \<le> c)
     \<and> (\<exists>cut \<le> c - 1000. tp_requestTimestamps p = filter (\<lambda>g. cut < g) h)
     \<and> (\<forall>t. int (length (in_window t h)) \<le> max 0 (pc_maxRps (tp_config p)))"

lemma window_inv_later:
  assumes "window_inv h c p" "c \<le> later"
  shows "window_inv h later p"
proof -
  obtain cut where "cut \<le> c - 1000" "tp_requestTimestamps p = filter (\<lambda>g. cut < g) h"
    using assms(1) by (auto simp: window_inv_def)
  then show ?thesis using assms unfolding window_inv_def
    by (intro conjI exI [of _ cut]) fastforce+
qed

lemma window_inv_prune:
  assumes "window_inv h c p" "c \<le> now"
  shows "window_inv h now (pruneTimestamps now p)"
    and "tp_requestTimestamps (pruneTimestamps now p) = filter (\<lambda>g. now - 1000 < g) h"
proof -
  obtain cut where cut: "cut \<le> c - 1000" "tp_requestTimestamps p = filter (\<lambda>g. cut < g) h"
    using assms(1) by (auto simp: window_inv_def)
  have "filter (\<lambda>t. now - 1000 < t) (filter (\<lambda>g. cut < g) h) = filter (\<lambda>g. now - 1000 < g) h"
    unfolding filter_filter using cut(1) assms(2) by (intro filter_cong) auto
  then show ts: "tp_requestTimestamps (pruneTimestamps now p) = filter (\<lambda>g. now - 1000 < g) h"
    by (simp add: pruneTimestamps_def cut(2))
  show "window_inv h now (pruneTimestamps now p)"
    using assms ts by (force simp: window_inv_def pruneTimestamps_def)
qed

lemma window_grant:
  assumes w: "\<forall>t. int (length (in_window t h)) \<le> max 0 r" and le: "\<forall>g \<in> set h. g \<le> now"
    and room: "int (length (filter (\<lambda>g. now - 1000 < g) h)) < r"
  shows "int (length (in_window t (h @ [now]))) \<le> max 0 r"
proof (cases "t < now")
  case True
  then have "in_window t (h @ [now]) = in_window t h" by (simp add: in_window_def)
  with w show ?thesis by simp
next
  case False
  have "length (in_window t h) \<le> length (filter (\<lambda>g. now - 1000 < g) h)"
  proof -
    have "in_window t h = filter (\<lambda>g. t - 1000 < g \<and> g \<le> t) (filter (\<lambda>g. now - 1000 < g) h)"
      unfolding in_window_def filter_filter using False by (intro filter_cong) auto
    then show ?thesis by (simp only: length_filter_le)
  qed
  moreover have "length (in_window t (h @ [now])) \<le> Suc (length (in_window t h))"
    by (simp add: in_window_def)
  ultimately show ?thesis using room by linarith
qed

lemma window_inv_acquire:
  assumes "window_inv h c p" "c \<le> now" "now \<le> later"
  shows "window_inv (h @ (if fst (acquire now later p) then [later] else [])) later (snd (acquire now later p))"
proof -
  let ?p = "pruneTimestamps now p"
  note inv = window_inv_prune(1) [OF assms(1,2)] and ts = window_inv_prune(2) [OF assms(1,2)]
  show ?thesis
  proof (cases "fst (acquire now later p)")
    case False
    then have "tp_requestTimestamps (snd (acquire now later p)) = tp_requestTimestamps ?p"
      "tp_config (snd (acquire now later p)) = tp_config ?p"
      by (auto simp: acquire_def Let_def split: if_splits)
    moreover have "window_inv h later ?p" by (rule window_inv_later [OF inv assms(3)])
    ultimately show ?thesis using False by (simp add: window_inv_def)
  next
    case True
    then have ok: "int (length (filter (\<lambda>g. now - 1000 < g) h)) < pc_maxRps (tp_config ?p)"
      and stored: "tp_requestTimestamps (snd (acquire now later p)) = tp_requestTimestamps ?p @ [later]"
      and conf: "tp_config (snd (acquire now later p)) = tp_config ?p"
      using ts by (auto simp: acquire_def Let_def split: if_splits)
    have "filter (\<lambda>g. later - 1000 < g) h = filter (\<lambda>g. later - 1000 < g) (filter (\<lambda>g. now - 1000 < g) h)"
      unfolding filter_filter using assms(3) by (intro filter_cong) auto
    then have "length (filter (\<lambda>g. later - 1000 < g) h) \<le> length (filter (\<lambda>g. now - 1000 < g) h)"
      by (simp only: length_filter_le)
    with ok have room: "int (length (filter (\<lambda>g. later - 1000 < g) h)) < pc_maxRps (tp_config ?p)" by linarith
    have past: "\<forall>g \<in> set h. g \<le> later" using inv assms(3) by (force simp: window_inv_def)
    have "\<forall>t. int (length (in_window t (h @ [later]))) \<le> max 0 (pc_maxRps (tp_config ?p))"
      using window_grant [OF _ past room] inv by (auto simp: window_inv_def)
    moreover have "tp_requestTimestamps (snd (acquire now later p)) = filter (\<lambda>g. now - 1000 < g) (h @ [later])"
      using stored ts assms(3) by simp
    then have "\<exists>cut \<le> later - 1000. tp_requestTimestamps (snd (acquire now later p)) = filter (\<lambda>g. cut < g) (h @ [later])"
      using assms(3) by (intro exI [of _ "now - 1000"]) simp
    ultimately show ?thesis using past True conf by (simp add: window_inv_def)
  qed
qed

lemma window_inv_step:
  assumes "window_inv h c p" "sorted (c # op_times [op])"
  shows "window_inv (h @ pool_grants [op] p) (last (c # op_times [op])) (pool_step op p)"
proof (cases op)
  case (PAcquire now later)
  then show ?thesis using window_inv_acquire [OF assms(1), of now later] assms(2) by simp
next
  case PRelease
  have "tp_requestTimestamps (release p) = tp_requestTimestamps p" "tp_config (release p) = tp_config p"
    by (auto simp: release_def Let_def)
  then show ?thesis using assms(1) PRelease by (simp add: window_inv_def)
next
  case (PMetrics now)
  then show ?thesis using window_inv_prune(1) [OF assms(1), of now] assms(2)
    by (simp add: getMetrics_def Let_def)
qed

lemma window_inv_run:
  "window_inv h c p \<Longrightarrow> sorted (c # op_times ops) \<Longrightarrow>
   \<exists>c'. window_inv (h @ pool_grants ops p) c' (fold pool_step ops p)"
proof (induction ops arbitrary: h c p)
  case Nil
  then show ?case by auto
next
  case (Cons op ops)
  have times: "op_times (op # ops) = op_times [op] @ op_times ops" by simp
  have "sorted (c # op_times [op])" "sorted (last (c # op_times [op]) # op_times ops)"
    using Cons.prems(2) by (auto split: pool_op.splits)
  then show ?case
    using Cons.IH [OF window_inv_step [OF Cons.prems(1)]] by simp
qed

section \<open>The pool manager\<close>

definition poolKey :: "provider \<Rightarrow> string \<Rightarrow> string" where
  "poolKey provider tenantId = provider_str provider @ ''::'' @ tenantId"

type_synonym pool_manager = "(string, tenant_pool) jsmap"

definition getOrCreate ::
  "provider \<Rightarrow> string \<Rightarrow> pool_config_patch option \<Rightarrow> pool_manager \<Rightarrow> tenant_pool \<times> pool_manager" where
  "getOrCreate provider tenantId config pools =
     (let key = poolKey provider tenantId in
      case map_of pools key of
        Some pool \<Rightarrow> (pool, pools)
      | None \<Rightarrow>
          (let pool = new_TenantPool
             (case config of None \<Rightarrow> DEFAULT_POOL provider tenantId
              | Some c \<Rightarrow> patch_pool_config (DEFAULT_POOL provider tenantId) c)
           in (pool, AList.update key pool pools)))"

definition getPool :: "provider \<Rightarrow> string \<Rightarrow> pool_manager \<Rightarrow> tenant_pool option" where
  "getPool provider tenantId pools = map_of pools (poolKey provider tenantId)"

definition removePool :: "provider \<Rightarrow> string \<Rightarrow> pool_manager \<Rightarrow> bool \<times> pool_manager" where
  "removePool provider tenantId pools =
     (let key = poolKey provider tenantId in (map_has pools key, AList.delete key pools))"

definition metrics_where ::
  "(tenant_pool \<Rightarrow> bool) \<Rightarrow> int \<Rightarrow> pool_manager \<Rightarrow> pool_metrics list \<times> pool_manager" where
  \<comment> \<open>\<open>Array.from(pools.values()).filter(P).map(p => p.getMetrics())\<close>\<close>
  "metrics_where P now pools =
     (map (\<lambda>p. fst (getMetrics now p)) (filter P (map_values pools)),
      map (\<lambda>(k, p). (k, if P p then snd (getMetrics now p) else p)) pools)"

definition getAllMetrics :: "int \<Rightarrow> pool_manager \<Rightarrow> pool_metrics list \<times> pool_manager" where
  "getAllMetrics now pools = metrics_where (\<lambda>_. True) now pools"

definition getMetricsByTenant :: "string \<Rightarrow> int \<Rightarrow> pool_manager \<Rightarrow> pool_metrics list \<times> pool_manager" where
  "getMetricsByTenant tenantId now pools = metrics_where (\<lambda>p. tp_tenantId p = tenantId) now pools"

definition getMetricsByProvider :: "provider \<Rightarrow> int \<Rightarrow> pool_manager \<Rightarrow> pool_metrics list \<times> pool_manager" where
  "getMetricsByProvider provider now pools = metrics_where (\<lambda>p. tp_provider p = provider) now pools"

lemma poolKey_inj: "poolKey p t = poolKey q u \<longleftrightarrow> p = q \<and> t = u"
proof -
  have "poolKey p t = provider_str p @ CHR '':'' # CHR '':'' # t" for p t
    by (simp add: poolKey_def)
  then show ?thesis
    using append_sep_inj [OF provider_str_no_colon provider_str_no_colon] by simp
qed

section \<open>Properties\<close>

text \<open>
  A pool never hands out more connections than its configuration allows: in every run no
  counter is negative, active and idle connections together stay within the maximum, and the
  reported saturation is a percentage.
\<close>

lemma pool_slots_bounded:
  assumes "0 \<le> pc_minConnections c" and "pc_minConnections c \<le> pc_maxConnections c"
    and "p = fold pool_step ops (new_TenantPool c)"
  shows "0 \<le> tp_active p \<and> 0 \<le> tp_idle p \<and> 0 \<le> tp_waiting p
    \<and> tp_active p + tp_idle p \<le> pc_maxConnections c
    \<and> 0 \<le> pm_saturationPct (fst (getMetrics now p)) \<and> pm_saturationPct (fst (getMetrics now p)) \<le> 100"
proof -
  have "pool_inv p" unfolding assms(3) by (rule pool.inv_run [OF pool_inv_new [OF assms(1,2)]])
  moreover have "tp_config (fold pool_step ops q) = tp_config q" for q by (induction ops arbitrary: q) simp_all
  then have "tp_config p = c" by (simp add: assms(3) new_TenantPool_def)
  ultimately show ?thesis using saturation_bounds [of p now] by (simp add: pool_inv_def)
qed

lemma pool_slots_bounded_example:
  "pm_saturationPct (fst (getMetrics 5
     (fold pool_step [PAcquire 1 1, PAcquire 2 2, PRelease] (new_TenantPool (DEFAULT_POOL MongoDB ''t''))))) \<le> 100"
  using pool_slots_bounded [of "DEFAULT_POOL MongoDB ''t''" _ "[PAcquire 1 1, PAcquire 2 2, PRelease]" 5]
  by (simp add: DEFAULT_POOL_def)

text \<open>
  C30: the rate limit holds: whatever the operations, as long as the clock does not run
  backwards, no second contains more granted requests than the pool's requests per second.
\<close>

theorem pool_rate_limited:
  assumes "sorted (op_times ops)"
  shows "int (length (in_window t (pool_grants ops (new_TenantPool c)))) \<le> max 0 (pc_maxRps c)"
proof -
  let ?c = "case op_times ops of [] \<Rightarrow> 0 | x # _ \<Rightarrow> x"
  have "window_inv [] ?c (new_TenantPool c)"
    by (auto simp: window_inv_def new_TenantPool_def in_window_def)
  moreover have "sorted (?c # op_times ops)" using assms by (cases "op_times ops") auto
  ultimately obtain c' where "window_inv ([] @ pool_grants ops (new_TenantPool c)) c' (fold pool_step ops (new_TenantPool c))"
    using window_inv_run by blast
  moreover have "tp_config (fold pool_step ops q) = tp_config q" for q by (induction ops arbitrary: q) simp_all
  ultimately show ?thesis by (simp add: window_inv_def new_TenantPool_def)
qed

theorem pool_rate_limited_witness:
  "length (in_window 900 (pool_grants [PAcquire 1 1, PAcquire 500 501, PAcquire 900 900]
     (new_TenantPool ((DEFAULT_POOL MongoDB ''t'')\<lparr>pc_maxRps := 2\<rparr>)))) \<le> 2"
  using pool_rate_limited [of "[PAcquire 1 1, PAcquire 500 501, PAcquire 900 900]" 900 "(DEFAULT_POOL MongoDB ''t'')\<lparr>pc_maxRps := 2\<rparr>"]
  by simp

text \<open>Pools of different providers or tenants never share a slot of the pool manager.\<close>

lemma pools_are_separate:
  "getPool q u (snd (getOrCreate p t config pools)) =
     (if p = q \<and> t = u then Some (fst (getOrCreate p t config pools)) else getPool q u pools)
   \<and> getPool q u (snd (removePool p t pools)) = (if p = q \<and> t = u then None else getPool q u pools)"
  by (simp add: getPool_def getOrCreate_def removePool_def Let_def poolKey_inj split: option.splits)

end
