(* ===== verification/DsMigration.thy ===== *)
theory DsMigration
  imports DsTypes
begin

text \<open>
  The migration service of the flexible datastore (migration/migration-service.ts): plans that
  move the data of a tenant from one provider to another through dual writes, shadow reads and a
  guarded cutover, with an event log. Every operation takes the identifiers \<open>uuid()\<close> gives
  it and the reading \<open>now\<close> of the clock; it returns the exception or the plan, and the state.
  Changing the plan object found in the map is \<open>put_plan\<close>.
\<close>

section \<open>State\<close>

datatype migration_phase = Idle | DualWrite | ShadowRead | Cutover | Rollback | Completed

fun phase_str :: "migration_phase \<Rightarrow> string" where
  "phase_str Idle = ''idle''"
| "phase_str DualWrite = ''dual_write''"
| "phase_str ShadowRead = ''shadow_read''"
| "phase_str Cutover = ''cutover''"
| "phase_str Rollback = ''rollback''"
| "phase_str Completed = ''completed''"

record cutover_criteria =
  cc_minShadowReadSeconds :: int
  cc_maxDivergenceCount :: int
  cc_requireChecksumMatch :: bool

record criteria_patch =
  ccp_minShadowReadSeconds :: "int option"
  ccp_maxDivergenceCount :: "int option"
  ccp_requireChecksumMatch :: "bool option"

record migration_progress =
  mp_totalDocuments :: int
  mp_migratedDocuments :: int
  mp_divergenceCount :: int
  mp_shadowReadStartedAt :: "instant option"
  mp_lastChecksumAt :: "instant option"

record progress_patch =
  mpp_totalDocuments :: "int option"
  mpp_migratedDocuments :: "int option"
  mpp_divergenceCount :: "int option"
  mpp_shadowReadStartedAt :: "instant option"
  mpp_lastChecksumAt :: "instant option"

record domain_checksum =
  cs_domain :: entity_domain
  cs_sourceChecksum :: string
  cs_targetChecksum :: string
  cs_match :: bool
  cs_computedAt :: instant

record migration_plan =
  pl_id :: string
  pl_tenantId :: string
  pl_sourceProvider :: provider
  pl_targetProvider :: provider
  pl_domains :: "entity_domain list"
  pl_phase :: migration_phase
  pl_createdAt :: instant
  pl_updatedAt :: instant
  pl_cutoverCriteria :: cutover_criteria
  pl_progress :: migration_progress
  pl_checksums :: "domain_checksum list"
  pl_error :: "string option"

record migration_event =
  me_id :: string
  me_migrationId :: string
  me_phase :: migration_phase
  me_action :: string
  me_timestamp :: instant
  me_details :: details

record migration_service =
  ms_plans :: "(string, migration_plan) jsmap"
  ms_events :: "migration_event list"

definition DEFAULT_CUTOVER_CRITERIA :: cutover_criteria where
  "DEFAULT_CUTOVER_CRITERIA =
     \<lparr>cc_minShadowReadSeconds = 300, cc_maxDivergenceCount = 0, cc_requireChecksumMatch = True\<rparr>"

definition merge_criteria :: "cutover_criteria \<Rightarrow> criteria_patch \<Rightarrow> cutover_criteria" where
  "merge_criteria d p =
     \<lparr>cc_minShadowReadSeconds = (case ccp_minShadowReadSeconds p of None \<Rightarrow> cc_minShadowReadSeconds d | Some x \<Rightarrow> x),
      cc_maxDivergenceCount = (case ccp_maxDivergenceCount p of None \<Rightarrow> cc_maxDivergenceCount d | Some x \<Rightarrow> x),
      cc_requireChecksumMatch = (case ccp_requireChecksumMatch p of None \<Rightarrow> cc_requireChecksumMatch d | Some x \<Rightarrow> x)\<rparr>"

definition new_MigrationService :: migration_service where
  "new_MigrationService = \<lparr>ms_plans = [], ms_events = []\<rparr>"

section \<open>Operations\<close>

type_synonym 'a mig_result = "(ds_exn + 'a) \<times> migration_service"

definition put_plan :: "string \<Rightarrow> migration_plan \<Rightarrow> migration_service \<Rightarrow> migration_service" where
  "put_plan planId plan s = s\<lparr>ms_plans := AList.update planId plan (ms_plans s)\<rparr>"

definition requirePlan :: "string \<Rightarrow> migration_service \<Rightarrow> ds_exn + migration_plan" where
  "requirePlan pid s =
     (case map_of (ms_plans s) pid of
        None \<Rightarrow> Inl (PlainError (''migration plan '' @ pid @ '' not found''))
      | Some p \<Rightarrow> Inr p)"

definition assertPhase :: "migration_plan \<Rightarrow> migration_phase \<Rightarrow> migration_phase \<Rightarrow> ds_exn option" where
  "assertPhase plan expected next =
     (if pl_phase plan \<noteq> expected then
        Some (PlainError (''cannot transition to '' @ phase_str next @ '': plan is in phase ''
          @ phase_str (pl_phase plan) @ '', expected '' @ phase_str expected))
      else None)"

definition addEvent ::
  "string \<Rightarrow> instant \<Rightarrow> string \<Rightarrow> migration_phase \<Rightarrow> string \<Rightarrow> details
     \<Rightarrow> migration_service \<Rightarrow> migration_service" where
  "addEvent eid now migrationId phase action det s =
     s\<lparr>ms_events := ms_events s @
        [\<lparr>me_id = eid, me_migrationId = migrationId, me_phase = phase, me_action = action,
          me_timestamp = now, me_details = det\<rparr>]\<rparr>"

definition is_active_plan :: "migration_plan \<Rightarrow> bool" where
  "is_active_plan p \<longleftrightarrow> pl_phase p \<noteq> Completed \<and> pl_phase p \<noteq> Rollback"

definition createPlan ::
  "string \<Rightarrow> string \<Rightarrow> instant \<Rightarrow> string \<Rightarrow> provider \<Rightarrow> provider \<Rightarrow> entity_domain list
     \<Rightarrow> criteria_patch \<Rightarrow> migration_service \<Rightarrow> migration_plan mig_result" where
  "createPlan pid eid now tenantId sourceProvider targetProvider domains criteria s =
     (if sourceProvider = targetProvider then
        (Inl (PlainError ''source and target providers must differ''), s)
      else case List.find (\<lambda>p. pl_tenantId p = tenantId \<and> is_active_plan p) (map_values (ms_plans s)) of
        Some p \<Rightarrow>
          (Inl (PlainError (''tenant '' @ tenantId @ '' already has an active migration: '' @ pl_id p)), s)
      | None \<Rightarrow>
          (let plan = \<lparr>pl_id = pid, pl_tenantId = tenantId, pl_sourceProvider = sourceProvider,
                 pl_targetProvider = targetProvider, pl_domains = domains, pl_phase = Idle,
                 pl_createdAt = now, pl_updatedAt = now,
                 pl_cutoverCriteria = merge_criteria DEFAULT_CUTOVER_CRITERIA criteria,
                 pl_progress = \<lparr>mp_totalDocuments = 0, mp_migratedDocuments = 0,
                   mp_divergenceCount = 0, mp_shadowReadStartedAt = None, mp_lastChecksumAt = None\<rparr>,
                 pl_checksums = [], pl_error = None\<rparr>
           in (Inr plan,
               addEvent eid now pid Idle ''plan_created''
                 [(''sourceProvider'', DStr (provider_str sourceProvider)),
                  (''targetProvider'', DStr (provider_str targetProvider)),
                  (''domains'', d_strings (map domain_str domains))]
                 (put_plan pid plan s))))"

definition getPlan :: "string \<Rightarrow> migration_service \<Rightarrow> migration_plan option" where
  "getPlan pid s = map_of (ms_plans s) pid"

definition listPlansByTenant :: "string \<Rightarrow> migration_service \<Rightarrow> migration_plan list" where
  "listPlansByTenant tenantId s = filter (\<lambda>p. pl_tenantId p = tenantId) (map_values (ms_plans s))"

definition startDualWrite ::
  "string \<Rightarrow> instant \<Rightarrow> string \<Rightarrow> migration_service \<Rightarrow> migration_plan mig_result" where
  "startDualWrite eid now planId s =
     (case requirePlan planId s of
        Inl e \<Rightarrow> (Inl e, s)
      | Inr plan \<Rightarrow>
        (case assertPhase plan Idle DualWrite of
           Some e \<Rightarrow> (Inl e, s)
         | None \<Rightarrow>
           (let plan' = plan\<lparr>pl_phase := DualWrite, pl_updatedAt := now\<rparr>
            in (Inr plan', addEvent eid now planId DualWrite ''dual_write_started'' [] (put_plan planId plan' s)))))"

definition startShadowRead ::
  "string \<Rightarrow> instant \<Rightarrow> string \<Rightarrow> migration_service \<Rightarrow> migration_plan mig_result" where
  "startShadowRead eid now planId s =
     (case requirePlan planId s of
        Inl e \<Rightarrow> (Inl e, s)
      | Inr plan \<Rightarrow>
        (case assertPhase plan DualWrite ShadowRead of
           Some e \<Rightarrow> (Inl e, s)
         | None \<Rightarrow>
           (let plan' = plan\<lparr>pl_phase := ShadowRead,
                  pl_progress := (pl_progress plan)\<lparr>mp_shadowReadStartedAt := Some now\<rparr>,
                  pl_updatedAt := now\<rparr>
            in (Inr plan', addEvent eid now planId ShadowRead ''shadow_read_started'' [] (put_plan planId plan' s)))))"

definition toFixed0_s :: "int \<Rightarrow> string" where
  \<comment> \<open>\<open>(ms / 1000).toFixed(0)\<close>\<close>
  "toFixed0_s ms =
     (if ms < 0 then CHR ''-'' # show_nat (nat ((- ms + 500) div 1000))
      else show_nat (nat ((ms + 500) div 1000)))"

definition cutover_check :: "instant \<Rightarrow> migration_plan \<Rightarrow> ds_exn option" where
  "cutover_check now plan =
     (let c = pl_cutoverCriteria plan; pr = pl_progress plan;
          mismatch = filter (\<lambda>cs. \<not> cs_match cs) (pl_checksums plan) in
      if cc_maxDivergenceCount c < mp_divergenceCount pr then
        Some (PlainError (''divergence count '' @ show_int (mp_divergenceCount pr) @ '' exceeds max ''
          @ show_int (cc_maxDivergenceCount c)))
      else case mp_shadowReadStartedAt pr of
        Some t \<Rightarrow>
          if now - t < 1000 * cc_minShadowReadSeconds c then
            Some (PlainError (''shadow read has only run '' @ toFixed0_s (now - t) @ ''s, need ''
              @ show_int (cc_minShadowReadSeconds c) @ ''s''))
          else if cc_requireChecksumMatch c \<and> mismatch \<noteq> [] then
            Some (PlainError (''checksum mismatch on domains: ''
              @ str_join '', '' (map (\<lambda>m. domain_str (cs_domain m)) mismatch)))
          else None
      | None \<Rightarrow>
          if cc_requireChecksumMatch c \<and> mismatch \<noteq> [] then
            Some (PlainError (''checksum mismatch on domains: ''
              @ str_join '', '' (map (\<lambda>m. domain_str (cs_domain m)) mismatch)))
          else None)"

definition cutover ::
  "string \<Rightarrow> instant \<Rightarrow> string \<Rightarrow> migration_service \<Rightarrow> migration_plan mig_result" where
  "cutover eid now planId s =
     (case requirePlan planId s of
        Inl e \<Rightarrow> (Inl e, s)
      | Inr plan \<Rightarrow>
        (case assertPhase plan ShadowRead Cutover of
           Some e \<Rightarrow> (Inl e, s)
         | None \<Rightarrow>
           (case cutover_check now plan of
              Some e \<Rightarrow> (Inl e, s)
            | None \<Rightarrow>
              (let plan' = plan\<lparr>pl_phase := Cutover, pl_updatedAt := now\<rparr>
               in (Inr plan', addEvent eid now planId Cutover ''cutover_executed''
                     [(''divergenceCount'', DNum (mp_divergenceCount (pl_progress plan')))]
                     (put_plan planId plan' s))))))"

definition completeMigration ::
  "string \<Rightarrow> instant \<Rightarrow> string \<Rightarrow> migration_service \<Rightarrow> migration_plan mig_result" where
  "completeMigration eid now planId s =
     (case requirePlan planId s of
        Inl e \<Rightarrow> (Inl e, s)
      | Inr plan \<Rightarrow>
        (case assertPhase plan Cutover Completed of
           Some e \<Rightarrow> (Inl e, s)
         | None \<Rightarrow>
           (let plan' = plan\<lparr>pl_phase := Completed, pl_updatedAt := now\<rparr>
            in (Inr plan', addEvent eid now planId Completed ''migration_completed'' [] (put_plan planId plan' s)))))"

definition rollback ::
  "string \<Rightarrow> instant \<Rightarrow> string \<Rightarrow> string \<Rightarrow> migration_service \<Rightarrow> migration_plan mig_result" where
  "rollback eid now planId reason s =
     (case requirePlan planId s of
        Inl e \<Rightarrow> (Inl e, s)
      | Inr plan \<Rightarrow>
        (if pl_phase plan = Completed \<or> pl_phase plan = Idle then
           (Inl (PlainError (''cannot rollback from phase '' @ phase_str (pl_phase plan))), s)
         else
           (let plan' = plan\<lparr>pl_phase := Rollback, pl_error := Some reason, pl_updatedAt := now\<rparr>
            in (Inr plan', addEvent eid now planId Rollback ''migration_rolled_back''
                  [(''reason'', DStr reason)] (put_plan planId plan' s)))))"

definition patch_progress :: "progress_patch \<Rightarrow> migration_progress \<Rightarrow> migration_progress" where
  "patch_progress p pr =
     \<lparr>mp_totalDocuments = (case mpp_totalDocuments p of None \<Rightarrow> mp_totalDocuments pr | Some x \<Rightarrow> x),
      mp_migratedDocuments = (case mpp_migratedDocuments p of None \<Rightarrow> mp_migratedDocuments pr | Some x \<Rightarrow> x),
      mp_divergenceCount = (case mpp_divergenceCount p of None \<Rightarrow> mp_divergenceCount pr | Some x \<Rightarrow> x),
      mp_shadowReadStartedAt = (case mpp_shadowReadStartedAt p of None \<Rightarrow> mp_shadowReadStartedAt pr | Some x \<Rightarrow> Some x),
      mp_lastChecksumAt = (case mpp_lastChecksumAt p of None \<Rightarrow> mp_lastChecksumAt pr | Some x \<Rightarrow> Some x)\<rparr>"

definition updateProgress ::
  "instant \<Rightarrow> string \<Rightarrow> progress_patch \<Rightarrow> migration_service \<Rightarrow> unit mig_result" where
  "updateProgress now planId patch s =
     (case requirePlan planId s of
        Inl e \<Rightarrow> (Inl e, s)
      | Inr plan \<Rightarrow>
        (Inr (), put_plan planId
           (plan\<lparr>pl_progress := patch_progress patch (pl_progress plan), pl_updatedAt := now\<rparr>) s))"

definition with_domain :: "entity_domain \<Rightarrow> details \<Rightarrow> details" where
  \<comment> \<open>\<open>{ domain, ...details }\<close>: a detail named \<open>domain\<close> takes the place of the domain\<close>
  "with_domain d det = fold (\<lambda>(k, v). AList.update k v) det [(''domain'', DStr (domain_str d))]"

definition recordDivergence ::
  "string \<Rightarrow> instant \<Rightarrow> string \<Rightarrow> entity_domain \<Rightarrow> details \<Rightarrow> migration_service \<Rightarrow> unit mig_result" where
  "recordDivergence eid now planId domain det s =
     (case requirePlan planId s of
        Inl e \<Rightarrow> (Inl e, s)
      | Inr plan \<Rightarrow>
        (let plan' = plan\<lparr>pl_progress :=
               (pl_progress plan)\<lparr>mp_divergenceCount := mp_divergenceCount (pl_progress plan) + 1\<rparr>,
               pl_updatedAt := now\<rparr>
         in (Inr (), addEvent eid now planId (pl_phase plan') ''divergence_detected''
               (with_domain domain det) (put_plan planId plan' s))))"

fun replace_checksum :: "domain_checksum \<Rightarrow> domain_checksum list \<Rightarrow> domain_checksum list" where
  \<comment> \<open>the first entry of the domain is replaced, else the entry is appended\<close>
  "replace_checksum cs [] = [cs]"
| "replace_checksum cs (c # rest) =
     (if cs_domain c = cs_domain cs then cs # rest else c # replace_checksum cs rest)"

definition computeChecksum ::
  "string \<Rightarrow> instant \<Rightarrow> string \<Rightarrow> entity_domain \<Rightarrow> nat \<Rightarrow> nat \<Rightarrow> migration_service
     \<Rightarrow> domain_checksum mig_result" where
  \<comment> \<open>\<open>sourceCount\<close> and \<open>targetCount\<close> are what the two repositories answer\<close>
  "computeChecksum eid now planId domain sourceCount targetCount s =
     (case requirePlan planId s of
        Inl e \<Rightarrow> (Inl e, s)
      | Inr plan \<Rightarrow>
        (let srcHash = ''count:'' @ show_nat sourceCount; tgtHash = ''count:'' @ show_nat targetCount;
             cs = \<lparr>cs_domain = domain, cs_sourceChecksum = srcHash, cs_targetChecksum = tgtHash,
                   cs_match = (srcHash = tgtHash), cs_computedAt = now\<rparr>;
             plan' = plan\<lparr>pl_checksums := replace_checksum cs (pl_checksums plan),
                   pl_progress := (pl_progress plan)\<lparr>mp_lastChecksumAt := Some now\<rparr>,
                   pl_updatedAt := now\<rparr>
         in (Inr cs, addEvent eid now planId (pl_phase plan') ''checksum_computed''
               [(''domain'', DStr (domain_str domain)), (''match'', DBool (cs_match cs)),
                (''srcHash'', DStr srcHash), (''tgtHash'', DStr tgtHash)]
               (put_plan planId plan' s))))"


definition ms_reset :: "migration_service \<Rightarrow> migration_service" where
  "ms_reset s = \<lparr>ms_plans = [], ms_events = []\<rparr>"

lemmas migration_ops =
  createPlan_def startDualWrite_def startShadowRead_def cutover_def completeMigration_def
  rollback_def updateProgress_def recordDivergence_def computeChecksum_def

lemmas migration_helpers = requirePlan_def assertPhase_def addEvent_def put_plan_def

section \<open>Errors leave the service as it was\<close>

lemma mig_error_unchanged:
  "createPlan pid eid now tn sp tp ds cr s = (Inl e, t) \<Longrightarrow> t = s"
  "startDualWrite eid now pid s = (Inl e, t) \<Longrightarrow> t = s"
  "startShadowRead eid now pid s = (Inl e, t) \<Longrightarrow> t = s"
  "cutover eid now pid s = (Inl e, t) \<Longrightarrow> t = s"
  "completeMigration eid now pid s = (Inl e, t) \<Longrightarrow> t = s"
  "rollback eid now pid reason s = (Inl e, t) \<Longrightarrow> t = s"
  "updateProgress now pid patch s = (Inl e, t) \<Longrightarrow> t = s"
  "recordDivergence eid now pid d det s = (Inl e, t) \<Longrightarrow> t = s"
  "computeChecksum eid now pid d n m s = (Inl e, t) \<Longrightarrow> t = s"
  by (auto simp: migration_ops Let_def split: if_splits sum.splits option.splits)

section \<open>Steps and reachable states\<close>

text \<open>
  One successful call is a step. \<open>uuid()\<close> gives a plan an identifier that no plan and no
  event carries.
\<close>

inductive mig_step :: "migration_service \<Rightarrow> migration_service \<Rightarrow> bool" where
  step_create: "createPlan pid eid now tn sp tp ds cr s = (Inr p, t) \<Longrightarrow>
    map_of (ms_plans s) pid = None \<Longrightarrow> (\<forall>e \<in> set (ms_events s). me_migrationId e \<noteq> pid) \<Longrightarrow> mig_step s t"
| step_dual: "startDualWrite eid now pid s = (Inr p, t) \<Longrightarrow> mig_step s t"
| step_shadow: "startShadowRead eid now pid s = (Inr p, t) \<Longrightarrow> mig_step s t"
| step_cutover: "cutover eid now pid s = (Inr p, t) \<Longrightarrow> mig_step s t"
| step_complete: "completeMigration eid now pid s = (Inr p, t) \<Longrightarrow> mig_step s t"
| step_rollback: "rollback eid now pid reason s = (Inr p, t) \<Longrightarrow> mig_step s t"
| step_progress: "updateProgress now pid patch s = (Inr u, t) \<Longrightarrow> mig_step s t"
| step_divergence: "recordDivergence eid now pid d det s = (Inr u, t) \<Longrightarrow> mig_step s t"
| step_checksum: "computeChecksum eid now pid d n m s = (Inr c, t) \<Longrightarrow> mig_step s t"

inductive mig_reachable :: "migration_service \<Rightarrow> bool" where
  reach_new: "mig_reachable new_MigrationService"
| reach_step: "mig_reachable s \<Longrightarrow> mig_step s t \<Longrightarrow> mig_reachable t"

text \<open>The phases a plan may go through.\<close>

inductive phase_edge :: "migration_phase \<Rightarrow> migration_phase \<Rightarrow> bool" where
  "phase_edge Idle DualWrite"
| "phase_edge DualWrite ShadowRead"
| "phase_edge ShadowRead Cutover"
| "phase_edge Cutover Completed"
| "p \<noteq> Idle \<Longrightarrow> p \<noteq> Completed \<Longrightarrow> phase_edge p Rollback"

inductive_simps phase_edge_iff: "phase_edge p q"
inductive_cases from_completed: "phase_edge Completed q"

definition transition_actions :: "string list" where
  "transition_actions =
     [''plan_created'', ''dual_write_started'', ''shadow_read_started'', ''cutover_executed'',
      ''migration_completed'', ''migration_rolled_back'']"

definition phase_trail :: "string \<Rightarrow> migration_service \<Rightarrow> migration_phase list" where
  "phase_trail pid s =
     map me_phase (filter (\<lambda>e. me_migrationId e = pid \<and> me_action e \<in> set transition_actions) (ms_events s))"

definition same_plan :: "migration_plan \<Rightarrow> migration_plan \<Rightarrow> bool" where
  \<comment> \<open>what no operation changes of a plan\<close>
  "same_plan p q \<longleftrightarrow> pl_id q = pl_id p \<and> pl_tenantId q = pl_tenantId p
     \<and> pl_sourceProvider q = pl_sourceProvider p \<and> pl_targetProvider q = pl_targetProvider p"

definition plan_moved :: "string \<Rightarrow> migration_plan \<Rightarrow> migration_plan \<Rightarrow> migration_service \<Rightarrow> migration_service \<Rightarrow> bool" where
  \<comment> \<open>the plan under \<open>pid\<close> became \<open>q\<close>, and the trail records a change of phase\<close>
  "plan_moved pid p q s t \<longleftrightarrow> map_of (ms_plans s) pid = Some p \<and> same_plan p q
     \<and> ms_plans t = AList.update pid q (ms_plans s)
     \<and> (pl_phase q = pl_phase p \<and> phase_trail pid t = phase_trail pid s
        \<or> phase_edge (pl_phase p) (pl_phase q) \<and> phase_trail pid t = phase_trail pid s @ [pl_phase q])
     \<and> (\<forall>pid'. pid' \<noteq> pid \<longrightarrow> phase_trail pid' t = phase_trail pid' s)"

definition plan_added :: "string \<Rightarrow> migration_plan \<Rightarrow> migration_service \<Rightarrow> migration_service \<Rightarrow> bool" where
  "plan_added pid q s t \<longleftrightarrow> map_of (ms_plans s) pid = None \<and> pl_id q = pid \<and> pl_phase q = Idle
     \<and> pl_sourceProvider q \<noteq> pl_targetProvider q
     \<and> (\<forall>p \<in> set (map_values (ms_plans s)). pl_tenantId p = pl_tenantId q \<longrightarrow> \<not> is_active_plan p)
     \<and> ms_plans t = AList.update pid q (ms_plans s)
     \<and> phase_trail pid s = [] \<and> phase_trail pid t = [Idle]
     \<and> (\<forall>pid'. pid' \<noteq> pid \<longrightarrow> phase_trail pid' t = phase_trail pid' s)"

lemma plan_moved_event:
  assumes "map_of (ms_plans s) pid = Some p" "same_plan p q"
    and "action \<in> set transition_actions \<Longrightarrow> phase_edge (pl_phase p) (pl_phase q) \<and> ph = pl_phase q"
    and "action \<notin> set transition_actions \<Longrightarrow> pl_phase q = pl_phase p"
  shows "plan_moved pid p q s (addEvent eid now pid ph action det (put_plan pid q s))"
  using assms by (cases "action \<in> set transition_actions")
    (simp_all add: plan_moved_def addEvent_def put_plan_def phase_trail_def)

lemmas op_unfold = requirePlan_def assertPhase_def Let_def

lemma mig_step_cases:
  assumes "mig_step s t"
  obtains (added) pid q where "plan_added pid q s t"
  | (moved) pid p q where "plan_moved pid p q s t"
  using assms
proof (cases rule: mig_step.cases)
  case (step_create pid eid now tn sp tp ds cr p)
  have "plan_added pid p s t"
    using step_create
    by (auto simp: createPlan_def plan_added_def Let_def addEvent_def put_plan_def phase_trail_def
        transition_actions_def find_None_iff_all filter_empty_conv split: if_splits option.splits)
  then show thesis by (rule added)
next
  case (step_dual eid now pid p)
  then obtain p0 where "map_of (ms_plans s) pid = Some p0" "pl_phase p0 = Idle" "same_plan p0 p"
      "pl_phase p = DualWrite"
      "t = addEvent eid now pid DualWrite ''dual_write_started'' [] (put_plan pid p s)"
    by (auto simp: startDualWrite_def op_unfold same_plan_def split: option.splits if_splits)
  then have "plan_moved pid p0 p s t"
    by (auto intro!: plan_moved_event simp: transition_actions_def phase_edge_iff)
  then show thesis by (rule moved)
next
  case (step_shadow eid now pid p)
  then obtain p0 where "map_of (ms_plans s) pid = Some p0" "pl_phase p0 = DualWrite" "same_plan p0 p"
      "pl_phase p = ShadowRead"
      "t = addEvent eid now pid ShadowRead ''shadow_read_started'' [] (put_plan pid p s)"
    by (auto simp: startShadowRead_def op_unfold same_plan_def split: option.splits if_splits)
  then have "plan_moved pid p0 p s t"
    by (auto intro!: plan_moved_event simp: transition_actions_def phase_edge_iff)
  then show thesis by (rule moved)
next
  case (step_cutover eid now pid p)
  then obtain p0 where "map_of (ms_plans s) pid = Some p0" "pl_phase p0 = ShadowRead" "same_plan p0 p"
      "pl_phase p = Cutover"
      "t = addEvent eid now pid Cutover ''cutover_executed'' [(''divergenceCount'', DNum (mp_divergenceCount (pl_progress p)))] (put_plan pid p s)"
    by (auto simp: cutover_def op_unfold same_plan_def split: option.splits if_splits)
  then have "plan_moved pid p0 p s t"
    by (auto intro!: plan_moved_event simp: transition_actions_def phase_edge_iff)
  then show thesis by (rule moved)
next
  case (step_complete eid now pid p)
  then obtain p0 where "map_of (ms_plans s) pid = Some p0" "pl_phase p0 = Cutover" "same_plan p0 p"
      "pl_phase p = Completed"
      "t = addEvent eid now pid Completed ''migration_completed'' [] (put_plan pid p s)"
    by (auto simp: completeMigration_def op_unfold same_plan_def split: option.splits if_splits)
  then have "plan_moved pid p0 p s t"
    by (auto intro!: plan_moved_event simp: transition_actions_def phase_edge_iff)
  then show thesis by (rule moved)
next
  case (step_rollback eid now pid reason p)
  then obtain p0 where "map_of (ms_plans s) pid = Some p0" "pl_phase p0 \<noteq> Idle \<and> pl_phase p0 \<noteq> Completed" "same_plan p0 p"
      "pl_phase p = Rollback"
      "t = addEvent eid now pid Rollback ''migration_rolled_back'' [(''reason'', DStr reason)] (put_plan pid p s)"
    by (auto simp: rollback_def op_unfold same_plan_def split: option.splits if_splits)
  then have "plan_moved pid p0 p s t"
    by (auto intro!: plan_moved_event simp: transition_actions_def phase_edge_iff)
  then show thesis by (rule moved)
next
  case (step_progress now pid patch u)
  then obtain p0 where "plan_moved pid p0
      (p0\<lparr>pl_progress := patch_progress patch (pl_progress p0), pl_updatedAt := now\<rparr>) s t"
    by (auto simp: updateProgress_def requirePlan_def plan_moved_def same_plan_def put_plan_def
        phase_trail_def split: option.splits)
  then show thesis by (rule moved)
next
  case (step_divergence eid now pid d det u)
  obtain p0 where p0: "map_of (ms_plans s) pid = Some p0"
    using step_divergence by (auto simp: recordDivergence_def requirePlan_def split: option.splits)
  let ?q = "p0\<lparr>pl_progress := (pl_progress p0)
      \<lparr>mp_divergenceCount := mp_divergenceCount (pl_progress p0) + 1\<rparr>, pl_updatedAt := now\<rparr>"
  have "t = addEvent eid now pid (pl_phase ?q) ''divergence_detected''
      (with_domain d det) (put_plan pid ?q s)"
    using step_divergence p0 by (simp add: recordDivergence_def requirePlan_def Let_def)
  then have "plan_moved pid p0 ?q s t"
    using p0 by (auto intro!: plan_moved_event simp: same_plan_def transition_actions_def)
  then show thesis by (rule moved)
next
  case (step_checksum eid now pid d n m c)
  obtain p0 where p0: "map_of (ms_plans s) pid = Some p0"
    using step_checksum by (auto simp: computeChecksum_def requirePlan_def split: option.splits)
  then obtain q det where q: "t = addEvent eid now pid (pl_phase q) ''checksum_computed'' det (put_plan pid q s)"
      "same_plan p0 q" "pl_phase q = pl_phase p0"
    using step_checksum by (auto simp: computeChecksum_def requirePlan_def Let_def same_plan_def)
  then have "plan_moved pid p0 q s t"
    using p0 by (auto intro!: plan_moved_event simp: transition_actions_def)
  then show thesis by (rule moved)
qed

section \<open>Invariants\<close>

definition plans_ok :: "migration_service \<Rightarrow> bool" where
  \<comment> \<open>plans are filed under their identifiers and move between distinct providers\<close>
  "plans_ok s \<longleftrightarrow> wf_map (ms_plans s)
     \<and> (\<forall>pid p. map_of (ms_plans s) pid = Some p \<longrightarrow> pl_id p = pid \<and> pl_sourceProvider p \<noteq> pl_targetProvider p)"

definition one_active :: "migration_service \<Rightarrow> bool" where
  "one_active s \<longleftrightarrow> (\<forall>pid pid' p q. map_of (ms_plans s) pid = Some p \<longrightarrow> map_of (ms_plans s) pid' = Some q
     \<longrightarrow> pl_tenantId p = pl_tenantId q \<longrightarrow> is_active_plan p \<longrightarrow> is_active_plan q \<longrightarrow> pid = pid')"

definition trail_ok :: "migration_phase list \<Rightarrow> migration_phase \<Rightarrow> bool" where
  \<comment> \<open>a path of the phase graph from \<open>Idle\<close> to the given phase\<close>
  "trail_ok tr ph \<longleftrightarrow> tr \<noteq> [] \<and> hd tr = Idle \<and> last tr = ph \<and> successively phase_edge tr"

definition trails_ok :: "migration_service \<Rightarrow> bool" where
  "trails_ok s \<longleftrightarrow> (\<forall>pid p. map_of (ms_plans s) pid = Some p \<longrightarrow> trail_ok (phase_trail pid s) (pl_phase p))"

lemma plans_ok_step: "mig_step s t \<Longrightarrow> plans_ok s \<Longrightarrow> plans_ok t"
  by (erule mig_step_cases)
    (auto simp: plans_ok_def plan_added_def plan_moved_def same_plan_def split: if_splits)

lemma edge_keeps_active: "phase_edge p q \<Longrightarrow> q \<noteq> Completed \<Longrightarrow> q \<noteq> Rollback \<Longrightarrow> p \<noteq> Completed \<and> p \<noteq> Rollback"
  by (auto simp: phase_edge_iff)

lemma one_active_step:
  assumes "mig_step s t" "plans_ok s" "one_active s"
  shows "one_active t"
  using assms(1)
proof (cases rule: mig_step_cases)
  case (added pid q)
  then have "pl_tenantId p \<noteq> pl_tenantId q \<or> \<not> is_active_plan p"
    if "map_of (ms_plans s) k = Some p" for k p
    using map_of_values [OF that] by (auto simp: plan_added_def)
  then show ?thesis
    using added assms(3) unfolding one_active_def plan_added_def by (auto split: if_splits; metis)
next
  case (moved pid p q)
  then have m: "map_of (ms_plans s) pid = Some p" "pl_tenantId q = pl_tenantId p"
      "ms_plans t = AList.update pid q (ms_plans s)"
    by (auto simp: plan_moved_def same_plan_def)
  have "is_active_plan q \<Longrightarrow> is_active_plan p"
    using moved edge_keeps_active [of "pl_phase p" "pl_phase q"]
    by (auto simp: plan_moved_def is_active_plan_def)
  then show ?thesis
    using m assms(3) unfolding one_active_def by (auto split: if_splits; metis)
qed

lemma trail_ok_snoc: "trail_ok tr ph \<Longrightarrow> phase_edge ph ph' \<Longrightarrow> trail_ok (tr @ [ph']) ph'"
  by (auto simp: trail_ok_def successively_append_iff)

lemma trails_ok_step:
  assumes "mig_step s t" "trails_ok s"
  shows "trails_ok t"
  using assms(1)
proof (cases rule: mig_step_cases)
  case (added pid q)
  then have "trail_ok (phase_trail pid t) (pl_phase q)" by (simp add: plan_added_def trail_ok_def)
  then show ?thesis using added assms(2) by (simp add: trails_ok_def plan_added_def)
next
  case (moved pid p q)
  then have "trail_ok (phase_trail pid s) (pl_phase p)"
    using assms(2) by (simp add: trails_ok_def plan_moved_def)
  then have "trail_ok (phase_trail pid t) (pl_phase q)"
    using moved by (auto simp: plan_moved_def intro: trail_ok_snoc)
  then show ?thesis using moved assms(2) by (simp add: trails_ok_def plan_moved_def)
qed

lemma mig_reachable_inv: "mig_reachable s \<Longrightarrow> plans_ok s \<and> one_active s \<and> trails_ok s"
proof (induction rule: mig_reachable.induct)
  case reach_new
  show ?case by (simp add: plans_ok_def one_active_def trails_ok_def new_MigrationService_def)
next
  case (reach_step s t)
  then show ?case by (blast intro: plans_ok_step one_active_step trails_ok_step)
qed

section \<open>The cutover guard and the checksums\<close>






lemma replace_checksum_find:
  "List.find (\<lambda>c. cs_domain c = d) (replace_checksum cs xs) =
     (if d = cs_domain cs then Some cs else List.find (\<lambda>c. cs_domain c = d) xs)"
  by (induction xs) auto


section \<open>What the log tells of a plan\<close>


















section \<open>Properties\<close>

text \<open>
  C25: a tenant never has two migrations in progress: of its plans at most one is neither
  completed nor rolled back, in every reachable state.
\<close>

theorem one_migration_per_tenant:
  assumes "mig_reachable s" and "map_of (ms_plans s) i = Some p" and "map_of (ms_plans s) j = Some q"
    and "pl_tenantId p = pl_tenantId q" and "is_active_plan p" and "is_active_plan q"
  shows "i = j"
  using mig_reachable_inv [OF assms(1)] assms(2-6) unfolding one_active_def by blast

definition sample_service :: migration_service where
  "sample_service = snd (startDualWrite ''e2'' 2 ''m1''
     (snd (createPlan ''m1'' ''e1'' 1 ''acme'' MongoDB DynamoDB [Messages]
        \<lparr>ccp_minShadowReadSeconds = None, ccp_maxDivergenceCount = None, ccp_requireChecksumMatch = None\<rparr>
        new_MigrationService)))"

definition sample_plan :: migration_plan where
  "sample_plan = the (map_of (ms_plans sample_service) ''m1'')"

lemma sample_reachable: "mig_reachable sample_service"
proof -
  let ?cr = "\<lparr>ccp_minShadowReadSeconds = None, ccp_maxDivergenceCount = None, ccp_requireChecksumMatch = None\<rparr>"
  let ?c = "createPlan ''m1'' ''e1'' 1 ''acme'' MongoDB DynamoDB [Messages] ?cr new_MigrationService"
  let ?d = "startDualWrite ''e2'' 2 ''m1'' (snd ?c)"
  have c: "?c = (Inr (projr (fst ?c)), snd ?c)" and d: "?d = (Inr (projr (fst ?d)), snd ?d)"
    by (simp_all add: createPlan_def startDualWrite_def migration_helpers new_MigrationService_def Let_def)
  have "mig_step new_MigrationService (snd ?c)"
    by (rule step_create [OF c]) (simp_all add: new_MigrationService_def)
  moreover have "mig_step (snd ?c) (snd ?d)" by (rule step_dual [OF d])
  ultimately show ?thesis
    unfolding sample_service_def by (blast intro: mig_reachable.intros)
qed

lemma sample_plan_at: "map_of (ms_plans sample_service) ''m1'' = Some sample_plan"
  unfolding sample_plan_def option.collapse by code_simp

theorem one_migration_per_tenant_witness:
  "is_active_plan sample_plan \<and> (''m1'' :: string) = ''m1''"
proof
  show a: "is_active_plan sample_plan" by code_simp
  show "(''m1'' :: string) = ''m1''"
    by (rule one_migration_per_tenant [OF sample_reachable sample_plan_at sample_plan_at refl a a])
qed

text \<open>
  C26: the event log of a plan tells its phases, and they are a path of the phase graph: idle,
  dual write, shadow read, cutover, completed in this order, with a rollback possible from any
  phase but idle and completed. In particular a completed migration has been through a cutover
  and is never left again.
\<close>

theorem migration_follows_phase_graph:
  assumes "mig_reachable s" and "map_of (ms_plans s) i = Some p"
  shows "hd (phase_trail i s) = Idle \<and> last (phase_trail i s) = pl_phase p
    \<and> successively phase_edge (phase_trail i s) \<and> Completed \<notin> set (butlast (phase_trail i s))"
proof -
  have tr: "trail_ok (phase_trail i s) (pl_phase p)"
    using mig_reachable_inv [OF assms(1)] assms(2) by (simp add: trails_ok_def)
  have "Completed \<notin> set (butlast tr)" if "successively phase_edge tr" for tr
    using that
  proof (induction tr)
    case Nil
    then show ?case by simp
  next
    case (Cons x tr)
    then show ?case by (cases tr) (auto simp: phase_edge_iff)
  qed
  with tr show ?thesis by (simp add: trail_ok_def)
qed

theorem migration_follows_phase_graph_witness:
  "hd (phase_trail ''m1'' sample_service) = Idle \<and> last (phase_trail ''m1'' sample_service) = DualWrite"
proof -
  have "pl_phase sample_plan = DualWrite" by code_simp
  then show ?thesis using migration_follows_phase_graph [OF sample_reachable sample_plan_at] by simp
qed





text \<open>
  A computed checksum compares document counts only: it matches exactly if source and
  target count the same number of documents; the plan then holds it as the one checksum of the
  domain, and the checksums of the other domains are untouched.
\<close>

lemma checksum_compares_counts:
  assumes "map_of (ms_plans s) pid = Some p"
  shows "\<exists>cs t q. computeChecksum eid now pid d n m s = (Inr cs, t)
    \<and> (cs_match cs \<longleftrightarrow> n = m) \<and> map_of (ms_plans t) pid = Some q
    \<and> (\<forall>d'. List.find (\<lambda>c. cs_domain c = d') (pl_checksums q) =
         (if d' = d then Some cs else List.find (\<lambda>c. cs_domain c = d') (pl_checksums p)))"
proof -
  have "computeChecksum eid now pid d n m s = (case computeChecksum eid now pid d n m s of (Inr cs, t) \<Rightarrow> (Inr cs, t))"
    using assms by (simp add: computeChecksum_def requirePlan_def Let_def)
  then show ?thesis
    using assms by (simp add: computeChecksum_def requirePlan_def Let_def addEvent_def put_plan_def
        replace_checksum_find show_nat_inj)
qed

lemma checksum_compares_counts_example:
  "\<exists>cs t. computeChecksum ''e3'' 9 ''m1'' Messages 7 8 sample_service = (Inr cs, t) \<and> \<not> cs_match cs"
  using checksum_compares_counts [OF sample_plan_at, of "''e3''" 9 Messages 7 8] by auto

end
