(* ===== verification/DsCredentials.thy ===== *)
theory DsCredentials
  imports DsTypes
begin

text \<open>
  The credential manager (services/flexible-datastore/src/credentials). A credential is kept
  encrypted as \<open>iv:tag:ciphertext\<close>, each in hexadecimal. The AES-256-GCM primitives of the
  runtime are parameters: \<open>enc key iv plaintext\<close> gives the ciphertext and the tag, and
  \<open>dec key iv tag ciphertext\<close> the plaintext, or \<open>None\<close> where the cipher throws (a wrong
  tag). A key that is not 32 bytes long makes both throw. The random initialisation vector and
  the generated ids are inputs of an operation. \<open>parse_date\<close> stands for \<open>new Date(text)\<close>
  (\<open>None\<close> is the invalid date, which compares as false).
\<close>

section \<open>State\<close>

datatype credential_action = CCreate | CRotate | CRevoke

record credential_audit_entry =
  ca_id :: string
  ca_timestamp :: instant
  ca_tenantId :: string
  ca_action :: credential_action
  ca_credentialId :: string
  ca_actor :: string

record credential_manager =
  cm_credentials :: "(string, credential_record) jsmap"
  cm_encryptionKey :: string
  cm_auditLog :: "credential_audit_entry list"

type_synonym cipher_enc = "string \<Rightarrow> string \<Rightarrow> string \<Rightarrow> string \<times> string"
type_synonym cipher_dec = "string \<Rightarrow> string \<Rightarrow> string \<Rightarrow> string \<Rightarrow> string option"

definition CredentialManager :: "string option \<Rightarrow> string \<Rightarrow> credential_manager" where
  "CredentialManager masterKeyHex random_key =
     \<lparr>cm_credentials = [],
      cm_encryptionKey = (if truthy_str masterKeyHex then hex_decode (the masterKeyHex) else random_key),
      cm_auditLog = []\<rparr>"

section \<open>Encryption\<close>

definition encrypt :: "cipher_enc \<Rightarrow> string \<Rightarrow> string \<Rightarrow> string \<Rightarrow> ds_exn + string" where
  "encrypt enc key iv plaintext =
     (if length key \<noteq> 32 then Inl RuntimeError
      else (let (ct, tag) = enc key iv plaintext in
        Inr (hex_encode iv @ '':'' @ hex_encode tag @ '':'' @ hex_encode ct)))"

definition decrypt :: "cipher_dec \<Rightarrow> string \<Rightarrow> string \<Rightarrow> ds_exn + string" where
  "decrypt dec key payload =
     (case str_split (CHR '':'') payload of
        ivHex # tagHex # encrypted # _ \<Rightarrow>
          if length key \<noteq> 32 then Inl RuntimeError
          else (case dec key (hex_decode ivHex) (hex_decode tagHex) (hex_decode encrypted) of
              None \<Rightarrow> Inl RuntimeError
            | Some plaintext \<Rightarrow> Inr plaintext)
      | _ \<Rightarrow> Inl RuntimeError)"

section \<open>Operations\<close>

definition cm_recordAudit ::
    "string \<Rightarrow> instant \<Rightarrow> string \<Rightarrow> credential_action \<Rightarrow> string \<Rightarrow> string
     \<Rightarrow> credential_manager \<Rightarrow> credential_manager" where
  "cm_recordAudit aid now tenantId action credentialId actor m =
     m\<lparr>cm_auditLog := cm_auditLog m @
       [\<lparr>ca_id = aid, ca_timestamp = now, ca_tenantId = tenantId, ca_action = action,
         ca_credentialId = credentialId, ca_actor = actor\<rparr>]\<rparr>"

definition actor_or_system :: "string option \<Rightarrow> string" where
  "actor_or_system a = (case a of None \<Rightarrow> ''system'' | Some x \<Rightarrow> x)"

definition cm_store ::
    "cipher_enc \<Rightarrow> string \<Rightarrow> string \<Rightarrow> string \<Rightarrow> instant \<Rightarrow> string \<Rightarrow> string \<Rightarrow> provider \<Rightarrow> auth_mode
     \<Rightarrow> string \<Rightarrow> string option \<Rightarrow> string option \<Rightarrow> credential_manager
     \<Rightarrow> credential_manager \<times> (ds_exn + credential_record)" where
  "cm_store enc iv rid aid now profileId tenantId prov authMode rawCredential expiresAt actor m =
     (case encrypt enc (cm_encryptionKey m) iv rawCredential of
        Inl e \<Rightarrow> (m, Inl e)
      | Inr payload \<Rightarrow>
          (let r = \<lparr>cr_id = rid, cr_profileId = profileId, cr_tenantId = tenantId,
                 cr_provider = prov, cr_authMode = authMode, cr_encryptedPayload = payload,
                 cr_expiresAt = expiresAt, cr_rotatedAt = None, cr_createdAt = now,
                 cr_version = 1\<rparr>
           in (cm_recordAudit aid now tenantId CCreate rid (actor_or_system actor)
                 (m\<lparr>cm_credentials := AList.update rid r (cm_credentials m)\<rparr>), Inr r)))"

definition cr_expired :: "(string \<Rightarrow> instant option) \<Rightarrow> instant \<Rightarrow> credential_record \<Rightarrow> bool" where
  "cr_expired parse_date now r \<longleftrightarrow> truthy_str (cr_expiresAt r)
     \<and> (case parse_date (the (cr_expiresAt r)) of None \<Rightarrow> False | Some t \<Rightarrow> t < now)"

definition credential_missing :: "string \<Rightarrow> ds_exn" where
  "credential_missing i = PlainError (''Credential '' @ i @ '' not found'')"

definition cm_retrieve ::
    "cipher_dec \<Rightarrow> (string \<Rightarrow> instant option) \<Rightarrow> instant \<Rightarrow> string \<Rightarrow> credential_manager \<Rightarrow> ds_exn + string" where
  "cm_retrieve dec parse_date now credentialId m =
     (case map_of (cm_credentials m) credentialId of
        None \<Rightarrow> Inl (credential_missing credentialId)
      | Some r \<Rightarrow>
          if cr_expired parse_date now r
          then Inl (DsError (CredentialExpiredError (provider_str (cr_provider r))))
          else decrypt dec (cm_encryptionKey m) (cr_encryptedPayload r))"

definition cm_rotate ::
    "cipher_enc \<Rightarrow> string \<Rightarrow> string \<Rightarrow> instant \<Rightarrow> string \<Rightarrow> string \<Rightarrow> string option \<Rightarrow> credential_manager
     \<Rightarrow> credential_manager \<times> (ds_exn + credential_record)" where
  "cm_rotate enc iv aid now credentialId newRawCredential actor m =
     (case map_of (cm_credentials m) credentialId of
        None \<Rightarrow> (m, Inl (credential_missing credentialId))
      | Some existing \<Rightarrow>
          (case encrypt enc (cm_encryptionKey m) iv newRawCredential of
             Inl e \<Rightarrow> (m, Inl e)
           | Inr payload \<Rightarrow>
               (let r = existing\<lparr>cr_encryptedPayload := payload, cr_rotatedAt := Some now,
                      cr_version := cr_version existing + 1\<rparr>
                in (cm_recordAudit aid now (cr_tenantId existing) CRotate credentialId
                      (actor_or_system actor)
                      (m\<lparr>cm_credentials := AList.update credentialId r (cm_credentials m)\<rparr>),
                    Inr r))))"

definition cm_revoke ::
    "string \<Rightarrow> instant \<Rightarrow> string \<Rightarrow> string option \<Rightarrow> credential_manager \<Rightarrow> credential_manager \<times> bool" where
  "cm_revoke aid now credentialId actor m =
     (case map_of (cm_credentials m) credentialId of
        None \<Rightarrow> (m, False)
      | Some existing \<Rightarrow>
          (let m1 = cm_recordAudit aid now (cr_tenantId existing) CRevoke credentialId
                      (actor_or_system actor) m
           in (m1\<lparr>cm_credentials := AList.delete credentialId (cm_credentials m1)\<rparr>,
               map_has (cm_credentials m1) credentialId)))"

definition cm_getByProfile :: "credential_manager \<Rightarrow> string \<Rightarrow> credential_record option" where
  "cm_getByProfile m profileId =
     List.find (\<lambda>c. cr_profileId c = profileId) (map_values (cm_credentials m))"

definition cm_getByTenant :: "credential_manager \<Rightarrow> string \<Rightarrow> credential_record list" where
  "cm_getByTenant m tenantId =
     filter (\<lambda>c. cr_tenantId c = tenantId) (map_values (cm_credentials m))"

definition cm_getRecord :: "credential_manager \<Rightarrow> string \<Rightarrow> credential_record option" where
  "cm_getRecord m i = map_of (cm_credentials m) i"

definition cm_getAuditLog :: "credential_manager \<Rightarrow> string option \<Rightarrow> credential_audit_entry list" where
  "cm_getAuditLog m tenantId =
     (if truthy_str tenantId then filter (\<lambda>e. ca_tenantId e = the tenantId) (cm_auditLog m)
      else cm_auditLog m)"

section \<open>Encryption round trip\<close>

text \<open>The documented behaviour of authenticated encryption: what was encrypted decrypts.\<close>

definition gcm_inverts :: "cipher_enc \<Rightarrow> cipher_dec \<Rightarrow> string \<Rightarrow> bool" where
  "gcm_inverts enc dec key \<longleftrightarrow>
     (\<forall>iv pt. dec key iv (snd (enc key iv pt)) (fst (enc key iv pt)) = Some pt)"

lemma decrypt_encrypt:
  assumes gcm: "gcm_inverts enc dec key"
    and e: "encrypt enc key iv pt = Inr payload"
  shows "decrypt dec key payload = Inr pt"
proof -
  obtain ct tag where ct: "enc key iv pt = (ct, tag)" by (cases "enc key iv pt")
  have split: "str_split (CHR '':'') (hex_encode iv @ CHR '':'' # hex_encode tag @ CHR '':'' # hex_encode ct)
    = [hex_encode iv, hex_encode tag, hex_encode ct]"
    using hex_no_colon by (simp add: str_split_append str_split_no_sep)
  show ?thesis
    using e ct gcm [unfolded gcm_inverts_def, rule_format, of iv pt]
    by (auto simp: encrypt_def decrypt_def split hex_round_trip split: if_splits)
qed

lemma encrypt_returns: "length key = 32 \<Longrightarrow> \<exists>p. encrypt enc key iv pt = Inr p"
  by (cases "enc key iv pt") (simp add: encrypt_def)

section \<open>Runs of the manager\<close>

datatype credential_op =
    CmStore string string string instant string string provider auth_mode string "string option" "string option"
  | CmRotate string string instant string string "string option"
  | CmRevoke string instant string "string option"

fun cm_step :: "cipher_enc \<Rightarrow> credential_op \<Rightarrow> credential_manager \<Rightarrow> credential_manager" where
  "cm_step enc (CmStore iv rid aid now pid tid prov am raw ex actor) m =
     fst (cm_store enc iv rid aid now pid tid prov am raw ex actor m)"
| "cm_step enc (CmRotate iv aid now cid raw actor) m = fst (cm_rotate enc iv aid now cid raw actor m)"
| "cm_step enc (CmRevoke aid now cid actor) m = fst (cm_revoke aid now cid actor m)"

definition cm_inv :: "credential_manager \<Rightarrow> bool" where
  "cm_inv m \<longleftrightarrow> wf_map (cm_credentials m)
     \<and> (\<forall>i r. map_of (cm_credentials m) i = Some r \<longrightarrow> cr_id r = i \<and> 1 \<le> cr_version r
          \<and> (cr_version r = 1 \<longleftrightarrow> cr_rotatedAt r = None)
          \<and> length (filter (\<lambda>e. ca_credentialId e = i \<and> ca_action e = CRotate) (cm_auditLog m))
              + 1 \<ge> nat (cr_version r)
          \<and> (\<exists>e \<in> set (cm_auditLog m). ca_credentialId e = i \<and> ca_action e = CCreate
               \<and> ca_tenantId e = cr_tenantId r))"

lemma cm_store_inv [inv_intro]:
  assumes "cm_inv m"
  shows "cm_inv (fst (cm_store enc iv rid aid now pid tid prov am raw ex actor m))"
  using assms
  by (cases "encrypt enc (cm_encryptionKey m) iv raw")
     (auto simp: cm_store_def cm_inv_def cm_recordAudit_def Let_def)

lemma cm_rotate_inv [inv_intro]:
  assumes "cm_inv m"
  shows "cm_inv (fst (cm_rotate enc iv aid now cid raw actor m))"
proof (cases "map_of (cm_credentials m) cid")
  case None
  then show ?thesis using assms by (simp add: cm_rotate_def)
next
  case (Some r)
  then show ?thesis
    using assms
    by (cases "encrypt enc (cm_encryptionKey m) iv raw")
       (fastforce simp: cm_rotate_def cm_inv_def cm_recordAudit_def Let_def)+
qed

lemma cm_revoke_inv [inv_intro]:
  assumes "cm_inv m"
  shows "cm_inv (fst (cm_revoke aid now cid actor m))"
  using assms
  by (cases "map_of (cm_credentials m) cid")
     (auto simp: cm_revoke_def cm_inv_def cm_recordAudit_def Let_def)

lemma cm_step_inv [inv_intro]: "cm_inv m \<Longrightarrow> cm_inv (cm_step enc op m)"
  by (cases op) (simp_all add: inv_intro)

interpretation cm: machine "cm_step enc" cm_inv
  by unfold_locales (rule cm_step_inv)

lemma cm_step_log: "prefix (cm_auditLog m) (cm_auditLog (cm_step enc op m))"
  by (cases op) (auto simp: cm_store_def cm_rotate_def cm_revoke_def cm_recordAudit_def Let_def
      split: sum.splits option.splits)

interpretation cm_log: audited_machine "cm_step enc" cm_auditLog
  by unfold_locales (rule cm_step_log)

lemma cm_key_run: "cm_encryptionKey (fold (cm_step enc) ops m) = cm_encryptionKey m"
proof (induction ops arbitrary: m)
  case Nil
  then show ?case by simp
next
  case (Cons op ops)
  have "cm_encryptionKey (cm_step enc op m) = cm_encryptionKey m"
    by (cases op) (auto simp: cm_store_def cm_rotate_def cm_revoke_def cm_recordAudit_def Let_def
        split: sum.splits option.splits)
  with Cons show ?case by simp
qed

definition touches :: "string \<Rightarrow> credential_op \<Rightarrow> bool" where
  "touches i op \<longleftrightarrow> (case op of CmStore iv rid aid now pid tid prov am raw ex actor \<Rightarrow> rid = i
     | CmRotate iv aid now cid raw actor \<Rightarrow> cid = i | CmRevoke aid now cid actor \<Rightarrow> cid = i)"

lemma cm_frame_step:
  "\<not> touches i op \<Longrightarrow> map_of (cm_credentials (cm_step enc op m)) i = map_of (cm_credentials m) i"
  by (cases op) (auto simp: touches_def cm_store_def cm_rotate_def cm_revoke_def cm_recordAudit_def Let_def
      split: sum.splits option.splits)

lemma cm_frame_run:
  "\<forall>op \<in> set ops. \<not> touches i op
   \<Longrightarrow> map_of (cm_credentials (fold (cm_step enc) ops m)) i = map_of (cm_credentials m) i"
  by (induction ops arbitrary: m) (simp_all add: cm_frame_step)

lemma cm_store_retrieve:
  assumes "gcm_inverts enc dec (cm_encryptionKey m)"
    and "length (cm_encryptionKey m) = 32" and "\<forall>op \<in> set ops. \<not> touches rid op"
    and "ex = None \<or> (\<exists>x t. ex = Some x \<and> parse_date x = Some t \<and> later \<le> t)"
  shows "cm_retrieve dec parse_date later rid
      (fold (cm_step enc) ops (fst (cm_store enc iv rid aid now pid tid prov am raw ex actor m))) = Inr raw"
proof -
  obtain p where p: "encrypt enc (cm_encryptionKey m) iv raw = Inr p"
    using encrypt_returns [OF assms(2)] by blast
  have d: "decrypt dec (cm_encryptionKey m) p = Inr raw" by (rule decrypt_encrypt [OF assms(1) p])
  show ?thesis
    using assms(4) d p
    by (auto simp: cm_retrieve_def cm_frame_run [OF assms(3)] cm_key_run cm_store_def
        cm_recordAudit_def Let_def cr_expired_def)
qed

lemma cm_rotate_retrieve:
  assumes "gcm_inverts enc dec (cm_encryptionKey m)"
    and "length (cm_encryptionKey m) = 32" and "\<forall>op \<in> set ops. \<not> touches cid op"
    and "map_of (cm_credentials m) cid = Some r" and "\<not> cr_expired parse_date later r"
  shows "cm_retrieve dec parse_date later cid
      (fold (cm_step enc) ops (fst (cm_rotate enc iv aid now cid raw actor m))) = Inr raw"
proof -
  obtain p where p: "encrypt enc (cm_encryptionKey m) iv raw = Inr p"
    using encrypt_returns [OF assms(2)] by blast
  have d: "decrypt dec (cm_encryptionKey m) p = Inr raw" by (rule decrypt_encrypt [OF assms(1) p])
  show ?thesis
    using assms(4,5) d p
    by (auto simp: cm_retrieve_def cm_frame_run [OF assms(3)] cm_key_run cm_rotate_def
        cm_recordAudit_def Let_def cr_expired_def)
qed

lemma cm_revoke_gone:
  assumes "\<forall>op \<in> set ops. \<not> touches cid op"
  shows "cm_retrieve dec parse_date later cid
      (fold (cm_step enc) ops (fst (cm_revoke aid now cid actor m))) = Inl (credential_missing cid)"
  by (auto simp: cm_retrieve_def cm_frame_run [OF assms] cm_revoke_def Let_def cm_recordAudit_def
      split: option.splits)

end
