(* ===== verification/DsConfig.thy ===== *)
theory DsConfig
  imports DsTypes
begin

text \<open>
  The tenant configuration store (services/flexible-datastore/src/tenant-config). Profiles are
  objects: the store, the callers and the routing engine hold references to them, \<open>setStatus\<close>
  and \<open>setPreflightResult\<close> write to the object in place, and \<open>update\<close> replaces it by a new one.
  The objects are kept in a heap (a list that only grows, a reference is an index) and the
  store maps ids to references. What the zod library decides about a create input beyond
  lengths (whether the endpoint is a URL, and the text of its message) is a parameter.
\<close>

section \<open>State\<close>

record profile_input =
  pi_tenantId :: string
  pi_projectId :: "string option"
  pi_provider :: provider
  pi_region :: string
  pi_endpoint :: string
  pi_authMode :: auth_mode
  pi_encryptionMode :: encryption_mode
  pi_allowedDomains :: "entity_domain list"

record profile_patch =
  \<comment> \<open>\<open>None\<close>: the key is absent from the patch; an optional field that is present may be undefined\<close>
  pp_projectId :: "string option option"
  pp_provider :: "provider option"
  pp_region :: "string option"
  pp_endpoint :: "string option"
  pp_authMode :: "auth_mode option"
  pp_encryptionMode :: "encryption_mode option"
  pp_allowedDomains :: "entity_domain list option"

record tenant_store =
  ts_heap :: "datastore_profile list"
  ts_profiles :: "(string, nat) jsmap"

definition empty_store :: tenant_store where
  "empty_store = \<lparr>ts_heap = [], ts_profiles = []\<rparr>"

abbreviation deref :: "tenant_store \<Rightarrow> nat \<Rightarrow> datastore_profile" where
  "deref s r \<equiv> ts_heap s ! r"

definition poke :: "nat \<Rightarrow> (datastore_profile \<Rightarrow> datastore_profile) \<Rightarrow> tenant_store \<Rightarrow> tenant_store" where
  "poke r f s = s\<lparr>ts_heap := (ts_heap s)[r := f (deref s r)]\<rparr>"

section \<open>Operations\<close>

definition create_schema_ok :: "(string \<Rightarrow> bool) \<Rightarrow> profile_input \<Rightarrow> bool" where
  "create_schema_ok is_url inp \<longleftrightarrow>
     1 \<le> length (pi_tenantId inp) \<and> 1 \<le> length (pi_region inp) \<and> is_url (pi_endpoint inp)
     \<and> 1 \<le> length (pi_allowedDomains inp)"

definition not_found :: "string \<Rightarrow> ds_exn" where
  "not_found i = PlainError (''Profile '' @ i @ '' not found'')"

definition new_profile :: "string \<Rightarrow> instant \<Rightarrow> profile_input \<Rightarrow> string \<Rightarrow> datastore_profile" where
  "new_profile uid now inp actor =
     \<lparr>dp_id = uid, dp_tenantId = pi_tenantId inp, dp_projectId = pi_projectId inp,
      dp_provider = pi_provider inp, dp_region = pi_region inp, dp_endpoint = pi_endpoint inp,
      dp_authMode = pi_authMode inp, dp_encryptionMode = pi_encryptionMode inp,
      dp_allowedDomains = pi_allowedDomains inp, dp_status = Draft, dp_preflightResult = None,
      dp_createdAt = now, dp_updatedAt = now, dp_activatedAt = None, dp_createdBy = actor\<rparr>"

definition ts_create ::
    "(string \<Rightarrow> bool) \<Rightarrow> (profile_input \<Rightarrow> string) \<Rightarrow> string \<Rightarrow> instant \<Rightarrow> profile_input \<Rightarrow> string
     \<Rightarrow> tenant_store \<Rightarrow> tenant_store \<times> (ds_exn + nat)" where
  "ts_create is_url zod_message uid now inp actor s =
     (if \<not> create_schema_ok is_url inp then
        (s, Inl (PlainError (''Invalid config: '' @ zod_message inp)))
      else
        (s\<lparr>ts_heap := ts_heap s @ [new_profile uid now inp actor],
           ts_profiles := AList.update uid (length (ts_heap s)) (ts_profiles s)\<rparr>,
         Inr (length (ts_heap s))))"

definition getById :: "tenant_store \<Rightarrow> string \<Rightarrow> nat option" where
  "getById s i = map_of (ts_profiles s) i"

definition getByTenant :: "tenant_store \<Rightarrow> string \<Rightarrow> nat list" where
  "getByTenant s t = filter (\<lambda>r. dp_tenantId (deref s r) = t) (map_values (ts_profiles s))"

definition active_match :: "string \<Rightarrow> string option \<Rightarrow> datastore_profile \<Rightarrow> bool" where
  "active_match t pr p \<longleftrightarrow> dp_tenantId p = t \<and> dp_status p = Active
     \<and> (if truthy_str pr then dp_projectId p = pr else \<not> truthy_str (dp_projectId p))"

definition getActive :: "tenant_store \<Rightarrow> string \<Rightarrow> string option \<Rightarrow> nat option" where
  "getActive s t pr = List.find (\<lambda>r. active_match t pr (deref s r)) (map_values (ts_profiles s))"

definition apply_patch :: "profile_patch \<Rightarrow> instant \<Rightarrow> datastore_profile \<Rightarrow> datastore_profile" where
  "apply_patch patch now p = p\<lparr>
     dp_projectId := (case pp_projectId patch of None \<Rightarrow> dp_projectId p | Some v \<Rightarrow> v),
     dp_provider := (case pp_provider patch of None \<Rightarrow> dp_provider p | Some v \<Rightarrow> v),
     dp_region := (case pp_region patch of None \<Rightarrow> dp_region p | Some v \<Rightarrow> v),
     dp_endpoint := (case pp_endpoint patch of None \<Rightarrow> dp_endpoint p | Some v \<Rightarrow> v),
     dp_authMode := (case pp_authMode patch of None \<Rightarrow> dp_authMode p | Some v \<Rightarrow> v),
     dp_encryptionMode := (case pp_encryptionMode patch of None \<Rightarrow> dp_encryptionMode p | Some v \<Rightarrow> v),
     dp_allowedDomains := (case pp_allowedDomains patch of None \<Rightarrow> dp_allowedDomains p | Some v \<Rightarrow> v),
     dp_updatedAt := now\<rparr>"

definition ts_update ::
    "string \<Rightarrow> profile_patch \<Rightarrow> instant \<Rightarrow> tenant_store \<Rightarrow> tenant_store \<times> (ds_exn + nat)" where
  "ts_update i patch now s =
     (case map_of (ts_profiles s) i of
        None \<Rightarrow> (s, Inl (not_found i))
      | Some r \<Rightarrow>
          (s\<lparr>ts_heap := ts_heap s @ [apply_patch patch now (deref s r)],
             ts_profiles := AList.update i (length (ts_heap s)) (ts_profiles s)\<rparr>,
           Inr (length (ts_heap s))))"

definition with_status :: "profile_status \<Rightarrow> instant \<Rightarrow> datastore_profile \<Rightarrow> datastore_profile" where
  "with_status st now p = p\<lparr>dp_status := st, dp_updatedAt := now,
     dp_activatedAt := (if st = Active then Some now else dp_activatedAt p)\<rparr>"

definition setStatus ::
    "string \<Rightarrow> profile_status \<Rightarrow> instant \<Rightarrow> tenant_store \<Rightarrow> tenant_store \<times> (ds_exn + nat)" where
  "setStatus i st now s =
     (case map_of (ts_profiles s) i of
        None \<Rightarrow> (s, Inl (not_found i))
      | Some r \<Rightarrow>
          ((poke r (with_status st now) s)\<lparr>ts_profiles := AList.update i r (ts_profiles s)\<rparr>, Inr r))"

definition with_preflight :: "preflight_result \<Rightarrow> instant \<Rightarrow> datastore_profile \<Rightarrow> datastore_profile" where
  "with_preflight res now p = p\<lparr>dp_preflightResult := Some res, dp_updatedAt := now\<rparr>"

definition setPreflightResult ::
    "string \<Rightarrow> preflight_result \<Rightarrow> instant \<Rightarrow> tenant_store \<Rightarrow> tenant_store \<times> (ds_exn + nat)" where
  "setPreflightResult i res now s =
     (case map_of (ts_profiles s) i of
        None \<Rightarrow> (s, Inl (not_found i))
      | Some r \<Rightarrow>
          ((poke r (with_preflight res now) s)\<lparr>ts_profiles := AList.update i r (ts_profiles s)\<rparr>, Inr r))"

definition ts_delete :: "string \<Rightarrow> tenant_store \<Rightarrow> tenant_store \<times> bool" where
  "ts_delete i s = (s\<lparr>ts_profiles := AList.delete i (ts_profiles s)\<rparr>, map_has (ts_profiles s) i)"

definition listAll :: "tenant_store \<Rightarrow> nat list" where
  "listAll s = map_values (ts_profiles s)"

section \<open>The store as a map from ids to profiles\<close>

definition profile_at :: "tenant_store \<Rightarrow> string \<Rightarrow> datastore_profile option" where
  "profile_at s i = map_option (deref s) (getById s i)"

definition store_ok :: "tenant_store \<Rightarrow> bool" where
  "store_ok s \<longleftrightarrow> wf_map (ts_profiles s)
     \<and> (\<forall>i r. map_of (ts_profiles s) i = Some r \<longrightarrow> r < length (ts_heap s) \<and> dp_id (deref s r) = i)"

definition slot :: "datastore_profile \<Rightarrow> string \<times> string option" where
  "slot p = (dp_tenantId p, if truthy_str (dp_projectId p) then dp_projectId p else None)"

definition one_active_profile :: "(string \<Rightarrow> datastore_profile option) \<Rightarrow> bool" where
  "one_active_profile m \<longleftrightarrow> (\<forall>i j p q. m i = Some p \<and> m j = Some q \<and> dp_status p = Active
     \<and> dp_status q = Active \<and> slot p = slot q \<longrightarrow> i = j)"

lemma active_match_slot:
  "active_match (dp_tenantId p) (dp_projectId p) q \<longleftrightarrow> dp_status q = Active \<and> slot q = slot p"
  by (auto simp: active_match_def slot_def split: option.splits)

lemma store_okD:
  "store_ok s \<Longrightarrow> map_of (ts_profiles s) i = Some r \<Longrightarrow> r < length (ts_heap s) \<and> dp_id (deref s r) = i"
  by (simp add: store_ok_def)

lemma store_ref_inj:
  "store_ok s \<Longrightarrow> map_of (ts_profiles s) i = Some r \<Longrightarrow> map_of (ts_profiles s) j = Some r \<Longrightarrow> i = j"
  by (auto dest: store_okD)

lemma profile_at_id: "store_ok s \<Longrightarrow> profile_at s i = Some p \<Longrightarrow> dp_id p = i"
  by (auto simp: profile_at_def getById_def dest: store_okD)

lemma with_status_simps [simp]:
  "dp_id (with_status st now p) = dp_id p"
  "dp_tenantId (with_status st now p) = dp_tenantId p"
  "dp_projectId (with_status st now p) = dp_projectId p"
  "dp_provider (with_status st now p) = dp_provider p"
  "dp_region (with_status st now p) = dp_region p"
  "dp_endpoint (with_status st now p) = dp_endpoint p"
  "dp_status (with_status st now p) = st"
  "dp_preflightResult (with_status st now p) = dp_preflightResult p"
  "slot (with_status st now p) = slot p"
  by (simp_all add: with_status_def slot_def)

lemma with_preflight_simps [simp]:
  "dp_id (with_preflight res now p) = dp_id p"
  "dp_tenantId (with_preflight res now p) = dp_tenantId p"
  "dp_projectId (with_preflight res now p) = dp_projectId p"
  "dp_endpoint (with_preflight res now p) = dp_endpoint p"
  "dp_status (with_preflight res now p) = dp_status p"
  "dp_preflightResult (with_preflight res now p) = Some res"
  "slot (with_preflight res now p) = slot p"
  by (simp_all add: with_preflight_def slot_def)

lemma update_same: "wf_map m \<Longrightarrow> map_of m k = Some v \<Longrightarrow> AList.update k v m = m"
  by (induction m) (auto split: if_splits)

lemma poke_simps [simp]:
  "ts_profiles (poke r f s) = ts_profiles s"
  "length (ts_heap (poke r f s)) = length (ts_heap s)"
  "r < length (ts_heap s) \<Longrightarrow> deref (poke r f s) r' = (if r' = r then f (deref s r) else deref s r')"
  by (simp_all add: poke_def nth_list_update)

lemma setStatus_found:
  assumes "store_ok s" and "map_of (ts_profiles s) i = Some r"
  shows "setStatus i st now s = (poke r (with_status st now) s, Inr r)"
  using assms update_same [of "ts_profiles s" i r] by (simp add: setStatus_def store_ok_def poke_def)

lemma setPreflightResult_found:
  assumes "store_ok s" and "map_of (ts_profiles s) i = Some r"
  shows "setPreflightResult i res now s = (poke r (with_preflight res now) s, Inr r)"
  using assms update_same [of "ts_profiles s" i r]
  by (simp add: setPreflightResult_def store_ok_def poke_def)

lemma poke_store_ok:
  assumes "store_ok s" and "map_of (ts_profiles s) i = Some r" and "\<And>p. dp_id (f p) = dp_id p"
  shows "store_ok (poke r f s)"
proof -
  have r: "r < length (ts_heap s)" using assms(1,2) by (simp add: store_okD)
  show ?thesis
    using assms(1,3) r by (simp add: store_ok_def)
qed

lemma profile_at_poke:
  assumes ok: "store_ok s" and i: "map_of (ts_profiles s) i = Some r"
  shows "profile_at (poke r f s) = (profile_at s)(i \<mapsto> f (deref s r))"
proof
  fix j
  have r: "r < length (ts_heap s)" using ok i by (simp add: store_okD)
  show "profile_at (poke r f s) j = ((profile_at s)(i \<mapsto> f (deref s r))) j"
  proof (cases "map_of (ts_profiles s) j")
    case None
    then show ?thesis using i by (auto simp: profile_at_def getById_def)
  next
    case (Some r')
    have "r' = r \<Longrightarrow> j = i" using Some i store_ref_inj [OF ok] by blast
    then show ?thesis using Some i r by (auto simp: profile_at_def getById_def)
  qed
qed

lemma ts_create_ok [inv_intro]:
  assumes "store_ok s" shows "store_ok (fst (ts_create is_url zm uid now inp actor s))"
  using assms by (auto simp: ts_create_def store_ok_def nth_append new_profile_def less_Suc_eq)

lemma profile_at_create:
  assumes "store_ok s" and "create_schema_ok is_url inp"
  shows "profile_at (fst (ts_create is_url zm uid now inp actor s))
    = (profile_at s)(uid \<mapsto> new_profile uid now inp actor)"
proof
  fix j
  show "profile_at (fst (ts_create is_url zm uid now inp actor s)) j
    = ((profile_at s)(uid \<mapsto> new_profile uid now inp actor)) j"
    using assms store_okD [OF assms(1), of j]
    by (cases "map_of (ts_profiles s) j") (auto simp: ts_create_def profile_at_def getById_def nth_append)
qed

lemma ts_delete_ok [inv_intro]: "store_ok s \<Longrightarrow> store_ok (fst (ts_delete i s))"
  by (auto simp: ts_delete_def store_ok_def)

lemma profile_at_delete: "profile_at (fst (ts_delete i s)) = (profile_at s)(i := None)"
  by (auto simp: ts_delete_def profile_at_def getById_def fun_eq_iff)

lemma ts_update_ok [inv_intro]:
  assumes "store_ok s" shows "store_ok (fst (ts_update i patch now s))"
proof (cases "map_of (ts_profiles s) i")
  case None
  then show ?thesis using assms by (simp add: ts_update_def)
next
  case (Some r)
  have "r < length (ts_heap s)" "dp_id (deref s r) = i" using store_okD [OF assms Some] by simp_all
  with Some assms show ?thesis
    by (auto simp: ts_update_def store_ok_def nth_append apply_patch_def less_Suc_eq)
qed

lemma setStatus_ok [inv_intro]: "store_ok s \<Longrightarrow> store_ok (fst (setStatus i st now s))"
proof (cases "map_of (ts_profiles s) i")
  case None
  then show "store_ok s \<Longrightarrow> ?thesis" by (simp add: setStatus_def)
next
  case (Some r)
  then show "store_ok s \<Longrightarrow> ?thesis" by (simp add: setStatus_found poke_store_ok [OF _ Some])
qed

lemma setPreflightResult_ok [inv_intro]: "store_ok s \<Longrightarrow> store_ok (fst (setPreflightResult i res now s))"
proof (cases "map_of (ts_profiles s) i")
  case None
  then show "store_ok s \<Longrightarrow> ?thesis" by (simp add: setPreflightResult_def)
next
  case (Some r)
  then show "store_ok s \<Longrightarrow> ?thesis" by (simp add: setPreflightResult_found poke_store_ok [OF _ Some])
qed

section \<open>What the control plane relies on\<close>

text \<open>
  The contract between the store and its client: lookups see a status change of one id and
  nothing else. From it, retiring the active profile of a slot before activating another
  keeps at most one profile active in each slot.
\<close>

locale profile_store =
  fixes lookup :: "'s \<Rightarrow> string \<Rightarrow> datastore_profile option"
    and set_status :: "string \<Rightarrow> profile_status \<Rightarrow> instant \<Rightarrow> 's \<Rightarrow> 's"
    and ok :: "'s \<Rightarrow> bool"
  assumes ok_set: "ok s \<Longrightarrow> ok (set_status i st now s)"
    and lookup_set: "ok s \<Longrightarrow> lookup s i = Some p \<Longrightarrow>
      lookup (set_status i st now s) = (lookup s)(i \<mapsto> with_status st now p)"
    and set_missing: "ok s \<Longrightarrow> lookup s i = None \<Longrightarrow> set_status i st now s = s"
begin

lemma retire_keeps:
  assumes "ok s" and "one_active_profile (lookup s)" and "st \<noteq> Active"
  shows "one_active_profile (lookup (set_status i st now s))"
proof (cases "lookup s i")
  case None
  with assms show ?thesis by (simp add: set_missing)
next
  case (Some p)
  with assms show ?thesis by (auto simp: one_active_profile_def lookup_set)
qed

lemma activate_keeps:
  assumes s: "ok s" and one: "one_active_profile (lookup s)" and p: "lookup s i = Some p"
    and only: "\<And>j q. lookup s j = Some q \<Longrightarrow> dp_status q = Active \<Longrightarrow> slot q = slot p \<Longrightarrow> j = i"
  shows "one_active_profile (lookup (set_status i Active now s))"
proof -
  have L: "lookup (set_status i Active now s) = (lookup s)(i \<mapsto> with_status Active now p)"
    by (rule lookup_set [OF s p])
  show ?thesis
    unfolding one_active_profile_def
  proof (intro allI impI)
    fix a b x y
    assume H: "lookup (set_status i Active now s) a = Some x \<and> lookup (set_status i Active now s) b = Some y
      \<and> dp_status x = Active \<and> dp_status y = Active \<and> slot x = slot y"
    have "(a = i \<and> x = with_status Active now p) \<or> (a \<noteq> i \<and> lookup s a = Some x)"
      using H L by (auto split: if_splits)
    moreover have "(b = i \<and> y = with_status Active now p) \<or> (b \<noteq> i \<and> lookup s b = Some y)"
      using H L by (auto split: if_splits)
    ultimately show "a = b"
      using H only [of a x] only [of b y] one unfolding one_active_profile_def
      by (metis with_status_simps(9))
  qed
qed

lemma replace_keeps:
  assumes s: "ok s" and one: "one_active_profile (lookup s)" and p: "lookup s i = Some p"
    and j: "lookup s j = Some q" "dp_status q = Active" "slot q = slot p" "j \<noteq> i"
  shows "one_active_profile (lookup (set_status i Active now (set_status j Inactive now' s)))"
proof -
  have L: "lookup (set_status j Inactive now' s) = (lookup s)(j \<mapsto> with_status Inactive now' q)"
    by (rule lookup_set [OF s j(1)])
  show ?thesis
  proof (rule activate_keeps)
    show "ok (set_status j Inactive now' s)" by (rule ok_set [OF s])
    show "one_active_profile (lookup (set_status j Inactive now' s))" by (rule retire_keeps [OF s one]) simp
    show "lookup (set_status j Inactive now' s) i = Some p" using L p j(4) by simp
    fix k r
    assume k: "lookup (set_status j Inactive now' s) k = Some r" "dp_status r = Active" "slot r = slot p"
    then have "k \<noteq> j" "lookup s k = Some r" using L by (auto split: if_splits)
    then show "k = i" using k j one unfolding one_active_profile_def by metis
  qed
qed

end

lemma profile_at_setStatus:
  assumes "store_ok s" and "profile_at s i = Some p"
  shows "profile_at (fst (setStatus i st now s)) = (profile_at s)(i \<mapsto> with_status st now p)"
proof -
  from assms(2) obtain r where r: "map_of (ts_profiles s) i = Some r" "p = deref s r"
    by (auto simp: profile_at_def getById_def)
  then show ?thesis by (simp add: setStatus_found [OF assms(1) r(1)] profile_at_poke [OF assms(1) r(1)])
qed

lemma setStatus_missing: "profile_at s i = None \<Longrightarrow> setStatus i st now s = (s, Inl (not_found i))"
  by (simp add: profile_at_def getById_def setStatus_def)

interpretation ts: profile_store profile_at "\<lambda>i st now s. fst (setStatus i st now s)" store_ok
  by unfold_locales (simp_all add: setStatus_ok profile_at_setStatus setStatus_missing)

lemma getActive_Some:
  assumes ok: "store_ok s" and r: "getActive s (dp_tenantId p) (dp_projectId p) = Some r"
  shows "profile_at s (dp_id (deref s r)) = Some (deref s r)"
    and "dp_status (deref s r) = Active" and "slot (deref s r) = slot p"
proof -
  have f: "r \<in> set (map_values (ts_profiles s))"
    "active_match (dp_tenantId p) (dp_projectId p) (deref s r)"
    using find_SomeD [OF r [unfolded getActive_def]] by simp_all
  then obtain i where i: "map_of (ts_profiles s) i = Some r"
    using ok map_values_iff [of "ts_profiles s" r] by (auto simp: store_ok_def)
  with store_okD [OF ok i] show "profile_at s (dp_id (deref s r)) = Some (deref s r)"
    by (simp add: profile_at_def getById_def)
  show "dp_status (deref s r) = Active" "slot (deref s r) = slot p"
    using f(2) by (simp_all add: active_match_slot)
qed

lemma getActive_None:
  assumes "getActive s (dp_tenantId p) (dp_projectId p) = None" and "profile_at s j = Some q"
    and "dp_status q = Active" and "slot q = slot p"
  shows False
  using assms map_of_values [of "ts_profiles s" j]
  by (auto simp: getActive_def find_None_iff_all profile_at_def getById_def active_match_slot)

end
