(* ===== verification/DsRouting.thy ===== *)
theory DsRouting
  imports DsConfig
begin

text \<open>
  The routing policy engine (services/flexible-datastore/src/routing). It keeps references to
  the profile objects of the configuration store, under a key that joins tenant and project by
  \<open>::\<close>, the tenants' residency policies, the routing rules sorted by priority, and the log of
  its decisions. \<open>resolve\<close> reads the referenced object at the time of the call.
\<close>

section \<open>State\<close>

record routing_rule =
  ru_tenantId :: "string option"
  ru_projectId :: "string option"
  ru_domain :: "entity_domain option"
  ru_provider :: provider
  ru_consistency :: consistency_mode
  ru_priority :: int

record routing_engine =
  re_rules :: "routing_rule list"
  re_profiles :: "(string, nat) jsmap"
  re_residency :: "(string, residency_rule) jsmap"
  re_log :: "routing_decision list"

definition empty_engine :: routing_engine where
  "empty_engine = \<lparr>re_rules = [], re_profiles = [], re_residency = [], re_log = []\<rparr>"

definition profileKey :: "string \<Rightarrow> string option \<Rightarrow> string" where
  "profileKey tenantId projectId =
     (if truthy_str projectId then tenantId @ ''::'' @ the projectId else tenantId)"

section \<open>Operations\<close>

definition addRule :: "routing_rule \<Rightarrow> routing_engine \<Rightarrow> routing_engine" where
  "addRule rule e = e\<lparr>re_rules := sort_key ru_priority (re_rules e @ [rule])\<rparr>"

definition removeRulesByTenant :: "string \<Rightarrow> routing_engine \<Rightarrow> routing_engine" where
  "removeRulesByTenant t e = e\<lparr>re_rules := filter (\<lambda>r. ru_tenantId r \<noteq> Some t) (re_rules e)\<rparr>"

definition setProfile :: "tenant_store \<Rightarrow> nat \<Rightarrow> routing_engine \<Rightarrow> routing_engine" where
  "setProfile s r e = e\<lparr>re_profiles :=
     AList.update (profileKey (dp_tenantId (deref s r)) (dp_projectId (deref s r))) r (re_profiles e)\<rparr>"

definition re_getProfile :: "routing_engine \<Rightarrow> string \<Rightarrow> string option \<Rightarrow> nat option" where
  "re_getProfile e t pr =
     (case map_of (re_profiles e) (profileKey t pr) of
        Some r \<Rightarrow> Some r
      | None \<Rightarrow> map_of (re_profiles e) (profileKey t None))"

definition setResidencyPolicy :: "residency_rule \<Rightarrow> routing_engine \<Rightarrow> routing_engine" where
  "setResidencyPolicy p e = e\<lparr>re_residency := AList.update (rr_tenantId p) p (re_residency e)\<rparr>"

definition getResidencyPolicy :: "routing_engine \<Rightarrow> string \<Rightarrow> residency_rule option" where
  "getResidencyPolicy e t = map_of (re_residency e) t"

definition enforceResidency :: "routing_engine \<Rightarrow> string \<Rightarrow> datastore_profile \<Rightarrow> ds_exn option" where
  "enforceResidency e t p =
     (case map_of (re_residency e) t of
        None \<Rightarrow> None
      | Some pol \<Rightarrow>
          if rr_allowedProviders pol \<noteq> [] \<and> dp_provider p \<notin> set (rr_allowedProviders pol)
          then Some (DsError (ResidencyViolationError t (dp_region p)))
          else if rr_allowedRegions pol \<noteq> [] \<and> dp_region p \<notin> set (rr_allowedRegions pol)
          then Some (DsError (ResidencyViolationError t (dp_region p)))
          else None)"

definition ruleMatches :: "routing_rule \<Rightarrow> string \<Rightarrow> entity_domain \<Rightarrow> string option \<Rightarrow> bool" where
  "ruleMatches rule t d pr =
     (if truthy_str (ru_tenantId rule) \<and> ru_tenantId rule \<noteq> Some ''*'' \<and> ru_tenantId rule \<noteq> Some t then False
      else if truthy_str (ru_projectId rule) \<and> ru_projectId rule \<noteq> pr then False
      else if ru_domain rule \<noteq> None \<and> ru_domain rule \<noteq> Some d then False
      else True)"

definition buildDecision ::
    "instant \<Rightarrow> provider \<Rightarrow> string \<Rightarrow> entity_domain \<Rightarrow> consistency_mode \<Rightarrow> string \<Rightarrow> string
     \<Rightarrow> string option \<Rightarrow> routing_decision" where
  "buildDecision now prov t d c reason cid pr =
     \<lparr>rd_targetProvider = prov, rd_tenantId = t, rd_projectId = pr, rd_entityDomain = d,
      rd_consistencyMode = c, rd_reason = reason, rd_decidedAt = now, rd_correlationId = cid\<rparr>"

definition resolve ::
    "tenant_store \<Rightarrow> string \<Rightarrow> instant \<Rightarrow> string \<Rightarrow> entity_domain \<Rightarrow> string option \<Rightarrow> string option
     \<Rightarrow> routing_engine \<Rightarrow> routing_engine \<times> (ds_exn + routing_decision)" where
  "resolve s uid now t d pr correlationId e =
     (let cid = (case correlationId of None \<Rightarrow> uid | Some c \<Rightarrow> c);
          log = (\<lambda>dec. (e\<lparr>re_log := re_log e @ [dec]\<rparr>, Inr dec));
          by_rules = (case List.find (\<lambda>r. ruleMatches r t d pr) (re_rules e) of
              Some rule \<Rightarrow> log (buildDecision now (ru_provider rule) t d (ru_consistency rule)
                (''Matched rule priority='' @ show_int (ru_priority rule)) cid pr)
            | None \<Rightarrow> log (buildDecision now MongoDB t d Strong
                ''Default fallback to internal MongoDB'' cid pr))
      in case re_getProfile e t pr of
           None \<Rightarrow> by_rules
         | Some r \<Rightarrow>
             if dp_status (deref s r) = Active then
               (case enforceResidency e t (deref s r) of
                  Some exn \<Rightarrow> (e, Inl exn)
                | None \<Rightarrow> log (buildDecision now (dp_provider (deref s r)) t d Strong
                    (''Active profile '' @ dp_id (deref s r) @ '' for tenant'') cid pr))
             else by_rules)"

definition getRecentDecisions :: "int \<Rightarrow> routing_engine \<Rightarrow> routing_decision list" where
  "getRecentDecisions limit e = slice_last limit (re_log e)"

definition getDecisionsByTenant :: "string \<Rightarrow> int \<Rightarrow> routing_engine \<Rightarrow> routing_decision list" where
  "getDecisionsByTenant t limit e = slice_last limit (filter (\<lambda>d. rd_tenantId d = t) (re_log e))"

section \<open>Keys\<close>

definition colon_free :: "string \<Rightarrow> bool" where
  "colon_free t \<longleftrightarrow> CHR '':'' \<notin> set t"

lemma profileKey_inj:
  assumes "colon_free t" and "colon_free u"
  shows "profileKey t pr = profileKey u pr' \<longleftrightarrow>
    t = u \<and> (if truthy_str pr then pr = pr' else \<not> truthy_str pr')"
proof -
  have no: "t \<noteq> u @ CHR '':'' # x" "u \<noteq> t @ CHR '':'' # x" for x
    using assms by (auto simp: colon_free_def)
  show ?thesis
    using assms append_sep_inj [of "CHR '':''" t u] no
    by (auto simp: profileKey_def colon_free_def split: option.splits)
qed

lemma profileKey_slot:
  "colon_free (dp_tenantId p) \<Longrightarrow> colon_free (dp_tenantId q) \<Longrightarrow>
   profileKey (dp_tenantId p) (dp_projectId p) = profileKey (dp_tenantId q) (dp_projectId q)
   \<longleftrightarrow> slot p = slot q"
  by (auto simp: profileKey_inj slot_def split: option.splits)

section \<open>Rules\<close>

lemma rules_sorted: "sorted (map ru_priority (re_rules (addRule rule e)))"
  by (simp add: addRule_def)

lemma sorted_find_min:
  "sorted (map f xs) \<Longrightarrow> List.find P xs = Some x \<Longrightarrow> y \<in> set xs \<Longrightarrow> P y \<Longrightarrow> f x \<le> f y"
  by (induction xs) (auto split: if_splits)

lemma resolve_frame:
  "re_rules (fst (resolve s uid now t d pr c e)) = re_rules e"
  "re_profiles (fst (resolve s uid now t d pr c e)) = re_profiles e"
  "re_residency (fst (resolve s uid now t d pr c e)) = re_residency e"
  by (simp_all add: resolve_def Let_def split: option.splits)

lemma resolve_active:
  assumes "re_getProfile e t pr = Some r" and "dp_status (deref s r) = Active"
  shows "snd (resolve s uid now t d pr c e) =
    (case enforceResidency e t (deref s r) of Some exn \<Rightarrow> Inl exn
     | None \<Rightarrow> Inr (buildDecision now (dp_provider (deref s r)) t d Strong
         (''Active profile '' @ dp_id (deref s r) @ '' for tenant'') (case c of None \<Rightarrow> uid | Some x \<Rightarrow> x) pr))"
  using assms by (simp add: resolve_def Let_def split: option.splits)

lemma resolve_rules:
  assumes "\<And>r. re_getProfile e t pr = Some r \<Longrightarrow> dp_status (deref s r) \<noteq> Active"
  shows "\<exists>dec. snd (resolve s uid now t d pr c e) = Inr dec \<and>
    rd_targetProvider dec = (case List.find (\<lambda>r. ruleMatches r t d pr) (re_rules e) of
      Some rule \<Rightarrow> ru_provider rule | None \<Rightarrow> MongoDB)"
  using assms by (auto simp: resolve_def Let_def buildDecision_def split: option.splits)

lemma residency_ok:
  "enforceResidency e t p = None \<longleftrightarrow>
   (\<forall>pol. map_of (re_residency e) t = Some pol \<longrightarrow>
      (rr_allowedProviders pol = [] \<or> dp_provider p \<in> set (rr_allowedProviders pol))
      \<and> (rr_allowedRegions pol = [] \<or> dp_region p \<in> set (rr_allowedRegions pol)))"
  by (auto simp: enforceResidency_def split: option.splits)

end
