(* ===== verification/DsControl.thy ===== *)
theory DsControl
  imports DsCredentials DsRouting
begin

text \<open>
  The control plane (services/flexible-datastore/src/control-plane) over the singletons it
  calls: configuration store, credential manager and routing engine, in one state with the
  control plane's audit events and the number of identifiers drawn so far. What the program
  takes from outside is in \<open>control_env\<close>: the stream of generated identifiers, zod's URL check
  and error text, and the cipher. The times an operation reads are its inputs. An operation
  returns the new state and either the exception it throws or its result.
\<close>

section \<open>State\<close>

datatype control_role = Viewer | TenantAdmin | PlatformAdmin

record actor_context =
  ac_actorId :: string
  ac_tenantId :: string
  ac_role :: control_role

record control_env =
  ce_uuid :: "nat \<Rightarrow> string"
  ce_is_url :: "string \<Rightarrow> bool"
  ce_zod_message :: "profile_input \<Rightarrow> string"
  ce_enc :: cipher_enc

record control_world =
  cw_store :: tenant_store
  cw_creds :: credential_manager
  cw_routing :: routing_engine
  cw_events :: "ds_audit_event list"
  cw_uuids :: nat

definition initial_world :: "credential_manager \<Rightarrow> control_world" where
  "initial_world creds = \<lparr>cw_store = empty_store, cw_creds = creds, cw_routing = empty_engine,
     cw_events = [], cw_uuids = 0\<rparr>"

fun role_str :: "control_role \<Rightarrow> string" where
  "role_str Viewer = ''viewer''"
| "role_str TenantAdmin = ''tenant_admin''"
| "role_str PlatformAdmin = ''platform_admin''"

fun role_rank :: "control_role \<Rightarrow> nat" where
  "role_rank Viewer = 0"
| "role_rank TenantAdmin = 1"
| "role_rank PlatformAdmin = 2"

definition assertAuthorized :: "actor_context \<Rightarrow> control_role \<Rightarrow> ds_exn option" where
  "assertAuthorized actor required =
     (if role_rank (ac_role actor) < role_rank required then
        Some (PlainError (''Forbidden: role '' @ role_str (ac_role actor) @ '' insufficient, requires ''
          @ role_str required))
      else None)"

definition other_tenant :: "actor_context \<Rightarrow> string \<Rightarrow> bool" where
  "other_tenant actor tenantId \<longleftrightarrow> tenantId \<noteq> ac_tenantId actor \<and> ac_role actor \<noteq> PlatformAdmin"

definition emitAudit ::
    "control_env \<Rightarrow> instant \<Rightarrow> actor_context \<Rightarrow> string \<Rightarrow> string \<Rightarrow> details
     \<Rightarrow> control_world \<Rightarrow> control_world" where
  "emitAudit env now actor action resource details w =
     w\<lparr>cw_events := cw_events w @
         [\<lparr>ae_id = ce_uuid env (cw_uuids w), ae_timestamp = now, ae_tenantId = ac_tenantId actor,
           ae_actor = ac_actorId actor, ae_action = action, ae_resource = resource,
           ae_details = details, ae_correlationId = ce_uuid env (Suc (cw_uuids w)),
           ae_outcome = Success\<rparr>],
       cw_uuids := Suc (Suc (cw_uuids w))\<rparr>"

section \<open>Profiles\<close>

definition createProfile ::
    "control_env \<Rightarrow> instant \<Rightarrow> profile_input \<Rightarrow> actor_context \<Rightarrow> control_world
     \<Rightarrow> control_world \<times> (ds_exn + nat)" where
  "createProfile env now inp actor w =
     (case assertAuthorized actor TenantAdmin of
        Some e \<Rightarrow> (w, Inl e)
      | None \<Rightarrow>
          if other_tenant actor (pi_tenantId inp) then
            (w, Inl (PlainError ''Cannot create profile for another tenant''))
          else
            (case ts_create (ce_is_url env) (ce_zod_message env) (ce_uuid env (cw_uuids w)) now inp
                    (ac_actorId actor) (cw_store w) of
               (s, Inl e) \<Rightarrow> (w\<lparr>cw_store := s\<rparr>, Inl e)
             | (s, Inr r) \<Rightarrow>
                 (emitAudit env now actor ''profile.create'' (dp_id (deref s r))
                    [(''provider'', DStr (provider_str (dp_provider (deref s r))))]
                    (w\<lparr>cw_store := s, cw_uuids := Suc (cw_uuids w)\<rparr>), Inr r)))"

definition cp_getProfile :: "string \<Rightarrow> actor_context \<Rightarrow> control_world \<Rightarrow> ds_exn + nat option" where
  "cp_getProfile i actor w =
     (case assertAuthorized actor Viewer of
        Some e \<Rightarrow> Inl e
      | None \<Rightarrow>
          (case getById (cw_store w) i of
             None \<Rightarrow> Inr None
           | Some r \<Rightarrow>
               if other_tenant actor (dp_tenantId (deref (cw_store w) r))
               then Inl (PlainError ''Access denied'') else Inr (Some r)))"

definition listProfiles :: "actor_context \<Rightarrow> control_world \<Rightarrow> ds_exn + nat list" where
  "listProfiles actor w =
     (case assertAuthorized actor Viewer of
        Some e \<Rightarrow> Inl e
      | None \<Rightarrow> Inr (if ac_role actor = PlatformAdmin then listAll (cw_store w)
                  else getByTenant (cw_store w) (ac_tenantId actor)))"

definition guarded_profile ::
    "string \<Rightarrow> actor_context \<Rightarrow> control_world \<Rightarrow> ds_exn + nat" where
  \<comment> \<open>the common head of deactivate, delete and activate\<close>
  "guarded_profile i actor w =
     (case assertAuthorized actor TenantAdmin of
        Some e \<Rightarrow> Inl e
      | None \<Rightarrow>
          (case getById (cw_store w) i of
             None \<Rightarrow> Inl (not_found i)
           | Some r \<Rightarrow>
               if other_tenant actor (dp_tenantId (deref (cw_store w) r))
               then Inl (PlainError ''Access denied'') else Inr r))"

definition set_status :: "string \<Rightarrow> profile_status \<Rightarrow> instant \<Rightarrow> control_world \<Rightarrow> control_world" where
  "set_status i st now w = w\<lparr>cw_store := fst (setStatus i st now (cw_store w))\<rparr>"

definition deactivateProfile ::
    "control_env \<Rightarrow> instant \<Rightarrow> string \<Rightarrow> actor_context \<Rightarrow> control_world
     \<Rightarrow> control_world \<times> (ds_exn + nat)" where
  "deactivateProfile env now i actor w =
     (case guarded_profile i actor w of
        Inl e \<Rightarrow> (w, Inl e)
      | Inr r \<Rightarrow>
          (case setStatus i Inactive now (cw_store w) of
             (s, Inl e) \<Rightarrow> (w\<lparr>cw_store := s\<rparr>, Inl e)
           | (s, Inr u) \<Rightarrow> (emitAudit env now actor ''profile.deactivate'' i [] (w\<lparr>cw_store := s\<rparr>), Inr u)))"

definition deleteProfile ::
    "control_env \<Rightarrow> instant \<Rightarrow> string \<Rightarrow> actor_context \<Rightarrow> control_world
     \<Rightarrow> control_world \<times> (ds_exn + unit)" where
  "deleteProfile env now i actor w =
     (case guarded_profile i actor w of
        Inl e \<Rightarrow> (w, Inl e)
      | Inr r \<Rightarrow>
          if dp_status (deref (cw_store w) r) = Active then
            (w, Inl (PlainError (''Cannot delete active profile '' @ em_dash @ '' deactivate first'')))
          else
            (emitAudit env now actor ''profile.delete'' i []
               (w\<lparr>cw_store := fst (ts_delete i (cw_store w))\<rparr>), Inr ()))"

section \<open>Preflight, activation, connection test\<close>

definition preflight_check ::
    "datastore_profile \<Rightarrow> credential_record option \<Rightarrow> int \<Rightarrow> instant \<Rightarrow> preflight_result" where
  "preflight_check p cred latencyMs now =
     (let connectivity = str_starts_with (dp_endpoint p) ''http'';
          authentication = (cred \<noteq> None);
          schemaReady = provider_str (dp_provider p) \<in>
            set [''mongodb'', ''dynamodb'', ''firestore'', ''cosmosdb''];
          errors = (if connectivity then [] else [''Endpoint is not a valid URL''])
            @ (if authentication then [] else [''No credentials stored for this profile''])
            @ (if schemaReady then [] else [''Unknown provider: '' @ provider_str (dp_provider p)])
      in \<lparr>pf_connectivity = connectivity, pf_authentication = authentication,
          pf_schemaReady = schemaReady, pf_latencyMs = latencyMs,
          pf_passed = (connectivity \<and> authentication \<and> schemaReady), pf_checkedAt = now,
          pf_errors = errors\<rparr>)"

definition runPreflight ::
    "control_env \<Rightarrow> instant \<Rightarrow> instant \<Rightarrow> string \<Rightarrow> actor_context \<Rightarrow> control_world
     \<Rightarrow> control_world \<times> (ds_exn + preflight_result)" where
  "runPreflight env start now i actor w =
     (case assertAuthorized actor TenantAdmin of
        Some e \<Rightarrow> (w, Inl e)
      | None \<Rightarrow>
          (case getById (cw_store w) i of
             None \<Rightarrow> (w, Inl (not_found i))
           | Some r \<Rightarrow>
               (let w1 = set_status i Validating start w;
                    res = preflight_check (deref (cw_store w1) r) (cm_getByProfile (cw_creds w1) i)
                            (now - start) now;
                    w2 = w1\<lparr>cw_store := fst (setPreflightResult i res now (cw_store w1))\<rparr>;
                    w3 = (if \<not> pf_passed res then set_status i Failed now w2 else w2)
                in (emitAudit env now actor ''preflight.run'' i
                      [(''passed'', DBool (pf_passed res)), (''errors'', d_strings (pf_errors res))] w3,
                    Inr res))))"

definition retire_active ::
    "control_env \<Rightarrow> instant \<Rightarrow> string \<Rightarrow> actor_context \<Rightarrow> datastore_profile \<Rightarrow> control_world \<Rightarrow> control_world" where
  \<comment> \<open>deactivate any existing active profile of the same tenant and project\<close>
  "retire_active env now i actor p w =
     (case getActive (cw_store w) (dp_tenantId p) (dp_projectId p) of
        None \<Rightarrow> w
      | Some x \<Rightarrow>
          (let existing = dp_id (deref (cw_store w) x) in
           if existing \<noteq> i then
             emitAudit env now actor ''profile.auto_deactivate'' existing
               [(''reason'', DStr (''Replaced by '' @ i))] (set_status existing Inactive now w)
           else w))"

definition activateProfile ::
    "control_env \<Rightarrow> instant \<Rightarrow> string \<Rightarrow> actor_context \<Rightarrow> control_world
     \<Rightarrow> control_world \<times> (ds_exn + nat)" where
  "activateProfile env now i actor w =
     (case guarded_profile i actor w of
        Inl e \<Rightarrow> (w, Inl e)
      | Inr r \<Rightarrow>
          (let p = deref (cw_store w) r in
           if \<not> (case dp_preflightResult p of None \<Rightarrow> False | Some res \<Rightarrow> pf_passed res) then
             (w, Inl (DsError (PreflightFailedError i [''Preflight validation has not passed''])))
           else
             (let w1 = retire_active env now i actor p w in
              case setStatus i Active now (cw_store w1) of
                (s, Inl e) \<Rightarrow> (w1\<lparr>cw_store := s\<rparr>, Inl e)
              | (s, Inr u) \<Rightarrow>
                  (emitAudit env now actor ''profile.activate'' i
                     [(''provider'', DStr (provider_str (dp_provider (deref s u))))]
                     (w1\<lparr>cw_store := s, cw_routing := setProfile s u (cw_routing w1)\<rparr>), Inr u))))"

definition testConnection ::
    "control_env \<Rightarrow> instant \<Rightarrow> instant \<Rightarrow> string \<Rightarrow> actor_context \<Rightarrow> control_world
     \<Rightarrow> control_world \<times> (ds_exn + (bool \<times> int))" where
  "testConnection env start now i actor w =
     (case assertAuthorized actor Viewer of
        Some e \<Rightarrow> (w, Inl e)
      | None \<Rightarrow>
          (case getById (cw_store w) i of
             None \<Rightarrow> (w, Inl (not_found i))
           | Some r \<Rightarrow>
               (let ok = str_starts_with (dp_endpoint (deref (cw_store w) r)) ''http'' in
                (emitAudit env now actor ''connection.test'' i
                   [(''ok'', DBool ok), (''latencyMs'', DNum (now - start))] w,
                 Inr (ok, now - start)))))"

definition getAuditEvents :: "string option \<Rightarrow> int \<Rightarrow> control_world \<Rightarrow> ds_audit_event list" where
  "getAuditEvents tenantId limit w =
     slice_last limit (if truthy_str tenantId
       then filter (\<lambda>e. ae_tenantId e = the tenantId) (cw_events w) else cw_events w)"

section \<open>Operations as steps\<close>

datatype control_op =
    OpCreate instant profile_input actor_context
  | OpDeactivate instant string actor_context
  | OpDelete instant string actor_context
  | OpPreflight instant instant string actor_context
  | OpActivate instant string actor_context
  | OpTest instant instant string actor_context
  | OpCredStore instant string string string provider auth_mode string "string option" "string option"
  | OpCredRotate instant string string string "string option"
  | OpCredRevoke instant string "string option"
  | OpAddRule routing_rule
  | OpRemoveRules string
  | OpResidency residency_rule
  | OpResolve instant string entity_domain "string option" "string option"

fun cw_step :: "control_env \<Rightarrow> control_op \<Rightarrow> control_world \<Rightarrow> control_world" where
  "cw_step env (OpCreate now inp actor) w = fst (createProfile env now inp actor w)"
| "cw_step env (OpDeactivate now i actor) w = fst (deactivateProfile env now i actor w)"
| "cw_step env (OpDelete now i actor) w = fst (deleteProfile env now i actor w)"
| "cw_step env (OpPreflight start now i actor) w = fst (runPreflight env start now i actor w)"
| "cw_step env (OpActivate now i actor) w = fst (activateProfile env now i actor w)"
| "cw_step env (OpTest start now i actor) w = fst (testConnection env start now i actor w)"
| "cw_step env (OpCredStore now iv pid tid prov am raw ex actor) w =
     w\<lparr>cw_creds := fst (cm_store (ce_enc env) iv (ce_uuid env (cw_uuids w))
         (ce_uuid env (Suc (cw_uuids w))) now pid tid prov am raw ex actor (cw_creds w)),
       cw_uuids := Suc (Suc (cw_uuids w))\<rparr>"
| "cw_step env (OpCredRotate now iv cid raw actor) w =
     w\<lparr>cw_creds := fst (cm_rotate (ce_enc env) iv (ce_uuid env (cw_uuids w)) now cid raw actor (cw_creds w)),
       cw_uuids := Suc (cw_uuids w)\<rparr>"
| "cw_step env (OpCredRevoke now cid actor) w =
     w\<lparr>cw_creds := fst (cm_revoke (ce_uuid env (cw_uuids w)) now cid actor (cw_creds w)),
       cw_uuids := Suc (cw_uuids w)\<rparr>"
| "cw_step env (OpAddRule rule) w = w\<lparr>cw_routing := addRule rule (cw_routing w)\<rparr>"
| "cw_step env (OpRemoveRules t) w = w\<lparr>cw_routing := removeRulesByTenant t (cw_routing w)\<rparr>"
| "cw_step env (OpResidency pol) w = w\<lparr>cw_routing := setResidencyPolicy pol (cw_routing w)\<rparr>"
| "cw_step env (OpResolve now t d pr c) w =
     w\<lparr>cw_routing := fst (resolve (cw_store w) (ce_uuid env (cw_uuids w)) now t d pr c (cw_routing w)),
       cw_uuids := Suc (cw_uuids w)\<rparr>"

end
