(* ===== verification/DsControlSafety.thy ===== *)
theory DsControlSafety
  imports DsControl
begin

text \<open>
  Safety of the control plane. Every operation acts on the store and on the engine's profile
  table by a sequence of six elementary edges (\<open>edge\<close>); the invariants are proved once for the
  edges, by rule induction, and every operation is shown to be a sequence of them. The
  \<open>machine\<close> interpretation gives the invariant for every run. Hypothesis on the identifier
  stream: it does not repeat.
\<close>

type_synonym view = "tenant_store \<times> (string, nat) jsmap"

definition cw_view :: "control_world \<Rightarrow> view" where
  "cw_view w = (cw_store w, re_profiles (cw_routing w))"

definition preflight_passed :: "datastore_profile \<Rightarrow> bool" where
  "preflight_passed p = (case dp_preflightResult p of None \<Rightarrow> False | Some res \<Rightarrow> pf_passed res)"

inductive edge :: "view \<Rightarrow> view \<Rightarrow> bool" where
  e_create: "map_of (ts_profiles s) uid = None \<Longrightarrow> create_schema_ok is_url inp \<Longrightarrow>
    edge (s, R) (fst (ts_create is_url zm uid now inp actor s), R)"
| e_retire: "map_of (ts_profiles s) i = Some r \<Longrightarrow> st \<noteq> Active \<Longrightarrow>
    edge (s, R) (poke r (with_status st now) s, R)"
| e_preflight: "map_of (ts_profiles s) i = Some r \<Longrightarrow> dp_status (deref s r) \<noteq> Active \<Longrightarrow>
    edge (s, R) (poke r (with_preflight res now) s, R)"
| e_activate: "map_of (ts_profiles s) i = Some r \<Longrightarrow> preflight_passed (deref s r) \<Longrightarrow>
    (\<And>j q. profile_at s j = Some q \<Longrightarrow> dp_status q = Active \<Longrightarrow> slot q = slot (deref s r) \<Longrightarrow> j = i) \<Longrightarrow>
    edge (s, R) (poke r (with_status Active now) s,
      AList.update (profileKey (dp_tenantId (deref s r)) (dp_projectId (deref s r))) r R)"
| e_delete: "map_of (ts_profiles s) i = Some r \<Longrightarrow> dp_status (deref s r) \<noteq> Active \<Longrightarrow>
    edge (s, R) (fst (ts_delete i s), R)"

abbreviation edges :: "view \<Rightarrow> view \<Rightarrow> bool" where
  "edges \<equiv> edge\<^sup>*\<^sup>*"

section \<open>The invariant\<close>

definition registered :: "view \<Rightarrow> bool" where
  \<comment> \<open>with colon-free tenants, the routing table points each slot at its active profile\<close>
  "registered v = (case v of (s, R) \<Rightarrow>
     list_all (\<lambda>p. colon_free (dp_tenantId p)) (ts_heap s) \<longrightarrow>
     (\<forall>i r. map_of (ts_profiles s) i = Some r \<longrightarrow> dp_status (deref s r) = Active \<longrightarrow>
        map_of R (profileKey (dp_tenantId (deref s r)) (dp_projectId (deref s r))) = Some r))"

definition routed :: "view \<Rightarrow> bool" where
  \<comment> \<open>an active profile the routing table points at is the store's own\<close>
  "routed v = (case v of (s, R) \<Rightarrow>
     (\<forall>k r. map_of R k = Some r \<longrightarrow> r < length (ts_heap s)
        \<and> k = profileKey (dp_tenantId (deref s r)) (dp_projectId (deref s r))
        \<and> (dp_status (deref s r) = Active \<longrightarrow> map_of (ts_profiles s) (dp_id (deref s r)) = Some r)))"

definition view_inv :: "view \<Rightarrow> bool" where
  "view_inv v \<longleftrightarrow> store_ok (fst v) \<and> one_active_profile (profile_at (fst v))
     \<and> (\<forall>i p. profile_at (fst v) i = Some p \<longrightarrow> dp_status p = Active \<longrightarrow> preflight_passed p)
     \<and> routed v \<and> registered v"

lemma view_invD:
  "view_inv v \<Longrightarrow> store_ok (fst v)" "view_inv v \<Longrightarrow> one_active_profile (profile_at (fst v))"
  "view_inv v \<Longrightarrow> routed v" "view_inv v \<Longrightarrow> registered v"
  "view_inv v \<Longrightarrow> profile_at (fst v) i = Some p \<Longrightarrow> dp_status p = Active \<Longrightarrow> preflight_passed p"
  by (simp_all add: view_inv_def)

lemma preflight_passed_simps [simp]:
  "preflight_passed (with_status st now p) = preflight_passed p"
  "preflight_passed (with_preflight res now p) = pf_passed res"
  by (simp_all add: preflight_passed_def)

lemma setStatus_poke: "store_ok s \<Longrightarrow> map_of (ts_profiles s) i = Some r \<Longrightarrow>
   fst (setStatus i st now s) = poke r (with_status st now) s"
  by (simp add: setStatus_found)

lemma poke_profile_at:
  assumes "store_ok s" and "map_of (ts_profiles s) i = Some r" and "profile_at (poke r f s) j = Some p"
  shows "(j = i \<and> p = f (deref s r)) \<or> (j \<noteq> i \<and> profile_at s j = Some p)"
  using assms by (auto simp: profile_at_poke split: if_splits)

subsection \<open>Status changes that do not activate\<close>

lemma poke_routed:
  assumes "store_ok s" and "routed (s, R)" and "map_of (ts_profiles s) i = Some r"
    and "\<And>p. dp_id (f p) = dp_id p \<and> dp_tenantId (f p) = dp_tenantId p \<and> dp_projectId (f p) = dp_projectId p"
    and "dp_status (f (deref s r)) \<noteq> Active"
  shows "routed (poke r f s, R)"
proof -
  have r: "r < length (ts_heap s)" using assms(1,3) by (simp add: store_okD)
  show ?thesis using assms(2,4,5) r by (simp add: routed_def)
qed

lemma heap_colon_poke:
  assumes "r < length (ts_heap s)" and "\<And>p. dp_tenantId (f p) = dp_tenantId p"
    and "list_all (\<lambda>p. colon_free (dp_tenantId p)) (ts_heap (poke r f s))"
  shows "list_all (\<lambda>p. colon_free (dp_tenantId p)) (ts_heap s)"
  unfolding list_all_length
proof (intro allI impI)
  fix n assume n: "n < length (ts_heap s)"
  then have "colon_free (dp_tenantId (deref (poke r f s) n))" using assms(3) by (simp add: list_all_length)
  then show "colon_free (dp_tenantId (deref s n))"
    using assms(1,2) by (simp split: if_splits)
qed

lemma poke_registered:
  assumes "store_ok s" and "registered (s, R)" and "map_of (ts_profiles s) i = Some r"
    and f: "\<And>p. dp_tenantId (f p) = dp_tenantId p \<and> dp_projectId (f p) = dp_projectId p"
    and "dp_status (f (deref s r)) \<noteq> Active"
  shows "registered (poke r f s, R)"
proof -
  have r: "r < length (ts_heap s)" using assms(1,3) by (simp add: store_okD)
  show ?thesis
    unfolding registered_def prod.case
  proof (intro impI allI)
    fix j r'
    assume H: "list_all (\<lambda>p. colon_free (dp_tenantId p)) (ts_heap (poke r f s))"
      "map_of (ts_profiles (poke r f s)) j = Some r'" "dp_status (deref (poke r f s) r') = Active"
    have "list_all (\<lambda>p. colon_free (dp_tenantId p)) (ts_heap s)"
      by (rule heap_colon_poke [OF r _ H(1)]) (simp add: f)
    moreover have "r' \<noteq> r" using H(3) r assms(5) by auto
    ultimately show "map_of R (profileKey (dp_tenantId (deref (poke r f s) r'))
        (dp_projectId (deref (poke r f s) r'))) = Some r'"
      using assms(2) H r by (simp add: registered_def)
  qed
qed

lemma poke_one_active_profile:
  assumes "store_ok s" and "one_active_profile (profile_at s)" and "map_of (ts_profiles s) i = Some r"
    and "dp_status (f (deref s r)) \<noteq> Active"
  shows "one_active_profile (profile_at (poke r f s))"
  using assms(2,4) poke_profile_at [OF assms(1,3), of f] unfolding one_active_profile_def by metis

lemma poke_view_inv:
  assumes v: "view_inv (s, R)" and i: "map_of (ts_profiles s) i = Some r"
    and f: "\<And>p. dp_id (f p) = dp_id p \<and> dp_tenantId (f p) = dp_tenantId p \<and> dp_projectId (f p) = dp_projectId p"
    and st: "dp_status (f (deref s r)) \<noteq> Active"
  shows "view_inv (poke r f s, R)"
proof -
  have ok: "store_ok s" and one: "one_active_profile (profile_at s)" and ro: "routed (s, R)" and re: "registered (s, R)"
    using view_invD [OF v] by simp_all
  have "preflight_passed p" if "profile_at (poke r f s) j = Some p" "dp_status p = Active" for j p
    using poke_profile_at [OF ok i that(1)] that(2) st view_invD(5) [OF v, of j p] by auto
  then show ?thesis
    using poke_store_ok [OF ok i, of f] poke_one_active_profile [where f = f, OF ok one i st]
      poke_routed [where f = f, OF ok ro i f st] poke_registered [where f = f, OF ok re i _ st] f
    by (simp add: view_inv_def)
qed

subsection \<open>Activation\<close>

lemma activate_routed:
  assumes "store_ok s" and "routed (s, R)" and "map_of (ts_profiles s) i = Some r"
  shows "routed (poke r (with_status Active now) s,
    AList.update (profileKey (dp_tenantId (deref s r)) (dp_projectId (deref s r))) r R)"
proof -
  have r: "r < length (ts_heap s)" "dp_id (deref s r) = i" using assms(1,3) by (simp_all add: store_okD)
  show ?thesis using assms(2,3) r by (auto simp: routed_def)
qed

lemma activate_registered:
  assumes ok: "store_ok s" and re: "registered (s, R)" and i: "map_of (ts_profiles s) i = Some r"
    and only: "\<And>j q. profile_at s j = Some q \<Longrightarrow> dp_status q = Active \<Longrightarrow> slot q = slot (deref s r) \<Longrightarrow> j = i"
  shows "registered (poke r (with_status Active now) s,
    AList.update (profileKey (dp_tenantId (deref s r)) (dp_projectId (deref s r))) r R)"
  (is "registered (?s, ?R)")
  unfolding registered_def prod.case
proof (intro impI allI)
  have r: "r < length (ts_heap s)" using ok i by (simp add: store_okD)
  fix j r'
  assume H: "list_all (\<lambda>p. colon_free (dp_tenantId p)) (ts_heap ?s)"
    "map_of (ts_profiles ?s) j = Some r'" "dp_status (deref ?s r') = Active"
  have col: "list_all (\<lambda>p. colon_free (dp_tenantId p)) (ts_heap s)"
    by (rule heap_colon_poke [OF r _ H(1)]) simp
  show "map_of ?R (profileKey (dp_tenantId (deref ?s r')) (dp_projectId (deref ?s r'))) = Some r'"
  proof (cases "r' = r")
    case True
    then show ?thesis using r by simp
  next
    case False
    have j: "map_of (ts_profiles s) j = Some r'" using H(2) by simp
    have r': "r' < length (ts_heap s)" using store_okD [OF ok j] by simp
    have act: "dp_status (deref s r') = Active" using H(3) False r by simp
    have ne: "j \<noteq> i" using False i j by auto
    have "slot (deref s r') \<noteq> slot (deref s r)"
      using only [of j "deref s r'"] j act ne by (auto simp: profile_at_def getById_def)
    moreover have "colon_free (dp_tenantId (deref s r'))" "colon_free (dp_tenantId (deref s r))"
      using col r r' by (simp_all add: list_all_length)
    ultimately have "profileKey (dp_tenantId (deref s r')) (dp_projectId (deref s r'))
        \<noteq> profileKey (dp_tenantId (deref s r)) (dp_projectId (deref s r))"
      by (simp add: profileKey_slot)
    then show ?thesis using re col j act False r by (simp add: registered_def)
  qed
qed

lemma activate_view_inv:
  assumes v: "view_inv (s, R)" and i: "map_of (ts_profiles s) i = Some r"
    and pass: "preflight_passed (deref s r)"
    and only: "\<And>j q. profile_at s j = Some q \<Longrightarrow> dp_status q = Active \<Longrightarrow> slot q = slot (deref s r) \<Longrightarrow> j = i"
  shows "view_inv (poke r (with_status Active now) s,
    AList.update (profileKey (dp_tenantId (deref s r)) (dp_projectId (deref s r))) r R)"
proof -
  have ok: "store_ok s" and one: "one_active_profile (profile_at s)" and ro: "routed (s, R)" and re: "registered (s, R)"
    using view_invD [OF v] by simp_all
  have p: "profile_at s i = Some (deref s r)" using i by (simp add: profile_at_def getById_def)
  have "one_active_profile (profile_at (poke r (with_status Active now) s))"
    using ts.activate_keeps [where now = now, OF ok one p only] by (simp add: setStatus_poke [OF ok i])
  moreover have "preflight_passed q"
    if "profile_at (poke r (with_status Active now) s) j = Some q" "dp_status q = Active" for j q
    using poke_profile_at [OF ok i that(1)] that(2) pass view_invD(5) [OF v, of j q] by auto
  ultimately show ?thesis
    using poke_store_ok [OF ok i, of "with_status Active now"] activate_routed [OF ok ro i]
      activate_registered [OF ok re i only]
    by (simp add: view_inv_def)
qed

subsection \<open>Creation and deletion\<close>

lemma create_view_inv:
  assumes v: "view_inv (s, R)" and fresh: "map_of (ts_profiles s) uid = None"
    and valid: "create_schema_ok is_url inp"
  shows "view_inv (fst (ts_create is_url zm uid now inp actor s), R)"
proof -
  have ok: "store_ok s" and one: "one_active_profile (profile_at s)" and ro: "routed (s, R)" and re: "registered (s, R)"
    using view_invD [OF v] by simp_all
  let ?p = "new_profile uid now inp actor" and ?s = "fst (ts_create is_url zm uid now inp actor s)"
  have s': "ts_heap ?s = ts_heap s @ [?p]" "ts_profiles ?s = AList.update uid (length (ts_heap s)) (ts_profiles s)"
    using valid by (simp_all add: ts_create_def)
  have at: "profile_at ?s = (profile_at s)(uid \<mapsto> ?p)" by (rule profile_at_create [OF ok valid])
  have draft: "dp_status ?p = Draft" by (simp add: new_profile_def)
  have "one_active_profile (profile_at ?s)" using one draft by (auto simp: at one_active_profile_def)
  moreover have "routed (?s, R)"
    using ro fresh by (fastforce simp: routed_def s' nth_append)
  moreover have "registered (?s, R)"
    using re draft store_okD [OF ok] by (auto simp: registered_def s' nth_append)
  moreover have "preflight_passed q" if "profile_at ?s j = Some q" "dp_status q = Active" for j q
    using that draft view_invD(5) [OF v, of j q] by (auto simp: at split: if_splits)
  ultimately show ?thesis using ts_create_ok [OF ok] by (simp add: view_inv_def)
qed

lemma delete_view_inv:
  assumes v: "view_inv (s, R)" and i: "map_of (ts_profiles s) i = Some r"
    and st: "dp_status (deref s r) \<noteq> Active"
  shows "view_inv (fst (ts_delete i s), R)"
proof -
  have ok: "store_ok s" and one: "one_active_profile (profile_at s)" and ro: "routed (s, R)" and re: "registered (s, R)"
    using view_invD [OF v] by simp_all
  let ?s = "fst (ts_delete i s)"
  have s': "ts_heap ?s = ts_heap s" "ts_profiles ?s = AList.delete i (ts_profiles s)"
    by (simp_all add: ts_delete_def)
  have at: "profile_at ?s = (profile_at s)(i := None)" by (rule profile_at_delete)
  have "one_active_profile (profile_at ?s)" using one by (auto simp: at one_active_profile_def)
  moreover have "routed (?s, R)" using ro i st by (auto simp: routed_def s')
  moreover have "registered (?s, R)" using re by (auto simp: registered_def s')
  moreover have "preflight_passed q" if "profile_at ?s j = Some q" "dp_status q = Active" for j q
    using that view_invD(5) [OF v, of j q] by (auto simp: at split: if_splits)
  ultimately show ?thesis using ts_delete_ok [OF ok] by (simp add: view_inv_def)
qed

lemma edge_inv: "edge v v' \<Longrightarrow> view_inv v \<Longrightarrow> view_inv v'"
proof (induction rule: edge.induct)
  case e_create
  then show ?case by (simp add: create_view_inv)
next
  case (e_retire s i r st R now)
  then show ?case by (simp add: poke_view_inv)
next
  case (e_preflight s i r R res now)
  then show ?case by (simp add: poke_view_inv)
next
  case (e_activate s i r R now)
  show ?case by (rule activate_view_inv [OF e_activate.prems e_activate.hyps(1,2) e_activate.hyps(3)])
next
  case (e_delete s i r R)
  then show ?case by (simp add: delete_view_inv)
qed

lemma edges_inv: "edges v v' \<Longrightarrow> view_inv v \<Longrightarrow> view_inv v'"
  by (induction rule: rtranclp_induct) (auto intro: edge_inv)

section \<open>Operations are sequences of edges\<close>

definition ids_drawn :: "control_env \<Rightarrow> control_world \<Rightarrow> bool" where
  "ids_drawn env w \<longleftrightarrow>
     (\<forall>i \<in> fst ` set (ts_profiles (cw_store w)). \<exists>n < cw_uuids w. i = ce_uuid env n)"

definition control_inv :: "control_env \<Rightarrow> control_world \<Rightarrow> bool" where
  "control_inv env w \<longleftrightarrow> inj (ce_uuid env) \<and> ids_drawn env w \<and> view_inv (cw_view w)"

lemma emitAudit_view [simp]:
  "cw_view (emitAudit env now actor action res d w) = cw_view w"
  "cw_store (emitAudit env now actor action res d w) = cw_store w"
  "cw_routing (emitAudit env now actor action res d w) = cw_routing w"
  "cw_creds (emitAudit env now actor action res d w) = cw_creds w"
  "cw_uuids (emitAudit env now actor action res d w) = Suc (Suc (cw_uuids w))"
  by (simp_all add: emitAudit_def cw_view_def)

lemma set_status_simps [simp]:
  "cw_store (set_status i st now w) = fst (setStatus i st now (cw_store w))"
  "cw_routing (set_status i st now w) = cw_routing w"
  "cw_creds (set_status i st now w) = cw_creds w"
  "cw_uuids (set_status i st now w) = cw_uuids w"
  by (simp_all add: set_status_def)

lemma guarded_profileD:
  "guarded_profile i actor w = Inr r \<Longrightarrow>
   map_of (ts_profiles (cw_store w)) i = Some r \<and> assertAuthorized actor TenantAdmin = None
   \<and> \<not> other_tenant actor (dp_tenantId (deref (cw_store w) r))"
  by (auto simp: guarded_profile_def getById_def split: option.splits if_splits)

lemma retire_edge:
  assumes "store_ok (cw_store w)" and "map_of (ts_profiles (cw_store w)) i = Some r" and "st \<noteq> Active"
  shows "edge (cw_view w) (cw_view (set_status i st now w))"
  using e_retire [OF assms(2,3)] by (simp add: cw_view_def setStatus_poke [OF assms(1,2)])

lemma create_edges:
  assumes "view_inv (cw_view w)" and "map_of (ts_profiles (cw_store w)) (ce_uuid env (cw_uuids w)) = None"
  shows "edges (cw_view w) (cw_view (fst (createProfile env now inp actor w)))"
proof -
  let ?c = "ts_create (ce_is_url env) (ce_zod_message env) (ce_uuid env (cw_uuids w)) now inp
    (ac_actorId actor) (cw_store w)"
  have "edges (cw_view w) (fst ?c, re_profiles (cw_routing w))"
  proof (cases "create_schema_ok (ce_is_url env) inp")
    case True
    then show ?thesis using e_create [OF assms(2) True] by (auto simp: cw_view_def)
  next
    case False
    then show ?thesis by (simp add: cw_view_def ts_create_def)
  qed
  moreover have "cw_view (fst (createProfile env now inp actor w))
      \<in> {cw_view w, (fst ?c, re_profiles (cw_routing w))}"
    by (auto simp: createProfile_def cw_view_def split: option.splits prod.splits sum.splits)
  ultimately show ?thesis by auto
qed

lemma deactivate_edges:
  assumes "view_inv (cw_view w)"
  shows "edges (cw_view w) (cw_view (fst (deactivateProfile env now i actor w)))"
proof (cases "guarded_profile i actor w")
  case (Inl e)
  then show ?thesis by (simp add: deactivateProfile_def)
next
  case (Inr r)
  have ok: "store_ok (cw_store w)" using view_invD(1) [OF assms] by (simp add: cw_view_def)
  have m: "map_of (ts_profiles (cw_store w)) i = Some r" using guarded_profileD [OF Inr] by simp
  have "cw_view (fst (deactivateProfile env now i actor w)) = cw_view (set_status i Inactive now w)"
    using Inr by (simp add: deactivateProfile_def setStatus_found [OF ok m] set_status_def cw_view_def)
  then show ?thesis using retire_edge [OF ok m, of Inactive now] by auto
qed

lemma delete_edges:
  assumes "view_inv (cw_view w)"
  shows "edges (cw_view w) (cw_view (fst (deleteProfile env now i actor w)))"
proof (cases "guarded_profile i actor w")
  case (Inl e)
  then show ?thesis by (simp add: deleteProfile_def)
next
  case (Inr r)
  have m: "map_of (ts_profiles (cw_store w)) i = Some r" using guarded_profileD [OF Inr] by simp
  show ?thesis
    using Inr e_delete [OF m, of "re_profiles (cw_routing w)"] by (auto simp: deleteProfile_def cw_view_def)
qed

lemma preflight_edges:
  assumes v: "view_inv (cw_view w)"
  shows "edges (cw_view w) (cw_view (fst (runPreflight env start now i actor w)))"
proof (cases "assertAuthorized actor TenantAdmin = None \<and> getById (cw_store w) i \<noteq> None")
  case False
  then show ?thesis by (auto simp: runPreflight_def split: option.splits)
next
  case True
  then obtain r where r: "map_of (ts_profiles (cw_store w)) i = Some r" by (auto simp: getById_def)
  have ok: "store_ok (cw_store w)" using view_invD(1) [OF v] by (simp add: cw_view_def)
  have len: "r < length (ts_heap (cw_store w))" using store_okD [OF ok r] by simp
  define w1 where "w1 = set_status i Validating start w"
  define res where "res = preflight_check (deref (cw_store w1) r) (cm_getByProfile (cw_creds w1) i) (now - start) now"
  define w2 where "w2 = w1\<lparr>cw_store := fst (setPreflightResult i res now (cw_store w1))\<rparr>"
  define w3 where "w3 = (if \<not> pf_passed res then set_status i Failed now w2 else w2)"
  have ok1: "store_ok (cw_store w1)" using ok by (simp add: w1_def setStatus_ok)
  have r1: "map_of (ts_profiles (cw_store w1)) i = Some r"
    by (simp add: w1_def setStatus_poke [OF ok r] r)
  have st1: "dp_status (deref (cw_store w1) r) \<noteq> Active"
    using len by (simp add: w1_def setStatus_poke [OF ok r])
  have ok2: "store_ok (cw_store w2)" using ok1 by (simp add: w2_def setPreflightResult_ok)
  have r2: "map_of (ts_profiles (cw_store w2)) i = Some r"
    by (simp add: w2_def setPreflightResult_found [OF ok1 r1] r1)
  have "edge (cw_view w) (cw_view w1)" unfolding w1_def by (rule retire_edge [OF ok r]) simp
  moreover have "edge (cw_view w1) (cw_view w2)"
    using e_preflight [OF r1 st1] by (simp add: w2_def cw_view_def setPreflightResult_found [OF ok1 r1])
  moreover have "edges (cw_view w2) (cw_view w3)"
    using retire_edge [OF ok2 r2, of Failed now] by (auto simp: w3_def)
  moreover have "cw_view (fst (runPreflight env start now i actor w)) = cw_view w3"
    using True r by (simp add: runPreflight_def getById_def Let_def w1_def w2_def w3_def res_def)
  ultimately show ?thesis by (metis converse_rtranclp_into_rtranclp)
qed

lemma retire_active_edges:
  assumes v: "view_inv (cw_view w)" and i: "map_of (ts_profiles (cw_store w)) i = Some r"
    and w': "w' = retire_active env now i actor (deref (cw_store w) r) w"
  shows "edges (cw_view w) (cw_view w')" and "map_of (ts_profiles (cw_store w')) i = Some r"
    and "deref (cw_store w') r = deref (cw_store w) r"
    and "profile_at (cw_store w') j = Some q \<Longrightarrow> dp_status q = Active
      \<Longrightarrow> slot q = slot (deref (cw_store w) r) \<Longrightarrow> j = i"
proof -
  let ?s = "cw_store w" and ?p = "deref (cw_store w) r"
  have ok: "store_ok ?s" and one: "one_active_profile (profile_at ?s)"
    using view_invD(1,2) [OF v] by (simp_all add: cw_view_def)
  have "edges (cw_view w) (cw_view w') \<and> map_of (ts_profiles (cw_store w')) i = Some r
    \<and> deref (cw_store w') r = ?p \<and> (\<forall>j q. profile_at (cw_store w') j = Some q \<longrightarrow> dp_status q = Active
      \<longrightarrow> slot q = slot ?p \<longrightarrow> j = i)"
  proof (cases "getActive ?s (dp_tenantId ?p) (dp_projectId ?p)")
    case None
    then show ?thesis using i getActive_None [OF None] by (auto simp: w' retire_active_def)
  next
    case (Some x)
    let ?e = "dp_id (deref ?s x)"
    have at: "profile_at ?s ?e = Some (deref ?s x)" and act: "dp_status (deref ?s x) = Active"
      "slot (deref ?s x) = slot ?p"
      using getActive_Some [OF ok Some] by simp_all
    have uniq: "j = ?e" if "profile_at ?s j = Some q" "dp_status q = Active" "slot q = slot ?p" for j q
      using one that at act unfolding one_active_profile_def by metis
    show ?thesis
    proof (cases "?e = i")
      case True
      then show ?thesis using i Some uniq by (auto simp: w' retire_active_def Let_def)
    next
      case False
      obtain x' where x': "map_of (ts_profiles ?s) ?e = Some x'"
        using at by (auto simp: profile_at_def getById_def)
      have len: "x' < length (ts_heap ?s)" using store_okD [OF ok x'] by simp
      have ne: "r \<noteq> x'" using False x' i store_ref_inj [OF ok] by metis
      have view: "cw_view w' = cw_view (set_status ?e Inactive now w)"
        and s': "cw_store w' = poke x' (with_status Inactive now) ?s"
        using Some False by (simp_all add: w' retire_active_def Let_def setStatus_poke [OF ok x'])
      have "edges (cw_view w) (cw_view w')"
        using retire_edge [OF ok x', of Inactive now] view by auto
      moreover have "j = i" if "profile_at (cw_store w') j = Some q" "dp_status q = Active"
        "slot q = slot ?p" for j q
        using poke_profile_at [OF ok x' that(1) [unfolded s']] that(2,3) uniq [of j q] by auto
      ultimately show ?thesis using i ne len by (auto simp: s')
    qed
  qed
  then show "edges (cw_view w) (cw_view w')" "map_of (ts_profiles (cw_store w')) i = Some r"
    "deref (cw_store w') r = ?p"
    "profile_at (cw_store w') j = Some q \<Longrightarrow> dp_status q = Active \<Longrightarrow> slot q = slot ?p \<Longrightarrow> j = i"
    by blast+
qed

lemma activate_edges:
  assumes v: "view_inv (cw_view w)"
  shows "edges (cw_view w) (cw_view (fst (activateProfile env now i actor w)))"
proof (cases "guarded_profile i actor w")
  case (Inl e)
  then show ?thesis by (simp add: activateProfile_def)
next
  case (Inr r)
  have m: "map_of (ts_profiles (cw_store w)) i = Some r" using guarded_profileD [OF Inr] by simp
  show ?thesis
  proof (cases "preflight_passed (deref (cw_store w) r)")
    case False
    then show ?thesis using Inr by (simp add: activateProfile_def Let_def preflight_passed_def)
  next
    case True
    let ?p = "deref (cw_store w) r" and ?w = "retire_active env now i actor (deref (cw_store w) r) w"
    note ra = retire_active_edges [OF v m refl, of env now actor]
    have v1: "view_inv (cw_view ?w)" by (rule edges_inv [OF ra(1) v])
    have ok1: "store_ok (cw_store ?w)" using view_invD(1) [OF v1] by (simp add: cw_view_def)
    have len: "r < length (ts_heap (cw_store ?w))" using store_okD [OF ok1 ra(2)] by simp
    have "edge (cw_view ?w) (poke r (with_status Active now) (cw_store ?w),
        AList.update (profileKey (dp_tenantId ?p) (dp_projectId ?p)) r (re_profiles (cw_routing ?w)))"
      using e_activate [OF ra(2), of "re_profiles (cw_routing ?w)" now] True ra(4)
      unfolding ra(3) cw_view_def by blast
    moreover have "cw_view (fst (activateProfile env now i actor w)) = (poke r (with_status Active now) (cw_store ?w),
        AList.update (profileKey (dp_tenantId ?p) (dp_projectId ?p)) r (re_profiles (cw_routing ?w)))"
      using Inr True len
      by (simp add: activateProfile_def Let_def preflight_passed_def setStatus_found [OF ok1 ra(2)]
          cw_view_def setProfile_def ra(3))
    ultimately show ?thesis using ra(1) by (metis rtranclp.rtrancl_into_rtrancl)
  qed
qed

lemmas operation_edges = create_edges deactivate_edges delete_edges preflight_edges activate_edges

lemma fresh_id:
  assumes "control_inv env w"
  shows "map_of (ts_profiles (cw_store w)) (ce_uuid env (cw_uuids w)) = None"
proof (rule ccontr)
  assume "map_of (ts_profiles (cw_store w)) (ce_uuid env (cw_uuids w)) \<noteq> None"
  then have "ce_uuid env (cw_uuids w) \<in> fst ` set (ts_profiles (cw_store w))"
    by (simp add: map_of_eq_None_iff)
  then obtain n where "n < cw_uuids w" "ce_uuid env (cw_uuids w) = ce_uuid env n"
    using assms unfolding control_inv_def ids_drawn_def by blast
  then show False using assms by (auto simp: control_inv_def dest: injD)
qed

lemma view_updates:
  "cw_view (w\<lparr>cw_creds := c, cw_uuids := n\<rparr>) = cw_view w"
  "cw_view (w\<lparr>cw_routing := e\<rparr>) = (cw_store w, re_profiles e)"
  "cw_view (w\<lparr>cw_routing := e, cw_uuids := n\<rparr>) = (cw_store w, re_profiles e)"
  "cw_view (fst (testConnection env start now i actor w)) = cw_view w"
  by (simp_all add: cw_view_def testConnection_def Let_def split: option.splits)

lemma cw_step_edges:
  assumes "control_inv env w"
  shows "edges (cw_view w) (cw_view (cw_step env op w))"
proof -
  have v: "view_inv (cw_view w)" using assms by (simp add: control_inv_def)
  have same: "(cw_store w, re_profiles (cw_routing w)) = cw_view w" by (simp add: cw_view_def)
  show ?thesis
    by (cases op)
       (simp_all add: operation_edges v fresh_id [OF assms] view_updates same resolve_frame
         addRule_def removeRulesByTenant_def setResidencyPolicy_def)
qed

subsection \<open>Identifiers\<close>

lemma ids_drawn_mono:
  assumes "ids_drawn env w" and "fst ` set (ts_profiles (cw_store w')) \<subseteq> fst ` set (ts_profiles (cw_store w))"
    and "cw_uuids w \<le> cw_uuids w'"
  shows "ids_drawn env w'"
  using assms unfolding ids_drawn_def by (meson order_less_le_trans subset_iff)

lemma status_keys: "fst ` set (ts_profiles (fst (setStatus i st now s))) = fst ` set (ts_profiles s)"
  by (auto simp: setStatus_def dom_map_of_conv_image_fst [symmetric] dom_def poke_def split: option.splits if_splits)

lemma preflight_keys: "fst ` set (ts_profiles (fst (setPreflightResult i res now s))) = fst ` set (ts_profiles s)"
  by (auto simp: setPreflightResult_def dom_map_of_conv_image_fst [symmetric] dom_def poke_def split: option.splits if_splits)

lemma delete_keys: "fst ` set (ts_profiles (fst (ts_delete i s))) \<subseteq> fst ` set (ts_profiles s)"
  by (auto simp: ts_delete_def dom_map_of_conv_image_fst [symmetric] dom_def split: if_splits)

lemma create_keys:
  "fst ` set (ts_profiles (fst (ts_create u zm uid now inp a s))) \<subseteq> insert uid (fst ` set (ts_profiles s))"
  by (auto simp: ts_create_def dom_map_of_conv_image_fst [symmetric] dom_def split: if_splits)

lemma create_ids: "ids_drawn env w \<Longrightarrow> ids_drawn env (fst (createProfile env now inp actor w))"
proof -
  assume ids: "ids_drawn env w"
  let ?c = "ts_create (ce_is_url env) (ce_zod_message env) (ce_uuid env (cw_uuids w)) now inp
    (ac_actorId actor) (cw_store w)"
  show ?thesis
  proof (cases "assertAuthorized actor TenantAdmin = None \<and> \<not> other_tenant actor (pi_tenantId inp)")
    case False
    then show ?thesis using ids by (auto simp: createProfile_def split: option.splits)
  next
    case True
    show ?thesis
    proof (cases "snd ?c")
      case (Inl e)
      then have "fst ?c = cw_store w" by (auto simp: ts_create_def split: if_splits)
      with Inl True ids show ?thesis
        by (cases ?c) (simp add: createProfile_def ids_drawn_def)
    next
      case (Inr r)
      have k: "fst ` set (ts_profiles (fst ?c)) \<subseteq> insert (ce_uuid env (cw_uuids w)) (fst ` set (ts_profiles (cw_store w)))"
        by (rule create_keys)
      have "cw_store (fst (createProfile env now inp actor w)) = fst ?c"
        and "cw_uuids (fst (createProfile env now inp actor w)) = Suc (Suc (Suc (cw_uuids w)))"
        using True Inr by (cases ?c; simp add: createProfile_def)+
      then show ?thesis using k ids unfolding ids_drawn_def
        by (metis (no_types, lifting) insertE less_Suc_eq less_SucI subset_iff)
    qed
  qed
qed

lemma deactivate_shape:
  "cw_store (fst (deactivateProfile env now i actor w)) \<in> {cw_store w, fst (setStatus i Inactive now (cw_store w))}"
  "cw_uuids w \<le> cw_uuids (fst (deactivateProfile env now i actor w))"
  by (auto simp: deactivateProfile_def split: sum.split prod.split)

lemma deactivate_ids:
  assumes "ids_drawn env w"
  shows "ids_drawn env (fst (deactivateProfile env now i actor w))"
proof (rule ids_drawn_mono [OF assms])
  show "fst ` set (ts_profiles (cw_store (fst (deactivateProfile env now i actor w))))
      \<subseteq> fst ` set (ts_profiles (cw_store w))"
    using deactivate_shape(1) [of env now i actor w] by (elim insertE emptyE) (simp_all add: status_keys)
qed (rule deactivate_shape(2))

lemma delete_ids: "ids_drawn env w \<Longrightarrow> ids_drawn env (fst (deleteProfile env now i actor w))"
  using delete_keys [of i "cw_store w"]
  by (erule_tac ids_drawn_mono) (auto simp: deleteProfile_def split: sum.splits)

lemma preflight_ids: "ids_drawn env w \<Longrightarrow> ids_drawn env (fst (runPreflight env start now i actor w))"
  by (erule ids_drawn_mono)
     (simp_all add: runPreflight_def Let_def status_keys preflight_keys split: option.splits)

lemma retire_keys:
  "fst ` set (ts_profiles (cw_store (retire_active env now i actor p w))) = fst ` set (ts_profiles (cw_store w))"
  "cw_uuids w \<le> cw_uuids (retire_active env now i actor p w)"
  by (simp_all add: retire_active_def Let_def status_keys split: option.splits)

lemma activate_ids:
  assumes "ids_drawn env w"
  shows "ids_drawn env (fst (activateProfile env now i actor w))"
proof (cases "guarded_profile i actor w")
  case (Inl e)
  then show ?thesis using assms by (simp add: activateProfile_def)
next
  case (Inr r)
  let ?p = "deref (cw_store w) r" and ?w = "fst (activateProfile env now i actor w)"
  let ?w1 = "retire_active env now i actor (deref (cw_store w) r) w"
  obtain s x where sx: "setStatus i Active now (cw_store ?w1) = (s, x)" by fastforce
  have "?w = w \<or> (cw_store ?w = s \<and> cw_uuids ?w1 \<le> cw_uuids ?w)"
    using Inr sx by (cases x) (auto simp: activateProfile_def Let_def)
  moreover have "fst ` set (ts_profiles s) = fst ` set (ts_profiles (cw_store w))"
    using status_keys [of i Active now "cw_store ?w1"] retire_keys(1) [of env now i actor ?p w] sx by simp
  ultimately show ?thesis
    using assms retire_keys(2) [of w env now i actor ?p]
    by (elim disjE) (simp, rule ids_drawn_mono [OF assms], auto)
qed

lemma other_ids:
  "ids_drawn env w \<Longrightarrow> ids_drawn env (w\<lparr>cw_creds := c, cw_uuids := Suc (cw_uuids w)\<rparr>)"
  "ids_drawn env w \<Longrightarrow> ids_drawn env (w\<lparr>cw_creds := c, cw_uuids := Suc (Suc (cw_uuids w))\<rparr>)"
  "ids_drawn env w \<Longrightarrow> ids_drawn env (w\<lparr>cw_routing := e\<rparr>)"
  "ids_drawn env w \<Longrightarrow> ids_drawn env (w\<lparr>cw_routing := e, cw_uuids := Suc (cw_uuids w)\<rparr>)"
  "ids_drawn env w \<Longrightarrow> ids_drawn env (fst (testConnection env start now i actor w))"
  by (erule ids_drawn_mono; simp add: testConnection_def Let_def split: option.splits)+

lemma cw_step_inv: "control_inv env w \<Longrightarrow> control_inv env (cw_step env op w)"
proof -
  assume c: "control_inv env w"
  then have "ids_drawn env w" by (simp add: control_inv_def)
  then have "ids_drawn env (cw_step env op w)"
    by (cases op) (simp_all add: create_ids deactivate_ids delete_ids preflight_ids activate_ids other_ids)
  then show ?thesis using c edges_inv [OF cw_step_edges [OF c]] by (simp add: control_inv_def)
qed

interpretation cw: machine "cw_step env" "control_inv env" for env
  by unfold_locales (rule cw_step_inv)

lemma initial_inv: "inj (ce_uuid env) \<Longrightarrow> control_inv env (initial_world creds)"
  by (simp add: control_inv_def ids_drawn_def initial_world_def empty_store_def empty_engine_def
      view_inv_def cw_view_def store_ok_def one_active_profile_def profile_at_def getById_def routed_def
      registered_def)

definition cw_run :: "control_env \<Rightarrow> credential_manager \<Rightarrow> control_op list \<Rightarrow> control_world" where
  "cw_run env creds ops = fold (cw_step env) ops (initial_world creds)"

lemma cw_run_inv: "inj (ce_uuid env) \<Longrightarrow> control_inv env (cw_run env creds ops)"
  unfolding cw_run_def by (rule cw.inv_run) (rule initial_inv)

end
