(* ===== verification/DsControlPlane.thy ===== *)
theory DsControlPlane
  imports DsControlSafety
begin

text \<open>
  What the control plane guarantees, over all runs from the initial state, and the three
  scenarios in which it does less than its comments say: keys that collide, preflight across
  tenants, and a project registration that hides the tenant's profile.
\<close>

section \<open>Observations\<close>

definition is_active :: "control_world \<Rightarrow> string \<Rightarrow> bool" where
  "is_active w i = (case profile_at (cw_store w) i of None \<Rightarrow> False | Some p \<Rightarrow> dp_status p = Active)"

definition slot_of :: "control_world \<Rightarrow> string \<Rightarrow> (string \<times> string option) option" where
  "slot_of w i = map_option slot (profile_at (cw_store w) i)"

definition tenant_of :: "control_world \<Rightarrow> string \<Rightarrow> string option" where
  "tenant_of w i = map_option dp_tenantId (profile_at (cw_store w) i)"

definition tenants_colon_free :: "control_world \<Rightarrow> bool" where
  "tenants_colon_free w \<longleftrightarrow> list_all (\<lambda>p. colon_free (dp_tenantId p)) (ts_heap (cw_store w))"

fun op_actor :: "control_op \<Rightarrow> actor_context option" where
  "op_actor (OpCreate now inp a) = Some a"
| "op_actor (OpDeactivate now i a) = Some a"
| "op_actor (OpDelete now i a) = Some a"
| "op_actor (OpPreflight start now i a) = Some a"
| "op_actor (OpActivate now i a) = Some a"
| "op_actor (OpTest start now i a) = Some a"
| "op_actor _ = None"

fun is_preflight :: "control_op \<Rightarrow> bool" where
  "is_preflight (OpPreflight start now i a) = True"
| "is_preflight _ = False"

lemma is_activeE:
  assumes "is_active w i"
  obtains p r where "profile_at (cw_store w) i = Some p" "dp_status p = Active"
    "map_of (ts_profiles (cw_store w)) i = Some r" "p = deref (cw_store w) r"
  using assms by (auto simp: is_active_def profile_at_def getById_def split: option.splits)

lemma run_view_inv: "inj (ce_uuid env) \<Longrightarrow> view_inv (cw_store (cw_run env creds ops), re_profiles (cw_routing (cw_run env creds ops)))"
  using cw_run_inv [of env creds ops] by (simp add: control_inv_def cw_view_def)

section \<open>A sample run\<close>

definition sample_env :: control_env where
  "sample_env = \<lparr>ce_uuid = show_nat, ce_is_url = (\<lambda>u. str_starts_with u ''http''),
     ce_zod_message = (\<lambda>inp. ''invalid''), ce_enc = (\<lambda>key iv pt. (rev pt, iv))\<rparr>"

definition sample_creds :: credential_manager where
  "sample_creds = CredentialManager None (replicate 32 CHR ''k'')"

definition sample_input :: "string \<Rightarrow> string option \<Rightarrow> provider \<Rightarrow> profile_input" where
  "sample_input t pr prov = \<lparr>pi_tenantId = t, pi_projectId = pr, pi_provider = prov,
     pi_region = ''eu'', pi_endpoint = ''https://db'', pi_authMode = IamRole,
     pi_encryptionMode = ProviderManaged, pi_allowedDomains = [Messages]\<rparr>"

definition sample_admin :: "string \<Rightarrow> actor_context" where
  "sample_admin t = \<lparr>ac_actorId = ''admin'', ac_tenantId = t, ac_role = TenantAdmin\<rparr>"

definition sample_setup :: "string \<Rightarrow> string option \<Rightarrow> provider \<Rightarrow> string \<Rightarrow> control_op list" where
  \<comment> \<open>create, store a credential, run the preflight, activate; \<open>i\<close> is the id \<open>create\<close> will draw\<close>
  "sample_setup t pr prov i =
     [OpCreate 1 (sample_input t pr prov) (sample_admin t),
      OpCredStore 2 ''iv'' i t prov IamRole ''secret'' None None,
      OpPreflight 3 4 i (sample_admin t), OpActivate 5 i (sample_admin t)]"

lemma sample_uuid: "inj (ce_uuid sample_env)"
  by (simp add: sample_env_def inj_def show_nat_inj)

section \<open>Guarantees\<close>

text \<open>
  C1: in every run of the control plane at most one profile is active for a tenant and project
  (activation retires the previous one; creation, deactivation, deletion, preflight, routing
  and credential operations never create a second).
\<close>

theorem one_active_profile_per_slot:
  assumes "inj (ce_uuid env)"
    and "is_active (cw_run env creds ops) i" and "is_active (cw_run env creds ops) j"
    and "slot_of (cw_run env creds ops) i = slot_of (cw_run env creds ops) j"
  shows "i = j"
proof -
  have "one_active_profile (profile_at (cw_store (cw_run env creds ops)))"
    using view_invD(2) [OF run_view_inv [OF assms(1)]] by simp
  with assms(2-4) show ?thesis
    by (elim is_activeE) (simp add: one_active_profile_def slot_of_def)
qed

text \<open>
  A profile that is active has passed its preflight, in every run.
\<close>

lemma active_profile_passed_preflight:
  assumes "inj (ce_uuid env)" and "is_active (cw_run env creds ops) i"
  shows "\<exists>p res. profile_at (cw_store (cw_run env creds ops)) i = Some p
    \<and> dp_preflightResult p = Some res \<and> pf_passed res"
  using assms(2) view_invD(5) [OF run_view_inv [OF assms(1)], of creds ops i]
  by (elim is_activeE) (auto simp: preflight_passed_def split: option.splits)

text \<open>
  C3: with colon-free tenant names, routing follows the store: in every run, a request for the
  tenant and project of an active profile is routed to that profile's provider, or refused by
  the tenant's residency policy.
\<close>

theorem routing_follows_activation:
  assumes "inj (ce_uuid env)" and "tenants_colon_free (cw_run env creds ops)"
    and "profile_at (cw_store (cw_run env creds ops)) i = Some p" and "dp_status p = Active"
  shows "snd (resolve (cw_store (cw_run env creds ops)) uid now (dp_tenantId p) d (dp_projectId p) c
      (cw_routing (cw_run env creds ops))) =
    (case enforceResidency (cw_routing (cw_run env creds ops)) (dp_tenantId p) p of
       Some exn \<Rightarrow> Inl exn
     | None \<Rightarrow> Inr (buildDecision now (dp_provider p) (dp_tenantId p) d Strong
         (''Active profile '' @ i @ '' for tenant'') (case c of None \<Rightarrow> uid | Some x \<Rightarrow> x) (dp_projectId p)))"
proof -
  let ?w = "cw_run env creds ops"
  have v: "view_inv (cw_store ?w, re_profiles (cw_routing ?w))" by (rule run_view_inv [OF assms(1)])
  obtain r where r: "map_of (ts_profiles (cw_store ?w)) i = Some r" "p = deref (cw_store ?w) r"
    using assms(3) by (auto simp: profile_at_def getById_def)
  have "map_of (re_profiles (cw_routing ?w)) (profileKey (dp_tenantId p) (dp_projectId p)) = Some r"
    using view_invD(4) [OF v] assms(2,4) r by (auto simp: registered_def tenants_colon_free_def)
  then have "re_getProfile (cw_routing ?w) (dp_tenantId p) (dp_projectId p) = Some r"
    by (simp add: re_getProfile_def)
  moreover have "dp_id p = i" using profile_at_id [OF _ assms(3)] view_invD(1) [OF v] by simp
  ultimately show ?thesis
    using resolve_active [of "cw_routing ?w" "dp_tenantId p" "dp_projectId p" r "cw_store ?w" uid now d c]
      assms(4) unfolding r(2) [symmetric] by metis
qed

text \<open>
  With colon-free tenant names, a profile that routing acts on belongs to the tenant asked
  for and is the store's active profile of that project or of the whole tenant: a deleted or
  replaced profile is never routed to.
\<close>

lemma routing_uses_current_profile:
  assumes "inj (ce_uuid env)" and "tenants_colon_free (cw_run env creds ops)" and "colon_free t"
    and "re_getProfile (cw_routing (cw_run env creds ops)) t pr = Some r"
    and "p = deref (cw_store (cw_run env creds ops)) r" and "dp_status p = Active"
  shows "profile_at (cw_store (cw_run env creds ops)) (dp_id p) = Some p \<and> dp_tenantId p = t
    \<and> (\<not> truthy_str (dp_projectId p) \<or> dp_projectId p = pr)"
proof -
  let ?w = "cw_run env creds ops"
  have v: "view_inv (cw_store ?w, re_profiles (cw_routing ?w))" by (rule run_view_inv [OF assms(1)])
  obtain pr' where k: "map_of (re_profiles (cw_routing ?w)) (profileKey t pr') = Some r" "pr' \<in> {pr, None}"
    using assms(4) by (auto simp: re_getProfile_def split: option.splits)
  have ro: "r < length (ts_heap (cw_store ?w))" "profileKey t pr' = profileKey (dp_tenantId p) (dp_projectId p)"
    "map_of (ts_profiles (cw_store ?w)) (dp_id p) = Some r"
    using view_invD(3) [OF v] k(1) assms(5,6) by (auto simp: routed_def)
  have "colon_free (dp_tenantId p)"
    using assms(2) ro(1) by (simp add: tenants_colon_free_def list_all_length assms(5))
  then have "dp_tenantId p = t" "\<not> truthy_str (dp_projectId p) \<or> dp_projectId p = pr'"
    using ro(2) profileKey_inj [OF assms(3), of "dp_tenantId p" pr' "dp_projectId p"]
    by (auto split: if_splits)
  then show ?thesis using k(2) ro(3) assms(5) by (auto simp: profile_at_def getById_def)
qed

theorem one_active_profile_per_slot_witness:
  "is_active (cw_run sample_env sample_creds (sample_setup ''acme'' None DynamoDB ''0'')) ''0''
   \<and> (''0'' :: string) = ''0''"
proof
  show "is_active (cw_run sample_env sample_creds (sample_setup ''acme'' None DynamoDB ''0'')) ''0''"
    by code_simp
  then show "(''0'' :: string) = ''0''"
    by (rule one_active_profile_per_slot [OF sample_uuid]) (code_simp, simp)
qed

lemma active_profile_passed_preflight_example:
  "\<exists>p res. profile_at (cw_store (cw_run sample_env sample_creds (sample_setup ''acme'' None DynamoDB ''0''))) ''0''
     = Some p \<and> dp_preflightResult p = Some res \<and> pf_passed res"
  by (rule active_profile_passed_preflight [OF sample_uuid]) code_simp

abbreviation sample_world :: control_world where
  "sample_world \<equiv> cw_run sample_env sample_creds (sample_setup ''acme'' (Some ''web'') DynamoDB ''0'')"

definition sample_profile :: datastore_profile where
  "sample_profile = \<lparr>dp_id = ''0'', dp_tenantId = ''acme'', dp_projectId = Some ''web'',
     dp_provider = DynamoDB, dp_region = ''eu'', dp_endpoint = ''https://db'', dp_authMode = IamRole,
     dp_encryptionMode = ProviderManaged, dp_allowedDomains = [Messages], dp_status = Active,
     dp_preflightResult = Some \<lparr>pf_connectivity = True, pf_authentication = True, pf_schemaReady = True,
       pf_latencyMs = 1, pf_passed = True, pf_checkedAt = 4, pf_errors = []\<rparr>,
     dp_createdAt = 1, dp_updatedAt = 5, dp_activatedAt = Some 5, dp_createdBy = ''admin''\<rparr>"

lemma sample_at: "profile_at (cw_store sample_world) ''0'' = Some sample_profile"
  by code_simp

lemma sample_colon_free: "tenants_colon_free sample_world"
  by code_simp

theorem routing_follows_activation_witness:
  "snd (resolve (cw_store sample_world) ''u'' 9 ''acme'' Messages (Some ''web'') None (cw_routing sample_world))
   = Inr (buildDecision 9 DynamoDB ''acme'' Messages Strong
       ''Active profile 0 for tenant'' ''u'' (Some ''web''))"
proof -
  have res: "enforceResidency (cw_routing sample_world) ''acme'' sample_profile = None" by code_simp
  have p: "dp_status sample_profile = Active" by (simp add: sample_profile_def)
  from routing_follows_activation [OF sample_uuid sample_colon_free sample_at p, of "''u''" 9 Messages None] res
  show ?thesis by (simp add: sample_profile_def)
qed

lemma routing_uses_current_profile_example:
  "tenant_of sample_world (dp_id (deref (cw_store sample_world) 0)) = Some ''acme''"
proof -
  have r: "colon_free ''acme''" "re_getProfile (cw_routing sample_world) ''acme'' (Some ''web'') = Some 0"
    "dp_status (deref (cw_store sample_world) 0) = Active"
    by code_simp+
  from routing_uses_current_profile [OF sample_uuid sample_colon_free r(1,2) refl r(3)]
  show ?thesis by (simp add: tenant_of_def)
qed

section \<open>Tenant isolation\<close>

lemma setStatus_frame:
  "store_ok s \<Longrightarrow> j \<noteq> i \<Longrightarrow> profile_at (fst (setStatus i st now s)) j = profile_at s j"
  by (cases "profile_at s i") (simp_all add: setStatus_missing profile_at_setStatus)

lemma guarded_tenant:
  assumes "guarded_profile i actor w = Inr r" and "ac_role actor \<noteq> PlatformAdmin"
  shows "profile_at (cw_store w) i = Some (deref (cw_store w) r)"
    and "dp_tenantId (deref (cw_store w) r) = ac_tenantId actor"
  using guarded_profileD [OF assms(1)] assms(2)
  by (auto simp: profile_at_def getById_def other_tenant_def)

lemma retire_active_frame:
  assumes "store_ok (cw_store w)" and "profile_at (cw_store w) j = Some q" and "dp_tenantId q \<noteq> dp_tenantId p"
  shows "profile_at (cw_store (retire_active env now i actor p w)) j = Some q"
proof (cases "getActive (cw_store w) (dp_tenantId p) (dp_projectId p)")
  case None
  then show ?thesis using assms(2) by (simp add: retire_active_def)
next
  case (Some x)
  have "dp_tenantId (deref (cw_store w) x) = dp_tenantId p"
    using getActive_Some(3) [OF assms(1) Some] by (simp add: slot_def)
  then have "j \<noteq> dp_id (deref (cw_store w) x)"
    using getActive_Some(1) [OF assms(1) Some] assms(2,3) by auto
  then show ?thesis using Some assms(1,2) by (simp add: retire_active_def Let_def setStatus_frame)
qed

lemma activate_frame:
  assumes v: "view_inv (cw_view w)" and g: "guarded_profile i actor w = Inr r"
    and ro: "ac_role actor \<noteq> PlatformAdmin"
    and q: "profile_at (cw_store w) j = Some q" "dp_tenantId q \<noteq> ac_tenantId actor"
  shows "profile_at (cw_store (fst (activateProfile env now i actor w))) j = Some q"
proof (cases "preflight_passed (deref (cw_store w) r)")
  case False
  then show ?thesis using g q(1) by (simp add: activateProfile_def Let_def preflight_passed_def)
next
  case True
  let ?w = "retire_active env now i actor (deref (cw_store w) r) w"
  have m: "map_of (ts_profiles (cw_store w)) i = Some r" using guarded_profileD [OF g] by simp
  note ra = retire_active_edges [OF v m refl, of env now actor]
  have ok: "store_ok (cw_store w)" using view_invD(1) [OF v] by (simp add: cw_view_def)
  have ok1: "store_ok (cw_store ?w)"
    using view_invD(1) [OF edges_inv [OF ra(1) v]] by (simp add: cw_view_def)
  have "j \<noteq> i" using guarded_tenant [OF g ro] q by auto
  moreover have "profile_at (cw_store ?w) j = Some q"
    by (rule retire_active_frame [OF ok q(1)]) (simp add: guarded_tenant [OF g ro] q(2))
  moreover have "cw_store (fst (activateProfile env now i actor w)) = fst (setStatus i Active now (cw_store ?w))"
    using g True by (simp add: activateProfile_def Let_def preflight_passed_def setStatus_found [OF ok1 ra(2)])
  ultimately show ?thesis using ok1 by (simp add: setStatus_frame)
qed

lemma deactivate_frame:
  assumes "store_ok (cw_store w)" and g: "guarded_profile i actor w = Inr r"
    and "ac_role actor \<noteq> PlatformAdmin"
    and "profile_at (cw_store w) j = Some q" "dp_tenantId q \<noteq> ac_tenantId actor"
  shows "profile_at (cw_store (fst (deactivateProfile env now i actor w))) j = Some q"
proof -
  have "j \<noteq> i" using guarded_tenant [OF g assms(3)] assms(4,5) by auto
  then show ?thesis
    using deactivate_shape(1) [of env now i actor w] assms(1,4) by (auto simp: setStatus_frame)
qed

lemma delete_frame:
  assumes g: "guarded_profile i actor w = Inr r" and "ac_role actor \<noteq> PlatformAdmin"
    and "profile_at (cw_store w) j = Some q" "dp_tenantId q \<noteq> ac_tenantId actor"
  shows "profile_at (cw_store (fst (deleteProfile env now i actor w))) j = Some q"
proof -
  have "j \<noteq> i" using guarded_tenant [OF g assms(2)] assms(3,4) by auto
  then show ?thesis using assms(3) g by (simp add: deleteProfile_def profile_at_delete)
qed

lemma create_frame:
  assumes "control_inv env w" and "profile_at (cw_store w) j = Some q"
  shows "profile_at (cw_store (fst (createProfile env now inp actor w))) j = Some q"
proof -
  let ?c = "ts_create (ce_is_url env) (ce_zod_message env) (ce_uuid env (cw_uuids w)) now inp
    (ac_actorId actor) (cw_store w)"
  have ok: "store_ok (cw_store w)" using assms(1) by (simp add: control_inv_def view_inv_def cw_view_def)
  have "j \<noteq> ce_uuid env (cw_uuids w)"
    using fresh_id [OF assms(1)] assms(2) by (auto simp: profile_at_def getById_def)
  then have "profile_at (fst ?c) j = Some q"
    using assms(2) profile_at_create [OF ok] by (cases "create_schema_ok (ce_is_url env) inp")
      (simp_all add: ts_create_def)
  moreover have "cw_store (fst (createProfile env now inp actor w)) \<in> {cw_store w, fst ?c}"
    by (auto simp: createProfile_def split: option.splits prod.splits sum.splits)
  ultimately show ?thesis using assms(2) by auto
qed

text \<open>
  C2: tenant isolation. Whatever an actor who is not a platform administrator asks for, other
  than a preflight, leaves the profiles of all other tenants exactly as they were, in every run.
\<close>

theorem tenant_isolation:
  assumes "inj (ce_uuid env)" and "op_actor op = Some actor" and "ac_role actor \<noteq> PlatformAdmin"
    and "\<not> is_preflight op"
    and "profile_at (cw_store (cw_run env creds ops)) j = Some q" and "dp_tenantId q \<noteq> ac_tenantId actor"
  shows "profile_at (cw_store (cw_run env creds (ops @ [op]))) j = Some q"
proof -
  let ?w = "cw_run env creds ops"
  have c: "control_inv env ?w" by (rule cw_run_inv [OF assms(1)])
  then have v: "view_inv (cw_view ?w)" and ok: "store_ok (cw_store ?w)"
    by (simp_all add: control_inv_def view_inv_def cw_view_def)
  have act: "profile_at (cw_store (fst (activateProfile env now i actor ?w))) j = Some q" for now i
    using activate_frame [OF v _ assms(3,5,6)] assms(5)
    by (cases "guarded_profile i actor ?w") (simp_all add: activateProfile_def)
  have dea: "profile_at (cw_store (fst (deactivateProfile env now i actor ?w))) j = Some q" for now i
    using deactivate_frame [OF ok _ assms(3,5,6)] assms(5)
    by (cases "guarded_profile i actor ?w") (simp_all add: deactivateProfile_def)
  have del: "profile_at (cw_store (fst (deleteProfile env now i actor ?w))) j = Some q" for now i
    using delete_frame [OF _ assms(3,5,6)] assms(5)
    by (cases "guarded_profile i actor ?w") (simp_all add: deleteProfile_def)
  have "profile_at (cw_store (cw_step env op ?w)) j = Some q"
    using assms(2,4,5) act dea del create_frame [OF c assms(5)]
    by (cases op) (simp_all add: testConnection_def Let_def split: option.splits)
  then show ?thesis by (simp add: cw_run_def)
qed

theorem tenant_isolation_witness:
  "tenant_of (cw_run sample_env sample_creds
     (sample_setup ''acme'' (Some ''web'') DynamoDB ''0'' @ [OpDeactivate 9 ''0'' (sample_admin ''other'')])) ''0''
   = Some ''acme''"
proof -
  have "profile_at (cw_store (cw_run sample_env sample_creds (sample_setup ''acme'' (Some ''web'') DynamoDB ''0''
      @ [OpDeactivate 9 ''0'' (sample_admin ''other'')]))) ''0'' = Some sample_profile"
    by (rule tenant_isolation [OF sample_uuid _ _ _ sample_at, where actor = "sample_admin ''other''"])
       (simp_all add: sample_admin_def sample_profile_def)
  then show ?thesis by (simp add: tenant_of_def sample_profile_def)
qed

text \<open>
  An actor with the viewer role changes no profile, no routing registration and no
  credential; the only operation open to it, the connection test, records an audit event.
\<close>

lemma viewer_changes_nothing:
  assumes "op_actor op = Some actor" and "ac_role actor = Viewer"
  shows "cw_store (cw_step env op w) = cw_store w \<and> cw_routing (cw_step env op w) = cw_routing w
    \<and> cw_creds (cw_step env op w) = cw_creds w"
  using assms
  by (cases op) (simp_all add: createProfile_def deactivateProfile_def deleteProfile_def runPreflight_def
      activateProfile_def guarded_profile_def assertAuthorized_def testConnection_def Let_def
      split: option.splits)

lemma viewer_changes_nothing_example:
  "cw_store (cw_step sample_env (OpDelete 9 ''0'' ((sample_admin ''acme'')\<lparr>ac_role := Viewer\<rparr>)) sample_world)
   = cw_store sample_world"
  using viewer_changes_nothing [of "OpDelete 9 ''0'' ((sample_admin ''acme'')\<lparr>ac_role := Viewer\<rparr>)"
      "(sample_admin ''acme'')\<lparr>ac_role := Viewer\<rparr>" sample_env sample_world]
  by simp

section \<open>Preflight\<close>

text \<open>
  A preflight passes exactly if the endpoint starts with \<open>http\<close> and some credential is
  stored for the profile, exactly if it reports no error; the profile is left validating if
  it passed and failed if not. It asks for the tenant administrator role only: the actor may
  belong to any tenant, and an active profile is taken out of service by it.
\<close>

lemma preflight_outcome:
  assumes "store_ok (cw_store w)" and "profile_at (cw_store w) i = Some p"
    and "1 \<le> role_rank (ac_role actor)"
  shows "\<exists>res p'. snd (runPreflight env start now i actor w) = Inr res
    \<and> (pf_passed res \<longleftrightarrow> str_starts_with (dp_endpoint p) ''http'' \<and> cm_getByProfile (cw_creds w) i \<noteq> None)
    \<and> (pf_passed res \<longleftrightarrow> pf_errors res = [])
    \<and> profile_at (cw_store (fst (runPreflight env start now i actor w))) i = Some p'
    \<and> dp_preflightResult p' = Some res
    \<and> dp_status p' = (if pf_passed res then Validating else Failed)"
proof -
  obtain r where r: "map_of (ts_profiles (cw_store w)) i = Some r" "p = deref (cw_store w) r"
    using assms(2) by (auto simp: profile_at_def getById_def)
  have len: "r < length (ts_heap (cw_store w))" using store_okD [OF assms(1) r(1)] by simp
  let ?s1 = "poke r (with_status Validating start) (cw_store w)"
  let ?res = "preflight_check (deref ?s1 r) (cm_getByProfile (cw_creds w) i) (now - start) now"
  let ?s2 = "poke r (with_preflight ?res now) ?s1"
  have ok1: "store_ok ?s1" by (rule poke_store_ok [OF assms(1) r(1)]) simp
  have r1: "map_of (ts_profiles ?s1) i = Some r" using r(1) by simp
  have ok2: "store_ok ?s2" by (rule poke_store_ok [OF ok1 r1]) simp
  have r2: "map_of (ts_profiles ?s2) i = Some r" using r(1) by simp
  have auth: "assertAuthorized actor TenantAdmin = None" using assms(3) by (simp add: assertAuthorized_def)
  have run: "snd (runPreflight env start now i actor w) = Inr ?res"
    "cw_store (fst (runPreflight env start now i actor w)) =
       (if \<not> pf_passed ?res then poke r (with_status Failed now) ?s2 else ?s2)"
    using auth r(1)
    by (simp_all add: runPreflight_def getById_def Let_def setStatus_poke [OF assms(1) r(1)]
        setPreflightResult_found [OF ok1 r1] setStatus_poke [OF ok2 r2])
  let ?p' = "if \<not> pf_passed ?res then with_status Failed now (deref ?s2 r) else deref ?s2 r"
  have at: "profile_at (cw_store (fst (runPreflight env start now i actor w))) i = Some ?p'"
    using len r(1) by (simp add: run profile_at_def getById_def)
  have ep: "dp_endpoint (deref ?s1 r) = dp_endpoint p" using len r(2) by simp
  have known: "provider_str q \<in> set [''mongodb'', ''dynamodb'', ''firestore'', ''cosmosdb'']" for q
    by (cases q) simp_all
  have chk: "pf_passed ?res \<longleftrightarrow> str_starts_with (dp_endpoint p) ''http'' \<and> cm_getByProfile (cw_creds w) i \<noteq> None"
    "pf_passed ?res \<longleftrightarrow> pf_errors ?res = []"
    using known by (simp_all add: preflight_check_def Let_def ep)
  have "dp_preflightResult ?p' = Some ?res" "dp_status ?p' = (if pf_passed ?res then Validating else Failed)"
    using len by simp_all
  then show ?thesis using run(1) chk at by blast
qed

lemma preflight_outcome_example:
  "\<exists>res p'. snd (runPreflight sample_env 8 9 ''0'' (sample_admin ''other'') sample_world) = Inr res
    \<and> pf_passed res
    \<and> profile_at (cw_store (fst (runPreflight sample_env 8 9 ''0'' (sample_admin ''other'') sample_world))) ''0'' = Some p'
    \<and> dp_status p' = Validating"
proof -
  have ok: "store_ok (cw_store sample_world)" using view_invD(1) [OF run_view_inv [OF sample_uuid]] by simp
  have cred: "cm_getByProfile (cw_creds sample_world) ''0'' \<noteq> None" by code_simp
  have "str_starts_with (dp_endpoint sample_profile) ''http''" by (simp add: sample_profile_def)
  with preflight_outcome [OF ok sample_at, of "sample_admin ''other''" sample_env 8 9] cred
  show ?thesis by (auto simp: sample_admin_def)
qed

section \<open>Routing keys\<close>

text \<open>
  The engine's key does not separate tenants: a request made for the tenant whose name is
  another tenant's name and project joined by two colons is routed to that tenant's profile
  (checked against the requester's own residency policy only).
\<close>

lemma colliding_tenant_is_routed:
  assumes "inj (ce_uuid env)" and "tenants_colon_free (cw_run env creds ops)"
    and "profile_at (cw_store (cw_run env creds ops)) i = Some p" and "dp_status p = Active"
    and "dp_projectId p = Some pr" and "pr \<noteq> []" and "t = dp_tenantId p @ ''::'' @ pr"
    and "getResidencyPolicy (cw_routing (cw_run env creds ops)) t = None"
  shows "\<exists>dec. snd (resolve (cw_store (cw_run env creds ops)) uid now t d None c
      (cw_routing (cw_run env creds ops))) = Inr dec
    \<and> rd_targetProvider dec = dp_provider p \<and> t \<noteq> dp_tenantId p"
proof -
  let ?w = "cw_run env creds ops"
  have v: "view_inv (cw_store ?w, re_profiles (cw_routing ?w))" by (rule run_view_inv [OF assms(1)])
  obtain r where r: "map_of (ts_profiles (cw_store ?w)) i = Some r" "p = deref (cw_store ?w) r"
    using assms(3) by (auto simp: profile_at_def getById_def)
  have "map_of (re_profiles (cw_routing ?w)) (profileKey (dp_tenantId p) (dp_projectId p)) = Some r"
    using view_invD(4) [OF v] assms(2,4) r by (auto simp: registered_def tenants_colon_free_def)
  then have g: "re_getProfile (cw_routing ?w) t None = Some r"
    using assms(5-7) by (simp add: re_getProfile_def profileKey_def)
  have "dp_status (deref (cw_store ?w) r) = Active" using assms(4) r(2) by simp
  from resolve_active [OF g this, of uid now d c] assms(7,8)
  show ?thesis by (simp add: enforceResidency_def getResidencyPolicy_def buildDecision_def r(2))
qed

lemma colliding_tenant_is_routed_example:
  "\<exists>dec. snd (resolve (cw_store sample_world) ''u'' 9 ''acme::web'' Messages None None
      (cw_routing sample_world)) = Inr dec \<and> rd_targetProvider dec = DynamoDB"
proof -
  have "getResidencyPolicy (cw_routing sample_world) ''acme::web'' = None" by code_simp
  from colliding_tenant_is_routed [OF sample_uuid sample_colon_free sample_at _ _ _ _ this, of "''web''" "''u''" 9 Messages None]
  show ?thesis by (simp add: sample_profile_def)
qed

text \<open>
  A project registration hides the tenant's profile: after the project's own profile has
  been deactivated, requests for the project fall through to the default provider although
  the tenant has an active profile.
\<close>

lemma deactivated_project_hides_tenant_profile:
  "let w = cw_run sample_env sample_creds
      (sample_setup ''acme'' None Firestore ''0'' @ sample_setup ''acme'' (Some ''web'') DynamoDB ''9''
       @ [OpDeactivate 20 ''9'' (sample_admin ''acme'')])
   in is_active w ''0'' \<and> slot_of w ''0'' = Some (''acme'', None) \<and> \<not> is_active w ''9''
      \<and> snd (resolve (cw_store w) ''u'' 21 ''acme'' Messages (Some ''web'') None (cw_routing w))
        = Inr (buildDecision 21 MongoDB ''acme'' Messages Strong ''Default fallback to internal MongoDB''
            ''u'' (Some ''web''))
      \<and> snd (resolve (cw_store w) ''u'' 21 ''acme'' Messages (Some ''shop'') None (cw_routing w))
        = Inr (buildDecision 21 Firestore ''acme'' Messages Strong ''Active profile 0 for tenant''
            ''u'' (Some ''shop''))"
  by code_simp

section \<open>Credentials\<close>

text \<open>
  C27: a stored credential is retrieved unchanged, whatever other operations the manager ran in
  between, as long as none of them rotates or revokes it and it has not expired (with a cipher
  that inverts, and a 32-byte key).
\<close>

theorem credential_round_trip:
  assumes "gcm_inverts enc dec (cm_encryptionKey m)" and "length (cm_encryptionKey m) = 32"
    and "\<forall>op \<in> set ops. \<not> touches rid op"
    and "ex = None \<or> (\<exists>x t. ex = Some x \<and> parse_date x = Some t \<and> later \<le> t)"
  shows "cm_retrieve dec parse_date later rid
      (fold (cm_step enc) ops (fst (cm_store enc iv rid aid now pid tid prov am raw ex actor m))) = Inr raw"
  by (rule cm_store_retrieve [OF assms])

theorem credential_round_trip_witness:
  "cm_retrieve (\<lambda>key iv tag ct. Some (rev ct)) (\<lambda>x. None) 9 ''c1''
     (fold (cm_step (\<lambda>key iv pt. (rev pt, iv))) [CmRevoke ''a2'' 3 ''c2'' None]
       (fst (cm_store (\<lambda>key iv pt. (rev pt, iv)) ''iv'' ''c1'' ''a1'' 2 ''p'' ''t'' MongoDB AccessKey ''pw'' None None
          sample_creds))) = Inr ''pw''"
  by (rule credential_round_trip)
     (simp_all add: gcm_inverts_def touches_def sample_creds_def CredentialManager_def)

text \<open>
  After a rotation the new secret is retrieved and never the old one, whatever unrelated
  operations follow; after a revocation the credential cannot be retrieved at all.
\<close>

lemma credential_rotate_revoke:
  assumes "gcm_inverts enc dec (cm_encryptionKey m)" and "length (cm_encryptionKey m) = 32"
    and "\<forall>op \<in> set ops. \<not> touches cid op"
    and "cm_getRecord m cid = Some r" and "\<not> cr_expired parse_date later r"
  shows "cm_retrieve dec parse_date later cid
      (fold (cm_step enc) ops (fst (cm_rotate enc iv aid now cid raw actor m))) = Inr raw
    \<and> cm_retrieve dec parse_date later cid
      (fold (cm_step enc) ops (fst (cm_revoke aid now cid actor m))) = Inl (credential_missing cid)"
  using cm_rotate_retrieve [OF assms(1-3) assms(4) [unfolded cm_getRecord_def] assms(5)]
    cm_revoke_gone [OF assms(3)]
  by simp

lemma credential_rotate_revoke_example:
  "let m = fst (cm_store (\<lambda>key iv pt. (rev pt, iv)) ''iv'' ''c1'' ''a1'' 2 ''p'' ''t'' MongoDB AccessKey ''pw'' None None
          sample_creds)
   in cm_retrieve (\<lambda>key iv tag ct. Some (rev ct)) (\<lambda>x. None) 9 ''c1''
       (fst (cm_rotate (\<lambda>key iv pt. (rev pt, iv)) ''iv2'' ''a2'' 3 ''c1'' ''new'' None m)) = Inr ''new''"
proof -
  define m where "m = fst (cm_store (\<lambda>key iv pt. (rev pt, iv)) ''iv'' ''c1'' ''a1'' 2 ''p'' ''t'' MongoDB AccessKey
    ''pw'' None None sample_creds)"
  define r where "r = the (cm_getRecord m ''c1'')"
  have r: "cm_getRecord m ''c1'' = Some r" "\<not> cr_expired (\<lambda>x. None) 9 r"
    unfolding r_def m_def option.collapse by code_simp+
  have "length (cm_encryptionKey m) = 32" unfolding m_def by code_simp
  then have "cm_retrieve (\<lambda>key iv tag ct. Some (rev ct)) (\<lambda>x. None) 9 ''c1''
      (fold (cm_step (\<lambda>key iv pt. (rev pt, iv))) []
        (fst (cm_rotate (\<lambda>key iv pt. (rev pt, iv)) ''iv2'' ''a2'' 3 ''c1'' ''new'' None m))) = Inr ''new''"
    using credential_rotate_revoke [OF _ _ _ r, where ops = "[]"] by (simp add: gcm_inverts_def)
  then show ?thesis by (simp add: m_def Let_def)
qed

end
