(* ===== verification/DsGuard.thy ===== *)
theory DsGuard
  imports DsTypes Complex_Main
begin

text \<open>
  Cost and throughput guards (services/flexible-datastore/src/guard-profiles). JavaScript
  numbers are exact rationals here; \<open>random\<close> is the value \<open>Math.random()\<close> gives. The
  text of a throttle reason is kept as the numbers it prints (\<open>throttle_reason\<close>).
\<close>

section \<open>State\<close>

record guard_profile =
  gp_provider :: provider
  gp_label :: string
  gp_maxRps :: rat
  gp_maxConnections :: rat
  gp_maxStorageBytes :: rat
  gp_costBudgetUsd :: rat
  gp_adaptiveThrottleThresholdPct :: rat
  gp_costWarningThresholdPct :: rat
  gp_burstMultiplier :: rat

record guard_patch =
  \<comment> \<open>\<open>Partial<Omit<GuardProfile, 'provider'>>\<close>\<close>
  gpp_label :: "string option"
  gpp_maxRps :: "rat option"
  gpp_maxConnections :: "rat option"
  gpp_maxStorageBytes :: "rat option"
  gpp_costBudgetUsd :: "rat option"
  gpp_adaptiveThrottleThresholdPct :: "rat option"
  gpp_costWarningThresholdPct :: "rat option"
  gpp_burstMultiplier :: "rat option"

record cost_observation =
  ob_provider :: provider
  ob_tenantId :: string
  ob_profileId :: string
  ob_region :: string
  ob_domain :: string
  ob_timestamp :: instant
  ob_readOps :: rat
  ob_writeOps :: rat
  ob_storageBytes :: rat
  ob_estimatedCostUsd :: rat

record guard_manager =
  gm_profiles :: "(string, guard_profile) jsmap"
  gm_observations :: "cost_observation list"
  gm_tenantOverrides :: "(string, guard_patch) jsmap"

fun DEFAULT_GUARD_PROFILES :: "provider \<Rightarrow> guard_profile" where
  "DEFAULT_GUARD_PROFILES MongoDB =
     \<lparr>gp_provider = MongoDB, gp_label = ''MongoDB Default Guard'', gp_maxRps = 5000,
      gp_maxConnections = 200, gp_maxStorageBytes = 50 * 1024 * 1024 * 1024, gp_costBudgetUsd = 500,
      gp_adaptiveThrottleThresholdPct = 80, gp_costWarningThresholdPct = 75, gp_burstMultiplier = 3 / 2\<rparr>"
| "DEFAULT_GUARD_PROFILES DynamoDB =
     \<lparr>gp_provider = DynamoDB, gp_label = ''DynamoDB Default Guard'', gp_maxRps = 3000,
      gp_maxConnections = 100, gp_maxStorageBytes = -1, gp_costBudgetUsd = 800,
      gp_adaptiveThrottleThresholdPct = 70, gp_costWarningThresholdPct = 60, gp_burstMultiplier = 2\<rparr>"
| "DEFAULT_GUARD_PROFILES Firestore =
     \<lparr>gp_provider = Firestore, gp_label = ''Firestore Default Guard'', gp_maxRps = 2000,
      gp_maxConnections = 80, gp_maxStorageBytes = 10 * 1024 * 1024 * 1024, gp_costBudgetUsd = 400,
      gp_adaptiveThrottleThresholdPct = 75, gp_costWarningThresholdPct = 70, gp_burstMultiplier = 13 / 10\<rparr>"
| "DEFAULT_GUARD_PROFILES CosmosDB =
     \<lparr>gp_provider = CosmosDB, gp_label = ''Cosmos DB Default Guard'', gp_maxRps = 4000,
      gp_maxConnections = 150, gp_maxStorageBytes = 25 * 1024 * 1024 * 1024, gp_costBudgetUsd = 600,
      gp_adaptiveThrottleThresholdPct = 70, gp_costWarningThresholdPct = 65, gp_burstMultiplier = 9 / 5\<rparr>"

definition new_GuardProfileManager :: guard_manager where
  "new_GuardProfileManager =
     \<lparr>gm_profiles = map (\<lambda>p. (provider_str p, DEFAULT_GUARD_PROFILES p)) ALL_PROVIDERS,
      gm_observations = [], gm_tenantOverrides = []\<rparr>"

section \<open>Profiles and overrides\<close>

definition tenant_provider_key :: "string \<Rightarrow> provider \<Rightarrow> string" where
  "tenant_provider_key tenantId prov = tenantId @ '':'' @ provider_str prov"

abbreviation patched :: "'a \<Rightarrow> 'a option \<Rightarrow> 'a" where
  "patched v p \<equiv> (case p of None \<Rightarrow> v | Some x \<Rightarrow> x)"

definition merge_guard :: "guard_profile \<Rightarrow> guard_patch \<Rightarrow> guard_profile" where
  "merge_guard g p =
     \<lparr>gp_provider = gp_provider g, gp_label = patched (gp_label g) (gpp_label p),
      gp_maxRps = patched (gp_maxRps g) (gpp_maxRps p),
      gp_maxConnections = patched (gp_maxConnections g) (gpp_maxConnections p),
      gp_maxStorageBytes = patched (gp_maxStorageBytes g) (gpp_maxStorageBytes p),
      gp_costBudgetUsd = patched (gp_costBudgetUsd g) (gpp_costBudgetUsd p),
      gp_adaptiveThrottleThresholdPct =
        patched (gp_adaptiveThrottleThresholdPct g) (gpp_adaptiveThrottleThresholdPct p),
      gp_costWarningThresholdPct = patched (gp_costWarningThresholdPct g) (gpp_costWarningThresholdPct p),
      gp_burstMultiplier = patched (gp_burstMultiplier g) (gpp_burstMultiplier p)\<rparr>"

definition gm_getProfile :: "provider \<Rightarrow> guard_manager \<Rightarrow> ds_exn + guard_profile" where
  "gm_getProfile prov m =
     (case map_of (gm_profiles m) (provider_str prov) of
        None \<Rightarrow> Inl (PlainError (''No guard profile for provider '' @ provider_str prov))
      | Some p \<Rightarrow> Inr p)"

definition getEffectiveProfile :: "provider \<Rightarrow> string \<Rightarrow> guard_manager \<Rightarrow> ds_exn + guard_profile" where
  "getEffectiveProfile prov tenantId m =
     (case gm_getProfile prov m of
        Inl e \<Rightarrow> Inl e
      | Inr base \<Rightarrow>
          (case map_of (gm_tenantOverrides m) (tenant_provider_key tenantId prov) of
             None \<Rightarrow> Inr base
           | Some override \<Rightarrow> Inr (merge_guard base override)))"

definition updateProfile ::
    "provider \<Rightarrow> guard_patch \<Rightarrow> guard_manager \<Rightarrow> (ds_exn + guard_profile) \<times> guard_manager" where
  "updateProfile prov patch m =
     (case gm_getProfile prov m of
        Inl e \<Rightarrow> (Inl e, m)
      | Inr existing \<Rightarrow>
          (let updated = merge_guard existing patch
           in (Inr updated,
               m\<lparr>gm_profiles := AList.update (provider_str prov) updated (gm_profiles m)\<rparr>)))"

definition setTenantOverride :: "string \<Rightarrow> provider \<Rightarrow> guard_patch \<Rightarrow> guard_manager \<Rightarrow> guard_manager" where
  "setTenantOverride tenantId prov override m = m\<lparr>gm_tenantOverrides :=
     AList.update (tenant_provider_key tenantId prov) override (gm_tenantOverrides m)\<rparr>"

definition removeTenantOverride :: "string \<Rightarrow> provider \<Rightarrow> guard_manager \<Rightarrow> guard_manager" where
  "removeTenantOverride tenantId prov m = m\<lparr>gm_tenantOverrides :=
     AList.delete (tenant_provider_key tenantId prov) (gm_tenantOverrides m)\<rparr>"

section \<open>Throttling\<close>

datatype throttle_reason =
  BurstLimitExceeded rat rat | MaxRpsExceeded rat rat | AdaptiveThrottle rat

definition throttle_decision :: "rat \<Rightarrow> guard_profile \<Rightarrow> rat \<Rightarrow> throttle_reason option" where
  \<comment> \<open>\<open>Some reason\<close>: throttle\<close>
  "throttle_decision random profile currentRps =
     (let threshold = gp_maxRps profile * (gp_adaptiveThrottleThresholdPct profile / 100);
          burstLimit = gp_maxRps profile * gp_burstMultiplier profile in
      if burstLimit \<le> currentRps then Some (BurstLimitExceeded currentRps burstLimit)
      else if gp_maxRps profile \<le> currentRps then Some (MaxRpsExceeded currentRps (gp_maxRps profile))
      else if threshold \<le> currentRps then
        (let overThreshold = currentRps - threshold; range = gp_maxRps profile - threshold;
             probability = (if 0 < range then overThreshold / range else 1) in
         if random < probability then Some (AdaptiveThrottle probability) else None)
      else None)"

definition shouldThrottle ::
    "rat \<Rightarrow> provider \<Rightarrow> string \<Rightarrow> rat \<Rightarrow> guard_manager \<Rightarrow> ds_exn + throttle_reason option" where
  "shouldThrottle random prov tenantId currentRps m =
     (case getEffectiveProfile prov tenantId m of
        Inl e \<Rightarrow> Inl e
      | Inr profile \<Rightarrow> Inr (throttle_decision random profile currentRps))"

section \<open>Cost\<close>

record cost_summary =
  sm_totalCostUsd :: rat
  sm_readOps :: rat
  sm_writeOps :: rat
  sm_overBudget :: bool
  sm_warningLevel :: bool

definition recordObservation :: "cost_observation \<Rightarrow> guard_manager \<Rightarrow> guard_manager" where
  "recordObservation obs m = m\<lparr>gm_observations := gm_observations m @ [obs]\<rparr>"

definition getCostSummary :: "provider \<Rightarrow> string \<Rightarrow> guard_manager \<Rightarrow> ds_exn + cost_summary" where
  "getCostSummary prov tenantId m =
     (case getEffectiveProfile prov tenantId m of
        Inl e \<Rightarrow> Inl e
      | Inr profile \<Rightarrow>
          (let relevant = filter (\<lambda>obs. ob_provider obs = prov \<and> ob_tenantId obs = tenantId) (gm_observations m);
               total = foldl (\<lambda>s obs. s + ob_estimatedCostUsd obs) 0 relevant;
               reads = foldl (\<lambda>s obs. s + ob_readOps obs) 0 relevant;
               writes = foldl (\<lambda>s obs. s + ob_writeOps obs) 0 relevant
           in Inr \<lparr>sm_totalCostUsd = total, sm_readOps = reads, sm_writeOps = writes,
                 sm_overBudget = (gp_costBudgetUsd profile \<le> total),
                 sm_warningLevel =
                   (gp_costBudgetUsd profile * (gp_costWarningThresholdPct profile / 100) \<le> total)\<rparr>))"

definition getRecentObservations :: "int \<Rightarrow> guard_manager \<Rightarrow> cost_observation list" where
  "getRecentObservations limit m = slice_last limit (gm_observations m)"

definition gm_reset :: "guard_manager \<Rightarrow> guard_manager" where
  "gm_reset m = new_GuardProfileManager"

section \<open>Lemmas\<close>

lemma last_sep_inj:
  assumes "c \<notin> set u" and "c \<notin> set v"
  shows "x @ c # u = y @ c # v \<longleftrightarrow> x = y \<and> u = v"
proof
  assume "x @ c # u = y @ c # v"
  then have "rev u @ c # rev x = rev v @ c # rev y"
    by (metis append_assoc append_Cons append_Nil rev.simps(2) rev_append)
  then have "rev u = rev v \<and> rev x = rev y" using assms by (subst (asm) append_sep_inj) simp_all
  then show "x = y \<and> u = v" by simp
qed simp

lemma tenant_provider_key_inj [simp]:
  "tenant_provider_key t p = tenant_provider_key u q \<longleftrightarrow> t = u \<and> p = q"
  using last_sep_inj [OF provider_str_no_colon provider_str_no_colon, of t p u q]
  by (simp add: tenant_provider_key_def)

lemma merge_guard_provider [simp]: "gp_provider (merge_guard g p) = gp_provider g"
  by (simp add: merge_guard_def)

datatype guard_op =
    GUpdate provider guard_patch | GOverride string provider guard_patch
  | GRemove string provider | GObserve cost_observation | GReset

fun guard_step :: "guard_op \<Rightarrow> guard_manager \<Rightarrow> guard_manager" where
  "guard_step (GUpdate p patch) m = snd (updateProfile p patch m)"
| "guard_step (GOverride t p ov) m = setTenantOverride t p ov m"
| "guard_step (GRemove t p) m = removeTenantOverride t p m"
| "guard_step (GObserve obs) m = recordObservation obs m"
| "guard_step GReset m = gm_reset m"

definition guard_inv :: "guard_manager \<Rightarrow> bool" where
  \<comment> \<open>every provider has a profile, of its own\<close>
  "guard_inv m \<longleftrightarrow> (\<forall>p. \<exists>g. map_of (gm_profiles m) (provider_str p) = Some g \<and> gp_provider g = p)"

lemma guard_inv_new: "guard_inv new_GuardProfileManager"
  unfolding guard_inv_def
proof
  fix p show "\<exists>g. map_of (gm_profiles new_GuardProfileManager) (provider_str p) = Some g \<and> gp_provider g = p"
    by (cases p) (simp_all add: new_GuardProfileManager_def ALL_PROVIDERS_def)
qed

lemma guard_step_inv: "guard_inv m \<Longrightarrow> guard_inv (guard_step op m)"
proof (cases op)
  case (GUpdate p patch)
  assume m: "guard_inv m"
  then obtain g where "map_of (gm_profiles m) (provider_str p) = Some g" "gp_provider g = p"
    unfolding guard_inv_def by blast
  with m show ?thesis
    by (auto simp: GUpdate guard_inv_def updateProfile_def gm_getProfile_def Let_def)
qed (auto simp: guard_inv_def setTenantOverride_def removeTenantOverride_def recordObservation_def
  gm_reset_def guard_inv_new [unfolded guard_inv_def])

interpretation guard: machine guard_step guard_inv
  by unfold_locales (rule guard_step_inv)

section \<open>Properties\<close>

text \<open>
  The throttling decision, in full: a tenant at or above its maximal rate is always
  throttled, whatever its burst multiplier (so a burst allowance above one admits nothing); a
  tenant below both the threshold and the burst limit never is; in between it is throttled
  exactly if the random draw is below the share of the way from threshold to maximum.
\<close>

lemma throttling_decision:
  assumes "getEffectiveProfile prov tenantId m = Inr g"
    and "threshold = gp_maxRps g * (gp_adaptiveThrottleThresholdPct g / 100)"
    and "burst = gp_maxRps g * gp_burstMultiplier g"
  shows "\<exists>d. shouldThrottle random prov tenantId rps m = Inr d
    \<and> (gp_maxRps g \<le> rps \<longrightarrow> d \<noteq> None)
    \<and> (rps < threshold \<and> rps < burst \<and> rps < gp_maxRps g \<longrightarrow> d = None)
    \<and> (threshold \<le> rps \<and> rps < burst \<and> rps < gp_maxRps g \<longrightarrow>
         (d \<noteq> None \<longleftrightarrow> random < (rps - threshold) / (gp_maxRps g - threshold)))"
proof -
  have d: "throttle_decision random g rps =
      (if burst \<le> rps then Some (BurstLimitExceeded rps burst)
       else if gp_maxRps g \<le> rps then Some (MaxRpsExceeded rps (gp_maxRps g))
       else if threshold \<le> rps then
         (let p = if 0 < gp_maxRps g - threshold then (rps - threshold) / (gp_maxRps g - threshold) else 1
          in if random < p then Some (AdaptiveThrottle p) else None)
       else None)"
    unfolding throttle_decision_def Let_def assms(2,3) ..
  show ?thesis
    by (rule exI [of _ "throttle_decision random g rps"])
      (simp add: shouldThrottle_def assms(1) d Let_def)
qed

lemma throttling_decision_example:
  "\<exists>d. shouldThrottle (1 / 2) MongoDB ''t'' 6000 new_GuardProfileManager = Inr d \<and> d \<noteq> None"
  using throttling_decision [of MongoDB "''t''" new_GuardProfileManager "DEFAULT_GUARD_PROFILES MongoDB" _ _ "1 / 2" 6000]
  by (auto simp: getEffectiveProfile_def gm_getProfile_def new_GuardProfileManager_def ALL_PROVIDERS_def)

text \<open>
  In every run of the guard manager each provider has a guard profile of its own, so
  throttling and cost summaries never throw; an override set for a tenant and provider is the
  one used for them and for no other tenant or provider, until it is replaced or removed.
\<close>

lemma guard_profiles_total_and_separate:
  assumes "m = fold guard_step ops new_GuardProfileManager"
  shows "\<exists>g. gm_getProfile p m = Inr g \<and> gp_provider g = p
    \<and> getEffectiveProfile p t (setTenantOverride t p ov m) = Inr (merge_guard g ov)
    \<and> getEffectiveProfile p t (removeTenantOverride t p m) = Inr g
    \<and> (t \<noteq> u \<or> p \<noteq> q \<longrightarrow>
         getEffectiveProfile q u (setTenantOverride t p ov m) = getEffectiveProfile q u m)"
proof -
  have "guard_inv m" unfolding assms by (rule guard.inv_run [OF guard_inv_new])
  then obtain g where g: "map_of (gm_profiles m) (provider_str p) = Some g" "gp_provider g = p"
    unfolding guard_inv_def by blast
  then show ?thesis
    by (auto simp: gm_getProfile_def getEffectiveProfile_def setTenantOverride_def removeTenantOverride_def
        split: option.splits sum.splits)
qed

lemma guard_profiles_total_and_separate_example:
  "\<exists>g. gm_getProfile MongoDB (fold guard_step [GRemove ''a'' MongoDB] new_GuardProfileManager) = Inr g"
  using guard_profiles_total_and_separate [OF refl, of MongoDB "[GRemove ''a'' MongoDB]" "''t''" _ "''u''" MongoDB]
  by blast

end
