(* ===== verification/DsResidency.thy ===== *)
theory DsResidency
  imports DsRouting
begin

text \<open>
  Residency policies, consents and legal holds (services/flexible-datastore/src/residency).
  An operation that creates something takes the identifier \<open>uid\<close> it draws for it, and every
  operation that writes an audit event takes that event's identifier \<open>aid\<close> and the time.
  Callers get copies of the stored objects, so the maps hold the values themselves.
\<close>

section \<open>State\<close>

datatype consent_status = Pending | Granted | Revoked

fun consent_status_str :: "consent_status \<Rightarrow> string" where
  "consent_status_str Pending = ''pending''"
| "consent_status_str Granted = ''granted''"
| "consent_status_str Revoked = ''revoked''"

datatype hold_status = HoldActive | HoldReleased

fun hold_status_str :: "hold_status \<Rightarrow> string" where
  "hold_status_str HoldActive = ''active''"
| "hold_status_str HoldReleased = ''released''"

record residency_policy =
  rp_id :: string
  rp_tenantId :: string
  rp_allowedRegions :: "string list"
  rp_allowedProviders :: "provider list"
  rp_blockCrossRegionReplication :: bool
  rp_createdAt :: instant
  rp_updatedAt :: instant

record tenant_consent =
  tc_id :: string
  tc_tenantId :: string
  tc_consentType :: string
  tc_status :: consent_status
  tc_grantedBy :: "string option"
  tc_grantedAt :: "instant option"
  tc_revokedAt :: "instant option"
  tc_expiresAt :: "instant option"
  tc_details :: details

record legal_hold =
  lh_id :: string
  lh_tenantId :: string
  lh_holdName :: string
  lh_reason :: string
  lh_domains :: "string list"
  lh_issuedBy :: string
  lh_issuedAt :: instant
  lh_releasedAt :: "instant option"
  lh_status :: hold_status

record residency_audit_event =
  ra_id :: string
  ra_tenantId :: string
  ra_action :: string
  ra_timestamp :: instant
  ra_actor :: string
  ra_details :: details

record compliance_evidence =
  ev_id :: string
  ev_tenantId :: string
  ev_evidenceType :: string
  ev_generatedAt :: instant
  ev_residencyPolicy :: "residency_policy option"
  ev_activeConsents :: "tenant_consent list"
  ev_activeLegalHolds :: "legal_hold list"
  ev_recentAuditEvents :: "residency_audit_event list"

record residency_service =
  rs_policies :: "(string, residency_policy) jsmap"
  rs_consents :: "(string, tenant_consent) jsmap"
  rs_legalHolds :: "(string, legal_hold) jsmap"
  rs_evidence :: "compliance_evidence list"
  rs_auditLog :: "residency_audit_event list"

definition new_ResidencyService :: residency_service where
  "new_ResidencyService = \<lparr>rs_policies = [], rs_consents = [], rs_legalHolds = [], rs_evidence = [],
     rs_auditLog = []\<rparr>"

definition addAudit ::
    "string \<Rightarrow> instant \<Rightarrow> string \<Rightarrow> string \<Rightarrow> string \<Rightarrow> details \<Rightarrow> residency_service \<Rightarrow> residency_service" where
  "addAudit aid now tenantId action actor det s =
     s\<lparr>rs_auditLog := rs_auditLog s @ [\<lparr>ra_id = aid, ra_tenantId = tenantId, ra_action = action,
        ra_timestamp = now, ra_actor = actor, ra_details = det\<rparr>]\<rparr>"

section \<open>Residency policies\<close>

definition setPolicy ::
    "string \<Rightarrow> string \<Rightarrow> instant \<Rightarrow> string \<Rightarrow> string list \<Rightarrow> provider list \<Rightarrow> bool
     \<Rightarrow> residency_service \<Rightarrow> residency_policy \<times> residency_service" where
  "setPolicy uid aid now tenantId regions providers blockCrossRegion s =
     (let existing = map_of (rs_policies s) tenantId;
          policy = \<lparr>rp_id = (case existing of None \<Rightarrow> uid | Some p \<Rightarrow> rp_id p), rp_tenantId = tenantId,
            rp_allowedRegions = regions, rp_allowedProviders = providers,
            rp_blockCrossRegionReplication = blockCrossRegion,
            rp_createdAt = (case existing of None \<Rightarrow> now | Some p \<Rightarrow> rp_createdAt p), rp_updatedAt = now\<rparr>
      in (policy, addAudit aid now tenantId ''residency_policy_set'' ''system''
            [(''allowedRegions'', d_strings regions),
             (''allowedProviders'', d_strings (map provider_str providers)),
             (''blockCrossRegion'', DBool blockCrossRegion)]
            (s\<lparr>rs_policies := AList.update tenantId policy (rs_policies s)\<rparr>)))"

definition getPolicy :: "string \<Rightarrow> residency_service \<Rightarrow> residency_policy option" where
  "getPolicy tenantId s = map_of (rs_policies s) tenantId"

definition rs_enforceResidency ::
    "string \<Rightarrow> instant \<Rightarrow> string \<Rightarrow> provider \<Rightarrow> string \<Rightarrow> residency_service
     \<Rightarrow> string option \<times> residency_service" where
  \<comment> \<open>\<open>None\<close>: allowed; \<open>Some reason\<close>: refused\<close>
  "rs_enforceResidency aid now tenantId prov region s =
     (case map_of (rs_policies s) tenantId of
        None \<Rightarrow> (None, s)
      | Some policy \<Rightarrow>
          if rp_allowedProviders policy \<noteq> [] \<and> prov \<notin> set (rp_allowedProviders policy) then
            (Some (''provider '' @ provider_str prov @ '' not in allowed providers''),
             addAudit aid now tenantId ''residency_violation_provider'' ''system''
               [(''provider'', DStr (provider_str prov)),
                (''allowed'', d_strings (map provider_str (rp_allowedProviders policy)))] s)
          else if rp_allowedRegions policy \<noteq> [] \<and> region \<notin> set (rp_allowedRegions policy) then
            (Some (''region '' @ region @ '' not in allowed regions''),
             addAudit aid now tenantId ''residency_violation_region'' ''system''
               [(''region'', DStr region), (''allowed'', d_strings (rp_allowedRegions policy))] s)
          else (None, s))"

section \<open>Consents\<close>

definition requestConsent ::
    "string \<Rightarrow> string \<Rightarrow> instant \<Rightarrow> string \<Rightarrow> string \<Rightarrow> details \<Rightarrow> residency_service
     \<Rightarrow> tenant_consent \<times> residency_service" where
  "requestConsent uid aid now tenantId consentType det s =
     (let consent = \<lparr>tc_id = uid, tc_tenantId = tenantId, tc_consentType = consentType,
            tc_status = Pending, tc_grantedBy = None, tc_grantedAt = None, tc_revokedAt = None,
            tc_expiresAt = None, tc_details = det\<rparr>
      in (consent, addAudit aid now tenantId ''consent_requested'' ''system''
            [(''consentType'', DStr consentType)]
            (s\<lparr>rs_consents := AList.update uid consent (rs_consents s)\<rparr>)))"

definition requireConsent :: "string \<Rightarrow> residency_service \<Rightarrow> ds_exn + tenant_consent" where
  "requireConsent i s = (case map_of (rs_consents s) i of
     None \<Rightarrow> Inl (PlainError (''consent '' @ i @ '' not found'')) | Some c \<Rightarrow> Inr c)"

definition grantConsent ::
    "string \<Rightarrow> instant \<Rightarrow> string \<Rightarrow> string \<Rightarrow> instant option \<Rightarrow> residency_service
     \<Rightarrow> (ds_exn + tenant_consent) \<times> residency_service" where
  "grantConsent aid now consentId grantedBy expiresAt s =
     (case requireConsent consentId s of
        Inl e \<Rightarrow> (Inl e, s)
      | Inr consent \<Rightarrow>
          if tc_status consent \<noteq> Pending then
            (Inl (PlainError (''consent '' @ consentId @ '' is in status ''
               @ consent_status_str (tc_status consent) @ '', cannot grant'')), s)
          else
            (let c = consent\<lparr>tc_status := Granted, tc_grantedBy := Some grantedBy,
                   tc_grantedAt := Some now, tc_expiresAt := expiresAt\<rparr>
             in (Inr c, addAudit aid now (tc_tenantId c) ''consent_granted'' grantedBy
                   [(''consentType'', DStr (tc_consentType c))]
                   (s\<lparr>rs_consents := AList.update consentId c (rs_consents s)\<rparr>))))"

definition revokeConsent ::
    "string \<Rightarrow> instant \<Rightarrow> string \<Rightarrow> string \<Rightarrow> residency_service
     \<Rightarrow> (ds_exn + tenant_consent) \<times> residency_service" where
  "revokeConsent aid now consentId actor s =
     (case requireConsent consentId s of
        Inl e \<Rightarrow> (Inl e, s)
      | Inr consent \<Rightarrow>
          (let c = consent\<lparr>tc_status := Revoked, tc_revokedAt := Some now\<rparr>
           in (Inr c, addAudit aid now (tc_tenantId c) ''consent_revoked'' actor
                 [(''consentType'', DStr (tc_consentType c))]
                 (s\<lparr>rs_consents := AList.update consentId c (rs_consents s)\<rparr>))))"

definition getConsentsByTenant :: "string \<Rightarrow> residency_service \<Rightarrow> tenant_consent list" where
  "getConsentsByTenant tenantId s = filter (\<lambda>c. tc_tenantId c = tenantId) (map_values (rs_consents s))"

definition consent_in_force :: "instant \<Rightarrow> tenant_consent \<Rightarrow> bool" where
  "consent_in_force now c \<longleftrightarrow> tc_status c = Granted
     \<and> \<not> (case tc_expiresAt c of None \<Rightarrow> False | Some e \<Rightarrow> e < now)"

fun any_in_force :: "instant \<Rightarrow> string \<Rightarrow> string \<Rightarrow> tenant_consent list \<Rightarrow> bool" where
  "any_in_force now t ct [] = False"
| "any_in_force now t ct (c # cs) =
     (if tc_tenantId c = t \<and> tc_consentType c = ct \<and> tc_status c = Granted then
        (if (case tc_expiresAt c of None \<Rightarrow> False | Some e \<Rightarrow> e < now) then any_in_force now t ct cs else True)
      else any_in_force now t ct cs)"

definition hasActiveConsent :: "instant \<Rightarrow> string \<Rightarrow> string \<Rightarrow> residency_service \<Rightarrow> bool" where
  "hasActiveConsent now tenantId consentType s =
     any_in_force now tenantId consentType (map_values (rs_consents s))"

section \<open>Legal holds\<close>

definition active_hold :: "string \<Rightarrow> legal_hold \<Rightarrow> bool" where
  "active_hold tenantId h \<longleftrightarrow> lh_tenantId h = tenantId \<and> lh_status h = HoldActive"

definition covers :: "string \<Rightarrow> legal_hold \<Rightarrow> bool" where
  "covers domain h \<longleftrightarrow> domain \<in> set (lh_domains h) \<or> ''*'' \<in> set (lh_domains h)"

definition createLegalHold ::
    "string \<Rightarrow> string \<Rightarrow> instant \<Rightarrow> string \<Rightarrow> string \<Rightarrow> string \<Rightarrow> string list \<Rightarrow> string
     \<Rightarrow> residency_service \<Rightarrow> (ds_exn + legal_hold) \<times> residency_service" where
  "createLegalHold uid aid now tenantId holdName reason domains issuedBy s =
     (if \<exists>h \<in> set (map_values (rs_legalHolds s)). active_hold tenantId h \<and> lh_holdName h = holdName then
        (Inl (PlainError (''active legal hold \"'' @ holdName @ ''\" already exists for tenant '' @ tenantId)), s)
      else
        (let hold = \<lparr>lh_id = uid, lh_tenantId = tenantId, lh_holdName = holdName, lh_reason = reason,
               lh_domains = domains, lh_issuedBy = issuedBy, lh_issuedAt = now, lh_releasedAt = None,
               lh_status = HoldActive\<rparr>
         in (Inr hold, addAudit aid now tenantId ''legal_hold_created'' issuedBy
               [(''holdName'', DStr holdName), (''reason'', DStr reason), (''domains'', d_strings domains)]
               (s\<lparr>rs_legalHolds := AList.update uid hold (rs_legalHolds s)\<rparr>))))"

definition requireLegalHold :: "string \<Rightarrow> residency_service \<Rightarrow> ds_exn + legal_hold" where
  "requireLegalHold i s = (case map_of (rs_legalHolds s) i of
     None \<Rightarrow> Inl (PlainError (''legal hold '' @ i @ '' not found'')) | Some h \<Rightarrow> Inr h)"

definition releaseLegalHold ::
    "string \<Rightarrow> instant \<Rightarrow> string \<Rightarrow> string \<Rightarrow> residency_service \<Rightarrow> (ds_exn + legal_hold) \<times> residency_service" where
  "releaseLegalHold aid now holdId actor s =
     (case requireLegalHold holdId s of
        Inl e \<Rightarrow> (Inl e, s)
      | Inr hold \<Rightarrow>
          if lh_status hold \<noteq> HoldActive then
            (Inl (PlainError (''legal hold '' @ holdId @ '' is already '' @ hold_status_str (lh_status hold))), s)
          else
            (let h = hold\<lparr>lh_status := HoldReleased, lh_releasedAt := Some now\<rparr>
             in (Inr h, addAudit aid now (lh_tenantId h) ''legal_hold_released'' actor
                   [(''holdName'', DStr (lh_holdName h))]
                   (s\<lparr>rs_legalHolds := AList.update holdId h (rs_legalHolds s)\<rparr>))))"

definition getActiveLegalHolds :: "string \<Rightarrow> residency_service \<Rightarrow> legal_hold list" where
  "getActiveLegalHolds tenantId s = filter (active_hold tenantId) (map_values (rs_legalHolds s))"

definition isUnderLegalHold :: "string \<Rightarrow> string option \<Rightarrow> residency_service \<Rightarrow> bool" where
  "isUnderLegalHold tenantId domain s \<longleftrightarrow>
     (\<exists>h \<in> set (map_values (rs_legalHolds s)). active_hold tenantId h
        \<and> (\<not> truthy_str domain \<or> covers (the domain) h))"

definition blockDestructiveOp :: "string \<Rightarrow> string \<Rightarrow> residency_service \<Rightarrow> string option" where
  \<comment> \<open>\<open>Some holdName\<close>: blocked by this hold\<close>
  "blockDestructiveOp tenantId domain s =
     map_option lh_holdName
       (List.find (\<lambda>h. active_hold tenantId h \<and> covers domain h) (map_values (rs_legalHolds s)))"

section \<open>Evidence\<close>

definition rs_getAuditEvents :: "string \<Rightarrow> int \<Rightarrow> residency_service \<Rightarrow> residency_audit_event list" where
  "rs_getAuditEvents tenantId limit s =
     slice_last limit (filter (\<lambda>e. ra_tenantId e = tenantId) (rs_auditLog s))"

definition generateEvidence ::
    "string \<Rightarrow> string \<Rightarrow> instant \<Rightarrow> string \<Rightarrow> string \<Rightarrow> residency_service
     \<Rightarrow> compliance_evidence \<times> residency_service" where
  "generateEvidence uid aid now tenantId evidenceType s =
     (let ev = \<lparr>ev_id = uid, ev_tenantId = tenantId, ev_evidenceType = evidenceType, ev_generatedAt = now,
            ev_residencyPolicy = getPolicy tenantId s,
            ev_activeConsents = filter (\<lambda>c. tc_status c = Granted) (getConsentsByTenant tenantId s),
            ev_activeLegalHolds = getActiveLegalHolds tenantId s,
            ev_recentAuditEvents = slice_last 50 (rs_getAuditEvents tenantId 200 s)\<rparr>
      in (ev, addAudit aid now tenantId ''compliance_evidence_generated'' ''system''
            [(''evidenceType'', DStr evidenceType), (''evidenceId'', DStr uid)]
            (s\<lparr>rs_evidence := rs_evidence s @ [ev]\<rparr>)))"

definition getEvidenceByTenant :: "string \<Rightarrow> residency_service \<Rightarrow> compliance_evidence list" where
  "getEvidenceByTenant tenantId s = filter (\<lambda>e. ev_tenantId e = tenantId) (rs_evidence s)"

definition rs_reset :: "residency_service \<Rightarrow> residency_service" where
  "rs_reset s = new_ResidencyService"

section \<open>Runs of the service\<close>

datatype residency_op =
    RSetPolicy string string instant string "string list" "provider list" bool
  | REnforce string instant string provider string
  | RRequest string string instant string string details
  | RGrant string instant string string "instant option"
  | RRevoke string instant string string
  | RHold string string instant string string string "string list" string
  | RRelease string instant string string
  | REvidence string string instant string string

fun residency_step :: "residency_op \<Rightarrow> residency_service \<Rightarrow> residency_service" where
  "residency_step (RSetPolicy uid aid now t rs ps b) s = snd (setPolicy uid aid now t rs ps b s)"
| "residency_step (REnforce aid now t p r) s = snd (rs_enforceResidency aid now t p r s)"
| "residency_step (RRequest uid aid now t ct det) s = snd (requestConsent uid aid now t ct det s)"
| "residency_step (RGrant aid now i by ex) s = snd (grantConsent aid now i by ex s)"
| "residency_step (RRevoke aid now i actor) s = snd (revokeConsent aid now i actor s)"
| "residency_step (RHold uid aid now t n r ds by) s = snd (createLegalHold uid aid now t n r ds by s)"
| "residency_step (RRelease aid now i actor) s = snd (releaseLegalHold aid now i actor s)"
| "residency_step (REvidence uid aid now t et) s = snd (generateEvidence uid aid now t et s)"

lemmas residency_ops = setPolicy_def rs_enforceResidency_def requestConsent_def grantConsent_def
  revokeConsent_def createLegalHold_def releaseLegalHold_def generateEvidence_def
  requireConsent_def requireLegalHold_def addAudit_def Let_def

definition residency_inv :: "residency_service \<Rightarrow> bool" where
  \<comment> \<open>a tenant has at most one active hold of a name; objects are filed under their identifiers\<close>
  "residency_inv s \<longleftrightarrow> wf_map (rs_legalHolds s) \<and> wf_map (rs_consents s)
     \<and> (\<forall>i j h g. map_of (rs_legalHolds s) i = Some h \<longrightarrow> map_of (rs_legalHolds s) j = Some g \<longrightarrow>
          lh_status h = HoldActive \<longrightarrow> lh_status g = HoldActive \<longrightarrow> lh_tenantId h = lh_tenantId g \<longrightarrow>
          lh_holdName h = lh_holdName g \<longrightarrow> i = j)"

lemma residency_inv_holds:
  assumes "residency_inv s" and "wf_map (rs_consents s')" and "rs_legalHolds s' = rs_legalHolds s"
  shows "residency_inv s'"
  using assms by (simp add: residency_inv_def)

lemma createLegalHold_inv [inv_intro]:
  assumes inv: "residency_inv s"
  shows "residency_inv (snd (createLegalHold uid aid now t n r ds by s))"
proof (cases "\<exists>h \<in> set (map_values (rs_legalHolds s)). active_hold t h \<and> lh_holdName h = n")
  case True
  then show ?thesis using inv by (simp add: createLegalHold_def)
next
  case False
  have free: "\<not> (lh_status h = HoldActive \<and> lh_tenantId h = t \<and> lh_holdName h = n)"
    if "map_of (rs_legalHolds s) i = Some h" for i h
    using False map_of_values [OF that] by (auto simp: active_hold_def)
  let ?h = "\<lparr>lh_id = uid, lh_tenantId = t, lh_holdName = n, lh_reason = r, lh_domains = ds,
    lh_issuedBy = by, lh_issuedAt = now, lh_releasedAt = None, lh_status = HoldActive\<rparr>"
  have s': "rs_legalHolds (snd (createLegalHold uid aid now t n r ds by s)) = AList.update uid ?h (rs_legalHolds s)"
    "rs_consents (snd (createLegalHold uid aid now t n r ds by s)) = rs_consents s"
    unfolding createLegalHold_def if_not_P [OF False] by (simp_all add: Let_def addAudit_def)
  show ?thesis
    using inv free unfolding residency_inv_def s' by (auto split: if_splits)
qed

lemma releaseLegalHold_inv [inv_intro]:
  assumes inv: "residency_inv s"
  shows "residency_inv (snd (releaseLegalHold aid now i actor s))"
  using inv
  by (auto simp: releaseLegalHold_def requireLegalHold_def addAudit_def residency_inv_def Let_def
      split: option.splits)

lemma residency_step_inv [inv_intro]:
  assumes "residency_inv s"
  shows "residency_inv (residency_step op s)"
proof (cases op)
  case (RHold uid aid now t n r ds iss)
  then show ?thesis using assms by (simp add: createLegalHold_inv)
next
  case (RRelease aid now i actor)
  then show ?thesis using assms by (simp add: releaseLegalHold_inv)
qed (rule residency_inv_holds [OF assms];
  insert assms, simp add: residency_ops residency_inv_def split: option.splits if_splits)+

interpretation residency: machine residency_step residency_inv
  by unfold_locales (rule residency_step_inv)

interpretation residency_log: audited_machine residency_step rs_auditLog
proof
  fix s op show "prefix (rs_auditLog s) (rs_auditLog (residency_step op s))"
    by (cases op) (simp_all add: residency_ops split: option.splits if_splits)
qed

subsection \<open>A hold stays in force until it is released\<close>

definition releases_or_reuses :: "string \<Rightarrow> residency_op \<Rightarrow> bool" where
  "releases_or_reuses i op = (case op of RRelease aid now j actor \<Rightarrow> j = i
     | RHold uid aid now t n r ds by \<Rightarrow> uid = i | _ \<Rightarrow> False)"

lemma hold_frame_step:
  "\<not> releases_or_reuses i op \<Longrightarrow> map_of (rs_legalHolds (residency_step op s)) i = map_of (rs_legalHolds s) i"
  by (cases op) (auto simp: releases_or_reuses_def residency_ops split: option.splits if_splits)

lemma hold_frame_run:
  "\<forall>op \<in> set ops. \<not> releases_or_reuses i op \<Longrightarrow>
   map_of (rs_legalHolds (fold residency_step ops s)) i = map_of (rs_legalHolds s) i"
  by (induction ops arbitrary: s) (simp_all add: hold_frame_step)

lemma block_iff:
  "blockDestructiveOp t d s \<noteq> None \<longleftrightarrow>
   (\<exists>h \<in> set (map_values (rs_legalHolds s)). active_hold t h \<and> covers d h)"
  by (auto simp: blockDestructiveOp_def find_None_iff)

lemma consent_list: "any_in_force now t ct cs \<longleftrightarrow>
  (\<exists>c \<in> set cs. tc_tenantId c = t \<and> tc_consentType c = ct \<and> consent_in_force now c)"
  by (induction cs) (auto simp: consent_in_force_def)

definition regrants :: "string \<Rightarrow> residency_op \<Rightarrow> bool" where
  "regrants i op = (case op of RRequest uid aid now t ct det \<Rightarrow> uid = i | _ \<Rightarrow> False)"

definition is_revoked :: "string \<Rightarrow> residency_service \<Rightarrow> bool" where
  "is_revoked i s = (case map_of (rs_consents s) i of None \<Rightarrow> False | Some c \<Rightarrow> tc_status c = Revoked)"

lemma grant_revoked: "is_revoked i s \<Longrightarrow> is_revoked i (snd (grantConsent aid now j iss ex s))"
  by (auto simp: is_revoked_def grantConsent_def requireConsent_def addAudit_def Let_def split: option.splits)

lemma revoke_revoked: "is_revoked i s \<Longrightarrow> is_revoked i (snd (revokeConsent aid now j actor s))"
  by (auto simp: is_revoked_def revokeConsent_def requireConsent_def addAudit_def Let_def split: option.splits)

lemma revoked_frame: "is_revoked i s \<Longrightarrow> rs_consents s' = rs_consents s \<Longrightarrow> is_revoked i s'"
  by (simp add: is_revoked_def)

lemma revoked_step:
  assumes "is_revoked i s" and "\<not> regrants i op"
  shows "is_revoked i (residency_step op s)"
proof (cases op)
  case (RRequest uid aid now t ct det)
  then show ?thesis using assms
    by (simp add: is_revoked_def regrants_def requestConsent_def addAudit_def Let_def)
qed (simp_all add: grant_revoked revoke_revoked assms(1),
  (rule revoked_frame [OF assms(1)]; simp add: residency_ops split: option.splits)+)

lemma revoked_run: "is_revoked i s \<Longrightarrow> \<forall>op \<in> set ops. \<not> regrants i op \<Longrightarrow> is_revoked i (fold residency_step ops s)"
  by (induction ops arbitrary: s) (simp_all add: revoked_step)

section \<open>Properties\<close>

text \<open>
  C28: a legal hold holds: from its creation on, whatever the service does, destructive
  operations on the domains it names (on every domain, if it names \<open>*\<close>) are blocked for its
  tenant, until this hold is released.
\<close>

theorem legal_hold_blocks_until_release:
  assumes "createLegalHold uid aid now t n r ds by s = (Inr h, s')"
    and "\<forall>op \<in> set ops. \<not> releases_or_reuses uid op" and "d \<in> set ds \<or> ''*'' \<in> set ds"
  shows "blockDestructiveOp t d (fold residency_step ops s') \<noteq> None"
proof -
  have h: "map_of (rs_legalHolds s') uid = Some h" "active_hold t h" "covers d h"
    using assms(1,3) by (auto simp: createLegalHold_def addAudit_def Let_def active_hold_def covers_def
        split: if_splits)
  have "map_of (rs_legalHolds (fold residency_step ops s')) uid = Some h"
    using hold_frame_run [OF assms(2)] h(1) by simp
  from map_of_values [OF this] show ?thesis using h(2,3) unfolding block_iff by blast
qed

theorem legal_hold_blocks_until_release_witness:
  "blockDestructiveOp ''acme'' ''messages''
     (fold residency_step [RRelease ''a2'' 2 ''h9'' ''bob'', RHold ''h2'' ''a3'' 3 ''acme'' ''tax'' ''r'' [] ''bob'']
       (snd (createLegalHold ''h1'' ''a1'' 1 ''acme'' ''case 7'' ''r'' [''*''] ''eve'' new_ResidencyService))) \<noteq> None"
proof -
  let ?c = "createLegalHold ''h1'' ''a1'' 1 ''acme'' ''case 7'' ''r'' [''*''] ''eve'' new_ResidencyService"
  have "?c = (Inr (projr (fst ?c)), snd ?c)"
    by (simp add: createLegalHold_def new_ResidencyService_def Let_def)
  then show ?thesis
    by (rule legal_hold_blocks_until_release) (simp_all add: releases_or_reuses_def)
qed

text \<open>
  A revoked consent stays revoked whatever the service does afterwards (it cannot be granted
  again), so it never counts as active; a tenant has an active consent of a type exactly if one
  of its consents of that type is granted and not past its expiry.
\<close>

lemma consent_revocation_is_final:
  assumes "revokeConsent aid now i actor s = (Inr c, s')" and "\<forall>op \<in> set ops. \<not> regrants i op"
  shows "\<exists>c'. map_of (rs_consents (fold residency_step ops s')) i = Some c' \<and> \<not> consent_in_force later c'
    \<and> fst (grantConsent aid' later i by ex (fold residency_step ops s')) =
        Inl (PlainError (''consent '' @ i @ '' is in status revoked, cannot grant''))
    \<and> (hasActiveConsent later t ct s \<longleftrightarrow>
        (\<exists>c \<in> set (map_values (rs_consents s)).
           tc_tenantId c = t \<and> tc_consentType c = ct \<and> consent_in_force later c))"
proof -
  have "is_revoked i s'"
    using assms(1) by (auto simp: is_revoked_def revokeConsent_def requireConsent_def addAudit_def Let_def
        split: option.splits)
  then have "is_revoked i (fold residency_step ops s')" by (rule revoked_run [OF _ assms(2)])
  then show ?thesis
    by (auto simp: is_revoked_def consent_in_force_def grantConsent_def requireConsent_def
        hasActiveConsent_def consent_list split: option.splits)
qed

lemma consent_revocation_is_final_example:
  "\<exists>c'. map_of (rs_consents (fold residency_step [RGrant ''a3'' 3 ''c1'' ''bob'' None]
     (snd (revokeConsent ''a2'' 2 ''c1'' ''bob''
        (snd (requestConsent ''c1'' ''a1'' 1 ''acme'' ''transfer'' [] new_ResidencyService)))))) ''c1'' = Some c'
   \<and> \<not> consent_in_force 9 c'"
proof -
  let ?s = "snd (requestConsent ''c1'' ''a1'' 1 ''acme'' ''transfer'' [] new_ResidencyService)"
  let ?r = "revokeConsent ''a2'' 2 ''c1'' ''bob'' ?s"
  have "?r = (Inr (projr (fst ?r)), snd ?r)"
    by (simp add: revokeConsent_def requireConsent_def requestConsent_def new_ResidencyService_def addAudit_def Let_def)
  then show ?thesis
    using consent_revocation_is_final [of "''a2''" 2 "''c1''" "''bob''" ?s _ "snd ?r" "[RGrant ''a3'' 3 ''c1'' ''bob'' None]" 9]
    by (simp add: regrants_def) blast
qed

text \<open>
  The two places that enforce residency agree: given the same allowed providers and
  regions for the tenant, the residency service refuses exactly the profiles for which the
  routing engine throws a residency violation.
\<close>

lemma residency_checks_agree:
  assumes "map_of (rs_policies s) t = Some p" and "getResidencyPolicy e t = Some q"
    and "rp_allowedProviders p = rr_allowedProviders q" and "rp_allowedRegions p = rr_allowedRegions q"
  shows "fst (rs_enforceResidency aid now t (dp_provider prof) (dp_region prof) s) = None
    \<longleftrightarrow> enforceResidency e t prof = None"
  using assms by (simp add: rs_enforceResidency_def enforceResidency_def getResidencyPolicy_def)

lemma residency_checks_agree_example:
  "\<forall>p. fst (rs_enforceResidency ''a2'' 2 ''acme'' (dp_provider p) (dp_region p)
      (snd (setPolicy ''u'' ''a1'' 1 ''acme'' [''eu''] [MongoDB] True new_ResidencyService))) = None
    \<longleftrightarrow> enforceResidency (setResidencyPolicy \<lparr>rr_tenantId = ''acme'', rr_allowedRegions = [''eu''],
          rr_allowedProviders = [MongoDB], rr_legalHoldActive = False, rr_retentionDays = None\<rparr> empty_engine) ''acme'' p = None"
  by (rule allI, rule residency_checks_agree)
    (simp add: setPolicy_def addAudit_def new_ResidencyService_def getResidencyPolicy_def
      setResidencyPolicy_def empty_engine_def Let_def)+

end
