(* ===== verification/DsSecurity.thy ===== *)
theory DsSecurity
  imports DsGuard "HOL-Library.Word"
begin

unbundle bit_operations_syntax

text \<open>
  Security controls (services/flexible-datastore/src/security): encryption policies, access
  boundaries with IPv4 ranges, compliance reports and their audit log. The bitwise operators of
  JavaScript work on 32-bit words, so an address is a \<open>32 word\<close>; \<open>to_number\<close> stands for what
  \<open>Number\<close> makes of a dotted part that is not plain decimal digits, as the 32-bit word the
  shift operators read it as.
\<close>

section \<open>State\<close>

datatype sec_encryption_mode = EncNone | EncProviderManaged | EncCustomerManaged | EncFieldLevel

fun sec_mode_str :: "sec_encryption_mode \<Rightarrow> string" where
  "sec_mode_str EncNone = ''none''"
| "sec_mode_str EncProviderManaged = ''provider_managed''"
| "sec_mode_str EncCustomerManaged = ''customer_managed''"
| "sec_mode_str EncFieldLevel = ''field_level''"

record encryption_policy =
  ep_atRest :: sec_encryption_mode
  ep_inTransit :: bool
  ep_fieldLevelFields :: "string list"

record access_boundary =
  ab_tenantId :: string
  ab_provider :: provider
  ab_allowedRegions :: "string list"
  ab_allowedIpRanges :: "string list"
  ab_requireMfa :: bool
  ab_maxSessionDurationMinutes :: int

datatype security_event_type =
    CredentialCreated | CredentialRotated | CredentialRevoked | CredentialExpired | AccessGranted
  | AccessDenied | EncryptionKeyRotated | PolicyChanged | FieldDecrypted | UnauthorizedAccessAttempt
  | ResidencyViolation | ComplianceCheckPassed | ComplianceCheckFailed

datatype severity = SevInfo | SevWarning | SevCritical

record security_event =
  se_id :: string
  se_type :: security_event_type
  se_timestamp :: instant
  se_tenantId :: string
  se_actor :: string
  se_provider :: "provider option"
  se_resource :: "string option"
  se_details :: details
  se_severity :: severity

record compliance_finding =
  cf_category :: string
  cf_severity :: severity
  cf_description :: string
  cf_remediation :: string

record compliance_report =
  rep_tenantId :: string
  rep_generatedAt :: instant
  rep_encryptionCompliant :: bool
  rep_accessBoundaryCompliant :: bool
  rep_auditTrailComplete :: bool
  rep_findings :: "compliance_finding list"

record security_controls =
  sc_encryptionPolicies :: "(string, encryption_policy) jsmap"
  sc_accessBoundaries :: "(string, access_boundary) jsmap"
  sc_auditLog :: "security_event list"

definition DEFAULT_ENCRYPTION_POLICY :: encryption_policy where
  "DEFAULT_ENCRYPTION_POLICY =
     \<lparr>ep_atRest = EncProviderManaged, ep_inTransit = True, ep_fieldLevelFields = []\<rparr>"

definition new_SecurityControls :: security_controls where
  "new_SecurityControls = \<lparr>sc_encryptionPolicies = [], sc_accessBoundaries = [], sc_auditLog = []\<rparr>"

definition recordEvent ::
    "string \<Rightarrow> instant \<Rightarrow> security_event_type \<Rightarrow> string \<Rightarrow> string \<Rightarrow> provider option \<Rightarrow> string option
     \<Rightarrow> details \<Rightarrow> severity \<Rightarrow> security_controls \<Rightarrow> security_controls" where
  "recordEvent uid now ty tenantId actor prov resource det sev s =
     s\<lparr>sc_auditLog := sc_auditLog s @ [\<lparr>se_id = uid, se_type = ty, se_timestamp = now,
        se_tenantId = tenantId, se_actor = actor, se_provider = prov, se_resource = resource,
        se_details = det, se_severity = sev\<rparr>]\<rparr>"

section \<open>Encryption policies\<close>

definition policy_details :: "encryption_policy \<Rightarrow> details" where
  "policy_details p = [(''policyType'', DStr ''encryption''), (''atRest'', DStr (sec_mode_str (ep_atRest p))),
     (''inTransit'', DBool (ep_inTransit p)), (''fieldLevelFields'', d_strings (ep_fieldLevelFields p))]"

definition setEncryptionPolicy ::
    "string \<Rightarrow> instant \<Rightarrow> string \<Rightarrow> provider \<Rightarrow> encryption_policy \<Rightarrow> security_controls \<Rightarrow> security_controls" where
  "setEncryptionPolicy uid now tenantId prov policy s =
     recordEvent uid now PolicyChanged tenantId ''system'' (Some prov) None (policy_details policy) SevInfo
       (s\<lparr>sc_encryptionPolicies :=
            AList.update (tenant_provider_key tenantId prov) policy (sc_encryptionPolicies s)\<rparr>)"

definition getEncryptionPolicy :: "string \<Rightarrow> provider \<Rightarrow> security_controls \<Rightarrow> encryption_policy" where
  "getEncryptionPolicy tenantId prov s =
     (case map_of (sc_encryptionPolicies s) (tenant_provider_key tenantId prov) of
        None \<Rightarrow> DEFAULT_ENCRYPTION_POLICY | Some p \<Rightarrow> p)"

definition validateEncryption ::
    "string \<Rightarrow> instant \<Rightarrow> string \<Rightarrow> provider \<Rightarrow> security_controls
     \<Rightarrow> (bool \<times> string list) \<times> security_controls" where
  "validateEncryption uid now tenantId prov s =
     (let policy = getEncryptionPolicy tenantId prov s;
          issues = (if ep_atRest policy = EncNone then [''encryption-at-rest is disabled''] else [])
            @ (if \<not> ep_inTransit policy then [''TLS/in-transit encryption is disabled''] else []);
          compliant = (length issues = 0)
      in ((compliant, issues),
          recordEvent uid now (if compliant then ComplianceCheckPassed else ComplianceCheckFailed) tenantId
            ''system'' (Some prov) None [(''check'', DStr ''encryption''), (''issues'', d_strings issues)]
            (if compliant then SevInfo else SevWarning) s))"

section \<open>IPv4 ranges\<close>

fun parse_digits :: "nat option \<Rightarrow> string \<Rightarrow> nat option" where
  "parse_digits acc [] = acc"
| "parse_digits acc (c # cs) =
     (if is_digit c then parse_digits (Some (10 * (case acc of None \<Rightarrow> 0 | Some n \<Rightarrow> n) + digit_val c)) cs
      else acc)"

definition js_space :: "char \<Rightarrow> bool" where
  "js_space c \<longleftrightarrow> c \<in> {CHR '' '', CHR 0x09, CHR 0x0A, CHR 0x0B, CHR 0x0C, CHR 0x0D}"

definition parseInt :: "string \<Rightarrow> int option" where
  \<comment> \<open>\<open>parseInt(s, 10)\<close>; \<open>None\<close> is \<open>NaN\<close>\<close>
  "parseInt s =
     (case dropWhile js_space s of
        [] \<Rightarrow> None
      | c # cs \<Rightarrow>
          if c = CHR ''-'' then map_option (\<lambda>n. - int n) (parse_digits None cs)
          else if c = CHR ''+'' then map_option int (parse_digits None cs)
          else map_option int (parse_digits None (c # cs)))"

definition cidr_mask :: "int option \<Rightarrow> 32 word" where
  \<comment> \<open>\<open>~(2 ** (32 - bits) - 1) >>> 0\<close> on doubles: with \<open>e = 32 - bits\<close>, \<open>2 ** e - 1\<close> is exact for
      \<open>0 \<le> e \<le> 53\<close>, a multiple of \<open>2 ^ 32\<close> (or infinite) above, truncates to \<open>0\<close> for
      \<open>-54 < e < 0\<close> and rounds to \<open>-1\<close> below; \<open>NaN\<close> counts as \<open>0\<close>\<close>
  "cidr_mask bits =
     (case bits of
        None \<Rightarrow> NOT 0
      | Some b \<Rightarrow>
          (let e = 32 - b in
           if 53 < e then NOT 0
           else if 0 \<le> e then NOT (2 ^ nat e - 1)
           else if -54 < e then NOT 0
           else NOT (- 1)))"

definition octet :: "(string \<Rightarrow> 32 word) \<Rightarrow> string \<Rightarrow> 32 word" where
  "octet to_number s =
     (if s = [] then 0
      else if list_all is_digit s \<and> length s \<le> 15 then of_nat (read_nat s)
      else to_number s)"

definition ipToNum :: "(string \<Rightarrow> 32 word) \<Rightarrow> string \<Rightarrow> 32 word" where
  "ipToNum to_number ip =
     (let parts = map (octet to_number) (str_split (CHR ''.'') ip);
          part = (\<lambda>i. if i < length parts then parts ! i else 0)
      in (((push_bit 24 (part 0) OR push_bit 16 (part 1)) OR push_bit 8 (part 2)) OR part 3))"

definition ipMatchesCIDR :: "(string \<Rightarrow> 32 word) \<Rightarrow> string \<Rightarrow> string \<Rightarrow> bool" where
  "ipMatchesCIDR to_number ip cidr =
     (case str_split (CHR ''/'') cidr of
        base # bits # _ \<Rightarrow>
          (let mask = cidr_mask (parseInt bits) in
           (ipToNum to_number ip AND mask) = (ipToNum to_number base AND mask))
      | _ \<Rightarrow> ip = cidr)"

section \<open>Access boundaries\<close>

definition boundary_details :: "access_boundary \<Rightarrow> details" where
  "boundary_details b = [(''policyType'', DStr ''access_boundary''), (''tenantId'', DStr (ab_tenantId b)),
     (''provider'', DStr (provider_str (ab_provider b))), (''allowedRegions'', d_strings (ab_allowedRegions b)),
     (''allowedIpRanges'', d_strings (ab_allowedIpRanges b)), (''requireMfa'', DBool (ab_requireMfa b)),
     (''maxSessionDurationMinutes'', DNum (ab_maxSessionDurationMinutes b))]"

definition setAccessBoundary ::
    "string \<Rightarrow> instant \<Rightarrow> access_boundary \<Rightarrow> security_controls \<Rightarrow> security_controls" where
  "setAccessBoundary uid now b s =
     recordEvent uid now PolicyChanged (ab_tenantId b) ''system'' (Some (ab_provider b)) None (boundary_details b)
       SevInfo (s\<lparr>sc_accessBoundaries :=
         AList.update (tenant_provider_key (ab_tenantId b) (ab_provider b)) b (sc_accessBoundaries s)\<rparr>)"

definition getAccessBoundary :: "string \<Rightarrow> provider \<Rightarrow> security_controls \<Rightarrow> access_boundary option" where
  "getAccessBoundary tenantId prov s = map_of (sc_accessBoundaries s) (tenant_provider_key tenantId prov)"

definition ip_detail :: "string option \<Rightarrow> jsdata" where
  "ip_detail ip = (case ip of None \<Rightarrow> DUndefined | Some a \<Rightarrow> DStr a)"

definition validateAccess ::
    "(string \<Rightarrow> 32 word) \<Rightarrow> string \<Rightarrow> instant \<Rightarrow> string \<Rightarrow> provider \<Rightarrow> string \<Rightarrow> string option
     \<Rightarrow> security_controls \<Rightarrow> string option \<times> security_controls" where
  \<comment> \<open>\<open>None\<close>: allowed; \<open>Some reason\<close>: refused\<close>
  "validateAccess to_number uid now tenantId prov region ipAddress s =
     (case getAccessBoundary tenantId prov s of
        None \<Rightarrow> (None, s)
      | Some b \<Rightarrow>
          if ab_allowedRegions b \<noteq> [] \<and> region \<notin> set (ab_allowedRegions b) then
            (Some (''region '' @ region @ '' not in allowed regions''),
             recordEvent uid now AccessDenied tenantId ''system'' (Some prov) None
               [(''reason'', DStr ''region_not_allowed''), (''region'', DStr region),
                (''allowedRegions'', d_strings (ab_allowedRegions b))] SevWarning s)
          else if truthy_str ipAddress \<and> ab_allowedIpRanges b \<noteq> []
              \<and> \<not> list_ex (ipMatchesCIDR to_number (the ipAddress)) (ab_allowedIpRanges b) then
            (Some (''IP '' @ the ipAddress @ '' not in allowed ranges''),
             recordEvent uid now AccessDenied tenantId ''system'' (Some prov) None
               [(''reason'', DStr ''ip_not_allowed''), (''ipAddress'', ip_detail ipAddress)] SevWarning s)
          else
            (None, recordEvent uid now AccessGranted tenantId ''system'' (Some prov) None
               [(''region'', DStr region), (''ipAddress'', ip_detail ipAddress)] SevInfo s))"

section \<open>Reports and queries\<close>

definition getEventsByTenant :: "string \<Rightarrow> int \<Rightarrow> security_controls \<Rightarrow> security_event list" where
  "getEventsByTenant tenantId limit s = slice_last limit (filter (\<lambda>e. se_tenantId e = tenantId) (sc_auditLog s))"

definition getEventsByType :: "security_event_type \<Rightarrow> int \<Rightarrow> security_controls \<Rightarrow> security_event list" where
  "getEventsByType ty limit s = slice_last limit (filter (\<lambda>e. se_type e = ty) (sc_auditLog s))"

definition getCriticalEvents :: "int \<Rightarrow> security_controls \<Rightarrow> security_event list" where
  "getCriticalEvents limit s = slice_last limit (filter (\<lambda>e. se_severity e = SevCritical) (sc_auditLog s))"

definition generateComplianceReport ::
    "string \<Rightarrow> instant \<Rightarrow> string \<Rightarrow> provider \<Rightarrow> security_controls \<Rightarrow> compliance_report \<times> security_controls" where
  "generateComplianceReport uid now tenantId prov s =
     (case validateEncryption uid now tenantId prov s of
        ((compliant, issues), s') \<Rightarrow>
          (let accessCompliant = (getAccessBoundary tenantId prov s' \<noteq> None);
               auditComplete = (0 < length (getEventsByTenant tenantId 100 s'));
               findings = map (\<lambda>issue. \<lparr>cf_category = ''encryption'', cf_severity = SevCritical,
                   cf_description = issue, cf_remediation =
                     ''Enable encryption-at-rest and in-transit for all datastore connections''\<rparr>) issues
                 @ (if \<not> accessCompliant then [\<lparr>cf_category = ''access_control'', cf_severity = SevWarning,
                   cf_description = ''No access boundary configured'', cf_remediation =
                     ''Configure allowed regions and IP ranges for tenant datastore access''\<rparr>] else [])
                 @ (if \<not> auditComplete then [\<lparr>cf_category = ''audit'', cf_severity = SevWarning,
                   cf_description = ''No audit events recorded for tenant'', cf_remediation =
                     ''Verify audit logging is enabled and events are being captured''\<rparr>] else [])
           in (\<lparr>rep_tenantId = tenantId, rep_generatedAt = now, rep_encryptionCompliant = compliant,
                rep_accessBoundaryCompliant = accessCompliant, rep_auditTrailComplete = auditComplete,
                rep_findings = findings\<rparr>, s')))"

definition sc_reset :: "security_controls \<Rightarrow> security_controls" where
  "sc_reset s = new_SecurityControls"

section \<open>Addresses\<close>

definition dotted :: "nat \<Rightarrow> nat \<Rightarrow> nat \<Rightarrow> nat \<Rightarrow> string" where
  "dotted a b c d = show_nat a @ ''.'' @ show_nat b @ ''.'' @ show_nat c @ ''.'' @ show_nat d"

definition ip_value :: "nat \<Rightarrow> nat \<Rightarrow> nat \<Rightarrow> nat \<Rightarrow> nat" where
  "ip_value a b c d = ((a * 256 + b) * 256 + c) * 256 + d"

lemma digit_not: "is_digit c \<Longrightarrow> c \<noteq> CHR ''.'' \<and> c \<noteq> CHR ''/'' \<and> \<not> js_space c \<and> c \<noteq> CHR ''-'' \<and> c \<noteq> CHR ''+''"
  by (auto simp: is_digit_def js_space_def)

lemma show_nat_no_sep: "CHR ''.'' \<notin> set (show_nat n)" "CHR ''/'' \<notin> set (show_nat n)"
  using show_nat_digits [of n] digit_not by blast+

lemma length_show_nat: "n < 10 ^ Suc k \<Longrightarrow> length (show_nat n) \<le> Suc k"
proof (induction k arbitrary: n)
  case 0
  then show ?case by (simp add: show_nat.simps [of n])
next
  case (Suc k)
  show ?case
  proof (cases "n < 10")
    case True
    then show ?thesis by (simp add: show_nat.simps [of n])
  next
    case False
    have "n div 10 < 10 ^ Suc k" using Suc.prems by (simp add: less_mult_imp_div_less)
    with Suc.IH False show ?thesis by (simp add: show_nat.simps [of n])
  qed
qed

lemma octet_show: "n < 256 \<Longrightarrow> octet to_number (show_nat n) = of_nat n"
proof -
  assume "n < 256"
  then have "length (show_nat n) \<le> 3" using length_show_nat [of n 2] by simp
  then show ?thesis using show_nat_digits [of n] by (simp add: octet_def read_show_nat list_all_iff)
qed

lemma parse_digits_read:
  "\<forall>c \<in> set s. is_digit c \<Longrightarrow> s \<noteq> [] \<or> acc \<noteq> None \<Longrightarrow>
   parse_digits acc s = Some (foldl (\<lambda>n c. 10 * n + digit_val c) (case acc of None \<Rightarrow> 0 | Some n \<Rightarrow> n) s)"
  by (induction s arbitrary: acc) auto

lemma parseInt_show: "parseInt (show_nat n) = Some (int n)"
proof -
  have d: "parse_digits None (show_nat n) = Some n"
    using parse_digits_read [of "show_nat n" None] show_nat_digits [of n] read_show_nat [of n]
    by (simp add: read_nat_def)
  obtain c cs where c: "show_nat n = c # cs" by (cases "show_nat n") simp_all
  then have "is_digit c" using show_nat_digits [of n] by simp
  then show ?thesis using d c digit_not [of c] by (simp add: parseInt_def)
qed

lemma bit_lt_exp: "y < 2 ^ n \<Longrightarrow> bit (y :: nat) m \<Longrightarrow> m < n"
proof (rule ccontr)
  assume y: "y < 2 ^ n" "bit y m" "\<not> m < n"
  then have "y < 2 ^ m" by (meson less_le_trans not_less one_le_numeral power_increasing)
  then show False using y(2) by (simp add: bit_iff_odd)
qed

lemma or_append_nat: "y < 2 ^ n \<Longrightarrow> push_bit n x OR y = x * 2 ^ n + (y :: nat)"
proof -
  assume y: "y < 2 ^ n"
  have "push_bit n x AND y = 0"
    by (rule bit_eqI) (auto simp: bit_simps dest!: bit_lt_exp [OF y])
  then have "push_bit n x + y = push_bit n x OR y" by (rule disjunctive_add_eq_or)
  then show ?thesis by (simp add: push_bit_eq_mult)
qed

lemma or_octets:
  assumes "a < 256" "b < 256" "c < 256" "d < 256"
  shows "((push_bit 24 a OR push_bit 16 b) OR push_bit 8 c) OR d = ip_value a b c d"
proof -
  have cd: "push_bit 8 c OR d = c * 2 ^ 8 + d" using assms by (simp add: or_append_nat)
  have bcd: "push_bit 16 b OR (c * 2 ^ 8 + d) = b * 2 ^ 16 + (c * 2 ^ 8 + d)"
    using assms by (intro or_append_nat) simp
  have abcd: "push_bit 24 a OR (b * 2 ^ 16 + (c * 2 ^ 8 + d)) = a * 2 ^ 24 + (b * 2 ^ 16 + (c * 2 ^ 8 + d))"
    using assms by (intro or_append_nat) simp
  show ?thesis by (simp only: or.assoc cd bcd abcd) (simp add: ip_value_def)
qed

lemma ipToNum_dotted:
  assumes "a < 256" "b < 256" "c < 256" "d < 256"
  shows "ipToNum to_number (dotted a b c d) = of_nat (ip_value a b c d)"
proof -
  have "str_split (CHR ''.'') (dotted a b c d) = [show_nat a, show_nat b, show_nat c, show_nat d]"
    by (simp add: dotted_def str_split_append str_split_no_sep show_nat_no_sep)
  then have "ipToNum to_number (dotted a b c d)
      = ((push_bit 24 (of_nat a) OR push_bit 16 (of_nat b)) OR push_bit 8 (of_nat c)) OR of_nat d"
    using assms by (simp add: ipToNum_def Let_def octet_show)
  also have "\<dots> = of_nat (((push_bit 24 a OR push_bit 16 b) OR push_bit 8 c) OR d)"
    by (simp only: of_nat_or_eq push_bit_of_nat)
  finally show ?thesis by (simp only: or_octets [OF assms])
qed

lemma ip_value_bound: "a < 256 \<Longrightarrow> b < 256 \<Longrightarrow> c < 256 \<Longrightarrow> d < 256 \<Longrightarrow> ip_value a b c d < 2 ^ 32"
  by (simp add: ip_value_def)

lemma masked_eq:
  "x AND NOT (mask e) = y AND NOT (mask e) \<longleftrightarrow> drop_bit e x = drop_bit e (y :: 32 word)"
proof
  assume H: "x AND NOT (mask e) = y AND NOT (mask e)"
  show "drop_bit e x = drop_bit e y"
  proof (rule bit_word_eqI)
    fix n assume "n < LENGTH(32)"
    have "bit (x AND NOT (mask e)) (e + n) = bit (y AND NOT (mask e)) (e + n)" by (simp only: H)
    then show "bit (drop_bit e x) n = bit (drop_bit e y) n"
      by (cases "e + n < LENGTH(32)") (auto simp: bit_simps dest: bit_imp_le_length)
  qed
next
  assume H: "drop_bit e x = drop_bit e y"
  show "x AND NOT (mask e) = y AND NOT (mask e)"
  proof (rule bit_word_eqI)
    fix n assume "n < LENGTH(32)"
    have "bit (drop_bit e x) (n - e) = bit (drop_bit e y) (n - e)" by (simp only: H)
    then show "bit (x AND NOT (mask e)) n = bit (y AND NOT (mask e)) n"
      by (cases "e \<le> n") (auto simp: bit_simps)
  qed
qed

lemma cidr_mask_in_range: "b \<le> 32 \<Longrightarrow> cidr_mask (Some (int b)) = NOT (mask (32 - b))"
proof -
  assume "b \<le> 32"
  then have "nat (32 - int b) = 32 - b" by simp
  then show ?thesis using \<open>b \<le> 32\<close> by (simp add: cidr_mask_def Let_def mask_eq_exp_minus_1)
qed

lemma cidr_mask_wide: "b < 0 \<and> -22 < b \<or> 86 \<le> b \<Longrightarrow> cidr_mask (Some b) = 0"
proof -
  assume b: "b < 0 \<and> -22 < b \<or> 86 \<le> b"
  show ?thesis
  proof (cases "86 \<le> b")
    case True
    then show ?thesis by (simp add: cidr_mask_def Let_def)
  next
    case False
    then have e: "32 \<le> nat (32 - b)" "\<not> 53 < 32 - b" "0 \<le> 32 - b" using b by linarith+
    have z: "(2 :: 32 word) ^ nat (32 - b) = 0" using e(1) by (simp add: exp_eq_zero_iff)
    have "cidr_mask (Some b) = NOT (2 ^ nat (32 - b) - 1)" using e(2,3) by (simp add: cidr_mask_def Let_def)
    also have "\<dots> = 0" unfolding z by simp
    finally show ?thesis .
  qed
qed

lemma ipMatchesCIDR_masked:
  "CHR ''/'' \<notin> set base \<Longrightarrow> CHR ''/'' \<notin> set bits \<Longrightarrow>
   ipMatchesCIDR to_number ip (base @ ''/'' @ bits) \<longleftrightarrow>
   ipToNum to_number ip AND cidr_mask (parseInt bits) = ipToNum to_number base AND cidr_mask (parseInt bits)"
  by (simp add: ipMatchesCIDR_def str_split_append str_split_no_sep Let_def)

lemma dotted_no_slash: "CHR ''/'' \<notin> set (dotted a b c d)"
  by (simp add: dotted_def show_nat_no_sep)

section \<open>Properties\<close>

text \<open>
  C31: CIDR matching is correct on well-formed ranges: for dotted addresses and a prefix length
  of at most 32, an address matches a range exactly if the two agree on their first \<open>bits\<close>
  bits, that is in the quotient of their values by \<open>2 ^ (32 - bits)\<close>.
\<close>

theorem cidr_match_is_prefix_match:
  assumes "a < 256" "b < 256" "c < 256" "d < 256" and "a' < 256" "b' < 256" "c' < 256" "d' < 256"
    and "bits \<le> 32"
  shows "ipMatchesCIDR to_number (dotted a b c d) (dotted a' b' c' d' @ ''/'' @ show_nat bits) \<longleftrightarrow>
    ip_value a b c d div 2 ^ (32 - bits) = ip_value a' b' c' d' div 2 ^ (32 - bits)"
proof -
  have un: "unat (of_nat (ip_value a b c d) :: 32 word) = ip_value a b c d"
    "unat (of_nat (ip_value a' b' c' d') :: 32 word) = ip_value a' b' c' d'"
    using ip_value_bound [OF assms(1-4)] ip_value_bound [OF assms(5-8)] by (simp_all add: unat_of_nat)
  have "ipMatchesCIDR to_number (dotted a b c d) (dotted a' b' c' d' @ ''/'' @ show_nat bits) \<longleftrightarrow>
      drop_bit (32 - bits) (of_nat (ip_value a b c d) :: 32 word) = drop_bit (32 - bits) (of_nat (ip_value a' b' c' d'))"
    by (simp only: ipMatchesCIDR_masked [OF dotted_no_slash show_nat_no_sep(2)] parseInt_show
        cidr_mask_in_range [OF assms(9)] masked_eq ipToNum_dotted [OF assms(1-4)] ipToNum_dotted [OF assms(5-8)])
  also have "\<dots> \<longleftrightarrow> ip_value a b c d div 2 ^ (32 - bits) = ip_value a' b' c' d' div 2 ^ (32 - bits)"
    by (simp only: word_unat_eq_iff unat_drop_bit_eq un) (simp only: drop_bit_eq_div)
  finally show ?thesis .
qed

theorem cidr_match_is_prefix_match_witness:
  "ipMatchesCIDR (\<lambda>s. 0) (dotted 10 1 200 7) (dotted 10 1 0 0 @ ''/'' @ show_nat 16)
   \<and> \<not> ipMatchesCIDR (\<lambda>s. 0) (dotted 10 2 200 7) (dotted 10 1 0 0 @ ''/'' @ show_nat 16)"
  using cidr_match_is_prefix_match [of 10 1 200 7 10 1 0 0 16 "\<lambda>s. 0"]
    cidr_match_is_prefix_match [of 10 2 200 7 10 1 0 0 16 "\<lambda>s. 0"]
  by (simp add: ip_value_def)

text \<open>
  Access is granted without a boundary, and with one exactly if the region is allowed and
  the address, if one is given, is in an allowed range: a request that gives no address (or an
  empty one) passes every list of ranges. Every decision of a boundary is logged.
\<close>

lemma access_decision:
  "(fst (validateAccess tn uid now t p region ip s) = None \<longleftrightarrow>
     (case getAccessBoundary t p s of
        None \<Rightarrow> True
      | Some b \<Rightarrow> (ab_allowedRegions b = [] \<or> region \<in> set (ab_allowedRegions b))
          \<and> (if truthy_str ip then ab_allowedIpRanges b = []
               \<or> list_ex (ipMatchesCIDR tn (the ip)) (ab_allowedIpRanges b) else True)))
   \<and> length (sc_auditLog (snd (validateAccess tn uid now t p region ip s))) =
       length (sc_auditLog s) + (if getAccessBoundary t p s = None then 0 else 1)"
  by (auto simp: validateAccess_def recordEvent_def split: option.splits)

text \<open>
  The compliance report says what is configured: encryption is compliant exactly if it is
  on at rest and in transit, access exactly if a boundary exists. Its audit-trail check cannot
  fail: the encryption check that precedes it has just logged an event for the tenant.
\<close>

lemma compliance_report_content:
  "let r = fst (generateComplianceReport uid now t p s) in
     (rep_encryptionCompliant r \<longleftrightarrow>
        ep_atRest (getEncryptionPolicy t p s) \<noteq> EncNone \<and> ep_inTransit (getEncryptionPolicy t p s))
     \<and> (rep_accessBoundaryCompliant r \<longleftrightarrow> getAccessBoundary t p s \<noteq> None)
     \<and> rep_auditTrailComplete r
     \<and> (rep_findings r = [] \<longleftrightarrow> rep_encryptionCompliant r \<and> rep_accessBoundaryCompliant r)"
proof -
  have "\<not> length (filter (\<lambda>e. se_tenantId e = t) xs @ [e]) \<le> length (filter (\<lambda>e. se_tenantId e = t) xs @ [e]) - 100"
    for xs and e :: security_event by simp
  then show ?thesis
    by (auto simp: generateComplianceReport_def validateEncryption_def recordEvent_def Let_def
        getEventsByTenant_def slice_last_def getAccessBoundary_def)
qed

text \<open>
  Prefix lengths outside the range of IPv4 are not rejected: \<open>/-1\<close> and anything from
  \<open>/86\<close> on match every address.
\<close>

lemma malformed_prefix_matches_everything:
  assumes "CHR ''/'' \<notin> set base" and "CHR ''/'' \<notin> set bits"
    and "parseInt bits = Some n" and "n = -1 \<or> 86 \<le> n"
  shows "ipMatchesCIDR to_number ip (base @ ''/'' @ bits)"
proof -
  have "cidr_mask (Some n) = 0" using assms(4) by (intro cidr_mask_wide) auto
  then show ?thesis using ipMatchesCIDR_masked [OF assms(1,2)] assms(3) by simp
qed

lemma malformed_prefix_matches_everything_example:
  "ipMatchesCIDR (\<lambda>s. 0) ''203.0.113.9'' (''10.0.0.0'' @ ''/'' @ ''-1'')"
  by (rule malformed_prefix_matches_everything [where n = "-1"]) (simp, simp, code_simp, simp)

end
