(* ===== verification/DsOps.thy ===== *)
theory DsOps
  imports DsTypes Complex_Main
begin

text \<open>
  Operations playbooks, incidents and cost alerts (services/flexible-datastore/src/ops). Costs
  are exact rationals. The identifier of an incident or an added playbook keeps the first eight
  characters of a generated one. The maps hold values; a caller's copy of an incident shares its
  timeline array with the stored one in the code, which nothing in the service reads back.
\<close>

section \<open>State\<close>

datatype incident_severity = SLow | SMedium | SHigh | SCritical
datatype incident_status = IOpen | IAcknowledged | IMitigating | IResolved
datatype playbook_category =
  ProviderOutage | ThrottleSpike | CredentialExpiry | StorageLimit | CostOverrun | ReplicationLag

record playbook_step =
  ps_order :: int
  ps_description :: string
  ps_command :: "string option"
  ps_expectedOutcome :: string

record auto_action =
  aa_trigger :: string
  aa_action :: string
  aa_params :: "(string \<times> rat) list"

record playbook =
  pk_id :: string
  pk_category :: playbook_category
  pk_title :: string
  pk_description :: string
  pk_steps :: "playbook_step list"
  pk_autoActions :: "auto_action list"

record timeline_entry =
  tl_timestamp :: instant
  tl_action :: string
  tl_actor :: string
  tl_details :: string

record incident =
  in_id :: string
  in_playbookId :: string
  in_category :: playbook_category
  in_severity :: incident_severity
  in_status :: incident_status
  in_provider :: "provider option"
  in_tenantId :: "string option"
  in_title :: string
  in_description :: string
  in_createdAt :: instant
  in_updatedAt :: instant
  in_resolvedAt :: "instant option"
  in_timeline :: "timeline_entry list"

record cost_record =
  ct_id :: string
  ct_provider :: provider
  ct_tenantId :: string
  ct_periodStart :: instant
  ct_periodEnd :: instant
  ct_readOps :: rat
  ct_writeOps :: rat
  ct_storageBytes :: rat
  ct_networkEgressBytes :: rat
  ct_estimatedCostUsd :: rat

record cost_alert =
  al_id :: string
  al_tenantId :: string
  al_provider :: provider
  al_thresholdPct :: rat
  al_currentCostUsd :: rat
  al_budgetUsd :: rat
  al_triggeredAt :: instant
  al_acknowledged :: bool

record ops_manager =
  om_playbooks :: "(string, playbook) jsmap"
  om_incidents :: "(string, incident) jsmap"
  om_costRecords :: "cost_record list"
  om_costAlerts :: "cost_alert list"

definition BUILT_IN_PLAYBOOKS :: "playbook list" where
  "BUILT_IN_PLAYBOOKS =
    [\<lparr>pk_id = ''pb-provider-outage'', pk_category = ProviderOutage, pk_title = ''Provider Outage Response'',
      pk_description = ''Steps to handle a complete provider outage with fallback activation.'',
      pk_steps = [
        \<lparr>ps_order = 1, ps_description = ''Verify outage via provider status page and internal health check'',
          ps_command = None, ps_expectedOutcome = ''Confirmed outage with timestamp''\<rparr>,
        \<lparr>ps_order = 2, ps_description = ''Check circuit breaker state for affected provider'',
          ps_command = Some ''GET /api/health/providers/:provider'', ps_expectedOutcome = ''Circuit breaker in OPEN state''\<rparr>,
        \<lparr>ps_order = 3, ps_description = ''Verify fallback provider is healthy'',
          ps_command = None, ps_expectedOutcome = ''Fallback provider responding normally''\<rparr>,
        \<lparr>ps_order = 4, ps_description = ''Confirm fail_open policy is routing traffic to fallback'',
          ps_command = None, ps_expectedOutcome = ''Traffic flowing to fallback provider''\<rparr>,
        \<lparr>ps_order = 5, ps_description = ''Monitor replay queue depth'',
          ps_command = Some ''GET /api/fallback/replay-queue'', ps_expectedOutcome = ''Queue growing but bounded''\<rparr>,
        \<lparr>ps_order = 6, ps_description = ''When primary recovers, run integrity check and replay queued writes'',
          ps_command = None, ps_expectedOutcome = ''All queued writes replayed successfully''\<rparr>],
      pk_autoActions = [
        \<lparr>aa_trigger = ''circuit_breaker_open'', aa_action = ''activate_fallback'', aa_params = []\<rparr>,
        \<lparr>aa_trigger = ''provider_recovered'', aa_action = ''replay_queue'', aa_params = [(''batchSize'', 100)]\<rparr>]\<rparr>,
     \<lparr>pk_id = ''pb-throttle-spike'', pk_category = ThrottleSpike, pk_title = ''Throttle Spike Response'',
      pk_description = ''Handle sustained throttling from provider rate limits.'',
      pk_steps = [
        \<lparr>ps_order = 1, ps_description = ''Identify tenants driving highest RPS'',
          ps_command = Some ''GET /api/pools/metrics'', ps_expectedOutcome = ''Top tenants by RPS identified''\<rparr>,
        \<lparr>ps_order = 2, ps_description = ''Check guard profile adaptive throttle thresholds'',
          ps_command = None, ps_expectedOutcome = ''Current thresholds documented''\<rparr>,
        \<lparr>ps_order = 3, ps_description = ''Temporarily increase guard profile maxRps if within provider limits'',
          ps_command = None, ps_expectedOutcome = ''Throttling reduced''\<rparr>,
        \<lparr>ps_order = 4, ps_description = ''If persistent, enable tenant-level rate limiting override'',
          ps_command = None, ps_expectedOutcome = ''Noisy tenant isolated''\<rparr>],
      pk_autoActions = [
        \<lparr>aa_trigger = ''throttle_rate_above_20pct'', aa_action = ''increase_pool_size'', aa_params = [(''multiplier'', 3 / 2)]\<rparr>]\<rparr>,
     \<lparr>pk_id = ''pb-credential-expiry'', pk_category = CredentialExpiry, pk_title = ''Credential Expiry Response'',
      pk_description = ''Handle expired or soon-to-expire provider credentials.'',
      pk_steps = [
        \<lparr>ps_order = 1, ps_description = ''Identify affected tenants and providers'',
          ps_command = None, ps_expectedOutcome = ''List of expiring credentials''\<rparr>,
        \<lparr>ps_order = 2, ps_description = ''Trigger credential rotation via control plane'',
          ps_command = Some ''POST /api/control-plane/credentials/:id/rotate'', ps_expectedOutcome = ''New credential issued''\<rparr>,
        \<lparr>ps_order = 3, ps_description = ''Verify connections using new credential'',
          ps_command = None, ps_expectedOutcome = ''Health check passes with new credential''\<rparr>,
        \<lparr>ps_order = 4, ps_description = ''Revoke old credential'',
          ps_command = None, ps_expectedOutcome = ''Old credential marked as revoked''\<rparr>],
      pk_autoActions = [
        \<lparr>aa_trigger = ''credential_expires_within_24h'', aa_action = ''notify_tenant_admin'', aa_params = []\<rparr>,
        \<lparr>aa_trigger = ''credential_expired'', aa_action = ''deactivate_profile'', aa_params = []\<rparr>]\<rparr>,
     \<lparr>pk_id = ''pb-cost-overrun'', pk_category = CostOverrun, pk_title = ''Cost Overrun Response'',
      pk_description = ''Handle cost budget exceedance for a tenant/provider.'',
      pk_steps = [
        \<lparr>ps_order = 1, ps_description = ''Verify cost data accuracy from telemetry'',
          ps_command = None, ps_expectedOutcome = ''Confirmed cost figures''\<rparr>,
        \<lparr>ps_order = 2, ps_description = ''Identify cost drivers (read/write heavy, storage growth)'',
          ps_command = None, ps_expectedOutcome = ''Root cause identified''\<rparr>,
        \<lparr>ps_order = 3, ps_description = ''Apply guard profile cost cap if available'',
          ps_command = None, ps_expectedOutcome = ''Tenant throttled to budget''\<rparr>,
        \<lparr>ps_order = 4, ps_description = ''Notify tenant admin with cost breakdown'',
          ps_command = None, ps_expectedOutcome = ''Tenant informed''\<rparr>],
      pk_autoActions = [
        \<lparr>aa_trigger = ''cost_warning_threshold'', aa_action = ''send_cost_alert'', aa_params = []\<rparr>,
        \<lparr>aa_trigger = ''cost_over_budget'', aa_action = ''throttle_tenant'', aa_params = [(''targetRpsPct'', 50)]\<rparr>]\<rparr>]"

definition new_OpsPlaybookManager :: ops_manager where
  "new_OpsPlaybookManager =
     \<lparr>om_playbooks = foldl (\<lambda>m pb. AList.update (pk_id pb) pb m) [] BUILT_IN_PLAYBOOKS,
      om_incidents = [], om_costRecords = [], om_costAlerts = []\<rparr>"

section \<open>Playbooks\<close>

definition getPlaybook :: "string \<Rightarrow> ops_manager \<Rightarrow> playbook option" where
  "getPlaybook i m = map_of (om_playbooks m) i"

definition getPlaybookByCategory :: "playbook_category \<Rightarrow> ops_manager \<Rightarrow> playbook option" where
  "getPlaybookByCategory c m = List.find (\<lambda>pb. pk_category pb = c) (map_values (om_playbooks m))"

definition listPlaybooks :: "ops_manager \<Rightarrow> playbook list" where
  "listPlaybooks m = map_values (om_playbooks m)"

definition addPlaybook :: "string \<Rightarrow> playbook \<Rightarrow> ops_manager \<Rightarrow> playbook \<times> ops_manager" where
  \<comment> \<open>the identifier of the argument is replaced\<close>
  "addPlaybook uid pb m =
     (let full = pb\<lparr>pk_id := ''pb-'' @ take 8 uid\<rparr>
      in (full, m\<lparr>om_playbooks := AList.update (pk_id full) full (om_playbooks m)\<rparr>))"

section \<open>Incidents\<close>

definition tl_entry :: "instant \<Rightarrow> string \<Rightarrow> string \<Rightarrow> string \<Rightarrow> timeline_entry" where
  "tl_entry now action actor det =
     \<lparr>tl_timestamp = now, tl_action = action, tl_actor = actor, tl_details = det\<rparr>"

definition createIncident ::
    "string \<Rightarrow> instant \<Rightarrow> playbook_category \<Rightarrow> incident_severity \<Rightarrow> string \<Rightarrow> string
     \<Rightarrow> provider option \<Rightarrow> string option \<Rightarrow> ops_manager \<Rightarrow> incident \<times> ops_manager" where
  "createIncident uid now category sev title description prov tenantId m =
     (let inc = \<lparr>in_id = ''inc-'' @ take 8 uid,
            in_playbookId = (case getPlaybookByCategory category m of None \<Rightarrow> ''unknown'' | Some pb \<Rightarrow> pk_id pb),
            in_category = category, in_severity = sev, in_status = IOpen, in_provider = prov,
            in_tenantId = tenantId, in_title = title, in_description = description,
            in_createdAt = now, in_updatedAt = now, in_resolvedAt = None,
            in_timeline = [tl_entry now ''incident_created'' ''system'' description]\<rparr>
      in (inc, m\<lparr>om_incidents := AList.update (in_id inc) inc (om_incidents m)\<rparr>))"

definition requireIncident :: "string \<Rightarrow> ops_manager \<Rightarrow> ds_exn + incident" where
  "requireIncident i m = (case map_of (om_incidents m) i of
     None \<Rightarrow> Inl (PlainError (''incident '' @ i @ '' not found'')) | Some inc \<Rightarrow> Inr inc)"

definition acknowledgeIncident ::
    "instant \<Rightarrow> string \<Rightarrow> string \<Rightarrow> ops_manager \<Rightarrow> (ds_exn + incident) \<times> ops_manager" where
  "acknowledgeIncident now i actor m =
     (case requireIncident i m of
        Inl e \<Rightarrow> (Inl e, m)
      | Inr inc \<Rightarrow>
          (let inc' = inc\<lparr>in_status := IAcknowledged, in_updatedAt := now,
                 in_timeline := in_timeline inc @ [tl_entry now ''acknowledged'' actor []]\<rparr>
           in (Inr inc', m\<lparr>om_incidents := AList.update i inc' (om_incidents m)\<rparr>)))"

definition mitigateIncident ::
    "instant \<Rightarrow> string \<Rightarrow> string \<Rightarrow> string \<Rightarrow> ops_manager \<Rightarrow> (ds_exn + incident) \<times> ops_manager" where
  "mitigateIncident now i actor det m =
     (case requireIncident i m of
        Inl e \<Rightarrow> (Inl e, m)
      | Inr inc \<Rightarrow>
          (let inc' = inc\<lparr>in_status := IMitigating, in_updatedAt := now,
                 in_timeline := in_timeline inc @ [tl_entry now ''mitigating'' actor det]\<rparr>
           in (Inr inc', m\<lparr>om_incidents := AList.update i inc' (om_incidents m)\<rparr>)))"

definition resolveIncident ::
    "instant \<Rightarrow> string \<Rightarrow> string \<Rightarrow> string \<Rightarrow> ops_manager \<Rightarrow> (ds_exn + incident) \<times> ops_manager" where
  "resolveIncident now i actor det m =
     (case requireIncident i m of
        Inl e \<Rightarrow> (Inl e, m)
      | Inr inc \<Rightarrow>
          (let inc' = inc\<lparr>in_status := IResolved, in_resolvedAt := Some now, in_updatedAt := now,
                 in_timeline := in_timeline inc @ [tl_entry now ''resolved'' actor det]\<rparr>
           in (Inr inc', m\<lparr>om_incidents := AList.update i inc' (om_incidents m)\<rparr>)))"

definition getIncident :: "string \<Rightarrow> ops_manager \<Rightarrow> incident option" where
  "getIncident i m = map_of (om_incidents m) i"

definition listOpenIncidents :: "ops_manager \<Rightarrow> incident list" where
  "listOpenIncidents m = filter (\<lambda>i. in_status i \<noteq> IResolved) (map_values (om_incidents m))"

section \<open>Costs and alerts\<close>

definition recordCost :: "string \<Rightarrow> cost_record \<Rightarrow> ops_manager \<Rightarrow> cost_record \<times> ops_manager" where
  "recordCost uid r m =
     (let full = r\<lparr>ct_id := uid\<rparr> in (full, m\<lparr>om_costRecords := om_costRecords m @ [full]\<rparr>))"

definition getCostByTenant :: "string \<Rightarrow> int \<Rightarrow> ops_manager \<Rightarrow> cost_record list" where
  "getCostByTenant t limit m = slice_last limit (filter (\<lambda>r. ct_tenantId r = t) (om_costRecords m))"

definition getTotalCost :: "string \<Rightarrow> provider \<Rightarrow> ops_manager \<Rightarrow> rat" where
  "getTotalCost t p m =
     foldl (\<lambda>s r. s + ct_estimatedCostUsd r) 0
       (filter (\<lambda>r. ct_tenantId r = t \<and> ct_provider r = p) (om_costRecords m))"

definition checkCostAlert ::
    "string \<Rightarrow> instant \<Rightarrow> string \<Rightarrow> provider \<Rightarrow> rat \<Rightarrow> rat \<Rightarrow> ops_manager
     \<Rightarrow> cost_alert option \<times> ops_manager" where
  "checkCostAlert uid now t p budgetUsd thresholdPct m =
     (let total = getTotalCost t p m in
      if budgetUsd * (thresholdPct / 100) \<le> total then
        (let alert = \<lparr>al_id = uid, al_tenantId = t, al_provider = p, al_thresholdPct = thresholdPct,
               al_currentCostUsd = total, al_budgetUsd = budgetUsd, al_triggeredAt = now,
               al_acknowledged = False\<rparr>
         in (Some alert, m\<lparr>om_costAlerts := om_costAlerts m @ [alert]\<rparr>))
      else (None, m))"

definition getActiveAlerts :: "ops_manager \<Rightarrow> cost_alert list" where
  "getActiveAlerts m = filter (\<lambda>a. \<not> al_acknowledged a) (om_costAlerts m)"

fun acknowledge_first :: "string \<Rightarrow> cost_alert list \<Rightarrow> cost_alert list" where
  "acknowledge_first i [] = []"
| "acknowledge_first i (a # as) =
     (if al_id a = i then a\<lparr>al_acknowledged := True\<rparr> # as else a # acknowledge_first i as)"

definition acknowledgeAlert :: "string \<Rightarrow> ops_manager \<Rightarrow> ops_manager" where
  "acknowledgeAlert i m = m\<lparr>om_costAlerts := acknowledge_first i (om_costAlerts m)\<rparr>"

definition om_reset :: "ops_manager \<Rightarrow> ops_manager" where
  "om_reset m = new_OpsPlaybookManager"

section \<open>Runs of the manager\<close>

datatype ops_op =
    OAdd string playbook
  | OCreate string instant playbook_category incident_severity string string "provider option" "string option"
  | OAck instant string string
  | OMitigate instant string string string
  | OResolve instant string string string
  | OCost string cost_record
  | OCheck string instant string provider rat rat
  | OAckAlert string

fun ops_step :: "ops_op \<Rightarrow> ops_manager \<Rightarrow> ops_manager" where
  "ops_step (OAdd uid pb) m = snd (addPlaybook uid pb m)"
| "ops_step (OCreate uid now c sv ti d p t) m = snd (createIncident uid now c sv ti d p t m)"
| "ops_step (OAck now i a) m = snd (acknowledgeIncident now i a m)"
| "ops_step (OMitigate now i a d) m = snd (mitigateIncident now i a d m)"
| "ops_step (OResolve now i a d) m = snd (resolveIncident now i a d m)"
| "ops_step (OCost uid r) m = snd (recordCost uid r m)"
| "ops_step (OCheck uid now t p b th) m = snd (checkCostAlert uid now t p b th m)"
| "ops_step (OAckAlert i) m = acknowledgeAlert i m"

fun status_action :: "incident_status \<Rightarrow> string" where
  "status_action IOpen = ''incident_created''"
| "status_action IAcknowledged = ''acknowledged''"
| "status_action IMitigating = ''mitigating''"
| "status_action IResolved = ''resolved''"

definition incident_ok :: "incident \<Rightarrow> bool" where
  \<comment> \<open>the status is the last entry of the timeline; a resolution leaves its time behind\<close>
  "incident_ok inc \<longleftrightarrow> in_timeline inc \<noteq> []
     \<and> tl_action (hd (in_timeline inc)) = ''incident_created''
     \<and> tl_action (last (in_timeline inc)) = status_action (in_status inc)
     \<and> (in_resolvedAt inc \<noteq> None \<longleftrightarrow> (\<exists>e \<in> set (in_timeline inc). tl_action e = ''resolved''))"

definition ops_inv :: "ops_manager \<Rightarrow> bool" where
  "ops_inv m \<longleftrightarrow> (\<forall>i inc. map_of (om_incidents m) i = Some inc \<longrightarrow> in_id inc = i \<and> incident_ok inc)"

lemma ops_inv_frame: "ops_inv m \<Longrightarrow> om_incidents m' = om_incidents m \<Longrightarrow> ops_inv m'"
  by (simp add: ops_inv_def)

lemma ops_inv_put:
  "ops_inv m \<Longrightarrow> in_id inc = i \<Longrightarrow> incident_ok inc \<Longrightarrow>
   ops_inv (m\<lparr>om_incidents := AList.update i inc (om_incidents m)\<rparr>)"
  by (simp add: ops_inv_def)

lemma ops_inv_step: "ops_inv m \<Longrightarrow> ops_inv (ops_step op m)"
proof (cases op)
  case (OCreate uid now c sv ti d p t)
  then show "ops_inv m \<Longrightarrow> ?thesis"
    by (simp add: createIncident_def Let_def ops_inv_put incident_ok_def tl_entry_def)
next
  case (OAck now i a)
  then show "ops_inv m \<Longrightarrow> ?thesis"
    by (cases "map_of (om_incidents m) i")
      (auto simp: acknowledgeIncident_def requireIncident_def Let_def intro!: ops_inv_put,
       auto simp: ops_inv_def incident_ok_def tl_entry_def)
next
  case (OMitigate now i a d)
  then show "ops_inv m \<Longrightarrow> ?thesis"
    by (cases "map_of (om_incidents m) i")
      (auto simp: mitigateIncident_def requireIncident_def Let_def intro!: ops_inv_put,
       auto simp: ops_inv_def incident_ok_def tl_entry_def)
next
  case (OResolve now i a d)
  then show "ops_inv m \<Longrightarrow> ?thesis"
    by (cases "map_of (om_incidents m) i")
      (auto simp: resolveIncident_def requireIncident_def Let_def intro!: ops_inv_put,
       auto simp: ops_inv_def incident_ok_def tl_entry_def)
qed (erule ops_inv_frame; simp add: addPlaybook_def recordCost_def checkCostAlert_def
  acknowledgeAlert_def Let_def)+

interpretation ops: machine ops_step ops_inv
  by unfold_locales (rule ops_inv_step)

lemma foldl_sum: "foldl (\<lambda>s r. s + f r) a xs = a + (\<Sum>r\<leftarrow>xs. f r :: rat)"
  by (induction xs arbitrary: a) simp_all

section \<open>Properties\<close>

text \<open>
  In every run an incident's status is the one its timeline ends with, and it carries a
  resolution time exactly if its timeline contains a resolution, whatever came after it: a
  resolved incident can be acknowledged or mitigated again, is then open again and keeps the
  resolution time.
\<close>

lemma incident_status_is_last_action:
  assumes "map_of (om_incidents (fold ops_step ops new_OpsPlaybookManager)) i = Some inc"
  shows "tl_action (last (in_timeline inc)) = status_action (in_status inc)
    \<and> (in_resolvedAt inc \<noteq> None \<longleftrightarrow> (\<exists>e \<in> set (in_timeline inc). tl_action e = ''resolved''))
    \<and> (\<exists>inc' m'. acknowledgeIncident now i a (fold ops_step ops new_OpsPlaybookManager) = (Inr inc', m')
         \<and> inc' \<in> set (listOpenIncidents m') \<and> in_resolvedAt inc' = in_resolvedAt inc)"
proof -
  have "ops_inv new_OpsPlaybookManager" by (simp add: ops_inv_def new_OpsPlaybookManager_def)
  then have "ops_inv (fold ops_step ops new_OpsPlaybookManager)" by (rule ops.inv_run)
  then have "incident_ok inc" using assms by (simp add: ops_inv_def)
  moreover have "\<exists>inc' m'. acknowledgeIncident now i a (fold ops_step ops new_OpsPlaybookManager) = (Inr inc', m')
      \<and> map_of (om_incidents m') i = Some inc' \<and> in_status inc' = IAcknowledged
      \<and> in_resolvedAt inc' = in_resolvedAt inc"
    using assms by (simp add: acknowledgeIncident_def requireIncident_def Let_def)
  ultimately show ?thesis
    using map_of_values by (fastforce simp: incident_ok_def listOpenIncidents_def)
qed

lemma incident_status_is_last_action_example:
  "\<exists>inc. map_of (om_incidents (fold ops_step
       [OCreate ''0123456789'' 1 ThrottleSpike SHigh ''t'' ''d'' None None, OResolve 2 ''inc-01234567'' ''eve'' ''done'']
       new_OpsPlaybookManager)) ''inc-01234567'' = Some inc \<and> in_resolvedAt inc \<noteq> None"
proof -
  let ?m = "fold ops_step
       [OCreate ''0123456789'' 1 ThrottleSpike SHigh ''t'' ''d'' None None, OResolve 2 ''inc-01234567'' ''eve'' ''done'']
       new_OpsPlaybookManager"
  define inc where "inc = the (map_of (om_incidents ?m) ''inc-01234567'')"
  have inc: "map_of (om_incidents ?m) ''inc-01234567'' = Some inc"
    unfolding inc_def option.collapse
    by (simp add: createIncident_def resolveIncident_def requireIncident_def new_OpsPlaybookManager_def Let_def)
  have "\<exists>e \<in> set (in_timeline inc). tl_action e = ''resolved''"
    unfolding inc_def
    by (simp add: createIncident_def resolveIncident_def requireIncident_def new_OpsPlaybookManager_def Let_def tl_entry_def)
  then show ?thesis using incident_status_is_last_action [OF inc] inc by blast
qed

text \<open>
  A cost alert is raised exactly if the recorded cost of the tenant with the provider has
  reached the given share of the budget; it carries that cost, and it stays active until it is
  acknowledged.
\<close>

lemma cost_alert_raised_iff:
  "let total = (\<Sum>r\<leftarrow>filter (\<lambda>r. ct_tenantId r = t \<and> ct_provider r = p) (om_costRecords m). ct_estimatedCostUsd r)
   in case checkCostAlert uid now t p budget pct m of
        (None, m') \<Rightarrow> total < budget * (pct / 100) \<and> m' = m
      | (Some a, m') \<Rightarrow> budget * (pct / 100) \<le> total \<and> al_currentCostUsd a = total
          \<and> getActiveAlerts m' = getActiveAlerts m @ [a]"
  by (simp add: checkCostAlert_def getTotalCost_def foldl_sum getActiveAlerts_def Let_def)

end
