(* ===== verification/DsSchema.thy ===== *)
theory DsSchema
  imports DsTypes
begin

text \<open>
  The portable data model of the flexible datastore: entity schemas and the index strategy of
  each provider (src/schema-mapping), the capability matrix and its negotiation (src/query).
\<close>

section \<open>Entity schemas\<close>

datatype field_type = FString | FNumber | FBoolean | FDate | FObject | FArray

fun field_type_str :: "field_type \<Rightarrow> string" where
  "field_type_str FString = ''string''"
| "field_type_str FNumber = ''number''"
| "field_type_str FBoolean = ''boolean''"
| "field_type_str FDate = ''date''"
| "field_type_str FObject = ''object''"
| "field_type_str FArray = ''array''"

record field_mapping =
  fm_name :: string
  fm_type :: field_type
  fm_required :: bool
  fm_indexed :: bool
  fm_ttlField :: bool

record entity_schema =
  es_domain :: entity_domain
  es_partitionKey :: string
  es_sortKey :: "string option"
  es_fields :: "field_mapping list"

abbreviation field :: "string \<Rightarrow> field_type \<Rightarrow> bool \<Rightarrow> bool \<Rightarrow> bool \<Rightarrow> field_mapping" where
  "field n t r i ttl \<equiv>
     \<lparr>fm_name = n, fm_type = t, fm_required = r, fm_indexed = i, fm_ttlField = ttl\<rparr>"

definition ENTITY_SCHEMAS :: "entity_schema list" where
  "ENTITY_SCHEMAS =
    [\<lparr>es_domain = Users, es_partitionKey = ''tenantId'', es_sortKey = Some ''id'', es_fields =
       [field ''id'' FString True True False,
        field ''tenantId'' FString True True False,
        field ''email'' FString True True False,
        field ''displayName'' FString False False False,
        field ''status'' FString True True False,
        field ''createdAt'' FDate True True False,
        field ''updatedAt'' FDate True False False,
        field ''metadata'' FObject False False False]\<rparr>,
     \<lparr>es_domain = Conversations, es_partitionKey = ''tenantId'', es_sortKey = Some ''id'', es_fields =
       [field ''id'' FString True True False,
        field ''tenantId'' FString True True False,
        field ''projectId'' FString False True False,
        field ''type'' FString True True False,
        field ''participants'' FArray True False False,
        field ''lastMessageAt'' FDate False True False,
        field ''createdAt'' FDate True True False,
        field ''metadata'' FObject False False False]\<rparr>,
     \<lparr>es_domain = Messages, es_partitionKey = ''conversationId'', es_sortKey = Some ''createdAt'', es_fields =
       [field ''id'' FString True True False,
        field ''conversationId'' FString True True False,
        field ''tenantId'' FString True True False,
        field ''senderId'' FString True True False,
        field ''type'' FString True True False,
        field ''body'' FString True False False,
        field ''createdAt'' FDate True True False,
        field ''editedAt'' FDate False False False,
        field ''deleted'' FBoolean False False False]\<rparr>,
     \<lparr>es_domain = Settings, es_partitionKey = ''tenantId'', es_sortKey = Some ''key'', es_fields =
       [field ''key'' FString True True False,
        field ''tenantId'' FString True True False,
        field ''value'' FObject True False False,
        field ''updatedAt'' FDate True False False]\<rparr>,
     \<lparr>es_domain = Audit, es_partitionKey = ''tenantId'', es_sortKey = Some ''timestamp'', es_fields =
       [field ''id'' FString True True False,
        field ''tenantId'' FString True True False,
        field ''action'' FString True True False,
        field ''actor'' FString True True False,
        field ''resource'' FString True True False,
        field ''timestamp'' FDate True True False,
        field ''details'' FObject False False False,
        field ''ttl'' FNumber False False True]\<rparr>,
     \<lparr>es_domain = Sessions, es_partitionKey = ''tenantId'', es_sortKey = Some ''id'', es_fields =
       [field ''id'' FString True True False,
        field ''tenantId'' FString True True False,
        field ''userId'' FString True True False,
        field ''token'' FString True True False,
        field ''expiresAt'' FDate True True True,
        field ''createdAt'' FDate True False False]\<rparr>,
     \<lparr>es_domain = Presence, es_partitionKey = ''tenantId'', es_sortKey = Some ''userId'', es_fields =
       [field ''userId'' FString True True False,
        field ''tenantId'' FString True True False,
        field ''status'' FString True True False,
        field ''lastSeenAt'' FDate True True False,
        field ''deviceInfo'' FObject False False False]\<rparr>]"

definition getSchemaForDomain :: "entity_domain \<Rightarrow> entity_schema option" where
  "getSchemaForDomain d = List.find (\<lambda>s. es_domain s = d) ENTITY_SCHEMAS"

section \<open>Index strategies\<close>

datatype direction = Asc | Desc

record index_definition =
  ix_name :: string
  ix_fields :: "(string \<times> direction) list"
  ix_unique :: "bool option"
  ix_ttl :: "bool option"

record index_strategy =
  is_provider :: provider
  is_domain :: entity_domain
  is_indexes :: "index_definition list"
  is_notes :: string

definition index :: "string \<Rightarrow> (string \<times> direction) list \<Rightarrow> index_definition" where
  "index n fs = \<lparr>ix_name = n, ix_fields = fs, ix_unique = None, ix_ttl = None\<rparr>"

definition secondary_fields :: "entity_schema \<Rightarrow> field_mapping list" where
  "secondary_fields schema =
     filter (\<lambda>f. fm_name f \<noteq> es_partitionKey schema \<and> Some (fm_name f) \<noteq> es_sortKey schema)
       (filter fm_indexed (es_fields schema))"

definition key_fields :: "entity_schema \<Rightarrow> direction \<Rightarrow> (string \<times> direction) list" where
  "key_fields schema dir = (es_partitionKey schema, Asc)
     # (if truthy_str (es_sortKey schema) then [(the (es_sortKey schema), dir)] else [])"

fun provider_indexes :: "provider \<Rightarrow> entity_domain \<Rightarrow> entity_schema \<Rightarrow> index_definition list" where
  "provider_indexes MongoDB domain schema =
     index (domain_str domain @ ''_pk_sk'') (key_fields schema Asc)
     # map (\<lambda>f. index (domain_str domain @ ''_'' @ fm_name f) [(fm_name f, Asc)]) (secondary_fields schema)"
| "provider_indexes DynamoDB domain schema =
     map (\<lambda>f. index (''gsi_'' @ domain_str domain @ ''_'' @ fm_name f) [(fm_name f, Asc)])
       (secondary_fields schema)"
| "provider_indexes Firestore domain schema =
     [index (''composite_'' @ domain_str domain) (key_fields schema Desc)]"
| "provider_indexes CosmosDB domain schema =
     [index (''composite_'' @ domain_str domain)
        (map (\<lambda>f. (fm_name f, Asc)) (filter fm_indexed (es_fields schema)))]"

definition getIndexStrategy :: "provider \<Rightarrow> entity_domain \<Rightarrow> index_strategy" where
  "getIndexStrategy prov domain =
     (case List.find (\<lambda>s. es_domain s = domain) ENTITY_SCHEMAS of
        None \<Rightarrow> \<lparr>is_provider = prov, is_domain = domain, is_indexes = [],
                 is_notes = ''No schema defined for domain '' @ domain_str domain\<rparr>
      | Some schema \<Rightarrow>
          \<lparr>is_provider = prov, is_domain = domain, is_indexes = provider_indexes prov domain schema,
           is_notes = ''Auto-generated index strategy for '' @ provider_str prov @ ''/'' @ domain_str domain\<rparr>)"

record type_conversion =
  ty_sourceType :: string
  ty_mongodb :: string
  ty_dynamodb :: string
  ty_firestore :: string
  ty_cosmosdb :: string
  ty_precision :: string

definition TYPE_CONVERSIONS :: "type_conversion list" where
  "TYPE_CONVERSIONS =
    [\<lparr>ty_sourceType = ''date'', ty_mongodb = ''ISODate'', ty_dynamodb = ''S (ISO-8601 string)'',
      ty_firestore = ''Timestamp'', ty_cosmosdb = ''string (ISO-8601)'', ty_precision = ''millisecond''\<rparr>,
     \<lparr>ty_sourceType = ''number'', ty_mongodb = ''NumberLong / Double'', ty_dynamodb = ''N'',
      ty_firestore = ''number (64-bit float)'', ty_cosmosdb = ''number (64-bit float)'', ty_precision = ''IEEE 754 double''\<rparr>,
     \<lparr>ty_sourceType = ''boolean'', ty_mongodb = ''Boolean'', ty_dynamodb = ''BOOL'',
      ty_firestore = ''boolean'', ty_cosmosdb = ''boolean'', ty_precision = ''exact''\<rparr>,
     \<lparr>ty_sourceType = ''object'', ty_mongodb = ''Object (BSON)'', ty_dynamodb = ''M (Map)'',
      ty_firestore = ''Map'', ty_cosmosdb = ''Object (JSON)'', ty_precision = ''structural (nested)''\<rparr>,
     \<lparr>ty_sourceType = ''array'', ty_mongodb = ''Array'', ty_dynamodb = ''L (List)'',
      ty_firestore = ''Array'', ty_cosmosdb = ''Array (JSON)'', ty_precision = ''ordered''\<rparr>]"

section \<open>Capabilities\<close>

record provider_capabilities =
  cap_transactions :: bool
  cap_ttl :: bool
  cap_secondaryIndexes :: bool
  cap_batchWrites :: bool
  cap_changeStreams :: bool
  cap_fullTextSearch :: bool
  cap_aggregationPipeline :: bool
  cap_atomicCounters :: bool
  cap_conditionalWrites :: bool
  cap_maxDocSizeBytes :: nat
  cap_maxBatchSize :: nat

datatype capability =
    Transactions | Ttl | SecondaryIndexes | BatchWrites | ChangeStreams | FullTextSearch
  | AggregationPipeline | AtomicCounters | ConditionalWrites | MaxDocSizeBytes | MaxBatchSize

fun capability_str :: "capability \<Rightarrow> string" where
  "capability_str Transactions = ''transactions''"
| "capability_str Ttl = ''ttl''"
| "capability_str SecondaryIndexes = ''secondaryIndexes''"
| "capability_str BatchWrites = ''batchWrites''"
| "capability_str ChangeStreams = ''changeStreams''"
| "capability_str FullTextSearch = ''fullTextSearch''"
| "capability_str AggregationPipeline = ''aggregationPipeline''"
| "capability_str AtomicCounters = ''atomicCounters''"
| "capability_str ConditionalWrites = ''conditionalWrites''"
| "capability_str MaxDocSizeBytes = ''maxDocSizeBytes''"
| "capability_str MaxBatchSize = ''maxBatchSize''"

fun PROVIDER_CAPABILITIES :: "provider \<Rightarrow> provider_capabilities" where
  "PROVIDER_CAPABILITIES MongoDB =
     \<lparr>cap_transactions = True, cap_ttl = True, cap_secondaryIndexes = True, cap_batchWrites = True, cap_changeStreams = True, cap_fullTextSearch = True, cap_aggregationPipeline = True, cap_atomicCounters = True, cap_conditionalWrites = True,
      cap_maxDocSizeBytes = 16777216, cap_maxBatchSize = 100000\<rparr>"
| "PROVIDER_CAPABILITIES DynamoDB =
     \<lparr>cap_transactions = True, cap_ttl = True, cap_secondaryIndexes = True, cap_batchWrites = True, cap_changeStreams = True, cap_fullTextSearch = False, cap_aggregationPipeline = False, cap_atomicCounters = True, cap_conditionalWrites = True,
      cap_maxDocSizeBytes = 400000, cap_maxBatchSize = 25\<rparr>"
| "PROVIDER_CAPABILITIES Firestore =
     \<lparr>cap_transactions = True, cap_ttl = True, cap_secondaryIndexes = True, cap_batchWrites = True, cap_changeStreams = True, cap_fullTextSearch = False, cap_aggregationPipeline = False, cap_atomicCounters = True, cap_conditionalWrites = True,
      cap_maxDocSizeBytes = 1048576, cap_maxBatchSize = 500\<rparr>"
| "PROVIDER_CAPABILITIES CosmosDB =
     \<lparr>cap_transactions = True, cap_ttl = True, cap_secondaryIndexes = True, cap_batchWrites = True, cap_changeStreams = True, cap_fullTextSearch = False, cap_aggregationPipeline = True, cap_atomicCounters = True, cap_conditionalWrites = True,
      cap_maxDocSizeBytes = 2097152, cap_maxBatchSize = 100\<rparr>"

datatype capability_value = CapBool bool | CapNumber nat

fun cap_value :: "provider_capabilities \<Rightarrow> capability \<Rightarrow> capability_value" where
  "cap_value c Transactions = CapBool (cap_transactions c)"
| "cap_value c Ttl = CapBool (cap_ttl c)"
| "cap_value c SecondaryIndexes = CapBool (cap_secondaryIndexes c)"
| "cap_value c BatchWrites = CapBool (cap_batchWrites c)"
| "cap_value c ChangeStreams = CapBool (cap_changeStreams c)"
| "cap_value c FullTextSearch = CapBool (cap_fullTextSearch c)"
| "cap_value c AggregationPipeline = CapBool (cap_aggregationPipeline c)"
| "cap_value c AtomicCounters = CapBool (cap_atomicCounters c)"
| "cap_value c ConditionalWrites = CapBool (cap_conditionalWrites c)"
| "cap_value c MaxDocSizeBytes = CapNumber (cap_maxDocSizeBytes c)"
| "cap_value c MaxBatchSize = CapNumber (cap_maxBatchSize c)"

fun checkCapabilities_loop :: "provider_capabilities \<Rightarrow> capability list \<Rightarrow> string list \<Rightarrow> string list" where
  "checkCapabilities_loop caps [] unsupported = unsupported"
| "checkCapabilities_loop caps (c # cs) unsupported =
     checkCapabilities_loop caps cs
       (if cap_value caps c = CapBool False then unsupported @ [capability_str c] else unsupported)"

definition checkCapabilities :: "provider \<Rightarrow> capability list \<Rightarrow> bool \<times> string list" where
  "checkCapabilities prov required =
     (let unsupported = checkCapabilities_loop (PROVIDER_CAPABILITIES prov) required []
      in (length unsupported = 0, unsupported))"

definition assertCapability :: "provider \<Rightarrow> capability \<Rightarrow> ds_exn option" where
  "assertCapability prov c =
     (if cap_value (PROVIDER_CAPABILITIES prov) c = CapBool False
      then Some (DsError (UnsupportedOperationError (provider_str prov) (capability_str c))) else None)"

definition getCapabilities :: "provider \<Rightarrow> provider_capabilities" where
  "getCapabilities prov = PROVIDER_CAPABILITIES prov"

record compatibility_report =
  co_provider :: provider
  co_compatible :: bool
  co_available :: "string list"
  co_missing :: "string list"
  co_fallbackSuggestions :: "(string \<times> string) list"

fun negotiate_loop :: "provider_capabilities \<Rightarrow> capability list \<Rightarrow> string list \<Rightarrow> string list
    \<Rightarrow> string list \<times> string list" where
  "negotiate_loop caps [] available missing = (available, missing)"
| "negotiate_loop caps (c # cs) available missing =
     (case cap_value caps c of
        CapBool b \<Rightarrow> if b then negotiate_loop caps cs (available @ [capability_str c]) missing
                     else negotiate_loop caps cs available (missing @ [capability_str c])
      | CapNumber n \<Rightarrow> negotiate_loop caps cs (available @ [capability_str c]) missing)"

definition negotiate :: "provider \<Rightarrow> capability list \<Rightarrow> compatibility_report" where
  "negotiate prov requiredCaps =
     (case negotiate_loop (PROVIDER_CAPABILITIES prov) requiredCaps [] [] of
        (available, missing) \<Rightarrow>
          \<lparr>co_provider = prov, co_compatible = (length missing = 0), co_available = available,
           co_missing = missing,
           co_fallbackSuggestions =
             map (\<lambda>m. (m, ''Use internal MongoDB for operations requiring '' @ m)) missing\<rparr>)"

section \<open>Lemmas\<close>

lemma check_loop: "checkCapabilities_loop caps cs acc =
  acc @ map capability_str (filter (\<lambda>c. cap_value caps c = CapBool False) cs)"
  by (induction cs arbitrary: acc) auto

lemma negotiate_loop: "negotiate_loop caps cs av mi =
  (av @ map capability_str (filter (\<lambda>c. cap_value caps c \<noteq> CapBool False) cs),
   mi @ map capability_str (filter (\<lambda>c. cap_value caps c = CapBool False) cs))"
  by (induction cs arbitrary: av mi) (auto split: capability_value.split)

definition schema_ok :: "entity_schema \<Rightarrow> bool" where
  \<comment> \<open>fields have distinct names; the keys are required indexed fields; at most one field expires\<close>
  "schema_ok s \<longleftrightarrow> distinct (map fm_name (es_fields s))
     \<and> list_ex (\<lambda>f. fm_name f = es_partitionKey s \<and> fm_required f \<and> fm_indexed f) (es_fields s)
     \<and> list_ex (\<lambda>f. Some (fm_name f) = es_sortKey s \<and> fm_required f \<and> fm_indexed f) (es_fields s)
     \<and> length (filter fm_ttlField (es_fields s)) \<le> 1"

lemma schemas_ok: "list_all schema_ok ENTITY_SCHEMAS"
  by code_simp

lemma schema_exists: "\<exists>s. getSchemaForDomain d = Some s \<and> es_domain s = d \<and> s \<in> set ENTITY_SCHEMAS"
  by (cases d) (simp_all add: getSchemaForDomain_def ENTITY_SCHEMAS_def)

lemma truthy_sort_keys: "list_all (\<lambda>s. truthy_str (es_sortKey s)) ENTITY_SCHEMAS"
  by code_simp

section \<open>Properties\<close>

text \<open>
  Every entity domain has a schema with distinct fields whose partition and sort keys are
  required indexed fields, and the index strategies cover it: for MongoDB and Cosmos DB every
  indexed field occurs in a generated index, for DynamoDB every indexed field outside the keys
  has its own index, for Firestore the keys have a composite one. No generated index ever
  carries the time-to-live flag, not even for the fields the schema marks as expiring.
\<close>

lemma index_strategy_covers_schema:
  "\<exists>s. getSchemaForDomain d = Some s \<and> schema_ok s
    \<and> (\<forall>f. f \<in> set (es_fields s) \<and> fm_indexed f \<longrightarrow>
         (\<forall>p \<in> {MongoDB, CosmosDB}. \<exists>ix \<in> set (is_indexes (getIndexStrategy p d)). fm_name f \<in> fst ` set (ix_fields ix))
         \<and> (fm_name f \<noteq> es_partitionKey s \<and> Some (fm_name f) \<noteq> es_sortKey s \<longrightarrow>
             (\<exists>ix \<in> set (is_indexes (getIndexStrategy DynamoDB d)). ix_fields ix = [(fm_name f, Asc)])))
    \<and> map fst (ix_fields (hd (is_indexes (getIndexStrategy Firestore d)))) = [es_partitionKey s, the (es_sortKey s)]
    \<and> (\<forall>p. \<forall>ix \<in> set (is_indexes (getIndexStrategy p d)). ix_ttl ix = None)"
proof -
  obtain s where s: "getSchemaForDomain d = Some s" "s \<in> set ENTITY_SCHEMAS" using schema_exists by blast
  then have ok: "schema_ok s" "truthy_str (es_sortKey s)"
    using schemas_ok truthy_sort_keys by (auto simp: list_all_iff)
  then obtain k where k: "es_sortKey s = Some k" "k \<noteq> []" by (auto split: option.splits)
  have str: "is_indexes (getIndexStrategy p d) = provider_indexes p d s" for p
    using s(1) by (simp add: getIndexStrategy_def getSchemaForDomain_def)
  have keys: "key_fields s dir = [(es_partitionKey s, Asc), (k, dir)]" for dir
    using k by (simp add: key_fields_def)
  have ttl: "ix_ttl ix = None" if "ix \<in> set (provider_indexes p d s)" for p ix
    using that by (cases p) (auto simp: index_def)
  have mongo: "\<exists>ix \<in> set (provider_indexes MongoDB d s). fm_name f \<in> fst ` set (ix_fields ix)"
    if "f \<in> set (es_fields s)" "fm_indexed f" for f
  proof (cases "fm_name f = es_partitionKey s \<or> fm_name f = k")
    case True
    then show ?thesis by (auto simp: keys index_def)
  next
    case False
    then have "f \<in> set (secondary_fields s)" using that k(1) by (simp add: secondary_fields_def)
    then show ?thesis by (auto simp: index_def)
  qed
  have cosmos: "\<exists>ix \<in> set (provider_indexes CosmosDB d s). fm_name f \<in> fst ` set (ix_fields ix)"
    if "f \<in> set (es_fields s)" "fm_indexed f" for f
    using that by (force simp: index_def)
  have dynamo: "\<exists>ix \<in> set (provider_indexes DynamoDB d s). ix_fields ix = [(fm_name f, Asc)]"
    if "f \<in> set (es_fields s)" "fm_indexed f" "fm_name f \<noteq> es_partitionKey s" "Some (fm_name f) \<noteq> es_sortKey s" for f
    using that by (force simp: index_def secondary_fields_def)
  have fire: "map fst (ix_fields (hd (provider_indexes Firestore d s))) = [es_partitionKey s, the (es_sortKey s)]"
    using k(1) by (simp add: keys index_def)
  have both: "\<forall>p \<in> {MongoDB, CosmosDB}. \<exists>ix \<in> set (provider_indexes p d s). fm_name f \<in> fst ` set (ix_fields ix)"
    if "f \<in> set (es_fields s)" "fm_indexed f" for f
    using mongo [OF that] cosmos [OF that] by blast
  show ?thesis
    unfolding str by (intro exI [of _ s] conjI allI impI ballI)
      (use s(1) ok(1) fire in simp, use ok(1) in simp, use both in blast, use dynamo in blast,
       rule fire, erule ttl)
qed

lemma index_strategy_covers_schema_example:
  "\<exists>ix \<in> set (is_indexes (getIndexStrategy DynamoDB Sessions)). ix_fields ix = [(''token'', Asc)]"
proof -
  let ?f = "field ''token'' FString True True False"
  obtain s where s: "getSchemaForDomain Sessions = Some s"
    and c: "\<And>f. f \<in> set (es_fields s) \<Longrightarrow> fm_indexed f \<Longrightarrow> fm_name f \<noteq> es_partitionKey s \<Longrightarrow>
      Some (fm_name f) \<noteq> es_sortKey s \<Longrightarrow>
      \<exists>ix \<in> set (is_indexes (getIndexStrategy DynamoDB Sessions)). ix_fields ix = [(fm_name f, Asc)]"
    using index_strategy_covers_schema [of Sessions] by blast
  have "?f \<in> set (es_fields s)" "es_partitionKey s = ''tenantId''" "es_sortKey s = Some ''id''"
    using s by (auto simp: getSchemaForDomain_def ENTITY_SCHEMAS_def)
  then show ?thesis using c [of ?f] by simp
qed

text \<open>
  The three capability checks agree: a provider is compatible with a list of requirements
  exactly if the check supports them and no single assertion throws; what negotiation reports
  missing is what the check reports unsupported, every requirement is reported available or
  missing, and MongoDB (the suggested fallback) is never missing anything.
\<close>

lemma capability_checks_agree:
  "(co_compatible (negotiate p cs) \<longleftrightarrow> fst (checkCapabilities p cs))
   \<and> (fst (checkCapabilities p cs) \<longleftrightarrow> list_all (\<lambda>c. assertCapability p c = None) cs)
   \<and> co_missing (negotiate p cs) = snd (checkCapabilities p cs)
   \<and> length (co_available (negotiate p cs)) + length (co_missing (negotiate p cs)) = length cs
   \<and> co_compatible (negotiate MongoDB cs)"
proof -
  have "cap_value (PROVIDER_CAPABILITIES MongoDB) c \<noteq> CapBool False" for c by (cases c) simp_all
  then show ?thesis
    using sum_length_filter_compl [of "\<lambda>c. cap_value (PROVIDER_CAPABILITIES p) c \<noteq> CapBool False" cs]
    by (simp add: negotiate_def checkCapabilities_def assertCapability_def Let_def check_loop
        negotiate_loop list_all_iff filter_empty_conv)
qed

end
