(* ===== verification/AuthzValues.thy ===== *)
theory AuthzValues
  imports Prelude Complex_Main
begin

text \<open>
  The dynamically typed values the authorization engine compares
  (services/auth-service/src/authorization/engine). Arrays and objects carry an identity, because
  \<open>===\<close> compares references; numbers are exact rationals with \<open>NaN\<close> and the infinities.
  What the runtime gives from outside is in \<open>js_env\<close>: properties an object inherits from its
  prototype, and regular expressions (\<open>None\<close> when the constructor throws).
\<close>

datatype js_number = NaN | PosInf | NegInf | Fin rat

datatype jsval =
    JUndef | JNull | JBool bool | JNum js_number | JStr string
  | JArr nat "jsval list"
  | JObj nat "(string \<times> jsval) list"
  | JFun nat

record js_env =
  je_inherited :: "jsval \<Rightarrow> string \<Rightarrow> jsval option"
  je_regex :: "string \<Rightarrow> (string \<Rightarrow> bool) option"

fun num_less :: "js_number \<Rightarrow> js_number \<Rightarrow> bool" where
  "num_less (Fin x) (Fin y) = (x < y)"
| "num_less NegInf (Fin y) = True"
| "num_less NegInf PosInf = True"
| "num_less (Fin x) PosInf = True"
| "num_less _ _ = False"

definition num_le :: "js_number \<Rightarrow> js_number \<Rightarrow> bool" where
  "num_le x y \<longleftrightarrow> num_less x y \<or> x = y \<and> x \<noteq> NaN"

fun strict_eq :: "jsval \<Rightarrow> jsval \<Rightarrow> bool" where
  "strict_eq (JArr a xs) (JArr b ys) = (a = b)"
| "strict_eq (JObj a xs) (JObj b ys) = (a = b)"
| "strict_eq (JNum x) (JNum y) = (x = y \<and> x \<noteq> NaN)"
| "strict_eq x y = (x = y)"

definition same_value_zero :: "jsval \<Rightarrow> jsval \<Rightarrow> bool" where
  \<comment> \<open>the comparison of \<open>Array.prototype.includes\<close>\<close>
  "same_value_zero x y \<longleftrightarrow> strict_eq x y \<or> x = JNum NaN \<and> y = JNum NaN"

definition arr_includes :: "jsval list \<Rightarrow> jsval \<Rightarrow> bool" where
  "arr_includes xs y \<longleftrightarrow> list_ex (\<lambda>x. same_value_zero x y) xs"

fun is_object :: "jsval \<Rightarrow> bool" where
  \<comment> \<open>\<open>value && typeof value === 'object'\<close>\<close>
  "is_object (JArr a xs) = True"
| "is_object (JObj a ps) = True"
| "is_object _ = False"

definition array_index :: "string \<Rightarrow> nat option" where
  \<comment> \<open>the index a canonical decimal property name stands for\<close>
  "array_index k = (if k \<noteq> [] \<and> list_all is_digit k \<and> show_nat (read_nat k) = k
     then Some (read_nat k) else None)"

fun own_prop :: "jsval \<Rightarrow> string \<Rightarrow> jsval option" where
  "own_prop (JObj a ps) k = map_of ps k"
| "own_prop (JArr a xs) k =
     (if k = ''length'' then Some (JNum (Fin (of_nat (length xs))))
      else case array_index k of
        Some i \<Rightarrow> if i < length xs then Some (xs ! i) else None
      | None \<Rightarrow> None)"
| "own_prop _ k = None"

definition get_prop :: "js_env \<Rightarrow> jsval \<Rightarrow> string \<Rightarrow> jsval option" where
  \<comment> \<open>\<open>k in v\<close>, and \<open>v[k]\<close>\<close>
  "get_prop env v k = (case own_prop v k of Some x \<Rightarrow> Some x | None \<Rightarrow> je_inherited env v k)"

lemma strict_eq_refl: "x \<noteq> JNum NaN \<Longrightarrow> strict_eq x x"
  by (cases x) auto

lemma strict_eq_str [simp]: "strict_eq (JStr s) v \<longleftrightarrow> v = JStr s" "strict_eq v (JStr s) \<longleftrightarrow> v = JStr s"
  by (cases v; auto)+

lemma arr_includes_str: "arr_includes xs (JStr s) \<longleftrightarrow> JStr s \<in> set xs"
  by (auto simp: arr_includes_def list_ex_iff same_value_zero_def)

lemma num_less_irrefl: "\<not> num_less x x"
  by (cases x) auto

lemma num_less_trans: "num_less x y \<Longrightarrow> num_less y z \<Longrightarrow> num_less x z"
  by (cases x; cases y; cases z) auto

end
