(* ===== verification/AuthzEngine.thy ===== *)
theory AuthzEngine
  imports AuthzValues
begin

text \<open>
  The attribute-based policy engine of the auth service
  (services/auth-service/src/authorization/engine): matching of targets, evaluation of
  conditions, combination of the matching policies into a decision, and the engine that loads
  policies and evaluates requests. Operator and matcher names are strings, as in the policies
  the code receives: an unknown name runs into the \<open>default\<close> of its switch.
\<close>

section \<open>Types\<close>

datatype policy_effect = Allow | Deny

fun effect_str :: "policy_effect \<Rightarrow> string" where
  "effect_str Allow = ''allow''"
| "effect_str Deny = ''deny''"

datatype combining_algorithm = DenyOverrides | AllowOverrides | FirstApplicable

record subject_matcher =
  sm_type :: string
  sm_operator :: string
  sm_value :: jsval
  sm_attribute :: "string option"

record resource_matcher =
  rm_type :: string
  rm_operator :: string
  rm_value :: jsval
  rm_attribute :: "string option"

record action_matcher =
  am_operator :: string
  am_value :: jsval

record environment_matcher =
  em_attribute :: string
  em_operator :: string
  em_value :: jsval

record policy_target =
  pt_subjects :: "subject_matcher list"
  pt_resources :: "resource_matcher list"
  pt_actions :: "action_matcher list"
  pt_environment :: "environment_matcher list option"

datatype condition =
  Condition (c_type: string) (c_operator: "string option") (c_attribute: "string option")
    (c_value: jsval) (c_conditions: "condition list option")

record policy =
  po_id :: string
  po_name :: string
  po_description :: string
  po_effect :: policy_effect
  po_priority :: rat
  po_conditions :: "condition list"
  po_target :: policy_target

record subject =
  sj_user_id :: string
  sj_tenant_id :: string
  sj_roles :: "string list"
  sj_attributes :: "(string \<times> jsval) list"

record resource =
  ro_type :: string
  ro_id :: string
  ro_tenant_id :: string
  ro_owner_id :: "string option"
  ro_attributes :: "(string \<times> jsval) list"

record environment =
  en_ip_address :: string
  en_time :: nat
  en_device_type :: string
  en_extra :: "(string \<times> jsval) list"

record access_request =
  rq_base :: nat
  rq_subject :: subject
  rq_resource :: resource
  rq_action :: string
  rq_environment :: environment

record policy_decision =
  pd_effect :: policy_effect
  pd_reason :: string
  pd_matched_policies :: "string list"
  pd_evaluation_time_ms :: int
  pd_cached :: bool

text \<open>
  A request as a value: its objects are allocated from \<open>rq_base\<close> on; the date object of the
  environment is \<open>en_time\<close> (its own properties are none).
\<close>

definition subject_value :: "nat \<Rightarrow> subject \<Rightarrow> jsval" where
  "subject_value b s = JObj b
     [(''user_id'', JStr (sj_user_id s)), (''tenant_id'', JStr (sj_tenant_id s)),
      (''roles'', JArr (b + 1) (map JStr (sj_roles s))), (''attributes'', JObj (b + 2) (sj_attributes s))]"

definition resource_value :: "nat \<Rightarrow> resource \<Rightarrow> jsval" where
  "resource_value b r = JObj b
     ([(''type'', JStr (ro_type r)), (''id'', JStr (ro_id r)), (''tenant_id'', JStr (ro_tenant_id r))]
      @ (case ro_owner_id r of None \<Rightarrow> [] | Some w \<Rightarrow> [(''owner_id'', JStr w)])
      @ [(''attributes'', JObj (b + 1) (ro_attributes r))])"

definition environment_value :: "nat \<Rightarrow> environment \<Rightarrow> jsval" where
  "environment_value b e = JObj b
     ([(''ip_address'', JStr (en_ip_address e)), (''time'', JObj (en_time e) []),
       (''device_type'', JStr (en_device_type e))] @ en_extra e)"

definition request_value :: "access_request \<Rightarrow> jsval" where
  "request_value r = JObj (rq_base r)
     [(''subject'', subject_value (rq_base r + 1) (rq_subject r)),
      (''resource'', resource_value (rq_base r + 4) (rq_resource r)),
      (''action'', JStr (rq_action r)),
      (''environment'', environment_value (rq_base r + 6) (rq_environment r))]"

abbreviation str_or_undef :: "string option \<Rightarrow> jsval" where
  "str_or_undef s \<equiv> (case s of None \<Rightarrow> JUndef | Some t \<Rightarrow> JStr t)"

definition prop_or_undef :: "js_env \<Rightarrow> jsval \<Rightarrow> string \<Rightarrow> jsval" where
  "prop_or_undef env v k = (case get_prop env v k of None \<Rightarrow> JUndef | Some x \<Rightarrow> x)"

section \<open>Operators\<close>

fun js_string :: "jsval \<Rightarrow> string option" where
  "js_string (JStr s) = Some s" | "js_string _ = None"

fun js_num :: "jsval \<Rightarrow> js_number option" where
  "js_num (JNum n) = Some n" | "js_num _ = None"

fun js_array :: "jsval \<Rightarrow> jsval list option" where
  "js_array (JArr a xs) = Some xs" | "js_array _ = None"

definition both :: "('a \<Rightarrow> 'b option) \<Rightarrow> ('b \<Rightarrow> 'b \<Rightarrow> bool) \<Rightarrow> 'a \<Rightarrow> 'a \<Rightarrow> bool" where
  \<comment> \<open>\<open>typeof x === t && typeof y === t && f(x, y)\<close>\<close>
  "both t f x y = (case (t x, t y) of (Some u, Some v) \<Rightarrow> f u v | _ \<Rightarrow> False)"

definition matches_regex :: "js_env \<Rightarrow> jsval \<Rightarrow> jsval \<Rightarrow> bool" where
  "matches_regex env actual expected =
     both js_string (\<lambda>a e. case je_regex env e of None \<Rightarrow> False | Some test \<Rightarrow> test a) actual expected"

definition cond_contains :: "jsval \<Rightarrow> jsval \<Rightarrow> bool" where
  \<comment> \<open>\<open>ConditionEvaluator.contains\<close>\<close>
  "cond_contains actual expected =
     (case (js_string actual, js_string expected) of
        (Some a, Some e) \<Rightarrow> str_includes a e
      | _ \<Rightarrow> (case js_array actual of Some xs \<Rightarrow> arr_includes xs expected | None \<Rightarrow> False))"

definition wildcard_pattern :: "string \<Rightarrow> string" where
  "wildcard_pattern e = ''^'' @ concat (map (\<lambda>c. if c = CHR ''*'' then ''.*'' else [c]) e) @ ''$''"

definition target_contains :: "js_env \<Rightarrow> jsval \<Rightarrow> jsval \<Rightarrow> bool" where
  \<comment> \<open>\<open>TargetMatcher.contains\<close>, its wildcard branch included\<close>
  "target_contains env actual expected =
     (if js_string actual \<noteq> None \<and> js_string expected \<noteq> None then
        str_includes (the (js_string actual)) (the (js_string expected))
      else if js_array actual \<noteq> None then arr_includes (the (js_array actual)) expected
      else if js_string actual \<noteq> None \<and> js_string expected \<noteq> None
          \<and> str_includes (the (js_string expected)) ''*'' then
        (case je_regex env (wildcard_pattern (the (js_string expected))) of
           None \<Rightarrow> False | Some test \<Rightarrow> test (the (js_string actual)))
      else False)"

definition compareValues :: "js_env \<Rightarrow> jsval \<Rightarrow> jsval \<Rightarrow> string \<Rightarrow> bool" where
  "compareValues env actual expected operator =
     (if operator = ''equals'' then strict_eq actual expected
      else if operator = ''not_equals'' then \<not> strict_eq actual expected
      else if operator = ''contains'' then cond_contains actual expected
      else if operator = ''not_contains'' then \<not> cond_contains actual expected
      else if operator = ''starts_with'' then both js_string str_starts_with actual expected
      else if operator = ''ends_with'' then both js_string str_ends_with actual expected
      else if operator = ''greater_than'' then both js_num (\<lambda>a e. num_less e a) actual expected
      else if operator = ''less_than'' then both js_num num_less actual expected
      else if operator = ''matches'' then matches_regex env actual expected
      else if operator = ''in'' then
        (case js_array expected of Some xs \<Rightarrow> arr_includes xs actual | None \<Rightarrow> False)
      else if operator = ''not_in'' then
        (case js_array expected of Some xs \<Rightarrow> \<not> arr_includes xs actual | None \<Rightarrow> False)
      else False)"

definition matchValue :: "js_env \<Rightarrow> jsval \<Rightarrow> jsval \<Rightarrow> string \<Rightarrow> bool" where
  "matchValue env actual expected operator =
     (if operator = ''equals'' then strict_eq actual expected
      else if operator = ''not_equals'' then \<not> strict_eq actual expected
      else if operator = ''contains'' then target_contains env actual expected
      else if operator = ''not_contains'' then \<not> target_contains env actual expected
      else if operator = ''starts_with'' then both js_string str_starts_with actual expected
      else if operator = ''ends_with'' then both js_string str_ends_with actual expected
      else if operator = ''greater_than'' then both js_num (\<lambda>a e. num_less e a) actual expected
      else if operator = ''less_than'' then both js_num num_less actual expected
      else if operator = ''greater_than_or_equal'' then both js_num (\<lambda>a e. num_le e a) actual expected
      else if operator = ''less_than_or_equal'' then both js_num num_le actual expected
      else if operator = ''matches'' then matches_regex env actual expected
      else if operator = ''in'' then
        (case js_array expected of Some xs \<Rightarrow> arr_includes xs actual | None \<Rightarrow> False)
      else if operator = ''not_in'' then
        (case js_array expected of Some xs \<Rightarrow> \<not> arr_includes xs actual | None \<Rightarrow> False)
      else False)"

section \<open>Target matcher\<close>

definition attribute_match :: "js_env \<Rightarrow> nat \<Rightarrow> (string \<times> jsval) list \<Rightarrow> string option \<Rightarrow> jsval \<Rightarrow> string \<Rightarrow> bool" where
  "attribute_match env b attrs attribute expected operator =
     (if \<not> truthy_str attribute then False
      else matchValue env (prop_or_undef env (JObj b attrs) (the attribute)) expected operator)"

definition matchSubject :: "js_env \<Rightarrow> subject_matcher \<Rightarrow> access_request \<Rightarrow> bool" where
  "matchSubject env m r =
     (let s = rq_subject r in
      if sm_type m = ''user'' then matchValue env (JStr (sj_user_id s)) (sm_value m) (sm_operator m)
      else if sm_type m = ''role'' then
        list_ex (\<lambda>role. matchValue env (JStr role) (sm_value m) (sm_operator m)) (sj_roles s)
      else if sm_type m = ''attribute'' then
        attribute_match env (rq_base r + 3) (sj_attributes s) (sm_attribute m) (sm_value m) (sm_operator m)
      else False)"

definition matchResource :: "js_env \<Rightarrow> resource_matcher \<Rightarrow> access_request \<Rightarrow> bool" where
  "matchResource env m r =
     (let x = rq_resource r in
      if rm_type m = ''type'' then matchValue env (JStr (ro_type x)) (rm_value m) (rm_operator m)
      else if rm_type m = ''id'' then matchValue env (JStr (ro_id x)) (rm_value m) (rm_operator m)
      else if rm_type m = ''owner'' then matchValue env (str_or_undef (ro_owner_id x)) (rm_value m) (rm_operator m)
      else if rm_type m = ''attribute'' then
        attribute_match env (rq_base r + 5) (ro_attributes x) (rm_attribute m) (rm_value m) (rm_operator m)
      else False)"

definition matchAction :: "js_env \<Rightarrow> action_matcher \<Rightarrow> access_request \<Rightarrow> bool" where
  "matchAction env m r = matchValue env (JStr (rq_action r)) (am_value m) (am_operator m)"

definition matchEnvironment :: "js_env \<Rightarrow> environment_matcher \<Rightarrow> access_request \<Rightarrow> bool" where
  "matchEnvironment env m r =
     matchValue env (prop_or_undef env (environment_value (rq_base r + 6) (rq_environment r)) (em_attribute m))
       (em_value m) (em_operator m)"

definition matchesSubjects :: "js_env \<Rightarrow> subject_matcher list \<Rightarrow> access_request \<Rightarrow> bool" where
  "matchesSubjects env ms r = (if length ms = 0 then True else list_ex (\<lambda>m. matchSubject env m r) ms)"

definition matchesResources :: "js_env \<Rightarrow> resource_matcher list \<Rightarrow> access_request \<Rightarrow> bool" where
  "matchesResources env ms r = (if length ms = 0 then True else list_ex (\<lambda>m. matchResource env m r) ms)"

definition matchesActions :: "js_env \<Rightarrow> action_matcher list \<Rightarrow> access_request \<Rightarrow> bool" where
  "matchesActions env ms r = (if length ms = 0 then True else list_ex (\<lambda>m. matchAction env m r) ms)"

definition matchesEnvironment :: "js_env \<Rightarrow> environment_matcher list option \<Rightarrow> access_request \<Rightarrow> bool" where
  "matchesEnvironment env ms r =
     (case ms of None \<Rightarrow> True
      | Some xs \<Rightarrow> if length xs = 0 then True else list_all (\<lambda>m. matchEnvironment env m r) xs)"

definition target_matches :: "js_env \<Rightarrow> policy_target \<Rightarrow> access_request \<Rightarrow> bool" where
  "target_matches env t r \<longleftrightarrow> matchesSubjects env (pt_subjects t) r \<and> matchesResources env (pt_resources t) r
     \<and> matchesActions env (pt_actions t) r \<and> matchesEnvironment env (pt_environment t) r"

section \<open>Condition evaluator\<close>

fun resolve_path :: "js_env \<Rightarrow> jsval \<Rightarrow> string list \<Rightarrow> jsval" where
  "resolve_path env v [] = v"
| "resolve_path env v (p # ps) =
     (if is_object v then
        (case get_prop env v p of Some w \<Rightarrow> resolve_path env w ps | None \<Rightarrow> JUndef)
      else JUndef)"

definition resolveAttribute :: "js_env \<Rightarrow> string \<Rightarrow> access_request \<Rightarrow> jsval" where
  "resolveAttribute env attribute r =
     resolve_path env (request_value r) (str_split (CHR ''.'') attribute)"

definition evaluateSimple :: "js_env \<Rightarrow> condition \<Rightarrow> access_request \<Rightarrow> bool" where
  "evaluateSimple env c r =
     (if \<not> truthy_str (c_attribute c) \<or> \<not> truthy_str (c_operator c) then False
      else compareValues env (resolveAttribute env (the (c_attribute c)) r) (c_value c) (the (c_operator c)))"

fun evaluate_condition :: "js_env \<Rightarrow> condition \<Rightarrow> access_request \<Rightarrow> bool" where
  "evaluate_condition env (Condition ty oper attr v cs) r =
     (if ty = ''compound'' then
        (case cs of
           None \<Rightarrow> True
         | Some subs \<Rightarrow>
             if length subs = 0 then True
             else if oper = Some ''and'' then list_all (\<lambda>c. evaluate_condition env c r) subs
             else if oper = Some ''or'' then list_ex (\<lambda>c. evaluate_condition env c r) subs
             else if oper = Some ''not'' then
               (case subs of [] \<Rightarrow> True | c # _ \<Rightarrow> \<not> evaluate_condition env c r)
             else False)
      else evaluateSimple env (Condition ty oper attr v cs) r)"

section \<open>Decision combiner\<close>

text \<open>A combiner's only state is its algorithm.\<close>

record decision_combiner =
  dc_algorithm :: combining_algorithm

definition getAlgorithm :: "decision_combiner \<Rightarrow> combining_algorithm" where
  "getAlgorithm dc = dc_algorithm dc"

definition setAlgorithm :: "combining_algorithm \<Rightarrow> decision_combiner \<Rightarrow> decision_combiner" where
  "setAlgorithm algorithm dc = dc\<lparr>dc_algorithm := algorithm\<rparr>"

definition denyOverrides :: "policy list \<Rightarrow> int \<Rightarrow> policy_decision" where
  "denyOverrides ps ms =
     (case List.find (\<lambda>p. po_effect p = Deny) ps of
        Some d \<Rightarrow> \<lparr>pd_effect = Deny, pd_reason = ''Denied by policy: '' @ po_name d,
                   pd_matched_policies = [po_id d], pd_evaluation_time_ms = ms, pd_cached = False\<rparr>
      | None \<Rightarrow> \<lparr>pd_effect = Allow, pd_reason = ''Allowed by policy: '' @ po_name (hd ps),
                 pd_matched_policies = map po_id ps, pd_evaluation_time_ms = ms, pd_cached = False\<rparr>)"

definition allowOverrides :: "policy list \<Rightarrow> int \<Rightarrow> policy_decision" where
  "allowOverrides ps ms =
     (case List.find (\<lambda>p. po_effect p = Allow) ps of
        Some a \<Rightarrow> \<lparr>pd_effect = Allow, pd_reason = ''Allowed by policy: '' @ po_name a,
                   pd_matched_policies = [po_id a], pd_evaluation_time_ms = ms, pd_cached = False\<rparr>
      | None \<Rightarrow> \<lparr>pd_effect = Deny, pd_reason = ''Denied by policy: '' @ po_name (hd ps),
                 pd_matched_policies = map po_id ps, pd_evaluation_time_ms = ms, pd_cached = False\<rparr>)"

definition firstApplicable :: "policy list \<Rightarrow> int \<Rightarrow> policy_decision" where
  "firstApplicable ps ms =
     \<lparr>pd_effect = po_effect (hd ps),
      pd_reason = (if po_effect (hd ps) = Allow then ''Allowed'' else ''Denied'')
        @ '' by policy: '' @ po_name (hd ps),
      pd_matched_policies = [po_id (hd ps)], pd_evaluation_time_ms = ms, pd_cached = False\<rparr>"

definition no_policies :: "int \<Rightarrow> policy_decision" where
  "no_policies ms = \<lparr>pd_effect = Deny, pd_reason = ''No applicable policies found'',
     pd_matched_policies = [], pd_evaluation_time_ms = ms, pd_cached = False\<rparr>"

definition by_priority :: "policy list \<Rightarrow> policy list" where
  \<comment> \<open>\<open>sort((a, b) => b.priority - a.priority)\<close>, a stable sort\<close>
  "by_priority ps = sort_key (\<lambda>p. - po_priority p) ps"

definition combine :: "combining_algorithm \<Rightarrow> (policy \<times> bool) list \<Rightarrow> int \<Rightarrow> policy_decision" where
  "combine algorithm evaluated ms =
     (let matched = by_priority (map fst (filter snd evaluated)) in
      if length matched = 0 then no_policies ms
      else case algorithm of
        DenyOverrides \<Rightarrow> denyOverrides matched ms
      | AllowOverrides \<Rightarrow> allowOverrides matched ms
      | FirstApplicable \<Rightarrow> firstApplicable matched ms)"

section \<open>Parser: validation\<close>

fun validateCondition :: "condition \<Rightarrow> string list" where
  "validateCondition (Condition ty oper attr v cs) =
     (if ty = [] then [''Condition type is required''] else [])
     @ (if ty = ''compound'' then
          (if oper \<in> {Some ''and'', Some ''or'', Some ''not''} then []
           else [''Compound condition operator must be \"and\", \"or\", or \"not\"''])
          @ (if cs = None then [''Compound condition must have conditions array''] else [])
        else if ty = ''simple'' then
          (if truthy_str attr then [] else [''Simple condition must have attribute''])
          @ (if truthy_str oper then [] else [''Simple condition must have operator''])
        else [])"

fun validate_conditions :: "nat \<Rightarrow> condition list \<Rightarrow> string list" where
  "validate_conditions i [] = []"
| "validate_conditions i (c # cs) =
     map (\<lambda>e. ''Condition '' @ show_nat i @ '': '' @ e) (validateCondition c) @ validate_conditions (Suc i) cs"

definition validate :: "policy \<Rightarrow> string list" where
  \<comment> \<open>the checks that remain for a policy of the declared type\<close>
  "validate p =
     (if po_id p = [] then [''Policy ID is required''] else [])
     @ (if po_name p = [] then [''Policy name is required''] else [])
     @ validate_conditions 0 (po_conditions p)"

definition compile :: "policy \<Rightarrow> policy" where
  "compile p = p"

section \<open>Policy engine\<close>

record policy_engine =
  pe_policies :: "(string, policy) jsmap"
  pe_algorithm :: combining_algorithm

definition new_PolicyEngine :: "combining_algorithm \<Rightarrow> policy_engine" where
  "new_PolicyEngine algorithm = \<lparr>pe_policies = [], pe_algorithm = algorithm\<rparr>"

fun loadPolicies :: "policy list \<Rightarrow> policy_engine \<Rightarrow> policy_engine" where
  "loadPolicies [] pe = pe"
| "loadPolicies (p # ps) pe =
     (if validate p \<noteq> [] then loadPolicies ps pe
      else loadPolicies ps (pe\<lparr>pe_policies := AList.update (po_id p) (compile p) (pe_policies pe)\<rparr>))"

definition getApplicablePolicies :: "js_env \<Rightarrow> policy_engine \<Rightarrow> access_request \<Rightarrow> policy list" where
  "getApplicablePolicies env pe r =
     by_priority (filter (\<lambda>p. target_matches env (po_target p) r) (map_values (pe_policies pe)))"

definition evaluatePolicy :: "js_env \<Rightarrow> policy \<Rightarrow> access_request \<Rightarrow> bool" where
  "evaluatePolicy env p r =
     (if length (po_conditions p) = 0 then True
      else list_all (\<lambda>c. evaluate_condition env c r) (po_conditions p))"

definition evaluate :: "js_env \<Rightarrow> int \<Rightarrow> policy_engine \<Rightarrow> access_request \<Rightarrow> policy_decision" where
  \<comment> \<open>\<open>ms\<close>: the measured evaluation time\<close>
  "evaluate env ms pe r =
     (let applicable = getApplicablePolicies env pe r in
      if length applicable = 0 then no_policies ms
      else combine (pe_algorithm pe) (map (\<lambda>p. (p, evaluatePolicy env p r)) applicable) ms)"

definition getPoliciesForResource :: "string \<Rightarrow> policy_engine \<Rightarrow> policy list" where
  "getPoliciesForResource resourceType pe =
     filter (\<lambda>p. list_ex (\<lambda>m. rm_type m = ''type'' \<and> strict_eq (rm_value m) (JStr resourceType)) (pt_resources (po_target p))
        \<or> length (pt_resources (po_target p)) = 0) (map_values (pe_policies pe))"

definition getAllPolicies :: "policy_engine \<Rightarrow> policy list" where
  "getAllPolicies pe = map_values (pe_policies pe)"

definition pe_getPolicy :: "string \<Rightarrow> policy_engine \<Rightarrow> policy option" where
  "pe_getPolicy i pe = map_of (pe_policies pe) i"

definition removePolicy :: "string \<Rightarrow> policy_engine \<Rightarrow> bool \<times> policy_engine" where
  "removePolicy i pe = (map_has (pe_policies pe) i, pe\<lparr>pe_policies := AList.delete i (pe_policies pe)\<rparr>)"

definition clearPolicies :: "policy_engine \<Rightarrow> policy_engine" where
  "clearPolicies pe = pe\<lparr>pe_policies := []\<rparr>"

record engine_stats =
  st_totalPolicies :: nat
  st_policiesByEffect :: "(string, nat) jsmap"
  st_averagePriority :: rat

definition count_effect :: "(string, nat) jsmap \<Rightarrow> policy \<Rightarrow> (string, nat) jsmap" where
  "count_effect m p = (let k = effect_str (po_effect p) in
     AList.update k ((case map_of m k of None \<Rightarrow> 0 | Some n \<Rightarrow> n) + 1) m)"

definition getStats :: "policy_engine \<Rightarrow> engine_stats" where
  "getStats pe =
     (let ps = map_values (pe_policies pe)
      in \<lparr>st_totalPolicies = length ps, st_policiesByEffect = foldl count_effect [] ps,
          st_averagePriority =
            (if 0 < length ps then foldl (\<lambda>s p. s + po_priority p) 0 ps / of_nat (length ps) else 0)\<rparr>)"

end
