(* ===== verification/AuthzDecisions.thy ===== *)
theory AuthzDecisions
  imports AuthzEngine
begin

text \<open>
  What the policy engine decides: the decision as a function of the policies that match, the
  engine as a machine over its loads and removals, and the meaning of conditions.
\<close>

section \<open>Priorities\<close>

definition dominant :: "policy list \<Rightarrow> policy option" where
  \<comment> \<open>the earliest of the policies no other one exceeds in priority\<close>
  "dominant ps = List.find (\<lambda>p. list_all (\<lambda>q. po_priority q \<le> po_priority p) ps) ps"

lemma by_priority_set [simp]: "set (by_priority ps) = set ps"
  by (simp add: by_priority_def)

lemma by_priority_Nil_iff [simp]: "by_priority ps = [] \<longleftrightarrow> ps = []"
  using by_priority_set [of ps] by (metis set_empty)

lemma by_priority_idem [simp]: "by_priority (by_priority ps) = by_priority ps"
  unfolding by_priority_def by (rule sort_key_id_if_sorted) simp

lemma filter_by_priority: "filter P (by_priority ps) = by_priority (filter P ps)"
  unfolding by_priority_def by (rule filter_sort)

lemma by_priority_hd_max:
  assumes "q \<in> set ps"
  shows "po_priority q \<le> po_priority (hd (by_priority ps))"
proof -
  obtain h t where ht: "by_priority ps = h # t"
    using assms by (cases "by_priority ps") (metis by_priority_set empty_iff list.set(1), blast)
  have "sorted (map (\<lambda>p. - po_priority p) (by_priority ps))"
    unfolding by_priority_def by simp
  moreover have "q \<in> set (by_priority ps)" using assms by simp
  ultimately show ?thesis by (auto simp: ht)
qed

lemma find_hd_filter: "List.find P xs = (if filter P xs = [] then None else Some (hd (filter P xs)))"
  by (induction xs) auto

lemma dominant_by_priority: "ps \<noteq> [] \<Longrightarrow> dominant ps = Some (hd (by_priority ps))"
proof -
  assume ne: "ps \<noteq> []"
  let ?h = "hd (by_priority ps)"
  obtain t where ht: "by_priority ps = ?h # t"
    using ne by (metis by_priority_Nil_iff list.collapse)
  have h: "?h \<in> set ps" using ht by (metis by_priority_set list.set_intros(1))
  have top: "list_all (\<lambda>q. po_priority q \<le> po_priority p) ps \<longleftrightarrow> - po_priority p = - po_priority ?h"
    if "p \<in> set ps" for p
  proof
    assume "list_all (\<lambda>q. po_priority q \<le> po_priority p) ps"
    then have "po_priority ?h \<le> po_priority p" using h by (simp add: list_all_iff)
    with by_priority_hd_max [OF that] show "- po_priority p = - po_priority ?h" by simp
  next
    assume "- po_priority p = - po_priority ?h"
    then show "list_all (\<lambda>q. po_priority q \<le> po_priority p) ps"
      using by_priority_hd_max [of _ ps] by (simp add: list_all_iff)
  qed
  have "filter (\<lambda>p. list_all (\<lambda>q. po_priority q \<le> po_priority p) ps) ps
      = filter (\<lambda>p. - po_priority p = - po_priority ?h) ps"
    using top by (intro filter_cong) auto
  also have "\<dots> = filter (\<lambda>p. - po_priority p = - po_priority ?h) (by_priority ps)"
    unfolding by_priority_def by (rule sort_key_stable [symmetric])
  also have "\<dots> = ?h # filter (\<lambda>p. - po_priority p = - po_priority ?h) t"
    by (subst ht) simp
  finally show ?thesis by (simp add: dominant_def find_hd_filter)
qed

section \<open>The decision\<close>

definition policy_applies :: "js_env \<Rightarrow> access_request \<Rightarrow> policy \<Rightarrow> bool" where
  "policy_applies env r p \<longleftrightarrow> target_matches env (po_target p) r \<and> evaluatePolicy env p r"

definition matching_policies :: "js_env \<Rightarrow> policy_engine \<Rightarrow> access_request \<Rightarrow> policy list" where
  "matching_policies env pe r = filter (policy_applies env r) (getAllPolicies pe)"

lemma combine_decisive:
  "combine a (map (\<lambda>p. (p, f p)) ps) ms =
     (let m = by_priority (filter f ps) in if m = [] then no_policies ms else
      case a of DenyOverrides \<Rightarrow> denyOverrides m ms | AllowOverrides \<Rightarrow> allowOverrides m ms
      | FirstApplicable \<Rightarrow> firstApplicable m ms)"
proof -
  have "map fst (filter snd (map (\<lambda>p. (p, f p)) ps)) = filter f ps"
    by (induction ps) auto
  then show ?thesis by (simp add: combine_def Let_def)
qed

lemma evaluate_decisive:
  "evaluate env ms pe r =
     (let m = by_priority (matching_policies env pe r) in if m = [] then no_policies ms else
      case pe_algorithm pe of DenyOverrides \<Rightarrow> denyOverrides m ms
      | AllowOverrides \<Rightarrow> allowOverrides m ms | FirstApplicable \<Rightarrow> firstApplicable m ms)"
proof -
  have "filter (\<lambda>p. evaluatePolicy env p r) (getApplicablePolicies env pe r)
      = by_priority (filter (\<lambda>p. evaluatePolicy env p r)
          (filter (\<lambda>p. target_matches env (po_target p) r) (getAllPolicies pe)))"
    by (simp add: getApplicablePolicies_def getAllPolicies_def filter_by_priority del: filter_filter)
  also have "\<dots> = by_priority (matching_policies env pe r)"
    by (simp add: matching_policies_def policy_applies_def [abs_def])
  finally have matched: "filter (\<lambda>p. evaluatePolicy env p r) (getApplicablePolicies env pe r)
      = by_priority (matching_policies env pe r)" .
  from this have "getApplicablePolicies env pe r = [] \<Longrightarrow> matching_policies env pe r = []"
    by (metis by_priority_Nil_iff filter.simps(1))
  with matched show ?thesis
    by (simp add: evaluate_def combine_decisive Let_def)
qed

lemma find_effect_None: "e \<notin> po_effect ` set ps \<Longrightarrow> List.find (\<lambda>p. po_effect p = e) ps = None"
  by (auto simp: find_None_iff_all)

lemma find_effect_Some:
  "e \<in> po_effect ` set ps \<Longrightarrow>
   \<exists>p. List.find (\<lambda>p. po_effect p = e) ps = Some p \<and> p \<in> set ps \<and> po_effect p = e"
  by (cases "List.find (\<lambda>p. po_effect p = e) ps")
    (auto simp: find_None_iff_all dest!: find_SomeD)

lemma denyOverrides_effect:
  "pd_effect (denyOverrides ps ms) = (if Deny \<in> po_effect ` set ps then Deny else Allow)"
  using find_effect_None [of Deny ps] find_effect_Some [of Deny ps]
  by (cases "Deny \<in> po_effect ` set ps") (auto simp del: image_iff simp: denyOverrides_def)

lemma allowOverrides_effect:
  "pd_effect (allowOverrides ps ms) = (if Allow \<in> po_effect ` set ps then Allow else Deny)"
  using find_effect_None [of Allow ps] find_effect_Some [of Allow ps]
  by (cases "Allow \<in> po_effect ` set ps") (auto simp del: image_iff simp: allowOverrides_def)

lemma denyOverrides_ids: "set (pd_matched_policies (denyOverrides ps ms)) \<subseteq> po_id ` set ps"
  using find_effect_None [of Deny ps] find_effect_Some [of Deny ps]
  by (cases "Deny \<in> po_effect ` set ps") (auto simp: denyOverrides_def simp del: image_iff)

lemma allowOverrides_ids: "set (pd_matched_policies (allowOverrides ps ms)) \<subseteq> po_id ` set ps"
  using find_effect_None [of Allow ps] find_effect_Some [of Allow ps]
  by (cases "Allow \<in> po_effect ` set ps") (auto simp: allowOverrides_def simp del: image_iff)

lemma firstApplicable_ids: "ps \<noteq> [] \<Longrightarrow> set (pd_matched_policies (firstApplicable ps ms)) \<subseteq> po_id ` set ps"
  by (cases ps) (auto simp: firstApplicable_def)

definition decided_effect :: "combining_algorithm \<Rightarrow> policy list \<Rightarrow> policy_effect" where
  \<comment> \<open>the contract of the combining algorithms, over the matching policies in load order\<close>
  "decided_effect a ms =
     (case dominant ms of None \<Rightarrow> Deny | Some best \<Rightarrow>
        (case a of
           DenyOverrides \<Rightarrow> if Deny \<in> po_effect ` set ms then Deny else Allow
         | AllowOverrides \<Rightarrow> if Allow \<in> po_effect ` set ms then Allow else Deny
         | FirstApplicable \<Rightarrow> po_effect best))"

lemma evaluate_effect:
  "pd_effect (evaluate env ms pe r) = decided_effect (pe_algorithm pe) (matching_policies env pe r)"
proof (cases "matching_policies env pe r = []")
  case True
  then show ?thesis by (simp add: evaluate_decisive no_policies_def decided_effect_def dominant_def)
next
  case False
  then show ?thesis
    by (cases "pe_algorithm pe")
      (simp_all add: evaluate_decisive Let_def decided_effect_def dominant_by_priority
        denyOverrides_effect allowOverrides_effect firstApplicable_def)
qed

lemma evaluate_ids:
  "set (pd_matched_policies (evaluate env ms pe r)) \<subseteq> po_id ` set (matching_policies env pe r)"
  using denyOverrides_ids [of "by_priority (matching_policies env pe r)" ms]
    allowOverrides_ids [of "by_priority (matching_policies env pe r)" ms]
    firstApplicable_ids [of "by_priority (matching_policies env pe r)" ms]
  by (cases "pe_algorithm pe") (auto simp: evaluate_decisive Let_def no_policies_def split: if_splits)

section \<open>The engine as a machine\<close>

datatype engine_op = ELoad "policy list" | ERemove string | EClear

fun engine_step :: "engine_op \<Rightarrow> policy_engine \<Rightarrow> policy_engine" where
  "engine_step (ELoad ps) pe = loadPolicies ps pe"
| "engine_step (ERemove i) pe = snd (removePolicy i pe)"
| "engine_step EClear pe = clearPolicies pe"

fun spares :: "string \<Rightarrow> engine_op \<Rightarrow> bool" where
  \<comment> \<open>the operation does not name the policy \<open>i\<close>\<close>
  "spares i (ELoad ps) \<longleftrightarrow> i \<notin> po_id ` set ps"
| "spares i (ERemove j) \<longleftrightarrow> i \<noteq> j"
| "spares i EClear \<longleftrightarrow> False"

definition engine_inv :: "policy_engine \<Rightarrow> bool" where
  "engine_inv pe \<longleftrightarrow> wf_map (pe_policies pe)
     \<and> (\<forall>i p. pe_getPolicy i pe = Some p \<longrightarrow> po_id p = i \<and> validate p = [])"

lemma engine_inv_new [simp, inv_intro]: "engine_inv (new_PolicyEngine a)"
  by (simp add: engine_inv_def new_PolicyEngine_def pe_getPolicy_def)

lemma load_one_inv:
  "engine_inv pe \<Longrightarrow> validate p = [] \<Longrightarrow>
   engine_inv (pe\<lparr>pe_policies := AList.update (po_id p) (compile p) (pe_policies pe)\<rparr>)"
  by (simp add: engine_inv_def pe_getPolicy_def compile_def)

lemma loadPolicies_inv [inv_intro]: "engine_inv pe \<Longrightarrow> engine_inv (loadPolicies ps pe)"
proof (induction ps arbitrary: pe)
  case (Cons p ps)
  then show ?case using load_one_inv [of pe p] by simp
qed simp

lemma engine_step_inv [inv_intro]: "engine_inv pe \<Longrightarrow> engine_inv (engine_step op pe)"
proof (cases op)
  case (ELoad ps)
  then show "engine_inv pe \<Longrightarrow> ?thesis" by (simp add: loadPolicies_inv)
qed (auto simp: engine_inv_def pe_getPolicy_def removePolicy_def clearPolicies_def)

interpretation engine: machine engine_step engine_inv
  by unfold_locales (rule engine_step_inv)

lemma loadPolicies_algorithm [simp]: "pe_algorithm (loadPolicies ps pe) = pe_algorithm pe"
  by (induction ps pe rule: loadPolicies.induct) auto

lemma engine_run_algorithm [simp]: "pe_algorithm (fold engine_step ops pe) = pe_algorithm pe"
proof (induction ops arbitrary: pe)
  case (Cons op ops)
  then show ?case by (cases op) (auto simp: removePolicy_def clearPolicies_def)
qed simp

lemma loadPolicies_spares:
  "i \<notin> po_id ` set ps \<Longrightarrow> pe_getPolicy i (loadPolicies ps pe) = pe_getPolicy i pe"
  by (induction ps pe rule: loadPolicies.induct) (auto simp: pe_getPolicy_def)

lemma engine_run_spares:
  "list_all (spares i) ops \<Longrightarrow> pe_getPolicy i (fold engine_step ops pe) = pe_getPolicy i pe"
proof (induction ops arbitrary: pe)
  case (Cons op ops)
  have "pe_getPolicy i (engine_step op pe) = pe_getPolicy i pe"
  proof (cases op)
    case (ELoad ps)
    with Cons.prems show ?thesis by (simp add: loadPolicies_spares)
  qed (use Cons.prems in \<open>auto simp: pe_getPolicy_def removePolicy_def\<close>)
  with Cons show ?case by simp
qed simp

lemma in_matching_iff:
  assumes "engine_inv pe"
  shows "p \<in> set (matching_policies env pe r)
     \<longleftrightarrow> (\<exists>i. pe_getPolicy i pe = Some p) \<and> policy_applies env r p"
  using assms map_values_iff [of "pe_policies pe" p]
  by (auto simp: engine_inv_def matching_policies_def getAllPolicies_def pe_getPolicy_def)

lemma engine_run_inv: "engine_inv (fold engine_step ops (new_PolicyEngine a))"
  by (rule engine.inv_run) simp

lemma engine_new_algorithm [simp]: "pe_algorithm (new_PolicyEngine a) = a"
  by (simp add: new_PolicyEngine_def)

lemma dominant_eq_NoneD [simp]: "dominant ps = None \<longleftrightarrow> ps = []"
  by (metis dominant_by_priority dominant_def find.simps(1) option.discI)

lemma dominant_SomeD:
  "dominant ps = Some p \<Longrightarrow> p \<in> set ps \<and> (\<forall>q \<in> set ps. po_priority q \<le> po_priority p)"
  by (auto simp: dominant_def list_all_iff dest!: find_SomeD)

lemma decided_effect_set:
  assumes eq: "set ps = set qs" and a: "a \<noteq> FirstApplicable \<or> inj_on po_priority (set qs)"
  shows "decided_effect a ps = decided_effect a qs"
proof (cases "ps = []")
  case True
  with eq show ?thesis by simp
next
  case False
  with eq obtain p q where pq: "dominant ps = Some p" "dominant qs = Some q"
    by (metis dominant_eq_NoneD option.exhaust set_empty)
  have "p = q" if "inj_on po_priority (set qs)"
    using dominant_SomeD [OF pq(1)] dominant_SomeD [OF pq(2)] eq that
    by (metis inj_onD order.antisym)
  with a eq pq show ?thesis by (cases a) (auto simp: decided_effect_def)
qed

section \<open>Conditions as formulas\<close>

datatype formula = FAtom string string jsval | FAll "formula list" | FAny "formula list" | FNot formula

fun condition_formula :: "condition \<Rightarrow> formula option" where
  \<comment> \<open>the formula a condition of the documented shape stands for\<close>
  "condition_formula (Condition ty oper attr v cs) =
     (if ty = ''compound'' then
        (case cs of None \<Rightarrow> None | Some subs \<Rightarrow>
           (case those (map condition_formula subs) of
              None \<Rightarrow> None
            | Some [] \<Rightarrow> None
            | Some (f # fs) \<Rightarrow>
                if oper = Some ''and'' then Some (FAll (f # fs))
                else if oper = Some ''or'' then Some (FAny (f # fs))
                else if oper = Some ''not'' \<and> fs = [] then Some (FNot f)
                else None))
      else if ty = ''simple'' \<and> truthy_str attr \<and> truthy_str oper
        then Some (FAtom (the attr) (the oper) v) else None)"

fun formula_holds :: "js_env \<Rightarrow> access_request \<Rightarrow> formula \<Rightarrow> bool" where
  "formula_holds env r (FAtom path oper v) = compareValues env (resolveAttribute env path r) v oper"
| "formula_holds env r (FAll fs) = list_all (formula_holds env r) fs"
| "formula_holds env r (FAny fs) = list_ex (formula_holds env r) fs"
| "formula_holds env r (FNot f) = (\<not> formula_holds env r f)"

lemma those_SomeD: "those (map g xs) = Some ys \<Longrightarrow> list_all2 (\<lambda>x y. g x = Some y) xs ys"
  by (induction xs arbitrary: ys) (auto split: option.splits)

lemma list_all_all2:
  "list_all2 R xs ys \<Longrightarrow> (\<And>x y. x \<in> set xs \<Longrightarrow> R x y \<Longrightarrow> P x = Q y) \<Longrightarrow> list_all P xs = list_all Q ys"
  by (induction rule: list_all2_induct) auto

lemma list_ex_all2:
  "list_all2 R xs ys \<Longrightarrow> (\<And>x y. x \<in> set xs \<Longrightarrow> R x y \<Longrightarrow> P x = Q y) \<Longrightarrow> list_ex P xs = list_ex Q ys"
  by (induction rule: list_all2_induct) auto

lemma compound_formula:
  assumes f: "condition_formula (Condition ty oper attr v cs) = Some f" and ty: "ty = ''compound''"
    and IH: "\<And>c f. c \<in> set (case cs of None \<Rightarrow> [] | Some subs \<Rightarrow> subs) \<Longrightarrow> condition_formula c = Some f
      \<Longrightarrow> evaluate_condition env c r = formula_holds env r f"
  shows "evaluate_condition env (Condition ty oper attr v cs) r = formula_holds env r f"
proof -
  obtain subs where cs: "cs = Some subs" using f ty by (cases cs) auto
  obtain g gs where fs: "those (map condition_formula subs) = Some (g # gs)"
    using f ty cs by (auto split: option.splits list.splits)
  have rel: "list_all2 (\<lambda>c f. condition_formula c = Some f) subs (g # gs)"
    by (rule those_SomeD [OF fs])
  then obtain c cs' where subs: "subs = c # cs'" by (cases subs) auto
  have sub: "evaluate_condition env c r = formula_holds env r f"
    if "c \<in> set subs" "condition_formula c = Some f" for c f
    using IH that cs by simp
  have each: "list_all (\<lambda>c. evaluate_condition env c r) subs = list_all (formula_holds env r) (g # gs)"
    by (rule list_all_all2 [OF rel sub])
  have some: "list_ex (\<lambda>c. evaluate_condition env c r) subs = list_ex (formula_holds env r) (g # gs)"
    by (rule list_ex_all2 [OF rel sub])
  have first: "evaluate_condition env c r = formula_holds env r g"
    using rel subs by (intro sub) auto
  have eval: "evaluate_condition env (Condition ''compound'' oper attr v (Some subs)) r =
      (if oper = Some ''and'' then list_all (\<lambda>c. evaluate_condition env c r) subs
       else if oper = Some ''or'' then list_ex (\<lambda>c. evaluate_condition env c r) subs
       else if oper = Some ''not'' then \<not> evaluate_condition env c r else False)"
    by (simp add: subs)
  have form: "(if oper = Some ''and'' then Some (FAll (g # gs))
      else if oper = Some ''or'' then Some (FAny (g # gs))
      else if oper = Some ''not'' \<and> gs = [] then Some (FNot g) else None) = Some f"
    using f unfolding ty cs by (simp add: fs)
  then consider "oper = Some ''and''" "f = FAll (g # gs)" | "oper = Some ''or''" "f = FAny (g # gs)"
    | "oper = Some ''not''" "f = FNot g"
    by (metis option.distinct(1) option.inject)
  then show ?thesis
    unfolding ty cs eval by cases (simp_all only: each some first formula_holds.simps, simp_all)
qed

lemma condition_formula_sound:
  "condition_formula c = Some f \<Longrightarrow> evaluate_condition env c r = formula_holds env r f"
proof (induction c arbitrary: f)
  case (Condition ty oper attr v cs)
  show ?case
  proof (cases "ty = ''compound''")
    case True
    show ?thesis
      by (rule compound_formula [OF Condition.prems True])
        (use Condition.IH in \<open>auto split: option.splits\<close>)
  next
    case False
    then show ?thesis using Condition.prems by (auto simp: evaluateSimple_def split: if_splits)
  qed
qed

section \<open>What validation guarantees\<close>

definition top_level_ok :: "condition \<Rightarrow> bool" where
  "top_level_ok c \<longleftrightarrow> c_type c \<noteq> [] \<and>
     (if c_type c = ''compound'' then c_operator c \<in> {Some ''and'', Some ''or'', Some ''not''} \<and> c_conditions c \<noteq> None
      else c_type c = ''simple'' \<longrightarrow> truthy_str (c_attribute c) \<and> truthy_str (c_operator c))"

lemma validateCondition_ok: "validateCondition c = [] \<longleftrightarrow> top_level_ok c"
  by (cases c) (auto simp: top_level_ok_def)

lemma validate_conditions_ok: "validate_conditions i cs = [] \<longleftrightarrow> list_all top_level_ok cs"
  by (induction cs arbitrary: i) (auto simp: validateCondition_ok)

lemma validate_ok:
  "validate p = [] \<longleftrightarrow> po_id p \<noteq> [] \<and> po_name p \<noteq> [] \<and> list_all top_level_ok (po_conditions p)"
  by (auto simp: validate_def validate_conditions_ok)

lemma loadPolicies_source:
  "pe_getPolicy i (loadPolicies ps pe) = Some p \<Longrightarrow> p \<in> set ps \<or> pe_getPolicy i pe = Some p"
proof (induction ps arbitrary: pe)
  case (Cons q ps)
  show ?case
  proof (cases "validate q = []")
    case True
    with Cons.prems have "p \<in> set ps \<or> pe_getPolicy i
        (pe\<lparr>pe_policies := AList.update (po_id q) (compile q) (pe_policies pe)\<rparr>) = Some p"
      by (intro Cons.IH) simp
    then show ?thesis by (auto simp: pe_getPolicy_def compile_def split: if_splits)
  next
    case False
    with Cons.prems Cons.IH [of pe] show ?thesis by auto
  qed
qed simp

definition loads :: "engine_op \<Rightarrow> policy list" where
  "loads op = (case op of ELoad ps \<Rightarrow> ps | _ \<Rightarrow> [])"

lemma engine_run_source:
  "pe_getPolicy i (fold engine_step ops pe) = Some p \<Longrightarrow>
   p \<in> set (concat (map loads ops)) \<or> pe_getPolicy i pe = Some p"
proof (induction ops arbitrary: pe)
  case (Cons op ops)
  from Cons.prems have "p \<in> set (concat (map loads ops)) \<or> pe_getPolicy i (engine_step op pe) = Some p"
    by (intro Cons.IH) simp
  moreover have "pe_getPolicy i (engine_step op pe) = Some p \<Longrightarrow> p \<in> set (loads op) \<or> pe_getPolicy i pe = Some p"
  proof (cases op)
    case (ELoad ps)
    then show "pe_getPolicy i (engine_step op pe) = Some p \<Longrightarrow> ?thesis"
      using loadPolicies_source [of i ps pe p] by (simp add: loads_def)
  qed (auto simp: pe_getPolicy_def removePolicy_def clearPolicies_def split: if_splits)
  ultimately show ?case by auto
qed simp

section \<open>A concrete engine\<close>

definition plain_env :: js_env where
  "plain_env = \<lparr>je_inherited = (\<lambda>v k. None), je_regex = (\<lambda>e. None)\<rparr>"

definition any_target :: policy_target where
  "any_target = \<lparr>pt_subjects = [], pt_resources = [], pt_actions = [], pt_environment = None\<rparr>"

definition own_tenant :: condition where
  "own_tenant = Condition ''simple'' (Some ''equals'') (Some ''subject.tenant_id'') (JStr ''t1'') None"

definition not_guest :: condition where
  "not_guest = Condition ''compound'' (Some ''not'') None JUndef
     (Some [Condition ''simple'' (Some ''contains'') (Some ''subject.roles'') (JStr ''guest'') None])"

definition allow_own :: policy where
  "allow_own = \<lparr>po_id = ''p1'', po_name = ''own'', po_description = [], po_effect = Allow,
     po_priority = 10, po_conditions = [own_tenant], po_target = any_target\<rparr>"

definition deny_guests :: policy where
  "deny_guests = \<lparr>po_id = ''p2'', po_name = ''guests'', po_description = [], po_effect = Deny,
     po_priority = 5, po_conditions = [],
     po_target = any_target\<lparr>pt_subjects := [\<lparr>sm_type = ''role'', sm_operator = ''equals'',
       sm_value = JStr ''guest'', sm_attribute = None\<rparr>]\<rparr>\<rparr>"

definition allow_any :: policy where
  "allow_any = \<lparr>po_id = ''p3'', po_name = ''any'', po_description = [], po_effect = Allow,
     po_priority = 100, po_conditions = [], po_target = any_target\<rparr>"

definition request_of :: "string list \<Rightarrow> access_request" where
  "request_of roles = \<lparr>rq_base = 0,
     rq_subject = \<lparr>sj_user_id = ''u1'', sj_tenant_id = ''t1'', sj_roles = roles, sj_attributes = []\<rparr>,
     rq_resource = \<lparr>ro_type = ''message'', ro_id = ''m1'', ro_tenant_id = ''t1'', ro_owner_id = None,
       ro_attributes = []\<rparr>,
     rq_action = ''read'',
     rq_environment = \<lparr>en_ip_address = ''10.0.0.1'', en_time = 9, en_device_type = ''web'', en_extra = []\<rparr>\<rparr>"

section \<open>Properties\<close>

text \<open>
  C4: the decision of the engine, in full. It is the one the combining algorithm prescribes for
  the loaded policies whose target and conditions the request satisfies: deny when there are
  none; under deny-overrides allow exactly when all of them allow, under allow-overrides
  exactly when one of them allows, and under first-applicable the effect of the earliest
  loaded one of the highest priority. The policies named in the decision are among those that
  matched, and the decision is never marked as cached.
\<close>

theorem decision_combining:
  "pd_effect (evaluate env ms pe r) = decided_effect (pe_algorithm pe) (matching_policies env pe r)
   \<and> set (pd_matched_policies (evaluate env ms pe r)) \<subseteq> po_id ` set (matching_policies env pe r)
   \<and> (pd_matched_policies (evaluate env ms pe r) = []) = (matching_policies env pe r = [])
   \<and> pd_cached (evaluate env ms pe r) = False"
proof -
  let ?m = "matching_policies env pe r"
  have ids: "(pd_matched_policies (evaluate env ms pe r) = []) = (?m = [])"
    by (cases "pe_algorithm pe") (auto simp: evaluate_decisive Let_def no_policies_def
      denyOverrides_def allowOverrides_def firstApplicable_def split: option.splits)
  have cached: "\<not> pd_cached (evaluate env ms pe r)"
    by (cases "pe_algorithm pe") (auto simp: evaluate_decisive Let_def no_policies_def
      denyOverrides_def allowOverrides_def firstApplicable_def split: option.splits)
  show ?thesis using ids cached by (simp add: evaluate_effect evaluate_ids)
qed

text \<open>
  C8: under deny-overrides a deny policy is final. Once it is loaded in an engine, then
  whatever policies are loaded or removed afterwards, as long as no operation names that policy,
  every request its target and conditions match is denied, whatever the priorities of the
  allowing policies.
\<close>

theorem deny_policy_is_final:
  assumes pe: "pe = fold engine_step ops0 (new_PolicyEngine DenyOverrides)"
    and p: "pe_getPolicy i pe = Some p" "po_effect p = Deny"
    and ops: "list_all (spares i) ops"
    and applies: "target_matches env (po_target p) r" "evaluatePolicy env p r"
  shows "pd_effect (evaluate env ms (fold engine_step ops pe) r) = Deny"
proof -
  let ?pe = "fold engine_step ops pe"
  have inv: "engine_inv ?pe"
    unfolding pe by (intro engine.inv_run engine_inv_new)
  have "pe_getPolicy i ?pe = Some p" using p ops by (simp add: engine_run_spares)
  with inv applies have m: "p \<in> set (matching_policies env ?pe r)"
    by (auto simp: in_matching_iff policy_applies_def)
  then have ne: "dominant (matching_policies env ?pe r) \<noteq> None" by auto
  have "Deny \<in> po_effect ` set (matching_policies env ?pe r)" using m p(2) by force
  moreover have "pe_algorithm ?pe = DenyOverrides" by (simp add: pe)
  ultimately show ?thesis
    using ne by (auto simp only: evaluate_effect decided_effect_def split: option.split if_splits) simp_all
qed

theorem deny_policy_is_final_witness:
  "pd_effect (evaluate plain_env 3 (fold engine_step [ELoad [allow_any], ERemove ''p1'']
      (fold engine_step [ELoad [allow_own, deny_guests]] (new_PolicyEngine DenyOverrides)))
     (request_of [''guest''])) = Deny"
proof (rule deny_policy_is_final [OF refl, where i = "''p2''" and p = deny_guests])
  show "pe_getPolicy ''p2'' (fold engine_step [ELoad [allow_own, deny_guests]]
      (new_PolicyEngine DenyOverrides)) = Some deny_guests" by code_simp
  show "po_effect deny_guests = Deny" by code_simp
  show "list_all (spares ''p2'') [ELoad [allow_any], ERemove ''p1'']" by code_simp
  show "target_matches plain_env (po_target deny_guests) (request_of [''guest''])" by code_simp
  show "evaluatePolicy plain_env deny_guests (request_of [''guest''])" by code_simp
qed

text \<open>
  The decision does not depend on how the policies came to be loaded. Two engines with the
  same algorithm that hold the same policies, whatever loads, replacements and removals led
  there and in whatever order, give every request the same effect, unless the algorithm is
  first-applicable and two policies share a priority.
\<close>

lemma decision_ignores_load_order:
  assumes "pe1 = fold engine_step ops1 (new_PolicyEngine a)"
    and "pe2 = fold engine_step ops2 (new_PolicyEngine a)"
    and same: "\<And>i. pe_getPolicy i pe1 = pe_getPolicy i pe2"
    and a: "a \<noteq> FirstApplicable \<or> inj_on po_priority (set (getAllPolicies pe2))"
  shows "pd_effect (evaluate env ms pe1 r) = pd_effect (evaluate env ms pe2 r)"
proof -
  have inv: "engine_inv pe1" "engine_inv pe2" using assms(1,2) by (auto intro: engine_run_inv)
  have eq: "set (matching_policies env pe1 r) = set (matching_policies env pe2 r)"
    using inv by (auto simp: in_matching_iff same)
  have "set (matching_policies env pe2 r) \<subseteq> set (getAllPolicies pe2)"
    by (auto simp: matching_policies_def)
  with a have "a \<noteq> FirstApplicable \<or> inj_on po_priority (set (matching_policies env pe2 r))"
    by (metis inj_on_subset)
  with eq have "decided_effect a (matching_policies env pe1 r) = decided_effect a (matching_policies env pe2 r)"
    by (rule decided_effect_set)
  then show ?thesis by (simp add: evaluate_effect assms(1,2))
qed

lemma decision_ignores_load_order_example:
  "pd_effect (evaluate plain_env 3 (fold engine_step [ELoad [allow_own], ELoad [allow_any, deny_guests],
        ERemove ''p1'', ELoad [allow_own]] (new_PolicyEngine FirstApplicable)) (request_of [''guest'']))
   = pd_effect (evaluate plain_env 3 (fold engine_step [ELoad [deny_guests, allow_own, allow_any]]
        (new_PolicyEngine FirstApplicable)) (request_of [''guest'']))"
proof (rule decision_ignores_load_order [OF refl refl])
  have pe1: "pe_policies (fold engine_step [ELoad [allow_own], ELoad [allow_any, deny_guests],
        ERemove ''p1'', ELoad [allow_own]] (new_PolicyEngine FirstApplicable))
      = [(''p3'', allow_any), (''p2'', deny_guests), (''p1'', allow_own)]" by code_simp
  have pe2: "pe_policies (fold engine_step [ELoad [deny_guests, allow_own, allow_any]]
        (new_PolicyEngine FirstApplicable))
      = [(''p2'', deny_guests), (''p1'', allow_own), (''p3'', allow_any)]" by code_simp
  show "pe_getPolicy i (fold engine_step [ELoad [allow_own], ELoad [allow_any, deny_guests],
        ERemove ''p1'', ELoad [allow_own]] (new_PolicyEngine FirstApplicable))
      = pe_getPolicy i (fold engine_step [ELoad [deny_guests, allow_own, allow_any]]
        (new_PolicyEngine FirstApplicable))" for i
    unfolding pe_getPolicy_def pe1 pe2 by simp
  show "FirstApplicable \<noteq> FirstApplicable \<or> inj_on po_priority (set (getAllPolicies
      (fold engine_step [ELoad [deny_guests, allow_own, allow_any]] (new_PolicyEngine FirstApplicable))))"
    unfolding getAllPolicies_def pe2
    by (simp add: deny_guests_def allow_own_def allow_any_def)
qed

text \<open>
  Every policy an engine holds, after any sequence of loads, removals and clears, is one
  that was passed to a load, is held under its own id, and passed validation: it has an id and
  a name, and each of its conditions has a type, a known connective and a list of conditions
  when it is compound, an attribute and an operator when it is simple.
\<close>

lemma loaded_policies_are_valid:
  assumes "pe_getPolicy i (fold engine_step ops (new_PolicyEngine a)) = Some p"
  shows "po_id p = i \<and> po_id p \<noteq> [] \<and> po_name p \<noteq> [] \<and> list_all top_level_ok (po_conditions p)
    \<and> p \<in> set (concat (map loads ops))"
proof -
  have "po_id p = i \<and> validate p = []"
    using engine_run_inv [of ops a] assms unfolding engine_inv_def by blast
  moreover have "p \<in> set (concat (map loads ops))"
    using engine_run_source [OF assms] by (simp add: pe_getPolicy_def new_PolicyEngine_def)
  ultimately show ?thesis unfolding validate_ok by blast
qed

lemma loaded_policies_are_valid_example:
  "list_all top_level_ok (po_conditions allow_own)"
proof -
  have "pe_getPolicy ''p1'' (fold engine_step
      [ELoad [allow_own, allow_own\<lparr>po_name := []\<rparr>], ERemove ''p3'', ELoad [deny_guests]]
      (new_PolicyEngine DenyOverrides)) = Some allow_own" by code_simp
  then show ?thesis using loaded_policies_are_valid by blast
qed

text \<open>
  C32: the condition evaluator implements propositional logic. For a policy whose conditions
  have the documented shape (simple conditions with an attribute and an operator; conjunctions
  and disjunctions of at least one condition; negations of exactly one), the engine finds the
  policy's conditions satisfied exactly when the formulas they stand for all hold, an atom
  being the comparison of the attribute its path selects in the request.
\<close>

theorem condition_refines_formula:
  assumes "those (map condition_formula (po_conditions p)) = Some fs"
  shows "evaluatePolicy env p r \<longleftrightarrow> list_all (formula_holds env r) fs"
proof -
  have "list_all (\<lambda>c. evaluate_condition env c r) (po_conditions p) = list_all (formula_holds env r) fs"
    by (rule list_all_all2 [OF those_SomeD [OF assms] condition_formula_sound])
  then show ?thesis by (auto simp: evaluatePolicy_def)
qed

theorem condition_refines_formula_witness:
  "\<not> evaluatePolicy plain_env (allow_own\<lparr>po_conditions := [own_tenant, not_guest]\<rparr>) (request_of [''guest''])"
proof -
  have f: "those (map condition_formula (po_conditions (allow_own\<lparr>po_conditions := [own_tenant, not_guest]\<rparr>)))
    = Some [FAtom ''subject.tenant_id'' ''equals'' (JStr ''t1''),
            FNot (FAtom ''subject.roles'' ''contains'' (JStr ''guest''))]" by code_simp
  have "\<not> list_all (formula_holds plain_env (request_of [''guest'']))
    [FAtom ''subject.tenant_id'' ''equals'' (JStr ''t1''),
     FNot (FAtom ''subject.roles'' ''contains'' (JStr ''guest''))]" by code_simp
  then show ?thesis using condition_refines_formula [OF f] by blast
qed

section \<open>Corner cases of the code\<close>

lemma empty_compound_holds: "evaluate_condition env (Condition ''compound'' oper attr v (Some [])) r"
  by simp

lemma not_looks_at_first_only:
  "evaluate_condition env (Condition ''compound'' (Some ''not'') attr v (Some (c # cs))) r
   \<longleftrightarrow> \<not> evaluate_condition env c r"
  by simp

lemma wildcard_branch_unreachable: "target_contains env actual expected = cond_contains actual expected"
  by (auto simp: target_contains_def cond_contains_def split: option.split)

lemma nested_conditions_unvalidated:
  "top_level_ok (Condition ''compound'' (Some ''or'') None JUndef
     (Some [Condition ''simple'' None None JUndef None]))"
  by (simp add: top_level_ok_def)

lemma missing_attribute_is_not_equal:
  "v \<noteq> JUndef \<Longrightarrow> compareValues env JUndef v ''not_equals''"
  by (cases v) (simp_all add: compareValues_def)

end
