(* ===== verification/AuthRedis.thy ===== *)
theory AuthRedis
  imports Prelude
begin

text \<open>
  The Redis server the auth service keeps its tokens in. It is not part of the repository: its
  commands are the record \<open>redis\<close>, a parameter of the definitions that use it, and the
  documented behaviour they rely on is the locale \<open>redis_store\<close>. \<open>map_redis\<close> is a concrete
  server with that behaviour. Times are milliseconds, durations seconds; a stored JSON text is represented by the value
  it denotes. The relation \<open>writes\<close> bounds what a sequence of commands can change.
\<close>

section \<open>Commands\<close>

record ('v, 'r) redis =
  rd_get :: "int \<Rightarrow> string \<Rightarrow> 'r \<Rightarrow> 'v option"
  rd_ttl :: "int \<Rightarrow> string \<Rightarrow> 'r \<Rightarrow> int"
  rd_keys :: "int \<Rightarrow> string \<Rightarrow> 'r \<Rightarrow> string list" \<comment> \<open>\<open>KEYS prefix*\<close>\<close>
  rd_setex :: "int \<Rightarrow> string \<Rightarrow> int \<Rightarrow> 'v \<Rightarrow> 'r \<Rightarrow> 'r"
  rd_del :: "string \<Rightarrow> 'r \<Rightarrow> 'r"
  rd_sadd :: "int \<Rightarrow> string \<Rightarrow> string \<Rightarrow> 'r \<Rightarrow> 'r"
  rd_srem :: "string \<Rightarrow> string \<Rightarrow> 'r \<Rightarrow> 'r"
  rd_expire :: "int \<Rightarrow> string \<Rightarrow> int \<Rightarrow> 'r \<Rightarrow> 'r"
  rd_smembers :: "int \<Rightarrow> string \<Rightarrow> 'r \<Rightarrow> string list"

section \<open>Documented behaviour\<close>

locale redis_store =
  fixes R :: "('v, 'r) redis"
  assumes get_setex: "0 < d \<Longrightarrow> t \<le> t' \<Longrightarrow>
      rd_get R t' k (rd_setex R t k d v s) = (if t' < t + 1000 * d then Some v else None)"
    and get_setex_other: "k \<noteq> k' \<Longrightarrow> rd_get R t' k' (rd_setex R t k d v s) = rd_get R t' k' s"
    and ttl_setex_other: "k \<noteq> k' \<Longrightarrow> rd_ttl R t' k' (rd_setex R t k d v s) = rd_ttl R t' k' s"
    and get_later: "t \<le> t' \<Longrightarrow> rd_get R t' k s = Some v \<Longrightarrow> rd_get R t k s = Some v"
    and get_del: "rd_get R t k' (rd_del R k s) = (if k' = k then None else rd_get R t k' s)"
    and get_sadd: "k \<noteq> k' \<Longrightarrow> rd_get R t' k' (rd_sadd R t k x s) = rd_get R t' k' s"
    and get_srem: "k \<noteq> k' \<Longrightarrow> rd_get R t' k' (rd_srem R k x s) = rd_get R t' k' s"
    and smembers_setex: "k \<noteq> k' \<Longrightarrow> rd_smembers R t' k' (rd_setex R t k d v s) = rd_smembers R t' k' s"
    and get_expire: "k \<noteq> k' \<Longrightarrow> rd_get R t' k' (rd_expire R t k d s) = rd_get R t' k' s"

section \<open>What commands can change\<close>

text \<open>
  \<open>writes R N P t s s'\<close>: \<open>s'\<close> comes from \<open>s\<close> by commands at time \<open>t\<close> that set a key
  to a value only as \<open>P\<close> allows, and work on sets under keys \<open>N\<close> allows.
\<close>

inductive writes ::
    "('v, 'r) redis \<Rightarrow> (string \<Rightarrow> bool) \<Rightarrow> (string \<Rightarrow> 'v \<Rightarrow> bool) \<Rightarrow> int \<Rightarrow> 'r \<Rightarrow> 'r \<Rightarrow> bool"
  for R N P t where
  none: "writes R N P t s s"
| setex: "writes R N P t s s' \<Longrightarrow> 0 < d \<Longrightarrow> P k v \<Longrightarrow> writes R N P t s (rd_setex R t k d v s')"
| del: "writes R N P t s s' \<Longrightarrow> writes R N P t s (rd_del R k s')"
| sadd: "writes R N P t s s' \<Longrightarrow> N k \<Longrightarrow> writes R N P t s (rd_sadd R t k x s')"
| srem: "writes R N P t s s' \<Longrightarrow> N k \<Longrightarrow> writes R N P t s (rd_srem R k x s')"
| expire: "writes R N P t s s' \<Longrightarrow> N k \<Longrightarrow> writes R N P t s (rd_expire R t k d s')"

lemma writes_trans: "writes R N P t s' s'' \<Longrightarrow> writes R N P t s s' \<Longrightarrow> writes R N P t s s''"
  by (induction rule: writes.induct) (auto intro: writes.intros)

lemma writes_mono:
  "writes R N P t s s' \<Longrightarrow> (\<And>k v. P k v \<Longrightarrow> Q k v) \<Longrightarrow> writes R N Q t s s'"
  by (induction rule: writes.induct) (auto intro: writes.intros)

lemma writes_setex: "0 < d \<Longrightarrow> P k v \<Longrightarrow> writes R N P t s (rd_setex R t k d v s)"
  by (rule writes.setex [OF writes.none])

context redis_store
begin

definition settled :: "('v \<Rightarrow> bool) \<Rightarrow> int \<Rightarrow> string \<Rightarrow> 'r \<Rightarrow> bool" where
  \<comment> \<open>from now on the key holds a value of \<open>B\<close> or nothing\<close>
  "settled B t k s \<longleftrightarrow> (\<forall>u \<ge> t. \<forall>v. rd_get R u k s = Some v \<longrightarrow> B v)"

lemma settled_now: "rd_get R t k s = None \<Longrightarrow> settled B t k s"
  unfolding settled_def using get_later by fastforce

lemma settled_value: "rd_get R t k s = Some v \<Longrightarrow> B v \<Longrightarrow> settled B t k s"
  unfolding settled_def using get_later by fastforce

lemma settled_later: "settled B t k s \<Longrightarrow> t \<le> u \<Longrightarrow> settled B u k s"
  unfolding settled_def using order_trans by blast

lemma settledD: "settled B t k s \<Longrightarrow> t \<le> u \<Longrightarrow> rd_get R u k s = Some v \<Longrightarrow> B v"
  by (auto simp: settled_def)

lemma settled_setex: "0 < d \<Longrightarrow> B v \<Longrightarrow> settled B t k (rd_setex R t k d v s)"
  by (auto simp: settled_def get_setex split: if_splits)

lemma settled_writes:
  assumes "writes R N P t s s'" and N: "\<not> N k" and P: "\<And>v. P k v \<Longrightarrow> B v"
  shows "settled B t k s \<Longrightarrow> settled B t k s'"
  using assms(1)
proof (induction rule: writes.induct)
  case (setex s s' d k' v)
  then have IH: "settled B t k s'" by simp
  show ?case
  proof (cases "k' = k")
    case True
    with setex.hyps P show ?thesis by (auto simp: settled_def get_setex split: if_splits)
  next
    case False
    with IH show ?thesis by (auto simp: settled_def get_setex_other)
  qed
next
  case (del s s' k')
  then show ?case by (auto simp: settled_def get_del)
next
  case (sadd s s' k' x)
  moreover from this N have "k' \<noteq> k" by auto
  ultimately show ?case by (auto simp: settled_def get_sadd)
next
  case (srem s s' k' x)
  moreover from this N have "k' \<noteq> k" by auto
  ultimately show ?case by (auto simp: settled_def get_srem)
next
  case (expire s s' k' d)
  moreover from this N have "k' \<noteq> k" by auto
  ultimately show ?case by (auto simp: settled_def get_expire)
qed simp

end

section \<open>A concrete server\<close>

text \<open>
  Strings with their deadlines, and sets with an optional deadline, in separate maps.
\<close>

record 'v server =
  sv_strings :: "(string, 'v \<times> int) jsmap"
  sv_sets :: "(string, string list \<times> int option) jsmap"

definition no_data :: "'v server" where
  "no_data = \<lparr>sv_strings = [], sv_sets = []\<rparr>"

definition live_members :: "int \<Rightarrow> string \<Rightarrow> 'v server \<Rightarrow> string list \<times> int option" where
  "live_members t k s = (case map_of (sv_sets s) k of
     None \<Rightarrow> ([], None)
   | Some (xs, None) \<Rightarrow> (xs, None)
   | Some (xs, Some e) \<Rightarrow> if t < e then (xs, Some e) else ([], None))"

definition map_redis :: "('v, 'v server) redis" where
  "map_redis = \<lparr>
     rd_get = (\<lambda>t k s. case map_of (sv_strings s) k of None \<Rightarrow> None
        | Some (v, e) \<Rightarrow> if t < e then Some v else None),
     rd_ttl = (\<lambda>t k s. case map_of (sv_strings s) k of None \<Rightarrow> -2
        | Some (v, e) \<Rightarrow> if t < e then (e - t + 500) div 1000 else -2),
     rd_keys = (\<lambda>t p s. map fst (filter (\<lambda>(k, v, e). prefix p k \<and> t < e) (sv_strings s))),
     rd_setex = (\<lambda>t k d v s. s\<lparr>sv_strings := AList.update k (v, t + 1000 * d) (sv_strings s)\<rparr>),
     rd_del = (\<lambda>k s. s\<lparr>sv_strings := AList.delete k (sv_strings s), sv_sets := AList.delete k (sv_sets s)\<rparr>),
     rd_sadd = (\<lambda>t k x s. case live_members t k s of (xs, e) \<Rightarrow>
        s\<lparr>sv_sets := AList.update k (if x \<in> set xs then xs else xs @ [x], e) (sv_sets s)\<rparr>),
     rd_srem = (\<lambda>k x s. case map_of (sv_sets s) k of None \<Rightarrow> s
        | Some (xs, e) \<Rightarrow> s\<lparr>sv_sets := AList.update k (removeAll x xs, e) (sv_sets s)\<rparr>),
     rd_expire = (\<lambda>t k d s. case map_of (sv_sets s) k of None \<Rightarrow> s
        | Some (xs, e) \<Rightarrow> s\<lparr>sv_sets := AList.update k (xs, Some (t + 1000 * d)) (sv_sets s)\<rparr>),
     rd_smembers = (\<lambda>t k s. fst (live_members t k s))\<rparr>"

interpretation mr: redis_store map_redis
  by unfold_locales (auto simp: map_redis_def live_members_def split: option.splits prod.splits if_splits)

end
