(* ===== verification/AuthRefresh.thy ===== *)
theory AuthRefresh
  imports AuthRedis Complex_Main
begin

text \<open>
  Refresh tokens of the auth service (services/auth-service/src/refresh): the token store, the
  token families, reuse detection, the rotation policy, and the refresh service that combines
  them. Every function takes the Redis server and the SHA-256 function (a parameter, from
  node:crypto) it works with, and the time of the call in milliseconds. What
  the JWT validator and the JWT generator return is an argument of \<open>refresh\<close>: an error message
  or a result.
\<close>

section \<open>Data\<close>

record token_data =
  td_user_id :: string
  td_session_id :: string
  td_device_id :: string
  td_family_id :: string
  td_parent_id :: "string option"
  td_issued_at :: int
  td_expires_at :: int
  td_used :: bool
  td_revoked :: bool

record token_family =
  tf_family_id :: string
  tf_user_id :: string
  tf_created_at :: int
  tf_tokens :: "string list"
  tf_revoked :: bool

datatype stored = JsonToken token_data | JsonFamily token_family

record 'r token_env =
  te_redis :: "(stored, 'r) redis"
  te_sha :: "string \<Rightarrow> string"

record token_pair =
  tp_access_token :: string
  tp_refresh_token :: string
  tp_expires_in :: int
  tp_refresh_expires_in :: int

datatype refresh_result = RefreshOk token_pair | RefreshError (rr_code: string) (rr_message: string)

record rotation_policy =
  rp_enabled :: bool
  rp_reuseDetection :: bool
  rp_revokeFamily :: bool

section \<open>Token store\<close>

definition token_key :: "'r token_env \<Rightarrow> string \<Rightarrow> string" where
  \<comment> \<open>\<open>getKey(hashToken(token))\<close> with the default prefix\<close>
  "token_key e token = ''rt:'' @ te_sha e token"

definition hash_key :: "string \<Rightarrow> string" where
  "hash_key tokenHash = ''rt:'' @ tokenHash"

definition user_tokens_key :: "string \<Rightarrow> string" where
  "user_tokens_key userId = ''user_refresh_tokens:'' @ userId"

fun as_token :: "stored option \<Rightarrow> token_data option" where
  "as_token (Some (JsonToken d)) = Some d"
| "as_token _ = None"

fun as_family :: "stored option \<Rightarrow> token_family option" where
  "as_family (Some (JsonFamily f)) = Some f"
| "as_family _ = None"

definition rt_store :: "'r token_env \<Rightarrow> int \<Rightarrow> string \<Rightarrow> token_data \<Rightarrow> int \<Rightarrow> 'r \<Rightarrow> 'r" where
  "rt_store e now token d ttlSeconds s =
     (let s1 = rd_setex (te_redis e) now (token_key e token) ttlSeconds (JsonToken d) s;
          u = user_tokens_key (td_user_id d);
          s2 = rd_sadd (te_redis e) now u (te_sha e token) s1
      in rd_expire (te_redis e) now u ttlSeconds s2)"

definition rt_get :: "'r token_env \<Rightarrow> int \<Rightarrow> string \<Rightarrow> 'r \<Rightarrow> token_data option" where
  "rt_get e now token s = as_token (rd_get (te_redis e) now (token_key e token) s)"

definition rewrite_value :: "'r token_env \<Rightarrow> int \<Rightarrow> string \<Rightarrow> stored \<Rightarrow> 'r \<Rightarrow> 'r" where
  \<comment> \<open>write back with the remaining time to live, if there is any\<close>
  "rewrite_value e now k v s =
     (let ttl = rd_ttl (te_redis e) now k s
      in if 0 < ttl then rd_setex (te_redis e) now k ttl v s else s)"

definition markAsUsed :: "'r token_env \<Rightarrow> int \<Rightarrow> string \<Rightarrow> 'r \<Rightarrow> 'r" where
  "markAsUsed e now token s =
     (case rt_get e now token s of
        None \<Rightarrow> s
      | Some d \<Rightarrow> rewrite_value e now (token_key e token) (JsonToken (d\<lparr>td_used := True\<rparr>)) s)"

definition rt_revoke :: "'r token_env \<Rightarrow> int \<Rightarrow> string \<Rightarrow> 'r \<Rightarrow> 'r" where
  "rt_revoke e now token s =
     (case rt_get e now token s of
        None \<Rightarrow> s
      | Some d \<Rightarrow> rewrite_value e now (token_key e token) (JsonToken (d\<lparr>td_revoked := True\<rparr>)) s)"

definition rt_delete :: "'r token_env \<Rightarrow> int \<Rightarrow> string \<Rightarrow> 'r \<Rightarrow> 'r" where
  "rt_delete e now token s =
     (let s1 = (case rt_get e now token s of
          None \<Rightarrow> s
        | Some d \<Rightarrow> rd_srem (te_redis e) (user_tokens_key (td_user_id d)) (te_sha e token) s)
      in rd_del (te_redis e) (token_key e token) s1)"

fun collect_tokens :: "'r token_env \<Rightarrow> int \<Rightarrow> string list \<Rightarrow> 'r \<Rightarrow> token_data list" where
  "collect_tokens e now [] s = []"
| "collect_tokens e now (h # hs) s =
     (case as_token (rd_get (te_redis e) now (hash_key h) s) of
        None \<Rightarrow> collect_tokens e now hs s
      | Some d \<Rightarrow> d # collect_tokens e now hs s)"

definition getUserTokens :: "'r token_env \<Rightarrow> int \<Rightarrow> string \<Rightarrow> 'r \<Rightarrow> token_data list" where
  "getUserTokens e now userId s =
     collect_tokens e now (rd_smembers (te_redis e) now (user_tokens_key userId) s) s"

fun revoke_hashes :: "'r token_env \<Rightarrow> int \<Rightarrow> string list \<Rightarrow> 'r \<Rightarrow> nat \<times> 'r" where
  "revoke_hashes e now [] s = (0, s)"
| "revoke_hashes e now (h # hs) s =
     (case as_token (rd_get (te_redis e) now (hash_key h) s) of
        None \<Rightarrow> revoke_hashes e now hs s
      | Some d \<Rightarrow>
          (let ttl = rd_ttl (te_redis e) now (hash_key h) s in
           if 0 < ttl then
             (case revoke_hashes e now hs
                (rd_setex (te_redis e) now (hash_key h) ttl (JsonToken (d\<lparr>td_revoked := True\<rparr>)) s) of
                (n, s') \<Rightarrow> (n + 1, s'))
           else revoke_hashes e now hs s))"

definition revokeAllUserTokens :: "'r token_env \<Rightarrow> int \<Rightarrow> string \<Rightarrow> 'r \<Rightarrow> nat \<times> 'r" where
  "revokeAllUserTokens e now userId s =
     revoke_hashes e now (rd_smembers (te_redis e) now (user_tokens_key userId) s) s"

definition deleteAllUserTokens :: "'r token_env \<Rightarrow> int \<Rightarrow> string \<Rightarrow> 'r \<Rightarrow> nat \<times> 'r" where
  "deleteAllUserTokens e now userId s =
     (let hs = rd_smembers (te_redis e) now (user_tokens_key userId) s
      in (length hs, rd_del (te_redis e) (user_tokens_key userId)
            (fold (\<lambda>h. rd_del (te_redis e) (hash_key h)) hs s)))"

definition getUserTokenCount :: "'r token_env \<Rightarrow> int \<Rightarrow> string \<Rightarrow> 'r \<Rightarrow> nat" where
  "getUserTokenCount e now userId s = length (rd_smembers (te_redis e) now (user_tokens_key userId) s)"

definition rt_exists :: "'r token_env \<Rightarrow> int \<Rightarrow> string \<Rightarrow> 'r \<Rightarrow> bool" where
  "rt_exists e now token s \<longleftrightarrow> rd_get (te_redis e) now (token_key e token) s \<noteq> None"

section \<open>Token families\<close>

definition family_key :: "string \<Rightarrow> string" where
  "family_key familyId = ''token_family:'' @ familyId"

definition createFamily :: "'r token_env \<Rightarrow> string \<Rightarrow> int \<Rightarrow> string \<Rightarrow> string \<Rightarrow> 'r \<Rightarrow> string \<times> 'r" where
  \<comment> \<open>the first argument is the new \<open>randomUUID()\<close>\<close>
  "createFamily e familyId now userId initialTokenId s =
     (familyId,
      rd_setex (te_redis e) now (family_key familyId) (30 * 24 * 60 * 60)
        (JsonFamily \<lparr>tf_family_id = familyId, tf_user_id = userId, tf_created_at = now,
           tf_tokens = [initialTokenId], tf_revoked = False\<rparr>) s)"

definition getFamily :: "'r token_env \<Rightarrow> int \<Rightarrow> string \<Rightarrow> 'r \<Rightarrow> token_family option" where
  "getFamily e now familyId s = as_family (rd_get (te_redis e) now (family_key familyId) s)"

definition addTokenToFamily :: "'r token_env \<Rightarrow> int \<Rightarrow> string \<Rightarrow> string \<Rightarrow> 'r \<Rightarrow> (string + unit) \<times> 'r" where
  "addTokenToFamily e now familyId tokenId s =
     (case getFamily e now familyId s of
        None \<Rightarrow> (Inl (''Token family not found: '' @ familyId), s)
      | Some f \<Rightarrow> (Inr (), rewrite_value e now (family_key familyId)
          (JsonFamily (f\<lparr>tf_tokens := tf_tokens f @ [tokenId]\<rparr>)) s))"

definition revokeFamily :: "'r token_env \<Rightarrow> int \<Rightarrow> string \<Rightarrow> 'r \<Rightarrow> 'r" where
  "revokeFamily e now familyId s =
     (case getFamily e now familyId s of
        None \<Rightarrow> s
      | Some f \<Rightarrow> rewrite_value e now (family_key familyId) (JsonFamily (f\<lparr>tf_revoked := True\<rparr>)) s)"

definition isFamilyRevoked :: "'r token_env \<Rightarrow> int \<Rightarrow> string \<Rightarrow> 'r \<Rightarrow> bool" where
  "isFamilyRevoked e now familyId s =
     (case getFamily e now familyId s of None \<Rightarrow> False | Some f \<Rightarrow> tf_revoked f)"

definition getFamilySize :: "'r token_env \<Rightarrow> int \<Rightarrow> string \<Rightarrow> 'r \<Rightarrow> nat" where
  "getFamilySize e now familyId s =
     (case getFamily e now familyId s of None \<Rightarrow> 0 | Some f \<Rightarrow> length (tf_tokens f))"

definition isTokenInFamily :: "'r token_env \<Rightarrow> int \<Rightarrow> string \<Rightarrow> string \<Rightarrow> 'r \<Rightarrow> bool" where
  "isTokenInFamily e now familyId tokenId s =
     (case getFamily e now familyId s of None \<Rightarrow> False | Some f \<Rightarrow> tokenId \<in> set (tf_tokens f))"

definition all_families :: "'r token_env \<Rightarrow> int \<Rightarrow> 'r \<Rightarrow> (string \<times> token_family) list" where
  \<comment> \<open>the families found under the keys that match the prefix\<close>
  "all_families e now s =
     List.map_filter (\<lambda>k. map_option (Pair k) (as_family (rd_get (te_redis e) now k s)))
       (rd_keys (te_redis e) now ''token_family:'' s)"

definition getUserFamilies :: "'r token_env \<Rightarrow> int \<Rightarrow> string \<Rightarrow> 'r \<Rightarrow> token_family list" where
  "getUserFamilies e now userId s =
     filter (\<lambda>f. tf_user_id f = userId) (map snd (all_families e now s))"

definition cleanupRevokedFamilies :: "'r token_env \<Rightarrow> int \<Rightarrow> 'r \<Rightarrow> nat \<times> 'r" where
  "cleanupRevokedFamilies e now s =
     (let ks = map fst (filter (\<lambda>(k, f). tf_revoked f) (all_families e now s))
      in (length ks, fold (rd_del (te_redis e)) ks s))"

definition deleteFamily :: "'r token_env \<Rightarrow> string \<Rightarrow> 'r \<Rightarrow> 'r" where
  "deleteFamily e familyId s = rd_del (te_redis e) (family_key familyId) s"

record family_stats =
  fs_totalFamilies :: nat
  fs_revokedFamilies :: nat
  fs_activeFamilies :: nat

definition getFamilyStats :: "'r token_env \<Rightarrow> int \<Rightarrow> 'r \<Rightarrow> family_stats" where
  "getFamilyStats e now s =
     (let fs = map snd (all_families e now s); r = length (filter tf_revoked fs)
      in \<lparr>fs_totalFamilies = length fs, fs_revokedFamilies = r, fs_activeFamilies = length fs - r\<rparr>)"

section \<open>Reuse detection\<close>

datatype reuse_action = ActionAllow | ActionRevokeFamily | ActionAlert

record reuse_result =
  ru_isReuse :: bool
  ru_action :: reuse_action
  ru_reason :: "string option"

definition detectReuse :: "'r token_env \<Rightarrow> int \<Rightarrow> token_data \<Rightarrow> 'r \<Rightarrow> reuse_result" where
  "detectReuse e now d s =
     (if td_used d then
        \<lparr>ru_isReuse = True, ru_action = ActionRevokeFamily, ru_reason = Some ''Token has already been used''\<rparr>
      else if td_revoked d then
        \<lparr>ru_isReuse = True, ru_action = ActionRevokeFamily, ru_reason = Some ''Token has been revoked''\<rparr>
      else if isFamilyRevoked e now (td_family_id d) s then
        \<lparr>ru_isReuse = True, ru_action = ActionRevokeFamily, ru_reason = Some ''Token family has been revoked''\<rparr>
      else \<lparr>ru_isReuse = False, ru_action = ActionAllow, ru_reason = None\<rparr>)"

definition revokeFamilyAndAlert :: "'r token_env \<Rightarrow> int \<Rightarrow> token_data \<Rightarrow> 'r \<Rightarrow> 'r" where
  "revokeFamilyAndAlert e now d s =
     snd (revokeAllUserTokens e now (td_user_id d) (revokeFamily e now (td_family_id d) s))"

definition handleReuse :: "'r token_env \<Rightarrow> int \<Rightarrow> token_data \<Rightarrow> reuse_result \<Rightarrow> 'r \<Rightarrow> 'r" where
  "handleReuse e now d res s =
     (if \<not> ru_isReuse res then s
      else case ru_action res of
        ActionRevokeFamily \<Rightarrow> revokeFamilyAndAlert e now d s
      | ActionAlert \<Rightarrow> s
      | ActionAllow \<Rightarrow> s)"

definition checkRefreshPattern :: "'r token_env \<Rightarrow> int \<Rightarrow> string \<Rightarrow> 'r \<Rightarrow> string option" where
  \<comment> \<open>\<open>Some reason\<close>: suspicious\<close>
  "checkRefreshPattern e now userId s =
     (let families = getUserFamilies e now userId s in
      if 10 < length families then Some ''Too many active token families''
      else if 5 < length (filter (\<lambda>f. now - tf_created_at f < 60 * 60 * 1000) families)
        then Some ''Rapid token family creation''
      else None)"

definition validateTokenChain :: "'r token_env \<Rightarrow> int \<Rightarrow> token_data \<Rightarrow> 'r \<Rightarrow> bool" where
  "validateTokenChain e now d s =
     (if \<not> truthy_str (td_parent_id d) then True
      else isTokenInFamily e now (td_family_id d) (the (td_parent_id d)) s)"

record reuse_stats =
  rs_totalFamilies :: nat
  rs_revokedFamilies :: nat
  rs_reuseDetectionRate :: rat

definition getReuseStats :: "'r token_env \<Rightarrow> int \<Rightarrow> 'r \<Rightarrow> reuse_stats" where
  "getReuseStats e now s =
     (let st = getFamilyStats e now s
      in \<lparr>rs_totalFamilies = fs_totalFamilies st, rs_revokedFamilies = fs_revokedFamilies st,
          rs_reuseDetectionRate = (if 0 < fs_totalFamilies st
            then of_nat (fs_revokedFamilies st) / of_nat (fs_totalFamilies st) else 0)\<rparr>)"

section \<open>Rotation policy\<close>

definition isRotationEnabled :: "rotation_policy \<Rightarrow> bool" where
  "isRotationEnabled p = rp_enabled p"

definition isReuseDetectionEnabled :: "rotation_policy \<Rightarrow> bool" where
  "isReuseDetectionEnabled p = rp_reuseDetection p"

definition shouldRevokeFamilyOnReuse :: "rotation_policy \<Rightarrow> bool" where
  "shouldRevokeFamilyOnReuse p = rp_revokeFamily p"

definition shouldRotate :: "int \<Rightarrow> int \<Rightarrow> rotation_policy \<Rightarrow> bool" where
  "shouldRotate tokenAge lastUsed p = (if \<not> rp_enabled p then False else True)"

definition getRotationStrategy :: "rotation_policy \<Rightarrow> string" where
  "getRotationStrategy p = (if \<not> rp_enabled p then ''never'' else ''always'')"

definition createDefaultRotationPolicy :: "string option \<Rightarrow> string option \<Rightarrow> rotation_policy" where
  \<comment> \<open>the arguments are the two environment variables\<close>
  "createDefaultRotationPolicy rotation detection =
     \<lparr>rp_enabled = (rotation \<noteq> Some ''false''), rp_reuseDetection = (detection \<noteq> Some ''false''),
      rp_revokeFamily = True\<rparr>"

definition validate_rotation :: "rotation_policy \<Rightarrow> string option" where
  "validate_rotation p =
     (if rp_revokeFamily p \<and> \<not> rp_reuseDetection p
      then Some ''Cannot revoke family on reuse without reuse detection enabled'' else None)"

record rotation_patch =
  pp_enabled :: "bool option"
  pp_reuseDetection :: "bool option"
  pp_revokeFamily :: "bool option"

definition updatePolicy :: "rotation_patch \<Rightarrow> rotation_policy \<Rightarrow> string option \<times> rotation_policy" where
  \<comment> \<open>the policy is replaced before it is validated\<close>
  "updatePolicy u p =
     (let p' = \<lparr>rp_enabled = (case pp_enabled u of None \<Rightarrow> rp_enabled p | Some b \<Rightarrow> b),
            rp_reuseDetection = (case pp_reuseDetection u of None \<Rightarrow> rp_reuseDetection p | Some b \<Rightarrow> b),
            rp_revokeFamily = (case pp_revokeFamily u of None \<Rightarrow> rp_revokeFamily p | Some b \<Rightarrow> b)\<rparr>
      in (validate_rotation p', p'))"

section \<open>Refresh service\<close>

definition seconds :: "int \<Rightarrow> int" where
  \<comment> \<open>\<open>Math.floor(Date.now() / 1000)\<close>\<close>
  "seconds now = now div 1000"

definition rotated_data :: "int \<Rightarrow> token_data \<Rightarrow> int \<Rightarrow> token_data" where
  "rotated_data now old ttl =
     \<lparr>td_user_id = td_user_id old, td_session_id = td_session_id old, td_device_id = td_device_id old,
      td_family_id = td_family_id old, td_parent_id = Some (show_int (td_issued_at old)),
      td_issued_at = seconds now, td_expires_at = seconds now + ttl, td_used = False, td_revoked = False\<rparr>"

definition generateNewTokenPair ::
    "'r token_env \<Rightarrow> rotation_policy \<Rightarrow> string \<Rightarrow> int \<Rightarrow> (string + token_pair) \<Rightarrow> token_data \<Rightarrow> 'r
     \<Rightarrow> (string + token_pair) \<times> 'r" where
  \<comment> \<open>\<open>uuid\<close>: the random part of the new token id; \<open>pair\<close>: what the JWT generator returns\<close>
  "generateNewTokenPair e pol uuid now pair old s =
     (case pair of
        Inl msg \<Rightarrow> (Inl msg, s)
      | Inr p \<Rightarrow>
          if isRotationEnabled pol then
            (let s1 = rt_store e now (tp_refresh_token p)
                  (rotated_data now old (tp_refresh_expires_in p)) (tp_refresh_expires_in p) s
             in case addTokenToFamily e now (td_family_id old) (''rt_'' @ uuid) s1 of
                  (Inl msg, s2) \<Rightarrow> (Inl msg, s2)
                | (Inr u, s2) \<Rightarrow> (Inr p, s2))
          else (Inr p, s))"

definition failure_message :: "string \<Rightarrow> string" where
  \<comment> \<open>\<open>error.message || 'Token refresh failed'\<close>\<close>
  "failure_message msg = (if msg = [] then ''Token refresh failed'' else msg)"

definition refresh_commit ::
    "'r token_env \<Rightarrow> rotation_policy \<Rightarrow> string \<Rightarrow> int \<Rightarrow> (string + token_pair) \<Rightarrow> string \<Rightarrow> token_data \<Rightarrow> 'r
     \<Rightarrow> refresh_result \<times> 'r" where
  \<comment> \<open>the part of \<open>refresh\<close> after the reuse check: mark, generate, invalidate\<close>
  "refresh_commit e pol uuid now pair token d s =
     (case generateNewTokenPair e pol uuid now pair d (markAsUsed e now token s) of
        (Inl msg, s1) \<Rightarrow> (RefreshError ''REFRESH_FAILED'' (failure_message msg), s1)
      | (Inr p, s1) \<Rightarrow> (RefreshOk p, if isRotationEnabled pol then rt_revoke e now token s1 else s1))"

definition refresh ::
    "'r token_env \<Rightarrow> rotation_policy \<Rightarrow> string \<Rightarrow> int \<Rightarrow> string option \<Rightarrow> (string + token_pair) \<Rightarrow> string \<Rightarrow> 'r
     \<Rightarrow> refresh_result \<times> 'r" where
  \<comment> \<open>\<open>invalid\<close>: the message of the error the JWT validator throws, if it does\<close>
  "refresh e pol uuid now invalid pair token s =
     (case invalid of
        Some msg \<Rightarrow> (RefreshError ''REFRESH_FAILED'' (failure_message msg), s)
      | None \<Rightarrow>
        (case rt_get e now token s of
           None \<Rightarrow> (RefreshError ''TOKEN_NOT_FOUND'' ''Refresh token not found'', s)
         | Some d \<Rightarrow>
             (let res = detectReuse e now d s in
              if ru_isReuse res then
                (RefreshError ''TOKEN_REUSE_DETECTED'' ''Refresh token reuse detected. All tokens revoked.'',
                 handleReuse e now d res s)
              else refresh_commit e pol uuid now pair token d s)))"

definition createInitialRefreshToken ::
    "'r token_env \<Rightarrow> string \<Rightarrow> string \<Rightarrow> int \<Rightarrow> string \<Rightarrow> string \<Rightarrow> string \<Rightarrow> string \<Rightarrow> int \<Rightarrow> 'r \<Rightarrow> 'r" where
  "createInitialRefreshToken e uuid familyId now token userId sessionId deviceId expiresIn s =
     (case createFamily e familyId now userId (''rt_'' @ uuid) s of
        (fid, s1) \<Rightarrow>
          rt_store e now token
            \<lparr>td_user_id = userId, td_session_id = sessionId, td_device_id = deviceId,
             td_family_id = fid, td_parent_id = None, td_issued_at = seconds now,
             td_expires_at = seconds now + expiresIn, td_used = False, td_revoked = False\<rparr>
            expiresIn s1)"

definition getTokenInfo :: "'r token_env \<Rightarrow> int \<Rightarrow> string \<Rightarrow> 'r \<Rightarrow> token_data option" where
  "getTokenInfo e now token s = rt_get e now token s"

definition rs_isValid :: "'r token_env \<Rightarrow> int \<Rightarrow> string \<Rightarrow> 'r \<Rightarrow> bool" where
  "rs_isValid e now token s =
     (case rt_get e now token s of
        None \<Rightarrow> False
      | Some d \<Rightarrow>
          if td_revoked d \<or> td_used d then False
          else if td_expires_at d \<le> seconds now then False
          else True)"

end
