(* ===== verification/AuthRefreshSafety.thy ===== *)
theory AuthRefreshSafety
  imports AuthRefresh
begin

text \<open>
  Safety of token rotation: what every operation can write, the settled state of a token that
  has been used, and the properties. The locale \<open>token_service\<close> is the refresh service over a
  Redis server that keeps its documented behaviour.
\<close>

section \<open>Runs of the service\<close>

datatype token_op =
    TRefresh rotation_policy string int "string option" "string + token_pair" string
  | TCreate string string int string string string string int
  | TRevokeAll int string
  | TDeleteAll int string
  | TDelete int string
  | TCleanup int
  | TDeleteFamily int string

fun token_step :: "'r token_env \<Rightarrow> token_op \<Rightarrow> 'r \<Rightarrow> 'r" where
  "token_step e (TRefresh pol uuid now invalid pair token) s = snd (refresh e pol uuid now invalid pair token s)"
| "token_step e (TCreate uuid fam now token user sess dev ttl) s =
     createInitialRefreshToken e uuid fam now token user sess dev ttl s"
| "token_step e (TRevokeAll now user) s = snd (revokeAllUserTokens e now user s)"
| "token_step e (TDeleteAll now user) s = snd (deleteAllUserTokens e now user s)"
| "token_step e (TDelete now token) s = rt_delete e now token s"
| "token_step e (TCleanup now) s = snd (cleanupRevokedFamilies e now s)"
| "token_step e (TDeleteFamily now f) s = deleteFamily e f s"

fun op_time :: "token_op \<Rightarrow> int" where
  "op_time (TRefresh pol uuid now invalid pair token) = now"
| "op_time (TCreate uuid fam now token user sess dev ttl) = now"
| "op_time (TRevokeAll now user) = now"
| "op_time (TDeleteAll now user) = now"
| "op_time (TDelete now token) = now"
| "op_time (TCleanup now) = now"
| "op_time (TDeleteFamily now f) = now"

fun issued :: "token_op \<Rightarrow> (string \<times> int) option" where
  \<comment> \<open>the token the operation may store, with its time to live\<close>
  "issued (TRefresh pol uuid now invalid (Inr p) token) = Some (tp_refresh_token p, tp_refresh_expires_in p)"
| "issued (TCreate uuid fam now token user sess dev ttl) = Some (token, ttl)"
| "issued _ = None"

definition issues_other :: "'r token_env \<Rightarrow> string \<Rightarrow> token_op \<Rightarrow> bool" where
  \<comment> \<open>a token the operation stores has a positive time to live and another hash\<close>
  "issues_other e token op =
     (case issued op of None \<Rightarrow> True | Some (x, ttl) \<Rightarrow> 0 < ttl \<and> te_sha e x \<noteq> te_sha e token)"

section \<open>Keys\<close>

definition set_key :: "string \<Rightarrow> bool" where
  "set_key k \<longleftrightarrow> (\<exists>u. k = user_tokens_key u)"

lemma key_kinds [simp]:
  "\<not> set_key (token_key e x)" "\<not> set_key (hash_key h)" "\<not> set_key (family_key f)" "set_key (user_tokens_key u)"
  "token_key e x \<noteq> family_key f" "family_key f \<noteq> token_key e x"
  "hash_key h \<noteq> family_key f" "family_key f \<noteq> hash_key h"
  "family_key f \<noteq> user_tokens_key u" "user_tokens_key u \<noteq> family_key f"
  "token_key e x \<noteq> user_tokens_key u" "user_tokens_key u \<noteq> token_key e x"
  "hash_key h \<noteq> user_tokens_key u" "user_tokens_key u \<noteq> hash_key h"
  by (auto simp: set_key_def token_key_def hash_key_def family_key_def user_tokens_key_def)

lemma token_key_inj [simp]: "token_key e x = token_key e y \<longleftrightarrow> te_sha e x = te_sha e y"
  by (simp add: token_key_def)

lemma token_key_hash: "token_key e x = hash_key (te_sha e x)"
  by (simp add: token_key_def hash_key_def)

section \<open>What operations write\<close>

fun burnt :: "stored \<Rightarrow> bool" where
  "burnt (JsonToken d) \<longleftrightarrow> td_used d \<or> td_revoked d"
| "burnt (JsonFamily f) \<longleftrightarrow> False"

definition quiet :: "string \<Rightarrow> stored \<Rightarrow> bool" where
  \<comment> \<open>writes every operation may do: burnt tokens and families\<close>
  "quiet k v \<longleftrightarrow> burnt v \<or> (\<exists>f. k = family_key f)"

lemma quiet_writes [simp]:
  "quiet (family_key f) v" "td_used d \<or> td_revoked d \<Longrightarrow> quiet k (JsonToken d)"
  by (auto simp: quiet_def)

locale token_service = redis_store "te_redis e" for e :: "'r token_env"
begin

abbreviation wr :: "(string \<Rightarrow> stored \<Rightarrow> bool) \<Rightarrow> int \<Rightarrow> 'r \<Rightarrow> 'r \<Rightarrow> bool" where
  "wr P t s s' \<equiv> writes (te_redis e) set_key P t s s'"

lemma wr_rewrite: "P k v \<Longrightarrow> wr P now s (rewrite_value e now k v s)"
  by (auto simp: rewrite_value_def Let_def intro: writes.intros)

lemma wr_markAsUsed: "wr quiet now s (markAsUsed e now token s)"
  by (auto simp: markAsUsed_def intro: writes.none wr_rewrite split: option.split)

lemma wr_rt_revoke: "wr quiet now s (rt_revoke e now token s)"
  by (auto simp: rt_revoke_def intro: writes.none wr_rewrite split: option.split)

lemma wr_revoke_hashes: "wr quiet now s (snd (revoke_hashes e now hs s))"
proof (induction hs arbitrary: s)
  case (Cons h hs)
  have "wr quiet now s (snd (revoke_hashes e now hs
      (rd_setex (te_redis e) now (hash_key h) ttl (JsonToken (d\<lparr>td_revoked := True\<rparr>)) s)))"
    if "0 < ttl" for d ttl
    by (rule writes_trans [OF Cons.IH]) (use that in \<open>auto intro!: writes_setex\<close>)
  with Cons.IH [of s] show ?case by (simp add: Let_def case_prod_unfold split: option.split)
qed (simp add: writes.none)

lemma wr_revokeFamily: "wr quiet now s (revokeFamily e now f s)"
  by (auto simp: revokeFamily_def intro: writes.none wr_rewrite split: option.split)

lemma wr_handleReuse: "wr quiet now s (handleReuse e now d res s)"
  unfolding handleReuse_def revokeFamilyAndAlert_def revokeAllUserTokens_def
  by (auto intro: writes.none writes_trans [OF wr_revoke_hashes wr_revokeFamily] split: reuse_action.split)

lemma wr_addTokenToFamily: "wr quiet now s (snd (addTokenToFamily e now f x s))"
  by (auto simp: addTokenToFamily_def intro: writes.none wr_rewrite split: option.split)

lemma wr_createFamily: "wr quiet now s (snd (createFamily e f now user x s))"
  by (simp add: createFamily_def writes_setex)

lemma wr_store: "0 < ttl \<Longrightarrow> P (token_key e x) (JsonToken d) \<Longrightarrow> wr P now s (rt_store e now x d ttl s)"
  unfolding rt_store_def Let_def
  by (intro writes.expire writes.sadd writes_setex) simp_all

lemma wr_dels: "wr P now s (fold (\<lambda>k. rd_del (te_redis e) (g k)) ks s)"
proof (induction ks arbitrary: s)
  case (Cons k ks)
  show ?case using writes_trans [OF Cons.IH writes.del [OF writes.none]] by simp
qed (simp add: writes.none)

lemma wr_generate:
  assumes Q: "\<And>k v. quiet k v \<Longrightarrow> P k v"
    and new: "\<And>p v. pair = Inr p \<Longrightarrow> 0 < tp_refresh_expires_in p \<and> P (token_key e (tp_refresh_token p)) v"
  shows "wr P now s (snd (generateNewTokenPair e pol uuid now pair d s))"
proof (cases pair)
  case (Inr p)
  have "wr P now s (snd (addTokenToFamily e now f x
      (rt_store e now (tp_refresh_token p) d' (tp_refresh_expires_in p) s)))" for f x d'
    by (rule writes_trans [OF writes_mono [OF wr_addTokenToFamily Q] wr_store]) (use new Inr in auto)
  then show ?thesis
    by (simp add: generateNewTokenPair_def Inr Let_def case_prod_unfold sum.case_eq_if writes.none)
qed (simp add: generateNewTokenPair_def writes.none)

lemma wr_commit:
  assumes Q: "\<And>k v. quiet k v \<Longrightarrow> P k v"
    and new: "\<And>p v. pair = Inr p \<Longrightarrow> 0 < tp_refresh_expires_in p \<and> P (token_key e (tp_refresh_token p)) v"
  shows "wr P now (markAsUsed e now token s) (snd (refresh_commit e pol uuid now pair token d s))"
proof -
  note gen = wr_generate [of P pair now "markAsUsed e now token s" pol uuid d, OF Q new]
  show ?thesis
    using gen writes_trans [OF writes_mono [OF wr_rt_revoke Q] gen]
    by (simp add: refresh_commit_def case_prod_unfold sum.case_eq_if)
qed

lemma wr_refresh:
  assumes Q: "\<And>k v. quiet k v \<Longrightarrow> P k v"
    and new: "\<And>p v. pair = Inr p \<Longrightarrow> 0 < tp_refresh_expires_in p \<and> P (token_key e (tp_refresh_token p)) v"
  shows "wr P now s (snd (refresh e pol uuid now invalid pair token s))"
proof -
  have "wr P now s (snd (refresh_commit e pol uuid now pair token d s))" for d
    by (rule writes_trans [OF wr_commit [OF Q new] writes_mono [OF wr_markAsUsed Q]])
  moreover have "wr P now s (handleReuse e now d res s)" for d res
    by (rule writes_mono [OF wr_handleReuse Q])
  ultimately show ?thesis by (simp add: refresh_def Let_def writes.none split: option.split)
qed

lemma wr_step:
  assumes Q: "\<And>k v. quiet k v \<Longrightarrow> P k v"
    and new: "\<And>x ttl v. issued op = Some (x, ttl) \<Longrightarrow> 0 < ttl \<and> P (token_key e x) v"
  shows "wr P (op_time op) s (token_step e op s)"
proof (cases op)
  case (TRefresh pol uuid now invalid pair token)
  have "wr P now s (snd (refresh e pol uuid now invalid pair token s))"
    by (rule wr_refresh [OF Q]) (use new TRefresh in auto)
  with TRefresh show ?thesis by simp
next
  case (TCreate uuid fam now token user sess dev ttl)
  have "wr P now s (createInitialRefreshToken e uuid fam now token user sess dev ttl s)"
    unfolding createInitialRefreshToken_def case_prod_unfold
    by (rule writes_trans [OF wr_store writes_mono [OF wr_createFamily Q]]) (use new TCreate in auto)
  with TCreate show ?thesis by simp
next
  case (TRevokeAll now user)
  then show ?thesis by (simp add: revokeAllUserTokens_def writes_mono [OF wr_revoke_hashes Q])
next
  case (TDelete now token)
  have "wr P now s (rt_delete e now token s)"
    unfolding rt_delete_def Let_def
    by (rule writes.del) (auto intro!: writes.srem writes.none split: option.split)
  with TDelete show ?thesis by simp
next
  case (TDeleteAll now user)
  have "wr P now s (snd (deleteAllUserTokens e now user s))"
    unfolding deleteAllUserTokens_def Let_def snd_conv by (rule writes.del) (rule wr_dels)
  with TDeleteAll show ?thesis by simp
next
  case (TCleanup now)
  then show ?thesis
    using wr_dels [where g = "\<lambda>k. k"] by (simp add: cleanupRevokedFamilies_def Let_def)
next
  case (TDeleteFamily now f)
  then show ?thesis by (simp add: deleteFamily_def writes.del writes.none)
qed

section \<open>Burnt tokens stay burnt\<close>

abbreviation spent :: "int \<Rightarrow> string \<Rightarrow> 'r \<Rightarrow> bool" where
  "spent t token s \<equiv> settled burnt t (token_key e token) s"

definition spares_token :: "string \<Rightarrow> string \<Rightarrow> stored \<Rightarrow> bool" where
  "spares_token token k v \<longleftrightarrow> (k = token_key e token \<longrightarrow> burnt v)"

lemma quiet_spares: "quiet k v \<Longrightarrow> spares_token token k v"
  by (auto simp: quiet_def spares_token_def)

lemma spent_wr: "wr (spares_token token) t s s' \<Longrightarrow> spent t token s \<Longrightarrow> spent t token s'"
  by (erule settled_writes) (auto simp: spares_token_def)

lemma spent_step:
  "issues_other e token op \<Longrightarrow> spent (op_time op) token s \<Longrightarrow> spent (op_time op) token (token_step e op s)"
  by (rule spent_wr [OF wr_step [OF quiet_spares]])
    (auto simp: issues_other_def spares_token_def)

lemma spent_run:
  "sorted (t # map op_time ops @ [u]) \<Longrightarrow> list_all (issues_other e token) ops \<Longrightarrow> spent t token s \<Longrightarrow>
   spent u token (fold (token_step e) ops s)"
proof (induction ops arbitrary: t s)
  case Nil
  then show ?case by (auto intro: settled_later)
next
  case (Cons op ops)
  have "spent (op_time op) token (token_step e op s)"
    using Cons.prems by (auto intro: spent_step settled_later)
  then have "spent u token (fold (token_step e) ops (token_step e op s))"
    by (rule Cons.IH [rotated 2]) (use Cons.prems in auto)
  then show ?case by simp
qed

lemma spent_refused:
  assumes "spent t token s"
  shows "\<exists>code msg. fst (refresh e pol uuid t invalid pair token s) = RefreshError code msg
    \<and> code \<in> {''REFRESH_FAILED'', ''TOKEN_NOT_FOUND'', ''TOKEN_REUSE_DETECTED''}"
proof (cases "rt_get e t token s")
  case None
  then show ?thesis by (cases invalid) (simp_all add: refresh_def)
next
  case (Some d)
  then have "rd_get (te_redis e) t (token_key e token) s = Some (JsonToken d)"
    by (auto simp: rt_get_def elim!: as_token.elims)
  with assms have "td_used d \<or> td_revoked d" by (auto dest: settledD)
  then have "ru_isReuse (detectReuse e t d s)" by (auto simp: detectReuse_def)
  with Some show ?thesis by (cases invalid) (simp_all add: refresh_def Let_def)
qed

lemma rt_get_iff: "rt_get e t token s = Some d \<longleftrightarrow> rd_get (te_redis e) t (token_key e token) s = Some (JsonToken d)"
  by (auto simp: rt_get_def elim!: as_token.elims)

lemma getFamily_iff: "getFamily e t f s = Some d \<longleftrightarrow> rd_get (te_redis e) t (family_key f) s = Some (JsonFamily d)"
  by (auto simp: getFamily_def elim!: as_family.elims)

lemma refresh_okD:
  assumes "refresh e pol uuid now invalid pair token s = (RefreshOk p, s')"
  obtains d where "rt_get e now token s = Some d" "pair = Inr p" "\<not> td_used d" "\<not> td_revoked d"
    "\<not> isFamilyRevoked e now (td_family_id d) s" "invalid = None"
    "refresh_commit e pol uuid now pair token d s = (RefreshOk p, s')"
proof -
  from assms have inv: "invalid = None" by (cases invalid) (auto simp: refresh_def)
  from assms inv obtain d where d: "rt_get e now token s = Some d"
    by (cases "rt_get e now token s") (auto simp: refresh_def)
  from assms inv d have nr: "\<not> ru_isReuse (detectReuse e now d s)"
    and c: "refresh_commit e pol uuid now pair token d s = (RefreshOk p, s')"
    by (auto simp: refresh_def Let_def split: if_splits)
  from c have "pair = Inr p"
    by (auto simp: refresh_commit_def generateNewTokenPair_def Let_def
        split: sum.splits prod.splits if_splits)
  with that d nr c inv show ?thesis by (auto simp: detectReuse_def split: if_splits)
qed

lemma mark_spends:
  "rt_get e now token s = Some d \<Longrightarrow> 0 < rd_ttl (te_redis e) now (token_key e token) s \<Longrightarrow>
   spent now token (markAsUsed e now token s)"
  by (simp add: markAsUsed_def rewrite_value_def settled_setex)

lemma commit_spends:
  assumes d: "rt_get e now token s = Some d" and ttl: "0 < rd_ttl (te_redis e) now (token_key e token) s"
    and p: "0 < tp_refresh_expires_in p" "te_sha e (tp_refresh_token p) \<noteq> te_sha e token"
  shows "spent now token (snd (refresh_commit e pol uuid now (Inr p) token d s))"
  by (rule spent_wr [OF wr_commit [OF quiet_spares] mark_spends [OF d ttl]])
    (use p in \<open>auto simp: spares_token_def\<close>)

lemma revoke_hashes_spent:
  assumes "h \<in> set hs" "as_token (rd_get (te_redis e) now (hash_key h) s) \<noteq> None"
    "0 < rd_ttl (te_redis e) now (hash_key h) s"
  shows "settled burnt now (hash_key h) (snd (revoke_hashes e now hs s))"
  using assms
proof (induction hs arbitrary: s)
  case (Cons g hs)
  have keep: "settled burnt now (hash_key h) s' \<Longrightarrow>
      settled burnt now (hash_key h) (snd (revoke_hashes e now hs s'))" for s'
    by (erule settled_writes [OF wr_revoke_hashes, rotated 2]) (auto simp: quiet_def)
  show ?case
  proof (cases "g = h")
    case True
    have "settled burnt now (hash_key h) (rd_setex (te_redis e) now (hash_key h)
        (rd_ttl (te_redis e) now (hash_key h) s) (JsonToken (d\<lparr>td_revoked := True\<rparr>)) s)" for d
      using Cons.prems(3) by (rule settled_setex) simp
    with keep True Cons.prems show ?thesis
      by (auto simp: Let_def case_prod_unfold)
  next
    case False
    then have ne: "hash_key g \<noteq> hash_key h" by (simp add: hash_key_def)
    have "settled burnt now (hash_key h) (snd (revoke_hashes e now hs s'))"
      if "s' = s \<or> (\<exists>ttl v. s' = rd_setex (te_redis e) now (hash_key g) ttl v s)" for s'
      by (rule Cons.IH) (use that Cons.prems False ne in \<open>auto simp: get_setex_other ttl_setex_other\<close>)
    then show ?thesis by (auto simp: Let_def case_prod_unfold split: option.split)
  qed
qed simp

lemma reuse_spends:
  assumes d: "rt_get e now token s = Some d" and res: "ru_isReuse (detectReuse e now d s)"
    and x: "te_sha e x \<in> set (rd_smembers (te_redis e) now (user_tokens_key (td_user_id d)) s)"
      "rt_get e now x s \<noteq> None" "0 < rd_ttl (te_redis e) now (token_key e x) s"
  shows "spent now x (snd (refresh e pol uuid now None pair token s))"
proof -
  let ?s = "revokeFamily e now (td_family_id d) s"
  have cases: "?s = s \<or> (\<exists>ttl v. ?s = rd_setex (te_redis e) now (family_key (td_family_id d)) ttl v s)"
    by (auto simp: revokeFamily_def rewrite_value_def Let_def split: option.split)
  then have "as_token (rd_get (te_redis e) now (hash_key (te_sha e x)) ?s) \<noteq> None"
      "0 < rd_ttl (te_redis e) now (hash_key (te_sha e x)) ?s"
      "rd_smembers (te_redis e) now (user_tokens_key (td_user_id d)) ?s
       = rd_smembers (te_redis e) now (user_tokens_key (td_user_id d)) s"
    using x by (auto simp: get_setex_other ttl_setex_other smembers_setex rt_get_def token_key_hash)
  with x have "spent now x (snd (revokeAllUserTokens e now (td_user_id d) ?s))"
    unfolding revokeAllUserTokens_def token_key_hash by (intro revoke_hashes_spent) simp_all
  moreover have "ru_action (detectReuse e now d s) = ActionRevokeFamily"
    using res by (auto simp: detectReuse_def split: if_splits)
  ultimately show ?thesis
    using d res by (simp add: refresh_def Let_def handleReuse_def revokeFamilyAndAlert_def)
qed

end

section \<open>The successor of a rotated token\<close>

context token_service
begin

lemma get_rewrite_other: "k \<noteq> k' \<Longrightarrow> rd_get (te_redis e) t k' (rewrite_value e now k v s) = rd_get (te_redis e) t k' s"
  by (simp add: rewrite_value_def Let_def get_setex_other)

lemma get_rewrite_now:
  "rd_get (te_redis e) now k (rewrite_value e now k v s) =
     (if 0 < rd_ttl (te_redis e) now k s then Some v else rd_get (te_redis e) now k s)"
  by (simp add: rewrite_value_def Let_def get_setex)

lemma get_markAsUsed_other: "k \<noteq> token_key e token \<Longrightarrow>
    rd_get (te_redis e) t k (markAsUsed e now token s) = rd_get (te_redis e) t k s"
  by (auto simp: markAsUsed_def get_rewrite_other split: option.split)

lemma get_rt_revoke_other: "k \<noteq> token_key e token \<Longrightarrow>
    rd_get (te_redis e) t k (rt_revoke e now token s) = rd_get (te_redis e) t k s"
  by (auto simp: rt_revoke_def get_rewrite_other split: option.split)

lemma get_store_other: "k \<noteq> token_key e x \<Longrightarrow> \<not> set_key k \<Longrightarrow>
    rd_get (te_redis e) t k (rt_store e now x d ttl s) = rd_get (te_redis e) t k s"
  by (metis rt_store_def get_expire get_sadd get_setex_other key_kinds(4))

lemma get_store: "0 < ttl \<Longrightarrow> now \<le> t \<Longrightarrow>
    rd_get (te_redis e) t (token_key e x) (rt_store e now x d ttl s) =
      (if t < now + 1000 * ttl then Some (JsonToken d) else None)"
  by (simp add: rt_store_def Let_def get_expire get_sadd get_setex)

lemma get_addToken_other: "k \<noteq> family_key f \<Longrightarrow>
    rd_get (te_redis e) t k (snd (addTokenToFamily e now f x s)) = rd_get (te_redis e) t k s"
  by (auto simp: addTokenToFamily_def get_rewrite_other split: option.split)

lemma getFamily_later:
  "now \<le> t \<Longrightarrow> getFamily e t f s = Some g \<Longrightarrow> getFamily e now f s = Some g"
  by (auto simp: getFamily_iff intro: get_later)

lemma addToken_revoked:
  "isFamilyRevoked e now f (snd (addTokenToFamily e now f x s)) = isFamilyRevoked e now f s"
  by (auto simp: isFamilyRevoked_def addTokenToFamily_def getFamily_def get_rewrite_now split: option.split)

lemma isFamilyRevoked_cong:
  "(\<And>t. rd_get (te_redis e) t (family_key f) s = rd_get (te_redis e) t (family_key f) s') \<Longrightarrow>
   isFamilyRevoked e now f s = isFamilyRevoked e now f s'"
  by (simp add: isFamilyRevoked_def getFamily_def)

lemma not_revoked_later:
  "\<not> isFamilyRevoked e now f s \<Longrightarrow> now \<le> t \<Longrightarrow> \<not> isFamilyRevoked e t f s"
  using getFamily_later [of now t f s] by (auto simp: isFamilyRevoked_def split: option.splits)

definition rotated :: "rotation_policy \<Rightarrow> string \<Rightarrow> int \<Rightarrow> token_pair \<Rightarrow> string \<Rightarrow> token_data \<Rightarrow> 'r \<Rightarrow> 'r" where
  "rotated pol uuid now p token d s =
     rt_revoke e now token (snd (addTokenToFamily e now (td_family_id d) (''rt_'' @ uuid)
       (rt_store e now (tp_refresh_token p) (rotated_data now d (tp_refresh_expires_in p))
          (tp_refresh_expires_in p) (markAsUsed e now token s))))"

lemma commit_rotated:
  "isRotationEnabled pol \<Longrightarrow> getFamily e now (td_family_id d) s \<noteq> None \<Longrightarrow>
   refresh_commit e pol uuid now (Inr p) token d s = (RefreshOk p, rotated pol uuid now p token d s)"
  by (auto simp: refresh_commit_def generateNewTokenPair_def Let_def addTokenToFamily_def rotated_def
      getFamily_def get_store_other get_markAsUsed_other split: option.split)

lemma commit_okD:
  assumes "refresh_commit e pol uuid now (Inr p) token d s = (RefreshOk p, s1)"
  shows "s1 = (if isRotationEnabled pol then rotated pol uuid now p token d s else markAsUsed e now token s)"
  using assms
  by (auto simp: refresh_commit_def generateNewTokenPair_def Let_def rotated_def
      split: sum.splits prod.splits if_splits)

lemma rotated_token:
  assumes "0 < tp_refresh_expires_in p" "now \<le> t" "t < now + 1000 * tp_refresh_expires_in p"
    "te_sha e (tp_refresh_token p) \<noteq> te_sha e token"
  shows "rt_get e t (tp_refresh_token p) (rotated pol uuid now p token d s)
    = Some (rotated_data now d (tp_refresh_expires_in p))"
  using assms by (simp add: rt_get_iff rotated_def get_rt_revoke_other get_addToken_other get_store)

lemma rotated_family:
  "isFamilyRevoked e now (td_family_id d) (rotated pol uuid now p token d s)
   = isFamilyRevoked e now (td_family_id d) s"
proof -
  let ?s = "rt_store e now (tp_refresh_token p) (rotated_data now d (tp_refresh_expires_in p))
          (tp_refresh_expires_in p) (markAsUsed e now token s)"
  have "isFamilyRevoked e now (td_family_id d) (rotated pol uuid now p token d s)
      = isFamilyRevoked e now (td_family_id d) (snd (addTokenToFamily e now (td_family_id d) (''rt_'' @ uuid) ?s))"
    by (rule isFamilyRevoked_cong) (simp add: rotated_def get_rt_revoke_other)
  also have "\<dots> = isFamilyRevoked e now (td_family_id d) ?s" by (rule addToken_revoked)
  also have "\<dots> = isFamilyRevoked e now (td_family_id d) s"
    by (rule isFamilyRevoked_cong) (simp add: get_store_other get_markAsUsed_other)
  finally show ?thesis .
qed

lemma successor:
  assumes ok: "refresh e pol uuid now None (Inr p) token s = (RefreshOk p, s1)"
    and d: "rt_get e now token s = Some d"
    and new: "\<not> rt_exists e now (tp_refresh_token p) s" "te_sha e (tp_refresh_token p) \<noteq> te_sha e token"
    and time: "now \<le> t" "t < now + 1000 * tp_refresh_expires_in p"
    and fam: "getFamily e t (td_family_id d) s1 \<noteq> None"
  shows "fst (refresh e pol uuid' t None (Inr q) (tp_refresh_token p) s1) =
    (if isRotationEnabled pol then RefreshOk q
     else RefreshError ''TOKEN_NOT_FOUND'' ''Refresh token not found'')"
proof -
  have ttl: "0 < tp_refresh_expires_in p" using time by simp
  from ok d have nr: "\<not> isFamilyRevoked e now (td_family_id d) s"
    and commit: "refresh_commit e pol uuid now (Inr p) token d s = (RefreshOk p, s1)"
    by (auto elim!: refresh_okD)
  show ?thesis
  proof (cases "isRotationEnabled pol")
    case True
    let ?d = "rotated_data now d (tp_refresh_expires_in p)"
    have s1: "s1 = rotated pol uuid now p token d s" using commit_okD [OF commit] True by simp
    have got: "rt_get e t (tp_refresh_token p) s1 = Some ?d"
      unfolding s1 using ttl time new by (intro rotated_token)
    have "\<not> isFamilyRevoked e t (td_family_id ?d) s1"
      using not_revoked_later [of now "td_family_id d" s1 t] nr time rotated_family
      by (simp add: s1 rotated_data_def)
    then have "\<not> ru_isReuse (detectReuse e t ?d s1)"
      by (simp add: detectReuse_def) (simp add: rotated_data_def)
    moreover have "getFamily e t (td_family_id ?d) s1 \<noteq> None" using fam by (simp add: rotated_data_def)
    ultimately show ?thesis using got True by (simp add: refresh_def Let_def commit_rotated)
  next
    case False
    have s1: "s1 = markAsUsed e now token s" using commit_okD [OF commit] False by simp
    have "rd_get (te_redis e) t (token_key e (tp_refresh_token p)) s = None"
      using new(1) get_later [OF time(1), of "token_key e (tp_refresh_token p)" s]
      by (cases "rd_get (te_redis e) t (token_key e (tp_refresh_token p)) s") (auto simp: rt_exists_def)
    then have "rt_get e t (tp_refresh_token p) s1 = None"
      using new by (simp add: rt_get_def s1 get_markAsUsed_other)
    with False show ?thesis by (simp add: refresh_def)
  qed
qed

end

section \<open>A concrete service\<close>

definition demo_env :: "stored server token_env" where
  "demo_env = \<lparr>te_redis = map_redis, te_sha = (\<lambda>x. x)\<rparr>"

interpretation demo: token_service demo_env
  unfolding token_service_def by (simp add: demo_env_def mr.redis_store_axioms)

definition always_rotate :: rotation_policy where
  "always_rotate = \<lparr>rp_enabled = True, rp_reuseDetection = True, rp_revokeFamily = True\<rparr>"

definition pair_of :: "string \<Rightarrow> token_pair" where
  "pair_of x = \<lparr>tp_access_token = ''a'', tp_refresh_token = x, tp_expires_in = 900, tp_refresh_expires_in = 604800\<rparr>"

definition logged_in :: "stored server" where
  \<comment> \<open>two sessions of one user\<close>
  "logged_in = createInitialRefreshToken demo_env ''1'' ''f2'' 2000 ''r2'' ''u1'' ''s2'' ''d2'' 604800
     (createInitialRefreshToken demo_env ''0'' ''f1'' 1000 ''r1'' ''u1'' ''s1'' ''d1'' 604800 no_data)"

lemma demo_store: "redis_store (te_redis demo_env)"
  using demo.redis_store_axioms .

section \<open>Properties\<close>

text \<open>
  C6: a refresh token is accepted once. After a refresh with it has succeeded, every later
  attempt to refresh with it is refused, whatever the service does in between (other refreshes,
  logins, revocations, deletions, cleanups), under any rotation policy, as long as no operation
  stores a token with the same hash again. Redis is any server with the documented behaviour;
  the token must have had at least a second to live, since Redis rounds the time to live and
  the code writes nothing back when it is zero.
\<close>

theorem refresh_token_single_use:
  assumes redis: "redis_store (te_redis e)"
    and ok: "refresh e pol uuid now invalid (Inr p) token s = (RefreshOk p, s1)"
    and live: "0 < rd_ttl (te_redis e) now (token_key e token) s"
    and new: "0 < tp_refresh_expires_in p" "te_sha e (tp_refresh_token p) \<noteq> te_sha e token"
    and ops: "sorted (now # map op_time ops @ [later])" "list_all (issues_other e token) ops"
  shows "\<exists>code msg. fst (refresh e pol' uuid' later invalid' pair' token (fold (token_step e) ops s1))
      = RefreshError code msg \<and> code \<in> {''REFRESH_FAILED'', ''TOKEN_NOT_FOUND'', ''TOKEN_REUSE_DETECTED''}"
proof -
  note service = token_service.intro [OF redis]
  obtain d where d: "rt_get e now token s = Some d"
    and commit: "refresh_commit e pol uuid now (Inr p) token d s = (RefreshOk p, s1)"
    using ok by (elim token_service.refresh_okD [OF service]) auto
  have "redis_store.settled (te_redis e) burnt now (token_key e token) s1"
    using token_service.commit_spends [OF service d live new, of pol uuid] by (simp add: commit)
  then have "redis_store.settled (te_redis e) burnt later (token_key e token) (fold (token_step e) ops s1)"
    by (rule token_service.spent_run [OF service ops])
  then show ?thesis by (rule token_service.spent_refused [OF service])
qed

theorem refresh_token_single_use_witness:
  "\<exists>code msg. fst (refresh demo_env always_rotate ''9'' 9000 None (Inr (pair_of ''r9'')) ''r1''
     (fold (token_step demo_env)
        [TRefresh always_rotate ''4'' 6000 None (Inr (pair_of ''r4'')) ''r3'', TCleanup 7000,
         TCreate ''5'' ''f5'' 8000 ''r5'' ''u1'' ''s5'' ''d5'' 604800]
        (snd (refresh demo_env always_rotate ''3'' 5000 None (Inr (pair_of ''r3'')) ''r1'' logged_in))))
   = RefreshError code msg \<and> code \<in> {''REFRESH_FAILED'', ''TOKEN_NOT_FOUND'', ''TOKEN_REUSE_DETECTED''}"
proof (rule refresh_token_single_use [OF demo_store])
  have "fst (refresh demo_env always_rotate ''3'' 5000 None (Inr (pair_of ''r3'')) ''r1'' logged_in)
      = RefreshOk (pair_of ''r3'')" by code_simp
  then show "refresh demo_env always_rotate ''3'' 5000 None (Inr (pair_of ''r3'')) ''r1'' logged_in
      = (RefreshOk (pair_of ''r3''),
         snd (refresh demo_env always_rotate ''3'' 5000 None (Inr (pair_of ''r3'')) ''r1'' logged_in))"
    by (metis prod.collapse)
  show "0 < rd_ttl (te_redis demo_env) 5000 (token_key demo_env ''r1'') logged_in" by code_simp
  show "0 < tp_refresh_expires_in (pair_of ''r3'')" by code_simp
  show "te_sha demo_env (tp_refresh_token (pair_of ''r3'')) \<noteq> te_sha demo_env ''r1''" by code_simp
  show "sorted (5000 # map op_time
        [TRefresh always_rotate ''4'' 6000 None (Inr (pair_of ''r4'')) ''r3'', TCleanup 7000,
         TCreate ''5'' ''f5'' 8000 ''r5'' ''u1'' ''s5'' ''d5'' 604800] @ [9000])" by simp
  show "list_all (issues_other demo_env ''r1'')
        [TRefresh always_rotate ''4'' 6000 None (Inr (pair_of ''r4'')) ''r3'', TCleanup 7000,
         TCreate ''5'' ''f5'' 8000 ''r5'' ''u1'' ''s5'' ''d5'' 604800]" by code_simp
qed

text \<open>
  A detected reuse ends every session of the user. When a refresh is refused because the
  token had been used or revoked, or its family had been revoked, every stored token the
  user's index lists (with at least a second to live) is refused from then on, whatever the
  service does in between, as long as no operation stores a token with the same hash again.
\<close>

lemma reuse_ends_all_sessions:
  assumes redis: "redis_store (te_redis e)"
    and d: "rt_get e now token s = Some d"
    and reuse: "fst (refresh e pol uuid now None pair token s)
      = RefreshError ''TOKEN_REUSE_DETECTED'' ''Refresh token reuse detected. All tokens revoked.''"
    and x: "te_sha e x \<in> set (rd_smembers (te_redis e) now (user_tokens_key (td_user_id d)) s)"
      "rt_get e now x s \<noteq> None" "0 < rd_ttl (te_redis e) now (token_key e x) s"
    and ops: "sorted (now # map op_time ops @ [later])" "list_all (issues_other e x) ops"
  shows "\<exists>code msg. fst (refresh e pol' uuid' later invalid' pair' x
      (fold (token_step e) ops (snd (refresh e pol uuid now None pair token s)))) = RefreshError code msg"
proof -
  note service = token_service.intro [OF redis]
  have "ru_isReuse (detectReuse e now d s)"
  proof (rule ccontr)
    assume "\<not> ru_isReuse (detectReuse e now d s)"
    with d reuse have "fst (refresh_commit e pol uuid now pair token d s)
        = RefreshError ''TOKEN_REUSE_DETECTED'' ''Refresh token reuse detected. All tokens revoked.''"
      by (simp add: refresh_def Let_def)
    then show False by (auto simp: refresh_commit_def split: prod.splits sum.splits)
  qed
  then have "redis_store.settled (te_redis e) burnt now (token_key e x)
      (snd (refresh e pol uuid now None pair token s))"
    by (rule token_service.reuse_spends [OF service d _ x])
  then have "redis_store.settled (te_redis e) burnt later (token_key e x)
      (fold (token_step e) ops (snd (refresh e pol uuid now None pair token s)))"
    by (rule token_service.spent_run [OF service ops])
  then show ?thesis using token_service.spent_refused [OF service] by blast
qed

lemma reuse_ends_all_sessions_example:
  "\<exists>code msg. fst (refresh demo_env always_rotate ''9'' 9000 None (Inr (pair_of ''r9'')) ''r2''
     (fold (token_step demo_env) [TCleanup 7000]
       (snd (refresh demo_env always_rotate ''4'' 6000 None (Inr (pair_of ''r4'')) ''r1''
         (snd (refresh demo_env always_rotate ''3'' 5000 None (Inr (pair_of ''r3'')) ''r1'' logged_in))))))
   = RefreshError code msg"
proof -
  let ?s = "snd (refresh demo_env always_rotate ''3'' 5000 None (Inr (pair_of ''r3'')) ''r1'' logged_in)"
  have got: "map_option td_user_id (rt_get demo_env 6000 ''r1'' ?s) = Some ''u1''" by code_simp
  then obtain d where d: "rt_get demo_env 6000 ''r1'' ?s = Some d" and u: "td_user_id d = ''u1''" by auto
  show ?thesis
  proof (rule reuse_ends_all_sessions [OF demo_store d])
    show "fst (refresh demo_env always_rotate ''4'' 6000 None (Inr (pair_of ''r4'')) ''r1'' ?s)
        = RefreshError ''TOKEN_REUSE_DETECTED'' ''Refresh token reuse detected. All tokens revoked.''"
      by code_simp
    show "te_sha demo_env ''r2'' \<in> set (rd_smembers (te_redis demo_env) 6000 (user_tokens_key (td_user_id d)) ?s)"
      unfolding u by code_simp
    show "rt_get demo_env 6000 ''r2'' ?s \<noteq> None" by code_simp
    show "0 < rd_ttl (te_redis demo_env) 6000 (token_key demo_env ''r2'') ?s" by code_simp
    show "sorted (6000 # map op_time [TCleanup 7000] @ [9000])" by simp
    show "list_all (issues_other demo_env ''r2'') [TCleanup 7000]" by code_simp
  qed
qed

text \<open>
  Rotation hands the session on. After a successful refresh the refresh token of the new
  pair can in turn be used, until it expires, as long as the token family is still stored;
  but with rotation disabled the new token was never stored, so it is not found (and the old
  one is spent): a service configured without rotation refreshes each session once.
\<close>

lemma rotation_decides_successor:
  assumes "redis_store (te_redis e)"
    and "refresh e pol uuid now None (Inr p) token s = (RefreshOk p, s1)"
    and "rt_get e now token s = Some d"
    and "\<not> rt_exists e now (tp_refresh_token p) s" "te_sha e (tp_refresh_token p) \<noteq> te_sha e token"
    and "now \<le> later" "later < now + 1000 * tp_refresh_expires_in p"
    and "getFamily e later (td_family_id d) s1 \<noteq> None"
  shows "fst (refresh e pol uuid' later None (Inr q) (tp_refresh_token p) s1) =
    (if isRotationEnabled pol then RefreshOk q
     else RefreshError ''TOKEN_NOT_FOUND'' ''Refresh token not found'')"
  by (rule token_service.successor [OF token_service.intro [OF assms(1)] assms(2-)])

lemma rotation_decides_successor_example:
  "fst (refresh demo_env (always_rotate\<lparr>rp_enabled := False\<rparr>) ''4'' 6000 None (Inr (pair_of ''r4'')) ''r3''
     (snd (refresh demo_env (always_rotate\<lparr>rp_enabled := False\<rparr>) ''3'' 5000 None (Inr (pair_of ''r3'')) ''r1'' logged_in)))
   = RefreshError ''TOKEN_NOT_FOUND'' ''Refresh token not found''"
proof -
  let ?pol = "always_rotate\<lparr>rp_enabled := False\<rparr>"
  let ?s = "snd (refresh demo_env ?pol ''3'' 5000 None (Inr (pair_of ''r3'')) ''r1'' logged_in)"
  have new: "tp_refresh_token (pair_of ''r3'') = ''r3''" by code_simp
  have "map_option td_family_id (rt_get demo_env 5000 ''r1'' logged_in) = Some ''f1''" by code_simp
  then obtain d where d: "rt_get demo_env 5000 ''r1'' logged_in = Some d" and f: "td_family_id d = ''f1''"
    by auto
  have "fst (refresh demo_env ?pol ''3'' 5000 None (Inr (pair_of ''r3'')) ''r1'' logged_in)
      = RefreshOk (pair_of ''r3'')" by code_simp
  then have ok: "refresh demo_env ?pol ''3'' 5000 None (Inr (pair_of ''r3'')) ''r1'' logged_in
      = (RefreshOk (pair_of ''r3''), ?s)" by (metis prod.collapse)
  have "\<not> rt_exists demo_env 5000 (tp_refresh_token (pair_of ''r3'')) logged_in"
    "te_sha demo_env (tp_refresh_token (pair_of ''r3'')) \<noteq> te_sha demo_env ''r1''"
    "(5000 :: int) \<le> 6000" "6000 < 5000 + 1000 * tp_refresh_expires_in (pair_of ''r3'')"
    "getFamily demo_env 6000 ''f1'' ?s \<noteq> None" by code_simp+
  then have "fst (refresh demo_env ?pol ''4'' 6000 None (Inr (pair_of ''r4'')) (tp_refresh_token (pair_of ''r3'')) ?s)
      = (if isRotationEnabled ?pol then RefreshOk (pair_of ''r4'')
         else RefreshError ''TOKEN_NOT_FOUND'' ''Refresh token not found'')"
    by (intro rotation_decides_successor [OF demo_store ok d]) (simp_all add: f)
  moreover have "\<not> isRotationEnabled ?pol" by code_simp
  ultimately show ?thesis unfolding new by simp
qed

text \<open>
  Reuse detection is a check followed by a write, and two requests can pass the check
  before either writes. When the two requests with one token interleave that way both
  succeed, and the session forks into two chains whose tokens are both accepted.
\<close>

lemma concurrent_refresh_forks:
  "case rt_get demo_env 5000 ''r1'' logged_in of
     None \<Rightarrow> False
   | Some d \<Rightarrow>
       \<not> ru_isReuse (detectReuse demo_env 5000 d logged_in) \<and>
       (case refresh_commit demo_env always_rotate ''3'' 5000 (Inr (pair_of ''r3'')) ''r1'' d logged_in of
          (RefreshOk p, s1) \<Rightarrow>
            (case refresh_commit demo_env always_rotate ''4'' 5001 (Inr (pair_of ''r4'')) ''r1'' d s1 of
               (RefreshOk q, s2) \<Rightarrow>
                 p = pair_of ''r3'' \<and> q = pair_of ''r4'' \<and>
                 rs_isValid demo_env 6000 ''r3'' s2 \<and> rs_isValid demo_env 6000 ''r4'' s2
             | _ \<Rightarrow> False)
        | _ \<Rightarrow> False)"
  by code_simp

end
