(* ===== verification/Descent.thy ===== *)
theory Descent
  imports Prelude
begin

text \<open>
  The contract of a recursion along references that looks for no cycles, as the permission
  resolver (permissions/permission-resolver.ts) and the role service (roles/role-service.ts)
  have it: a visit of a node visits the nodes it refers to and unites their results with its
  own. The first argument of a visit bounds its depth. What such a recursion gives and when it
  returns is proved once here, for both.
\<close>

section \<open>Reachability by a decreasing bound\<close>

lemma acyclic_below_decreases:
  assumes fin: "finite (Range R)" and step: "(x, y) \<in> R" and free: "(y, y) \<notin> R\<^sup>+"
  shows "card (R\<^sup>+ `` {y}) < card (R\<^sup>+ `` {x})"
proof (rule psubset_card_mono)
  have "R\<^sup>+ `` {x} \<subseteq> Range R" by (auto elim: tranclE)
  then show "finite (R\<^sup>+ `` {x})" using fin by (rule finite_subset)
  have "R\<^sup>+ `` {y} \<subseteq> R\<^sup>+ `` {x}" using step by (auto intro: trancl_into_trancl2)
  moreover have "y \<in> R\<^sup>+ `` {x}" using step by auto
  ultimately show "R\<^sup>+ `` {y} \<subset> R\<^sup>+ `` {x}" using free by auto
qed

lemma cycle_step:
  assumes "(x, z) \<in> R\<^sup>*" "(z, z) \<in> R\<^sup>+"
  obtains y where "(x, y) \<in> R" "(y, z) \<in> R\<^sup>*"
proof -
  have "(x, z) \<in> R\<^sup>+" using assms by (rule rtrancl_trancl_trancl)
  then show thesis using that by (meson tranclD)
qed

section \<open>The contract\<close>

locale descent =
  fixes visit :: "nat \<Rightarrow> 'a \<Rightarrow> 'b list option"
    and succs :: "'a \<Rightarrow> 'a list"
    and own :: "'a \<Rightarrow> 'b set"
  assumes visit_0: "visit 0 x = None"
    and visit_None: "visit (Suc n) x = None \<longleftrightarrow> (\<exists>y \<in> set (succs x). visit n y = None)"
    and visit_Some: "visit (Suc n) x = Some zs
      \<Longrightarrow> set zs = own x \<union> (\<Union>y \<in> set (succs x). set (the (visit n y))) \<and> distinct zs"
begin

definition arcs :: "('a \<times> 'a) set" where
  "arcs = {(x, y). y \<in> set (succs x)}"

lemma visit_sound: "visit n x = Some zs \<Longrightarrow> set zs = (\<Union>y \<in> arcs\<^sup>* `` {x}. own y) \<and> distinct zs"
proof (induction n arbitrary: x zs)
  case (Suc n)
  have sub: "set (the (visit n y)) = (\<Union>z \<in> arcs\<^sup>* `` {y}. own z)" if "y \<in> set (succs x)" for y
    using Suc.IH Suc.prems that visit_None by (metis option.collapse option.distinct(1))
  have "arcs\<^sup>* `` {x} = insert x (\<Union>y \<in> set (succs x). arcs\<^sup>* `` {y})"
    by (auto simp: arcs_def elim: converse_rtranclE intro: converse_rtrancl_into_rtrancl)
  with visit_Some [OF Suc.prems] sub show ?case by auto
qed (simp add: visit_0)

lemma visit_returns:
  assumes "finite (Range arcs)"
  shows "(\<And>y. y \<in> arcs\<^sup>* `` {x} \<Longrightarrow> (y, y) \<notin> arcs\<^sup>+) \<Longrightarrow> card (arcs\<^sup>+ `` {x}) < n \<Longrightarrow> visit n x \<noteq> None"
proof (induction n arbitrary: x)
  case (Suc n)
  have "visit n y \<noteq> None" if "y \<in> set (succs x)" for y
  proof (rule Suc.IH)
    have xy: "(x, y) \<in> arcs" using that by (simp add: arcs_def)
    then show "(z, z) \<notin> arcs\<^sup>+" if "z \<in> arcs\<^sup>* `` {y}" for z
      using that Suc.prems(1) by (auto intro: converse_rtrancl_into_rtrancl)
    then have "card (arcs\<^sup>+ `` {y}) < card (arcs\<^sup>+ `` {x})"
      using acyclic_below_decreases [OF assms xy] by auto
    with Suc.prems(2) show "card (arcs\<^sup>+ `` {y}) < n" by simp
  qed
  then show ?case by (simp add: visit_None del: not_None_eq)
qed simp

lemma visit_cyclic: "(x, z) \<in> arcs\<^sup>* \<Longrightarrow> (z, z) \<in> arcs\<^sup>+ \<Longrightarrow> visit n x = None"
proof (induction n arbitrary: x)
  case (Suc n)
  obtain y where "(x, y) \<in> arcs" "(y, z) \<in> arcs\<^sup>*" using Suc.prems by (rule cycle_step)
  with Suc.IH Suc.prems(2) show ?case by (auto simp: visit_None arcs_def)
qed (simp add: visit_0)

definition acyclic_from :: "'a \<Rightarrow> bool" where
  "acyclic_from x \<longleftrightarrow> (\<forall>y \<in> arcs\<^sup>* `` {x}. (y, y) \<notin> arcs\<^sup>+)"

lemma visit_terminates:
  assumes "finite (Range arcs)" "acyclic_from x" "card (Range arcs) < n"
  shows "visit n x \<noteq> None"
proof (rule visit_returns [OF assms(1)])
  have "arcs\<^sup>+ `` {x} \<subseteq> Range arcs" by (auto elim: tranclE)
  then have "card (arcs\<^sup>+ `` {x}) \<le> card (Range arcs)" by (rule card_mono [OF assms(1)])
  then show "card (arcs\<^sup>+ `` {x}) < n" using assms(3) by simp
qed (use assms(2) in \<open>simp add: acyclic_from_def\<close>)

lemma visit_diverges: "\<not> acyclic_from x \<Longrightarrow> visit n x = None"
  unfolding acyclic_from_def using visit_cyclic by blast

lemma visit_returns_iff:
  assumes "finite (Range arcs)" "card (Range arcs) < n"
  shows "visit n x \<noteq> None \<longleftrightarrow> acyclic_from x"
proof
  assume "visit n x \<noteq> None"
  then show "acyclic_from x" using visit_diverges [of x n] by fast
qed (rule visit_terminates [OF assms(1) _ assms(2)])

end

end
