(* ===== verification/AuthzPermissions.thy ===== *)
theory AuthzPermissions
  imports Descent
begin

text \<open>
  The permission system of the auth service (services/auth-service/src/authorization/permissions):
  the registry, wildcard expansion and resolution of implications, the resource hierarchy, and
  the platform's permissions as data. \<open>resolveImplications\<close> recurses along the implications
  without looking for cycles; the first argument bounds the depth of its recursion and \<open>None\<close>
  stands for a call that has not returned at that depth.
\<close>

section \<open>Types and registry\<close>

datatype permission_scope = GlobalScope | TenantScope | ResourceScope

record permission_definition =
  pm_id :: string
  pm_resource :: string
  pm_action :: string
  pm_description :: string
  pm_scope :: permission_scope
  pm_requires :: "string list option"
  pm_implies :: "string list option"

abbreviation perm ::
    "string \<Rightarrow> string \<Rightarrow> string \<Rightarrow> string \<Rightarrow> permission_scope \<Rightarrow> string list option \<Rightarrow> string list option
     \<Rightarrow> permission_definition" where
  "perm i r a d s rs is \<equiv> \<lparr>pm_id = i, pm_resource = r, pm_action = a, pm_description = d,
     pm_scope = s, pm_requires = rs, pm_implies = is\<rparr>"

type_synonym registry = "(string, permission_definition) jsmap"

definition register :: "permission_definition \<Rightarrow> registry \<Rightarrow> registry" where
  "register p r = AList.update (pm_id p) p r"

definition registerMany :: "permission_definition list \<Rightarrow> registry \<Rightarrow> registry" where
  "registerMany ps r = fold register ps r"

definition pr_get :: "string \<Rightarrow> registry \<Rightarrow> permission_definition option" where
  "pr_get permissionId r = map_of r permissionId"

definition getByResource :: "string \<Rightarrow> registry \<Rightarrow> permission_definition list" where
  "getByResource resourceType r = filter (\<lambda>p. pm_resource p = resourceType) (map_values r)"

definition pr_getAll :: "registry \<Rightarrow> permission_definition list" where
  "pr_getAll r = map_values r"

definition pr_validate :: "string \<Rightarrow> registry \<Rightarrow> bool" where
  "pr_validate permissionId r = map_has r permissionId"

definition expandWildcard :: "string \<Rightarrow> registry \<Rightarrow> string list" where
  "expandWildcard pattern r =
     (if \<not> str_includes pattern ''*'' then [pattern]
      else case str_split (CHR ''.'') pattern of
        resource # action # rest \<Rightarrow>
          if action = ''*'' then map pm_id (getByResource resource r) else [pattern]
      | _ \<Rightarrow> [pattern])"

section \<open>Resolver\<close>

definition set_add :: "'a \<Rightarrow> 'a list \<Rightarrow> 'a list" where
  \<comment> \<open>\<open>Set.add\<close>: a set iterates in insertion order\<close>
  "set_add x xs = (if x \<in> set xs then xs else xs @ [x])"

definition set_addAll :: "'a list \<Rightarrow> 'a list \<Rightarrow> 'a list" where
  "set_addAll ys xs = foldl (\<lambda>acc y. set_add y acc) xs ys"

definition implied_by :: "registry \<Rightarrow> string \<Rightarrow> string list" where
  \<comment> \<open>\<open>def?.implies\<close>\<close>
  "implied_by r p = (case pr_get p r of None \<Rightarrow> []
     | Some d \<Rightarrow> (case pm_implies d of None \<Rightarrow> [] | Some qs \<Rightarrow> qs))"

fun resolveImplications :: "nat \<Rightarrow> registry \<Rightarrow> string list \<Rightarrow> string list option" where
  "resolveImplications 0 r permissions = None"
| "resolveImplications (Suc n) r permissions =
     foldl (\<lambda>acc implied. case acc of None \<Rightarrow> None | Some resolved \<Rightarrow>
         (case resolveImplications n r [implied] of None \<Rightarrow> None
          | Some subImplied \<Rightarrow> Some (set_addAll subImplied (set_add implied resolved))))
       (Some (set_addAll permissions []))
       (concat (map (implied_by r) permissions))"

definition expandWildcards :: "registry \<Rightarrow> string list \<Rightarrow> string list" where
  "expandWildcards r permissions =
     foldl (\<lambda>acc p. if str_includes p ''*'' then set_addAll (expandWildcard p r) acc else set_add p acc)
       [] permissions"

definition resolve_permissions :: "nat \<Rightarrow> registry \<Rightarrow> string list \<Rightarrow> string list option" where
  "resolve_permissions n r permissions = resolveImplications n r (expandWildcards r permissions)"

definition hasPermission :: "nat \<Rightarrow> registry \<Rightarrow> string list \<Rightarrow> string \<Rightarrow> bool option" where
  "hasPermission n r userPermissions requiredPermission =
     map_option (\<lambda>resolved. requiredPermission \<in> set resolved) (resolve_permissions n r userPermissions)"

section \<open>Resource hierarchy\<close>

record hierarchy_level =
  hl_resource :: string
  hl_parent :: "string option"
  hl_children :: "string list option"

type_synonym hierarchy = "(string, hierarchy_level) jsmap"

definition ph_register :: "hierarchy_level \<Rightarrow> hierarchy \<Rightarrow> hierarchy" where
  "ph_register l h = AList.update (hl_resource l) l h"

abbreviation level :: "string \<Rightarrow> string option \<Rightarrow> string list option \<Rightarrow> hierarchy_level" where
  "level r p cs \<equiv> \<lparr>hl_resource = r, hl_parent = p, hl_children = cs\<rparr>"

definition initializeHierarchy :: hierarchy where
  "initializeHierarchy = fold ph_register
     [level ''tenant'' None (Some [''group'', ''conversation'', ''user'']),
      level ''group'' (Some ''tenant'') (Some [''conversation'']),
      level ''conversation'' (Some ''group'') (Some [''message'']),
      level ''message'' (Some ''conversation'') None,
      level ''user'' (Some ''tenant'') None,
      level ''file'' (Some ''tenant'') None] []"

definition getParent :: "string \<Rightarrow> hierarchy \<Rightarrow> string option" where
  "getParent resource h = (case map_of h resource of None \<Rightarrow> None | Some l \<Rightarrow> hl_parent l)"

definition getChildren :: "string \<Rightarrow> hierarchy \<Rightarrow> string list" where
  "getChildren resource h = (case map_of h resource of None \<Rightarrow> []
     | Some l \<Rightarrow> (case hl_children l of None \<Rightarrow> [] | Some cs \<Rightarrow> cs))"

partial_function (option) isAncestor :: "hierarchy \<Rightarrow> string \<Rightarrow> string \<Rightarrow> bool option" where
  "isAncestor h ancestor current =
     (if current = [] then Some False
      else if current = ancestor then Some True
      else case getParent current h of
        None \<Rightarrow> Some False
      | Some parent \<Rightarrow> if parent = [] then Some False else isAncestor h ancestor parent)"

partial_function (option) ancestors_loop :: "hierarchy \<Rightarrow> string \<Rightarrow> string list \<Rightarrow> string list option" where
  "ancestors_loop h current ancestors =
     (if current = [] then Some ancestors
      else case getParent current h of
        None \<Rightarrow> Some ancestors
      | Some parent \<Rightarrow> if parent = [] then Some ancestors
          else ancestors_loop h parent (ancestors @ [parent]))"

definition getAncestors :: "hierarchy \<Rightarrow> string \<Rightarrow> string list option" where
  "getAncestors h resource = ancestors_loop h resource []"

section \<open>Permissions of the platform\<close>

definition MESSAGE_PERMISSIONS :: "permission_definition list" where
  "MESSAGE_PERMISSIONS = [
     perm ''message.send'' ''message'' ''send''
       ''Send messages in conversations'' ResourceScope None None,
     perm ''message.read'' ''message'' ''read''
       ''Read messages'' ResourceScope None None,
     perm ''message.update'' ''message'' ''update''
       ''Edit own messages'' ResourceScope None None,
     perm ''message.delete'' ''message'' ''delete''
       ''Delete messages'' ResourceScope None (Some [''message.read'']),
     perm ''message.react'' ''message'' ''react''
       ''React to messages'' ResourceScope (Some [''message.read'']) None,
     perm ''message.pin'' ''message'' ''pin''
       ''Pin messages'' ResourceScope None None,
     perm ''message.forward'' ''message'' ''forward''
       ''Forward messages'' ResourceScope (Some [''message.read'']) None]"

definition CONVERSATION_PERMISSIONS :: "permission_definition list" where
  "CONVERSATION_PERMISSIONS = [
     perm ''conversation.create'' ''conversation'' ''create''
       ''Create new conversations'' TenantScope None None,
     perm ''conversation.read'' ''conversation'' ''read''
       ''View conversation details and messages'' ResourceScope None None,
     perm ''conversation.update'' ''conversation'' ''update''
       ''Update conversation settings (name, description, etc.)'' ResourceScope (Some [''conversation.read'']) None,
     perm ''conversation.delete'' ''conversation'' ''delete''
       ''Delete conversations'' ResourceScope (Some [''conversation.read'']) None,
     perm ''conversation.add_member'' ''conversation'' ''add_member''
       ''Add members to conversation'' ResourceScope (Some [''conversation.read'']) None,
     perm ''conversation.remove_member'' ''conversation'' ''remove_member''
       ''Remove members from conversation'' ResourceScope (Some [''conversation.read'']) None,
     perm ''conversation.set_admin'' ''conversation'' ''set_admin''
       ''Grant or revoke admin privileges in conversation'' ResourceScope (Some [''conversation.read'']) None,
     perm ''conversation.leave'' ''conversation'' ''leave''
       ''Leave a conversation'' ResourceScope None None,
     perm ''conversation.archive'' ''conversation'' ''archive''
       ''Archive conversations'' ResourceScope (Some [''conversation.read'']) None,
     perm ''conversation.mute'' ''conversation'' ''mute''
       ''Mute conversation notifications'' ResourceScope None None]"

definition GROUP_PERMISSIONS :: "permission_definition list" where
  "GROUP_PERMISSIONS = [
     perm ''group.create'' ''group'' ''create''
       ''Create new groups'' TenantScope None None,
     perm ''group.read'' ''group'' ''read''
       ''View group details'' ResourceScope None None,
     perm ''group.update'' ''group'' ''update''
       ''Update group settings'' ResourceScope (Some [''group.read'']) None,
     perm ''group.delete'' ''group'' ''delete''
       ''Delete groups'' ResourceScope (Some [''group.read'']) None,
     perm ''group.join'' ''group'' ''join''
       ''Join a group'' ResourceScope None None,
     perm ''group.leave'' ''group'' ''leave''
       ''Leave a group'' ResourceScope None None,
     perm ''group.invite'' ''group'' ''invite''
       ''Invite users to group'' ResourceScope (Some [''group.read'']) None,
     perm ''group.kick'' ''group'' ''kick''
       ''Remove members from group'' ResourceScope (Some [''group.read'']) None,
     perm ''group.ban'' ''group'' ''ban''
       ''Ban users from group'' ResourceScope (Some [''group.read'', ''group.kick'']) None,
     perm ''group.unban'' ''group'' ''unban''
       ''Unban users from group'' ResourceScope (Some [''group.read'']) None,
     perm ''group.manage_roles'' ''group'' ''manage_roles''
       ''Manage group member roles'' ResourceScope (Some [''group.read'']) None]"

definition USER_PERMISSIONS :: "permission_definition list" where
  "USER_PERMISSIONS = [
     perm ''user.create'' ''user'' ''create''
       ''Create new users'' TenantScope None None,
     perm ''user.read'' ''user'' ''read''
       ''View user profiles'' ResourceScope None None,
     perm ''user.update'' ''user'' ''update''
       ''Update user profiles'' ResourceScope (Some [''user.read'']) None,
     perm ''user.delete'' ''user'' ''delete''
       ''Delete users'' ResourceScope (Some [''user.read'']) None,
     perm ''user.ban'' ''user'' ''ban''
       ''Ban users from tenant'' TenantScope (Some [''user.read'']) None,
     perm ''user.unban'' ''user'' ''unban''
       ''Unban users'' TenantScope (Some [''user.read'']) None,
     perm ''user.impersonate'' ''user'' ''impersonate''
       ''Impersonate another user (admin only)'' TenantScope (Some [''user.read'']) None,
     perm ''user.manage_roles'' ''user'' ''manage_roles''
       ''Assign or revoke user roles'' TenantScope (Some [''user.read'']) None,
     perm ''user.view_activity'' ''user'' ''view_activity''
       ''View user activity logs'' ResourceScope (Some [''user.read'']) None]"

definition FILE_PERMISSIONS :: "permission_definition list" where
  "FILE_PERMISSIONS = [
     perm ''file.upload'' ''file'' ''upload''
       ''Upload files'' TenantScope None None,
     perm ''file.download'' ''file'' ''download''
       ''Download files'' ResourceScope None None,
     perm ''file.delete'' ''file'' ''delete''
       ''Delete files'' ResourceScope None None,
     perm ''file.share'' ''file'' ''share''
       ''Share files'' ResourceScope None None]"

definition ADMIN_PERMISSIONS :: "permission_definition list" where
  "ADMIN_PERMISSIONS = [
     perm ''admin.tenant.manage'' ''admin'' ''tenant.manage''
       ''Manage tenant settings and configuration'' TenantScope None None,
     perm ''admin.users.manage'' ''admin'' ''users.manage''
       ''Full user management capabilities'' TenantScope None
       (Some [''user.create'', ''user.read'', ''user.update'', ''user.delete'', ''user.ban'',
         ''user.unban'', ''user.manage_roles'']),
     perm ''admin.settings.manage'' ''admin'' ''settings.manage''
       ''Manage application settings'' TenantScope None None,
     perm ''admin.policies.manage'' ''admin'' ''policies.manage''
       ''Manage authorization policies'' TenantScope None None,
     perm ''admin.roles.manage'' ''admin'' ''roles.manage''
       ''Manage roles and permissions'' TenantScope None None,
     perm ''admin.audit.view'' ''admin'' ''audit.view''
       ''View audit logs'' TenantScope None None,
     perm ''admin.audit.export'' ''admin'' ''audit.export''
       ''Export audit logs'' TenantScope (Some [''admin.audit.view'']) None,
     perm ''admin.analytics.view'' ''admin'' ''analytics.view''
       ''View analytics and reports'' TenantScope None None,
     perm ''admin.billing.manage'' ''admin'' ''billing.manage''
       ''Manage billing and subscriptions'' TenantScope None None,
     perm ''admin.integrations.manage'' ''admin'' ''integrations.manage''
       ''Manage third-party integrations'' TenantScope None None]"

definition ALL_PERMISSIONS :: "permission_definition list" where
  "ALL_PERMISSIONS = MESSAGE_PERMISSIONS @ CONVERSATION_PERMISSIONS @ GROUP_PERMISSIONS
     @ USER_PERMISSIONS @ FILE_PERMISSIONS @ ADMIN_PERMISSIONS"

definition permissionRegistry :: registry where
  \<comment> \<open>the registry after the module has been loaded\<close>
  "permissionRegistry = registerMany ALL_PERMISSIONS []"

section \<open>Resolution is the closure of implication\<close>

definition implies_rel :: "registry \<Rightarrow> (string \<times> string) set" where
  "implies_rel r = {(p, q). q \<in> set (implied_by r p)}"

lemma set_add_set [simp]: "set (set_add x xs) = insert x (set xs)"
  by (auto simp: set_add_def)

lemma set_addAll_set [simp]: "set (set_addAll ys xs) = set ys \<union> set xs"
  unfolding set_addAll_def by (induction ys arbitrary: xs) auto

lemma set_add_distinct [simp]: "distinct xs \<Longrightarrow> distinct (set_add x xs)"
  by (auto simp: set_add_def)

lemma set_addAll_distinct [simp]: "distinct xs \<Longrightarrow> distinct (set_addAll ys xs)"
  unfolding set_addAll_def by (induction ys arbitrary: xs) auto

lemma foldl_None: "foldl (\<lambda>acc x. case acc of None \<Rightarrow> None | Some a \<Rightarrow> f a x) None xs = None"
  by (induction xs) auto

lemma gather:
  assumes "foldl (\<lambda>acc q. case acc of None \<Rightarrow> None | Some a \<Rightarrow>
      (case g q of None \<Rightarrow> None | Some ys \<Rightarrow> Some (set_addAll ys (set_add q a)))) (Some xs) qs = Some zs"
  shows "(\<forall>q \<in> set qs. g q \<noteq> None)
    \<and> set zs = set xs \<union> (\<Union>q \<in> set qs. insert q (set (the (g q)))) \<and> (distinct xs \<longrightarrow> distinct zs)"
  using assms
proof (induction qs arbitrary: xs)
  case (Cons q qs)
  from Cons.prems obtain ys where ys: "g q = Some ys"
    by (cases "g q") (auto simp: foldl_None)
  with Cons.prems Cons.IH [of "set_addAll ys (set_add q xs)"] show ?case by auto
qed auto

lemma gather_some:
  assumes "\<And>q. q \<in> set qs \<Longrightarrow> g q \<noteq> None"
  shows "\<exists>zs. foldl (\<lambda>acc q. case acc of None \<Rightarrow> None | Some a \<Rightarrow>
      (case g q of None \<Rightarrow> None | Some ys \<Rightarrow> Some (set_addAll ys (set_add q a)))) (Some xs) qs = Some zs"
  using assms
proof (induction qs arbitrary: xs)
  case (Cons q qs)
  then obtain ys where "g q = Some ys" by fastforce
  with Cons show ?case by simp
qed simp

lemma gather_None:
  "foldl (\<lambda>acc q. case acc of None \<Rightarrow> None | Some a \<Rightarrow>
      (case g q of None \<Rightarrow> None | Some ys \<Rightarrow> Some (set_addAll ys (set_add q a)))) (Some xs) qs = None
   \<longleftrightarrow> (\<exists>q \<in> set qs. g q = None)"
  (is "?run = None \<longleftrightarrow> _")
proof
  assume "?run = None"
  then show "\<exists>q \<in> set qs. g q = None"
    using gather_some [of qs g xs] by (metis option.distinct(1))
next
  assume "\<exists>q \<in> set qs. g q = None"
  then show "?run = None" using gather [of g xs qs] by (cases ?run) auto
qed

lemma resolve_None:
  "resolveImplications (Suc n) r ps = None
   \<longleftrightarrow> (\<exists>q \<in> set (concat (map (implied_by r) ps)). resolveImplications n r [q] = None)"
  unfolding resolveImplications.simps by (rule gather_None)

lemma resolve_Some:
  assumes "resolveImplications (Suc n) r ps = Some zs"
  shows "set zs = set ps \<union> (\<Union>q \<in> set (concat (map (implied_by r) ps)).
      insert q (set (the (resolveImplications n r [q])))) \<and> distinct zs"
  using gather [where g = "\<lambda>q. resolveImplications n r [q]", OF assms [unfolded resolveImplications.simps]]
  by simp

lemma resolve_has_self: "resolveImplications n r ps = Some zs \<Longrightarrow> set ps \<subseteq> set zs"
  by (cases n) (use resolve_Some in \<open>auto simp del: resolveImplications.simps(2)\<close>)

interpretation implications: descent "\<lambda>n p. resolveImplications n r [p]" "implied_by r" "\<lambda>p. {p}"
  for r
proof
  fix n p and zs :: "string list"
  show "resolveImplications (Suc n) r [p] = None
      \<longleftrightarrow> (\<exists>y \<in> set (implied_by r p). resolveImplications n r [y] = None)"
    by (simp add: resolve_None del: resolveImplications.simps(2))
  assume some: "resolveImplications (Suc n) r [p] = Some zs"
  have "q \<in> set (the (resolveImplications n r [q]))" if "q \<in> set (implied_by r p)" for q
  proof -
    have "resolveImplications n r [q] \<noteq> None"
      using some that resolve_None [of n r "[p]"] by auto
    then show ?thesis using resolve_has_self [of n r "[q]"] by auto
  qed
  then show "set zs = {p} \<union> (\<Union>y \<in> set (implied_by r p). set (the (resolveImplications n r [y]))) \<and> distinct zs"
    using resolve_Some [OF some] by auto
qed simp

lemma implications_arcs: "implications.arcs r = implies_rel r"
  by (simp add: implications.arcs_def implies_rel_def)

lemma finite_implies: "finite (Range (implies_rel r))"
proof -
  have "Range (implies_rel r) \<subseteq> (\<Union>p \<in> dom (map_of r). set (implied_by r p))"
  proof
    fix q
    assume "q \<in> Range (implies_rel r)"
    then obtain p where q: "q \<in> set (implied_by r p)" by (auto simp: implies_rel_def)
    then have "map_of r p \<noteq> None" by (cases "map_of r p") (simp_all add: implied_by_def pr_get_def)
    with q show "q \<in> (\<Union>p \<in> dom (map_of r). set (implied_by r p))" by blast
  qed
  then show ?thesis by (rule finite_subset) (simp add: finite_dom_map_of)
qed

lemma resolve_closure:
  assumes "resolveImplications n r ps = Some zs"
  shows "set zs = (implies_rel r)\<^sup>* `` set ps \<and> distinct zs"
proof (cases n)
  case (Suc m)
  note some = resolve_Some [OF assms [unfolded Suc]]
  have sub: "set (the (resolveImplications m r [q])) = (implies_rel r)\<^sup>* `` {q}"
    if q: "q \<in> set (concat (map (implied_by r) ps))" for q
  proof -
    have "resolveImplications m r [q] \<noteq> None"
      using assms [unfolded Suc] q resolve_None [of m r ps] by fastforce
    then obtain ys where "resolveImplications m r [q] = Some ys" by blast
    then show ?thesis using implications.visit_sound [of m r q ys] by (auto simp: implications_arcs)
  qed
  have "set (concat (map (implied_by r) ps)) = implies_rel r `` set ps"
    by (auto simp: implies_rel_def)
  then have "set zs = set ps \<union> (\<Union>q \<in> implies_rel r `` set ps. (implies_rel r)\<^sup>* `` {q})"
    using some sub by (auto intro: rtrancl_refl)
  also have "\<dots> = (implies_rel r)\<^sup>* `` set ps"
    by (auto intro: converse_rtrancl_into_rtrancl elim: converse_rtranclE)
  finally show ?thesis using some by simp
qed (use assms in simp)

lemma resolve_returns_iff:
  assumes "Suc (card (Range (implies_rel r))) < n"
  shows "resolveImplications n r ps \<noteq> None
    \<longleftrightarrow> (\<forall>p \<in> (implies_rel r)\<^sup>* `` set ps. (p, p) \<notin> (implies_rel r)\<^sup>+)"
proof (cases n)
  case (Suc m)
  have step: "resolveImplications m r [q] \<noteq> None \<longleftrightarrow> (\<forall>p \<in> (implies_rel r)\<^sup>* `` {q}. (p, p) \<notin> (implies_rel r)\<^sup>+)"
    for q
    using implications.visit_returns_iff [of r m q] assms Suc finite_implies [of r]
    by (simp add: implications_arcs implications.acyclic_from_def del: not_None_eq)
  have "resolveImplications n r ps \<noteq> None
      \<longleftrightarrow> (\<forall>q \<in> implies_rel r `` set ps. resolveImplications m r [q] \<noteq> None)"
    unfolding Suc using resolve_None [of m r ps] by (auto simp: implies_rel_def)
  also have "\<dots> \<longleftrightarrow> (\<forall>p \<in> (implies_rel r)\<^sup>* `` set ps. (p, p) \<notin> (implies_rel r)\<^sup>+)"
  proof
    assume ok: "\<forall>q \<in> implies_rel r `` set ps. resolveImplications m r [q] \<noteq> None"
    show "\<forall>p \<in> (implies_rel r)\<^sup>* `` set ps. (p, p) \<notin> (implies_rel r)\<^sup>+"
    proof clarify
      fix p0 p
      assume p: "p0 \<in> set ps" "(p0, p) \<in> (implies_rel r)\<^sup>*" "(p, p) \<in> (implies_rel r)\<^sup>+"
      then obtain q where q: "(p0, q) \<in> implies_rel r" "(q, p) \<in> (implies_rel r)\<^sup>*"
        by (blast elim: cycle_step)
      with ok p(1) have "resolveImplications m r [q] \<noteq> None" by blast
      with q(2) p(3) show False unfolding step by blast
    qed
  next
    assume free: "\<forall>p \<in> (implies_rel r)\<^sup>* `` set ps. (p, p) \<notin> (implies_rel r)\<^sup>+"
    show "\<forall>q \<in> implies_rel r `` set ps. resolveImplications m r [q] \<noteq> None"
      unfolding step using free by (blast intro: converse_rtrancl_into_rtrancl)
  qed
  finally show ?thesis .
qed (use assms in simp)

lemma resolve_cyclic:
  assumes "p \<in> (implies_rel r)\<^sup>* `` set ps" "(p, p) \<in> (implies_rel r)\<^sup>+"
  shows "resolveImplications n r ps = None"
proof (cases n)
  case (Suc m)
  obtain p0 where p0: "p0 \<in> set ps" "(p0, p) \<in> (implies_rel r)\<^sup>*" using assms(1) by blast
  then obtain q where q: "(p0, q) \<in> implies_rel r" "(q, p) \<in> (implies_rel r)\<^sup>*"
    using assms(2) by (blast elim: cycle_step)
  then have "resolveImplications m r [q] = None"
    using implications.visit_cyclic [of q p r m] assms(2) by (simp add: implications_arcs)
  then show ?thesis unfolding Suc resolve_None using p0 q by (auto simp: implies_rel_def)
qed simp

section \<open>The platform's registry\<close>

lemma registerMany_fresh:
  "distinct (map pm_id ps) \<Longrightarrow> set (map pm_id ps) \<inter> set (map fst r) = {}
   \<Longrightarrow> registerMany ps r = r @ map (\<lambda>p. (pm_id p, p)) ps"
proof (induction ps arbitrary: r)
  case (Cons p ps)
  then have "AList.update (pm_id p) p r = r @ [(pm_id p, p)]" by (simp add: update_fresh map_of_eq_None_iff)
  with Cons show ?case by (auto simp: registerMany_def register_def)
qed (simp add: registerMany_def)

lemma registry_entries: "permissionRegistry = map (\<lambda>p. (pm_id p, p)) ALL_PERMISSIONS"
proof -
  have "distinct (map pm_id ALL_PERMISSIONS)" by code_simp
  then show ?thesis unfolding permissionRegistry_def by (subst registerMany_fresh) simp_all
qed

lemma registry_values: "map_values permissionRegistry = ALL_PERMISSIONS"
  by (simp add: registry_entries comp_def)

lemma registry_ids: "map fst permissionRegistry = map pm_id ALL_PERMISSIONS"
  by (simp add: registry_entries comp_def)

definition implied_ids :: "string list" where
  "implied_ids = concat (map (\<lambda>p. case pm_implies p of None \<Rightarrow> [] | Some qs \<Rightarrow> qs) ALL_PERMISSIONS)"

lemma implied_registered: "q \<in> set (implied_by permissionRegistry p) \<Longrightarrow> q \<in> set implied_ids"
proof -
  assume q: "q \<in> set (implied_by permissionRegistry p)"
  then obtain d where d: "pr_get p permissionRegistry = Some d"
    by (cases "pr_get p permissionRegistry") (simp_all add: implied_by_def)
  then have "d \<in> set ALL_PERMISSIONS"
    by (auto simp: pr_get_def registry_entries dest!: map_of_SomeD)
  with q d show "q \<in> set implied_ids" by (auto simp: implied_by_def implied_ids_def)
qed

lemma implied_ids_final: "q \<in> set implied_ids \<Longrightarrow> implied_by permissionRegistry q = []"
proof -
  have "list_all (\<lambda>q. implied_by (map (\<lambda>p. (pm_id p, p)) ALL_PERMISSIONS) q = []) implied_ids" by code_simp
  then show "q \<in> set implied_ids \<Longrightarrow> implied_by permissionRegistry q = []"
    by (simp add: registry_entries list_all_iff)
qed

lemma implied_ids_known: "q \<in> set implied_ids \<Longrightarrow> q \<in> set (map pm_id ALL_PERMISSIONS)"
proof -
  have "list_all (\<lambda>q. list_ex (\<lambda>p. pm_id p = q) ALL_PERMISSIONS) implied_ids" by code_simp
  then show "q \<in> set implied_ids \<Longrightarrow> q \<in> set (map pm_id ALL_PERMISSIONS)"
    by (auto simp: list_all_iff list_ex_iff)
qed

lemma registry_resolves: "resolveImplications (Suc (Suc n)) permissionRegistry ps \<noteq> None"
proof -
  have "resolveImplications (Suc n) permissionRegistry [q] \<noteq> None" if "q \<in> set implied_ids" for q
    using implied_ids_final [OF that] by (simp del: not_None_eq)
  then show ?thesis unfolding resolve_None using implied_registered by fastforce
qed

lemma registry_closure:
  "set zs = (implies_rel permissionRegistry)\<^sup>* `` set ps
   \<Longrightarrow> set ps \<subseteq> set zs \<and> set zs \<subseteq> set ps \<union> set implied_ids"
proof -
  have "q \<in> set ps \<union> set implied_ids" if "(p, q) \<in> (implies_rel permissionRegistry)\<^sup>*" "p \<in> set ps" for p q
    using that by (induction) (auto simp: implies_rel_def dest: implied_registered)
  then show "set zs = (implies_rel permissionRegistry)\<^sup>* `` set ps
    \<Longrightarrow> set ps \<subseteq> set zs \<and> set zs \<subseteq> set ps \<union> set implied_ids" by auto
qed

lemma set_expandWildcards:
  "set (expandWildcards r ps) = (\<Union>p \<in> set ps. if str_includes p ''*'' then set (expandWildcard p r) else {p})"
proof -
  have "set (foldl (\<lambda>acc p. if str_includes p ''*'' then set_addAll (expandWildcard p r) acc else set_add p acc) acc ps)
      = set acc \<union> (\<Union>p \<in> set ps. if str_includes p ''*'' then set (expandWildcard p r) else {p})" for acc
    by (induction ps arbitrary: acc) auto
  then show ?thesis by (simp add: expandWildcards_def)
qed

section \<open>What resolution gives and when it returns\<close>

text \<open>
  C7: The permissions a user's list resolves to are exactly those reachable by implication from
  the list after wildcard expansion, each once; \<open>hasPermission\<close> is membership in that closure.
\<close>
theorem permissions_resolve_to_closure:
  assumes "resolve_permissions n r ps = Some zs"
  shows "set zs = (implies_rel r)\<^sup>* `` set (expandWildcards r ps) \<and> distinct zs
    \<and> hasPermission n r ps p = Some (p \<in> (implies_rel r)\<^sup>* `` set (expandWildcards r ps))"
  using resolve_closure [OF assms [unfolded resolve_permissions_def]] assms
  by (simp_all add: hasPermission_def)

text \<open>
  C34: Resolution returns at some depth exactly if no permission reachable from the list implies
  itself through a chain of implications, and a depth that exceeds the number of implied
  permissions by two is then enough; with such a cycle the recursion never ends.
\<close>
theorem permission_resolution_terminates:
  "((\<exists>n. resolve_permissions n r ps \<noteq> None)
     \<longleftrightarrow> resolve_permissions (card (Range (implies_rel r)) + 2) r ps \<noteq> None)
   \<and> (resolve_permissions (card (Range (implies_rel r)) + 2) r ps \<noteq> None
     \<longleftrightarrow> \<not> (\<exists>p. p \<in> (implies_rel r)\<^sup>* `` set (expandWildcards r ps) \<and> (p, p) \<in> (implies_rel r)\<^sup>+))"
proof -
  let ?n = "card (Range (implies_rel r)) + 2" and ?ps = "expandWildcards r ps"
  have at: "resolve_permissions ?n r ps \<noteq> None
     \<longleftrightarrow> (\<forall>p \<in> (implies_rel r)\<^sup>* `` set ?ps. (p, p) \<notin> (implies_rel r)\<^sup>+)"
    unfolding resolve_permissions_def by (rule resolve_returns_iff) simp
  have "(p, p) \<notin> (implies_rel r)\<^sup>+"
    if "resolve_permissions n r ps \<noteq> None" "p \<in> (implies_rel r)\<^sup>* `` set ?ps" for n p
    using resolve_cyclic [OF that(2), of n] that(1) unfolding resolve_permissions_def by metis
  with at show ?thesis by metis
qed

text \<open>An instance: the implications of a tenant administrator's permissions.\<close>
theorem permissions_resolve_to_closure_witness:
  "hasPermission 3 permissionRegistry [''message.delete''] ''message.read''
     = Some (''message.read'' \<in> (implies_rel permissionRegistry)\<^sup>*
         `` set (expandWildcards permissionRegistry [''message.delete'']))"
proof -
  have "resolve_permissions 3 permissionRegistry [''message.delete''] = Some [''message.delete'', ''message.read'']"
    by code_simp
  then show ?thesis using permissions_resolve_to_closure by blast
qed

end
