(* ===== verification/AuthzRoles.thy ===== *)
theory AuthzRoles
  imports AuthzPermissions
begin

text \<open>
  Roles of the auth service (services/auth-service/src/authorization/roles): the system roles as
  data, the repository over its MongoDB collection, and the role service. The collection is not
  part of the repository: its commands are the record \<open>collection\<close>, a parameter, with the
  documented behaviour the code relies on in the locale \<open>role_collection\<close> (the unique index on
  \<open>id\<close> included). \<open>getEffectivePermissions\<close> recurses along inherited roles without
  looking for cycles; its first argument bounds the depth, as in the resolver of permissions.
\<close>

section \<open>Types and system roles\<close>

record role =
  r_id :: string
  r_name :: string
  r_description :: string
  r_tenant_id :: "string option"
  r_is_system :: bool
  r_permissions :: "string list"
  r_inherits :: "string list option"

record create_role_dto =
  crd_name :: string
  crd_description :: string
  crd_tenant_id :: "string option"
  crd_permissions :: "string list"
  crd_inherits :: "string list option"

record update_role_dto =
  urd_name :: "string option"
  urd_description :: "string option"
  urd_permissions :: "string list option"
  urd_inherits :: "string list option"

definition PLATFORM_ADMIN_ROLE :: role where
  "PLATFORM_ADMIN_ROLE = \<lparr>r_id = ''platform_admin'', r_name = ''Platform Administrator'',
     r_description = ''Full access to all platform resources'', r_tenant_id = None, r_is_system = True,
     r_permissions = [''*''], r_inherits = None\<rparr>"

definition TENANT_ADMIN_ROLE :: role where
  "TENANT_ADMIN_ROLE = \<lparr>r_id = ''tenant_admin'', r_name = ''Tenant Administrator'',
     r_description = ''Full access to tenant resources'', r_tenant_id = None, r_is_system = True,
     r_permissions = [''admin.*'', ''user.*'', ''group.*'', ''conversation.*'', ''message.*'', ''file.*''],
     r_inherits = None\<rparr>"

definition TENANT_MEMBER_ROLE :: role where
  "TENANT_MEMBER_ROLE = \<lparr>r_id = ''tenant_member'', r_name = ''Member'',
     r_description = ''Standard member permissions'', r_tenant_id = None, r_is_system = True,
     r_permissions = [''conversation.create'', ''conversation.read'', ''message.send'', ''message.read'',
       ''message.react'', ''file.upload'', ''file.download'', ''user.read''],
     r_inherits = None\<rparr>"

definition MODERATOR_ROLE :: role where
  "MODERATOR_ROLE = \<lparr>r_id = ''moderator'', r_name = ''Moderator'',
     r_description = ''Content moderation permissions'', r_tenant_id = None, r_is_system = False,
     r_permissions = r_permissions TENANT_MEMBER_ROLE
       @ [''message.delete'', ''message.pin'', ''user.ban'', ''group.kick''],
     r_inherits = None\<rparr>"

definition GUEST_ROLE :: role where
  "GUEST_ROLE = \<lparr>r_id = ''guest'', r_name = ''Guest'', r_description = ''Read-only access'',
     r_tenant_id = None, r_is_system = False,
     r_permissions = [''conversation.read'', ''message.read'', ''user.read'', ''file.download''],
     r_inherits = None\<rparr>"

definition SYSTEM_ROLES :: "role list" where
  "SYSTEM_ROLES = [PLATFORM_ADMIN_ROLE, TENANT_ADMIN_ROLE, TENANT_MEMBER_ROLE, MODERATOR_ROLE, GUEST_ROLE]"

section \<open>The collection\<close>

record 'c collection =
  co_find :: "string \<Rightarrow> 'c \<Rightarrow> role option" \<comment> \<open>\<open>findOne({ id })\<close>\<close>
  co_all :: "'c \<Rightarrow> role list" \<comment> \<open>\<open>find({}).toArray()\<close>\<close>
  co_insert :: "role \<Rightarrow> 'c \<Rightarrow> 'c option" \<comment> \<open>\<open>insertOne\<close>: \<open>None\<close> on a duplicate key\<close>
  co_set :: "string \<Rightarrow> (role \<Rightarrow> role) \<Rightarrow> 'c \<Rightarrow> 'c" \<comment> \<open>\<open>updateOne({ id }, { $set })\<close>\<close>
  co_delete :: "string \<Rightarrow> 'c \<Rightarrow> nat \<times> 'c" \<comment> \<open>\<open>deleteOne({ id })\<close> with its \<open>deletedCount\<close>\<close>

locale role_collection =
  fixes C :: "'c collection"
  assumes find_insert: "co_insert C r c = Some c' \<Longrightarrow>
      co_find C i c' = (if i = r_id r then Some r else co_find C i c)"
    and insert_fresh: "co_insert C r c = Some c' \<Longrightarrow> co_find C (r_id r) c = None"
    and find_set: "(\<And>r. r_id (f r) = r_id r) \<Longrightarrow>
      co_find C j (co_set C i f c) = (if j = i then map_option f (co_find C i c) else co_find C j c)"
    and find_delete: "co_find C j (snd (co_delete C i c)) = (if j = i then None else co_find C j c)"
    and find_id: "co_find C i c = Some r \<Longrightarrow> r_id r = i"

section \<open>Repository\<close>

fun upsert_roles :: "'c collection \<Rightarrow> role list \<Rightarrow> 'c \<Rightarrow> (string + unit) \<times> 'c" where
  \<comment> \<open>\<open>updateOne({ id }, { $setOnInsert: role }, { upsert: true })\<close> for each role\<close>
  "upsert_roles C [] c = (Inr (), c)"
| "upsert_roles C (r # rs) c = (case co_find C (r_id r) c of
     Some x \<Rightarrow> upsert_roles C rs c
   | None \<Rightarrow> (case co_insert C r c of
       None \<Rightarrow> (Inl ''E11000 duplicate key error'', c)
     | Some c' \<Rightarrow> upsert_roles C rs c'))"

definition repo_initialize :: "'c collection \<Rightarrow> 'c \<Rightarrow> (string + unit) \<times> 'c" where
  "repo_initialize C c = upsert_roles C SYSTEM_ROLES c"

definition repo_create :: "'c collection \<Rightarrow> string \<Rightarrow> create_role_dto \<Rightarrow> 'c \<Rightarrow> (string + role) \<times> 'c" where
  \<comment> \<open>\<open>idTail\<close>: time and random part of the generated id\<close>
  "repo_create C idTail dto c =
     (let r = \<lparr>r_id = ''role_'' @ idTail, r_name = crd_name dto, r_description = crd_description dto,
           r_tenant_id = crd_tenant_id dto, r_is_system = False, r_permissions = crd_permissions dto,
           r_inherits = crd_inherits dto\<rparr>
      in case co_insert C r c of
           None \<Rightarrow> (Inl ''E11000 duplicate key error'', c)
         | Some c' \<Rightarrow> (Inr r, c'))"

definition apply_update :: "update_role_dto \<Rightarrow> role \<Rightarrow> role" where
  "apply_update dto r = r\<lparr>
     r_name := (case urd_name dto of None \<Rightarrow> r_name r | Some x \<Rightarrow> x),
     r_description := (case urd_description dto of None \<Rightarrow> r_description r | Some x \<Rightarrow> x),
     r_permissions := (case urd_permissions dto of None \<Rightarrow> r_permissions r | Some x \<Rightarrow> x),
     r_inherits := (case urd_inherits dto of None \<Rightarrow> r_inherits r | Some x \<Rightarrow> Some x)\<rparr>"

definition repo_update :: "'c collection \<Rightarrow> string \<Rightarrow> update_role_dto \<Rightarrow> 'c \<Rightarrow> (string + role option) \<times> 'c" where
  "repo_update C i dto c =
     (case co_find C i c of
        None \<Rightarrow> (Inl (''Role not found: '' @ i), c)
      | Some existing \<Rightarrow>
          if r_is_system existing then (Inl ''Cannot modify system roles'', c)
          else (let c' = co_set C i (apply_update dto) c in (Inr (co_find C i c'), c')))"

definition repo_delete :: "'c collection \<Rightarrow> string \<Rightarrow> 'c \<Rightarrow> (string + bool) \<times> 'c" where
  "repo_delete C i c =
     (case co_find C i c of
        None \<Rightarrow> (Inr False, c)
      | Some existing \<Rightarrow>
          if r_is_system existing then (Inl ''Cannot delete system roles'', c)
          else (case co_delete C i c of (n, c') \<Rightarrow> (Inr (0 < n), c')))"

definition getRolesByTenant :: "'c collection \<Rightarrow> string \<Rightarrow> 'c \<Rightarrow> role list" where
  "getRolesByTenant C tenantId c =
     filter (\<lambda>r. r_tenant_id r = Some tenantId \<or> r_tenant_id r = None \<and> r_is_system r) (co_all C c)"

definition getSystemRoles :: "'c collection \<Rightarrow> 'c \<Rightarrow> role list" where
  "getSystemRoles C c = filter r_is_system (co_all C c)"

section \<open>Service\<close>

fun check_permissions :: "registry \<Rightarrow> string list \<Rightarrow> string option" where
  \<comment> \<open>the message of the error thrown for the first unknown permission\<close>
  "check_permissions reg [] = None"
| "check_permissions reg (p # ps) =
     (if \<not> str_includes p ''*'' \<and> \<not> pr_validate p reg then Some (''Invalid permission: '' @ p)
      else check_permissions reg ps)"

definition createRole :: "'c collection \<Rightarrow> registry \<Rightarrow> string \<Rightarrow> create_role_dto \<Rightarrow> 'c \<Rightarrow> (string + role) \<times> 'c" where
  "createRole C reg idTail dto c =
     (case check_permissions reg (crd_permissions dto) of
        Some msg \<Rightarrow> (Inl msg, c)
      | None \<Rightarrow> repo_create C idTail dto c)"

definition updateRole ::
    "'c collection \<Rightarrow> registry \<Rightarrow> string \<Rightarrow> update_role_dto \<Rightarrow> 'c \<Rightarrow> (string + role option) \<times> 'c" where
  "updateRole C reg i dto c =
     (case (case urd_permissions dto of None \<Rightarrow> None | Some ps \<Rightarrow> check_permissions reg ps) of
        Some msg \<Rightarrow> (Inl msg, c)
      | None \<Rightarrow> repo_update C i dto c)"

fun getEffectivePermissions :: "nat \<Rightarrow> (string \<Rightarrow> role option) \<Rightarrow> string \<Rightarrow> string list option" where
  "getEffectivePermissions 0 getById i = None"
| "getEffectivePermissions (Suc n) getById i =
     (case getById i of
        None \<Rightarrow> Some []
      | Some r \<Rightarrow>
          foldl (\<lambda>acc j. case acc of None \<Rightarrow> None | Some perms \<Rightarrow>
              (case getEffectivePermissions n getById j of None \<Rightarrow> None
               | Some ps \<Rightarrow> Some (set_addAll ps perms)))
            (Some (set_addAll (r_permissions r) []))
            (case r_inherits r of None \<Rightarrow> [] | Some js \<Rightarrow> js))"

section \<open>Runs of the service\<close>

datatype role_op = RoCreate string create_role_dto | RoUpdate string update_role_dto | RoDelete string

fun role_step :: "'c collection \<Rightarrow> registry \<Rightarrow> role_op \<Rightarrow> 'c \<Rightarrow> 'c" where
  "role_step C reg (RoCreate idTail dto) c = snd (createRole C reg idTail dto c)"
| "role_step C reg (RoUpdate i dto) c = snd (updateRole C reg i dto c)"
| "role_step C reg (RoDelete i) c = snd (repo_delete C i c)"

definition known :: "registry \<Rightarrow> string \<Rightarrow> bool" where
  "known reg p \<longleftrightarrow> str_includes p ''*'' \<or> pr_validate p reg"

lemma check_permissions_None: "check_permissions reg ps = None \<longleftrightarrow> list_all (known reg) ps"
  by (induction ps) (auto simp: known_def)

lemma apply_update_frame [simp]:
  "r_id (apply_update dto r) = r_id r" "r_is_system (apply_update dto r) = r_is_system r"
  by (simp_all add: apply_update_def)

context role_collection
begin

definition fixed_system :: "'c \<Rightarrow> 'c \<Rightarrow> bool" where
  "fixed_system c c' \<longleftrightarrow> (\<forall>i r. co_find C i c = Some r \<and> r_is_system r \<longrightarrow> co_find C i c' = Some r)"

definition well_formed :: "registry \<Rightarrow> 'c \<Rightarrow> bool" where
  "well_formed reg c \<longleftrightarrow> (\<forall>i r. co_find C i c = Some r \<longrightarrow> list_all (known reg) (r_permissions r))"

lemma insert_fixed: "co_insert C r c = Some c' \<Longrightarrow> fixed_system c c'"
  using find_insert insert_fresh by (fastforce simp: fixed_system_def)

lemma fixed_refl: "fixed_system c c"
  by (simp add: fixed_system_def)

lemma fixed_trans: "fixed_system c c' \<Longrightarrow> fixed_system c' c'' \<Longrightarrow> fixed_system c c''"
  by (auto simp: fixed_system_def)

lemma step_fixed: "fixed_system c (role_step C reg op c)"
proof (cases op)
  case (RoCreate idTail dto)
  then show ?thesis
    by (auto simp: createRole_def repo_create_def Let_def fixed_refl intro: insert_fixed split: option.split)
next
  case (RoUpdate i dto)
  have "fixed_system c (snd (repo_update C i dto c))"
    by (auto simp: repo_update_def Let_def fixed_refl fixed_system_def find_set split: option.split)
  with RoUpdate show ?thesis by (auto simp: updateRole_def fixed_refl split: option.split)
next
  case (RoDelete i)
  have "fixed_system c (snd (repo_delete C i c))"
    using find_delete by (auto simp: repo_delete_def fixed_system_def case_prod_unfold split: option.split)
  with RoDelete show ?thesis by simp
qed

lemma run_fixed: "fixed_system c (fold (role_step C reg) ops c)"
proof (induction ops arbitrary: c)
  case (Cons op ops)
  show ?case using fixed_trans [OF step_fixed Cons.IH] by simp
qed (simp add: fixed_refl)

lemma insert_well_formed:
  "co_insert C r c = Some c' \<Longrightarrow> list_all (known reg) (r_permissions r) \<Longrightarrow> well_formed reg c \<Longrightarrow> well_formed reg c'"
  using find_insert by (auto simp: well_formed_def split: if_splits)

lemma step_well_formed: "well_formed reg c \<Longrightarrow> well_formed reg (role_step C reg op c)"
proof (cases op)
  case (RoCreate idTail dto)
  assume c: "well_formed reg c"
  show ?thesis
  proof (cases "check_permissions reg (crd_permissions dto)")
    case None
    then have "list_all (known reg) (crd_permissions dto)" by (simp add: check_permissions_None)
    with c have "well_formed reg (snd (repo_create C idTail dto c))"
      by (auto simp: repo_create_def Let_def split: option.split intro: insert_well_formed [rotated 2])
    with None RoCreate show ?thesis by (simp add: createRole_def)
  qed (simp add: RoCreate createRole_def c)
next
  case (RoUpdate i dto)
  assume c: "well_formed reg c"
  show ?thesis
  proof (cases "case urd_permissions dto of None \<Rightarrow> None | Some ps \<Rightarrow> check_permissions reg ps")
    case None
    then have "\<And>ps. urd_permissions dto = Some ps \<Longrightarrow> list_all (known reg) ps"
      by (simp add: check_permissions_None)
    with c have "list_all (known reg) (r_permissions (apply_update dto r))"
      if "co_find C i c = Some r" for r
      using that by (auto simp: apply_update_def well_formed_def split: option.split)
    with c have "well_formed reg (snd (repo_update C i dto c))"
      by (auto simp: repo_update_def Let_def well_formed_def find_set split: option.split if_splits)
    with None RoUpdate show ?thesis by (simp add: updateRole_def)
  qed (simp add: RoUpdate updateRole_def c)
next
  case (RoDelete i)
  assume "well_formed reg c"
  then have "well_formed reg (snd (repo_delete C i c))"
    using find_delete by (auto simp: repo_delete_def well_formed_def case_prod_unfold split: option.split if_splits)
  with RoDelete show ?thesis by simp
qed

lemma run_well_formed: "well_formed reg c \<Longrightarrow> well_formed reg (fold (role_step C reg) ops c)"
  by (induction ops arbitrary: c) (auto intro: step_well_formed)

end

section \<open>A concrete collection\<close>

definition list_collection :: "(string, role) jsmap collection" where
  "list_collection = \<lparr>co_find = (\<lambda>i c. case map_of c i of Some r \<Rightarrow> if r_id r = i then Some r else None | None \<Rightarrow> None),
     co_all = map_values,
     co_insert = (\<lambda>r c. if map_of c (r_id r) \<noteq> None then None else Some (c @ [(r_id r, r)])),
     co_set = (\<lambda>i f c. map (\<lambda>(k, r). if k = i then (k, f r) else (k, r)) c),
     co_delete = (\<lambda>i c. (length (filter (\<lambda>p. fst p = i) c), AList.delete i c))\<rparr>"

lemma map_of_map_one:
  "map_of (map (\<lambda>(k, r). if k = i then (k, f r) else (k, r)) c) j =
   (if j = i then map_option f (map_of c i) else map_of c j)"
  by (induction c) auto

lemma list_find: "co_find list_collection i c = (case map_of c i of Some r \<Rightarrow> if r_id r = i then Some r else None | None \<Rightarrow> None)"
  by (simp add: list_collection_def)

lemma list_insert: "co_insert list_collection r c = Some c' \<longleftrightarrow> map_of c (r_id r) = None \<and> c' = c @ [(r_id r, r)]"
  by (auto simp: list_collection_def)

lemma list_set: "map_of (co_set list_collection i f c) j = (if j = i then map_option f (map_of c i) else map_of c j)"
  unfolding list_collection_def collection.simps by (rule map_of_map_one)

lemma list_delete: "map_of (snd (co_delete list_collection i c)) j = (if j = i then None else map_of c j)"
  by (simp add: list_collection_def)

interpretation list_roles: role_collection list_collection
proof
  fix r c c' i
  assume "co_insert list_collection r c = Some c'"
  then have new: "map_of c (r_id r) = None" and c': "c' = c @ [(r_id r, r)]" by (auto simp: list_insert)
  show "co_find list_collection i c' = (if i = r_id r then Some r else co_find list_collection i c)"
    using new by (simp add: list_find c' map_add_def split: option.split)
  show "co_find list_collection (r_id r) c = None" using new by (simp add: list_find)
next
  fix f :: "role \<Rightarrow> role" and j i c
  assume "\<And>r. r_id (f r) = r_id r"
  then show "co_find list_collection j (co_set list_collection i f c)
      = (if j = i then map_option f (co_find list_collection i c) else co_find list_collection j c)"
    by (simp add: list_find list_set split: option.split)
next
  fix j i c
  show "co_find list_collection j (snd (co_delete list_collection i c))
      = (if j = i then None else co_find list_collection j c)"
    by (simp add: list_find list_delete)
next
  fix i c r
  assume "co_find list_collection i c = Some r"
  then show "r_id r = i" by (simp add: list_find split: option.splits if_splits)
qed

section \<open>Inherited permissions\<close>

definition inherited_roles :: "(string \<Rightarrow> role option) \<Rightarrow> string \<Rightarrow> string list" where
  \<comment> \<open>\<open>role?.inherits\<close>\<close>
  "inherited_roles getById i = (case getById i of None \<Rightarrow> []
     | Some r \<Rightarrow> (case r_inherits r of None \<Rightarrow> [] | Some js \<Rightarrow> js))"

definition own_permissions :: "(string \<Rightarrow> role option) \<Rightarrow> string \<Rightarrow> string set" where
  "own_permissions getById i = (case getById i of None \<Rightarrow> {} | Some r \<Rightarrow> set (r_permissions r))"

definition inherits_rel :: "(string \<Rightarrow> role option) \<Rightarrow> (string \<times> string) set" where
  "inherits_rel getById = {(i, j). j \<in> set (inherited_roles getById i)}"

lemma collect_Some:
  "foldl (\<lambda>acc j. case acc of None \<Rightarrow> None | Some ps \<Rightarrow>
      (case g j of None \<Rightarrow> None | Some qs \<Rightarrow> Some (set_addAll qs ps))) (Some xs) js = Some zs
   \<Longrightarrow> (\<forall>j \<in> set js. g j \<noteq> None) \<and> set zs = set xs \<union> (\<Union>j \<in> set js. set (the (g j))) \<and> (distinct xs \<longrightarrow> distinct zs)"
proof (induction js arbitrary: xs)
  case (Cons j js)
  from Cons.prems obtain qs where qs: "g j = Some qs" by (cases "g j") (auto simp: foldl_None)
  with Cons.prems Cons.IH [of "set_addAll qs xs"] show ?case by auto
qed auto

lemma collect_None:
  "foldl (\<lambda>acc j. case acc of None \<Rightarrow> None | Some ps \<Rightarrow>
      (case g j of None \<Rightarrow> None | Some qs \<Rightarrow> Some (set_addAll qs ps))) (Some xs) js = None
   \<longleftrightarrow> (\<exists>j \<in> set js. g j = None)"
proof (induction js arbitrary: xs)
  case (Cons j js)
  then show ?case by (cases "g j") (simp_all add: foldl_None)
qed simp

interpretation inheritance: descent "\<lambda>n i. getEffectivePermissions n getById i"
    "inherited_roles getById" "own_permissions getById"
  for getById
proof
  fix n i and zs :: "string list"
  show "getEffectivePermissions (Suc n) getById i = None
      \<longleftrightarrow> (\<exists>j \<in> set (inherited_roles getById i). getEffectivePermissions n getById j = None)"
    by (cases "getById i") (simp_all add: inherited_roles_def collect_None)
  assume some: "getEffectivePermissions (Suc n) getById i = Some zs"
  show "set zs = own_permissions getById i
        \<union> (\<Union>j \<in> set (inherited_roles getById i). set (the (getEffectivePermissions n getById j))) \<and> distinct zs"
  proof (cases "getById i")
    case (Some r)
    have "distinct (set_addAll (r_permissions r) [])" by simp
    with collect_Some [where g = "\<lambda>j. getEffectivePermissions n getById j", OF some [unfolded getEffectivePermissions.simps Some option.case]]
    show ?thesis by (simp add: inherited_roles_def own_permissions_def Some)
  qed (use some in \<open>simp add: inherited_roles_def own_permissions_def\<close>)
qed simp

lemma inheritance_arcs: "inheritance.arcs getById = inherits_rel getById"
  by (simp add: inheritance.arcs_def inherits_rel_def)

lemma finite_inherits:
  assumes "finite (dom getById)"
  shows "finite (Range (inherits_rel getById))"
proof (rule finite_subset)
  show "Range (inherits_rel getById) \<subseteq> (\<Union>i \<in> dom getById. set (inherited_roles getById i))"
  proof
    fix j
    assume "j \<in> Range (inherits_rel getById)"
    then obtain i where j: "j \<in> set (inherited_roles getById i)" by (auto simp: inherits_rel_def)
    then have "getById i \<noteq> None" by (cases "getById i") (simp_all add: inherited_roles_def)
    with j show "j \<in> (\<Union>i \<in> dom getById. set (inherited_roles getById i))" by blast
  qed
qed (simp add: assms)

section \<open>Properties\<close>

text \<open>
  The effective permissions of a role are the permissions of the roles it inherits from,
  directly or indirectly, and its own; computing them ends exactly if no role among those
  inherits from itself, and then within a depth of one more than the number of inherited roles.
\<close>
lemma role_permissions_are_inherited:
  assumes "finite (dom getById)"
  shows "(getEffectivePermissions n getById i = Some ps
      \<longrightarrow> set ps = (\<Union>j \<in> (inherits_rel getById)\<^sup>* `` {i}. own_permissions getById j) \<and> distinct ps)
    \<and> ((\<exists>n. getEffectivePermissions n getById i \<noteq> None)
      \<longleftrightarrow> (\<forall>j \<in> (inherits_rel getById)\<^sup>* `` {i}. (j, j) \<notin> (inherits_rel getById)\<^sup>+))
    \<and> (getEffectivePermissions (card (Range (inherits_rel getById)) + 1) getById i \<noteq> None
      \<longleftrightarrow> (\<forall>j \<in> (inherits_rel getById)\<^sup>* `` {i}. (j, j) \<notin> (inherits_rel getById)\<^sup>+))"
proof (intro conjI)
  let ?free = "\<forall>j \<in> (inherits_rel getById)\<^sup>* `` {i}. (j, j) \<notin> (inherits_rel getById)\<^sup>+"
  have free: "?free \<longleftrightarrow> inheritance.acyclic_from getById i"
    by (simp add: inheritance.acyclic_from_def inheritance_arcs)
  show at: "getEffectivePermissions (card (Range (inherits_rel getById)) + 1) getById i \<noteq> None \<longleftrightarrow> ?free"
    unfolding free using inheritance.visit_returns_iff [of getById] finite_inherits [OF assms]
    by (simp add: inheritance_arcs del: not_None_eq getEffectivePermissions.simps)
  show "(\<exists>n. getEffectivePermissions n getById i \<noteq> None) \<longleftrightarrow> ?free"
    using at inheritance.visit_diverges [of getById i] unfolding free by metis
  show "getEffectivePermissions n getById i = Some ps
      \<longrightarrow> set ps = (\<Union>j \<in> (inherits_rel getById)\<^sup>* `` {i}. own_permissions getById j) \<and> distinct ps"
    using inheritance.visit_sound [of n getById i ps] by (simp add: inheritance_arcs)
qed

definition sample_roles :: "string \<Rightarrow> role option" where
  "sample_roles = map_of [(''a'', GUEST_ROLE\<lparr>r_inherits := Some [''b'']\<rparr>), (''b'', GUEST_ROLE\<lparr>r_inherits := Some [''b'']\<rparr>),
     (''c'', GUEST_ROLE\<lparr>r_inherits := Some [''d'']\<rparr>), (''d'', MODERATOR_ROLE)]"

lemma sample_roles_finite: "finite (dom sample_roles)"
  unfolding sample_roles_def by (rule finite_dom_map_of)

lemma role_permissions_are_inherited_example:
  "\<not> (\<forall>j \<in> (inherits_rel sample_roles)\<^sup>* `` {''a''}. (j, j) \<notin> (inherits_rel sample_roles)\<^sup>+)
   \<and> (\<Union>j \<in> (inherits_rel sample_roles)\<^sup>* `` {''c''}. own_permissions sample_roles j)
     = set (r_permissions GUEST_ROLE) \<union> set (r_permissions MODERATOR_ROLE)"
proof -
  have "(''b'', ''b'') \<in> inherits_rel sample_roles" "(''a'', ''b'') \<in> inherits_rel sample_roles"
    by (simp_all add: inherits_rel_def inherited_roles_def sample_roles_def)
  then have cyc: "\<not> (\<forall>j \<in> (inherits_rel sample_roles)\<^sup>* `` {''a''}. (j, j) \<notin> (inherits_rel sample_roles)\<^sup>+)"
    by blast
  have "map_option set (getEffectivePermissions 2 sample_roles ''c'')
      = Some (set (r_permissions GUEST_ROLE) \<union> set (r_permissions MODERATOR_ROLE))"
    by code_simp
  then obtain ps where ps: "getEffectivePermissions 2 sample_roles ''c'' = Some ps"
    "set ps = set (r_permissions GUEST_ROLE) \<union> set (r_permissions MODERATOR_ROLE)" by auto
  show ?thesis
    using cyc ps(2) role_permissions_are_inherited [OF sample_roles_finite, of 2 "''c''" ps] ps(1) by blast
qed

text \<open>
  Whatever is created, updated and deleted through the role service, a stored system role
  stays as it is, and every permission of a stored role is a wildcard or registered.
\<close>
lemma role_service_keeps_roles:
  assumes "role_collection C"
    and "\<And>i r. co_find C i c = Some r \<Longrightarrow> list_all (known reg) (r_permissions r)"
  shows "(co_find C i c = Some r \<and> r_is_system r
      \<longrightarrow> co_find C i (fold (role_step C reg) ops c) = Some r)
    \<and> (co_find C j (fold (role_step C reg) ops c) = Some r'
      \<longrightarrow> list_all (known reg) (r_permissions r'))"
  using role_collection.run_fixed [OF assms(1), of c reg ops]
    role_collection.run_well_formed [OF assms(1), of reg c ops] assms(2)
  by (simp_all add: role_collection.fixed_system_def [OF assms(1)] role_collection.well_formed_def [OF assms(1)])

definition stored_system_roles :: "(string, role) jsmap" where
  "stored_system_roles = snd (repo_initialize list_collection [])"

lemma role_service_keeps_roles_example:
  "co_find list_collection ''tenant_member'' (fold (role_step list_collection permissionRegistry)
     [RoDelete ''tenant_member'',
      RoUpdate ''tenant_member'' \<lparr>urd_name = Some ''x'', urd_description = None, urd_permissions = None, urd_inherits = None\<rparr>,
      RoDelete ''guest''] stored_system_roles) = Some TENANT_MEMBER_ROLE"
proof -
  have known: "list_all (known permissionRegistry) (r_permissions r)"
    if "co_find list_collection i stored_system_roles = Some r" for i r
  proof -
    from that have "(i, r) \<in> set stored_system_roles"
    by (auto simp: list_find split: option.splits if_splits dest!: map_of_SomeD)
    moreover have "list_all (\<lambda>(i, r). list_all (known permissionRegistry) (r_permissions r)) stored_system_roles"
    by code_simp
    ultimately show ?thesis by (auto simp: list_all_iff)
  qed
  have "co_find list_collection ''tenant_member'' stored_system_roles = Some TENANT_MEMBER_ROLE" by code_simp
  moreover have "r_is_system TENANT_MEMBER_ROLE" by (simp add: TENANT_MEMBER_ROLE_def)
  ultimately have "co_find list_collection ''tenant_member'' stored_system_roles = Some TENANT_MEMBER_ROLE
    \<and> r_is_system TENANT_MEMBER_ROLE" ..
  with role_service_keeps_roles [OF list_roles.role_collection_axioms, of stored_system_roles permissionRegistry] known
  show ?thesis by blast
qed

lemma expandWildcard_all:
  assumes "str_split (CHR ''.'') p = [resource, ''*'']" "str_includes p ''*''"
  shows "set (expandWildcard p permissionRegistry) = {pm_id d | d. d \<in> set ALL_PERMISSIONS \<and> pm_resource d = resource}"
  using assms by (auto simp: expandWildcard_def getByResource_def registry_values)

lemma tenant_admin_expands:
  "set (expandWildcards permissionRegistry (r_permissions TENANT_ADMIN_ROLE)) = set (map pm_id ALL_PERMISSIONS)"
proof -
  let ?rs = "[''admin'', ''user'', ''group'', ''conversation'', ''message'', ''file'']"
  have "list_all (\<lambda>r. str_includes (r @ ''.*'') ''*'' \<and> str_split (CHR ''.'') (r @ ''.*'') = [r, ''*'']) ?rs"
    by code_simp
  then have each: "set (expandWildcard (r @ ''.*'') permissionRegistry)
      = {pm_id d | d. d \<in> set ALL_PERMISSIONS \<and> pm_resource d = r} \<and> str_includes (r @ ''.*'') ''*''"
    if "r \<in> set ?rs" for r
    using that expandWildcard_all by (auto simp: list_all_iff)
  have "set (expandWildcards permissionRegistry (map (\<lambda>r. r @ ''.*'') rs))
      = (\<Union>r \<in> set rs. {pm_id d | d. d \<in> set ALL_PERMISSIONS \<and> pm_resource d = r})"
    if "set rs \<subseteq> set ?rs" for rs
    unfolding set_expandWildcards set_map image_image
    by (rule SUP_cong [OF refl]) (use each that in \<open>simp only: subset_iff if_True simp_thms\<close>)
  from this [of ?rs] have "set (expandWildcards permissionRegistry (r_permissions TENANT_ADMIN_ROLE))
      = (\<Union>r \<in> set ?rs. {pm_id d | d. d \<in> set ALL_PERMISSIONS \<and> pm_resource d = r})"
    by (simp add: TENANT_ADMIN_ROLE_def)
  moreover have "list_all (\<lambda>d. pm_resource d \<in> set ?rs) ALL_PERMISSIONS" by code_simp
  ultimately show ?thesis by (auto simp: list_all_iff)
qed

lemma tenant_admin_resolves:
  "map_option set (resolve_permissions 2 permissionRegistry (r_permissions TENANT_ADMIN_ROLE))
     = Some (set (map pm_id ALL_PERMISSIONS))"
proof -
  obtain zs where zs: "resolve_permissions 2 permissionRegistry (r_permissions TENANT_ADMIN_ROLE) = Some zs"
    using registry_resolves [of 0] unfolding resolve_permissions_def by (metis Suc_1 One_nat_def option.exhaust)
  then have "set zs = set (map pm_id ALL_PERMISSIONS)"
    using resolve_closure [of 2 permissionRegistry] registry_closure [of zs] tenant_admin_expands implied_ids_known
    unfolding resolve_permissions_def by blast
  with zs show ?thesis by simp
qed

lemma platform_admin_resolves:
  "resolve_permissions 2 permissionRegistry (r_permissions PLATFORM_ADMIN_ROLE) = Some [''*'']"
  by code_simp

lemma star_not_registered: "p \<in> set ALL_PERMISSIONS \<Longrightarrow> pm_id p \<noteq> ''*''"
proof -
  have "list_all (\<lambda>p. pm_id p \<noteq> ''*'') ALL_PERMISSIONS" by code_simp
  then show "p \<in> set ALL_PERMISSIONS \<Longrightarrow> pm_id p \<noteq> ''*''" by (auto simp: list_all_iff)
qed

lemma plain_roles_resolve:
  "list_all (\<lambda>r. resolve_permissions 2 permissionRegistry (r_permissions r) = Some (r_permissions r))
     [TENANT_MEMBER_ROLE, GUEST_ROLE]"
  unfolding registry_entries by code_simp

text \<open>
  On the permissions the platform registers resolution always returns. The tenant
  administrator's wildcards resolve to every registered permission; the platform administrator's
  single star resolves to itself only, so it holds no registered permission; members and guests
  resolve to what they list.
\<close>
lemma system_roles_resolve:
  "resolve_permissions 2 permissionRegistry ps \<noteq> None
   \<and> map_option set (resolve_permissions 2 permissionRegistry (r_permissions TENANT_ADMIN_ROLE))
     = Some (set (map pm_id ALL_PERMISSIONS))
   \<and> {p. hasPermission 2 permissionRegistry (r_permissions PLATFORM_ADMIN_ROLE) p = Some True} = {''*''}
   \<and> ''*'' \<notin> set (map pm_id ALL_PERMISSIONS)
   \<and> list_all (\<lambda>r. resolve_permissions 2 permissionRegistry (r_permissions r) = Some (r_permissions r))
     [TENANT_MEMBER_ROLE, GUEST_ROLE]"
proof (intro conjI)
  show "resolve_permissions 2 permissionRegistry ps \<noteq> None"
    unfolding resolve_permissions_def numeral_2_eq_2 by (rule registry_resolves)
  show "{p. hasPermission 2 permissionRegistry (r_permissions PLATFORM_ADMIN_ROLE) p = Some True} = {''*''}"
    by (simp add: hasPermission_def platform_admin_resolves)
  show "''*'' \<notin> set (map pm_id ALL_PERMISSIONS)" using star_not_registered by (metis imageE set_map)
qed (rule tenant_admin_resolves plain_roles_resolve)+

end
