(* ===== verification/AuthMongo.thy ===== *)
theory AuthMongo
  imports Prelude "HOL-Library.Multiset"
begin

text \<open>
  A MongoDB collection as the services use it. The driver is not part of the repository: its
  commands are the record \<open>documents\<close>, a parameter of the definitions that use it, with filters
  as predicates on documents. The documented behaviour the code relies on is the locale
  \<open>document_store\<close>, stated over the multiset of stored documents, since a collection without
  a unique index holds equal documents more than once. \<open>list_documents\<close> is a concrete
  collection with that behaviour.
\<close>

record ('d, 'c) documents =
  dc_find :: "('d \<Rightarrow> bool) \<Rightarrow> 'c \<Rightarrow> 'd list" \<comment> \<open>\<open>find(filter).toArray()\<close>\<close>
  dc_insertOne :: "'d \<Rightarrow> 'c \<Rightarrow> 'c"
  dc_upsertOne :: "('d \<Rightarrow> bool) \<Rightarrow> ('d \<Rightarrow> 'd) \<Rightarrow> 'd \<Rightarrow> 'c \<Rightarrow> 'c"
    \<comment> \<open>\<open>updateOne(filter, { $set }, { upsert: true })\<close>: the change of a document, the document inserted\<close>
  dc_updateOne :: "('d \<Rightarrow> bool) \<Rightarrow> ('d \<Rightarrow> 'd) \<Rightarrow> 'c \<Rightarrow> nat \<times> 'c" \<comment> \<open>with its \<open>modifiedCount\<close>\<close>
  dc_deleteOne :: "('d \<Rightarrow> bool) \<Rightarrow> 'c \<Rightarrow> nat \<times> 'c" \<comment> \<open>with its \<open>deletedCount\<close>\<close>

definition dc_findOne :: "('d, 'c) documents \<Rightarrow> ('d \<Rightarrow> bool) \<Rightarrow> 'c \<Rightarrow> 'd option" where
  "dc_findOne D P c = (case dc_find D P c of [] \<Rightarrow> None | d # ds \<Rightarrow> Some d)"

definition dc_countDocuments :: "('d, 'c) documents \<Rightarrow> ('d \<Rightarrow> bool) \<Rightarrow> 'c \<Rightarrow> nat" where
  "dc_countDocuments D P c = length (dc_find D P c)"

definition contents :: "('d, 'c) documents \<Rightarrow> 'c \<Rightarrow> 'd multiset" where
  "contents D c = mset (dc_find D (\<lambda>d. True) c)"

locale document_store =
  fixes D :: "('d, 'c) documents"
  assumes find_filter: "mset (dc_find D P c) = filter_mset P (contents D c)"
    and insertOne: "contents D (dc_insertOne D d c) = add_mset d (contents D c)"
    and upsert_absent: "(\<forall>x \<in># contents D c. \<not> P x)
      \<Longrightarrow> contents D (dc_upsertOne D P f d c) = add_mset d (contents D c)"
    and upsert_present: "\<exists>x \<in># contents D c. P x
      \<Longrightarrow> \<exists>x \<in># contents D c. P x \<and> contents D (dc_upsertOne D P f d c) = add_mset (f x) (contents D c - {#x#})"
    and update_absent: "(\<forall>x \<in># contents D c. \<not> P x)
      \<Longrightarrow> fst (dc_updateOne D P f c) = 0 \<and> contents D (snd (dc_updateOne D P f c)) = contents D c"
    and update_present: "\<exists>x \<in># contents D c. P x
      \<Longrightarrow> \<exists>x \<in># contents D c. P x \<and> fst (dc_updateOne D P f c) = (if f x = x then 0 else 1)
        \<and> contents D (snd (dc_updateOne D P f c)) = add_mset (f x) (contents D c - {#x#})"
    and delete_absent: "(\<forall>x \<in># contents D c. \<not> P x)
      \<Longrightarrow> fst (dc_deleteOne D P c) = 0 \<and> contents D (snd (dc_deleteOne D P c)) = contents D c"
    and delete_present: "\<exists>x \<in># contents D c. P x
      \<Longrightarrow> fst (dc_deleteOne D P c) = 1 \<and> (\<exists>x \<in># contents D c. P x
        \<and> contents D (snd (dc_deleteOne D P c)) = contents D c - {#x#})"
begin

lemma set_find: "set (dc_find D P c) = {x. x \<in># contents D c \<and> P x}"
proof -
  have "set (dc_find D P c) = set_mset (filter_mset P (contents D c))"
    unfolding find_filter [symmetric] by simp
  then show ?thesis by auto
qed

lemma count_find: "dc_countDocuments D P c = size (filter_mset P (contents D c))"
  unfolding dc_countDocuments_def find_filter [symmetric] by simp

lemma findOne_None: "dc_findOne D P c = None \<longleftrightarrow> (\<forall>x \<in># contents D c. \<not> P x)"
  using set_find [of P c] by (auto simp: dc_findOne_def split: list.split)

lemma findOne_Some: "dc_findOne D P c = Some x \<Longrightarrow> x \<in># contents D c \<and> P x"
  using set_find [of P c] by (auto simp: dc_findOne_def split: list.splits)

lemma insert_find: "set (dc_find D P (dc_insertOne D d c)) = (if P d then insert d else id) (set (dc_find D P c))"
  by (auto simp: set_find insertOne)

lemma count_insert:
  "dc_countDocuments D P (dc_insertOne D d c) = (if P d then 1 else 0) + dc_countDocuments D P c"
  by (simp add: count_find insertOne)

lemma update_all:
  assumes "\<forall>x \<in># contents D c. Q x" "\<And>x. Q x \<Longrightarrow> Q (f x)"
  shows "\<forall>x \<in># contents D (snd (dc_updateOne D P f c)). Q x"
proof (cases "\<exists>x \<in># contents D c. P x")
  case True
  from update_present [OF True] obtain x where "x \<in># contents D c"
      "contents D (snd (dc_updateOne D P f c)) = add_mset (f x) (contents D c - {#x#})" by blast
  with assms show ?thesis by (auto dest: in_diffD)
next
  case False
  then have "contents D (snd (dc_updateOne D P f c)) = contents D c" using update_absent [of c P] by blast
  with assms show ?thesis by simp
qed

lemma count_delete:
  "dc_countDocuments D P (snd (dc_deleteOne D P c)) = dc_countDocuments D P c - 1"
proof (cases "\<exists>x \<in># contents D c. P x")
  case True
  then obtain x where "x \<in># contents D c" "P x"
    "contents D (snd (dc_deleteOne D P c)) = contents D c - {#x#}"
    using delete_present by blast
  then show ?thesis by (simp add: count_find size_Diff_singleton)
next
  case False
  then have none: "filter_mset P (contents D c) = {#}" by (metis (mono_tags) filter_mset_False filter_mset_cong0)
  have same: "contents D (snd (dc_deleteOne D P c)) = contents D c" using False delete_absent [of c P] by blast
  show ?thesis unfolding count_find same none by simp
qed

end

section \<open>A concrete collection\<close>

fun remove_first :: "('a \<Rightarrow> bool) \<Rightarrow> 'a list \<Rightarrow> 'a list" where
  "remove_first P [] = []"
| "remove_first P (x # xs) = (if P x then xs else x # remove_first P xs)"

fun change_first :: "('a \<Rightarrow> bool) \<Rightarrow> ('a \<Rightarrow> 'a) \<Rightarrow> 'a list \<Rightarrow> 'a list" where
  "change_first P f [] = []"
| "change_first P f (x # xs) = (if P x then f x # xs else x # change_first P f xs)"

definition list_documents :: "('d, 'd list) documents" where
  "list_documents = \<lparr>dc_find = List.filter,
     dc_insertOne = (\<lambda>d c. c @ [d]),
     dc_upsertOne = (\<lambda>P f d c. if list_ex P c then change_first P f c else c @ [d]),
     dc_updateOne = (\<lambda>P f c. (if change_first P f c = c then 0 else 1, change_first P f c)),
     dc_deleteOne = (\<lambda>P c. (if list_ex P c then 1 else 0, remove_first P c))\<rparr>"

lemma change_first_mset:
  "\<exists>x \<in> set xs. P x \<Longrightarrow> \<exists>x \<in># mset xs. P x \<and> mset (change_first P f xs) = add_mset (f x) (mset xs - {#x#})"
proof (induction xs)
  case (Cons y xs)
  show ?case
  proof (cases "P y")
    case False
    with Cons obtain x where x: "x \<in># mset xs" "P x" "mset (change_first P f xs) = add_mset (f x) (mset xs - {#x#})"
      by auto
    with False have "mset (change_first P f (y # xs)) = add_mset (f x) (mset (y # xs) - {#x#})"
      by (auto simp: add_mset_commute)
    with x show ?thesis by auto
  qed auto
qed simp

lemma change_first_none: "\<forall>x \<in> set xs. \<not> P x \<Longrightarrow> change_first P f xs = xs"
  by (induction xs) auto

lemma change_first_changes:
  "\<exists>x \<in> set xs. P x \<Longrightarrow> \<exists>x \<in># mset xs. P x \<and> (change_first P f xs = xs \<longleftrightarrow> f x = x)
     \<and> mset (change_first P f xs) = add_mset (f x) (mset xs - {#x#})"
proof (induction xs)
  case (Cons y xs)
  show ?case
  proof (cases "P y")
    case False
    with Cons obtain x where x: "x \<in># mset xs" "P x" "change_first P f xs = xs \<longleftrightarrow> f x = x"
        "mset (change_first P f xs) = add_mset (f x) (mset xs - {#x#})"
      by auto
    with False have "mset (change_first P f (y # xs)) = add_mset (f x) (mset (y # xs) - {#x#})"
      by (auto simp: add_mset_commute)
    with x False show ?thesis by auto
  qed auto
qed simp

lemma remove_first_mset:
  "\<exists>x \<in> set xs. P x \<Longrightarrow> \<exists>x \<in># mset xs. P x \<and> mset (remove_first P xs) = mset xs - {#x#}"
proof (induction xs)
  case (Cons y xs)
  show ?case
  proof (cases "P y")
    case False
    with Cons obtain x where x: "x \<in># mset xs" "P x" "mset (remove_first P xs) = mset xs - {#x#}"
      by auto
    with False have "mset (remove_first P (y # xs)) = mset (y # xs) - {#x#}" by auto
    with x show ?thesis by auto
  qed auto
qed simp

lemma remove_first_none: "\<forall>x \<in> set xs. \<not> P x \<Longrightarrow> remove_first P xs = xs"
  by (induction xs) auto

interpretation ld: document_store list_documents
proof
  fix c :: "'a list" and P f d
  assume "\<exists>x \<in># contents list_documents c. P x"
  then show "\<exists>x \<in># contents list_documents c. P x
      \<and> contents list_documents (dc_upsertOne list_documents P f d c) = add_mset (f x) (contents list_documents c - {#x#})"
    "fst (dc_deleteOne list_documents P c) = 1 \<and> (\<exists>x \<in># contents list_documents c. P x
        \<and> contents list_documents (snd (dc_deleteOne list_documents P c)) = contents list_documents c - {#x#})"
    "\<exists>x \<in># contents list_documents c. P x \<and> fst (dc_updateOne list_documents P f c) = (if f x = x then 0 else 1)
        \<and> contents list_documents (snd (dc_updateOne list_documents P f c)) = add_mset (f x) (contents list_documents c - {#x#})"
    using change_first_mset [of c P f] remove_first_mset [of c P] change_first_changes [of c P f]
    by (auto simp: contents_def list_documents_def list_ex_iff)
next
  fix c :: "'a list" and P f d
  assume "\<forall>x \<in># contents list_documents c. \<not> P x"
  then show "contents list_documents (dc_upsertOne list_documents P f d c) = add_mset d (contents list_documents c)"
    "fst (dc_deleteOne list_documents P c) = 0
      \<and> contents list_documents (snd (dc_deleteOne list_documents P c)) = contents list_documents c"
    "fst (dc_updateOne list_documents P f c) = 0
      \<and> contents list_documents (snd (dc_updateOne list_documents P f c)) = contents list_documents c"
    by (auto simp: contents_def list_documents_def list_ex_iff remove_first_none change_first_none)
qed (simp_all add: contents_def list_documents_def)

end
