(* ===== verification/AuthzGrants.thy ===== *)
theory AuthzGrants
  imports AuthMongo AuthzEngine AuthzPermissions
begin

text \<open>
  What a user is granted beside roles, in the auth service's authorization directory: role
  assignments (roles/role-assignment.ts), permissions on single resources
  (resource-permissions), owner permissions and templates, the tenant's permission
  configuration and its automatic rules (tenant-config). The collections are parameters
  (\<open>documents\<close>); times are milliseconds.
\<close>

section \<open>Role assignments\<close>

datatype assignment_scope = GlobalAssignment | ResourceAssignment

record role_assignment =
  ra_user_id :: string
  ra_role_id :: string
  ra_tenant_id :: string
  ra_scope :: assignment_scope
  ra_resource_type :: "string option"
  ra_resource_id :: "string option"
  ra_expires_at :: "int option"
  ra_granted_by :: string
  ra_granted_at :: int

definition unexpired :: "int \<Rightarrow> int option \<Rightarrow> bool" where
  \<comment> \<open>\<open>$or: [{ expires_at: null }, { expires_at: { $gt: new Date() } }]\<close>\<close>
  "unexpired now e \<longleftrightarrow> (case e of None \<Rightarrow> True | Some t \<Rightarrow> now < t)"

definition ra_assign :: "(role_assignment, 'c) documents \<Rightarrow> role_assignment \<Rightarrow> 'c \<Rightarrow> role_assignment \<times> 'c" where
  "ra_assign D assignment c = (assignment, dc_insertOne D assignment c)"

definition assignment_of :: "string \<Rightarrow> string \<Rightarrow> string \<Rightarrow> role_assignment \<Rightarrow> bool" where
  "assignment_of userId roleId tenantId a \<longleftrightarrow>
     ra_user_id a = userId \<and> ra_role_id a = roleId \<and> ra_tenant_id a = tenantId"

definition ra_revoke ::
    "(role_assignment, 'c) documents \<Rightarrow> string \<Rightarrow> string \<Rightarrow> string \<Rightarrow> 'c \<Rightarrow> bool \<times> 'c" where
  "ra_revoke D userId roleId tenantId c =
     (case dc_deleteOne D (assignment_of userId roleId tenantId) c of (n, c') \<Rightarrow> (0 < n, c'))"

definition getUserRoles ::
    "(role_assignment, 'c) documents \<Rightarrow> int \<Rightarrow> string \<Rightarrow> string \<Rightarrow> 'c \<Rightarrow> role_assignment list" where
  "getUserRoles D now userId tenantId c =
     dc_find D (\<lambda>a. ra_user_id a = userId \<and> ra_tenant_id a = tenantId \<and> unexpired now (ra_expires_at a)) c"

definition getUsersWithRole ::
    "(role_assignment, 'c) documents \<Rightarrow> string \<Rightarrow> string \<Rightarrow> 'c \<Rightarrow> role_assignment list" where
  "getUsersWithRole D roleId tenantId c =
     dc_find D (\<lambda>a. ra_role_id a = roleId \<and> ra_tenant_id a = tenantId) c"

definition hasRole ::
    "(role_assignment, 'c) documents \<Rightarrow> int \<Rightarrow> string \<Rightarrow> string \<Rightarrow> string \<Rightarrow> 'c \<Rightarrow> bool" where
  "hasRole D now userId roleId tenantId c \<longleftrightarrow>
     0 < dc_countDocuments D (\<lambda>a. assignment_of userId roleId tenantId a \<and> unexpired now (ra_expires_at a)) c"

section \<open>Permissions on a resource\<close>

record resource_permission =
  rp_user_id :: string
  rp_resource_type :: string
  rp_resource_id :: string
  rp_permissions :: "string list"
  rp_granted_by :: string
  rp_granted_at :: int
  rp_expires_at :: "int option"

record grant_params =
  gp_user_id :: string
  gp_resource_type :: string
  gp_resource_id :: string
  gp_permissions :: "string list"
  gp_granted_by :: string
  gp_expires_at :: "int option"

record revoke_params =
  vp_user_id :: string
  vp_resource_type :: string
  vp_resource_id :: string

record check_params =
  cp_user_id :: string
  cp_resource_type :: string
  cp_resource_id :: string
  cp_permission :: string

definition rp_for :: "string \<Rightarrow> string \<Rightarrow> string \<Rightarrow> resource_permission \<Rightarrow> bool" where
  "rp_for userId resourceType resourceId p \<longleftrightarrow>
     rp_user_id p = userId \<and> rp_resource_type p = resourceType \<and> rp_resource_id p = resourceId"

definition rp_grant :: "(resource_permission, 'c) documents \<Rightarrow> int \<Rightarrow> grant_params \<Rightarrow> 'c \<Rightarrow> 'c" where
  "rp_grant D now params c =
     (let permission = \<lparr>rp_user_id = gp_user_id params, rp_resource_type = gp_resource_type params,
           rp_resource_id = gp_resource_id params, rp_permissions = gp_permissions params,
           rp_granted_by = gp_granted_by params, rp_granted_at = now, rp_expires_at = gp_expires_at params\<rparr>
      in dc_upsertOne D (rp_for (gp_user_id params) (gp_resource_type params) (gp_resource_id params))
           (\<lambda>_. permission) permission c)"

definition rp_revoke :: "(resource_permission, 'c) documents \<Rightarrow> revoke_params \<Rightarrow> 'c \<Rightarrow> bool \<times> 'c" where
  "rp_revoke D params c =
     (case dc_deleteOne D (rp_for (vp_user_id params) (vp_resource_type params) (vp_resource_id params)) c of
        (n, c') \<Rightarrow> (0 < n, c'))"

definition rp_check :: "(resource_permission, 'c) documents \<Rightarrow> int \<Rightarrow> check_params \<Rightarrow> 'c \<Rightarrow> bool" where
  "rp_check D now params c \<longleftrightarrow>
     dc_findOne D (\<lambda>p. rp_for (cp_user_id params) (cp_resource_type params) (cp_resource_id params) p
       \<and> cp_permission params \<in> set (rp_permissions p) \<and> unexpired now (rp_expires_at p)) c \<noteq> None"

definition rp_getPermissions ::
    "(resource_permission, 'c) documents \<Rightarrow> int \<Rightarrow> string \<Rightarrow> string \<Rightarrow> string \<Rightarrow> 'c \<Rightarrow> string list" where
  "rp_getPermissions D now userId resourceType resourceId c =
     (case dc_findOne D (\<lambda>p. rp_for userId resourceType resourceId p \<and> unexpired now (rp_expires_at p)) c of
        None \<Rightarrow> [] | Some p \<Rightarrow> rp_permissions p)"

definition getResourceUsers ::
    "(resource_permission, 'c) documents \<Rightarrow> int \<Rightarrow> string \<Rightarrow> string \<Rightarrow> 'c \<Rightarrow> (string \<times> string list) list" where
  "getResourceUsers D now resourceType resourceId c =
     map (\<lambda>p. (rp_user_id p, rp_permissions p))
       (dc_find D (\<lambda>p. rp_resource_type p = resourceType \<and> rp_resource_id p = resourceId
          \<and> unexpired now (rp_expires_at p)) c)"

section \<open>Owner permissions and templates\<close>

definition OWNER_PERMISSIONS :: "(string, string list) jsmap" where
  "OWNER_PERMISSIONS = [
     (''message'', [''message.read'', ''message.update'', ''message.delete'']),
     (''conversation'', [''conversation.read'', ''conversation.update'', ''conversation.delete'',
        ''conversation.add_member'', ''conversation.remove_member'']),
     (''group'', [''group.read'', ''group.update'', ''group.delete'', ''group.invite'', ''group.kick'']),
     (''file'', [''file.download'', ''file.delete'', ''file.share''])]"

definition getOwnerPermissions :: "string \<Rightarrow> string list" where
  \<comment> \<open>own keys of the table; the names every object inherits (\<open>toString\<close>, ...) are left out\<close>
  "getOwnerPermissions resourceType = (case map_of OWNER_PERMISSIONS resourceType of None \<Rightarrow> [] | Some ps \<Rightarrow> ps)"

record permission_template =
  tp_name :: string
  tp_description :: string
  tp_permissions :: "string list"

definition PERMISSION_TEMPLATES :: "(string, permission_template) jsmap" where
  "PERMISSION_TEMPLATES = [
     (''reader'', \<lparr>tp_name = ''Reader'', tp_description = ''Read-only access'', tp_permissions = [''read'']\<rparr>),
     (''contributor'', \<lparr>tp_name = ''Contributor'', tp_description = ''Read and write access'',
        tp_permissions = [''read'', ''create'', ''update'']\<rparr>),
     (''admin'', \<lparr>tp_name = ''Administrator'', tp_description = ''Full access'',
        tp_permissions = [''read'', ''create'', ''update'', ''delete'', ''manage'']\<rparr>)]"

definition getTemplate :: "string \<Rightarrow> permission_template option" where
  \<comment> \<open>own keys of the table, as above\<close>
  "getTemplate name = map_of PERMISSION_TEMPLATES name"

section \<open>Tenant permission configuration\<close>

record time_restriction =
  tr_start_time :: string
  tr_end_time :: string
  tr_days :: "string list"

record restriction_rule =
  rr_name :: string
  rr_resource_type :: string
  rr_action :: string
  rr_requires_approval :: bool
  rr_time_restrictions :: "time_restriction option"

record stored_auto_rule =
  sr_name :: string
  sr_attribute :: string
  sr_operator :: string
  sr_value :: jsval
  sr_grant :: "string list"

text \<open>A stored document may lack fields: \<open>tp_updateConfig\<close> upserts with the fields it is given.\<close>

record permission_config =
  pc_tenant_id :: string
  pc_default_role :: "string option"
  pc_default_roles :: "string list option"
  pc_auto_permissions :: "stored_auto_rule list option"
  pc_restriction_rules :: "restriction_rule list option"
  pc_created_at :: "int option"
  pc_updated_at :: "int option"

definition getDefaultConfig :: "int \<Rightarrow> string \<Rightarrow> permission_config" where
  "getDefaultConfig now tenantId = \<lparr>pc_tenant_id = tenantId, pc_default_role = Some ''tenant_member'',
     pc_default_roles = Some [''tenant_member''], pc_auto_permissions = Some [],
     pc_restriction_rules = Some [], pc_created_at = Some now, pc_updated_at = Some now\<rparr>"

definition getConfig :: "(permission_config, 'c) documents \<Rightarrow> int \<Rightarrow> string \<Rightarrow> 'c \<Rightarrow> permission_config" where
  "getConfig D now tenantId c =
     (case dc_findOne D (\<lambda>p. pc_tenant_id p = tenantId) c of
        None \<Rightarrow> getDefaultConfig now tenantId
      | Some config \<Rightarrow> config)"

definition merge_config :: "permission_config \<Rightarrow> permission_config \<Rightarrow> permission_config" where
  \<comment> \<open>\<open>$set: { ...updates }\<close>: fields given replace, others stay\<close>
  "merge_config updates p = \<lparr>pc_tenant_id = pc_tenant_id p,
     pc_default_role = case_option (pc_default_role p) Some (pc_default_role updates),
     pc_default_roles = case_option (pc_default_roles p) Some (pc_default_roles updates),
     pc_auto_permissions = case_option (pc_auto_permissions p) Some (pc_auto_permissions updates),
     pc_restriction_rules = case_option (pc_restriction_rules p) Some (pc_restriction_rules updates),
     pc_created_at = case_option (pc_created_at p) Some (pc_created_at updates),
     pc_updated_at = case_option (pc_updated_at p) Some (pc_updated_at updates)\<rparr>"

definition tp_updateConfig ::
    "(permission_config, 'c) documents \<Rightarrow> int \<Rightarrow> string \<Rightarrow> permission_config \<Rightarrow> 'c \<Rightarrow> 'c" where
  \<comment> \<open>for updates that do not name a tenant\<close>
  "tp_updateConfig D now tenantId updates c =
     (let stamped = updates\<lparr>pc_tenant_id := tenantId, pc_updated_at := Some now\<rparr>
      in dc_upsertOne D (\<lambda>p. pc_tenant_id p = tenantId) (merge_config stamped) stamped c)"

definition getDefaultRoles :: "(permission_config, 'c) documents \<Rightarrow> int \<Rightarrow> string \<Rightarrow> 'c \<Rightarrow> string list" where
  "getDefaultRoles D now tenantId c =
     (case pc_default_roles (getConfig D now tenantId c) of None \<Rightarrow> [''tenant_member''] | Some rs \<Rightarrow> rs)"

definition setDefaultRoles :: "(permission_config, 'c) documents \<Rightarrow> int \<Rightarrow> string \<Rightarrow> string list \<Rightarrow> 'c \<Rightarrow> 'c" where
  "setDefaultRoles D now tenantId roles c = tp_updateConfig D now tenantId
     \<lparr>pc_tenant_id = tenantId, pc_default_role = None, pc_default_roles = Some roles,
      pc_auto_permissions = None, pc_restriction_rules = None, pc_created_at = None, pc_updated_at = None\<rparr> c"

section \<open>Automatic permission rules\<close>

text \<open>
  What the runtime gives: the text of a number or function (\<open>String(v)\<close>), the number a value
  that is none converts to, the hour and the day of the week.
\<close>

record rule_env =
  re_js :: js_env
  re_number_text :: "js_number \<Rightarrow> string"
  re_function_text :: "nat \<Rightarrow> string"
  re_to_number :: "jsval \<Rightarrow> js_number"
  re_hour :: nat
  re_day :: nat

datatype rule_condition =
  RuleCondition (rc_type: string) (rc_attribute: "string option") (rc_operator: "string option")
    (rc_value: jsval) (rc_conditions: "rule_condition list option") (rc_combinator: "string option")

record auto_permission_rule =
  ar_id :: string
  ar_name :: string
  ar_description :: string
  ar_condition :: rule_condition
  ar_grant :: "string list"
  ar_priority :: rat
  ar_is_active :: bool

record rule_context =
  rx_user_id :: string
  rx_user_attributes :: "jsval option"
  rx_user_roles :: "string list option"
  rx_resource_type :: "string option"
  rx_resource_attributes :: "jsval option"
  rx_tenant_id :: string

fun js_text :: "rule_env \<Rightarrow> jsval \<Rightarrow> string" where
  \<comment> \<open>\<open>String(v)\<close> of JSON values\<close>
  "js_text env JUndef = ''undefined''"
| "js_text env JNull = ''null''"
| "js_text env (JBool b) = (if b then ''true'' else ''false'')"
| "js_text env (JNum n) = re_number_text env n"
| "js_text env (JStr s) = s"
| "js_text env (JArr a xs) = str_join '','' (map (\<lambda>x. if x = JUndef \<or> x = JNull then [] else js_text env x) xs)"
| "js_text env (JObj a ps) = ''[object Object]''"
| "js_text env (JFun f) = re_function_text env f"

fun truthy :: "jsval \<Rightarrow> bool" where
  "truthy JUndef = False"
| "truthy JNull = False"
| "truthy (JBool b) = b"
| "truthy (JNum n) = (n \<noteq> NaN \<and> n \<noteq> Fin 0)"
| "truthy (JStr s) = (s \<noteq> [])"
| "truthy _ = True"

definition as_number :: "rule_env \<Rightarrow> jsval \<Rightarrow> js_number" where
  "as_number env v = (case v of JNum n \<Rightarrow> n | JUndef \<Rightarrow> NaN | _ \<Rightarrow> re_to_number env v)"

fun optional_prop :: "rule_env \<Rightarrow> jsval \<Rightarrow> string \<Rightarrow> jsval" where
  \<comment> \<open>\<open>v?.k\<close>\<close>
  "optional_prop env JUndef k = JUndef"
| "optional_prop env JNull k = JUndef"
| "optional_prop env v k = prop_or_undef (re_js env) v k"

fun iterate :: "jsval \<Rightarrow> string + jsval list" where
  \<comment> \<open>the elements an array pattern takes from a value\<close>
  "iterate (JArr a xs) = Inr xs"
| "iterate (JStr s) = Inr (map (\<lambda>c. JStr [c]) s)"
| "iterate _ = Inl ''TypeError: value is not iterable''"

definition nth_or_undef :: "jsval list \<Rightarrow> nat \<Rightarrow> jsval" where
  "nth_or_undef xs i = (if i < length xs then xs ! i else JUndef)"

definition evaluateUserAttribute :: "rule_env \<Rightarrow> rule_condition \<Rightarrow> rule_context \<Rightarrow> string + bool" where
  "evaluateUserAttribute env c x =
     (if \<not> truthy_str (rc_attribute c) \<or> rx_user_attributes x = None then Inr False
      else let userValue = prop_or_undef (re_js env) (the (rx_user_attributes x)) (the (rc_attribute c)) in
        if rc_operator c = Some ''equals'' then Inr (strict_eq userValue (rc_value c))
        else if rc_operator c = Some ''contains'' then
          Inr (str_includes (js_text env userValue) (js_text env (rc_value c)))
        else if rc_operator c = Some ''in'' then
          Inr (case js_array (rc_value c) of None \<Rightarrow> False | Some xs \<Rightarrow> arr_includes xs userValue)
        else if rc_operator c = Some ''matches'' then
          (case je_regex (re_js env) (if rc_value c = JUndef then [] else js_text env (rc_value c)) of
             None \<Rightarrow> Inl ''SyntaxError: Invalid regular expression''
           | Some test \<Rightarrow> Inr (test (js_text env userValue)))
        else Inr False)"

definition evaluateUserRole :: "rule_condition \<Rightarrow> rule_context \<Rightarrow> bool" where
  "evaluateUserRole c x =
     (case rx_user_roles x of
        None \<Rightarrow> False
      | Some roles \<Rightarrow>
          if rc_operator c = Some ''in'' \<and> js_array (rc_value c) \<noteq> None
          then list_ex (\<lambda>role. arr_includes (map JStr roles) role) (the (js_array (rc_value c)))
          else arr_includes (map JStr roles) (rc_value c))"

definition evaluateResourceAttribute :: "rule_env \<Rightarrow> rule_condition \<Rightarrow> rule_context \<Rightarrow> bool" where
  "evaluateResourceAttribute env c x =
     (if \<not> truthy_str (rc_attribute c) \<or> rx_resource_attributes x = None then False
      else let resourceValue = prop_or_undef (re_js env) (the (rx_resource_attributes x)) (the (rc_attribute c)) in
        if rc_operator c = Some ''equals'' then strict_eq resourceValue (rc_value c)
        else if rc_operator c = Some ''contains'' then
          str_includes (js_text env resourceValue) (js_text env (rc_value c))
        else False)"

definition outside_hours :: "rule_env \<Rightarrow> jsval list \<Rightarrow> bool" where
  \<comment> \<open>\<open>currentHour < startHour || currentHour >= endHour\<close>\<close>
  "outside_hours env hours =
     (let hour = Fin (of_nat (re_hour env)) in
      num_less hour (as_number env (nth_or_undef hours 0))
      \<or> num_le (as_number env (nth_or_undef hours 1)) hour)"

definition within_days :: "rule_env \<Rightarrow> jsval \<Rightarrow> string + bool" where
  "within_days env days = (case days of
     JArr a xs \<Rightarrow> Inr (arr_includes xs (JNum (Fin (of_nat (re_day env)))))
   | JStr s \<Rightarrow> Inr (str_includes s (show_nat (re_day env)))
   | _ \<Rightarrow> Inl ''TypeError: includes is not a function'')"

definition evaluateTimeBased :: "rule_env \<Rightarrow> rule_condition \<Rightarrow> string + bool" where
  "evaluateTimeBased env c =
     (let hours = optional_prop env (rc_value c) ''hours''; days = optional_prop env (rc_value c) ''days'' in
      case (if truthy hours then (case iterate hours of Inl e \<Rightarrow> Inl e | Inr xs \<Rightarrow> Inr (outside_hours env xs))
            else Inr False) of
        Inl e \<Rightarrow> Inl e
      | Inr True \<Rightarrow> Inr False
      | Inr False \<Rightarrow> if truthy days then within_days env days else Inr True)"

fun collect_results :: "(string + bool) list \<Rightarrow> string + bool list" where
  \<comment> \<open>\<open>conditions.map\<close>: the first exception ends it\<close>
  "collect_results [] = Inr []"
| "collect_results (Inl e # rs) = Inl e"
| "collect_results (Inr b # rs) = (case collect_results rs of Inl e \<Rightarrow> Inl e | Inr bs \<Rightarrow> Inr (b # bs))"

fun evaluateCondition :: "rule_env \<Rightarrow> rule_condition \<Rightarrow> rule_context \<Rightarrow> string + bool" where
  "evaluateCondition env (RuleCondition t attribute operator v conditions combinator) x =
     (let c = RuleCondition t attribute operator v conditions combinator in
      if t = ''user_attribute'' then evaluateUserAttribute env c x
      else if t = ''user_role'' then Inr (evaluateUserRole c x)
      else if t = ''resource_attribute'' then Inr (evaluateResourceAttribute env c x)
      else if t = ''time_based'' then evaluateTimeBased env c
      else if t = ''composite'' then
        (case conditions of
           None \<Rightarrow> Inr False
         | Some [] \<Rightarrow> Inr False
         | Some cs \<Rightarrow> (case collect_results (map (\<lambda>d. evaluateCondition env d x) cs) of
             Inl e \<Rightarrow> Inl e
           | Inr results \<Rightarrow> Inr (if combinator = Some ''or'' then list_ex id results else list_all id results)))
      else Inr False)"

definition evaluateRule :: "rule_env \<Rightarrow> auto_permission_rule \<Rightarrow> rule_context \<Rightarrow> string + bool" where
  "evaluateRule env rule x =
     (if \<not> ar_is_active rule then Inr False else evaluateCondition env (ar_condition rule) x)"

fun grant_loop :: "rule_env \<Rightarrow> auto_permission_rule list \<Rightarrow> rule_context \<Rightarrow> string list \<Rightarrow> string + string list" where
  "grant_loop env [] x permissions = Inr permissions"
| "grant_loop env (rule # rules) x permissions =
     (case evaluateRule env rule x of
        Inl e \<Rightarrow> Inl e
      | Inr applies \<Rightarrow> grant_loop env rules x
          (if applies then set_addAll (ar_grant rule) permissions else permissions))"

definition getAutoGrantedPermissions ::
    "rule_env \<Rightarrow> auto_permission_rule list \<Rightarrow> rule_context \<Rightarrow> string + string list" where
  "getAutoGrantedPermissions env rules x = grant_loop env (sort_key (\<lambda>r. - ar_priority r) rules) x []"

section \<open>What is granted\<close>

lemma grant_loop_Inr:
  "grant_loop env rules x acc = Inr ps \<Longrightarrow>
     set ps = set acc \<union> (\<Union>r \<in> {r \<in> set rules. evaluateRule env r x = Inr True}. set (ar_grant r))
     \<and> (\<forall>r \<in> set rules. \<exists>b. evaluateRule env r x = Inr b) \<and> (distinct acc \<longrightarrow> distinct ps)"
proof (induction rules arbitrary: acc)
  case (Cons r rules)
  then obtain b where b: "evaluateRule env r x = Inr b" by (auto split: sum.splits)
  with Cons.prems have "grant_loop env rules x (if b then set_addAll (ar_grant r) acc else acc) = Inr ps" by simp
  from Cons.IH [OF this] b show ?case by (cases b) auto
qed auto

lemma grant_loop_Inl:
  "(\<exists>e. grant_loop env rules x acc = Inl e) \<longleftrightarrow> (\<exists>r \<in> set rules. \<exists>e. evaluateRule env r x = Inl e)"
  by (induction rules arbitrary: acc) (auto split: sum.split)

text \<open>
  Automatic rules grant exactly what the applying rules list, each permission once and
  whatever the priorities; but if the evaluation of a single rule throws (an invalid pattern),
  the whole call throws and nothing is granted.
\<close>
lemma auto_permissions_granted:
  "(getAutoGrantedPermissions env rules x = Inr ps \<longrightarrow>
     set ps = (\<Union>r \<in> {r \<in> set rules. evaluateRule env r x = Inr True}. set (ar_grant r)) \<and> distinct ps)
   \<and> ((\<exists>e. getAutoGrantedPermissions env rules x = Inl e)
     \<longleftrightarrow> (\<exists>r \<in> set rules. \<exists>e. evaluateRule env r x = Inl e))"
  using grant_loop_Inr [of env "sort_key (\<lambda>r. - ar_priority r) rules" x "[]" ps]
    grant_loop_Inl [of env "sort_key (\<lambda>r. - ar_priority r) rules" x "[]"]
  by (simp_all add: getAutoGrantedPermissions_def)

lemma overnight_hours_never:
  assumes "optional_prop env (rc_value c) ''hours'' = JArr a [JNum (Fin start), JNum (Fin end_hour)]" "end_hour \<le> start"
  shows "evaluateTimeBased env c = Inr False"
proof -
  have "outside_hours env [JNum (Fin start), JNum (Fin end_hour)]"
    using assms(2) by (auto simp: outside_hours_def nth_or_undef_def as_number_def num_le_def)
  then show ?thesis by (simp add: evaluateTimeBased_def assms(1) Let_def)
qed

section \<open>Assignments and revocation\<close>

definition times_assigned :: "(role_assignment, 'c) documents \<Rightarrow> string \<Rightarrow> string \<Rightarrow> string \<Rightarrow> 'c \<Rightarrow> nat" where
  "times_assigned D u r t c = dc_countDocuments D (assignment_of u r t) c"

context document_store
begin

lemma positive_count: "0 < dc_countDocuments D P c \<longleftrightarrow> (\<exists>x \<in># contents D c. P x)"
  unfolding count_find by (auto simp: nonempty_has_size [symmetric] filter_mset_eq_conv)

lemma deleted_count: "0 < fst (dc_deleteOne D P c) \<longleftrightarrow> (\<exists>x \<in># contents D c. P x)"
  using delete_absent [of c P] delete_present [of c P] by (metis less_irrefl zero_less_one)

lemma double_insert_survives:
  "x \<in># contents D (snd (dc_deleteOne D P (dc_insertOne D x (dc_insertOne D x c))))"
proof (cases "\<exists>y \<in># contents D (dc_insertOne D x (dc_insertOne D x c)). P y")
  case True
  then obtain y where "contents D (snd (dc_deleteOne D P (dc_insertOne D x (dc_insertOne D x c))))
      = contents D (dc_insertOne D x (dc_insertOne D x c)) - {#y#}"
    using delete_present by blast
  then have "contents D (snd (dc_deleteOne D P (dc_insertOne D x (dc_insertOne D x c))))
      = add_mset x (add_mset x (contents D c)) - {#y#}" by (simp add: insertOne)
  then show ?thesis by (cases "x = y") (auto simp: in_diff_count)
next
  case False
  then show ?thesis using delete_absent [of "dc_insertOne D x (dc_insertOne D x c)" P] by (auto simp: insertOne)
qed

end

text \<open>
  Assigning a role adds an assignment and revoking it removes one, so a role assigned twice
  to a user is still held after it has been revoked.
\<close>
lemma revoke_removes_one_assignment:
  assumes "document_store D"
  shows "times_assigned D u r t (snd (ra_assign D a c))
      = (if assignment_of u r t a then 1 else 0) + times_assigned D u r t c
    \<and> times_assigned D u r t (snd (ra_revoke D u r t c)) = times_assigned D u r t c - 1
    \<and> (fst (ra_revoke D u r t c) \<longleftrightarrow> 0 < times_assigned D u r t c)
    \<and> (assignment_of u r t a \<and> unexpired now (ra_expires_at a)
      \<longrightarrow> hasRole D now u r t (snd (ra_revoke D u r t (snd (ra_assign D a (snd (ra_assign D a c)))))))"
proof (intro conjI)
  show "times_assigned D u r t (snd (ra_assign D a c))
      = (if assignment_of u r t a then 1 else 0) + times_assigned D u r t c"
    by (simp add: times_assigned_def ra_assign_def document_store.count_insert [OF assms])
  show "times_assigned D u r t (snd (ra_revoke D u r t c)) = times_assigned D u r t c - 1"
    by (simp add: times_assigned_def ra_revoke_def case_prod_unfold document_store.count_delete [OF assms])
  show "fst (ra_revoke D u r t c) \<longleftrightarrow> 0 < times_assigned D u r t c"
    by (simp add: times_assigned_def ra_revoke_def case_prod_unfold
        document_store.deleted_count [OF assms] document_store.positive_count [OF assms])
  show "assignment_of u r t a \<and> unexpired now (ra_expires_at a)
      \<longrightarrow> hasRole D now u r t (snd (ra_revoke D u r t (snd (ra_assign D a (snd (ra_assign D a c))))))"
    using document_store.double_insert_survives [OF assms, of a "assignment_of u r t" c]
    by (auto simp: hasRole_def ra_revoke_def ra_assign_def case_prod_unfold document_store.positive_count [OF assms])
qed

definition sample_assignment :: role_assignment where
  "sample_assignment = \<lparr>ra_user_id = ''u'', ra_role_id = ''moderator'', ra_tenant_id = ''t'',
     ra_scope = GlobalAssignment, ra_resource_type = None, ra_resource_id = None,
     ra_expires_at = None, ra_granted_by = ''admin'', ra_granted_at = 0\<rparr>"

lemma revoke_removes_one_assignment_example:
  "hasRole list_documents 5 ''u'' ''moderator'' ''t'' (snd (ra_revoke list_documents ''u'' ''moderator'' ''t''
     (snd (ra_assign list_documents sample_assignment (snd (ra_assign list_documents sample_assignment []))))))"
  using revoke_removes_one_assignment [OF ld.document_store_axioms, of "''u''" "''moderator''" "''t''" sample_assignment "[]" 5]
  by (simp add: sample_assignment_def assignment_of_def unexpired_def)

section \<open>Resource permissions over a run\<close>

datatype resource_op = RpGrant int grant_params | RpRevoke revoke_params

fun resource_step :: "(resource_permission, 'c) documents \<Rightarrow> resource_op \<Rightarrow> 'c \<Rightarrow> 'c" where
  "resource_step D (RpGrant now params) c = rp_grant D now params c"
| "resource_step D (RpRevoke params) c = snd (rp_revoke D params c)"

fun op_key :: "resource_op \<Rightarrow> string \<times> string \<times> string" where
  "op_key (RpGrant now params) = (gp_user_id params, gp_resource_type params, gp_resource_id params)"
| "op_key (RpRevoke params) = (vp_user_id params, vp_resource_type params, vp_resource_id params)"

definition rp_key :: "resource_permission \<Rightarrow> string \<times> string \<times> string" where
  "rp_key p = (rp_user_id p, rp_resource_type p, rp_resource_id p)"

lemma rp_for_key: "rp_for u t i p \<longleftrightarrow> rp_key p = (u, t, i)"
  by (auto simp: rp_for_def rp_key_def)

definition entries :: "(resource_permission, 'c) documents \<Rightarrow> string \<times> string \<times> string \<Rightarrow> 'c \<Rightarrow> resource_permission multiset" where
  "entries D k c = filter_mset (\<lambda>p. rp_key p = k) (contents D c)"

lemma entries_upsert_other:
  assumes "document_store D" "\<And>p. P p \<Longrightarrow> rp_key p \<noteq> k" "\<And>p. rp_key (f p) \<noteq> k" "rp_key d \<noteq> k"
  shows "entries D k (dc_upsertOne D P f d c) = entries D k c"
proof (cases "\<exists>x \<in># contents D c. P x")
  case True
  then obtain x where x: "x \<in># contents D c" "P x"
      "contents D (dc_upsertOne D P f d c) = add_mset (f x) (contents D c - {#x#})"
    using document_store.upsert_present [OF assms(1) True] by blast
  have "filter_mset (\<lambda>p. rp_key p = k) (contents D c - {#x#}) = filter_mset (\<lambda>p. rp_key p = k) (contents D c)"
    using assms(2) [OF x(2)] by simp
  with x(3) assms(3) show ?thesis by (simp add: entries_def)
next
  case False
  then show ?thesis
    using document_store.upsert_absent [OF assms(1), of c P f d] assms(4) by (auto simp: entries_def)
qed

lemma entries_delete_other:
  assumes "document_store D" "\<And>p. P p \<Longrightarrow> rp_key p \<noteq> k"
  shows "entries D k (snd (dc_deleteOne D P c)) = entries D k c"
proof (cases "\<exists>x \<in># contents D c. P x")
  case True
  then obtain x where "P x" "contents D (snd (dc_deleteOne D P c)) = contents D c - {#x#}"
    using document_store.delete_present [OF assms(1) True] by blast
  then show ?thesis using assms(2) by (simp add: entries_def)
next
  case False
  then show ?thesis using document_store.delete_absent [OF assms(1), of c P] by (auto simp: entries_def)
qed

lemma step_frame:
  assumes "document_store D" "op_key op \<noteq> k"
  shows "entries D k (resource_step D op c) = entries D k c"
proof (cases op)
  case (RpGrant now params)
  with assms show ?thesis
    by (auto simp: rp_grant_def Let_def rp_for_key rp_key_def intro!: entries_upsert_other)
next
  case (RpRevoke params)
  with assms show ?thesis
    by (auto simp: rp_revoke_def case_prod_unfold rp_for_key intro!: entries_delete_other)
qed

lemma run_frame:
  assumes "document_store D"
  shows "\<forall>op \<in> set ops. op_key op \<noteq> k \<Longrightarrow> entries D k (fold (resource_step D) ops c) = entries D k c"
  by (induction ops arbitrary: c) (simp_all add: step_frame [OF assms])

lemma checked_entry:
  assumes "document_store D"
  shows "rp_check D now q c \<longleftrightarrow> (\<exists>p \<in># entries D (cp_user_id q, cp_resource_type q, cp_resource_id q) c.
      cp_permission q \<in> set (rp_permissions p) \<and> unexpired now (rp_expires_at p))"
  by (auto simp: rp_check_def document_store.findOne_None [OF assms] entries_def rp_for_key)

lemma granted_entry:
  assumes "document_store D" "size (entries D (gp_user_id g, gp_resource_type g, gp_resource_id g) c) \<le> 1"
  shows "entries D (gp_user_id g, gp_resource_type g, gp_resource_id g) (rp_grant D now g c)
      = {# \<lparr>rp_user_id = gp_user_id g, rp_resource_type = gp_resource_type g,
           rp_resource_id = gp_resource_id g, rp_permissions = gp_permissions g,
           rp_granted_by = gp_granted_by g, rp_granted_at = now, rp_expires_at = gp_expires_at g\<rparr> #}"
    (is "entries D ?k _ = {# ?p #}")
proof -
  let ?P = "rp_for (gp_user_id g) (gp_resource_type g) (gp_resource_id g)"
  have P: "?P p \<longleftrightarrow> rp_key p = ?k" for p by (simp add: rp_for_key)
  have k: "rp_key ?p = ?k" by (simp add: rp_key_def)
  show ?thesis
  proof (cases "\<exists>x \<in># contents D c. ?P x")
    case True
    then obtain x where x: "x \<in># contents D c" "?P x"
        "contents D (rp_grant D now g c) = add_mset ?p (contents D c - {#x#})"
      using document_store.upsert_present [OF assms(1) True] unfolding rp_grant_def Let_def by blast
    then have "x \<in># entries D ?k c" by (simp add: entries_def P)
    then obtain M where "entries D ?k c = add_mset x M" by (blast dest: multi_member_split)
    with assms(2) have "entries D ?k c = {#x#}" by simp
    with x P k show ?thesis by (simp add: entries_def)
  next
    case False
    then have "contents D (rp_grant D now g c) = add_mset ?p (contents D c)"
      using document_store.upsert_absent [OF assms(1)] unfolding rp_grant_def Let_def by blast
    moreover have "filter_mset (\<lambda>p. rp_key p = ?k) (contents D c) = {#}"
      using False unfolding P by (metis (mono_tags, lifting) filter_mset_False filter_mset_cong0)
    ultimately show ?thesis using k by (simp add: entries_def)
  qed
qed

lemma revoked_entry:
  assumes "document_store D" "size (entries D (vp_user_id v, vp_resource_type v, vp_resource_id v) c) \<le> 1"
  shows "entries D (vp_user_id v, vp_resource_type v, vp_resource_id v) (snd (rp_revoke D v c)) = {#}"
    (is "entries D ?k _ = _")
proof -
  have "size (entries D ?k (snd (rp_revoke D v c))) = size (entries D ?k c) - 1"
    using document_store.count_delete [OF assms(1), of "\<lambda>p. rp_key p = ?k" c]
    by (simp add: document_store.count_find [OF assms(1)] rp_revoke_def case_prod_unfold rp_for_key [abs_def] entries_def)
  with assms(2) show ?thesis by (metis diff_is_0_eq size_eq_0_iff_empty)
qed

text \<open>
  After a grant, and whatever is granted and revoked for other users and resources in
  between, a check succeeds exactly for the permissions of that grant until it expires; after
  a revocation no check succeeds. A grant replaces the permissions granted before.
\<close>
lemma resource_grant_is_checked:
  assumes "document_store D"
    and "\<And>k. size (entries D k c) \<le> 1"
    and "\<forall>op \<in> set ops. op_key op \<noteq> (gp_user_id g, gp_resource_type g, gp_resource_id g)"
    and "cp_user_id q = gp_user_id g" "cp_resource_type q = gp_resource_type g" "cp_resource_id q = gp_resource_id g"
  shows "(rp_check D now' q (fold (resource_step D) ops (rp_grant D now g c))
      \<longleftrightarrow> cp_permission q \<in> set (gp_permissions g) \<and> unexpired now' (gp_expires_at g))
    \<and> \<not> rp_check D now' q (fold (resource_step D) ops (snd (rp_revoke D
        \<lparr>vp_user_id = gp_user_id g, vp_resource_type = gp_resource_type g, vp_resource_id = gp_resource_id g\<rparr> c)))"
  using revoked_entry [OF assms(1), of "\<lparr>vp_user_id = gp_user_id g, vp_resource_type = gp_resource_type g, vp_resource_id = gp_resource_id g\<rparr>" c]
  unfolding checked_entry [OF assms(1)] assms(4-) run_frame [OF assms(1,3)] granted_entry [OF assms(1,2), of g now]
  by (simp_all add: assms(2) del: One_nat_def)

definition sample_grant :: grant_params where
  "sample_grant = \<lparr>gp_user_id = ''u'', gp_resource_type = ''file'', gp_resource_id = ''f1'',
     gp_permissions = [''file.share''], gp_granted_by = ''admin'', gp_expires_at = Some 100\<rparr>"

lemma resource_grant_is_checked_example:
  "rp_check list_documents 50 \<lparr>cp_user_id = ''u'', cp_resource_type = ''file'', cp_resource_id = ''f1'', cp_permission = ''file.share''\<rparr>
     (fold (resource_step list_documents)
       [RpRevoke \<lparr>vp_user_id = ''v'', vp_resource_type = ''file'', vp_resource_id = ''f1''\<rparr>,
        RpGrant 20 (sample_grant\<lparr>gp_resource_id := ''f2''\<rparr>)]
       (rp_grant list_documents 10 sample_grant []))"
proof -
  have none: "size (entries list_documents k []) \<le> 1" for k
    by (simp add: entries_def contents_def list_documents_def)
  show ?thesis
    by (subst resource_grant_is_checked [OF ld.document_store_axioms none, THEN conjunct1])
      (simp_all add: sample_grant_def unexpired_def)
qed

definition sample_rule :: "string \<Rightarrow> rat \<Rightarrow> string list \<Rightarrow> auto_permission_rule" where
  "sample_rule role p grants = \<lparr>ar_id = role, ar_name = role, ar_description = [],
     ar_condition = RuleCondition ''user_role'' None None (JStr role) None None,
     ar_grant = grants, ar_priority = p, ar_is_active = True\<rparr>"

definition sample_rules :: "auto_permission_rule list" where
  "sample_rules = [sample_rule ''editor'' 1 [''file.share'', ''file.upload''], sample_rule ''guest'' 2 [''file.delete'']]"

definition editor_context :: rule_context where
  "editor_context = \<lparr>rx_user_id = ''u'', rx_user_attributes = None, rx_user_roles = Some [''editor''],
     rx_resource_type = None, rx_resource_attributes = None, rx_tenant_id = ''t''\<rparr>"

lemma auto_permissions_granted_example:
  "\<forall>env. (\<Union>r \<in> {r \<in> set sample_rules. evaluateRule env r editor_context = Inr True}. set (ar_grant r))
     = {''file.share'', ''file.upload''}"
proof
  fix env
  have "getAutoGrantedPermissions env sample_rules editor_context = Inr [''file.share'', ''file.upload'']"
    by (simp add: getAutoGrantedPermissions_def sample_rules_def sample_rule_def editor_context_def evaluateRule_def
        evaluateUserRole_def arr_includes_def same_value_zero_def set_addAll_def set_add_def Let_def)
  with auto_permissions_granted [of env sample_rules editor_context "[''file.share'', ''file.upload'']"]
  show "(\<Union>r \<in> {r \<in> set sample_rules. evaluateRule env r editor_context = Inr True}. set (ar_grant r))
     = {''file.share'', ''file.upload''}" by auto
qed

end
