(* ===== verification/AuthzCache.thy ===== *)
theory AuthzCache
  imports AuthzEngine
begin

text \<open>
  The decision cache of the auth service (services/auth-service/src/authorization/cache): the
  in-memory LRU level (lru-cache.ts), the two-level cache over it (decision-cache.ts), the
  invalidation events (invalidation-strategy.ts) and the metrics (cache-metrics.ts). The second
  level is a Redis client, a parameter whose commands may fail; a stored JSON text is
  represented by the value it denotes. Times are milliseconds, lifetimes seconds.
\<close>

section \<open>LRU level\<close>

record 'v lru_cache =
  lc_cache :: "(string, 'v \<times> int) jsmap"
  lc_maxSize :: int

definition new_LRUCache :: "int \<Rightarrow> 'v lru_cache" where
  "new_LRUCache maxSize = \<lparr>lc_cache = [], lc_maxSize = maxSize\<rparr>"

definition lru_get :: "int \<Rightarrow> string \<Rightarrow> 'v lru_cache \<Rightarrow> 'v option \<times> 'v lru_cache" where
  "lru_get now key lc =
     (case map_of (lc_cache lc) key of
        None \<Rightarrow> (None, lc)
      | Some (value, t) \<Rightarrow>
          (Some value, lc\<lparr>lc_cache := AList.delete key (lc_cache lc) @ [(key, value, now)]\<rparr>))"

definition evict_oldest :: "int \<Rightarrow> (string, 'v \<times> int) jsmap \<Rightarrow> (string, 'v \<times> int) jsmap" where
  \<comment> \<open>with nothing cached, \<open>keys().next().value\<close> is undefined and nothing is deleted\<close>
  "evict_oldest maxSize m =
     (if maxSize \<le> int (length m) then (case m of [] \<Rightarrow> [] | (firstKey, e) # rest \<Rightarrow> AList.delete firstKey m)
      else m)"

definition lru_set :: "int \<Rightarrow> string \<Rightarrow> 'v \<Rightarrow> 'v lru_cache \<Rightarrow> 'v lru_cache" where
  "lru_set now key value lc =
     (let m = (if map_has (lc_cache lc) key then AList.delete key (lc_cache lc) else lc_cache lc)
      in lc\<lparr>lc_cache := evict_oldest (lc_maxSize lc) m @ [(key, value, now)]\<rparr>)"

definition lru_delete :: "string \<Rightarrow> 'v lru_cache \<Rightarrow> bool \<times> 'v lru_cache" where
  "lru_delete key lc = (map_has (lc_cache lc) key, lc\<lparr>lc_cache := AList.delete key (lc_cache lc)\<rparr>)"

definition lru_clear :: "'v lru_cache \<Rightarrow> 'v lru_cache" where
  "lru_clear lc = lc\<lparr>lc_cache := []\<rparr>"

definition lru_size :: "'v lru_cache \<Rightarrow> nat" where
  "lru_size lc = length (lc_cache lc)"

definition lru_has :: "string \<Rightarrow> 'v lru_cache \<Rightarrow> bool" where
  "lru_has key lc = map_has (lc_cache lc) key"

definition lru_keys :: "'v lru_cache \<Rightarrow> string list" where
  "lru_keys lc = map fst (lc_cache lc)"

section \<open>Decision cache\<close>

record cache_key_components =
  kc_tenantId :: string
  kc_userId :: string
  kc_resourceType :: string
  kc_resourceId :: "string option"
  kc_action :: string

record cached_decision =
  cd_decision :: policy_decision
  cd_cached_at :: int
  cd_ttl :: rat

record cache_stats =
  cs_hits :: nat
  cs_misses :: nat
  cs_hit_rate :: rat
  cs_total_requests :: nat
  cs_avg_lookup_time_ms :: rat

text \<open>The commands of the injected Redis client; \<open>Inl\<close> is a rejected command.\<close>

record 's l2_client =
  l2_get :: "int \<Rightarrow> string \<Rightarrow> 's \<Rightarrow> string + cached_decision option"
  l2_setex :: "int \<Rightarrow> string \<Rightarrow> rat \<Rightarrow> cached_decision \<Rightarrow> 's \<Rightarrow> (string + unit) \<times> 's"
  l2_keys :: "int \<Rightarrow> string \<Rightarrow> 's \<Rightarrow> string + string list"
  l2_del :: "string list \<Rightarrow> 's \<Rightarrow> (string + nat) \<times> 's"

record decision_cache =
  dk_l1Cache :: "cached_decision lru_cache"
  dk_stats :: cache_stats
  dk_defaultTTL :: rat

definition zero_stats :: cache_stats where
  "zero_stats = \<lparr>cs_hits = 0, cs_misses = 0, cs_hit_rate = 0, cs_total_requests = 0, cs_avg_lookup_time_ms = 0\<rparr>"

definition new_DecisionCache :: "int \<Rightarrow> rat \<Rightarrow> decision_cache" where
  "new_DecisionCache l1MaxSize defaultTTL =
     \<lparr>dk_l1Cache = new_LRUCache l1MaxSize, dk_stats = zero_stats, dk_defaultTTL = defaultTTL\<rparr>"

definition or_star :: "string option \<Rightarrow> string" where
  "or_star s = (if truthy_str s then the s else ''*'')"

definition generateKey :: "cache_key_components \<Rightarrow> string" where
  "generateKey k = ''authz:'' @ kc_tenantId k @ '':'' @ kc_userId k @ '':'' @ kc_resourceType k @ '':''
     @ or_star (kc_resourceId k) @ '':'' @ kc_action k"

record invalidation_pattern =
  ip_tenantId :: "string option"
  ip_userId :: "string option"
  ip_resourceType :: "string option"
  ip_resourceId :: "string option"

definition generatePatternKey :: "invalidation_pattern \<Rightarrow> string" where
  "generatePatternKey p = str_join '':'' [''authz'', or_star (ip_tenantId p), or_star (ip_userId p),
     or_star (ip_resourceType p), or_star (ip_resourceId p)]"

definition isExpired :: "int \<Rightarrow> cached_decision \<Rightarrow> bool" where
  "isExpired now cached \<longleftrightarrow> cd_ttl cached < of_int (now - cd_cached_at cached) / 1000"

definition updateStats :: "int \<Rightarrow> cache_stats \<Rightarrow> cache_stats" where
  "updateStats lookupTime s =
     (let totalTime = cs_avg_lookup_time_ms s * of_int (int (cs_total_requests s) - 1)
      in s\<lparr>cs_avg_lookup_time_ms := (totalTime + of_int lookupTime) / of_nat (cs_total_requests s)\<rparr>)"

text \<open>
  A lookup reads the clock at its start, for the expiry check of each level and at its end;
  these readings are the arguments \<open>start\<close>, \<open>now1\<close>, \<open>now2\<close> and \<open>end\<close>.
\<close>

record lookup_times =
  lt_start :: int
  lt_now1 :: int
  lt_now2 :: int
  lt_end :: int

definition finish_lookup :: "lookup_times \<Rightarrow> bool \<Rightarrow> decision_cache \<Rightarrow> decision_cache" where
  "finish_lookup ts hit dk = dk\<lparr>dk_stats := updateStats (lt_end ts - lt_start ts)
     (if hit then (dk_stats dk)\<lparr>cs_hits := cs_hits (dk_stats dk) + 1\<rparr>
      else (dk_stats dk)\<lparr>cs_misses := cs_misses (dk_stats dk) + 1\<rparr>)\<rparr>"

definition l2_lookup :: "'s l2_client option \<Rightarrow> int \<Rightarrow> string \<Rightarrow> 's \<Rightarrow> cached_decision option" where
  \<comment> \<open>what the second level contributes: a rejected command is logged and counts as nothing found\<close>
  "l2_lookup L2 now key s =
     (case L2 of
        None \<Rightarrow> None
      | Some client \<Rightarrow> (case l2_get client now key s of
          Inl e \<Rightarrow> None
        | Inr None \<Rightarrow> None
        | Inr (Some cached) \<Rightarrow> if isExpired now cached then None else Some cached))"

definition dk_get ::
    "'s l2_client option \<Rightarrow> lookup_times \<Rightarrow> cache_key_components \<Rightarrow> 's \<Rightarrow> decision_cache
     \<Rightarrow> policy_decision option \<times> decision_cache" where
  "dk_get L2 ts components s dk =
     (let dk0 = dk\<lparr>dk_stats := (dk_stats dk)\<lparr>cs_total_requests := cs_total_requests (dk_stats dk) + 1\<rparr>\<rparr>;
          key = generateKey components;
          l1 = lru_get (lt_now1 ts) key (dk_l1Cache dk0);
          dk1 = dk0\<lparr>dk_l1Cache := snd l1\<rparr>
      in case (case fst l1 of None \<Rightarrow> None
               | Some cached \<Rightarrow> if isExpired (lt_now1 ts) cached then None else Some cached) of
           Some cached \<Rightarrow> (Some (cd_decision cached), finish_lookup ts True dk1)
         | None \<Rightarrow> (case l2_lookup L2 (lt_now2 ts) key s of
             Some cached \<Rightarrow> (Some (cd_decision cached), finish_lookup ts True
               (dk1\<lparr>dk_l1Cache := lru_set (lt_now2 ts) key cached (dk_l1Cache dk1)\<rparr>))
           | None \<Rightarrow> (None, finish_lookup ts False dk1)))"

definition dk_set ::
    "'s l2_client option \<Rightarrow> int \<Rightarrow> cache_key_components \<Rightarrow> policy_decision \<Rightarrow> rat option \<Rightarrow> 's \<Rightarrow> decision_cache
     \<Rightarrow> 's \<times> decision_cache" where
  "dk_set L2 now components decision ttl s dk =
     (let key = generateKey components;
          cached = \<lparr>cd_decision = decision, cd_cached_at = now,
            cd_ttl = (case ttl of None \<Rightarrow> dk_defaultTTL dk | Some t \<Rightarrow> if t = 0 then dk_defaultTTL dk else t)\<rparr>;
          dk' = dk\<lparr>dk_l1Cache := lru_set now key cached (dk_l1Cache dk)\<rparr>
      in case L2 of
           None \<Rightarrow> (s, dk')
         | Some client \<Rightarrow> (snd (l2_setex client now key (cd_ttl cached) cached s), dk'))"

definition dk_invalidate ::
    "'s l2_client option \<Rightarrow> int \<Rightarrow> invalidation_pattern option \<Rightarrow> 's \<Rightarrow> decision_cache \<Rightarrow> 's \<times> decision_cache" where
  "dk_invalidate L2 now pattern s dk =
     (let dk' = dk\<lparr>dk_l1Cache := lru_clear (dk_l1Cache dk)\<rparr> in
      case pattern of
        None \<Rightarrow> (s, dk')
      | Some p \<Rightarrow> (case L2 of
          None \<Rightarrow> (s, dk')
        | Some client \<Rightarrow> (case l2_keys client now (generatePatternKey p @ ''*'') s of
            Inl e \<Rightarrow> (s, dk')
          | Inr ks \<Rightarrow> if 0 < length ks then (snd (l2_del client ks s), dk') else (s, dk'))))"

definition dk_getStats :: "decision_cache \<Rightarrow> cache_stats \<times> decision_cache" where
  "dk_getStats dk =
     (let s = (dk_stats dk)\<lparr>cs_hit_rate := (if 0 < cs_total_requests (dk_stats dk)
          then of_nat (cs_hits (dk_stats dk)) / of_nat (cs_total_requests (dk_stats dk)) else 0)\<rparr>
      in (s, dk\<lparr>dk_stats := s\<rparr>))"

definition dk_resetStats :: "decision_cache \<Rightarrow> decision_cache" where
  "dk_resetStats dk = dk\<lparr>dk_stats := zero_stats\<rparr>"

section \<open>Invalidation events\<close>

datatype invalidation_type = PolicyEvent | RoleEvent | PermissionEvent | UserEvent | ResourceEvent

record invalidation_event =
  ie_type :: invalidation_type
  ie_tenant_id :: "string option"
  ie_user_id :: "string option"
  ie_resource_type :: "string option"
  ie_resource_id :: "string option"
  ie_timestamp :: int

record invalidation_message =
  im_topic :: string
  im_key :: string
  im_value :: invalidation_event
  im_timestamp :: string

text \<open>The producer is a parameter: sending a message succeeds or is rejected.\<close>

type_synonym 'p producer = "invalidation_message \<Rightarrow> 'p \<Rightarrow> bool \<times> 'p"

definition publishInvalidation :: "'p producer \<Rightarrow> string \<Rightarrow> int \<Rightarrow> invalidation_event \<Rightarrow> 'p \<Rightarrow> 'p" where
  \<comment> \<open>a rejection is logged and swallowed\<close>
  "publishInvalidation send topicName now event p =
     snd (send \<lparr>im_topic = topicName,
        im_key = (if truthy_str (ie_user_id event) then the (ie_user_id event)
                  else if truthy_str (ie_tenant_id event) then the (ie_tenant_id event) else ''global''),
        im_value = event, im_timestamp = show_int now\<rparr> p)"

definition invalidateOnPolicyChange :: "'p producer \<Rightarrow> string \<Rightarrow> int \<Rightarrow> string \<Rightarrow> string option \<Rightarrow> 'p \<Rightarrow> 'p" where
  "invalidateOnPolicyChange send topicName now policyId tenantId p =
     publishInvalidation send topicName now
       \<lparr>ie_type = PolicyEvent, ie_tenant_id = (if truthy_str tenantId then tenantId else None), ie_user_id = None,
        ie_resource_type = None, ie_resource_id = None, ie_timestamp = now\<rparr> p"

definition invalidateOnRoleChange :: "'p producer \<Rightarrow> string \<Rightarrow> int \<Rightarrow> string \<Rightarrow> string \<Rightarrow> 'p \<Rightarrow> 'p" where
  "invalidateOnRoleChange send topicName now userId tenantId p =
     publishInvalidation send topicName now
       \<lparr>ie_type = RoleEvent, ie_tenant_id = Some tenantId, ie_user_id = Some userId,
        ie_resource_type = None, ie_resource_id = None, ie_timestamp = now\<rparr> p"

definition invalidateOnResourcePermissionChange ::
    "'p producer \<Rightarrow> string \<Rightarrow> int \<Rightarrow> string \<Rightarrow> string \<Rightarrow> string \<Rightarrow> 'p \<Rightarrow> 'p" where
  "invalidateOnResourcePermissionChange send topicName now resourceType resourceId tenantId p =
     publishInvalidation send topicName now
       \<lparr>ie_type = ResourceEvent, ie_tenant_id = Some tenantId, ie_user_id = None,
        ie_resource_type = Some resourceType, ie_resource_id = Some resourceId, ie_timestamp = now\<rparr> p"

definition invalidateForUser :: "'p producer \<Rightarrow> string \<Rightarrow> int \<Rightarrow> string \<Rightarrow> string \<Rightarrow> 'p \<Rightarrow> 'p" where
  "invalidateForUser send topicName now userId tenantId p =
     publishInvalidation send topicName now
       \<lparr>ie_type = UserEvent, ie_tenant_id = Some tenantId, ie_user_id = Some userId,
        ie_resource_type = None, ie_resource_id = None, ie_timestamp = now\<rparr> p"

section \<open>Metrics\<close>

record cache_metrics =
  cm_hits :: nat
  cm_misses :: nat
  cm_evictions :: nat
  cm_size :: nat
  cm_avgLookupTime :: rat

record cache_metrics_collector =
  mc_metrics :: "(string, cache_metrics) jsmap"
  mc_lookupTimes :: "(string, rat list) jsmap"

definition zero_metrics :: cache_metrics where
  "zero_metrics = \<lparr>cm_hits = 0, cm_misses = 0, cm_evictions = 0, cm_size = 0, cm_avgLookupTime = 0\<rparr>"

definition getOrCreateMetrics ::
    "string \<Rightarrow> cache_metrics_collector \<Rightarrow> cache_metrics \<times> cache_metrics_collector" where
  "getOrCreateMetrics cacheType mc =
     (case map_of (mc_metrics mc) cacheType of
        Some m \<Rightarrow> (m, mc)
      | None \<Rightarrow> (zero_metrics, mc\<lparr>mc_metrics := AList.update cacheType zero_metrics (mc_metrics mc)\<rparr>))"

definition change_metrics ::
    "string \<Rightarrow> (cache_metrics \<Rightarrow> cache_metrics) \<Rightarrow> cache_metrics_collector \<Rightarrow> cache_metrics_collector" where
  \<comment> \<open>an assignment to a field of the object \<open>getOrCreateMetrics\<close> returns\<close>
  "change_metrics cacheType f mc =
     (case getOrCreateMetrics cacheType mc of
        (m, mc') \<Rightarrow> mc'\<lparr>mc_metrics := AList.update cacheType (f m) (mc_metrics mc')\<rparr>)"

definition recordHit :: "string \<Rightarrow> cache_metrics_collector \<Rightarrow> cache_metrics_collector" where
  "recordHit cacheType mc = change_metrics cacheType (\<lambda>m. m\<lparr>cm_hits := cm_hits m + 1\<rparr>) mc"

definition recordMiss :: "string \<Rightarrow> cache_metrics_collector \<Rightarrow> cache_metrics_collector" where
  "recordMiss cacheType mc = change_metrics cacheType (\<lambda>m. m\<lparr>cm_misses := cm_misses m + 1\<rparr>) mc"

definition recordEviction :: "string \<Rightarrow> cache_metrics_collector \<Rightarrow> cache_metrics_collector" where
  "recordEviction cacheType mc = change_metrics cacheType (\<lambda>m. m\<lparr>cm_evictions := cm_evictions m + 1\<rparr>) mc"

definition updateSize :: "string \<Rightarrow> nat \<Rightarrow> cache_metrics_collector \<Rightarrow> cache_metrics_collector" where
  "updateSize cacheType n mc = change_metrics cacheType (\<lambda>m. m\<lparr>cm_size := n\<rparr>) mc"

definition recordLookupTime :: "string \<Rightarrow> rat \<Rightarrow> cache_metrics_collector \<Rightarrow> cache_metrics_collector" where
  "recordLookupTime cacheType timeMs mc =
     (let times0 = (case map_of (mc_lookupTimes mc) cacheType of None \<Rightarrow> [] | Some ts \<Rightarrow> ts) @ [timeMs];
          times = (if 1000 < length times0 then tl times0 else times0)
      in change_metrics cacheType (\<lambda>m. m\<lparr>cm_avgLookupTime := sum_list times / of_nat (length times)\<rparr>)
           (mc\<lparr>mc_lookupTimes := AList.update cacheType times (mc_lookupTimes mc)\<rparr>))"

definition cm_getAllMetrics :: "cache_metrics_collector \<Rightarrow> (string, cache_metrics) jsmap" where
  "cm_getAllMetrics mc = mc_metrics mc"

definition getHitRate :: "string \<Rightarrow> cache_metrics_collector \<Rightarrow> rat \<times> cache_metrics_collector" where
  "getHitRate cacheType mc =
     (case getOrCreateMetrics cacheType mc of
        (m, mc') \<Rightarrow> let total = cm_hits m + cm_misses m
          in (if 0 < total then of_nat (cm_hits m) / of_nat total else 0, mc'))"

definition reset_metrics :: "string option \<Rightarrow> cache_metrics_collector \<Rightarrow> cache_metrics_collector" where
  "reset_metrics cacheType mc =
     (if truthy_str cacheType then
        \<lparr>mc_metrics = AList.delete (the cacheType) (mc_metrics mc),
         mc_lookupTimes = AList.delete (the cacheType) (mc_lookupTimes mc)\<rparr>
      else \<lparr>mc_metrics = [], mc_lookupTimes = []\<rparr>)"

definition nl :: string where "nl = [CHR 0x0A]"

definition metric_lines :: "string \<Rightarrow> string \<Rightarrow> string \<Rightarrow> string \<Rightarrow> string \<Rightarrow> string" where
  "metric_lines name help kind cacheType value = ''# HELP '' @ name @ '' '' @ help @ nl
     @ ''# TYPE '' @ name @ '' '' @ kind @ nl
     @ name @ ''{cache='' @ [CHR 0x22] @ cacheType @ [CHR 0x22] @ ''} '' @ value @ nl @ nl"

definition exportPrometheusMetrics :: "(nat \<Rightarrow> rat \<Rightarrow> string) \<Rightarrow> cache_metrics_collector \<Rightarrow> string" where
  \<comment> \<open>\<open>fixed\<close> is \<open>toFixed\<close>\<close>
  "exportPrometheusMetrics fixed mc = concat (map (\<lambda>(cacheType, m).
     metric_lines ''authz_cache_hits_total'' ''Total number of cache hits'' ''counter'' cacheType (show_nat (cm_hits m))
     @ metric_lines ''authz_cache_misses_total'' ''Total number of cache misses'' ''counter'' cacheType (show_nat (cm_misses m))
     @ metric_lines ''authz_cache_hit_rate'' ''Cache hit rate (0-1)'' ''gauge'' cacheType (fixed 4 (fst (getHitRate cacheType mc)))
     @ metric_lines ''authz_cache_size'' ''Current cache size'' ''gauge'' cacheType (show_nat (cm_size m))
     @ metric_lines ''authz_cache_avg_lookup_time_ms'' ''Average lookup time in milliseconds'' ''gauge'' cacheType
         (fixed 2 (cm_avgLookupTime m)))
     (mc_metrics mc))"

section \<open>The LRU level is a bounded part of a map\<close>

datatype 'v lru_op = LGet int string | LSet int string 'v | LDelete string | LClear

fun lru_step :: "'v lru_op \<Rightarrow> 'v lru_cache \<Rightarrow> 'v lru_cache" where
  "lru_step (LGet now k) lc = snd (lru_get now k lc)"
| "lru_step (LSet now k v) lc = lru_set now k v lc"
| "lru_step (LDelete k) lc = snd (lru_delete k lc)"
| "lru_step LClear lc = lru_clear lc"

fun spec_step :: "'v lru_op \<Rightarrow> (string \<rightharpoonup> 'v) \<Rightarrow> (string \<rightharpoonup> 'v)" where
  "spec_step (LGet now k) m = m"
| "spec_step (LSet now k v) m = m(k \<mapsto> v)"
| "spec_step (LDelete k) m = m(k := None)"
| "spec_step LClear m = Map.empty"

fun op_keys :: "'v lru_op \<Rightarrow> string set" where
  "op_keys (LGet now k) = {k}"
| "op_keys (LSet now k v) = {k}"
| "op_keys (LDelete k) = {}"
| "op_keys LClear = {}"

fun drops :: "string \<Rightarrow> 'v lru_op \<Rightarrow> bool" where
  \<comment> \<open>operations after which the key no longer has the value it had\<close>
  "drops k (LGet now k') = False"
| "drops k (LSet now k' v) = (k' = k)"
| "drops k (LDelete k') = (k' = k)"
| "drops k LClear = True"

definition lru_inv :: "'v lru_cache \<Rightarrow> bool" where
  "lru_inv lc \<longleftrightarrow> wf_map (lc_cache lc) \<and> int (length (lc_cache lc)) \<le> max 1 (lc_maxSize lc)"

definition submap :: "(string, 'v \<times> int) jsmap \<Rightarrow> (string \<rightharpoonup> 'v) \<Rightarrow> bool" where
  "submap c m \<longleftrightarrow> (\<forall>k v t. map_of c k = Some (v, t) \<longrightarrow> m k = Some v)"

lemma step_maxSize [simp]: "lc_maxSize (lru_step op lc) = lc_maxSize lc"
  by (cases op) (simp_all add: lru_get_def lru_set_def lru_delete_def lru_clear_def Let_def split: option.split)

lemma run_maxSize [simp]: "lc_maxSize (fold lru_step ops lc) = lc_maxSize lc"
  by (induction ops arbitrary: lc) simp_all

lemma set_cache:
  "lc_cache (lru_set now k v lc) = evict_oldest (lc_maxSize lc) (AList.delete k (lc_cache lc)) @ [(k, v, now)]"
proof -
  have "(if map_has (lc_cache lc) k then AList.delete k (lc_cache lc) else lc_cache lc) = AList.delete k (lc_cache lc)"
    by (simp add: map_has_def delete_idem map_of_eq_None_iff)
  then show ?thesis by (simp add: lru_set_def Let_def)
qed

lemma deleted_key [simp]: "(k, e) \<notin> set (AList.delete k m)"
  by (induction m) auto

lemma delete_set: "set (AList.delete k m) \<subseteq> set m"
  by (induction m) auto

lemma evict_cases: "evict_oldest n m = m \<or> m \<noteq> [] \<and> evict_oldest n m = AList.delete (fst (hd m)) m"
  by (cases m) (auto simp: evict_oldest_def)

lemma evict_set: "set (evict_oldest n m) \<subseteq> set m"
  using evict_cases [of n m] delete_set [of "fst (hd m)" m] by auto

lemma evict_wf: "wf_map m \<Longrightarrow> wf_map (evict_oldest n m)"
  by (auto simp: evict_oldest_def split: list.split intro: distinct_delete)

lemma evict_length: "wf_map m \<Longrightarrow> int (length m) \<le> max 1 n \<Longrightarrow> int (length (evict_oldest n m)) < max 1 n"
  by (cases m) (auto simp: evict_oldest_def length_delete)

lemma lru_step_inv: "lru_inv lc \<Longrightarrow> lru_inv (lru_step op lc)"
proof (cases op)
  case (LGet now k)
  assume "lru_inv lc"
  with LGet show ?thesis
    by (auto simp: lru_inv_def lru_get_def length_delete split: option.split)
next
  case (LSet now k v)
  assume inv: "lru_inv lc"
  let ?m = "AList.delete k (lc_cache lc)"
  have m: "wf_map ?m" "int (length ?m) \<le> max 1 (lc_maxSize lc)" "k \<notin> fst ` set ?m"
    using inv length_delete_le [of k "lc_cache lc"] by (auto simp: lru_inv_def dest: order_trans)
  have "k \<notin> fst ` set (evict_oldest (lc_maxSize lc) ?m)"
    using m(3) evict_set [of "lc_maxSize lc" ?m] by blast
  with m evict_wf evict_length have "wf_map (lc_cache (lru_set now k v lc))"
    "int (length (lc_cache (lru_set now k v lc))) \<le> max 1 (lc_maxSize lc)"
    by (fastforce simp: set_cache)+
  then show ?thesis using LSet step_maxSize [of "LSet now k v" lc] by (simp add: lru_inv_def)
next
  case (LDelete k)
  assume "lru_inv lc"
  with LDelete length_delete_le [of k "lc_cache lc"] show ?thesis by (auto simp: lru_inv_def lru_delete_def)
qed (simp_all add: lru_inv_def lru_clear_def)

lemma lookup_evict: "wf_map m \<Longrightarrow> map_of (evict_oldest n m) k = Some e \<Longrightarrow> map_of m k = Some e"
  using evict_set [of n m] by (metis evict_wf map_of_SomeD map_of_is_SomeI subsetD)

lemma lru_step_submap:
  assumes inv: "lru_inv lc" and sub: "submap (lc_cache lc) m"
  shows "submap (lc_cache (lru_step op lc)) (spec_step op m)"
proof (cases op)
  case (LGet now k)
  with sub show ?thesis
    by (auto simp: submap_def lru_get_def map_add_def split: option.splits if_splits)
next
  case (LSet now k v)
  have "wf_map (AList.delete k (lc_cache lc))" using inv by (simp add: lru_inv_def)
  then have "map_of (evict_oldest (lc_maxSize lc) (AList.delete k (lc_cache lc))) j = Some e
      \<Longrightarrow> j \<noteq> k \<and> map_of (lc_cache lc) j = Some e" for j e
    by (metis lookup_evict map_of_delete option.distinct(1))
  with sub LSet show ?thesis
    unfolding submap_def by (simp add: set_cache map_add_def split: option.split)
next
  case (LDelete k)
  with sub show ?thesis by (auto simp: submap_def lru_delete_def split: if_splits)
qed (simp add: submap_def lru_clear_def)

definition lru_pair_step :: "'v lru_op \<Rightarrow> 'v lru_cache \<times> (string \<rightharpoonup> 'v) \<Rightarrow> 'v lru_cache \<times> (string \<rightharpoonup> 'v)" where
  "lru_pair_step op p = (lru_step op (fst p), spec_step op (snd p))"

interpretation lru: machine lru_pair_step "\<lambda>p. lru_inv (fst p) \<and> submap (lc_cache (fst p)) (snd p)"
  by unfold_locales (simp add: lru_pair_step_def lru_step_inv lru_step_submap)

lemma lru_pair_run: "fold lru_pair_step ops (lc, m) = (fold lru_step ops lc, fold spec_step ops m)"
  by (induction ops arbitrary: lc m) (simp_all add: lru_pair_step_def)

text \<open>
  What keeps an entry: everything behind it was used since, so as long as fewer than
  \<open>maxSize\<close> other keys have been used it is not the one evicted.
\<close>

definition kept :: "string \<Rightarrow> 'v \<Rightarrow> string set \<Rightarrow> 'v lru_cache \<Rightarrow> bool" where
  "kept k v T lc \<longleftrightarrow> (\<exists>xs t ys. lc_cache lc = xs @ (k, v, t) # ys \<and> fst ` set ys \<subseteq> T)"

lemma keptI: "lc_cache lc = xs @ (k, v, t) # ys \<Longrightarrow> fst ` set ys \<subseteq> T \<Longrightarrow> kept k v T lc"
  by (auto simp: kept_def)

lemma delete_append: "AList.delete k (xs @ ys) = AList.delete k xs @ AList.delete k ys"
  by (induction xs) auto

lemma kept_get:
  assumes "kept k v T lc" "lru_inv lc"
  shows "kept k v (insert j T - {k}) (snd (lru_get now j lc))"
proof -
  obtain xs t ys where c: "lc_cache lc = xs @ (k, v, t) # ys" "fst ` set ys \<subseteq> T"
    using assms(1) by (auto simp: kept_def)
  have w: "wf_map (xs @ (k, v, t) # ys)" using assms(2) c(1) by (simp add: lru_inv_def)
  show ?thesis
  proof (cases "map_of (lc_cache lc) j")
    case None
    then have same: "snd (lru_get now j lc) = lc" by (simp add: lru_get_def)
    have "fst ` set ys \<subseteq> insert j T - {k}" using c(2) w by auto
    with c(1) show ?thesis unfolding same by (rule keptI)
  next
    case (Some e)
    obtain u t' where e: "e = (u, t')" by (cases e)
    show ?thesis
    proof (cases "j = k")
      case True
      have "map_of (lc_cache lc) k = Some (v, t)"
        using w unfolding c(1) by (intro map_of_is_SomeI) simp_all
      with Some True e have "lc_cache (snd (lru_get now j lc)) = (AList.delete k (lc_cache lc)) @ (k, v, now) # []"
        by (simp add: lru_get_def)
      then show ?thesis by (rule keptI) simp
    next
      case False
      have "lc_cache (snd (lru_get now j lc)) = AList.delete j xs @ (k, v, t) # (AList.delete j ys @ [(j, u, now)])"
        using False Some e by (simp add: lru_get_def c(1) delete_append)
      moreover have "fst ` set (AList.delete j ys @ [(j, u, now)]) \<subseteq> insert j T - {k}"
        using c(2) w False delete_set [of j ys] by (auto simp: image_iff)
      ultimately show ?thesis by (rule keptI)
    qed
  qed
qed

lemma kept_set:
  assumes "kept k v T lc" "lru_inv lc" "j \<noteq> k" "finite T" "int (card (insert j T - {k})) < lc_maxSize lc"
  shows "kept k v (insert j T - {k}) (lru_set now j u lc)"
proof -
  obtain xs t ys where c: "lc_cache lc = xs @ (k, v, t) # ys" "fst ` set ys \<subseteq> T"
    using assms(1) by (auto simp: kept_def)
  have w: "wf_map (xs @ (k, v, t) # ys)" using assms(2) c(1) by (simp add: lru_inv_def)
  let ?xs = "AList.delete j xs" and ?ys = "AList.delete j ys"
  have m: "AList.delete j (lc_cache lc) = ?xs @ (k, v, t) # ?ys"
    using assms(3) by (simp add: c(1) delete_append)
  have ys: "fst ` set ?ys \<subseteq> insert j T - {k}" "j \<notin> fst ` set ?ys" "distinct (map fst ?ys)"
    using c(2) w delete_set [of j ys] by (auto simp: image_iff)
  have "\<exists>zs. evict_oldest (lc_maxSize lc) (?xs @ (k, v, t) # ?ys) = zs @ (k, v, t) # ?ys"
  proof (cases "?xs")
    case Nil
    have "insert j (fst ` set ?ys) \<subseteq> insert j T - {k}" using ys assms(3) by blast
    then have "card (insert j (fst ` set ?ys)) \<le> card (insert j T - {k})" using assms(4) by (auto intro: card_mono)
    moreover have "card (insert j (fst ` set ?ys)) = Suc (length ?ys)"
      using ys(2,3) by (simp add: distinct_card [of "map fst ?ys", simplified, symmetric])
    ultimately have "int (Suc (length ?ys)) < lc_maxSize lc" using assms(5) by linarith
    with Nil show ?thesis by (simp add: evict_oldest_def)
  next
    case (Cons p rest)
    have p: "fst p \<in> fst ` set xs" using Cons delete_set [of j xs] by (metis image_eqI list.set_intros(1) subsetD)
    have pk: "fst p \<noteq> k" using p w by auto
    have "fst p \<notin> fst ` set ys" using p w by auto
    then have "fst p \<notin> fst ` set ?ys" using image_mono [OF delete_set [of j ys], of fst] by blast
    then have d: "AList.delete (fst p) ?ys = ?ys" by (simp add: delete_idem)
    have "AList.delete (fst p) (?xs @ (k, v, t) # ?ys) = AList.delete (fst p) ?xs @ (k, v, t) # ?ys"
      using pk by (simp only: delete_append) (simp add: d)
    moreover have "hd (?xs @ (k, v, t) # ?ys) = p" by (simp add: Cons)
    ultimately show ?thesis using evict_cases [of "lc_maxSize lc" "?xs @ (k, v, t) # ?ys"] by metis
  qed
  then obtain zs where "lc_cache (lru_set now j u lc) = zs @ (k, v, t) # (?ys @ [(j, u, now)])"
    by (auto simp: set_cache m)
  moreover have "fst ` set (?ys @ [(j, u, now)]) \<subseteq> insert j T - {k}" using ys(1) assms(3) by auto
  ultimately show ?thesis by (rule keptI)
qed

lemma lru_run_inv: "lru_inv lc \<Longrightarrow> lru_inv (fold lru_step ops lc)"
  by (induction ops arbitrary: lc) (simp_all add: lru_step_inv)

lemma kept_run:
  "kept k v T lc \<Longrightarrow> lru_inv lc \<Longrightarrow> finite T \<Longrightarrow> \<forall>op \<in> set ops. \<not> drops k op
   \<Longrightarrow> int (card (T \<union> (\<Union>op \<in> set ops. op_keys op) - {k})) < lc_maxSize lc
   \<Longrightarrow> \<exists>T'. kept k v T' (fold lru_step ops lc)"
proof (induction ops arbitrary: T lc)
  case (Cons op ops)
  let ?T = "op_keys op \<union> T - {k}" and ?all = "T \<union> (\<Union>op \<in> set (op # ops). op_keys op) - {k}"
  have fin: "finite (op_keys op)" for op :: "'a lru_op" by (cases op) auto
  have "?T \<subseteq> ?all" "finite ?all" using Cons.prems(3) fin by auto
  then have "card ?T \<le> card ?all" by (intro card_mono)
  then have small: "int (card ?T) < lc_maxSize lc" using Cons.prems(5) by linarith
  have kept: "kept k v ?T (lru_step op lc)"
  proof (cases op)
    case (LGet now j)
    then show ?thesis using kept_get [OF Cons.prems(1,2)] by simp
  next
    case (LSet now j u)
    then show ?thesis using kept_set [OF Cons.prems(1,2) _ Cons.prems(3)] Cons.prems(4) small by simp
  next
    case (LDelete j)
    then have jk: "j \<noteq> k" using Cons.prems(4) by simp
    obtain xs t ys where c: "lc_cache lc = xs @ (k, v, t) # ys" "fst ` set ys \<subseteq> T"
      using Cons.prems(1) by (auto simp: kept_def)
    have "lc_cache (lru_step op lc) = AList.delete j xs @ (k, v, t) # AList.delete j ys"
      using LDelete jk by (simp add: lru_delete_def c(1) delete_append)
    moreover have "fst ` set (AList.delete j ys) \<subseteq> ?T"
    proof -
      have "k \<notin> fst ` set ys" using Cons.prems(2) c(1) by (simp add: lru_inv_def)
      then have "fst ` set ys \<subseteq> ?T" using c(2) LDelete by auto
      then show ?thesis using image_mono [OF delete_set [of j ys], of fst] by (rule subset_trans [rotated])
    qed
    ultimately show ?thesis by (rule keptI)
  qed (use Cons.prems(4) in simp)
  have "?T \<union> (\<Union>op \<in> set ops. op_keys op) - {k} = ?all" by auto
  then have "int (card (?T \<union> (\<Union>op \<in> set ops. op_keys op) - {k})) < lc_maxSize (lru_step op lc)"
    using Cons.prems(5) by simp
  from Cons.IH [OF kept lru_step_inv [OF Cons.prems(2)] _ _ this] Cons.prems(3,4) fin show ?case by simp
qed auto

text \<open>
  C29: The LRU cache is a bounded part of the map its operations describe: it never holds more
  than its maximal number of entries, a lookup never gives anything but the value last set, and
  it gives that value as long as fewer other keys than the maximum have been used since.
\<close>
theorem lru_cache_refines_map:
  "(map_of (lc_cache (fold lru_step ops (new_LRUCache n))) k = Some (v, t)
      \<longrightarrow> fold spec_step ops Map.empty k = Some v)
   \<and> int (lru_size (fold lru_step ops (new_LRUCache n))) \<le> max 1 n
   \<and> ((\<forall>op \<in> set ops'. \<not> drops k op) \<and> int (card ((\<Union>op \<in> set ops'. op_keys op) - {k})) < n
      \<longrightarrow> fst (lru_get now k (fold lru_step ops' (lru_set t k v (fold lru_step ops (new_LRUCache n))))) = Some v)"
proof (intro conjI impI)
  let ?lc = "fold lru_step ops (new_LRUCache n)"
  have "lru_inv ?lc \<and> submap (lc_cache ?lc) (fold spec_step ops Map.empty)"
    using lru.inv_run [of "(new_LRUCache n, Map.empty)" ops]
    by (simp add: lru_pair_run lru_inv_def submap_def new_LRUCache_def)
  then have inv: "lru_inv ?lc" and sub: "submap (lc_cache ?lc) (fold spec_step ops Map.empty)" by simp_all
  show "fold spec_step ops Map.empty k = Some v" if "map_of (lc_cache ?lc) k = Some (v, t)"
    using sub that unfolding submap_def by blast
  show "int (lru_size ?lc) \<le> max 1 n" using inv by (simp add: lru_inv_def lru_size_def new_LRUCache_def)
  assume "(\<forall>op \<in> set ops'. \<not> drops k op) \<and> int (card ((\<Union>op \<in> set ops'. op_keys op) - {k})) < n"
  then have ops': "\<forall>op \<in> set ops'. \<not> drops k op" "int (card ((\<Union>op \<in> set ops'. op_keys op) - {k})) < n"
    by simp_all
  let ?lc' = "lru_set t k v ?lc"
  have inv': "lru_inv ?lc'" using lru_step_inv [OF inv, of "LSet t k v"] by simp
  have max: "lc_maxSize ?lc' = n" using step_maxSize [of "LSet t k v" ?lc] by (simp add: new_LRUCache_def)
  have "kept k v {} ?lc'" by (rule keptI [OF set_cache]) simp
  from kept_run [OF this inv' _ ops'(1)] obtain T where "kept k v T (fold lru_step ops' ?lc')"
    using ops'(2) max by auto
  then obtain xs u ys where c: "lc_cache (fold lru_step ops' ?lc') = xs @ (k, v, u) # ys"
    by (auto simp: kept_def)
  have "wf_map (lc_cache (fold lru_step ops' ?lc'))"
  proof -
    have "lru_inv (fold lru_step ops' ?lc')" using lru_run_inv [OF inv'] .
    then show ?thesis by (simp add: lru_inv_def)
  qed
  then have "map_of (lc_cache (fold lru_step ops' ?lc')) k = Some (v, u)"
    unfolding c by (intro map_of_is_SomeI) simp_all
  then show "fst (lru_get now k (fold lru_step ops' ?lc')) = Some v" by (simp add: lru_get_def)
qed

theorem lru_cache_refines_map_witness:
  "fst (lru_get 9 ''a'' (fold lru_step [LSet 2 ''b'' (1::nat), LGet 3 ''b'', LSet 4 ''b'' 2]
     (lru_set 1 ''a'' 7 (fold lru_step [LSet 0 ''c'' 5] (new_LRUCache 2))))) = Some 7
   \<and> fold spec_step [LSet 0 ''c'' (5::nat)] Map.empty ''c'' = Some 5"
  using lru_cache_refines_map [of "[LSet 0 ''c'' (5::nat)]" 2 "''a''" 7 1
      "[LSet 2 ''b'' (1::nat), LGet 3 ''b'', LSet 4 ''b'' 2]" 9]
    lru_cache_refines_map [of "[LSet 0 ''c'' (5::nat)]" 2 "''c''" 5 0 "[]" 0]
  by (simp add: insert_Diff_if lru_set_def new_LRUCache_def map_has_def evict_oldest_def)

section \<open>A cached decision is one that was put there\<close>

locale l2_contract =
  fixes client :: "'s l2_client"
  assumes get_setex: "l2_get client t k (snd (l2_setex client t' k' d c s)) = Inr (Some c')
      \<Longrightarrow> k = k' \<and> c' = c \<or> (\<exists>u. l2_get client u k s = Inr (Some c'))"
    and get_del: "l2_get client t k (snd (l2_del client ks s)) = Inr (Some c') \<Longrightarrow> \<exists>u. l2_get client u k s = Inr (Some c')"

datatype dk_op =
    DkGet lookup_times cache_key_components
  | DkSet int cache_key_components policy_decision "rat option"
  | DkInvalidate int "invalidation_pattern option"

fun dk_step :: "'s l2_client option \<Rightarrow> dk_op \<Rightarrow> 's \<times> decision_cache \<Rightarrow> 's \<times> decision_cache" where
  "dk_step L2 (DkGet ts k) (s, dk) = (s, snd (dk_get L2 ts k s dk))"
| "dk_step L2 (DkSet now k d ttl) (s, dk) = dk_set L2 now k d ttl s dk"
| "dk_step L2 (DkInvalidate now p) (s, dk) = dk_invalidate L2 now p s dk"

definition lifetime :: "rat \<Rightarrow> rat option \<Rightarrow> rat" where
  "lifetime ttl0 ttl = (case ttl of None \<Rightarrow> ttl0 | Some t \<Rightarrow> if t = 0 then ttl0 else t)"

definition put_by :: "rat \<Rightarrow> dk_op list \<Rightarrow> string \<Rightarrow> cached_decision \<Rightarrow> bool" where
  "put_by ttl0 ops key c \<longleftrightarrow> (\<exists>now k d ttl. DkSet now k d ttl \<in> set ops \<and> generateKey k = key
     \<and> c = \<lparr>cd_decision = d, cd_cached_at = now, cd_ttl = lifetime ttl0 ttl\<rparr>)"

definition dk_inv :: "'s l2_client option \<Rightarrow> rat \<Rightarrow> dk_op list \<Rightarrow> 's \<times> decision_cache \<Rightarrow> bool" where
  "dk_inv L2 ttl0 ops st \<longleftrightarrow> (case st of (s, dk) \<Rightarrow>
     dk_defaultTTL dk = ttl0 \<and> lru_inv (dk_l1Cache dk)
     \<and> (\<forall>k c t. map_of (lc_cache (dk_l1Cache dk)) k = Some (c, t) \<longrightarrow> put_by ttl0 ops k c)
     \<and> (\<forall>client t k c. L2 = Some client \<longrightarrow> l2_get client t k s = Inr (Some c) \<longrightarrow> put_by ttl0 ops k c))"

lemma put_by_mono: "put_by ttl0 ops k c \<Longrightarrow> set ops \<subseteq> set ops' \<Longrightarrow> put_by ttl0 ops' k c"
  unfolding put_by_def by blast

lemma submap_self: "submap c (\<lambda>k. map_option fst (map_of c k))"
  by (simp add: submap_def)

lemma lookup_after_get:
  assumes "lru_inv lc" "map_of (lc_cache (snd (lru_get now j lc))) k = Some (c, t)"
  shows "\<exists>t'. map_of (lc_cache lc) k = Some (c, t')"
proof -
  have "submap (lc_cache (snd (lru_get now j lc))) (\<lambda>k. map_option fst (map_of (lc_cache lc) k))"
    using lru_step_submap [OF assms(1) submap_self, of "LGet now j"] by simp
  with assms(2) have "map_option fst (map_of (lc_cache lc) k) = Some c" unfolding submap_def by blast
  then show ?thesis by auto
qed

lemma lookup_after_set:
  assumes "lru_inv lc" "map_of (lc_cache (lru_set now j d lc)) k = Some (c, t)"
  shows "k = j \<and> c = d \<or> (\<exists>t'. map_of (lc_cache lc) k = Some (c, t'))"
proof -
  have "submap (lc_cache (lru_set now j d lc)) ((\<lambda>k. map_option fst (map_of (lc_cache lc) k))(j \<mapsto> d))"
    using lru_step_submap [OF assms(1) submap_self, of "LSet now j d"] by simp
  with assms(2) have "((\<lambda>k. map_option fst (map_of (lc_cache lc) k))(j \<mapsto> d)) k = Some c"
    unfolding submap_def by blast
  then show ?thesis by (auto split: if_splits)
qed

lemma finish_lookup_simps [simp]:
  "dk_l1Cache (finish_lookup ts h dk) = dk_l1Cache dk" "dk_defaultTTL (finish_lookup ts h dk) = dk_defaultTTL dk"
  by (simp_all add: finish_lookup_def)

lemma lru_inv_get [simp]: "lru_inv lc \<Longrightarrow> lru_inv (snd (lru_get now j lc))"
  using lru_step_inv [of lc "LGet now j"] by simp

lemma lru_inv_set [simp]: "lru_inv lc \<Longrightarrow> lru_inv (lru_set now j d lc)"
  using lru_step_inv [of lc "LSet now j d"] by simp

lemma l2_lookup_Some:
  "l2_lookup L2 now key s = Some c
   \<Longrightarrow> \<exists>client. L2 = Some client \<and> l2_get client now key s = Inr (Some c) \<and> \<not> isExpired now c"
  by (auto simp: l2_lookup_def split: option.splits sum.splits if_splits)

lemma dk_get_result:
  "fst (dk_get L2 ts k s dk) = Some d \<Longrightarrow>
     (\<exists>c t. map_of (lc_cache (dk_l1Cache dk)) (generateKey k) = Some (c, t) \<and> \<not> isExpired (lt_now1 ts) c \<and> d = cd_decision c)
   \<or> (\<exists>client c. L2 = Some client \<and> l2_get client (lt_now2 ts) (generateKey k) s = Inr (Some c)
        \<and> \<not> isExpired (lt_now2 ts) c \<and> d = cd_decision c)"
  by (auto simp: dk_get_def Let_def lru_get_def dest!: l2_lookup_Some split: option.splits if_splits)

lemma dk_get_l1:
  "dk_l1Cache (snd (dk_get L2 ts k s dk)) = snd (lru_get (lt_now1 ts) (generateKey k) (dk_l1Cache dk))
   \<or> (\<exists>client c. L2 = Some client \<and> l2_get client (lt_now2 ts) (generateKey k) s = Inr (Some c)
      \<and> dk_l1Cache (snd (dk_get L2 ts k s dk))
        = lru_set (lt_now2 ts) (generateKey k) c (snd (lru_get (lt_now1 ts) (generateKey k) (dk_l1Cache dk))))"
  by (auto simp: dk_get_def Let_def dest!: l2_lookup_Some split: option.split)

lemma dk_get_ttl [simp]: "dk_defaultTTL (snd (dk_get L2 ts k s dk)) = dk_defaultTTL dk"
  by (auto simp: dk_get_def Let_def split: option.split)

lemma dk_inv_l1: "dk_inv L2 ttl0 ops (s, dk) \<Longrightarrow> map_of (lc_cache (dk_l1Cache dk)) k = Some (c, t) \<Longrightarrow> put_by ttl0 ops k c"
  unfolding dk_inv_def by blast

lemma dk_inv_l2: "dk_inv (Some client) ttl0 ops (s, dk) \<Longrightarrow> l2_get client t k s = Inr (Some c) \<Longrightarrow> put_by ttl0 ops k c"
  unfolding dk_inv_def by blast

lemma dk_inv_lru: "dk_inv L2 ttl0 ops (s, dk) \<Longrightarrow> lru_inv (dk_l1Cache dk) \<and> dk_defaultTTL dk = ttl0"
  unfolding dk_inv_def by blast

lemma dk_invI:
  assumes "dk_defaultTTL dk = ttl0" "lru_inv (dk_l1Cache dk)"
    "\<And>k c t. map_of (lc_cache (dk_l1Cache dk)) k = Some (c, t) \<Longrightarrow> put_by ttl0 ops k c"
    "\<And>client t k c. L2 = Some client \<Longrightarrow> l2_get client t k s = Inr (Some c) \<Longrightarrow> put_by ttl0 ops k c"
  shows "dk_inv L2 ttl0 ops (s, dk)"
  using assms unfolding dk_inv_def by blast

lemma dk_inv_get:
  assumes "dk_inv L2 ttl0 ops (s, dk)"
  shows "dk_inv L2 ttl0 ops (s, snd (dk_get L2 ts k s dk))"
proof (rule dk_invI)
  let ?l1 = "snd (lru_get (lt_now1 ts) (generateKey k) (dk_l1Cache dk))"
  note inv = dk_inv_lru [OF assms]
  show "dk_defaultTTL (snd (dk_get L2 ts k s dk)) = ttl0" using inv by simp
  show "lru_inv (dk_l1Cache (snd (dk_get L2 ts k s dk)))"
    using dk_get_l1 [of L2 ts k s dk] inv by auto
  have l1: "put_by ttl0 ops j c" if "map_of (lc_cache ?l1) j = Some (c, t)" for j c t
    using lookup_after_get [OF conjunct1 [OF inv] that] dk_inv_l1 [OF assms] by blast
  show "put_by ttl0 ops j c" if at: "map_of (lc_cache (dk_l1Cache (snd (dk_get L2 ts k s dk)))) j = Some (c, t)" for j c t
  proof (cases "dk_l1Cache (snd (dk_get L2 ts k s dk)) = ?l1")
    case True
    then show ?thesis using at l1 by simp
  next
    case False
    then obtain client d where d: "L2 = Some client" "l2_get client (lt_now2 ts) (generateKey k) s = Inr (Some d)"
        "dk_l1Cache (snd (dk_get L2 ts k s dk)) = lru_set (lt_now2 ts) (generateKey k) d ?l1"
      using dk_get_l1 [of L2 ts k s dk] by blast
    have "j = generateKey k \<and> c = d \<or> (\<exists>t'. map_of (lc_cache ?l1) j = Some (c, t'))"
      using lookup_after_set [OF lru_inv_get [OF conjunct1 [OF inv]] at [unfolded d(3)]] .
    then show ?thesis using l1 dk_inv_l2 [OF assms [unfolded d(1)] d(2)] by blast
  qed
  show "put_by ttl0 ops j c" if "L2 = Some client" "l2_get client t j s = Inr (Some c)" for client t j c
    using dk_inv_l2 [OF assms [unfolded that(1)] that(2)] .
qed

lemma dk_inv_mono: "dk_inv L2 ttl0 ops st \<Longrightarrow> set ops \<subseteq> set ops' \<Longrightarrow> dk_inv L2 ttl0 ops' st"
proof -
  assume inv: "dk_inv L2 ttl0 ops st" and sub: "set ops \<subseteq> set ops'"
  obtain s dk where st: "st = (s, dk)" by (cases st)
  have "put_by ttl0 ops k c \<Longrightarrow> put_by ttl0 ops' k c" for k c using sub by (rule put_by_mono [rotated])
  then show "dk_inv L2 ttl0 ops' st"
    using inv unfolding st by (intro dk_invI) (simp_all add: dk_inv_def)
qed

lemma dk_set_parts:
  "snd (dk_set L2 now k d ttl s dk) = dk\<lparr>dk_l1Cache := lru_set now (generateKey k)
     \<lparr>cd_decision = d, cd_cached_at = now, cd_ttl = lifetime (dk_defaultTTL dk) ttl\<rparr> (dk_l1Cache dk)\<rparr>"
  "fst (dk_set L2 now k d ttl s dk) = (case L2 of None \<Rightarrow> s | Some client \<Rightarrow>
     snd (l2_setex client now (generateKey k) (lifetime (dk_defaultTTL dk) ttl)
       \<lparr>cd_decision = d, cd_cached_at = now, cd_ttl = lifetime (dk_defaultTTL dk) ttl\<rparr> s))"
  by (simp_all add: dk_set_def Let_def lifetime_def split: option.split)

lemma dk_inv_set:
  assumes inv: "dk_inv L2 ttl0 ops (s, dk)" and L: "\<And>client. L2 = Some client \<Longrightarrow> l2_contract client"
  shows "dk_inv L2 ttl0 (DkSet now k d ttl # ops) (dk_set L2 now k d ttl s dk)"
proof -
  let ?c = "\<lparr>cd_decision = d, cd_cached_at = now, cd_ttl = lifetime ttl0 ttl\<rparr>"
  note parts = dk_set_parts [of L2 now k d ttl s dk]
  note lru = dk_inv_lru [OF inv]
  have new: "put_by ttl0 (DkSet now k d ttl # ops) (generateKey k) ?c"
    unfolding put_by_def by (intro exI [of _ now] exI [of _ k] exI [of _ d] exI [of _ ttl]) simp
  have old: "put_by ttl0 ops j c \<Longrightarrow> put_by ttl0 (DkSet now k d ttl # ops) j c" for j c
    by (erule put_by_mono) auto
  have "dk_inv L2 ttl0 (DkSet now k d ttl # ops)
      (fst (dk_set L2 now k d ttl s dk), snd (dk_set L2 now k d ttl s dk))"
  proof (rule dk_invI)
    show "put_by ttl0 (DkSet now k d ttl # ops) j c"
      if at: "map_of (lc_cache (dk_l1Cache (snd (dk_set L2 now k d ttl s dk)))) j = Some (c, t)" for j c t
      using lookup_after_set [of "dk_l1Cache dk" now "generateKey k" ?c j c t] at lru new old dk_inv_l1 [OF inv]
      by (auto simp: parts)
    show "put_by ttl0 (DkSet now k d ttl # ops) j c"
      if client: "L2 = Some client" "l2_get client t j (fst (dk_set L2 now k d ttl s dk)) = Inr (Some c)" for client t j c
    proof -
      have "j = generateKey k \<and> c = ?c \<or> (\<exists>u. l2_get client u j s = Inr (Some c))"
        using client(2) lru unfolding parts
        by (intro l2_contract.get_setex [OF L [OF client(1)], of t j now _ "lifetime ttl0 ttl"]) (simp add: client(1))
      then show ?thesis using new old dk_inv_l2 [OF inv [unfolded client(1)]] by blast
    qed
  qed (use lru in \<open>simp_all add: parts\<close>)
  then show ?thesis by simp
qed

lemma dk_inv_invalidate:
  assumes inv: "dk_inv L2 ttl0 ops (s, dk)" and L: "\<And>client. L2 = Some client \<Longrightarrow> l2_contract client"
  shows "dk_inv L2 ttl0 ops (dk_invalidate L2 now p s dk)"
proof -
  have parts: "snd (dk_invalidate L2 now p s dk) = dk\<lparr>dk_l1Cache := lru_clear (dk_l1Cache dk)\<rparr>"
    "fst (dk_invalidate L2 now p s dk) = s
      \<or> (\<exists>client ks. L2 = Some client \<and> fst (dk_invalidate L2 now p s dk) = snd (l2_del client ks s))"
    by (auto simp: dk_invalidate_def Let_def split: option.split sum.split)
  have "dk_inv L2 ttl0 ops (fst (dk_invalidate L2 now p s dk), snd (dk_invalidate L2 now p s dk))"
  proof (rule dk_invI)
    show "put_by ttl0 ops j c"
      if client: "L2 = Some client" "l2_get client t j (fst (dk_invalidate L2 now p s dk)) = Inr (Some c)" for client t j c
    proof -
      have "\<exists>u. l2_get client u j s = Inr (Some c)"
        using parts(2) client l2_contract.get_del [OF L [OF client(1)]] by auto
      then show ?thesis using dk_inv_l2 [OF inv [unfolded client(1)]] by blast
    qed
  qed (use dk_inv_lru [OF inv] in \<open>simp_all add: parts(1) lru_clear_def lru_inv_def\<close>)
  then show ?thesis by simp
qed

lemma dk_inv_run:
  assumes L: "\<And>client. L2 = Some client \<Longrightarrow> l2_contract client"
  shows "dk_inv L2 ttl0 past st \<Longrightarrow> dk_inv L2 ttl0 (rev ops @ past) (fold (dk_step L2) ops st)"
proof (induction ops arbitrary: past st)
  case (Cons op ops)
  obtain s dk where st: "st = (s, dk)" by (cases st)
  have "dk_inv L2 ttl0 (op # past) (dk_step L2 op (s, dk))"
  proof (cases op)
    case (DkGet ts k)
    then show ?thesis using dk_inv_mono [OF dk_inv_get [OF Cons.prems [unfolded st]], of "op # past"] by auto
  next
    case (DkSet now k d ttl)
    then show ?thesis using dk_inv_set [OF Cons.prems [unfolded st] L] by simp
  next
    case (DkInvalidate now p)
    then show ?thesis using dk_inv_mono [OF dk_inv_invalidate [OF Cons.prems [unfolded st] L], of "op # past"] by auto
  qed
  from Cons.IH [OF this] show ?case by (simp add: st)
qed simp

definition plain_names :: "cache_key_components \<Rightarrow> bool" where
  "plain_names k \<longleftrightarrow> CHR '':'' \<notin> set (kc_tenantId k) \<and> CHR '':'' \<notin> set (kc_userId k)
     \<and> CHR '':'' \<notin> set (kc_resourceType k) \<and> CHR '':'' \<notin> set (or_star (kc_resourceId k))"

lemma generateKey_inj:
  assumes "plain_names k" "plain_names k'"
  shows "generateKey k = generateKey k' \<longleftrightarrow> kc_tenantId k = kc_tenantId k' \<and> kc_userId k = kc_userId k'
    \<and> kc_resourceType k = kc_resourceType k' \<and> or_star (kc_resourceId k) = or_star (kc_resourceId k')
    \<and> kc_action k = kc_action k'"
  using assms by (simp add: generateKey_def plain_names_def append_sep_inj)

text \<open>
  A decision the cache gives was put there, for a request with the same cache key, no longer
  ago than its lifetime, whatever was looked up, put and invalidated meanwhile and whether or
  not a second level is present; with colon-free names it was put for the same tenant, user,
  resource and action.
\<close>
lemma cached_decision_was_put:
  assumes L: "\<And>client. L2 = Some client \<Longrightarrow> l2_contract client"
    and empty: "\<And>client t k c. L2 = Some client \<Longrightarrow> l2_get client t k s0 \<noteq> Inr (Some c)"
    and run: "fold (dk_step L2) ops (s0, new_DecisionCache n ttl0) = (s, dk)"
    and hit: "fst (dk_get L2 ts k s dk) = Some d"
  shows "\<exists>now k' ttl. DkSet now k' d ttl \<in> set ops \<and> generateKey k' = generateKey k
    \<and> (of_int (lt_now1 ts - now) / 1000 \<le> lifetime ttl0 ttl \<or> of_int (lt_now2 ts - now) / 1000 \<le> lifetime ttl0 ttl)
    \<and> (plain_names k \<and> plain_names k' \<longrightarrow> kc_tenantId k' = kc_tenantId k \<and> kc_userId k' = kc_userId k
       \<and> kc_resourceType k' = kc_resourceType k \<and> or_star (kc_resourceId k') = or_star (kc_resourceId k)
       \<and> kc_action k' = kc_action k)"
proof -
  have "dk_inv L2 ttl0 [] (s0, new_DecisionCache n ttl0)"
    by (rule dk_invI) (use empty in \<open>simp_all add: new_DecisionCache_def new_LRUCache_def lru_inv_def\<close>)
  from dk_inv_run [OF L this, of ops] have inv: "dk_inv L2 ttl0 (rev ops) (s, dk)" by (simp add: run)
  obtain c where c: "put_by ttl0 (rev ops) (generateKey k) c" "d = cd_decision c"
      "\<not> isExpired (lt_now1 ts) c \<or> \<not> isExpired (lt_now2 ts) c"
    using dk_get_result [OF hit] dk_inv_l1 [OF inv] dk_inv_l2 inv by metis
  obtain now k' d' ttl where put: "DkSet now k' d' ttl \<in> set ops" "generateKey k' = generateKey k"
      and c': "c = \<lparr>cd_decision = d', cd_cached_at = now, cd_ttl = lifetime ttl0 ttl\<rparr>"
    using c(1) by (auto simp: put_by_def)
  have d: "d' = d" using c(2) c' by simp
  have "of_int (lt_now1 ts - now) / 1000 \<le> lifetime ttl0 ttl \<or> of_int (lt_now2 ts - now) / 1000 \<le> lifetime ttl0 ttl"
    using c(3) by (simp add: isExpired_def c' not_less)
  moreover have "plain_names k \<and> plain_names k' \<longrightarrow> kc_tenantId k' = kc_tenantId k \<and> kc_userId k' = kc_userId k
       \<and> kc_resourceType k' = kc_resourceType k \<and> or_star (kc_resourceId k') = or_star (kc_resourceId k)
       \<and> kc_action k' = kc_action k"
    using generateKey_inj [of k' k] put(2) by blast
  ultimately show ?thesis using put d by blast
qed

text \<open>A second level that is an association list without expiry.\<close>

definition list_l2 :: "(string, cached_decision) jsmap l2_client" where
  "list_l2 = \<lparr>l2_get = (\<lambda>t k s. Inr (map_of s k)), l2_setex = (\<lambda>t k d c s. (Inr (), AList.update k c s)),
     l2_keys = (\<lambda>t p s. Inr (map fst s)), l2_del = (\<lambda>ks s. (Inr (length ks), fold AList.delete ks s))\<rparr>"

lemma fold_delete: "map_of (fold AList.delete ks s) k = Some c \<Longrightarrow> map_of s k = Some c"
  by (induction ks arbitrary: s) (fastforce split: if_splits)+

interpretation list_l2: l2_contract list_l2
  by unfold_locales (auto simp: list_l2_def dest: fold_delete split: if_splits)

definition sample_components :: cache_key_components where
  "sample_components = \<lparr>kc_tenantId = ''t1'', kc_userId = ''u1'', kc_resourceType = ''file'',
     kc_resourceId = Some ''f1'', kc_action = ''share''\<rparr>"

definition sample_decision :: policy_decision where
  "sample_decision = \<lparr>pd_effect = Allow, pd_reason = ''owner'', pd_matched_policies = [],
     pd_evaluation_time_ms = 1, pd_cached = False\<rparr>"

lemma cached_decision_was_put_example:
  "\<exists>now k' ttl. DkSet now k' sample_decision ttl \<in> set [DkSet 0 sample_components sample_decision (Some 60), DkInvalidate 5 None]
     \<and> generateKey k' = generateKey sample_components
     \<and> (of_int (7 - now) / 1000 \<le> lifetime 60 ttl \<or> of_int (8 - now) / 1000 \<le> lifetime 60 ttl)
     \<and> (plain_names sample_components \<and> plain_names k' \<longrightarrow> kc_tenantId k' = kc_tenantId sample_components
       \<and> kc_userId k' = kc_userId sample_components \<and> kc_resourceType k' = kc_resourceType sample_components
       \<and> or_star (kc_resourceId k') = or_star (kc_resourceId sample_components)
       \<and> kc_action k' = kc_action sample_components)"
proof -
  let ?ops = "[DkSet 0 sample_components sample_decision (Some 60), DkInvalidate 5 None]"
    and ?ts = "\<lparr>lt_start = 6, lt_now1 = 7, lt_now2 = 8, lt_end = 9\<rparr>"
  obtain s dk where run: "fold (dk_step (Some list_l2)) ?ops ([], new_DecisionCache 10 60) = (s, dk)"
    by (cases "fold (dk_step (Some list_l2)) ?ops ([], new_DecisionCache 10 60)")
  then have s: "map_of s (generateKey sample_components)
      = Some \<lparr>cd_decision = sample_decision, cd_cached_at = 0, cd_ttl = 60\<rparr>" and dk: "lc_cache (dk_l1Cache dk) = []"
    by (auto simp: dk_set_def dk_invalidate_def Let_def list_l2_def lru_clear_def)
  have hit: "fst (dk_get (Some list_l2) ?ts sample_components s dk) = Some sample_decision"
    by (simp add: dk_get_def Let_def lru_get_def dk l2_lookup_def list_l2_def s isExpired_def)
  have L: "\<And>client. Some list_l2 = Some client \<Longrightarrow> l2_contract client"
    and empty: "\<And>client t k c. Some list_l2 = Some client \<Longrightarrow> l2_get client t k [] \<noteq> Inr (Some c)"
    using list_l2.l2_contract_axioms by (auto simp: list_l2_def)
  from cached_decision_was_put [OF L empty run hit] show ?thesis by simp
qed

text \<open>
  A full invalidation clears the first level only: a decision in the second is still given.
\<close>
lemma full_invalidation_is_partial:
  assumes "l2_get client (lt_now2 ts) (generateKey k) s = Inr (Some c)" "\<not> isExpired (lt_now2 ts) c"
  shows "fst (dk_get (Some client) ts k (fst (dk_invalidate (Some client) now None s dk))
      (snd (dk_invalidate (Some client) now None s dk))) = Some (cd_decision c)"
  using assms by (simp add: dk_invalidate_def Let_def dk_get_def lru_get_def lru_clear_def l2_lookup_def)

text \<open>
  Names with colons make keys of different users collide.
\<close>
lemma cache_keys_collide:
  "generateKey (sample_components\<lparr>kc_tenantId := ''t:u'', kc_userId := ''x''\<rparr>)
     = generateKey (sample_components\<lparr>kc_tenantId := ''t'', kc_userId := ''u:x''\<rparr>)"
  by (simp add: generateKey_def)

end
