(* ===== verification/GwAuth.thy ===== *)
theory GwAuth
  imports Prelude
begin

text \<open>
  Authentication at the API gateway (services/gateway/src/middleware/auth, tenant and
  context-headers.middleware.ts): the strategies that turn credentials into an authentication
  context, the user attached to the request, the origin check of browser requests, the
  resolution of the tenant and the headers passed to the services behind. The auth service's
  client, the tenant service, URL parsing and the environment are parameters. Header names are
  lower case; an absent value is \<open>None\<close>.
\<close>

section \<open>Requests, replies and errors\<close>

record request =
  rq_method :: string
  rq_url :: string
  rq_ip :: string
  rq_id :: string
  rq_headers :: "(string, string) jsmap"
  rq_params :: "(string, string) jsmap"

definition header :: "request \<Rightarrow> string \<Rightarrow> string option" where
  "header rq k = map_of (rq_headers rq) k"

datatype app_error =
    BadRequestError string
  | UnauthorizedError string
  | ForbiddenError string
  | NotFoundError string
  | ConflictError string
  | TooManyRequestsError string
  | InternalServerError string

fun statusCode :: "app_error \<Rightarrow> nat" where
  "statusCode (BadRequestError m) = 400"
| "statusCode (UnauthorizedError m) = 401"
| "statusCode (ForbiddenError m) = 403"
| "statusCode (NotFoundError m) = 404"
| "statusCode (ConflictError m) = 409"
| "statusCode (TooManyRequestsError m) = 429"
| "statusCode (InternalServerError m) = 500"

fun gw_error_code :: "app_error \<Rightarrow> string" where
  "gw_error_code (BadRequestError m) = ''BAD_REQUEST''"
| "gw_error_code (UnauthorizedError m) = ''UNAUTHORIZED''"
| "gw_error_code (ForbiddenError m) = ''FORBIDDEN''"
| "gw_error_code (NotFoundError m) = ''NOT_FOUND''"
| "gw_error_code (ConflictError m) = ''CONFLICT''"
| "gw_error_code (TooManyRequestsError m) = ''TOO_MANY_REQUESTS''"
| "gw_error_code (InternalServerError m) = ''INTERNAL_SERVER_ERROR''"

text \<open>How a hook ends a request: by sending a reply itself, or by throwing.\<close>

datatype gw_outcome = Sent nat string string | Thrown app_error

fun outcome_status :: "gw_outcome \<Rightarrow> nat" where
  "outcome_status (Sent n e c) = n"
| "outcome_status (Thrown e) = statusCode e"

section \<open>Authentication contexts\<close>

datatype auth_type = ApiKeyAuth | JwtAuth | SdkAuth

fun auth_type_str :: "auth_type \<Rightarrow> string" where
  "auth_type_str ApiKeyAuth = ''api_key''"
| "auth_type_str JwtAuth = ''jwt''"
| "auth_type_str SdkAuth = ''sdk''"

record auth_metadata =
  md_client_id :: "string option"
  md_project_id :: "string option"
  md_email :: "string option"
  md_role :: "string option"
  md_company_name :: "string option"
  md_plan :: "string option"
  md_session_id :: "string option"
  md_external_id :: "string option"
  md_exp :: "int option"

record auth_context =
  ac_tenant_id :: string
  ac_project_id :: "string option"
  ac_user_id :: "string option"
  ac_auth_type :: auth_type
  ac_permissions :: "string list"
  ac_rate_limit_tier :: string
  ac_metadata :: auth_metadata

record token_payload =
  tk_user_id :: string
  tk_client_id :: "string option"
  tk_project_id :: "string option"
  tk_tenant_id :: string
  tk_role :: "string option"
  tk_external_id :: "string option"
  tk_permissions :: "string list option"
  tk_session_id :: "string option"
  tk_exp :: int
  tk_email :: "string option"
  tk_company_name :: "string option"
  tk_plan :: "string option"

record api_client =
  ak_client_id :: string
  ak_tenant_id :: string
  ak_plan :: string
  ak_permissions :: "string list option"
  ak_rate_limit_tier :: "string option"
  ak_active_project_id :: "string option"

text \<open>
  The client of the auth service. \<open>None\<close> is a rejected call; a validation gives the flag
  \<open>valid\<close> and the payload or client, if any.
\<close>

record auth_client =
  cl_validateToken :: "string \<Rightarrow> (bool \<times> token_payload option) option"
  cl_validateApiKey :: "string \<Rightarrow> string \<Rightarrow> (bool \<times> api_client option) option"
  cl_originWhitelist :: "string \<Rightarrow> string option list option"
    \<comment> \<open>\<open>getClientOriginWhitelist\<close>; an entry that is no string is \<open>None\<close>\<close>

section \<open>Strategies\<close>

definition or_else :: "string option \<Rightarrow> string option \<Rightarrow> string option" where
  \<comment> \<open>\<open>a || b\<close>\<close>
  "or_else a b = (if truthy_str a then a else b)"

definition authenticate_api_key :: "auth_client option \<Rightarrow> request \<Rightarrow> auth_context option" where
  "authenticate_api_key client rq =
     (if \<not> truthy_str (header rq ''x-api-key'') then None
      else case client of
        None \<Rightarrow> None
      | Some cl \<Rightarrow>
          let projectId = header rq ''x-project-id'' in
          (case cl_validateApiKey cl (the (header rq ''x-api-key'')) (rq_ip rq) of
             Some (True, Some c) \<Rightarrow> Some \<lparr>ac_tenant_id = ak_tenant_id c,
               ac_project_id = or_else projectId (ak_active_project_id c), ac_user_id = None,
               ac_auth_type = ApiKeyAuth,
               ac_permissions = (case ak_permissions c of None \<Rightarrow> [''*''] | Some ps \<Rightarrow> ps),
               ac_rate_limit_tier = (if truthy_str (ak_rate_limit_tier c) then the (ak_rate_limit_tier c) else ''business''),
               ac_metadata = \<lparr>md_client_id = Some (ak_client_id c),
                 md_project_id = or_else projectId (ak_active_project_id c), md_email = None, md_role = None,
                 md_company_name = None, md_plan = Some (ak_plan c), md_session_id = None,
                 md_external_id = None, md_exp = None\<rparr>\<rparr>
           | _ \<Rightarrow> None))"

definition authenticate_jwt :: "auth_client option \<Rightarrow> request \<Rightarrow> auth_context option" where
  "authenticate_jwt client rq =
     (case header rq ''authorization'' of
        None \<Rightarrow> None
      | Some authHeader \<Rightarrow>
          if \<not> str_starts_with authHeader ''Bearer '' then None
          else (case client of
            None \<Rightarrow> None
          | Some cl \<Rightarrow> (case cl_validateToken cl (drop 7 authHeader) of
              Some (True, Some p) \<Rightarrow> Some \<lparr>ac_tenant_id = tk_tenant_id p,
                ac_project_id = tk_project_id p, ac_user_id = Some (tk_user_id p),
                ac_auth_type = JwtAuth,
                ac_permissions = (case tk_permissions p of None \<Rightarrow> [] | Some ps \<Rightarrow> ps),
                ac_rate_limit_tier = ''business'',
                ac_metadata = \<lparr>md_client_id = tk_client_id p, md_project_id = tk_project_id p,
                  md_email = tk_email p, md_role = tk_role p, md_company_name = tk_company_name p,
                  md_plan = tk_plan p, md_session_id = tk_session_id p,
                  md_external_id = tk_external_id p, md_exp = Some (tk_exp p)\<rparr>\<rparr>
            | _ \<Rightarrow> None)))"

definition authenticate_sdk :: "auth_client option \<Rightarrow> request \<Rightarrow> auth_context option" where
  "authenticate_sdk client rq =
     (if \<not> truthy_str (header rq ''x-app-id'') \<or> \<not> truthy_str (header rq ''x-app-secret'') then None
      else case client of
        None \<Rightarrow> None
      | Some cl \<Rightarrow> (case cl_validateApiKey cl (the (header rq ''x-app-secret'')) (rq_ip rq) of
          Some (True, Some c) \<Rightarrow> Some \<lparr>ac_tenant_id = ak_tenant_id c,
            ac_project_id = header rq ''x-project-id'', ac_user_id = None,
            ac_auth_type = SdkAuth,
            ac_permissions = (case ak_permissions c of None \<Rightarrow> [''*''] | Some ps \<Rightarrow> ps),
            ac_rate_limit_tier = (if truthy_str (ak_rate_limit_tier c) then the (ak_rate_limit_tier c) else ''business''),
            ac_metadata = \<lparr>md_client_id = Some (ak_client_id c), md_project_id = header rq ''x-project-id'',
              md_email = None, md_role = None, md_company_name = None, md_plan = Some (ak_plan c),
              md_session_id = None, md_external_id = None, md_exp = None\<rparr>\<rparr>
        | _ \<Rightarrow> None))"

section \<open>Origin check\<close>

record gw_env =
  ge_strict_origin :: "string option" \<comment> \<open>\<open>process.env.STRICT_ORIGIN_VALIDATION\<close>\<close>
  ge_node_env :: "string option"
  ge_url_origin :: "string \<Rightarrow> string option" \<comment> \<open>\<open>new URL(s).origin\<close>, \<open>None\<close> when the constructor throws\<close>

definition browser_agent :: "string \<Rightarrow> bool" where
  \<comment> \<open>the test of the user agent against mozilla, chrome, safari, firefox and edg/, ignoring case\<close>
  "browser_agent userAgent = list_ex (str_includes (map ascii_lower userAgent))
     [''mozilla'', ''chrome'', ''safari'', ''firefox'', ''edg/'']"

definition mutating_methods :: "string list" where
  "mutating_methods = [''POST'', ''PUT'', ''PATCH'', ''DELETE'']"

definition normalize_origin :: "gw_env \<Rightarrow> string option \<Rightarrow> string option" where
  "normalize_origin env raw = (if truthy_str raw then ge_url_origin env (the raw) else None)"

definition originValidator :: "gw_env \<Rightarrow> auth_client option \<Rightarrow> request \<Rightarrow> auth_context option \<Rightarrow> gw_outcome option" where
  "originValidator env client rq auth =
     (case auth of
        None \<Rightarrow> None
      | Some ac \<Rightarrow>
        if ac_auth_type ac \<noteq> JwtAuth then None
        else let
          http_method = map ascii_upper (if rq_method rq = [] then ''GET'' else rq_method rq);
          isMutatingMethod = http_method \<in> set mutating_methods;
          strictValidationDisabled = (ge_strict_origin env = Some ''false'')
        in if strictValidationDisabled \<and> ge_node_env env \<noteq> Some ''production'' then None
        else let
          normalizedOrigin = normalize_origin env (or_else (header rq ''origin'') (header rq ''referer''))
        in if \<not> truthy_str normalizedOrigin then
          let userAgent = (case header rq ''user-agent'' of None \<Rightarrow> [] | Some ua \<Rightarrow> ua);
              browserHintsPresent = truthy_str (header rq ''sec-fetch-site'') \<or> browser_agent userAgent
          in if isMutatingMethod \<and> browserHintsPresent
             then Some (Sent 403 ''Origin header is required for mutating browser requests'' ''origin_required'')
             else None
        else if \<not> truthy_str (md_client_id (ac_metadata ac)) then
          (if isMutatingMethod
           then Some (Sent 401 ''Client identity missing in authentication context'' ''context_missing'') else None)
        else (case client of
          None \<Rightarrow> None
        | Some cl \<Rightarrow> (case cl_originWhitelist cl (the (md_client_id (ac_metadata ac))) of
            None \<Rightarrow> if isMutatingMethod
              then Some (Sent 503 ''Origin validation dependency unavailable'' ''origin_validation_unavailable'') else None
          | Some origins \<Rightarrow>
              if origins = [] then None
              else let normalizedWhitelist =
                  filter (\<lambda>x. truthy_str x) (map (\<lambda>x. case x of None \<Rightarrow> None | Some t \<Rightarrow> normalize_origin env (Some t)) origins)
                in if normalizedOrigin \<in> set normalizedWhitelist then None
                   else Some (Sent 403 ''Origin not allowed for this tenant client'' ''origin_not_allowed''))))"

section \<open>The user of a request\<close>

record gw_user =
  gu_user_id :: string
  gu_tenant_id :: string
  gu_project_id :: "string option"
  gu_session_id :: string
  gu_iat :: int
  gu_exp :: int
  gu_email :: string
  gu_roles :: "string list"
  gu_scopes :: "string list"

definition is_space :: "char \<Rightarrow> bool" where
  "is_space c \<longleftrightarrow> c \<in> {CHR 0x09, CHR 0x0A, CHR 0x0B, CHR 0x0C, CHR 0x0D, CHR '' '', CHR 0xA0}"

definition str_trim :: "string \<Rightarrow> string" where
  "str_trim s = rev (dropWhile is_space (rev (dropWhile is_space s)))"

definition context_roles :: "auth_context \<Rightarrow> string list" where
  "context_roles ac =
     (case md_role (ac_metadata ac) of
        Some r \<Rightarrow> if r \<noteq> [] \<and> str_trim r \<noteq> [] then [r]
                  else if ac_auth_type ac = ApiKeyAuth \<or> ac_auth_type ac = SdkAuth then [''tenant_admin''] else []
      | None \<Rightarrow> if ac_auth_type ac = ApiKeyAuth \<or> ac_auth_type ac = SdkAuth then [''tenant_admin''] else [])"

definition user_of_context :: "int \<Rightarrow> auth_context \<Rightarrow> gw_user" where
  \<comment> \<open>\<open>now\<close> in seconds\<close>
  "user_of_context now ac = \<lparr>
     gu_user_id = (if truthy_str (ac_user_id ac) then the (ac_user_id ac) else ''system''),
     gu_tenant_id = ac_tenant_id ac,
     gu_project_id = or_else (ac_project_id ac) (md_project_id (ac_metadata ac)),
     gu_session_id = (if truthy_str (md_session_id (ac_metadata ac)) then the (md_session_id (ac_metadata ac)) else ''n/a''),
     gu_iat = now,
     gu_exp = (case md_exp (ac_metadata ac) of None \<Rightarrow> now + 3600 | Some e \<Rightarrow> if e = 0 then now + 3600 else e),
     gu_email = (case md_email (ac_metadata ac) of None \<Rightarrow> [] | Some e \<Rightarrow> e),
     gu_roles = context_roles ac,
     gu_scopes = ac_permissions ac\<rparr>"

fun first_context :: "(request \<Rightarrow> auth_context option) list \<Rightarrow> request \<Rightarrow> auth_context option" where
  "first_context [] rq = None"
| "first_context (strategy # strategies) rq =
     (case strategy rq of Some ac \<Rightarrow> Some ac | None \<Rightarrow> first_context strategies rq)"

definition auth_strategies :: "auth_client option \<Rightarrow> (request \<Rightarrow> auth_context option) list" where
  "auth_strategies client = [authenticate_api_key client, authenticate_jwt client, authenticate_sdk client]"

definition auth_handle ::
    "gw_env \<Rightarrow> auth_client option \<Rightarrow> int \<Rightarrow> request \<Rightarrow> gw_outcome option \<times> (gw_user \<times> auth_context) option" where
  \<comment> \<open>the reply a validator has sent, if any, and what is attached to the request\<close>
  "auth_handle env client now rq =
     (case first_context (auth_strategies client) rq of
        None \<Rightarrow> (None, None)
      | Some ac \<Rightarrow>
          ((if ac_auth_type ac = JwtAuth then originValidator env client rq (Some ac) else None),
           Some (user_of_context now ac, ac)))"

section \<open>Tenant resolution\<close>

record tenant_limits =
  tl_api_rate_limit :: int
  tl_monthly_quota :: "int option"
  tl_max_users :: int
  tl_storage_limit_gb :: int

record tenant_context =
  tc_tenant_id :: string
  tc_app_id :: string
  tc_name :: string
  tc_plan :: string
  tc_limits :: tenant_limits
  tc_database_strategy :: string
  tc_is_active :: bool

definition allowed_plans :: "string list" where
  "allowed_plans = [''free'', ''startup'', ''business'', ''enterprise'']"

definition fallback_tenant :: "string \<Rightarrow> auth_metadata \<Rightarrow> tenant_context" where
  "fallback_tenant tenantId md = \<lparr>tc_tenant_id = tenantId, tc_app_id = tenantId,
     tc_name = (case md_company_name md of
        Some n \<Rightarrow> if str_trim n \<noteq> [] then n else ''Tenant '' @ tenantId
      | None \<Rightarrow> ''Tenant '' @ tenantId),
     tc_plan = (case md_plan md of Some p \<Rightarrow> if p \<in> set allowed_plans then p else ''business'' | None \<Rightarrow> ''business''),
     tc_limits = \<lparr>tl_api_rate_limit = 1000, tl_monthly_quota = None, tl_max_users = 100, tl_storage_limit_gb = 10\<rparr>,
     tc_database_strategy = ''shared'', tc_is_active = True\<rparr>"

definition resolveTenant ::
    "(string \<Rightarrow> 's \<Rightarrow> tenant_context option \<times> 's) \<Rightarrow> request \<Rightarrow> auth_context option \<Rightarrow> 's
     \<Rightarrow> (gw_outcome + tenant_context option) \<times> 's" where
  \<comment> \<open>\<open>getTenant\<close> is the tenant service's lookup with its state\<close>
  "resolveTenant getTenant rq auth s =
     (let fromHeader = (case header rq ''x-tenant-id'' of Some h \<Rightarrow> if h = [] then None else Some h | None \<Rightarrow> None);
          fromAuth = (case auth of Some ac \<Rightarrow> if ac_tenant_id ac = [] then None else Some (ac_tenant_id ac) | None \<Rightarrow> None)
      in if fromAuth \<noteq> None \<and> fromHeader \<noteq> None \<and> fromHeader \<noteq> fromAuth
         then (Inl (Thrown (BadRequestError ''Tenant ID mismatch between header and auth token'')), s)
         else case (if fromAuth \<noteq> None then fromAuth else fromHeader) of
           None \<Rightarrow> (Inr None, s)
         | Some tenantId \<Rightarrow> (case getTenant tenantId s of
             (Some tenant, s') \<Rightarrow>
               if \<not> tc_is_active tenant then (Inl (Thrown (BadRequestError ''Tenant is suspended'')), s')
               else (Inr (Some tenant), s')
           | (None, s') \<Rightarrow> (case auth of
               Some ac \<Rightarrow> if ac_tenant_id ac = tenantId
                 then (Inr (Some (fallback_tenant tenantId (ac_metadata ac))), s')
                 else (Inl (Thrown (NotFoundError (''Tenant '' @ tenantId @ '' not found''))), s')
             | None \<Rightarrow> (Inl (Thrown (NotFoundError (''Tenant '' @ tenantId @ '' not found''))), s'))))"

section \<open>Route guards and context headers\<close>

definition requireAuth :: "auth_context option \<Rightarrow> app_error option" where
  "requireAuth auth = (if auth = None then Some (UnauthorizedError ''Authentication required'') else None)"

definition requirePermission :: "string \<Rightarrow> auth_context option \<Rightarrow> app_error option" where
  "requirePermission permission auth =
     (case auth of
        None \<Rightarrow> Some (UnauthorizedError ''Authentication required'')
      | Some ac \<Rightarrow>
          if permission \<notin> set (ac_permissions ac) \<and> ''*'' \<notin> set (ac_permissions ac)
          then Some (ForbiddenError (''Missing permission: '' @ permission)) else None)"

definition crossTenantCheck :: "request \<Rightarrow> tenant_context option \<Rightarrow> app_error option" where
  "crossTenantCheck rq tenant =
     (case tenant of
        None \<Rightarrow> None
      | Some t \<Rightarrow> (case map_of (rq_params rq) ''tenantId'' of
          None \<Rightarrow> None
        | Some p \<Rightarrow> if p \<noteq> [] \<and> p \<noteq> tc_tenant_id t
            then Some (ForbiddenError ''Access to other tenant resources is forbidden'') else None))"

definition validateTenantStatus :: "tenant_context option \<Rightarrow> app_error option" where
  "validateTenantStatus tenant =
     (case tenant of
        None \<Rightarrow> None
      | Some t \<Rightarrow> if \<not> tc_is_active t then Some (ForbiddenError ''Tenant account is suspended or inactive'') else None)"

definition add_header :: "string \<Rightarrow> string option \<Rightarrow> (string, string) jsmap \<Rightarrow> (string, string) jsmap" where
  \<comment> \<open>\<open>if (value) headers[name] = value\<close>\<close>
  "add_header k v hs = (if truthy_str v then AList.update k (the v) hs else hs)"

definition contextHeaders :: "request \<Rightarrow> string option \<Rightarrow> auth_context \<Rightarrow> (string, string) jsmap" where
  "contextHeaders rq correlationId ac =
     (let correlation = or_else correlationId (Some (rq_id rq)) in
      add_header ''x-request-id'' correlation
     (add_header ''x-correlation-id'' correlation
     ((if ac_permissions ac \<noteq> [] then AList.update ''x-permissions'' (str_join '','' (ac_permissions ac)) else id)
     (add_header ''x-external-id'' (md_external_id (ac_metadata ac))
     (add_header ''x-project-id'' (or_else (ac_project_id ac) (md_project_id (ac_metadata ac)))
     (add_header ''x-client-id'' (md_client_id (ac_metadata ac))
     (add_header ''x-session-id'' (md_session_id (ac_metadata ac))
     (AList.update ''x-auth-type'' (auth_type_str (ac_auth_type ac))
     (add_header ''x-user-id'' (ac_user_id ac)
     (add_header ''x-tenant-id'' (Some (ac_tenant_id ac)) []))))))))))"

definition contextHeadersMiddleware ::
    "request \<Rightarrow> string option \<Rightarrow> auth_context option \<Rightarrow> (string, string) jsmap option" where
  "contextHeadersMiddleware rq correlationId auth = map_option (contextHeaders rq correlationId) auth"

section \<open>Trust in the services behind\<close>

record service_context =
  sv_user_id :: "string option"
  sv_tenant_id :: "string option"
  sv_session_id :: "string option"
  sv_auth_type :: "string option"
  sv_client_id :: "string option"
  sv_project_id :: "string option"
  sv_external_id :: "string option"
  sv_permissions :: "string list option"
  sv_correlation_id :: "string option"

definition read_header :: "request \<Rightarrow> string \<Rightarrow> string option" where
  "read_header rq k = (if truthy_str (header rq k) then header rq k else None)"

definition serviceAuthMiddleware ::
    "gw_env \<Rightarrow> string \<Rightarrow> request \<Rightarrow> gw_outcome + service_context option" where
  "serviceAuthMiddleware env SERVICE_SECRET rq =
     (if \<not> truthy_str (header rq ''x-service-secret'') then
        (if ge_node_env env = Some ''production''
         then Inl (Sent 403 ''Forbidden: Missing service authentication'' []) else Inr None)
      else if header rq ''x-service-secret'' \<noteq> Some SERVICE_SECRET
        then Inl (Sent 403 ''Forbidden: Invalid service authentication'' [])
      else Inr (Some \<lparr>sv_user_id = read_header rq ''x-user-id'', sv_tenant_id = read_header rq ''x-tenant-id'',
        sv_session_id = read_header rq ''x-session-id'', sv_auth_type = read_header rq ''x-auth-type'',
        sv_client_id = read_header rq ''x-client-id'', sv_project_id = read_header rq ''x-project-id'',
        sv_external_id = read_header rq ''x-external-id'',
        sv_permissions = map_option (str_split (CHR '','')) (read_header rq ''x-permissions''),
        sv_correlation_id = read_header rq ''x-correlation-id''\<rparr>))"

end
