(* ===== verification/GwAuthz.thy ===== *)
theory GwAuthz
  imports GwAuth
begin

text \<open>
  Authorization at the gateway (services/gateway/src/middleware/authorization): the permission
  matrix, the mapping of methods and paths to actions, the extraction of subject and resource,
  the enforcer with its conversation membership check and cache, and the middleware that runs
  before every route. The Redis client of the cache and the query to MongoDB are parameters.
\<close>

section \<open>Permission matrix\<close>

record matrix_permission =
  mp_resource :: string
  mp_action :: string
  mp_roles :: "string list"
  mp_requiresOwnership :: bool
  mp_requiresMembership :: bool

abbreviation allow :: "string \<Rightarrow> string \<Rightarrow> string list \<Rightarrow> bool \<Rightarrow> bool \<Rightarrow> matrix_permission" where
  "allow r a rs own mem \<equiv> \<lparr>mp_resource = r, mp_action = a, mp_roles = rs,
     mp_requiresOwnership = own, mp_requiresMembership = mem\<rparr>"

definition PERMISSION_MATRIX :: "matrix_permission list" where
  "PERMISSION_MATRIX = [
     allow ''conversation'' ''create'' [''platform_admin'', ''tenant_admin'', ''user''] False False,
     allow ''conversation'' ''read'' [''platform_admin'', ''tenant_admin'', ''user''] False True,
     allow ''conversation'' ''update'' [''platform_admin'', ''tenant_admin'', ''user''] False True,
     allow ''conversation'' ''delete'' [''platform_admin'', ''tenant_admin''] True False,
     allow ''conversation'' ''add_member'' [''platform_admin'', ''tenant_admin'', ''user''] False True,
     allow ''conversation'' ''remove_member'' [''platform_admin'', ''tenant_admin'', ''user''] False True,
     allow ''conversation'' ''list'' [''platform_admin'', ''tenant_admin'', ''user''] False False,
     allow ''message'' ''create'' [''platform_admin'', ''tenant_admin'', ''user''] False True,
     allow ''message'' ''read'' [''platform_admin'', ''tenant_admin'', ''user''] False True,
     allow ''message'' ''update'' [''platform_admin'', ''tenant_admin'', ''user''] True False,
     allow ''message'' ''delete'' [''platform_admin'', ''tenant_admin'', ''user''] True False,
     allow ''user'' ''create'' [''platform_admin'', ''tenant_admin''] False False,
     allow ''user'' ''read'' [''platform_admin'', ''tenant_admin'', ''user''] False False,
     allow ''user'' ''update'' [''platform_admin'', ''tenant_admin'', ''user''] True False,
     allow ''user'' ''delete'' [''platform_admin'', ''tenant_admin''] False False,
     allow ''user'' ''list'' [''platform_admin'', ''tenant_admin''] False False,
     allow ''application'' ''create'' [''platform_admin'', ''tenant_admin''] False False,
     allow ''application'' ''read'' [''platform_admin'', ''tenant_admin''] False False,
     allow ''application'' ''update'' [''platform_admin'', ''tenant_admin''] False False,
     allow ''application'' ''delete'' [''platform_admin'', ''tenant_admin''] False False,
     allow ''application'' ''list'' [''platform_admin'', ''tenant_admin''] False False,
     allow ''tenant'' ''*'' [''platform_admin''] False False,
     allow ''audit'' ''read'' [''platform_admin'', ''tenant_admin''] False False,
     allow ''metrics'' ''read'' [''platform_admin'', ''tenant_admin''] False False]"

definition matrix_hasPermission :: "string list \<Rightarrow> string \<Rightarrow> string \<Rightarrow> matrix_permission option" where
  "matrix_hasPermission roles resource action =
     List.find (\<lambda>p. (mp_resource p = resource \<or> mp_resource p = ''*'')
       \<and> (mp_action p = action \<or> mp_action p = ''*'')
       \<and> list_ex (\<lambda>role. role \<in> set roles) (mp_roles p)) PERMISSION_MATRIX"

definition getPermissionsForRole :: "string \<Rightarrow> matrix_permission list" where
  "getPermissionsForRole role = filter (\<lambda>p. role \<in> set (mp_roles p)) PERMISSION_MATRIX"

definition requiresOwnership :: "string \<Rightarrow> string \<Rightarrow> bool" where
  "requiresOwnership resource action =
     (case List.find (\<lambda>p. mp_resource p = resource \<and> mp_action p = action) PERMISSION_MATRIX of
        None \<Rightarrow> False | Some p \<Rightarrow> mp_requiresOwnership p)"

definition requiresMembership :: "string \<Rightarrow> string \<Rightarrow> bool" where
  "requiresMembership resource action =
     (case List.find (\<lambda>p. mp_resource p = resource \<and> mp_action p = action) PERMISSION_MATRIX of
        None \<Rightarrow> False | Some p \<Rightarrow> mp_requiresMembership p)"

section \<open>Action mapper\<close>

type_synonym action_mapper = "(string, string) jsmap"

definition new_ActionMapper :: action_mapper where
  "new_ActionMapper = []"

definition url_path :: "string \<Rightarrow> string" where
  "url_path url = hd (str_split (CHR ''?'') url)"

definition getCustomMapping :: "action_mapper \<Rightarrow> string \<Rightarrow> string \<Rightarrow> string option" where
  "getCustomMapping am path meth =
     (case map_of am (meth @ '':'' @ path) of None \<Rightarrow> None | Some a \<Rightarrow> if a = [] then None else Some a)"

fun first_action :: "(bool \<times> string) list \<Rightarrow> string option" where
  \<comment> \<open>a sequence of \<open>if (c) return a\<close>\<close>
  "first_action [] = None"
| "first_action ((c, a) # rest) = (if c then Some a else first_action rest)"

definition getSpecificAction :: "string \<Rightarrow> string \<Rightarrow> string option" where
  "getSpecificAction path meth =
     (let has = str_includes path; post = (meth = ''POST'') in
      first_action [
        (has ''/messages'' \<and> post \<and> str_ends_with path ''/messages'', ''message.send''),
        (has ''/messages'' \<and> post \<and> has ''/react'', ''message.react''),
        (has ''/messages'' \<and> post \<and> has ''/pin'', ''message.pin''),
        (has ''/messages'' \<and> post \<and> has ''/forward'', ''message.forward''),
        (has ''/conversations'' \<and> post \<and> has ''/members'', ''conversation.add_member''),
        (has ''/conversations'' \<and> meth = ''DELETE'' \<and> has ''/members'', ''conversation.remove_member''),
        (has ''/conversations'' \<and> post \<and> has ''/admin'', ''conversation.set_admin''),
        (has ''/groups'' \<and> post \<and> str_ends_with path ''/join'', ''group.join''),
        (has ''/groups'' \<and> post \<and> str_ends_with path ''/leave'', ''group.leave''),
        (has ''/groups'' \<and> post \<and> has ''/invite'', ''group.invite''),
        (has ''/groups'' \<and> post \<and> has ''/kick'', ''group.kick''),
        (has ''/groups'' \<and> post \<and> has ''/ban'', ''group.ban''),
        (has ''/users'' \<and> post \<and> has ''/ban'', ''user.ban''),
        (has ''/users'' \<and> post \<and> has ''/unban'', ''user.unban''),
        (has ''/users'' \<and> post \<and> has ''/impersonate'', ''user.impersonate''),
        (has ''/files'' \<and> post, ''file.upload''),
        (has ''/files'' \<and> meth = ''GET'', ''file.download''),
        (has ''/files'' \<and> post \<and> has ''/share'', ''file.share'')])"

definition getDefaultAction :: "string \<Rightarrow> string" where
  "getDefaultAction meth =
     (if meth = ''GET'' \<or> meth = ''HEAD'' then ''read''
      else if meth = ''POST'' then ''create''
      else if meth = ''PUT'' \<or> meth = ''PATCH'' then ''update''
      else if meth = ''DELETE'' then ''delete''
      else ''access'')"

definition map_action :: "action_mapper \<Rightarrow> request \<Rightarrow> string" where
  "map_action am rq =
     (let path = url_path (rq_url rq) in
      case getCustomMapping am path (rq_method rq) of
        Some a \<Rightarrow> a
      | None \<Rightarrow> (case getSpecificAction path (rq_method rq) of
          Some a \<Rightarrow> a
        | None \<Rightarrow> getDefaultAction (rq_method rq)))"

definition registerMapping :: "string \<Rightarrow> string \<Rightarrow> string \<Rightarrow> action_mapper \<Rightarrow> action_mapper" where
  "registerMapping meth path action am = AList.update (meth @ '':'' @ path) action am"

definition registerMappings :: "(string \<times> string \<times> string) list \<Rightarrow> action_mapper \<Rightarrow> action_mapper" where
  "registerMappings ms am = fold (\<lambda>(meth, path, action). registerMapping meth path action) ms am"

section \<open>Subject and resource\<close>

record authz_subject =
  sb_user_id :: string
  sb_tenant_id :: string
  sb_roles :: "string list"
  sb_email :: string

record authz_resource =
  az_type :: string
  az_id :: "string option"
  az_tenant_id :: string
  az_owner_id :: "string option"

definition extract_subject :: "gw_user \<Rightarrow> authz_subject" where
  "extract_subject user = \<lparr>sb_user_id = gu_user_id user, sb_tenant_id = gu_tenant_id user,
     sb_roles = gu_roles user, sb_email = gu_email user\<rparr>"

type_synonym resource_types = "(string, string) jsmap"

definition new_ResourceExtractor :: resource_types where
  "new_ResourceExtractor = [(''/api/v1/messages'', ''message''), (''/api/v1/conversations'', ''conversation''),
     (''/api/v1/groups'', ''group''), (''/api/v1/users'', ''user''), (''/api/v1/files'', ''file''),
     (''/api/v1/admin'', ''admin'')]"

definition registerResourceType :: "string \<Rightarrow> string \<Rightarrow> resource_types \<Rightarrow> resource_types" where
  "registerResourceType pattern t rt = AList.update pattern t rt"

definition extractResourceType :: "resource_types \<Rightarrow> request \<Rightarrow> string" where
  "extractResourceType rt rq =
     (case List.find (\<lambda>(pattern, t). str_starts_with (url_path (rq_url rq)) pattern) rt of
        Some (pattern, t) \<Rightarrow> t | None \<Rightarrow> ''resource'')"

definition extractResourceId :: "request \<Rightarrow> string option" where
  "extractResourceId rq =
     (let p = map_of (rq_params rq) in
      or_else (p ''id'') (or_else (p ''messageId'') (or_else (p ''conversationId'') (p ''groupId''))))"

definition fetchResourceData :: "string \<Rightarrow> string \<Rightarrow> string \<Rightarrow> (string \<times> string) list \<times> string option" where
  "fetchResourceData resourceType resourceId tenantId =
     ([(''resource_type'', resourceType), (''resource_id'', resourceId), (''tenant_id'', tenantId)], None)"

definition extract_resource :: "resource_types \<Rightarrow> request \<Rightarrow> gw_user \<Rightarrow> authz_resource" where
  "extract_resource rt rq user =
     (let resourceType = extractResourceType rt rq; resourceId = extractResourceId rq;
          tenantId = (if gu_tenant_id user = [] then ''unknown'' else gu_tenant_id user)
      in \<lparr>az_type = resourceType, az_id = resourceId, az_tenant_id = tenantId,
          az_owner_id = (if truthy_str resourceId then snd (fetchResourceData resourceType (the resourceId) tenantId) else None)\<rparr>)"

section \<open>Membership\<close>

type_synonym membership = "bool \<times> string option"

record 'r membership_redis =
  mr_get :: "string \<Rightarrow> 'r \<Rightarrow> membership option option" \<comment> \<open>outer \<open>None\<close>: rejected\<close>
  mr_setex :: "string \<Rightarrow> int \<Rightarrow> membership \<Rightarrow> 'r \<Rightarrow> bool \<times> 'r"
  mr_keys :: "string \<Rightarrow> 'r \<Rightarrow> string list option"
  mr_del :: "string list \<Rightarrow> 'r \<Rightarrow> 'r"

definition getCacheKey :: "string \<Rightarrow> string \<Rightarrow> string" where
  "getCacheKey conversationId userId = ''authz:membership:'' @ conversationId @ '':'' @ userId"

definition cached_isMember ::
    "'r membership_redis \<Rightarrow> (string \<Rightarrow> string \<Rightarrow> membership) \<Rightarrow> string \<Rightarrow> string \<Rightarrow> 'r \<Rightarrow> membership \<times> 'r" where
  \<comment> \<open>\<open>ConversationMembershipCache.isMember\<close> with its 300 seconds\<close>
  "cached_isMember R checkFn conversationId userId s =
     (case mr_get R (getCacheKey conversationId userId) s of
        Some (Some cached) \<Rightarrow> (cached, s)
      | Some None \<Rightarrow> (checkFn conversationId userId,
          snd (mr_setex R (getCacheKey conversationId userId) 300 (checkFn conversationId userId) s))
      | None \<Rightarrow> (checkFn conversationId userId, s))"

definition invalidate_keys :: "'r membership_redis \<Rightarrow> string \<Rightarrow> 'r \<Rightarrow> 'r" where
  "invalidate_keys R pattern s =
     (case mr_keys R pattern s of None \<Rightarrow> s | Some ks \<Rightarrow> if 0 < length ks then mr_del R ks s else s)"

definition invalidateConversation :: "'r membership_redis \<Rightarrow> string \<Rightarrow> 'r \<Rightarrow> 'r" where
  "invalidateConversation R conversationId s =
     invalidate_keys R (''authz:membership:'' @ conversationId @ '':*'') s"

definition invalidateUser :: "'r membership_redis \<Rightarrow> string \<Rightarrow> 'r \<Rightarrow> 'r" where
  "invalidateUser R userId s = invalidate_keys R (''authz:membership:*:'' @ userId) s"

definition invalidate_membership :: "'r membership_redis \<Rightarrow> string \<Rightarrow> string \<Rightarrow> 'r \<Rightarrow> 'r" where
  "invalidate_membership R conversationId userId s = mr_del R [getCacheKey conversationId userId] s"

definition clearAll :: "'r membership_redis \<Rightarrow> 'r \<Rightarrow> 'r" where
  "clearAll R s = invalidate_keys R ''authz:membership:*'' s"

text \<open>
  The query for a conversation that is not deleted and has the user as participant:
  \<open>None\<close> when it fails, otherwise the participants of the conversation found, if any.
\<close>

type_synonym conversation_query = "string \<Rightarrow> string \<Rightarrow> (string \<times> string option) list option option"

definition queryConversationMembership :: "conversation_query option \<Rightarrow> string \<Rightarrow> string \<Rightarrow> membership" where
  "queryConversationMembership mongo conversationId userId =
     (case mongo of
        None \<Rightarrow> (True, Some ''member'')
      | Some findOne \<Rightarrow> (case findOne conversationId userId of
          None \<Rightarrow> (False, None)
        | Some None \<Rightarrow> (False, None)
        | Some (Some participants) \<Rightarrow> (True,
            (case List.find (\<lambda>p. fst p = userId) participants of
               Some (u, Some r) \<Rightarrow> if r = [] then Some ''member'' else Some r
             | _ \<Rightarrow> Some ''member''))))"

section \<open>Enforcer\<close>

record authz_decision =
  ad_allowed :: bool
  ad_reason :: string
  ad_matched_policies :: "string list"

record 'r enforcer =
  ef_cache :: "'r membership_redis option"
  ef_mongo :: "conversation_query option"

definition checkConversationMembership :: "'r enforcer \<Rightarrow> string \<Rightarrow> string \<Rightarrow> 'r \<Rightarrow> bool \<times> 'r" where
  "checkConversationMembership ef conversationId userId s =
     (case ef_cache ef of
        Some R \<Rightarrow> (case cached_isMember R (queryConversationMembership (ef_mongo ef)) conversationId userId s of
            (m, s') \<Rightarrow> (fst m, s'))
      | None \<Rightarrow> (fst (queryConversationMembership (ef_mongo ef) conversationId userId), s))"

definition sq :: string where "sq = [CHR 0x27]"

abbreviation decision :: "bool \<Rightarrow> string \<Rightarrow> string list \<Rightarrow> authz_decision" where
  "decision a r ps \<equiv> \<lparr>ad_allowed = a, ad_reason = r, ad_matched_policies = ps\<rparr>"

definition evaluateRequest ::
    "'r enforcer \<Rightarrow> authz_subject \<Rightarrow> authz_resource \<Rightarrow> string \<Rightarrow> 'r \<Rightarrow> authz_decision \<times> 'r" where
  "evaluateRequest ef sb rs action s =
     (if sb_tenant_id sb \<noteq> az_tenant_id rs
      then (decision False ''Cross-tenant access denied'' [''deny-cross-tenant''], s)
      else if ''platform_admin'' \<in> set (sb_roles sb)
      then (decision True ''Platform admin has full access'' [''platform-admin-full-access''], s)
      else if ''tenant_admin'' \<in> set (sb_roles sb) \<and> sb_tenant_id sb = az_tenant_id rs
      then (decision True ''Tenant admin has full access within tenant'' [''tenant-admin-full-access''], s)
      else case matrix_hasPermission (sb_roles sb) (az_type rs) action of
        None \<Rightarrow> (decision False (''Role '' @ sq @ str_join '', '' (sb_roles sb) @ sq
            @ '' does not have permission to '' @ sq @ action @ sq @ '' on '' @ sq @ az_type rs @ sq) [], s)
      | Some p \<Rightarrow>
          let policy = mp_resource p @ ''-'' @ mp_action p;
              granted = decision True (''Permission granted via role '' @ sq @ str_join '', '' (sb_roles sb) @ sq) [policy]
          in if mp_requiresOwnership p \<and> (\<not> truthy_str (az_owner_id rs) \<or> az_owner_id rs \<noteq> Some (sb_user_id sb))
             then (decision False ''Resource ownership required for this action'' [policy], s)
             else if mp_requiresMembership p then
               (if \<not> truthy_str (az_id rs)
                then (decision False ''Resource ID required for membership check'' [], s)
                else case checkConversationMembership ef (the (az_id rs)) (sb_user_id sb) s of
                  (isMember, s') \<Rightarrow>
                    if isMember then (granted, s')
                    else (decision False ''Conversation membership required for this action'' [policy], s'))
             else (granted, s))"

section \<open>Middleware\<close>

definition skipRoutes :: "string list" where
  "skipRoutes = [''/health'', ''/docs'', ''/documentation'', ''/api/v1/auth/client/login'',
     ''/api/v1/auth/client/register'', ''/api/v1/auth/client/refresh'',
     ''/api/v1/auth/client/forgot-password'', ''/api/v1/auth/client/reset-password'', ''/api/v1/sdk'']"

definition skips_authorization :: "request \<Rightarrow> bool" where
  "skips_authorization rq \<longleftrightarrow> list_ex (str_starts_with (url_path (rq_url rq))) skipRoutes"

definition extractDeviceType :: "request \<Rightarrow> string" where
  "extractDeviceType rq =
     (let userAgent = map ascii_lower (case header rq ''user-agent'' of None \<Rightarrow> [] | Some ua \<Rightarrow> ua) in
      if str_includes userAgent ''mobile'' then ''mobile''
      else if str_includes userAgent ''tablet'' then ''tablet''
      else ''desktop'')"

definition authzMiddleware ::
    "'r enforcer \<Rightarrow> action_mapper \<Rightarrow> resource_types \<Rightarrow> request \<Rightarrow> gw_user option \<Rightarrow> 'r \<Rightarrow> gw_outcome option \<times> 'r" where
  "authzMiddleware ef am rt rq user s =
     (if skips_authorization rq then (None, s)
      else case user of
        None \<Rightarrow> (None, s)
      | Some u \<Rightarrow>
          (case evaluateRequest ef (extract_subject u) (extract_resource rt rq u) (map_action am rq) s of
             (d, s') \<Rightarrow> if ad_allowed d then (None, s')
               else (Some (Sent 403 ''Forbidden'' (ad_reason d)), s')))"

end
