(* ===== verification/GwPipeline.thy ===== *)
theory GwPipeline
  imports GwAuthz
begin

text \<open>
  The chain of hooks every request to the gateway passes before its route
  (services/gateway/src/app.ts): authentication, tenant resolution, authorization, rate limiting
  and context headers, with the tenant service (services/tenant-service.ts), the rate limiter
  (middleware/rate-limit) and the quota service (services/quota-service.ts). Redis clients are
  parameters whose commands may fail; times are milliseconds, lifetimes seconds.
\<close>

section \<open>Tenant service\<close>

record 't tenant_redis =
  tr_get :: "int \<Rightarrow> string \<Rightarrow> 't \<Rightarrow> tenant_context option option" \<comment> \<open>outer \<open>None\<close>: rejected\<close>
  tr_setex :: "int \<Rightarrow> string \<Rightarrow> int \<Rightarrow> tenant_context \<Rightarrow> 't \<Rightarrow> bool \<times> 't"

abbreviation mock_tenant :: "string \<Rightarrow> string \<Rightarrow> string \<Rightarrow> string \<Rightarrow> int \<Rightarrow> int \<Rightarrow> int \<Rightarrow> tenant_context" where
  "mock_tenant i app name plan rate users gb \<equiv> \<lparr>tc_tenant_id = i, tc_app_id = app, tc_name = name, tc_plan = plan,
     tc_limits = \<lparr>tl_api_rate_limit = rate, tl_monthly_quota = None, tl_max_users = users, tl_storage_limit_gb = gb\<rparr>,
     tc_database_strategy = ''shared'', tc_is_active = True\<rparr>"

definition MOCK_TENANTS :: "(string, tenant_context) jsmap" where
  "MOCK_TENANTS = [
     (''tenant-123'', mock_tenant ''tenant-123'' ''app-tenant-123'' ''Demo Tenant'' ''business'' 1000 100 10),
     (''default-tenant'', mock_tenant ''default-tenant'' ''app-default'' ''Default Tenant'' ''free'' 100 5 1),
     (''tenant-1'', mock_tenant ''tenant-1'' ''app-tenant-1'' ''Test Tenant'' ''business'' 10000 1000 100)]"

definition tenant_key :: "string \<Rightarrow> string" where
  "tenant_key tenantId = ''tenant:'' @ tenantId"

definition getTenant ::
    "'t tenant_redis \<Rightarrow> int \<Rightarrow> string \<Rightarrow> 't \<Rightarrow> tenant_context option \<times> 't" where
  \<comment> \<open>own keys of the table only; the cache lifetime is 300 seconds\<close>
  "getTenant R now tenantId s =
     (case tr_get R now (tenant_key tenantId) s of
        Some (Some cached) \<Rightarrow> (Some cached, s)
      | _ \<Rightarrow> (case map_of MOCK_TENANTS tenantId of
          Some tenant \<Rightarrow> (Some tenant, snd (tr_setex R now (tenant_key tenantId) 300 tenant s))
        | None \<Rightarrow> (None, s)))"

section \<open>Rate limits and quotas\<close>

record rate_limit_tier =
  tier_requests :: int
  tier_window :: int
  tier_burst :: int

definition RATE_LIMIT_TIERS :: "(string, rate_limit_tier) jsmap" where
  "RATE_LIMIT_TIERS = [
     (''free'', \<lparr>tier_requests = 100, tier_window = 60, tier_burst = 20\<rparr>),
     (''startup'', \<lparr>tier_requests = 1000, tier_window = 60, tier_burst = 100\<rparr>),
     (''business'', \<lparr>tier_requests = 10000, tier_window = 60, tier_burst = 500\<rparr>),
     (''enterprise'', \<lparr>tier_requests = 100000, tier_window = 60, tier_burst = 5000\<rparr>)]"

definition DEFAULT_TIER :: string where
  "DEFAULT_TIER = ''free''"

definition getRateLimitKey :: "request \<Rightarrow> auth_context option \<Rightarrow> string" where
  "getRateLimitKey rq auth =
     (case auth of
        Some ac \<Rightarrow>
          if ac_tenant_id ac \<noteq> [] then ''rl:tenant:'' @ ac_tenant_id ac
          else if truthy_str (ac_user_id ac) then ''rl:user:'' @ the (ac_user_id ac)
          else ''rl:ip:'' @ the (or_else (header rq ''x-forwarded-for'') (Some (rq_ip rq)))
      | None \<Rightarrow> ''rl:ip:'' @ the (or_else (header rq ''x-forwarded-for'') (Some (rq_ip rq))))"

text \<open>
  The counters in Redis: \<open>MULTI INCR TTL EXEC\<close>, \<open>EXPIRE\<close>, and \<open>GET\<close> and
  \<open>MULTI INCRBY EXPIRE EXEC\<close> for quotas; \<open>None\<close> is a failure.
\<close>

record 'c counter_redis =
  cr_incr_ttl :: "int \<Rightarrow> string \<Rightarrow> 'c \<Rightarrow> (int \<times> int) option \<times> 'c"
  cr_expire :: "int \<Rightarrow> string \<Rightarrow> int \<Rightarrow> 'c \<Rightarrow> bool \<times> 'c"
  cr_get :: "int \<Rightarrow> string \<Rightarrow> 'c \<Rightarrow> int option option"
  cr_incrby_expire :: "int \<Rightarrow> string \<Rightarrow> int \<Rightarrow> int \<Rightarrow> 'c \<Rightarrow> 'c"

definition rl_increment ::
    "'c counter_redis \<Rightarrow> int \<Rightarrow> string \<Rightarrow> int \<Rightarrow> 'c \<Rightarrow> (int \<times> int) option \<times> 'c" where
  "rl_increment R now key window s =
     (case cr_incr_ttl R now key s of
        (None, s') \<Rightarrow> (None, s')
      | (Some (current, ttl), s') \<Rightarrow>
          if current = 1 then (case cr_expire R now key window s' of
              (True, s'') \<Rightarrow> (Some (current, window), s'')
            | (False, s'') \<Rightarrow> (None, s''))
          else (Some (current, ttl), s'))"

definition getQuotaKey :: "nat \<times> nat \<Rightarrow> string \<Rightarrow> string" where
  \<comment> \<open>year and month of the local date\<close>
  "getQuotaKey ym tenantId = ''quota:'' @ tenantId @ '':'' @ show_nat (fst ym) @ ''-'' @ show_nat (snd ym)"

definition checkQuota :: "'c counter_redis \<Rightarrow> int \<Rightarrow> nat \<times> nat \<Rightarrow> string \<Rightarrow> int \<Rightarrow> 'c \<Rightarrow> bool" where
  "checkQuota R now ym tenantId limit s =
     (if limit < 0 then True
      else case cr_get R now (getQuotaKey ym tenantId) s of
        None \<Rightarrow> True
      | Some usage \<Rightarrow> (case usage of None \<Rightarrow> 0 | Some n \<Rightarrow> n) < limit)"

definition incrementUsage :: "'c counter_redis \<Rightarrow> int \<Rightarrow> nat \<times> nat \<Rightarrow> string \<Rightarrow> int \<Rightarrow> 'c \<Rightarrow> 'c" where
  "incrementUsage R now ym tenantId amount s =
     cr_incrby_expire R now (getQuotaKey ym tenantId) amount (35 * 24 * 60 * 60) s"

definition getUsage :: "'c counter_redis \<Rightarrow> int \<Rightarrow> nat \<times> nat \<Rightarrow> string \<Rightarrow> 'c \<Rightarrow> int" where
  "getUsage R now ym tenantId s =
     (case cr_get R now (getQuotaKey ym tenantId) s of Some (Some n) \<Rightarrow> n | _ \<Rightarrow> 0)"

definition rate_parameters :: "tenant_context option \<Rightarrow> auth_context option \<Rightarrow> int \<times> int \<times> int" where
  \<comment> \<open>limit, window and quota limit\<close>
  "rate_parameters tenant auth =
     (case tenant of
        Some t \<Rightarrow> if tl_api_rate_limit (tc_limits t) \<noteq> 0
          then (tl_api_rate_limit (tc_limits t), 60,
                case tl_monthly_quota (tc_limits t) of None \<Rightarrow> -1 | Some q \<Rightarrow> q)
          else (let tierName = (if tc_plan t \<noteq> [] then tc_plan t
                  else case auth of Some ac \<Rightarrow> if ac_rate_limit_tier ac \<noteq> [] then ac_rate_limit_tier ac else DEFAULT_TIER
                    | None \<Rightarrow> DEFAULT_TIER);
                  tier = (case map_of RATE_LIMIT_TIERS tierName of Some x \<Rightarrow> x
                    | None \<Rightarrow> the (map_of RATE_LIMIT_TIERS DEFAULT_TIER))
                in (tier_requests tier, tier_window tier, -1))
      | None \<Rightarrow> (let tierName = (case auth of
                    Some ac \<Rightarrow> if ac_rate_limit_tier ac \<noteq> [] then ac_rate_limit_tier ac else DEFAULT_TIER
                  | None \<Rightarrow> DEFAULT_TIER);
                  tier = (case map_of RATE_LIMIT_TIERS tierName of Some x \<Rightarrow> x
                    | None \<Rightarrow> the (map_of RATE_LIMIT_TIERS DEFAULT_TIER))
                in (tier_requests tier, tier_window tier, -1)))"

record rate_headers =
  rh_limit :: int
  rh_remaining :: int
  rh_reset :: int

definition rateLimitMiddleware ::
    "'c counter_redis \<Rightarrow> int \<Rightarrow> nat \<times> nat \<Rightarrow> request \<Rightarrow> auth_context option \<Rightarrow> tenant_context option \<Rightarrow> 'c
     \<Rightarrow> (app_error + rate_headers option) \<times> 'c" where
  "rateLimitMiddleware R now ym rq auth tenant s =
     (let key = getRateLimitKey rq auth in
      case rate_parameters tenant auth of (limit, window, quotaLimit) \<Rightarrow>
        let counted = (case tenant of Some t \<Rightarrow> if tc_tenant_id t = [] then None else Some (tc_tenant_id t) | None \<Rightarrow> None) in
        if counted \<noteq> None \<and> 0 \<le> quotaLimit \<and> \<not> checkQuota R now ym (the counted) quotaLimit s
        then (Inl (TooManyRequestsError ''Monthly API quota exceeded''), s)
        else (case rl_increment R now key window s of
          (None, s') \<Rightarrow> (Inr None, s')
        | (Some (current, ttl), s') \<Rightarrow>
            if limit < current
            then (Inl (TooManyRequestsError (''Rate limit exceeded. Try again in '' @ show_int ttl @ '' seconds.'')), s')
            else (Inr (Some \<lparr>rh_limit = limit, rh_remaining = max 0 (limit - current), rh_reset = now div 1000 + ttl\<rparr>),
              case counted of None \<Rightarrow> s' | Some t \<Rightarrow> incrementUsage R now ym t 1 s')))"

section \<open>The chain of hooks\<close>

record ('t, 'm, 'c) gw_services =
  gs_env :: gw_env
  gs_auth :: "auth_client option"
  gs_tenants :: "'t tenant_redis"
  gs_enforcer :: "'m enforcer"
  gs_counters :: "'c counter_redis"

record ('t, 'm, 'c) gw_state =
  st_tenants :: 't
  st_membership :: 'm
  st_counters :: 'c

record admitted =
  ad_user :: "gw_user option"
  ad_auth :: "auth_context option"
  ad_tenant :: "tenant_context option"
  ad_rate :: "rate_headers option"
  ad_headers :: "(string, string) jsmap option"

definition preHandler ::
    "('t, 'm, 'c) gw_services \<Rightarrow> int \<Rightarrow> nat \<times> nat \<Rightarrow> request \<Rightarrow> string option \<Rightarrow> ('t, 'm, 'c) gw_state
     \<Rightarrow> (gw_outcome + admitted) \<times> ('t, 'm, 'c) gw_state" where
  "preHandler gs now ym rq correlationId st =
     (case auth_handle (gs_env gs) (gs_auth gs) (now div 1000) rq of
        (Some sent, _) \<Rightarrow> (Inl sent, st)
      | (None, attached) \<Rightarrow>
        let user = map_option fst attached; auth = map_option snd attached in
        (case resolveTenant (getTenant (gs_tenants gs) now) rq auth (st_tenants st) of
           (Inl e, t') \<Rightarrow> (Inl e, st\<lparr>st_tenants := t'\<rparr>)
         | (Inr tenant, t') \<Rightarrow>
           (case authzMiddleware (gs_enforcer gs) new_ActionMapper new_ResourceExtractor rq user (st_membership st) of
              (Some sent, m') \<Rightarrow> (Inl sent, st\<lparr>st_tenants := t', st_membership := m'\<rparr>)
            | (None, m') \<Rightarrow>
              (case rateLimitMiddleware (gs_counters gs) now ym rq auth tenant (st_counters st) of
                 (Inl e, c') \<Rightarrow> (Inl (Thrown e), \<lparr>st_tenants = t', st_membership = m', st_counters = c'\<rparr>)
               | (Inr rate, c') \<Rightarrow>
                   (Inr \<lparr>ad_user = user, ad_auth = auth, ad_tenant = tenant, ad_rate = rate,
                      ad_headers = contextHeadersMiddleware rq correlationId auth\<rparr>,
                    \<lparr>st_tenants = t', st_membership = m', st_counters = c'\<rparr>)))))"

end
