(* ===== verification/GwStores.thy ===== *)
theory GwStores
  imports GwPipeline AuthRedis
begin

text \<open>
  The Redis stores of the gateway, as far as it relies on them: cached tenants (locale
  \<open>tenant_cache\<close>) and counters with lifetimes (locale \<open>counter_store\<close>), each with a concrete
  server, and what the rate limiter (middleware/rate-limit) admits over a counter store.
\<close>

section \<open>Cached tenants\<close>

locale tenant_cache =
  fixes R :: "'t tenant_redis"
  assumes get_setex: "tr_get R now k (snd (tr_setex R t k' d v s)) = Some (Some c)
      \<Longrightarrow> k = k' \<and> c = v \<or> (\<exists>u. tr_get R u k s = Some (Some c))"

definition map_tenants :: "tenant_context server tenant_redis" where
  "map_tenants = \<lparr>tr_get = (\<lambda>t k s. Some (rd_get map_redis t k s)),
     tr_setex = (\<lambda>t k d v s. (True, rd_setex map_redis t k d v s))\<rparr>"

interpretation mt: tenant_cache map_tenants
  by unfold_locales (auto simp: map_tenants_def map_redis_def split: if_splits)

section \<open>Counters\<close>

text \<open>
  \<open>live t k s\<close> is the counter under a key at a time, with its deadline if it has one.
\<close>

locale counter_store =
  fixes R :: "'c counter_redis" and live :: "int \<Rightarrow> string \<Rightarrow> 'c \<Rightarrow> (int \<times> int option) option"
  assumes incr_new: "live t k s = None \<Longrightarrow> fst (cr_incr_ttl R t k s) = Some (1, -1)"
    and incr_old: "live t k s = Some (n, Some e) \<Longrightarrow> map_option fst (fst (cr_incr_ttl R t k s)) = Some (n + 1)"
    and live_incr_old: "live t k s = Some (n, Some e) \<Longrightarrow> t \<le> u \<Longrightarrow> u < e
      \<Longrightarrow> live u k (snd (cr_incr_ttl R t k s)) = Some (n + 1, Some e)"
    and live_incr_new: "live t k s = None \<Longrightarrow> live t k (snd (cr_incr_ttl R t k s)) = Some (1, None)"
    and live_incr_other: "k \<noteq> k' \<Longrightarrow> live u k' (snd (cr_incr_ttl R t k s)) = live u k' s"
    and expire: "live t k s = Some (n, d) \<Longrightarrow> fst (cr_expire R t k w s)"
    and live_expire: "live t k s = Some (n, d) \<Longrightarrow> t \<le> u \<Longrightarrow> u < t + 1000 * w
      \<Longrightarrow> live u k (snd (cr_expire R t k w s)) = Some (n, Some (t + 1000 * w))"
    and live_expire_other: "k \<noteq> k' \<Longrightarrow> live u k' (snd (cr_expire R t k w s)) = live u k' s"
    and live_incrby_other: "k \<noteq> k' \<Longrightarrow> live u k' (cr_incrby_expire R t k a w s) = live u k' s"

definition live_counter :: "int \<Rightarrow> string \<Rightarrow> (string, int \<times> int option) jsmap \<Rightarrow> (int \<times> int option) option" where
  "live_counter t k s = (case map_of s k of
     None \<Rightarrow> None
   | Some (n, None) \<Rightarrow> Some (n, None)
   | Some (n, Some e) \<Rightarrow> if t < e then Some (n, Some e) else None)"

definition map_counters :: "(string, int \<times> int option) jsmap counter_redis" where
  "map_counters = \<lparr>
     cr_incr_ttl = (\<lambda>t k s. case live_counter t k s of
        None \<Rightarrow> (Some (1, -1), AList.update k (1, None) s)
      | Some (n, None) \<Rightarrow> (Some (n + 1, -1), AList.update k (n + 1, None) s)
      | Some (n, Some e) \<Rightarrow> (Some (n + 1, (e - t + 500) div 1000), AList.update k (n + 1, Some e) s)),
     cr_expire = (\<lambda>t k w s. case live_counter t k s of
        None \<Rightarrow> (True, s) | Some (n, d) \<Rightarrow> (True, AList.update k (n, Some (t + 1000 * w)) s)),
     cr_get = (\<lambda>t k s. Some (map_option fst (live_counter t k s))),
     cr_incrby_expire = (\<lambda>t k a w s. AList.update k
        (a + (case live_counter t k s of None \<Rightarrow> 0 | Some (n, d) \<Rightarrow> n), Some (t + 1000 * w)) s)\<rparr>"

interpretation mc: counter_store map_counters live_counter
  by unfold_locales (auto simp: map_counters_def live_counter_def split: option.splits prod.splits if_splits)

section \<open>Fixed windows\<close>

type_synonym limited_call = "int \<times> (nat \<times> nat) \<times> request \<times> auth_context option \<times> tenant_context option"

fun call_key :: "limited_call \<Rightarrow> string" where
  "call_key (now, ym, rq, auth, tenant) = getRateLimitKey rq auth"

fun call_time :: "limited_call \<Rightarrow> int" where
  "call_time (now, rest) = now"

fun rl_call :: "'c counter_redis \<Rightarrow> limited_call \<Rightarrow> 'c \<Rightarrow> (app_error + rate_headers option) \<times> 'c" where
  "rl_call R (now, ym, rq, auth, tenant) s = rateLimitMiddleware R now ym rq auth tenant s"

fun over_quota :: "'c counter_redis \<Rightarrow> limited_call \<Rightarrow> 'c \<Rightarrow> bool" where
  \<comment> \<open>the tenant has a monthly quota, its usage can be read and has reached the quota\<close>
  "over_quota R (now, ym, rq, auth, tenant) s \<longleftrightarrow>
     (case tenant of None \<Rightarrow> False | Some t \<Rightarrow> tc_tenant_id t \<noteq> [] \<and> 0 \<le> snd (snd (rate_parameters tenant auth))
        \<and> cr_get R now (getQuotaKey ym (tc_tenant_id t)) s \<noteq> None
        \<and> snd (snd (rate_parameters tenant auth)) \<le> getUsage R now ym (tc_tenant_id t) s)"

fun counted_requests :: "'c counter_redis \<Rightarrow> string \<Rightarrow> limited_call list \<Rightarrow> 'c \<Rightarrow> nat" where
  \<comment> \<open>how many requests of a run are under a key and not refused for their quota\<close>
  "counted_requests R K [] s = 0"
| "counted_requests R K (c # calls) s =
     (if call_key c = K \<and> \<not> over_quota R c s then 1 else 0) + counted_requests R K calls (snd (rl_call R c s))"

definition rl_run :: "'c counter_redis \<Rightarrow> limited_call list \<Rightarrow> 'c \<Rightarrow> 'c" where
  "rl_run R calls s = fold (\<lambda>c. snd \<circ> rl_call R c) calls s"

lemma key_not_quota: "getRateLimitKey rq auth \<noteq> getQuotaKey ym t"
  by (simp add: getRateLimitKey_def getQuotaKey_def split: option.split)

lemma middleware_over_quota:
  "over_quota R (now, ym, rq, auth, tenant) s \<Longrightarrow>
     rateLimitMiddleware R now ym rq auth tenant s = (Inl (TooManyRequestsError ''Monthly API quota exceeded''), s)"
  by (auto simp: rateLimitMiddleware_def Let_def checkQuota_def getUsage_def not_less split: prod.split option.splits)

lemma quota_allows:
  assumes "\<not> over_quota R (now, ym, rq, auth, tenant) s" "rate_parameters tenant auth = (limit, w, q)"
    and "(case tenant of Some t \<Rightarrow> if tc_tenant_id t = [] then None else Some (tc_tenant_id t) | None \<Rightarrow> None) = Some i"
  shows "0 \<le> q \<Longrightarrow> checkQuota R now ym i q s"
  using assms by (auto simp: checkQuota_def getUsage_def not_le split: option.splits if_splits)

context counter_store
begin

definition counting :: "string \<Rightarrow> int \<Rightarrow> int \<Rightarrow> int \<Rightarrow> 'c \<Rightarrow> bool" where
  \<comment> \<open>from \<open>t\<close> until \<open>e\<close> the key counts \<open>m\<close>\<close>
  "counting k e t m s \<longleftrightarrow> (\<forall>u. t \<le> u \<longrightarrow> u < e \<longrightarrow> live u k s = Some (m, Some e))"

lemma counting_other:
  "counting k e t m s \<Longrightarrow> (\<And>u. live u k s' = live u k s) \<Longrightarrow> counting k e t m s'"
  by (simp add: counting_def)

lemma counting_later: "counting k e t m s \<Longrightarrow> t \<le> u \<Longrightarrow> counting k e u m s"
  by (simp add: counting_def)

lemma counting_now: "counting k e t m s \<Longrightarrow> t < e \<Longrightarrow> live t k s = Some (m, Some e)"
  by (simp add: counting_def)

lemma increment_old:
  assumes "counting k e t m s" "t < e" "1 \<le> m"
  shows "map_option fst (fst (rl_increment R t k w s)) = Some (m + 1)"
    and "counting k e t (m + 1) (snd (rl_increment R t k w s))"
proof -
  note l = counting_now [OF assms(1,2)]
  obtain ttl s' where i: "cr_incr_ttl R t k s = (Some (m + 1, ttl), s')"
    using incr_old [OF l] by (cases "cr_incr_ttl R t k s") auto
  show "map_option fst (fst (rl_increment R t k w s)) = Some (m + 1)"
    using assms(3) by (simp add: rl_increment_def i)
  show "counting k e t (m + 1) (snd (rl_increment R t k w s))"
    using assms(3) live_incr_old [OF l] by (simp add: rl_increment_def i counting_def)
qed

lemma increment_new:
  assumes "live t k s = None" "0 < w"
  shows "map_option fst (fst (rl_increment R t k w s)) = Some 1"
    and "counting k (t + 1000 * w) t 1 (snd (rl_increment R t k w s))"
proof -
  obtain s' where i: "cr_incr_ttl R t k s = (Some (1, -1), s')"
    using incr_new [OF assms(1)] by (cases "cr_incr_ttl R t k s") auto
  have l: "live t k s' = Some (1, None)" using live_incr_new [OF assms(1)] by (simp add: i)
  obtain s'' where x: "cr_expire R t k w s' = (True, s'')"
    using expire [OF l, of w] by (cases "cr_expire R t k w s'") auto
  show "map_option fst (fst (rl_increment R t k w s)) = Some 1" by (simp add: rl_increment_def i x)
  show "counting k (t + 1000 * w) t 1 (snd (rl_increment R t k w s))"
    using live_expire [OF l, of _ w] by (simp add: rl_increment_def i x counting_def)
qed

lemma increment_other: "k \<noteq> k' \<Longrightarrow> live u k' (snd (rl_increment R t k w s)) = live u k' s"
  using live_incr_other [of k k' u t s] live_expire_other [of k k' u t w "snd (cr_incr_ttl R t k s)"]
  by (auto simp: rl_increment_def split: prod.splits option.splits bool.splits)

lemma usage_other: "(\<And>ym t. K \<noteq> getQuotaKey ym t) \<Longrightarrow> live u K (incrementUsage R now ym t a s) = live u K s"
  unfolding incrementUsage_def by (rule live_incrby_other) (simp add: eq_commute)

lemma middleware_live:
  assumes "\<And>ym t. K \<noteq> getQuotaKey ym t"
  shows "live u K (snd (rateLimitMiddleware R now ym rq auth tenant s)) = live u K s
    \<or> live u K (snd (rateLimitMiddleware R now ym rq auth tenant s))
        = live u K (snd (rl_increment R now (getRateLimitKey rq auth) (fst (snd (rate_parameters tenant auth))) s))"
  by (auto simp: rateLimitMiddleware_def Let_def usage_other [OF assms] split: prod.split option.split)

lemma other_call:
  assumes "\<And>ym t. K \<noteq> getQuotaKey ym t" "call_key c \<noteq> K"
  shows "live u K (snd (rl_call R c s)) = live u K s"
proof -
  obtain now ym rq auth tenant where c: "c = (now, ym, rq, auth, tenant)" by (cases c)
  with assms(2) have "getRateLimitKey rq auth \<noteq> K" by simp
  from increment_other [OF this] middleware_live [OF assms(1), of u now ym rq auth tenant s]
  show ?thesis by (simp add: c)
qed

lemma admitted_call:
  assumes "rate_parameters tenant auth = (limit, w, q)" "\<not> over_quota R (now, ym, rq, auth, tenant) s"
    and "map_option fst (fst (rl_increment R now (getRateLimitKey rq auth) w s)) = Some m"
  shows "(\<exists>e. fst (rateLimitMiddleware R now ym rq auth tenant s) = Inl e) \<longleftrightarrow> limit < m"
    and "fst (rateLimitMiddleware R now ym rq auth tenant s) = Inr h
      \<Longrightarrow> map_option rh_limit h = Some limit \<and> map_option rh_remaining h = Some (limit - m)"
    and "(\<And>ym t. K \<noteq> getQuotaKey ym t) \<Longrightarrow> live u K (snd (rateLimitMiddleware R now ym rq auth tenant s))
      = live u K (snd (rl_increment R now (getRateLimitKey rq auth) w s))"
proof -
  obtain ttl s' where i: "rl_increment R now (getRateLimitKey rq auth) w s = (Some (m, ttl), s')"
    using assms(3) by (cases "rl_increment R now (getRateLimitKey rq auth) w s") auto
  let ?counted = "case tenant of Some t \<Rightarrow> if tc_tenant_id t = [] then None else Some (tc_tenant_id t) | None \<Rightarrow> None"
  have "\<not> (?counted \<noteq> None \<and> 0 \<le> q \<and> \<not> checkQuota R now ym (the ?counted) q s)"
    using quota_allows [OF assms(2,1)] by (metis option.collapse)
  then have run: "rateLimitMiddleware R now ym rq auth tenant s =
      (if limit < m
       then (Inl (TooManyRequestsError (''Rate limit exceeded. Try again in '' @ show_int ttl @ '' seconds.'')), s')
       else (Inr (Some \<lparr>rh_limit = limit, rh_remaining = max 0 (limit - m), rh_reset = now div 1000 + ttl\<rparr>),
         case ?counted of None \<Rightarrow> s' | Some t \<Rightarrow> incrementUsage R now ym t 1 s'))"
    unfolding rateLimitMiddleware_def assms(1) Let_def by (simp only: i prod.case option.case if_False)
  show "(\<exists>e. fst (rateLimitMiddleware R now ym rq auth tenant s) = Inl e) \<longleftrightarrow> limit < m"
    and "fst (rateLimitMiddleware R now ym rq auth tenant s) = Inr h
      \<Longrightarrow> map_option rh_limit h = Some limit \<and> map_option rh_remaining h = Some (limit - m)"
    unfolding run by (auto split: if_splits)
  show "(\<And>ym t. K \<noteq> getQuotaKey ym t) \<Longrightarrow> live u K (snd (rateLimitMiddleware R now ym rq auth tenant s))
      = live u K (snd (rl_increment R now (getRateLimitKey rq auth) w s))"
    unfolding run by (simp add: i usage_other split: option.split)
qed

lemma run_counting:
  assumes K: "\<And>ym t. K \<noteq> getQuotaKey ym t"
  shows "counting K e t m s \<Longrightarrow> 1 \<le> m
    \<Longrightarrow> (\<And>c. c \<in> set calls \<Longrightarrow> t \<le> call_time c \<and> call_time c < e)
    \<Longrightarrow> sorted (map call_time calls)
    \<Longrightarrow> counting K e (last (t # map call_time calls)) (m + int (counted_requests R K calls s)) (rl_run R calls s)"
proof (induction calls arbitrary: s t m)
  case (Cons c calls)
  obtain now ym rq auth tenant where c: "c = (now, ym, rq, auth, tenant)" by (cases c)
  obtain limit w q where p: "rate_parameters tenant auth = (limit, w, q)"
    by (cases "rate_parameters tenant auth")
  let ?m = "if call_key c = K \<and> \<not> over_quota R c s then m + 1 else m"
  have now: "t \<le> now" "now < e" using Cons.prems(3) [of c] by (simp_all add: c)
  have here: "counting K e now m s" using counting_later [OF Cons.prems(1) now(1)] .
  have step: "counting K e now ?m (snd (rl_call R c s))"
  proof (cases "call_key c = K \<and> \<not> over_quota R c s")
    case True
    then have q: "\<not> over_quota R (now, ym, rq, auth, tenant) s" and k: "getRateLimitKey rq auth = K" by (simp_all add: c)
    note i = increment_old [OF here now(2) Cons.prems(2), of w]
    have "live u K (snd (rl_call R c s)) = live u K (snd (rl_increment R now K w s))" for u
      using admitted_call(3) [OF p q i(1) [folded k], where K = K] K by (simp add: c k)
    with i(2) show ?thesis unfolding counting_def by (simp add: True)
  next
    case False
    have "live u K (snd (rl_call R c s)) = live u K s" for u
      using False other_call [OF K, of c u s] middleware_over_quota [of R now ym rq auth tenant s] by (auto simp: c)
    with here have "counting K e now m (snd (rl_call R c s))" by (rule counting_other)
    with False show ?thesis by (simp only: if_False)
  qed
  have ok: "now \<le> call_time d \<and> call_time d < e" if "d \<in> set calls" for d
    using Cons.prems(3) [of d] Cons.prems(4) that by (auto simp: c)
  have "1 \<le> ?m" using Cons.prems(2) by simp
  from Cons.IH [OF step this ok] Cons.prems(4)
  have IH: "counting K e (last (now # map call_time calls))
      (?m + int (counted_requests R K calls (snd (rl_call R c s)))) (rl_run R calls (snd (rl_call R c s)))" by simp
  have "rl_run R (c # calls) s = rl_run R calls (snd (rl_call R c s))" by (simp add: rl_run_def)
  with IH show ?case by (cases calls) (auto simp: c algebra_simps split: if_splits)
qed (simp add: rl_run_def)

lemma fixed_window:
  assumes fresh: "live t0 (getRateLimitKey rq0 auth0) s = None"
    and first: "rate_parameters tenant0 auth0 = (limit0, w, q0)" "0 < w" "\<not> over_quota R (t0, ym0, rq0, auth0, tenant0) s"
    and window: "\<And>c. c \<in> set calls \<Longrightarrow> t0 \<le> call_time c \<and> call_time c \<le> now"
      "sorted (map call_time calls)" "t0 \<le> now" "now < t0 + 1000 * w"
    and req: "getRateLimitKey rq auth = getRateLimitKey rq0 auth0" "rate_parameters tenant auth = (limit, w', q)"
    and state: "s' = rl_run R ((t0, ym0, rq0, auth0, tenant0) # calls) s"
    and before: "before = int (counted_requests R (getRateLimitKey rq0 auth0) ((t0, ym0, rq0, auth0, tenant0) # calls) s)"
    and result: "result = fst (rateLimitMiddleware R now ym rq auth tenant s')"
  shows "if over_quota R (now, ym, rq, auth, tenant) s'
    then result = Inl (TooManyRequestsError ''Monthly API quota exceeded'')
    else ((\<exists>e. result = Inl e) \<longleftrightarrow> limit \<le> before)
      \<and> (\<forall>h. result = Inr h \<longrightarrow> map_option rh_limit h = Some limit
        \<and> map_option rh_remaining h = Some (limit - before - 1))"
proof -
  let ?K = "getRateLimitKey rq0 auth0" and ?e = "t0 + 1000 * w"
  let ?s1 = "snd (rateLimitMiddleware R t0 ym0 rq0 auth0 tenant0 s)"
  note K = key_not_quota [of rq0 auth0]
  note i = increment_new [OF fresh first(2)]
  define m where "m = int (counted_requests R ?K calls ?s1)"
  have before': "before = 1 + m" using first(3) by (simp add: before m_def)
  have "live u ?K ?s1 = live u ?K (snd (rl_increment R t0 ?K w s))" for u
    by (rule admitted_call(3) [OF first(1,3) i(1)]) (rule K)
  with i(2) have "counting ?K ?e t0 1 ?s1" by (simp add: counting_def)
  then have "counting ?K ?e (last (t0 # map call_time calls)) before (rl_run R calls ?s1)"
    unfolding before' m_def using window(1,2,4) by (intro run_counting [OF K]) fastforce+
  moreover have "last (t0 # map call_time calls) \<le> now"
    using window(1,3) by (cases calls rule: rev_cases) auto
  ultimately have "counting ?K ?e now before s'"
    using counting_later by (auto simp: rl_run_def state)
  from increment_old(1) [OF this window(4), of w']
  have n: "map_option fst (fst (rl_increment R now (getRateLimitKey rq auth) w' s')) = Some (before + 1)"
    by (simp add: req(1) before' m_def)
  show ?thesis
  proof (cases "over_quota R (now, ym, rq, auth, tenant) s'")
    case True
    from middleware_over_quota [OF this] True show ?thesis by (simp add: result)
  next
    case False
    have "(\<exists>e. result = Inl e) \<longleftrightarrow> limit \<le> before"
      unfolding result admitted_call(1) [OF req(2) False n] by linarith
    moreover have "result = Inr h \<Longrightarrow> map_option rh_limit h = Some limit
        \<and> map_option rh_remaining h = Some (limit - before - 1)" for h
      using admitted_call(2) [OF req(2) False n] result by (simp add: algebra_simps)
    ultimately show ?thesis using False by simp
  qed
qed

end

text \<open>
  C33: Within a window that the first request counted under a key opens, and over a counter store
  that works: a request under that key whose tenant's usage has reached its monthly quota is refused
  for that reason; any other is refused exactly if the requests counted under the key before it in
  the window have used up its limit, and an admitted one is told what remains. Counted is what is
  not refused for its quota, refused for the limit or not; requests refused for their quota and
  requests under other keys in between change nothing.
\<close>
theorem rate_limit_fixed_window:
  assumes store: "counter_store R live"
    and fresh: "live t0 (getRateLimitKey rq0 auth0) s = None"
    and first: "rate_parameters tenant0 auth0 = (limit0, w, q0)" "0 < w" "\<not> over_quota R (t0, ym0, rq0, auth0, tenant0) s"
    and window: "\<And>c. c \<in> set calls \<Longrightarrow> t0 \<le> call_time c \<and> call_time c \<le> now"
      "sorted (map call_time calls)" "t0 \<le> now" "now < t0 + 1000 * w"
    and req: "getRateLimitKey rq auth = getRateLimitKey rq0 auth0" "rate_parameters tenant auth = (limit, w', q)"
    and state: "s' = rl_run R ((t0, ym0, rq0, auth0, tenant0) # calls) s"
    and before: "before = int (counted_requests R (getRateLimitKey rq0 auth0) ((t0, ym0, rq0, auth0, tenant0) # calls) s)"
    and result: "result = fst (rateLimitMiddleware R now ym rq auth tenant s')"
  shows "if over_quota R (now, ym, rq, auth, tenant) s'
    then result = Inl (TooManyRequestsError ''Monthly API quota exceeded'')
    else ((\<exists>e. result = Inl e) \<longleftrightarrow> limit \<le> before)
      \<and> (\<forall>h. result = Inr h \<longrightarrow> map_option rh_limit h = Some limit
        \<and> map_option rh_remaining h = Some (limit - before - 1))"
  by (rule counter_store.fixed_window [OF assms])

definition anonymous :: request where
  "anonymous = \<lparr>rq_method = ''GET'', rq_url = ''/'', rq_ip = ''10.0.0.1'', rq_id = ''r'',
     rq_headers = [], rq_params = []\<rparr>"

definition metered :: "int \<Rightarrow> tenant_context" where
  \<comment> \<open>two requests a minute and a monthly quota\<close>
  "metered quota = \<lparr>tc_tenant_id = ''t'', tc_app_id = [], tc_name = [], tc_plan = ''startup'',
     tc_limits = \<lparr>tl_api_rate_limit = 2, tl_monthly_quota = Some quota, tl_max_users = 5, tl_storage_limit_gb = 1\<rparr>,
     tc_database_strategy = ''shared'', tc_is_active = True\<rparr>"

lemma rate_limit_fixed_window_witness:
  "fst (rateLimitMiddleware map_counters 9 (24, 1) anonymous None (Some (metered 1))
     (rl_run map_counters [(5, (24, 1), anonymous, None, Some (metered 1)), (7, (24, 1), anonymous, None, Some (metered 1))] []))
     = Inl (TooManyRequestsError ''Monthly API quota exceeded'') \<and>
   (\<exists>e. fst (rateLimitMiddleware map_counters 9 (24, 1) anonymous None (Some (metered 9))
     (rl_run map_counters [(5, (24, 1), anonymous, None, Some (metered 9)), (7, (24, 1), anonymous, None, Some (metered 9))] [])) = Inl e)"
proof -
  have p: "rate_parameters (Some (metered n)) None = (2, 60, n)" for n
    by (simp add: rate_parameters_def metered_def)
  have window: "if over_quota map_counters (9, (24, 1), anonymous, None, Some (metered n)) s'
    then fst (rateLimitMiddleware map_counters 9 (24, 1) anonymous None (Some (metered n)) s')
      = Inl (TooManyRequestsError ''Monthly API quota exceeded'')
    else (\<exists>e. fst (rateLimitMiddleware map_counters 9 (24, 1) anonymous None (Some (metered n)) s') = Inl e) \<longleftrightarrow>
      2 \<le> int (counted_requests map_counters (getRateLimitKey anonymous None)
        [(5, (24, 1), anonymous, None, Some (metered n)), (7, (24, 1), anonymous, None, Some (metered n))] [])"
    if "0 < n" "s' = rl_run map_counters
      [(5, (24, 1), anonymous, None, Some (metered n)), (7, (24, 1), anonymous, None, Some (metered n))] []" for n s'
  proof -
    have "\<not> over_quota map_counters (5, (24, 1), anonymous, None, Some (metered n)) []"
      using that(1) by (simp add: p getUsage_def map_counters_def live_counter_def)
    from rate_limit_fixed_window [OF mc.counter_store_axioms _ p _ this _ _ _ _ refl p that(2) refl refl]
    show ?thesis by (auto simp: live_counter_def split: if_splits)
  qed
  have "over_quota map_counters (9, (24, 1), anonymous, None, Some (metered 1)) (rl_run map_counters
      [(5, (24, 1), anonymous, None, Some (metered 1)), (7, (24, 1), anonymous, None, Some (metered 1))] [])"
    by code_simp
  moreover have "\<not> over_quota map_counters (9, (24, 1), anonymous, None, Some (metered 9)) (rl_run map_counters
      [(5, (24, 1), anonymous, None, Some (metered 9)), (7, (24, 1), anonymous, None, Some (metered 9))] [])"
    by code_simp
  moreover have "counted_requests map_counters (getRateLimitKey anonymous None)
      [(5, (24, 1), anonymous, None, Some (metered 9)), (7, (24, 1), anonymous, None, Some (metered 9))] [] = 2"
    by code_simp
  ultimately show ?thesis using window [of 1] window [of 9] by auto
qed

end
