(* ===== verification/GwSafety.thy ===== *)
theory GwSafety
  imports GwStores
begin

text \<open>
  What the gateway guarantees of the requests it lets through, and what its authorization allows
  an ordinary user.
\<close>

section \<open>The tenant of a request\<close>

definition tenant_cache_ok :: "'t tenant_redis \<Rightarrow> 't \<Rightarrow> bool" where
  "tenant_cache_ok R s \<longleftrightarrow> (\<forall>now i c. tr_get R now (tenant_key i) s = Some (Some c) \<longrightarrow> tc_tenant_id c = i)"

lemma tenant_cache_okD: "tenant_cache_ok R s \<Longrightarrow> tr_get R now (tenant_key i) s = Some (Some c) \<Longrightarrow> tc_tenant_id c = i"
  by (simp add: tenant_cache_ok_def)

lemma mock_tenant_id: "map_of MOCK_TENANTS i = Some t \<Longrightarrow> tc_tenant_id t = i"
  by (auto simp: MOCK_TENANTS_def split: if_splits)

lemma getTenant_id:
  "tenant_cache_ok R s \<Longrightarrow> fst (getTenant R now i s) = Some t \<Longrightarrow> tc_tenant_id t = i"
  by (auto simp: getTenant_def tenant_cache_ok_def dest: mock_tenant_id split: option.splits)

lemma getTenant_state:
  "snd (getTenant R now i s) = s \<or> (\<exists>t. tc_tenant_id t = i
     \<and> snd (getTenant R now i s) = snd (tr_setex R now (tenant_key i) 300 t s))"
  by (auto simp: getTenant_def dest: mock_tenant_id split: option.split)

context tenant_cache
begin

lemma cache_ok_getTenant:
  assumes "tenant_cache_ok R s"
  shows "tenant_cache_ok R (snd (getTenant R now i s))"
proof (cases "snd (getTenant R now i s) = s")
  case False
  then obtain t where t: "tc_tenant_id t = i"
    "snd (getTenant R now i s) = snd (tr_setex R now (tenant_key i) 300 t s)"
    using getTenant_state [of R now i s] by auto
  have "tc_tenant_id c = j" if "tr_get R u (tenant_key j) (snd (tr_setex R now (tenant_key i) 300 t s)) = Some (Some c)"
    for u j c
  proof -
    have "j = i \<and> c = t \<or> (\<exists>u. tr_get R u (tenant_key j) s = Some (Some c))"
      using get_setex [OF that] by (simp add: tenant_key_def)
    then show ?thesis using assms t(1) by (auto dest: tenant_cache_okD)
  qed
  then show ?thesis unfolding t(2) by (simp add: tenant_cache_ok_def)
qed (use assms in simp)

end

lemma resolve_state:
  "snd (resolveTenant gt rq auth s) = s \<or> (\<exists>i. snd (resolveTenant gt rq auth s) = snd (gt i s))"
  by (auto simp: resolveTenant_def Let_def case_prod_unfold split: option.split)

lemma resolve_auth:
  assumes "fst (resolveTenant gt rq (Some ac) s) = Inr tenant" "ac_tenant_id ac \<noteq> []"
  shows "header rq ''x-tenant-id'' \<in> {None, Some [], Some (ac_tenant_id ac)}
    \<and> (\<exists>t. tenant = Some t \<and> (fst (gt (ac_tenant_id ac) s) = Some t \<or> tc_tenant_id t = ac_tenant_id ac))"
proof (cases "header rq ''x-tenant-id'' \<in> {None, Some [], Some (ac_tenant_id ac)}")
  case True
  obtain t0 s' where gt: "gt (ac_tenant_id ac) s = (t0, s')" by (cases "gt (ac_tenant_id ac) s")
  from True assms gt show ?thesis
    by (cases t0) (auto simp: resolveTenant_def Let_def fallback_tenant_def split: if_splits)
next
  case False
  then obtain h where "header rq ''x-tenant-id'' = Some h" "h \<noteq> []" "h \<noteq> ac_tenant_id ac" by auto
  with assms show ?thesis by (simp add: resolveTenant_def Let_def)
qed

definition gw_step ::
    "('t, 'm, 'c) gw_services \<Rightarrow> int \<times> (nat \<times> nat) \<times> request \<times> string option \<Rightarrow> ('t, 'm, 'c) gw_state \<Rightarrow> ('t, 'm, 'c) gw_state" where
  "gw_step gs call st = (case call of (now, ym, rq, cid) \<Rightarrow> snd (preHandler gs now ym rq cid st))"

definition handled :: "('t, 'm, 'c) gw_services \<Rightarrow> int \<Rightarrow> request \<Rightarrow> auth_context option" where
  "handled gs now rq = map_option snd (snd (auth_handle (gs_env gs) (gs_auth gs) (now div 1000) rq))"

lemma preHandler_tenants:
  "st_tenants (snd (preHandler gs now ym rq cid st)) = st_tenants st
   \<or> st_tenants (snd (preHandler gs now ym rq cid st))
       = snd (resolveTenant (getTenant (gs_tenants gs) now) rq (handled gs now rq) (st_tenants st))"
proof (cases "auth_handle (gs_env gs) (gs_auth gs) (now div 1000) rq")
  case (Pair sent attached)
  show ?thesis
  proof (cases sent)
    case None
    obtain r t' where r: "resolveTenant (getTenant (gs_tenants gs) now) rq (map_option snd attached) (st_tenants st) = (r, t')"
      by (cases "resolveTenant (getTenant (gs_tenants gs) now) rq (map_option snd attached) (st_tenants st)")
    have "st_tenants (snd (preHandler gs now ym rq cid st)) = t'"
      by (simp add: preHandler_def Pair None Let_def r split: sum.split prod.split option.split)
    then show ?thesis by (simp add: handled_def Pair r)
  qed (simp add: preHandler_def Pair)
qed

lemma preHandler_admits:
  assumes "preHandler gs now ym rq cid st = (Inr a, st')"
  obtains attached tenant where
    "auth_handle (gs_env gs) (gs_auth gs) (now div 1000) rq = (None, attached)"
    "fst (resolveTenant (getTenant (gs_tenants gs) now) rq (map_option snd attached) (st_tenants st)) = Inr tenant"
    "fst (authzMiddleware (gs_enforcer gs) new_ActionMapper new_ResourceExtractor rq (map_option fst attached) (st_membership st)) = None"
    "ad_user a = map_option fst attached" "ad_auth a = map_option snd attached" "ad_tenant a = tenant"
    "ad_headers a = contextHeadersMiddleware rq cid (map_option snd attached)"
proof -
  obtain sent attached where h: "auth_handle (gs_env gs) (gs_auth gs) (now div 1000) rq = (sent, attached)"
    by (cases "auth_handle (gs_env gs) (gs_auth gs) (now div 1000) rq")
  have sent: "sent = None" using assms by (cases sent) (simp_all add: preHandler_def h)
  obtain r t' where r: "resolveTenant (getTenant (gs_tenants gs) now) rq (map_option snd attached) (st_tenants st) = (r, t')"
    by (cases "resolveTenant (getTenant (gs_tenants gs) now) rq (map_option snd attached) (st_tenants st)")
  obtain tenant where t: "r = Inr tenant" using assms by (cases r) (simp_all add: preHandler_def h sent Let_def r)
  obtain z m' where z: "authzMiddleware (gs_enforcer gs) new_ActionMapper new_ResourceExtractor rq (map_option fst attached) (st_membership st) = (z, m')"
    by (cases "authzMiddleware (gs_enforcer gs) new_ActionMapper new_ResourceExtractor rq (map_option fst attached) (st_membership st)")
  have zn: "z = None" using assms by (cases z) (simp_all add: preHandler_def h sent Let_def r t z)
  obtain l c' where l: "rateLimitMiddleware (gs_counters gs) now ym rq (map_option snd attached) tenant (st_counters st) = (l, c')"
    by (cases "rateLimitMiddleware (gs_counters gs) now ym rq (map_option snd attached) tenant (st_counters st)")
  obtain rate where "l = Inr rate"
    using assms by (cases l) (simp_all add: preHandler_def h sent Let_def r t z zn l)
  with assms have "a = \<lparr>ad_user = map_option fst attached, ad_auth = map_option snd attached, ad_tenant = tenant,
      ad_rate = rate, ad_headers = contextHeadersMiddleware rq cid (map_option snd attached)\<rparr>"
    by (simp add: preHandler_def h sent Let_def r t z zn l)
  then show thesis using that [of attached tenant] h sent r t z zn by simp
qed

lemma add_header_other: "k \<noteq> k' \<Longrightarrow> map_of (add_header k v hs) k' = map_of hs k'"
  by (simp add: add_header_def)

lemma if_update_other: "k \<noteq> k' \<Longrightarrow> map_of ((if c then AList.update k v else id) hs) k' = map_of hs k'"
  by simp

lemma context_tenant_header:
  "ac_tenant_id ac \<noteq> [] \<Longrightarrow> map_of (contextHeaders rq cid ac) ''x-tenant-id'' = Some (ac_tenant_id ac)"
  unfolding contextHeaders_def Let_def by (simp add: add_header_other if_update_other) (simp add: add_header_def)

lemma gw_run_cache_ok:
  assumes "tenant_cache (gs_tenants gs)"
  shows "tenant_cache_ok (gs_tenants gs) (st_tenants st)
    \<Longrightarrow> tenant_cache_ok (gs_tenants gs) (st_tenants (fold (gw_step gs) calls st))"
proof (induction calls arbitrary: st)
  case (Cons call calls)
  obtain now ym rq cid where call: "call = (now, ym, rq, cid)" by (cases call)
  have "tenant_cache_ok (gs_tenants gs) (snd (resolveTenant (getTenant (gs_tenants gs) now) rq auth (st_tenants st)))" for auth
    using resolve_state [of "getTenant (gs_tenants gs) now" rq auth "st_tenants st"] Cons.prems
      tenant_cache.cache_ok_getTenant [OF assms Cons.prems] by auto
  then have "tenant_cache_ok (gs_tenants gs) (st_tenants (gw_step gs call st))"
    using preHandler_tenants [of gs now ym rq cid st] Cons.prems by (auto simp: gw_step_def call)
  then show ?case using Cons.IH by simp
qed simp

text \<open>
  C5: In every run of the gateway, a request it lets through with an authenticated tenant was
  authenticated for that tenant, carried no other tenant in its header, and is passed on with
  that tenant as its context, its user's tenant and its tenant header.
\<close>
theorem gateway_tenant_agreement:
  assumes "tenant_cache (gs_tenants gs)" "tenant_cache_ok (gs_tenants gs) (st_tenants st0)"
    and "preHandler gs now ym rq cid (fold (gw_step gs) calls st0) = (Inr a, st')"
    and "ad_auth a = Some ac" "ac_tenant_id ac \<noteq> []"
  shows "first_context (auth_strategies (gs_auth gs)) rq = Some ac
    \<and> header rq ''x-tenant-id'' \<in> {None, Some [], Some (ac_tenant_id ac)}
    \<and> map_option tc_tenant_id (ad_tenant a) = Some (ac_tenant_id ac)
    \<and> map_option gu_tenant_id (ad_user a) = Some (ac_tenant_id ac)
    \<and> (case ad_headers a of None \<Rightarrow> None | Some hs \<Rightarrow> map_of hs ''x-tenant-id'') = Some (ac_tenant_id ac)"
proof -
  let ?st = "fold (gw_step gs) calls st0"
  obtain attached tenant where h: "auth_handle (gs_env gs) (gs_auth gs) (now div 1000) rq = (None, attached)"
      and r: "fst (resolveTenant (getTenant (gs_tenants gs) now) rq (map_option snd attached) (st_tenants ?st)) = Inr tenant"
      and a: "ad_user a = map_option fst attached" "ad_auth a = map_option snd attached" "ad_tenant a = tenant"
        "ad_headers a = contextHeadersMiddleware rq cid (map_option snd attached)"
    using assms(3) by (rule preHandler_admits)
  obtain u where u: "attached = Some (u, ac)" using assms(4) a(2) by auto
  have ctx: "first_context (auth_strategies (gs_auth gs)) rq = Some ac" "u = user_of_context (now div 1000) ac"
    using h u by (auto simp: auth_handle_def split: option.splits)
  have "fst (resolveTenant (getTenant (gs_tenants gs) now) rq (Some ac) (st_tenants ?st)) = Inr tenant"
    using r u by simp
  from resolve_auth [OF this assms(5)] obtain t where t: "tenant = Some t"
      "header rq ''x-tenant-id'' \<in> {None, Some [], Some (ac_tenant_id ac)}"
      "fst (getTenant (gs_tenants gs) now (ac_tenant_id ac) (st_tenants ?st)) = Some t \<or> tc_tenant_id t = ac_tenant_id ac"
    by blast
  have "tc_tenant_id t = ac_tenant_id ac"
    using t(3) getTenant_id [OF gw_run_cache_ok [OF assms(1,2)]] by blast
  with t a u ctx assms(5) show ?thesis
    by (simp add: contextHeadersMiddleware_def context_tenant_header user_of_context_def)
qed

definition demo_payload :: token_payload where
  "demo_payload = \<lparr>tk_user_id = ''u1'', tk_client_id = Some ''c1'', tk_project_id = None, tk_tenant_id = ''tenant-1'',
     tk_role = Some ''user'', tk_external_id = None, tk_permissions = None, tk_session_id = Some ''s1'',
     tk_exp = 900, tk_email = None, tk_company_name = None, tk_plan = None\<rparr>"

definition demo_services :: "(tenant_context server, unit, (string, int \<times> int option) jsmap) gw_services" where
  "demo_services = \<lparr>
     gs_env = \<lparr>ge_strict_origin = None, ge_node_env = Some ''production'', ge_url_origin = Some\<rparr>,
     gs_auth = Some \<lparr>cl_validateToken = (\<lambda>t. Some (t = ''ok'', Some demo_payload)),
       cl_validateApiKey = (\<lambda>k ip. None), cl_originWhitelist = (\<lambda>c. Some [])\<rparr>,
     gs_tenants = map_tenants, gs_enforcer = \<lparr>ef_cache = None, ef_mongo = None\<rparr>, gs_counters = map_counters\<rparr>"

definition demo_state :: "(tenant_context server, unit, (string, int \<times> int option) jsmap) gw_state" where
  "demo_state = \<lparr>st_tenants = no_data, st_membership = (), st_counters = []\<rparr>"

definition demo_request :: request where
  "demo_request = \<lparr>rq_method = ''GET'', rq_url = ''/api/v1/users/u2'', rq_ip = ''10.0.0.1'', rq_id = ''r1'',
     rq_headers = [(''authorization'', ''Bearer ok''), (''x-tenant-id'', ''tenant-1'')], rq_params = [(''id'', ''u2'')]\<rparr>"

lemma gateway_tenant_agreement_witness:
  "(case fst (preHandler demo_services 7000 (2024, 1) demo_request None
       (fold (gw_step demo_services) [(5000, (2024, 1), demo_request, None)] demo_state)) of
      Inl e \<Rightarrow> False
    | Inr a \<Rightarrow> map_option tc_tenant_id (ad_tenant a) = Some ''tenant-1'')"
proof -
  let ?run = "preHandler demo_services 7000 (2024, 1) demo_request None
       (fold (gw_step demo_services) [(5000, (2024, 1), demo_request, None)] demo_state)"
  have ok: "case fst ?run of Inl e \<Rightarrow> False
      | Inr a \<Rightarrow> map_option ac_tenant_id (ad_auth a) = Some ''tenant-1''" by code_simp
  then obtain a st' where a: "?run = (Inr a, st')" by (cases ?run; cases "fst ?run") auto
  with ok obtain ac where ac: "ad_auth a = Some ac" "ac_tenant_id ac = ''tenant-1''" by auto
  have "tenant_cache (gs_tenants demo_services)" by (simp add: demo_services_def mt.tenant_cache_axioms)
  moreover have "tenant_cache_ok (gs_tenants demo_services) (st_tenants demo_state)"
    by (simp add: tenant_cache_ok_def demo_services_def demo_state_def map_tenants_def map_redis_def no_data_def)
  ultimately have "map_option tc_tenant_id (ad_tenant a) = Some (ac_tenant_id ac)"
    using gateway_tenant_agreement [OF _ _ a ac(1)] ac(2) by simp
  then show ?thesis unfolding a by (simp add: ac(2))
qed

end
