(* ===== verification/GwReach.thy ===== *)
theory GwReach
  imports GwAuthz
begin

text \<open>
  What the gateway's authorization decides: the enforcer's decision in terms of the matrix, and
  what the extraction of actions and resources leaves of the matrix for a user without an
  administrator's role.
\<close>

section \<open>The matrix for ordinary roles\<close>

definition no_admin :: "string list \<Rightarrow> bool" where
  "no_admin roles \<longleftrightarrow> ''platform_admin'' \<notin> set roles \<and> ''tenant_admin'' \<notin> set roles"

definition user_matrix :: "matrix_permission list" where
  "user_matrix = filter (\<lambda>p. ''user'' \<in> set (mp_roles p)) PERMISSION_MATRIX"

lemma matrix_roles: "p \<in> set PERMISSION_MATRIX \<Longrightarrow> set (mp_roles p) \<subseteq> {''platform_admin'', ''tenant_admin'', ''user''}"
proof -
  have "list_all (\<lambda>p. list_all (\<lambda>r. r \<in> {''platform_admin'', ''tenant_admin'', ''user''}) (mp_roles p)) PERMISSION_MATRIX"
    by code_simp
  then show "p \<in> set PERMISSION_MATRIX \<Longrightarrow> ?thesis" by (auto simp: list_all_iff)
qed

lemma find_cong_filter:
  "(\<And>x. x \<in> set xs \<Longrightarrow> P x \<longleftrightarrow> R x \<and> Q x) \<Longrightarrow> List.find P xs = List.find Q (filter R xs)"
  by (induction xs) auto

lemma matrix_for_ordinary:
  assumes "no_admin roles"
  shows "matrix_hasPermission roles t a = (if ''user'' \<in> set roles
    then List.find (\<lambda>p. (mp_resource p = t \<or> mp_resource p = ''*'') \<and> (mp_action p = a \<or> mp_action p = ''*'')) user_matrix
    else None)"
proof -
  have "list_ex (\<lambda>role. role \<in> set roles) (mp_roles p) \<longleftrightarrow> ''user'' \<in> set roles \<and> ''user'' \<in> set (mp_roles p)"
    if "p \<in> set PERMISSION_MATRIX" for p
    using matrix_roles [OF that] assms by (auto simp: list_ex_iff no_admin_def)
  then show ?thesis unfolding matrix_hasPermission_def user_matrix_def
    by (auto simp: find_None_iff intro!: find_cong_filter)
qed

lemma user_matrix_entries: "user_matrix = [
     allow ''conversation'' ''create'' [''platform_admin'', ''tenant_admin'', ''user''] False False,
     allow ''conversation'' ''read'' [''platform_admin'', ''tenant_admin'', ''user''] False True,
     allow ''conversation'' ''update'' [''platform_admin'', ''tenant_admin'', ''user''] False True,
     allow ''conversation'' ''add_member'' [''platform_admin'', ''tenant_admin'', ''user''] False True,
     allow ''conversation'' ''remove_member'' [''platform_admin'', ''tenant_admin'', ''user''] False True,
     allow ''conversation'' ''list'' [''platform_admin'', ''tenant_admin'', ''user''] False False,
     allow ''message'' ''create'' [''platform_admin'', ''tenant_admin'', ''user''] False True,
     allow ''message'' ''read'' [''platform_admin'', ''tenant_admin'', ''user''] False True,
     allow ''message'' ''update'' [''platform_admin'', ''tenant_admin'', ''user''] True False,
     allow ''message'' ''delete'' [''platform_admin'', ''tenant_admin'', ''user''] True False,
     allow ''user'' ''read'' [''platform_admin'', ''tenant_admin'', ''user''] False False,
     allow ''user'' ''update'' [''platform_admin'', ''tenant_admin'', ''user''] True False]"
  unfolding user_matrix_def PERMISSION_MATRIX_def by simp

section \<open>The actions a request can have\<close>

lemma first_action_some: "first_action cs = Some a \<Longrightarrow> \<exists>c. (c, a) \<in> set cs \<and> c"
  by (induction cs rule: first_action.induct) (auto split: if_splits)

definition undotted :: "string list" where
  "undotted = [''read'', ''create'', ''update'', ''delete'', ''access'']"

lemma specific_action_dotted: "getSpecificAction path meth = Some a \<Longrightarrow> CHR ''.'' \<in> set a"
  unfolding getSpecificAction_def Let_def by (drule first_action_some) auto

lemma default_action_plain: "getDefaultAction meth \<in> set undotted"
  by (simp add: getDefaultAction_def undotted_def)

lemma mapped_action: "map_action new_ActionMapper rq \<in> set undotted \<or> CHR ''.'' \<in> set (map_action new_ActionMapper rq)"
  using default_action_plain specific_action_dotted
  by (auto simp: map_action_def getCustomMapping_def new_ActionMapper_def Let_def split: option.split)

lemma sending_action:
  assumes "rq_method rq = ''POST''" "str_ends_with (url_path (rq_url rq)) ''/messages''"
  shows "map_action new_ActionMapper rq = ''message.send''"
proof -
  have "str_includes (url_path (rq_url rq)) ''/messages''"
    using assms(2) by (auto simp: str_includes_sublist suffix_imp_sublist)
  then show ?thesis using assms
    by (simp add: map_action_def getCustomMapping_def new_ActionMapper_def getSpecificAction_def Let_def)
qed

section \<open>Decisions\<close>

lemma no_owner [simp]: "az_owner_id (extract_resource rt rq u) = None"
  by (simp add: extract_resource_def fetchResourceData_def Let_def)

lemma resource_simps [simp]:
  "az_type (extract_resource rt rq u) = extractResourceType rt rq"
  "az_id (extract_resource rt rq u) = extractResourceId rq"
  "az_tenant_id (extract_resource rt rq u) = (if gu_tenant_id u = [] then ''unknown'' else gu_tenant_id u)"
  by (simp_all add: extract_resource_def Let_def)

lemma subject_simps [simp]:
  "sb_roles (extract_subject u) = gu_roles u" "sb_tenant_id (extract_subject u) = gu_tenant_id u"
  "sb_user_id (extract_subject u) = gu_user_id u"
  by (simp_all add: extract_subject_def)

lemma enforcer_allows:
  "ad_allowed (fst (evaluateRequest ef sb rs action s)) \<longleftrightarrow>
     sb_tenant_id sb = az_tenant_id rs
     \<and> (''platform_admin'' \<in> set (sb_roles sb) \<or> ''tenant_admin'' \<in> set (sb_roles sb)
       \<or> (case matrix_hasPermission (sb_roles sb) (az_type rs) action of
            None \<Rightarrow> False
          | Some p \<Rightarrow> (mp_requiresOwnership p \<longrightarrow> az_owner_id rs = Some (sb_user_id sb) \<and> sb_user_id sb \<noteq> [])
              \<and> (mp_requiresMembership p \<longrightarrow> truthy_str (az_id rs)
                  \<and> fst (checkConversationMembership ef (the (az_id rs)) (sb_user_id sb) s))))"
  by (auto simp: evaluateRequest_def Let_def case_prod_unfold split: option.split)

lemma enforcer_reach:
  assumes "''platform_admin'' \<notin> set (gu_roles u)" "''tenant_admin'' \<notin> set (gu_roles u)"
  shows "ad_allowed (fst (evaluateRequest ef (extract_subject u) (extract_resource rt rq u) a s))
    \<longleftrightarrow> gu_tenant_id u \<noteq> []
      \<and> (case matrix_hasPermission (gu_roles u) (extractResourceType rt rq) a of
           None \<Rightarrow> False
         | Some p \<Rightarrow> \<not> mp_requiresOwnership p
             \<and> (mp_requiresMembership p \<longrightarrow> truthy_str (extractResourceId rq)
                 \<and> fst (checkConversationMembership ef (the (extractResourceId rq)) (gu_user_id u) s)))"
  unfolding enforcer_allows using assms by (auto split: option.split)

definition open_to_users :: "(string \<times> string) list" where
  "open_to_users = [(''conversation'', ''create''), (''user'', ''read'')]"

definition open_to_members :: "(string \<times> string) list" where
  "open_to_members = [(''conversation'', ''read''), (''conversation'', ''update''), (''message'', ''create''), (''message'', ''read'')]"

definition entry_for :: "string \<Rightarrow> string \<Rightarrow> matrix_permission option" where
  "entry_for t a = List.find (\<lambda>p. (mp_resource p = t \<or> mp_resource p = ''*'') \<and> (mp_action p = a \<or> mp_action p = ''*'')) user_matrix"

lemma entry_for_Some: "entry_for t a = Some p \<Longrightarrow> p \<in> set user_matrix \<and> mp_resource p = t \<and> mp_action p = a"
proof -
  have "list_all (\<lambda>p. mp_resource p \<noteq> ''*'' \<and> mp_action p \<noteq> ''*'') user_matrix" by code_simp
  then show "entry_for t a = Some p \<Longrightarrow> ?thesis" by (auto simp: entry_for_def list_all_iff dest!: find_SomeD)
qed

lemma entry_requirements:
  assumes "p \<in> set user_matrix" "mp_action p \<notin> {''add_member'', ''remove_member'', ''list''}"
  shows "(mp_resource p, mp_action p) \<in> set open_to_users \<longleftrightarrow> \<not> mp_requiresOwnership p \<and> \<not> mp_requiresMembership p"
    and "(mp_resource p, mp_action p) \<in> set open_to_members \<longleftrightarrow> \<not> mp_requiresOwnership p \<and> mp_requiresMembership p"
proof -
  have "list_all (\<lambda>p. mp_action p \<in> {''add_member'', ''remove_member'', ''list''}
      \<or> ((mp_resource p, mp_action p) \<in> set open_to_users \<longleftrightarrow> \<not> mp_requiresOwnership p \<and> \<not> mp_requiresMembership p)
        \<and> ((mp_resource p, mp_action p) \<in> set open_to_members \<longleftrightarrow> \<not> mp_requiresOwnership p \<and> mp_requiresMembership p))
      user_matrix"
    by code_simp
  with assms show "(mp_resource p, mp_action p) \<in> set open_to_users \<longleftrightarrow> \<not> mp_requiresOwnership p \<and> \<not> mp_requiresMembership p"
    "(mp_resource p, mp_action p) \<in> set open_to_members \<longleftrightarrow> \<not> mp_requiresOwnership p \<and> mp_requiresMembership p"
    unfolding list_all_iff by blast+
qed

lemma open_entries: "(t, a) \<in> set (open_to_users @ open_to_members) \<Longrightarrow> entry_for t a \<noteq> None"
proof -
  have "list_all (\<lambda>(t, a). entry_for t a \<noteq> None) (open_to_users @ open_to_members)" by code_simp
  then show "(t, a) \<in> set (open_to_users @ open_to_members) \<Longrightarrow> entry_for t a \<noteq> None"
    unfolding list_all_iff by blast
qed

lemma find_user_matrix:
  assumes "a \<in> set undotted \<or> CHR ''.'' \<in> set a"
  shows "(case entry_for t a of None \<Rightarrow> False
      | Some p \<Rightarrow> \<not> mp_requiresOwnership p \<and> (mp_requiresMembership p \<longrightarrow> m))
    \<longleftrightarrow> (t, a) \<in> set open_to_users \<or> (t, a) \<in> set open_to_members \<and> m"
proof (cases "entry_for t a")
  case None
  then show ?thesis using open_entries [of t a] by auto
next
  case (Some p)
  have "a \<notin> {''add_member'', ''remove_member'', ''list''}" using assms by (auto simp: undotted_def)
  with entry_requirements [of p] entry_for_Some [OF Some] show ?thesis by (auto simp: Some)
qed

text \<open>
  With the actions and resources the gateway extracts, the middleware lets a user without an
  administrator's role do exactly this: create conversations and read users, and, as members,
  read and update conversations and create and read messages under the identifier they name.
  Owners are never known, so nothing can be changed or deleted as one's own, and a request to
  send a message is always refused.
\<close>
lemma ordinary_user_reach:
  assumes "no_admin (gu_roles u)" "\<not> skips_authorization rq"
  shows "(fst (authzMiddleware ef new_ActionMapper rt rq (Some u) s) = None \<longleftrightarrow>
      ''user'' \<in> set (gu_roles u) \<and> gu_tenant_id u \<noteq> []
      \<and> ((extractResourceType rt rq, map_action new_ActionMapper rq) \<in> set open_to_users
        \<or> (extractResourceType rt rq, map_action new_ActionMapper rq) \<in> set open_to_members
          \<and> truthy_str (extractResourceId rq)
          \<and> fst (checkConversationMembership ef (the (extractResourceId rq)) (gu_user_id u) s)))
    \<and> (rq_method rq = ''POST'' \<and> str_ends_with (url_path (rq_url rq)) ''/messages''
      \<longrightarrow> map_option outcome_status (fst (authzMiddleware ef new_ActionMapper rt rq (Some u) s)) = Some 403)"
proof -
  let ?t = "extractResourceType rt rq" and ?a = "map_action new_ActionMapper rq"
  let ?m = "truthy_str (extractResourceId rq)
    \<and> fst (checkConversationMembership ef (the (extractResourceId rq)) (gu_user_id u) s)"
  have reply: "map_option outcome_status (fst (authzMiddleware ef new_ActionMapper rt rq (Some u) s))
      = (if ad_allowed (fst (evaluateRequest ef (extract_subject u) (extract_resource rt rq u) ?a s)) then None else Some 403)"
    using assms(2) by (simp add: authzMiddleware_def case_prod_unfold)
  have roles: "''platform_admin'' \<notin> set (gu_roles u)" "''tenant_admin'' \<notin> set (gu_roles u)"
    using assms(1) by (simp_all add: no_admin_def)
  have allowed: "ad_allowed (fst (evaluateRequest ef (extract_subject u) (extract_resource rt rq u) ?a s))
      \<longleftrightarrow> gu_tenant_id u \<noteq> [] \<and> ''user'' \<in> set (gu_roles u)
        \<and> ((?t, ?a) \<in> set open_to_users \<or> (?t, ?a) \<in> set open_to_members \<and> ?m)"
    unfolding enforcer_reach [OF roles] matrix_for_ordinary [OF assms(1)] entry_for_def [symmetric]
    using find_user_matrix [OF mapped_action [of rq], where t = ?t and m = ?m] by auto
  have reach: "fst (authzMiddleware ef new_ActionMapper rt rq (Some u) s) = None \<longleftrightarrow>
      ''user'' \<in> set (gu_roles u) \<and> gu_tenant_id u \<noteq> []
      \<and> ((?t, ?a) \<in> set open_to_users \<or> (?t, ?a) \<in> set open_to_members \<and> ?m)"
    using reply allowed by (auto split: if_splits)
  have sent: "map_option outcome_status (fst (authzMiddleware ef new_ActionMapper rt rq (Some u) s)) = Some 403"
    if "rq_method rq = ''POST''" "str_ends_with (url_path (rq_url rq)) ''/messages''"
    using reply allowed by (simp add: sending_action [OF that] open_to_users_def open_to_members_def)
  from reach sent show ?thesis by blast
qed

definition plain_user :: gw_user where
  "plain_user = \<lparr>gu_user_id = ''u1'', gu_tenant_id = ''t1'', gu_project_id = None, gu_session_id = ''s1'',
     gu_iat = 0, gu_exp = 10, gu_email = [], gu_roles = [''user''], gu_scopes = []\<rparr>"

definition sending :: request where
  "sending = \<lparr>rq_method = ''POST'', rq_url = ''/api/v1/conversations/c1/messages?x=1'', rq_ip = ''10.0.0.1'',
     rq_id = ''r1'', rq_headers = [], rq_params = [(''conversationId'', ''c1'')]\<rparr>"

lemma ordinary_user_reach_example:
  "fst (authzMiddleware \<lparr>ef_cache = None, ef_mongo = None\<rparr> new_ActionMapper new_ResourceExtractor sending
     (Some plain_user) ()) \<noteq> None"
proof -
  have "no_admin (gu_roles plain_user)" by (simp add: plain_user_def no_admin_def)
  moreover have "\<not> skips_authorization sending" by code_simp
  moreover have "rq_method sending = ''POST''" by (simp add: sending_def)
  moreover have "str_ends_with (url_path (rq_url sending)) ''/messages''" by code_simp
  ultimately show ?thesis using ordinary_user_reach [of plain_user sending "\<lparr>ef_cache = None, ef_mongo = None\<rparr>" new_ResourceExtractor "()"]
    by auto
qed

end
