(* ===== verification/RtRegistry.thy ===== *)
theory RtRegistry
  imports Prelude
begin

text \<open>
  The catalogue of socket events (packages/realtime-contracts/src/index.ts): its types, the
  entries as data in the order of the source, lookups, the envelopes of acknowledgements and
  events, and the table that routes events to topics. A registry is a map from names
  \<open>namespace:event\<close> to entries in insertion order.
\<close>

section \<open>Types\<close>

datatype socket_namespace = NsChat | NsPresence | NsWebrtc | NsMedia | NsSearch | NsSocial

datatype event_domain = DomMessaging | DomModeration | DomCollaboration | DomSocial | DomNotification | DomPlanner

datatype access_role = RTenantAdmin | RMember | RModerator | RViewer | RSystem

datatype event_lifecycle = EvActive | EvDeprecated | EvPlanned

datatype rate_profile = RlNone | RlLow | RlMedium | RlHigh | RlCritical

fun ns_str :: "socket_namespace \<Rightarrow> string" where
  "ns_str NsChat = ''chat''"
| "ns_str NsPresence = ''presence''"
| "ns_str NsWebrtc = ''webrtc''"
| "ns_str NsMedia = ''media''"
| "ns_str NsSearch = ''search''"
| "ns_str NsSocial = ''social''"

fun event_domain_str :: "event_domain \<Rightarrow> string" where
  "event_domain_str DomMessaging = ''messaging''"
| "event_domain_str DomModeration = ''moderation''"
| "event_domain_str DomCollaboration = ''collaboration''"
| "event_domain_str DomSocial = ''social''"
| "event_domain_str DomNotification = ''notification''"
| "event_domain_str DomPlanner = ''planner''"

fun access_role_str :: "access_role \<Rightarrow> string" where
  "access_role_str RTenantAdmin = ''tenant_admin''"
| "access_role_str RMember = ''member''"
| "access_role_str RModerator = ''moderator''"
| "access_role_str RViewer = ''viewer''"
| "access_role_str RSystem = ''system''"

record socket_event =
  se_namespace :: socket_namespace
  se_event :: string
  se_eventId :: string
  se_version :: string
  se_lifecycle :: event_lifecycle
  se_domain :: event_domain
  se_owner :: string
  se_ackRequired :: bool
  se_projectScoped :: bool
  se_accessRoles :: "access_role list"
  se_permissions :: "string list"
  se_rateLimitProfile :: rate_profile
  se_payloadSchemaRef :: string
  se_responseSchemaRef :: string
  se_deprecatedNames :: "string list option"

type_synonym registry_table = "(string, socket_event) jsmap"

definition SOCKET_SCHEMA_VERSION :: string where
  "SOCKET_SCHEMA_VERSION = ''1.0.0''"

definition REALTIME_ENVELOPE_SCHEMA_VERSION :: string where
  "REALTIME_ENVELOPE_SCHEMA_VERSION = ''1.0.0''"

definition SOCKET_EVENT_OWNER_DEFAULT :: string where
  "SOCKET_EVENT_OWNER_DEFAULT = ''platform-realtime''"

definition string_or :: "string option \<Rightarrow> string \<Rightarrow> string" where
  \<comment> \<open>\<open>s || d\<close>\<close>
  "string_or s d = (if truthy_str s then the s else d)"

definition defineSocketEvent ::
    "string option \<Rightarrow> string option \<Rightarrow> socket_namespace \<Rightarrow> string \<Rightarrow> event_lifecycle \<Rightarrow> event_domain \<Rightarrow> bool \<Rightarrow> bool
     \<Rightarrow> access_role list \<Rightarrow> string list \<Rightarrow> rate_profile \<Rightarrow> string \<Rightarrow> string \<Rightarrow> socket_event" where
  \<comment> \<open>the given entry is spread last, so a given version or owner stands as it is\<close>
  "defineSocketEvent version owner ns ev lifecycle family ackRequired projectScoped roles permissions profile payload response =
     \<lparr>se_namespace = ns, se_event = ev,
       se_eventId = ns_str ns @ '':'' @ ev @ ''@'' @ string_or version SOCKET_SCHEMA_VERSION,
       se_version = (case version of Some v \<Rightarrow> v | None \<Rightarrow> SOCKET_SCHEMA_VERSION),
       se_lifecycle = lifecycle, se_domain = family,
       se_owner = (case owner of Some w \<Rightarrow> w | None \<Rightarrow> SOCKET_EVENT_OWNER_DEFAULT),
       se_ackRequired = ackRequired, se_projectScoped = projectScoped, se_accessRoles = roles,
       se_permissions = permissions, se_rateLimitProfile = profile, se_payloadSchemaRef = payload,
       se_responseSchemaRef = response, se_deprecatedNames = None\<rparr>"

abbreviation event_entry :: "socket_namespace \<Rightarrow> string \<Rightarrow> event_lifecycle \<Rightarrow> event_domain \<Rightarrow> bool \<Rightarrow> bool
     \<Rightarrow> access_role list \<Rightarrow> string list \<Rightarrow> rate_profile \<Rightarrow> string \<Rightarrow> string \<Rightarrow> socket_event" where
  "event_entry \<equiv> defineSocketEvent None None"

section \<open>The registered events\<close>

definition chat_events_1 :: registry_table where
  "chat_events_1 = [
     (''chat:joinRoom'', event_entry NsChat ''joinRoom'' EvActive DomMessaging True True [RMember, RModerator, RTenantAdmin] [''conversation:read'']
        RlMedium ''chat.join-room.v1'' ''socket.ack.v1''),
     (''chat:leaveRoom'', event_entry NsChat ''leaveRoom'' EvActive DomMessaging True True [RMember, RModerator, RTenantAdmin] [''conversation:read'']
        RlLow ''chat.leave-room.v1'' ''socket.ack.v1''),
     (''chat:sendMessage'', event_entry NsChat ''sendMessage'' EvActive DomMessaging True True [RMember, RModerator, RTenantAdmin] [''conversation:write'']
        RlHigh ''chat.send-message.v1'' ''socket.ack.v1''),
     (''chat:message_delivered'', event_entry NsChat ''message_delivered'' EvActive DomMessaging True True [RMember, RModerator, RTenantAdmin] [''conversation:read'']
        RlMedium ''chat.message-delivered.v1'' ''socket.ack.v1''),
     (''chat:messages_delivered'', event_entry NsChat ''messages_delivered'' EvActive DomMessaging True True [RMember, RModerator, RTenantAdmin] [''conversation:read'']
        RlHigh ''chat.messages-delivered.v1'' ''socket.ack.v1''),
     (''chat:delivery_status'', event_entry NsChat ''delivery_status'' EvActive DomMessaging True True [RMember, RModerator, RTenantAdmin] [''conversation:read'']
        RlLow ''chat.delivery-status.v1'' ''socket.ack.v1''),
     (''chat:typing_start'', event_entry NsChat ''typing_start'' EvActive DomCollaboration True True [RMember, RModerator, RTenantAdmin] [''conversation:write'']
        RlMedium ''chat.typing-start.v1'' ''socket.ack.v1''),
     (''chat:typing_stop'', event_entry NsChat ''typing_stop'' EvActive DomCollaboration True True [RMember, RModerator, RTenantAdmin] [''conversation:write'']
        RlMedium ''chat.typing-stop.v1'' ''socket.ack.v1''),
     (''chat:typing_query'', event_entry NsChat ''typing_query'' EvActive DomCollaboration True True [RViewer, RMember, RModerator, RTenantAdmin] [''conversation:read'']
        RlLow ''chat.typing-query.v1'' ''socket.ack.v1''),
     (''chat:message_read'', event_entry NsChat ''message_read'' EvActive DomMessaging True True [RMember, RModerator, RTenantAdmin] [''conversation:read'']
        RlMedium ''chat.message-read.v1'' ''socket.ack.v1''),
     (''chat:messages_read'', event_entry NsChat ''messages_read'' EvActive DomMessaging True True [RMember, RModerator, RTenantAdmin] [''conversation:read'']
        RlHigh ''chat.messages-read.v1'' ''socket.ack.v1'')]"

definition chat_events_2 :: registry_table where
  "chat_events_2 = [
     (''chat:conversation_read'', event_entry NsChat ''conversation_read'' EvActive DomMessaging True True [RMember, RModerator, RTenantAdmin] [''conversation:read'']
        RlMedium ''chat.conversation-read.v1'' ''socket.ack.v1''),
     (''chat:unread_query'', event_entry NsChat ''unread_query'' EvActive DomNotification True True [RViewer, RMember, RModerator, RTenantAdmin] [''conversation:read'']
        RlLow ''chat.unread-query.v1'' ''socket.ack.v1''),
     (''chat:moderate:kick'', event_entry NsChat ''moderate:kick'' EvActive DomModeration True True [RModerator, RTenantAdmin] [''conversation:moderate'']
        RlMedium ''chat.moderate-kick.v1'' ''socket.ack.v1''),
     (''chat:moderate:ban'', event_entry NsChat ''moderate:ban'' EvActive DomModeration True True [RModerator, RTenantAdmin] [''conversation:moderate'']
        RlMedium ''chat.moderate-ban.v1'' ''socket.ack.v1''),
     (''chat:moderate:unban'', event_entry NsChat ''moderate:unban'' EvActive DomModeration True True [RModerator, RTenantAdmin] [''conversation:moderate'']
        RlMedium ''chat.moderate-unban.v1'' ''socket.ack.v1''),
     (''chat:moderate:mute'', event_entry NsChat ''moderate:mute'' EvActive DomModeration True True [RModerator, RTenantAdmin] [''conversation:moderate'']
        RlMedium ''chat.moderate-mute.v1'' ''socket.ack.v1''),
     (''chat:moderate:unmute'', event_entry NsChat ''moderate:unmute'' EvActive DomModeration True True [RModerator, RTenantAdmin] [''conversation:moderate'']
        RlMedium ''chat.moderate-unmute.v1'' ''socket.ack.v1''),
     (''chat:message_react'', event_entry NsChat ''message_react'' EvActive DomMessaging True True [RMember, RModerator, RTenantAdmin] [''conversation:write'']
        RlHigh ''chat.message-react.v1'' ''socket.ack.v1''),
     (''chat:message_pin'', event_entry NsChat ''message_pin'' EvActive DomMessaging True True [RMember, RModerator, RTenantAdmin] [''conversation:write'']
        RlMedium ''chat.message-pin.v1'' ''socket.ack.v1''),
     (''chat:message_save'', event_entry NsChat ''message_save'' EvActive DomMessaging True True [RMember, RModerator, RTenantAdmin] [''conversation:read'']
        RlMedium ''chat.message-save.v1'' ''socket.ack.v1''),
     (''chat:message_forward'', event_entry NsChat ''message_forward'' EvActive DomMessaging True True [RMember, RModerator, RTenantAdmin] [''conversation:write'']
        RlMedium ''chat.message-forward.v1'' ''socket.ack.v1'')]"

definition chat_events_3 :: registry_table where
  "chat_events_3 = [
     (''chat:message_archive'', event_entry NsChat ''message_archive'' EvActive DomMessaging True True [RModerator, RTenantAdmin] [''conversation:moderate'']
        RlMedium ''chat.message-archive.v1'' ''socket.ack.v1''),
     (''chat:thread_reply'', event_entry NsChat ''thread_reply'' EvActive DomMessaging True True [RMember, RModerator, RTenantAdmin] [''conversation:write'']
        RlHigh ''chat.thread-reply.v1'' ''socket.ack.v1''),
     (''chat:group_create'', event_entry NsChat ''group_create'' EvActive DomMessaging True True [RMember, RModerator, RTenantAdmin] [''conversation:create'']
        RlLow ''chat.group-create.v1'' ''socket.ack.v1''),
     (''chat:group_settings_update'', event_entry NsChat ''group_settings_update'' EvActive DomMessaging True True [RModerator, RTenantAdmin] [''conversation:moderate'']
        RlLow ''chat.group-settings-update.v1'' ''socket.ack.v1''),
     (''chat:group_member_role_update'', event_entry NsChat ''group_member_role_update'' EvActive DomMessaging True True [RModerator, RTenantAdmin] [''conversation:moderate'']
        RlLow ''chat.group-member-role-update.v1'' ''socket.ack.v1''),
     (''chat:group_invite_link'', event_entry NsChat ''group_invite_link'' EvActive DomMessaging True True [RModerator, RTenantAdmin] [''conversation:moderate'']
        RlLow ''chat.group-invite-link.v1'' ''socket.ack.v1''),
     (''chat:planner_task_create'', event_entry NsChat ''planner_task_create'' EvActive DomPlanner True True [RMember, RModerator, RTenantAdmin] [''conversation:write'']
        RlMedium ''chat.planner-task-create.v1'' ''socket.ack.v1''),
     (''chat:planner_task_update'', event_entry NsChat ''planner_task_update'' EvActive DomPlanner True True [RMember, RModerator, RTenantAdmin] [''conversation:write'']
        RlMedium ''chat.planner-task-update.v1'' ''socket.ack.v1'')]"

definition presence_events_1 :: registry_table where
  "presence_events_1 = [
     (''presence:presence_mode_set'', event_entry NsPresence ''presence_mode_set'' EvActive DomSocial True False [RMember, RModerator, RTenantAdmin] [''presence:write'']
        RlLow ''presence.mode-set.v1'' ''socket.ack.v1''),
     (''presence:last_seen_policy_set'', event_entry NsPresence ''last_seen_policy_set'' EvActive DomSocial True False [RMember, RModerator, RTenantAdmin] [''presence:write'']
        RlLow ''presence.last-seen-policy-set.v1'' ''socket.ack.v1''),
     (''presence:notification_preference_set'', event_entry NsPresence ''notification_preference_set'' EvActive DomNotification True False [RMember, RModerator, RTenantAdmin] [''presence:write'']
        RlLow ''presence.notification-preference-set.v1'' ''socket.ack.v1''),
     (''presence:user_block'', event_entry NsPresence ''user_block'' EvActive DomSocial True False [RMember, RModerator, RTenantAdmin] [''presence:write'']
        RlLow ''presence.user-block.v1'' ''socket.ack.v1''),
     (''presence:user_unblock'', event_entry NsPresence ''user_unblock'' EvActive DomSocial True False [RMember, RModerator, RTenantAdmin] [''presence:write'']
        RlLow ''presence.user-unblock.v1'' ''socket.ack.v1''),
     (''presence:user_report'', event_entry NsPresence ''user_report'' EvActive DomSocial True False [RMember, RModerator, RTenantAdmin] [''presence:write'']
        RlLow ''presence.user-report.v1'' ''socket.ack.v1'')]"

definition media_events_1 :: registry_table where
  "media_events_1 = [
     (''media:post_like'', event_entry NsMedia ''post_like'' EvActive DomSocial True True [RMember, RModerator, RTenantAdmin] [''media:interact'']
        RlHigh ''media.post-like.v1'' ''socket.ack.v1''),
     (''media:post_comment'', event_entry NsMedia ''post_comment'' EvActive DomSocial True True [RMember, RModerator, RTenantAdmin] [''media:interact'']
        RlHigh ''media.post-comment.v1'' ''socket.ack.v1''),
     (''media:post_save'', event_entry NsMedia ''post_save'' EvActive DomSocial True True [RMember, RModerator, RTenantAdmin] [''media:interact'']
        RlMedium ''media.post-save.v1'' ''socket.ack.v1''),
     (''media:post_share'', event_entry NsMedia ''post_share'' EvActive DomSocial True True [RMember, RModerator, RTenantAdmin] [''media:interact'']
        RlMedium ''media.post-share.v1'' ''socket.ack.v1''),
     (''media:story_view'', event_entry NsMedia ''story_view'' EvActive DomSocial True True [RViewer, RMember, RModerator, RTenantAdmin] [''media:read'']
        RlHigh ''media.story-view.v1'' ''socket.ack.v1''),
     (''media:story_react'', event_entry NsMedia ''story_react'' EvActive DomSocial True True [RMember, RModerator, RTenantAdmin] [''media:interact'']
        RlHigh ''media.story-react.v1'' ''socket.ack.v1''),
     (''media:media_viewer_sync'', event_entry NsMedia ''media_viewer_sync'' EvActive DomCollaboration True True [RViewer, RMember, RModerator, RTenantAdmin] [''media:read'']
        RlCritical ''media.viewer-sync.v1'' ''socket.ack.v1'')]"

definition presence_events_2 :: registry_table where
  "presence_events_2 = [
     (''presence:presence_update'', event_entry NsPresence ''presence_update'' EvActive DomSocial True False [RViewer, RMember, RModerator, RTenantAdmin] [''presence:write'']
        RlMedium ''presence.update.v1'' ''socket.ack.v1''),
     (''presence:presence_subscribe'', event_entry NsPresence ''presence_subscribe'' EvActive DomSocial True False [RViewer, RMember, RModerator, RTenantAdmin] [''presence:read'']
        RlMedium ''presence.subscribe.v1'' ''socket.ack.v1''),
     (''presence:presence_unsubscribe'', event_entry NsPresence ''presence_unsubscribe'' EvActive DomSocial True False [RViewer, RMember, RModerator, RTenantAdmin] [''presence:read'']
        RlLow ''presence.unsubscribe.v1'' ''socket.ack.v1''),
     (''presence:presence_subscriptions_query'', event_entry NsPresence ''presence_subscriptions_query'' EvActive DomSocial True False [RViewer, RMember, RModerator, RTenantAdmin] [''presence:read'']
        RlLow ''presence.subscriptions-query.v1'' ''socket.ack.v1'')]"

definition webrtc_events_1 :: registry_table where
  "webrtc_events_1 = [
     (''webrtc:webrtc:get-ice-servers'', event_entry NsWebrtc ''webrtc:get-ice-servers'' EvActive DomCollaboration True False [RMember, RModerator, RTenantAdmin] [''webrtc:connect'']
        RlLow ''webrtc.get-ice-servers.v1'' ''socket.ack.v1''),
     (''webrtc:webrtc:offer'', event_entry NsWebrtc ''webrtc:offer'' EvActive DomCollaboration True False [RMember, RModerator, RTenantAdmin] [''webrtc:signal'']
        RlHigh ''webrtc.offer.v1'' ''socket.ack.v1''),
     (''webrtc:webrtc:answer'', event_entry NsWebrtc ''webrtc:answer'' EvActive DomCollaboration True False [RMember, RModerator, RTenantAdmin] [''webrtc:signal'']
        RlHigh ''webrtc.answer.v1'' ''socket.ack.v1''),
     (''webrtc:webrtc:ice-candidate'', event_entry NsWebrtc ''webrtc:ice-candidate'' EvActive DomCollaboration True False [RMember, RModerator, RTenantAdmin] [''webrtc:signal'']
        RlCritical ''webrtc.ice-candidate.v1'' ''socket.ack.v1''),
     (''webrtc:call:initiate'', event_entry NsWebrtc ''call:initiate'' EvActive DomCollaboration True False [RMember, RModerator, RTenantAdmin] [''webrtc:call'']
        RlMedium ''webrtc.call-initiate.v1'' ''socket.ack.v1''),
     (''webrtc:call:answer'', event_entry NsWebrtc ''call:answer'' EvActive DomCollaboration True False [RMember, RModerator, RTenantAdmin] [''webrtc:call'']
        RlMedium ''webrtc.call-answer.v1'' ''socket.ack.v1''),
     (''webrtc:call:reject'', event_entry NsWebrtc ''call:reject'' EvActive DomCollaboration True False [RMember, RModerator, RTenantAdmin] [''webrtc:call'']
        RlMedium ''webrtc.call-reject.v1'' ''socket.ack.v1''),
     (''webrtc:call:hangup'', event_entry NsWebrtc ''call:hangup'' EvActive DomCollaboration True False [RMember, RModerator, RTenantAdmin] [''webrtc:call'']
        RlMedium ''webrtc.call-hangup.v1'' ''socket.ack.v1''),
     (''webrtc:screen:start'', event_entry NsWebrtc ''screen:start'' EvActive DomCollaboration True False [RMember, RModerator, RTenantAdmin] [''webrtc:screen-share'']
        RlMedium ''webrtc.screen-start.v1'' ''socket.ack.v1''),
     (''webrtc:screen:stop'', event_entry NsWebrtc ''screen:stop'' EvActive DomCollaboration True False [RMember, RModerator, RTenantAdmin] [''webrtc:screen-share'']
        RlMedium ''webrtc.screen-stop.v1'' ''socket.ack.v1''),
     (''webrtc:screen:offer'', event_entry NsWebrtc ''screen:offer'' EvActive DomCollaboration True False [RMember, RModerator, RTenantAdmin] [''webrtc:screen-share'']
        RlHigh ''webrtc.screen-offer.v1'' ''socket.ack.v1'')]"

definition webrtc_events_2 :: registry_table where
  "webrtc_events_2 = [
     (''webrtc:screen:answer'', event_entry NsWebrtc ''screen:answer'' EvActive DomCollaboration True False [RMember, RModerator, RTenantAdmin] [''webrtc:screen-share'']
        RlHigh ''webrtc.screen-answer.v1'' ''socket.ack.v1'')]"

definition media_events_2 :: registry_table where
  "media_events_2 = [
     (''media:media:request-upload'', event_entry NsMedia ''media:request-upload'' EvActive DomSocial True False [RMember, RModerator, RTenantAdmin] [''media:upload'']
        RlHigh ''media.request-upload.v1'' ''socket.ack.v1''),
     (''media:media:upload-complete'', event_entry NsMedia ''media:upload-complete'' EvActive DomSocial True False [RMember, RModerator, RTenantAdmin] [''media:upload'']
        RlMedium ''media.upload-complete.v1'' ''socket.ack.v1''),
     (''media:media:get-download-url'', event_entry NsMedia ''media:get-download-url'' EvActive DomSocial True False [RViewer, RMember, RModerator, RTenantAdmin] [''media:read'']
        RlMedium ''media.get-download-url.v1'' ''socket.ack.v1''),
     (''media:media:delete'', event_entry NsMedia ''media:delete'' EvActive DomSocial True False [RMember, RModerator, RTenantAdmin] [''media:delete'']
        RlMedium ''media.delete.v1'' ''socket.ack.v1'')]"

definition search_events_1 :: registry_table where
  "search_events_1 = [
     (''search:search:messages'', event_entry NsSearch ''search:messages'' EvActive DomCollaboration True True [RViewer, RMember, RModerator, RTenantAdmin] [''search:messages'']
        RlMedium ''search.messages.v1'' ''socket.ack.v1''),
     (''search:search:conversations'', event_entry NsSearch ''search:conversations'' EvActive DomCollaboration True True [RViewer, RMember, RModerator, RTenantAdmin] [''search:conversations'']
        RlMedium ''search.conversations.v1'' ''socket.ack.v1''),
     (''search:search:users'', event_entry NsSearch ''search:users'' EvActive DomCollaboration True False [RViewer, RMember, RModerator, RTenantAdmin] [''search:users'']
        RlMedium ''search.users.v1'' ''socket.ack.v1'')]"

definition SOCKET_EVENT_REGISTRY :: registry_table where
  "SOCKET_EVENT_REGISTRY = chat_events_1 @ chat_events_2 @ chat_events_3 @ presence_events_1 @ media_events_1 @ presence_events_2 @ webrtc_events_1 @ webrtc_events_2 @ media_events_2 @ search_events_1"

definition SOCKET_EVENT_DEPRECATIONS :: "(string, string list) jsmap" where
  "SOCKET_EVENT_DEPRECATIONS = [(''presence_subscribe'', [''presence:presence_subscribe'']),
     (''presence_unsubscribe'', [''presence:presence_unsubscribe''])]"

definition event_key :: "socket_namespace \<Rightarrow> string \<Rightarrow> string" where
  "event_key ns ev = ns_str ns @ '':'' @ ev"

definition getSocketEventDefinition :: "socket_namespace \<Rightarrow> string \<Rightarrow> string + socket_event" where
  "getSocketEventDefinition ns ev =
     (case map_of SOCKET_EVENT_REGISTRY (event_key ns ev) of
        None \<Rightarrow> Inl (''Unregistered socket event: '' @ event_key ns ev)
      | Some d \<Rightarrow> Inr d)"

section \<open>The registry is well formed\<close>

definition entry_ok :: "string \<times> socket_event \<Rightarrow> bool" where
  \<comment> \<open>an entry stands under its own name, is active, and names roles, a permission and schemas\<close>
  "entry_ok = (\<lambda>(k, e). k = event_key (se_namespace e) (se_event e)
     \<and> se_eventId e = k @ ''@1.0.0'' \<and> se_lifecycle e = EvActive
     \<and> se_accessRoles e \<noteq> [] \<and> se_permissions e \<noteq> []
     \<and> se_payloadSchemaRef e \<noteq> [] \<and> se_responseSchemaRef e \<noteq> [])"

lemma registry_ok: "list_all entry_ok SOCKET_EVENT_REGISTRY"
  by code_simp

lemma registry_distinct: "wf_map SOCKET_EVENT_REGISTRY"
  by code_simp

end
