(* ===== verification/RtRouting.thy ===== *)
theory RtRouting
  imports RtRegistry AuthzValues
begin

text \<open>
  Envelopes and topics of realtime events (packages/realtime-contracts/src/index.ts): the
  acknowledgements of socket events, the envelope every event travels in, the topic of an event
  type and the routing table with its partition keys. Envelopes are dynamically typed values;
  fresh identifiers and the current time are arguments.
\<close>

section \<open>Acknowledgements\<close>

record socket_ack =
  sa_status :: string
  sa_code :: string
  sa_message :: string
  sa_correlation_id :: string
  sa_event_id :: string
  sa_retryable :: bool
  sa_schema_version :: string
  sa_data :: "jsval option"
  sa_details :: "jsval option"

record ack_params =
  ap_eventId :: string
  ap_correlationId :: string
  ap_code :: "string option"
  ap_message :: "string option"
  ap_retryable :: "bool option"
  ap_data :: "jsval option"
  ap_details :: "jsval option"

definition ack_envelope :: "string \<Rightarrow> string \<Rightarrow> string \<Rightarrow> ack_params \<Rightarrow> socket_ack" where
  "ack_envelope status code msg p = \<lparr>sa_status = status, sa_code = string_or (ap_code p) code,
     sa_message = string_or (ap_message p) msg, sa_correlation_id = ap_correlationId p,
     sa_event_id = ap_eventId p, sa_retryable = (ap_retryable p = Some True),
     sa_schema_version = SOCKET_SCHEMA_VERSION, sa_data = ap_data p, sa_details = ap_details p\<rparr>"

definition buildSocketAckEnvelope :: "ack_params \<Rightarrow> socket_ack" where
  "buildSocketAckEnvelope p = ack_envelope ''ok'' ''OK'' ''Request completed'' p"

definition buildSocketErrorEnvelope :: "ack_params \<Rightarrow> socket_ack" where
  "buildSocketErrorEnvelope p = ack_envelope ''error'' ''INTERNAL_ERROR'' ''Request failed'' p"

section \<open>Realtime envelopes\<close>

record envelope_params =
  ep_eventId :: "string option"
  ep_eventType :: string
  ep_tenantId :: string
  ep_projectId :: "string option"
  ep_correlationId :: "string option"
  ep_producerId :: string
  ep_partitionKey :: string
  ep_payload :: jsval
  ep_metadata :: "jsval option"
  ep_occurredAt :: "string option" \<comment> \<open>a given text, or the text of a given date\<close>

definition buildRealtimeEnvelope :: "string \<Rightarrow> string \<Rightarrow> string \<Rightarrow> envelope_params \<Rightarrow> (string \<times> jsval) list" where
  "buildRealtimeEnvelope uuid1 uuid2 now p =
     [(''event_id'', JStr (string_or (ep_eventId p) uuid1)),
      (''event_type'', JStr (ep_eventType p)),
      (''schema_version'', JStr REALTIME_ENVELOPE_SCHEMA_VERSION),
      (''tenant_id'', JStr (ep_tenantId p))]
     @ (if truthy_str (ep_projectId p) then [(''project_id'', JStr (the (ep_projectId p)))] else [])
     @ [(''correlation_id'', JStr (string_or (ep_correlationId p) uuid2)),
        (''occurred_at'', JStr (case ep_occurredAt p of Some t \<Rightarrow> t | None \<Rightarrow> now)),
        (''producer_id'', JStr (ep_producerId p)),
        (''partition_key'', JStr (ep_partitionKey p)),
        (''payload'', ep_payload p)]
     @ (case ep_metadata p of Some m \<Rightarrow> [(''metadata'', m)] | None \<Rightarrow> [])"

definition prop_of :: "js_env \<Rightarrow> jsval \<Rightarrow> string \<Rightarrow> jsval" where
  \<comment> \<open>\<open>v[k]\<close>\<close>
  "prop_of env v k = (case get_prop env v k of Some x \<Rightarrow> x | None \<Rightarrow> JUndef)"

fun is_string :: "jsval \<Rightarrow> bool" where
  "is_string (JStr s) = True"
| "is_string _ = False"

definition string_fields :: "string list" where
  "string_fields = [''event_id'', ''event_type'', ''schema_version'', ''tenant_id'', ''correlation_id'',
     ''occurred_at'', ''producer_id'', ''partition_key'']"

definition isRealtimeEnvelope :: "js_env \<Rightarrow> jsval \<Rightarrow> bool" where
  "isRealtimeEnvelope env v \<longleftrightarrow> is_object v
     \<and> list_all (\<lambda>k. is_string (prop_of env v k)) string_fields
     \<and> get_prop env v ''payload'' \<noteq> None"

section \<open>Topics and routing\<close>

fun first_prefix :: "(string list \<times> string) list \<Rightarrow> string \<Rightarrow> string \<Rightarrow> string" where
  \<comment> \<open>a sequence of \<open>if (s.startsWith(..) || ..) return t\<close>\<close>
  "first_prefix [] d s = d"
| "first_prefix ((ps, t) # rest) d s = (if list_ex (str_starts_with s) ps then t else first_prefix rest d s)"

definition getRealtimeTopicForEvent :: "string \<Rightarrow> string" where
  "getRealtimeTopicForEvent eventType = first_prefix [
     ([''message.''], ''chat.messages''),
     ([''conversation.''], ''conversation-events''),
     ([''moderation.''], ''moderation-events''),
     ([''media.''], ''media-events''),
     ([''search.''], ''search-events''),
     ([''presence.''], ''presence-events''),
     ([''webrtc.'', ''call.''], ''rtc-events''),
     ([''reaction.''], ''chat.messages''),
     ([''thread.''], ''chat.messages''),
     ([''group.''], ''conversation-events''),
     ([''planner.''], ''planner-events''),
     ([''social.'', ''post.'', ''story.''], ''social-events''),
     ([''privacy.'', ''block.'', ''report.''], ''moderation-events'')] ''message-events'' eventType"

datatype partition_by = ByConversation | ByUser | ByTenant | ByRandom
datatype retry_policy = RetryStandard | RetryAggressive | RetryNone

record routing_entry =
  rt_event_family :: string
  rt_topic :: string
  rt_partition_key :: partition_by
  rt_retry_policy :: retry_policy
  rt_max_retries :: nat
  rt_retry_delays_ms :: "nat list"
  rt_dlq_on_exhaust :: bool

abbreviation route :: "string \<Rightarrow> string \<Rightarrow> partition_by \<Rightarrow> retry_policy \<Rightarrow> nat \<Rightarrow> nat list \<Rightarrow> bool \<Rightarrow> routing_entry" where
  "route family topic pk policy retries delays dlq \<equiv> \<lparr>rt_event_family = family, rt_topic = topic,
     rt_partition_key = pk, rt_retry_policy = policy, rt_max_retries = retries, rt_retry_delays_ms = delays,
     rt_dlq_on_exhaust = dlq\<rparr>"

definition EVENT_ROUTING_TABLE :: "routing_entry list" where
  "EVENT_ROUTING_TABLE = [
     route ''message.*'' ''chat.messages'' ByConversation RetryStandard 3 [1000, 5000, 30000] True,
     route ''reaction.*'' ''chat.messages'' ByConversation RetryStandard 2 [1000, 5000] True,
     route ''thread.*'' ''chat.messages'' ByConversation RetryStandard 3 [1000, 5000, 30000] True,
     route ''conversation.*'' ''conversation-events'' ByConversation RetryStandard 3 [1000, 5000, 30000] True,
     route ''group.*'' ''conversation-events'' ByConversation RetryStandard 3 [1000, 5000, 30000] True,
     route ''moderation.*'' ''moderation-events'' ByTenant RetryAggressive 5 [500, 1000, 5000, 15000, 60000] True,
     route ''presence.*'' ''presence-events'' ByUser RetryNone 0 [] False,
     route ''media.*'' ''media-events'' ByConversation RetryStandard 3 [1000, 5000, 30000] True,
     route ''webrtc.*'' ''rtc-events'' ByUser RetryNone 0 [] False,
     route ''planner.*'' ''planner-events'' ByConversation RetryStandard 3 [1000, 5000, 30000] True,
     route ''social.*'' ''social-events'' ByUser RetryStandard 2 [1000, 5000] True,
     route ''post.*'' ''social-events'' ByUser RetryStandard 2 [1000, 5000] True,
     route ''story.*'' ''social-events'' ByUser RetryStandard 2 [1000, 5000] True]"

definition getRoutingEntry :: "string \<Rightarrow> routing_entry option" where
  "getRoutingEntry eventType =
     (let family = hd (str_split (CHR ''.'') eventType) @ ''.*''
      in List.find (\<lambda>e. rt_event_family e = family) EVENT_ROUTING_TABLE)"

record routed_envelope =
  re_tenant_id :: "string option"
  re_project_id :: "string option"
  re_correlation_id :: "string option"

definition or_null :: "string option \<Rightarrow> string option" where
  \<comment> \<open>\<open>s || null\<close>\<close>
  "or_null s = (if truthy_str s then s else None)"

definition getPartitionKey :: "string \<Rightarrow> routed_envelope \<Rightarrow> string option" where
  "getPartitionKey eventType e =
     (case getRoutingEntry eventType of
        None \<Rightarrow> None
      | Some entry \<Rightarrow> (case rt_partition_key entry of
          ByConversation \<Rightarrow> if truthy_str (re_correlation_id e) then re_correlation_id e else or_null (re_tenant_id e)
        | ByUser \<Rightarrow> or_null (re_correlation_id e)
        | ByTenant \<Rightarrow> or_null (re_tenant_id e)
        | ByRandom \<Rightarrow> None))"

section \<open>The two descriptions of routing\<close>

definition families :: "(string \<times> string) list" where
  \<comment> \<open>the families of the routing table with their topics\<close>
  "families = map (\<lambda>e. (butlast (butlast (rt_event_family e)), rt_topic e)) EVENT_ROUTING_TABLE"

lemma split_dot: "str_split (CHR ''.'') s = w # v # ws \<Longrightarrow> \<exists>rest. s = w @ CHR ''.'' # rest \<and> CHR ''.'' \<notin> set w"
  by (induction s arbitrary: w) (auto split: if_splits list.splits)

lemma hd_split_dot: "CHR ''.'' \<in> set s \<Longrightarrow> \<exists>rest. s = hd (str_split (CHR ''.'') s) @ CHR ''.'' # rest
    \<and> CHR ''.'' \<notin> set (hd (str_split (CHR ''.'') s))"
proof (induction s)
  case (Cons c s)
  show ?case
  proof (cases "c = CHR ''.''")
    case False
    with Cons obtain rest where "s = hd (str_split (CHR ''.'') s) @ CHR ''.'' # rest"
      "CHR ''.'' \<notin> set (hd (str_split (CHR ''.'') s))" by auto
    with False show ?thesis by (cases "str_split (CHR ''.'') s") auto
  qed simp
qed simp

lemma prefix_dot:
  assumes "CHR ''.'' \<notin> set u" "CHR ''.'' \<notin> set w"
  shows "prefix (u @ ''.'') (w @ CHR ''.'' # rest) \<longleftrightarrow> u = w"
  using assms by (auto simp: prefix_def append_sep_inj)

lemma routed_family:
  assumes "getRoutingEntry s = Some r"
  shows "r \<in> set EVENT_ROUTING_TABLE \<and> rt_event_family r = hd (str_split (CHR ''.'') s) @ ''.*''"
  using assms find_SomeD unfolding getRoutingEntry_def Let_def by fastforce

lemma first_prefix_family:
  assumes "CHR ''.'' \<notin> set w" "list_all (\<lambda>(ps, t). list_all (\<lambda>p. p \<noteq> [] \<and> last p = CHR ''.'' \<and> CHR ''.'' \<notin> set (butlast p)) ps) cs"
  shows "first_prefix cs d (w @ CHR ''.'' # rest) = first_prefix cs d (w @ ''.'')"
  using assms(2)
proof (induction cs)
  case (Cons c cs)
  obtain ps t where c: "c = (ps, t)" by (cases c)
  have "prefix p (w @ CHR ''.'' # rest) \<longleftrightarrow> prefix p (w @ ''.'')" if "p \<in> set ps" for p
  proof -
    from Cons.prems that have p: "p = butlast p @ ''.''" "CHR ''.'' \<notin> set (butlast p)"
      by (auto simp: c list_all_iff) (metis append_butlast_last_id)
    show ?thesis
      using prefix_dot [OF p(2) assms(1), of rest] prefix_dot [OF p(2) assms(1), of "[]"] p(1) by simp
  qed
  then have "list_ex (str_starts_with (w @ CHR ''.'' # rest)) ps \<longleftrightarrow> list_ex (str_starts_with (w @ ''.'')) ps"
    by (auto simp: list_ex_iff)
  with Cons show ?case by (simp add: c)
qed simp

lemma topic_of_family:
  "CHR ''.'' \<notin> set w \<Longrightarrow> getRealtimeTopicForEvent (w @ CHR ''.'' # rest) = getRealtimeTopicForEvent (w @ ''.'')"
  unfolding getRealtimeTopicForEvent_def by (rule first_prefix_family) simp_all

lemma table_topics:
  "r \<in> set EVENT_ROUTING_TABLE \<Longrightarrow> getRealtimeTopicForEvent (butlast (rt_event_family r)) = rt_topic r"
proof -
  have "list_all (\<lambda>r. getRealtimeTopicForEvent (butlast (rt_event_family r)) = rt_topic r) EVENT_ROUTING_TABLE"
    by (simp add: EVENT_ROUTING_TABLE_def getRealtimeTopicForEvent_def)
  then show "r \<in> set EVENT_ROUTING_TABLE \<Longrightarrow> ?thesis" by (simp add: list_all_iff)
qed

text \<open>
  The routing table and the function that names topics agree: an event type with a family
  prefix that has a routing entry is routed to the topic the function gives. (For the bare name
  of a family, without a dot, the table has an entry but the function falls through.)
\<close>
lemma routing_agrees_with_topics:
  "(CHR ''.'' \<in> set s \<and> getRoutingEntry s = Some r \<longrightarrow> rt_topic r = getRealtimeTopicForEvent s)
   \<and> map_option rt_topic (getRoutingEntry ''presence'') = Some ''presence-events''
   \<and> getRealtimeTopicForEvent ''presence'' = ''message-events''"
proof (intro conjI impI)
  assume *: "CHR ''.'' \<in> set s \<and> getRoutingEntry s = Some r"
  from hd_split_dot [of s] * obtain rest where s: "s = hd (str_split (CHR ''.'') s) @ CHR ''.'' # rest"
    "CHR ''.'' \<notin> set (hd (str_split (CHR ''.'') s))" by auto
  have r: "r \<in> set EVENT_ROUTING_TABLE" "rt_event_family r = hd (str_split (CHR ''.'') s) @ ''.*''"
    using routed_family * by auto
  have "rt_topic r = getRealtimeTopicForEvent (hd (str_split (CHR ''.'') s) @ ''.'')"
    using table_topics [OF r(1)] by (simp add: r(2) butlast_append)
  also have "\<dots> = getRealtimeTopicForEvent s"
    using topic_of_family [OF s(2), of rest] s(1) by simp
  finally show "rt_topic r = getRealtimeTopicForEvent s" .
next
  show "map_option rt_topic (getRoutingEntry ''presence'') = Some ''presence-events''"
    by (simp add: getRoutingEntry_def EVENT_ROUTING_TABLE_def)
  show "getRealtimeTopicForEvent ''presence'' = ''message-events''"
    by (simp add: getRealtimeTopicForEvent_def)
qed

lemma routing_agrees_with_topics_example:
  "getRealtimeTopicForEvent ''group.updated'' = ''conversation-events''"
proof -
  have r: "map_option rt_topic (getRoutingEntry ''group.updated'') = Some ''conversation-events''"
    by (simp add: getRoutingEntry_def EVENT_ROUTING_TABLE_def)
  then obtain r where "getRoutingEntry ''group.updated'' = Some r" "rt_topic r = ''conversation-events''" by auto
  with routing_agrees_with_topics [of "''group.updated''" r] show ?thesis by simp
qed

text \<open>Events of a conversation are partitioned by their correlation, not by the conversation.\<close>

lemma partition_by_correlation:
  assumes "getRoutingEntry s = Some r" "rt_partition_key r = ByConversation" "re_correlation_id e = Some c" "c \<noteq> []"
  shows "getPartitionKey s e = Some c"
  using assms by (simp add: getPartitionKey_def)

end
