(* ===== verification/RtSchemas.thy ===== *)
theory RtSchemas
  imports RtRouting
begin

text \<open>
  The schema registry of realtime events (packages/realtime-contracts/src/schemas/index.ts): the
  schemas as data, and the validation of envelopes and payloads against them. \<open>JSON.parse\<close> is a
  parameter.
\<close>

section \<open>Schemas\<close>

datatype prop_schema = PropSchema
  (pr_type: string) (pr_format: "string option") (pr_pattern: "string option") (pr_enum: "string list option")
  (pr_maxLength: "nat option") (pr_maxItems: "nat option") (pr_items: "prop_schema option")
  (pr_required: "string list") (pr_properties: "(string \<times> prop_schema) list")

abbreviation plain :: "string \<Rightarrow> prop_schema" where
  "plain t \<equiv> PropSchema t None None None None None None [] []"

abbreviation str :: prop_schema where
  "str \<equiv> plain ''string''"

abbreviation formatted :: "string \<Rightarrow> prop_schema" where
  "formatted f \<equiv> PropSchema ''string'' (Some f) None None None None None [] []"

abbreviation matching :: "string \<Rightarrow> prop_schema" where
  "matching p \<equiv> PropSchema ''string'' None (Some p) None None None None [] []"

abbreviation one_of :: "string list \<Rightarrow> prop_schema" where
  "one_of xs \<equiv> PropSchema ''string'' None None (Some xs) None None None [] []"

abbreviation at_most :: "nat \<Rightarrow> prop_schema" where
  "at_most n \<equiv> PropSchema ''string'' None None None (Some n) None None [] []"

abbreviation array_of :: "prop_schema \<Rightarrow> nat option \<Rightarrow> prop_schema" where
  "array_of s n \<equiv> PropSchema ''array'' None None None None n (Some s) [] []"

abbreviation obj :: "string list \<Rightarrow> (string \<times> prop_schema) list \<Rightarrow> prop_schema" where
  "obj req ps \<equiv> PropSchema ''object'' None None None None None None req ps"

record json_schema =
  js_id :: string
  js_title :: string
  js_required :: "string list"
  js_properties :: "(string, prop_schema) jsmap"

definition backslash :: string where
  "backslash = [CHR 0x5C]"

definition event_type_pattern :: string where
  "event_type_pattern = ''^[a-z_]+'' @ backslash @ ''.[a-z_]+$''"

definition semver_pattern :: string where
  "semver_pattern = ''^'' @ backslash @ ''d+'' @ backslash @ ''.'' @ backslash @ ''d+'' @ backslash @ ''.'' @ backslash @ ''d+$''"

definition REALTIME_ENVELOPE_SCHEMA :: json_schema where
  "REALTIME_ENVELOPE_SCHEMA = \<lparr>js_id = ''https://caas.io/schemas/realtime-envelope.json'', js_title = ''RealtimeEnvelope'',
     js_required = [''event_id'', ''event_type'', ''schema_version'', ''tenant_id'', ''correlation_id'',
       ''occurred_at'', ''producer_id'', ''partition_key'', ''payload''],
     js_properties = [
       (''event_id'', formatted ''uuid''),
       (''event_type'', matching event_type_pattern),
       (''schema_version'', matching semver_pattern),
       (''tenant_id'', str), (''project_id'', str), (''correlation_id'', str),
       (''occurred_at'', formatted ''date-time''),
       (''producer_id'', str), (''partition_key'', str),
       (''payload'', obj [] []),
       (''metadata'', obj [] [(''user_id'', str), (''conversation_id'', str), (''dedupe_key'', str)])]\<rparr>"

definition MESSAGE_CREATED_PAYLOAD_SCHEMA :: json_schema where
  "MESSAGE_CREATED_PAYLOAD_SCHEMA = \<lparr>js_id = ''https://caas.io/schemas/message-created-payload.json'', js_title = ''MessageCreatedPayload'',
     js_required = [''message_id'', ''conversation_id'', ''sender_id'', ''content''],
     js_properties = [
       (''message_id'', str), (''conversation_id'', str), (''sender_id'', str),
       (''content'', obj [''type''] [
          (''type'', one_of [''text'', ''image'', ''video'', ''audio'', ''file'', ''rich'']),
          (''text'', str), (''url'', str), (''mime_type'', str), (''caption'', str)]),
       (''timestamp'', formatted ''date-time''),
       (''reply_to'', str)]\<rparr>"

definition REACTION_PAYLOAD_SCHEMA :: json_schema where
  "REACTION_PAYLOAD_SCHEMA = \<lparr>js_id = ''https://caas.io/schemas/reaction-payload.json'', js_title = ''ReactionPayload'',
     js_required = [''message_id'', ''conversation_id'', ''user_id'', ''emoji''],
     js_properties = [(''message_id'', str), (''conversation_id'', str), (''user_id'', str), (''emoji'', at_most 8)]\<rparr>"

definition THREAD_REPLY_PAYLOAD_SCHEMA :: json_schema where
  "THREAD_REPLY_PAYLOAD_SCHEMA = \<lparr>js_id = ''https://caas.io/schemas/thread-reply-payload.json'', js_title = ''ThreadReplyPayload'',
     js_required = [''parent_message_id'', ''reply_message_id'', ''conversation_id'', ''sender_id'', ''content''],
     js_properties = [
       (''parent_message_id'', str), (''reply_message_id'', str), (''conversation_id'', str), (''sender_id'', str),
       (''content'', obj [''type''] [(''type'', str), (''text'', str)])]\<rparr>"

definition GROUP_EVENT_PAYLOAD_SCHEMA :: json_schema where
  "GROUP_EVENT_PAYLOAD_SCHEMA = \<lparr>js_id = ''https://caas.io/schemas/group-event-payload.json'', js_title = ''GroupEventPayload'',
     js_required = [''conversation_id'', ''actor_id''],
     js_properties = [
       (''conversation_id'', str), (''actor_id'', str), (''group_name'', at_most 128),
       (''participant_ids'', array_of str (Some 256)),
       (''target_user_id'', str), (''new_role'', one_of [''admin'', ''moderator'', ''member'']),
       (''new_name'', str), (''avatar_url'', formatted ''uri'')]\<rparr>"

definition PLANNER_TASK_PAYLOAD_SCHEMA :: json_schema where
  "PLANNER_TASK_PAYLOAD_SCHEMA = \<lparr>js_id = ''https://caas.io/schemas/planner-task-payload.json'', js_title = ''PlannerTaskPayload'',
     js_required = [''conversation_id'', ''task_id'', ''title'', ''creator_id''],
     js_properties = [
       (''conversation_id'', str), (''task_id'', str), (''title'', at_most 256), (''description'', at_most 2048),
       (''creator_id'', str), (''assignee_ids'', array_of str None), (''due_date'', formatted ''date-time''),
       (''priority'', one_of [''low'', ''medium'', ''high'', ''critical'']),
       (''status'', one_of [''open'', ''in_progress'', ''completed'', ''cancelled''])]\<rparr>"

definition SOCIAL_POST_PAYLOAD_SCHEMA :: json_schema where
  "SOCIAL_POST_PAYLOAD_SCHEMA = \<lparr>js_id = ''https://caas.io/schemas/social-post-payload.json'', js_title = ''SocialPostPayload'',
     js_required = [''post_id'', ''user_id''],
     js_properties = [
       (''post_id'', str), (''user_id'', str), (''content_type'', one_of [''text'', ''image'', ''video'', ''story'']),
       (''text'', at_most 4096), (''media_urls'', array_of (formatted ''uri'') (Some 10)),
       (''target_user_id'', str), (''visibility'', one_of [''public'', ''friends'', ''private'']),
       (''expires_at'', formatted ''date-time'')]\<rparr>"

definition PRESENCE_PAYLOAD_SCHEMA :: json_schema where
  "PRESENCE_PAYLOAD_SCHEMA = \<lparr>js_id = ''https://caas.io/schemas/presence-payload.json'', js_title = ''PresencePayload'',
     js_required = [''user_id''],
     js_properties = [
       (''user_id'', str), (''status'', one_of [''online'', ''away'', ''dnd'', ''invisible'', ''offline'']),
       (''custom_message'', at_most 256), (''last_seen'', formatted ''date-time''),
       (''target_user_ids'', array_of str None)]\<rparr>"

definition MODERATION_PAYLOAD_SCHEMA :: json_schema where
  "MODERATION_PAYLOAD_SCHEMA = \<lparr>js_id = ''https://caas.io/schemas/moderation-payload.json'', js_title = ''ModerationPayload'',
     js_required = [''actor_id''],
     js_properties = [
       (''actor_id'', str), (''target_user_id'', str), (''reason'', at_most 1024),
       (''report_type'', one_of [''spam'', ''harassment'', ''violence'', ''hate_speech'', ''other'']),
       (''evidence'', obj [] []), (''block_scope'', one_of [''conversation'', ''project'', ''platform''])]\<rparr>"

datatype compatibility = Backward | Forward | Full | NoCompatibility

record schema_entry =
  sc_schemaId :: string
  sc_version :: string
  sc_compatibility :: compatibility
  sc_schema :: json_schema
  sc_eventTypes :: "string list"

abbreviation schema_row :: "string \<Rightarrow> compatibility \<Rightarrow> json_schema \<Rightarrow> string list \<Rightarrow> schema_entry" where
  "schema_row i c s ts \<equiv> \<lparr>sc_schemaId = i, sc_version = ''1.0.0'', sc_compatibility = c, sc_schema = s, sc_eventTypes = ts\<rparr>"

definition SCHEMA_REGISTRY :: "schema_entry list" where
  "SCHEMA_REGISTRY = [
     schema_row ''realtime-envelope'' Backward REALTIME_ENVELOPE_SCHEMA [''*''],
     schema_row ''message-created-payload'' Backward MESSAGE_CREATED_PAYLOAD_SCHEMA [''message.created''],
     schema_row ''reaction-payload'' Backward REACTION_PAYLOAD_SCHEMA [''reaction.added'', ''reaction.removed''],
     schema_row ''thread-reply-payload'' Backward THREAD_REPLY_PAYLOAD_SCHEMA [''thread.reply''],
     schema_row ''group-event-payload'' Backward GROUP_EVENT_PAYLOAD_SCHEMA
       [''group.created'', ''group.member_added'', ''group.member_removed'', ''group.role_changed'', ''group.updated''],
     schema_row ''planner-task-payload'' Backward PLANNER_TASK_PAYLOAD_SCHEMA
       [''planner.task_created'', ''planner.task_updated'', ''planner.task_completed''],
     schema_row ''social-post-payload'' Full SOCIAL_POST_PAYLOAD_SCHEMA
       [''social.post_created'', ''social.post_liked'', ''social.story_viewed''],
     schema_row ''presence-payload'' Backward PRESENCE_PAYLOAD_SCHEMA [''presence.updated'', ''presence.status_changed''],
     schema_row ''moderation-payload'' Backward MODERATION_PAYLOAD_SCHEMA
       [''block.created'', ''block.removed'', ''report.submitted'', ''privacy.updated'']]"

section \<open>Validation\<close>

record validation_result =
  vr_valid :: bool
  vr_errors :: "string list"
  vr_schemaId :: "string option"

definition validateRequired :: "js_env \<Rightarrow> jsval \<Rightarrow> string list \<Rightarrow> string list" where
  "validateRequired env v required = filter (\<lambda>f. prop_of env v f = JUndef \<or> prop_of env v f = JNull) required"

fun js_typeof :: "jsval \<Rightarrow> string" where
  "js_typeof JUndef = ''undefined''"
| "js_typeof JNull = ''object''"
| "js_typeof (JBool b) = ''boolean''"
| "js_typeof (JNum n) = ''number''"
| "js_typeof (JStr s) = ''string''"
| "js_typeof (JArr a xs) = ''object''"
| "js_typeof (JObj a ps) = ''object''"
| "js_typeof (JFun a) = ''function''"

fun is_array :: "jsval \<Rightarrow> bool" where
  "is_array (JArr a xs) = True"
| "is_array _ = False"

definition validateType :: "jsval \<Rightarrow> string \<Rightarrow> bool" where
  "validateType v expected =
     (if expected = ''object'' then v \<noteq> JNull \<and> js_typeof v = ''object'' \<and> \<not> is_array v
      else if expected = ''array'' then is_array v
      else js_typeof v = expected)"

definition q :: string where "q = [CHR 0x27]"

definition exceeds :: "nat option \<Rightarrow> nat \<Rightarrow> bool" where
  \<comment> \<open>\<open>max && length > max\<close>\<close>
  "exceeds m n = (case m of None \<Rightarrow> False | Some k \<Rightarrow> k \<noteq> 0 \<and> k < n)"

definition property_errors :: "string \<Rightarrow> prop_schema \<Rightarrow> jsval \<Rightarrow> string list" where
  "property_errors key ps v =
     (if pr_type ps \<noteq> [] \<and> \<not> validateType v (pr_type ps)
      then [''Field '' @ q @ key @ q @ '' expected type '' @ q @ pr_type ps @ q @ '', got '' @ q @ js_typeof v @ q] else [])
     @ (case v of JStr s \<Rightarrow>
          if pr_type ps = ''string'' then
            (if exceeds (pr_maxLength ps) (length s)
             then [''Field '' @ q @ key @ q @ '' exceeds maxLength '' @ show_nat (the (pr_maxLength ps))] else [])
            @ (case pr_enum ps of None \<Rightarrow> [] | Some xs \<Rightarrow>
                if s \<notin> set xs then [''Field '' @ q @ key @ q @ '' must be one of: '' @ str_join '', '' xs] else [])
          else []
        | JArr a xs \<Rightarrow>
          if pr_type ps = ''array'' \<and> exceeds (pr_maxItems ps) (length xs)
          then [''Field '' @ q @ key @ q @ '' exceeds maxItems '' @ show_nat (the (pr_maxItems ps))] else []
        | _ \<Rightarrow> [])"

definition validatePayload :: "js_env \<Rightarrow> string \<Rightarrow> jsval \<Rightarrow> validation_result" where
  "validatePayload env eventType payload =
     (case List.find (\<lambda>e. eventType \<in> set (sc_eventTypes e)) SCHEMA_REGISTRY of
        None \<Rightarrow> \<lparr>vr_valid = True, vr_errors = [], vr_schemaId = None\<rparr>
      | Some entry \<Rightarrow>
          if \<not> is_object payload
          then \<lparr>vr_valid = False, vr_errors = [''Payload must be a non-null object''], vr_schemaId = Some (sc_schemaId entry)\<rparr>
          else let missing = validateRequired env payload (js_required (sc_schema entry)) in
          if 0 < length missing
          then \<lparr>vr_valid = False, vr_errors = map (\<lambda>f. ''Missing required field: '' @ f) missing,
                 vr_schemaId = Some (sc_schemaId entry)\<rparr>
          else let errors = concat (map (\<lambda>(key, ps).
                  if prop_of env payload key = JUndef then [] else property_errors key ps (prop_of env payload key))
                (js_properties (sc_schema entry)))
               in \<lparr>vr_valid = (length errors = 0), vr_errors = errors, vr_schemaId = Some (sc_schemaId entry)\<rparr>)"

definition lower_or_underscore :: "char \<Rightarrow> bool" where
  "lower_or_underscore c \<longleftrightarrow> (97 \<le> (of_char c :: nat) \<and> (of_char c :: nat) \<le> 122) \<or> c = CHR ''_''"

definition matches_event_type :: "string \<Rightarrow> bool" where
  \<comment> \<open>the test of \<open>event_type_pattern\<close>\<close>
  "matches_event_type s = (case str_split (CHR ''.'') s of
     [u, v] \<Rightarrow> u \<noteq> [] \<and> v \<noteq> [] \<and> list_all lower_or_underscore u \<and> list_all lower_or_underscore v
   | _ \<Rightarrow> False)"

definition matches_semver :: "string \<Rightarrow> bool" where
  \<comment> \<open>three groups of digits separated by dots\<close>
  "matches_semver s = (case str_split (CHR ''.'') s of
     [u, v, w] \<Rightarrow> u \<noteq> [] \<and> v \<noteq> [] \<and> w \<noteq> [] \<and> list_all is_digit u \<and> list_all is_digit v \<and> list_all is_digit w
   | _ \<Rightarrow> False)"

definition validateEnvelope :: "js_env \<Rightarrow> jsval \<Rightarrow> validation_result" where
  "validateEnvelope env envelope =
     (if \<not> is_object envelope
      then \<lparr>vr_valid = False, vr_errors = [''Envelope must be a non-null object''], vr_schemaId = Some ''realtime-envelope''\<rparr>
      else let missing = validateRequired env envelope (js_required REALTIME_ENVELOPE_SCHEMA) in
      if 0 < length missing
      then \<lparr>vr_valid = False, vr_errors = map (\<lambda>f. ''Missing required envelope field: '' @ f) missing,
             vr_schemaId = Some ''realtime-envelope''\<rparr>
      else let errors =
          (case prop_of env envelope ''event_type'' of JStr s \<Rightarrow>
             if \<not> matches_event_type s then [''event_type must match pattern '' @ event_type_pattern] else [] | _ \<Rightarrow> [])
          @ (case prop_of env envelope ''schema_version'' of JStr s \<Rightarrow>
             if \<not> matches_semver s then [''schema_version must match semver pattern''] else [] | _ \<Rightarrow> [])
        in \<lparr>vr_valid = (length errors = 0), vr_errors = errors, vr_schemaId = Some ''realtime-envelope''\<rparr>)"

record deserialized =
  de_data :: jsval
  de_validated :: bool
  de_errors :: "string list"

definition deserializeWithFallback ::
    "(string \<Rightarrow> jsval option) \<Rightarrow> js_env \<Rightarrow> string \<Rightarrow> string option \<Rightarrow> deserialized" where
  \<comment> \<open>\<open>parse\<close>: \<open>JSON.parse\<close>, \<open>None\<close> when it throws\<close>
  "deserializeWithFallback parse env raw eventType =
     (case parse raw of
        None \<Rightarrow> \<lparr>de_data = JObj 0 [], de_validated = False, de_errors = [''Invalid JSON'']\<rparr>
      | Some parsed \<Rightarrow>
          if \<not> truthy_str eventType then \<lparr>de_data = parsed, de_validated = False, de_errors = []\<rparr>
          else let er = validateEnvelope env parsed in
          if \<not> vr_valid er then \<lparr>de_data = parsed, de_validated = False, de_errors = vr_errors er\<rparr>
          else let pr = validatePayload env (the eventType) (prop_of env parsed ''payload'') in
          if \<not> vr_valid pr then \<lparr>de_data = parsed, de_validated = False, de_errors = vr_errors pr\<rparr>
          else \<lparr>de_data = parsed, de_validated = True, de_errors = []\<rparr>)"

section \<open>What validation accepts\<close>

definition conforms :: "prop_schema \<Rightarrow> jsval \<Rightarrow> bool" where
  \<comment> \<open>type, length and enumeration of a value; nothing below its first level\<close>
  "conforms ps v \<longleftrightarrow> (pr_type ps \<noteq> [] \<longrightarrow> validateType v (pr_type ps))
     \<and> (\<forall>s. v = JStr s \<and> pr_type ps = ''string'' \<longrightarrow>
          \<not> exceeds (pr_maxLength ps) (length s) \<and> (\<forall>xs. pr_enum ps = Some xs \<longrightarrow> s \<in> set xs))
     \<and> (\<forall>a xs. v = JArr a xs \<and> pr_type ps = ''array'' \<longrightarrow> \<not> exceeds (pr_maxItems ps) (length xs))"

lemma no_property_errors: "property_errors key ps v = [] \<longleftrightarrow> conforms ps v"
  by (cases v) (auto simp: property_errors_def conforms_def split: option.splits)

definition schema_for :: "string \<Rightarrow> json_schema option" where
  "schema_for eventType = map_option sc_schema (List.find (\<lambda>e. eventType \<in> set (sc_eventTypes e)) SCHEMA_REGISTRY)"

definition accepted_by :: "js_env \<Rightarrow> json_schema \<Rightarrow> jsval \<Rightarrow> bool" where
  "accepted_by env s v \<longleftrightarrow> is_object v
     \<and> (\<forall>f \<in> set (js_required s). prop_of env v f \<noteq> JUndef \<and> prop_of env v f \<noteq> JNull)
     \<and> (\<forall>(key, ps) \<in> set (js_properties s). prop_of env v key \<noteq> JUndef \<longrightarrow> conforms ps (prop_of env v key))"

lemma payload_valid:
  "vr_valid (validatePayload env t v) \<longleftrightarrow> (case schema_for t of None \<Rightarrow> True | Some s \<Rightarrow> accepted_by env s v)"
proof (cases "List.find (\<lambda>e. t \<in> set (sc_eventTypes e)) SCHEMA_REGISTRY")
  case (Some entry)
  have none: "validateRequired env v fs = [] \<longleftrightarrow> (\<forall>f \<in> set fs. prop_of env v f \<noteq> JUndef \<and> prop_of env v f \<noteq> JNull)" for fs
    by (auto simp: validateRequired_def filter_empty_conv)
  show ?thesis
    by (auto simp: validatePayload_def schema_for_def Some Let_def accepted_by_def none [symmetric] no_property_errors)
qed (simp add: validatePayload_def schema_for_def)

lemma envelope_fields:
  "prop_of env (JObj a (buildRealtimeEnvelope u1 u2 now p)) ''event_id'' = JStr (string_or (ep_eventId p) u1)"
  "prop_of env (JObj a (buildRealtimeEnvelope u1 u2 now p)) ''event_type'' = JStr (ep_eventType p)"
  "prop_of env (JObj a (buildRealtimeEnvelope u1 u2 now p)) ''schema_version'' = JStr REALTIME_ENVELOPE_SCHEMA_VERSION"
  "prop_of env (JObj a (buildRealtimeEnvelope u1 u2 now p)) ''tenant_id'' = JStr (ep_tenantId p)"
  "prop_of env (JObj a (buildRealtimeEnvelope u1 u2 now p)) ''correlation_id'' = JStr (string_or (ep_correlationId p) u2)"
  "prop_of env (JObj a (buildRealtimeEnvelope u1 u2 now p)) ''occurred_at'' = JStr (case ep_occurredAt p of Some t \<Rightarrow> t | None \<Rightarrow> now)"
  "prop_of env (JObj a (buildRealtimeEnvelope u1 u2 now p)) ''producer_id'' = JStr (ep_producerId p)"
  "prop_of env (JObj a (buildRealtimeEnvelope u1 u2 now p)) ''partition_key'' = JStr (ep_partitionKey p)"
  "prop_of env (JObj a (buildRealtimeEnvelope u1 u2 now p)) ''payload'' = ep_payload p"
  "get_prop env (JObj a (buildRealtimeEnvelope u1 u2 now p)) ''payload'' = Some (ep_payload p)"
  by (simp_all add: prop_of_def get_prop_def buildRealtimeEnvelope_def)

lemma schema_version_ok: "matches_semver REALTIME_ENVELOPE_SCHEMA_VERSION"
  by code_simp

lemma deserialize_parsed:
  assumes "parse raw = Some v" "truthy_str t"
  shows "deserializeWithFallback parse env raw t =
    (let er = validateEnvelope env v; pr = validatePayload env (the t) (prop_of env v ''payload'') in
     \<lparr>de_data = v, de_validated = (vr_valid er \<and> vr_valid pr),
      de_errors = (if \<not> vr_valid er then vr_errors er else if \<not> vr_valid pr then vr_errors pr else [])\<rparr>)"
  using assms by (simp add: deserializeWithFallback_def Let_def)

lemma invalid_has_errors:
  "\<not> vr_valid (validateEnvelope env v) \<Longrightarrow> vr_errors (validateEnvelope env v) \<noteq> []"
  "\<not> vr_valid (validatePayload env t v) \<Longrightarrow> vr_errors (validatePayload env t v) \<noteq> []"
  by (auto simp: validateEnvelope_def validatePayload_def Let_def split: option.splits if_splits)

lemma built_envelope_valid:
  "vr_valid (validateEnvelope env (JObj a (buildRealtimeEnvelope u1 u2 now p))) \<longleftrightarrow>
     matches_event_type (ep_eventType p) \<and> ep_payload p \<noteq> JUndef \<and> ep_payload p \<noteq> JNull"
  by (simp add: validateEnvelope_def validateRequired_def REALTIME_ENVELOPE_SCHEMA_def envelope_fields schema_version_ok)

text \<open>
  C22: What a producer builds a consumer reads unchanged. A built envelope, read back by the parser,
  deserializes to just that envelope, with the identifiers, the tenant and the payload the producer
  gave (the generated ones where it gave none), accepted or not. It is accepted as validated
  exactly if its event type has the form family dot name, its payload is set, and the schema of the
  event type, if there is one, accepts the payload: an object with every required field set whose
  present fields have the type, length and enumeration of the schema at the first level. Errors are
  reported exactly if it is not accepted.
\<close>
theorem built_envelopes_deserialize:
  assumes "parse raw = Some (JObj a (buildRealtimeEnvelope u1 u2 now p))" "ep_eventType p \<noteq> []"
    and "r = deserializeWithFallback parse env raw (Some (ep_eventType p))"
  shows "de_data r = JObj a (buildRealtimeEnvelope u1 u2 now p)
    \<and> prop_of env (de_data r) ''event_id'' = JStr (string_or (ep_eventId p) u1)
    \<and> prop_of env (de_data r) ''event_type'' = JStr (ep_eventType p)
    \<and> prop_of env (de_data r) ''tenant_id'' = JStr (ep_tenantId p)
    \<and> prop_of env (de_data r) ''correlation_id'' = JStr (string_or (ep_correlationId p) u2)
    \<and> prop_of env (de_data r) ''partition_key'' = JStr (ep_partitionKey p)
    \<and> prop_of env (de_data r) ''payload'' = ep_payload p
    \<and> isRealtimeEnvelope env (de_data r)
    \<and> (de_validated r \<longleftrightarrow> matches_event_type (ep_eventType p) \<and> ep_payload p \<noteq> JUndef \<and> ep_payload p \<noteq> JNull
        \<and> (case schema_for (ep_eventType p) of None \<Rightarrow> True | Some s \<Rightarrow> accepted_by env s (ep_payload p)))
    \<and> (de_errors r = [] \<longleftrightarrow> de_validated r)"
proof -
  let ?v = "JObj a (buildRealtimeEnvelope u1 u2 now p)"
  have r: "r = (let er = validateEnvelope env ?v; pr = validatePayload env (ep_eventType p) (ep_payload p) in
     \<lparr>de_data = ?v, de_validated = (vr_valid er \<and> vr_valid pr),
      de_errors = (if \<not> vr_valid er then vr_errors er else if \<not> vr_valid pr then vr_errors pr else [])\<rparr>)"
    using deserialize_parsed [of parse raw ?v "Some (ep_eventType p)" env] assms by (simp add: envelope_fields)
  have "isRealtimeEnvelope env ?v"
    by (simp add: isRealtimeEnvelope_def string_fields_def envelope_fields)
  moreover have "de_validated r \<longleftrightarrow> matches_event_type (ep_eventType p) \<and> ep_payload p \<noteq> JUndef \<and> ep_payload p \<noteq> JNull
        \<and> (case schema_for (ep_eventType p) of None \<Rightarrow> True | Some s \<Rightarrow> accepted_by env s (ep_payload p))"
    by (simp add: r Let_def built_envelope_valid payload_valid)
  moreover have "de_errors r = [] \<longleftrightarrow> de_validated r"
    by (simp add: r Let_def invalid_has_errors)
  moreover have "de_data r = ?v" by (simp add: r Let_def)
  ultimately show ?thesis by (simp only: envelope_fields simp_thms)
qed

definition block_event :: envelope_params where
  "block_event = \<lparr>ep_eventId = None, ep_eventType = ''block.created'', ep_tenantId = ''t1'', ep_projectId = None,
     ep_correlationId = None, ep_producerId = ''social'', ep_partitionKey = ''u1'',
     ep_payload = JObj 1 [(''actor_id'', JStr ''u1''), (''block_scope'', JStr ''project'')],
     ep_metadata = None, ep_occurredAt = None\<rparr>"

definition no_inheritance :: js_env where
  "no_inheritance = \<lparr>je_inherited = (\<lambda>v k. None), je_regex = (\<lambda>s. None)\<rparr>"

definition demo_parse :: "string \<Rightarrow> jsval option" where
  "demo_parse raw = Some (JObj 0 (buildRealtimeEnvelope ''e1'' ''c1'' ''2024'' block_event))"

theorem built_envelopes_deserialize_witness:
  "let r = deserializeWithFallback demo_parse no_inheritance ''{}'' (Some ''block.created'')
   in de_validated r \<and> prop_of no_inheritance (de_data r) ''tenant_id'' = JStr ''t1''
     \<and> prop_of no_inheritance (de_data r) ''payload'' = ep_payload block_event"
proof -
  have ok: "matches_event_type ''block.created''"
    "vr_valid (validatePayload no_inheritance ''block.created'' (ep_payload block_event))"
    by code_simp+
  have parse: "demo_parse ''{}'' = Some (JObj 0 (buildRealtimeEnvelope ''e1'' ''c1'' ''2024'' block_event))"
    and type: "ep_eventType block_event \<noteq> []"
    by (simp_all add: demo_parse_def block_event_def)
  have fields: "ep_eventType block_event = ''block.created''" "ep_tenantId block_event = ''t1''"
    "ep_payload block_event \<noteq> JUndef" "ep_payload block_event \<noteq> JNull"
    by (simp_all add: block_event_def)
  from built_envelopes_deserialize [where parse = demo_parse and p = block_event, OF parse type refl, of no_inheritance] ok
  show ?thesis unfolding payload_valid Let_def fields by (simp add: fields envelope_fields)
qed

end
