(* ===== verification/RtAccess.thy ===== *)
theory RtAccess
  imports RtRegistry
begin

text \<open>
  Access control for socket events (packages/realtime-contracts/src/access-control.ts): the
  decision for a caller and a resource, rate limits per event, the events open to a role, and the
  exported matrix.
\<close>

section \<open>Model\<close>

record access_decision =
  ax_allowed :: bool
  ax_code :: string
  ax_message :: string
  ax_rate_limit_profile :: "rate_profile option"

record access_context =
  ac_namespace :: socket_namespace
  ac_event :: string
  ac_callerRole :: access_role
  ac_callerPermissions :: "string list"
  ac_callerTenantId :: string
  ac_callerProjectId :: "string option"
  ac_resourceTenantId :: string
  ac_resourceProjectId :: "string option"

record rate_limit_spec =
  rs_maxRequests :: "nat option" \<comment> \<open>\<open>None\<close>: \<open>Infinity\<close>\<close>
  rs_windowMs :: nat

fun RATE_LIMIT_SPECS :: "rate_profile \<Rightarrow> rate_limit_spec" where
  "RATE_LIMIT_SPECS RlNone = \<lparr>rs_maxRequests = None, rs_windowMs = 60000\<rparr>"
| "RATE_LIMIT_SPECS RlLow = \<lparr>rs_maxRequests = Some 10, rs_windowMs = 60000\<rparr>"
| "RATE_LIMIT_SPECS RlMedium = \<lparr>rs_maxRequests = Some 60, rs_windowMs = 60000\<rparr>"
| "RATE_LIMIT_SPECS RlHigh = \<lparr>rs_maxRequests = Some 200, rs_windowMs = 60000\<rparr>"
| "RATE_LIMIT_SPECS RlCritical = \<lparr>rs_maxRequests = Some 500, rs_windowMs = 60000\<rparr>"

definition lookupEntry :: "socket_namespace \<Rightarrow> string \<Rightarrow> socket_event option" where
  "lookupEntry ns ev = map_of SOCKET_EVENT_REGISTRY (event_key ns ev)"

definition apostrophe :: string where
  "apostrophe = [CHR 0x27]"

abbreviation denied :: "string \<Rightarrow> string \<Rightarrow> access_decision" where
  "denied code msg \<equiv> \<lparr>ax_allowed = False, ax_code = code, ax_message = msg, ax_rate_limit_profile = None\<rparr>"

definition missing_permissions :: "socket_event \<Rightarrow> string list \<Rightarrow> string list" where
  "missing_permissions entry held = filter (\<lambda>p. p \<notin> set held) (se_permissions entry)"

definition evaluateAccessControl :: "access_context \<Rightarrow> access_decision" where
  "evaluateAccessControl ctx =
     (let named = event_key (ac_namespace ctx) (ac_event ctx) in
      case lookupEntry (ac_namespace ctx) (ac_event ctx) of
        None \<Rightarrow> denied ''UNKNOWN_EVENT'' (''Event '' @ named @ '' is not registered in the event catalog'')
      | Some entry \<Rightarrow>
          if se_lifecycle entry = EvDeprecated
          then denied ''EVENT_DEPRECATED'' (''Event '' @ named @ '' is deprecated and no longer available'')
          else if se_lifecycle entry = EvPlanned
          then denied ''EVENT_NOT_AVAILABLE'' (''Event '' @ named @ '' is not yet available'')
          else if ac_callerTenantId ctx \<noteq> ac_resourceTenantId ctx
          then denied ''CROSS_TENANT_DENIED'' ''Cross-tenant event execution is not permitted''
          else if se_projectScoped entry \<and> truthy_str (ac_resourceProjectId ctx) \<and> truthy_str (ac_callerProjectId ctx)
            \<and> ac_callerProjectId ctx \<noteq> ac_resourceProjectId ctx
          then denied ''CROSS_PROJECT_DENIED'' ''Cross-project event execution is not permitted for project-scoped events''
          else if ac_callerRole ctx \<notin> set (se_accessRoles entry)
          then denied ''ROLE_DENIED'' (''Role '' @ apostrophe @ access_role_str (ac_callerRole ctx) @ apostrophe
            @ '' is not authorized for event '' @ named)
          else (case missing_permissions entry (ac_callerPermissions ctx) of
            [] \<Rightarrow> \<lparr>ax_allowed = True, ax_code = ''OK'', ax_message = ''Access granted'',
              ax_rate_limit_profile = Some (se_rateLimitProfile entry)\<rparr>
          | missing \<Rightarrow> denied ''PERMISSION_DENIED'' (''Missing required permissions: '' @ str_join '', '' missing)))"

definition getRateLimitForEvent :: "socket_namespace \<Rightarrow> string \<Rightarrow> rate_limit_spec" where
  "getRateLimitForEvent ns ev =
     RATE_LIMIT_SPECS (case lookupEntry ns ev of None \<Rightarrow> RlMedium | Some entry \<Rightarrow> se_rateLimitProfile entry)"

definition getAccessibleEvents ::
    "access_role \<Rightarrow> string list \<Rightarrow> (socket_namespace \<times> string \<times> rate_profile) list" where
  "getAccessibleEvents role permissions =
     map (\<lambda>entry. (se_namespace entry, se_event entry, se_rateLimitProfile entry))
       (filter (\<lambda>entry. se_lifecycle entry = EvActive \<and> role \<in> set (se_accessRoles entry)
           \<and> missing_permissions entry permissions = []) (map_values SOCKET_EVENT_REGISTRY))"

record matrix_row =
  mx_eventId :: string
  mx_namespace :: socket_namespace
  mx_event :: string
  mx_lifecycle :: event_lifecycle
  mx_projectScoped :: bool
  mx_accessRoles :: "access_role list"
  mx_permissions :: "string list"
  mx_rateLimitProfile :: rate_profile
  mx_rateLimitSpec :: rate_limit_spec

definition exportAccessControlMatrix :: "matrix_row list" where
  "exportAccessControlMatrix = map (\<lambda>entry. \<lparr>mx_eventId = se_eventId entry, mx_namespace = se_namespace entry,
     mx_event = se_event entry, mx_lifecycle = se_lifecycle entry, mx_projectScoped = se_projectScoped entry,
     mx_accessRoles = se_accessRoles entry, mx_permissions = se_permissions entry,
     mx_rateLimitProfile = se_rateLimitProfile entry,
     mx_rateLimitSpec = RATE_LIMIT_SPECS (se_rateLimitProfile entry)\<rparr>) (map_values SOCKET_EVENT_REGISTRY)"

section \<open>Lookups\<close>

lemma in_map_filter: "y \<in> set (map f (filter P xs)) \<longleftrightarrow> (\<exists>x \<in> set xs. P x \<and> f x = y)"
  by auto

lemma missing_none: "missing_permissions e held = [] \<longleftrightarrow> set (se_permissions e) \<subseteq> set held"
  by (auto simp: missing_permissions_def filter_empty_conv)

lemma ns_str_colon_free: "CHR '':'' \<notin> set (ns_str ns)"
  by (cases ns) simp_all

lemma ns_str_inj: "ns_str ns = ns_str ns' \<longleftrightarrow> ns = ns'"
  by (cases ns; cases ns') simp_all

lemma event_key_inj: "event_key ns ev = event_key ns' ev' \<longleftrightarrow> ns = ns' \<and> ev = ev'"
  unfolding event_key_def by (simp add: append_sep_inj ns_str_colon_free ns_str_inj)

lemma lookup_entry:
  "lookupEntry ns ev = Some e \<longleftrightarrow> e \<in> set (map_values SOCKET_EVENT_REGISTRY) \<and> se_namespace e = ns \<and> se_event e = ev"
proof -
  have ok: "k = event_key (se_namespace e) (se_event e)" if "(k, e) \<in> set SOCKET_EVENT_REGISTRY" for k e
    using registry_ok that by (auto simp: list_all_iff entry_ok_def)
  have "lookupEntry ns ev = Some e \<longleftrightarrow> (event_key ns ev, e) \<in> set SOCKET_EVENT_REGISTRY"
    using registry_distinct by (simp add: lookupEntry_def map_of_eq_Some_iff)
  also have "\<dots> \<longleftrightarrow> e \<in> set (map_values SOCKET_EVENT_REGISTRY) \<and> se_namespace e = ns \<and> se_event e = ev"
  proof
    assume *: "(event_key ns ev, e) \<in> set SOCKET_EVENT_REGISTRY"
    with ok [OF *] show "e \<in> set (map_values SOCKET_EVENT_REGISTRY) \<and> se_namespace e = ns \<and> se_event e = ev"
      by (force simp: event_key_inj)
  next
    assume "e \<in> set (map_values SOCKET_EVENT_REGISTRY) \<and> se_namespace e = ns \<and> se_event e = ev"
    then obtain k where "(k, e) \<in> set SOCKET_EVENT_REGISTRY" "se_namespace e = ns" "se_event e = ev" by auto
    with ok show "(event_key ns ev, e) \<in> set SOCKET_EVENT_REGISTRY" by metis
  qed
  finally show ?thesis .
qed

lemma entry_active: "lookupEntry ns ev = Some e \<Longrightarrow> se_lifecycle e = EvActive"
  unfolding lookup_entry using registry_ok by (auto simp: list_all_iff entry_ok_def)

definition project_clash :: "access_context \<Rightarrow> bool" where
  "project_clash ctx \<longleftrightarrow> truthy_str (ac_resourceProjectId ctx) \<and> truthy_str (ac_callerProjectId ctx)
     \<and> ac_callerProjectId ctx \<noteq> ac_resourceProjectId ctx"

lemma allowed_iff:
  "ax_allowed (evaluateAccessControl ctx) \<longleftrightarrow>
     (\<exists>e. lookupEntry (ac_namespace ctx) (ac_event ctx) = Some e
       \<and> ac_callerTenantId ctx = ac_resourceTenantId ctx
       \<and> \<not> (se_projectScoped e \<and> project_clash ctx)
       \<and> ac_callerRole ctx \<in> set (se_accessRoles e)
       \<and> set (se_permissions e) \<subseteq> set (ac_callerPermissions ctx))"
proof (cases "lookupEntry (ac_namespace ctx) (ac_event ctx)")
  case (Some e)
  then show ?thesis
    using entry_active [OF Some]
    by (simp add: evaluateAccessControl_def Let_def project_clash_def missing_none [symmetric] split: list.split)
qed (simp add: evaluateAccessControl_def)

lemma allowed_profile:
  assumes "ax_allowed (evaluateAccessControl ctx)" "lookupEntry (ac_namespace ctx) (ac_event ctx) = Some e"
  shows "ax_rate_limit_profile (evaluateAccessControl ctx) = Some (se_rateLimitProfile e)"
  using assms by (auto simp: evaluateAccessControl_def Let_def split: if_splits list.splits)

section \<open>Properties\<close>

text \<open>
  The list of events open to a role and the decision at run time agree: an event with its
  rate-limit profile is listed exactly if a caller with that role and those permissions is granted
  it in the tenant of the resource, as long as the projects do not clash; and an event that is
  granted at all is listed, lies in the caller's tenant and respects the project of a
  project-scoped event.
\<close>
lemma accessible_events_are_granted:
  "(ac_callerTenantId ctx = ac_resourceTenantId ctx \<and> \<not> project_clash ctx \<longrightarrow>
      ((ac_namespace ctx, ac_event ctx, prof) \<in> set (getAccessibleEvents (ac_callerRole ctx) (ac_callerPermissions ctx))
        \<longleftrightarrow> ax_allowed (evaluateAccessControl ctx) \<and> ax_rate_limit_profile (evaluateAccessControl ctx) = Some prof))
   \<and> (ax_allowed (evaluateAccessControl ctx) \<longrightarrow>
      ac_callerTenantId ctx = ac_resourceTenantId ctx
      \<and> (\<exists>e. lookupEntry (ac_namespace ctx) (ac_event ctx) = Some e \<and> \<not> (se_projectScoped e \<and> project_clash ctx)
        \<and> (ac_namespace ctx, ac_event ctx, se_rateLimitProfile e)
            \<in> set (getAccessibleEvents (ac_callerRole ctx) (ac_callerPermissions ctx))))"
proof -
  have listed: "(ac_namespace ctx, ac_event ctx, prof) \<in> set (getAccessibleEvents (ac_callerRole ctx) (ac_callerPermissions ctx))
      \<longleftrightarrow> (\<exists>e. lookupEntry (ac_namespace ctx) (ac_event ctx) = Some e \<and> ac_callerRole ctx \<in> set (se_accessRoles e)
        \<and> set (se_permissions e) \<subseteq> set (ac_callerPermissions ctx) \<and> se_rateLimitProfile e = prof)" for prof
  proof -
    have act: "se_lifecycle e = EvActive" if "e \<in> set (map_values SOCKET_EVENT_REGISTRY)" for e
      using entry_active [of "se_namespace e" "se_event e" e] that by (simp add: lookup_entry)
    have "(ac_namespace ctx, ac_event ctx, prof) \<in> set (getAccessibleEvents (ac_callerRole ctx) (ac_callerPermissions ctx))
      \<longleftrightarrow> (\<exists>e \<in> set (map_values SOCKET_EVENT_REGISTRY). se_lifecycle e = EvActive \<and> ac_callerRole ctx \<in> set (se_accessRoles e)
        \<and> set (se_permissions e) \<subseteq> set (ac_callerPermissions ctx) \<and> se_namespace e = ac_namespace ctx
        \<and> se_event e = ac_event ctx \<and> se_rateLimitProfile e = prof)"
      unfolding getAccessibleEvents_def missing_none in_map_filter by auto
    also have "\<dots> \<longleftrightarrow> (\<exists>e. lookupEntry (ac_namespace ctx) (ac_event ctx) = Some e \<and> ac_callerRole ctx \<in> set (se_accessRoles e)
        \<and> set (se_permissions e) \<subseteq> set (ac_callerPermissions ctx) \<and> se_rateLimitProfile e = prof)"
      unfolding lookup_entry using act by blast
    finally show ?thesis .
  qed
  show ?thesis
  proof (cases "lookupEntry (ac_namespace ctx) (ac_event ctx)")
    case None
    then show ?thesis unfolding listed allowed_iff by simp
  next
    case (Some e)
    then show ?thesis unfolding listed using allowed_profile [OF _ Some] allowed_iff [of ctx] by auto
  qed
qed

definition reader_context :: access_context where
  "reader_context = \<lparr>ac_namespace = NsChat, ac_event = ''typing_query'', ac_callerRole = RViewer,
     ac_callerPermissions = [''conversation:read''], ac_callerTenantId = ''t1'', ac_callerProjectId = None,
     ac_resourceTenantId = ''t1'', ac_resourceProjectId = Some ''p1''\<rparr>"

lemma accessible_events_are_granted_example:
  "(NsChat, ''typing_query'', RlLow) \<in> set (getAccessibleEvents RViewer [''conversation:read''])"
proof -
  have "ax_allowed (evaluateAccessControl reader_context)
      \<and> ax_rate_limit_profile (evaluateAccessControl reader_context) = Some RlLow" by code_simp
  moreover have "ac_callerTenantId reader_context = ac_resourceTenantId reader_context \<and> \<not> project_clash reader_context"
    by (simp add: reader_context_def project_clash_def)
  ultimately show ?thesis
    using accessible_events_are_granted [of reader_context RlLow] by (simp add: reader_context_def)
qed

end
