(* ===== verification/RtGovernance.thy ===== *)
theory RtGovernance
  imports RtAccess
begin

text \<open>
  Ownership and change control of socket events
  (packages/realtime-contracts/src/governance.ts): the owner matrix with its patterns, governance
  rules, request templates, the changelog between two snapshots of the registry and the check of
  a new event. Dates are arguments.
\<close>

section \<open>Owners\<close>

record owner_entry =
  ow_namespace :: socket_namespace
  ow_familyPattern :: string
  ow_owner :: string
  ow_escalationContact :: string
  ow_teamSlackChannel :: string

abbreviation owned :: "socket_namespace \<Rightarrow> string \<Rightarrow> string \<Rightarrow> string \<Rightarrow> string \<Rightarrow> owner_entry" where
  "owned ns pat team lead channel \<equiv> \<lparr>ow_namespace = ns, ow_familyPattern = pat, ow_owner = team,
     ow_escalationContact = lead, ow_teamSlackChannel = channel\<rparr>"

definition EVENT_OWNER_MATRIX :: "owner_entry list" where
  "EVENT_OWNER_MATRIX = [
     owned NsChat ''sendMessage|joinRoom|leaveRoom|message_*|messages_*|delivery_*|conversation_*|unread_*''
       ''messaging-team'' ''messaging-lead@caas.io'' ''#team-messaging'',
     owned NsChat ''typing_*'' ''collaboration-team'' ''collab-lead@caas.io'' ''#team-collaboration'',
     owned NsChat ''moderate:*'' ''trust-safety-team'' ''trust-safety-lead@caas.io'' ''#team-trust-safety'',
     owned NsChat ''message_react|message_pin|message_save|message_forward|message_archive|thread_reply''
       ''messaging-team'' ''messaging-lead@caas.io'' ''#team-messaging'',
     owned NsChat ''group_*'' ''messaging-team'' ''messaging-lead@caas.io'' ''#team-messaging'',
     owned NsChat ''planner_*'' ''collaboration-team'' ''collab-lead@caas.io'' ''#team-collaboration'',
     owned NsPresence ''*'' ''presence-team'' ''presence-lead@caas.io'' ''#team-presence'',
     owned NsWebrtc ''*'' ''media-rtc-team'' ''rtc-lead@caas.io'' ''#team-rtc'',
     owned NsMedia ''*'' ''media-rtc-team'' ''media-lead@caas.io'' ''#team-media'',
     owned NsSearch ''*'' ''search-team'' ''search-lead@caas.io'' ''#team-search'']"

definition line_terminator :: "char \<Rightarrow> bool" where
  "line_terminator c \<longleftrightarrow> c = CHR 0x0A \<or> c = CHR 0x0D"

fun glob :: "string \<Rightarrow> string \<Rightarrow> bool" where
  \<comment> \<open>the regular expression of a pattern: a star is \<open>.*\<close>, every other character of the matrix's
    patterns stands for itself\<close>
  "glob [] s = (s = [])"
| "glob (p # ps) [] = (p = CHR ''*'' \<and> glob ps [])"
| "glob (p # ps) (c # s) =
     (if p = CHR ''*'' then glob ps (c # s) \<or> \<not> line_terminator c \<and> glob (p # ps) s
      else c = p \<and> glob ps s)"

definition owns :: "owner_entry \<Rightarrow> string \<Rightarrow> bool" where
  "owns entry ev \<longleftrightarrow> ow_familyPattern entry = ''*''
     \<or> list_ex (\<lambda>pattern. glob pattern ev) (str_split (CHR ''|'') (ow_familyPattern entry))"

definition getEventOwner :: "socket_namespace \<Rightarrow> string \<Rightarrow> owner_entry option" where
  "getEventOwner ns ev = List.find (\<lambda>entry. ow_namespace entry = ns \<and> owns entry ev) EVENT_OWNER_MATRIX"

section \<open>Governance rules and requests\<close>

record governance_rule =
  gr_eventId :: string
  gr_testCaseIds :: "string list"
  gr_rolloutFlag :: string
  gr_requiredApprovals :: nat
  gr_breakingChangeBlockedWithoutRFC :: bool

definition flag_char :: "char \<Rightarrow> char" where
  \<comment> \<open>\<open>replace(/[^A-Z0-9]/g, '_')\<close>\<close>
  "flag_char c = (let n = (of_char c :: nat) in
     if 65 \<le> n \<and> n \<le> 90 \<or> 48 \<le> n \<and> n \<le> 57 then c else CHR ''_'')"

definition governance_rule_of :: "socket_event \<Rightarrow> governance_rule" where
  "governance_rule_of e = \<lparr>gr_eventId = se_eventId e,
     gr_testCaseIds = [''e2e:'' @ event_key (se_namespace e) (se_event e), ''unit:'' @ event_key (se_namespace e) (se_event e)],
     gr_rolloutFlag = ''REALTIME_ENABLE_'' @ map ascii_upper (ns_str (se_namespace e)) @ ''_''
       @ map (flag_char \<circ> ascii_upper) (se_event e),
     gr_requiredApprovals = (if se_domain e = DomModeration then 2 else 1),
     gr_breakingChangeBlockedWithoutRFC = True\<rparr>"

definition buildGovernanceRules :: "governance_rule list" where
  "buildGovernanceRules = map governance_rule_of (map_values SOCKET_EVENT_REGISTRY)"

datatype rfc_status = RfcDraft | RfcReview | RfcApproved | RfcRejected | RfcImplemented
datatype rfc_change = NewEvent | BreakingChange | Deprecation | NonBreaking

record rfc_entry =
  rf_rfcId :: string
  rf_title :: string
  rf_status :: rfc_status
  rf_author :: string
  rf_createdAt :: string
  rf_affectedEvents :: "string list"
  rf_changeType :: rfc_change
  rf_migrationNotes :: string
  rf_approvedBy :: "string option"
  rf_implementedAt :: "string option"

definition generateRFCTemplate :: "nat \<Rightarrow> string \<Rightarrow> string \<Rightarrow> string \<Rightarrow> string list \<Rightarrow> rfc_change \<Rightarrow> rfc_entry" where
  "generateRFCTemplate now stamp title author affected change = \<lparr>rf_rfcId = ''RFC-'' @ show_nat now, rf_title = title,
     rf_status = RfcDraft, rf_author = author, rf_createdAt = stamp, rf_affectedEvents = affected,
     rf_changeType = change, rf_migrationNotes = [], rf_approvedBy = None, rf_implementedAt = None\<rparr>"

section \<open>Changelog\<close>

datatype change_type = ChAdded | ChChanged | ChDeprecated | ChRemoved | ChFixed

record changelog_entry =
  cl_version :: string
  cl_date :: string
  cl_changeType :: change_type
  cl_eventId :: string
  cl_description :: string
  cl_migrationNotes :: "string option"
  cl_rfcId :: "string option"

definition arrow :: string where
  \<comment> \<open>U+2192 in UTF-8\<close>
  "arrow = [CHR 0xE2, CHR 0x86, CHR 0x92]"

abbreviation logged :: "string \<Rightarrow> change_type \<Rightarrow> socket_event \<Rightarrow> string \<Rightarrow> string option \<Rightarrow> changelog_entry" where
  "logged date ty e text notes \<equiv> \<lparr>cl_version = se_version e, cl_date = date, cl_changeType = ty,
     cl_eventId = se_eventId e, cl_description = text, cl_migrationNotes = notes, cl_rfcId = None\<rparr>"

definition version_change :: "string \<Rightarrow> socket_event \<Rightarrow> socket_event \<Rightarrow> changelog_entry list" where
  "version_change date previous current =
     (if se_version current \<noteq> se_version previous
      then [logged date ChChanged current
        (''Event version changed: '' @ se_version previous @ '' '' @ arrow @ '' '' @ se_version current)
        (Some (''Consumers should update to schema '' @ se_payloadSchemaRef current))] else [])
     @ (if se_lifecycle current = EvDeprecated \<and> se_lifecycle previous = EvActive
      then [logged date ChDeprecated current
        (''Event deprecated: '' @ event_key (se_namespace current) (se_event current))
        (Some ''Migrate to replacement event before removal deadline.'')] else [])"

definition generateChangelog :: "string \<Rightarrow> registry_table \<Rightarrow> registry_table \<Rightarrow> changelog_entry list" where
  \<comment> \<open>the first argument is the current time as an ISO text\<close>
  "generateChangelog stamp previousRegistry currentRegistry =
     (let date = take 10 stamp in
      concat (map (\<lambda>(k, e). if map_of previousRegistry k = None
        then [logged date ChAdded e (''New event added: '' @ event_key (se_namespace e) (se_event e)
          @ '' (domain: '' @ event_domain_str (se_domain e) @ '')'') None] else []) currentRegistry)
      @ concat (map (\<lambda>(k, e). if map_of currentRegistry k = None
        then [logged date ChRemoved e (''Event removed: '' @ event_key (se_namespace e) (se_event e)) None] else [])
          previousRegistry)
      @ concat (map (\<lambda>(k, current). case map_of previousRegistry k of
          None \<Rightarrow> [] | Some previous \<Rightarrow> version_change date previous current) currentRegistry))"

definition snapshotRegistry :: registry_table where
  "snapshotRegistry = SOCKET_EVENT_REGISTRY"

section \<open>Adding an event\<close>

definition validateEventAddition :: "socket_event \<Rightarrow> bool \<times> string list" where
  "validateEventAddition entry =
     (let errors =
        (if getEventOwner (se_namespace entry) (se_event entry) = None
         then [''No owner defined for '' @ event_key (se_namespace entry) (se_event entry) @ ''. Add an owner to EVENT_OWNER_MATRIX.''] else [])
        @ (if se_payloadSchemaRef entry = [] then [''Payload schema reference is required.''] else [])
        @ (if se_responseSchemaRef entry = [] then [''Response schema reference is required.''] else [])
        @ (if length (se_accessRoles entry) = 0 then [''At least one access role must be specified.''] else [])
        @ (if length (se_permissions entry) = 0 then [''At least one permission must be specified.''] else [])
      in (length errors = 0, errors))"

section \<open>Properties\<close>

lemma registry_owned: "list_all (\<lambda>(k, e). getEventOwner (se_namespace e) (se_event e) \<noteq> None) SOCKET_EVENT_REGISTRY"
  by code_simp

text \<open>
  Every registered event passes the check for new events, so each has an owner; the social
  namespace has none, so no event of it would.
\<close>
lemma registered_events_are_governed:
  "list_all (\<lambda>(k, e). validateEventAddition e = (True, [])) SOCKET_EVENT_REGISTRY
   \<and> getEventOwner NsSocial ev = None"
proof
  show "list_all (\<lambda>(k, e). validateEventAddition e = (True, [])) SOCKET_EVENT_REGISTRY"
    using registry_owned registry_ok by (auto simp: list_all_iff entry_ok_def validateEventAddition_def)
  show "getEventOwner NsSocial ev = None"
    by (simp add: getEventOwner_def EVENT_OWNER_MATRIX_def)
qed

lemma no_change: "version_change date p c = [] \<longleftrightarrow> se_version c = se_version p
    \<and> \<not> (se_lifecycle c = EvDeprecated \<and> se_lifecycle p = EvActive)"
  by (simp add: version_change_def)

lemma unmatched_none:
  "concat (map (\<lambda>(k, e). if map_of m k = None then [f k e] else []) xs) = [] \<longleftrightarrow> dom (map_of xs) \<subseteq> dom (map_of m)"
proof (induction xs)
  case (Cons x xs)
  obtain k e where x: "x = (k, e)" by (cases x)
  have d: "dom (map_of (x # xs)) = insert k (dom (map_of xs))" by (simp add: x)
  show ?case unfolding d insert_subset Cons.IH [symmetric] by (cases "map_of m k") (simp_all add: x domIff)
qed simp

text \<open>
  The changelog between two snapshots is empty exactly if they hold the same event names and
  no event of both has another version or went from active to deprecated. Whatever else changes
  (roles, permissions, rate limits, schemas) is not reported unless the version is raised.
\<close>
lemma changelog_is_silent:
  assumes "wf_map cur"
  shows "generateChangelog now prev cur = [] \<longleftrightarrow>
     dom (map_of prev) = dom (map_of cur)
     \<and> (\<forall>k p c. map_of prev k = Some p \<and> map_of cur k = Some c \<longrightarrow>
          se_version c = se_version p \<and> \<not> (se_lifecycle c = EvDeprecated \<and> se_lifecycle p = EvActive))"
proof -
  have changed: "concat (map (\<lambda>(k, c). case map_of prev k of None \<Rightarrow> [] | Some p \<Rightarrow> version_change date p c) cur) = []
      \<longleftrightarrow> (\<forall>k p c. map_of prev k = Some p \<and> map_of cur k = Some c \<longrightarrow> version_change date p c = [])" for date
    using assms by (auto simp: map_of_eq_Some_iff split: option.splits)
  show ?thesis
    unfolding generateChangelog_def Let_def append_is_Nil_conv unmatched_none changed no_change by blast
qed

lemma changelog_is_silent_example:
  "generateChangelog ''2024-05-01T00:00:00.000Z'' snapshotRegistry SOCKET_EVENT_REGISTRY = []"
  using changelog_is_silent [OF registry_distinct] by (auto simp: snapshotRegistry_def)

end
