(* ===== verification/SkStore.thy ===== *)
theory SkStore
  imports Prelude
begin

text \<open>
  The Redis server of the socket service as its rooms, calls and presence use it: keys with values
  and optional lifetimes. The commands are a parameter (record \<open>kv_redis\<close>), their documented
  behaviour the locale \<open>kv_store\<close>, and \<open>map_kv\<close> a concrete server. Times are milliseconds,
  lifetimes seconds; a stored JSON text is represented by the value it denotes.
\<close>

record ('v, 'r) kv_redis =
  kv_get :: "int \<Rightarrow> string \<Rightarrow> 'r \<Rightarrow> 'v option"
  kv_set :: "string \<Rightarrow> 'v \<Rightarrow> 'r \<Rightarrow> 'r"
  kv_setex :: "int \<Rightarrow> string \<Rightarrow> int \<Rightarrow> 'v \<Rightarrow> 'r \<Rightarrow> 'r"
  kv_del :: "string \<Rightarrow> 'r \<Rightarrow> 'r"
  kv_keys :: "int \<Rightarrow> string \<Rightarrow> 'r \<Rightarrow> string list" \<comment> \<open>\<open>KEYS prefix*\<close>\<close>

locale kv_store =
  fixes R :: "('v, 'r) kv_redis"
  assumes get_set: "kv_get R t k' (kv_set R k v s) = (if k' = k then Some v else kv_get R t k' s)"
    and get_setex: "0 < d \<Longrightarrow> t \<le> u \<Longrightarrow> kv_get R u k' (kv_setex R t k d v s)
      = (if k' = k then if u < t + 1000 * d then Some v else None else kv_get R u k' s)"
    and get_del: "kv_get R t k' (kv_del R k s) = (if k' = k then None else kv_get R t k' s)"
    and get_later: "t \<le> u \<Longrightarrow> kv_get R u k s = Some v \<Longrightarrow> kv_get R t k s = Some v"
    and keys_iff: "k \<in> set (kv_keys R t p s) \<longleftrightarrow> prefix p k \<and> kv_get R t k s \<noteq> None"

type_synonym 'v kv_server = "(string, 'v \<times> int option) jsmap"

definition live_value :: "int \<Rightarrow> string \<Rightarrow> 'v kv_server \<Rightarrow> 'v option" where
  "live_value t k s = (case map_of s k of
     None \<Rightarrow> None
   | Some (v, None) \<Rightarrow> Some v
   | Some (v, Some e) \<Rightarrow> if t < e then Some v else None)"

definition map_kv :: "('v, 'v kv_server) kv_redis" where
  "map_kv = \<lparr>kv_get = live_value,
     kv_set = (\<lambda>k v s. AList.update k (v, None) s),
     kv_setex = (\<lambda>t k d v s. AList.update k (v, Some (t + 1000 * d)) s),
     kv_del = (\<lambda>k s. AList.delete k s),
     kv_keys = (\<lambda>t p s. filter (\<lambda>k. prefix p k \<and> live_value t k s \<noteq> None) (map fst s))\<rparr>"

lemma live_value_key: "live_value t k s = Some v \<Longrightarrow> k \<in> fst ` set s"
  by (auto simp: live_value_def split: option.splits dest!: map_of_SomeD intro: rev_image_eqI)

interpretation kvs: kv_store map_kv
proof
  fix k :: string and t :: int and p and s :: "'v kv_server"
  show "k \<in> set (kv_keys map_kv t p s) \<longleftrightarrow> prefix p k \<and> kv_get map_kv t k s \<noteq> None"
    using live_value_key [of t k s] by (auto simp: map_kv_def)
qed (auto simp: map_kv_def live_value_def split: option.splits prod.splits if_splits)

end
