(* ===== verification/SkRooms.thy ===== *)
theory SkRooms
  imports SkStore
begin

text \<open>
  The rooms of the socket service (services/socket-service/src/rooms): the authorizer with its
  bans, mutes and cached authorizations, the state of rooms with their members, and moderation.
  Redis is the parameter of \<open>SkStore\<close>, the lookup of a conversation in MongoDB a function.
  Emitted events and log output are left out.
\<close>

section \<open>Data\<close>

record room_authz =
  au_authorized :: bool
  au_code :: "string option"
  au_reason :: "string option"
  au_role :: "string option"
  au_projectId :: "string option"

datatype member_role = RoomOwner | RoomAdmin | RoomModerator | RoomMember

record room_member =
  rm_user_id :: string
  rm_socket_id :: string
  rm_joined_at :: int
  rm_role :: member_role

record room_state =
  ro_room_id :: string
  ro_tenant_id :: string
  ro_conversation_id :: string
  ro_members :: "room_member list"
  ro_created_at :: int
  ro_last_activity :: int
  ro_message_count :: nat

datatype room_value = Marked string | Decided room_authz | Room room_state

type_synonym 'r room_redis = "(room_value, 'r) kv_redis"

record conversation =
  cv_project_id :: "string option"
  cv_participants :: "(string \<times> string option) list" \<comment> \<open>user and role\<close>

type_synonym conversations = "string \<Rightarrow> string \<Rightarrow> conversation option option"
  \<comment> \<open>\<open>findOne\<close> by conversation and tenant; outer \<open>None\<close>: the query fails\<close>

section \<open>Authorizer\<close>

definition or_text :: "string option \<Rightarrow> string \<Rightarrow> string" where
  "or_text s d = (if truthy_str s then the s else d)"

definition ban_key :: "string \<Rightarrow> string \<Rightarrow> string \<Rightarrow> string" where
  "ban_key tenantId conversationId userId = ''ban:'' @ tenantId @ '':'' @ conversationId @ '':'' @ userId"

definition mute_key :: "string \<Rightarrow> string \<Rightarrow> string \<Rightarrow> string" where
  "mute_key tenantId conversationId userId = ''mute:'' @ tenantId @ '':'' @ conversationId @ '':'' @ userId"

definition authz_key :: "string \<Rightarrow> string option \<Rightarrow> string \<Rightarrow> string \<Rightarrow> string" where
  "authz_key tenantId projectId conversationId userId =
     ''authz:'' @ tenantId @ '':'' @ or_text projectId ''default'' @ '':'' @ conversationId @ '':'' @ userId"

definition getCachedAuthorization ::
    "'r room_redis \<Rightarrow> int \<Rightarrow> string \<Rightarrow> string \<Rightarrow> string \<Rightarrow> string option \<Rightarrow> 'r \<Rightarrow> room_authz option" where
  \<comment> \<open>only decisions are stored under these keys\<close>
  "getCachedAuthorization R now userId conversationId tenantId projectId s =
     (case kv_get R now (authz_key tenantId projectId conversationId userId) s of
        Some (Decided r) \<Rightarrow> Some r | _ \<Rightarrow> None)"

definition isUserBanned :: "'r room_redis \<Rightarrow> int \<Rightarrow> string \<Rightarrow> string \<Rightarrow> string \<Rightarrow> 'r \<Rightarrow> bool" where
  "isUserBanned R now userId conversationId tenantId s \<longleftrightarrow>
     kv_get R now (ban_key tenantId conversationId userId) s = Some (Marked ''1'')"

definition isUserMuted :: "'r room_redis \<Rightarrow> int \<Rightarrow> string \<Rightarrow> string \<Rightarrow> string \<Rightarrow> 'r \<Rightarrow> bool" where
  "isUserMuted R now userId conversationId tenantId s \<longleftrightarrow>
     kv_get R now (mute_key tenantId conversationId userId) s = Some (Marked ''1'')"

record room_membership =
  ms_isMember :: bool
  ms_role :: "string option"
  ms_projectId :: "string option"
  ms_code :: "string option"
  ms_reason :: "string option"

definition room_membership_of ::
    "conversations \<Rightarrow> string \<Rightarrow> string \<Rightarrow> string \<Rightarrow> string option \<Rightarrow> room_membership" where
  \<comment> \<open>\<open>checkConversationMembership\<close>\<close>
  "room_membership_of mongo userId conversationId tenantId projectId =
     (case mongo conversationId tenantId of
        None \<Rightarrow> \<lparr>ms_isMember = False, ms_role = None, ms_projectId = None, ms_code = None, ms_reason = None\<rparr>
      | Some None \<Rightarrow> \<lparr>ms_isMember = False, ms_role = None, ms_projectId = None, ms_code = Some ''NOT_FOUND'',
          ms_reason = Some ''Conversation not found''\<rparr>
      | Some (Some c) \<Rightarrow>
          let resolved = or_text (cv_project_id c) ''default'' in
          if truthy_str projectId \<and> Some resolved \<noteq> projectId
          then \<lparr>ms_isMember = False, ms_role = None, ms_projectId = Some resolved, ms_code = Some ''FORBIDDEN'',
            ms_reason = Some ''Conversation belongs to a different project scope''\<rparr>
          else (case List.find (\<lambda>p. fst p = userId) (cv_participants c) of
            None \<Rightarrow> \<lparr>ms_isMember = False, ms_role = None, ms_projectId = Some resolved, ms_code = Some ''FORBIDDEN'',
              ms_reason = Some ''User is not a member of this conversation''\<rparr>
          | Some p \<Rightarrow> \<lparr>ms_isMember = True, ms_role = Some (or_text (snd p) ''member''), ms_projectId = Some resolved,
              ms_code = None, ms_reason = None\<rparr>))"

abbreviation forbidden :: "string \<Rightarrow> room_authz" where
  "forbidden reason \<equiv> \<lparr>au_authorized = False, au_code = Some ''FORBIDDEN'', au_reason = Some reason,
     au_role = None, au_projectId = None\<rparr>"

definition cacheAuthorization ::
    "'r room_redis \<Rightarrow> int \<Rightarrow> int \<Rightarrow> string \<Rightarrow> string \<Rightarrow> string \<Rightarrow> string option \<Rightarrow> room_authz \<Rightarrow> 'r \<Rightarrow> 'r" where
  "cacheAuthorization R cacheTtl now userId conversationId tenantId projectId result s =
     kv_setex R now (authz_key tenantId projectId conversationId userId) cacheTtl (Decided result) s"

definition canJoinRoom ::
    "'r room_redis \<Rightarrow> conversations \<Rightarrow> int \<Rightarrow> int \<Rightarrow> string \<Rightarrow> string \<Rightarrow> string \<Rightarrow> string option \<Rightarrow> 'r \<Rightarrow> room_authz \<times> 'r" where
  "canJoinRoom R mongo cacheTtl now userId conversationId tenantId projectId s =
     (case getCachedAuthorization R now userId conversationId tenantId projectId s of
        Some cached \<Rightarrow> (cached, s)
      | None \<Rightarrow>
          if isUserBanned R now userId conversationId tenantId s
          then (forbidden ''User is banned from this conversation'', s)
          else let m = room_membership_of mongo userId conversationId tenantId projectId in
          if \<not> ms_isMember m
          then (\<lparr>au_authorized = False, au_code = Some (or_text (ms_code m) ''FORBIDDEN''),
              au_reason = Some (or_text (ms_reason m) ''User is not a member of this conversation''),
              au_role = None, au_projectId = ms_projectId m\<rparr>, s)
          else if truthy_str projectId \<and> truthy_str (ms_projectId m) \<and> ms_projectId m \<noteq> projectId
          then (\<lparr>au_authorized = False, au_code = Some ''FORBIDDEN'',
              au_reason = Some ''Conversation belongs to a different project scope'',
              au_role = None, au_projectId = ms_projectId m\<rparr>, s)
          else let result = \<lparr>au_authorized = True, au_code = None, au_reason = None, au_role = ms_role m,
                 au_projectId = ms_projectId m\<rparr>
            in (result, cacheAuthorization R cacheTtl now userId conversationId tenantId projectId result s))"

definition canSendMessage ::
    "'r room_redis \<Rightarrow> conversations \<Rightarrow> int \<Rightarrow> int \<Rightarrow> string \<Rightarrow> string \<Rightarrow> string \<Rightarrow> string option \<Rightarrow> 'r \<Rightarrow> room_authz \<times> 'r" where
  "canSendMessage R mongo cacheTtl now userId conversationId tenantId projectId s =
     (case canJoinRoom R mongo cacheTtl now userId conversationId tenantId projectId s of
        (joinResult, s') \<Rightarrow>
          if \<not> au_authorized joinResult then (joinResult, s')
          else if isUserMuted R now userId conversationId tenantId s'
          then (forbidden ''User is muted in this conversation'', s')
          else (\<lparr>au_authorized = True, au_code = None, au_reason = None, au_role = au_role joinResult,
              au_projectId = au_projectId joinResult\<rparr>, s'))"

definition with_role ::
    "string list \<Rightarrow> string \<Rightarrow> room_authz \<Rightarrow> room_authz" where
  "with_role roles reason joinResult =
     (if \<not> au_authorized joinResult then joinResult
      else case au_role joinResult of
        Some role \<Rightarrow> if role \<in> set roles
          then \<lparr>au_authorized = True, au_code = None, au_reason = None, au_role = Some role, au_projectId = au_projectId joinResult\<rparr>
          else forbidden reason
      | None \<Rightarrow> forbidden reason)"

definition canModerate ::
    "'r room_redis \<Rightarrow> conversations \<Rightarrow> int \<Rightarrow> int \<Rightarrow> string \<Rightarrow> string \<Rightarrow> string \<Rightarrow> string option \<Rightarrow> 'r \<Rightarrow> room_authz \<times> 'r" where
  "canModerate R mongo cacheTtl now userId conversationId tenantId projectId s =
     apfst (with_role [''owner'', ''admin'', ''moderator''] ''User does not have moderation permissions'')
       (canJoinRoom R mongo cacheTtl now userId conversationId tenantId projectId s)"

definition canAdminister ::
    "'r room_redis \<Rightarrow> conversations \<Rightarrow> int \<Rightarrow> int \<Rightarrow> string \<Rightarrow> string \<Rightarrow> string \<Rightarrow> string option \<Rightarrow> 'r \<Rightarrow> room_authz \<times> 'r" where
  "canAdminister R mongo cacheTtl now userId conversationId tenantId projectId s =
     apfst (with_role [''owner'', ''admin''] ''User does not have administration permissions'')
       (canJoinRoom R mongo cacheTtl now userId conversationId tenantId projectId s)"

definition invalidateCache :: "'r room_redis \<Rightarrow> string \<Rightarrow> string \<Rightarrow> string \<Rightarrow> string option \<Rightarrow> 'r \<Rightarrow> 'r" where
  "invalidateCache R userId conversationId tenantId projectId s =
     kv_del R (authz_key tenantId projectId conversationId userId) s"

definition mark :: "'r room_redis \<Rightarrow> int \<Rightarrow> string \<Rightarrow> nat option \<Rightarrow> 'r \<Rightarrow> 'r" where
  \<comment> \<open>for a while if a duration is given (and not zero), otherwise for ever\<close>
  "mark R now key durationSeconds s =
     (case durationSeconds of
        Some d \<Rightarrow> if d \<noteq> 0 then kv_setex R now key (int d) (Marked ''1'') s else kv_set R key (Marked ''1'') s
      | None \<Rightarrow> kv_set R key (Marked ''1'') s)"

definition banUser :: "'r room_redis \<Rightarrow> int \<Rightarrow> string \<Rightarrow> string \<Rightarrow> string \<Rightarrow> nat option \<Rightarrow> 'r \<Rightarrow> 'r" where
  "banUser R now userId conversationId tenantId durationSeconds s =
     invalidateCache R userId conversationId tenantId None
       (mark R now (ban_key tenantId conversationId userId) durationSeconds s)"

definition unbanUser :: "'r room_redis \<Rightarrow> string \<Rightarrow> string \<Rightarrow> string \<Rightarrow> 'r \<Rightarrow> 'r" where
  "unbanUser R userId conversationId tenantId s =
     invalidateCache R userId conversationId tenantId None (kv_del R (ban_key tenantId conversationId userId) s)"

definition muteUser :: "'r room_redis \<Rightarrow> int \<Rightarrow> string \<Rightarrow> string \<Rightarrow> string \<Rightarrow> nat option \<Rightarrow> 'r \<Rightarrow> 'r" where
  "muteUser R now userId conversationId tenantId durationSeconds s =
     invalidateCache R userId conversationId tenantId None
       (mark R now (mute_key tenantId conversationId userId) durationSeconds s)"

definition unmuteUser :: "'r room_redis \<Rightarrow> string \<Rightarrow> string \<Rightarrow> string \<Rightarrow> 'r \<Rightarrow> 'r" where
  "unmuteUser R userId conversationId tenantId s =
     invalidateCache R userId conversationId tenantId None (kv_del R (mute_key tenantId conversationId userId) s)"

section \<open>Room state\<close>

definition getRoomKey :: "string \<Rightarrow> string \<Rightarrow> string" where
  "getRoomKey roomId tenantId = ''room:'' @ tenantId @ '':'' @ roomId"

definition getRoomState :: "'r room_redis \<Rightarrow> int \<Rightarrow> string \<Rightarrow> string \<Rightarrow> 'r \<Rightarrow> room_state option" where
  "getRoomState R now roomId tenantId s =
     (case kv_get R now (getRoomKey roomId tenantId) s of Some (Room r) \<Rightarrow> Some r | _ \<Rightarrow> None)"

definition saveRoomState :: "'r room_redis \<Rightarrow> int \<Rightarrow> int \<Rightarrow> room_state \<Rightarrow> 'r \<Rightarrow> 'r" where
  "saveRoomState R ttlHours now r s =
     kv_setex R now (getRoomKey (ro_room_id r) (ro_tenant_id r)) (ttlHours * 60 * 60) (Room r) s"

definition createRoom ::
    "'r room_redis \<Rightarrow> int \<Rightarrow> int \<Rightarrow> string \<Rightarrow> string \<Rightarrow> string \<Rightarrow> string \<Rightarrow> string \<Rightarrow> 'r \<Rightarrow> room_state \<times> 'r" where
  "createRoom R ttlHours now roomId tenantId conversationId ownerId socketId s =
     (let r = \<lparr>ro_room_id = roomId, ro_tenant_id = tenantId, ro_conversation_id = conversationId,
        ro_members = [\<lparr>rm_user_id = ownerId, rm_socket_id = socketId, rm_joined_at = now, rm_role = RoomOwner\<rparr>],
        ro_created_at = now, ro_last_activity = now, ro_message_count = 0\<rparr>
      in (r, saveRoomState R ttlHours now r s))"

definition deleteRoom :: "'r room_redis \<Rightarrow> string \<Rightarrow> string \<Rightarrow> 'r \<Rightarrow> 'r" where
  "deleteRoom R roomId tenantId s = kv_del R (getRoomKey roomId tenantId) s"

fun update_member :: "(room_member \<Rightarrow> room_member) \<Rightarrow> string \<Rightarrow> room_member list \<Rightarrow> room_member list option" where
  \<comment> \<open>change the first member with an identifier, as a found reference does\<close>
  "update_member f u [] = None"
| "update_member f u (m # ms) =
     (if rm_user_id m = u then Some (f m # ms) else map_option ((#) m) (update_member f u ms))"

definition addMember ::
    "'r room_redis \<Rightarrow> int \<Rightarrow> int \<Rightarrow> string \<Rightarrow> string \<Rightarrow> string \<Rightarrow> string \<Rightarrow> member_role \<Rightarrow> 'r \<Rightarrow> string option \<times> 'r" where
  "addMember R ttlHours now roomId tenantId userId socketId role s =
     (case getRoomState R now roomId tenantId s of
        None \<Rightarrow> (Some (''Room not found: '' @ roomId), s)
      | Some r \<Rightarrow>
          let ms = (case update_member (rm_socket_id_update (\<lambda>_. socketId)) userId (ro_members r) of
              Some ms \<Rightarrow> ms
            | None \<Rightarrow> ro_members r @ [\<lparr>rm_user_id = userId, rm_socket_id = socketId, rm_joined_at = now, rm_role = role\<rparr>])
          in (None, saveRoomState R ttlHours now (r\<lparr>ro_members := ms, ro_last_activity := now\<rparr>) s))"

definition removeMember :: "'r room_redis \<Rightarrow> int \<Rightarrow> int \<Rightarrow> string \<Rightarrow> string \<Rightarrow> string \<Rightarrow> 'r \<Rightarrow> 'r" where
  "removeMember R ttlHours now roomId tenantId userId s =
     (case getRoomState R now roomId tenantId s of
        None \<Rightarrow> s
      | Some r \<Rightarrow>
          let ms = filter (\<lambda>m. rm_user_id m \<noteq> userId) (ro_members r) in
          if length ms = 0 then deleteRoom R roomId tenantId s
          else saveRoomState R ttlHours now (r\<lparr>ro_members := ms, ro_last_activity := now\<rparr>) s)"

definition updateMemberRole ::
    "'r room_redis \<Rightarrow> int \<Rightarrow> int \<Rightarrow> string \<Rightarrow> string \<Rightarrow> string \<Rightarrow> member_role \<Rightarrow> 'r \<Rightarrow> string option \<times> 'r" where
  "updateMemberRole R ttlHours now roomId tenantId userId role s =
     (case getRoomState R now roomId tenantId s of
        None \<Rightarrow> (Some (''Room not found: '' @ roomId), s)
      | Some r \<Rightarrow> (case update_member (rm_role_update (\<lambda>_. role)) userId (ro_members r) of
          None \<Rightarrow> (Some (''Member not found: '' @ userId), s)
        | Some ms \<Rightarrow> (None, saveRoomState R ttlHours now (r\<lparr>ro_members := ms, ro_last_activity := now\<rparr>) s)))"

definition getRoomMembers :: "'r room_redis \<Rightarrow> int \<Rightarrow> string \<Rightarrow> string \<Rightarrow> 'r \<Rightarrow> room_member list" where
  "getRoomMembers R now roomId tenantId s =
     (case getRoomState R now roomId tenantId s of None \<Rightarrow> [] | Some r \<Rightarrow> ro_members r)"

definition isMember :: "'r room_redis \<Rightarrow> int \<Rightarrow> string \<Rightarrow> string \<Rightarrow> string \<Rightarrow> 'r \<Rightarrow> bool" where
  "isMember R now roomId tenantId userId s \<longleftrightarrow>
     list_ex (\<lambda>m. rm_user_id m = userId) (getRoomMembers R now roomId tenantId s)"

definition getMemberRole :: "'r room_redis \<Rightarrow> int \<Rightarrow> string \<Rightarrow> string \<Rightarrow> string \<Rightarrow> 'r \<Rightarrow> member_role option" where
  "getMemberRole R now roomId tenantId userId s =
     map_option rm_role (List.find (\<lambda>m. rm_user_id m = userId) (getRoomMembers R now roomId tenantId s))"

definition updateActivity :: "'r room_redis \<Rightarrow> int \<Rightarrow> int \<Rightarrow> string \<Rightarrow> string \<Rightarrow> 'r \<Rightarrow> 'r" where
  "updateActivity R ttlHours now roomId tenantId s =
     (case getRoomState R now roomId tenantId s of
        None \<Rightarrow> s
      | Some r \<Rightarrow> saveRoomState R ttlHours now
          (r\<lparr>ro_last_activity := now, ro_message_count := ro_message_count r + 1\<rparr>) s)"

datatype activity_level = LowActivity | MediumActivity | HighActivity

record room_metrics =
  rmx_member_count :: nat
  rmx_message_rate :: nat
  rmx_activity_level :: activity_level

definition getRoomMetrics :: "'r room_redis \<Rightarrow> int \<Rightarrow> string \<Rightarrow> string \<Rightarrow> 'r \<Rightarrow> room_metrics option" where
  "getRoomMetrics R now roomId tenantId s =
     (case getRoomState R now roomId tenantId s of
        None \<Rightarrow> None
      | Some r \<Rightarrow> Some \<lparr>rmx_member_count = length (ro_members r), rmx_message_rate = ro_message_count r,
          rmx_activity_level = (if now - ro_last_activity r < 5 * 60000 then HighActivity
            else if now - ro_last_activity r < 30 * 60000 then MediumActivity else LowActivity)\<rparr>)"

definition rooms_under :: "'r room_redis \<Rightarrow> int \<Rightarrow> string \<Rightarrow> 'r \<Rightarrow> (string \<times> room_state) list" where
  "rooms_under R now pattern s =
     List.map_filter (\<lambda>key. case kv_get R now key s of Some (Room r) \<Rightarrow> Some (key, r) | _ \<Rightarrow> None) (kv_keys R now pattern s)"

definition getTenantRooms :: "'r room_redis \<Rightarrow> int \<Rightarrow> string \<Rightarrow> 'r \<Rightarrow> room_state list" where
  "getTenantRooms R now tenantId s = map snd (rooms_under R now (''room:'' @ tenantId @ '':'') s)"

definition recoverRoomStates :: "'r room_redis \<Rightarrow> int \<Rightarrow> 'r \<Rightarrow> room_state list" where
  "recoverRoomStates R now s = map snd (rooms_under R now ''room:'' s)"

definition cleanupInactiveRooms :: "'r room_redis \<Rightarrow> int \<Rightarrow> int \<Rightarrow> string option \<Rightarrow> 'r \<Rightarrow> nat \<times> 'r" where
  "cleanupInactiveRooms R ttlHours now tenantId s =
     (let pattern = (if truthy_str tenantId then ''room:'' @ the tenantId @ '':'' else ''room:'');
          stale = filter (\<lambda>(key, r). ttlHours * 60 * 60 * 1000 < now - ro_last_activity r) (rooms_under R now pattern s)
      in (length stale, fold (\<lambda>(key, r). kv_del R key) stale s))"

section \<open>Moderation\<close>

datatype moderation_kind = Kick | Ban | Unban | Mute | Unmute

record moderation_action =
  mo_action :: moderation_kind
  mo_moderator_id :: string
  mo_target_user_id :: string
  mo_conversation_id :: string
  mo_tenant_id :: string
  mo_reason :: "string option"
  mo_duration_seconds :: "nat option"
  mo_timestamp :: int

record moderation_log = moderation_action +
  ml_id :: string

record room_env =
  re_mongo :: conversations
  re_cacheTtl :: int
  re_ttlHours :: int

type_synonym 'r moderation = "'r \<times> (string, moderation_log list) jsmap"

definition log_key :: "string \<Rightarrow> string \<Rightarrow> string" where
  "log_key conversationId tenantId = tenantId @ '':'' @ conversationId"

definition logModerationAction ::
    "string \<Rightarrow> moderation_action \<Rightarrow> (string, moderation_log list) jsmap \<Rightarrow> (string, moderation_log list) jsmap" where
  "logModerationAction logId a logs =
     (let key = log_key (mo_conversation_id a) (mo_tenant_id a);
          old = (case map_of logs key of None \<Rightarrow> [] | Some l \<Rightarrow> l);
          new = old @ [moderation_action.extend a (moderation_log.fields logId)]
      in AList.update key (if 100 < length new then tl new else new) logs)"

definition verb :: "moderation_kind \<Rightarrow> string" where
  "verb k = (case k of Kick \<Rightarrow> ''kick'' | Ban \<Rightarrow> ''ban'' | Unban \<Rightarrow> ''unban'' | Mute \<Rightarrow> ''mute'' | Unmute \<Rightarrow> ''unmute'')"

definition enforce :: "'r room_redis \<Rightarrow> room_env \<Rightarrow> int \<Rightarrow> moderation_action \<Rightarrow> 'r \<Rightarrow> 'r" where
  \<comment> \<open>what the five operations do between their permission check and their log entry\<close>
  "enforce R e now a s =
     (let target = mo_target_user_id a; conversationId = mo_conversation_id a; tenantId = mo_tenant_id a in
      case mo_action a of
        Kick \<Rightarrow> removeMember R (re_ttlHours e) now conversationId tenantId target s
      | Ban \<Rightarrow> removeMember R (re_ttlHours e) now conversationId tenantId target
          (banUser R now target conversationId tenantId (mo_duration_seconds a) s)
      | Unban \<Rightarrow> unbanUser R target conversationId tenantId s
      | Mute \<Rightarrow> muteUser R now target conversationId tenantId (mo_duration_seconds a) s
      | Unmute \<Rightarrow> unmuteUser R target conversationId tenantId s)"

definition moderate ::
    "'r room_redis \<Rightarrow> room_env \<Rightarrow> int \<Rightarrow> string \<Rightarrow> moderation_action \<Rightarrow> 'r moderation \<Rightarrow> string option \<times> 'r moderation" where
  \<comment> \<open>\<open>kickUser\<close>, \<open>banUser\<close>, \<open>unbanUser\<close>, \<open>muteUser\<close> and \<open>unmuteUser\<close>\<close>
  "moderate R e now logId a st =
     (case st of (s, logs) \<Rightarrow>
      (case canModerate R (re_mongo e) (re_cacheTtl e) now (mo_moderator_id a) (mo_conversation_id a) (mo_tenant_id a) None s of
         (r, s') \<Rightarrow>
           if \<not> au_authorized r
           then (Some (''Moderator does not have permission to '' @ verb (mo_action a) @ '' users''), (s', logs))
           else (None, (enforce R e now a s', logModerationAction logId (a\<lparr>mo_timestamp := now\<rparr>) logs))))"

definition getModerationLogs :: "string \<Rightarrow> string \<Rightarrow> (string, moderation_log list) jsmap \<Rightarrow> moderation_log list" where
  "getModerationLogs conversationId tenantId logs =
     (case map_of logs (log_key conversationId tenantId) of None \<Rightarrow> [] | Some l \<Rightarrow> l)"

definition clearModerationLogs ::
    "string \<Rightarrow> string \<Rightarrow> (string, moderation_log list) jsmap \<Rightarrow> (string, moderation_log list) jsmap" where
  "clearModerationLogs conversationId tenantId logs = AList.delete (log_key conversationId tenantId) logs"

end
