(* ===== verification/SkRoomSafety.thy ===== *)
theory SkRoomSafety
  imports SkRooms
begin

text \<open>
  What the rooms of the socket service guarantee in every run: bans are kept, the members of a
  stored room are well formed, and moderation needs a moderator and is logged.
\<close>

section \<open>Runs\<close>

datatype room_op =
    RoJoin room_env int string string string "string option"
  | RoModerate room_env int string moderation_action
  | RoInvalidate int string string string "string option"
  | RoCreate int int string string string string string
  | RoAdd int int string string string string member_role
  | RoRemove int int string string string
  | RoRole int int string string string member_role
  | RoActivity int int string string

fun ro_time :: "room_op \<Rightarrow> int" where
  "ro_time (RoJoin e now u c t p) = now"
| "ro_time (RoModerate e now i a) = now"
| "ro_time (RoInvalidate now u c t p) = now"
| "ro_time (RoCreate ttl now room t c u k) = now"
| "ro_time (RoAdd ttl now room t u k r) = now"
| "ro_time (RoRemove ttl now room t u) = now"
| "ro_time (RoRole ttl now room t u r) = now"
| "ro_time (RoActivity ttl now room t) = now"

fun room_step :: "'r room_redis \<Rightarrow> room_op \<Rightarrow> 'r moderation \<Rightarrow> 'r moderation" where
  "room_step R (RoJoin e now u c t p) (s, logs) = (snd (canJoinRoom R (re_mongo e) (re_cacheTtl e) now u c t p s), logs)"
| "room_step R (RoModerate e now i a) st = snd (moderate R e now i a st)"
| "room_step R (RoInvalidate now u c t p) (s, logs) = (invalidateCache R u c t p s, logs)"
| "room_step R (RoCreate ttl now room t c u k) (s, logs) = (snd (createRoom R ttl now room t c u k s), logs)"
| "room_step R (RoAdd ttl now room t u k r) (s, logs) = (snd (addMember R ttl now room t u k r s), logs)"
| "room_step R (RoRemove ttl now room t u) (s, logs) = (removeMember R ttl now room t u s, logs)"
| "room_step R (RoRole ttl now room t u r) (s, logs) = (snd (updateMemberRole R ttl now room t u r s), logs)"
| "room_step R (RoActivity ttl now room t) (s, logs) = (updateActivity R ttl now room t s, logs)"

definition positive_ttls :: "room_op \<Rightarrow> bool" where
  "positive_ttls op \<longleftrightarrow> (case op of
      RoJoin e now u c t p \<Rightarrow> 0 < re_cacheTtl e
    | RoModerate e now i a \<Rightarrow> 0 < re_cacheTtl e \<and> 0 < re_ttlHours e
    | RoInvalidate now u c t p \<Rightarrow> True
    | RoCreate ttl now room t c u k \<Rightarrow> 0 < ttl
    | RoAdd ttl now room t u k r \<Rightarrow> 0 < ttl
    | RoRemove ttl now room t u \<Rightarrow> 0 < ttl
    | RoRole ttl now room t u r \<Rightarrow> 0 < ttl
    | RoActivity ttl now room t \<Rightarrow> 0 < ttl)"

section \<open>What each operation writes\<close>

text \<open>
  \<open>room_writes R t W s s'\<close>: \<open>s'\<close> comes from \<open>s\<close> by commands at time \<open>t\<close> whose new values
  \<open>W\<close> allows; deletions \<open>D\<close> allows.
\<close>

inductive room_writes ::
    "'r room_redis \<Rightarrow> int \<Rightarrow> (string \<Rightarrow> bool) \<Rightarrow> (string \<Rightarrow> room_value \<Rightarrow> bool) \<Rightarrow> 'r \<Rightarrow> 'r \<Rightarrow> bool"
  for R t D W where
  none: "room_writes R t D W s s"
| setex: "room_writes R t D W s s' \<Longrightarrow> 0 < d \<Longrightarrow> W k v \<Longrightarrow> room_writes R t D W s (kv_setex R t k d v s')"
| set: "room_writes R t D W s s' \<Longrightarrow> W k v \<Longrightarrow> room_writes R t D W s (kv_set R k v s')"
| del: "room_writes R t D W s s' \<Longrightarrow> D k \<Longrightarrow> room_writes R t D W s (kv_del R k s')"

lemma room_writes_trans:
  "room_writes R t D W s' s'' \<Longrightarrow> room_writes R t D W s s' \<Longrightarrow> room_writes R t D W s s''"
  by (induction rule: room_writes.induct) (auto intro: room_writes.intros)

lemmas write_one = room_writes.setex [OF room_writes.none] room_writes.set [OF room_writes.none]
  room_writes.del [OF room_writes.none]

lemma room_key_kinds:
  "authz_key t p c u \<noteq> ban_key t' c' u'" "authz_key t p c u \<noteq> mute_key t' c' u'" "authz_key t p c u \<noteq> getRoomKey r t'"
  "ban_key t c u \<noteq> mute_key t' c' u'" "ban_key t c u \<noteq> getRoomKey r t'" "mute_key t c u \<noteq> getRoomKey r t'"
  by (simp_all add: authz_key_def ban_key_def mute_key_def getRoomKey_def)

lemmas room_key_kinds_sym = room_key_kinds room_key_kinds [symmetric]

locale room_server = kv_store R for R :: "'r room_redis"
begin

lemma writes_keep:
  \<comment> \<open>a key nothing is written or deleted under keeps its value\<close>
  assumes "room_writes R t D W s s'" "\<not> D k" "\<And>v. \<not> W k v" "t \<le> u"
  shows "kv_get R u k s' = kv_get R u k s"
  using assms(1)
proof (induction rule: room_writes.induct)
  case (setex s s' d k' v)
  then have "k' \<noteq> k" using assms(3) by auto
  with setex assms(4) show ?case by (auto simp: get_setex)
next
  case (set s s' k' v)
  then have "k' \<noteq> k" using assms(3) by auto
  with set show ?case by (auto simp: get_set)
next
  case (del s s' k')
  then have "k' \<noteq> k" using assms(2) by auto
  with del show ?case by (auto simp: get_del)
qed simp

lemma writes_values:
  \<comment> \<open>a stored value was there before or was written\<close>
  assumes "room_writes R t D W s s'" "t \<le> u" "kv_get R u k s' = Some v"
  shows "kv_get R u k s = Some v \<or> W k v"
  using assms(1,3)
proof (induction rule: room_writes.induct)
  case (setex s s' d k' v')
  with assms(2) show ?case by (auto simp: get_setex split: if_splits)
next
  case (set s s' k' v')
  then show ?case by (auto simp: get_set split: if_splits)
next
  case (del s s' k')
  then show ?case by (auto simp: get_del split: if_splits)
qed simp

end

interpretation rooms: room_server "map_kv :: (room_value, room_value kv_server) kv_redis"
  by (rule room_server.intro) (rule kvs.kv_store_axioms)

definition join_ok :: "'r room_redis \<Rightarrow> int \<Rightarrow> string \<Rightarrow> string \<Rightarrow> string \<Rightarrow> string option \<Rightarrow> (string \<Rightarrow> room_value \<Rightarrow> bool) \<Rightarrow> 'r \<Rightarrow> bool" where
  \<comment> \<open>a decision that may be cached, unless the user is banned\<close>
  "join_ok R now u c tn p W s \<longleftrightarrow>
     isUserBanned R now u c tn s \<or> (\<forall>r. W (authz_key tn p c u) (Decided r))"

lemma join_writes:
  "0 < ttl \<Longrightarrow> join_ok R now u c tn p W s \<Longrightarrow>
   room_writes R now D W s (snd (canJoinRoom R mongo ttl now u c tn p s))"
  by (auto simp: canJoinRoom_def cacheAuthorization_def Let_def join_ok_def
      intro: write_one room_writes.none split: option.split)

lemma moderator_writes:
  "0 < ttl \<Longrightarrow> join_ok R now u c tn p W s \<Longrightarrow>
   room_writes R now D W s (snd (canModerate R mongo ttl now u c tn p s))"
  by (simp add: canModerate_def join_writes)

lemma save_writes:
  "0 < ttl \<Longrightarrow> W (getRoomKey (ro_room_id r) (ro_tenant_id r)) (Room r) \<Longrightarrow>
   room_writes R now D W s (saveRoomState R ttl now r s)"
  by (auto simp: saveRoomState_def intro: write_one)

lemma mark_writes: "W k (Marked ''1'') \<Longrightarrow> room_writes R now D W s (mark R now k d s)"
  by (auto simp: mark_def intro: write_one split: option.split)

lemma invalidate_writes: "D (authz_key tn p c u) \<Longrightarrow> room_writes R now D W s (invalidateCache R u c tn p s)"
  by (auto simp: invalidateCache_def intro: write_one)

section \<open>The members of a stored room\<close>

definition room_ok :: "string \<Rightarrow> room_value \<Rightarrow> bool" where
  "room_ok k v \<longleftrightarrow> (case v of
      Room r \<Rightarrow> k = getRoomKey (ro_room_id r) (ro_tenant_id r) \<and> ro_members r \<noteq> [] \<and>
        distinct (map rm_user_id (ro_members r))
    | _ \<Rightarrow> True)"

definition rooms_ok :: "'r room_redis \<Rightarrow> int \<Rightarrow> 'r \<Rightarrow> bool" where
  "rooms_ok R t s \<longleftrightarrow> (\<forall>k v. kv_get R t k s = Some v \<longrightarrow> room_ok k v)"

lemma room_ok_simps [simp]:
  "room_ok k (Marked x)" "room_ok k (Decided d)"
  "room_ok k (Room r) \<longleftrightarrow> k = getRoomKey (ro_room_id r) (ro_tenant_id r) \<and> ro_members r \<noteq> [] \<and>
     distinct (map rm_user_id (ro_members r))"
  by (simp_all add: room_ok_def)

lemma update_member_ids:
  "update_member f u ms = Some ms' \<Longrightarrow> (\<And>m. rm_user_id (f m) = rm_user_id m) \<Longrightarrow>
   map rm_user_id ms' = map rm_user_id ms"
  by (induction ms arbitrary: ms') (auto split: if_splits)

lemma update_member_none: "update_member f u ms = None \<longleftrightarrow> u \<notin> rm_user_id ` set ms"
  by (induction ms) auto

lemma state_ok:
  assumes "rooms_ok R now s" "getRoomState R now room tn s = Some r"
  shows "room_ok (getRoomKey room tn) (Room r)"
proof -
  have "kv_get R now (getRoomKey room tn) s = Some (Room r)"
    using assms(2) by (simp add: getRoomState_def split: option.splits room_value.splits)
  with assms(1) show ?thesis unfolding rooms_ok_def by blast
qed

lemma save_changed:
  \<comment> \<open>saving a found room with other members and times\<close>
  assumes "rooms_ok R now s" "getRoomState R now room tn s = Some r" "0 < ttl"
    and "ro_room_id r' = ro_room_id r" "ro_tenant_id r' = ro_tenant_id r"
    and "ro_members r' \<noteq> []" "distinct (map rm_user_id (ro_members r'))"
  shows "room_writes R now (\<lambda>_. True) room_ok s (saveRoomState R ttl now r' s)"
  using assms by (auto intro!: save_writes)

lemma add_writes:
  assumes "rooms_ok R now s" "0 < ttl"
  shows "room_writes R now (\<lambda>_. True) room_ok s (snd (addMember R ttl now room tn u k role s))"
proof (cases "getRoomState R now room tn s")
  case (Some r)
  note ok = state_ok [OF assms(1) Some]
  show ?thesis
  proof (cases "update_member (rm_socket_id_update (\<lambda>_. k)) u (ro_members r)")
    case None
    then have "u \<notin> rm_user_id ` set (ro_members r)" by (simp add: update_member_none)
    with None ok Some show ?thesis
      by (auto simp: addMember_def Let_def intro!: save_changed [OF assms(1) Some assms(2)])
  next
    case (Some ms)
    then have "map rm_user_id ms = map rm_user_id (ro_members r)" by (rule update_member_ids) simp
    with ok Some \<open>getRoomState R now room tn s = _\<close> show ?thesis
      by (auto simp: addMember_def Let_def intro!: save_changed [OF assms(1) _ assms(2)] dest: map_eq_imp_length_eq)
  qed
qed (simp add: addMember_def room_writes.none)

lemma remove_writes:
  assumes "rooms_ok R now s" "0 < ttl"
  shows "room_writes R now (\<lambda>_. True) room_ok s (removeMember R ttl now room tn u s)"
proof (cases "getRoomState R now room tn s")
  case (Some r)
  note ok = state_ok [OF assms(1) Some]
  show ?thesis using ok Some
    by (auto simp: removeMember_def Let_def deleteRoom_def distinct_map_filter
        intro!: save_changed [OF assms(1) Some assms(2)] intro: write_one)
qed (simp add: removeMember_def room_writes.none)

lemma role_writes:
  assumes "rooms_ok R now s" "0 < ttl"
  shows "room_writes R now (\<lambda>_. True) room_ok s (snd (updateMemberRole R ttl now room tn u role s))"
proof (cases "getRoomState R now room tn s")
  case (Some r)
  note ok = state_ok [OF assms(1) Some]
  show ?thesis
  proof (cases "update_member (rm_role_update (\<lambda>_. role)) u (ro_members r)")
    case None
    with Some show ?thesis by (simp add: updateMemberRole_def room_writes.none)
  next
    case (Some ms)
    then have "map rm_user_id ms = map rm_user_id (ro_members r)" by (rule update_member_ids) simp
    with ok Some \<open>getRoomState R now room tn s = _\<close> show ?thesis
      by (auto simp: updateMemberRole_def intro!: save_changed [OF assms(1) _ assms(2)] dest: map_eq_imp_length_eq)
  qed
qed (simp add: updateMemberRole_def room_writes.none)

lemma activity_writes:
  assumes "rooms_ok R now s" "0 < ttl"
  shows "room_writes R now (\<lambda>_. True) room_ok s (updateActivity R ttl now room tn s)"
proof (cases "getRoomState R now room tn s")
  case (Some r)
  note ok = state_ok [OF assms(1) Some]
  show ?thesis using ok Some
    by (auto simp: updateActivity_def intro!: save_changed [OF assms(1) Some assms(2)])
qed (simp add: updateActivity_def room_writes.none)

context room_server
begin

lemma writes_rooms_ok:
  assumes "room_writes R t (\<lambda>_. True) room_ok s s'" "rooms_ok R t s" "t \<le> u"
  shows "rooms_ok R u s'"
  using writes_values [OF assms(1,3)] assms(2) get_later [OF assms(3)]
  unfolding rooms_ok_def by blast

lemma enforce_rooms_ok:
  assumes "rooms_ok R now s" "0 < re_ttlHours e" "now \<le> u"
  shows "rooms_ok R u (enforce R e now a s)"
proof -
  have marks: "rooms_ok R v (banUser R now x c t d s)" "rooms_ok R v (unbanUser R x c t s)"
    "rooms_ok R v (muteUser R now x c t d s)" "rooms_ok R v (unmuteUser R x c t s)" if "now \<le> v" for x c t d v
    by (rule writes_rooms_ok [OF room_writes_trans assms(1) that],
        auto simp: banUser_def unbanUser_def muteUser_def unmuteUser_def
          intro!: invalidate_writes mark_writes intro: write_one)+
  show ?thesis
    using marks [OF assms(3)] marks [OF order_refl] writes_rooms_ok [OF remove_writes [OF _ assms(2)] _ assms(3)] assms(1)
    by (cases "mo_action a") (auto simp: enforce_def Let_def)
qed

lemma step_rooms_ok:
  assumes "rooms_ok R (ro_time op) s" "positive_ttls op" "ro_time op \<le> u"
  shows "rooms_ok R u (fst (room_step R op (s, logs)))"
proof (cases op)
  case (RoModerate e now i a)
  let ?j = "canModerate R (re_mongo e) (re_cacheTtl e) now (mo_moderator_id a) (mo_conversation_id a) (mo_tenant_id a) None s"
  have "room_writes R now (\<lambda>_. True) room_ok s (snd ?j)"
    using assms RoModerate by (auto simp: positive_ttls_def join_ok_def intro!: moderator_writes)
  with assms RoModerate have mid: "rooms_ok R v (snd ?j)" if "now \<le> v" for v
    using that by (auto intro: writes_rooms_ok)
  show ?thesis
    using mid [OF assms(3) [unfolded RoModerate ro_time.simps]] mid [OF order_refl] assms RoModerate
    by (auto simp: moderate_def positive_ttls_def split: prod.splits intro: enforce_rooms_ok)
qed (use assms in \<open>auto simp: positive_ttls_def join_ok_def createRoom_def Let_def intro!: writes_rooms_ok [OF _ assms(1,3)]
      join_writes invalidate_writes save_writes add_writes remove_writes role_writes activity_writes\<close>)

lemma run_rooms_ok:
  assumes "sorted (t # map ro_time ops @ [u])" "list_all positive_ttls ops" "rooms_ok R t s"
  shows "rooms_ok R u (fst (fold (room_step R) ops (s, logs)))"
  using assms
proof (induction ops arbitrary: t s logs)
  case Nil
  then show ?case using get_later [of t u] by (auto simp: rooms_ok_def)
next
  case (Cons op ops)
  have "rooms_ok R (ro_time op) s"
    using Cons.prems get_later [of t "ro_time op"] by (auto simp: rooms_ok_def)
  with Cons.prems have "rooms_ok R (ro_time op) (fst (room_step R op (s, logs)))"
    by (auto intro: step_rooms_ok)
  with Cons show ?case by (cases "room_step R op (s, logs)") auto
qed

end

text \<open>
  C20: The members of a room are well formed. From an empty server, after any run of joins,
  moderation, room creation, adding and removing members, role changes and activity, the room
  stored for a tenant and a room identifier has at least one member and no user twice: a member
  that joins again replaces its socket, and a room whose last member leaves is deleted.
\<close>
theorem room_members_wellformed:
  fixes R :: "'r room_redis"
  assumes "kv_store R" "\<And>k. kv_get R t k s = None"
    and "sorted (t # map ro_time ops @ [u])" "list_all positive_ttls ops"
    and "getRoomState R u room tn (fst (fold (room_step R) ops (s, []))) = Some r"
  shows "ro_members r \<noteq> [] \<and> distinct (map rm_user_id (ro_members r)) \<and>
    getRoomKey (ro_room_id r) (ro_tenant_id r) = getRoomKey room tn"
proof -
  have "rooms_ok R t s" using assms(2) by (simp add: rooms_ok_def)
  then have "rooms_ok R u (fst (fold (room_step R) ops (s, [])))"
    by (rule room_server.run_rooms_ok [OF room_server.intro [OF assms(1)] assms(3,4)])
  from state_ok [OF this assms(5)] show ?thesis by simp
qed

text \<open>
  A run on a concrete server: the owner creates the room, a user joins with two sockets in turn,
  is given a role and the owner leaves.
\<close>

definition demo_rooms :: "room_op list" where
  "demo_rooms = [RoCreate 24 100 ''r'' ''t'' ''c'' ''ann'' ''s1'', RoAdd 24 200 ''r'' ''t'' ''bob'' ''s2'' RoomMember,
     RoAdd 24 300 ''r'' ''t'' ''bob'' ''s3'' RoomMember, RoRole 24 400 ''r'' ''t'' ''bob'' RoomAdmin, RoRemove 24 500 ''r'' ''t'' ''ann'']"

lemma room_members_wellformed_witness:
  "distinct (map rm_user_id (ro_members (the (getRoomState map_kv 600 ''r'' ''t''
     (fst (fold (room_step map_kv) demo_rooms ([], [])))))))"
proof -
  let ?R = "map_kv :: (room_value, room_value kv_server) kv_redis"
  have "kv_get ?R 0 k [] = None" for k by (simp add: map_kv_def live_value_def)
  moreover have "sorted (0 # map ro_time demo_rooms @ [600])" by (simp add: demo_rooms_def)
  moreover have "list_all positive_ttls demo_rooms" by (simp add: demo_rooms_def positive_ttls_def)
  moreover have "getRoomState ?R 600 ''r'' ''t'' (fst (fold (room_step ?R) demo_rooms ([], [])))
    = Some (the (getRoomState ?R 600 ''r'' ''t'' (fst (fold (room_step ?R) demo_rooms ([], [])))))"
    by code_simp
  ultimately show ?thesis
    by (rule room_members_wellformed [OF kvs.kv_store_axioms, THEN conjunct2, THEN conjunct1])
qed

section \<open>Bans\<close>

definition unrelated :: "string \<Rightarrow> string \<Rightarrow> string \<Rightarrow> room_op \<Rightarrow> bool" where
  \<comment> \<open>no other ban of the user, nor the end of one, and no colons in the names of a join\<close>
  "unrelated tn c u op \<longleftrightarrow> (case op of
      RoJoin e now u' c' t' p \<Rightarrow> list_all (\<lambda>x. CHR '':'' \<notin> set x) [u', c', t', or_text p ''default'']
    | RoModerate e now i a \<Rightarrow>
        list_all (\<lambda>x. CHR '':'' \<notin> set x) [mo_moderator_id a, mo_conversation_id a, mo_tenant_id a] \<and>
        (mo_action a \<in> {Ban, Unban} \<longrightarrow>
           ban_key (mo_tenant_id a) (mo_conversation_id a) (mo_target_user_id a) \<noteq> ban_key tn c u)
    | _ \<Rightarrow> True)"

lemma authz_key_inj:
  assumes "list_all (\<lambda>x. CHR '':'' \<notin> set x) [u', c', t', or_text p' ''default'']"
    and "list_all (\<lambda>x. CHR '':'' \<notin> set x) [u, c, t, or_text p ''default'']"
    and "authz_key t' p' c' u' = authz_key t p c u"
  shows "t' = t \<and> c' = c \<and> u' = u \<and> or_text p' ''default'' = or_text p ''default''"
  using assms by (auto simp: authz_key_def append_sep_inj)

definition kept_out :: "'r room_redis \<Rightarrow> int \<Rightarrow> string \<Rightarrow> string \<Rightarrow> string option \<Rightarrow> string \<Rightarrow> 'r \<Rightarrow> bool" where
  \<comment> \<open>banned until a later time, and no decision cached up to that time\<close>
  "kept_out R later tn c p u s \<longleftrightarrow> kv_get R later (ban_key tn c u) s = Some (Marked ''1'') \<and>
     getCachedAuthorization R later u c tn p s = None"

abbreviation ban_writes :: "'r room_redis \<Rightarrow> int \<Rightarrow> string \<Rightarrow> string \<Rightarrow> string option \<Rightarrow> string \<Rightarrow> 'r \<Rightarrow> 'r \<Rightarrow> bool" where
  "ban_writes R t tn c p u \<equiv> room_writes R t (\<lambda>k. k \<noteq> ban_key tn c u)
     (\<lambda>k v. k \<noteq> ban_key tn c u \<and> (\<forall>d. v = Decided d \<longrightarrow> k \<noteq> authz_key tn p c u))"

context room_server
begin

lemma kept_out_writes:
  assumes "ban_writes R t tn c p u s s'" "kept_out R later tn c p u s" "t \<le> later"
  shows "kept_out R later tn c p u s'"
proof -
  have "kv_get R later (ban_key tn c u) s' = kv_get R later (ban_key tn c u) s"
    using assms(3) by (intro writes_keep [OF assms(1)]) auto
  moreover have "kv_get R later (authz_key tn p c u) s' \<noteq> Some (Decided d)" for d
    using writes_values [OF assms(1,3), of "authz_key tn p c u" "Decided d"] assms(2)
    by (auto simp: kept_out_def getCachedAuthorization_def)
  ultimately show ?thesis
    using assms(2) by (auto simp: kept_out_def getCachedAuthorization_def split: option.split room_value.split)
qed

lemma kept_out_join:
  assumes "kept_out R later tn c p u s" "now \<le> later" "0 < ttl"
    and "list_all (\<lambda>x. CHR '':'' \<notin> set x) [u', c', t', or_text p' ''default'']"
    and "list_all (\<lambda>x. CHR '':'' \<notin> set x) [u, c, tn, or_text p ''default'']"
  shows "ban_writes R now tn c p u s (snd (canJoinRoom R mongo ttl now u' c' t' p' s))"
proof (rule join_writes [OF assms(3)])
  have "isUserBanned R now u c tn s"
    using assms(1) get_later [OF assms(2)] by (simp add: kept_out_def isUserBanned_def)
  then show "join_ok R now u' c' t' p' (\<lambda>k v. k \<noteq> ban_key tn c u \<and> (\<forall>d. v = Decided d \<longrightarrow> k \<noteq> authz_key tn p c u)) s"
    using authz_key_inj [OF assms(4,5)] by (auto simp: join_ok_def room_key_kinds_sym)
qed

end

lemma room_only_writes:
  \<comment> \<open>operations on room state touch no other keys\<close>
  assumes "0 < ttl" "\<And>x y. D (getRoomKey x y)" "\<And>x y r. W (getRoomKey x y) (Room r)"
  shows "room_writes R now D W s (snd (createRoom R ttl now room tn c u k s))"
    "room_writes R now D W s (snd (addMember R ttl now room tn u k role s))"
    "room_writes R now D W s (removeMember R ttl now room tn u s)"
    "room_writes R now D W s (snd (updateMemberRole R ttl now room tn u role s))"
    "room_writes R now D W s (updateActivity R ttl now room tn s)"
  using assms
  by (auto simp: createRoom_def addMember_def removeMember_def updateMemberRole_def updateActivity_def deleteRoom_def Let_def
      intro!: save_writes room_writes.none write_one(3) split: option.split)

lemma enforce_writes:
  \<comment> \<open>what a moderation action may touch\<close>
  assumes "0 < re_ttlHours e" "\<And>x y. D (getRoomKey x y)" "\<And>x y r. W (getRoomKey x y) (Room r)"
    and "\<And>x y z. D (authz_key x None y z)" "\<And>x y z. D (mute_key x y z)" "\<And>x y z. W (mute_key x y z) (Marked ''1'')"
    and "mo_action a \<in> {Ban, Unban} \<Longrightarrow> D (ban_key (mo_tenant_id a) (mo_conversation_id a) (mo_target_user_id a))"
    and "mo_action a \<in> {Ban, Unban} \<Longrightarrow> W (ban_key (mo_tenant_id a) (mo_conversation_id a) (mo_target_user_id a)) (Marked ''1'')"
  shows "room_writes R now D W s (enforce R e now a s)"
proof -
  note authz = assms(4) and mutes = assms(5,6)
  have remove: "room_writes R now D W m (removeMember R (re_ttlHours e) now x y z m)" for x y z m
    by (rule room_only_writes(3) [of "re_ttlHours e" D W]) (fact assms(1-3))+
  have inval: "room_writes R now D W m (invalidateCache R x y z None m)" for x y z m
    by (rule invalidate_writes) (fact authz)
  show ?thesis
  proof (cases "mo_action a")
    case Kick
    then show ?thesis by (simp add: enforce_def Let_def remove)
  next
    case Ban
    then have "W (ban_key (mo_tenant_id a) (mo_conversation_id a) (mo_target_user_id a)) (Marked ''1'')" by (intro assms(8)) simp
    then have "room_writes R now D W s (mark R now (ban_key (mo_tenant_id a) (mo_conversation_id a) (mo_target_user_id a)) (mo_duration_seconds a) s)"
      by (rule mark_writes)
    with Ban show ?thesis
      by (simp add: enforce_def Let_def banUser_def) (blast intro: room_writes_trans remove inval)
  next
    case Unban
    then have "room_writes R now D W s (kv_del R (ban_key (mo_tenant_id a) (mo_conversation_id a) (mo_target_user_id a)) s)"
      by (intro write_one(3) assms(7)) simp
    with Unban show ?thesis
      by (simp add: enforce_def Let_def unbanUser_def) (blast intro: room_writes_trans inval)
  next
    case Mute
    have "room_writes R now D W s (mark R now (mute_key (mo_tenant_id a) (mo_conversation_id a) (mo_target_user_id a)) (mo_duration_seconds a) s)"
      by (rule mark_writes) (fact mutes(2))
    with Mute show ?thesis
      by (simp add: enforce_def Let_def muteUser_def) (blast intro: room_writes_trans inval)
  next
    case Unmute
    have "room_writes R now D W s (kv_del R (mute_key (mo_tenant_id a) (mo_conversation_id a) (mo_target_user_id a)) s)"
      by (rule write_one(3)) (fact mutes(1))
    with Unmute show ?thesis
      by (simp add: enforce_def Let_def unmuteUser_def) (blast intro: room_writes_trans inval)
  qed
qed

lemma ban_room_writes:
  assumes "0 < ttl"
  shows "ban_writes R now tn c p u s (snd (createRoom R ttl now room t' c' u' k s))"
    "ban_writes R now tn c p u s (snd (addMember R ttl now room t' u' k role s))"
    "ban_writes R now tn c p u s (removeMember R ttl now room t' u' s)"
    "ban_writes R now tn c p u s (snd (updateMemberRole R ttl now room t' u' role s))"
    "ban_writes R now tn c p u s (updateActivity R ttl now room t' s)"
    "ban_writes R now tn c p u s (invalidateCache R u' c' t' p' s)"
  using assms by (rule room_only_writes; simp add: room_key_kinds_sym)+ (rule invalidate_writes, simp add: room_key_kinds_sym)

context room_server
begin

lemma kept_out_step:
  assumes "kept_out R later tn c p u s" "unrelated tn c u op" "positive_ttls op"
    and "list_all (\<lambda>x. CHR '':'' \<notin> set x) [u, c, tn, or_text p ''default'']"
    and "ro_time op \<le> later"
  shows "kept_out R later tn c p u (fst (room_step R op (s, logs)))"
proof (cases op)
  case (RoModerate e now i a)
  let ?j = "canModerate R (re_mongo e) (re_cacheTtl e) now (mo_moderator_id a) (mo_conversation_id a) (mo_tenant_id a) None s"
  have plain: "list_all (\<lambda>x. CHR '':'' \<notin> set x)
      [mo_moderator_id a, mo_conversation_id a, mo_tenant_id a, or_text None ''default'']"
    using assms(2) RoModerate by (simp add: unrelated_def or_text_def)
  have join: "ban_writes R now tn c p u s (snd ?j)"
    using kept_out_join [OF assms(1) _ _ plain assms(4)] assms RoModerate
    by (auto simp: canModerate_def positive_ttls_def)
  have "ban_writes R now tn c p u (snd ?j) (enforce R e now a (snd ?j))"
    using assms RoModerate
    by (intro enforce_writes) (auto simp: positive_ttls_def unrelated_def room_key_kinds_sym)
  then have both: "ban_writes R now tn c p u s (enforce R e now a (snd ?j))"
    by (rule room_writes_trans [OF _ join])
  show ?thesis
    using kept_out_writes [OF join] kept_out_writes [OF both] assms RoModerate
    by (auto simp: moderate_def split: prod.splits)
next
  case (RoJoin e now u' c' t'' p')
  then show ?thesis
    using kept_out_writes [OF kept_out_join [of later tn c p u s now "re_cacheTtl e" u' c' t'' p']] assms
    by (auto simp: positive_ttls_def unrelated_def)
next
  case (RoInvalidate now u' c' t'' p')
  with assms show ?thesis
    by (auto intro: kept_out_writes [OF ban_room_writes(6) [OF zero_less_one]])
qed (use assms in \<open>simp_all add: positive_ttls_def kept_out_writes [OF ban_room_writes(1)] kept_out_writes [OF ban_room_writes(2)]
      kept_out_writes [OF ban_room_writes(3)] kept_out_writes [OF ban_room_writes(4)] kept_out_writes [OF ban_room_writes(5)]\<close>)

lemma kept_out_run:
  assumes "sorted (t # map ro_time ops @ [later])" "list_all positive_ttls ops" "list_all (unrelated tn c u) ops"
    and "list_all (\<lambda>x. CHR '':'' \<notin> set x) [u, c, tn, or_text p ''default'']"
    and "kept_out R later tn c p u s"
  shows "kept_out R later tn c p u (fst (fold (room_step R) ops (s, logs)))"
  using assms
proof (induction ops arbitrary: t s logs)
  case Nil
  then show ?case by simp
next
  case (Cons op ops)
  have times: "t \<le> ro_time op" "ro_time op \<le> later" using Cons.prems(1) by simp_all
  have op: "positive_ttls op" "unrelated tn c u op" using Cons.prems(2,3) by simp_all
  have "kept_out R later tn c p u (fst (room_step R op (s, logs)))"
    by (rule kept_out_step [OF Cons.prems(5) op(2,1) Cons.prems(4) times(2)])
  moreover obtain s' logs' where eq: "room_step R op (s, logs) = (s', logs')" by (cases "room_step R op (s, logs)")
  ultimately have "kept_out R later tn c p u s'" by simp
  moreover have "sorted (ro_time op # map ro_time ops @ [later])" "list_all positive_ttls ops" "list_all (unrelated tn c u) ops"
    using Cons.prems(1-3) by simp_all
  ultimately have "kept_out R later tn c p u (fst (fold (room_step R) ops (s', logs')))"
    by (intro Cons.IH Cons.prems(4))
  with eq show ?case by simp
qed

end

abbreviation ban_alive :: "nat option \<Rightarrow> int \<Rightarrow> int \<Rightarrow> bool" where
  "ban_alive d now later \<equiv> (case d of None \<Rightarrow> True | Some n \<Rightarrow> n = 0 \<or> later < now + 1000 * int n)"

context room_server
begin

lemma ban_keeps_out:
  assumes ok: "moderate R e now i a (s, logs) = (None, st)" "mo_action a = Ban" "0 < re_cacheTtl e" "0 < re_ttlHours e"
    and alive: "ban_alive (mo_duration_seconds a) now later" "now \<le> later"
    and names: "list_all (\<lambda>x. CHR '':'' \<notin> set x) [mo_target_user_id a, mo_conversation_id a, mo_tenant_id a, or_text p ''default'']"
      "CHR '':'' \<notin> set (mo_moderator_id a)"
    and fresh: "or_text p ''default'' \<noteq> ''default'' \<Longrightarrow>
      getCachedAuthorization R later (mo_target_user_id a) (mo_conversation_id a) (mo_tenant_id a) p s = None"
  shows "kept_out R later (mo_tenant_id a) (mo_conversation_id a) p (mo_target_user_id a) (fst st)"
proof -
  let ?u = "mo_target_user_id a" and ?c = "mo_conversation_id a" and ?t = "mo_tenant_id a"
  let ?ak = "authz_key ?t p ?c ?u" and ?bk = "ban_key ?t ?c ?u"
  define s1 where "s1 = snd (canModerate R (re_mongo e) (re_cacheTtl e) now (mo_moderator_id a) ?c ?t None s)"
  define s2 where "s2 = mark R now ?bk (mo_duration_seconds a) s1"
  have st: "fst st = removeMember R (re_ttlHours e) now ?c ?t ?u (invalidateCache R ?u ?c ?t None s2)"
    using ok by (auto simp: moderate_def enforce_def banUser_def s1_def s2_def Let_def split: prod.splits if_splits)
  have "kv_get R later ?bk s2 = Some (Marked ''1'')"
    using alive by (auto simp: s2_def mark_def get_set get_setex split: option.splits)
  then have ban: "kv_get R later ?bk (invalidateCache R ?u ?c ?t None s2) = Some (Marked ''1'')"
    by (simp add: invalidateCache_def get_del room_key_kinds_sym)
  have none: "kv_get R later ?ak (invalidateCache R ?u ?c ?t None s2) \<noteq> Some (Decided d)" for d
  proof (cases "or_text p ''default'' = ''default''")
    case True
    then have "?ak = authz_key ?t None ?c ?u" by (simp add: authz_key_def or_text_def)
    then show ?thesis by (simp add: invalidateCache_def get_del)
  next
    case False
    have "authz_key ?t None ?c (mo_moderator_id a) \<noteq> ?ak"
    proof
      assume "authz_key ?t None ?c (mo_moderator_id a) = ?ak"
      then have "or_text None ''default'' = or_text p ''default''"
        using names authz_key_inj [of "mo_moderator_id a" ?c ?t None ?u ?c ?t p] by (simp add: or_text_def [of None])
      with False show False by (simp add: or_text_def [of None])
    qed
    then have "kv_get R later ?ak s1 = kv_get R later ?ak s"
      unfolding s1_def using alive(2)
      by (intro writes_keep [OF moderator_writes [OF ok(3), where W = "\<lambda>k v. k \<noteq> ?ak" and D = "\<lambda>k. False"]])
        (auto simp: join_ok_def)
    moreover have "kv_get R later ?ak s2 = kv_get R later ?ak s1"
      using alive(2) by (auto simp: s2_def mark_def get_set get_setex room_key_kinds_sym split: option.splits)
    ultimately show ?thesis
      using fresh [OF False] by (auto simp: getCachedAuthorization_def invalidateCache_def get_del split: if_splits)
  qed
  have kept: "kept_out R later ?t ?c p ?u (invalidateCache R ?u ?c ?t None s2)"
    using ban none by (auto simp: kept_out_def getCachedAuthorization_def split: option.split room_value.split)
  show ?thesis unfolding st
    by (rule kept_out_writes [OF ban_room_writes(3) [OF ok(4)] kept alive(2)])
qed

end

text \<open>
  C12: A banned user is kept out. After a moderator bans a user from a conversation, for a while
  or for ever, the user is refused entry as long as the ban lasts and nobody lifts or renews it,
  whatever joins, moderation and changes of rooms happen in between and whatever the conversation
  says by then. For a project other than the default one this holds only once an authorization of
  the user for that project that was cached at the time of the ban has expired (at once if there
  was none): the ban drops the cached authorization of the default project only, and until then
  the user is let in, as \<open>ban_bypassed\<close> shows.
\<close>
theorem banned_user_is_kept_out:
  fixes R :: "'r room_redis"
  assumes "kv_store R"
    and "moderate R e now i a (s, logs) = (None, st)" "mo_action a = Ban" "0 < re_cacheTtl e" "0 < re_ttlHours e"
    and "ban_alive (mo_duration_seconds a) now later"
    and "list_all (\<lambda>x. CHR '':'' \<notin> set x)
      [mo_target_user_id a, mo_conversation_id a, mo_tenant_id a, or_text p ''default'', mo_moderator_id a]"
    and "or_text p ''default'' \<noteq> ''default'' \<longrightarrow>
      getCachedAuthorization R later (mo_target_user_id a) (mo_conversation_id a) (mo_tenant_id a) p s = None"
    and "sorted (now # map ro_time ops @ [later])" "list_all positive_ttls ops"
    and "list_all (unrelated (mo_tenant_id a) (mo_conversation_id a) (mo_target_user_id a)) ops"
  shows "fst (canJoinRoom R mongo ttl later (mo_target_user_id a) (mo_conversation_id a) (mo_tenant_id a) p
      (fst (fold (room_step R) ops st))) = forbidden ''User is banned from this conversation''"
proof -
  note server = room_server.intro [OF assms(1)]
  obtain s1 logs1 where st: "st = (s1, logs1)" by (cases st)
  have "now \<le> later" using assms(9) by simp
  then have "kept_out R later (mo_tenant_id a) (mo_conversation_id a) p (mo_target_user_id a) s1"
    using room_server.ban_keeps_out [OF server assms(2-6)] assms(7,8) st by simp
  then have "kept_out R later (mo_tenant_id a) (mo_conversation_id a) p (mo_target_user_id a)
      (fst (fold (room_step R) ops st))"
    unfolding st using assms(7) by (intro room_server.kept_out_run [OF server assms(9-11)]) simp_all
  then show ?thesis by (simp add: kept_out_def canJoinRoom_def isUserBanned_def)
qed

definition demo_conversations :: conversations where
  "demo_conversations c t = (if c = ''c'' \<and> t = ''t''
     then Some (Some \<lparr>cv_project_id = Some ''p'', cv_participants = [(''ann'', Some ''owner''), (''bob'', None)]\<rparr>)
     else Some None)"

definition demo_room_env :: room_env where
  "demo_room_env = \<lparr>re_mongo = (\<lambda>c t. if c = ''c'' \<and> t = ''t''
     then Some (Some \<lparr>cv_project_id = None, cv_participants = [(''ann'', Some ''owner''), (''bob'', None)]\<rparr>)
     else Some None), re_cacheTtl = 300, re_ttlHours = 24\<rparr>"

definition demo_action :: "moderation_kind \<Rightarrow> nat option \<Rightarrow> moderation_action" where
  "demo_action k d = \<lparr>mo_action = k, mo_moderator_id = ''ann'', mo_target_user_id = ''bob'', mo_conversation_id = ''c'',
     mo_tenant_id = ''t'', mo_reason = None, mo_duration_seconds = d, mo_timestamp = 0\<rparr>"

lemma banned_user_is_kept_out_witness:
  "fst (canJoinRoom map_kv (re_mongo demo_room_env) 300 4000 ''bob'' ''c'' ''t'' None
     (fst (fold (room_step map_kv) [RoJoin demo_room_env 2000 ''bob'' ''c'' ''t'' None, RoModerate demo_room_env 3000 ''l'' (demo_action Mute None)]
        (snd (moderate map_kv demo_room_env 1000 ''k'' (demo_action Ban (Some 3600)) ([], []))))))
   = forbidden ''User is banned from this conversation''
   \<and> (let s = snd (canJoinRoom map_kv demo_conversations 300 500 ''bob'' ''c'' ''t'' (Some ''p'') [])
     in getCachedAuthorization map_kv 1000 ''bob'' ''c'' ''t'' (Some ''p'') s \<noteq> None
       \<and> fst (canJoinRoom map_kv demo_conversations 300 300500 ''bob'' ''c'' ''t'' (Some ''p'')
           (fst (snd (moderate map_kv demo_room_env 1000 ''k'' (demo_action Ban None) (s, [])))))
         = forbidden ''User is banned from this conversation'')"
proof -
  let ?s = "snd (canJoinRoom map_kv demo_conversations 300 500 ''bob'' ''c'' ''t'' (Some ''p'') [])"
  have "moderate map_kv demo_room_env 1000 ''k'' (demo_action Ban (Some 3600)) ([], [])
    = (None, snd (moderate map_kv demo_room_env 1000 ''k'' (demo_action Ban (Some 3600)) ([], [])))"
    by code_simp
  from banned_user_is_kept_out [OF kvs.kv_store_axioms this, of 4000 None
      "[RoJoin demo_room_env 2000 ''bob'' ''c'' ''t'' None, RoModerate demo_room_env 3000 ''l'' (demo_action Mute None)]"]
  have default: "fst (canJoinRoom map_kv (re_mongo demo_room_env) 300 4000 ''bob'' ''c'' ''t'' None
     (fst (fold (room_step map_kv) [RoJoin demo_room_env 2000 ''bob'' ''c'' ''t'' None, RoModerate demo_room_env 3000 ''l'' (demo_action Mute None)]
        (snd (moderate map_kv demo_room_env 1000 ''k'' (demo_action Ban (Some 3600)) ([], []))))))
     = forbidden ''User is banned from this conversation''"
    by (simp add: demo_action_def demo_room_env_def positive_ttls_def unrelated_def or_text_def)
  have ban: "moderate map_kv demo_room_env 1000 ''k'' (demo_action Ban None) (?s, [])
    = (None, snd (moderate map_kv demo_room_env 1000 ''k'' (demo_action Ban None) (?s, [])))"
    by code_simp
  have cached: "getCachedAuthorization map_kv 1000 ''bob'' ''c'' ''t'' (Some ''p'') ?s \<noteq> None"
    "getCachedAuthorization map_kv 300500 ''bob'' ''c'' ''t'' (Some ''p'') ?s = None"
    by code_simp+
  have "fst (canJoinRoom map_kv demo_conversations 300 300500 ''bob'' ''c'' ''t'' (Some ''p'')
      (fst (snd (moderate map_kv demo_room_env 1000 ''k'' (demo_action Ban None) (?s, [])))))
    = forbidden ''User is banned from this conversation''"
    using banned_user_is_kept_out [OF kvs.kv_store_axioms ban, of 300500 "Some ''p''" "[]"] cached(2)
    by (simp add: demo_action_def demo_room_env_def or_text_def)
  with default cached(1) show ?thesis unfolding Let_def by blast
qed

lemma ban_bypassed:
  \<comment> \<open>with a cached authorization for a project, a ban is not noticed until the cache expires\<close>
  "au_authorized (fst (canJoinRoom map_kv demo_conversations 300 2000 ''bob'' ''c'' ''t'' (Some ''p'')
     (fst (snd (moderate map_kv (demo_room_env\<lparr>re_mongo := demo_conversations\<rparr>) 1000 ''k'' (demo_action Ban None)
       (snd (canJoinRoom map_kv demo_conversations 300 500 ''bob'' ''c'' ''t'' (Some ''p'') []), []))))))"
  by code_simp

section \<open>Moderation\<close>

definition may_moderate :: "'r room_redis \<Rightarrow> conversations \<Rightarrow> int \<Rightarrow> string \<Rightarrow> string \<Rightarrow> string \<Rightarrow> 'r \<Rightarrow> bool" where
  \<comment> \<open>by a cached decision, or as a participant that is not banned\<close>
  "may_moderate R mongo now u c t s \<longleftrightarrow>
     (case getCachedAuthorization R now u c t None s of
        Some d \<Rightarrow> au_authorized d \<and> au_role d \<in> {Some ''owner'', Some ''admin'', Some ''moderator''}
      | None \<Rightarrow> \<not> isUserBanned R now u c t s \<and> (\<exists>cv r. mongo c t = Some (Some cv) \<and>
          List.find (\<lambda>p. fst p = u) (cv_participants cv) = Some (u, Some r) \<and> r \<in> {''owner'', ''admin'', ''moderator''}))"

lemma canModerate_iff:
  "au_authorized (fst (canModerate R mongo ttl now u c t None s)) \<longleftrightarrow> may_moderate R mongo now u c t s"
  by (auto simp: canModerate_def with_role_def canJoinRoom_def may_moderate_def room_membership_of_def or_text_def Let_def
      split: option.splits if_splits dest: find_SomeD)

definition log_entry :: "int \<Rightarrow> string \<Rightarrow> moderation_action \<Rightarrow> moderation_log" where
  "log_entry now logId a = moderation_action.extend (a\<lparr>mo_timestamp := now\<rparr>) (moderation_log.fields logId)"

lemma getModerationLogs_log:
  "getModerationLogs c t (logModerationAction i (a\<lparr>mo_timestamp := now\<rparr>) logs) =
     (if log_key (mo_conversation_id a) (mo_tenant_id a) = log_key c t
      then let new = getModerationLogs c t logs @ [log_entry now i a] in if 100 < length new then tl new else new
      else getModerationLogs c t logs)"
  by (auto simp: getModerationLogs_def logModerationAction_def log_entry_def Let_def)

lemma moderate_logs:
  "getModerationLogs c t (snd (snd (moderate R e now i a (s, logs)))) =
     (if may_moderate R (re_mongo e) now (mo_moderator_id a) (mo_conversation_id a) (mo_tenant_id a) s
      then getModerationLogs c t (logModerationAction i (a\<lparr>mo_timestamp := now\<rparr>) logs)
      else getModerationLogs c t logs)"
  using canModerate_iff [of R "re_mongo e" "re_cacheTtl e" now "mo_moderator_id a" "mo_conversation_id a" "mo_tenant_id a" s]
  by (auto simp: moderate_def split: prod.split)

definition permitted :: "'r room_redis \<Rightarrow> room_op list \<Rightarrow> 'r \<Rightarrow> moderation_log \<Rightarrow> bool" where
  \<comment> \<open>the entry of a moderation of the run whose moderator was allowed to at that time\<close>
  "permitted R ops s x \<longleftrightarrow> (\<exists>pre e now i a post. ops = pre @ RoModerate e now i a # post \<and> x = log_entry now i a \<and>
     may_moderate R (re_mongo e) now (mo_moderator_id a) (mo_conversation_id a) (mo_tenant_id a)
       (fst (fold (room_step R) pre (s, []))))"

lemma permitted_append: "permitted R ops s x \<Longrightarrow> permitted R (ops @ [op]) s x"
  unfolding permitted_def by fastforce

text \<open>
  Moderation is for moderators and is logged. In every run, each entry of a moderation log
  belongs to an action of the run whose moderator was, at that moment, an owner, admin or
  moderator of the conversation and not banned (or cached as such), and a log never holds more
  than its last hundred entries.
\<close>
lemma logged_moderation_was_permitted:
  assumes "x \<in> set (getModerationLogs c t (snd (fold (room_step R) ops (s, []))))"
  shows "permitted R ops s x \<and> length (getModerationLogs c t (snd (fold (room_step R) ops (s, [])))) \<le> 100"
proof -
  have "length (getModerationLogs c t (snd (fold (room_step R) ops (s, [])))) \<le> 100 \<and>
      (\<forall>x \<in> set (getModerationLogs c t (snd (fold (room_step R) ops (s, [])))). permitted R ops s x)"
  proof (induction ops rule: rev_induct)
    case Nil
    show ?case by (simp add: getModerationLogs_def)
  next
    case (snoc op ops)
    obtain s1 logs1 where run: "fold (room_step R) ops (s, []) = (s1, logs1)"
      by (cases "fold (room_step R) ops (s, [])")
    show ?case
    proof (cases op)
      case (RoModerate e now i a)
      have "permitted R (ops @ [op]) s (log_entry now i a)"
        if "may_moderate R (re_mongo e) now (mo_moderator_id a) (mo_conversation_id a) (mo_tenant_id a) s1"
        using that run RoModerate unfolding permitted_def by fastforce
      then have entry: "permitted R (ops @ [op]) s x" if "x = log_entry now i a"
          "may_moderate R (re_mongo e) now (mo_moderator_id a) (mo_conversation_id a) (mo_tenant_id a) s1" for x
        using that by simp
      have old: "permitted R (ops @ [op]) s x" if "x \<in> set (getModerationLogs c t logs1)" for x
        using that snoc.IH run by (simp add: permitted_append)
      have trim: "x \<in> set (tl ys) \<Longrightarrow> x \<in> set ys" for x and ys :: "moderation_log list" by (cases ys) auto
      show ?thesis
        using snoc.IH run RoModerate
        by (auto simp: moderate_logs getModerationLogs_log Let_def split: if_splits
            intro: old [unfolded RoModerate] entry [unfolded RoModerate] dest!: trim)
    qed (use snoc.IH run permitted_append [of R ops s _ op] in auto)
  qed
  with assms show ?thesis by blast
qed

lemma logged_moderation_was_permitted_example:
  "permitted map_kv [RoModerate demo_room_env 1000 ''k'' (demo_action Kick None)] [] (log_entry 1000 ''k'' (demo_action Kick None))"
proof -
  have "log_entry 1000 ''k'' (demo_action Kick None) \<in> set (getModerationLogs ''c'' ''t''
      (snd (fold (room_step map_kv) [RoModerate demo_room_env 1000 ''k'' (demo_action Kick None)] ([], []))))"
    by code_simp
  then show ?thesis by (rule logged_moderation_was_permitted [THEN conjunct1])
qed

end
