(* ===== verification/SkCalls.thy ===== *)
theory SkCalls
  imports SkStore
begin

text \<open>
  Calls of the socket service (services/socket-service/src/webrtc): the store of calls in Redis,
  one-to-one and group calls, their end with the record kept in the history, and the validation
  of signaling messages. The timers of the process are part of the state; emitted events, logging
  and failures of Redis are left out.
\<close>

section \<open>Data\<close>

datatype call_status = Initiating | Ringing | Answered | Connected | Ended | Rejected | Missed

datatype media_type = Audio | Video | Screen

datatype call_type = OneToOne | Group

datatype end_reason = UserHangup | CallTimeout | CallError | NetworkFailure | CallRejected | Cancelled | Busy

datatype participant_status = Calling | ParticipantRinging | InCall | Disconnected

record call_participant =
  cp_user_id :: string
  cp_joined_at :: "int option"
  cp_left_at :: "int option"
  cp_status :: participant_status

record call =
  ca_id :: string
  ca_type :: call_type
  ca_status :: call_status
  ca_caller_id :: string
  ca_participants :: "call_participant list"
  ca_media_type :: media_type
  ca_tenant_id :: string
  ca_created_at :: int
  ca_started_at :: "int option"
  ca_ended_at :: "int option"
  ca_end_reason :: "end_reason option"
  ca_ended_by :: "string option"

record call_record =
  cr_call_id :: string
  cr_type :: call_type
  cr_participants :: "(string \<times> int option \<times> int option) list"
  cr_caller_id :: string
  cr_media_type :: media_type
  cr_tenant_id :: string
  cr_created_at :: int
  cr_started_at :: "int option"
  cr_ended_at :: "int option"
  cr_duration_seconds :: "int option"
  cr_end_reason :: end_reason
  cr_ended_by :: "string option"

type_synonym 'r call_redis = "(call, 'r) kv_redis"

record 'r call_world =
  cl_redis :: 'r
  cl_timers :: "(int \<times> string) list" \<comment> \<open>due time and call of each pending timeout\<close>
  cl_history :: "call_record list" \<comment> \<open>the collection of MongoDB\<close>

record call_env =
  wr_timeout :: int
  wr_insert :: "(call_record \<Rightarrow> bool) option" \<comment> \<open>whether an insertion succeeds; \<open>None\<close> without a collection\<close>

section \<open>Store\<close>

definition call_store_key :: "string \<Rightarrow> string" where
  "call_store_key callId = ''call:'' @ callId"

definition CALL_TTL :: int where
  "CALL_TTL = 24 * 60 * 60"

definition saveCall :: "'r call_redis \<Rightarrow> int \<Rightarrow> call \<Rightarrow> 'r \<Rightarrow> 'r" where
  "saveCall R now c s = kv_setex R now (call_store_key (ca_id c)) CALL_TTL c s"

definition getCall :: "'r call_redis \<Rightarrow> int \<Rightarrow> string \<Rightarrow> 'r \<Rightarrow> call option" where
  "getCall R now callId s = kv_get R now (call_store_key callId) s"

definition updateCallStatus :: "'r call_redis \<Rightarrow> int \<Rightarrow> string \<Rightarrow> call_status \<Rightarrow> 'r \<Rightarrow> string + 'r" where
  "updateCallStatus R now callId status s =
     (case getCall R now callId s of
        None \<Rightarrow> Inl (''Call '' @ callId @ '' not found'')
      | Some c \<Rightarrow>
          let c1 = c\<lparr>ca_status := status\<rparr>;
              c2 = (if status = Connected \<and> ca_started_at c1 = None then c1\<lparr>ca_started_at := Some now\<rparr> else c1);
              c3 = (if status = Ended \<and> ca_ended_at c2 = None then c2\<lparr>ca_ended_at := Some now\<rparr> else c2)
          in Inr (saveCall R now c3 s))"

definition deleteCall :: "'r call_redis \<Rightarrow> string \<Rightarrow> 'r \<Rightarrow> 'r" where
  "deleteCall R callId s = kv_del R (call_store_key callId) s"

definition call_active :: "call \<Rightarrow> bool" where
  "call_active c \<longleftrightarrow> ca_status c \<noteq> Ended \<and> ca_status c \<noteq> Rejected"

definition takes_part :: "string \<Rightarrow> call \<Rightarrow> bool" where
  "takes_part userId c \<longleftrightarrow> list_ex (\<lambda>p. cp_user_id p = userId) (ca_participants c) \<or> ca_caller_id c = userId"

definition getActiveCallsForUser :: "'r call_redis \<Rightarrow> int \<Rightarrow> string \<Rightarrow> 'r \<Rightarrow> call list" where
  "getActiveCallsForUser R now userId s =
     filter (\<lambda>c. call_active c \<and> takes_part userId c)
       (List.map_filter (\<lambda>key. kv_get R now key s) (kv_keys R now ''call:'' s))"

section \<open>One-to-one calls\<close>

definition initiateCall ::
    "'r call_redis \<Rightarrow> call_env \<Rightarrow> int \<Rightarrow> string \<Rightarrow> string \<Rightarrow> string \<Rightarrow> media_type \<Rightarrow> string \<Rightarrow>
     'r call_world \<Rightarrow> (string + call) \<times> 'r call_world" where
  "initiateCall R e now callId callerId calleeId mediaType tenantId w =
     (if getActiveCallsForUser R now callerId (cl_redis w) \<noteq> [] then (Inl ''User is already in an active call'', w)
      else if getActiveCallsForUser R now calleeId (cl_redis w) \<noteq> [] then (Inl ''Callee is busy'', w)
      else let c = \<lparr>ca_id = callId, ca_type = OneToOne, ca_status = Ringing, ca_caller_id = callerId,
          ca_participants =
            [\<lparr>cp_user_id = callerId, cp_joined_at = Some now, cp_left_at = None, cp_status = Calling\<rparr>,
             \<lparr>cp_user_id = calleeId, cp_joined_at = None, cp_left_at = None, cp_status = ParticipantRinging\<rparr>],
          ca_media_type = mediaType, ca_tenant_id = tenantId, ca_created_at = now, ca_started_at = None,
          ca_ended_at = None, ca_end_reason = None, ca_ended_by = None\<rparr>
        in (Inr c, w\<lparr>cl_redis := saveCall R now c (cl_redis w), cl_timers := cl_timers w @ [(now + wr_timeout e, callId)]\<rparr>))"

fun update_participant ::
    "(call_participant \<Rightarrow> call_participant) \<Rightarrow> string \<Rightarrow> call_participant list \<Rightarrow> call_participant list" where
  \<comment> \<open>change the first participant with an identifier\<close>
  "update_participant f u [] = []"
| "update_participant f u (p # ps) = (if cp_user_id p = u then f p # ps else p # update_participant f u ps)"

definition participant_of :: "string \<Rightarrow> call \<Rightarrow> call_participant option" where
  "participant_of userId c = List.find (\<lambda>p. cp_user_id p = userId) (ca_participants c)"

definition status_text :: "call_status \<Rightarrow> string" where
  "status_text st = (case st of Initiating \<Rightarrow> ''initiating'' | Ringing \<Rightarrow> ''ringing'' | Answered \<Rightarrow> ''answered''
     | Connected \<Rightarrow> ''connected'' | Ended \<Rightarrow> ''ended'' | Rejected \<Rightarrow> ''rejected'' | Missed \<Rightarrow> ''missed'')"

definition answerCall ::
    "'r call_redis \<Rightarrow> int \<Rightarrow> string \<Rightarrow> string \<Rightarrow> 'r call_world \<Rightarrow> (string + call) \<times> 'r call_world" where
  "answerCall R now callId userId w =
     (case getCall R now callId (cl_redis w) of
        None \<Rightarrow> (Inl ''Call not found'', w)
      | Some c \<Rightarrow>
          if ca_status c \<noteq> Ringing then (Inl (''Call is not ringing (status: '' @ status_text (ca_status c) @ '')''), w)
          else (case participant_of userId c of
            None \<Rightarrow> (Inl ''User is not a participant in this call'', w)
          | Some p \<Rightarrow>
              let c' = c\<lparr>ca_participants := update_participant
                    (\<lambda>p. p\<lparr>cp_status := InCall, cp_joined_at := Some now\<rparr>) userId (ca_participants c),
                  ca_status := Answered, ca_started_at := Some now\<rparr>
              in (Inr c', w\<lparr>cl_redis := saveCall R now c' (cl_redis w)\<rparr>)))"

definition rejectCall :: "'r call_redis \<Rightarrow> int \<Rightarrow> string \<Rightarrow> string \<Rightarrow> 'r call_world \<Rightarrow> string option \<times> 'r call_world" where
  "rejectCall R now callId userId w =
     (case getCall R now callId (cl_redis w) of
        None \<Rightarrow> (Some ''Call not found'', w)
      | Some c \<Rightarrow>
          if ca_status c \<noteq> Ringing then (Some ''Call is not ringing'', w)
          else let c' = c\<lparr>ca_status := Rejected, ca_ended_at := Some now, ca_end_reason := Some CallRejected, ca_ended_by := Some userId\<rparr>
            in (None, w\<lparr>cl_redis := saveCall R now c' (cl_redis w)\<rparr>))"

abbreviation new_participant :: "string \<Rightarrow> call_participant" where
  "new_participant userId \<equiv> \<lparr>cp_user_id = userId, cp_joined_at = None, cp_left_at = None, cp_status = ParticipantRinging\<rparr>"

definition addParticipant ::
    "'r call_redis \<Rightarrow> int \<Rightarrow> string \<Rightarrow> string \<Rightarrow> 'r call_world \<Rightarrow> (string + call) \<times> 'r call_world" where
  "addParticipant R now callId userId w =
     (case getCall R now callId (cl_redis w) of
        None \<Rightarrow> (Inl ''Call not found'', w)
      | Some c \<Rightarrow>
          if ca_type c \<noteq> Group then (Inl ''Can only add participants to group calls'', w)
          else (case participant_of userId c of
            Some p \<Rightarrow> (Inl ''User is already a participant'', w)
          | None \<Rightarrow> let c' = c\<lparr>ca_participants := ca_participants c @ [new_participant userId]\<rparr>
              in (Inr c', w\<lparr>cl_redis := saveCall R now c' (cl_redis w)\<rparr>)))"

definition ringing_timeout :: "'r call_redis \<Rightarrow> int \<Rightarrow> string \<Rightarrow> 'r \<Rightarrow> 'r" where
  \<comment> \<open>what a timeout of \<open>scheduleRingingTimeout\<close> does when it fires\<close>
  "ringing_timeout R now callId s =
     (case getCall R now callId s of
        Some c \<Rightarrow> if ca_status c = Ringing
          then saveCall R now (c\<lparr>ca_status := Missed, ca_ended_at := Some now, ca_end_reason := Some CallTimeout\<rparr>) s else s
      | None \<Rightarrow> s)"

definition serve_timers :: "'r call_redis \<Rightarrow> int \<Rightarrow> 'r call_world \<Rightarrow> 'r call_world" where
  \<comment> \<open>the event loop at a moment: every due timeout fires, in the order they were set\<close>
  "serve_timers R now w = w\<lparr>
     cl_redis := fold (\<lambda>(due, callId). ringing_timeout R now callId) (filter (\<lambda>(due, c). due \<le> now) (cl_timers w)) (cl_redis w),
     cl_timers := filter (\<lambda>(due, c). now < due) (cl_timers w)\<rparr>"

section \<open>Group calls\<close>

definition createGroupCall ::
    "'r call_redis \<Rightarrow> int \<Rightarrow> string \<Rightarrow> string \<Rightarrow> string list \<Rightarrow> media_type \<Rightarrow> string \<Rightarrow>
     'r call_world \<Rightarrow> (string + call) \<times> 'r call_world" where
  "createGroupCall R now callId creatorId participantIds mediaType tenantId w =
     (let c = \<lparr>ca_id = callId, ca_type = Group, ca_status = Ringing, ca_caller_id = creatorId,
          ca_participants = \<lparr>cp_user_id = creatorId, cp_joined_at = Some now, cp_left_at = None, cp_status = Calling\<rparr>
            # map new_participant participantIds,
          ca_media_type = mediaType, ca_tenant_id = tenantId, ca_created_at = now, ca_started_at = None,
          ca_ended_at = None, ca_end_reason = None, ca_ended_by = None\<rparr>
      in (Inr c, w\<lparr>cl_redis := saveCall R now c (cl_redis w)\<rparr>))"

definition group_addParticipant ::
    "'r call_redis \<Rightarrow> int \<Rightarrow> string \<Rightarrow> string \<Rightarrow> 'r call_world \<Rightarrow> (string + call) \<times> 'r call_world" where
  "group_addParticipant R now callId userId w =
     (case getCall R now callId (cl_redis w) of
        None \<Rightarrow> (Inl ''Call not found'', w)
      | Some c \<Rightarrow>
          if ca_type c \<noteq> Group then (Inl ''Can only add participants to group calls'', w)
          else (case participant_of userId c of
            Some p \<Rightarrow> if cp_status p = Disconnected
              then let c' = c\<lparr>ca_participants := update_participant
                      (\<lambda>p. p\<lparr>cp_status := Calling, cp_left_at := None\<rparr>) userId (ca_participants c)\<rparr>
                in (Inr c', w\<lparr>cl_redis := saveCall R now c' (cl_redis w)\<rparr>)
              else (Inl ''User is already a participant'', w)
          | None \<Rightarrow> let c' = c\<lparr>ca_participants := ca_participants c @ [new_participant userId]\<rparr>
              in (Inr c', w\<lparr>cl_redis := saveCall R now c' (cl_redis w)\<rparr>)))"

definition disconnect_participant :: "int \<Rightarrow> string \<Rightarrow> call \<Rightarrow> call" where
  "disconnect_participant now userId c = c\<lparr>ca_participants := update_participant
     (\<lambda>p. p\<lparr>cp_status := Disconnected, cp_left_at := Some now\<rparr>) userId (ca_participants c)\<rparr>"

definition removeParticipant ::
    "'r call_redis \<Rightarrow> int \<Rightarrow> string \<Rightarrow> string \<Rightarrow> 'r call_world \<Rightarrow> (string + call) \<times> 'r call_world" where
  "removeParticipant R now callId userId w =
     (case getCall R now callId (cl_redis w) of
        None \<Rightarrow> (Inl ''Call not found'', w)
      | Some c \<Rightarrow> (case participant_of userId c of
          None \<Rightarrow> (Inl ''User is not a participant'', w)
        | Some p \<Rightarrow> let c' = disconnect_participant now userId c
            in (Inr c', w\<lparr>cl_redis := saveCall R now c' (cl_redis w)\<rparr>)))"

definition answerGroupCall ::
    "'r call_redis \<Rightarrow> int \<Rightarrow> string \<Rightarrow> string \<Rightarrow> 'r call_world \<Rightarrow> (string + call) \<times> 'r call_world" where
  "answerGroupCall R now callId userId w =
     (case getCall R now callId (cl_redis w) of
        None \<Rightarrow> (Inl ''Call not found'', w)
      | Some c \<Rightarrow>
          if ca_type c \<noteq> Group then (Inl ''Not a group call'', w)
          else (case participant_of userId c of
            None \<Rightarrow> (Inl ''User is not invited to this call'', w)
          | Some p \<Rightarrow>
              let c1 = c\<lparr>ca_participants := update_participant
                    (\<lambda>p. p\<lparr>cp_status := InCall, cp_joined_at := Some now\<rparr>) userId (ca_participants c)\<rparr>;
                  c2 = (if ca_status c1 = Ringing then c1\<lparr>ca_status := Answered, ca_started_at := Some now\<rparr> else c1)
              in (Inr c2, w\<lparr>cl_redis := saveCall R now c2 (cl_redis w)\<rparr>)))"

definition active_participants :: "call \<Rightarrow> call_participant list" where
  "active_participants c = filter (\<lambda>p. cp_status p = InCall \<or> cp_status p = Calling) (ca_participants c)"

definition getActiveParticipants :: "'r call_redis \<Rightarrow> int \<Rightarrow> string \<Rightarrow> 'r \<Rightarrow> call_participant list" where
  "getActiveParticipants R now callId s = (case getCall R now callId s of None \<Rightarrow> [] | Some c \<Rightarrow> active_participants c)"

definition shouldEndCall :: "'r call_redis \<Rightarrow> int \<Rightarrow> string \<Rightarrow> 'r \<Rightarrow> bool" where
  "shouldEndCall R now callId s \<longleftrightarrow> length (getActiveParticipants R now callId s) \<le> 1"

section \<open>End of a call\<close>

definition history_record :: "call \<Rightarrow> call_record" where
  "history_record c = \<lparr>cr_call_id = ca_id c, cr_type = ca_type c,
     cr_participants = map (\<lambda>p. (cp_user_id p, cp_joined_at p, cp_left_at p)) (ca_participants c),
     cr_caller_id = ca_caller_id c, cr_media_type = ca_media_type c, cr_tenant_id = ca_tenant_id c,
     cr_created_at = ca_created_at c, cr_started_at = ca_started_at c, cr_ended_at = ca_ended_at c,
     cr_duration_seconds = (case (ca_started_at c, ca_ended_at c) of
        (Some a, Some b) \<Rightarrow> Some ((b - a) div 1000) | _ \<Rightarrow> None),
     cr_end_reason = (case ca_end_reason c of Some r \<Rightarrow> r | None \<Rightarrow> UserHangup),
     cr_ended_by = ca_ended_by c\<rparr>"

definition saveCallHistory :: "'r call_redis \<Rightarrow> call_env \<Rightarrow> int \<Rightarrow> string \<Rightarrow> 'r call_world \<Rightarrow> string option \<times> 'r call_world" where
  "saveCallHistory R e now callId w =
     (case getCall R now callId (cl_redis w) of
        None \<Rightarrow> (None, w)
      | Some c \<Rightarrow> (case wr_insert e of
          None \<Rightarrow> (None, w\<lparr>cl_redis := deleteCall R callId (cl_redis w)\<rparr>)
        | Some ok \<Rightarrow>
            if ok (history_record c)
            then (None, w\<lparr>cl_redis := deleteCall R callId (cl_redis w), cl_history := cl_history w @ [history_record c]\<rparr>)
            else (Some ''insert failed'', w)))"

definition endCall ::
    "'r call_redis \<Rightarrow> call_env \<Rightarrow> int \<Rightarrow> string \<Rightarrow> string \<Rightarrow> end_reason \<Rightarrow> 'r call_world \<Rightarrow> string option \<times> 'r call_world" where
  "endCall R e now callId endedBy reason w =
     (case getCall R now callId (cl_redis w) of
        None \<Rightarrow> (None, w)
      | Some c \<Rightarrow>
          if ca_status c = Ended \<or> ca_status c = Rejected then (None, w)
          else let c' = c\<lparr>ca_status := Ended, ca_ended_at := Some now, ca_end_reason := Some reason, ca_ended_by := Some endedBy\<rparr>
            in saveCallHistory R e now callId (w\<lparr>cl_redis := saveCall R now c' (cl_redis w)\<rparr>))"

definition endCallForUser ::
    "'r call_redis \<Rightarrow> call_env \<Rightarrow> int \<Rightarrow> string \<Rightarrow> string \<Rightarrow> 'r call_world \<Rightarrow> string option \<times> 'r call_world" where
  \<comment> \<open>the change of the participant is not saved for a one-to-one call\<close>
  "endCallForUser R e now callId userId w =
     (case getCall R now callId (cl_redis w) of
        None \<Rightarrow> (None, w)
      | Some c \<Rightarrow>
          let c' = disconnect_participant now userId c in
          if ca_type c = OneToOne then endCall R e now callId userId UserHangup w
          else let w' = w\<lparr>cl_redis := saveCall R now c' (cl_redis w)\<rparr> in
            if active_participants c' = [] then endCall R e now callId userId UserHangup w' else (None, w'))"

fun end_calls :: "'r call_redis \<Rightarrow> call_env \<Rightarrow> int \<Rightarrow> string \<Rightarrow> call list \<Rightarrow> 'r call_world \<Rightarrow> 'r call_world" where
  \<comment> \<open>the loop of \<open>handleDisconnect\<close>: the first failure ends it and is only logged\<close>
  "end_calls R e now userId [] w = w"
| "end_calls R e now userId (c # cs) w =
     (case endCallForUser R e now (ca_id c) userId w of
        (None, w') \<Rightarrow> end_calls R e now userId cs w'
      | (Some err, w') \<Rightarrow> w')"

definition handleDisconnect :: "'r call_redis \<Rightarrow> call_env \<Rightarrow> int \<Rightarrow> string \<Rightarrow> 'r call_world \<Rightarrow> 'r call_world" where
  "handleDisconnect R e now userId w = end_calls R e now userId (getActiveCallsForUser R now userId (cl_redis w)) w"

end
