(* ===== verification/SkCallSafety.thy ===== *)
theory SkCallSafety
  imports SkCalls
begin

text \<open>
  What the calls of the socket service guarantee: how the status of a call moves, that a call does
  not ring for ever, and that a user is in one call at a time.
\<close>

section \<open>Runs\<close>

datatype call_op =
    CoInitiate int string string string media_type string
  | CoGroup int string string "string list" media_type string
  | CoAnswer int string string
  | CoReject int string string
  | CoAdd int string string
  | CoGroupAdd int string string
  | CoRemove int string string
  | CoGroupAnswer int string string
  | CoEnd int string string end_reason
  | CoLeave int string string
  | CoDisconnect int string
  | CoServe int

fun co_time :: "call_op \<Rightarrow> int" where
  "co_time (CoInitiate now i a b m t) = now"
| "co_time (CoGroup now i a us m t) = now"
| "co_time (CoAnswer now i u) = now"
| "co_time (CoReject now i u) = now"
| "co_time (CoAdd now i u) = now"
| "co_time (CoGroupAdd now i u) = now"
| "co_time (CoRemove now i u) = now"
| "co_time (CoGroupAnswer now i u) = now"
| "co_time (CoEnd now i u r) = now"
| "co_time (CoLeave now i u) = now"
| "co_time (CoDisconnect now u) = now"
| "co_time (CoServe now) = now"

fun call_step :: "'r call_redis \<Rightarrow> call_env \<Rightarrow> call_op \<Rightarrow> 'r call_world \<Rightarrow> 'r call_world" where
  "call_step R e (CoInitiate now i a b m t) w = snd (initiateCall R e now i a b m t w)"
| "call_step R e (CoGroup now i a us m t) w = snd (createGroupCall R now i a us m t w)"
| "call_step R e (CoAnswer now i u) w = snd (answerCall R now i u w)"
| "call_step R e (CoReject now i u) w = snd (rejectCall R now i u w)"
| "call_step R e (CoAdd now i u) w = snd (addParticipant R now i u w)"
| "call_step R e (CoGroupAdd now i u) w = snd (group_addParticipant R now i u w)"
| "call_step R e (CoRemove now i u) w = snd (removeParticipant R now i u w)"
| "call_step R e (CoGroupAnswer now i u) w = snd (answerGroupCall R now i u w)"
| "call_step R e (CoEnd now i u r) w = snd (endCall R e now i u r w)"
| "call_step R e (CoLeave now i u) w = snd (endCallForUser R e now i u w)"
| "call_step R e (CoDisconnect now u) w = handleDisconnect R e now u w"
| "call_step R e (CoServe now) w = serve_timers R now w"

fun creates :: "string \<Rightarrow> call_op \<Rightarrow> bool" where
  "creates i (CoInitiate now j a b m t) \<longleftrightarrow> j = i"
| "creates i (CoGroup now j a us m t) \<longleftrightarrow> j = i"
| "creates i _ \<longleftrightarrow> False"

section \<open>The status graph\<close>

inductive call_edge :: "call_status \<Rightarrow> call_status \<Rightarrow> bool" where
  answered: "call_edge Ringing Answered"
| rejected: "call_edge Ringing Rejected"
| missed: "call_edge Ringing Missed"
| ended: "s \<noteq> Ended \<Longrightarrow> s \<noteq> Rejected \<Longrightarrow> call_edge s Ended"

inductive_simps call_edge_iff: "call_edge s s'"

definition evolves :: "call \<Rightarrow> call \<Rightarrow> bool" where
  \<comment> \<open>what an operation on a call may change\<close>
  "evolves c c' \<longleftrightarrow> ca_id c' = ca_id c \<and> ca_type c' = ca_type c \<and> ca_caller_id c' = ca_caller_id c \<and>
     ca_created_at c' = ca_created_at c \<and>
     (ca_type c = OneToOne \<longrightarrow> map cp_user_id (ca_participants c') = map cp_user_id (ca_participants c)) \<and>
     (ca_status c' = ca_status c \<or> call_edge (ca_status c) (ca_status c'))"

lemma map_update_participant:
  "(\<And>p. cp_user_id (f p) = cp_user_id p) \<Longrightarrow> map cp_user_id (update_participant f u ps) = map cp_user_id ps"
  by (induction ps) auto

inductive call_changes :: "'r call_redis \<Rightarrow> int \<Rightarrow> string \<Rightarrow> 'r \<Rightarrow> 'r \<Rightarrow> bool" for R now i where
  none: "call_changes R now i s s"
| other: "call_changes R now i s s' \<Longrightarrow> ca_id c \<noteq> i \<Longrightarrow> call_changes R now i s (saveCall R now c s')"
| same: "call_changes R now i s s' \<Longrightarrow> getCall R now i s' = Some c \<Longrightarrow> evolves c c' \<Longrightarrow> ca_id c' = i \<Longrightarrow>
    call_changes R now i s (saveCall R now c' s')"
| del: "call_changes R now i s s' \<Longrightarrow> call_changes R now i s (deleteCall R j s')"

lemma call_changes_trans:
  "call_changes R now i s' s'' \<Longrightarrow> call_changes R now i s s' \<Longrightarrow> call_changes R now i s s''"
  by (induction rule: call_changes.induct) (auto intro: call_changes.intros)

definition keyed :: "'r call_redis \<Rightarrow> int \<Rightarrow> 'r \<Rightarrow> bool" where
  "keyed R t s \<longleftrightarrow> (\<forall>i c. getCall R t i s = Some c \<longrightarrow> ca_id c = i)"

lemma keyedD: "keyed R t s \<Longrightarrow> getCall R t i s = Some c \<Longrightarrow> ca_id c = i"
  by (simp add: keyed_def)

lemma save_change:
  \<comment> \<open>the step every operation takes: read a call, save it changed\<close>
  assumes "keyed R now s" "getCall R now j s = Some c" "evolves c c'"
  shows "call_changes R now i s (saveCall R now c' s)"
proof -
  have "ca_id c' = j" using assms by (simp add: evolves_def keyedD)
  with assms show ?thesis
    by (cases "j = i") (auto intro: call_changes.other [OF call_changes.none] call_changes.same [OF call_changes.none])
qed

lemma evolves_star:
  assumes "evolves\<^sup>*\<^sup>* c c'"
  shows "ca_id c' = ca_id c \<and> ca_type c' = ca_type c \<and> ca_caller_id c' = ca_caller_id c \<and>
    ca_created_at c' = ca_created_at c \<and>
    (ca_type c = OneToOne \<longrightarrow> map cp_user_id (ca_participants c') = map cp_user_id (ca_participants c)) \<and>
    call_edge\<^sup>*\<^sup>* (ca_status c) (ca_status c')"
  using assms
proof (induction rule: rtranclp_induct)
  case (step d c')
  then have "call_edge\<^sup>*\<^sup>* (ca_status d) (ca_status c')" by (auto simp: evolves_def)
  with step show ?case by (auto simp: evolves_def)
qed simp

locale call_server = kv_store R for R :: "'r call_redis"
begin

lemma get_save: "t \<le> u \<Longrightarrow> getCall R u i (saveCall R t c s) =
    (if ca_id c = i then if u < t + 86400000 then Some c else None else getCall R u i s)"
  by (auto simp: getCall_def saveCall_def CALL_TTL_def get_setex call_store_key_def)

lemma get_delete: "getCall R u i (deleteCall R j s) = (if j = i then None else getCall R u i s)"
  by (auto simp: getCall_def deleteCall_def get_del call_store_key_def)

lemma getCall_later: "t \<le> u \<Longrightarrow> getCall R u i s = Some c \<Longrightarrow> getCall R t i s = Some c"
  by (auto simp: getCall_def intro: get_later)

lemma changes_evolve:
  assumes "call_changes R now i s s'" "now \<le> u" "getCall R u i s' = Some c'"
  shows "\<exists>c. getCall R now i s = Some c \<and> evolves\<^sup>*\<^sup>* c c'"
proof -
  have "\<exists>c. getCall R now i s = Some c \<and> evolves\<^sup>*\<^sup>* c c'" if "getCall R now i s' = Some c'" for c'
    using assms(1) that
  proof (induction arbitrary: c' rule: call_changes.induct)
    case (same s s' c d)
    then have "d = c'" by (simp add: get_save)
    with same show ?case by (blast intro: rtranclp.rtrancl_into_rtrancl)
  qed (auto simp: get_save get_delete split: if_splits)
  with getCall_later [OF assms(2,3)] show ?thesis by blast
qed

lemma changes_keyed:
  assumes "\<And>i. call_changes R now i s s'" "keyed R now s" "now \<le> u"
  shows "keyed R u s'"
  unfolding keyed_def using changes_evolve [OF assms(1,3)] assms(2) by (metis evolves_star keyedD)

lemma answer_changes: "keyed R now (cl_redis w) \<Longrightarrow> call_changes R now i (cl_redis w) (cl_redis (snd (answerCall R now j u w)))"
  by (auto simp: answerCall_def Let_def evolves_def map_update_participant call_edge_iff
      intro!: save_change call_changes.none split: option.split)

lemma reject_changes: "keyed R now (cl_redis w) \<Longrightarrow> call_changes R now i (cl_redis w) (cl_redis (snd (rejectCall R now j u w)))"
  by (auto simp: rejectCall_def Let_def evolves_def call_edge_iff intro!: save_change call_changes.none split: option.split)

lemma add_changes:
  "keyed R now (cl_redis w) \<Longrightarrow> call_changes R now i (cl_redis w) (cl_redis (snd (addParticipant R now j u w)))"
  "keyed R now (cl_redis w) \<Longrightarrow> call_changes R now i (cl_redis w) (cl_redis (snd (group_addParticipant R now j u w)))"
  by (auto simp: addParticipant_def group_addParticipant_def Let_def evolves_def
      intro!: save_change call_changes.none split: option.split)

lemma evolves_disconnect: "evolves c (disconnect_participant now u c)"
  by (simp add: evolves_def disconnect_participant_def map_update_participant)

lemma remove_changes:
  "keyed R now (cl_redis w) \<Longrightarrow> call_changes R now i (cl_redis w) (cl_redis (snd (removeParticipant R now j u w)))"
  by (auto simp: removeParticipant_def Let_def intro!: save_change evolves_disconnect call_changes.none split: option.split)

lemma group_answer_changes:
  "keyed R now (cl_redis w) \<Longrightarrow> call_changes R now i (cl_redis w) (cl_redis (snd (answerGroupCall R now j u w)))"
  by (auto simp: answerGroupCall_def Let_def evolves_def map_update_participant call_edge_iff
      intro!: save_change call_changes.none split: option.split)

lemma history_changes: "call_changes R now i (cl_redis w) (cl_redis (snd (saveCallHistory R e now j w)))"
  by (auto simp: saveCallHistory_def intro: call_changes.none call_changes.del split: option.split)

lemma end_changes:
  assumes "keyed R now (cl_redis w)"
  shows "call_changes R now i (cl_redis w) (cl_redis (snd (endCall R e now j u r w)))"
proof (cases "getCall R now j (cl_redis w)")
  case (Some c)
  let ?c = "c\<lparr>ca_status := Ended, ca_ended_at := Some now, ca_end_reason := Some r, ca_ended_by := Some u\<rparr>"
  show ?thesis
  proof (cases "ca_status c = Ended \<or> ca_status c = Rejected")
    case False
    then have "evolves c ?c" by (auto simp: evolves_def call_edge_iff)
    then have "call_changes R now i (cl_redis w) (saveCall R now ?c (cl_redis w))"
      by (rule save_change [OF assms Some])
    with history_changes [of now i "w\<lparr>cl_redis := saveCall R now ?c (cl_redis w)\<rparr>" e j] Some False show ?thesis
      by (auto simp: endCall_def Let_def intro: call_changes_trans)
  qed (auto simp: endCall_def Some intro: call_changes.none)
qed (simp add: endCall_def call_changes.none)

lemma leave_changes:
  assumes "keyed R now (cl_redis w)"
  shows "call_changes R now i (cl_redis w) (cl_redis (snd (endCallForUser R e now j u w)))"
proof (cases "getCall R now j (cl_redis w)")
  case (Some c)
  let ?w = "w\<lparr>cl_redis := saveCall R now (disconnect_participant now u c) (cl_redis w)\<rparr>"
  have saved: "call_changes R now i (cl_redis w) (cl_redis ?w)" for i
    using save_change [OF assms Some evolves_disconnect] by simp
  then have "keyed R now (cl_redis ?w)" by (rule changes_keyed [OF _ assms order_refl])
  from call_changes_trans [OF end_changes [OF this] saved] saved end_changes [OF assms] Some show ?thesis
    by (simp add: endCallForUser_def Let_def)
qed (simp add: endCallForUser_def call_changes.none)

lemma end_calls_changes:
  "keyed R now (cl_redis w) \<Longrightarrow> call_changes R now i (cl_redis w) (cl_redis (end_calls R e now u cs w))"
proof (induction cs arbitrary: w)
  case (Cons c cs)
  obtain r w' where w': "endCallForUser R e now (ca_id c) u w = (r, w')" by (cases "endCallForUser R e now (ca_id c) u w")
  have first: "call_changes R now i (cl_redis w) (cl_redis w')" for i
    using leave_changes [OF Cons.prems, of i e "ca_id c" u] w' by simp
  then have "keyed R now (cl_redis w')" by (rule changes_keyed [OF _ Cons.prems order_refl])
  from Cons.IH [OF this] first w' show ?case by (auto intro: call_changes_trans split: option.split)
qed (simp add: call_changes.none)

lemma timeout_changes: "keyed R now s \<Longrightarrow> call_changes R now i s (ringing_timeout R now j s)"
  by (auto simp: ringing_timeout_def Let_def evolves_def call_edge_iff intro!: save_change call_changes.none split: option.split)

lemma timeouts_changes:
  "keyed R now s \<Longrightarrow> call_changes R now i s (fold (\<lambda>(due, j). ringing_timeout R now j) ts s)"
proof (induction ts arbitrary: s)
  case (Cons t ts)
  obtain d j where t: "t = (d, j)" by (cases t)
  have "keyed R now (ringing_timeout R now j s)"
    by (rule changes_keyed [OF timeout_changes [OF Cons.prems] Cons.prems order_refl])
  from call_changes_trans [OF Cons.IH [OF this] timeout_changes [OF Cons.prems]] t show ?case by simp
qed (simp add: call_changes.none)

lemma step_changes:
  assumes "keyed R (co_time op) (cl_redis w)" "\<not> creates i op"
  shows "call_changes R (co_time op) i (cl_redis w) (cl_redis (call_step R e op w))"
  using assms
  by (cases op)
    (auto simp: answer_changes reject_changes add_changes remove_changes group_answer_changes end_changes leave_changes
      handleDisconnect_def end_calls_changes serve_timers_def timeouts_changes initiateCall_def createGroupCall_def Let_def
      intro: call_changes.none call_changes.other [OF call_changes.none])

lemma step_keyed:
  assumes "keyed R (co_time op) (cl_redis w)" "co_time op \<le> u"
  shows "keyed R u (cl_redis (call_step R e op w))"
  unfolding keyed_def
proof (intro allI impI)
  fix i c
  assume c: "getCall R u i (cl_redis (call_step R e op w)) = Some c"
  show "ca_id c = i"
  proof (cases "creates i op")
    case True
    then have "getCall R u i (cl_redis w) = Some c \<or> ca_id c = i"
      using c assms(2) by (cases op) (auto simp: initiateCall_def createGroupCall_def Let_def get_save split: if_splits)
    then show ?thesis using getCall_later [OF assms(2)] keyedD [OF assms(1)] by blast
  next
    case False
    show ?thesis
      using changes_evolve [OF step_changes [OF assms(1) False] assms(2) c] assms(1) by (metis evolves_star keyedD)
  qed
qed

lemma keyed_later: "keyed R t s \<Longrightarrow> t \<le> u \<Longrightarrow> keyed R u s"
  using getCall_later by (auto simp: keyed_def)

lemma run_keyed:
  "sorted (t # map co_time ops @ [u]) \<Longrightarrow> keyed R t (cl_redis w) \<Longrightarrow> keyed R u (cl_redis (fold (call_step R e) ops w))"
proof (induction ops arbitrary: t w)
  case Nil
  then show ?case by (simp add: keyed_later)
next
  case (Cons op ops)
  have times: "t \<le> co_time op" "sorted (co_time op # map co_time ops @ [u])" using Cons.prems(1) by simp_all
  have "keyed R (co_time op) (cl_redis (call_step R e op w))"
    by (rule step_keyed [OF keyed_later [OF Cons.prems(2) times(1)] order_refl])
  from Cons.IH [OF times(2) this] show ?case by simp
qed

lemma run_evolves:
  "sorted (t # map co_time ops @ [u]) \<Longrightarrow> keyed R t (cl_redis w) \<Longrightarrow> list_all (\<lambda>op. \<not> creates i op) ops \<Longrightarrow>
   getCall R u i (cl_redis (fold (call_step R e) ops w)) = Some c' \<Longrightarrow>
   \<exists>c. getCall R t i (cl_redis w) = Some c \<and> evolves\<^sup>*\<^sup>* c c'"
proof (induction ops arbitrary: t w)
  case Nil
  then show ?case using getCall_later [of t u] by auto
next
  case (Cons op ops)
  have times: "t \<le> co_time op" "sorted (co_time op # map co_time ops @ [u])" using Cons.prems(1) by simp_all
  note keyed = keyed_later [OF Cons.prems(2) times(1)]
  have none: "\<not> creates i op" "list_all (\<lambda>op. \<not> creates i op) ops" using Cons.prems(3) by simp_all
  have "getCall R u i (cl_redis (fold (call_step R e) ops (call_step R e op w))) = Some c'" using Cons.prems(4) by simp
  from Cons.IH [OF times(2) step_keyed [OF keyed order_refl] none(2) this]
  obtain d where d: "getCall R (co_time op) i (cl_redis (call_step R e op w)) = Some d" "evolves\<^sup>*\<^sup>* d c'" by blast
  from changes_evolve [OF step_changes [OF keyed none(1)] order_refl d(1)]
  obtain c where "getCall R (co_time op) i (cl_redis w) = Some c" "evolves\<^sup>*\<^sup>* c d" by blast
  with d(2) getCall_later [OF times(1)] show ?case by (meson rtranclp_trans)
qed

end

interpretation calls: call_server "map_kv :: (call, call kv_server) kv_redis"
  by (rule call_server.intro) (rule kvs.kv_store_axioms)

abbreviation empty_calls :: "'r \<Rightarrow> 'r call_world" where
  "empty_calls s \<equiv> \<lparr>cl_redis = s, cl_timers = [], cl_history = []\<rparr>"

lemma empty_keyed: "(\<And>k. kv_get R t k s = None) \<Longrightarrow> keyed R t s"
  by (simp add: keyed_def getCall_def)

text \<open>
  C13: Calls move forward. In every run, if a call is stored at some moment and was not created
  again meanwhile, it was already stored at every earlier moment since its creation, as the same
  call of the same caller, and its status was reached from the earlier one along the status graph:
  from ringing to answered, rejected or missed, and to ended from everything but ended and rejected. So
  a call that was answered, rejected, missed or ended never rings again, and one that is gone
  does not come back.
\<close>
theorem calls_follow_status_graph:
  fixes R :: "'r call_redis"
  assumes "kv_store R" "\<And>k. kv_get R t0 k s = None"
    and "sorted (t0 # map co_time pre @ [t])" "sorted (t # map co_time post @ [u])"
    and "list_all (\<lambda>op. \<not> creates i op) post"
    and "getCall R u i (cl_redis (fold (call_step R e) (pre @ post) (empty_calls s))) = Some c'"
  shows "\<exists>c. getCall R t i (cl_redis (fold (call_step R e) pre (empty_calls s))) = Some c \<and>
    call_edge\<^sup>*\<^sup>* (ca_status c) (ca_status c') \<and> ca_type c' = ca_type c \<and> ca_caller_id c' = ca_caller_id c \<and>
    ca_created_at c' = ca_created_at c"
proof -
  note server = call_server.intro [OF assms(1)]
  have "keyed R t (cl_redis (fold (call_step R e) pre (empty_calls s)))"
    by (rule call_server.run_keyed [OF server assms(3)]) (simp add: empty_keyed assms(2))
  from call_server.run_evolves [OF server assms(4) this assms(5)] assms(6)
  obtain c where "getCall R t i (cl_redis (fold (call_step R e) pre (empty_calls s))) = Some c" "evolves\<^sup>*\<^sup>* c c'"
    by auto
  with evolves_star [OF this(2)] show ?thesis by blast
qed

definition demo_call_env :: call_env where
  "demo_call_env = \<lparr>wr_timeout = 30000, wr_insert = Some (\<lambda>r. True)\<rparr>"

lemma calls_follow_status_graph_witness:
  "\<exists>c. getCall map_kv 2000 ''k'' (cl_redis (fold (call_step map_kv demo_call_env)
        [CoInitiate 1000 ''k'' ''ann'' ''bob'' Video ''t''] (empty_calls []))) = Some c \<and>
     call_edge\<^sup>*\<^sup>* (ca_status c) Answered"
proof -
  have stored: "map_option ca_status (getCall map_kv 4000 ''k'' (cl_redis (fold (call_step map_kv demo_call_env)
        ([CoInitiate 1000 ''k'' ''ann'' ''bob'' Video ''t''] @ [CoAnswer 3000 ''k'' ''bob'']) (empty_calls [])))) = Some Answered"
    by code_simp
  then obtain c' where c': "getCall map_kv 4000 ''k'' (cl_redis (fold (call_step map_kv demo_call_env)
        ([CoInitiate 1000 ''k'' ''ann'' ''bob'' Video ''t''] @ [CoAnswer 3000 ''k'' ''bob'']) (empty_calls []))) = Some c'"
      "ca_status c' = Answered"
    by auto
  have "kv_get (map_kv :: (call, call kv_server) kv_redis) 0 k [] = None" for k by (simp add: map_kv_def live_value_def)
  from calls_follow_status_graph [OF kvs.kv_store_axioms this _ _ _ c'(1), where t = 2000] c'(2)
  show ?thesis by auto
qed

section \<open>Ringing ends\<close>

definition timed :: "'r call_redis \<Rightarrow> int \<Rightarrow> string \<Rightarrow> int \<Rightarrow> 'r call_world \<Rightarrow> bool" where
  \<comment> \<open>while the call rings, its timeout is pending\<close>
  "timed R due i t w \<longleftrightarrow> (\<forall>c. getCall R t i (cl_redis w) = Some c \<and> ca_status c = Ringing \<longrightarrow> (due, i) \<in> set (cl_timers w))"

lemma ringing_before: "call_edge\<^sup>*\<^sup>* s Ringing \<Longrightarrow> s = Ringing"
  by (induction s rule: converse_rtranclp_induct) (auto simp: call_edge_iff)

lemma after_ringing: "call_edge\<^sup>*\<^sup>* Ringing s \<Longrightarrow> s \<in> {Ringing, Answered, Rejected, Missed, Ended}"
  by (induction rule: rtranclp_induct) (auto simp: call_edge_iff)

context call_server
begin

lemma timeouts_settle:
  assumes "keyed R now s" "i \<in> snd ` set ts"
    and "getCall R now i (fold (\<lambda>(due, j). ringing_timeout R now j) ts s) = Some c"
  shows "ca_status c \<noteq> Ringing"
  using assms
proof (induction ts arbitrary: s)
  case (Cons t ts)
  obtain d j where t: "t = (d, j)" by (cases t)
  have keyed: "keyed R now (ringing_timeout R now j s)"
    by (rule changes_keyed [OF timeout_changes [OF Cons.prems(1)] Cons.prems(1) order_refl])
  show ?case
  proof (cases "i \<in> snd ` set ts")
    case True
    with Cons.IH [OF keyed] Cons.prems(3) t show ?thesis by simp
  next
    case False
    with Cons.prems(2) t have j: "j = i" by auto
    have "getCall R now i (fold (\<lambda>(due, j). ringing_timeout R now j) ts (ringing_timeout R now j s)) = Some c"
      using Cons.prems(3) t by simp
    from changes_evolve [OF timeouts_changes [OF keyed] order_refl this]
    obtain d where d: "getCall R now i (ringing_timeout R now i s) = Some d" "evolves\<^sup>*\<^sup>* d c" by (auto simp: j)
    have "ca_status d \<noteq> Ringing"
      using d(1) keyedD [OF Cons.prems(1)]
      by (auto simp: ringing_timeout_def get_save split: option.splits if_splits)
    with evolves_star [OF d(2)] ringing_before show ?thesis by metis
  qed
qed simp

lemma end_timers: "cl_timers (snd (endCall R e now j u r w)) = cl_timers w"
  by (simp add: endCall_def saveCallHistory_def Let_def split: option.split)

lemma leave_timers: "cl_timers (snd (endCallForUser R e now j u w)) = cl_timers w"
  by (simp add: endCallForUser_def end_timers Let_def split: option.split)

lemma end_calls_timers: "cl_timers (end_calls R e now u cs w) = cl_timers w"
proof (induction cs arbitrary: w)
  case (Cons c cs)
  then show ?case
    using leave_timers [of e now "ca_id c" u w] by (auto split: prod.split option.split)
qed simp

lemma timers_kept:
  assumes "x \<in> set (cl_timers w)" "\<And>now. op = CoServe now \<Longrightarrow> now < fst x"
  shows "x \<in> set (cl_timers (call_step R e op w))"
  using assms
  by (cases op)
    (auto simp: initiateCall_def createGroupCall_def answerCall_def rejectCall_def addParticipant_def group_addParticipant_def
      removeParticipant_def answerGroupCall_def end_timers leave_timers handleDisconnect_def end_calls_timers serve_timers_def
      Let_def split: option.split)

lemma timed_step:
  assumes "keyed R (co_time op) (cl_redis w)" "\<not> creates i op" "timed R due i (co_time op) w"
  shows "timed R due i (co_time op) (call_step R e op w)"
  unfolding timed_def
proof (intro allI impI)
  fix c
  assume c: "getCall R (co_time op) i (cl_redis (call_step R e op w)) = Some c \<and> ca_status c = Ringing"
  from changes_evolve [OF step_changes [OF assms(1,2)] order_refl conjunct1 [OF c]]
  obtain d where d: "getCall R (co_time op) i (cl_redis w) = Some d" "evolves\<^sup>*\<^sup>* d c" by blast
  from evolves_star [OF d(2)] c have "ca_status d = Ringing" by (simp add: ringing_before)
  with d(1) assms(3) have pending: "(due, i) \<in> set (cl_timers w)" by (simp add: timed_def)
  show "(due, i) \<in> set (cl_timers (call_step R e op w))"
  proof (rule timers_kept [OF pending])
    fix now
    assume op: "op = CoServe now"
    show "now < fst (due, i)"
    proof (rule ccontr)
      assume "\<not> now < fst (due, i)"
      then have "i \<in> snd ` set (filter (\<lambda>(due, c). due \<le> now) (cl_timers w))" using pending by force
      from timeouts_settle [OF _ this] assms(1) c op show False by (auto simp: serve_timers_def)
    qed
  qed
qed

lemma timed_run:
  "sorted (t # map co_time ops @ [u]) \<Longrightarrow> keyed R t (cl_redis w) \<Longrightarrow> list_all (\<lambda>op. \<not> creates i op) ops \<Longrightarrow>
   timed R due i t w \<Longrightarrow> timed R due i u (fold (call_step R e) ops w)"
proof (induction ops arbitrary: t w)
  case Nil
  then show ?case using getCall_later [of t u] by (auto simp: timed_def)
next
  case (Cons op ops)
  have times: "t \<le> co_time op" "sorted (co_time op # map co_time ops @ [u])" using Cons.prems(1) by simp_all
  note keyed = keyed_later [OF Cons.prems(2) times(1)]
  have none: "\<not> creates i op" "list_all (\<lambda>op. \<not> creates i op) ops" using Cons.prems(3) by simp_all
  have "timed R due i (co_time op) w" using Cons.prems(4) getCall_later [OF times(1)] by (auto simp: timed_def)
  from Cons.IH [OF times(2) step_keyed [OF keyed order_refl] none(2) timed_step [OF keyed none(1) this]]
  show ?case by simp
qed

end

text \<open>
  C14: A call does not ring for ever. After a one-to-one call was initiated, whatever happens to
  this and other calls, once the event loop has served the timeouts that were due when the ringing
  timeout had passed, the call rings no more: from then on it is answered, rejected, missed or
  ended, or gone.
\<close>
theorem ringing_is_settled:
  fixes R :: "'r call_redis"
  assumes "kv_store R" "\<And>k. kv_get R t0 k s = None"
    and "sorted (t0 # map co_time pre @ [t])" "initiateCall R e t i a b m tn (fold (call_step R e) pre (empty_calls s)) = (Inr c, w)"
    and "sorted (t # map co_time mid @ [v])" "list_all (\<lambda>op. \<not> creates i op) mid"
    and "t + wr_timeout e \<le> v"
    and "sorted (v # map co_time post @ [u])" "list_all (\<lambda>op. \<not> creates i op) post"
    and "getCall R u i (cl_redis (fold (call_step R e) post (serve_timers R v (fold (call_step R e) mid w)))) = Some c'"
  shows "ca_status c' \<in> {Answered, Rejected, Missed, Ended}"
proof -
  note server = call_server.intro [OF assms(1)]
  let ?w = "fold (call_step R e) pre (empty_calls s)"
  let ?m = "fold (call_step R e) mid w"
  have keyed0: "keyed R t (cl_redis ?w)"
    by (rule call_server.run_keyed [OF server assms(3)]) (simp add: empty_keyed assms(2))
  have w: "w = call_step R e (CoInitiate t i a b m tn) ?w" using assms(4) by simp
  have keyed1: "keyed R t (cl_redis w)"
    unfolding w by (rule call_server.step_keyed [OF server]) (simp_all add: keyed0)
  have "timed R (t + wr_timeout e) i t w"
    using assms(4) by (auto simp: timed_def initiateCall_def Let_def split: if_splits)
  then have "timed R (t + wr_timeout e) i v ?m"
    by (rule call_server.timed_run [OF server assms(5) keyed1 assms(6)])
  moreover have keyed2: "keyed R v (cl_redis ?m)"
    by (rule call_server.run_keyed [OF server assms(5) keyed1])
  ultimately have "timed R (t + wr_timeout e) i v (serve_timers R v ?m)"
    using call_server.timed_step [OF server, of "CoServe v" ?m i "t + wr_timeout e"] by simp
  moreover have "(t + wr_timeout e, i) \<notin> set (cl_timers (serve_timers R v ?m))"
    using assms(7) by (simp add: serve_timers_def)
  ultimately have settled: "ca_status c \<noteq> Ringing" if "getCall R v i (cl_redis (serve_timers R v ?m)) = Some c" for c
    using that by (auto simp: timed_def)
  have keyed3: "keyed R v (cl_redis (serve_timers R v ?m))"
    using call_server.step_keyed [OF server, of "CoServe v" ?m v] keyed2 by simp
  from call_server.run_evolves [OF server assms(8) keyed3 assms(9,10)]
  obtain d where d: "getCall R v i (cl_redis (serve_timers R v ?m)) = Some d" "evolves\<^sup>*\<^sup>* d c'" by blast
  have "sorted (t # map co_time (mid @ [CoServe v]) @ [v])" using assms(5) by (auto simp: sorted_append)
  from call_server.run_evolves [OF server this keyed1, of i e d] assms(6) d(1) obtain c0 where c0: "getCall R t i (cl_redis w) = Some c0" "evolves\<^sup>*\<^sup>* c0 d" by auto
  have "ca_status c0 = Ringing"
    using assms(4) c0(1) call_server.get_save [OF server, of t t i]
    by (auto simp: initiateCall_def Let_def split: if_splits)
  moreover from evolves_star [OF rtranclp_trans [OF c0(2) d(2)]] have "call_edge\<^sup>*\<^sup>* (ca_status c0) (ca_status c')" by simp
  ultimately have "ca_status c' \<in> {Ringing, Answered, Rejected, Missed, Ended}"
    using after_ringing [of "ca_status c'"] by simp
  moreover have "ca_status c' \<noteq> Ringing"
    using settled [OF d(1)] evolves_star [OF d(2)] ringing_before by metis
  ultimately show ?thesis by blast
qed

lemma ringing_is_settled_witness:
  "\<exists>c. getCall map_kv 40000 ''k'' (cl_redis (serve_timers map_kv 31000
       (snd (initiateCall map_kv demo_call_env 1000 ''k'' ''ann'' ''bob'' Audio ''t'' (empty_calls []))))) = Some c \<and>
     ca_status c \<in> {Answered, Rejected, Missed, Ended}"
proof -
  let ?c = "\<lparr>ca_id = ''k'', ca_type = OneToOne, ca_status = Missed, ca_caller_id = ''ann'',
    ca_participants = [\<lparr>cp_user_id = ''ann'', cp_joined_at = Some 1000, cp_left_at = None, cp_status = Calling\<rparr>,
      \<lparr>cp_user_id = ''bob'', cp_joined_at = None, cp_left_at = None, cp_status = ParticipantRinging\<rparr>],
    ca_media_type = Audio, ca_tenant_id = ''t'', ca_created_at = 1000, ca_started_at = None,
    ca_ended_at = Some 31000, ca_end_reason = Some CallTimeout, ca_ended_by = None\<rparr>"
  let ?i = "initiateCall map_kv demo_call_env 1000 ''k'' ''ann'' ''bob'' Audio ''t'' (empty_calls [])"
  have started: "?i = (Inr (?c\<lparr>ca_status := Ringing, ca_ended_at := None, ca_end_reason := None\<rparr>), snd ?i)" by code_simp
  have stored: "getCall map_kv 40000 ''k'' (cl_redis (serve_timers map_kv 31000 (snd ?i))) = Some ?c" by code_simp
  have "kv_get (map_kv :: (call, call kv_server) kv_redis) 0 k [] = None" for k by (simp add: map_kv_def live_value_def)
  from ringing_is_settled [OF kvs.kv_store_axioms this, where pre = "[]" and mid = "[]" and post = "[]" and u = 40000,
      simplified, OF _ started] stored
  show ?thesis by (simp add: demo_call_env_def)
qed

section \<open>One call at a time\<close>

definition exclusive :: "'r call_redis \<Rightarrow> int \<Rightarrow> 'r \<Rightarrow> bool" where
  \<comment> \<open>only one-to-one calls, and no user in two active ones\<close>
  "exclusive R t s \<longleftrightarrow> (\<forall>i c. getCall R t i s = Some c \<longrightarrow> ca_type c = OneToOne) \<and>
     (\<forall>i j c d u. getCall R t i s = Some c \<and> getCall R t j s = Some d \<and> call_active c \<and> call_active d \<and>
        takes_part u c \<and> takes_part u d \<longrightarrow> i = j)"

definition no_groups :: "call_op \<Rightarrow> bool" where
  "no_groups op \<longleftrightarrow> (case op of CoGroup now i a us m t \<Rightarrow> False | _ \<Rightarrow> True)"

lemma takes_part_ids: "takes_part u c \<longleftrightarrow> u \<in> set (map cp_user_id (ca_participants c)) \<or> ca_caller_id c = u"
  by (auto simp: takes_part_def list_ex_iff)

lemma active_before: "call_edge\<^sup>*\<^sup>* s s' \<Longrightarrow> s' \<noteq> Ended \<Longrightarrow> s' \<noteq> Rejected \<Longrightarrow> s \<noteq> Ended \<and> s \<noteq> Rejected"
  by (induction rule: converse_rtranclp_induct) (auto simp: call_edge_iff)

lemma evolves_active:
  assumes "evolves\<^sup>*\<^sup>* c c'" "ca_type c = OneToOne" "call_active c'" "takes_part u c'"
  shows "call_active c \<and> takes_part u c"
  using evolves_star [OF assms(1)] active_before [of "ca_status c" "ca_status c'"] assms(2-4)
  by (auto simp: call_active_def takes_part_ids)

context call_server
begin

lemma no_active_call:
  assumes "getActiveCallsForUser R now u s = []" "getCall R now i s = Some c" "call_active c"
  shows "\<not> takes_part u c"
proof
  assume "takes_part u c"
  moreover have "call_store_key i \<in> set (kv_keys R now ''call:'' s)"
    using assms(2) by (simp add: keys_iff getCall_def call_store_key_def)
  ultimately have "c \<in> set (getActiveCallsForUser R now u s)"
    using assms(2,3) by (force simp: getActiveCallsForUser_def getCall_def List.map_filter_def)
  with assms(1) show False by simp
qed

lemma exclusive_changes:
  assumes "\<And>i. call_changes R now i s s'" "exclusive R now s" "now \<le> u"
  shows "exclusive R u s'"
proof -
  have before: "\<exists>c. getCall R now i s = Some c \<and> evolves\<^sup>*\<^sup>* c c'" if "getCall R u i s' = Some c'" for i c'
    by (rule changes_evolve [OF assms(1,3) that])
  have type: "ca_type c' = OneToOne" if "getCall R u i s' = Some c'" for i c'
    using before [OF that] assms(2) by (metis exclusive_def evolves_star)
  have active: "\<exists>c. getCall R now i s = Some c \<and> call_active c \<and> takes_part x c"
    if "getCall R u i s' = Some c'" "call_active c'" "takes_part x c'" for i c' x
    using before [OF that(1)] that(2,3) assms(2) by (metis exclusive_def evolves_active)
  show ?thesis
    unfolding exclusive_def
  proof (intro conjI allI impI)
    fix i j c d x
    assume "getCall R u i s' = Some c \<and> getCall R u j s' = Some d \<and> call_active c \<and> call_active d \<and> takes_part x c \<and> takes_part x d"
    with active [of i c x] active [of j d x] assms(2) show "i = j" unfolding exclusive_def by blast
  qed (rule type)
qed

lemma exclusive_initiate:
  assumes "exclusive R now (cl_redis w)" "now \<le> u"
  shows "exclusive R u (cl_redis (snd (initiateCall R e now k a b m t w)))"
proof -
  let ?s = "cl_redis w"
  have later: "exclusive R u ?s" using assms(1) getCall_later [OF assms(2)] unfolding exclusive_def by blast
  show ?thesis
  proof (cases "getActiveCallsForUser R now a ?s = [] \<and> getActiveCallsForUser R now b ?s = []")
    case True
    define c where "c = \<lparr>ca_id = k, ca_type = OneToOne, ca_status = Ringing, ca_caller_id = a,
        ca_participants = [\<lparr>cp_user_id = a, cp_joined_at = Some now, cp_left_at = None, cp_status = Calling\<rparr>, new_participant b],
        ca_media_type = m, ca_tenant_id = t, ca_created_at = now, ca_started_at = None,
        ca_ended_at = None, ca_end_reason = None, ca_ended_by = None\<rparr>"
    have saved: "cl_redis (snd (initiateCall R e now k a b m t w)) = saveCall R now c ?s"
      using True by (simp add: initiateCall_def c_def Let_def)
    have new: "takes_part x c \<longleftrightarrow> x = a \<or> x = b" for x by (auto simp: takes_part_ids c_def)
    have apart: False if "getCall R u i ?s = Some d" "call_active d" "takes_part x d" "takes_part x c" for i d x
      using no_active_call [OF _ getCall_later [OF assms(2) that(1)] that(2)] True that(3,4) new by auto
    have get: "getCall R u i (saveCall R now c ?s) = Some d \<Longrightarrow> (i = k \<and> d = c) \<or> (i \<noteq> k \<and> getCall R u i ?s = Some d)" for i d
      using get_save [OF assms(2), of i c ?s] by (auto simp: c_def split: if_splits)
    show ?thesis
      unfolding saved exclusive_def
    proof (intro conjI allI impI)
      fix i d
      assume "getCall R u i (saveCall R now c ?s) = Some d"
      from get [OF this] later show "ca_type d = OneToOne" unfolding exclusive_def by (auto simp: c_def)
    next
      fix i j d d' x
      assume "getCall R u i (saveCall R now c ?s) = Some d \<and> getCall R u j (saveCall R now c ?s) = Some d' \<and>
        call_active d \<and> call_active d' \<and> takes_part x d \<and> takes_part x d'"
      with get [of i d] get [of j d'] apart [of i d x] apart [of j d' x] later show "i = j"
        unfolding exclusive_def by blast
    qed
  qed (use later in \<open>auto simp: initiateCall_def\<close>)
qed

lemma exclusive_step:
  assumes "exclusive R (co_time op) (cl_redis w)" "keyed R (co_time op) (cl_redis w)" "no_groups op" "co_time op \<le> u"
  shows "exclusive R u (cl_redis (call_step R e op w))"
proof (cases "\<exists>now k a b m t. op = CoInitiate now k a b m t")
  case True
  with assms exclusive_initiate show ?thesis by auto
next
  case False
  with assms(3) have "\<not> creates i op" for i by (cases op) (auto simp: no_groups_def)
  from exclusive_changes [OF step_changes [OF assms(2) this] assms(1,4)] show ?thesis .
qed

lemma exclusive_run:
  "sorted (t # map co_time ops @ [u]) \<Longrightarrow> keyed R t (cl_redis w) \<Longrightarrow> list_all no_groups ops \<Longrightarrow>
   exclusive R t (cl_redis w) \<Longrightarrow> exclusive R u (cl_redis (fold (call_step R e) ops w))"
proof (induction ops arbitrary: t w)
  case Nil
  then have "exclusive R t (cl_redis w)" "t \<le> u" by simp_all
  then show ?case using getCall_later [of t u] unfolding exclusive_def by simp blast
next
  case (Cons op ops)
  have times: "t \<le> co_time op" "sorted (co_time op # map co_time ops @ [u])" using Cons.prems(1) by simp_all
  note keyed = keyed_later [OF Cons.prems(2) times(1)]
  have none: "no_groups op" "list_all no_groups ops" using Cons.prems(3) by simp_all
  have "exclusive R (co_time op) (cl_redis w)"
    using Cons.prems(4) getCall_later [OF times(1)] unfolding exclusive_def by blast
  from Cons.IH [OF times(2) step_keyed [OF keyed order_refl] none(2) exclusive_step [OF this keyed none(1) order_refl]]
  show ?case by simp
qed

end

text \<open>
  One call at a time. In every run without group calls, two stored calls that share a user and
  are both active (neither ended nor rejected) are the same call: whoever is in a call is busy for
  others. A missed call stays active, so both its users stay busy; group calls are created without
  this check.
\<close>
lemma one_active_call_per_user:
  fixes R :: "'r call_redis"
  assumes "kv_store R" "\<And>k. kv_get R t k s = None"
    and "sorted (t # map co_time ops @ [u])" "list_all no_groups ops"
    and "getCall R u i (cl_redis (fold (call_step R e) ops (empty_calls s))) = Some c"
    and "getCall R u j (cl_redis (fold (call_step R e) ops (empty_calls s))) = Some d"
    and "call_active c" "call_active d" "takes_part x c" "takes_part x d"
  shows "i = j"
proof -
  have "exclusive R t (cl_redis (empty_calls s))" by (simp add: exclusive_def getCall_def assms(2))
  moreover have "keyed R t (cl_redis (empty_calls s))" by (simp add: empty_keyed assms(2))
  ultimately have "exclusive R u (cl_redis (fold (call_step R e) ops (empty_calls s)))"
    using call_server.exclusive_run [OF call_server.intro [OF assms(1)] assms(3) _ assms(4)] by blast
  with assms(5-10) show ?thesis unfolding exclusive_def by blast
qed

lemma one_active_call_per_user_example:
  "''k'' = ca_id (hd (getActiveCallsForUser map_kv 3000 ''bob'' (cl_redis (fold (call_step map_kv demo_call_env)
     [CoInitiate 1000 ''k'' ''ann'' ''bob'' Video ''t'', CoInitiate 2000 ''l'' ''bob'' ''cid'' Audio ''t''] (empty_calls [])))))"
proof -
  let ?ops = "[CoInitiate 1000 ''k'' ''ann'' ''bob'' Video ''t'', CoInitiate 2000 ''l'' ''bob'' ''cid'' Audio ''t'']"
  let ?s = "cl_redis (fold (call_step map_kv demo_call_env) ?ops (empty_calls []))"
  let ?d = "hd (getActiveCallsForUser map_kv 3000 ''bob'' ?s)"
  have k: "getCall map_kv 3000 ''k'' ?s = Some (the (getCall map_kv 3000 ''k'' ?s))" by code_simp
  have d: "getCall map_kv 3000 (ca_id ?d) ?s = Some ?d" by code_simp
  have active: "call_active (the (getCall map_kv 3000 ''k'' ?s)) \<and> call_active ?d" by code_simp
  have part: "takes_part ''bob'' (the (getCall map_kv 3000 ''k'' ?s)) \<and> takes_part ''bob'' ?d" by code_simp
  have "kv_get (map_kv :: (call, call kv_server) kv_redis) 0 x [] = None" for x by (simp add: map_kv_def live_value_def)
  then show ?thesis
    by (rule one_active_call_per_user [OF kvs.kv_store_axioms _ _ _ k d active [THEN conjunct1] active [THEN conjunct2]
        part [THEN conjunct1] part [THEN conjunct2]]) (simp_all add: no_groups_def)
qed

lemma missed_call_blocks:
  \<comment> \<open>a call that nobody answered keeps its users busy, and nothing but their hanging up ends it\<close>
  "fst (initiateCall map_kv demo_call_env 60000 ''l'' ''cid'' ''bob'' Audio ''t'' (serve_timers map_kv 31000
     (snd (initiateCall map_kv demo_call_env 1000 ''k'' ''ann'' ''bob'' Audio ''t'' (empty_calls [])))))
   = Inl ''Callee is busy''"
  by code_simp

lemma stranger_rejects:
  \<comment> \<open>rejecting does not ask whether the user takes part\<close>
  "fst (rejectCall map_kv 2000 ''k'' ''eve''
     (snd (initiateCall map_kv demo_call_env 1000 ''k'' ''ann'' ''bob'' Audio ''t'' (empty_calls [])))) = None"
  by code_simp

lemma caller_answers:
  "map_sum (\<lambda>e. e) ca_status (fst (answerCall map_kv 2000 ''k'' ''ann''
     (snd (initiateCall map_kv demo_call_env 1000 ''k'' ''ann'' ''bob'' Audio ''t'' (empty_calls []))))) = Inr Answered"
  by code_simp

lemma group_call_rings_on:
  \<comment> \<open>a group call has no ringing timeout\<close>
  "map_option ca_status (getCall map_kv 80000000 ''k'' (cl_redis (serve_timers map_kv 80000000
     (snd (createGroupCall map_kv 1000 ''k'' ''ann'' [''bob''] Video ''t'' (empty_calls [])))))) = Some Ringing"
  by code_simp

end
