(* ===== verification/SkRate.thy ===== *)
theory SkRate
  imports SkStore "HOL-Library.Word"
begin

text \<open>
  Rate limits and abuse detection of the socket service (services/socket-service/src/ratelimit and
  abuse). Requests are counted in sorted sets of Redis whose members are the scores themselves;
  the commands are a parameter with the locale \<open>window_store\<close>. Scores are in thousandths of a
  millisecond, since a request of cost \<open>n\<close> adds \<open>n\<close> scores a thousandth apart. Logging is left out.
\<close>

section \<open>Sorted sets\<close>

record 'r window_redis =
  zs_range :: "int \<Rightarrow> string \<Rightarrow> 'r \<Rightarrow> int list" \<comment> \<open>\<open>ZRANGE key 0 -1\<close>\<close>
  zs_card :: "int \<Rightarrow> string \<Rightarrow> 'r \<Rightarrow> nat"
  zs_remrange :: "int \<Rightarrow> string \<Rightarrow> int \<Rightarrow> int \<Rightarrow> 'r \<Rightarrow> 'r"
  zs_add :: "int \<Rightarrow> string \<Rightarrow> int \<Rightarrow> 'r \<Rightarrow> 'r"
  zs_expire :: "int \<Rightarrow> string \<Rightarrow> int \<Rightarrow> 'r \<Rightarrow> 'r"
  zs_del :: "string \<Rightarrow> 'r \<Rightarrow> 'r"

locale window_store =
  fixes R :: "'r window_redis"
  assumes range_sorted: "sorted (zs_range R t k s) \<and> distinct (zs_range R t k s)"
    and range_later: "t \<le> u \<Longrightarrow> set (zs_range R u k s) \<subseteq> set (zs_range R t k s)"
    and card: "zs_card R t k s = length (zs_range R t k s)"
    and remrange: "t \<le> u \<Longrightarrow> set (zs_range R u k' (zs_remrange R t k a b s)) =
      (if k' = k then {x \<in> set (zs_range R u k s). \<not> (a \<le> x \<and> x \<le> b)} else set (zs_range R u k' s))"
    and add: "set (zs_range R t k (zs_add R t k x s)) = insert x (set (zs_range R t k s))"
    and add_other: "k' \<noteq> k \<Longrightarrow> zs_range R u k' (zs_add R t k x s) = zs_range R u k' s"
    and expire: "0 < d \<Longrightarrow> t \<le> u \<Longrightarrow> zs_range R u k (zs_expire R t k d s) =
      (if u < t + 1000 * d then zs_range R t k s else [])"
    and expire_other: "k' \<noteq> k \<Longrightarrow> zs_range R u k' (zs_expire R t k d s) = zs_range R u k' s"
    and del: "zs_range R t k' (zs_del R k s) = (if k' = k then [] else zs_range R t k' s)"

type_synonym window_server = "(string, int list \<times> int option) jsmap"

definition live_window :: "int \<Rightarrow> string \<Rightarrow> window_server \<Rightarrow> int list" where
  "live_window t k s = (case map_of s k of
     None \<Rightarrow> []
   | Some (xs, None) \<Rightarrow> sort (remdups xs)
   | Some (xs, Some e) \<Rightarrow> if t < e then sort (remdups xs) else [])"

definition zset_lifetime :: "int \<Rightarrow> string \<Rightarrow> window_server \<Rightarrow> int option" where
  \<comment> \<open>what is left of the zset_lifetime of a key that has not ended\<close>
  "zset_lifetime t k s = (case map_of s k of Some (xs, Some e) \<Rightarrow> if t < e then Some e else None | _ \<Rightarrow> None)"

definition map_windows :: "window_server window_redis" where
  "map_windows = \<lparr>zs_range = live_window, zs_card = (\<lambda>t k s. length (live_window t k s)),
     zs_remrange = (\<lambda>t k a b s. case map_of s k of None \<Rightarrow> s
       | Some (xs, e) \<Rightarrow> AList.update k (filter (\<lambda>x. \<not> (a \<le> x \<and> x \<le> b)) xs, e) s),
     zs_add = (\<lambda>t k x s. AList.update k (x # live_window t k s, zset_lifetime t k s) s),
     zs_expire = (\<lambda>t k d s. AList.update k (live_window t k s, Some (t + 1000 * d)) s),
     zs_del = (\<lambda>k s. AList.delete k s)\<rparr>"

lemma live_window_sorted: "sorted (live_window t k s) \<and> distinct (live_window t k s)"
  by (auto simp: live_window_def split: option.split)

lemma sort_live_window: "sort (remdups (live_window t k s)) = live_window t k s"
  using live_window_sorted [of t k s] by (simp add: distinct_remdups_id sorted_sort_id)

interpretation windows: window_store map_windows
proof
  fix t u d :: int and k :: string and s :: window_server
  assume "0 < d" "t \<le> u"
  then show "zs_range map_windows u k (zs_expire map_windows t k d s) =
      (if u < t + 1000 * d then zs_range map_windows t k s else [])"
    using sort_live_window by (simp add: map_windows_def live_window_def [of u])
next
  fix t u :: int and k :: string and s :: window_server
  assume "t \<le> u"
  show "set (zs_range map_windows u k s) \<subseteq> set (zs_range map_windows t k s)"
  proof (cases "map_of s k")
    case (Some v)
    then show ?thesis using \<open>t \<le> u\<close> by (cases v; cases "snd v") (auto simp: map_windows_def live_window_def)
  qed (simp add: map_windows_def live_window_def)
qed (auto simp: map_windows_def live_window_sorted zset_lifetime_def live_window_def set_insort_key split: option.splits if_splits)

section \<open>Sliding window\<close>

record rate_limit_result =
  rr_allowed :: bool
  rr_remaining :: int
  rr_reset_at :: int
  rr_retry_after_ms :: "int option"

definition limit_key :: "string \<Rightarrow> string \<Rightarrow> string" where
  "limit_key keyPrefix key = keyPrefix @ '':'' @ key"

definition checkLimit ::
    "'r window_redis \<Rightarrow> bool \<Rightarrow> int \<Rightarrow> string \<Rightarrow> string \<Rightarrow> int \<Rightarrow> int \<Rightarrow> nat \<Rightarrow> 'r \<Rightarrow> rate_limit_result \<times> 'r" where
  \<comment> \<open>\<open>up\<close>: whether Redis answers; if it does not, the request is allowed\<close>
  "checkLimit R up now keyPrefix key limit windowMs cost s =
     (if \<not> up then (\<lparr>rr_allowed = True, rr_remaining = limit, rr_reset_at = now + windowMs, rr_retry_after_ms = None\<rparr>, s)
      else let redisKey = limit_key keyPrefix key;
          windowStart = now - windowMs;
          s1 = zs_remrange R now redisKey 0 (1000 * windowStart) s;
          currentCount = int (zs_card R now redisKey s1);
          remaining = max 0 (limit - currentCount - int cost)
        in if limit < currentCount + int cost
           then let retry = (case zs_range R now redisKey s1 of
                  [] \<Rightarrow> 1000 * windowMs
                | oldest # _ \<Rightarrow> max 0 (oldest + 1000 * windowMs - 1000 * now))
             in (\<lparr>rr_allowed = False, rr_remaining = 0, rr_reset_at = (1000 * now + retry) div 1000,
                 rr_retry_after_ms = Some ((retry + 999) div 1000)\<rparr>, s1)
           else let s2 = fold (\<lambda>i. zs_add R now redisKey (1000 * now + int i)) [0..<cost] s1;
                s3 = zs_expire R now redisKey ((windowMs + 999) div 1000 + 1) s2
             in (\<lparr>rr_allowed = True, rr_remaining = remaining, rr_reset_at = now + windowMs, rr_retry_after_ms = None\<rparr>, s3))"

definition reset_limit :: "'r window_redis \<Rightarrow> string \<Rightarrow> string \<Rightarrow> 'r \<Rightarrow> 'r" where
  "reset_limit R keyPrefix key s = zs_del R (limit_key keyPrefix key) s"

definition getCount :: "'r window_redis \<Rightarrow> int \<Rightarrow> string \<Rightarrow> string \<Rightarrow> 'r \<Rightarrow> nat" where
  "getCount R now keyPrefix key s = zs_card R now (limit_key keyPrefix key) s"

section \<open>Limits of rooms, media and search\<close>

record room_limits =
  rl_roomJoinPerMinute :: int
  rl_messagePerMinutePerRoom :: int
  rl_messagePerMinutePerUser :: int
  rl_broadcastPerSecondPerRoom :: int
  rl_typingPerSecondPerUser :: int

definition default_room_limits :: room_limits where
  "default_room_limits = \<lparr>rl_roomJoinPerMinute = 20, rl_messagePerMinutePerRoom = 100,
     rl_messagePerMinutePerUser = 60, rl_broadcastPerSecondPerRoom = 10, rl_typingPerSecondPerUser = 5\<rparr>"

definition scoped_key :: "string \<Rightarrow> string \<Rightarrow> string \<Rightarrow> string" where
  "scoped_key kind tenantId subject = kind @ '':'' @ tenantId @ '':'' @ subject"

abbreviation room_check :: "'r window_redis \<Rightarrow> bool \<Rightarrow> int \<Rightarrow> string \<Rightarrow> int \<Rightarrow> int \<Rightarrow> 'r \<Rightarrow> rate_limit_result \<times> 'r" where
  "room_check R up now key limit windowMs s \<equiv> checkLimit R up now ''room:ratelimit'' key limit windowMs 1 s"

definition checkJoinLimit ::
    "'r window_redis \<Rightarrow> bool \<Rightarrow> room_limits \<Rightarrow> int \<Rightarrow> string \<Rightarrow> string \<Rightarrow> 'r \<Rightarrow> rate_limit_result \<times> 'r" where
  "checkJoinLimit R up cfg now userId tenantId s =
     room_check R up now (scoped_key ''join:user'' tenantId userId) (rl_roomJoinPerMinute cfg) 60000 s"

definition checkMessageLimit ::
    "'r window_redis \<Rightarrow> bool \<Rightarrow> room_limits \<Rightarrow> int \<Rightarrow> string \<Rightarrow> string \<Rightarrow> string \<Rightarrow> 'r \<Rightarrow> rate_limit_result \<times> 'r" where
  "checkMessageLimit R up cfg now userId roomId tenantId s =
     (case room_check R up now (scoped_key ''message:user'' tenantId userId) (rl_messagePerMinutePerUser cfg) 60000 s of
        (userLimit, s1) \<Rightarrow>
          if \<not> rr_allowed userLimit then (userLimit, s1)
          else (case room_check R up now (scoped_key ''message:room'' tenantId roomId) (rl_messagePerMinutePerRoom cfg) 60000 s1 of
            (roomLimit, s2) \<Rightarrow>
              if \<not> rr_allowed roomLimit then (roomLimit, s2)
              else (\<lparr>rr_allowed = True, rr_remaining = min (rr_remaining userLimit) (rr_remaining roomLimit),
                  rr_reset_at = (if rr_reset_at roomLimit < rr_reset_at userLimit then rr_reset_at userLimit else rr_reset_at roomLimit),
                  rr_retry_after_ms = None\<rparr>, s2)))"

definition checkBroadcastLimit ::
    "'r window_redis \<Rightarrow> bool \<Rightarrow> room_limits \<Rightarrow> int \<Rightarrow> string \<Rightarrow> string \<Rightarrow> 'r \<Rightarrow> rate_limit_result \<times> 'r" where
  "checkBroadcastLimit R up cfg now roomId tenantId s =
     room_check R up now (scoped_key ''broadcast:room'' tenantId roomId) (rl_broadcastPerSecondPerRoom cfg) 1000 s"

definition checkTypingLimit ::
    "'r window_redis \<Rightarrow> bool \<Rightarrow> room_limits \<Rightarrow> int \<Rightarrow> string \<Rightarrow> string \<Rightarrow> 'r \<Rightarrow> rate_limit_result \<times> 'r" where
  "checkTypingLimit R up cfg now userId tenantId s =
     room_check R up now (scoped_key ''typing:user'' tenantId userId) (rl_typingPerSecondPerUser cfg) 1000 s"

definition resetUserLimits :: "'r window_redis \<Rightarrow> string \<Rightarrow> string \<Rightarrow> 'r \<Rightarrow> 'r" where
  "resetUserLimits R userId tenantId s =
     fold (\<lambda>kind. reset_limit R ''room:ratelimit'' (scoped_key kind tenantId userId))
       [''join:user'', ''message:user'', ''typing:user''] s"

definition resetRoomLimits :: "'r window_redis \<Rightarrow> string \<Rightarrow> string \<Rightarrow> 'r \<Rightarrow> 'r" where
  "resetRoomLimits R roomId tenantId s =
     fold (\<lambda>kind. reset_limit R ''room:ratelimit'' (scoped_key kind tenantId roomId))
       [''message:room'', ''broadcast:room''] s"

datatype media_operation = MediaUpload | MediaDownload | MediaDelete | MediaMetadata

record media_limits =
  mdl_uploadPerMinute :: int
  mdl_downloadPerMinute :: int
  mdl_deletePerMinute :: int
  mdl_metadataPerMinute :: int

definition default_media_limits :: media_limits where
  "default_media_limits = \<lparr>mdl_uploadPerMinute = 10, mdl_downloadPerMinute = 100, mdl_deletePerMinute = 20, mdl_metadataPerMinute = 50\<rparr>"

definition media_key :: "media_operation \<Rightarrow> string" where
  "media_key m = (case m of MediaUpload \<Rightarrow> ''upload:user'' | MediaDownload \<Rightarrow> ''download:user''
     | MediaDelete \<Rightarrow> ''delete:user'' | MediaMetadata \<Rightarrow> ''metadata:user'')"

definition checkMediaLimit ::
    "'r window_redis \<Rightarrow> bool \<Rightarrow> media_limits \<Rightarrow> media_operation \<Rightarrow> int \<Rightarrow> string \<Rightarrow> string \<Rightarrow> 'r \<Rightarrow> rate_limit_result \<times> 'r" where
  \<comment> \<open>\<open>checkUploadLimit\<close>, \<open>checkDownloadLimit\<close>, \<open>checkDeleteLimit\<close> and \<open>checkMetadataLimit\<close>\<close>
  "checkMediaLimit R up cfg m now userId tenantId s =
     checkLimit R up now ''media:ratelimit'' (scoped_key (media_key m) tenantId userId)
       (case m of MediaUpload \<Rightarrow> mdl_uploadPerMinute cfg | MediaDownload \<Rightarrow> mdl_downloadPerMinute cfg
        | MediaDelete \<Rightarrow> mdl_deletePerMinute cfg | MediaMetadata \<Rightarrow> mdl_metadataPerMinute cfg) 60000 1 s"

definition resetMediaLimits :: "'r window_redis \<Rightarrow> string \<Rightarrow> string \<Rightarrow> 'r \<Rightarrow> 'r" where
  "resetMediaLimits R userId tenantId s =
     fold (\<lambda>m. reset_limit R ''media:ratelimit'' (scoped_key (media_key m) tenantId userId))
       [MediaUpload, MediaDownload, MediaDelete, MediaMetadata] s"

record search_limits =
  sl_searchPerMinute :: int
  sl_complexSearchPerMinute :: int

definition default_search_limits :: search_limits where
  "default_search_limits = \<lparr>sl_searchPerMinute = 30, sl_complexSearchPerMinute = 10\<rparr>"

definition checkSearchLimit ::
    "'r window_redis \<Rightarrow> bool \<Rightarrow> search_limits \<Rightarrow> int \<Rightarrow> string \<Rightarrow> string \<Rightarrow> bool \<Rightarrow> 'r \<Rightarrow> rate_limit_result \<times> 'r" where
  "checkSearchLimit R up cfg now userId tenantId isComplex s =
     checkLimit R up now ''search:ratelimit'' (scoped_key ''search:user'' tenantId userId)
       (if isComplex then sl_complexSearchPerMinute cfg else sl_searchPerMinute cfg) 60000 1 s"

definition resetSearchLimits :: "'r window_redis \<Rightarrow> string \<Rightarrow> string \<Rightarrow> 'r \<Rightarrow> 'r" where
  "resetSearchLimits R userId tenantId s =
     reset_limit R ''search:ratelimit'' (scoped_key ''search:user'' tenantId userId) s"

section \<open>Abuse\<close>

definition FLOOD_THRESHOLD :: nat where
  "FLOOD_THRESHOLD = 10"

definition FLOOD_WINDOW_MS :: int where
  "FLOOD_WINDOW_MS = 1000"

definition DUPLICATE_WINDOW_MS :: int where
  "DUPLICATE_WINDOW_MS = 5000"

definition flood_key :: "string \<Rightarrow> string \<Rightarrow> string" where
  "flood_key tenantId userId = ''abuse:flood:'' @ tenantId @ '':'' @ userId"

definition checkFlood :: "'r window_redis \<Rightarrow> int \<Rightarrow> string \<Rightarrow> string \<Rightarrow> 'r \<Rightarrow> (bool \<times> nat) \<times> 'r" where
  \<comment> \<open>whether the user is flooding, and the number of requests; the report is left out\<close>
  "checkFlood R now userId tenantId s =
     (let key = flood_key tenantId userId;
          s1 = zs_remrange R now key 0 (1000 * (now - FLOOD_WINDOW_MS)) s;
          s2 = zs_add R now key (1000 * now) s1;
          s3 = zs_expire R now key 2 s2;
          count = zs_card R now key s3
      in ((FLOOD_THRESHOLD < count, count), s3))"

definition hashContent :: "string \<Rightarrow> int" where
  \<comment> \<open>the 32-bit hash; \<open>hash & hash\<close> wraps to a signed 32-bit integer\<close>
  "hashContent content = sint (foldl (\<lambda>(hash :: 32 word) c. push_bit 5 hash - hash + of_nat (of_char c)) 0 content)"

definition base36_digit :: "nat \<Rightarrow> char" where
  "base36_digit d = (if d < 10 then char_of (48 + d) else char_of (87 + d))"

fun show36 :: "nat \<Rightarrow> string" where
  "show36 n = (if n < 36 then [base36_digit n] else show36 (n div 36) @ [base36_digit (n mod 36)])"

declare show36.simps [simp del]

definition duplicate_key :: "string \<Rightarrow> string \<Rightarrow> string \<Rightarrow> string" where
  "duplicate_key tenantId userId content = ''abuse:duplicate:'' @ tenantId @ '':'' @ userId @ '':'' @
     (let h = hashContent content in if h < 0 then CHR ''-'' # show36 (nat (- h)) else show36 (nat h))"

definition checkDuplicate :: "(string, 'r) kv_redis \<Rightarrow> int \<Rightarrow> string \<Rightarrow> string \<Rightarrow> string \<Rightarrow> 'r \<Rightarrow> bool \<times> 'r" where
  "checkDuplicate K now userId content tenantId s =
     (let key = duplicate_key tenantId userId content in
      if truthy_str (kv_get K now key s) then (True, s)
      else (False, kv_setex K now key ((DUPLICATE_WINDOW_MS + 999) div 1000) ''1'' s))"

fun run_of :: "nat \<Rightarrow> char \<Rightarrow> string \<Rightarrow> bool" where
  \<comment> \<open>\<open>(.)\1{10,}\<close>: with \<open>n\<close> equal characters just seen, some run reaches eleven; \<open>.\<close> is no line end\<close>
  "run_of n c [] \<longleftrightarrow> False"
| "run_of n c (d # s) \<longleftrightarrow>
     (let m = (if d \<in> {CHR 0x0A, CHR 0x0D} then 0 else if d = c \<and> 0 < n then Suc n else 1) in 11 \<le> m \<or> run_of m d s)"

fun url_count :: "string \<Rightarrow> nat" where
  "url_count [] = 0"
| "url_count (c # s) = (if prefix ''http://'' (c # s) \<or> prefix ''https://'' (c # s) then 1 else 0) + url_count s"

definition is_capital :: "char \<Rightarrow> bool" where
  "is_capital c \<longleftrightarrow> 65 \<le> (of_char c :: nat) \<and> (of_char c :: nat) \<le> 90"

definition spam_reasons :: "bool \<Rightarrow> string \<Rightarrow> (string \<times> nat) list" where
  \<comment> \<open>the reasons found and their weights in tenths\<close>
  "spam_reasons isDuplicate content =
     (if isDuplicate then [(''Duplicate message detected'', 5)] else []) @
     (if 5000 < length content then [(''Message too long'', 3)] else []) @
     (if 7 * length content < 10 * length (filter is_capital content) \<and> 10 < length content
      then [(''Excessive capital letters'', 2)] else []) @
     (if run_of 0 (CHR ''a'') content then [(''Repeated characters detected'', 4)] else []) @
     (if 3 < url_count content then [(''Excessive URLs'', 3)] else [])"

record spam_result =
  sp_is_spam :: bool
  sp_confidence :: nat \<comment> \<open>in tenths\<close>
  sp_reasons :: "string list"

definition detectSpam :: "(string, 'r) kv_redis \<Rightarrow> int \<Rightarrow> string \<Rightarrow> string \<Rightarrow> string \<Rightarrow> 'r \<Rightarrow> spam_result \<times> 'r" where
  "detectSpam K now userId content tenantId s =
     (case checkDuplicate K now userId content tenantId s of
        (isDuplicate, s') \<Rightarrow>
          let found = spam_reasons isDuplicate content; confidence = sum_list (map snd found)
          in (\<lparr>sp_is_spam = 7 \<le> confidence, sp_confidence = min confidence 10, sp_reasons = map fst found\<rparr>, s'))"

end
