(* ===== verification/SkRateBounds.thy ===== *)
theory SkRateBounds
  imports SkRate
begin

text \<open>
  What the rate limits of the socket service bound: how many requests a window admits, when a
  refused request may be repeated, and what the flood check counts.
\<close>

section \<open>Runs\<close>

record limit_request =
  lq_key :: string
  lq_limit :: int
  lq_window :: int
  lq_time :: int

fun limit_run :: "'r window_redis \<Rightarrow> string \<Rightarrow> limit_request list \<Rightarrow> 'r \<Rightarrow> limit_request list \<times> 'r" where
  \<comment> \<open>the requests of cost one that were admitted\<close>
  "limit_run R pre [] s = ([], s)"
| "limit_run R pre (q # qs) s =
     (case checkLimit R True (lq_time q) pre (lq_key q) (lq_limit q) (lq_window q) 1 s of
        (r, s') \<Rightarrow> apfst (if rr_allowed r then (#) q else (\<lambda>x. x)) (limit_run R pre qs s'))"

definition admitted_times :: "string \<Rightarrow> limit_request list \<Rightarrow> int set" where
  "admitted_times key qs = lq_time ` {q \<in> set qs. lq_key q = key}"

lemma admitted_simps [simp]:
  "admitted_times key [] = {}"
  "admitted_times key (q # qs) = (if lq_key q = key then insert (lq_time q) (admitted_times key qs) else admitted_times key qs)"
  by (auto simp: admitted_times_def)

lemma finite_admitted [simp]: "finite (admitted_times key qs)"
  by (simp add: admitted_times_def)

lemma limit_key_inj: "limit_key p k = limit_key p k' \<longleftrightarrow> k = k'"
  by (simp add: limit_key_def)

definition window_holds :: "'r window_redis \<Rightarrow> string \<Rightarrow> int \<Rightarrow> int \<Rightarrow> int \<Rightarrow> int set \<Rightarrow> 'r \<Rightarrow> bool" where
  \<comment> \<open>from a moment on, the set holds the admitted times that are in the window, and no window holds too many\<close>
  "window_holds R redisKey L W t G s \<longleftrightarrow> finite G \<and>
     (\<forall>g \<in> G. g \<le> t) \<and>
     (\<forall>u. t \<le> u \<longrightarrow> (\<forall>g \<in> G. u - W < g \<longrightarrow> 1000 * g \<in> set (zs_range R u redisKey s))) \<and>
     (\<forall>T. int (card {g \<in> G. T - W < g \<and> g \<le> T}) \<le> L)"

context window_store
begin

lemma check_other:
  assumes "limit_key p k \<noteq> redisKey" "now \<le> u"
  shows "set (zs_range R u redisKey (snd (checkLimit R True now p k l w 1 s))) = set (zs_range R u redisKey s)"
  using assms by (simp add: checkLimit_def Let_def remrange add_other expire_other)

lemma check_allowed:
  "rr_allowed (fst (checkLimit R True now p k l w 1 s)) \<longleftrightarrow>
     int (length (zs_range R now (limit_key p k) (zs_remrange R now (limit_key p k) 0 (1000 * (now - w)) s))) + 1 \<le> l"
  by (auto simp: checkLimit_def Let_def card)

lemma after_refusal:
  assumes "\<not> rr_allowed (fst (checkLimit R True now p k l w 1 s))" "now \<le> u"
  shows "set (zs_range R u (limit_key p k) (snd (checkLimit R True now p k l w 1 s))) =
    {x \<in> set (zs_range R u (limit_key p k) s). \<not> (0 \<le> x \<and> x \<le> 1000 * (now - w))}"
  using assms by (auto simp: checkLimit_def Let_def remrange)

lemma after_admission:
  assumes "rr_allowed (fst (checkLimit R True now p k l w 1 s))" "now \<le> u" "u < now + w" "0 < w"
  shows "set (zs_range R u (limit_key p k) (snd (checkLimit R True now p k l w 1 s))) =
    insert (1000 * now) {x \<in> set (zs_range R now (limit_key p k) s). \<not> (0 \<le> x \<and> x \<le> 1000 * (now - w))}"
proof -
  have "w + 999 = 1000 * ((w + 999) div 1000) + (w + 999) mod 1000" by simp
  then have ceil: "w \<le> 1000 * ((w + 999) div 1000)"
    using pos_mod_bound [of 1000 "w + 999"] by linarith
  then have "u < now + 1000 * ((w + 999) div 1000 + 1)" using assms(3) by (simp add: algebra_simps)
  moreover have "0 < (w + 999) div 1000 + 1" using assms(4) by (simp add: pos_imp_zdiv_nonneg_iff add_nonneg_pos)
  ultimately show ?thesis
    using assms by (simp add: checkLimit_def Let_def expire add remrange split: if_splits)
qed

lemma refused_holds:
  assumes "window_holds R (limit_key p k) L W t G s" "t \<le> now"
    and "\<not> rr_allowed (fst (checkLimit R True now p k L W 1 s))"
  shows "window_holds R (limit_key p k) L W now G (snd (checkLimit R True now p k L W 1 s))"
  using assms after_refusal [OF assms(3)] unfolding window_holds_def by force

lemma admitted_holds:
  assumes holds: "window_holds R (limit_key p k) L W t G s" "t \<le> now" "0 < W"
    and ok: "rr_allowed (fst (checkLimit R True now p k L W 1 s))"
  shows "window_holds R (limit_key p k) L W now (insert now G) (snd (checkLimit R True now p k L W 1 s))"
proof -
  let ?key = "limit_key p k"
  let ?old = "zs_range R now ?key (zs_remrange R now ?key 0 (1000 * (now - W)) s)"
  let ?in = "{g \<in> G. now - W < g}"
  have fin: "finite G" "\<forall>g \<in> G. g \<le> now" using holds by (auto simp: window_holds_def)
  have old: "(*) 1000 ` ?in \<subseteq> set ?old"
    using holds by (auto simp: window_holds_def remrange)
  have "card ?in = card ((*) 1000 ` ?in)" by (rule card_image [symmetric]) (simp add: inj_on_def)
  also have "\<dots> \<le> card (set ?old)" using old by (rule card_mono [rotated]) simp
  also have "\<dots> = length ?old" using range_sorted by (simp add: distinct_card)
  finally have count: "int (card ?in) + 1 \<le> L" using ok check_allowed [of now p k L W s] by linarith
  have bound: "int (card {g \<in> insert now G. T - W < g \<and> g \<le> T}) \<le> L" for T
  proof (cases "now \<le> T")
    case True
    then have "{g \<in> insert now G. T - W < g \<and> g \<le> T} \<subseteq> insert now ?in" by auto
    then have "card {g \<in> insert now G. T - W < g \<and> g \<le> T} \<le> card (insert now ?in)" using fin(1) by (intro card_mono) auto
    also have "\<dots> \<le> card ?in + 1" using fin(1) by (simp add: card_insert_if)
    finally show ?thesis using count by linarith
  next
    case False
    then have "{g \<in> insert now G. T - W < g \<and> g \<le> T} = {g \<in> G. T - W < g \<and> g \<le> T}" by auto
    then show ?thesis using holds(1) by (simp add: window_holds_def)
  qed
  have "1000 * g \<in> set (zs_range R u ?key (snd (checkLimit R True now p k L W 1 s)))"
    if "now \<le> u" "g \<in> insert now G" "u - W < g" for u g
  proof -
    have "u < now + W" using that fin(2) by auto
    from after_admission [OF ok that(1) this holds(3)]
    have after: "set (zs_range R u ?key (snd (checkLimit R True now p k L W 1 s))) =
        insert (1000 * now) {x \<in> set (zs_range R now ?key s). \<not> (0 \<le> x \<and> x \<le> 1000 * (now - W))}" .
    have "g \<in> G \<Longrightarrow> 1000 * g \<in> set (zs_range R now ?key s)"
      using holds(1,2) that by (auto simp: window_holds_def)
    with that show ?thesis unfolding after by auto
  qed
  with bound fin show ?thesis by (auto simp: window_holds_def)
qed

lemma other_holds:
  assumes "window_holds R redisKey L W t G s" "t \<le> now" "limit_key p k \<noteq> redisKey"
  shows "window_holds R redisKey L W now G (snd (checkLimit R True now p k l w 1 s))"
  using assms check_other [OF assms(3)] by (auto simp: window_holds_def)

lemma run_holds:
  assumes "sorted (t # map lq_time qs)" "0 < W" "list_all (\<lambda>q. lq_key q = k \<longrightarrow> lq_limit q = L \<and> lq_window q = W) qs"
    and "window_holds R (limit_key p k) L W t G s"
  shows "\<exists>u. window_holds R (limit_key p k) L W u (admitted_times k (fst (limit_run R p qs s)) \<union> G) (snd (limit_run R p qs s))"
  using assms
proof (induction qs arbitrary: t G s)
  case Nil
  then show ?case by auto
next
  case (Cons q qs)
  let ?c = "checkLimit R True (lq_time q) p (lq_key q) (lq_limit q) (lq_window q) 1 s"
  define G' where "G' = (if lq_key q = k \<and> rr_allowed (fst ?c) then insert (lq_time q) G else G)"
  have times: "t \<le> lq_time q" "sorted (lq_time q # map lq_time qs)" using Cons.prems(1) by simp_all
  have "window_holds R (limit_key p k) L W (lq_time q) G' (snd ?c)"
  proof (cases "lq_key q = k")
    case True
    with Cons.prems(3) have "lq_limit q = L" "lq_window q = W" by simp_all
    with True refused_holds [OF Cons.prems(4) times(1)] admitted_holds [OF Cons.prems(4) times(1) Cons.prems(2)]
    show ?thesis by (simp add: G'_def)
  next
    case False
    then have "limit_key p (lq_key q) \<noteq> limit_key p k" by (simp add: limit_key_inj)
    from other_holds [OF Cons.prems(4) times(1) this] False show ?thesis by (simp add: G'_def)
  qed
  from Cons.IH [OF times(2) Cons.prems(2) _ this] Cons.prems(3)
  obtain u where "window_holds R (limit_key p k) L W u (admitted_times k (fst (limit_run R p qs (snd ?c))) \<union> G') (snd (limit_run R p qs (snd ?c)))"
    by auto
  moreover have "admitted_times k (fst (limit_run R p (q # qs) s)) \<union> G = admitted_times k (fst (limit_run R p qs (snd ?c))) \<union> G'"
    by (auto simp: G'_def split: prod.split)
  moreover have "snd (limit_run R p (q # qs) s) = snd (limit_run R p qs (snd ?c))"
    by (simp split: prod.split)
  ultimately show ?case by auto
qed

end

text \<open>
  C19: The sliding window bounds requests. In every run of requests of cost one, in the order of
  their times and with Redis answering, every window of the configured length holds at most as
  many moments at which requests for a key were admitted as the limit says. Moments, not
  requests: those of the same millisecond are one member of the sorted set and count once.
\<close>
theorem sliding_window_bound:
  assumes "window_store R" "zs_range R t (limit_key p k) s = []"
    and "sorted (t # map lq_time qs)" "0 < W" "0 \<le> L"
    and "list_all (\<lambda>q. lq_key q = k \<longrightarrow> lq_limit q = L \<and> lq_window q = W) qs"
  shows "int (card {g \<in> admitted_times k (fst (limit_run R p qs s)). T - W < g \<and> g \<le> T}) \<le> L"
proof -
  have "window_holds R (limit_key p k) L W t {} s" using assms(5) by (simp add: window_holds_def)
  from window_store.run_holds [OF assms(1,3,4,6) this] show ?thesis by (auto simp: window_holds_def)
qed

definition demo_requests :: "limit_request list" where
  "demo_requests = map (\<lambda>t. \<lparr>lq_key = ''k'', lq_limit = 2, lq_window = 1000, lq_time = t\<rparr>) [5000, 5001, 5002, 6001, 6500]"

lemma sliding_window_bound_witness:
  "int (card {g \<in> admitted_times ''k'' (fst (limit_run map_windows ''p'' demo_requests [])). 6001 - 1000 < g \<and> g \<le> 6001}) \<le> 2"
  by (rule sliding_window_bound [OF windows.window_store_axioms, where t = 0 and T = 6001 and W = 1000 and L = 2])
    (simp_all add: demo_requests_def map_windows_def live_window_def)

lemma demo_requests_admitted:
  \<comment> \<open>the third request is refused, the later ones admitted since the first two have left the window\<close>
  "map lq_time (fst (limit_run map_windows ''p'' demo_requests [])) = [5000, 5001, 6001, 6500]"
  by code_simp

lemma same_millisecond_burst:
  \<comment> \<open>requests of one millisecond share one member: all pass whatever the limit\<close>
  "length (fst (limit_run map_windows ''p'' (replicate 20 \<lparr>lq_key = ''k'', lq_limit = 2, lq_window = 1000, lq_time = 5000\<rparr>) [])) = 20"
  by code_simp

section \<open>Repeating a refused request\<close>

context window_store
begin

lemma refusal_wait:
  assumes "\<not> rr_allowed (fst (checkLimit R True now p k L W 1 s))" "1 \<le> L" "0 \<le> now - W"
    and range: "zs_range R now (limit_key p k) (snd (checkLimit R True now p k L W 1 s)) = x # xs" "0 \<le> x"
    and few: "int (length (x # xs)) \<le> L"
    and retry: "rr_retry_after_ms (fst (checkLimit R True now p k L W 1 s)) = Some r"
  shows "0 \<le> r \<and> rr_allowed (fst (checkLimit R True (now + r) p k L W 1 (snd (checkLimit R True now p k L W 1 s))))"
proof -
  let ?k = "limit_key p k" and ?s = "snd (checkLimit R True now p k L W 1 s)"
  have s1: "?s = zs_remrange R now ?k 0 (1000 * (now - W)) s"
    and r: "r = (max 0 (x + 1000 * W - 1000 * now) + 999) div 1000"
    using assms(1) range(1) retry by (auto simp: checkLimit_def Let_def split: if_splits)
  have r0: "0 \<le> r" by (simp add: r pos_imp_zdiv_nonneg_iff)
  have "max 0 (x + 1000 * W - 1000 * now) \<le> 1000 * r"
    using div_mult_mod_eq [of "max 0 (x + 1000 * W - 1000 * now) + 999" 1000]
      pos_mod_bound [of 1000 "max 0 (x + 1000 * W - 1000 * now) + 999"] unfolding r by linarith
  then have x: "x \<le> 1000 * (now + r - W)" by simp
  let ?new = "zs_range R (now + r) ?k (zs_remrange R (now + r) ?k 0 (1000 * (now + r - W)) ?s)"
  have "set ?new \<subseteq> set (x # xs) - {x}"
    using range x range_later [of now "now + r" ?k ?s] r0 by (auto simp: remrange)
  then have "card (set ?new) \<le> card (set xs)" by (intro card_mono) auto
  also have "\<dots> \<le> length xs" by (rule card_length)
  finally have "length ?new \<le> length xs" using range_sorted by (simp add: distinct_card)
  with few have "int (length ?new) + 1 \<le> L" by simp
  then show ?thesis using r0 check_allowed [of "now + r" p k L W ?s] by simp
qed

end

text \<open>
  The wait a refusal asks for is right. If a request is refused while the window holds no more
  than the limit, the request succeeds when it is repeated after the given time, provided no other
  request for the key was admitted meanwhile.
\<close>
lemma retry_after_suffices:
  assumes "window_store R"
    and "checkLimit R True now p k L W 1 s = (res, s')" "\<not> rr_allowed res" "rr_retry_after_ms res = Some r"
    and "1 \<le> L" "W \<le> now"
    and "zs_range R now (limit_key p k) s' = x # xs" "0 \<le> x" "int (length (x # xs)) \<le> L"
  shows "0 \<le> r \<and> rr_allowed (fst (checkLimit R True (now + r) p k L W 1 s'))"
  using window_store.refusal_wait [OF assms(1), of now p k L W s x xs r] assms(2-9) by simp

lemma retry_after_suffices_example:
  "rr_allowed (fst (checkLimit map_windows True (5002 + 998) ''p'' ''k'' 2 1000 1
     (snd (limit_run map_windows ''p'' (take 3 demo_requests) []))))"
proof -
  let ?s = "snd (limit_run map_windows ''p'' (take 2 demo_requests) [])"
  let ?c = "checkLimit map_windows True 5002 ''p'' ''k'' 2 1000 1 ?s"
  have res: "fst ?c = \<lparr>rr_allowed = False, rr_remaining = 0, rr_reset_at = 6000, rr_retry_after_ms = Some 998\<rparr>" by code_simp
  have range: "zs_range map_windows 5002 (limit_key ''p'' ''k'') (snd ?c) = [5000000, 5001000]" by code_simp
  have same: "snd (limit_run map_windows ''p'' (take 3 demo_requests) []) = snd ?c" by code_simp
  have "?c = (fst ?c, snd ?c)" by simp
  from retry_after_suffices [OF windows.window_store_axioms this _ _ _ _ range, of 998] res
  show ?thesis unfolding same by simp
qed

section \<open>Floods\<close>

fun flood_run :: "'r window_redis \<Rightarrow> string \<Rightarrow> string \<Rightarrow> int list \<Rightarrow> 'r \<Rightarrow> (bool \<times> nat) list \<times> 'r" where
  "flood_run R u t [] s = ([], s)"
| "flood_run R u t (now # ts) s = (case checkFlood R now u t s of (r, s') \<Rightarrow> apfst ((#) r) (flood_run R u t ts s'))"

definition flood_holds :: "'r window_redis \<Rightarrow> string \<Rightarrow> string \<Rightarrow> int \<Rightarrow> int list \<Rightarrow> 'r \<Rightarrow> bool" where
  \<comment> \<open>the set holds the moments of the last second, and otherwise only older ones\<close>
  "flood_holds R u t now ts s \<longleftrightarrow> (\<forall>g \<in> set ts. 0 \<le> g \<and> g \<le> now) \<and>
     (\<forall>v. now \<le> v \<longrightarrow> (\<forall>g \<in> set ts. v - 1000 < g \<longrightarrow> 1000 * g \<in> set (zs_range R v (flood_key t u) s)) \<and>
        set (zs_range R v (flood_key t u) s) \<subseteq> (*) 1000 ` set ts)"

definition recent :: "int list \<Rightarrow> int \<Rightarrow> int set" where
  \<comment> \<open>the moments of the last second\<close>
  "recent ts now = {g \<in> set ts. now - 1000 < g \<and> g \<le> now}"

context window_store
begin

lemma flood_step:
  assumes "now \<le> v" "v < now + 1000"
  shows "set (zs_range R v (flood_key t u) (snd (checkFlood R now u t s))) =
    insert (1000 * now) {x \<in> set (zs_range R now (flood_key t u) s). \<not> (0 \<le> x \<and> x \<le> 1000 * (now - 1000))}"
  using assms by (simp add: checkFlood_def Let_def FLOOD_WINDOW_MS_def expire add remrange)

lemma flood_gone:
  assumes "now + 2000 \<le> v"
  shows "zs_range R v (flood_key t u) (snd (checkFlood R now u t s)) = []"
  using assms by (simp add: checkFlood_def Let_def expire)

lemma flood_count:
  "fst (checkFlood R now u t s) =
     (FLOOD_THRESHOLD < card (set (zs_range R now (flood_key t u) (snd (checkFlood R now u t s)))),
      card (set (zs_range R now (flood_key t u) (snd (checkFlood R now u t s)))))"
  using range_sorted by (simp add: checkFlood_def Let_def card distinct_card)

lemma flood_middle:
  \<comment> \<open>until the key expires nothing but the lifetime changes\<close>
  assumes "now \<le> v" "x \<in> set (zs_range R v (flood_key t u) (snd (checkFlood R now u t s)))"
  shows "x = 1000 * now \<or> x \<in> set (zs_range R now (flood_key t u) s) \<and> \<not> (0 \<le> x \<and> x \<le> 1000 * (now - 1000))"
proof -
  have "x \<in> set (zs_range R now (flood_key t u) (snd (checkFlood R now u t s)))"
    using range_later [OF assms(1)] assms(2) by blast
  then show ?thesis by (simp add: flood_step)
qed

lemma flood_holds_step:
  assumes holds: "flood_holds R u t now ts s" and "now \<le> now'" "0 \<le> now'"
  shows "flood_holds R u t now' (now' # ts) (snd (checkFlood R now' u t s))"
    and "fst (checkFlood R now' u t s) =
      (FLOOD_THRESHOLD < card (recent (now' # ts) now'), card (recent (now' # ts) now'))"
proof -
  let ?k = "flood_key t u"
  have old: "0 \<le> g \<and> g \<le> now'" if "g \<in> set ts" for g using holds that assms(2) by (auto simp: flood_holds_def)
  have sub: "set (zs_range R now' ?k s) \<subseteq> (*) 1000 ` set ts" using holds assms(2) by (auto simp: flood_holds_def)
  have sup: "1000 * g \<in> set (zs_range R now' ?k s)" if "g \<in> set ts" "now' - 1000 < g" for g
    using holds that assms(2) by (auto simp: flood_holds_def)
  have "set (zs_range R now' ?k (snd (checkFlood R now' u t s))) = (*) 1000 ` recent (now' # ts) now'"
    using sub sup old assms(3) by (auto simp: flood_step recent_def)
  then have "card (set (zs_range R now' ?k (snd (checkFlood R now' u t s)))) = card (recent (now' # ts) now')"
    by (simp add: card_image inj_on_def)
  then show "fst (checkFlood R now' u t s) =
      (FLOOD_THRESHOLD < card (recent (now' # ts) now'), card (recent (now' # ts) now'))"
    by (simp add: flood_count)
  show "flood_holds R u t now' (now' # ts) (snd (checkFlood R now' u t s))"
    unfolding flood_holds_def
  proof (intro conjI allI impI ballI)
    fix v g
    assume "now' \<le> v" "g \<in> set (now' # ts)" "v - 1000 < g"
    then show "1000 * g \<in> set (zs_range R v ?k (snd (checkFlood R now' u t s)))"
      using sup [of g] old [of g] by (auto simp: flood_step)
  next
    fix v
    assume "now' \<le> v"
    then show "set (zs_range R v ?k (snd (checkFlood R now' u t s))) \<subseteq> (*) 1000 ` set (now' # ts)"
      using flood_middle [of now' v] sub by fastforce
  qed (use old assms(3) in auto)
qed

lemma flood_run_counts:
  "sorted (now # ts) \<Longrightarrow> 0 \<le> now \<Longrightarrow> flood_holds R u t now past s \<Longrightarrow>
   fst (flood_run R u t ts s) = map (\<lambda>i. let n = card (recent (rev (take (Suc i) ts) @ past) (ts ! i)) in (FLOOD_THRESHOLD < n, n)) [0..<length ts]"
proof (induction ts arbitrary: now past s)
  case (Cons now' ts)
  have times: "now \<le> now'" "sorted (now' # ts)" "0 \<le> now'" using Cons.prems by simp_all
  note step = flood_holds_step [OF Cons.prems(3) times(1,3)]
  with Cons.IH [OF times(2,3) step(1)] step(2) show ?case
    by (cases "checkFlood R now' u t s") (simp add: Let_def map_upt_Suc del: upt_Suc)
qed simp

end

text \<open>
  The flood check counts moments. For requests of a user in the order of their times, the
  number reported with each is exactly the number of different milliseconds of the last second at
  which there was one, and the user is flooding exactly if there are more than ten.
\<close>
lemma flood_counts_moments:
  assumes "window_store R" "sorted ts" "list_all ((\<le>) 0) ts" "zs_range R 0 (flood_key t u) s = []" "i < length ts"
  shows "fst (flood_run R u t ts s) ! i = (10 < card (recent (take (Suc i) ts) (ts ! i)), card (recent (take (Suc i) ts) (ts ! i)))"
proof -
  have "flood_holds R u t 0 [] s"
    using assms(4) window_store.range_later [OF assms(1), of 0 _ "flood_key t u" s]
    by (simp add: flood_holds_def)
  moreover have "sorted (0 # ts)" using assms(2,3) by (simp add: list_all_iff)
  ultimately have "fst (flood_run R u t ts s) ! i = (FLOOD_THRESHOLD < card (recent (rev (take (Suc i) ts) @ []) (ts ! i)), card (recent (rev (take (Suc i) ts) @ []) (ts ! i)))"
    using window_store.flood_run_counts [OF assms(1), of 0 ts u t "[]" s] assms(5) by (simp add: Let_def)
  then show ?thesis by (simp add: recent_def FLOOD_THRESHOLD_def)
qed

lemma flood_counts_moments_example:
  "fst (flood_run map_windows ''u'' ''t'' [1000, 1000, 1500, 2200] []) ! 3
   = (10 < card (recent [1000, 1000, 1500, 2200] 2200), card (recent [1000, 1000, 1500, 2200] 2200))"
  using flood_counts_moments [OF windows.window_store_axioms, of "[1000, 1000, 1500, 2200]" "''t''" "''u''" "[]" 3]
  by (simp add: map_windows_def live_window_def)

end
