(* ===== verification/AuthMfa.thy ===== *)
theory AuthMfa
  imports AuthRedis "HOL-Library.Word"
begin

unbundle bit_operations_syntax

text \<open>
  The second factor of the auth service (services/auth-service/src/mfa): one-time passwords,
  backup codes, challenges kept in Redis, trusted devices, and the policy of a tenant. Redis is the
  parameter of \<open>AuthRedis\<close>; the validation of one-time passwords, the hash of a code and the
  documents of MongoDB are arguments. Logging is left out.
\<close>

section \<open>One-time passwords\<close>

record totp_config =
  tc_issuer :: string
  tc_algorithm :: string
  tc_digits :: nat
  tc_period :: int
  tc_window :: nat

definition defaultTOTPConfig :: totp_config where
  \<comment> \<open>without environment variables\<close>
  "defaultTOTPConfig = \<lparr>tc_issuer = ''CAAS'', tc_algorithm = ''SHA1'', tc_digits = 6, tc_period = 30, tc_window = 1\<rparr>"

type_synonym otp_library = "totp_config \<Rightarrow> string \<Rightarrow> string \<Rightarrow> int \<Rightarrow> int option option"
  \<comment> \<open>\<open>validate\<close> for a secret and a token at a time; outer \<open>None\<close>: it throws\<close>

definition verifyToken :: "otp_library \<Rightarrow> totp_config \<Rightarrow> int \<Rightarrow> string \<Rightarrow> string \<Rightarrow> bool" where
  "verifyToken otp cfg now secret token =
     (case otp cfg secret token now of None \<Rightarrow> False | Some delta \<Rightarrow> delta \<noteq> None)"

definition getTimeRemaining :: "totp_config \<Rightarrow> int \<Rightarrow> int" where
  "getTimeRemaining cfg nowMs = tc_period cfg - (nowMs div 1000) mod tc_period cfg"

definition base32Chars :: string where
  "base32Chars = ''ABCDEFGHIJKLMNOPQRSTUVWXYZ234567''"

function take_fives :: "nat \<Rightarrow> 32 word \<Rightarrow> nat list \<times> nat" where
  \<comment> \<open>the inner loop: the digits it appends and the bits it leaves\<close>
  "take_fives bits value =
     (if 5 \<le> bits
      then apfst ((#) (unat (drop_bit (bits - 5) value AND 31))) (take_fives (bits - 5) value)
      else ([], bits))"
  by auto
termination by (relation "measure fst") auto

declare take_fives.simps [simp del]

fun base32_loop :: "nat \<Rightarrow> 32 word \<Rightarrow> 8 word list \<Rightarrow> nat list" where
  "base32_loop bits value [] = (if 0 < bits then [unat (push_bit (5 - bits) value AND 31)] else [])"
| "base32_loop bits value (b # buffer) =
     (let value' = push_bit 8 value OR ucast b in
      case take_fives (bits + 8) value' of (ds, bits') \<Rightarrow> ds @ base32_loop bits' value' buffer)"

definition base32_digits :: "8 word list \<Rightarrow> nat list" where
  "base32_digits buffer = base32_loop 0 0 buffer"

definition base32Encode :: "8 word list \<Rightarrow> string" where
  "base32Encode buffer = map ((!) base32Chars) (base32_digits buffer)"

definition isValidSecret :: "string \<Rightarrow> bool" where
  \<comment> \<open>\<open>/^[A-Z2-7]+=*$/\<close>\<close>
  "isValidSecret secret \<longleftrightarrow>
     (let body = takeWhile (\<lambda>c. c \<in> set base32Chars) secret; rest = dropWhile (\<lambda>c. c \<in> set base32Chars) secret
      in body \<noteq> [] \<and> list_all (\<lambda>c. c = CHR ''='') rest)"

section \<open>Backup codes\<close>

record backup_code =
  bc_code_hash :: string
  bc_used :: bool
  bc_used_at :: "int option"

type_synonym code_storage = "(string, backup_code list) jsmap"

definition charset :: string where
  "charset = ''ABCDEFGHJKLMNPQRSTUVWXYZ23456789''"

definition formatCode :: "string \<Rightarrow> string" where
  "formatCode code = (let half = length code div 2 in take half code @ ''-'' @ drop half code)"

definition normalizeCode :: "string \<Rightarrow> string" where
  "normalizeCode code = map ascii_upper (filter (\<lambda>c. c \<noteq> CHR ''-'') code)"

definition generateSingleCode :: "nat \<Rightarrow> nat list \<Rightarrow> string" where
  \<comment> \<open>from random bytes, as many as the length of a code\<close>
  "generateSingleCode codeLength bytes = formatCode (map (\<lambda>b. charset ! (b mod length charset)) (take codeLength bytes))"

fun generate_codes :: "nat \<Rightarrow> nat \<Rightarrow> string list \<Rightarrow> nat list list \<Rightarrow> string list option" where
  \<comment> \<open>\<open>generate\<close>: draw until there are enough different codes; \<open>None\<close> when the draws do not suffice\<close>
  "generate_codes codeLength n codes [] = (if n \<le> length codes then Some codes else None)"
| "generate_codes codeLength n codes (bytes # draws) =
     (if n \<le> length codes then Some codes
      else let code = generateSingleCode codeLength bytes
        in generate_codes codeLength n (if code \<in> set codes then codes else codes @ [code]) draws)"

definition isValidFormat :: "nat \<Rightarrow> string \<Rightarrow> bool" where
  "isValidFormat codeLength code =
     (let normalized = normalizeCode code in length normalized = codeLength \<and> list_all (\<lambda>c. c \<in> set charset) normalized)"

definition storeCodes :: "(string \<Rightarrow> string) \<Rightarrow> string \<Rightarrow> string list \<Rightarrow> code_storage \<Rightarrow> code_storage" where
  "storeCodes hash userId codes s =
     AList.update userId (map (\<lambda>c. \<lparr>bc_code_hash = hash c, bc_used = False, bc_used_at = None\<rparr>) codes) s"

fun use_code :: "int \<Rightarrow> string \<Rightarrow> backup_code list \<Rightarrow> backup_code list option" where
  \<comment> \<open>mark the first unused code with a hash\<close>
  "use_code now h [] = None"
| "use_code now h (c # cs) =
     (if bc_code_hash c = h \<and> \<not> bc_used c then Some (c\<lparr>bc_used := True, bc_used_at := Some now\<rparr> # cs)
      else map_option ((#) c) (use_code now h cs))"

definition verifyAndUseCode :: "(string \<Rightarrow> string) \<Rightarrow> int \<Rightarrow> string \<Rightarrow> string \<Rightarrow> code_storage \<Rightarrow> bool \<times> code_storage" where
  "verifyAndUseCode hash now userId code s =
     (case map_of s userId of
        None \<Rightarrow> (False, s)
      | Some codes \<Rightarrow> (case use_code now (hash code) codes of
          None \<Rightarrow> (False, s)
        | Some codes' \<Rightarrow> (True, AList.update userId codes' s)))"

definition deleteCodes :: "string \<Rightarrow> code_storage \<Rightarrow> code_storage" where
  "deleteCodes userId s = AList.delete userId s"

definition getRemainingCount :: "string \<Rightarrow> code_storage \<Rightarrow> nat" where
  "getRemainingCount userId s = (case map_of s userId of None \<Rightarrow> 0 | Some codes \<Rightarrow> length (filter (\<lambda>c. \<not> bc_used c) codes))"

definition backup_stats :: "string \<Rightarrow> code_storage \<Rightarrow> nat \<times> nat \<times> nat" where
  \<comment> \<open>total, used and remaining\<close>
  "backup_stats userId s = (case map_of s userId of
     None \<Rightarrow> (0, 0, 0)
   | Some codes \<Rightarrow> let used = length (filter bc_used codes); total = length codes in (total, used, total - used))"

definition generateCodes ::
    "(string \<Rightarrow> string) \<Rightarrow> nat \<Rightarrow> string \<Rightarrow> nat \<Rightarrow> nat list list \<Rightarrow> code_storage \<Rightarrow> (string list \<times> code_storage) option" where
  "generateCodes hash codeLength userId n draws s =
     map_option (\<lambda>codes. (codes, storeCodes hash userId codes s)) (generate_codes codeLength n [] draws)"

definition verifyCode :: "(string \<Rightarrow> string) \<Rightarrow> int \<Rightarrow> string \<Rightarrow> string \<Rightarrow> code_storage \<Rightarrow> bool \<times> code_storage" where
  "verifyCode hash now userId code s = verifyAndUseCode hash now userId (normalizeCode code) s"

definition regenerateCodes ::
    "(string \<Rightarrow> string) \<Rightarrow> nat \<Rightarrow> string \<Rightarrow> nat \<Rightarrow> nat list list \<Rightarrow> code_storage \<Rightarrow> (string list \<times> code_storage) option" where
  "regenerateCodes hash codeLength userId n draws s = generateCodes hash codeLength userId n draws (deleteCodes userId s)"

definition hasCodes :: "string \<Rightarrow> code_storage \<Rightarrow> bool" where
  "hasCodes userId s \<longleftrightarrow> 0 < getRemainingCount userId s"

definition areCodesLow :: "string \<Rightarrow> code_storage \<Rightarrow> bool" where
  "areCodesLow userId s = (let n = getRemainingCount userId s in 0 < n \<and> n < 3)"

section \<open>Challenges\<close>

datatype mfa_method = Totp | BackupCode | Email | Sms

record mfa_challenge =
  mc_id :: string
  mc_user_id :: string
  mc_session_id :: string
  mc_method :: "mfa_method option" \<comment> \<open>undefined for an empty list of methods\<close>
  mc_available_methods :: "mfa_method list"
  mc_expires_at :: int
  mc_attempts :: nat
  mc_max_attempts :: nat
  mc_created_at :: int

record mfa_result =
  mr_success :: bool
  mr_challenge_id :: string
  mr_method_used :: mfa_method
  mr_trust_device :: "bool option"
  mr_error :: "string option"

type_synonym 'r mfa_redis = "(mfa_challenge, 'r) redis"

record 'r mfa_world =
  mw_redis :: 'r
  mw_codes :: code_storage

record mfa_env =
  me_otp :: otp_library
  me_totp :: totp_config
  me_hash :: "string \<Rightarrow> string"
  me_maxAttempts :: nat
  me_challengeTTL :: int

definition challenge_key :: "string \<Rightarrow> string" where
  "challenge_key challengeId = ''mfa_challenge:'' @ challengeId"

definition storeChallenge :: "'r mfa_redis \<Rightarrow> int \<Rightarrow> mfa_challenge \<Rightarrow> 'r \<Rightarrow> 'r" where
  "storeChallenge R now c s =
     (let ttl = (mc_expires_at c - now + 999) div 1000 in
      if 0 < ttl then rd_setex R now (challenge_key (mc_id c)) ttl c s else s)"

definition stored_challenge :: "'r mfa_redis \<Rightarrow> int \<Rightarrow> string \<Rightarrow> 'r \<Rightarrow> mfa_challenge option" where
  \<comment> \<open>\<open>getChallenge\<close>\<close>
  "stored_challenge R now challengeId s = rd_get R now (challenge_key challengeId) s"

definition deleteChallenge :: "'r mfa_redis \<Rightarrow> string \<Rightarrow> 'r \<Rightarrow> 'r" where
  "deleteChallenge R challengeId s = rd_del R (challenge_key challengeId) s"

definition verify_method :: "mfa_env \<Rightarrow> int \<Rightarrow> string \<Rightarrow> mfa_method \<Rightarrow> string \<Rightarrow> code_storage \<Rightarrow> bool \<times> code_storage" where
  \<comment> \<open>\<open>MethodVerifier.verify\<close>; the secret of one-time passwords is a placeholder\<close>
  "verify_method e now userId method response s =
     (case method of
        Totp \<Rightarrow> (verifyToken (me_otp e) (me_totp e) now ''user-totp-secret'' response, s)
      | BackupCode \<Rightarrow> verifyCode (me_hash e) now userId response s
      | Email \<Rightarrow> (False, s)
      | Sms \<Rightarrow> (False, s))"

definition getAvailableMethods :: "string \<Rightarrow> code_storage \<Rightarrow> mfa_method list" where
  "getAvailableMethods userId s = Totp # (if hasCodes userId s then [BackupCode] else [])"

definition createChallenge ::
    "'r mfa_redis \<Rightarrow> mfa_env \<Rightarrow> int \<Rightarrow> string \<Rightarrow> string \<Rightarrow> string \<Rightarrow> mfa_method list \<Rightarrow> 'r mfa_world \<Rightarrow> mfa_challenge \<times> 'r mfa_world" where
  "createChallenge R e now challengeId userId sessionId methods w =
     (let c = \<lparr>mc_id = challengeId, mc_user_id = userId, mc_session_id = sessionId,
          mc_method = (case methods of [] \<Rightarrow> None | m # _ \<Rightarrow> Some m), mc_available_methods = methods,
          mc_expires_at = now + me_challengeTTL e * 1000, mc_attempts = 0, mc_max_attempts = me_maxAttempts e, mc_created_at = now\<rparr>
      in (c, w\<lparr>mw_redis := storeChallenge R now c (mw_redis w)\<rparr>))"

abbreviation mfa_failure :: "string \<Rightarrow> mfa_method \<Rightarrow> string \<Rightarrow> mfa_result" where
  "mfa_failure challengeId method err \<equiv> \<lparr>mr_success = False, mr_challenge_id = challengeId, mr_method_used = method,
     mr_trust_device = None, mr_error = Some err\<rparr>"

definition verifyChallenge ::
    "'r mfa_redis \<Rightarrow> mfa_env \<Rightarrow> int \<Rightarrow> string \<Rightarrow> mfa_method \<Rightarrow> string \<Rightarrow> bool \<Rightarrow> 'r mfa_world \<Rightarrow> mfa_result \<times> 'r mfa_world" where
  "verifyChallenge R e now challengeId method response trustDevice w =
     (case stored_challenge R now challengeId (mw_redis w) of
        None \<Rightarrow> (mfa_failure challengeId method ''Challenge not found or expired'', w)
      | Some c \<Rightarrow>
          if mc_expires_at c \<le> now
          then (mfa_failure challengeId method ''Challenge expired'', w\<lparr>mw_redis := deleteChallenge R challengeId (mw_redis w)\<rparr>)
          else if mc_max_attempts c \<le> mc_attempts c
          then (mfa_failure challengeId method ''Maximum attempts exceeded'', w\<lparr>mw_redis := deleteChallenge R challengeId (mw_redis w)\<rparr>)
          else let s1 = storeChallenge R now (c\<lparr>mc_attempts := mc_attempts c + 1\<rparr>) (mw_redis w) in
            (case verify_method e now (mc_user_id c) method response (mw_codes w) of
              (isValid, codes') \<Rightarrow>
                if \<not> isValid then (mfa_failure challengeId method ''Invalid verification code'', \<lparr>mw_redis = s1, mw_codes = codes'\<rparr>)
                else (\<lparr>mr_success = True, mr_challenge_id = challengeId, mr_method_used = method,
                    mr_trust_device = Some trustDevice, mr_error = None\<rparr>,
                  \<lparr>mw_redis = deleteChallenge R challengeId s1, mw_codes = codes'\<rparr>)))"

definition switchMethod ::
    "'r mfa_redis \<Rightarrow> int \<Rightarrow> string \<Rightarrow> mfa_method \<Rightarrow> 'r mfa_world \<Rightarrow> (string + mfa_challenge) \<times> 'r mfa_world" where
  "switchMethod R now challengeId method w =
     (case stored_challenge R now challengeId (mw_redis w) of
        None \<Rightarrow> (Inl ''Challenge not found'', w)
      | Some c \<Rightarrow>
          if method \<notin> set (mc_available_methods c) then (Inl ''Method not available'', w)
          else let c' = c\<lparr>mc_method := Some method, mc_attempts := 0\<rparr>
            in (Inr c', w\<lparr>mw_redis := storeChallenge R now c' (mw_redis w)\<rparr>))"

section \<open>Trusted devices\<close>

record trusted_device =
  td_device_id :: string
  td_device_name :: string
  td_fingerprint_hash :: string
  td_trusted_at :: int
  td_expires_at :: int
  td_last_used :: int

type_synonym trust_storage = "(string, trusted_device list) jsmap"

definition getTrustedDevices :: "string \<Rightarrow> trust_storage \<Rightarrow> trusted_device list" where
  "getTrustedDevices userId s = (case map_of s userId of None \<Rightarrow> [] | Some ds \<Rightarrow> ds)"

definition store_device :: "string \<Rightarrow> trusted_device \<Rightarrow> trust_storage \<Rightarrow> trust_storage" where
  \<comment> \<open>\<open>InMemoryTrustStorage.trustDevice\<close>\<close>
  "store_device userId d s =
     AList.update userId (filter (\<lambda>x. td_device_id x \<noteq> td_device_id d) (getTrustedDevices userId s) @ [d]) s"

definition getTrustedDevice :: "string \<Rightarrow> string \<Rightarrow> trust_storage \<Rightarrow> trusted_device option" where
  "getTrustedDevice userId deviceId s = List.find (\<lambda>d. td_device_id d = deviceId) (getTrustedDevices userId s)"

definition removeTrust :: "string \<Rightarrow> string \<Rightarrow> trust_storage \<Rightarrow> trust_storage" where
  "removeTrust userId deviceId s =
     AList.update userId (filter (\<lambda>d. td_device_id d \<noteq> deviceId) (getTrustedDevices userId s)) s"

definition removeAllTrust :: "string \<Rightarrow> trust_storage \<Rightarrow> trust_storage" where
  "removeAllTrust userId s = AList.delete userId s"

definition updateLastUsed :: "int \<Rightarrow> string \<Rightarrow> string \<Rightarrow> trust_storage \<Rightarrow> trust_storage" where
  "updateLastUsed now userId deviceId s =
     (case getTrustedDevice userId deviceId s of
        None \<Rightarrow> s
      | Some d \<Rightarrow> store_device userId (d\<lparr>td_last_used := now\<rparr>) s)"

fun oldest_device :: "trusted_device \<Rightarrow> trusted_device list \<Rightarrow> trusted_device" where
  "oldest_device prev [] = prev"
| "oldest_device prev (d # ds) = oldest_device (if td_trusted_at prev < td_trusted_at d then prev else d) ds"

record trust_config =
  tr_expiryDays :: int
  tr_maxDevices :: nat

definition trustDevice ::
    "trust_config \<Rightarrow> int \<Rightarrow> string \<Rightarrow> string \<Rightarrow> string \<Rightarrow> string \<Rightarrow> trust_storage \<Rightarrow> string option \<times> trust_storage" where
  \<comment> \<open>the error is the reduction of an empty array, which only a limit of zero reaches\<close>
  "trustDevice cfg now userId deviceId deviceName fingerprint s =
     (let d = \<lparr>td_device_id = deviceId, td_device_name = deviceName, td_fingerprint_hash = fingerprint, td_trusted_at = now,
          td_expires_at = now + tr_expiryDays cfg * 24 * 60 * 60 * 1000, td_last_used = now\<rparr>
      in if tr_maxDevices cfg \<le> length (getTrustedDevices userId s)
         then (case getTrustedDevices userId s of
             [] \<Rightarrow> (Some ''Reduce of empty array with no initial value'', s)
           | x # xs \<Rightarrow> (None, store_device userId d (removeTrust userId (td_device_id (oldest_device x xs)) s)))
         else (None, store_device userId d s))"

definition verifyTrust :: "int \<Rightarrow> string \<Rightarrow> string \<Rightarrow> string \<Rightarrow> trust_storage \<Rightarrow> bool \<times> trust_storage" where
  "verifyTrust now userId deviceId fingerprint s =
     (case getTrustedDevice userId deviceId s of
        None \<Rightarrow> (False, s)
      | Some d \<Rightarrow>
          if td_expires_at d \<le> now then (False, removeTrust userId deviceId s)
          else if td_fingerprint_hash d \<noteq> fingerprint then (False, s)
          else (True, updateLastUsed now userId deviceId s))"

definition isTrusted :: "int \<Rightarrow> string \<Rightarrow> string \<Rightarrow> trust_storage \<Rightarrow> bool \<times> trust_storage" where
  "isTrusted now userId deviceId s =
     (case getTrustedDevice userId deviceId s of
        None \<Rightarrow> (False, s)
      | Some d \<Rightarrow> if td_expires_at d \<le> now then (False, removeTrust userId deviceId s) else (True, s))"

section \<open>The policy of a tenant\<close>

datatype mfa_level = MfaOptional | MfaRecommended | MfaRequired | MfaAdminOnly

record mfa_policy =
  mp_level :: mfa_level
  mp_methods :: "string list"
  mp_trustedDeviceDays :: int
  mp_gracePeriodDays :: int
  mp_exemptUsers :: "string list"

record mfa_user =
  mu_enforcement_date :: "int option"
  mu_preference :: "bool option"

record mfa_documents =
  md_policy :: "string \<Rightarrow> mfa_policy option option" \<comment> \<open>outer \<open>None\<close>: the query fails\<close>
  md_user :: "string \<Rightarrow> string \<Rightarrow> mfa_user option option"

definition getTenantPolicy :: "mfa_documents \<Rightarrow> string \<Rightarrow> mfa_policy option" where
  "getTenantPolicy db tenantId = (case md_policy db tenantId of None \<Rightarrow> None | Some p \<Rightarrow> p)"

definition checkGracePeriod :: "mfa_documents \<Rightarrow> int \<Rightarrow> string \<Rightarrow> string \<Rightarrow> bool" where
  "checkGracePeriod db now tenantId userId =
     (case md_user db tenantId userId of
        Some (Some u) \<Rightarrow> (case mu_enforcement_date u of None \<Rightarrow> False | Some d \<Rightarrow> now < d)
      | _ \<Rightarrow> False)"

definition getUserMFAPreference :: "mfa_documents \<Rightarrow> string \<Rightarrow> string \<Rightarrow> bool option" where
  "getUserMFAPreference db tenantId userId =
     (case md_user db tenantId userId of Some (Some u) \<Rightarrow> mu_preference u | _ \<Rightarrow> None)"

definition evaluateMFARequirement :: "mfa_documents \<Rightarrow> int \<Rightarrow> string \<Rightarrow> string \<Rightarrow> string list \<Rightarrow> bool" where
  "evaluateMFARequirement db now tenantId userId userRoles =
     (case getTenantPolicy db tenantId of
        None \<Rightarrow> False
      | Some p \<Rightarrow>
          if userId \<in> set (mp_exemptUsers p) then False
          else if checkGracePeriod db now tenantId userId then False
          else (case mp_level p of
            MfaRequired \<Rightarrow> True
          | MfaAdminOnly \<Rightarrow> ''admin'' \<in> set userRoles \<or> ''tenant_admin'' \<in> set userRoles
          | MfaRecommended \<Rightarrow> (case getUserMFAPreference db tenantId userId of None \<Rightarrow> False | Some enabled \<Rightarrow> enabled)
          | MfaOptional \<Rightarrow> False))"

definition isUserExempt :: "mfa_documents \<Rightarrow> string \<Rightarrow> string \<Rightarrow> bool" where
  "isUserExempt db tenantId userId =
     (case getTenantPolicy db tenantId of None \<Rightarrow> False | Some p \<Rightarrow> userId \<in> set (mp_exemptUsers p))"

end
