(* ===== verification/AuthMfaSafety.thy ===== *)
theory AuthMfaSafety
  imports AuthMfa
begin

text \<open>
  What the second factor guarantees, and what it does not: the base32 text of a secret is its
  bits, a challenge allows a bounded number of guesses, trust in a device was given and expires,
  and no backup code ever verifies.
\<close>

section \<open>Base32\<close>

definition low_bits :: "nat \<Rightarrow> 32 word \<Rightarrow> bool list" where
  \<comment> \<open>the last \<open>n\<close> bits, most significant first\<close>
  "low_bits n w = map (bit w) (rev [0..<n])"

definition bits8 :: "8 word \<Rightarrow> bool list" where
  "bits8 b = map (bit b) (rev [0..<8])"

definition bits5 :: "nat \<Rightarrow> bool list" where
  "bits5 d = map (bit d) (rev [0..<5])"

lemma rev_upt_add: "rev [0..<k + n] = map ((+) k) (rev [0..<n]) @ rev [0..<k]"
  by (induction n) simp_all

lemma and_31: "unat (w AND (31 :: 32 word)) < 32"
proof -
  have "w AND (31 :: 32 word) \<le> 31" by (rule word_and_le1)
  then have "unat (w AND 31) \<le> unat (31 :: 32 word)" by (simp add: word_le_nat_alt)
  then show ?thesis by simp
qed

lemma bits5_drop: "5 \<le> n \<Longrightarrow> bits5 (unat (drop_bit (n - 5) w AND (31 :: 32 word))) @ low_bits (n - 5) w = low_bits n w"
proof -
  assume n: "5 \<le> n"
  have "bit (unat (drop_bit (n - 5) w AND (31 :: 32 word))) i = bit w (n - 5 + i)" if "i < 5" for i
  proof -
    have m: "(31 :: 32 word) = mask 5" by (simp add: mask_eq_exp_minus_1)
    show ?thesis unfolding m using that by (simp add: bit_unsigned_iff bit_and_iff bit_drop_bit_eq bit_mask_iff)
  qed
  then have "bits5 (unat (drop_bit (n - 5) w AND (31 :: 32 word))) = map (bit w) (map ((+) (n - 5)) (rev [0..<5]))"
    by (simp add: bits5_def)
  moreover have "low_bits n w = map (bit w) (map ((+) (n - 5)) (rev [0..<5]) @ rev [0..<n - 5])"
    using rev_upt_add [of "n - 5" 5] n by (simp add: low_bits_def)
  ultimately show ?thesis by (simp add: low_bits_def)
qed

lemma take_fives_bits:
  "take_fives n w = (ds, m) \<Longrightarrow> concat (map bits5 ds) @ low_bits m w = low_bits n w \<and> m < 5 \<and> (\<forall>d \<in> set ds. d < 32)"
proof (induction n arbitrary: ds rule: less_induct)
  case (less n)
  show ?case
  proof (cases "5 \<le> n")
    case True
    obtain es k where es: "take_fives (n - 5) w = (es, k)" by (cases "take_fives (n - 5) w")
    let ?d = "unat (drop_bit (n - 5) w AND (31 :: 32 word))"
    have ds: "ds = ?d # es" "m = k" using less.prems True es by (simp_all add: take_fives.simps [of n])
    have "?d < 32" by (rule and_31)
    with less.IH [of "n - 5" es] True es bits5_drop [OF True, of w] ds show ?thesis by auto
  next
    case False
    with less.prems show ?thesis by (simp add: take_fives.simps [of n])
  qed
qed

lemma low_bits_shift:
  assumes "n < 5"
  shows "low_bits (n + 8) (push_bit 8 v OR ucast (b :: 8 word)) = low_bits n v @ bits8 b"
proof -
  let ?w = "push_bit 8 v OR ucast b :: 32 word"
  have high: "bit ?w (8 + i) = bit v i" if "i < n" for i
    using that assms bit_imp_le_length [of b "8 + i"] by (auto simp: bit_or_iff bit_push_bit_iff bit_ucast_iff)
  have low: "bit ?w i = bit b i" if "i < 8" for i
    using that by (auto simp: bit_or_iff bit_push_bit_iff bit_ucast_iff)
  show ?thesis
    using rev_upt_add [of 8 n] high low by (simp add: low_bits_def bits8_def add.commute [of n 8])
qed

lemma low_bits_pad:
  assumes "0 < n" "n < 5"
  shows "bits5 (unat (push_bit (5 - n) v AND (31 :: 32 word))) = low_bits n v @ replicate (5 - n) False"
proof -
  let ?w = "push_bit (5 - n) v AND (31 :: 32 word)"
  have m: "(31 :: 32 word) = mask 5" by (simp add: mask_eq_exp_minus_1)
  have high: "bit (unat ?w) (5 - n + i) = bit v i" if "i < n" for i
    using that assms unfolding m by (auto simp add: bit_unsigned_iff bit_and_iff bit_push_bit_iff bit_mask_iff)
  have low: "\<not> bit (unat ?w) i" if "i < 5 - n" for i
    using that assms unfolding m by (simp add: bit_unsigned_iff bit_and_iff bit_push_bit_iff bit_mask_iff)
  have "bits5 (unat ?w) = map (bit (unat ?w)) (map ((+) (5 - n)) (rev [0..<n]) @ rev [0..<5 - n])"
    using rev_upt_add [of "5 - n" n] assms by (simp add: bits5_def)
  also have "\<dots> = low_bits n v @ map (\<lambda>i. False) (rev [0..<5 - n])"
    using high low by (simp add: low_bits_def)
  finally show ?thesis by (simp add: map_replicate_const)
qed

lemma base32_loop_bits:
  "n < 5 \<Longrightarrow> \<exists>p < 5. concat (map bits5 (base32_loop n v buf)) = low_bits n v @ concat (map bits8 buf) @ replicate p False
     \<and> (\<forall>d \<in> set (base32_loop n v buf). d < 32)"
proof (induction buf arbitrary: n v)
  case Nil
  have "unat (push_bit (5 - n) v AND (31 :: 32 word)) < 32" by (rule and_31)
  with Nil low_bits_pad [of n v] show ?case
    by (cases "n = 0") (auto simp: low_bits_def intro: exI [of _ "5 - n"] exI [of _ 0])
next
  case (Cons b buf)
  let ?w = "push_bit 8 v OR ucast b :: 32 word"
  obtain ds m where ds: "take_fives (n + 8) ?w = (ds, m)" by (cases "take_fives (n + 8) ?w")
  note five = take_fives_bits [OF ds]
  then have "m < 5" by simp
  from Cons.IH [OF this, of ?w] obtain p where p: "p < 5"
    "concat (map bits5 (base32_loop m ?w buf)) = low_bits m ?w @ concat (map bits8 buf) @ replicate p False"
    "\<forall>d \<in> set (base32_loop m ?w buf). d < 32" by blast
  have "concat (map bits5 (base32_loop n v (b # buf))) = concat (map bits5 ds) @ low_bits m ?w @ concat (map bits8 buf) @ replicate p False"
    using ds p(2) by (simp add: Let_def)
  also have "\<dots> = low_bits (n + 8) ?w @ concat (map bits8 buf) @ replicate p False"
    using five by (metis append_assoc)
  finally have "concat (map bits5 (base32_loop n v (b # buf))) = low_bits n v @ concat (map bits8 (b # buf)) @ replicate p False"
    using low_bits_shift [OF Cons.prems] by simp
  moreover have "\<forall>d \<in> set (base32_loop n v (b # buf)). d < 32" using ds five p(3) by (auto simp: Let_def)
  ultimately show ?case using p(1) by blast
qed

text \<open>
  Base32 regroups bits. The digits a secret is printed with, five bits each, are exactly the
  bits of its bytes in order, filled up with less than five zeros; and the text is one the format
  check of secrets accepts. The 32-bit shifts of the loop lose no bit.
\<close>
lemma base32_regroups_bits:
  "\<exists>p < 5. concat (map bits5 (base32_digits buffer)) = concat (map bits8 buffer) @ replicate p False \<and>
     (buffer \<noteq> [] \<longrightarrow> isValidSecret (base32Encode buffer))"
proof -
  obtain p where p: "p < 5" "concat (map bits5 (base32_digits buffer)) = concat (map bits8 buffer) @ replicate p False"
      "\<forall>d \<in> set (base32_digits buffer). d < 32"
    using base32_loop_bits [of 0 0 buffer] by (auto simp: base32_digits_def low_bits_def)
  have len: "length base32Chars = 32" by (simp add: base32Chars_def)
  have chars: "\<forall>c \<in> set (base32Encode buffer). c \<in> set base32Chars"
    using p(3) len by (auto simp: base32Encode_def)
  have "base32_digits buffer \<noteq> []" if "buffer \<noteq> []"
  proof
    assume "base32_digits buffer = []"
    with p(2) have "concat (map bits8 buffer) = []" by simp
    with that show False by (cases buffer) (auto simp: bits8_def)
  qed
  then have "buffer \<noteq> [] \<longrightarrow> isValidSecret (base32Encode buffer)"
    using chars by (auto simp: isValidSecret_def Let_def base32Encode_def takeWhile_eq_all_conv [THEN iffD2] dropWhile_eq_Nil_conv [THEN iffD2])
  with p(1,2) show ?thesis by blast
qed

lemma base32_regroups_bits_example:
  "isValidSecret (base32Encode [72, 105]) \<and> base32Encode [72, 105] = ''JBUQ''"
proof -
  have "isValidSecret (base32Encode [72, 105])" using base32_regroups_bits [of "[72, 105]"] by auto
  moreover have "base32Encode [72, 105] = ''JBUQ''" by code_simp
  ultimately show ?thesis ..
qed

lemma placeholder_secret_invalid:
  \<comment> \<open>the secret every one-time password is verified with is no base32 text\<close>
  "isValidSecret ''user-totp-secret'' = False"
  by code_simp

section \<open>Backup codes\<close>

datatype backup_op =
    BoGenerate string nat "nat list list"
  | BoRegenerate string nat "nat list list"
  | BoVerify int string string
  | BoDelete string

fun backup_step :: "(string \<Rightarrow> string) \<Rightarrow> nat \<Rightarrow> backup_op \<Rightarrow> code_storage \<Rightarrow> code_storage" where
  "backup_step hash len (BoGenerate u n draws) s =
     (case generateCodes hash len u n draws s of None \<Rightarrow> s | Some (codes, s') \<Rightarrow> s')"
| "backup_step hash len (BoRegenerate u n draws) s =
     (case regenerateCodes hash len u n draws s of None \<Rightarrow> deleteCodes u s | Some (codes, s') \<Rightarrow> s')"
| "backup_step hash len (BoVerify now u code) s = snd (verifyCode hash now u code s)"
| "backup_step hash len (BoDelete u) s = deleteCodes u s"

definition generated :: "nat \<Rightarrow> string \<Rightarrow> bool" where
  "generated len c \<longleftrightarrow> (\<exists>bytes. c = generateSingleCode len bytes)"

definition hyphened :: "(string \<Rightarrow> string) \<Rightarrow> nat \<Rightarrow> code_storage \<Rightarrow> bool" where
  \<comment> \<open>every stored hash is that of a generated code, hyphen included\<close>
  "hyphened hash len s \<longleftrightarrow> (\<forall>u codes. map_of s u = Some codes \<longrightarrow> set (map bc_code_hash codes) \<subseteq> hash ` Collect (generated len))"

lemma generated_single: "generated len (generateSingleCode len bytes)"
  by (auto simp: generated_def)

lemma generate_codes_all:
  "generate_codes len n codes draws = Some codes' \<Longrightarrow> list_all (generated len) codes \<Longrightarrow> list_all (generated len) codes'"
proof (induction len n codes draws rule: generate_codes.induct)
  case (2 len n codes bytes draws)
  then show ?case using generated_single [of len bytes] by (simp add: Let_def split: if_splits)
qed (simp split: if_splits)

lemma use_code_hashes: "use_code now h cs = Some cs' \<Longrightarrow> map bc_code_hash cs' = map bc_code_hash cs"
  by (induction cs arbitrary: cs') (auto split: if_splits)

lemma use_code_found: "use_code now h cs = Some cs' \<Longrightarrow> h \<in> set (map bc_code_hash cs)"
  by (induction cs arbitrary: cs') (auto split: if_splits)

lemma hyphened_generate:
  assumes "hyphened hash len s" "generateCodes hash len u n draws s = Some (codes, s')"
  shows "hyphened hash len s'"
proof -
  have s': "s' = storeCodes hash u codes s" and "generate_codes len n [] draws = Some codes"
    using assms(2) by (auto simp: generateCodes_def)
  then have "set codes \<subseteq> Collect (generated len)" using generate_codes_all by (fastforce simp: list_all_iff)
  then have "bc_code_hash ` set (map (\<lambda>c. \<lparr>bc_code_hash = hash c, bc_used = False, bc_used_at = None\<rparr>) codes) \<subseteq> hash ` Collect (generated len)"
    by auto
  with assms(1) show ?thesis unfolding s' storeCodes_def hyphened_def by simp
qed

lemma hyphened_delete: "hyphened hash len s \<Longrightarrow> hyphened hash len (deleteCodes u s)"
  by (auto simp: hyphened_def deleteCodes_def)

lemma hyphened_verify:
  assumes "hyphened hash len s"
  shows "hyphened hash len (snd (verifyCode hash now u code s))"
proof (cases "map_of s u")
  case (Some cs)
  then have old: "set (map bc_code_hash cs) \<subseteq> hash ` Collect (generated len)" using assms unfolding hyphened_def by blast
  show ?thesis
  proof (cases "use_code now (hash (normalizeCode code)) cs")
    case None
    with assms Some show ?thesis by (simp add: verifyCode_def verifyAndUseCode_def)
  next
    case found: (Some cs')
    then have "snd (verifyCode hash now u code s) = AList.update u cs' s"
      using Some by (simp add: verifyCode_def verifyAndUseCode_def)
    moreover have "set (map bc_code_hash cs') \<subseteq> hash ` Collect (generated len)"
      using old use_code_hashes [OF found] by metis
    ultimately show ?thesis using assms unfolding hyphened_def by simp
  qed
qed (simp add: verifyCode_def verifyAndUseCode_def assms)

lemma hyphened_step: "hyphened hash len s \<Longrightarrow> hyphened hash len (backup_step hash len op s)"
  by (cases op) (auto simp: regenerateCodes_def hyphened_delete hyphened_verify split: option.split
      intro: hyphened_generate [OF hyphened_delete] hyphened_generate hyphened_delete)

interpretation backup: machine "backup_step hash len" "hyphened hash len"
  by unfold_locales (rule hyphened_step)

lemma upper_hyphen: "ascii_upper c = CHR ''-'' \<Longrightarrow> c = CHR ''-''"
proof -
  assume upper: "ascii_upper c = CHR ''-''"
  let ?n = "of_char c :: nat"
  show ?thesis
  proof (cases "97 \<le> ?n \<and> ?n \<le> 122")
    case True
    then have "of_char (ascii_upper c) = ?n - 32" by (simp add: ascii_upper_def Let_def of_char_of) (auto intro: mod_less)
    with upper True show ?thesis by auto
  next
    case False
    with upper show ?thesis by (auto simp: ascii_upper_def Let_def)
  qed
qed

lemma normalized_no_hyphen: "CHR ''-'' \<notin> set (normalizeCode code)"
  using upper_hyphen by (auto simp: normalizeCode_def dest!: sym [of "CHR ''-''"])

lemma generated_hyphen: "CHR ''-'' \<in> set (generateSingleCode len bytes)"
  by (simp add: generateSingleCode_def formatCode_def Let_def)

text \<open>
  No backup code ever verifies. Codes are stored as the hash of their printed form, with its
  hyphen, while the answer of a user is hashed after its hyphens were removed. So in every run,
  whatever codes were generated and whatever the user answers, verification fails, unless the hash
  of some generated code happens to be the hash of another text, the normalized answer.
\<close>
lemma backup_codes_never_verify:
  assumes "\<And>bytes. hash (generateSingleCode len bytes) = hash (normalizeCode response) \<Longrightarrow>
      generateSingleCode len bytes = normalizeCode response"
  shows "fst (verifyCode hash now u response (fold (backup_step hash len) ops [])) = False"
proof -
  let ?s = "fold (backup_step hash len) ops []"
  have h: "hyphened hash len ?s" by (rule backup.inv_run) (simp add: hyphened_def)
  have "use_code now (hash (normalizeCode response)) cs = None" if cs: "map_of ?s u = Some cs" for cs
  proof (rule ccontr)
    assume "use_code now (hash (normalizeCode response)) cs \<noteq> None"
    then have "hash (normalizeCode response) \<in> set (map bc_code_hash cs)" using use_code_found by blast
    then have "hash (normalizeCode response) \<in> hash ` Collect (generated len)" using h cs unfolding hyphened_def by blast
    then obtain bytes where "hash (generateSingleCode len bytes) = hash (normalizeCode response)"
      unfolding generated_def by auto
    from assms [OF this] generated_hyphen [of len bytes] normalized_no_hyphen [of response] show False by simp
  qed
  then show ?thesis by (auto simp: verifyCode_def verifyAndUseCode_def split: option.split)
qed

lemma backup_codes_never_verify_example:
  \<comment> \<open>the very code that was handed out, with the identity as the hash\<close>
  "fst (the (generateCodes (\<lambda>c. c) 4 ''u'' 1 [[0, 1, 2, 3]] [])) = [''AB-CD''] \<and>
   fst (verifyCode (\<lambda>c. c) 1000 ''u'' ''AB-CD'' (fold (backup_step (\<lambda>c. c) 4) [BoGenerate ''u'' 1 [[0, 1, 2, 3]]] [])) = False"
proof
  show "fst (the (generateCodes (\<lambda>c. c) 4 ''u'' 1 [[0, 1, 2, 3]] [])) = [''AB-CD'']" by code_simp
  show "fst (verifyCode (\<lambda>c. c) 1000 ''u'' ''AB-CD'' (fold (backup_step (\<lambda>c. c) 4) [BoGenerate ''u'' 1 [[0, 1, 2, 3]]] [])) = False"
    by (rule backup_codes_never_verify)
qed

section \<open>Guesses\<close>

datatype mfa_op =
    MoCreate int string string string "mfa_method list"
  | MoVerify int string mfa_method string bool
  | MoSwitch int string mfa_method
  | MoDelete int string
  | MoCodes int backup_op

fun mo_time :: "mfa_op \<Rightarrow> int" where
  "mo_time (MoCreate now i u x ms) = now"
| "mo_time (MoVerify now i m r b) = now"
| "mo_time (MoSwitch now i m) = now"
| "mo_time (MoDelete now i) = now"
| "mo_time (MoCodes now b) = now"

fun mfa_step :: "'r mfa_redis \<Rightarrow> mfa_env \<Rightarrow> mfa_op \<Rightarrow> 'r mfa_world \<Rightarrow> 'r mfa_world" where
  "mfa_step R e (MoCreate now i u x ms) w = snd (createChallenge R e now i u x ms w)"
| "mfa_step R e (MoVerify now i m r b) w = snd (verifyChallenge R e now i m r b w)"
| "mfa_step R e (MoSwitch now i m) w = snd (switchMethod R now i m w)"
| "mfa_step R e (MoDelete now i) w = w\<lparr>mw_redis := deleteChallenge R i (mw_redis w)\<rparr>"
| "mfa_step R e (MoCodes now b) w = w\<lparr>mw_codes := backup_step (me_hash e) 8 b (mw_codes w)\<rparr>"

definition guess :: "'r mfa_redis \<Rightarrow> mfa_env \<Rightarrow> string \<Rightarrow> mfa_op \<Rightarrow> 'r mfa_world \<Rightarrow> bool" where
  \<comment> \<open>an answer to a challenge that was really checked\<close>
  "guess R e i op w \<longleftrightarrow> (case op of
      MoVerify now j m r b \<Rightarrow> j = i \<and> (let res = fst (verifyChallenge R e now i m r b w) in
        mr_success res \<or> mr_error res = Some ''Invalid verification code'')
    | _ \<Rightarrow> False)"

fun guesses :: "'r mfa_redis \<Rightarrow> mfa_env \<Rightarrow> string \<Rightarrow> mfa_op list \<Rightarrow> 'r mfa_world \<Rightarrow> nat" where
  "guesses R e i [] w = 0"
| "guesses R e i (op # ops) w = (if guess R e i op w then 1 else 0) + guesses R e i ops (mfa_step R e op w)"

fun renews :: "string \<Rightarrow> mfa_op \<Rightarrow> bool" where
  \<comment> \<open>creating a challenge again or switching its method\<close>
  "renews i (MoCreate now j u x ms) \<longleftrightarrow> j = i"
| "renews i (MoSwitch now j m) \<longleftrightarrow> j = i"
| "renews i _ \<longleftrightarrow> False"

definition challenges_keyed :: "'r mfa_redis \<Rightarrow> int \<Rightarrow> 'r \<Rightarrow> bool" where
  "challenges_keyed R t s \<longleftrightarrow> (\<forall>i c. stored_challenge R t i s = Some c \<longrightarrow> mc_id c = i)"

definition counted :: "'r mfa_redis \<Rightarrow> string \<Rightarrow> nat \<Rightarrow> nat \<Rightarrow> int \<Rightarrow> 'r \<Rightarrow> bool" where
  \<comment> \<open>the challenge, while it is stored, counts at least the guesses made\<close>
  "counted R i n M t s \<longleftrightarrow> n \<le> M \<and>
     (\<forall>c. stored_challenge R t i s = Some c \<longrightarrow> n \<le> mc_attempts c \<and> mc_max_attempts c = M)"

locale challenge_server = redis_store R for R :: "'r mfa_redis"
begin

lemma stored_later: "t \<le> u \<Longrightarrow> stored_challenge R u i s = Some c \<Longrightarrow> stored_challenge R t i s = Some c"
  by (auto simp: stored_challenge_def intro: get_later)

lemma stored_delete: "stored_challenge R u i (deleteChallenge R j s) = (if j = i then None else stored_challenge R u i s)"
  by (auto simp: stored_challenge_def deleteChallenge_def get_del challenge_key_def)

lemma stored_store:
  assumes "now \<le> u" "stored_challenge R u i (storeChallenge R now c s) = Some d"
  shows "(mc_id c = i \<and> d = c) \<or> ((mc_id c \<noteq> i \<or> mc_expires_at c \<le> now) \<and> stored_challenge R u i s = Some d)"
proof (cases "0 < (mc_expires_at c - now + 999) div 1000")
  case True
  then show ?thesis using assms get_setex [OF True assms(1)] get_setex_other [of "challenge_key (mc_id c)" "challenge_key i"]
    by (cases "mc_id c = i") (auto simp: stored_challenge_def storeChallenge_def challenge_key_def split: if_splits)
next
  case False
  then have "mc_expires_at c \<le> now" by linarith
  with False assms show ?thesis by (auto simp: storeChallenge_def)
qed

lemma keyed_store: "challenges_keyed R u s \<Longrightarrow> now \<le> u \<Longrightarrow> challenges_keyed R u (storeChallenge R now c s)"
  using stored_store [of now u _ c s] unfolding challenges_keyed_def by blast

lemma keyed_delete: "challenges_keyed R u s \<Longrightarrow> challenges_keyed R u (deleteChallenge R j s)"
  by (simp add: challenges_keyed_def stored_delete)

lemma challenges_later: "challenges_keyed R t s \<Longrightarrow> t \<le> u \<Longrightarrow> challenges_keyed R u s"
  using stored_later by (auto simp: challenges_keyed_def)

lemma keyed_step:
  assumes "challenges_keyed R (mo_time op) (mw_redis w)" "mo_time op \<le> u"
  shows "challenges_keyed R u (mw_redis (mfa_step R e op w))"
proof -
  note store = keyed_store [OF challenges_later [OF assms]] and k = challenges_later [OF assms]
  show ?thesis
  proof (cases op)
    case (MoCreate now i x y ms)
    with store assms(2) show ?thesis by (simp add: createChallenge_def Let_def)
  next
    case (MoVerify now i m r b)
    with k show ?thesis
      using store [of now] keyed_delete [OF k] keyed_delete [OF store [of now]] assms(2)
      by (simp add: verifyChallenge_def Let_def split: option.split prod.split)
  next
    case (MoSwitch now i m)
    with k store assms(2) show ?thesis by (simp add: switchMethod_def Let_def split: option.split)
  next
    case (MoDelete now i)
    with keyed_delete [OF k] show ?thesis by simp
  next
    case (MoCodes now b)
    with k show ?thesis by simp
  qed
qed

lemma counted_later: "counted R i n M t s \<Longrightarrow> t \<le> u \<Longrightarrow> counted R i n M u s"
  unfolding counted_def using stored_later by blast

lemma counted_store_other: "counted R i n M t s \<Longrightarrow> mc_id c \<noteq> i \<Longrightarrow> counted R i n M t (storeChallenge R t c s)"
  by (auto simp: counted_def dest!: stored_store [OF order_refl])

lemma counted_delete: "counted R i n M t s \<Longrightarrow> counted R i n M t (deleteChallenge R j s)"
  by (simp add: counted_def stored_delete)

lemma counted_guess:
  assumes "counted R i n M t s" "stored_challenge R t i s = Some c" "mc_id c = i" "t < mc_expires_at c" "mc_attempts c < mc_max_attempts c"
  shows "counted R i (Suc n) M t (storeChallenge R t (c\<lparr>mc_attempts := mc_attempts c + 1\<rparr>) s)"
proof -
  have "d = c\<lparr>mc_attempts := mc_attempts c + 1\<rparr>"
    if "stored_challenge R t i (storeChallenge R t (c\<lparr>mc_attempts := mc_attempts c + 1\<rparr>) s) = Some d" for d
    using stored_store [OF order_refl that] assms(3,4) by simp
  with assms(1,2,5) show ?thesis by (auto simp: counted_def)
qed

lemma guess_iff:
  "guess R e i (MoVerify now j m r b) w \<longleftrightarrow> j = i \<and> (case stored_challenge R now i (mw_redis w) of
     None \<Rightarrow> False | Some c \<Rightarrow> now < mc_expires_at c \<and> mc_attempts c < mc_max_attempts c)"
  by (auto simp: guess_def verifyChallenge_def Let_def split: option.split prod.split)

lemma counted_verify:
  assumes "challenges_keyed R now (mw_redis w)" "counted R i n M now (mw_redis w)"
  shows "counted R i ((if guess R e i (MoVerify now j m r b) w then 1 else 0) + n) M now (mw_redis (snd (verifyChallenge R e now j m r b w)))"
proof (cases "stored_challenge R now j (mw_redis w)")
  case (Some c)
  have j: "mc_id c = j" using assms(1) Some by (simp add: challenges_keyed_def)
  show ?thesis
  proof (cases "mc_expires_at c \<le> now \<or> mc_max_attempts c \<le> mc_attempts c")
    case True
    then have "\<not> guess R e i (MoVerify now j m r b) w" using Some by (auto simp: guess_iff)
    moreover have "mw_redis (snd (verifyChallenge R e now j m r b w)) = deleteChallenge R j (mw_redis w)"
      using True Some by (auto simp: verifyChallenge_def)
    ultimately show ?thesis by (simp add: counted_delete [OF assms(2)])
  next
    case False
    let ?s = "storeChallenge R now (c\<lparr>mc_attempts := mc_attempts c + 1\<rparr>) (mw_redis w)"
    have "counted R i ((if guess R e i (MoVerify now j m r b) w then 1 else 0) + n) M now ?s"
      using counted_guess [OF assms(2)] counted_store_other [OF assms(2)] Some False j
      by (cases "j = i") (simp_all add: guess_iff)
    moreover have "mw_redis (snd (verifyChallenge R e now j m r b w)) \<in> {?s, deleteChallenge R j ?s}"
      using False Some by (auto simp: verifyChallenge_def Let_def split: prod.split)
    ultimately show ?thesis using counted_delete by auto
  qed
qed (use assms(2) in \<open>auto simp: guess_iff verifyChallenge_def split: option.split\<close>)

lemma counted_step:
  assumes "challenges_keyed R (mo_time op) (mw_redis w)" "counted R i n M (mo_time op) (mw_redis w)" "\<not> renews i op"
  shows "counted R i ((if guess R e i op w then 1 else 0) + n) M (mo_time op) (mw_redis (mfa_step R e op w))"
proof (cases op)
  case (MoSwitch now j m)
  then have "mc_id c = j" if "stored_challenge R now j (mw_redis w) = Some c" for c
    using assms(1) that by (simp add: challenges_keyed_def)
  with MoSwitch assms(2,3) show ?thesis
    by (simp add: guess_def switchMethod_def Let_def counted_store_other split: option.split)
qed (use assms counted_verify in \<open>simp_all add: guess_def createChallenge_def Let_def counted_store_other counted_delete\<close>)

lemma counted_run:
  "sorted (t # map mo_time ops) \<Longrightarrow> challenges_keyed R t (mw_redis w) \<Longrightarrow> counted R i n M t (mw_redis w) \<Longrightarrow>
   list_all (\<lambda>op. \<not> renews i op) ops \<Longrightarrow> n + guesses R e i ops w \<le> M"
proof (induction ops arbitrary: t w n)
  case Nil
  then show ?case by (simp add: counted_def)
next
  case (Cons op ops)
  have times: "t \<le> mo_time op" "sorted (mo_time op # map mo_time ops)" using Cons.prems(1) by simp_all
  have none: "\<not> renews i op" "list_all (\<lambda>op. \<not> renews i op) ops" using Cons.prems(4) by simp_all
  note keyed = challenges_later [OF Cons.prems(2) times(1)]
  note step = counted_step [OF keyed counted_later [OF Cons.prems(3) times(1)] none(1), of e]
  from Cons.IH [OF times(2) keyed_step [OF keyed order_refl] step none(2)] show ?case by simp
qed

lemma keyed_run:
  "sorted (t # map mo_time ops @ [u]) \<Longrightarrow> challenges_keyed R t (mw_redis w) \<Longrightarrow>
   challenges_keyed R u (mw_redis (fold (mfa_step R e) ops w))"
proof (induction ops arbitrary: t w)
  case Nil
  then show ?case by (simp add: challenges_later)
next
  case (Cons op ops)
  have times: "t \<le> mo_time op" "sorted (mo_time op # map mo_time ops @ [u])" using Cons.prems(1) by simp_all
  from Cons.IH [OF times(2) keyed_step [OF challenges_later [OF Cons.prems(2) times(1)] order_refl]] show ?case by simp
qed

lemma created_counted:
  assumes "challenges_keyed R t (mw_redis w)" "0 < me_challengeTTL e"
  shows "counted R i 0 (me_maxAttempts e) t (mw_redis (snd (createChallenge R e t i u x ms w)))"
  using assms(2) by (auto simp: counted_def createChallenge_def Let_def dest!: stored_store [OF order_refl])

end

interpretation challenges: challenge_server "map_redis :: (mfa_challenge, mfa_challenge server) redis"
  by (rule challenge_server.intro) (rule mr.redis_store_axioms)

text \<open>
  C21: Guessing is bounded. After a challenge was created, in every run in which it is neither
  created again nor its method switched, its answers are checked at most as often as the
  configured number of attempts, whatever methods are tried and whatever happens to other
  challenges and to the backup codes. Switching the method sets the count back to zero.
\<close>
theorem challenge_guesses_bounded:
  fixes R :: "'r mfa_redis"
  assumes "redis_store R" "\<And>k. rd_get R t0 k s = None" "0 < me_challengeTTL e"
    and "sorted (t0 # map mo_time pre @ [t])" "sorted (t # map mo_time ops)"
    and "list_all (\<lambda>op. \<not> renews i op) ops"
  shows "guesses R e i ops (snd (createChallenge R e t i u x ms (fold (mfa_step R e) pre \<lparr>mw_redis = s, mw_codes = []\<rparr>)))
    \<le> me_maxAttempts e"
proof -
  note server = challenge_server.intro [OF assms(1)]
  let ?w = "fold (mfa_step R e) pre \<lparr>mw_redis = s, mw_codes = []\<rparr>"
  have keyed: "challenges_keyed R t (mw_redis ?w)"
    by (rule challenge_server.keyed_run [OF server assms(4)]) (simp add: challenges_keyed_def stored_challenge_def assms(2))
  then have "challenges_keyed R t (mw_redis (snd (createChallenge R e t i u x ms ?w)))"
    using challenge_server.keyed_step [OF server, of "MoCreate t i u x ms" ?w t e] by simp
  from challenge_server.counted_run [OF server assms(5) this
      challenge_server.created_counted [OF server keyed assms(3)] assms(6)]
  show ?thesis by simp
qed

definition demo_mfa_env :: mfa_env where
  "demo_mfa_env = \<lparr>me_otp = (\<lambda>cfg secret token now. if token = ''123456'' then Some (Some 0) else Some None),
     me_totp = defaultTOTPConfig, me_hash = (\<lambda>c. c), me_maxAttempts = 2, me_challengeTTL = 300\<rparr>"

definition demo_guesses :: "mfa_op list" where
  "demo_guesses = map (\<lambda>n. MoVerify (1000 + int n) ''c'' Totp ''000000'' False) [0..<5]"

lemma challenge_guesses_bounded_witness:
  "guesses map_redis demo_mfa_env ''c'' demo_guesses
     (snd (createChallenge map_redis demo_mfa_env 500 ''c'' ''u'' ''x'' [Totp] \<lparr>mw_redis = no_data, mw_codes = []\<rparr>)) \<le> 2"
proof -
  have "rd_get (map_redis :: (mfa_challenge, mfa_challenge server) redis) 0 k no_data = None" for k
    by (simp add: map_redis_def no_data_def)
  from challenge_guesses_bounded [OF mr.redis_store_axioms this, where pre = "[]" and t = 500 and ops = demo_guesses and e = demo_mfa_env]
  show ?thesis by (simp add: demo_guesses_def demo_mfa_env_def list_all_iff upt_rec)
qed

lemma switching_renews:
  \<comment> \<open>with two attempts per challenge, six answers are checked\<close>
  "guesses map_redis demo_mfa_env ''c''
     (concat (replicate 3 [MoVerify 1000 ''c'' Totp ''000000'' False, MoVerify 1000 ''c'' Totp ''000001'' False, MoSwitch 1000 ''c'' Totp]))
     (snd (createChallenge map_redis demo_mfa_env 500 ''c'' ''u'' ''x'' [Totp] \<lparr>mw_redis = no_data, mw_codes = []\<rparr>)) = 6"
  by code_simp

lemma method_not_checked:
  \<comment> \<open>a challenge for a backup code is passed with a one-time password\<close>
  "mr_success (fst (verifyChallenge map_redis demo_mfa_env 1000 ''c'' Totp ''123456'' False
     (snd (createChallenge map_redis demo_mfa_env 500 ''c'' ''u'' ''x'' [BackupCode] \<lparr>mw_redis = no_data, mw_codes = []\<rparr>))))"
  by code_simp

section \<open>Trust in devices\<close>

datatype trust_op =
    ToTrust int string string string string
  | ToVerify int string string string
  | ToIsTrusted int string string
  | ToRemove string string
  | ToRemoveAll string

fun trust_step :: "trust_config \<Rightarrow> trust_op \<Rightarrow> trust_storage \<Rightarrow> trust_storage" where
  "trust_step cfg (ToTrust now u d name f) s = snd (trustDevice cfg now u d name f s)"
| "trust_step cfg (ToVerify now u d f) s = snd (verifyTrust now u d f s)"
| "trust_step cfg (ToIsTrusted now u d) s = snd (isTrusted now u d s)"
| "trust_step cfg (ToRemove u d) s = removeTrust u d s"
| "trust_step cfg (ToRemoveAll u) s = removeAllTrust u s"

lemma getTrustedDevices_update:
  "getTrustedDevices u (AList.update v ds s) = (if u = v then ds else getTrustedDevices u s)"
  by (simp add: getTrustedDevices_def)

definition devices_ok :: "trust_config \<Rightarrow> trust_storage \<Rightarrow> bool" where
  "devices_ok cfg s \<longleftrightarrow> (\<forall>u. length (getTrustedDevices u s) \<le> tr_maxDevices cfg \<and>
     distinct (map td_device_id (getTrustedDevices u s)))"

lemma filter_ids:
  "distinct (map f xs) \<Longrightarrow> distinct (map f (filter P xs))"
  by (rule distinct_map_filter)

lemma filter_shorter: "x \<in> set xs \<Longrightarrow> \<not> P x \<Longrightarrow> length (filter P xs) < length xs"
  by (induction xs) (auto simp: less_Suc_eq_le)

lemma oldest_in: "oldest_device x xs \<in> set (x # xs)"
proof (induction xs arbitrary: x)
  case (Cons d ds)
  then show ?case using Cons [of "if td_trusted_at x < td_trusted_at d then x else d"] by (auto split: if_splits)
qed simp

lemma devices_remove: "devices_ok cfg s \<Longrightarrow> devices_ok cfg (removeTrust u d s)"
  by (auto simp: devices_ok_def removeTrust_def getTrustedDevices_update filter_ids intro: le_trans [OF length_filter_le])

lemma devices_update:
  assumes ok: "devices_ok cfg s"
  shows "devices_ok cfg (updateLastUsed now u d s)"
proof (cases "getTrustedDevice u d s")
  case (Some x)
  have x: "x \<in> set (getTrustedDevices u s)" using Some by (auto simp: getTrustedDevice_def dest: find_SomeD)
  then have "length (filter (\<lambda>y. td_device_id y \<noteq> td_device_id x) (getTrustedDevices u s)) < length (getTrustedDevices u s)"
    by (rule filter_shorter) simp
  then have "length (filter (\<lambda>y. td_device_id y \<noteq> td_device_id x) (getTrustedDevices u s)) < tr_maxDevices cfg"
    using ok unfolding devices_ok_def by (meson less_le_trans)
  with ok Some show ?thesis
    by (auto simp: updateLastUsed_def store_device_def devices_ok_def getTrustedDevices_update filter_ids)
qed (simp add: updateLastUsed_def ok)

lemma devices_store:
  assumes "devices_ok cfg s" "length (getTrustedDevices u s) < tr_maxDevices cfg"
  shows "devices_ok cfg (store_device u d s)"
proof -
  have "length (filter (\<lambda>y. td_device_id y \<noteq> td_device_id d) (getTrustedDevices u s)) < tr_maxDevices cfg"
    using assms(2) le_less_trans [OF length_filter_le] by blast
  with assms(1) show ?thesis
    by (auto simp: store_device_def devices_ok_def getTrustedDevices_update filter_ids)
qed

lemma devices_trust: "devices_ok cfg s \<Longrightarrow> devices_ok cfg (snd (trustDevice cfg now u d name f s))"
proof (cases "tr_maxDevices cfg \<le> length (getTrustedDevices u s)")
  case True
  assume ok: "devices_ok cfg s"
  show ?thesis
  proof (cases "getTrustedDevices u s")
    case (Cons x xs)
    let ?o = "oldest_device x xs"
    have "length (getTrustedDevices u (removeTrust u (td_device_id ?o) s)) < length (getTrustedDevices u s)"
      using oldest_in [of x xs] Cons filter_shorter [of ?o "x # xs" "\<lambda>y. td_device_id y \<noteq> td_device_id ?o"]
      by (simp add: removeTrust_def getTrustedDevices_update)
    then have "length (getTrustedDevices u (removeTrust u (td_device_id ?o) s)) < tr_maxDevices cfg"
      using ok unfolding devices_ok_def by (meson less_le_trans)
    from devices_store [OF devices_remove [OF ok] this] True Cons show ?thesis by (simp add: trustDevice_def Let_def)
  qed (use ok True in \<open>simp add: trustDevice_def Let_def\<close>)
next
  case False
  then show "devices_ok cfg s \<Longrightarrow> ?thesis" by (simp add: trustDevice_def Let_def devices_store)
qed

lemma devices_step: "devices_ok cfg s \<Longrightarrow> devices_ok cfg (trust_step cfg op s)"
proof (cases op)
  case (ToRemoveAll u)
  assume "devices_ok cfg s"
  with ToRemoveAll show ?thesis by (auto simp: devices_ok_def removeAllTrust_def getTrustedDevices_def)
qed (auto simp: devices_trust devices_remove devices_update verifyTrust_def isTrusted_def split: option.split)

interpretation trusted: machine "trust_step cfg" "devices_ok cfg"
  by unfold_locales (rule devices_step)

definition given :: "trust_config \<Rightarrow> trust_op list \<Rightarrow> string \<Rightarrow> trusted_device \<Rightarrow> bool" where
  \<comment> \<open>the record of a trust given in the run\<close>
  "given cfg ops u x \<longleftrightarrow> (\<exists>t name. ToTrust t u (td_device_id x) name (td_fingerprint_hash x) \<in> set ops \<and>
     td_expires_at x = t + tr_expiryDays cfg * 24 * 60 * 60 * 1000)"

lemma trust_step_devices:
  assumes "x \<in> set (getTrustedDevices u (trust_step cfg op s))"
  shows "given cfg [op] u x \<or> (\<exists>y \<in> set (getTrustedDevices u s). td_device_id x = td_device_id y \<and>
    td_fingerprint_hash x = td_fingerprint_hash y \<and> td_expires_at x = td_expires_at y)"
proof (cases op)
  case (ToTrust now v d name f)
  show ?thesis
  proof (cases "tr_maxDevices cfg \<le> length (getTrustedDevices v s)")
    case True
    with ToTrust assms show ?thesis
      by (cases "getTrustedDevices v s")
        (auto simp: trustDevice_def Let_def store_device_def removeTrust_def getTrustedDevices_update given_def split: if_splits)
  next
    case False
    with ToTrust assms show ?thesis
      by (auto simp: trustDevice_def Let_def store_device_def getTrustedDevices_update given_def split: if_splits)
  qed
next
  case (ToVerify now v d f)
  with assms show ?thesis
    by (auto simp: verifyTrust_def updateLastUsed_def store_device_def removeTrust_def getTrustedDevices_update getTrustedDevice_def
        split: option.splits if_splits dest: find_SomeD)
next
  case (ToIsTrusted now v d)
  with assms show ?thesis
    by (auto simp: isTrusted_def removeTrust_def getTrustedDevices_update split: option.splits if_splits)
next
  case (ToRemove v d)
  with assms show ?thesis by (auto simp: removeTrust_def getTrustedDevices_update split: if_splits)
next
  case (ToRemoveAll v)
  with assms show ?thesis by (auto simp: removeAllTrust_def getTrustedDevices_def split: option.splits if_splits)
qed

text \<open>
  Trust in a device is given, bounded and expires. In every run from no trusted devices, with
  room for at least one, a user has at most the configured number of trusted devices, each once;
  and when the second factor is waived for a device, the user trusted that device with this very
  fingerprint earlier in the run, less than the configured number of days ago.
\<close>
lemma trusted_devices_were_trusted:
  assumes "fst (verifyTrust now u d f (fold (trust_step cfg) ops []))"
  shows "length (getTrustedDevices u (fold (trust_step cfg) ops [])) \<le> tr_maxDevices cfg \<and>
    distinct (map td_device_id (getTrustedDevices u (fold (trust_step cfg) ops []))) \<and>
    (\<exists>t name. ToTrust t u d name f \<in> set ops \<and> now < t + tr_expiryDays cfg * 24 * 60 * 60 * 1000)"
proof -
  let ?s = "fold (trust_step cfg) ops []"
  have ok: "devices_ok cfg ?s" by (rule trusted.inv_run) (simp add: devices_ok_def getTrustedDevices_def)
  have "given cfg ops u x" if "x \<in> set (getTrustedDevices u ?s)" for x
    using that
  proof (induction ops arbitrary: x rule: rev_induct)
    case (snoc op ops)
    from trust_step_devices [of x u cfg op "fold (trust_step cfg) ops []"] snoc show ?case
      by (fastforce simp: given_def)
  qed (simp add: getTrustedDevices_def)
  moreover obtain x where "x \<in> set (getTrustedDevices u ?s)" "td_device_id x = d" "now < td_expires_at x" "td_fingerprint_hash x = f"
    using assms by (auto simp: verifyTrust_def getTrustedDevice_def split: option.splits if_splits dest: find_SomeD)
  ultimately show ?thesis using ok unfolding devices_ok_def given_def by metis
qed

lemma trusted_devices_were_trusted_example:
  "distinct (map td_device_id (getTrustedDevices ''u'' (fold (trust_step \<lparr>tr_expiryDays = 30, tr_maxDevices = 1\<rparr>)
     [ToTrust 0 ''u'' ''phone'' ''n'' ''f'', ToTrust 5 ''u'' ''laptop'' ''n'' ''g''] [])))"
proof -
  have "fst (verifyTrust 10 ''u'' ''laptop'' ''g'' (fold (trust_step \<lparr>tr_expiryDays = 30, tr_maxDevices = 1\<rparr>)
     [ToTrust 0 ''u'' ''phone'' ''n'' ''f'', ToTrust 5 ''u'' ''laptop'' ''n'' ''g''] []))"
    by code_simp
  then show ?thesis by (rule trusted_devices_were_trusted [THEN conjunct2, THEN conjunct1])
qed

end
