(* ===== verification/AuthTokens.thy ===== *)
theory AuthTokens
  imports AuthzValues AuthRedis
begin

text \<open>
  Access tokens of the auth service (services/auth-service/src/tokens and revocation): their keys,
  generation, the checks on their form and claims, the lists of revocations in Redis and the
  validation that combines them. Signing, verifying and decoding are the library jsonwebtoken, a
  parameter; a payload is the list of its claims. Logging and published events are left out.
\<close>

section \<open>Errors\<close>

datatype token_error =
    TokenClaimError string string \<comment> \<open>message and claim\<close>
  | TokenExpiredError
  | TokenSignatureError string
  | TokenRevokedError string
  | TokenMalformedError string
  | TokenAlgorithmError string
  | TokenSizeError
  | TokenValidationError

definition token_status_code :: "token_error \<Rightarrow> nat" where
  "token_status_code e = (case e of TokenSizeError \<Rightarrow> 413 | TokenValidationError \<Rightarrow> 500 | _ \<Rightarrow> 401)"

definition token_error_code :: "token_error \<Rightarrow> string" where
  "token_error_code e = (case e of TokenClaimError m c \<Rightarrow> ''TOKEN_CLAIM_INVALID'' | TokenExpiredError \<Rightarrow> ''TOKEN_EXPIRED''
     | TokenSignatureError m \<Rightarrow> ''TOKEN_SIGNATURE_INVALID'' | TokenRevokedError m \<Rightarrow> ''TOKEN_REVOKED''
     | TokenMalformedError m \<Rightarrow> ''TOKEN_MALFORMED'' | TokenAlgorithmError m \<Rightarrow> ''TOKEN_ALGORITHM_INVALID''
     | TokenSizeError \<Rightarrow> ''TOKEN_SIZE_EXCEEDED'' | TokenValidationError \<Rightarrow> ''VALIDATION_ERROR'')"

fun first_error :: "(bool \<times> 'e) list \<Rightarrow> 'e option" where
  \<comment> \<open>checks in sequence, each throwing its error when violated\<close>
  "first_error [] = None"
| "first_error ((violated, e) # cs) = (if violated then Some e else first_error cs)"

lemma first_error_None: "first_error cs = None \<longleftrightarrow> (\<forall>c \<in> set cs. \<not> fst c)"
  by (induction cs rule: first_error.induct) auto

lemma first_error_append:
  "first_error (cs @ ds) = (case first_error cs of Some e \<Rightarrow> Some e | None \<Rightarrow> first_error ds)"
  by (induction cs rule: first_error.induct) auto

section \<open>Keys\<close>

datatype jwt_algorithm = RS256 | ES256

record signing_key =
  sk_kid :: string
  sk_algorithm :: jwt_algorithm
  sk_privateKey :: string
  sk_publicKey :: string
  sk_createdAt :: int
  sk_isActive :: bool

record key_provider =
  kp_platform :: "(string, signing_key) jsmap"
  kp_tenant :: "(string, (string, signing_key) jsmap) jsmap"
  kp_platformKeyId :: string
  kp_enableTenantKeys :: bool

definition tenant_keys :: "key_provider \<Rightarrow> string \<Rightarrow> (string, signing_key) jsmap" where
  "tenant_keys kp tenantId = (case map_of (kp_tenant kp) tenantId of None \<Rightarrow> [] | Some m \<Rightarrow> m)"

definition getSigningKey :: "key_provider \<Rightarrow> string option \<Rightarrow> string + signing_key" where
  "getSigningKey kp tenantId =
     (let active = (if kp_enableTenantKeys kp \<and> truthy_str tenantId
            then rev (sort_key sk_createdAt (rev (filter sk_isActive (map_values (tenant_keys kp (the tenantId)))))) else [])
      in case active of
           k # _ \<Rightarrow> Inr k
         | [] \<Rightarrow> (case map_of (kp_platform kp) (kp_platformKeyId kp) of
             None \<Rightarrow> Inl ''No platform signing key available'' | Some k \<Rightarrow> Inr k))"

definition getPublicKey :: "key_provider \<Rightarrow> string \<Rightarrow> string option \<Rightarrow> string option" where
  \<comment> \<open>the empty key is falsy\<close>
  "getPublicKey kp kid tenantId =
     (case (if truthy_str tenantId then map_of (tenant_keys kp (the tenantId)) kid else None) of
        Some k \<Rightarrow> Some (sk_publicKey k)
      | None \<Rightarrow> (case map_of (kp_platform kp) kid of
          Some k \<Rightarrow> if sk_publicKey k \<noteq> [] then Some (sk_publicKey k) else None
        | None \<Rightarrow> None))"

definition addSigningKey :: "signing_key \<Rightarrow> string option \<Rightarrow> key_provider \<Rightarrow> key_provider" where
  "addSigningKey k tenantId kp =
     (if truthy_str tenantId
      then kp\<lparr>kp_tenant := AList.update (the tenantId) (AList.update (sk_kid k) k (tenant_keys kp (the tenantId))) (kp_tenant kp)\<rparr>
      else kp\<lparr>kp_platform := AList.update (sk_kid k) k (kp_platform kp)\<rparr>)"

definition deactivateKey :: "string \<Rightarrow> string option \<Rightarrow> key_provider \<Rightarrow> key_provider" where
  "deactivateKey kid tenantId kp =
     (if truthy_str tenantId
      then (case map_of (tenant_keys kp (the tenantId)) kid of
          None \<Rightarrow> kp
        | Some k \<Rightarrow> kp\<lparr>kp_tenant := AList.update (the tenantId)
            (AList.update kid (k\<lparr>sk_isActive := False\<rparr>) (tenant_keys kp (the tenantId))) (kp_tenant kp)\<rparr>)
      else (case map_of (kp_platform kp) kid of
          None \<Rightarrow> kp
        | Some k \<Rightarrow> kp\<lparr>kp_platform := AList.update kid (k\<lparr>sk_isActive := False\<rparr>) (kp_platform kp)\<rparr>))"

definition isKeyActive :: "key_provider \<Rightarrow> string \<Rightarrow> string option \<Rightarrow> bool" where
  "isKeyActive kp kid tenantId =
     (case (if truthy_str tenantId then map_of (tenant_keys kp (the tenantId)) kid else map_of (kp_platform kp) kid) of
        None \<Rightarrow> False | Some k \<Rightarrow> sk_isActive k)"

section \<open>Payloads\<close>

type_synonym claims = "(string \<times> jsval) list"

record jwt_config =
  jc_issuer :: string
  jc_accessTokenExpiry :: int
  jc_refreshTokenExpiry :: int
  jc_serviceTokenExpiry :: int
  jc_clockTolerance :: int

definition defaultJWTConfig :: jwt_config where
  "defaultJWTConfig = \<lparr>jc_issuer = ''caas.io'', jc_accessTokenExpiry = 900, jc_refreshTokenExpiry = 604800,
     jc_serviceTokenExpiry = 3600, jc_clockTolerance = 30\<rparr>"

definition claim :: "claims \<Rightarrow> string \<Rightarrow> jsval" where
  "claim p k = (case map_of p k of None \<Rightarrow> JUndef | Some v \<Rightarrow> v)"

definition js_truthy :: "jsval \<Rightarrow> bool" where
  "js_truthy v \<longleftrightarrow> v \<notin> {JUndef, JNull, JBool False, JNum NaN, JNum (Fin 0), JStr []}"

abbreviation int_claim :: "int \<Rightarrow> jsval" where
  "int_claim n \<equiv> JNum (Fin (of_int n))"

record token_header =
  hd_kid :: "string option"
  hd_alg :: string

record jwt_library =
  jl_decode :: "string \<Rightarrow> token_header option" \<comment> \<open>the decoded header with its algorithm; \<open>None\<close> if that fails\<close>
  jl_verify :: "int \<Rightarrow> int \<Rightarrow> string \<Rightarrow> string \<Rightarrow> string \<Rightarrow> token_error + claims"
    \<comment> \<open>at a time and tolerance: algorithm, public key and token\<close>

section \<open>Generation\<close>

definition accessPayload ::
    "jwt_config \<Rightarrow> int \<Rightarrow> string \<Rightarrow> string \<Rightarrow> string \<Rightarrow> string list \<Rightarrow> string list \<Rightarrow> string option \<Rightarrow> string \<Rightarrow> claims" where
  \<comment> \<open>at a time, with a token identifier, for a user, a tenant and a session\<close>
  "accessPayload cfg nowMs uuid userId tenantId scopes permissions deviceId sessionId =
     (let now = nowMs div 1000 in
      [(''iss'', JStr (jc_issuer cfg)), (''sub'', JStr userId), (''aud'', JStr tenantId),
       (''exp'', int_claim (now + jc_accessTokenExpiry cfg)), (''iat'', int_claim now), (''jti'', JStr (''at_'' @ uuid)),
       (''tenant_id'', JStr tenantId), (''user_id'', JStr userId), (''scopes'', JArr 0 (map JStr scopes)),
       (''permissions'', JArr 1 (map JStr permissions)), (''session_id'', JStr sessionId)] @
      (if truthy_str deviceId then [(''device_id'', JStr (the deviceId))] else []))"

definition refreshPayload :: "jwt_config \<Rightarrow> int \<Rightarrow> string \<Rightarrow> string \<Rightarrow> claims" where
  "refreshPayload cfg nowMs userId tokenId =
     (let now = nowMs div 1000 in
      [(''iss'', JStr (jc_issuer cfg)), (''sub'', JStr userId), (''jti'', JStr tokenId),
       (''exp'', int_claim (now + jc_refreshTokenExpiry cfg)), (''iat'', int_claim now), (''token_type'', JStr ''refresh'')])"

definition servicePayload :: "jwt_config \<Rightarrow> int \<Rightarrow> string \<Rightarrow> string \<Rightarrow> claims" where
  "servicePayload cfg nowMs uuid service =
     (let now = nowMs div 1000 in
      [(''iss'', JStr (jc_issuer cfg)), (''sub'', JStr service), (''jti'', JStr (''st_'' @ uuid)),
       (''exp'', int_claim (now + jc_serviceTokenExpiry cfg)), (''iat'', int_claim now), (''service'', JStr service),
       (''token_type'', JStr ''service'')])"

definition generateAccessToken ::
    "(signing_key \<Rightarrow> claims \<Rightarrow> string) \<Rightarrow> key_provider \<Rightarrow> jwt_config \<Rightarrow> int \<Rightarrow> string \<Rightarrow> string \<Rightarrow> string \<Rightarrow> string
      \<Rightarrow> string list \<Rightarrow> string list \<Rightarrow> string option \<Rightarrow> string \<Rightarrow> string + string \<times> string" where
  \<comment> \<open>access and refresh token, signed by the library under the key and its identifier\<close>
  "generateAccessToken sign kp cfg nowMs accessUuid refreshTokenId userId tenantId scopes permissions deviceId sessionId =
     (case getSigningKey kp (Some tenantId) of
        Inl e \<Rightarrow> Inl e
      | Inr k \<Rightarrow> Inr (sign k (accessPayload cfg nowMs accessUuid userId tenantId scopes permissions deviceId sessionId),
          sign k (refreshPayload cfg nowMs userId refreshTokenId)))"

section \<open>Security checks\<close>

definition blank :: "string \<Rightarrow> bool" where
  \<comment> \<open>\<open>s.trim() === ''\<close> for ASCII text\<close>
  "blank s \<longleftrightarrow> list_all (\<lambda>c. c = CHR '' '' \<or> 9 \<le> (of_char c :: nat) \<and> (of_char c :: nat) \<le> 13) s"

definition max_token_size :: nat where
  "max_token_size = 8192"

definition alg_of :: "string \<Rightarrow> jwt_algorithm option" where
  "alg_of s = (if s = ''RS256'' then Some RS256 else if s = ''ES256'' then Some ES256 else None)"

definition checkTokenStructure :: "string \<Rightarrow> (bool \<times> token_error) list" where
  "checkTokenStructure token =
     [(length (str_split (CHR ''.'') token) \<noteq> 3,
        TokenMalformedError (''Token must have 3 parts (header.payload.signature), found ''
          @ show_nat (length (str_split (CHR ''.'') token)))),
      (list_ex blank (str_split (CHR ''.'') token), TokenMalformedError ''Token parts cannot be empty'')]"

definition checkAlgorithm :: "string \<Rightarrow> (bool \<times> token_error) list" where
  "checkAlgorithm algorithm =
     [(map ascii_lower algorithm = ''none'', TokenAlgorithmError ''Algorithm \"none\" is not allowed''),
      (alg_of algorithm = None, TokenAlgorithmError (''Algorithm \"'' @ algorithm @ ''\" is not allowed. Allowed: RS256, ES256''))]"

definition performSecurityChecks :: "jwt_library \<Rightarrow> string \<Rightarrow> token_error + token_header" where
  "performSecurityChecks lib token =
     (case first_error ((max_token_size < length token, TokenSizeError) # checkTokenStructure token) of
        Some e \<Rightarrow> Inl e
      | None \<Rightarrow> (case jl_decode lib token of
          None \<Rightarrow> Inl (TokenMalformedError ''Failed to decode token header'')
        | Some h \<Rightarrow>
            if hd_alg h = [] then Inl (TokenMalformedError ''Token header missing \"alg\" field'')
            else (case first_error (checkAlgorithm (hd_alg h)) of Some e \<Rightarrow> Inl e | None \<Rightarrow> Inr h)))"

section \<open>Claims\<close>

fun is_number :: "jsval \<Rightarrow> bool" where
  "is_number (JNum n) = True" | "is_number _ = False"

fun claim_is_string :: "jsval \<Rightarrow> bool" where
  "claim_is_string (JStr s) = True" | "claim_is_string _ = False"

fun claim_is_array :: "jsval \<Rightarrow> bool" where
  "claim_is_array (JArr i xs) = True" | "claim_is_array _ = False"

fun number_of :: "jsval \<Rightarrow> js_number" where
  "number_of (JNum n) = n" | "number_of _ = NaN"

fun num_plus :: "js_number \<Rightarrow> int \<Rightarrow> js_number" where
  "num_plus (Fin x) n = Fin (x + of_int n)" | "num_plus x n = x"

abbreviation num_int :: "int \<Rightarrow> js_number" where
  "num_int n \<equiv> Fin (of_int n)"

definition validateIssuer :: "jwt_config \<Rightarrow> jsval \<Rightarrow> (bool \<times> token_error) list" where
  "validateIssuer cfg iss =
     [(\<not> js_truthy iss, TokenClaimError ''Missing \"iss\" (issuer) claim'' ''iss''),
      (\<not> strict_eq iss (JStr (jc_issuer cfg)), TokenClaimError ''Invalid issuer'' ''iss'')]"

definition validateAudience :: "jsval \<Rightarrow> string option \<Rightarrow> (bool \<times> token_error) list" where
  "validateAudience aud expected =
     [(\<not> js_truthy aud, TokenClaimError ''Missing \"aud\" (audience) claim'' ''aud''),
      (truthy_str expected \<and> \<not> strict_eq aud (JStr (the expected)), TokenClaimError ''Invalid audience'' ''aud'')]"

definition validateExpiration :: "jwt_config \<Rightarrow> int \<Rightarrow> jsval \<Rightarrow> (bool \<times> token_error) list" where
  "validateExpiration cfg nowMs expires =
     [(\<not> js_truthy expires, TokenClaimError ''Missing \"exp\" (expiration) claim'' ''exp''),
      (\<not> is_number expires, TokenClaimError ''Expiration claim must be a number'' ''exp''),
      (num_le (num_plus (number_of expires) (jc_clockTolerance cfg)) (num_int (nowMs div 1000)), TokenExpiredError)]"

definition validateIssuedAt :: "jwt_config \<Rightarrow> int \<Rightarrow> jsval \<Rightarrow> (bool \<times> token_error) list" where
  "validateIssuedAt cfg nowMs iat =
     [(\<not> js_truthy iat, TokenClaimError ''Missing \"iat\" (issued at) claim'' ''iat''),
      (\<not> is_number iat, TokenClaimError ''Issued at claim must be a number'' ''iat''),
      (num_less (num_int (nowMs div 1000)) (num_plus (number_of iat) (- jc_clockTolerance cfg)),
        TokenClaimError ''Token issued in the future'' ''iat'')]"

definition text_claim :: "string \<Rightarrow> jsval \<Rightarrow> (bool \<times> token_error) list" where
  \<comment> \<open>\<open>validateSubject\<close> and \<open>validateJwtId\<close>\<close>
  "text_claim k v =
     [(\<not> js_truthy v, TokenClaimError (''Missing '' @ k) k),
      (case v of JStr s \<Rightarrow> blank s | _ \<Rightarrow> True, TokenClaimError (k @ '' claim must be a non-empty string'') k)]"

definition validateStandardClaims :: "jwt_config \<Rightarrow> int \<Rightarrow> claims \<Rightarrow> string option \<Rightarrow> token_error option" where
  "validateStandardClaims cfg nowMs p expectedAudience = first_error
     (validateIssuer cfg (claim p ''iss'') @ text_claim ''sub'' (claim p ''sub'') @
      validateExpiration cfg nowMs (claim p ''exp'') @ validateIssuedAt cfg nowMs (claim p ''iat'') @
      text_claim ''jti'' (claim p ''jti'') @
      (if truthy_str expectedAudience \<or> js_truthy (claim p ''aud'') then validateAudience (claim p ''aud'') expectedAudience else []))"

definition validateAccessTokenClaims :: "claims \<Rightarrow> token_error option" where
  "validateAccessTokenClaims p = first_error
     (map (\<lambda>k. (map_of p k = None, TokenClaimError (''Missing required claim: '' @ k) k))
        [''tenant_id'', ''user_id'', ''scopes'', ''permissions'', ''session_id''] @
      [(\<not> claim_is_array (claim p ''scopes''), TokenClaimError ''Scopes must be an array'' ''scopes''),
       (\<not> claim_is_array (claim p ''permissions''), TokenClaimError ''Permissions must be an array'' ''permissions''),
       (\<not> strict_eq (claim p ''user_id'') (claim p ''sub''), TokenClaimError ''user_id must match sub claim'' ''user_id''),
       (\<not> strict_eq (claim p ''tenant_id'') (claim p ''aud''), TokenClaimError ''tenant_id must match aud claim'' ''tenant_id'')])"

section \<open>Revocation\<close>

datatype 'v auth_value = Flag | Before int | Stored 'v
  \<comment> \<open>a set key, a printed second, and what else the service keeps in Redis\<close>

type_synonym ('v, 'r) auth_redis = "('v auth_value, 'r) redis"

definition user_invalid_key :: "string \<Rightarrow> string" where
  "user_invalid_key userId = ''user_tokens_invalid_before:'' @ userId"

definition session_invalid_key :: "string \<Rightarrow> string" where
  "session_invalid_key sessionId = ''session_invalid:'' @ sessionId"

definition tenant_invalid_key :: "string \<Rightarrow> string" where
  "tenant_invalid_key tenantId = ''tenant_tokens_invalid_before:'' @ tenantId"

definition revoked_key :: "string \<Rightarrow> string" where
  "revoked_key jti = ''revoked:'' @ jti"

definition issued_before :: "('v, 'r) auth_redis \<Rightarrow> int \<Rightarrow> string \<Rightarrow> js_number \<Rightarrow> 'r \<Rightarrow> bool" where
  "issued_before R now key issuedAt s =
     (case rd_get R now key s of Some (Before t) \<Rightarrow> num_less issuedAt (num_int t) | _ \<Rightarrow> False)"

definition isTokenRevoked :: "('v, 'r) auth_redis \<Rightarrow> int \<Rightarrow> string \<Rightarrow> 'r \<Rightarrow> bool" where
  "isTokenRevoked R now jti s \<longleftrightarrow> rd_get R now (revoked_key jti) s \<noteq> None"

definition areUserTokensRevoked :: "('v, 'r) auth_redis \<Rightarrow> int \<Rightarrow> string \<Rightarrow> js_number \<Rightarrow> 'r \<Rightarrow> bool" where
  "areUserTokensRevoked R now userId issuedAt s = issued_before R now (user_invalid_key userId) issuedAt s"

definition areSessionTokensRevoked :: "('v, 'r) auth_redis \<Rightarrow> int \<Rightarrow> string \<Rightarrow> 'r \<Rightarrow> bool" where
  "areSessionTokensRevoked R now sessionId s \<longleftrightarrow> rd_get R now (session_invalid_key sessionId) s \<noteq> None"

definition areTenantTokensRevoked :: "('v, 'r) auth_redis \<Rightarrow> int \<Rightarrow> string \<Rightarrow> js_number \<Rightarrow> 'r \<Rightarrow> bool" where
  "areTenantTokensRevoked R now tenantId issuedAt s = issued_before R now (tenant_invalid_key tenantId) issuedAt s"

definition isRevoked :: "('v, 'r) auth_redis \<Rightarrow> int \<Rightarrow> string \<Rightarrow> string \<Rightarrow> string \<Rightarrow> js_number \<Rightarrow> 'r \<Rightarrow> string option" where
  \<comment> \<open>of the checker the validator uses: the reason, if revoked\<close>
  "isRevoked R now jti userId sessionId issuedAt s =
     (if isTokenRevoked R now jti s then Some ''token_revoked''
      else if areUserTokensRevoked R now userId issuedAt s then Some ''user_tokens_revoked''
      else if areSessionTokensRevoked R now sessionId s then Some ''session_terminated''
      else None)"

definition service_isRevoked ::
    "('v, 'r) auth_redis \<Rightarrow> int \<Rightarrow> string \<Rightarrow> string \<Rightarrow> string \<Rightarrow> string \<Rightarrow> js_number \<Rightarrow> 'r \<Rightarrow> string option" where
  \<comment> \<open>of the revocation service\<close>
  "service_isRevoked R now tokenId userId sessionId tenantId issuedAt s =
     (if isTokenRevoked R now tokenId s then Some ''token_revoked''
      else if areUserTokensRevoked R now userId issuedAt s then Some ''user_tokens_revoked''
      else if areSessionTokensRevoked R now sessionId s then Some ''session_terminated''
      else if areTenantTokensRevoked R now tenantId issuedAt s then Some ''tenant_tokens_revoked''
      else None)"

definition revokeToken :: "('v, 'r) auth_redis \<Rightarrow> int \<Rightarrow> string \<Rightarrow> int \<Rightarrow> 'r \<Rightarrow> 'r" where
  "revokeToken R now jti ttlSeconds s = rd_setex R now (revoked_key jti) ttlSeconds Flag s"

definition revokeUserTokens :: "('v, 'r) auth_redis \<Rightarrow> int \<Rightarrow> string \<Rightarrow> 'r \<Rightarrow> 'r" where
  "revokeUserTokens R now userId s = rd_setex R now (user_invalid_key userId) (30 * 24 * 60 * 60) (Before (now div 1000)) s"

definition revokeSessionTokens :: "('v, 'r) auth_redis \<Rightarrow> int \<Rightarrow> string \<Rightarrow> int \<Rightarrow> 'r \<Rightarrow> 'r" where
  "revokeSessionTokens R now sessionId ttlSeconds s = rd_setex R now (session_invalid_key sessionId) ttlSeconds Flag s"

definition revokeTenantTokens :: "('v, 'r) auth_redis \<Rightarrow> int \<Rightarrow> string \<Rightarrow> 'r \<Rightarrow> 'r" where
  "revokeTenantTokens R now tenantId s = rd_setex R now (tenant_invalid_key tenantId) (30 * 24 * 60 * 60) (Before (now div 1000)) s"

definition clearUserRevocation :: "('v, 'r) auth_redis \<Rightarrow> string \<Rightarrow> 'r \<Rightarrow> 'r" where
  "clearUserRevocation R userId s = rd_del R (user_invalid_key userId) s"

definition clearSessionRevocation :: "('v, 'r) auth_redis \<Rightarrow> string \<Rightarrow> 'r \<Rightarrow> 'r" where
  "clearSessionRevocation R sessionId s = rd_del R (session_invalid_key sessionId) s"

section \<open>Validation\<close>

record validate_options =
  vo_audience :: "string option"
  vo_checkRevocation :: bool
  vo_requireAccessTokenClaims :: bool

definition default_options :: validate_options where
  "default_options = \<lparr>vo_audience = None, vo_checkRevocation = True, vo_requireAccessTokenClaims = False\<rparr>"

record validator =
  va_lib :: jwt_library
  va_keys :: key_provider
  va_config :: jwt_config
  va_text :: "jsval \<Rightarrow> string" \<comment> \<open>the text of a value that is no string, in a template literal\<close>

definition text_of :: "validator \<Rightarrow> jsval \<Rightarrow> string" where
  "text_of va v = (case v of JStr s \<Rightarrow> s | JUndef \<Rightarrow> ''undefined'' | _ \<Rightarrow> va_text va v)"

definition claims_revoked :: "('v, 'r) auth_redis \<Rightarrow> validator \<Rightarrow> int \<Rightarrow> claims \<Rightarrow> 'r \<Rightarrow> string option" where
  \<comment> \<open>what \<open>validate\<close> asks the revocation checker\<close>
  "claims_revoked R va nowMs p s = isRevoked R nowMs (text_of va (claim p ''jti''))
     (text_of va (if js_truthy (claim p ''user_id'') then claim p ''user_id'' else claim p ''sub''))
     (text_of va (claim p ''session_id'')) (number_of (claim p ''iat'')) s"

definition validate_token ::
    "('v, 'r) auth_redis \<Rightarrow> validator \<Rightarrow> int \<Rightarrow> validate_options \<Rightarrow> string \<Rightarrow> 'r \<Rightarrow> token_error + claims" where
  \<comment> \<open>\<open>JWTValidator.validate\<close> with a revocation checker\<close>
  "validate_token R va nowMs opts token s =
     (case performSecurityChecks (va_lib va) token of
        Inl e \<Rightarrow> Inl e
      | Inr h \<Rightarrow> (case getPublicKey (va_keys va) (case hd_kid h of None \<Rightarrow> [] | Some k \<Rightarrow> k) None of
          None \<Rightarrow> Inl (TokenSignatureError (''Unknown key ID: '' @ (case hd_kid h of None \<Rightarrow> ''undefined'' | Some kid \<Rightarrow> kid)))
        | Some publicKey \<Rightarrow> (case jl_verify (va_lib va) nowMs (jc_clockTolerance (va_config va)) (hd_alg h) publicKey token of
            Inl e \<Rightarrow> Inl e
          | Inr p \<Rightarrow> (case validateStandardClaims (va_config va) nowMs p (vo_audience opts) of
              Some e \<Rightarrow> Inl e
            | None \<Rightarrow> (case (if vo_requireAccessTokenClaims opts then validateAccessTokenClaims p else None) of
                Some e \<Rightarrow> Inl e
              | None \<Rightarrow>
                  if vo_checkRevocation opts
                  then (case claims_revoked R va nowMs p s of
                    Some reason \<Rightarrow> Inl (TokenRevokedError (''Token revoked: '' @ reason))
                  | None \<Rightarrow> Inr p)
                  else Inr p)))))"

definition payload_isExpired :: "int \<Rightarrow> claims \<Rightarrow> bool" where
  "payload_isExpired nowMs p \<longleftrightarrow> num_le (number_of (claim p ''exp'')) (num_int (nowMs div 1000))"

end
