(* ===== verification/AuthSessions.thy ===== *)
theory AuthSessions
  imports AuthTokens
begin

text \<open>
  Sessions of the auth service (services/auth-service/src/sessions): what Redis stores of them, the
  store with its indexes, validation, renewal, termination together with the revocation of the
  session's tokens, the policy on concurrent sessions and the parsing of user agents. An operation
  runs at one time; a stored session is represented by the value its JSON text denotes. Logging,
  events, metrics and the timer of the cleanup job are left out.
\<close>

section \<open>Sessions\<close>

datatype device_type = Web | Mobile | Desktop | Sdk

record device_info =
  di_type :: device_type
  di_os :: string
  di_browser :: "string option"
  di_app_version :: "string option"
  di_user_agent :: string

record location =
  lo_country :: string
  lo_city :: "string option"
  lo_region :: "string option"
  lo_latitude :: "rat option"
  lo_longitude :: "rat option"

record session =
  se_id :: string
  se_user_id :: string
  se_tenant_id :: string
  se_device_id :: string
  se_device_info :: device_info
  se_ip_address :: string
  se_location :: "location option"
  se_created_at :: int
  se_last_activity :: int
  se_expires_at :: int
  se_is_active :: bool
  se_mfa_verified :: bool

record session_data =
  sd_user_id :: string
  sd_tenant_id :: string
  sd_device_id :: string
  sd_device_info :: device_info
  sd_ip_address :: string
  sd_location :: "location option"
  sd_mfa_verified :: "bool option"

record session_updates =
  \<comment> \<open>\<open>Partial<SessionData>\<close>; a new user is ignored\<close>
  su_tenant_id :: "string option"
  su_device_id :: "string option"
  su_device_info :: "device_info option"
  su_ip_address :: "string option"
  su_location :: "location option"
  su_mfa_verified :: "bool option"

definition no_updates :: session_updates where
  "no_updates = \<lparr>su_tenant_id = None, su_device_id = None, su_device_info = None, su_ip_address = None,
     su_location = None, su_mfa_verified = None\<rparr>"

record session_config =
  sc_ttl_seconds :: int
  sc_max_sessions_per_user :: int

definition defaultSessionConfig :: session_config where
  "defaultSessionConfig = \<lparr>sc_ttl_seconds = 86400, sc_max_sessions_per_user = 10\<rparr>"

record validation =
  vl_valid :: bool
  vl_session :: "session option"
  vl_reason :: "string option"

section \<open>Serialization\<close>

definition normalizeTimestamp :: "int \<Rightarrow> int" where
  \<comment> \<open>small numbers are taken for seconds\<close>
  "normalizeTimestamp ts = (if ts < 32503680000 then ts * 1000 else ts)"

definition deserialize :: "session \<Rightarrow> string + session" where
  "deserialize x =
     (if se_id x = [] \<or> se_user_id x = [] \<or> se_tenant_id x = []
      then Inl ''Failed to deserialize session: Error: Session missing required fields''
      else Inr (x\<lparr>se_device_id := (if se_device_id x = [] then ''unknown'' else se_device_id x),
        se_ip_address := (if se_ip_address x = [] then ''0.0.0.0'' else se_ip_address x),
        se_created_at := normalizeTimestamp (se_created_at x),
        se_last_activity := normalizeTimestamp (se_last_activity x),
        se_expires_at := normalizeTimestamp (se_expires_at x)\<rparr>))"

section \<open>Store\<close>

type_synonym 'r session_redis = "(session, 'r) auth_redis"

definition session_key :: "string \<Rightarrow> string" where
  "session_key sessionId = ''session:'' @ sessionId"

definition user_sessions_key :: "string \<Rightarrow> string" where
  "user_sessions_key userId = ''user_sessions:'' @ userId"

definition device_sessions_key :: "string \<Rightarrow> string \<Rightarrow> string" where
  "device_sessions_key userId deviceId = ''device_sessions:'' @ userId @ '':'' @ deviceId"

definition ss_get :: "'r session_redis \<Rightarrow> int \<Rightarrow> string \<Rightarrow> 'r \<Rightarrow> string + session option" where
  \<comment> \<open>under the keys of sessions only sessions are stored\<close>
  "ss_get R now sessionId s =
     (case rd_get R now (session_key sessionId) s of
        Some (Stored x) \<Rightarrow> (case deserialize x of Inl e \<Rightarrow> Inl e | Inr y \<Rightarrow> Inr (Some y))
      | _ \<Rightarrow> Inr None)"

definition storeSession :: "'r session_redis \<Rightarrow> int \<Rightarrow> session \<Rightarrow> 'r \<Rightarrow> 'r" where
  "storeSession R now x s =
     (let ttl = - ((now - se_expires_at x) div 1000)
      in if 0 < ttl then rd_setex R now (session_key (se_id x)) ttl (Stored x) s else s)"

definition addToUserIndex :: "'r session_redis \<Rightarrow> session_config \<Rightarrow> int \<Rightarrow> string \<Rightarrow> string \<Rightarrow> 'r \<Rightarrow> 'r" where
  "addToUserIndex R cfg now userId sessionId s =
     rd_expire R now (user_sessions_key userId) (sc_ttl_seconds cfg) (rd_sadd R now (user_sessions_key userId) sessionId s)"

definition addToDeviceIndex :: "'r session_redis \<Rightarrow> session_config \<Rightarrow> int \<Rightarrow> string \<Rightarrow> string \<Rightarrow> string \<Rightarrow> 'r \<Rightarrow> 'r" where
  "addToDeviceIndex R cfg now userId deviceId sessionId s =
     rd_expire R now (device_sessions_key userId deviceId) (sc_ttl_seconds cfg)
       (rd_sadd R now (device_sessions_key userId deviceId) sessionId s)"

definition removeFromUserIndex :: "'r session_redis \<Rightarrow> string \<Rightarrow> string \<Rightarrow> 'r \<Rightarrow> 'r" where
  "removeFromUserIndex R userId sessionId s = rd_srem R (user_sessions_key userId) sessionId s"

definition new_session :: "session_config \<Rightarrow> int \<Rightarrow> string \<Rightarrow> session_data \<Rightarrow> session" where
  "new_session cfg now sessionId d = \<lparr>se_id = sessionId, se_user_id = sd_user_id d, se_tenant_id = sd_tenant_id d,
     se_device_id = sd_device_id d, se_device_info = sd_device_info d, se_ip_address = sd_ip_address d,
     se_location = sd_location d, se_created_at = now, se_last_activity = now,
     se_expires_at = now + sc_ttl_seconds cfg * 1000, se_is_active = True,
     se_mfa_verified = (sd_mfa_verified d = Some True)\<rparr>"

definition ss_create :: "'r session_redis \<Rightarrow> session_config \<Rightarrow> int \<Rightarrow> string \<Rightarrow> session_data \<Rightarrow> 'r \<Rightarrow> 'r \<times> session" where
  "ss_create R cfg now uuid d s =
     (let x = new_session cfg now uuid d;
        s = storeSession R now x s;
        s = addToUserIndex R cfg now (sd_user_id d) uuid s;
        s = (if sd_device_id d \<noteq> [] then addToDeviceIndex R cfg now (sd_user_id d) (sd_device_id d) uuid s else s)
      in (s, x))"

definition apply_updates :: "session_updates \<Rightarrow> session \<Rightarrow> session" where
  "apply_updates u x = x\<lparr>
     se_tenant_id := (case su_tenant_id u of None \<Rightarrow> se_tenant_id x | Some v \<Rightarrow> v),
     se_device_id := (case su_device_id u of None \<Rightarrow> se_device_id x | Some v \<Rightarrow> v),
     se_device_info := (case su_device_info u of None \<Rightarrow> se_device_info x | Some v \<Rightarrow> v),
     se_ip_address := (case su_ip_address u of None \<Rightarrow> se_ip_address x | Some v \<Rightarrow> v),
     se_location := (case su_location u of None \<Rightarrow> se_location x | Some v \<Rightarrow> Some v),
     se_mfa_verified := (case su_mfa_verified u of None \<Rightarrow> se_mfa_verified x | Some v \<Rightarrow> v)\<rparr>"

definition ss_update :: "'r session_redis \<Rightarrow> int \<Rightarrow> string \<Rightarrow> session_updates \<Rightarrow> 'r \<Rightarrow> 'r \<times> (string + session)" where
  "ss_update R now sessionId u s =
     (case ss_get R now sessionId s of
        Inl e \<Rightarrow> (s, Inl e)
      | Inr None \<Rightarrow> (s, Inl (''Session not found: '' @ sessionId))
      | Inr (Some x) \<Rightarrow> (storeSession R now (apply_updates u x) s, Inr (apply_updates u x)))"

definition ss_delete :: "'r session_redis \<Rightarrow> int \<Rightarrow> string \<Rightarrow> 'r \<Rightarrow> 'r \<times> (string + unit)" where
  "ss_delete R now sessionId s =
     (case ss_get R now sessionId s of
        Inl e \<Rightarrow> (s, Inl e)
      | Inr None \<Rightarrow> (s, Inr ())
      | Inr (Some x) \<Rightarrow> (removeFromUserIndex R (se_user_id x) sessionId (rd_del R (session_key sessionId) s), Inr ()))"

fun collect_sessions :: "(string \<Rightarrow> string + session option) \<Rightarrow> string list \<Rightarrow> string + session list" where
  \<comment> \<open>the sessions found; the first that does not parse throws\<close>
  "collect_sessions get [] = Inr []"
| "collect_sessions get (i # is) =
     (case get i of
        Inl e \<Rightarrow> Inl e
      | Inr found \<Rightarrow> (case collect_sessions get is of
          Inl e \<Rightarrow> Inl e
        | Inr xs \<Rightarrow> Inr (case found of None \<Rightarrow> xs | Some x \<Rightarrow> x # xs)))"

definition getUserSessions :: "'r session_redis \<Rightarrow> int \<Rightarrow> string \<Rightarrow> 'r \<Rightarrow> string + session list" where
  "getUserSessions R now userId s =
     collect_sessions (\<lambda>i. ss_get R now i s) (rd_smembers R now (user_sessions_key userId) s)"

definition getDeviceSessions :: "'r session_redis \<Rightarrow> int \<Rightarrow> string \<Rightarrow> string \<Rightarrow> 'r \<Rightarrow> string + session list" where
  "getDeviceSessions R now userId deviceId s =
     collect_sessions (\<lambda>i. ss_get R now i s) (rd_smembers R now (device_sessions_key userId deviceId) s)"

fun delete_each :: "'r session_redis \<Rightarrow> int \<Rightarrow> string list \<Rightarrow> 'r \<Rightarrow> 'r \<times> (string + nat)" where
  "delete_each R now [] s = (s, Inr 0)"
| "delete_each R now (i # is) s =
     (case ss_delete R now i s of
        (s, Inl e) \<Rightarrow> (s, Inl e)
      | (s, Inr u) \<Rightarrow> (case delete_each R now is s of
          (s, Inl e) \<Rightarrow> (s, Inl e)
        | (s, Inr n) \<Rightarrow> (s, Inr (Suc n))))"

definition deleteUserSessions :: "'r session_redis \<Rightarrow> int \<Rightarrow> string \<Rightarrow> 'r \<Rightarrow> 'r \<times> (string + nat)" where
  "deleteUserSessions R now userId s = delete_each R now (rd_smembers R now (user_sessions_key userId) s) s"

definition change_session :: "'r session_redis \<Rightarrow> int \<Rightarrow> string \<Rightarrow> (session \<Rightarrow> session) \<Rightarrow> 'r \<Rightarrow> 'r \<times> (string + unit)" where
  \<comment> \<open>\<open>updateLastActivity\<close> and \<open>deactivate\<close>: read, change and store\<close>
  "change_session R now sessionId f s =
     (case ss_get R now sessionId s of
        Inl e \<Rightarrow> (s, Inl e)
      | Inr None \<Rightarrow> (s, Inr ())
      | Inr (Some x) \<Rightarrow> (storeSession R now (f x) s, Inr ()))"

definition updateLastActivity :: "'r session_redis \<Rightarrow> int \<Rightarrow> string \<Rightarrow> 'r \<Rightarrow> 'r \<times> (string + unit)" where
  "updateLastActivity R now sessionId s = change_session R now sessionId (\<lambda>x. x\<lparr>se_last_activity := now\<rparr>) s"

definition deactivate :: "'r session_redis \<Rightarrow> int \<Rightarrow> string \<Rightarrow> 'r \<Rightarrow> 'r \<times> (string + unit)" where
  "deactivate R now sessionId s = change_session R now sessionId (\<lambda>x. x\<lparr>se_is_active := False\<rparr>) s"

definition store_renew :: "'r session_redis \<Rightarrow> int \<Rightarrow> string \<Rightarrow> int \<Rightarrow> 'r \<Rightarrow> 'r \<times> (string + session)" where
  "store_renew R now sessionId extensionMs s =
     (case ss_get R now sessionId s of
        Inl e \<Rightarrow> (s, Inl e)
      | Inr None \<Rightarrow> (s, Inl (''Session not found: '' @ sessionId))
      | Inr (Some x) \<Rightarrow> (storeSession R now (x\<lparr>se_expires_at := now + extensionMs\<rparr>) s,
          Inr (x\<lparr>se_expires_at := now + extensionMs\<rparr>)))"

definition purge_keys :: "(session auth_value, 'r) redis \<Rightarrow> int \<Rightarrow> string \<Rightarrow> 'r \<Rightarrow> 'r \<times> nat" where
  \<comment> \<open>\<open>cleanupExpiredSessions\<close> and \<open>RevocationStore.cleanup\<close>: remove the keys that have no deadline\<close>
  "purge_keys R now p s =
     fold (\<lambda>k (s, n). if rd_ttl R now k s = -1 then (rd_del R k s, n + 1) else (s, n)) (rd_keys R now p s) (s, 0)"

definition cleanupExpiredSessions :: "'r session_redis \<Rightarrow> int \<Rightarrow> 'r \<Rightarrow> 'r \<times> nat" where
  "cleanupExpiredSessions R now s = purge_keys R now ''session:'' s"

definition revocation_cleanup :: "'r session_redis \<Rightarrow> int \<Rightarrow> 'r \<Rightarrow> 'r \<times> nat" where
  "revocation_cleanup R now s = purge_keys R now ''revoked:'' s"

definition getUserSessionCount :: "'r session_redis \<Rightarrow> int \<Rightarrow> string \<Rightarrow> 'r \<Rightarrow> nat" where
  "getUserSessionCount R now userId s = length (rd_smembers R now (user_sessions_key userId) s)"

definition session_exists :: "'r session_redis \<Rightarrow> int \<Rightarrow> string \<Rightarrow> 'r \<Rightarrow> bool" where
  "session_exists R now sessionId s \<longleftrightarrow> rd_get R now (session_key sessionId) s \<noteq> None"

definition revocation_stats :: "'r session_redis \<Rightarrow> int \<Rightarrow> 'r \<Rightarrow> nat \<times> nat \<times> nat \<times> nat" where
  \<comment> \<open>tokens, users, sessions and tenants\<close>
  "revocation_stats R now s =
     (length (rd_keys R now ''revoked:'' s), length (rd_keys R now ''user_tokens_invalid_before:'' s),
      length (rd_keys R now ''session_invalid:'' s), length (rd_keys R now ''tenant_tokens_invalid_before:'' s))"

end
