(* ===== verification/AuthSessionService.thy ===== *)
theory AuthSessionService
  imports AuthSessions
begin

text \<open>
  What the auth service does with sessions: validation, creation under a limit, renewal, termination
  with the revocation of the session's tokens, and the security checks on a session
  (services/auth-service/src/sessions and sessions/security). The details of security events and
  the hash of a fingerprint, a parameter, are left out of the model.
\<close>

section \<open>Validation\<close>

record validation_options =
  vd_checkExpiry :: bool
  vd_checkActive :: bool

definition default_validation :: validation_options where
  "default_validation = \<lparr>vd_checkExpiry = True, vd_checkActive = True\<rparr>"

definition sv_validate :: "int \<Rightarrow> validation_options \<Rightarrow> session \<Rightarrow> validation" where
  \<comment> \<open>\<open>SessionValidator.validate\<close>; its other options are not consulted\<close>
  "sv_validate now opts x =
     (if vd_checkActive opts \<and> \<not> se_is_active x
      then \<lparr>vl_valid = False, vl_session = Some x, vl_reason = Some ''Session is inactive''\<rparr>
      else if vd_checkExpiry opts \<and> se_expires_at x \<le> now
      then \<lparr>vl_valid = False, vl_session = Some x, vl_reason = Some ''Session has expired''\<rparr>
      else \<lparr>vl_valid = True, vl_session = Some x, vl_reason = None\<rparr>)"

definition isSameSubnet :: "string \<Rightarrow> string \<Rightarrow> bool" where
  "isSameSubnet ip1 ip2 =
     (let parts1 = str_split (CHR ''.'') ip1; parts2 = str_split (CHR ''.'') ip2
      in if length parts1 \<noteq> 4 \<or> length parts2 \<noteq> 4 then ip1 = ip2
         else parts1 ! 0 = parts2 ! 0 \<and> parts1 ! 1 = parts2 ! 1 \<and> parts1 ! 2 = parts2 ! 2)"

definition validateIpAddress :: "session \<Rightarrow> string \<Rightarrow> bool \<Rightarrow> bool" where
  "validateIpAddress x currentIp strictMode =
     (if strictMode then se_ip_address x = currentIp else isSameSubnet (se_ip_address x) currentIp)"

definition needsRenewal :: "int \<Rightarrow> int \<Rightarrow> session \<Rightarrow> bool" where
  "needsRenewal now renewalThresholdMs x \<longleftrightarrow> se_expires_at x - now < renewalThresholdMs"

definition isIdle :: "int \<Rightarrow> int \<Rightarrow> session \<Rightarrow> bool" where
  "isIdle now idleThresholdMs x \<longleftrightarrow> idleThresholdMs < now - se_last_activity x"

definition validateAge :: "int \<Rightarrow> int \<Rightarrow> session \<Rightarrow> bool" where
  "validateAge now maxAgeMs x \<longleftrightarrow> now - se_created_at x \<le> maxAgeMs"

definition getHealthScore :: "int \<Rightarrow> session \<Rightarrow> int" where
  \<comment> \<open>the quotients by an hour compared as products\<close>
  "getHealthScore now x =
     (let age = now - se_created_at x; inactive = now - se_last_activity x; hour = 1000 * 60 * 60;
        score = 100 - (if 24 * hour < age then 10 else 0) - (if 72 * hour < age then 20 else 0)
          - (if hour < inactive then 10 else 0) - (if 6 * hour < inactive then 20 else 0)
          - (if \<not> se_mfa_verified x then 15 else 0) - (if \<not> se_is_active x then 50 else 0)
      in max 0 score)"

section \<open>Fingerprints\<close>

definition fingerprint :: "(string \<Rightarrow> string) \<Rightarrow> device_info \<Rightarrow> string" where
  \<comment> \<open>\<open>fromDeviceInfo\<close>: user agent, three empty parts and the operating system\<close>
  "fingerprint sha256 d = sha256 (di_user_agent d @ ''||||'' @ di_os d)"

definition ua_has :: "string \<Rightarrow> string \<Rightarrow> bool" where
  \<comment> \<open>\<open>/word/i.test(userAgent)\<close>, the word in lower case\<close>
  "ua_has userAgent word = str_includes (map ascii_lower userAgent) word"

definition parse_os :: "string \<Rightarrow> string option" where
  "parse_os ua =
     (if ua_has ua ''windows'' then Some ''Windows''
      else if ua_has ua ''mac os x'' then Some ''macOS''
      else if ua_has ua ''linux'' then Some ''Linux''
      else if ua_has ua ''android'' then Some ''Android''
      else if ua_has ua ''ios'' \<or> ua_has ua ''iphone'' \<or> ua_has ua ''ipad'' then Some ''iOS''
      else None)"

definition parse_browser :: "string \<Rightarrow> string option" where
  "parse_browser ua =
     (if ua_has ua ''chrome'' \<and> \<not> ua_has ua ''edge'' then Some ''Chrome''
      else if ua_has ua ''firefox'' then Some ''Firefox''
      else if ua_has ua ''safari'' \<and> \<not> ua_has ua ''chrome'' then Some ''Safari''
      else if ua_has ua ''edge'' then Some ''Edge''
      else None)"

definition parse_device :: "string \<Rightarrow> string" where
  "parse_device ua = (if ua_has ua ''mobile'' then ''mobile'' else if ua_has ua ''tablet'' then ''tablet'' else ''desktop'')"

definition mapDeviceType :: "string \<Rightarrow> device_type" where
  "mapDeviceType d = (if d = ''mobile'' \<or> d = ''tablet'' then Mobile else if d = ''desktop'' then Desktop else Web)"

definition createDeviceInfo :: "string \<Rightarrow> string option \<Rightarrow> device_info" where
  "createDeviceInfo ua appVersion = \<lparr>di_type = mapDeviceType (parse_device ua),
     di_os = (case parse_os ua of None \<Rightarrow> ''Unknown'' | Some os \<Rightarrow> os), di_browser = parse_browser ua,
     di_app_version = appVersion, di_user_agent = ua\<rparr>"

section \<open>Service\<close>

fun oldest_session :: "session \<Rightarrow> session list \<Rightarrow> session" where
  \<comment> \<open>the reduction of \<open>removeOldestSession\<close>: of equally old ones the last\<close>
  "oldest_session prev [] = prev"
| "oldest_session prev (x # xs) = oldest_session (if se_created_at prev < se_created_at x then prev else x) xs"

definition removeOldestSession :: "'r session_redis \<Rightarrow> int \<Rightarrow> string \<Rightarrow> 'r \<Rightarrow> 'r \<times> (string + unit)" where
  "removeOldestSession R now userId s =
     (case getUserSessions R now userId s of
        Inl e \<Rightarrow> (s, Inl e)
      | Inr [] \<Rightarrow> (s, Inr ())
      | Inr (x # xs) \<Rightarrow> ss_delete R now (se_id (oldest_session x xs)) s)"

definition createSession ::
    "'r session_redis \<Rightarrow> session_config \<Rightarrow> int \<Rightarrow> string \<Rightarrow> string \<Rightarrow> session_data \<Rightarrow> 'r \<Rightarrow> 'r \<times> (string + session)" where
  \<comment> \<open>with the identifiers drawn for the device and the session\<close>
  "createSession R cfg now deviceUuid sessionUuid d s =
     (case (if sc_max_sessions_per_user cfg \<le> int (getUserSessionCount R now (sd_user_id d) s)
            then removeOldestSession R now (sd_user_id d) s else (s, Inr ())) of
        (s, Inl e) \<Rightarrow> (s, Inl e)
      | (s, Inr u) \<Rightarrow>
          (case ss_create R cfg now sessionUuid
              (d\<lparr>sd_device_id := (if sd_device_id d = [] then deviceUuid else sd_device_id d), sd_mfa_verified := None\<rparr>) s of
             (s, x) \<Rightarrow> (s, Inr x)))"

definition validateSession ::
    "'r session_redis \<Rightarrow> int \<Rightarrow> validation_options \<Rightarrow> string \<Rightarrow> 'r \<Rightarrow> 'r \<times> (string + validation)" where
  "validateSession R now opts sessionId s =
     (case ss_get R now sessionId s of
        Inl e \<Rightarrow> (s, Inl e)
      | Inr None \<Rightarrow> (s, Inr \<lparr>vl_valid = False, vl_session = None, vl_reason = Some ''Session not found''\<rparr>)
      | Inr (Some x) \<Rightarrow>
          if vl_valid (sv_validate now opts x)
          then (case updateLastActivity R now sessionId s of
              (s, Inl e) \<Rightarrow> (s, Inl e)
            | (s, Inr u) \<Rightarrow> (s, Inr (sv_validate now opts x)))
          else (s, Inr (sv_validate now opts x)))"

definition markMfaVerified :: "'r session_redis \<Rightarrow> int \<Rightarrow> string \<Rightarrow> 'r \<Rightarrow> 'r \<times> (string + unit)" where
  "markMfaVerified R now sessionId s =
     (case ss_get R now sessionId s of
        Inl e \<Rightarrow> (s, Inl e)
      | Inr None \<Rightarrow> (s, Inl ''Session not found'')
      | Inr (Some x) \<Rightarrow> (case ss_update R now sessionId (no_updates\<lparr>su_mfa_verified := Some True\<rparr>) s of
          (s, Inl e) \<Rightarrow> (s, Inl e)
        | (s, Inr y) \<Rightarrow> (s, Inr ())))"

definition getSessionHealth :: "'r session_redis \<Rightarrow> int \<Rightarrow> string \<Rightarrow> 'r \<Rightarrow> string + int" where
  "getSessionHealth R now sessionId s =
     (case ss_get R now sessionId s of
        Inl e \<Rightarrow> Inl e | Inr None \<Rightarrow> Inr 0 | Inr (Some x) \<Rightarrow> Inr (getHealthScore now x))"

section \<open>Renewal\<close>

record renewal_policy =
  rp_enabled :: bool
  rp_cooldownMs :: int
  rp_maxLifetimeMs :: int
  rp_renewalThresholdMs :: int

type_synonym renewals = "(string, int) jsmap" \<comment> \<open>when a session was renewed last\<close>

definition canRenew :: "renewal_policy \<Rightarrow> renewals \<Rightarrow> int \<Rightarrow> string \<Rightarrow> bool" where
  \<comment> \<open>time zero counts as never\<close>
  "canRenew pol m now sessionId \<longleftrightarrow>
     (case map_of m sessionId of None \<Rightarrow> True | Some t \<Rightarrow> t = 0 \<or> rp_cooldownMs pol \<le> now - t)"

definition getTimeUntilNextRenewal :: "renewal_policy \<Rightarrow> renewals \<Rightarrow> int \<Rightarrow> string \<Rightarrow> int" where
  "getTimeUntilNextRenewal pol m now sessionId =
     (case map_of m sessionId of None \<Rightarrow> 0 | Some t \<Rightarrow> if t = 0 then 0 else max 0 (rp_cooldownMs pol - (now - t)))"

definition renew ::
    "'r session_redis \<Rightarrow> renewal_policy \<Rightarrow> int \<Rightarrow> string \<Rightarrow> renewals \<times> 'r \<Rightarrow> (renewals \<times> 'r) \<times> (string + session)" where
  \<comment> \<open>\<open>renewSession\<close>: without a renewal the reason\<close>
  "renew R pol now sessionId w =
     (case w of (m, s) \<Rightarrow>
       if \<not> rp_enabled pol then (w, Inl ''Session renewal failed: Renewal disabled'')
       else (case ss_get R now sessionId s of
           Inl e \<Rightarrow> (w, Inl e)
         | Inr None \<Rightarrow> (w, Inl ''Session renewal failed: Session not found'')
         | Inr (Some x) \<Rightarrow>
             if \<not> canRenew pol m now sessionId then (w, Inl ''Session renewal failed: Renewal cooldown active'')
             else if rp_maxLifetimeMs pol \<le> now - se_created_at x
             then (w, Inl ''Session renewal failed: Maximum session lifetime reached'')
             else if rp_renewalThresholdMs pol < se_expires_at x - now
             then (w, Inl ''Session renewal failed: Session does not need renewal yet'')
             else (case store_renew R now sessionId (min (rp_maxLifetimeMs pol - (now - se_created_at x)) (24 * 60 * 60 * 1000)) s of
                 (s, Inl e) \<Rightarrow> ((m, s), Inl e)
               | (s, Inr y) \<Rightarrow> ((AList.update sessionId now m, s), Inr y))))"

definition forceRenew :: "'r session_redis \<Rightarrow> int \<Rightarrow> string \<Rightarrow> int \<Rightarrow> renewals \<times> 'r \<Rightarrow> (renewals \<times> 'r) \<times> (string + session)" where
  "forceRenew R now sessionId extensionMs w =
     (case w of (m, s) \<Rightarrow> (case store_renew R now sessionId extensionMs s of
        (s, Inl e) \<Rightarrow> ((m, s), Inl e)
      | (s, Inr y) \<Rightarrow> ((AList.update sessionId now m, s), Inr y)))"

definition clearRenewalHistory :: "string \<Rightarrow> renewals \<Rightarrow> renewals" where
  "clearRenewalHistory sessionId m = AList.delete sessionId m"

section \<open>Termination\<close>

definition terminateSession :: "'r session_redis \<Rightarrow> int \<Rightarrow> string \<Rightarrow> 'r \<Rightarrow> 'r \<times> (string + bool)" where
  "terminateSession R now sessionId s =
     (case ss_get R now sessionId s of
        Inl e \<Rightarrow> (s, Inl e)
      | Inr None \<Rightarrow> (s, Inr False)
      | Inr (Some x) \<Rightarrow>
          (case ss_delete R now sessionId (revokeSessionTokens R now sessionId (7 * 24 * 60 * 60) s) of
             (s, Inl e) \<Rightarrow> (s, Inl e)
           | (s, Inr u) \<Rightarrow> (s, Inr True)))"

fun terminate_each :: "'r session_redis \<Rightarrow> int \<Rightarrow> (session \<Rightarrow> bool) \<Rightarrow> session list \<Rightarrow> 'r \<Rightarrow> 'r \<times> (string + nat)" where
  "terminate_each R now P [] s = (s, Inr 0)"
| "terminate_each R now P (x # xs) s =
     (if P x
      then (case terminateSession R now (se_id x) s of
          (s, Inl e) \<Rightarrow> (s, Inl e)
        | (s, Inr found) \<Rightarrow> (case terminate_each R now P xs s of
            (s, Inl e) \<Rightarrow> (s, Inl e)
          | (s, Inr n) \<Rightarrow> (s, Inr (Suc n))))
      else terminate_each R now P xs s)"

definition terminate_where :: "'r session_redis \<Rightarrow> int \<Rightarrow> string \<Rightarrow> (session \<Rightarrow> bool) \<Rightarrow> 'r \<Rightarrow> 'r \<times> (string + nat)" where
  "terminate_where R now userId P s =
     (case getUserSessions R now userId s of Inl e \<Rightarrow> (s, Inl e) | Inr xs \<Rightarrow> terminate_each R now P xs s)"

definition terminateAllSessions :: "'r session_redis \<Rightarrow> int \<Rightarrow> string \<Rightarrow> 'r \<Rightarrow> 'r \<times> (string + nat)" where
  "terminateAllSessions R now userId s = terminate_where R now userId (\<lambda>x. True) s"

definition terminateOtherSessions :: "'r session_redis \<Rightarrow> int \<Rightarrow> string \<Rightarrow> string \<Rightarrow> 'r \<Rightarrow> 'r \<times> (string + nat)" where
  "terminateOtherSessions R now userId currentSessionId s = terminate_where R now userId (\<lambda>x. se_id x \<noteq> currentSessionId) s"

definition terminateDeviceSessions :: "'r session_redis \<Rightarrow> int \<Rightarrow> string \<Rightarrow> string \<Rightarrow> 'r \<Rightarrow> 'r \<times> (string + nat)" where
  "terminateDeviceSessions R now userId deviceId s = terminate_where R now userId (\<lambda>x. se_device_id x = deviceId) s"

definition terminateIdleSessions :: "'r session_redis \<Rightarrow> int \<Rightarrow> string \<Rightarrow> int \<Rightarrow> 'r \<Rightarrow> 'r \<times> (string + nat)" where
  "terminateIdleSessions R now userId idleThresholdMs s =
     terminate_where R now userId (\<lambda>x. idleThresholdMs < now - se_last_activity x) s"

definition terminateExpiredSessions :: "'r session_redis \<Rightarrow> int \<Rightarrow> string \<Rightarrow> 'r \<Rightarrow> 'r \<times> (string + nat)" where
  "terminateExpiredSessions R now userId s = terminate_where R now userId (\<lambda>x. se_expires_at x \<le> now) s"

definition logout_all :: "'r session_redis \<Rightarrow> int \<Rightarrow> string \<Rightarrow> string option \<Rightarrow> 'r \<Rightarrow> 'r \<times> (string + nat)" where
  \<comment> \<open>\<open>SessionService.terminateAllSessions\<close>\<close>
  "logout_all R now userId exceptSessionId s =
     (if truthy_str exceptSessionId then terminateOtherSessions R now userId (the exceptSessionId) s
      else terminateAllSessions R now userId s)"

end
