(* ===== verification/AuthSessionSecurity.thy ===== *)
theory AuthSessionSecurity
  imports AuthSessionService
begin

text \<open>
  The security checks on sessions (services/auth-service/src/sessions/security): the policy on
  concurrent sessions, the binding of a session to a device and an address, the detection of
  anomalies at a login and of a hijacked session. The details of a security event are left out.
\<close>

section \<open>Concurrent sessions\<close>

datatype concurrent_policy = ALLOW_ALL | LIMIT | EXCLUSIVE | DEVICE_EXCLUSIVE

datatype limit_action = REJECT | REMOVE_OLDEST | REMOVE_LEAST_ACTIVE

record session_limits =
  sl_policy :: concurrent_policy
  sl_maxSessions :: int
  sl_limitAction :: limit_action

record create_decision =
  cd_allowed :: bool
  cd_sessionToRemove :: "string option"

fun least_session :: "(session \<Rightarrow> int) \<Rightarrow> session \<Rightarrow> session list \<Rightarrow> session" where
  \<comment> \<open>of equal ones the first\<close>
  "least_session f best [] = best"
| "least_session f best (x # xs) = least_session f (if f x < f best then x else best) xs"

definition first_least :: "(session \<Rightarrow> int) \<Rightarrow> session list \<Rightarrow> session option" where
  \<comment> \<open>\<open>findOldestSession\<close> and \<open>findLeastActiveSession\<close>\<close>
  "first_least f xs = (case xs of [] \<Rightarrow> None | x # xs \<Rightarrow> Some (least_session f x xs))"

definition session_checkLimit :: "session_limits \<Rightarrow> session list \<Rightarrow> create_decision" where
  "session_checkLimit l xs =
     (if int (length xs) < sl_maxSessions l then \<lparr>cd_allowed = True, cd_sessionToRemove = None\<rparr>
      else (case sl_limitAction l of
          REJECT \<Rightarrow> \<lparr>cd_allowed = False, cd_sessionToRemove = None\<rparr>
        | REMOVE_OLDEST \<Rightarrow> \<lparr>cd_allowed = True, cd_sessionToRemove = map_option se_id (first_least se_created_at xs)\<rparr>
        | REMOVE_LEAST_ACTIVE \<Rightarrow>
            \<lparr>cd_allowed = True, cd_sessionToRemove = map_option se_id (first_least se_last_activity xs)\<rparr>))"

definition checkExclusive :: "session list \<Rightarrow> create_decision" where
  "checkExclusive xs = \<lparr>cd_allowed = True, cd_sessionToRemove = (case xs of [] \<Rightarrow> None | x # ys \<Rightarrow> Some (se_id x))\<rparr>"

definition checkDeviceExclusive :: "session list \<Rightarrow> device_type \<Rightarrow> create_decision" where
  "checkDeviceExclusive xs dt =
     \<lparr>cd_allowed = True, cd_sessionToRemove = map_option se_id (List.find (\<lambda>x. di_type (se_device_info x) = dt) xs)\<rparr>"

definition canCreateSession ::
    "'r session_redis \<Rightarrow> session_limits \<Rightarrow> int \<Rightarrow> string \<Rightarrow> device_type \<Rightarrow> 'r \<Rightarrow> string + create_decision" where
  "canCreateSession R l now userId dt s =
     (case getUserSessions R now userId s of
        Inl e \<Rightarrow> Inl e
      | Inr xs \<Rightarrow> Inr (case sl_policy l of
          ALLOW_ALL \<Rightarrow> \<lparr>cd_allowed = True, cd_sessionToRemove = None\<rparr>
        | LIMIT \<Rightarrow> session_checkLimit l xs
        | EXCLUSIVE \<Rightarrow> checkExclusive xs
        | DEVICE_EXCLUSIVE \<Rightarrow> checkDeviceExclusive xs dt))"

section \<open>Binding\<close>

datatype binding_level = BIND_NONE | BIND_DEVICE | BIND_IP | BIND_STRICT

definition validateDevice :: "(string \<Rightarrow> string) \<Rightarrow> session \<Rightarrow> string option \<Rightarrow> string option" where
  \<comment> \<open>the reason, if invalid\<close>
  "validateDevice sha256 x currentFingerprint =
     (if \<not> truthy_str currentFingerprint then Some ''Device fingerprint required''
      else if fingerprint sha256 (se_device_info x) \<noteq> the currentFingerprint then Some ''Device fingerprint mismatch''
      else None)"

definition binding_validate ::
    "(string \<Rightarrow> string) \<Rightarrow> binding_level \<Rightarrow> session \<Rightarrow> string \<Rightarrow> string option \<Rightarrow> string option \<Rightarrow> string option" where
  \<comment> \<open>with the current address, fingerprint and country\<close>
  "binding_validate sha256 level x ip fp country =
     (case level of
        BIND_NONE \<Rightarrow> None
      | BIND_DEVICE \<Rightarrow> validateDevice sha256 x fp
      | BIND_IP \<Rightarrow> (case validateDevice sha256 x fp of
          Some r \<Rightarrow> Some r
        | None \<Rightarrow> if isSameSubnet (se_ip_address x) ip then None else Some ''IP subnet mismatch'')
      | BIND_STRICT \<Rightarrow> (case validateDevice sha256 x fp of
          Some r \<Rightarrow> Some r
        | None \<Rightarrow>
            if se_ip_address x \<noteq> ip then Some ''IP address mismatch''
            else (case (se_location x, country) of
                (Some l, Some c) \<Rightarrow> if lo_country l \<noteq> c then Some ''Geographic region mismatch'' else None
              | _ \<Rightarrow> None)))"

section \<open>Security events\<close>

datatype event_type = new_device | new_location | ip_change | device_change | impossible_travel | session_hijack

datatype event_severity = low | medium | high | critical

record session_event =
  ev_type :: event_type
  ev_severity :: event_severity
  ev_session_id :: string
  ev_user_id :: string
  ev_timestamp :: int

definition event_of :: "int \<Rightarrow> session \<Rightarrow> event_type \<Rightarrow> event_severity \<Rightarrow> session_event" where
  "event_of now x t v = \<lparr>ev_type = t, ev_severity = v, ev_session_id = se_id x, ev_user_id = se_user_id x, ev_timestamp = now\<rparr>"

record anomaly_config =
  an_enabled :: bool
  an_impossibleTravelEnabled :: bool
  an_newDeviceAlertEnabled :: bool
  an_ipChangeAlertEnabled :: bool

definition newest_first :: "session list \<Rightarrow> session list" where
  "newest_first xs = sort_key (\<lambda>x. - se_created_at x) xs"

definition detectImpossibleTravel :: "int \<Rightarrow> session \<Rightarrow> session list \<Rightarrow> session_event option" where
  "detectImpossibleTravel now x previous =
     (case se_location x of
        None \<Rightarrow> None
      | Some l \<Rightarrow> (case newest_first (filter (\<lambda>p. se_location p \<noteq> None) previous) of
          [] \<Rightarrow> None
        | recent # _ \<Rightarrow>
            if lo_country l = lo_country (the (se_location recent)) then None
            else if se_created_at x - se_created_at recent < 1000 * 60 * 60
            then Some (event_of now x impossible_travel critical) else None))"

definition detectNewDevice :: "int \<Rightarrow> session \<Rightarrow> session list \<Rightarrow> session_event option" where
  "detectNewDevice now x previous =
     (if list_ex (\<lambda>p. se_device_id p = se_device_id x) previous then None else Some (event_of now x new_device medium))"

definition detectIpChange :: "int \<Rightarrow> session \<Rightarrow> session list \<Rightarrow> session_event option" where
  "detectIpChange now x previous =
     (case newest_first previous of
        [] \<Rightarrow> None
      | recent # _ \<Rightarrow> if se_ip_address x \<noteq> se_ip_address recent then Some (event_of now x ip_change low) else None)"

definition opt_list :: "'a option \<Rightarrow> 'a list" where
  "opt_list v = (case v of None \<Rightarrow> [] | Some x \<Rightarrow> [x])"

definition detectAnomalies :: "anomaly_config \<Rightarrow> int \<Rightarrow> session \<Rightarrow> session list \<Rightarrow> session_event list" where
  "detectAnomalies cfg now x previous =
     (if \<not> an_enabled cfg then []
      else (if an_impossibleTravelEnabled cfg then opt_list (detectImpossibleTravel now x previous) else []) @
        (if an_newDeviceAlertEnabled cfg then opt_list (detectNewDevice now x previous) else []) @
        (if an_ipChangeAlertEnabled cfg then opt_list (detectIpChange now x previous) else []))"

definition severity_score :: "event_severity \<Rightarrow> int" where
  "severity_score v = (case v of low \<Rightarrow> 10 | medium \<Rightarrow> 25 | high \<Rightarrow> 50 | critical \<Rightarrow> 100)"

definition calculateRiskScore :: "session_event list \<Rightarrow> int" where
  "calculateRiskScore es = min 100 (fold (\<lambda>e score. score + severity_score (ev_severity e)) es 0)"

definition detect_hijack :: "int \<Rightarrow> session \<Rightarrow> string \<Rightarrow> string \<Rightarrow> session_event option" where
  "detect_hijack now x ip ua =
     (let events = (if se_ip_address x \<noteq> ip then [event_of now x ip_change high] else []) @
        (if di_user_agent (se_device_info x) \<noteq> ua then [event_of now x device_change critical] else [])
      in if 2 \<le> length events then Some (event_of now x session_hijack critical)
         else (case events of [] \<Rightarrow> None | e # _ \<Rightarrow> Some e))"

datatype hijack_action = allow | challenge | terminate

definition determineAction :: "session_event option \<Rightarrow> hijack_action" where
  "determineAction e =
     (case e of
        None \<Rightarrow> allow
      | Some ev \<Rightarrow> (case ev_type ev of
          session_hijack \<Rightarrow> terminate
        | device_change \<Rightarrow> terminate
        | ip_change \<Rightarrow> if ev_severity ev = critical then terminate else challenge
        | _ \<Rightarrow> allow))"

end
