(* ===== verification/AuthSessionSafety.thy ===== *)
theory AuthSessionSafety
  imports AuthSessionSecurity "HOL-Library.Countable"
begin

text \<open>
  What the auth service guarantees of sessions and tokens in every run of its operations: the tokens
  of a terminated session are rejected until none of them is left, a session lives no longer than
  its configuration allows and keeps its owner, and what the generator issues the validator accepts
  exactly within its time and while it is not revoked. The last section shows what is not guaranteed.
\<close>

section \<open>Commands of the service\<close>

definition index_key :: "string \<Rightarrow> bool" where
  "index_key k \<longleftrightarrow> prefix ''user_sessions:'' k \<or> prefix ''device_sessions:'' k"

definition mark_key :: "string \<Rightarrow> bool" where
  "mark_key k \<longleftrightarrow> prefix ''revoked:'' k \<or> prefix ''user_tokens_invalid_before:'' k \<or> prefix ''tenant_tokens_invalid_before:'' k"

lemmas key_defs = session_key_def session_invalid_key_def user_sessions_key_def device_sessions_key_def
  user_invalid_key_def tenant_invalid_key_def revoked_key_def index_key_def mark_key_def

lemma keys_apart [simp]:
  "session_key i \<noteq> session_invalid_key j" "session_invalid_key j \<noteq> session_key i"
  "\<not> index_key (session_key i)" "\<not> index_key (session_invalid_key i)"
  "\<not> mark_key (session_key i)" "\<not> mark_key (session_invalid_key i)"
  "session_invalid_key j \<noteq> user_invalid_key i" "session_key j \<noteq> user_invalid_key i"
  "index_key (user_sessions_key u)" "index_key (device_sessions_key u d)"
  "mark_key (revoked_key i)" "mark_key (user_invalid_key i)" "mark_key (tenant_invalid_key i)"
  "session_key i = session_key j \<longleftrightarrow> i = j" "session_invalid_key i = session_invalid_key j \<longleftrightarrow> i = j"
  by (simp_all add: key_defs)

text \<open>
  \<open>auth_writes R Q t s s'\<close>: commands at time \<open>t\<close> lead from \<open>s\<close> to \<open>s'\<close> that store only sessions
  \<open>Q\<close> allows under their key and invalidate sessions for seven days.
\<close>

inductive auth_writes :: "'r session_redis \<Rightarrow> (string \<Rightarrow> session \<Rightarrow> bool) \<Rightarrow> int \<Rightarrow> 'r \<Rightarrow> 'r \<Rightarrow> bool" for R Q t where
  none: "auth_writes R Q t s s"
| store: "auth_writes R Q t s s' \<Longrightarrow> 0 < d \<Longrightarrow> Q i x \<Longrightarrow> auth_writes R Q t s (rd_setex R t (session_key i) d (Stored x) s')"
| drop: "auth_writes R Q t s s' \<Longrightarrow> auth_writes R Q t s (rd_del R (session_key i) s')"
| index: "auth_writes R Q t s s' \<Longrightarrow> index_key k \<Longrightarrow> auth_writes R Q t s (rd_sadd R t k i s')"
| unindex: "auth_writes R Q t s s' \<Longrightarrow> index_key k \<Longrightarrow> auth_writes R Q t s (rd_srem R k i s')"
| expire: "auth_writes R Q t s s' \<Longrightarrow> index_key k \<Longrightarrow> auth_writes R Q t s (rd_expire R t k d s')"
| invalidate: "auth_writes R Q t s s' \<Longrightarrow> auth_writes R Q t s (rd_setex R t (session_invalid_key i) 604800 Flag s')"
| mark: "auth_writes R Q t s s' \<Longrightarrow> 0 < d \<Longrightarrow> mark_key k \<Longrightarrow> auth_writes R Q t s (rd_setex R t k d v s')"
| clear: "auth_writes R Q t s s' \<Longrightarrow> auth_writes R Q t s (rd_del R (user_invalid_key u) s')"

lemma auth_writes_trans: "auth_writes R Q t s' s'' \<Longrightarrow> auth_writes R Q t s s' \<Longrightarrow> auth_writes R Q t s s''"
  by (induction rule: auth_writes.induct) (auto intro: auth_writes.intros)

lemma auth_writes_mono: "auth_writes R Q t s s' \<Longrightarrow> (\<And>i x. Q i x \<Longrightarrow> Q' i x) \<Longrightarrow> auth_writes R Q' t s s'"
  by (induction rule: auth_writes.induct) (auto intro: auth_writes.intros)

lemma writes_of_auth:
  "auth_writes R Q t s s' \<Longrightarrow> writes R index_key (\<lambda>k v. \<forall>i. k = session_key i \<longrightarrow> (\<exists>x. v = Stored x \<and> Q i x)) t s s'"
proof (induction rule: auth_writes.induct)
  case (mark s s' d k v)
  then have "\<forall>i. k \<noteq> session_key i" by (metis keys_apart(5))
  with mark show ?case by (auto intro: writes.setex)
qed (auto intro: writes.intros)

locale session_server = redis_store R for R :: "'r session_redis"
begin

definition alive_until :: "int \<Rightarrow> int \<Rightarrow> string \<Rightarrow> 'r \<Rightarrow> bool" where
  \<comment> \<open>tokens of the session are rejected from now to the deadline\<close>
  "alive_until d t i s \<longleftrightarrow> (\<forall>u. t \<le> u \<and> u < d \<longrightarrow> rd_get R u (session_invalid_key i) s \<noteq> None)"

lemma alive_later: "alive_until d t i s \<Longrightarrow> t \<le> u \<Longrightarrow> alive_until d u i s"
  by (auto simp: alive_until_def)

lemma alive_writes:
  "auth_writes R Q t s s' \<Longrightarrow> d \<le> t + 604800000 \<Longrightarrow> alive_until d t i s \<Longrightarrow> alive_until d t i s'"
proof (induction rule: auth_writes.induct)
  case (invalidate s s' j)
  then show ?case by (cases "j = i") (auto simp: alive_until_def get_setex get_setex_other)
next
  case (index s s' k j)
  then have "k \<noteq> session_invalid_key i" by (metis keys_apart(4))
  with index show ?case by (simp add: alive_until_def get_sadd)
next
  case (unindex s s' k j)
  then have "k \<noteq> session_invalid_key i" by (metis keys_apart(4))
  with unindex show ?case by (simp add: alive_until_def get_srem)
next
  case (expire s s' k d)
  then have "k \<noteq> session_invalid_key i" by (metis keys_apart(4))
  with expire show ?case by (simp add: alive_until_def get_expire)
next
  case (mark s s' d k v)
  then have "k \<noteq> session_invalid_key i" by (metis keys_apart(6))
  with mark show ?case by (simp add: alive_until_def get_setex_other)
qed (simp_all add: alive_until_def get_setex_other get_del)

end

section \<open>Operations as commands\<close>

definition stable_record :: "renewal_policy \<Rightarrow> int \<Rightarrow> (string \<Rightarrow> session \<Rightarrow> bool) \<Rightarrow> bool" where
  \<comment> \<open>what the operations make of a session \<open>Q\<close> allows is allowed\<close>
  "stable_record pol now Q \<longleftrightarrow> (\<forall>i x u. Q i x \<longrightarrow>
     Q (se_id x) (apply_updates u x) \<and> Q (se_id x) (x\<lparr>se_last_activity := now\<rparr>) \<and> Q (se_id x) (x\<lparr>se_is_active := False\<rparr>) \<and>
     (now - se_created_at x < rp_maxLifetimeMs pol \<longrightarrow> Q (se_id x)
       (x\<lparr>se_expires_at := now + min (rp_maxLifetimeMs pol - (now - se_created_at x)) (24 * 60 * 60 * 1000)\<rparr>)))"

definition readable :: "'r session_redis \<Rightarrow> int \<Rightarrow> (string \<Rightarrow> session \<Rightarrow> bool) \<Rightarrow> 'r \<Rightarrow> bool" where
  "readable R now Q s \<longleftrightarrow> (\<forall>i x. ss_get R now i s = Inr (Some x) \<longrightarrow> Q i x)"

lemma readableD: "readable R now Q s \<Longrightarrow> ss_get R now i s = Inr (Some x) \<Longrightarrow> Q i x"
  by (auto simp: readable_def)

lemma storeSession_writes:
  "auth_writes R Q now s s' \<Longrightarrow> (now < se_expires_at x \<Longrightarrow> Q (se_id x) x) \<Longrightarrow> auth_writes R Q now s (storeSession R now x s')"
  by (auto simp: storeSession_def Let_def neg_imp_zdiv_neg_iff intro: auth_writes.store)

lemma se_id_updates [simp]:
  "se_id (apply_updates u x) = se_id x" "se_user_id (apply_updates u x) = se_user_id x"
  "se_created_at (apply_updates u x) = se_created_at x" "se_expires_at (apply_updates u x) = se_expires_at x"
  "se_last_activity (apply_updates u x) = se_last_activity x" "se_is_active (apply_updates u x) = se_is_active x"
  by (simp_all add: apply_updates_def)

lemma stable_stores:
  assumes "stable_record pol now Q" "readable R now Q s" "ss_get R now i s = Inr (Some x)"
  shows "Q (se_id x) (apply_updates u x)" "Q (se_id x) (x\<lparr>se_last_activity := now\<rparr>)" "Q (se_id x) (x\<lparr>se_is_active := False\<rparr>)"
  using assms(1) readableD [OF assms(2,3)] unfolding stable_record_def by blast+

lemma create_writes:
  assumes "Q uuid (new_session cfg now uuid d)"
  shows "auth_writes R Q now s (fst (ss_create R cfg now uuid d s))"
proof -
  have "Q (se_id (new_session cfg now uuid d)) (new_session cfg now uuid d)" using assms by (simp add: new_session_def)
  then have "auth_writes R Q now s (storeSession R now (new_session cfg now uuid d) s)"
    by (intro storeSession_writes auth_writes.none)
  then show ?thesis
    by (auto simp: ss_create_def Let_def addToUserIndex_def addToDeviceIndex_def intro!: auth_writes.intros)
qed

lemma update_writes:
  "stable_record pol now Q \<Longrightarrow> readable R now Q s \<Longrightarrow> auth_writes R Q now s (fst (ss_update R now i u s))"
  by (auto simp: ss_update_def intro!: storeSession_writes auth_writes.none intro: stable_stores split: sum.splits option.splits)

lemma delete_writes: "auth_writes R Q now s (fst (ss_delete R now i s))"
  by (auto simp: ss_delete_def removeFromUserIndex_def intro!: auth_writes.intros split: sum.splits option.splits)

lemma delete_each_writes: "auth_writes R Q now s (fst (delete_each R now is s))"
proof (induction R now "is" s rule: delete_each.induct)
  case (2 R now i "is" s)
  obtain s1 r1 where 1: "ss_delete R now i s = (s1, r1)" by fastforce
  with delete_writes [of R Q now s i] have "auth_writes R Q now s s1" by simp
  with 2 1 show ?case by (auto split: sum.splits prod.splits intro: auth_writes_trans)
qed (simp add: auth_writes.none)

lemma last_activity_writes:
  "stable_record pol now Q \<Longrightarrow> readable R now Q s \<Longrightarrow> auth_writes R Q now s (fst (updateLastActivity R now i s))"
  by (auto simp: updateLastActivity_def change_session_def
    intro!: storeSession_writes auth_writes.none intro: stable_stores split: sum.splits option.splits)

lemma deactivate_writes:
  "stable_record pol now Q \<Longrightarrow> readable R now Q s \<Longrightarrow> auth_writes R Q now s (fst (deactivate R now i s))"
  by (auto simp: deactivate_def change_session_def
    intro!: storeSession_writes auth_writes.none intro: stable_stores split: sum.splits option.splits)

lemma validate_writes:
  assumes "stable_record pol now Q" "readable R now Q s"
  shows "auth_writes R Q now s (fst (validateSession R now opts i s))"
proof -
  obtain s1 r1 where 1: "updateLastActivity R now i s = (s1, r1)" by fastforce
  with last_activity_writes [OF assms, of i] have "auth_writes R Q now s s1" by simp
  with 1 show ?thesis by (auto simp: validateSession_def split: sum.splits option.splits intro: auth_writes.none)
qed

lemma mfa_writes:
  assumes "stable_record pol now Q" "readable R now Q s"
  shows "auth_writes R Q now s (fst (markMfaVerified R now i s))"
proof -
  obtain s1 r1 where 1: "ss_update R now i (no_updates\<lparr>su_mfa_verified := Some True\<rparr>) s = (s1, r1)" by fastforce
  with update_writes [OF assms, of i "no_updates\<lparr>su_mfa_verified := Some True\<rparr>"] have "auth_writes R Q now s s1" by simp
  with 1 show ?thesis by (auto simp: markMfaVerified_def split: sum.splits option.splits intro: auth_writes.none)
qed

lemma renew_writes:
  assumes "stable_record pol now Q" "readable R now Q s"
  shows "auth_writes R Q now s (snd (fst (renew R pol now i (m, s))))"
proof (cases "\<exists>x. ss_get R now i s = Inr (Some x) \<and> now - se_created_at x < rp_maxLifetimeMs pol")
  case True
  then obtain x where x: "ss_get R now i s = Inr (Some x)" "now - se_created_at x < rp_maxLifetimeMs pol" by blast
  let ?y = "x\<lparr>se_expires_at := now + min (rp_maxLifetimeMs pol - (now - se_created_at x)) (24 * 60 * 60 * 1000)\<rparr>"
  have "Q (se_id x) ?y" using assms x readableD by (fastforce simp: stable_record_def)
  then have "auth_writes R Q now s (storeSession R now ?y s)" by (intro storeSession_writes auth_writes.none) simp
  with x show ?thesis by (auto simp: renew_def store_renew_def intro: auth_writes.none)
next
  case False
  then show ?thesis by (auto simp: renew_def intro: auth_writes.none split: sum.splits option.splits)
qed

lemma terminate_writes: "auth_writes R Q now s (fst (terminateSession R now i s))"
proof -
  let ?s = "revokeSessionTokens R now i (7 * 24 * 60 * 60) s"
  obtain s1 r1 where 1: "ss_delete R now i ?s = (s1, r1)" by fastforce
  have "auth_writes R Q now s ?s" by (auto simp: revokeSessionTokens_def intro: auth_writes.intros)
  moreover have "auth_writes R Q now ?s s1" using delete_writes [of R Q now ?s i] 1 by simp
  ultimately have "auth_writes R Q now s s1" by (blast intro: auth_writes_trans)
  then show ?thesis using 1
    by (auto simp: terminateSession_def split: sum.splits option.splits intro: auth_writes.none)
qed

lemma terminate_each_writes: "auth_writes R Q now s (fst (terminate_each R now P xs s))"
proof (induction R now P xs s rule: terminate_each.induct)
  case (2 R now P x xs s)
  obtain s1 r1 where 1: "terminateSession R now (se_id x) s = (s1, r1)" by fastforce
  with terminate_writes [of R Q now s "se_id x"] have "auth_writes R Q now s s1" by simp
  with 2 1 show ?case by (auto split: sum.splits prod.splits intro: auth_writes_trans)
qed (simp add: auth_writes.none)

lemma terminate_where_writes: "auth_writes R Q now s (fst (terminate_where R now u P s))"
  by (auto simp: terminate_where_def terminate_each_writes intro: auth_writes.none split: sum.splits)

lemma createSession_writes:
  assumes "\<And>x. snd (createSession R cfg now dev uuid d s) = Inr x \<Longrightarrow> Q uuid x"
  shows "auth_writes R Q now s (fst (createSession R cfg now dev uuid d s))"
proof -
  have remove: "auth_writes R Q now s (fst (removeOldestSession R now u s))" for u
    by (auto simp: removeOldestSession_def delete_writes intro: auth_writes.none split: sum.splits list.splits)
  let ?r = "if sc_max_sessions_per_user cfg \<le> int (getUserSessionCount R now (sd_user_id d) s)
            then removeOldestSession R now (sd_user_id d) s else (s, Inr ())"
  obtain s1 r1 where 1: "?r = (s1, r1)" by fastforce
  then have w1: "auth_writes R Q now s s1" using remove [of "sd_user_id d"] by (auto intro: auth_writes.none split: if_splits)
  let ?d = "d\<lparr>sd_device_id := (if sd_device_id d = [] then dev else sd_device_id d), sd_mfa_verified := None\<rparr>"
  show ?thesis
  proof (cases r1)
    case (Inl e)
    with w1 show ?thesis unfolding createSession_def 1 by simp
  next
    case (Inr u)
    then have "snd (createSession R cfg now dev uuid d s) = Inr (new_session cfg now uuid ?d)"
      unfolding createSession_def 1 by (simp add: ss_create_def Let_def)
    then have "Q uuid (new_session cfg now uuid ?d)" by (rule assms)
    then have "auth_writes R Q now s1 (fst (ss_create R cfg now uuid ?d s1))" by (rule create_writes)
    with w1 have "auth_writes R Q now s (fst (ss_create R cfg now uuid ?d s1))" by (blast intro: auth_writes_trans)
    moreover obtain s2 x2 where "ss_create R cfg now uuid ?d s1 = (s2, x2)" by fastforce
    ultimately show ?thesis using Inr unfolding createSession_def 1 by simp
  qed
qed

lemma createSession_new:
  "snd (createSession R cfg now dev uuid d s) = Inr x \<Longrightarrow> \<exists>d'. x = new_session cfg now uuid d'"
  by (auto simp: createSession_def ss_create_def Let_def split: sum.splits prod.splits)

section \<open>Runs\<close>

record 'r auth_world =
  aw_clock :: int
  aw_renewals :: renewals
  aw_redis :: 'r
  aw_created :: "session list" \<comment> \<open>for the statements: the sessions created so far\<close>

datatype auth_op =
    CreateSession string string session_data
  | ValidateSession validation_options string
  | MarkMfaVerified string
  | RenewSession string
  | UpdateSession string session_updates
  | DeactivateSession string
  | DeleteUserSessions string
  | TerminateSession string
  | LogoutAll string "string option"
  | TerminateDevice string string
  | TerminateIdle string int
  | TerminateExpired string
  | RevokeToken string int
  | RevokeUser string
  | RevokeTenant string
  | ClearUser string
  | ClearHistory string

fun store_step :: "'r session_redis \<Rightarrow> int \<Rightarrow> auth_op \<Rightarrow> 'r \<Rightarrow> 'r" where
  "store_step R now (ValidateSession opts i) s = fst (validateSession R now opts i s)"
| "store_step R now (MarkMfaVerified i) s = fst (markMfaVerified R now i s)"
| "store_step R now (UpdateSession i u) s = fst (ss_update R now i u s)"
| "store_step R now (DeactivateSession i) s = fst (deactivate R now i s)"
| "store_step R now (DeleteUserSessions u) s = fst (deleteUserSessions R now u s)"
| "store_step R now (TerminateSession i) s = fst (terminateSession R now i s)"
| "store_step R now (LogoutAll u i) s = fst (logout_all R now u i s)"
| "store_step R now (TerminateDevice u d) s = fst (terminateDeviceSessions R now u d s)"
| "store_step R now (TerminateIdle u ms) s = fst (terminateIdleSessions R now u ms s)"
| "store_step R now (TerminateExpired u) s = fst (terminateExpiredSessions R now u s)"
| "store_step R now (RevokeToken jti ttl) s = (if 0 < ttl then revokeToken R now jti ttl s else s)"
| "store_step R now (RevokeUser u) s = revokeUserTokens R now u s"
| "store_step R now (RevokeTenant t) s = revokeTenantTokens R now t s"
| "store_step R now (ClearUser u) s = clearUserRevocation R u s"
| "store_step R now op s = s"

fun apply_op :: "'r session_redis \<Rightarrow> session_config \<Rightarrow> renewal_policy \<Rightarrow> auth_op \<Rightarrow> 'r auth_world \<Rightarrow> 'r auth_world" where
  "apply_op R cfg pol (RenewSession i) w =
     (case fst (renew R pol (aw_clock w) i (aw_renewals w, aw_redis w)) of (m, s) \<Rightarrow> w\<lparr>aw_renewals := m, aw_redis := s\<rparr>)"
| "apply_op R cfg pol (ClearHistory i) w = w\<lparr>aw_renewals := clearRenewalHistory i (aw_renewals w)\<rparr>"
| "apply_op R cfg pol (CreateSession dev uuid d) w =
     (case createSession R cfg (aw_clock w) dev uuid d (aw_redis w) of
        (s, Inl e) \<Rightarrow> w\<lparr>aw_redis := s\<rparr>
      | (s, Inr x) \<Rightarrow> w\<lparr>aw_redis := s, aw_created := x # aw_created w\<rparr>)"
| "apply_op R cfg pol op w = w\<lparr>aw_redis := store_step R (aw_clock w) op (aw_redis w)\<rparr>"

definition auth_step :: "'r session_redis \<Rightarrow> session_config \<Rightarrow> renewal_policy \<Rightarrow> int \<times> auth_op \<Rightarrow> 'r auth_world \<Rightarrow> 'r auth_world" where
  \<comment> \<open>an operation so many milliseconds after the last\<close>
  "auth_step R cfg pol timed w = apply_op R cfg pol (snd timed) (w\<lparr>aw_clock := aw_clock w + max 0 (fst timed)\<rparr>)"

abbreviation auth_run ::
    "'r session_redis \<Rightarrow> session_config \<Rightarrow> renewal_policy \<Rightarrow> (int \<times> auth_op) list \<Rightarrow> 'r auth_world \<Rightarrow> 'r auth_world" where
  "auth_run R cfg pol \<equiv> fold (auth_step R cfg pol)"

lemma aw_clock_step [simp]: "aw_clock (auth_step R cfg pol (dt, op) w) = aw_clock w + max 0 dt"
  by (cases op) (auto simp: auth_step_def split: prod.splits sum.splits)

lemma auth_clock_run: "aw_clock w \<le> aw_clock (auth_run R cfg pol ops w)"
proof (induction ops arbitrary: w)
  case (Cons o1 ops)
  from Cons [of "auth_step R cfg pol o1 w"] show ?case by (cases o1) simp
qed simp

lemma step_writes:
  assumes "stable_record pol now Q" "readable R now Q (aw_redis w)" "now = aw_clock w + max 0 dt"
    and create: "\<And>dev uuid d x. op = CreateSession dev uuid d \<Longrightarrow>
      snd (createSession R cfg now dev uuid d (aw_redis w)) = Inr x \<Longrightarrow> Q uuid x"
  shows "auth_writes R Q now (aw_redis w) (aw_redis (auth_step R cfg pol (dt, op) w))"
proof (cases op)
  case (RenewSession i)
  with renew_writes [OF assms(1,2), of i "aw_renewals w"] assms(3) show ?thesis
    by (auto simp: auth_step_def split: prod.splits)
next
  case (CreateSession dev uuid d)
  have "auth_writes R Q now (aw_redis w) (fst (createSession R cfg now dev uuid d (aw_redis w)))"
    by (intro createSession_writes create) (rule CreateSession)
  with CreateSession assms(3) show ?thesis by (auto simp: auth_step_def split: prod.splits sum.splits)
qed (use assms(1-3) in \<open>auto simp: auth_step_def deleteUserSessions_def logout_all_def terminateAllSessions_def
    terminateOtherSessions_def terminateDeviceSessions_def terminateIdleSessions_def terminateExpiredSessions_def
    revokeToken_def revokeUserTokens_def revokeTenantTokens_def clearUserRevocation_def clearRenewalHistory_def
    intro: auth_writes.intros validate_writes mfa_writes update_writes deactivate_writes delete_each_writes
      terminate_writes terminate_where_writes\<close>)

section \<open>Stored sessions\<close>

definition epoch :: int where
  \<comment> \<open>times the serializer takes for milliseconds\<close>
  "epoch = 32503680000"

definition max_lifetime :: "session_config \<Rightarrow> renewal_policy \<Rightarrow> int" where
  "max_lifetime cfg pol = max (sc_ttl_seconds cfg * 1000) (rp_maxLifetimeMs pol)"

definition session_ok :: "int \<Rightarrow> session list \<Rightarrow> string \<Rightarrow> session \<Rightarrow> bool" where
  "session_ok L created i x \<longleftrightarrow> se_id x = i \<and> epoch \<le> se_created_at x \<and> epoch \<le> se_last_activity x \<and> epoch \<le> se_expires_at x \<and>
     se_expires_at x \<le> se_created_at x + L \<and>
     (\<exists>c \<in> set created. se_id c = i \<and> se_user_id c = se_user_id x \<and> se_created_at c = se_created_at x)"

lemma session_ok_stable:
  "epoch \<le> now \<Longrightarrow> stable_record pol now (session_ok (max_lifetime cfg pol) created)"
  by (auto simp: stable_record_def session_ok_def max_lifetime_def)

lemma session_ok_new:
  "epoch \<le> now \<Longrightarrow> 0 \<le> sc_ttl_seconds cfg \<Longrightarrow> new_session cfg now uuid d \<in> set created \<Longrightarrow>
     session_ok (max_lifetime cfg pol) created uuid (new_session cfg now uuid d)"
  by (auto simp: session_ok_def max_lifetime_def intro!: bexI [of _ "new_session cfg now uuid d"]) (auto simp: new_session_def)

lemma deserialize_ok: "session_ok L created i x \<Longrightarrow> deserialize x = Inr y \<Longrightarrow> session_ok L created i y"
  by (auto simp: session_ok_def deserialize_def normalizeTimestamp_def epoch_def split: if_splits)

context session_server
begin

definition sessions_ok :: "int \<Rightarrow> 'r auth_world \<Rightarrow> bool" where
  "sessions_ok L w \<longleftrightarrow> epoch \<le> aw_clock w \<and>
     (\<forall>i. settled (\<lambda>v. \<exists>x. v = Stored x \<and> session_ok L (aw_created w) i x) (aw_clock w) (session_key i) (aw_redis w))"

lemma sessions_readable: "sessions_ok L w \<Longrightarrow> aw_clock w \<le> now \<Longrightarrow> readable R now (session_ok L (aw_created w)) (aw_redis w)"
  by (auto simp: readable_def sessions_ok_def ss_get_def intro: deserialize_ok dest!: settledD
    split: option.splits auth_value.splits sum.splits)

lemma created_step:
  "set (aw_created w) \<subseteq> set (aw_created (auth_step R cfg pol (dt, op) w))"
  "op = CreateSession dev uuid d \<Longrightarrow> snd (createSession R cfg (aw_clock w + max 0 dt) dev uuid d (aw_redis w)) = Inr x \<Longrightarrow>
     x \<in> set (aw_created (auth_step R cfg pol (dt, op) w))"
  by (cases op) (auto simp: auth_step_def split: prod.splits sum.splits)

lemma sessions_ok_step:
  assumes "sessions_ok (max_lifetime cfg pol) w" "0 \<le> sc_ttl_seconds cfg"
  shows "sessions_ok (max_lifetime cfg pol) (auth_step R cfg pol (dt, op) w)"
proof -
  let ?w = "auth_step R cfg pol (dt, op) w" and ?L = "max_lifetime cfg pol" and ?now = "aw_clock w + max 0 dt"
  let ?Q = "session_ok ?L (aw_created ?w)"
  have now: "epoch \<le> ?now" using assms(1) by (auto simp: sessions_ok_def)
  have mono: "session_ok ?L (aw_created w) i x \<Longrightarrow> ?Q i x" for i x
    using created_step(1) [of w cfg pol dt op] by (auto simp: session_ok_def)
  have "readable R ?now ?Q (aw_redis w)"
    using sessions_readable [OF assms(1), of ?now] mono by (auto simp: readable_def)
  then have writes: "auth_writes R ?Q ?now (aw_redis w) (aw_redis ?w)"
  proof (rule step_writes [OF session_ok_stable [OF now] _ refl])
    fix dev uuid d x
    assume op: "op = CreateSession dev uuid d" and x: "snd (createSession R cfg ?now dev uuid d (aw_redis w)) = Inr x"
    then obtain d' where "x = new_session cfg ?now uuid d'" using createSession_new [OF x] by blast
    with created_step(2) [OF op x] session_ok_new [OF now assms(2)] show "?Q uuid x" by blast
  qed
  have "settled (\<lambda>v. \<exists>x. v = Stored x \<and> ?Q i x) ?now (session_key i) (aw_redis ?w)" for i
  proof (rule settled_writes [OF writes_of_auth [OF writes]])
    have "settled (\<lambda>v. \<exists>x. v = Stored x \<and> session_ok ?L (aw_created w) i x) ?now (session_key i) (aw_redis w)"
      using assms(1) settled_later [of _ "aw_clock w" "session_key i" "aw_redis w" ?now] by (simp add: sessions_ok_def)
    with mono show "settled (\<lambda>v. \<exists>x. v = Stored x \<and> ?Q i x) ?now (session_key i) (aw_redis w)"
      unfolding settled_def by blast
  qed simp_all
  with now show ?thesis by (simp add: sessions_ok_def)
qed

lemma sessions_ok_run:
  assumes "sessions_ok (max_lifetime cfg pol) w" "0 \<le> sc_ttl_seconds cfg"
  shows "sessions_ok (max_lifetime cfg pol) (auth_run R cfg pol ops w)"
proof (rule machine.inv_run [where step = "auth_step R cfg pol" and inv = "sessions_ok (max_lifetime cfg pol)", OF machine.intro assms(1)])
  show "sessions_ok (max_lifetime cfg pol) w' \<Longrightarrow> sessions_ok (max_lifetime cfg pol) (auth_step R cfg pol op w')" for op w'
    using sessions_ok_step [OF _ assms(2)] by (cases op) blast
qed

lemma sessions_ok_start:
  "(\<And>u i. rd_get R u (session_key i) (aw_redis w) = None) \<Longrightarrow> epoch \<le> aw_clock w \<Longrightarrow> sessions_ok L w"
  by (simp add: sessions_ok_def settled_def)

end

interpretation sessions: session_server map_redis
  by unfold_locales

section \<open>Life of a session\<close>

text \<open>
  C10: A session lives within its bounds. In every run that starts without sessions, a session that
  validates was created under its identifier, still belongs to the user it was created for and keeps
  its time of creation, is active, and expires within the configured time to live or the maximum
  lifetime of the renewal policy after its creation, whichever is longer, whatever renewals and
  updates happened.
\<close>
theorem session_lives_within_lifetime:
  assumes "redis_store R" "\<And>u i. rd_get R u (session_key i) (aw_redis w0) = None" "32503680000 \<le> aw_clock w0"
    and ttl: "0 \<le> sc_ttl_seconds cfg"
    and w: "w = auth_run R cfg pol ops w0"
    and valid: "snd (validateSession R (aw_clock w) default_validation i (aw_redis w)) = Inr v" "vl_valid v"
  shows "\<exists>x c. vl_session v = Some x \<and> se_id x = i \<and> c \<in> set (aw_created w) \<and> se_id c = i \<and>
     se_user_id c = se_user_id x \<and> se_created_at c = se_created_at x \<and> se_is_active x \<and>
     aw_clock w < se_expires_at x \<and>
     se_expires_at x \<le> se_created_at x + max (sc_ttl_seconds cfg * 1000) (rp_maxLifetimeMs pol)"
proof -
  have S: "session_server R" by (simp add: session_server_def assms(1))
  have "session_server.sessions_ok R (max_lifetime cfg pol) w"
    unfolding w using assms by (intro session_server.sessions_ok_run [OF S] session_server.sessions_ok_start [OF S])
      (simp_all add: epoch_def)
  note read = session_server.sessions_readable [OF S this order_refl]
  obtain x where x: "ss_get R (aw_clock w) i (aw_redis w) = Inr (Some x)" "vl_valid (sv_validate (aw_clock w) default_validation x)"
      "v = sv_validate (aw_clock w) default_validation x"
    using valid by (auto simp: validateSession_def split: sum.splits option.splits if_splits prod.splits)
  with readableD [OF read x(1)] show ?thesis
    by (auto simp: session_ok_def max_lifetime_def sv_validate_def default_validation_def split: if_splits)
qed

definition demo_device :: device_info where
  "demo_device = \<lparr>di_type = Web, di_os = ''Linux'', di_browser = None, di_app_version = None, di_user_agent = ''curl''\<rparr>"

definition demo_data :: session_data where
  "demo_data = \<lparr>sd_user_id = ''u'', sd_tenant_id = ''t'', sd_device_id = ''d'', sd_device_info = demo_device,
     sd_ip_address = ''10.0.0.1'', sd_location = None, sd_mfa_verified = None\<rparr>"

definition demo_policy :: renewal_policy where
  "demo_policy = \<lparr>rp_enabled = True, rp_cooldownMs = 60000, rp_maxLifetimeMs = 604800000, rp_renewalThresholdMs = 3600000\<rparr>"

definition demo_world :: "session auth_value server auth_world" where
  "demo_world = \<lparr>aw_clock = 1700000000000, aw_renewals = [], aw_redis = no_data, aw_created = []\<rparr>"

abbreviation demo_run :: "(int \<times> auth_op) list \<Rightarrow> session auth_value server auth_world" where
  "demo_run ops \<equiv> auth_run map_redis defaultSessionConfig demo_policy ops demo_world"

definition demo_validation :: "(int \<times> auth_op) list \<Rightarrow> string + validation" where
  "demo_validation ops = snd (validateSession map_redis (aw_clock (demo_run ops)) default_validation ''s'' (aw_redis (demo_run ops)))"

definition demo_renewed :: "(int \<times> auth_op) list" where
  "demo_renewed = [(0, CreateSession ''dev'' ''s'' demo_data), (83000000, RenewSession ''s''), (80000000, ValidateSession default_validation ''s'')]"

lemma demo_renewed_valid: "\<exists>v. demo_validation demo_renewed = Inr v \<and> vl_valid v"
proof -
  have "case demo_validation demo_renewed of Inl e \<Rightarrow> False | Inr v \<Rightarrow> vl_valid v" by code_simp
  then show ?thesis by (auto split: sum.splits)
qed

lemma no_data_get: "rd_get map_redis u k no_data = None"
  by (simp add: map_redis_def no_data_def)

theorem session_lives_within_lifetime_witness:
  "\<exists>v x c. demo_validation demo_renewed = Inr v \<and> vl_session v = Some x \<and> c \<in> set (aw_created (demo_run demo_renewed)) \<and>
     se_created_at c = se_created_at x \<and> se_expires_at x \<le> se_created_at x + 604800000"
proof -
  obtain v where v: "demo_validation demo_renewed = Inr v" "vl_valid v" using demo_renewed_valid by blast
  have max: "max (sc_ttl_seconds defaultSessionConfig * 1000) (rp_maxLifetimeMs demo_policy) = 604800000"
    by (simp add: defaultSessionConfig_def demo_policy_def)
  have start: "rd_get map_redis u (session_key i) (aw_redis demo_world) = None" "32503680000 \<le> aw_clock demo_world"
      "0 \<le> sc_ttl_seconds defaultSessionConfig" for u i
    by (simp_all add: demo_world_def no_data_get defaultSessionConfig_def)
  from session_lives_within_lifetime [OF mr.redis_store_axioms start refl v(1) [unfolded demo_validation_def] v(2)] max v(1)
  show ?thesis by metis
qed

section \<open>Termination\<close>

definition listed :: "'r session_redis \<Rightarrow> int \<Rightarrow> string \<Rightarrow> 'r \<Rightarrow> session \<Rightarrow> bool" where
  \<comment> \<open>the sessions of the user's index can all be read, and this is one of them\<close>
  "listed R now userId s x \<longleftrightarrow> (\<exists>xs. getUserSessions R now userId s = Inr xs \<and> x \<in> set xs)"

fun ends :: "'r session_redis \<Rightarrow> int \<Rightarrow> auth_op \<Rightarrow> 'r \<Rightarrow> session \<Rightarrow> bool" where
  \<comment> \<open>the operation is one that terminates the session\<close>
  "ends R now (TerminateSession i) s x \<longleftrightarrow> ss_get R now i s = Inr (Some x)"
| "ends R now (LogoutAll u except) s x \<longleftrightarrow> listed R now u s x \<and> (truthy_str except \<longrightarrow> se_id x \<noteq> the except)"
| "ends R now (TerminateDevice u d) s x \<longleftrightarrow> listed R now u s x \<and> se_device_id x = d"
| "ends R now (TerminateIdle u ms) s x \<longleftrightarrow> listed R now u s x \<and> ms < now - se_last_activity x"
| "ends R now (TerminateExpired u) s x \<longleftrightarrow> listed R now u s x \<and> se_expires_at x \<le> now"
| "ends R now op s x \<longleftrightarrow> False"

lemma collect_sessions_get:
  "collect_sessions g is = Inr xs \<Longrightarrow> x \<in> set xs \<Longrightarrow> \<exists>i. g i = Inr (Some x)"
  by (induction "is" arbitrary: xs) (force split: sum.splits option.splits)+

lemma listed_get: "listed R now u s x \<Longrightarrow> \<exists>i. ss_get R now i s = Inr (Some x)"
  by (auto simp: listed_def getUserSessions_def dest: collect_sessions_get)

context session_server
begin

lemma terminate_get:
  "ss_get R now j (fst (terminateSession R now i s)) =
     (if j = i then (case ss_get R now i s of Inl e \<Rightarrow> Inl e | Inr v \<Rightarrow> Inr None) else ss_get R now j s)"
proof -
  have "ss_get R now j (revokeSessionTokens R now i d s) = ss_get R now j s" for j d
    by (simp add: ss_get_def revokeSessionTokens_def get_setex_other)
  moreover have "ss_get R now j (rd_del R (session_key i) s') = (if j = i then Inr None else ss_get R now j s')" for s'
    by (simp add: ss_get_def get_del)
  moreover have "ss_get R now j (removeFromUserIndex R u i s') = ss_get R now j s'" for u s'
    by (simp add: ss_get_def removeFromUserIndex_def get_srem key_defs)
  ultimately show ?thesis
    by (auto simp: terminateSession_def ss_delete_def split: sum.splits option.splits)
qed

lemma terminate_alive:
  assumes "ss_get R now i s = Inr (Some x)"
  shows "alive_until (now + 604800000) now i (fst (terminateSession R now i s))"
proof -
  let ?s = "revokeSessionTokens R now i (7 * 24 * 60 * 60) s"
  have "ss_get R now i ?s = Inr (Some x)" using assms by (simp add: ss_get_def revokeSessionTokens_def get_setex_other)
  then have "fst (terminateSession R now i s) = fst (ss_delete R now i ?s)"
    using assms by (simp add: terminateSession_def ss_delete_def)
  moreover have "alive_until (now + 604800000) now i ?s"
    by (auto simp: alive_until_def revokeSessionTokens_def get_setex)
  ultimately show ?thesis using alive_writes [OF delete_writes [where Q = "\<lambda>i x. True"]] by simp
qed

lemma terminate_each_alive:
  assumes "\<And>x e. x \<in> set xs \<Longrightarrow> ss_get R now (se_id x) s \<noteq> Inl e"
    and "alive_until (now + 604800000) now i s \<or> (\<exists>y. ss_get R now i s = Inr (Some y)) \<and> (\<exists>x \<in> set xs. P x \<and> se_id x = i)"
  shows "alive_until (now + 604800000) now i (fst (terminate_each R now P xs s))"
  using assms
proof (induction xs arbitrary: s)
  case Nil
  then show ?case by simp
next
  case (Cons x xs)
  show ?case
  proof (cases "P x")
    case False
    with Cons.IH [of s] Cons.prems show ?thesis by auto
  next
    case True
    obtain s1 r1 where 1: "terminateSession R now (se_id x) s = (s1, r1)" by fastforce
    have get: "ss_get R now j s1 = (if j = se_id x then Inr None else ss_get R now j s)" for j
      using terminate_get [of now j "se_id x" s] Cons.prems(1) 1 by (auto split: sum.splits)
    have "r1 \<noteq> Inl e" for e
      using Cons.prems(1) [of x] 1 by (auto simp: terminateSession_def ss_delete_def ss_get_def revokeSessionTokens_def
        get_setex_other split: sum.splits option.splits)
    then obtain found where r1: "r1 = Inr found" by (cases r1) auto
    have "alive_until (now + 604800000) now i s1 \<or> (\<exists>y. ss_get R now i s1 = Inr (Some y)) \<and> (\<exists>x \<in> set xs. P x \<and> se_id x = i)"
    proof (cases "se_id x = i \<and> (\<exists>y. ss_get R now i s = Inr (Some y))")
      case True
      with terminate_alive [of now i s] 1 show ?thesis by auto
    next
      case False
      have "alive_until (now + 604800000) now i s \<Longrightarrow> alive_until (now + 604800000) now i (fst (terminateSession R now (se_id x) s))"
        by (rule alive_writes [OF terminate_writes [where Q = "\<lambda>i x. True"]]) simp_all
      with False Cons.prems(2) 1 get show ?thesis by auto
    qed
    then have "alive_until (now + 604800000) now i (fst (terminate_each R now P xs s1))"
      using get Cons.prems(1) by (intro Cons.IH) auto
    with True 1 r1 show ?thesis by (auto split: sum.splits prod.splits)
  qed
qed

lemma ends_alive:
  assumes read: "readable R now (\<lambda>i x. se_id x = i) s" and "ends R now op s x"
  shows "alive_until (now + 604800000) now (se_id x) (store_step R now op s)"
proof -
  have self: "ss_get R now (se_id x) s = Inr (Some x)" if "listed R now u s x" for u x
    using listed_get [OF that] readableD [OF read] by auto
  have each: "alive_until (now + 604800000) now (se_id x) (fst (terminate_where R now u P s))" if l: "listed R now u s x" and "P x" for u P
  proof -
    obtain xs where xs: "getUserSessions R now u s = Inr xs" "x \<in> set xs" using l by (auto simp: listed_def)
    have "ss_get R now (se_id y) s \<noteq> Inl e" if "y \<in> set xs" for y e
      using self [of u y] that xs by (auto simp: listed_def)
    then have "alive_until (now + 604800000) now (se_id x) (fst (terminate_each R now P xs s))"
      using self [OF l] xs \<open>P x\<close> by (intro terminate_each_alive) auto
    with xs show ?thesis by (simp add: terminate_where_def)
  qed
  from assms(2) show ?thesis
  proof (cases op)
    case (TerminateSession i)
    with assms(2) readableD [OF read] have "se_id x = i" by simp
    with TerminateSession assms(2) terminate_alive [of now i s x] show ?thesis by simp
  qed (auto simp: logout_all_def terminateAllSessions_def terminateOtherSessions_def terminateDeviceSessions_def
    terminateIdleSessions_def terminateExpiredSessions_def each)
qed

lemma alive_run:
  assumes "alive_until d (aw_clock w) i (aw_redis w)" "d \<le> aw_clock w + 604800000"
  shows "alive_until d (aw_clock (auth_run R cfg pol ops w)) i (aw_redis (auth_run R cfg pol ops w))"
  using assms
proof (induction ops arbitrary: w)
  case (Cons o1 ops)
  obtain dt op where o1: "o1 = (dt, op)" by fastforce
  let ?now = "aw_clock w + max 0 dt"
  have "auth_writes R (\<lambda>i x. True) ?now (aw_redis w) (aw_redis (auth_step R cfg pol (dt, op) w))"
    by (rule step_writes) (simp_all add: stable_record_def readable_def)
  then have "alive_until d ?now i (aw_redis (auth_step R cfg pol (dt, op) w))"
  proof (rule alive_writes)
    show "d \<le> ?now + 604800000" using Cons.prems(2) by simp
    show "alive_until d ?now i (aw_redis w)" using Cons.prems(1) by (rule alive_later) simp
  qed
  with Cons.IH [of "auth_step R cfg pol o1 w"] Cons.prems(2) o1 show ?case by auto
qed simp

lemma accepted_not_revoked:
  "validate_token R va u opts tok s = Inr p \<Longrightarrow> vo_checkRevocation opts \<Longrightarrow> claims_revoked R va u p s = None"
  by (auto simp: validate_token_def split: sum.splits option.splits if_splits)

lemma alive_rejected:
  assumes "alive_until d t i s" "t \<le> u" "u < d" "vo_checkRevocation opts" "validate_token R va u opts tok s = Inr p"
  shows "claim p ''session_id'' \<noteq> JStr i"
proof
  assume c: "claim p ''session_id'' = JStr i"
  have "areSessionTokensRevoked R u i s" using assms(1-3) by (auto simp: areSessionTokensRevoked_def alive_until_def)
  then have "isRevoked R u j a i n s \<noteq> None" for j a n by (auto simp: isRevoked_def)
  with accepted_not_revoked [OF assms(5,4)] c show False by (simp add: claims_revoked_def text_of_def)
qed

end

lemma ends_step:
  "ends R now op s x \<Longrightarrow> aw_redis (auth_step R cfg pol (dt, op) w) = store_step R (aw_clock w + max 0 dt) op (aw_redis w)"
  by (cases op) (simp_all add: auth_step_def)

text \<open>
  C9: A terminated session is over. In every run that starts without sessions, once an operation has
  terminated a session (itself, as one of the user's sessions at a logout everywhere, by its device,
  as idle or as expired), a token that carries the session's identifier is rejected by every
  validation that checks for revocation during the seven days that follow, whatever the service
  does in between.
\<close>
theorem terminated_session_tokens_rejected:
  assumes "redis_store R" "\<And>u i. rd_get R u (session_key i) (aw_redis w0) = None" "32503680000 \<le> aw_clock w0"
    and ttl: "0 \<le> sc_ttl_seconds cfg"
    and w: "w = auth_run R cfg pol ops w0"
    and ended: "ends R (aw_clock w + max 0 dt) op (aw_redis w) x"
    and w': "w' = auth_run R cfg pol ((dt, op) # later) w"
    and time: "aw_clock w' < aw_clock w + max 0 dt + 7 * 24 * 60 * 60 * 1000"
    and token: "vo_checkRevocation opts" "claim p ''session_id'' = JStr (se_id x)"
  shows "validate_token R va (aw_clock w') opts tok (aw_redis w') \<noteq> Inr p"
proof
  assume valid: "validate_token R va (aw_clock w') opts tok (aw_redis w') = Inr p"
  have S: "session_server R" by (simp add: session_server_def assms(1))
  let ?now = "aw_clock w + max 0 dt" and ?w = "auth_step R cfg pol (dt, op) w"
  have "session_server.sessions_ok R (max_lifetime cfg pol) w"
    unfolding w using assms by (intro session_server.sessions_ok_run [OF S] session_server.sessions_ok_start [OF S])
      (simp_all add: epoch_def)
  from session_server.sessions_readable [OF S this, of ?now]
  have "readable R ?now (\<lambda>i x. se_id x = i) (aw_redis w)" by (auto simp: readable_def session_ok_def)
  from session_server.ends_alive [OF S this ended] ended
  have "session_server.alive_until R (?now + 604800000) (aw_clock ?w) (se_id x) (aw_redis ?w)" by (simp add: ends_step)
  from session_server.alive_run [OF S this, of cfg pol later]
  have "session_server.alive_until R (?now + 604800000) (aw_clock w') (se_id x) (aw_redis w')" unfolding w' by simp
  from session_server.alive_rejected [OF S this order_refl _ token(1) valid] time token(2) show False by simp
qed

definition demo_key :: signing_key where
  "demo_key = \<lparr>sk_kid = ''k1'', sk_algorithm = RS256, sk_privateKey = ''priv'', sk_publicKey = ''pub'', sk_createdAt = 0, sk_isActive = True\<rparr>"

definition demo_provider :: key_provider where
  "demo_provider = \<lparr>kp_platform = [(''k1'', demo_key)], kp_tenant = [], kp_platformKeyId = ''k1'', kp_enableTenantKeys = False\<rparr>"

definition demo_claims :: claims where
  "demo_claims = accessPayload defaultJWTConfig 1700000000000 ''j'' ''u'' ''t'' [''read''] [] None ''s''"

definition demo_library :: "claims \<Rightarrow> jwt_library" where
  \<comment> \<open>every token carries the claims and is verified by the key of the demo\<close>
  "demo_library p = \<lparr>jl_decode = (\<lambda>tok. Some \<lparr>hd_kid = Some ''k1'', hd_alg = ''RS256''\<rparr>),
     jl_verify = (\<lambda>now tol alg key tok.
       if key \<noteq> ''pub'' then Inl (TokenSignatureError ''Invalid token signature'')
       else if num_le (num_plus (number_of (claim p ''exp'')) tol) (num_int (now div 1000)) then Inl TokenExpiredError
       else Inr p)\<rparr>"

definition demo_validator :: validator where
  "demo_validator = \<lparr>va_lib = demo_library demo_claims, va_keys = demo_provider, va_config = defaultJWTConfig, va_text = (\<lambda>v. [])\<rparr>"

definition demo_session :: session where
  "demo_session = new_session defaultSessionConfig 1700000000000 ''s'' demo_data"

abbreviation demo_accepts :: "session auth_value server auth_world \<Rightarrow> token_error + claims" where
  "demo_accepts w \<equiv> validate_token map_redis demo_validator (aw_clock w) default_options ''a.b.c'' (aw_redis w)"

theorem terminated_session_tokens_rejected_witness:
  "demo_accepts (demo_run [(0, CreateSession ''dev'' ''s'' demo_data)]) = Inr demo_claims \<and>
   demo_accepts (auth_run map_redis defaultSessionConfig demo_policy [(1000, LogoutAll ''u'' None), (500000, ClearUser ''u'')]
     (demo_run [(0, CreateSession ''dev'' ''s'' demo_data)])) \<noteq> Inr demo_claims"
proof
  let ?w = "demo_run [(0, CreateSession ''dev'' ''s'' demo_data)]"
  let ?v = "auth_run map_redis defaultSessionConfig demo_policy [(1000, LogoutAll ''u'' None), (500000, ClearUser ''u'')] ?w"
  show "demo_accepts ?w = Inr demo_claims" by code_simp
  have start: "rd_get map_redis u (session_key i) (aw_redis demo_world) = None" "32503680000 \<le> aw_clock demo_world"
      "0 \<le> sc_ttl_seconds defaultSessionConfig" for u i
    by (simp_all add: demo_world_def no_data_get defaultSessionConfig_def)
  have "getUserSessions map_redis (aw_clock ?w + max 0 1000) ''u'' (aw_redis ?w) = Inr [demo_session]" by code_simp
  then have ends: "ends map_redis (aw_clock ?w + max 0 1000) (LogoutAll ''u'' None) (aw_redis ?w) demo_session"
    by (simp add: listed_def)
  have "aw_clock ?v < aw_clock ?w + max 0 1000 + 7 * 24 * 60 * 60 * 1000" by simp
  moreover have "claim demo_claims ''session_id'' = JStr (se_id demo_session)" by code_simp
  ultimately show "demo_accepts ?v \<noteq> Inr demo_claims"
    by (intro terminated_session_tokens_rejected [OF mr.redis_store_axioms start refl ends refl]) (simp_all add: default_options_def)
qed

section \<open>Issued tokens\<close>

lemma num_int_compare [simp]:
  "num_le (num_int m) (num_int n) \<longleftrightarrow> m \<le> n" "num_less (num_int m) (num_int n) \<longleftrightarrow> m < n"
  by (auto simp: num_le_def)

lemma truthy_text: "js_truthy (JStr t) \<longleftrightarrow> t \<noteq> []"
  by (simp add: js_truthy_def)

lemma truthy_int: "js_truthy (int_claim n) \<longleftrightarrow> n \<noteq> 0"
  by (simp add: js_truthy_def)

lemma claim_simps:
  "claim ((k, v) # p) j = (if j = k then v else claim p j)" "claim [] j = JUndef"
  by (simp_all add: claim_def)

lemma blank_truthy: "\<not> blank t \<Longrightarrow> t \<noteq> []"
  by (auto simp: blank_def)

lemma issued_standard_claims:
  assumes "\<not> blank userId" "tenantId \<noteq> []" "jc_issuer cfg \<noteq> []" "0 < issuedMs div 1000" "0 < jc_accessTokenExpiry cfg"
  shows "validateStandardClaims cfg nowMs (accessPayload cfg issuedMs uuid userId tenantId scopes perms device sessionId) (Some tenantId) =
     (if issuedMs div 1000 + jc_accessTokenExpiry cfg + jc_clockTolerance cfg \<le> nowMs div 1000 then Some TokenExpiredError
      else if nowMs div 1000 < issuedMs div 1000 - jc_clockTolerance cfg
      then Some (TokenClaimError ''Token issued in the future'' ''iat'') else None)"
proof -
  have "\<not> blank (''at_'' @ uuid)" by (simp add: blank_def)
  moreover have "\<not> issuedMs div 1000 + jc_accessTokenExpiry cfg = 0" using assms by linarith
  ultimately show ?thesis
    using assms blank_truthy [OF assms(1)]
    by (simp add: validateStandardClaims_def accessPayload_def Let_def claim_simps validateIssuer_def text_claim_def
      validateExpiration_def validateIssuedAt_def validateAudience_def truthy_text truthy_int flip: of_int_add of_int_diff)
qed

lemma issued_access_claims:
  "validateAccessTokenClaims (accessPayload cfg issuedMs uuid userId tenantId scopes perms device sessionId) = None"
  by (simp add: validateAccessTokenClaims_def accessPayload_def Let_def claim_simps)

text \<open>
  What the service relies on of the signing library (jsonwebtoken), for a key pair: a token it
  signs for claims that are plain JSON and carry numeric times has three parts and a header with the
  identifier and the algorithm of the key, and verified with the public key it gives back just
  those claims until its expiration and the tolerance are over.
\<close>

fun json_plain :: "jsval \<Rightarrow> bool" where
  "json_plain (JStr t) = True"
| "json_plain (JNum n) = (\<exists>i :: int. n = num_int i)"
| "json_plain (JArr i vs) = list_all claim_is_string vs"
| "json_plain _ = False"

fun array_identity :: "jsval \<Rightarrow> nat list" where
  "array_identity (JArr i vs) = [i]" | "array_identity _ = []"

definition json_claims :: "claims \<Rightarrow> bool" where
  \<comment> \<open>what is read back as it was written; the arrays are numbered in their order\<close>
  "json_claims p \<longleftrightarrow> distinct (map fst p) \<and> list_all (\<lambda>(k, v). json_plain v) p
     \<and> (let is = concat (map (array_identity \<circ> snd) p) in is = [0..<length is])
     \<and> (\<exists>i. claim p ''iat'' = int_claim i) \<and> claim p ''nbf'' = JUndef"

definition alg_name :: "jwt_algorithm \<Rightarrow> string" where
  "alg_name a = (case a of RS256 \<Rightarrow> ''RS256'' | ES256 \<Rightarrow> ''ES256'')"

definition jwt_law :: "(signing_key \<Rightarrow> claims \<Rightarrow> string) \<Rightarrow> jwt_library \<Rightarrow> signing_key \<Rightarrow> bool" where
  "jwt_law sign lib k \<longleftrightarrow> (\<forall>p e. json_claims p \<longrightarrow> claim p ''exp'' = int_claim e \<longrightarrow>
     length (str_split (CHR ''.'') (sign k p)) = 3 \<and> list_all (\<lambda>part. \<not> blank part) (str_split (CHR ''.'') (sign k p))
     \<and> jl_decode lib (sign k p) = Some \<lparr>hd_kid = Some (sk_kid k), hd_alg = alg_name (sk_algorithm k)\<rparr>
     \<and> (\<forall>now tolerance. jl_verify lib now tolerance (alg_name (sk_algorithm k)) (sk_publicKey k) (sign k p) =
          (if e + tolerance \<le> now div 1000 then Inl TokenExpiredError else Inr p)))"

lemma access_payload_json:
  "json_claims (accessPayload cfg issuedMs uuid userId tenantId scopes perms device sessionId)"
  "claim (accessPayload cfg issuedMs uuid userId tenantId scopes perms device sessionId) ''exp'' =
     int_claim (issuedMs div 1000 + jc_accessTokenExpiry cfg)"
  by (auto simp: json_claims_def accessPayload_def Let_def claim_simps upt_rec list_all_iff simp flip: of_int_add)

lemma signed_token_checked:
  assumes "jwt_law sign lib k" "json_claims p" "claim p ''exp'' = int_claim e" "length (sign k p) \<le> max_token_size"
  shows "performSecurityChecks lib (sign k p) = Inr \<lparr>hd_kid = Some (sk_kid k), hd_alg = alg_name (sk_algorithm k)\<rparr>"
proof -
  have "length (str_split (CHR ''.'') (sign k p)) = 3" "list_all (\<lambda>part. \<not> blank part) (str_split (CHR ''.'') (sign k p))"
    and decode: "jl_decode lib (sign k p) = Some \<lparr>hd_kid = Some (sk_kid k), hd_alg = alg_name (sk_algorithm k)\<rparr>"
    using assms(1-3) unfolding jwt_law_def by blast+
  then have "first_error ((max_token_size < length (sign k p), TokenSizeError) # checkTokenStructure (sign k p)) = None"
    using assms(4) by (auto simp: checkTokenStructure_def list_ex_iff list_all_iff)
  moreover have "alg_name a \<noteq> []" "first_error (checkAlgorithm (alg_name a)) = None" for a
    by (cases a; simp add: alg_name_def checkAlgorithm_def alg_of_def ascii_lower_def)+
  ultimately show ?thesis by (simp add: performSecurityChecks_def decode)
qed

text \<open>
  C11: What the generator issues the validator accepts, exactly in its time. Take the access token
  \<open>generateAccessToken\<close> returns for a user, a tenant and a session, signed with the key that
  \<open>getSigningKey\<close> gives for the tenant, by a library that keeps its promise for that key
  (\<open>jwt_law\<close>), and of at most 8192 characters. If the key is among the validator's platform keys, full validation for the
  tenant returns the claims that were issued, which name that user, tenant and session, unless the
  lifetime and the tolerance are over, the token is from a future beyond the tolerance, or its
  identifier, its user or its session is revoked; and then it fails with the corresponding error.
  If the key is a tenant's own and not a platform key, the token is always refused: the validator
  looks keys up without the tenant.
\<close>
theorem issued_tokens_validate:
  assumes issued: "generateAccessToken sign kp cfg issuedMs uuid refreshId userId tenantId scopes perms device sessionId
      = Inr (tok, refreshToken)"
    and key: "getSigningKey kp (Some tenantId) = Inr k" "jwt_law sign (va_lib va) k" "sk_publicKey k \<noteq> []"
      "\<And>k'. map_of (kp_platform (va_keys va)) (sk_kid k) = Some k' \<Longrightarrow> sk_publicKey k' = sk_publicKey k"
    and size: "length tok \<le> max_token_size"
    and p: "p = accessPayload cfg issuedMs uuid userId tenantId scopes perms device sessionId"
    and config: "va_config va = cfg" "jc_issuer cfg \<noteq> []" "0 < jc_accessTokenExpiry cfg" "1000 \<le> issuedMs"
    and subject: "\<not> blank userId" "tenantId \<noteq> []"
    and opts: "opts = \<lparr>vo_audience = Some tenantId, vo_checkRevocation = True, vo_requireAccessTokenClaims = True\<rparr>"
  shows "validate_token R va nowMs opts tok s =
     (if map_of (kp_platform (va_keys va)) (sk_kid k) = None
      then Inl (TokenSignatureError (''Unknown key ID: '' @ sk_kid k))
      else if issuedMs div 1000 + jc_accessTokenExpiry cfg + jc_clockTolerance cfg \<le> nowMs div 1000 then Inl TokenExpiredError
      else if nowMs div 1000 < issuedMs div 1000 - jc_clockTolerance cfg
      then Inl (TokenClaimError ''Token issued in the future'' ''iat'')
      else case isRevoked R nowMs (''at_'' @ uuid) userId sessionId (num_int (issuedMs div 1000)) s of
          Some reason \<Rightarrow> Inl (TokenRevokedError (''Token revoked: '' @ reason))
        | None \<Rightarrow> Inr p)
    \<and> claim p ''sub'' = JStr userId \<and> claim p ''user_id'' = JStr userId \<and> claim p ''tenant_id'' = JStr tenantId
    \<and> claim p ''session_id'' = JStr sessionId \<and> claim p ''scopes'' = JArr 0 (map JStr scopes)"
proof -
  note json = access_payload_json [where cfg = cfg and uuid = uuid, of issuedMs userId tenantId scopes perms device sessionId, folded p]
  have tok: "tok = sign k p" using issued key(1) by (simp add: generateAccessToken_def p)
  note sec = signed_token_checked [OF key(2) json size [unfolded tok], folded tok]
  have verify: "jl_verify (va_lib va) nowMs (jc_clockTolerance cfg) (alg_name (sk_algorithm k)) (sk_publicKey k) tok =
      (if issuedMs div 1000 + jc_accessTokenExpiry cfg + jc_clockTolerance cfg \<le> nowMs div 1000 then Inl TokenExpiredError else Inr p)"
    using key(2) json unfolding jwt_law_def tok by blast
  have key': "getPublicKey (va_keys va) (sk_kid k) None =
      (if map_of (kp_platform (va_keys va)) (sk_kid k) = None then None else Some (sk_publicKey k))"
  proof (cases "map_of (kp_platform (va_keys va)) (sk_kid k)")
    case None
    then show ?thesis by (simp add: getPublicKey_def)
  next
    case (Some k')
    then show ?thesis using key(3) key(4) [OF Some] by (simp add: getPublicKey_def)
  qed
  have "0 < issuedMs div 1000" using config(4) by (simp add: pos_imp_zdiv_pos_iff)
  note std = issued_standard_claims [OF subject config(2) this config(3), of nowMs uuid scopes perms device sessionId, folded p]
  have acc: "validateAccessTokenClaims p = None" unfolding p by (rule issued_access_claims)
  have rev: "claims_revoked R va nowMs p s = isRevoked R nowMs (''at_'' @ uuid) userId sessionId (num_int (issuedMs div 1000)) s"
    using blank_truthy [OF subject(1)]
    by (simp add: claims_revoked_def p accessPayload_def Let_def claim_simps text_of_def truthy_text)
  have "claim p ''sub'' = JStr userId \<and> claim p ''user_id'' = JStr userId \<and> claim p ''tenant_id'' = JStr tenantId
      \<and> claim p ''session_id'' = JStr sessionId \<and> claim p ''scopes'' = JArr 0 (map JStr scopes)"
    by (simp add: p accessPayload_def Let_def claim_simps)
  then show ?thesis
    using sec key' verify std acc rev by (simp add: validate_token_def opts config(1))
qed

text \<open>
  A library that keeps the promise, for a platform key and for a key of the tenant. Its tokens name
  the key and encode the claims by their number.
\<close>

instance js_number :: countable
  by countable_datatype

instance jsval :: countable
  by countable_datatype

definition demo_tenant_key :: signing_key where
  "demo_tenant_key = demo_key\<lparr>sk_kid := ''k2'', sk_publicKey := ''pub2''\<rparr>"

definition tenant_provider :: key_provider where
  "tenant_provider = demo_provider\<lparr>kp_tenant := [(''t'', [(''k2'', demo_tenant_key)])], kp_enableTenantKeys := True\<rparr>"

definition claims_text :: "claims \<Rightarrow> string" where
  "claims_text p = (if p = demo_claims then ''d'' else replicate (Suc (Suc (to_nat p))) (CHR ''x''))"

definition text_claims :: "string \<Rightarrow> claims" where
  "text_claims t = (if t = ''d'' then demo_claims else from_nat (length t - 2))"

lemma text_claims_text: "text_claims (claims_text p) = p"
  by (simp add: text_claims_def claims_text_def)

definition demo_sign :: "signing_key \<Rightarrow> claims \<Rightarrow> string" where
  "demo_sign k p = sk_kid k @ ''.'' @ claims_text p @ ''.s''"

definition demo_jwt :: jwt_library where
  "demo_jwt = \<lparr>jl_decode = (\<lambda>tok. Some \<lparr>hd_kid = Some (hd (str_split (CHR ''.'') tok)), hd_alg = ''RS256''\<rparr>),
     jl_verify = (\<lambda>now tol alg key tok.
       let p = text_claims (str_split (CHR ''.'') tok ! 1) in
       if map_of [(''k1'', ''pub''), (''k2'', ''pub2'')] (hd (str_split (CHR ''.'') tok)) \<noteq> Some key
       then Inl (TokenSignatureError ''Invalid token signature'')
       else if num_le (num_plus (number_of (claim p ''exp'')) tol) (num_int (now div 1000)) then Inl TokenExpiredError
       else Inr p)\<rparr>"

lemma demo_jwt_law:
  assumes "k = demo_key \<or> k = demo_tenant_key"
  shows "jwt_law demo_sign demo_jwt k"
proof -
  have k: "sk_kid k \<in> {''k1'', ''k2''}" "CHR ''.'' \<notin> set (sk_kid k)" "\<not> blank (sk_kid k)" "alg_name (sk_algorithm k) = ''RS256''"
    "map_of [(''k1'', ''pub''), (''k2'', ''pub2'')] (sk_kid k) = Some (sk_publicKey k)"
    using assms by (auto simp: demo_tenant_key_def demo_key_def blank_def alg_name_def)
  have t: "CHR ''.'' \<notin> set (claims_text p)" "\<not> blank (claims_text p)" for p
    by (auto simp: claims_text_def blank_def)
  have split: "str_split (CHR ''.'') (demo_sign k p) = [sk_kid k, claims_text p, ''s'']" for p
    using str_split_append [OF k(2), of "claims_text p @ ''.s''"] str_split_append [OF t(1), of p "''s''"]
    by (simp add: demo_sign_def)
  have "\<not> blank ''s''" by (simp add: blank_def)
  then show ?thesis
    using k(3-5) t(2) by (auto simp: jwt_law_def split demo_jwt_def text_claims_text Let_def simp flip: of_int_add)
qed

definition jwt_validator :: validator where
  "jwt_validator = \<lparr>va_lib = demo_jwt, va_keys = tenant_provider, va_config = defaultJWTConfig, va_text = (\<lambda>v. [])\<rparr>"

definition demo_options :: validate_options where
  "demo_options = \<lparr>vo_audience = Some ''t'', vo_checkRevocation = True, vo_requireAccessTokenClaims = True\<rparr>"

text \<open>
  A token signed with the platform key is accepted to the last millisecond, one signed with the
  tenant's own key is not.
\<close>

theorem issued_tokens_validate_witness:
  "\<exists>refreshToken refreshToken'.
     generateAccessToken demo_sign demo_provider defaultJWTConfig 1700000000000 ''j'' ''r'' ''u'' ''t'' [''read''] [] None ''s''
       = Inr (''k1.d.s'', refreshToken) \<and>
     validate_token map_redis jwt_validator 1700000930000 demo_options ''k1.d.s'' (no_data :: session auth_value server) = Inl TokenExpiredError \<and>
     validate_token map_redis jwt_validator 1700000929999 demo_options ''k1.d.s'' (no_data :: session auth_value server) = Inr demo_claims \<and>
     generateAccessToken demo_sign tenant_provider defaultJWTConfig 1700000000000 ''j'' ''r'' ''u'' ''t'' [''read''] [] None ''s''
       = Inr (''k2.d.s'', refreshToken') \<and>
     validate_token map_redis jwt_validator 1700000000001 demo_options ''k2.d.s'' (no_data :: session auth_value server)
       = Inl (TokenSignatureError ''Unknown key ID: k2'')"
proof -
  have keys: "getSigningKey demo_provider (Some ''t'') = Inr demo_key" "getSigningKey tenant_provider (Some ''t'') = Inr demo_tenant_key"
    by code_simp+
  have tok: "demo_sign demo_key demo_claims = ''k1.d.s''" "demo_sign demo_tenant_key demo_claims = ''k2.d.s''"
    by (simp_all add: demo_sign_def claims_text_def demo_key_def demo_tenant_key_def)
  have issued: "generateAccessToken demo_sign demo_provider defaultJWTConfig 1700000000000 ''j'' ''r'' ''u'' ''t'' [''read''] [] None ''s''
      = Inr (''k1.d.s'', demo_sign demo_key (refreshPayload defaultJWTConfig 1700000000000 ''u'' ''r''))"
    "generateAccessToken demo_sign tenant_provider defaultJWTConfig 1700000000000 ''j'' ''r'' ''u'' ''t'' [''read''] [] None ''s''
      = Inr (''k2.d.s'', demo_sign demo_tenant_key (refreshPayload defaultJWTConfig 1700000000000 ''u'' ''r''))"
    unfolding tok [symmetric] demo_claims_def by (simp_all add: generateAccessToken_def keys)
  have law: "jwt_law demo_sign (va_lib jwt_validator) demo_key" "jwt_law demo_sign (va_lib jwt_validator) demo_tenant_key"
    by (simp_all add: jwt_validator_def demo_jwt_law)
  have platform: "map_of (kp_platform (va_keys jwt_validator)) (sk_kid demo_key) = Some demo_key"
    "map_of (kp_platform (va_keys jwt_validator)) (sk_kid demo_tenant_key) = None"
    "sk_publicKey demo_key \<noteq> []" "sk_publicKey demo_tenant_key \<noteq> []"
    by code_simp+
  have pub: "\<And>k'. map_of (kp_platform (va_keys jwt_validator)) (sk_kid demo_key) = Some k' \<Longrightarrow> sk_publicKey k' = sk_publicKey demo_key"
    "\<And>k'. map_of (kp_platform (va_keys jwt_validator)) (sk_kid demo_tenant_key) = Some k' \<Longrightarrow> sk_publicKey k' = sk_publicKey demo_tenant_key"
    by (simp_all add: platform)
  have size: "length ''k1.d.s'' \<le> max_token_size" "length ''k2.d.s'' \<le> max_token_size" by code_simp+
  have config: "va_config jwt_validator = defaultJWTConfig" "jc_issuer defaultJWTConfig \<noteq> []" "0 < jc_accessTokenExpiry defaultJWTConfig"
    "1000 \<le> (1700000000000 :: int)" "\<not> blank ''u''" "''t'' \<noteq> []"
    by (simp_all add: jwt_validator_def defaultJWTConfig_def blank_def)
  have none: "isRevoked map_redis n j a i m (no_data :: session auth_value server) = None" for n j a i m
    by (simp add: isRevoked_def isTokenRevoked_def areUserTokensRevoked_def areSessionTokensRevoked_def issued_before_def no_data_get)
  note valid = issued_tokens_validate [where R = map_redis and s = "no_data :: session auth_value server"]
  note valid1 = valid [OF issued(1) keys(1) law(1) platform(3) pub(1) size(1) demo_claims_def config demo_options_def, THEN conjunct1]
  note valid2 = valid [OF issued(2) keys(2) law(2) platform(4) pub(2) size(2) demo_claims_def config demo_options_def, THEN conjunct1]
  have kid: "sk_kid demo_tenant_key = ''k2''" by (simp add: demo_tenant_key_def)
  show ?thesis
    using issued valid1 [of 1700000930000] valid1 [of 1700000929999] valid2 [of 1700000000001]
    unfolding platform none by (simp add: kid defaultJWTConfig_def)
qed

section \<open>What is not guaranteed\<close>

lemma tenant_key_never_verifies:
  \<comment> \<open>the validator looks keys up without the tenant the generator signed for\<close>
  assumes "performSecurityChecks (va_lib va) tok = Inr h" "hd_kid h = Some kid" "map_of (kp_platform (va_keys va)) kid = None"
  shows "validate_token R va nowMs opts tok s = Inl (TokenSignatureError (''Unknown key ID: '' @ kid))"
  using assms by (simp add: validate_token_def getPublicKey_def)

lemma tenant_revocation_ignored:
  \<comment> \<open>the checker of the validator never reads what \<open>revokeTenantTokens\<close> writes\<close>
  assumes "redis_store R"
  shows "validate_token R va u opts tok (revokeTenantTokens R now tenantId s) = validate_token R va u opts tok s"
proof -
  have get: "rd_get R u k (revokeTenantTokens R now tenantId s) = rd_get R u k s" if "k \<noteq> tenant_invalid_key tenantId" for k
    using redis_store.get_setex_other [OF assms] that by (auto simp: revokeTenantTokens_def)
  have "isRevoked R u j a i n (revokeTenantTokens R now tenantId s) = isRevoked R u j a i n s" for j a i n
    by (simp add: isRevoked_def isTokenRevoked_def areUserTokensRevoked_def areSessionTokensRevoked_def issued_before_def get key_defs)
  then have "claims_revoked R va u p (revokeTenantTokens R now tenantId s) = claims_revoked R va u p s" for p
    by (simp add: claims_revoked_def)
  then show ?thesis by (simp add: validate_token_def split: sum.split option.split)
qed

lemma same_second_token_survives:
  \<comment> \<open>a token issued in the second of the revocation, before it, is not revoked\<close>
  assumes "redis_store R" "now \<le> u" "u < now + 2592000000"
  shows "areUserTokensRevoked R u userId (num_int n) (revokeUserTokens R now userId s) \<longleftrightarrow> n < now div 1000"
  using assms redis_store.get_setex [OF assms(1)] by (simp add: areUserTokensRevoked_def revokeUserTokens_def issued_before_def)

lemma renewal_outlives_index:
  \<comment> \<open>a renewed session is alive when the index of the user has expired: a logout everywhere misses it\<close>
  "let w = demo_run [(0, CreateSession ''dev'' ''s'' demo_data), (83000000, RenewSession ''s''), (4000000, LogoutAll ''u'' None)]
   in snd (logout_all map_redis (aw_clock w) ''u'' None (aw_redis w)) = Inr 0 \<and>
      session_exists map_redis (aw_clock w) ''s'' (aw_redis w) \<and>
      getUserSessionCount map_redis (aw_clock w) ''u'' (aw_redis w) = 0"
  by code_simp

lemma stale_write_resurrects:
  \<comment> \<open>a validation that read a session before its termination stores it again\<close>
  "let w = demo_run [(0, CreateSession ''dev'' ''s'' demo_data)];
       terminated = fst (terminateSession map_redis (aw_clock w + 1) ''s'' (aw_redis w));
       late = storeSession map_redis (aw_clock w + 2) (demo_session\<lparr>se_last_activity := aw_clock w + 2\<rparr>) terminated
   in \<not> session_exists map_redis (aw_clock w + 2) ''s'' terminated \<and> session_exists map_redis (aw_clock w + 2) ''s'' late"
  by code_simp

lemma mobile_systems_unrecognised:
  \<comment> \<open>Android announces Linux and an iPhone Mac OS X\<close>
  "parse_os ''Mozilla/5.0 (Linux; Android 14; Pixel 8)'' = Some ''Linux''"
  "parse_os ''Mozilla/5.0 (iPhone; CPU iPhone OS 17_0 like Mac OS X)'' = Some ''macOS''"
  by code_simp+

end
