(* ===== verification/AuditTrail.thy ===== *)
theory AuditTrail
  imports AuthzValues
begin

text \<open>
  The audit service (services/audit-service/src): entries chained by their hashes, the check of a
  chain, the storage with its queries, the logger and the statistics. The text that is hashed is
  represented by the values it is printed from, so SHA-256 is a function on those, a parameter;
  identifiers and times are arguments. Streaming to Kafka is a log line in the code and left out.
\<close>

section \<open>Entries\<close>

record audit_actor =
  aa_user_id :: "string option"
  aa_ip_address :: string
  aa_user_agent :: string
  aa_session_id :: "string option"

record audit_target =
  at_type :: string
  at_id :: string

datatype audit_result = Success | Failure

record audit_event =
  av_event_type :: string
  av_actor :: audit_actor
  av_target :: audit_target
  av_action :: string
  av_result :: audit_result
  av_metadata :: "(string \<times> jsval) list"
  av_timestamp :: int

record audit_entry =
  ae_event :: audit_event
  ae_audit_id :: string
  ae_tenant_id :: string
  ae_hash :: string
  ae_previous_hash :: "string option"
  ae_created_at :: int

section \<open>Hash chains\<close>

record hash_input =
  hi_audit_id :: string
  hi_tenant_id :: string
  hi_event_type :: string
  hi_actor :: audit_actor
  hi_target :: audit_target
  hi_action :: string
  hi_result :: audit_result
  hi_timestamp :: int
  hi_previous_hash :: string

definition entry_input :: "audit_entry \<Rightarrow> hash_input" where
  \<comment> \<open>the object \<open>calculateHash\<close> prints: neither the metadata nor the time of creation\<close>
  "entry_input e = \<lparr>hi_audit_id = ae_audit_id e, hi_tenant_id = ae_tenant_id e,
     hi_event_type = av_event_type (ae_event e), hi_actor = av_actor (ae_event e), hi_target = av_target (ae_event e),
     hi_action = av_action (ae_event e), hi_result = av_result (ae_event e), hi_timestamp = av_timestamp (ae_event e),
     hi_previous_hash = (case ae_previous_hash e of None \<Rightarrow> [] | Some h \<Rightarrow> h)\<rparr>"

definition chain_calculateHash :: "(hash_input \<Rightarrow> string) \<Rightarrow> audit_entry \<Rightarrow> string" where
  "chain_calculateHash sha e = sha (entry_input e)"

record chain_check =
  cc_valid :: bool
  cc_broken_at :: "nat option"
  cc_error :: "string option"

fun verify_from :: "(hash_input \<Rightarrow> string) \<Rightarrow> nat \<Rightarrow> audit_entry option \<Rightarrow> audit_entry list \<Rightarrow> chain_check" where
  \<comment> \<open>the loop of \<open>verifyChain\<close> from an index on, after the previous entry\<close>
  "verify_from sha i prev [] = \<lparr>cc_valid = True, cc_broken_at = None, cc_error = None\<rparr>"
| "verify_from sha i prev (e # es) =
     (if chain_calculateHash sha e \<noteq> ae_hash e
      then \<lparr>cc_valid = False, cc_broken_at = Some i, cc_error = Some (''Hash mismatch at entry '' @ show_nat i)\<rparr>
      else case prev of
          Some p \<Rightarrow>
            if ae_previous_hash e \<noteq> Some (ae_hash p)
            then \<lparr>cc_valid = False, cc_broken_at = Some i, cc_error = Some (''Chain broken at entry '' @ show_nat i)\<rparr>
            else verify_from sha (i + 1) (Some e) es
        | None \<Rightarrow> verify_from sha (i + 1) (Some e) es)"

definition chain_verifyChain :: "(hash_input \<Rightarrow> string) \<Rightarrow> audit_entry list \<Rightarrow> chain_check" where
  "chain_verifyChain sha es = verify_from sha 0 None es"

record chain_summary =
  cs_length :: nat
  cs_first_hash :: "string option"
  cs_last_hash :: "string option"
  cs_is_valid :: bool

definition getChainSummary :: "(hash_input \<Rightarrow> string) \<Rightarrow> audit_entry list \<Rightarrow> chain_summary" where
  "getChainSummary sha es =
     (if es = [] then \<lparr>cs_length = 0, cs_first_hash = None, cs_last_hash = None, cs_is_valid = True\<rparr>
      else \<lparr>cs_length = length es, cs_first_hash = Some (ae_hash (hd es)), cs_last_hash = Some (ae_hash (last es)),
        cs_is_valid = cc_valid (chain_verifyChain sha es)\<rparr>)"

section \<open>Storage\<close>

record audit_storage =
  as_entries :: "(string, audit_entry) jsmap"
  as_lastHash :: "string option"

definition new_AuditStorage :: audit_storage where
  "new_AuditStorage = \<lparr>as_entries = [], as_lastHash = None\<rparr>"

definition audit_store ::
    "(hash_input \<Rightarrow> string) \<Rightarrow> int \<Rightarrow> string \<Rightarrow> string \<Rightarrow> audit_event \<Rightarrow> audit_storage \<Rightarrow> audit_entry \<times> audit_storage" where
  \<comment> \<open>at a time, under a random identifier, for a tenant\<close>
  "audit_store sha now i tenantId ev st =
     (let e = \<lparr>ae_event = ev, ae_audit_id = i, ae_tenant_id = tenantId, ae_hash = [],
          ae_previous_hash = as_lastHash st, ae_created_at = now\<rparr>;
        h = chain_calculateHash sha e; e' = e\<lparr>ae_hash := h\<rparr>
      in (e', \<lparr>as_entries = AList.update i e' (as_entries st), as_lastHash = Some h\<rparr>))"

definition audit_getById :: "string \<Rightarrow> audit_storage \<Rightarrow> audit_entry option" where
  "audit_getById i st = map_of (as_entries st) i"

definition audit_verifyIntegrity :: "(hash_input \<Rightarrow> string) \<Rightarrow> string \<Rightarrow> audit_storage \<Rightarrow> bool" where
  "audit_verifyIntegrity sha tenantId st =
     cc_valid (chain_verifyChain sha (sort_key ae_created_at
       (filter (\<lambda>e. ae_tenant_id e = tenantId) (map_values (as_entries st)))))"

record audit_filter =
  af_tenant_id :: "string option"
  af_event_type :: "string option"
  af_actor_user_id :: "string option"
  af_target_type :: "string option"
  af_result :: "audit_result option"
  af_start_date :: "int option"
  af_end_date :: "int option"
  af_limit :: "int option"
  af_offset :: "int option"

record audit_page =
  ap_entries :: "audit_entry list"
  ap_total :: nat
  ap_has_more :: bool

definition filter_matches :: "audit_filter \<Rightarrow> audit_entry \<Rightarrow> bool" where
  \<comment> \<open>the filters on target identifier and action are declared but not applied\<close>
  "filter_matches f e \<longleftrightarrow>
     (truthy_str (af_tenant_id f) \<longrightarrow> ae_tenant_id e = the (af_tenant_id f)) \<and>
     (truthy_str (af_event_type f) \<longrightarrow> av_event_type (ae_event e) = the (af_event_type f)) \<and>
     (truthy_str (af_actor_user_id f) \<longrightarrow> aa_user_id (av_actor (ae_event e)) = af_actor_user_id f) \<and>
     (truthy_str (af_target_type f) \<longrightarrow> at_type (av_target (ae_event e)) = the (af_target_type f)) \<and>
     (case af_result f of None \<Rightarrow> True | Some r \<Rightarrow> av_result (ae_event e) = r) \<and>
     (case af_start_date f of None \<Rightarrow> True | Some t \<Rightarrow> t \<le> av_timestamp (ae_event e)) \<and>
     (case af_end_date f of None \<Rightarrow> True | Some t \<Rightarrow> av_timestamp (ae_event e) \<le> t)"

definition or_int :: "int option \<Rightarrow> int \<Rightarrow> int" where
  \<comment> \<open>\<open>n || d\<close>\<close>
  "or_int n d = (case n of None \<Rightarrow> d | Some k \<Rightarrow> if k = 0 then d else k)"

definition slice_index :: "nat \<Rightarrow> int \<Rightarrow> nat" where
  "slice_index len i = (if i < 0 then nat (max 0 (int len + i)) else min (nat i) len)"

definition js_slice :: "int \<Rightarrow> int \<Rightarrow> 'a list \<Rightarrow> 'a list" where
  \<comment> \<open>\<open>xs.slice(a, b)\<close>\<close>
  "js_slice a b xs = take (slice_index (length xs) b - slice_index (length xs) a) (drop (slice_index (length xs) a) xs)"

definition audit_query :: "audit_filter \<Rightarrow> audit_storage \<Rightarrow> audit_page" where
  "audit_query f st =
     (let es = sort_key (\<lambda>e. - av_timestamp (ae_event e)) (filter (filter_matches f) (map_values (as_entries st)));
        offset = or_int (af_offset f) 0; limit = or_int (af_limit f) 50
      in \<lparr>ap_entries = js_slice offset (offset + limit) es, ap_total = length es,
        ap_has_more = offset + limit < int (length es)\<rparr>)"

section \<open>Logger\<close>

fun logBatch ::
    "(hash_input \<Rightarrow> string) \<Rightarrow> int \<Rightarrow> (string \<times> audit_event) list \<Rightarrow> string \<Rightarrow> audit_storage \<Rightarrow> audit_entry list \<times> audit_storage" where
  \<comment> \<open>events with the identifiers drawn for them\<close>
  "logBatch sha now [] tenantId st = ([], st)"
| "logBatch sha now ((i, ev) # evs) tenantId st =
     (let (e, st1) = audit_store sha now i tenantId ev st; (es, st2) = logBatch sha now evs tenantId st1 in (e # es, st2))"

definition auth_event :: "int \<Rightarrow> string \<Rightarrow> string option \<Rightarrow> string \<Rightarrow> string \<Rightarrow> audit_result \<Rightarrow> (string \<times> jsval) list \<Rightarrow> audit_event" where
  \<comment> \<open>what \<open>logAuth\<close> logs\<close>
  "auth_event now action userId ip ua result meta = \<lparr>av_event_type = ''authentication.'' @ action,
     av_actor = \<lparr>aa_user_id = userId, aa_ip_address = ip, aa_user_agent = ua, aa_session_id = None\<rparr>,
     av_target = \<lparr>at_type = ''user'', at_id = (if truthy_str userId then the userId else ''unknown'')\<rparr>,
     av_action = action, av_result = result, av_metadata = meta, av_timestamp = now\<rparr>"

definition authz_event ::
    "int \<Rightarrow> string \<Rightarrow> string \<Rightarrow> string \<Rightarrow> string \<Rightarrow> audit_result \<Rightarrow> (string \<times> jsval) list \<Rightarrow> audit_event" where
  "authz_event now action userId resourceType resourceId result meta = \<lparr>av_event_type = ''authorization.'' @ action,
     av_actor = \<lparr>aa_user_id = Some userId, aa_ip_address = [], aa_user_agent = [], aa_session_id = None\<rparr>,
     av_target = \<lparr>at_type = resourceType, at_id = resourceId\<rparr>,
     av_action = action, av_result = result, av_metadata = meta, av_timestamp = now\<rparr>"

definition data_event :: "int \<Rightarrow> string \<Rightarrow> string \<Rightarrow> string \<Rightarrow> string \<Rightarrow> (string \<times> jsval) list \<Rightarrow> audit_event" where
  "data_event now action userId dataType dataId meta = \<lparr>av_event_type = ''data.'' @ action,
     av_actor = \<lparr>aa_user_id = Some userId, aa_ip_address = [], aa_user_agent = [], aa_session_id = None\<rparr>,
     av_target = \<lparr>at_type = dataType, at_id = dataId\<rparr>,
     av_action = action, av_result = Success, av_metadata = meta, av_timestamp = now\<rparr>"

section \<open>Statistics and export\<close>

definition count_up :: "string \<Rightarrow> (string, nat) jsmap \<Rightarrow> (string, nat) jsmap" where
  "count_up k m = AList.update k ((case map_of m k of None \<Rightarrow> 0 | Some n \<Rightarrow> n) + 1) m"

record audit_stats =
  st_total_events :: nat
  st_by_event_type :: "(string, nat) jsmap"
  st_by_result :: "(string, nat) jsmap"
  st_by_actor :: "(string, nat) jsmap"

definition result_text :: "audit_result \<Rightarrow> string" where
  "result_text r = (case r of Success \<Rightarrow> ''success'' | Failure \<Rightarrow> ''failure'')"

definition no_filter :: audit_filter where
  "no_filter = \<lparr>af_tenant_id = None, af_event_type = None, af_actor_user_id = None, af_target_type = None,
     af_result = None, af_start_date = None, af_end_date = None, af_limit = None, af_offset = None\<rparr>"

definition audit_getStats :: "string \<Rightarrow> int \<Rightarrow> int \<Rightarrow> audit_storage \<Rightarrow> audit_stats" where
  "audit_getStats tenantId startDate endDate st =
     (let p = audit_query (no_filter\<lparr>af_tenant_id := Some tenantId, af_start_date := Some startDate,
          af_end_date := Some endDate, af_limit := Some 10000\<rparr>) st; es = map ae_event (ap_entries p)
      in \<lparr>st_total_events = ap_total p,
        st_by_event_type = fold (\<lambda>e. count_up (av_event_type e)) es [],
        st_by_result = fold (\<lambda>e. count_up (result_text (av_result e))) es [],
        st_by_actor = fold (\<lambda>e m. if truthy_str (aa_user_id (av_actor e)) then count_up (the (aa_user_id (av_actor e))) m else m) es []\<rparr>)"

definition csv_row :: "(int \<Rightarrow> string) \<Rightarrow> audit_entry \<Rightarrow> string list" where
  \<comment> \<open>with the text of a date\<close>
  "csv_row date_text e = [ae_audit_id e, date_text (av_timestamp (ae_event e)), av_event_type (ae_event e),
     (case aa_user_id (av_actor (ae_event e)) of None \<Rightarrow> [] | Some u \<Rightarrow> u),
     av_action (ae_event e), result_text (av_result (ae_event e))]"

definition export_csv :: "(int \<Rightarrow> string) \<Rightarrow> audit_filter \<Rightarrow> audit_storage \<Rightarrow> string" where
  "export_csv date_text f st = str_join [CHR 0x0A]
     (map (str_join '','') ([''audit_id'', ''timestamp'', ''event_type'', ''actor_user_id'', ''action'', ''result''] #
       map (csv_row date_text) (ap_entries (audit_query (f\<lparr>af_limit := Some 100000\<rparr>) st))))"

end
