(* ===== verification/AuditChains.thy ===== *)
theory AuditChains
  imports AuditTrail
begin

text \<open>
  What the hash chain of the audit service shows: a verified chain is determined by its last hash,
  the whole log of a run is a chain, and the check the storage makes for a tenant succeeds exactly
  if nobody else logged in between. The last section shows what the chain does not protect.
\<close>

section \<open>Chains\<close>

definition hashed :: "(hash_input \<Rightarrow> string) \<Rightarrow> audit_entry \<Rightarrow> bool" where
  "hashed sha e \<longleftrightarrow> ae_hash e = sha (entry_input e)"

definition follows :: "audit_entry \<Rightarrow> audit_entry \<Rightarrow> bool" where
  "follows a b \<longleftrightarrow> ae_previous_hash b = Some (ae_hash a)"

lemma verify_from_valid:
  "cc_valid (verify_from sha i prev es) \<longleftrightarrow>
     (\<forall>e \<in> set es. hashed sha e) \<and> successively follows (case prev of None \<Rightarrow> es | Some p \<Rightarrow> p # es)"
proof (induction sha i prev es rule: verify_from.induct)
  case (2 sha i prev e es)
  then show ?case
    by (cases prev) (auto simp: hashed_def chain_calculateHash_def follows_def successively_Cons)
qed (auto split: option.splits)

lemma chain_valid_iff:
  "cc_valid (chain_verifyChain sha es) \<longleftrightarrow> (\<forall>e \<in> set es. hashed sha e) \<and> successively follows es"
  by (simp add: chain_verifyChain_def verify_from_valid)

lemma verify_from_broken:
  "cc_broken_at (verify_from sha i prev es) = Some k \<Longrightarrow>
     i \<le> k \<and> k < i + length es \<and> \<not> cc_valid (verify_from sha i prev (take (k - i + 1) es)) \<and>
     cc_valid (verify_from sha i prev (take (k - i) es))"
proof (induction sha i prev es rule: verify_from.induct)
  case (2 sha i prev e es)
  show ?case
  proof (cases "cc_valid (verify_from sha i prev [e])")
    case False
    with "2.prems" show ?thesis by (auto split: if_splits option.splits)
  next
    case True
    then have ok: "chain_calculateHash sha e = ae_hash e" "\<And>p. prev = Some p \<Longrightarrow> ae_previous_hash e = Some (ae_hash p)"
      by (auto split: if_splits option.splits)
    then have rest: "verify_from sha i prev (e # xs) = verify_from sha (i + 1) (Some e) xs" for xs
      by (cases prev) simp_all
    with "2.prems" have "cc_broken_at (verify_from sha (i + 1) (Some e) es) = Some k" by simp
    then have IH: "i + 1 \<le> k \<and> k < i + 1 + length es \<and>
        \<not> cc_valid (verify_from sha (i + 1) (Some e) (take (k - (i + 1) + 1) es)) \<and>
        cc_valid (verify_from sha (i + 1) (Some e) (take (k - (i + 1)) es))"
      using "2.IH" ok by (cases prev) simp_all
    then obtain d where d: "k = i + 1 + d" using le_Suc_ex by blast
    with IH show ?thesis by (simp del: verify_from.simps add: rest)
  qed
qed simp

text \<open>
  C39: A verified chain is tamper-evident. Two chains of the same length that both verify and end in
  the same hash agree, entry by entry, on everything that is hashed: identifier, tenant, event type,
  actor, target, action, result, time and link, provided the hash has no collision among them.
\<close>
theorem verified_chain_is_determined:
  assumes "cc_valid (chain_verifyChain sha es)" "cc_valid (chain_verifyChain sha fs)"
    and "length es = length fs" "es \<noteq> []" "ae_hash (last es) = ae_hash (last fs)"
    and "inj_on sha (entry_input ` (set es \<union> set fs))"
  shows "map entry_input es = map entry_input fs"
  using assms unfolding chain_valid_iff
proof (induction es arbitrary: fs rule: rev_induct)
  case (snoc a es)
  then obtain b gs where fs: "fs = gs @ [b]" by (cases fs rule: rev_exhaust) auto
  have "sha (entry_input a) = sha (entry_input b)" using snoc.prems fs by (simp add: hashed_def)
  then have ab: "entry_input a = entry_input b"
    by (rule inj_onD [OF snoc.prems(6)]) (simp_all add: fs)
  show ?case
  proof (cases "es = []")
    case True
    with snoc.prems(3) fs ab show ?thesis by simp
  next
    case False
    with snoc.prems(3) fs have gs: "gs \<noteq> []" by auto
    have "follows (last es) a" "follows (last gs) b"
      using snoc.prems(1,2) fs False gs by (auto simp: successively_append_iff)
    then have "ae_hash (last es) = ae_hash (last gs)"
      using arg_cong [OF ab, of hi_previous_hash] by (auto simp: follows_def entry_input_def)
    moreover have "inj_on sha (entry_input ` (set es \<union> set gs))"
      using snoc.prems(6) fs by (auto elim: inj_on_subset)
    ultimately have "map entry_input es = map entry_input gs"
      using snoc.prems fs False by (intro snoc.IH) (auto simp: successively_append_iff)
    with ab fs show ?thesis by simp
  qed
qed simp

section \<open>Runs\<close>

type_synonym log_op = "int \<times> string \<times> string \<times> audit_event"
  \<comment> \<open>time, identifier, tenant and event\<close>

fun log_step :: "(hash_input \<Rightarrow> string) \<Rightarrow> log_op \<Rightarrow> audit_storage \<Rightarrow> audit_storage" where
  "log_step sha (now, i, tn, ev) st = snd (audit_store sha now i tn ev st)"

abbreviation log_run :: "(hash_input \<Rightarrow> string) \<Rightarrow> log_op list \<Rightarrow> audit_storage" where
  "log_run sha ops \<equiv> fold (log_step sha) ops new_AuditStorage"

abbreviation op_id :: "log_op \<Rightarrow> string" where "op_id op \<equiv> fst (snd op)"
abbreviation op_tenant :: "log_op \<Rightarrow> string" where "op_tenant op \<equiv> fst (snd (snd op))"

fun logged_run :: "(hash_input \<Rightarrow> string) \<Rightarrow> string option \<Rightarrow> log_op list \<Rightarrow> audit_entry list" where
  \<comment> \<open>the entries a run logs after a hash\<close>
  "logged_run sha h [] = []"
| "logged_run sha h ((now, i, tn, ev) # ops) =
     (let e = fst (audit_store sha now i tn ev \<lparr>as_entries = [], as_lastHash = h\<rparr>)
      in e # logged_run sha (Some (ae_hash e)) ops)"

lemma logged_fields:
  "map ae_audit_id (logged_run sha h ops) = map op_id ops"
  "map ae_tenant_id (logged_run sha h ops) = map op_tenant ops"
  "map ae_created_at (logged_run sha h ops) = map fst ops"
  by (induction sha h ops rule: logged_run.induct) (auto simp: audit_store_def Let_def)

lemma logged_chained:
  "(\<forall>e \<in> set (logged_run sha h ops). hashed sha e) \<and> successively follows (logged_run sha h ops) \<and>
     (ops \<noteq> [] \<longrightarrow> ae_previous_hash (hd (logged_run sha h ops)) = h)"
proof (induction sha h ops rule: logged_run.induct)
  case (2 sha h now i tn ev ops)
  let ?e = "fst (audit_store sha now i tn ev \<lparr>as_entries = [], as_lastHash = h\<rparr>)"
  have "hashed sha ?e" "ae_previous_hash ?e = h"
    by (simp_all add: hashed_def audit_store_def Let_def chain_calculateHash_def entry_input_def)
  with 2 show ?case by (cases ops) (auto simp: Let_def successively_Cons follows_def)
qed simp

lemma log_run_entries:
  "distinct (map op_id ops) \<Longrightarrow> (\<forall>op \<in> set ops. map_of (as_entries st) (op_id op) = None) \<Longrightarrow>
     map_values (as_entries (fold (log_step sha) ops st)) = map_values (as_entries st) @ logged_run sha (as_lastHash st) ops"
proof (induction ops arbitrary: st)
  case (Cons op ops)
  obtain now i tn ev where op: "op = (now, i, tn, ev)" by (cases op)
  let ?st = "snd (audit_store sha now i tn ev st)"
  have "map_of (as_entries ?st) (op_id op') = None" if "op' \<in> set ops" for op'
    using Cons.prems op that by (force simp: audit_store_def Let_def)
  then have "map_values (as_entries (fold (log_step sha) ops ?st)) = map_values (as_entries ?st) @ logged_run sha (as_lastHash ?st) ops"
    using Cons.prems by (intro Cons.IH) auto
  moreover have "map_values (as_entries ?st) = map_values (as_entries st) @ [fst (audit_store sha now i tn ev st)]"
    using Cons.prems op by (simp add: audit_store_def Let_def update_fresh)
  ultimately show ?case using op by (simp add: audit_store_def Let_def entry_input_def chain_calculateHash_def)
qed simp

lemma log_run_logged:
  "distinct (map op_id ops) \<Longrightarrow> map_values (as_entries (log_run sha ops)) = logged_run sha None ops"
  by (subst log_run_entries) (simp_all add: new_AuditStorage_def)

text \<open>The whole log, over all tenants, is a chain.\<close>

lemma log_is_chain:
  "distinct (map op_id ops) \<Longrightarrow> cc_valid (chain_verifyChain sha (map_values (as_entries (log_run sha ops))))"
  using logged_chained [of sha None ops] by (simp add: log_run_logged chain_valid_iff)

section \<open>The check of a tenant\<close>

definition contiguous :: "('a \<Rightarrow> bool) \<Rightarrow> 'a list \<Rightarrow> bool" where
  "contiguous P xs \<longleftrightarrow> filter P xs = takeWhile P (dropWhile (\<lambda>x. \<not> P x) xs)"

lemma contiguous_iff:
  "contiguous P xs \<longleftrightarrow>
     (\<exists>pre mid post. xs = pre @ mid @ post \<and> (\<forall>x \<in> set mid. P x) \<and> (\<forall>x \<in> set pre \<union> set post. \<not> P x))"
proof
  assume c: "contiguous P xs"
  let ?a = "takeWhile (\<lambda>x. \<not> P x) xs" and ?d = "dropWhile (\<lambda>x. \<not> P x) xs"
  have xs: "xs = ?a @ takeWhile P ?d @ dropWhile P ?d" by simp
  have a: "\<forall>x \<in> set ?a. \<not> P x" by (blast dest: set_takeWhileD)
  have m: "\<forall>x \<in> set (takeWhile P ?d). P x" by (blast dest: set_takeWhileD)
  have e: "filter P ?a = []" unfolding filter_empty_conv by (rule a)
  have k: "filter P (takeWhile P ?d) = takeWhile P ?d" unfolding filter_id_conv by (rule m)
  have "filter P xs = filter P (?a @ takeWhile P ?d @ dropWhile P ?d)" by (rule arg_cong [OF xs])
  also have "\<dots> = takeWhile P ?d @ filter P (dropWhile P ?d)" by (simp only: filter_append append_Nil e k)
  finally have "takeWhile P ?d @ filter P (dropWhile P ?d) = takeWhile P ?d"
    using c [unfolded contiguous_def] by (rule trans [OF sym])
  then have "filter P (dropWhile P ?d) = []" by (simp only: append_self_conv)
  then have r: "\<forall>x \<in> set (dropWhile P ?d). \<not> P x" unfolding filter_empty_conv .
  show "\<exists>pre mid post. xs = pre @ mid @ post \<and> (\<forall>x \<in> set mid. P x) \<and> (\<forall>x \<in> set pre \<union> set post. \<not> P x)"
    using xs a m r by blast
next
  assume "\<exists>pre mid post. xs = pre @ mid @ post \<and> (\<forall>x \<in> set mid. P x) \<and> (\<forall>x \<in> set pre \<union> set post. \<not> P x)"
  then obtain pre mid post where xs: "xs = pre @ mid @ post" "\<forall>x \<in> set mid. P x" "\<forall>x \<in> set pre \<union> set post. \<not> P x" by blast
  have post: "takeWhile P post = []" "filter P post = []" "filter P pre = []" "filter P mid = mid"
    using xs(2,3) by (auto simp: filter_empty_conv filter_id_conv takeWhile_eq_Nil_iff)
  have drop: "dropWhile (\<lambda>x. \<not> P x) xs = dropWhile (\<lambda>x. \<not> P x) (mid @ post)" using xs by (simp add: dropWhile_append2)
  show "contiguous P xs"
  proof (cases mid)
    case Nil
    then have d: "dropWhile (\<lambda>x. \<not> P x) xs = []" unfolding drop using xs(3) by (simp add: dropWhile_eq_Nil_conv)
    have "filter P xs = []" using xs Nil by (auto simp: filter_empty_conv)
    with d show ?thesis unfolding contiguous_def by (simp only: takeWhile.simps)
  next
    case (Cons m ms)
    then have "dropWhile (\<lambda>x. \<not> P x) xs = mid @ post" using xs(2) drop by simp
    moreover have "takeWhile P (mid @ post) = mid" using xs(2) post(1) by (simp add: takeWhile_append2)
    ultimately show ?thesis using post xs(1) by (simp add: contiguous_def)
  qed
qed

lemma successively_pred: "successively L (y # ys) \<Longrightarrow> z \<in> set ys \<Longrightarrow> \<exists>w \<in> set (y # ys). L w z"
  by (induction ys arbitrary: y) auto

lemma filtered_chain_contiguous:
  assumes "distinct es" "successively L es"
    and "\<And>a b c. a \<in> set es \<Longrightarrow> b \<in> set es \<Longrightarrow> L a c \<Longrightarrow> L b c \<Longrightarrow> a = b"
  shows "successively L (filter P es) \<longleftrightarrow> contiguous P es"
  using assms
proof (induction es)
  case Nil
  then show ?case by (simp add: contiguous_def)
next
  case (Cons x xs)
  note prems = Cons.prems
  have IH: "successively L (filter P xs) \<longleftrightarrow> contiguous P xs"
    using Cons.prems by (intro Cons.IH) (auto simp: successively_Cons)
  show ?case
  proof (cases "P x")
    case False
    with IH show ?thesis by (simp add: contiguous_def)
  next
    case True
    show ?thesis
    proof (cases xs)
      case Nil
      with True show ?thesis by (simp add: contiguous_def)
    next
      case xs: (Cons y ys)
      show ?thesis
      proof (cases "P y")
        case True
        with \<open>P x\<close> xs IH prems(2) show ?thesis by (simp add: contiguous_def)
      next
        case False
        have "\<not> L x z" if z: "z \<in> set ys" for z
        proof
          assume "L x z"
          obtain w where w: "w \<in> set xs" "L w z"
            using successively_pred [of L y ys z] z prems(2) unfolding xs by auto
          with prems(3) [of x w z] \<open>L x z\<close> have "x = w" by simp
          with w prems(1) show False by simp
        qed
        then have "successively L (x # filter P ys) \<longleftrightarrow> filter P ys = []"
          by (cases "filter P ys") (auto simp: filter_eq_Cons_iff)
        with \<open>P x\<close> False xs show ?thesis by (simp add: contiguous_def)
      qed
    qed
  qed
qed

lemma contiguous_map: "contiguous P (map f xs) \<longleftrightarrow> contiguous (\<lambda>x. P (f x)) xs"
proof
  assume "contiguous P (map f xs)"
  then obtain pre mid post where m: "map f xs = pre @ mid @ post" "\<forall>x \<in> set mid. P x" "\<forall>x \<in> set pre \<union> set post. \<not> P x"
    unfolding contiguous_iff by blast
  then obtain us vs ws where "xs = us @ vs @ ws" "pre = map f us" "mid = map f vs" "post = map f ws"
    by (auto simp: map_eq_append_conv append_eq_map_conv)
  with m show "contiguous (\<lambda>x. P (f x)) xs" unfolding contiguous_iff
    by (intro exI [of _ us] exI [of _ vs] exI [of _ ws]) auto
next
  assume "contiguous (\<lambda>x. P (f x)) xs"
  then obtain pre mid post where "xs = pre @ mid @ post" "\<forall>x \<in> set mid. P (f x)" "\<forall>x \<in> set pre \<union> set post. \<not> P (f x)"
    unfolding contiguous_iff by blast
  then show "contiguous P (map f xs)" unfolding contiguous_iff
    by (intro exI [of _ "map f pre"] exI [of _ "map f mid"] exI [of _ "map f post"]) auto
qed

text \<open>
  The check of a tenant works only without others. After any run with distinct identifiers, in
  the order of its times and without hash collisions, the integrity check of a tenant succeeds
  exactly if the operations that logged for the tenant followed each other immediately: one event of
  another tenant in between, and an untouched log is reported as broken.
\<close>
lemma integrity_iff_contiguous:
  assumes "distinct (map op_id ops)" "sorted (map fst ops)"
    and "inj_on sha (entry_input ` set (map_values (as_entries (log_run sha ops))))"
  shows "audit_verifyIntegrity sha tn (log_run sha ops) \<longleftrightarrow>
     (\<exists>pre mid post. ops = pre @ mid @ post \<and> (\<forall>op \<in> set mid. op_tenant op = tn) \<and>
       (\<forall>op \<in> set pre \<union> set post. op_tenant op \<noteq> tn))"
proof -
  let ?es = "logged_run sha None ops"
  have run: "map_values (as_entries (log_run sha ops)) = ?es" using assms(1) by (rule log_run_logged)
  note chain = logged_chained [of sha None ops]
  have ids: "distinct (map ae_audit_id ?es)" using assms(1) by (simp add: logged_fields)
  have pred: "a = b" if "a \<in> set ?es" "b \<in> set ?es" "follows a c" "follows b c" for a b c
  proof -
    have "sha (entry_input a) = sha (entry_input b)" using that chain by (auto simp: follows_def hashed_def)
    with that assms(3) have "entry_input a = entry_input b" unfolding run by (auto dest: inj_onD)
    then have "ae_audit_id a = ae_audit_id b" by (auto simp: entry_input_def)
    with that ids show ?thesis by (auto simp: distinct_map dest: inj_onD)
  qed
  have sorted: "sorted (map ae_created_at (filter (\<lambda>e. ae_tenant_id e = tn) ?es))"
    using assms(2) by (intro sorted_filter) (simp add: logged_fields)
  have "audit_verifyIntegrity sha tn (log_run sha ops) \<longleftrightarrow> successively follows (filter (\<lambda>e. ae_tenant_id e = tn) ?es)"
    using chain sort_key_id_if_sorted [OF sorted] by (auto simp: audit_verifyIntegrity_def run chain_valid_iff)
  also have "\<dots> \<longleftrightarrow> contiguous (\<lambda>e. ae_tenant_id e = tn) ?es"
    using ids chain pred by (intro filtered_chain_contiguous) (auto simp: distinct_map)
  also have "\<dots> \<longleftrightarrow> contiguous (\<lambda>t. t = tn) (map ae_tenant_id ?es)" by (simp add: contiguous_map)
  also have "\<dots> \<longleftrightarrow> contiguous (\<lambda>op. op_tenant op = tn) ops" by (simp add: logged_fields contiguous_map)
  finally show ?thesis unfolding contiguous_iff .
qed

definition demo_event :: "string \<Rightarrow> audit_event" where
  "demo_event a = data_event 0 a ''u'' ''file'' ''f'' []"

definition demo_sha :: "hash_input \<Rightarrow> string" where
  \<comment> \<open>no collision between entries with different identifiers\<close>
  "demo_sha h = CHR ''h'' # hi_audit_id h"

definition demo_log :: "log_op list" where
  "demo_log = [(1, ''1'', ''a'', demo_event ''read''), (2, ''2'', ''b'', demo_event ''read''), (3, ''3'', ''a'', demo_event ''write'')]"

lemma integrity_iff_contiguous_example:
  "\<not> audit_verifyIntegrity demo_sha ''a'' (log_run demo_sha demo_log) \<and>
   audit_verifyIntegrity demo_sha ''b'' (log_run demo_sha demo_log)"
proof
  have pre: "distinct (map op_id demo_log)" "sorted (map fst demo_log)" by (simp_all add: demo_log_def)
  have "distinct (map demo_sha (map entry_input (map_values (as_entries (log_run demo_sha demo_log)))))" by code_simp
  then have "inj_on demo_sha (entry_input ` set (map_values (as_entries (log_run demo_sha demo_log))))"
    by (simp only: distinct_map set_map)
  note iff = integrity_iff_contiguous [OF pre this]
  have "\<not> contiguous (\<lambda>op. op_tenant op = ''a'') demo_log" "contiguous (\<lambda>op. op_tenant op = ''b'') demo_log"
    by (simp_all add: contiguous_def demo_log_def)
  then show "\<not> audit_verifyIntegrity demo_sha ''a'' (log_run demo_sha demo_log)"
    "audit_verifyIntegrity demo_sha ''b'' (log_run demo_sha demo_log)"
    using iff [of "''a''"] iff [of "''b''"] unfolding contiguous_iff by blast+
qed

theorem verified_chain_is_determined_witness:
  "map entry_input (logged_run demo_sha None demo_log) =
     map entry_input (map (\<lambda>e. e\<lparr>ae_created_at := 0\<rparr>) (logged_run demo_sha None demo_log))"
proof (rule verified_chain_is_determined [where sha = demo_sha])
  show "inj_on demo_sha (entry_input ` (set (logged_run demo_sha None demo_log) \<union>
      set (map (\<lambda>e. e\<lparr>ae_created_at := 0\<rparr>) (logged_run demo_sha None demo_log))))"
    by (auto simp: inj_on_def demo_sha_def demo_log_def audit_store_def Let_def entry_input_def)
qed code_simp+

section \<open>What the chain does not show\<close>

lemma metadata_unprotected:
  \<comment> \<open>changing metadata or the time of creation goes unnoticed\<close>
  "chain_verifyChain sha (map (\<lambda>e. e\<lparr>ae_event := (ae_event e)\<lparr>av_metadata := f e\<rparr>, ae_created_at := g e\<rparr>) es) =
     chain_verifyChain sha es"
proof -
  have "verify_from sha i (map_option (\<lambda>e. e\<lparr>ae_event := (ae_event e)\<lparr>av_metadata := f e\<rparr>, ae_created_at := g e\<rparr>) prev)
      (map (\<lambda>e. e\<lparr>ae_event := (ae_event e)\<lparr>av_metadata := f e\<rparr>, ae_created_at := g e\<rparr>) es) = verify_from sha i prev es" for i prev
  proof (induction sha i prev es rule: verify_from.induct)
    case (2 sha i prev e es)
    then show ?case by (cases prev) (auto simp: chain_calculateHash_def entry_input_def)
  qed simp
  from this [of 0 None] show ?thesis by (simp add: chain_verifyChain_def)
qed

lemma truncation_unnoticed:
  \<comment> \<open>removing entries at either end leaves a chain that verifies\<close>
  "cc_valid (chain_verifyChain sha (xs @ ys @ zs)) \<Longrightarrow> cc_valid (chain_verifyChain sha ys)"
  by (auto simp: chain_valid_iff successively_append_iff)

lemma statistics_truncated:
  \<comment> \<open>the total counts every entry, the other statistics the first ten thousand\<close>
  "length (ap_entries (audit_query (f\<lparr>af_limit := Some 10000, af_offset := None\<rparr>) st)) \<le> 10000"
  by (simp add: audit_query_def Let_def js_slice_def or_int_def slice_index_def)

end
