(* ===== verification/CpAudit.thy ===== *)
theory CpAudit
  imports AuthMongo AuthRedis AuthzValues
begin

text \<open>
  The audit log of the compliance service (services/compliance-service/src/services/audit.service.ts
  and hash-chain.service.ts): entries are hashed onto the last known hash of their tenant, collected
  in a buffer, written to MongoDB in batches, and checked on request. Collection and Redis are
  parameters; the text that is hashed is represented by the values it is printed from. What the
  check of the log is worth is the property at the end.
\<close>

section \<open>Entries and hashes\<close>

record compliance_event =
  ce_tenant_id :: string
  ce_user_id :: "string option"
  ce_action :: string
  ce_resource_type :: string
  ce_resource_id :: "string option"
  ce_metadata :: "(string \<times> jsval) list"

record compliance_log =
  cl_audit_id :: string
  cl_event :: compliance_event
  cl_hash :: string
  cl_previous_hash :: string
  cl_created_at :: int

record compliance_input =
  \<comment> \<open>what \<open>calculateHash\<close> prints: the data, the link and the moment of the calculation\<close>
  ci_audit_id :: string
  ci_event :: compliance_event
  ci_created_at :: int
  ci_previousHash :: string
  ci_timestamp :: int

type_synonym compliance_sha = "compliance_input \<Rightarrow> string"

definition cp_calculateHash :: "compliance_sha \<Rightarrow> int \<Rightarrow> string \<Rightarrow> compliance_event \<Rightarrow> int \<Rightarrow> string \<Rightarrow> string" where
  "cp_calculateHash sha now i ev createdAt previousHash =
     sha \<lparr>ci_audit_id = i, ci_event = ev, ci_created_at = createdAt, ci_previousHash = previousHash, ci_timestamp = now\<rparr>"

definition genesisHash :: string where
  "genesisHash = replicate 64 (CHR ''0'')"

definition cp_verifyChain :: "compliance_sha \<Rightarrow> int \<Rightarrow> compliance_log list \<Rightarrow> bool" where
  \<comment> \<open>of the hash-chain service, over entries from the second on\<close>
  "cp_verifyChain sha now es \<longleftrightarrow>
     list_all (\<lambda>(p, e). cl_previous_hash e = cl_hash p \<and>
       cp_calculateHash sha now (cl_audit_id e) (cl_event e) (cl_created_at e) (cl_previous_hash e) = cl_hash e) (zip es (tl es))"

section \<open>Service\<close>

record ('c, 'r) compliance =
  cp_logs :: 'c
  cp_redis :: 'r
  cp_buffer :: "compliance_log list"

definition last_hash_key :: "string \<Rightarrow> string" where
  "last_hash_key tenantId = ''last_hash:'' @ tenantId"

definition newest_log :: "(compliance_log, 'c) documents \<Rightarrow> string \<Rightarrow> 'c \<Rightarrow> compliance_log option" where
  \<comment> \<open>\<open>findOne\<close> with the sort by creation, newest first\<close>
  "newest_log D tenantId c =
     (case sort_key (\<lambda>l. - cl_created_at l) (dc_find D (\<lambda>l. ce_tenant_id (cl_event l) = tenantId) c) of
        [] \<Rightarrow> None | l # _ \<Rightarrow> Some l)"

definition getLastHash ::
    "(compliance_log, 'c) documents \<Rightarrow> (string, 'r) redis \<Rightarrow> int \<Rightarrow> string \<Rightarrow> ('c, 'r) compliance \<Rightarrow> string \<times> ('c, 'r) compliance" where
  "getLastHash D R now tenantId w =
     (case rd_get R now (last_hash_key tenantId) (cp_redis w) of
        Some (x # xs) \<Rightarrow> (x # xs, w)
      | _ \<Rightarrow> (let h = (case newest_log D tenantId (cp_logs w) of None \<Rightarrow> genesisHash | Some l \<Rightarrow> cl_hash l)
          in (h, w\<lparr>cp_redis := rd_setex R now (last_hash_key tenantId) 60 h (cp_redis w)\<rparr>)))"

definition flushBatch ::
    "(compliance_log, 'c) documents \<Rightarrow> (string, 'r) redis \<Rightarrow> bool \<Rightarrow> int \<Rightarrow> ('c, 'r) compliance \<Rightarrow> ('c, 'r) compliance" where
  \<comment> \<open>\<open>up\<close>: whether the batch is inserted; if not it stays in the buffer\<close>
  "flushBatch D R up now w =
     (if cp_buffer w = [] \<or> \<not> up then w
      else w\<lparr>cp_logs := fold (dc_insertOne D) (cp_buffer w) (cp_logs w),
        cp_redis := fold (\<lambda>l. rd_setex R now (last_hash_key (ce_tenant_id (cl_event l))) 60 (cl_hash l)) (cp_buffer w) (cp_redis w),
        cp_buffer := []\<rparr>)"

definition cp_log ::
    "(compliance_log, 'c) documents \<Rightarrow> (string, 'r) redis \<Rightarrow> compliance_sha \<Rightarrow> bool \<Rightarrow> int \<Rightarrow> int \<Rightarrow> string \<Rightarrow> compliance_event
      \<Rightarrow> ('c, 'r) compliance \<Rightarrow> ('c, 'r) compliance" where
  \<comment> \<open>created at a time, hashed at a time, under an identifier\<close>
  "cp_log D R sha up created now i ev w =
     (case getLastHash D R now (ce_tenant_id ev) w of (previousHash, w1) \<Rightarrow>
       let l = \<lparr>cl_audit_id = i, cl_event = ev, cl_hash = cp_calculateHash sha now i ev created previousHash,
             cl_previous_hash = previousHash, cl_created_at = created\<rparr>;
           w2 = w1\<lparr>cp_buffer := cp_buffer w1 @ [l]\<rparr>
       in if 100 \<le> length (cp_buffer w2) then flushBatch D R up now w2 else w2)"

record compliance_filter =
  cf_tenant_id :: string
  cf_user_id :: "string option"
  cf_action :: "string option"
  cf_resource_type :: "string option"
  cf_start_date :: "int option"
  cf_end_date :: "int option"
  cf_limit :: "nat option"
  cf_skip :: "nat option"

definition in_period :: "int option \<Rightarrow> int option \<Rightarrow> int \<Rightarrow> bool" where
  "in_period startDate endDate t \<longleftrightarrow>
     (case startDate of None \<Rightarrow> True | Some s \<Rightarrow> s \<le> t) \<and> (case endDate of None \<Rightarrow> True | Some e \<Rightarrow> t \<le> e)"

definition cp_query :: "(compliance_log, 'c) documents \<Rightarrow> compliance_filter \<Rightarrow> 'c \<Rightarrow> compliance_log list" where
  \<comment> \<open>a limit of zero counts as none given\<close>
  "cp_query D f c =
     (let matches = (\<lambda>l. ce_tenant_id (cl_event l) = cf_tenant_id f \<and>
            (truthy_str (cf_user_id f) \<longrightarrow> ce_user_id (cl_event l) = cf_user_id f) \<and>
            (truthy_str (cf_action f) \<longrightarrow> ce_action (cl_event l) = the (cf_action f)) \<and>
            (truthy_str (cf_resource_type f) \<longrightarrow> ce_resource_type (cl_event l) = the (cf_resource_type f)) \<and>
            in_period (cf_start_date f) (cf_end_date f) (cl_created_at l));
        limit = (case cf_limit f of None \<Rightarrow> 100 | Some n \<Rightarrow> if n = 0 then 100 else n);
        skip = (case cf_skip f of None \<Rightarrow> 0 | Some n \<Rightarrow> n)
      in take limit (drop skip (sort_key (\<lambda>l. - cl_created_at l) (dc_find D matches c))))"

record integrity_report =
  ir_valid :: bool
  ir_total_logs :: nat
  ir_verified_logs :: nat
  ir_errors :: "string list"

fun check_logs :: "compliance_sha \<Rightarrow> int \<Rightarrow> compliance_log option \<Rightarrow> compliance_log list \<Rightarrow> string list \<times> nat" where
  \<comment> \<open>the loop of \<open>verifyIntegrity\<close>: the errors, and how many entries passed\<close>
  "check_logs sha now prev [] = ([], 0)"
| "check_logs sha now prev (l # ls) =
     (case check_logs sha now (Some l) ls of (errs, n) \<Rightarrow>
       if cp_calculateHash sha now (cl_audit_id l) (cl_event l) (cl_created_at l) (cl_previous_hash l) \<noteq> cl_hash l
       then ((''Hash mismatch at audit_id: '' @ cl_audit_id l) # errs, n)
       else (case prev of
           Some p \<Rightarrow> if cl_previous_hash l \<noteq> cl_hash p then ((''Chain broken at audit_id: '' @ cl_audit_id l) # errs, n) else (errs, n + 1)
         | None \<Rightarrow> (errs, n + 1)))"

definition cp_verifyIntegrity ::
    "(compliance_log, 'c) documents \<Rightarrow> compliance_sha \<Rightarrow> int \<Rightarrow> string \<Rightarrow> int option \<Rightarrow> int option \<Rightarrow> 'c \<Rightarrow> integrity_report" where
  "cp_verifyIntegrity D sha now tenantId startDate endDate c =
     (let logs = sort_key cl_created_at (dc_find D (\<lambda>l. ce_tenant_id (cl_event l) = tenantId \<and>
            in_period startDate endDate (cl_created_at l)) c)
      in case check_logs sha now None logs of (errs, n) \<Rightarrow>
        \<lparr>ir_valid = (errs = []), ir_total_logs = length logs, ir_verified_logs = n, ir_errors = errs\<rparr>)"

section \<open>Runs\<close>

datatype compliance_op =
    CpLog bool int int string compliance_event \<comment> \<open>created at a time, hashed some time later\<close>
  | CpFlush bool int

fun cp_time :: "compliance_op \<Rightarrow> int" where
  "cp_time (CpLog up created now i ev) = now"
| "cp_time (CpFlush up now) = now"

fun cp_step :: "(compliance_log, 'c) documents \<Rightarrow> (string, 'r) redis \<Rightarrow> compliance_sha \<Rightarrow> compliance_op \<Rightarrow> ('c, 'r) compliance \<Rightarrow> ('c, 'r) compliance" where
  "cp_step D R sha (CpLog up created now i ev) w = cp_log D R sha up created now i ev w"
| "cp_step D R sha (CpFlush up now) w = flushBatch D R up now w"

abbreviation cp_run ::
    "(compliance_log, 'c) documents \<Rightarrow> (string, 'r) redis \<Rightarrow> compliance_sha \<Rightarrow> compliance_op list \<Rightarrow> ('c, 'r) compliance \<Rightarrow> ('c, 'r) compliance" where
  "cp_run D R sha \<equiv> fold (cp_step D R sha)"

definition hashed_at :: "compliance_sha \<Rightarrow> int set \<Rightarrow> compliance_log \<Rightarrow> bool" where
  \<comment> \<open>the hash of the entry was calculated at one of the times\<close>
  "hashed_at sha T l \<longleftrightarrow> (\<exists>t \<in> T. cl_hash l =
     cp_calculateHash sha t (cl_audit_id l) (cl_event l) (cl_created_at l) (cl_previous_hash l))"

lemma hashed_at_mono: "hashed_at sha T l \<Longrightarrow> T \<subseteq> U \<Longrightarrow> hashed_at sha U l"
  by (auto simp: hashed_at_def)

locale compliance_logs = document_store D for D :: "(compliance_log, 'c) documents"
begin

definition all_hashed :: "compliance_sha \<Rightarrow> int set \<Rightarrow> ('c, 'r) compliance \<Rightarrow> bool" where
  "all_hashed sha T w \<longleftrightarrow> (\<forall>l \<in># contents D (cp_logs w). hashed_at sha T l) \<and> (\<forall>l \<in> set (cp_buffer w). hashed_at sha T l)"

lemma contents_fold: "contents D (fold (dc_insertOne D) ls c) = contents D c + mset ls"
  by (induction ls arbitrary: c) (simp_all add: insertOne)

lemma flush_contents:
  "contents D (cp_logs (flushBatch D R up now w)) + mset (cp_buffer (flushBatch D R up now w)) =
     contents D (cp_logs w) + mset (cp_buffer w)"
  by (simp add: flushBatch_def contents_fold)

lemma all_hashed_iff:
  "all_hashed sha T w \<longleftrightarrow> (\<forall>l \<in># contents D (cp_logs w) + mset (cp_buffer w). hashed_at sha T l)"
  by (auto simp: all_hashed_def)

lemma all_hashed_flush: "all_hashed sha T (flushBatch D R up now w) \<longleftrightarrow> all_hashed sha T w"
  unfolding all_hashed_iff flush_contents ..

lemma all_hashed_step:
  assumes "all_hashed sha T w"
  shows "all_hashed sha (insert (cp_time op) T) (cp_step D R sha op w)"
proof (cases op)
  case (CpFlush up now)
  with assms show ?thesis
    by (simp add: all_hashed_flush) (auto simp: all_hashed_def intro: hashed_at_mono)
next
  case (CpLog up created now i ev)
  obtain h w1 where 1: "getLastHash D R now (ce_tenant_id ev) w = (h, w1)" by fastforce
  then have same: "cp_logs w1 = cp_logs w" "cp_buffer w1 = cp_buffer w"
    by (auto simp: getLastHash_def Let_def split: option.splits list.splits)
  let ?l = "\<lparr>cl_audit_id = i, cl_event = ev, cl_hash = cp_calculateHash sha now i ev created h,
      cl_previous_hash = h, cl_created_at = created\<rparr>"
  have l: "hashed_at sha (insert now T) ?l" by (auto simp: hashed_at_def)
  have "all_hashed sha (insert now T) (w1\<lparr>cp_buffer := cp_buffer w1 @ [?l]\<rparr>)"
    using assms l same by (auto simp: all_hashed_iff intro: hashed_at_mono)
  then show ?thesis
    using CpLog 1 by (simp add: cp_log_def Let_def all_hashed_flush)
qed

lemma all_hashed_run:
  "all_hashed sha T w \<Longrightarrow> all_hashed sha (T \<union> cp_time ` set ops) (cp_run D R sha ops w)"
proof (induction ops arbitrary: T w)
  case (Cons op ops)
  from Cons.IH [OF all_hashed_step [OF Cons.prems, of op R]] show ?case by simp
qed simp

end

interpretation cpl: compliance_logs list_documents
  by unfold_locales

lemma check_logs_mismatch:
  assumes "\<And>l. l \<in> set ls \<Longrightarrow>
    cp_calculateHash sha now (cl_audit_id l) (cl_event l) (cl_created_at l) (cl_previous_hash l) \<noteq> cl_hash l"
  shows "check_logs sha now prev ls = (map (\<lambda>l. ''Hash mismatch at audit_id: '' @ cl_audit_id l) ls, 0)"
  using assms by (induction sha now prev ls rule: check_logs.induct) auto

text \<open>
  C40: The integrity check rejects every log. In every run from an empty log, when the check runs
  later than the last entry was hashed, it reports a hash mismatch for every entry of the tenant and
  verifies none of them, because the hash includes the moment of its calculation; it reports the log
  as intact only if there is nothing to check. The hash is assumed to have no collision between
  inputs of different moments.
\<close>
theorem compliance_check_rejects_every_log:
  assumes "document_store D" "contents D (cp_logs w0) = {#}" "cp_buffer w0 = []"
    and "\<And>x y. sha x = sha y \<Longrightarrow> ci_timestamp x = ci_timestamp y"
    and "\<And>op. op \<in> set ops \<Longrightarrow> cp_time op < now"
    and "r = cp_verifyIntegrity D sha now tn startDate endDate (cp_logs (cp_run D R sha ops w0))"
  shows "ir_verified_logs r = 0 \<and> length (ir_errors r) = ir_total_logs r \<and> (ir_valid r \<longleftrightarrow> ir_total_logs r = 0)"
proof -
  have L: "compliance_logs D" by (simp add: compliance_logs_def assms(1))
  let ?w = "cp_run D R sha ops w0"
  have "compliance_logs.all_hashed D sha {} w0" using assms(2,3) by (simp add: compliance_logs.all_hashed_def [OF L])
  from compliance_logs.all_hashed_run [OF L this, of ops R]
  have hashed: "hashed_at sha (cp_time ` set ops) l" if "l \<in># contents D (cp_logs ?w)" for l
    using that by (simp add: compliance_logs.all_hashed_def [OF L])
  let ?P = "\<lambda>l. ce_tenant_id (cl_event l) = tn \<and> in_period startDate endDate (cl_created_at l)"
  let ?ls = "sort_key cl_created_at (dc_find D ?P (cp_logs ?w))"
  have "cp_calculateHash sha now (cl_audit_id l) (cl_event l) (cl_created_at l) (cl_previous_hash l) \<noteq> cl_hash l"
    if "l \<in> set ?ls" for l
  proof -
    have "l \<in># contents D (cp_logs ?w)" using that document_store.set_find [OF assms(1), of ?P] by simp
    from hashed [OF this] assms(5) obtain t where "t < now"
        "cl_hash l = cp_calculateHash sha t (cl_audit_id l) (cl_event l) (cl_created_at l) (cl_previous_hash l)"
      by (auto simp: hashed_at_def)
    then show ?thesis using assms(4) by (fastforce simp: cp_calculateHash_def)
  qed
  then have checked: "check_logs sha now None ?ls = (map (\<lambda>l. ''Hash mismatch at audit_id: '' @ cl_audit_id l) ?ls, 0)"
    by (rule check_logs_mismatch)
  have "r = \<lparr>ir_valid = (?ls = []), ir_total_logs = length ?ls, ir_verified_logs = 0,
      ir_errors = map (\<lambda>l. ''Hash mismatch at audit_id: '' @ cl_audit_id l) ?ls\<rparr>"
    unfolding assms(6) cp_verifyIntegrity_def Let_def checked by simp
  then show ?thesis by (simp del: length_sort)
qed

definition demo_compliance_event :: compliance_event where
  "demo_compliance_event = \<lparr>ce_tenant_id = ''t'', ce_user_id = Some ''u'', ce_action = ''read'', ce_resource_type = ''file'',
     ce_resource_id = Some ''f'', ce_metadata = []\<rparr>"

definition demo_compliance :: "(compliance_log list, string server) compliance" where
  "demo_compliance = \<lparr>cp_logs = [], cp_redis = no_data, cp_buffer = []\<rparr>"

definition demo_compliance_sha :: compliance_sha where
  "demo_compliance_sha x = show_int (ci_timestamp x)"

definition demo_compliance_ops :: "compliance_op list" where
  "demo_compliance_ops = [CpLog True 1 2 ''a'' demo_compliance_event, CpFlush True 5]"

lemma show_int_inj: "show_int m = show_int n \<Longrightarrow> m = n"
proof -
  assume eq: "show_int m = show_int n"
  have "\<not> is_digit (CHR ''-'')" by code_simp
  then have "CHR ''-'' \<notin> set (show_nat k)" for k using show_nat_digits by blast
  then have no: "show_nat k \<noteq> CHR ''-'' # s" for k s by (metis list.set_intros(1))
  show "m = n" using eq no [of "nat n"] no [of "nat m"] no [of "nat n", THEN not_sym]
    by (auto simp: show_int_def show_nat_inj split: if_splits)
qed

theorem compliance_check_rejects_every_log_witness:
  "let r = cp_verifyIntegrity list_documents demo_compliance_sha 6 ''t'' None None
      (cp_logs (cp_run list_documents map_redis demo_compliance_sha demo_compliance_ops demo_compliance))
   in ir_total_logs r = 1 \<and> length (ir_errors r) = 1 \<and> \<not> ir_valid r"
proof -
  let ?c = "cp_logs (cp_run list_documents map_redis demo_compliance_sha demo_compliance_ops demo_compliance)"
  let ?r = "cp_verifyIntegrity list_documents demo_compliance_sha 6 ''t'' None None ?c"
  have "ir_verified_logs ?r = 0 \<and> length (ir_errors ?r) = ir_total_logs ?r \<and> (ir_valid ?r \<longleftrightarrow> ir_total_logs ?r = 0)"
  proof (rule compliance_check_rejects_every_log [OF ld.document_store_axioms _ _ _ _ refl])
    show "demo_compliance_sha x = demo_compliance_sha y \<Longrightarrow> ci_timestamp x = ci_timestamp y" for x y
      by (auto simp: demo_compliance_sha_def dest: show_int_inj)
    show "op \<in> set demo_compliance_ops \<Longrightarrow> cp_time op < 6" for op
      by (auto simp: demo_compliance_ops_def)
  qed (simp_all add: demo_compliance_def contents_def list_documents_def)
  moreover have "ir_total_logs ?r = 1" by code_simp
  ultimately show ?thesis by (simp add: Let_def)
qed

section \<open>Links\<close>

lemma pending_logs_share_predecessor:
  \<comment> \<open>two entries of one batch are both linked to the last entry written, not to each other\<close>
  "map cl_previous_hash (cp_buffer (cp_run list_documents map_redis demo_compliance_sha
     [CpLog True 1 2 ''a'' demo_compliance_event, CpLog True 3 4 ''b'' demo_compliance_event] demo_compliance)) =
   [genesisHash, genesisHash]"
  by code_simp

end
