(* ===== verification/CpRequests.thy ===== *)
theory CpRequests
  imports AuthMongo AuthzValues
begin

text \<open>
  Consent records, data subject requests and retention policies of the compliance service
  (services/compliance-service/src/services/gdpr.service.ts and retention.service.ts). The
  collections are parameters; whether a command succeeds is an input where the code catches the
  exception. The last section shows what a completed request or execution stands for.
\<close>

section \<open>Consent\<close>

record consent_record =
  cr_consent_id :: string
  cr_user_id :: string
  cr_tenant_id :: string
  cr_consent_type :: string
  cr_consent_given :: bool
  cr_consent_text :: string
  cr_version :: string
  cr_ip_address :: "string option"
  cr_user_agent :: "string option"
  cr_created_at :: int
  cr_expires_at :: "int option"
  cr_updated_at :: "int option" \<comment> \<open>not declared, but written by \<open>revokeConsent\<close>\<close>

record consent_updates =
  \<comment> \<open>\<open>Partial<ConsentRecord>\<close>\<close>
  cu_consent_id :: "string option"
  cu_user_id :: "string option"
  cu_tenant_id :: "string option"
  cu_consent_type :: "string option"
  cu_consent_given :: "bool option"
  cu_consent_text :: "string option"
  cu_version :: "string option"
  cu_ip_address :: "string option"
  cu_user_agent :: "string option"
  cu_created_at :: "int option"
  cu_expires_at :: "int option"

definition over :: "'a option \<Rightarrow> 'a \<Rightarrow> 'a" where
  "over new old = (case new of None \<Rightarrow> old | Some v \<Rightarrow> v)"

definition apply_consent :: "consent_updates \<Rightarrow> consent_record \<Rightarrow> consent_record" where
  "apply_consent u c = c\<lparr>cr_consent_id := over (cu_consent_id u) (cr_consent_id c), cr_user_id := over (cu_user_id u) (cr_user_id c),
     cr_tenant_id := over (cu_tenant_id u) (cr_tenant_id c), cr_consent_type := over (cu_consent_type u) (cr_consent_type c),
     cr_consent_given := over (cu_consent_given u) (cr_consent_given c), cr_consent_text := over (cu_consent_text u) (cr_consent_text c),
     cr_version := over (cu_version u) (cr_version c),
     cr_ip_address := (case cu_ip_address u of None \<Rightarrow> cr_ip_address c | v \<Rightarrow> v),
     cr_user_agent := (case cu_user_agent u of None \<Rightarrow> cr_user_agent c | v \<Rightarrow> v),
     cr_created_at := over (cu_created_at u) (cr_created_at c),
     cr_expires_at := (case cu_expires_at u of None \<Rightarrow> cr_expires_at c | v \<Rightarrow> v)\<rparr>"

definition recordConsent :: "(consent_record, 'c) documents \<Rightarrow> int \<Rightarrow> string \<Rightarrow> consent_record \<Rightarrow> 'c \<Rightarrow> string \<times> 'c" where
  \<comment> \<open>under a fresh identifier; identifier and time are not part of the argument's declared type\<close>
  "recordConsent D now i consent c = (i, dc_insertOne D (consent\<lparr>cr_consent_id := i, cr_created_at := now\<rparr>) c)"

definition getConsent :: "(consent_record, 'c) documents \<Rightarrow> string \<Rightarrow> string \<Rightarrow> string option \<Rightarrow> 'c \<Rightarrow> consent_record list" where
  "getConsent D user tenant ctype c =
     sort_key (\<lambda>r. - cr_created_at r) (dc_find D (\<lambda>r. cr_user_id r = user \<and> cr_tenant_id r = tenant \<and>
       (truthy_str ctype \<longrightarrow> ctype = Some (cr_consent_type r))) c)"

definition updateConsent :: "(consent_record, 'c) documents \<Rightarrow> string \<Rightarrow> consent_updates \<Rightarrow> 'c \<Rightarrow> bool \<times> 'c" where
  "updateConsent D i u c =
     (case dc_updateOne D (\<lambda>r. cr_consent_id r = i) (apply_consent u) c of (n, c') \<Rightarrow> (0 < n, c'))"

definition gdpr_revokeConsent :: "(consent_record, 'c) documents \<Rightarrow> int \<Rightarrow> string \<Rightarrow> 'c \<Rightarrow> bool \<times> 'c" where
  "gdpr_revokeConsent D now i c =
     (case dc_updateOne D (\<lambda>r. cr_consent_id r = i) (\<lambda>r. r\<lparr>cr_consent_given := False, cr_updated_at := Some now\<rparr>) c of
        (n, c') \<Rightarrow> (0 < n, c'))"

section \<open>Requests of data subjects\<close>

datatype request_type = Gdpr_Export | Gdpr_Erasure | Gdpr_Rectification | Gdpr_Portability

datatype request_status = Gdpr_Pending | Gdpr_Processing | Gdpr_Completed | Gdpr_Failed

record gdpr_request =
  gr_request_id :: string
  gr_user_id :: string
  gr_tenant_id :: string
  gr_request_type :: request_type
  gr_status :: request_status
  gr_request_data :: "jsval option"
  gr_result_data :: "jsval option"
  gr_error_message :: "string option"
  gr_created_at :: int
  gr_completed_at :: "int option"

definition createRequest :: "(gdpr_request, 'c) documents \<Rightarrow> int \<Rightarrow> string \<Rightarrow> gdpr_request \<Rightarrow> 'c \<Rightarrow> string \<times> 'c" where
  \<comment> \<open>status and time of the given request are overwritten\<close>
  "createRequest D now i r c = (i, dc_insertOne D (r\<lparr>gr_request_id := i, gr_status := Gdpr_Pending, gr_created_at := now\<rparr>) c)"

definition getRequest :: "(gdpr_request, 'c) documents \<Rightarrow> string \<Rightarrow> 'c \<Rightarrow> gdpr_request option" where
  "getRequest D i c = dc_findOne D (\<lambda>r. gr_request_id r = i) c"

definition set_request_status :: "int \<Rightarrow> request_status \<Rightarrow> jsval option \<Rightarrow> string option \<Rightarrow> gdpr_request \<Rightarrow> gdpr_request" where
  "set_request_status now st result err r = r\<lparr>gr_status := st,
     gr_result_data := (case result of None \<Rightarrow> gr_result_data r | v \<Rightarrow> v),
     gr_error_message := (if truthy_str err then err else gr_error_message r),
     gr_completed_at := (if st = Gdpr_Completed \<or> st = Gdpr_Failed then Some now else gr_completed_at r)\<rparr>"

definition updateRequestStatus ::
    "(gdpr_request, 'c) documents \<Rightarrow> int \<Rightarrow> string \<Rightarrow> request_status \<Rightarrow> jsval option \<Rightarrow> string option \<Rightarrow> 'c \<Rightarrow> bool \<times> 'c" where
  "updateRequestStatus D now i st result err c =
     (case dc_updateOne D (\<lambda>r. gr_request_id r = i) (set_request_status now st result err) c of (n, c') \<Rightarrow> (0 < n, c'))"

definition getUserRequests :: "(gdpr_request, 'c) documents \<Rightarrow> string \<Rightarrow> string \<Rightarrow> 'c \<Rightarrow> gdpr_request list" where
  "getUserRequests D user tenant c =
     sort_key (\<lambda>r. - gr_created_at r) (dc_find D (\<lambda>r. gr_user_id r = user \<and> gr_tenant_id r = tenant) c)"

definition placeholder_result :: "string \<Rightarrow> string \<Rightarrow> string \<Rightarrow> string \<Rightarrow> gdpr_request \<Rightarrow> jsval" where
  \<comment> \<open>user, tenant, the text of the date and a note where the result would be\<close>
  "placeholder_result date_field iso_now field note r =
     JObj 0 [(''user_id'', JStr (gr_user_id r)), (''tenant_id'', JStr (gr_tenant_id r)), (date_field, JStr iso_now),
       (field, JObj 1 [(''note'', JStr note)])]"

definition process_request ::
    "(gdpr_request, 'c) documents \<Rightarrow> int \<Rightarrow> (gdpr_request \<Rightarrow> jsval) \<Rightarrow> string \<Rightarrow> 'c \<Rightarrow> 'c" where
  \<comment> \<open>the common shape of both: processing, then completed with a result, or failed\<close>
  "process_request D now result i c =
     (let c1 = snd (updateRequestStatus D now i Gdpr_Processing None None c)
      in case getRequest D i c1 of
           None \<Rightarrow> snd (updateRequestStatus D now i Gdpr_Failed None (Some ''Request not found'') c1)
         | Some r \<Rightarrow> snd (updateRequestStatus D now i Gdpr_Completed (Some (result r)) None c1))"

definition processDataExport :: "(gdpr_request, 'c) documents \<Rightarrow> int \<Rightarrow> string \<Rightarrow> string \<Rightarrow> 'c \<Rightarrow> 'c" where
  "processDataExport D now iso_now i c = process_request D now
     (placeholder_result ''export_date'' iso_now ''data'' ''Data export would be collected from all services'') i c"

definition processDataErasure :: "(gdpr_request, 'c) documents \<Rightarrow> int \<Rightarrow> string \<Rightarrow> string \<Rightarrow> 'c \<Rightarrow> 'c" where
  "processDataErasure D now iso_now i c = process_request D now
     (placeholder_result ''erasure_date'' iso_now ''deleted_records'' ''Data would be deleted from all services'') i c"

section \<open>Retention\<close>

record retention_policy =
  rp_policy_id :: string
  rp_tenant_id :: string
  rp_name :: string
  rp_data_type :: string
  rp_retention_days :: int
  rp_conditions :: "jsval option"
  rp_is_active :: bool
  rp_created_at :: int
  rp_updated_at :: int

record policy_updates =
  \<comment> \<open>\<open>Partial<RetentionPolicy>\<close>\<close>
  pu_policy_id :: "string option"
  pu_tenant_id :: "string option"
  pu_name :: "string option"
  pu_data_type :: "string option"
  pu_retention_days :: "int option"
  pu_conditions :: "jsval option"
  pu_is_active :: "bool option"
  pu_created_at :: "int option"

definition apply_policy :: "int \<Rightarrow> policy_updates \<Rightarrow> retention_policy \<Rightarrow> retention_policy" where
  "apply_policy now u p = p\<lparr>rp_policy_id := over (pu_policy_id u) (rp_policy_id p), rp_tenant_id := over (pu_tenant_id u) (rp_tenant_id p),
     rp_name := over (pu_name u) (rp_name p), rp_data_type := over (pu_data_type u) (rp_data_type p),
     rp_retention_days := over (pu_retention_days u) (rp_retention_days p),
     rp_conditions := (case pu_conditions u of None \<Rightarrow> rp_conditions p | v \<Rightarrow> v),
     rp_is_active := over (pu_is_active u) (rp_is_active p), rp_created_at := over (pu_created_at u) (rp_created_at p),
     rp_updated_at := now\<rparr>"

datatype execution_status = Ex_Scheduled | Ex_Running | Ex_Completed | Ex_Failed

record retention_execution =
  re_execution_id :: string
  re_policy_id :: string
  re_tenant_id :: string
  re_status :: execution_status
  re_processed_records :: nat
  re_deleted_records :: nat
  re_error_log :: "string option"
  re_started_at :: int
  re_completed_at :: "int option"

record ('p, 'e) retention =
  rs_policies :: 'p
  rs_executions :: 'e

definition createPolicy :: "(retention_policy, 'p) documents \<Rightarrow> int \<Rightarrow> string \<Rightarrow> retention_policy \<Rightarrow> 'p \<Rightarrow> string \<times> 'p" where
  "createPolicy P now i p c = (i, dc_insertOne P (p\<lparr>rp_policy_id := i, rp_created_at := now, rp_updated_at := now\<rparr>) c)"

definition rp_getPolicy :: "(retention_policy, 'p) documents \<Rightarrow> string \<Rightarrow> 'p \<Rightarrow> retention_policy option" where
  "rp_getPolicy P i c = dc_findOne P (\<lambda>p. rp_policy_id p = i) c"

definition getTenantPolicies :: "(retention_policy, 'p) documents \<Rightarrow> string \<Rightarrow> bool \<Rightarrow> 'p \<Rightarrow> retention_policy list" where
  "getTenantPolicies P tenant active_only c =
     sort_key (\<lambda>p. - rp_created_at p) (dc_find P (\<lambda>p. rp_tenant_id p = tenant \<and> (active_only \<longrightarrow> rp_is_active p)) c)"

definition rp_updatePolicy :: "(retention_policy, 'p) documents \<Rightarrow> int \<Rightarrow> string \<Rightarrow> policy_updates \<Rightarrow> 'p \<Rightarrow> bool \<times> 'p" where
  "rp_updatePolicy P now i u c =
     (case dc_updateOne P (\<lambda>p. rp_policy_id p = i) (apply_policy now u) c of (n, c') \<Rightarrow> (0 < n, c'))"

definition rp_deletePolicy :: "(retention_policy, 'p) documents \<Rightarrow> string \<Rightarrow> 'p \<Rightarrow> bool \<times> 'p" where
  "rp_deletePolicy P i c = (case dc_deleteOne P (\<lambda>p. rp_policy_id p = i) c of (n, c') \<Rightarrow> (0 < n, c'))"

definition executePolicy ::
    "(retention_policy, 'p) documents \<Rightarrow> (retention_execution, 'e) documents \<Rightarrow> int \<Rightarrow> string \<Rightarrow> string \<Rightarrow> ('p, 'e) retention
      \<Rightarrow> (string + string \<times> retention_policy) \<times> ('p, 'e) retention" where
  \<comment> \<open>the execution under the fresh identifier \<open>x\<close>; with the policy \<open>runExecution\<close> is called on\<close>
  "executePolicy P E now x i w =
     (case rp_getPolicy P i (rs_policies w) of
        None \<Rightarrow> (Inl ''Policy not found'', w)
      | Some p \<Rightarrow> if \<not> rp_is_active p then (Inl ''Policy is not active'', w)
          else (Inr (x, p), w\<lparr>rs_executions := dc_insertOne E \<lparr>re_execution_id = x, re_policy_id = i, re_tenant_id = rp_tenant_id p,
            re_status = Ex_Scheduled, re_processed_records = 0, re_deleted_records = 0, re_error_log = None,
            re_started_at = now, re_completed_at = None\<rparr> (rs_executions w)\<rparr>))"

definition cutoff_days :: "int \<Rightarrow> retention_policy \<Rightarrow> int" where
  \<comment> \<open>the cutoff in days; computed, but not used\<close>
  "cutoff_days today p = today - rp_retention_days p"

definition runExecution ::
    "(retention_execution, 'e) documents \<Rightarrow> int \<Rightarrow> bool \<Rightarrow> bool \<Rightarrow> string \<Rightarrow> string \<Rightarrow> retention_policy \<Rightarrow> 'e \<Rightarrow> 'e" where
  \<comment> \<open>whether the first and the second update succeed; after a failure the error is stored\<close>
  "runExecution E now up1 up2 err x p c =
     (let fail = (\<lambda>c. snd (dc_updateOne E (\<lambda>e. re_execution_id e = x)
            (\<lambda>e. e\<lparr>re_status := Ex_Failed, re_error_log := Some err, re_completed_at := Some now\<rparr>) c))
      in if \<not> up1 then fail c
         else let c1 = snd (dc_updateOne E (\<lambda>e. re_execution_id e = x) (\<lambda>e. e\<lparr>re_status := Ex_Running\<rparr>) c)
           in if \<not> up2 then fail c1
              else snd (dc_updateOne E (\<lambda>e. re_execution_id e = x)
                (\<lambda>e. e\<lparr>re_status := Ex_Completed, re_processed_records := 0, re_deleted_records := 0, re_completed_at := Some now\<rparr>) c1))"

definition getExecution :: "(retention_execution, 'e) documents \<Rightarrow> string \<Rightarrow> 'e \<Rightarrow> retention_execution option" where
  "getExecution E x c = dc_findOne E (\<lambda>e. re_execution_id e = x) c"

definition getPolicyExecutions :: "(retention_execution, 'e) documents \<Rightarrow> string \<Rightarrow> nat \<Rightarrow> 'e \<Rightarrow> retention_execution list" where
  "getPolicyExecutions E i limit c =
     (let es = sort_key (\<lambda>e. - re_started_at e) (dc_find E (\<lambda>e. re_policy_id e = i) c) in if limit = 0 then es else take limit es)"

record retention_statistics =
  rx_total_policies :: nat
  rx_active_policies :: nat
  rx_total_executions :: nat
  rx_recent_executions :: "retention_execution list"

definition retention_getStatistics ::
    "(retention_policy, 'p) documents \<Rightarrow> (retention_execution, 'e) documents \<Rightarrow> string \<Rightarrow> ('p, 'e) retention \<Rightarrow> retention_statistics" where
  "retention_getStatistics P E tenant w =
     \<lparr>rx_total_policies = dc_countDocuments P (\<lambda>p. rp_tenant_id p = tenant) (rs_policies w),
       rx_active_policies = dc_countDocuments P (\<lambda>p. rp_tenant_id p = tenant \<and> rp_is_active p) (rs_policies w),
       rx_total_executions = dc_countDocuments E (\<lambda>e. re_tenant_id e = tenant) (rs_executions w),
       rx_recent_executions = take 5 (sort_key (\<lambda>e. - re_started_at e) (dc_find E (\<lambda>e. re_tenant_id e = tenant) (rs_executions w)))\<rparr>"

section \<open>Runs\<close>

datatype retention_op =
    Rp_Create int string retention_policy
  | Rp_Update int string policy_updates
  | Rp_Delete string
  | Rp_Execute int string string bool bool string \<comment> \<open>with the run in the background\<close>

fun retention_step ::
    "(retention_policy, 'p) documents \<Rightarrow> (retention_execution, 'e) documents \<Rightarrow> retention_op \<Rightarrow> ('p, 'e) retention \<Rightarrow> ('p, 'e) retention" where
  "retention_step P E (Rp_Create now i p) w = w\<lparr>rs_policies := snd (createPolicy P now i p (rs_policies w))\<rparr>"
| "retention_step P E (Rp_Update now i u) w = w\<lparr>rs_policies := snd (rp_updatePolicy P now i u (rs_policies w))\<rparr>"
| "retention_step P E (Rp_Delete i) w = w\<lparr>rs_policies := snd (rp_deletePolicy P i (rs_policies w))\<rparr>"
| "retention_step P E (Rp_Execute now x i up1 up2 err) w =
     (case executePolicy P E now x i w of
        (Inl e, w') \<Rightarrow> w'
      | (Inr (x', p), w') \<Rightarrow> w'\<lparr>rs_executions := runExecution E now up1 up2 err x' p (rs_executions w')\<rparr>)"

section \<open>What a completed execution stands for\<close>

locale retention_store = document_store E for E :: "(retention_execution, 'e) documents"
begin

definition idle_execution :: "retention_execution \<Rightarrow> bool" where
  "idle_execution e \<longleftrightarrow> re_processed_records e = 0 \<and> re_deleted_records e = 0
     \<and> (re_status e = Ex_Completed \<or> re_status e = Ex_Failed \<longrightarrow> re_completed_at e \<noteq> None)"

definition all_idle :: "'e \<Rightarrow> bool" where
  "all_idle c \<longleftrightarrow> (\<forall>e \<in># contents E c. idle_execution e)"

lemma all_idle_update:
  assumes "all_idle c" "\<And>e. idle_execution e \<Longrightarrow> idle_execution (f e)"
  shows "all_idle (snd (dc_updateOne E P f c))"
  using assms update_all [of c idle_execution f P] by (simp add: all_idle_def)

lemma all_idle_run: "all_idle c \<Longrightarrow> all_idle (runExecution E now up1 up2 err x p c)"
  by (auto simp: runExecution_def Let_def idle_execution_def intro!: all_idle_update)

lemma all_idle_step: "all_idle (rs_executions w) \<Longrightarrow> all_idle (rs_executions (retention_step P E op w))"
proof (cases op)
  case (Rp_Execute now x i up1 up2 err)
  assume idle: "all_idle (rs_executions w)"
  have new: "all_idle (dc_insertOne E \<lparr>re_execution_id = x, re_policy_id = i, re_tenant_id = tn,
      re_status = Ex_Scheduled, re_processed_records = 0, re_deleted_records = 0, re_error_log = None,
      re_started_at = now, re_completed_at = None\<rparr> (rs_executions w))" for tn
    using idle by (auto simp: all_idle_def insertOne idle_execution_def)
  show ?thesis
    using idle new Rp_Execute by (simp add: executePolicy_def all_idle_run split: option.split)
qed simp_all

end

interpretation rts: retention_store list_documents
  by unfold_locales

text \<open>
  No retention execution ever deletes or processes a record. In every run of creating, changing,
  deleting and executing policies from an empty log of executions, every execution that is stored
  reports zero processed and zero deleted records, however it ended, and those that ended carry the
  time they ended.
\<close>
lemma retention_executions_delete_nothing:
  assumes "document_store E" "contents E (rs_executions w0) = {#}"
    and "e \<in># contents E (rs_executions (fold (retention_step P E) ops w0))"
  shows "re_processed_records e = 0 \<and> re_deleted_records e = 0
    \<and> (re_status e = Ex_Completed \<or> re_status e = Ex_Failed \<longrightarrow> re_completed_at e \<noteq> None)"
proof -
  have L: "retention_store E" by (simp add: retention_store_def assms(1))
  have "retention_store.all_idle E (rs_executions (fold (retention_step P E) ops w))"
    if "retention_store.all_idle E (rs_executions w)" for w :: "('b, 'a) retention"
    using that by (induction ops arbitrary: w) (simp_all add: retention_store.all_idle_step [OF L])
  moreover have "retention_store.all_idle E (rs_executions w0)" by (simp add: retention_store.all_idle_def [OF L] assms(2))
  ultimately have "retention_store.all_idle E (rs_executions (fold (retention_step P E) ops w0))" by blast
  then have "retention_store.idle_execution e" using assms(3) unfolding retention_store.all_idle_def [OF L] by blast
  then show ?thesis unfolding retention_store.idle_execution_def [OF L] .
qed

definition demo_retention_policy :: retention_policy where
  "demo_retention_policy = \<lparr>rp_policy_id = [], rp_tenant_id = ''t'', rp_name = ''messages'', rp_data_type = ''messages'', rp_retention_days = 30,
     rp_conditions = None, rp_is_active = True, rp_created_at = 0, rp_updated_at = 0\<rparr>"

definition demo_retention :: "(retention_policy list, retention_execution list) retention" where
  "demo_retention = fold (retention_step list_documents list_documents)
     [Rp_Create 1 ''p'' demo_retention_policy, Rp_Execute 2 ''x'' ''p'' True True []] \<lparr>rs_policies = [], rs_executions = []\<rparr>"

lemma retention_executions_delete_nothing_example:
  "\<exists>e. rs_executions demo_retention = [e] \<and> re_status e = Ex_Completed \<and> re_deleted_records e = 0"
proof -
  have "map re_status (rs_executions demo_retention) = [Ex_Completed]" by code_simp
  then obtain e where e: "rs_executions demo_retention = [e]" "re_status e = Ex_Completed" by auto
  then have "e \<in># contents list_documents (rs_executions demo_retention)" by (simp add: contents_def list_documents_def)
  then have "re_deleted_records e = 0"
    unfolding demo_retention_def
    by (rule retention_executions_delete_nothing [OF ld.document_store_axioms, THEN conjunct2, THEN conjunct1, rotated])
      (simp add: contents_def list_documents_def)
  with e show ?thesis by blast
qed

lemma erasure_is_a_note:
  \<comment> \<open>a completed erasure holds a note instead of what was deleted\<close>
  "let r = \<lparr>gr_request_id = [], gr_user_id = ''u'', gr_tenant_id = ''t'', gr_request_type = Gdpr_Erasure, gr_status = Gdpr_Pending,
        gr_request_data = None, gr_result_data = None, gr_error_message = None, gr_created_at = 0, gr_completed_at = None\<rparr>;
      c = processDataErasure list_documents 9 ''now'' ''r'' (snd (createRequest list_documents 5 ''r'' r []))
   in map gr_status c = [Gdpr_Completed] \<and> map gr_result_data c =
     [Some (JObj 0 [(''user_id'', JStr ''u''), (''tenant_id'', JStr ''t''), (''erasure_date'', JStr ''now''),
       (''deleted_records'', JObj 1 [(''note'', JStr ''Data would be deleted from all services'')])])]"
  by code_simp

lemma export_request_erased:
  \<comment> \<open>neither step looks at the type of the request: an export request is completed as an erasure\<close>
  "let r = \<lparr>gr_request_id = [], gr_user_id = ''u'', gr_tenant_id = ''t'', gr_request_type = Gdpr_Export, gr_status = Gdpr_Pending,
        gr_request_data = None, gr_result_data = None, gr_error_message = None, gr_created_at = 0, gr_completed_at = None\<rparr>
   in map gr_status (processDataErasure list_documents 9 ''now'' ''r'' (snd (createRequest list_documents 5 ''r'' r []))) = [Gdpr_Completed]"
  by code_simp

end
