(* ===== verification/CryptoKeys.thy ===== *)
theory CryptoKeys
  imports AuthMongo AuthRedis
begin

text \<open>
  The encryption keys of the crypto service (services/crypto-service/src/services/encryption.service.ts):
  keys are generated, cached in Redis for an hour, used to encrypt and decrypt, and rotated. Collection,
  Redis and the authenticated cipher of Node's crypto module are parameters; bytes that are carried as
  base64 text are represented by the bytes. The properties concern what a key is still worth later in
  a run: what was encrypted can be read back as long as the key is given out, and a rotated key never is.
\<close>

section \<open>Keys and cipher\<close>

datatype key_type = Key_Master | Key_Data | Key_Session

record encryption_key =
  ek_key_id :: string
  ek_tenant_id :: string
  ek_key_type :: key_type
  ek_key_data :: string
  ek_created_at :: int
  ek_expires_at :: int
  ek_is_active :: bool

record aead =
  \<comment> \<open>AES-256-GCM: under key and nonce, a text to ciphertext and tag, and back unless the tag is wrong\<close>
  ae_seal :: "string \<Rightarrow> string \<Rightarrow> string \<Rightarrow> string \<times> string"
  ae_open :: "string \<Rightarrow> string \<Rightarrow> string \<Rightarrow> string \<Rightarrow> string option"

datatype key_error = Key_Missing | Key_Expired | Old_Key_Missing | Bad_Tag

record ('c, 'r) key_service =
  ks_keys :: 'c
  ks_redis :: 'r

definition key_cache :: "string \<Rightarrow> string" where
  "key_cache i = ''key:'' @ i"

definition keyExpiry :: int where
  "keyExpiry = 86400000 * 365"

section \<open>Operations\<close>

definition ck_generateKey ::
    "(encryption_key, 'c) documents \<Rightarrow> (string, 'r) redis \<Rightarrow> int \<Rightarrow> string \<Rightarrow> key_type \<Rightarrow> string \<Rightarrow> string
      \<Rightarrow> ('c, 'r) key_service \<Rightarrow> ('c, 'r) key_service" where
  \<comment> \<open>under the random identifier \<open>i\<close>, with the random bytes \<open>data\<close>\<close>
  "ck_generateKey D R now tenant ktype i data w =
     \<lparr>ks_keys = dc_insertOne D \<lparr>ek_key_id = i, ek_tenant_id = tenant, ek_key_type = ktype, ek_key_data = data,
         ek_created_at = now, ek_expires_at = now + keyExpiry, ek_is_active = True\<rparr> (ks_keys w),
       ks_redis = rd_setex R now (key_cache i) 3600 data (ks_redis w)\<rparr>"

definition getKey ::
    "(encryption_key, 'c) documents \<Rightarrow> (string, 'r) redis \<Rightarrow> int \<Rightarrow> string \<Rightarrow> ('c, 'r) key_service
      \<Rightarrow> (key_error + string) \<times> ('c, 'r) key_service" where
  \<comment> \<open>an empty cached string counts as nothing cached\<close>
  "getKey D R now i w =
     (case rd_get R now (key_cache i) (ks_redis w) of
        Some (x # xs) \<Rightarrow> (Inr (x # xs), w)
      | _ \<Rightarrow> (case dc_findOne D (\<lambda>k. ek_key_id k = i \<and> ek_is_active k) (ks_keys w) of
          None \<Rightarrow> (Inl Key_Missing, w)
        | Some k \<Rightarrow> if ek_expires_at k < now then (Inl Key_Expired, w)
            else (Inr (ek_key_data k), w\<lparr>ks_redis := rd_setex R now (key_cache i) 3600 (ek_key_data k) (ks_redis w)\<rparr>)))"

record sealed =
  sl_ciphertext :: string
  sl_iv :: string
  sl_authTag :: string

definition key_encrypt ::
    "aead \<Rightarrow> (encryption_key, 'c) documents \<Rightarrow> (string, 'r) redis \<Rightarrow> int \<Rightarrow> string \<Rightarrow> string \<Rightarrow> string \<Rightarrow> ('c, 'r) key_service
      \<Rightarrow> (key_error + sealed) \<times> ('c, 'r) key_service" where
  \<comment> \<open>with the random nonce \<open>iv\<close>\<close>
  "key_encrypt A D R now i iv plaintext w =
     (case getKey D R now i w of
        (Inl e, w') \<Rightarrow> (Inl e, w')
      | (Inr key, w') \<Rightarrow> (case ae_seal A key iv plaintext of (ciphertext, tag) \<Rightarrow>
          (Inr \<lparr>sl_ciphertext = ciphertext, sl_iv = iv, sl_authTag = tag\<rparr>, w')))"

definition key_decrypt ::
    "aead \<Rightarrow> (encryption_key, 'c) documents \<Rightarrow> (string, 'r) redis \<Rightarrow> int \<Rightarrow> string \<Rightarrow> sealed \<Rightarrow> ('c, 'r) key_service
      \<Rightarrow> (key_error + string) \<times> ('c, 'r) key_service" where
  "key_decrypt A D R now i s w =
     (case getKey D R now i w of
        (Inl e, w') \<Rightarrow> (Inl e, w')
      | (Inr key, w') \<Rightarrow> (case ae_open A key (sl_iv s) (sl_ciphertext s) (sl_authTag s) of
          None \<Rightarrow> (Inl Bad_Tag, w') | Some plaintext \<Rightarrow> (Inr plaintext, w')))"

definition rotateKey ::
    "(encryption_key, 'c) documents \<Rightarrow> (string, 'r) redis \<Rightarrow> int \<Rightarrow> string \<Rightarrow> string \<Rightarrow> string \<Rightarrow> string \<Rightarrow> ('c, 'r) key_service
      \<Rightarrow> (key_error + string) \<times> ('c, 'r) key_service" where
  "rotateKey D R now old tenant i data w =
     (case dc_findOne D (\<lambda>k. ek_key_id k = old) (ks_keys w) of
        None \<Rightarrow> (Inl Old_Key_Missing, w)
      | Some k \<Rightarrow> (let w1 = ck_generateKey D R now tenant (ek_key_type k) i data w
          in (Inr i, \<lparr>ks_keys = snd (dc_updateOne D (\<lambda>k. ek_key_id k = old) (\<lambda>k. k\<lparr>ek_is_active := False\<rparr>) (ks_keys w1)),
               ks_redis = rd_del R (key_cache old) (ks_redis w1)\<rparr>)))"

definition getTenantKeys :: "(encryption_key, 'c) documents \<Rightarrow> string \<Rightarrow> 'c \<Rightarrow> encryption_key list" where
  "getTenantKeys D tenant c = sort_key (\<lambda>k. - ek_created_at k) (dc_find D (\<lambda>k. ek_tenant_id k = tenant \<and> ek_is_active k) c)"

section \<open>Runs\<close>

datatype key_op =
    Ck_Generate int string key_type string string
  | Ck_Rotate int string string string string
  | Ck_Encrypt int string string string
  | Ck_Decrypt int string sealed

fun ck_time :: "key_op \<Rightarrow> int" where
  "ck_time (Ck_Generate now tenant ktype i data) = now"
| "ck_time (Ck_Rotate now old tenant i data) = now"
| "ck_time (Ck_Encrypt now i iv plaintext) = now"
| "ck_time (Ck_Decrypt now i s) = now"

fun generates :: "string \<Rightarrow> key_op \<Rightarrow> bool" where
  "generates i (Ck_Generate now tenant ktype j data) = (j = i)"
| "generates i (Ck_Rotate now old tenant j data) = (j = i)"
| "generates i _ = False"

fun ck_step ::
    "aead \<Rightarrow> (encryption_key, 'c) documents \<Rightarrow> (string, 'r) redis \<Rightarrow> key_op \<Rightarrow> ('c, 'r) key_service \<Rightarrow> ('c, 'r) key_service" where
  "ck_step A D R (Ck_Generate now tenant ktype i data) w = ck_generateKey D R now tenant ktype i data w"
| "ck_step A D R (Ck_Rotate now old tenant i data) w = snd (rotateKey D R now old tenant i data w)"
| "ck_step A D R (Ck_Encrypt now i iv plaintext) w = snd (key_encrypt A D R now i iv plaintext w)"
| "ck_step A D R (Ck_Decrypt now i s) w = snd (key_decrypt A D R now i s w)"

abbreviation ck_run ::
    "aead \<Rightarrow> (encryption_key, 'c) documents \<Rightarrow> (string, 'r) redis \<Rightarrow> key_op list \<Rightarrow> ('c, 'r) key_service \<Rightarrow> ('c, 'r) key_service" where
  "ck_run A D R \<equiv> fold (ck_step A D R)"

lemma key_cache_inj [simp]: "key_cache i = key_cache j \<longleftrightarrow> i = j"
  by (simp add: key_cache_def)

section \<open>What is known of one key\<close>

locale key_store = document_store D + redis_store R
  for D :: "(encryption_key, 'c) documents" and R :: "(string, 'r) redis"
begin

definition key_docs :: "string \<Rightarrow> 'c \<Rightarrow> encryption_key multiset" where
  "key_docs i c = filter_mset (\<lambda>k. ek_key_id k = i) (contents D c)"

definition only_key :: "string \<Rightarrow> string option \<Rightarrow> bool \<Rightarrow> int \<Rightarrow> ('c, 'r) key_service \<Rightarrow> bool" where
  \<comment> \<open>the identifier stands for these bytes, in one document at most; \<open>usable\<close>: it may still be given out\<close>
  "only_key i data usable t w \<longleftrightarrow> size (key_docs i (ks_keys w)) \<le> 1
     \<and> (\<forall>k \<in># key_docs i (ks_keys w). Some (ek_key_data k) = data \<and> (ek_is_active k \<longrightarrow> usable))
     \<and> settled (\<lambda>v. Some v = data \<and> usable) t (key_cache i) (ks_redis w)
     \<and> (data = None \<longrightarrow> key_docs i (ks_keys w) = {#})"

lemma settled_other:
  "k \<noteq> k' \<Longrightarrow> settled B t k s \<Longrightarrow> settled B t k (rd_setex R u k' d v s)"
  by (auto simp: settled_def get_setex_other)

lemma settled_rd_del: "settled B t k s \<Longrightarrow> settled B t k (rd_del R k' s)"
  by (auto simp: settled_def get_del)

lemma only_key_later: "only_key i data b t w \<Longrightarrow> t \<le> u \<Longrightarrow> only_key i data b u w"
  unfolding only_key_def using settled_later by blast

lemma key_docs_generate:
  "key_docs i (ks_keys (ck_generateKey D R now tenant ktype j data w)) =
     (if j = i then add_mset \<lparr>ek_key_id = i, ek_tenant_id = tenant, ek_key_type = ktype, ek_key_data = data,
         ek_created_at = now, ek_expires_at = now + keyExpiry, ek_is_active = True\<rparr> (key_docs i (ks_keys w))
      else key_docs i (ks_keys w))"
  by (simp add: key_docs_def ck_generateKey_def insertOne)

lemma generate_fresh:
  "only_key i None b t w \<Longrightarrow> only_key i (Some data) True t (ck_generateKey D R t tenant ktype i data w)"
  unfolding only_key_def key_docs_generate by (simp add: settled_setex ck_generateKey_def)

lemma generate_other:
  "only_key i d b t w \<Longrightarrow> j \<noteq> i \<Longrightarrow> only_key i d b t (ck_generateKey D R now tenant ktype j data w)"
  unfolding only_key_def key_docs_generate by (simp add: settled_other ck_generateKey_def)

abbreviation deactivate_key :: "string \<Rightarrow> 'c \<Rightarrow> 'c" where
  "deactivate_key old c \<equiv> snd (dc_updateOne D (\<lambda>k. ek_key_id k = old) (\<lambda>k. k\<lparr>ek_is_active := False\<rparr>) c)"

lemma deactivate_present:
  assumes "\<exists>x \<in># contents D c. ek_key_id x = old"
  obtains x where "x \<in># contents D c" "ek_key_id x = old"
    "contents D (deactivate_key old c) = add_mset (x\<lparr>ek_is_active := False\<rparr>) (contents D c - {#x#})"
  using update_present [OF assms] by blast

lemma deactivate_absent:
  "\<not> (\<exists>x \<in># contents D c. ek_key_id x = old) \<Longrightarrow> contents D (deactivate_key old c) = contents D c"
  using update_absent [of c "\<lambda>k. ek_key_id k = old"] by blast

lemma deactivate_other: "old \<noteq> i \<Longrightarrow> key_docs i (deactivate_key old c) = key_docs i c"
proof (cases "\<exists>x \<in># contents D c. ek_key_id x = old")
  case True
  assume "old \<noteq> i"
  from deactivate_present [OF True] obtain x where "x \<in># contents D c" "ek_key_id x = old"
    "contents D (deactivate_key old c) = add_mset (x\<lparr>ek_is_active := False\<rparr>) (contents D c - {#x#})" .
  with \<open>old \<noteq> i\<close> show ?thesis by (simp add: key_docs_def)
qed (simp add: deactivate_absent key_docs_def)

lemma deactivate_same:
  assumes "size (key_docs i c) \<le> 1"
  shows "key_docs i (deactivate_key i c) = image_mset (\<lambda>k. k\<lparr>ek_is_active := False\<rparr>) (key_docs i c)"
proof (cases "\<exists>x \<in># contents D c. ek_key_id x = i")
  case True
  from deactivate_present [OF True] obtain x where x: "x \<in># contents D c" "ek_key_id x = i"
    "contents D (deactivate_key i c) = add_mset (x\<lparr>ek_is_active := False\<rparr>) (contents D c - {#x#})" .
  then have "x \<in># key_docs i c" by (simp add: key_docs_def)
  then obtain M where M: "key_docs i c = add_mset x M" by (metis multi_member_split)
  with assms have "key_docs i c = {#x#}" by simp
  with x show ?thesis by (simp add: key_docs_def)
next
  case False
  then have "key_docs i c = {#}" by (auto simp: key_docs_def multiset_eq_iff not_in_iff)
  moreover have "key_docs i (deactivate_key i c) = key_docs i c" by (simp add: deactivate_absent [OF False] key_docs_def)
  ultimately show ?thesis by simp
qed

lemma rotate_other:
  assumes "only_key i d b now w" "old \<noteq> i" "j \<noteq> i"
  shows "only_key i d b now (snd (rotateKey D R now old tenant j data w))"
proof (cases "dc_findOne D (\<lambda>k. ek_key_id k = old) (ks_keys w)")
  case (Some k)
  from generate_other [OF assms(1,3), of now tenant "ek_key_type k" data] Some assms(2) show ?thesis
    by (simp add: rotateKey_def Let_def only_key_def deactivate_other settled_rd_del)
qed (simp add: rotateKey_def assms(1))

lemma rotate_fresh:
  assumes "only_key i None b now w" "only_key i (Some data) True now w'" "old \<noteq> i"
    and "w' = ck_generateKey D R now tenant ktype i data w"
  shows "only_key i (Some data) True now \<lparr>ks_keys = deactivate_key old (ks_keys w'), ks_redis = rd_del R (key_cache old) (ks_redis w')\<rparr>"
  using assms(2,3) by (simp add: only_key_def deactivate_other settled_rd_del)

lemma rotated:
  assumes "only_key i d b now w" "j \<noteq> i" "fst (rotateKey D R now i tenant j data w) = Inr n"
  shows "only_key i d False now (snd (rotateKey D R now i tenant j data w))"
proof (cases "dc_findOne D (\<lambda>k. ek_key_id k = i) (ks_keys w)")
  case (Some k)
  let ?w = "ck_generateKey D R now tenant (ek_key_type k) j data w"
  have w: "only_key i d b now ?w" using generate_other [OF assms(1,2)] .
  then have "key_docs i (deactivate_key i (ks_keys ?w)) = image_mset (\<lambda>k. k\<lparr>ek_is_active := False\<rparr>) (key_docs i (ks_keys ?w))"
    by (intro deactivate_same) (simp add: only_key_def)
  moreover have "settled (\<lambda>v. False) now (key_cache i) (rd_del R (key_cache i) (ks_redis ?w))"
    by (simp add: settled_def get_del)
  ultimately show ?thesis using w Some by (simp add: rotateKey_def Let_def only_key_def)
qed (use assms(3) in \<open>simp add: rotateKey_def\<close>)

lemma getKey_known:
  assumes "only_key i d b now w" "getKey D R now i w = (r, w')"
  shows "only_key i d b now w' \<and> (\<forall>key. r = Inr key \<longrightarrow> Some key = d \<and> b) \<and> r \<noteq> Inl Bad_Tag"
proof -
  have cached: "Some v = d \<and> b" if "rd_get R now (key_cache i) (ks_redis w) = Some v" for v
    using assms(1) that by (auto simp: only_key_def dest: settledD)
  have found: "Some (ek_key_data k) = d \<and> b"
    if "dc_findOne D (\<lambda>k. ek_key_id k = i \<and> ek_is_active k) (ks_keys w) = Some k" for k
    using assms(1) findOne_Some [OF that] by (auto simp: only_key_def key_docs_def)
  have "only_key i d b now (w\<lparr>ks_redis := rd_setex R now (key_cache i) 3600 v (ks_redis w)\<rparr>)" if "Some v = d" b for v
    using assms(1) that by (simp add: only_key_def settled_setex)
  with assms cached found show ?thesis
    by (auto simp: getKey_def split: option.splits list.splits if_splits)
qed

lemma getKey_other:
  assumes "only_key i d b now w" "getKey D R now j w = (r, w')" "j \<noteq> i"
  shows "only_key i d b now w'"
  using assms by (auto simp: getKey_def only_key_def settled_other split: option.splits list.splits if_splits)

lemma encrypt_only_key: "only_key i d b now w \<Longrightarrow> only_key i d b now (snd (key_encrypt A D R now j iv p w))"
  by (cases "j = i") (auto simp: key_encrypt_def split: prod.splits sum.splits dest: getKey_known getKey_other)

lemma decrypt_only_key: "only_key i d b now w \<Longrightarrow> only_key i d b now (snd (key_decrypt A D R now j s w))"
  by (cases "j = i") (auto simp: key_decrypt_def split: prod.splits sum.splits option.splits dest: getKey_known getKey_other)

lemma step_other:
  assumes "only_key i d b (ck_time op) w" "\<not> generates i op"
  shows "\<exists>b'. (b' \<longrightarrow> b) \<and> only_key i d b' (ck_time op) (ck_step A D R op w)"
proof (cases op)
  case (Ck_Rotate now old tenant j data)
  show ?thesis
  proof (cases "old = i")
    case True
    show ?thesis
    proof (cases "fst (rotateKey D R now i tenant j data w)")
      case (Inl e)
      then have "snd (rotateKey D R now i tenant j data w) = w"
        by (simp add: rotateKey_def Let_def split: option.splits)
      with assms True Ck_Rotate show ?thesis by auto
    next
      case (Inr n)
      have "only_key i d b now w" "j \<noteq> i" using assms Ck_Rotate by simp_all
      from rotated [OF this Inr] True Ck_Rotate show ?thesis by (intro exI [of _ False]) simp
    qed
  next
    case False
    have "only_key i d b now w" "j \<noteq> i" using assms Ck_Rotate by simp_all
    from rotate_other [OF this(1) False this(2)] Ck_Rotate show ?thesis by (intro exI [of _ b]) simp
  qed
next
  case (Ck_Generate now tenant ktype j data)
  with assms have "only_key i d b now w" "j \<noteq> i" by simp_all
  from generate_other [OF this] Ck_Generate show ?thesis by (intro exI [of _ b]) simp
next
  case (Ck_Encrypt now j iv plaintext)
  with assms encrypt_only_key show ?thesis by (intro exI [of _ b]) simp
next
  case (Ck_Decrypt now j s)
  with assms decrypt_only_key show ?thesis by (intro exI [of _ b]) simp
qed

lemma step_fresh:
  assumes "only_key i None b (ck_time op) w" "generates i op"
  shows "\<exists>d b'. only_key i d b' (ck_time op) (ck_step A D R op w)"
proof (cases op)
  case (Ck_Generate now tenant ktype j data)
  with assms generate_fresh [of i b now w data tenant ktype] show ?thesis by auto
next
  case (Ck_Rotate now old tenant j data)
  show ?thesis
  proof (cases "dc_findOne D (\<lambda>k. ek_key_id k = old) (ks_keys w)")
    case None
    with assms Ck_Rotate show ?thesis by (auto simp: rotateKey_def)
  next
    case (Some k)
    from findOne_Some [OF Some] have "k \<in># key_docs old (ks_keys w)" by (simp add: key_docs_def)
    moreover have "key_docs i (ks_keys w) = {#}" using assms by (simp add: only_key_def)
    ultimately have "old \<noteq> i" by auto
    let ?w = "ck_generateKey D R now tenant (ek_key_type k) i data w"
    have "only_key i (Some data) True now ?w" using assms Ck_Rotate by (auto intro: generate_fresh)
    from rotate_fresh [OF _ this \<open>old \<noteq> i\<close> refl] assms Some Ck_Rotate show ?thesis
      by (auto simp: rotateKey_def Let_def)
  qed
qed (use assms in auto)

lemma run_other:
  assumes "only_key i d b t w" "sorted (t # map ck_time ops)" "\<forall>op \<in> set ops. \<not> generates i op"
  shows "\<exists>b'. (b' \<longrightarrow> b) \<and> only_key i d b' (last (t # map ck_time ops)) (ck_run A D R ops w)"
  using assms
proof (induction ops arbitrary: t w b)
  case (Cons op ops)
  have "only_key i d b (ck_time op) w" using Cons.prems by (auto intro: only_key_later)
  from step_other [OF this, of A] Cons.prems obtain b' where b': "b' \<longrightarrow> b" "only_key i d b' (ck_time op) (ck_step A D R op w)"
    by auto
  from Cons.IH [OF b'(2)] Cons.prems b'(1) show ?case by auto
qed auto

lemma run_only_key:
  assumes "only_key i None b t w" "sorted (t # map ck_time ops)" "length (filter (generates i) ops) \<le> 1"
  shows "\<exists>d b'. only_key i d b' (last (t # map ck_time ops)) (ck_run A D R ops w)"
  using assms
proof (induction ops arbitrary: t w b)
  case (Cons op ops)
  have now: "only_key i None b (ck_time op) w" using Cons.prems by (auto intro: only_key_later)
  show ?case
  proof (cases "generates i op")
    case True
    then have "\<forall>op \<in> set ops. \<not> generates i op" using Cons.prems(3) by (auto simp: filter_empty_conv)
    with step_fresh [OF now True] run_other [of i _ _ "ck_time op" "ck_step A D R op w" ops] Cons.prems(2) show ?thesis
      by fastforce
  next
    case False
    from step_other [OF now False] obtain b' where "only_key i None b' (ck_time op) (ck_step A D R op w)" by blast
    from Cons.IH [OF this] Cons.prems False show ?thesis by auto
  qed
qed auto

end

interpretation cks: key_store list_documents map_redis
  by unfold_locales

section \<open>What a key is worth later\<close>

definition no_keys :: "(encryption_key, 'c) documents \<Rightarrow> (string, 'r) redis \<Rightarrow> ('c, 'r) key_service \<Rightarrow> bool" where
  "no_keys D R w \<longleftrightarrow> contents D (ks_keys w) = {#} \<and> (\<forall>t k. rd_get R t k (ks_redis w) = None)"

context key_store
begin

lemma no_keys_only: "no_keys D R w \<Longrightarrow> only_key i None False t w"
  by (simp add: no_keys_def only_key_def key_docs_def settled_def)

lemma known_after_run:
  assumes "no_keys D R w" "sorted (t0 # map ck_time ops @ [t])" "length (filter (generates i) ops) \<le> 1"
  shows "\<exists>d b. only_key i d b t (ck_run A D R ops w)"
proof -
  have sorted: "sorted (t0 # map ck_time ops)" "last (t0 # map ck_time ops) \<le> t"
    using assms(2) by (auto simp: sorted_append last_map)
  from run_only_key [OF no_keys_only [OF assms(1)] this(1) assms(3), of A] only_key_later [OF _ sorted(2)]
  show ?thesis by blast
qed

lemma known_until:
  assumes "only_key i d b t w" "sorted (t # map ck_time ops @ [t'])" "\<forall>op \<in> set ops. \<not> generates i op"
  shows "\<exists>b'. (b' \<longrightarrow> b) \<and> only_key i d b' t' (ck_run A D R ops w)"
proof -
  have sorted: "sorted (t # map ck_time ops)" "last (t # map ck_time ops) \<le> t'"
    using assms(2) by (auto simp: sorted_append last_map)
  from run_other [OF assms(1) sorted(1) assms(3), of A] only_key_later [OF _ sorted(2)] show ?thesis by blast
qed

end

text \<open>
  C17: What was encrypted can be read back while its key is given out. In every run from an empty
  service in which an identifier is generated at most once, a text that was encrypted under it is
  decrypted at any later time to the same text, unless the key itself is refused as missing or
  expired: rotations, expiry of the cache and new keys in between never make the service open it
  under other bytes. The cipher is assumed to open what it sealed under the same key and nonce.
\<close>
theorem decryption_reads_back:
  assumes "document_store D" "redis_store R" "no_keys D R w0"
    and "\<And>key iv p. case ae_seal A key iv p of (c, tag) \<Rightarrow> ae_open A key iv c tag = Some p"
    and "sorted (t0 # map ck_time ops @ t # map ck_time ops' @ [t'])"
    and "length (filter (generates i) ops) \<le> 1" "\<forall>op \<in> set ops'. \<not> generates i op"
    and "key_encrypt A D R t i iv p (ck_run A D R ops w0) = (Inr s, w)"
  shows "fst (key_decrypt A D R t' i s (ck_run A D R ops' w)) \<in> {Inr p, Inl Key_Missing, Inl Key_Expired}"
proof -
  have K: "key_store D R" using assms(1,2) by (simp add: key_store_def)
  let ?w = "ck_run A D R ops w0" and ?w' = "ck_run A D R ops' w"
  have order: "sorted (t0 # map ck_time ops @ [t])" "sorted (t # map ck_time ops' @ [t'])"
    using assms(5) by (simp_all add: sorted_append)
  from key_store.known_after_run [OF K assms(3) order(1) assms(6)]
  obtain d b where known: "key_store.only_key D R i d b t ?w" by blast
  obtain r w1 where get: "getKey D R t i ?w = (r, w1)" by fastforce
  with assms(8) obtain key where key: "r = Inr key" "w1 = w" "sl_iv s = iv" "ae_seal A key iv p = (sl_ciphertext s, sl_authTag s)"
    by (auto simp: key_encrypt_def split: sum.splits prod.splits)
  from key_store.getKey_known [OF K known get] key have d: "d = Some key" "key_store.only_key D R i d b t w" by auto
  from key_store.known_until [OF K d(2) order(2) assms(7)]
  obtain b' where later: "key_store.only_key D R i d b' t' ?w'" by blast
  obtain r' w2 where get': "getKey D R t' i ?w' = (r', w2)" by fastforce
  from key_store.getKey_known [OF K later get'] d(1) have r': "r' = Inr key \<or> r' \<in> {Inl Key_Missing, Inl Key_Expired}"
    using get' by (auto simp: getKey_def split: option.splits list.splits if_splits)
  from assms(4) [of key iv p] key have "ae_open A key iv (sl_ciphertext s) (sl_authTag s) = Some p" by simp
  with r' get' key(3) show ?thesis by (auto simp: key_decrypt_def)
qed

text \<open>
  C18: A rotated key is never given out again. In every run from an empty service in which its
  identifier is generated at most once, after the key was rotated no text is encrypted under it any
  more, at any later time, cached or not; and nothing that was encrypted under it is decrypted either.
\<close>
theorem rotated_key_is_refused:
  assumes "document_store D" "redis_store R" "no_keys D R w0"
    and "sorted (t0 # map ck_time ops @ t # map ck_time ops' @ [t'])"
    and "length (filter (generates i) ops) \<le> 1" "j \<noteq> i" "\<forall>op \<in> set ops'. \<not> generates i op"
    and "rotateKey D R t i tenant j data (ck_run A D R ops w0) = (Inr n, w)"
  shows "(\<exists>e. fst (key_encrypt A D R t' i iv p (ck_run A D R ops' w)) = Inl e)
    \<and> (\<exists>e. fst (key_decrypt A D R t' i s (ck_run A D R ops' w)) = Inl e)"
proof -
  have K: "key_store D R" using assms(1,2) by (simp add: key_store_def)
  let ?w = "ck_run A D R ops w0" and ?w' = "ck_run A D R ops' w"
  have order: "sorted (t0 # map ck_time ops @ [t])" "sorted (t # map ck_time ops' @ [t'])"
    using assms(4) by (simp_all add: sorted_append)
  from key_store.known_after_run [OF K assms(3) order(1) assms(5)]
  obtain d b where "key_store.only_key D R i d b t ?w" by blast
  from key_store.rotated [OF K this assms(6), of tenant data n] assms(8) have "key_store.only_key D R i d False t w" by simp
  from key_store.known_until [OF K this order(2) assms(7)]
  obtain b' where later: "\<not> b'" "key_store.only_key D R i d b' t' ?w'" by blast
  obtain r' w2 where get': "getKey D R t' i ?w' = (r', w2)" by fastforce
  from key_store.getKey_known [OF K later(2) get'] later(1) obtain e where "r' = Inl e" by (cases r') auto
  with get' show ?thesis by (simp add: key_encrypt_def key_decrypt_def)
qed

definition demo_cipher :: aead where
  "demo_cipher = \<lparr>ae_seal = (\<lambda>key iv p. (p, key @ iv)), ae_open = (\<lambda>key iv c tag. if tag = key @ iv then Some c else None)\<rparr>"

definition demo_keys :: "(encryption_key list, string server) key_service" where
  "demo_keys = \<lparr>ks_keys = [], ks_redis = no_data\<rparr>"

definition demo_key_ops :: "key_op list" where
  "demo_key_ops = [Ck_Generate 5 ''t'' Key_Data ''k'' ''bytes'', Ck_Encrypt 6 ''k'' ''n'' ''text'']"

lemma demo_keys_empty: "no_keys list_documents map_redis demo_keys"
  by (simp add: no_keys_def demo_keys_def contents_def list_documents_def map_redis_def no_data_def)

theorem decryption_reads_back_witness:
  "let s = \<lparr>sl_ciphertext = ''text'', sl_iv = ''n'', sl_authTag = ''bytesn''\<rparr>;
      w = snd (key_encrypt demo_cipher list_documents map_redis 7 ''k'' ''n'' ''text''
        (ck_run demo_cipher list_documents map_redis demo_key_ops demo_keys))
   in fst (key_decrypt demo_cipher list_documents map_redis 9000000 ''k'' s (ck_run demo_cipher list_documents map_redis
        [Ck_Generate 8 ''t'' Key_Data ''l'' ''other''] w)) \<in> {Inr ''text'', Inl Key_Missing, Inl Key_Expired}"
proof -
  let ?s = "\<lparr>sl_ciphertext = ''text'', sl_iv = ''n'', sl_authTag = ''bytesn''\<rparr>"
  let ?e = "key_encrypt demo_cipher list_documents map_redis 7 ''k'' ''n'' ''text''
        (ck_run demo_cipher list_documents map_redis demo_key_ops demo_keys)"
  have e: "?e = (Inr ?s, snd ?e)"
  proof -
    have "fst ?e = Inr ?s" by code_simp
    then show ?thesis by (metis prod.collapse)
  qed
  have "fst (key_decrypt demo_cipher list_documents map_redis 9000000 ''k'' ?s (ck_run demo_cipher list_documents map_redis
        [Ck_Generate 8 ''t'' Key_Data ''l'' ''other''] (snd ?e))) \<in> {Inr ''text'', Inl Key_Missing, Inl Key_Expired}"
  proof (rule decryption_reads_back [OF ld.document_store_axioms mr.redis_store_axioms demo_keys_empty _ _ _ _ e])
    show "sorted (0 # map ck_time demo_key_ops @ 7 # map ck_time [Ck_Generate 8 ''t'' Key_Data ''l'' ''other''] @ [9000000])"
      by (simp add: demo_key_ops_def)
  qed (simp_all add: demo_cipher_def demo_key_ops_def)
  then show ?thesis by (simp only: Let_def)
qed

theorem rotated_key_is_refused_witness:
  "let w = snd (rotateKey list_documents map_redis 7 ''k'' ''t'' ''l'' ''other''
        (ck_run demo_cipher list_documents map_redis demo_key_ops demo_keys))
   in \<exists>e. fst (key_decrypt demo_cipher list_documents map_redis 9 ''k'' \<lparr>sl_ciphertext = ''text'', sl_iv = ''n'', sl_authTag = ''bytesn''\<rparr>
        (ck_run demo_cipher list_documents map_redis [Ck_Encrypt 8 ''l'' ''n'' ''text''] w)) = Inl e"
proof -
  let ?r = "rotateKey list_documents map_redis 7 ''k'' ''t'' ''l'' ''other''
        (ck_run demo_cipher list_documents map_redis demo_key_ops demo_keys)"
  have r: "?r = (Inr ''l'', snd ?r)"
  proof -
    have "fst ?r = Inr ''l''" by code_simp
    then show ?thesis by (metis prod.collapse)
  qed
  have "\<exists>e. fst (key_decrypt demo_cipher list_documents map_redis 9 ''k'' \<lparr>sl_ciphertext = ''text'', sl_iv = ''n'', sl_authTag = ''bytesn''\<rparr>
        (ck_run demo_cipher list_documents map_redis [Ck_Encrypt 8 ''l'' ''n'' ''text''] (snd ?r))) = Inl e"
  proof (rule rotated_key_is_refused [OF ld.document_store_axioms mr.redis_store_axioms demo_keys_empty _ _ _ _ r, THEN conjunct2])
    show "sorted (0 # map ck_time demo_key_ops @ 7 # map ck_time [Ck_Encrypt 8 ''l'' ''n'' ''text''] @ [9])"
      by (simp add: demo_key_ops_def)
  qed (simp_all add: demo_key_ops_def)
  then show ?thesis by (simp only: Let_def)
qed

section \<open>What the checks leave open\<close>

lemma expired_key_from_cache:
  \<comment> \<open>a key cached just before it expires is given out after that, although the collection refuses it\<close>
  "let k = Ck_Generate 0 ''t'' Key_Data ''k'' ''bytes'';
      w = ck_run demo_cipher list_documents map_redis [k, Ck_Encrypt keyExpiry ''k'' ''n'' ''text''] demo_keys
   in fst (getKey list_documents map_redis (keyExpiry + 3599000) ''k'' w) = Inr ''bytes''
    \<and> fst (getKey list_documents map_redis (keyExpiry + 3600000) ''k'' w) = Inl Key_Expired"
  by code_simp

lemma rotation_across_tenants:
  \<comment> \<open>any tenant can rotate, and so end, the key of another\<close>
  "let w = snd (rotateKey list_documents map_redis 7 ''k'' ''other'' ''l'' ''x''
        (ck_run demo_cipher list_documents map_redis demo_key_ops demo_keys))
   in getTenantKeys list_documents ''t'' (ks_keys w) = [] \<and> map ek_key_id (getTenantKeys list_documents ''other'' (ks_keys w)) = [''l'']"
  by code_simp

end
