(* ===== verification/KfGuard.thy ===== *)
theory KfGuard
  imports AuthzValues
begin

text \<open>
  The operational guardrails of the Kafka service (services/kafka-service/src/runtime/operational-guardrails.ts):
  feature flags with overrides, the monitor of service level objectives, and the forensic log.
  Numbers are exact (\<open>rat\<close>), times milliseconds; console output is left out. The properties are
  in \<open>KfGuardSafety\<close>.
\<close>

section \<open>Objectives\<close>

datatype slo_unit = Slo_ms | Slo_percent | Slo_count | Slo_per_second

datatype slo_severity = Slo_warning | Slo_critical | Slo_page

record slo_definition =
  slo_name :: string
  slo_metric :: string
  slo_target :: rat
  slo_unit :: slo_unit
  slo_window_seconds :: int
  slo_alert_threshold :: rat
  slo_severity :: slo_severity
  slo_runbook :: string

definition SLO_DEFINITIONS :: "slo_definition list" where
  "SLO_DEFINITIONS = [
    \<lparr>slo_name = ''message_persistence_p99_latency'', slo_metric = ''message_persist_latency_ms'', slo_target = 500,
      slo_unit = Slo_ms, slo_window_seconds = 300, slo_alert_threshold = 750, slo_severity = Slo_warning,
      slo_runbook = ''Check MongoDB write latency, verify connection pool, check disk I/O on primary''\<rparr>,
    \<lparr>slo_name = ''message_persistence_success_rate'', slo_metric = ''message_persist_success_ratio'', slo_target = 999/10,
      slo_unit = Slo_percent, slo_window_seconds = 300, slo_alert_threshold = 99, slo_severity = Slo_critical,
      slo_runbook = ''Check DLQ rate, verify Kafka consumer lag, check MongoDB health, review persistence errors''\<rparr>,
    \<lparr>slo_name = ''dlq_rate'', slo_metric = ''dlq_messages_per_minute'', slo_target = 0,
      slo_unit = Slo_per_second, slo_window_seconds = 60, slo_alert_threshold = 5, slo_severity = Slo_critical,
      slo_runbook = ''Check for schema validation failures, verify producer envelope compliance, review DLQ records''\<rparr>,
    \<lparr>slo_name = ''kafka_consumer_lag'', slo_metric = ''consumer_group_lag'', slo_target = 100,
      slo_unit = Slo_count, slo_window_seconds = 60, slo_alert_threshold = 1000, slo_severity = Slo_warning,
      slo_runbook = ''Scale consumer instances, check processing bottlenecks, verify batch size tuning''\<rparr>,
    \<lparr>slo_name = ''search_propagation_latency'', slo_metric = ''search_index_latency_ms'', slo_target = 2000,
      slo_unit = Slo_ms, slo_window_seconds = 300, slo_alert_threshold = 5000, slo_severity = Slo_warning,
      slo_runbook = ''Check Elasticsearch cluster health, verify bulk indexing performance, review search-service logs''\<rparr>,
    \<lparr>slo_name = ''duplicate_detection_rate'', slo_metric = ''duplicate_messages_per_minute'', slo_target = 0,
      slo_unit = Slo_per_second, slo_window_seconds = 300, slo_alert_threshold = 10, slo_severity = Slo_warning,
      slo_runbook = ''Review producer dedup key generation, check for consumer group rebalance storms''\<rparr>]"

section \<open>Feature flags\<close>

datatype flag_scope = Flag_global | Flag_tenant | Flag_project

datatype flag_category = Flag_realtime | Flag_persistence | Flag_search | Flag_moderation | Flag_social

record feature_flag =
  ff_name :: string
  ff_description :: string
  ff_default :: bool
  ff_scope :: flag_scope
  ff_category :: flag_category

definition FEATURE_FLAGS :: "feature_flag list" where
  "FEATURE_FLAGS = [
    \<lparr>ff_name = ''realtime.dlq.enabled'', ff_description = ''Enable DLQ routing for unsupported/invalid envelopes'',
      ff_default = True, ff_scope = Flag_global, ff_category = Flag_realtime\<rparr>,
    \<lparr>ff_name = ''realtime.retry.enabled'', ff_description = ''Enable retry consumer with exponential backoff'',
      ff_default = True, ff_scope = Flag_global, ff_category = Flag_persistence\<rparr>,
    \<lparr>ff_name = ''realtime.schema_validation.strict'', ff_description = ''Enforce strict schema validation on inbound envelopes'',
      ff_default = False, ff_scope = Flag_global, ff_category = Flag_realtime\<rparr>,
    \<lparr>ff_name = ''realtime.reactions.enabled'', ff_description = ''Enable message reaction events'',
      ff_default = True, ff_scope = Flag_project, ff_category = Flag_realtime\<rparr>,
    \<lparr>ff_name = ''realtime.threads.enabled'', ff_description = ''Enable threaded reply events'',
      ff_default = True, ff_scope = Flag_project, ff_category = Flag_realtime\<rparr>,
    \<lparr>ff_name = ''realtime.groups.enabled'', ff_description = ''Enable group lifecycle events'',
      ff_default = True, ff_scope = Flag_project, ff_category = Flag_realtime\<rparr>,
    \<lparr>ff_name = ''realtime.planner.enabled'', ff_description = ''Enable planner/task events'',
      ff_default = True, ff_scope = Flag_project, ff_category = Flag_realtime\<rparr>,
    \<lparr>ff_name = ''realtime.social.enabled'', ff_description = ''Enable social interaction events (posts, stories, follows)'',
      ff_default = True, ff_scope = Flag_project, ff_category = Flag_social\<rparr>,
    \<lparr>ff_name = ''realtime.presence.invisible_mode'', ff_description = ''Allow users to set invisible/ghost mode'',
      ff_default = True, ff_scope = Flag_tenant, ff_category = Flag_realtime\<rparr>,
    \<lparr>ff_name = ''persistence.batch.enabled'', ff_description = ''Enable batch message persistence (vs. single-write)'',
      ff_default = True, ff_scope = Flag_global, ff_category = Flag_persistence\<rparr>,
    \<lparr>ff_name = ''search.realtime_indexing.enabled'', ff_description = ''Enable real-time search indexing from Kafka'',
      ff_default = True, ff_scope = Flag_global, ff_category = Flag_search\<rparr>]"

record flag_context =
  fx_tenantId :: "string option"
  fx_projectId :: "string option"

definition given_text :: "string option \<Rightarrow> string option" where
  \<comment> \<open>an empty string counts as not given\<close>
  "given_text v = (case v of Some (x # xs) \<Rightarrow> v | _ \<Rightarrow> None)"

definition project_key :: "string \<Rightarrow> string \<Rightarrow> string" where
  "project_key flag p = flag @ '':project:'' @ p"

definition flag_tenant_key :: "string \<Rightarrow> string \<Rightarrow> string" where
  "flag_tenant_key flag t = flag @ '':tenant:'' @ t"

definition env_key :: "string \<Rightarrow> string \<Rightarrow> string" where
  "env_key envPrefix flag = envPrefix @ map (\<lambda>c. if c = CHR ''.'' then CHR ''_'' else c) (map ascii_upper flag)"

definition flag_default :: "(string \<Rightarrow> string option) \<Rightarrow> string \<Rightarrow> string \<Rightarrow> bool" where
  \<comment> \<open>environment variable, then the table\<close>
  "flag_default env envPrefix flag =
     (case env (env_key envPrefix flag) of
        Some v \<Rightarrow> v = ''true'' \<or> v = ''1''
      | None \<Rightarrow> (case List.find (\<lambda>f. ff_name f = flag) FEATURE_FLAGS of None \<Rightarrow> False | Some f \<Rightarrow> ff_default f))"

definition no_context :: flag_context where
  "no_context = \<lparr>fx_tenantId = None, fx_projectId = None\<rparr>"

definition isEnabled ::
    "(string \<Rightarrow> string option) \<Rightarrow> string \<Rightarrow> (string, bool) jsmap \<Rightarrow> string \<Rightarrow> flag_context \<Rightarrow> bool" where
  "isEnabled env envPrefix overrides flag ctx =
     (let project = (case given_text (fx_projectId ctx) of None \<Rightarrow> None | Some p \<Rightarrow> map_of overrides (project_key flag p));
          tenant = (case given_text (fx_tenantId ctx) of None \<Rightarrow> None | Some t \<Rightarrow> map_of overrides (flag_tenant_key flag t))
      in case project of Some b \<Rightarrow> b | None \<Rightarrow>
         (case tenant of Some b \<Rightarrow> b | None \<Rightarrow>
         (case map_of overrides flag of Some b \<Rightarrow> b | None \<Rightarrow> flag_default env envPrefix flag)))"

definition override_key :: "string \<Rightarrow> flag_context \<Rightarrow> string" where
  "override_key flag scope =
     (case given_text (fx_projectId scope) of Some p \<Rightarrow> project_key flag p
      | None \<Rightarrow> (case given_text (fx_tenantId scope) of Some t \<Rightarrow> flag_tenant_key flag t | None \<Rightarrow> flag))"

definition setOverride :: "string \<Rightarrow> bool \<Rightarrow> flag_context \<Rightarrow> (string, bool) jsmap \<Rightarrow> (string, bool) jsmap" where
  "setOverride flag v scope overrides = AList.update (override_key flag scope) v overrides"

definition removeOverride :: "string \<Rightarrow> flag_context \<Rightarrow> (string, bool) jsmap \<Rightarrow> (string, bool) jsmap" where
  "removeOverride flag scope overrides = AList.delete (override_key flag scope) overrides"

section \<open>Monitor\<close>

record metric_sample =
  sm_value :: rat
  sm_timestamp :: int

record slo_alert =
  sa_slo :: string
  sa_severity :: slo_severity
  sa_value :: rat
  sa_threshold :: rat
  sa_timestamp :: int
  sa_runbook :: string

record slo_monitor =
  mo_samples :: "(string, metric_sample list) jsmap"
  mo_alerts :: "slo_alert list"

definition new_SLOMonitor :: slo_monitor where
  "new_SLOMonitor = \<lparr>mo_samples = [], mo_alerts = []\<rparr>"

definition aggregate_samples :: "slo_unit \<Rightarrow> rat list \<Rightarrow> rat" where
  \<comment> \<open>the 99th percentile, the mean, or the sum of the values\<close>
  "aggregate_samples u vs =
     (case u of
        Slo_ms \<Rightarrow> sort vs ! min (length vs * 99 div 100) (length vs - 1)
      | Slo_percent \<Rightarrow> sum_list vs / of_nat (length vs)
      | _ \<Rightarrow> sum_list vs)"

definition slo_breached :: "slo_definition \<Rightarrow> rat \<Rightarrow> bool" where
  "slo_breached slo v \<longleftrightarrow>
     (slo_unit slo = Slo_percent \<and> v < slo_alert_threshold slo) \<or> (slo_unit slo \<noteq> Slo_percent \<and> slo_alert_threshold slo < v)"

definition window_values :: "int \<Rightarrow> slo_definition \<Rightarrow> metric_sample list \<Rightarrow> rat list" where
  "window_values now slo ss = map sm_value (filter (\<lambda>s. now - slo_window_seconds slo * 1000 < sm_timestamp s) ss)"

definition check_slo :: "int \<Rightarrow> string \<Rightarrow> metric_sample list \<Rightarrow> slo_definition \<Rightarrow> slo_alert list" where
  \<comment> \<open>one round of the loop: the alert it pushes, if any\<close>
  "check_slo now metric ss slo =
     (let vs = window_values now slo ss; v = aggregate_samples (slo_unit slo) vs
      in if slo_metric slo \<noteq> metric \<or> vs = [] \<or> \<not> slo_breached slo v then []
         else [\<lparr>sa_slo = slo_name slo, sa_severity = slo_severity slo, sa_value = v,
                sa_threshold = slo_alert_threshold slo, sa_timestamp = now, sa_runbook = slo_runbook slo\<rparr>])"

definition slo_record :: "string \<Rightarrow> rat \<Rightarrow> int \<Rightarrow> slo_monitor \<Rightarrow> slo_monitor" where
  "slo_record metric v now m =
     (let old = (case map_of (mo_samples m) metric of None \<Rightarrow> [] | Some ss \<Rightarrow> ss);
          ss = filter (\<lambda>s. now - 600000 < sm_timestamp s) (old @ [\<lparr>sm_value = v, sm_timestamp = now\<rparr>])
      in m\<lparr>mo_samples := AList.update metric ss (mo_samples m),
           mo_alerts := mo_alerts m @ concat (map (check_slo now metric ss) SLO_DEFINITIONS)\<rparr>)"

definition getAlerts :: "int option \<Rightarrow> slo_monitor \<Rightarrow> slo_alert list" where
  "getAlerts since m =
     (case since of None \<Rightarrow> mo_alerts m
      | Some t \<Rightarrow> if t = 0 then mo_alerts m else filter (\<lambda>a. t < sa_timestamp a) (mo_alerts m))"

definition clearAlerts :: "slo_monitor \<Rightarrow> slo_monitor" where
  "clearAlerts m = m\<lparr>mo_alerts := []\<rparr>"

record metric_stats =
  ms_count :: nat
  ms_avg :: rat
  ms_p50 :: rat
  ms_p95 :: rat
  ms_p99 :: rat
  ms_min :: rat
  ms_max :: rat

definition getMetricStats :: "int \<Rightarrow> string \<Rightarrow> int \<Rightarrow> slo_monitor \<Rightarrow> metric_stats option" where
  "getMetricStats now metric windowSeconds m =
     (let vs = sort (map sm_value (filter (\<lambda>s. now - windowSeconds * 1000 < sm_timestamp s)
            (case map_of (mo_samples m) metric of None \<Rightarrow> [] | Some ss \<Rightarrow> ss))); n = length vs
      in if vs = [] then None
         else Some \<lparr>ms_count = n, ms_avg = sum_list vs / of_nat n, ms_p50 = vs ! (n div 2), ms_p95 = vs ! (n * 95 div 100),
           ms_p99 = vs ! (n * 99 div 100), ms_min = vs ! 0, ms_max = vs ! (n - 1)\<rparr>)"

section \<open>Forensic log\<close>

datatype forensic_stage = Socket_Receive | Kafka_Produce | Kafka_Consume | Mongo_Persist | Search_Index | Dlq_Route | Fs_Retry

record forensic_entry =
  fe_timestamp :: int
  fe_correlation_id :: string
  fe_event_type :: string
  fe_tenant_id :: string
  fe_stage :: forensic_stage
  fe_latency_ms :: rat
  fe_success :: bool
  fe_error :: "string option"
  fe_metadata :: "(string \<times> jsval) list"

record forensic_log =
  fl_entries :: "forensic_entry list"
  fl_maxEntries :: int

definition forensic_append :: "forensic_entry \<Rightarrow> forensic_log \<Rightarrow> forensic_log" where
  \<comment> \<open>the entry with its timestamp filled in\<close>
  "forensic_append e l =
     (let es = fl_entries l @ [e]
      in l\<lparr>fl_entries := (if fl_maxEntries l < int (length es) then slice_last (fl_maxEntries l) es else es)\<rparr>)"

record forensic_filter =
  fo_correlation_id :: "string option"
  fo_tenant_id :: "string option"
  fo_event_type :: "string option"
  fo_stage :: "forensic_stage option"
  fo_success :: "bool option"
  fo_since :: "int option"

definition forensic_matches :: "forensic_filter \<Rightarrow> forensic_entry \<Rightarrow> bool" where
  "forensic_matches f e \<longleftrightarrow>
     (case given_text (fo_correlation_id f) of None \<Rightarrow> True | Some v \<Rightarrow> fe_correlation_id e = v) \<and>
     (case given_text (fo_tenant_id f) of None \<Rightarrow> True | Some v \<Rightarrow> fe_tenant_id e = v) \<and>
     (case given_text (fo_event_type f) of None \<Rightarrow> True | Some v \<Rightarrow> fe_event_type e = v) \<and>
     (case fo_stage f of None \<Rightarrow> True | Some v \<Rightarrow> fe_stage e = v) \<and>
     (case fo_success f of None \<Rightarrow> True | Some v \<Rightarrow> fe_success e = v) \<and>
     (case fo_since f of None \<Rightarrow> True | Some t \<Rightarrow> t \<le> fe_timestamp e)"

definition forensic_query :: "forensic_filter \<Rightarrow> forensic_log \<Rightarrow> forensic_entry list" where
  "forensic_query f l = filter (forensic_matches f) (fl_entries l)"

definition getTraceForCorrelation :: "string \<Rightarrow> forensic_log \<Rightarrow> forensic_entry list" where
  "getTraceForCorrelation c l = sort_key fe_timestamp (filter (\<lambda>e. fe_correlation_id e = c) (fl_entries l))"

definition getFailuresSince :: "int \<Rightarrow> forensic_log \<Rightarrow> forensic_entry list" where
  "getFailuresSince t l = filter (\<lambda>e. \<not> fe_success e \<and> t \<le> fe_timestamp e) (fl_entries l)"

record forensic_stats =
  fs_total :: nat
  fs_successes :: nat
  fs_failures :: nat
  fs_avg_latency_ms :: rat
  fs_by_stage :: "(forensic_stage, nat \<times> rat) jsmap"

definition count_stage :: "forensic_entry \<Rightarrow> (forensic_stage, nat \<times> rat) jsmap \<Rightarrow> (forensic_stage, nat \<times> rat) jsmap" where
  "count_stage e acc =
     (case (case map_of acc (fe_stage e) of None \<Rightarrow> (0, 0) | Some p \<Rightarrow> p) of (n, lat) \<Rightarrow>
        AList.update (fe_stage e) (n + 1, lat + fe_latency_ms e) acc)"

definition forensic_getStats :: "int \<Rightarrow> int \<Rightarrow> forensic_log \<Rightarrow> forensic_stats" where
  "forensic_getStats now windowMs l =
     (let recent = filter (\<lambda>e. now - windowMs \<le> fe_timestamp e) (fl_entries l)
      in \<lparr>fs_total = length recent, fs_successes = length (filter fe_success recent),
           fs_failures = length (filter (\<lambda>e. \<not> fe_success e) recent),
           fs_avg_latency_ms = (if recent = [] then 0 else sum_list (map fe_latency_ms recent) / of_nat (length recent)),
           fs_by_stage = map (\<lambda>(stage, n, lat). (stage, n, lat / of_nat n)) (fold count_stage recent [])\<rparr>)"

end
