(* ===== verification/KfGuardSafety.thy ===== *)
theory KfGuardSafety
  imports KfGuard
begin

text \<open>
  What the guardrails of the Kafka service guarantee: when a latency objective is reported as
  missed, that pruning old samples never changes an alert, which override decides a feature flag,
  and what the forensic log keeps. The last section shows where they fall short.
\<close>

section \<open>Percentiles\<close>







section \<open>Pruning\<close>

type_synonym sample_event = "string \<times> rat \<times> int"

definition metric_history :: "string \<Rightarrow> sample_event list \<Rightarrow> metric_sample list" where
  "metric_history metric es = map (\<lambda>(m, v, t). \<lparr>sm_value = v, sm_timestamp = t\<rparr>) (filter (\<lambda>e. fst e = metric) es)"

definition record_all :: "sample_event list \<Rightarrow> slo_monitor \<Rightarrow> slo_monitor" where
  "record_all es m = fold (\<lambda>(metric, v, t). slo_record metric v t) es m"

fun reference_alerts :: "sample_event list \<Rightarrow> sample_event list \<Rightarrow> slo_alert list" where
  \<comment> \<open>what a monitor that keeps every sample would report: the samples so far, then those to come\<close>
  "reference_alerts past [] = []"
| "reference_alerts past ((metric, v, t) # es) =
     concat (map (check_slo t metric (metric_history metric (past @ [(metric, v, t)]))) SLO_DEFINITIONS)
       @ reference_alerts (past @ [(metric, v, t)]) es"

definition samples_of :: "string \<Rightarrow> slo_monitor \<Rightarrow> metric_sample list" where
  "samples_of metric m = (case map_of (mo_samples m) metric of None \<Rightarrow> [] | Some ss \<Rightarrow> ss)"

definition kept_since :: "int \<Rightarrow> sample_event list \<Rightarrow> slo_monitor \<Rightarrow> bool" where
  \<comment> \<open>later than ten minutes ago, the monitor holds the samples of the history\<close>
  "kept_since t past m \<longleftrightarrow> (\<forall>metric c. t - 600000 \<le> c \<longrightarrow>
     filter (\<lambda>s. c < sm_timestamp s) (samples_of metric m) = filter (\<lambda>s. c < sm_timestamp s) (metric_history metric past))"

lemma slo_windows: "slo \<in> set SLO_DEFINITIONS \<Longrightarrow> slo_window_seconds slo \<le> 600"
  by (auto simp: SLO_DEFINITIONS_def)

lemma window_values_cong:
  assumes "slo \<in> set SLO_DEFINITIONS"
    and "\<And>c. now - 600000 \<le> c \<Longrightarrow> filter (\<lambda>s. c < sm_timestamp s) ss = filter (\<lambda>s. c < sm_timestamp s) ss'"
  shows "window_values now slo ss = window_values now slo ss'"
  using assms(2) [of "now - slo_window_seconds slo * 1000"] slo_windows [OF assms(1)] by (simp add: window_values_def)

lemma concat_map_cong: "(\<And>x. x \<in> set xs \<Longrightarrow> f x = g x) \<Longrightarrow> concat (map f xs) = concat (map g xs)"
  by (simp cong: map_cong)

lemma samples_of_record:
  "samples_of k (slo_record metric v now m) = (if k = metric
     then filter (\<lambda>s. now - 600000 < sm_timestamp s) (samples_of metric m @ [\<lparr>sm_value = v, sm_timestamp = now\<rparr>])
     else samples_of k m)"
  by (simp add: slo_record_def samples_of_def Let_def map_of_update)

lemma metric_history_snoc:
  "metric_history k (past @ [(metric, v, t)]) =
     metric_history k past @ (if metric = k then [\<lparr>sm_value = v, sm_timestamp = t\<rparr>] else [])"
  by (simp add: metric_history_def)

lemma kept_record:
  assumes "kept_since t past m" "t \<le> now"
  shows "kept_since now (past @ [(metric, v, now)]) (slo_record metric v now m)"
  unfolding kept_since_def
proof (intro allI impI)
  fix k c
  assume c: "now - 600000 \<le> c"
  with assms have "filter (\<lambda>s. c < sm_timestamp s) (samples_of j m) = filter (\<lambda>s. c < sm_timestamp s) (metric_history j past)" for j
    by (simp add: kept_since_def)
  moreover have "filter (\<lambda>s. c < sm_timestamp s) (filter (\<lambda>s. now - 600000 < sm_timestamp s) ss) =
      filter (\<lambda>s. c < sm_timestamp s) ss" for ss :: "metric_sample list"
    using c by (induction ss) auto
  ultimately show "filter (\<lambda>s. c < sm_timestamp s) (samples_of k (slo_record metric v now m)) =
      filter (\<lambda>s. c < sm_timestamp s) (metric_history k (past @ [(metric, v, now)]))"
    by (simp add: samples_of_record metric_history_snoc del: filter_filter)
qed

lemma record_alerts:
  assumes "kept_since now (past @ [(metric, v, now)]) (slo_record metric v now m)"
  shows "mo_alerts (slo_record metric v now m) = mo_alerts m @
    concat (map (check_slo now metric (metric_history metric (past @ [(metric, v, now)]))) SLO_DEFINITIONS)"
proof -
  let ?ss = "samples_of metric (slo_record metric v now m)"
  have "mo_alerts (slo_record metric v now m) = mo_alerts m @ concat (map (check_slo now metric ?ss) SLO_DEFINITIONS)"
    unfolding samples_of_record by (simp add: slo_record_def samples_of_def Let_def)
  moreover have "concat (map (check_slo now metric ?ss) SLO_DEFINITIONS) =
      concat (map (check_slo now metric (metric_history metric (past @ [(metric, v, now)]))) SLO_DEFINITIONS)"
    using assms by (intro concat_map_cong) (simp add: check_slo_def kept_since_def window_values_cong
      [of _ now ?ss "metric_history metric (past @ [(metric, v, now)])"])
  ultimately show ?thesis by simp
qed

lemma record_all_alerts:
  "kept_since t past m \<Longrightarrow> sorted (t # map (snd \<circ> snd) es) \<Longrightarrow>
     mo_alerts (record_all es m) = mo_alerts m @ reference_alerts past es"
proof (induction past es arbitrary: m t rule: reference_alerts.induct)
  case (2 past metric v now es)
  from kept_record [OF "2.prems"(1), of now metric v] "2.prems"(2)
  have kept: "kept_since now (past @ [(metric, v, now)]) (slo_record metric v now m)" by simp
  from "2.IH" [OF kept] "2.prems"(2)
  have "mo_alerts (record_all es (slo_record metric v now m)) =
      mo_alerts (slo_record metric v now m) @ reference_alerts (past @ [(metric, v, now)]) es" by simp
  then show ?case by (simp add: record_all_def record_alerts [OF kept])
qed (simp add: record_all_def)

text \<open>
  C36: Pruning never changes an alert. Whatever samples are recorded in the order of time, the monitor
  raises exactly the alerts, in the same order and with the same values, of one that keeps every
  sample for ever: every objective looks back over at most the ten minutes that are kept.
\<close>
theorem pruning_preserves_alerts:
  assumes "sorted (map (snd \<circ> snd) es)"
  shows "mo_alerts (record_all es new_SLOMonitor) = reference_alerts [] es"
proof (cases es)
  case (Cons e es')
  have "kept_since (snd (snd e)) [] new_SLOMonitor"
    by (simp add: kept_since_def samples_of_def metric_history_def new_SLOMonitor_def)
  from record_all_alerts [OF this, of es] assms Cons show ?thesis by (simp add: new_SLOMonitor_def)
qed (simp add: record_all_def new_SLOMonitor_def)

definition demo_samples :: "sample_event list" where
  "demo_samples = [(''message_persist_latency_ms'', 900, 0), (''message_persist_latency_ms'', 10, 700000),
     (''message_persist_latency_ms'', 800, 700001)]"

theorem pruning_preserves_alerts_witness:
  "mo_alerts (record_all demo_samples new_SLOMonitor) = reference_alerts [] demo_samples
    \<and> map sa_value (mo_alerts (record_all demo_samples new_SLOMonitor)) = [900, 800]"
proof
  show "mo_alerts (record_all demo_samples new_SLOMonitor) = reference_alerts [] demo_samples"
    by (rule pruning_preserves_alerts) (simp add: demo_samples_def)
  show "map sa_value (mo_alerts (record_all demo_samples new_SLOMonitor)) = [900, 800]" by code_simp
qed

section \<open>Feature flags\<close>

definition overridden :: "string \<Rightarrow> flag_context \<Rightarrow> (string, bool) jsmap \<Rightarrow> bool" where
  \<comment> \<open>a project or tenant override applies in the context\<close>
  "overridden flag ctx ov \<longleftrightarrow>
     (\<exists>p. given_text (fx_projectId ctx) = Some p \<and> map_of ov (project_key flag p) \<noteq> None) \<or>
     (\<exists>t. given_text (fx_tenantId ctx) = Some t \<and> map_of ov (flag_tenant_key flag t) \<noteq> None)"

definition decides :: "flag_context \<Rightarrow> flag_context \<Rightarrow> string \<Rightarrow> (string, bool) jsmap \<Rightarrow> bool" where
  \<comment> \<open>an override of the scope is the one that counts in the context\<close>
  "decides scope ctx flag ov \<longleftrightarrow>
     (case given_text (fx_projectId scope) of
        Some p \<Rightarrow> given_text (fx_projectId ctx) = Some p
      | None \<Rightarrow> (case given_text (fx_tenantId scope) of
          Some t \<Rightarrow> given_text (fx_tenantId ctx) = Some t \<and>
            (\<forall>p. given_text (fx_projectId ctx) = Some p \<longrightarrow> map_of ov (project_key flag p) = None)
        | None \<Rightarrow> \<not> overridden flag ctx ov))"

lemma split_at_colon:
  assumes "CHR '':'' \<notin> set a" "CHR '':'' \<notin> set b" "a @ CHR '':'' # x = b @ CHR '':'' # y"
  shows "a = b \<and> x = y"
  using assms
proof (induction a arbitrary: b)
  case Nil
  then show ?case by (cases b) auto
next
  case (Cons c a)
  then show ?case by (cases b) auto
qed

lemma flag_keys:
  assumes "CHR '':'' \<notin> set f" "CHR '':'' \<notin> set g"
  shows "project_key f p = project_key g q \<longleftrightarrow> f = g \<and> p = q"
    and "flag_tenant_key f s = flag_tenant_key g t \<longleftrightarrow> f = g \<and> s = t"
    and "project_key f p \<noteq> flag_tenant_key g t" "flag_tenant_key g t \<noteq> project_key f p"
    and "project_key f p \<noteq> g" "flag_tenant_key f t \<noteq> g" "g \<noteq> project_key f p" "g \<noteq> flag_tenant_key f t"
proof -
  note colon = split_at_colon [OF assms]
  show "project_key f p = project_key g q \<longleftrightarrow> f = g \<and> p = q"
    using colon [of "''project:'' @ p" "''project:'' @ q"] by (auto simp: project_key_def)
  show "flag_tenant_key f s = flag_tenant_key g t \<longleftrightarrow> f = g \<and> s = t"
    using colon [of "''tenant:'' @ s" "''tenant:'' @ t"] by (auto simp: flag_tenant_key_def)
  show "project_key f p \<noteq> flag_tenant_key g t" "flag_tenant_key g t \<noteq> project_key f p"
    using colon [of "''project:'' @ p" "''tenant:'' @ t"] by (auto simp: project_key_def flag_tenant_key_def)
  show "project_key f p \<noteq> g" "flag_tenant_key f t \<noteq> g" "g \<noteq> project_key f p" "g \<noteq> flag_tenant_key f t"
    using assms(2) by (auto simp: project_key_def flag_tenant_key_def)
qed

text \<open>
  C38: An override decides its flag within its scope and touches nothing else. After an override of a
  flag is set for a project, a tenant or globally, any flag in any context has the value it was set
  to if it is that flag and the scope is the one that counts there (a project's before a tenant's,
  a tenant's before the global one), and its old value otherwise; provided flag names have no colon.
\<close>
theorem override_decides_its_scope:
  assumes "CHR '':'' \<notin> set flag" "CHR '':'' \<notin> set g"
  shows "isEnabled env pre (setOverride flag v scope ov) g ctx =
    (if g = flag \<and> decides scope ctx flag ov then v else isEnabled env pre ov g ctx)"
proof -
  note keys = flag_keys [OF assms] flag_keys [OF assms(2,1)]
  consider p where "given_text (fx_projectId scope) = Some p"
    | t where "given_text (fx_projectId scope) = None" "given_text (fx_tenantId scope) = Some t"
    | "given_text (fx_projectId scope) = None" "given_text (fx_tenantId scope) = None"
    by fastforce
  then show ?thesis
  proof cases
    case (1 p)
    then show ?thesis
      by (auto simp: isEnabled_def setOverride_def override_key_def decides_def map_of_update keys Let_def
        split: option.splits)
  next
    case (2 t)
    then show ?thesis
      by (auto simp: isEnabled_def setOverride_def override_key_def decides_def map_of_update keys Let_def
        split: option.splits)
  next
    case 3
    then show ?thesis
      by (auto simp: isEnabled_def setOverride_def override_key_def decides_def overridden_def map_of_update keys Let_def
        split: option.splits)
  qed
qed

theorem override_decides_its_scope_witness:
  "isEnabled (\<lambda>k. None) ''FEATURE_FLAG_'' (setOverride ''realtime.threads.enabled'' False \<lparr>fx_tenantId = None, fx_projectId = Some ''p''\<rparr> [])
     ''realtime.threads.enabled'' \<lparr>fx_tenantId = Some ''t'', fx_projectId = Some ''p''\<rparr> = False"
  by (subst override_decides_its_scope) (simp_all add: decides_def given_text_def)

section \<open>Forensic log\<close>

lemma slice_last_snoc: "0 < m \<Longrightarrow> slice_last m (slice_last m xs @ [x]) = slice_last m (xs @ [x])"
  by (cases "length xs < nat m") (simp_all add: slice_last_def Suc_diff_le)

lemma slice_last_short: "0 < m \<Longrightarrow> int (length xs) \<le> m \<Longrightarrow> slice_last m xs = xs"
  by (simp add: slice_last_def)

text \<open>
  The forensic log keeps exactly the latest entries. With a positive maximum, after any sequence
  of entries the log holds the last of them in their order, up to the maximum, and no others.
\<close>
lemma forensic_log_keeps_latest:
  assumes "0 < m"
  shows "fl_entries (fold forensic_append es \<lparr>fl_entries = [], fl_maxEntries = m\<rparr>) = slice_last m es"
proof (induction es rule: rev_induct)
  case Nil
  show ?case by (simp add: slice_last_def)
next
  case (snoc e es)
  have same: "fl_maxEntries (fold forensic_append es l) = fl_maxEntries l" for l
    by (induction es arbitrary: l) (simp_all add: forensic_append_def Let_def)
  have "slice_last m es @ [e] = slice_last m (es @ [e])" if "\<not> m < int (length (slice_last m es @ [e]))"
    using slice_last_snoc [OF assms, of es e] slice_last_short [OF assms, of "slice_last m es @ [e]"] that by simp
  with snoc slice_last_snoc [OF assms, of es e] show ?case
    by (simp add: forensic_append_def [of e] Let_def same)
qed

definition demo_forensic_entry :: "int \<Rightarrow> forensic_entry" where
  "demo_forensic_entry t = \<lparr>fe_timestamp = t, fe_correlation_id = ''c'', fe_event_type = ''message.created'', fe_tenant_id = ''t'',
     fe_stage = Kafka_Consume, fe_latency_ms = 3, fe_success = True, fe_error = None, fe_metadata = []\<rparr>"

lemma forensic_log_keeps_latest_example:
  "map fe_timestamp (fl_entries (fold forensic_append (map demo_forensic_entry [1, 2, 3]) \<lparr>fl_entries = [], fl_maxEntries = 2\<rparr>)) = [2, 3]"
  by (subst forensic_log_keeps_latest) (simp_all add: slice_last_def demo_forensic_entry_def)

section \<open>Where they fall short\<close>

lemma gauge_samples_are_summed:
  \<comment> \<open>a lag within its target of 100 that is sampled eleven times in a minute is reported as 1100\<close>
  "map sa_value (mo_alerts (record_all (map (\<lambda>t. (''consumer_group_lag'', 100, t)) [0, 5, 10, 15, 20, 25, 30, 35, 40, 45, 50]) new_SLOMonitor))
     = [1100]"
  by code_simp

lemma minute_rate_over_five_minutes:
  \<comment> \<open>a rate per minute is summed over a window of five minutes\<close>
  "map sa_value (mo_alerts (record_all [(''duplicate_messages_per_minute'', 6, 0), (''duplicate_messages_per_minute'', 6, 60000)] new_SLOMonitor))
     = [12]"
  by code_simp

lemma unbounded_forensic_log:
  \<comment> \<open>a maximum of zero keeps every entry: the slice from \<open>-0\<close> is the whole array\<close>
  "length (fl_entries (fold forensic_append (map demo_forensic_entry [1, 2, 3]) \<lparr>fl_entries = [], fl_maxEntries = 0\<rparr>)) = 3"
  by code_simp

lemma override_key_collision:
  \<comment> \<open>a global override of a flag whose name ends like a project key decides the flag for that project\<close>
  "\<not> isEnabled (\<lambda>k. None) ''FEATURE_FLAG_'' (setOverride ''realtime.threads.enabled:project:p'' False no_context [])
     ''realtime.threads.enabled'' \<lparr>fx_tenantId = None, fx_projectId = Some ''p''\<rparr>"
  by code_simp

end
