(* ===== verification/KfPersist.thy ===== *)
theory KfPersist
  imports AuthMongo RtRouting
begin

text \<open>
  Persistence of chat messages in the Kafka service (services/kafka-service/src/consumers/message-persistence-consumer.ts,
  persistence/message-repository.ts, persistence/persistence-notifier.ts and runtime/realtime-dlq.ts):
  a consumer normalises the messages of a topic, buffers them, writes them to MongoDB in batches and
  announces the outcome; what it cannot handle goes to the dead letter topic. The collection and its
  bulk write are parameters. The JSON parser and the type tests of \<open>normalizeEnvelope\<close> are
  represented by the datatype of parsed values; whether a call to a server succeeds is an input of
  the step.
\<close>

section \<open>Envelopes\<close>

record chat_envelope =
  \<comment> \<open>the envelope, with what the consumer reads of payload and metadata\<close>
  ce_event_id :: string
  ce_event_type :: string
  ce_schema_version :: string
  ce_tenant_id :: string
  ce_project_id :: "string option"
  ce_correlation_id :: string
  ce_occurred_at :: int
  ce_payload_message_id :: "string option"
  ce_payload_conversation_id :: "string option"
  ce_payload_sender_id :: "string option"
  ce_payload_content :: jsval
  ce_payload_content_type :: string \<comment> \<open>the text of \<open>content.type || 'text'\<close> for an object\<close>
  ce_metadata_user_id :: "string option"
  ce_metadata_conversation_id :: "string option"

record legacy_envelope =
  le_message_id :: "string option" \<comment> \<open>\<open>None\<close>: not a string\<close>
  le_conversation_id :: "string option"
  le_tenant_id :: "string option"
  le_sender_id :: "string option"
  le_timestamp :: "int option"
  le_content :: jsval
  le_content_type :: string
  le_metadata_correlation_id :: "string option"

datatype parsed_message =
    Bad_Json string \<comment> \<open>with the error of the parser\<close>
  | Realtime_Message chat_envelope
  | Legacy_Message legacy_envelope
  | Other_Json

definition normalizeEnvelope :: "parsed_message \<Rightarrow> string + chat_envelope" where
  "normalizeEnvelope v =
     (case v of
        Realtime_Message e \<Rightarrow> Inr e
      | Legacy_Message l \<Rightarrow>
          (case (le_message_id l, le_conversation_id l, le_tenant_id l, le_sender_id l, le_timestamp l) of
             (Some m, Some c, Some tn, Some s, Some t) \<Rightarrow>
               Inr \<lparr>ce_event_id = m, ce_event_type = ''message.created'', ce_schema_version = ''1.0.0'', ce_tenant_id = tn,
                 ce_project_id = None, ce_correlation_id = string_or (le_metadata_correlation_id l) m, ce_occurred_at = t,
                 ce_payload_message_id = Some m, ce_payload_conversation_id = Some c, ce_payload_sender_id = Some s,
                 ce_payload_content = le_content l, ce_payload_content_type = le_content_type l,
                 ce_metadata_user_id = Some s, ce_metadata_conversation_id = Some c\<rparr>
           | _ \<Rightarrow> Inl ''Unsupported realtime message envelope'')
      | _ \<Rightarrow> Inl ''Unsupported realtime message envelope'')"

section \<open>Repository\<close>

record stored_message =
  \<comment> \<open>message and event identifier, tenant, and the rest of the document\<close>
  sm_message_id :: string
  sm_event_id :: string
  sm_tenant_id :: string
  sm_conversation_id :: string
  sm_sender_id :: string
  sm_project_id :: "string option"
  sm_content :: "(string \<times> jsval) list"
  sm_message_type :: string
  sm_correlation_id :: string
  sm_schema_version :: string
  sm_created_at :: int

datatype bulk_result =
    Bulk_Ok
  | Bulk_Errors nat "nat list" \<comment> \<open>\<open>MongoBulkWriteError\<close>: the number inserted and the codes of the write errors\<close>
  | Bulk_Down string \<comment> \<open>any other exception\<close>

definition string_of_first :: "string option list \<Rightarrow> string" where
  \<comment> \<open>\<open>`${a || b || ''}`\<close>\<close>
  "string_of_first vs = (case List.find truthy_str vs of Some (Some s) \<Rightarrow> s | _ \<Rightarrow> [])"

definition conversation_of :: "chat_envelope \<Rightarrow> string" where
  "conversation_of e = string_of_first [ce_payload_conversation_id e, ce_metadata_conversation_id e]"

definition is_array_index :: "string \<Rightarrow> bool" where
  \<comment> \<open>the keys an object lists before all others\<close>
  "is_array_index k \<longleftrightarrow> k \<noteq> [] \<and> list_all is_digit k \<and> (hd k = CHR ''0'' \<longrightarrow> k = ''0'')
     \<and> foldl (\<lambda>n c. 10 * n + (of_char c - 48)) (0 :: nat) k < 4294967295"

definition with_type :: "string \<Rightarrow> (string \<times> jsval) list \<Rightarrow> (string \<times> jsval) list" where
  \<comment> \<open>\<open>{ type, ...kvs }\<close>: a field \<open>type\<close> takes the place of the given one\<close>
  "with_type ty kvs =
     filter (\<lambda>(k, v). is_array_index k) kvs
       @ fold (\<lambda>(k, v). AList.update k v) (filter (\<lambda>(k, v). \<not> is_array_index k) kvs) [(''type'', JStr ty)]"

definition normalizeContent :: "string \<Rightarrow> jsval \<Rightarrow> (string \<times> jsval) list" where
  \<comment> \<open>with the text of the type of an object; the elements of an array are listed under their indices\<close>
  "normalizeContent ty content =
     (case content of
        JObj i kvs \<Rightarrow> with_type ty kvs
      | JArr i vs \<Rightarrow> with_type ''text'' (zip (map show_nat [0..<length vs]) vs)
      | JStr t \<Rightarrow> [(''type'', JStr ''text''), (''text'', JStr t)]
      | _ \<Rightarrow> [(''type'', JStr ''text''), (''text'', JStr [])])"

definition type_of_content :: "string \<Rightarrow> jsval \<Rightarrow> string" where
  \<comment> \<open>the text of the normalised content's type, or of \<open>'text'\<close>\<close>
  "type_of_content ty content = (case content of JObj i kvs \<Rightarrow> ty | _ \<Rightarrow> ''text'')"

definition message_of :: "chat_envelope \<Rightarrow> stored_message" where
  \<comment> \<open>the document \<open>flushBuffer\<close> builds for an envelope\<close>
  "message_of e = \<lparr>sm_message_id = string_or (ce_payload_message_id e) (ce_event_id e), sm_event_id = ce_event_id e,
     sm_tenant_id = ce_tenant_id e, sm_conversation_id = conversation_of e,
     sm_sender_id = string_of_first [ce_payload_sender_id e, ce_metadata_user_id e], sm_project_id = ce_project_id e,
     sm_content = normalizeContent (ce_payload_content_type e) (ce_payload_content e),
     sm_message_type = type_of_content (ce_payload_content_type e) (ce_payload_content e), sm_correlation_id = ce_correlation_id e, sm_schema_version = ce_schema_version e,
     sm_created_at = ce_occurred_at e\<rparr>"

definition ps_checkDuplicate :: "(stored_message, 'c) documents \<Rightarrow> string \<Rightarrow> string \<Rightarrow> 'c \<Rightarrow> bool" where
  "ps_checkDuplicate D i tenant c \<longleftrightarrow>
     0 < dc_countDocuments D (\<lambda>m. sm_tenant_id m = tenant \<and> (sm_message_id m = i \<or> sm_event_id m = i)) c"

section \<open>Consumer\<close>

record persistence_metrics =
  pm_messagesPersisted :: nat
  pm_persistenceErrors :: nat
  pm_duplicatesSkipped :: nat
  pm_totalLatency :: int
  pm_avgLatency :: rat

record dead_letter =
  dl_reason :: string
  dl_topic :: string
  dl_partition :: int
  dl_offset :: string
  dl_event_id :: "string option"
  dl_correlation_id :: "string option"
  dl_key :: string

datatype persistence_event = Persisted string | Not_Persisted string string

record 'c persister =
  ps_store :: 'c
  ps_buffer :: "chat_envelope list"
  ps_metrics :: persistence_metrics
  ps_updates :: "(string \<times> string \<times> int) list" \<comment> \<open>conversation, tenant and time of the updates of \<open>last_message_at\<close>\<close>
  ps_events :: "persistence_event list"
  ps_dead :: "dead_letter list"

record flush_env =
  \<comment> \<open>how many conversation updates succeed if not all, the message of the exception then, whether announcements are sent\<close>
  fv_updates :: "nat option"
  fv_update_error :: string
  fv_notify :: bool

definition announce :: "bool \<Rightarrow> persistence_event list \<Rightarrow> 'c persister \<Rightarrow> 'c persister" where
  "announce up es w = (if up then w\<lparr>ps_events := ps_events w @ es\<rparr> else w)"

fun conversation_updates :: "chat_envelope list \<Rightarrow> (string, int) jsmap \<Rightarrow> (string, int) jsmap" where
  \<comment> \<open>the latest time per conversation of the batch\<close>
  "conversation_updates [] m = m"
| "conversation_updates (e # es) m =
     (let c = conversation_of e; k = ce_tenant_id e @ '':'' @ c
      in conversation_updates es
        (if c = [] then m
         else case map_of m k of
           Some t \<Rightarrow> if t < ce_occurred_at e then AList.update k (ce_occurred_at e) m else m
         | None \<Rightarrow> AList.update k (ce_occurred_at e) m))"

definition split_key :: "string \<times> int \<Rightarrow> string \<times> string \<times> int" where
  \<comment> \<open>at the first colon\<close>
  "split_key = (\<lambda>(k, t). (drop 1 (dropWhile (\<lambda>c. c \<noteq> CHR '':'') k), takeWhile (\<lambda>c. c \<noteq> CHR '':'') k, t))"

definition flush_failed :: "flush_env \<Rightarrow> string \<Rightarrow> chat_envelope list \<Rightarrow> 'c persister \<Rightarrow> 'c persister" where
  "flush_failed f err ms w =
     (let w1 = w\<lparr>ps_metrics := (ps_metrics w)\<lparr>pm_persistenceErrors := pm_persistenceErrors (ps_metrics w) + length ms\<rparr>\<rparr>;
          w2 = announce (fv_notify f) (map (\<lambda>m. Not_Persisted (ce_event_id m) err) ms) w1
      in w2\<lparr>ps_buffer := ms @ ps_buffer w2\<rparr>)"

definition flushBuffer ::
    "(stored_message list \<Rightarrow> 'c \<Rightarrow> bulk_result \<times> 'c) \<Rightarrow> flush_env \<Rightarrow> 'c persister \<Rightarrow> 'c persister" where
  "flushBuffer bulk f w =
     (let ms = ps_buffer w; done_events = map (\<lambda>m. Persisted (ce_event_id m)) ms
      in if ms = [] then w
         else case bulk (map message_of ms) (ps_store w) of (r, c) \<Rightarrow>
           let w1 = w\<lparr>ps_buffer := [], ps_store := c\<rparr>
           in case r of
                Bulk_Ok \<Rightarrow>
                  (let ups = map split_key (conversation_updates ms [])
                   in case fv_updates f of
                        None \<Rightarrow> announce (fv_notify f) done_events (w1\<lparr>ps_updates := ps_updates w1 @ ups\<rparr>)
                      | Some n \<Rightarrow> flush_failed f (fv_update_error f) ms (w1\<lparr>ps_updates := ps_updates w1 @ take n ups\<rparr>))
              | Bulk_Errors n codes \<Rightarrow>
                  if list_all (\<lambda>code. code = 11000) codes
                  then announce (fv_notify f) done_events
                    (w1\<lparr>ps_metrics := (ps_metrics w1)\<lparr>pm_duplicatesSkipped := pm_duplicatesSkipped (ps_metrics w1) + length codes\<rparr>\<rparr>)
                  else flush_failed f ''bulk write error'' ms w1
              | Bulk_Down err \<Rightarrow> flush_failed f err ms w1)"

definition updateMetrics :: "int \<Rightarrow> persistence_metrics \<Rightarrow> persistence_metrics" where
  "updateMetrics latency m =
     (let n = pm_messagesPersisted m + 1; t = pm_totalLatency m + latency
      in m\<lparr>pm_messagesPersisted := n, pm_totalLatency := t, pm_avgLatency := of_int t / of_nat n\<rparr>)"

record kafka_record =
  kr_topic :: string
  kr_partition :: int
  kr_offset :: string
  kr_value :: parsed_message

definition dead_letter_of :: "kafka_record \<Rightarrow> string \<Rightarrow> chat_envelope option \<Rightarrow> dead_letter" where
  \<comment> \<open>\<open>publish\<close>: what is known of the event, and the key of the record\<close>
  "dead_letter_of k reason e =
     (let i = (case e of None \<Rightarrow> None | Some e \<Rightarrow> if ce_event_id e = [] then None else Some (ce_event_id e))
      in \<lparr>dl_reason = reason, dl_topic = kr_topic k, dl_partition = kr_partition k, dl_offset = kr_offset k, dl_event_id = i,
           dl_correlation_id = (case e of None \<Rightarrow> None | Some e \<Rightarrow> if ce_correlation_id e = [] then None else Some (ce_correlation_id e)),
           dl_key = (case i of Some i \<Rightarrow> i | None \<Rightarrow> kr_topic k @ '':'' @ show_int (kr_partition k) @ '':'' @ kr_offset k)\<rparr>)"

definition publish :: "bool \<Rightarrow> dead_letter \<Rightarrow> 'c persister \<Rightarrow> bool \<times> 'c persister" where
  \<comment> \<open>\<open>up\<close>: connected, and the send succeeds\<close>
  "publish up d w = (if up then (True, w\<lparr>ps_dead := ps_dead w @ [d]\<rparr>) else (False, w))"

record handle_env =
  \<comment> \<open>whether the lookup, the first and the second publication and announcements succeed, the latency, and the flush\<close>
  hv_lookup :: bool
  hv_publish :: bool
  hv_publish2 :: bool
  hv_notify :: bool
  hv_latency :: int
  hv_flush :: flush_env

record persist_config =
  pg_batchSize :: nat
  pg_eventTypes :: "string list"

definition handle_failed :: "handle_env \<Rightarrow> kafka_record \<Rightarrow> string \<Rightarrow> 'c persister \<Rightarrow> bool \<times> 'c persister" where
  \<comment> \<open>the outer handler of exceptions; \<open>False\<close>: it throws itself\<close>
  "handle_failed h k err w0 =
     (let w = w0\<lparr>ps_metrics := (ps_metrics w0)\<lparr>pm_persistenceErrors := pm_persistenceErrors (ps_metrics w0) + 1\<rparr>\<rparr>
      in case normalizeEnvelope (kr_value k) of
           Inl e \<Rightarrow> publish (hv_publish h) (dead_letter_of k ''INVALID_ENVELOPE'' None) w
         | Inr e \<Rightarrow>
             (case publish (hv_publish h) (dead_letter_of k ''PERSISTENCE_CONSUMER_ERROR'' (Some e)) w of
                (True, w') \<Rightarrow> (True, announce (hv_notify h) [Not_Persisted (ce_event_id e) err] w')
              | (False, w') \<Rightarrow> publish (hv_publish2 h) (dead_letter_of k ''INVALID_ENVELOPE'' None) w'))"

definition handleMessage ::
    "(stored_message, 'c) documents \<Rightarrow> (stored_message list \<Rightarrow> 'c \<Rightarrow> bulk_result \<times> 'c) \<Rightarrow> persist_config \<Rightarrow> handle_env
      \<Rightarrow> kafka_record \<Rightarrow> 'c persister \<Rightarrow> bool \<times> 'c persister" where
  \<comment> \<open>with whether the promise is fulfilled\<close>
  "handleMessage D bulk cfg h k w =
     (case kr_value k of
        Bad_Json err \<Rightarrow> (True, snd (publish (hv_publish h) (dead_letter_of k ''INVALID_JSON'' None) w))
      | v \<Rightarrow>
        (case normalizeEnvelope v of
           Inl err \<Rightarrow> handle_failed h k err w
         | Inr e \<Rightarrow>
             if ce_event_type e \<notin> set (pg_eventTypes cfg)
             then (True, snd (publish (hv_publish h) (dead_letter_of k ''UNSUPPORTED_EVENT_TYPE'' (Some e)) w))
             else if \<not> hv_lookup h then handle_failed h k ''lookup failed'' w
             else if ps_checkDuplicate D (ce_event_id e) (ce_tenant_id e) (ps_store w)
             then (True, announce (hv_notify h) [Persisted (ce_event_id e)]
               (w\<lparr>ps_metrics := (ps_metrics w)\<lparr>pm_duplicatesSkipped := pm_duplicatesSkipped (ps_metrics w) + 1\<rparr>\<rparr>))
             else
               (let w1 = w\<lparr>ps_buffer := ps_buffer w @ [e]\<rparr>;
                    w2 = (if pg_batchSize cfg \<le> length (ps_buffer w1) then flushBuffer bulk (hv_flush h) w1 else w1)
                in (True, w2\<lparr>ps_metrics := updateMetrics (hv_latency h) (ps_metrics w2)\<rparr>))))"

section \<open>Runs\<close>

datatype persist_op =
    Ps_Handle handle_env kafka_record
  | Ps_Flush flush_env \<comment> \<open>by the timer, or when the consumer stops\<close>

fun persist_step ::
    "(stored_message, 'c) documents \<Rightarrow> (stored_message list \<Rightarrow> 'c \<Rightarrow> bulk_result \<times> 'c) \<Rightarrow> persist_config \<Rightarrow> persist_op
      \<Rightarrow> 'c persister \<Rightarrow> 'c persister" where
  "persist_step D bulk cfg (Ps_Handle h k) w = snd (handleMessage D bulk cfg h k w)"
| "persist_step D bulk cfg (Ps_Flush f) w = flushBuffer bulk f w"

abbreviation persist_run ::
    "(stored_message, 'c) documents \<Rightarrow> (stored_message list \<Rightarrow> 'c \<Rightarrow> bulk_result \<times> 'c) \<Rightarrow> persist_config \<Rightarrow> persist_op list
      \<Rightarrow> 'c persister \<Rightarrow> 'c persister" where
  "persist_run D bulk cfg \<equiv> fold (persist_step D bulk cfg)"

end
