(* ===== verification/KfPersistSafety.thy ===== *)
theory KfPersistSafety
  imports KfPersist
begin

text \<open>
  What the persistence consumer guarantees: an accepted message stays in the buffer until the
  collection holds it, success is announced only for messages the collection holds, and a message
  the collection never accepts keeps its whole batch in the buffer. The locale states what is
  documented of an unordered bulk write on a collection with a unique index.
\<close>

section \<open>Bulk writes\<close>

definition holds_message :: "stored_message \<Rightarrow> stored_message multiset \<Rightarrow> bool" where
  \<comment> \<open>a document with its tenant and message identifier, the fields of the unique index\<close>
  "holds_message m M \<longleftrightarrow> (\<exists>x \<in># M. sm_tenant_id x = sm_tenant_id m \<and> sm_message_id x = sm_message_id m)"

definition held_for :: "chat_envelope \<Rightarrow> stored_message multiset \<Rightarrow> bool" where
  \<comment> \<open>a document of the tenant that carries the message identifier or the event identifier of the envelope\<close>
  "held_for e M \<longleftrightarrow> (\<exists>x \<in># M. sm_tenant_id x = ce_tenant_id e \<and>
     (sm_message_id x = sm_message_id (message_of e) \<or> sm_message_id x = ce_event_id e \<or> sm_event_id x = ce_event_id e))"

lemma holds_held: "holds_message (message_of e) M \<Longrightarrow> held_for e M"
  by (auto simp: holds_message_def held_for_def message_of_def)

definition envelope_of :: "kafka_record \<Rightarrow> chat_envelope set" where
  "envelope_of k = (case normalizeEnvelope (kr_value k) of Inl e \<Rightarrow> {} | Inr e \<Rightarrow> {e})"

locale message_collection = document_store D
  for D :: "(stored_message, 'c) documents" +
  fixes bulk :: "stored_message list \<Rightarrow> 'c \<Rightarrow> bulk_result \<times> 'c"
  assumes bulk_keeps: "contents D c \<subseteq># contents D (snd (bulk ms c))"
    and bulk_ok: "fst (bulk ms c) = Bulk_Ok \<Longrightarrow> m \<in> set ms \<Longrightarrow> m \<in># contents D (snd (bulk ms c))"
    and bulk_duplicates: "fst (bulk ms c) = Bulk_Errors n codes \<Longrightarrow> list_all (\<lambda>code. code = 11000) codes \<Longrightarrow> m \<in> set ms
      \<Longrightarrow> holds_message m (contents D (snd (bulk ms c)))"
begin

lemma holds_mono: "holds_message m M \<Longrightarrow> M \<subseteq># N \<Longrightarrow> holds_message m N"
  unfolding holds_message_def by (meson mset_subset_eqD)

lemma bulk_done:
  assumes "bulk ms c = (r, c')" "m \<in> set ms" "r = Bulk_Ok \<or> (\<exists>n codes. r = Bulk_Errors n codes \<and> list_all (\<lambda>code. code = 11000) codes)"
  shows "holds_message m (contents D c')"
  using assms bulk_ok [of ms c m] bulk_duplicates [of ms c _ _ m] by (auto simp: holds_message_def)

definition secured :: "chat_envelope \<Rightarrow> 'c persister \<Rightarrow> bool" where
  \<comment> \<open>buffered, or held by the collection\<close>
  "secured e w \<longleftrightarrow> e \<in> set (ps_buffer w) \<or> holds_message (message_of e) (contents D (ps_store w))"

definition truthful :: "chat_envelope set \<Rightarrow> 'c persister \<Rightarrow> bool" where
  \<comment> \<open>of envelopes \<open>E\<close>: only they are buffered, and success is announced only for those the collection holds\<close>
  "truthful E w \<longleftrightarrow> set (ps_buffer w) \<subseteq> E
     \<and> (\<forall>i. Persisted i \<in> set (ps_events w) \<longrightarrow> (\<exists>e \<in> E. ce_event_id e = i \<and> held_for e (contents D (ps_store w))))"

lemma held_mono: "held_for e M \<Longrightarrow> M \<subseteq># N \<Longrightarrow> held_for e N"
  unfolding held_for_def by (meson mset_subset_eqD)

lemma announce_fields [simp]:
  "ps_store (announce up es w) = ps_store w" "ps_buffer (announce up es w) = ps_buffer w"
  "set (ps_events (announce up es w)) = set (ps_events w) \<union> (if up then set es else {})"
  by (simp_all add: announce_def)

lemma flush_failed_fields [simp]:
  "ps_store (flush_failed f err ms w) = ps_store w" "ps_buffer (flush_failed f err ms w) = ms @ ps_buffer w"
  "Persisted i \<in> set (ps_events (flush_failed f err ms w)) \<longleftrightarrow> Persisted i \<in> set (ps_events w)"
  by (auto simp: flush_failed_def Let_def)

lemma flush_cases:
  obtains (empty) "flushBuffer bulk f w = w"
  | (written) c where "ps_store (flushBuffer bulk f w) = c" "ps_buffer (flushBuffer bulk f w) = []"
      "\<And>e. e \<in> set (ps_buffer w) \<Longrightarrow> holds_message (message_of e) (contents D c)"
      "\<And>i. Persisted i \<in> set (ps_events (flushBuffer bulk f w)) \<Longrightarrow>
         Persisted i \<in> set (ps_events w) \<or> (\<exists>e \<in> set (ps_buffer w). ce_event_id e = i)"
      "contents D (ps_store w) \<subseteq># contents D c"
  | (kept) c where "ps_store (flushBuffer bulk f w) = c" "ps_buffer (flushBuffer bulk f w) = ps_buffer w"
      "\<And>i. Persisted i \<in> set (ps_events (flushBuffer bulk f w)) \<longleftrightarrow> Persisted i \<in> set (ps_events w)"
      "contents D (ps_store w) \<subseteq># contents D c"
proof (cases "ps_buffer w = []")
  case True
  then show ?thesis by (intro empty) (simp add: flushBuffer_def)
next
  case False
  obtain r c where bulk: "bulk (map message_of (ps_buffer w)) (ps_store w) = (r, c)" by fastforce
  then have keeps: "contents D (ps_store w) \<subseteq># contents D c" using bulk_keeps by (metis snd_conv)
  note [simp] = flushBuffer_def Let_def bulk False
  show ?thesis
  proof (cases r)
    case Bulk_Ok
    with bulk_done [OF bulk] have held: "e \<in> set (ps_buffer w) \<Longrightarrow> holds_message (message_of e) (contents D c)" for e by simp
    show ?thesis
    proof (cases "fv_updates f")
      case None
      with Bulk_Ok held keeps show ?thesis by (intro written [of c]) (auto split: if_splits)
    next
      case (Some n)
      with Bulk_Ok keeps show ?thesis by (intro kept [of c]) auto
    qed
  next
    case (Bulk_Errors n codes)
    show ?thesis
    proof (cases "list_all (\<lambda>code. code = 11000) codes")
      case True
      with bulk_done [OF bulk] Bulk_Errors
      have "e \<in> set (ps_buffer w) \<Longrightarrow> holds_message (message_of e) (contents D c)" for e by simp
      with True Bulk_Errors keeps show ?thesis by (intro written [of c]) (auto split: if_splits)
    next
      case False
      with Bulk_Errors keeps show ?thesis by (intro kept [of c]) auto
    qed
  next
    case (Bulk_Down err)
    with keeps show ?thesis by (intro kept [of c]) auto
  qed
qed

lemma flush_secured: "secured e w \<Longrightarrow> secured e (flushBuffer bulk f w)"
  by (cases rule: flush_cases [of f w]) (auto simp: secured_def intro: holds_mono)

lemma flush_keeps: "contents D (ps_store w) \<subseteq># contents D (ps_store (flushBuffer bulk f w))"
  by (cases rule: flush_cases [of f w]) auto

lemma flush_truthful: "truthful E w \<Longrightarrow> truthful E (flushBuffer bulk f w)"
proof (cases rule: flush_cases [of f w])
  case (written c)
  assume w: "truthful E w"
  have "\<exists>e \<in> E. ce_event_id e = i \<and> held_for e (contents D c)"
    if "Persisted i \<in> set (ps_events (flushBuffer bulk f w))" for i
    using written(4) [OF that]
  proof
    assume "Persisted i \<in> set (ps_events w)"
    with w written(5) show ?thesis unfolding truthful_def using held_mono by blast
  next
    assume "\<exists>e \<in> set (ps_buffer w). ce_event_id e = i"
    with w written(3) show ?thesis unfolding truthful_def using holds_held by blast
  qed
  with written(1,2) show ?thesis by (simp add: truthful_def)
next
  case (kept c)
  assume "truthful E w"
  with kept show ?thesis unfolding truthful_def using held_mono by (metis (no_types, lifting))
qed simp

lemma truthful_same:
  assumes "truthful E w" "ps_store w' = ps_store w" "ps_buffer w' = ps_buffer w"
    and "\<And>i. Persisted i \<in> set (ps_events w') \<Longrightarrow> Persisted i \<in> set (ps_events w)"
  shows "truthful E w'"
  using assms unfolding truthful_def by simp

lemma publish_fields [simp]:
  "ps_store (snd (publish up d w)) = ps_store w" "ps_buffer (snd (publish up d w)) = ps_buffer w"
  "ps_events (snd (publish up d w)) = ps_events w"
  by (simp_all add: publish_def)

lemma failed_fields:
  "ps_store (snd (handle_failed h k err w)) = ps_store w \<and> ps_buffer (snd (handle_failed h k err w)) = ps_buffer w
   \<and> (Persisted i \<in> set (ps_events (snd (handle_failed h k err w))) \<longrightarrow> Persisted i \<in> set (ps_events w))"
  by (auto simp: handle_failed_def publish_def Let_def split: sum.split if_splits)

lemma holds_duplicate: "ps_checkDuplicate D (ce_event_id e) (ce_tenant_id e) c \<Longrightarrow> held_for e (contents D c)"
  using set_find [of "\<lambda>m. sm_tenant_id m = ce_tenant_id e \<and> (sm_message_id m = ce_event_id e \<or> sm_event_id m = ce_event_id e)" c]
  by (auto simp: ps_checkDuplicate_def dc_countDocuments_def held_for_def length_greater_0_conv neq_Nil_conv)

lemma handle_cases:
  obtains (rejected) "ps_store (snd (handleMessage D bulk cfg h k w)) = ps_store w"
      "ps_buffer (snd (handleMessage D bulk cfg h k w)) = ps_buffer w"
      "\<And>i. Persisted i \<in> set (ps_events (snd (handleMessage D bulk cfg h k w))) \<Longrightarrow> Persisted i \<in> set (ps_events w)
         \<or> (\<exists>e \<in> envelope_of k. ce_event_id e = i \<and> held_for e (contents D (ps_store w)))"
  | (accepted) e b f where "normalizeEnvelope (kr_value k) = Inr e"
      "ps_store (snd (handleMessage D bulk cfg h k w)) = ps_store b" "ps_buffer (snd (handleMessage D bulk cfg h k w)) = ps_buffer b"
      "ps_events (snd (handleMessage D bulk cfg h k w)) = ps_events b"
      "b = w\<lparr>ps_buffer := ps_buffer w @ [e]\<rparr> \<or> b = flushBuffer bulk f (w\<lparr>ps_buffer := ps_buffer w @ [e]\<rparr>)"
proof (cases "normalizeEnvelope (kr_value k)")
  case (Inl err)
  with failed_fields [of h k err w] show ?thesis
    by (intro rejected) (auto simp: handleMessage_def split: parsed_message.splits)
next
  case (Inr e)
  then have good: "\<nexists>err. kr_value k = Bad_Json err" by (auto simp: normalizeEnvelope_def)
  let ?handled = "handleMessage D bulk cfg h k w"
  show ?thesis
  proof (cases "ce_event_type e \<in> set (pg_eventTypes cfg) \<and> hv_lookup h")
    case False
    with Inr good failed_fields [of h k "''lookup failed''" w] show ?thesis
      by (intro rejected) (auto simp: handleMessage_def split: parsed_message.splits if_splits)
  next
    case True
    show ?thesis
    proof (cases "ps_checkDuplicate D (ce_event_id e) (ce_tenant_id e) (ps_store w)")
      case dup: True
      then have "held_for e (contents D (ps_store w))"
        using holds_duplicate by blast
      with dup True Inr good show ?thesis
        by (intro rejected) (auto simp: handleMessage_def envelope_of_def split: parsed_message.splits if_splits)
    next
      case False
      let ?b = "w\<lparr>ps_buffer := ps_buffer w @ [e]\<rparr>"
      let ?b' = "if pg_batchSize cfg \<le> length (ps_buffer ?b) then flushBuffer bulk (hv_flush h) ?b else ?b"
      have "snd ?handled = ?b'\<lparr>ps_metrics := updateMetrics (hv_latency h) (ps_metrics ?b')\<rparr>"
        using True False Inr good by (cases "kr_value k") (simp_all add: handleMessage_def Let_def)
      with Inr show ?thesis by (intro accepted [of e ?b' "hv_flush h"]) simp_all
    qed
  qed
qed

lemma handle_secured: "secured e w \<Longrightarrow> secured e (snd (handleMessage D bulk cfg h k w))"
proof (cases rule: handle_cases [of cfg h k w])
  case (accepted e' b f)
  assume "secured e w"
  then have "secured e (w\<lparr>ps_buffer := ps_buffer w @ [e']\<rparr>)" by (auto simp: secured_def)
  with flush_secured accepted(2,3,5) show ?thesis by (metis secured_def)
qed (simp add: secured_def)

lemma handle_truthful:
  assumes "truthful E w" "envelope_of k \<subseteq> E"
  shows "truthful E (snd (handleMessage D bulk cfg h k w))"
proof (cases rule: handle_cases [of cfg h k w])
  case rejected
  with assms show ?thesis unfolding truthful_def by auto blast
next
  case (accepted e b f)
  have "e \<in> E" using assms(2) accepted(1) by (simp add: envelope_of_def)
  with assms(1) have "truthful E (w\<lparr>ps_buffer := ps_buffer w @ [e]\<rparr>)" by (auto simp: truthful_def)
  with flush_truthful accepted(5) have "truthful E b" by auto
  then show ?thesis by (rule truthful_same) (simp_all add: accepted)
qed

end

section \<open>A concrete collection\<close>

fun insert_unordered :: "(stored_message \<Rightarrow> bool) \<Rightarrow> stored_message list \<Rightarrow> stored_message list \<Rightarrow> nat list \<times> stored_message list" where
  \<comment> \<open>with the codes of the write errors: 121 for a document the validator refuses, 11000 for a duplicate\<close>
  "insert_unordered valid [] c = ([], c)"
| "insert_unordered valid (m # ms) c =
     (if \<not> valid m then (case insert_unordered valid ms c of (codes, c') \<Rightarrow> (121 # codes, c'))
      else if list_ex (\<lambda>x. sm_tenant_id x = sm_tenant_id m \<and> sm_message_id x = sm_message_id m) c
      then (case insert_unordered valid ms c of (codes, c') \<Rightarrow> (11000 # codes, c'))
      else insert_unordered valid ms (c @ [m]))"

definition list_bulk :: "(stored_message \<Rightarrow> bool) \<Rightarrow> stored_message list \<Rightarrow> stored_message list \<Rightarrow> bulk_result \<times> stored_message list" where
  "list_bulk valid ms c = (case insert_unordered valid ms c of (codes, c') \<Rightarrow>
     (if codes = [] then Bulk_Ok else Bulk_Errors (length ms - length codes) codes, c'))"

lemma insert_keeps: "mset c \<subseteq># mset (snd (insert_unordered valid ms c))"
proof (induction ms arbitrary: c)
  case (Cons m ms)
  have more: "mset c \<subseteq># mset (snd (insert_unordered valid ms (c @ [m])))"
    by (rule subset_mset.order_trans [OF _ Cons.IH]) simp
  obtain codes c' where 1: "insert_unordered valid ms c = (codes, c')" by fastforce
  with more Cons.IH [of c] show ?case by simp
qed simp

lemma insert_keeps_set: "x \<in> set c \<Longrightarrow> x \<in> set (snd (insert_unordered valid ms c))"
  using insert_keeps [of c valid ms] by (metis mset_subset_eqD set_mset_mset)

lemma insert_ok: "fst (insert_unordered valid ms c) = [] \<Longrightarrow> m \<in> set ms \<Longrightarrow> m \<in> set (snd (insert_unordered valid ms c))"
proof (induction ms arbitrary: c)
  case (Cons n ms)
  obtain codes c' where 1: "insert_unordered valid ms c = (codes, c')" by fastforce
  with Cons.prems(1) have fresh: "insert_unordered valid (n # ms) c = insert_unordered valid ms (c @ [n])"
    by (simp split: if_splits)
  show ?case
  proof (cases "m = n")
    case True
    then show ?thesis unfolding fresh by (intro insert_keeps_set) simp
  next
    case False
    with Cons.prems have "fst (insert_unordered valid ms (c @ [n])) = []" "m \<in> set ms" unfolding fresh by simp_all
    from Cons.IH [OF this] show ?thesis unfolding fresh .
  qed
qed simp

abbreviation same_message :: "stored_message \<Rightarrow> stored_message \<Rightarrow> bool" where
  "same_message m x \<equiv> sm_tenant_id x = sm_tenant_id m \<and> sm_message_id x = sm_message_id m"

lemma insert_duplicates:
  "list_all (\<lambda>code. code = 11000) (fst (insert_unordered valid ms c)) \<Longrightarrow> m \<in> set ms \<Longrightarrow>
     \<exists>x \<in> set (snd (insert_unordered valid ms c)). same_message m x"
proof (induction ms arbitrary: c)
  case (Cons n ms)
  obtain codes c' where 1: "insert_unordered valid ms c = (codes, c')" by fastforce
  with Cons.prems(1) have ok: "valid n" by (cases "valid n") auto
  show ?case
  proof (cases "list_ex (same_message n) c")
    case True
    with 1 ok have step: "insert_unordered valid (n # ms) c = (11000 # codes, c')" by simp
    from True obtain x where x: "x \<in> set c" "same_message n x" by (auto simp: list_ex_iff)
    from insert_keeps_set [OF x(1), of valid ms] 1 have "x \<in> set c'" by simp
    with x(2) Cons.IH [of c] Cons.prems 1 show ?thesis unfolding step by auto
  next
    case False
    with ok have step: "insert_unordered valid (n # ms) c = insert_unordered valid ms (c @ [n])" by simp
    have "n \<in> set (snd (insert_unordered valid ms (c @ [n])))" by (rule insert_keeps_set) simp
    with Cons.IH [of "c @ [n]"] Cons.prems show ?thesis unfolding step by auto
  qed
qed simp

lemma insert_refuses: "m \<in> set ms \<Longrightarrow> \<not> valid m \<Longrightarrow> 121 \<in> set (fst (insert_unordered valid ms c))"
proof (induction ms arbitrary: c)
  case (Cons n ms)
  then show ?case by (auto simp: case_prod_unfold)
qed simp

interpretation lmc: message_collection list_documents "list_bulk valid"
proof
  fix c ms
  show "contents list_documents c \<subseteq># contents list_documents (snd (list_bulk valid ms c))"
    using insert_keeps [of c valid ms] by (simp add: list_bulk_def contents_def list_documents_def case_prod_unfold)
next
  fix c ms m
  assume "fst (list_bulk valid ms c) = Bulk_Ok" "m \<in> set ms"
  then show "m \<in># contents list_documents (snd (list_bulk valid ms c))"
    using insert_ok [of valid ms c m]
    by (auto simp: list_bulk_def contents_def list_documents_def split: prod.splits if_splits)
next
  fix c ms m n codes
  assume "fst (list_bulk valid ms c) = Bulk_Errors n codes" "list_all (\<lambda>code. code = 11000) codes" "m \<in> set ms"
  then show "holds_message m (contents list_documents (snd (list_bulk valid ms c)))"
    using insert_duplicates [of valid ms c m]
    by (auto simp: list_bulk_def contents_def list_documents_def holds_message_def split: prod.splits if_splits)
qed

section \<open>Accepted messages\<close>

text \<open>
  C15: A buffered message is not lost before it is stored. Once the consumer has a message in its
  buffer, at every later moment of the run it is still there or the collection holds a document of
  its tenant with its message identifier, whatever batches fail, wholly or in part, before or after
  the write.
\<close>
theorem buffered_messages_reach_the_store:
  assumes "message_collection D bulk" "e \<in> set (ps_buffer w)"
  shows "e \<in> set (ps_buffer (persist_run D bulk cfg ops w))
    \<or> holds_message (message_of e) (contents D (ps_store (persist_run D bulk cfg ops w)))"
proof -
  let ?secured = "message_collection.secured D"
  have step: "?secured e (persist_step D bulk cfg op w)" if "?secured e w" for op w
    using that by (cases op) (simp_all add: message_collection.handle_secured [OF assms(1)] message_collection.flush_secured [OF assms(1)])
  have "?secured e (persist_run D bulk cfg ops w)" if "?secured e w" for w
    using that by (induction ops arbitrary: w) (simp_all add: step)
  with assms(2) show ?thesis by (simp add: message_collection.secured_def [OF assms(1)])
qed

definition consumed :: "persist_op list \<Rightarrow> chat_envelope set" where
  "consumed ops = {e. \<exists>h k. Ps_Handle h k \<in> set ops \<and> normalizeEnvelope (kr_value k) = Inr e}"

lemma run_truthful:
  assumes "message_collection D bulk"
  shows "message_collection.truthful D E w \<Longrightarrow> consumed ops \<subseteq> E \<Longrightarrow>
    message_collection.truthful D E (persist_run D bulk cfg ops w)"
proof (induction ops arbitrary: w)
  case (Cons op ops)
  have "message_collection.truthful D E (persist_step D bulk cfg op w)"
  proof (cases op)
    case (Ps_Handle h k)
    with Cons.prems(2) have "envelope_of k \<subseteq> E" by (auto simp: consumed_def envelope_of_def split: sum.splits)
    with Ps_Handle message_collection.handle_truthful [OF assms Cons.prems(1)] show ?thesis by simp
  next
    case (Ps_Flush f)
    with message_collection.flush_truthful [OF assms Cons.prems(1)] show ?thesis by simp
  qed
  from Cons.IH [OF this] Cons.prems(2) show ?case by (fastforce simp: consumed_def)
qed simp

text \<open>
  C16: Success is announced only for what is stored. In every run from an idle consumer, whenever an
  event is announced as persisted, the consumer was given an envelope with that event identifier, and
  the collection holds a document of its tenant with its message identifier or event identifier.
\<close>
theorem success_announced_only_when_stored:
  assumes "message_collection D bulk" "ps_buffer w0 = []" "ps_events w0 = []"
    and "Persisted i \<in> set (ps_events (persist_run D bulk cfg ops w0))"
  shows "\<exists>e \<in> consumed ops. ce_event_id e = i \<and> held_for e (contents D (ps_store (persist_run D bulk cfg ops w0)))"
proof -
  have "message_collection.truthful D (consumed ops) w0"
    by (simp add: message_collection.truthful_def [OF assms(1)] assms(2,3))
  from run_truthful [OF assms(1) this order_refl] assms(4) show ?thesis
    unfolding message_collection.truthful_def [OF assms(1)] by blast
qed

definition demo_envelope :: "string \<Rightarrow> chat_envelope" where
  "demo_envelope i = \<lparr>ce_event_id = i, ce_event_type = ''message.created'', ce_schema_version = ''1.0.0'', ce_tenant_id = ''t'',
     ce_project_id = None, ce_correlation_id = ''x'', ce_occurred_at = 5, ce_payload_message_id = Some i,
     ce_payload_conversation_id = Some ''c'', ce_payload_sender_id = Some ''u'', ce_payload_content = JStr ''hi'', ce_payload_content_type = ''text'',
     ce_metadata_user_id = None, ce_metadata_conversation_id = None\<rparr>"

definition demo_record :: "string \<Rightarrow> kafka_record" where
  "demo_record i = \<lparr>kr_topic = ''chat.messages'', kr_partition = 0, kr_offset = ''7'', kr_value = Realtime_Message (demo_envelope i)\<rparr>"

definition all_up :: handle_env where
  "all_up = \<lparr>hv_lookup = True, hv_publish = True, hv_publish2 = True, hv_notify = True, hv_latency = 3,
     hv_flush = \<lparr>fv_updates = None, fv_update_error = [], fv_notify = True\<rparr>\<rparr>"

definition idle_persister :: "stored_message list persister" where
  "idle_persister = \<lparr>ps_store = [], ps_buffer = [], ps_metrics = \<lparr>pm_messagesPersisted = 0, pm_persistenceErrors = 0,
     pm_duplicatesSkipped = 0, pm_totalLatency = 0, pm_avgLatency = 0\<rparr>, ps_updates = [], ps_events = [], ps_dead = []\<rparr>"

definition demo_persist_cfg :: "nat \<Rightarrow> persist_config" where
  "demo_persist_cfg n = \<lparr>pg_batchSize = n, pg_eventTypes = [''message.created'']\<rparr>"

theorem buffered_messages_reach_the_store_witness:
  "let w = idle_persister\<lparr>ps_buffer := [demo_envelope ''a'']\<rparr>;
      w' = persist_run list_documents (list_bulk (\<lambda>m. True)) (demo_persist_cfg 2) [Ps_Handle all_up (demo_record ''b'')] w
   in demo_envelope ''a'' \<in> set (ps_buffer w') \<or> holds_message (message_of (demo_envelope ''a'')) (contents list_documents (ps_store w'))"
  unfolding Let_def by (rule buffered_messages_reach_the_store [OF lmc.message_collection_axioms]) simp

theorem success_announced_only_when_stored_witness:
  "let ops = [Ps_Handle all_up (demo_record ''a''), Ps_Handle all_up (demo_record ''b''), Ps_Handle all_up (demo_record ''a'')];
      w = persist_run list_documents (list_bulk (\<lambda>m. True)) (demo_persist_cfg 2) ops idle_persister
   in (\<exists>e \<in> consumed ops. ce_event_id e = ''a'' \<and> held_for e (contents list_documents (ps_store w)))
     \<and> ps_events w = [Persisted ''a'', Persisted ''b'', Persisted ''a'']"
proof -
  let ?ops = "[Ps_Handle all_up (demo_record ''a''), Ps_Handle all_up (demo_record ''b''), Ps_Handle all_up (demo_record ''a'')]"
  let ?w = "persist_run list_documents (list_bulk (\<lambda>m. True)) (demo_persist_cfg 2) ?ops idle_persister"
  have events: "ps_events ?w = [Persisted ''a'', Persisted ''b'', Persisted ''a'']" by code_simp
  have "\<exists>e \<in> consumed ?ops. ce_event_id e = ''a'' \<and> held_for e (contents list_documents (ps_store ?w))"
  proof (rule success_announced_only_when_stored [OF lmc.message_collection_axioms])
    show "Persisted ''a'' \<in> set (ps_events ?w)" unfolding events by simp
  qed (simp_all add: idle_persister_def)
  with events show ?thesis by (simp only: Let_def)
qed

section \<open>A message that is never accepted\<close>

definition refused :: "(stored_message list \<Rightarrow> 'c \<Rightarrow> bulk_result \<times> 'c) \<Rightarrow> stored_message \<Rightarrow> bool" where
  \<comment> \<open>every batch with the message has a write error other than a duplicate\<close>
  "refused bulk m \<longleftrightarrow> (\<forall>ms c. m \<in> set ms \<longrightarrow>
     (\<exists>n codes. fst (bulk ms c) = Bulk_Errors n codes \<and> \<not> list_all (\<lambda>code. code = 11000) codes))"

lemma flush_blocked:
  assumes "refused bulk (message_of p)" "p \<in> set (ps_buffer w)"
  shows "ps_buffer (flushBuffer bulk f w) = ps_buffer w"
proof -
  have "message_of p \<in> set (map message_of (ps_buffer w))" using assms(2) by simp
  with assms(1) obtain n codes where b: "fst (bulk (map message_of (ps_buffer w)) (ps_store w)) = Bulk_Errors n codes"
      "\<not> list_all (\<lambda>code. code = 11000) codes" unfolding refused_def by blast
  then obtain c where "bulk (map message_of (ps_buffer w)) (ps_store w) = (Bulk_Errors n codes, c)" by (metis prod.collapse)
  with b show ?thesis by (simp add: flushBuffer_def flush_failed_def announce_def Let_def)
qed

lemma failed_buffer: "ps_buffer (snd (handle_failed h k err w)) = ps_buffer w"
  by (auto simp: handle_failed_def publish_def announce_def Let_def split: sum.split)

lemma handle_blocked:
  assumes "refused bulk (message_of p)" "p \<in> set (ps_buffer w)"
  shows "prefix (ps_buffer w) (ps_buffer (snd (handleMessage D bulk cfg h k w)))"
proof -
  have "ps_buffer (flushBuffer bulk f (w\<lparr>ps_buffer := ps_buffer w @ [e]\<rparr>)) = ps_buffer w @ [e]" for f e
    using flush_blocked [OF assms(1), of "w\<lparr>ps_buffer := ps_buffer w @ [e]\<rparr>"] assms(2) by simp
  then show ?thesis
    by (cases "kr_value k")
      (auto simp: handleMessage_def failed_buffer publish_def announce_def Let_def split: sum.split)
qed

text \<open>
  One message the database always refuses stops the buffer for good. If a message in the buffer
  makes every batch that contains it fail with an error other than a duplicate key, no later flush
  ever takes anything out of the buffer again: all it holds stays, in its order, in front of what
  arrives, although unordered batches store the other messages each time.
\<close>
lemma refused_message_blocks_the_buffer:
  assumes "refused bulk (message_of p)" "p \<in> set (ps_buffer w)"
  shows "prefix (ps_buffer w) (ps_buffer (persist_run D bulk cfg ops w))"
  using assms
proof (induction ops arbitrary: w)
  case (Cons op ops)
  have step: "prefix (ps_buffer w) (ps_buffer (persist_step D bulk cfg op w))"
    using Cons.prems handle_blocked flush_blocked by (cases op) (simp_all, fastforce+)
  then have "p \<in> set (ps_buffer (persist_step D bulk cfg op w))"
    using Cons.prems(2) set_mono_prefix by blast
  from Cons.IH [OF Cons.prems(1) this] step show ?case by (simp add: prefix_order.trans [OF step])
qed simp

lemma refused_message_blocks_the_buffer_example:
  "let bulk = list_bulk (\<lambda>m :: stored_message. sm_message_id m \<noteq> ''bad'');
      w = persist_run list_documents bulk (demo_persist_cfg 2)
        [Ps_Handle all_up (demo_record ''a''), Ps_Flush (hv_flush all_up)] (idle_persister\<lparr>ps_buffer := [demo_envelope ''bad'']\<rparr>)
   in prefix [demo_envelope ''bad''] (ps_buffer w) \<and> map sm_message_id (ps_store w) = [''a'']
     \<and> map ce_event_id (ps_buffer w) = [''bad'', ''a''] \<and> Not_Persisted ''a'' ''bulk write error'' \<in> set (ps_events w)"
proof -
  let ?valid = "\<lambda>m :: stored_message. sm_message_id m \<noteq> ''bad''"
  let ?start = "idle_persister\<lparr>ps_buffer := [demo_envelope ''bad'']\<rparr>"
  let ?ops = "[Ps_Handle all_up (demo_record ''a''), Ps_Flush (hv_flush all_up)]"
  let ?w = "persist_run list_documents (list_bulk ?valid) (demo_persist_cfg 2) ?ops ?start"
  have bad: "121 \<in> set (fst (insert_unordered ?valid ms c))" if "message_of (demo_envelope ''bad'') \<in> set ms" for ms c
    by (rule insert_refuses [OF that]) code_simp
  have "refused (list_bulk ?valid) (message_of (demo_envelope ''bad''))"
    unfolding refused_def
  proof (intro allI impI)
    fix ms c
    assume "message_of (demo_envelope ''bad'') \<in> set ms"
    from bad [OF this, of c]
    show "\<exists>n codes. fst (list_bulk ?valid ms c) = Bulk_Errors n codes \<and> \<not> list_all (\<lambda>code. code = 11000) codes"
      by (auto simp: list_bulk_def list_all_iff split: prod.splits intro!: bexI [of _ 121])
  qed
  then have "prefix (ps_buffer ?start) (ps_buffer ?w)" by (rule refused_message_blocks_the_buffer) simp
  moreover have "ps_buffer ?start = [demo_envelope ''bad'']" by simp
  ultimately have "prefix [demo_envelope ''bad''] (ps_buffer ?w)" by (simp only:)
  moreover have "map sm_message_id (ps_store ?w) = [''a'']" "map ce_event_id (ps_buffer ?w) = [''bad'', ''a'']"
      "list_ex (\<lambda>e. e = Not_Persisted ''a'' ''bulk write error'') (ps_events ?w)" by code_simp+
  ultimately show ?thesis by (auto simp only: Let_def list_ex_iff)
qed

section \<open>Further shortfalls\<close>

lemma buffered_counts_as_persisted:
  \<comment> \<open>the metric counts messages that are only buffered\<close>
  "let w = persist_run list_documents (list_bulk (\<lambda>m. True)) (demo_persist_cfg 100) [Ps_Handle all_up (demo_record ''a'')] idle_persister
   in pm_messagesPersisted (ps_metrics w) = 1 \<and> ps_store w = []"
  by code_simp

lemma tenant_with_colon:
  \<comment> \<open>the update of a conversation of the tenant \<open>a:b\<close> goes to another conversation of the tenant \<open>a\<close>\<close>
  "ps_updates (flushBuffer (list_bulk (\<lambda>m. True)) (hv_flush all_up)
     (idle_persister\<lparr>ps_buffer := [(demo_envelope ''m'')\<lparr>ce_tenant_id := ''a:b''\<rparr>]\<rparr>)) = [(''b:c'', ''a'', 5)]"
  by code_simp

end
