(* ===== verification/KfDlq.thy ===== *)
theory KfDlq
  imports AuthMongo
begin

text \<open>
  The dead letters of the Kafka service (services/kafka-service/src/dlq/dlq-processor.ts and
  dlq-retry-service.ts): messages whose processing failed are kept in a MongoDB collection, and a
  loop sends those that may be retried to a retry topic after an exponential delay. The collection
  is a parameter; whether a command or a send succeeds is an input of the step. The last section
  shows how often a message is sent and what becomes of it.
\<close>

section \<open>The collection of dead letters\<close>

record 'm kafka_payload =
  \<comment> \<open>what the code reads of a message, and the rest of it\<close>
  kp_message_id :: "string option"
  kp_tenant_id :: "string option"
  kp_rest :: 'm

record thrown_error =
  te_name :: string
  te_message :: string
  te_stack :: "string option"

datatype dlq_status = Dlq_Pending | Dlq_Retrying | Dlq_Failed | Dlq_Resolved

record 'm dlq_message =
  dm_dlq_id :: string
  dm_topic :: string
  dm_partition :: int
  dm_offset :: int
  dm_message :: "'m kafka_payload"
  dm_error :: thrown_error
  dm_retry_count :: nat
  dm_max_retries :: nat
  dm_is_retryable :: bool
  dm_failed_at :: int
  dm_last_retry_at :: "int option"
  dm_status :: dlq_status
  dm_tenant_id :: "string option"

definition isRetryableError :: "thrown_error \<Rightarrow> bool" where
  "isRetryableError e \<longleftrightarrow> list_ex (\<lambda>t. str_includes (te_name e) t \<or> str_includes (te_message e) t)
     [''TimeoutError'', ''ConnectionError'', ''NetworkError'', ''ECONNREFUSED'', ''ETIMEDOUT'']"

definition new_dlq_message ::
    "int \<Rightarrow> string \<Rightarrow> string \<Rightarrow> int \<Rightarrow> int \<Rightarrow> 'm kafka_payload \<Rightarrow> thrown_error \<Rightarrow> nat \<Rightarrow> 'm dlq_message" where
  "new_dlq_message now i topic part offset message err retryCount =
     \<lparr>dm_dlq_id = i, dm_topic = topic, dm_partition = part, dm_offset = offset, dm_message = message, dm_error = err,
       dm_retry_count = retryCount, dm_max_retries = 3, dm_is_retryable = isRetryableError err, dm_failed_at = now,
       dm_last_retry_at = None, dm_status = Dlq_Pending, dm_tenant_id = kp_tenant_id message\<rparr>"

definition storeFailedMessage ::
    "('m dlq_message, 'c) documents \<Rightarrow> int \<Rightarrow> string \<Rightarrow> string \<Rightarrow> int \<Rightarrow> int \<Rightarrow> 'm kafka_payload \<Rightarrow> thrown_error \<Rightarrow> nat \<Rightarrow> 'c \<Rightarrow> 'c" where
  \<comment> \<open>under the identifier generated from clock and chance\<close>
  "storeFailedMessage D now i topic part offset message err retryCount c =
     dc_insertOne D (new_dlq_message now i topic part offset message err retryCount) c"

definition to_be_retried :: "'m dlq_message \<Rightarrow> bool" where
  "to_be_retried d \<longleftrightarrow> dm_status d = Dlq_Pending \<and> dm_is_retryable d \<and> dm_retry_count d < 3"

definition getPendingMessages :: "('m dlq_message, 'c) documents \<Rightarrow> nat \<Rightarrow> 'c \<Rightarrow> 'm dlq_message list" where
  "getPendingMessages D limit c = take limit (dc_find D to_be_retried c)"

definition set_dlq_status :: "int \<Rightarrow> dlq_status \<Rightarrow> nat option \<Rightarrow> 'm dlq_message \<Rightarrow> 'm dlq_message" where
  "set_dlq_status now st retryCount d =
     d\<lparr>dm_status := st, dm_last_retry_at := Some now,
       dm_retry_count := (case retryCount of None \<Rightarrow> dm_retry_count d | Some n \<Rightarrow> n)\<rparr>"

definition dlq_updateStatus ::
    "('m dlq_message, 'c) documents \<Rightarrow> int \<Rightarrow> string \<Rightarrow> dlq_status \<Rightarrow> nat option \<Rightarrow> 'c \<Rightarrow> 'c" where
  "dlq_updateStatus D now i st retryCount c =
     snd (dc_updateOne D (\<lambda>d. dm_dlq_id d = i) (set_dlq_status now st retryCount) c)"

definition markResolved :: "('m dlq_message, 'c) documents \<Rightarrow> int \<Rightarrow> string \<Rightarrow> 'c \<Rightarrow> 'c" where
  "markResolved D now i c = dlq_updateStatus D now i Dlq_Resolved None c"

definition markFailed :: "('m dlq_message, 'c) documents \<Rightarrow> int \<Rightarrow> string \<Rightarrow> 'c \<Rightarrow> 'c" where
  "markFailed D now i c = dlq_updateStatus D now i Dlq_Failed None c"

record dlq_statistics =
  ds_total :: nat
  ds_pending :: nat
  ds_retrying :: nat
  ds_failed :: nat
  ds_resolved :: nat

definition dlq_getStatistics :: "('m dlq_message, 'c) documents \<Rightarrow> 'c \<Rightarrow> dlq_statistics" where
  "dlq_getStatistics D c =
     \<lparr>ds_total = dc_countDocuments D (\<lambda>d. True) c,
       ds_pending = dc_countDocuments D (\<lambda>d. dm_status d = Dlq_Pending) c,
       ds_retrying = dc_countDocuments D (\<lambda>d. dm_status d = Dlq_Retrying) c,
       ds_failed = dc_countDocuments D (\<lambda>d. dm_status d = Dlq_Failed) c,
       ds_resolved = dc_countDocuments D (\<lambda>d. dm_status d = Dlq_Resolved) c\<rparr>"

section \<open>The retry service\<close>

record retried =
  dr_topic :: string
  dr_key :: "string option"
  dr_count :: nat \<comment> \<open>\<open>x-retry-count\<close>\<close>
  dr_original_topic :: string
  dr_dlq_id :: string

record dlq_options =
  do_retryDelayMs :: int
  do_maxRetries :: nat

definition new_DLQRetryService :: "int option \<Rightarrow> nat option \<Rightarrow> dlq_options" where
  \<comment> \<open>zero counts as not given\<close>
  "new_DLQRetryService delay retries =
     \<lparr>do_retryDelayMs = (case delay of None \<Rightarrow> 60000 | Some d \<Rightarrow> if d = 0 then 60000 else d),
       do_maxRetries = (case retries of None \<Rightarrow> 3 | Some n \<Rightarrow> if n = 0 then 3 else n)\<rparr>"

record 'c dlq_service =
  dq_store :: 'c
  dq_kafka :: bool
  dq_producer :: bool
  dq_running :: bool
  dq_sent :: "retried list"

definition dlq_start :: "'c dlq_service \<Rightarrow> string + 'c dlq_service" where
  \<comment> \<open>the loop it starts is the sequence of passes\<close>
  "dlq_start w = (if dq_running w then Inr w
     else if \<not> dq_kafka w then Inl ''Kafka client not configured''
     else Inr (w\<lparr>dq_producer := True, dq_running := True\<rparr>))"

definition dlq_stop :: "'c dlq_service \<Rightarrow> 'c dlq_service" where
  \<comment> \<open>the disconnected producer stays\<close>
  "dlq_stop w = w\<lparr>dq_running := False\<rparr>"

definition calculateBackoff :: "dlq_options \<Rightarrow> nat \<Rightarrow> int" where
  "calculateBackoff cfg retryCount = do_retryDelayMs cfg * 2 ^ retryCount"

definition getRetryTopic :: "nat \<Rightarrow> string" where
  "getRetryTopic retryCount = ''retry.'' @ show_nat (retryCount + 1)"

record retry_attempt =
  \<comment> \<open>the moment, and whether the update, the send and the update after a failure succeed\<close>
  ra_now :: int
  ra_update_up :: bool
  ra_send_up :: bool
  ra_fallback_up :: bool

definition retry_fallback ::
    "('m dlq_message, 'c) documents \<Rightarrow> retry_attempt \<Rightarrow> 'm dlq_message \<Rightarrow> 'c dlq_service \<Rightarrow> bool \<times> 'c dlq_service" where
  \<comment> \<open>the handler of an exception: back to pending, one more attempt counted\<close>
  "retry_fallback D a m w =
     (if ra_fallback_up a
      then (True, w\<lparr>dq_store := dlq_updateStatus D (ra_now a) (dm_dlq_id m) Dlq_Pending (Some (dm_retry_count m + 1)) (dq_store w)\<rparr>)
      else (False, w))"

definition retryMessage ::
    "('m dlq_message, 'c) documents \<Rightarrow> dlq_options \<Rightarrow> retry_attempt \<Rightarrow> 'm dlq_message \<Rightarrow> 'c dlq_service \<Rightarrow> bool \<times> 'c dlq_service" where
  \<comment> \<open>with whether the promise is fulfilled\<close>
  "retryMessage D cfg a m w =
     (if do_maxRetries cfg \<le> dm_retry_count m
      then if ra_update_up a then (True, w\<lparr>dq_store := markFailed D (ra_now a) (dm_dlq_id m) (dq_store w)\<rparr>)
        else retry_fallback D a m w
      else if ra_now a - dm_failed_at m < calculateBackoff cfg (dm_retry_count m) then (True, w)
      else if \<not> ra_update_up a then retry_fallback D a m w
      else (let w1 = w\<lparr>dq_store := dlq_updateStatus D (ra_now a) (dm_dlq_id m) Dlq_Retrying (Some (dm_retry_count m + 1)) (dq_store w)\<rparr>
        in if dq_producer w1 \<and> ra_send_up a
           then (True, w1\<lparr>dq_sent := dq_sent w1 @ [\<lparr>dr_topic = getRetryTopic (dm_retry_count m),
             dr_key = kp_message_id (dm_message m), dr_count = dm_retry_count m + 1,
             dr_original_topic = dm_topic m, dr_dlq_id = dm_dlq_id m\<rparr>]\<rparr>)
           else retry_fallback D a m w1))"

fun retry_each ::
    "('m dlq_message, 'c) documents \<Rightarrow> dlq_options \<Rightarrow> (string \<Rightarrow> retry_attempt) \<Rightarrow> 'm dlq_message list \<Rightarrow> 'c dlq_service
      \<Rightarrow> bool \<times> 'c dlq_service" where
  \<comment> \<open>the loop over the messages, which an exception ends\<close>
  "retry_each D cfg env [] w = (True, w)"
| "retry_each D cfg env (m # ms) w =
     (case retryMessage D cfg (env (dm_dlq_id m)) m w of
        (True, w') \<Rightarrow> retry_each D cfg env ms w'
      | (False, w') \<Rightarrow> (False, w'))"

definition processPendingMessages ::
    "('m dlq_message, 'c) documents \<Rightarrow> dlq_options \<Rightarrow> (string \<Rightarrow> retry_attempt) \<Rightarrow> 'c dlq_service \<Rightarrow> bool \<times> 'c dlq_service" where
  "processPendingMessages D cfg env w = retry_each D cfg env (getPendingMessages D 100 (dq_store w)) w"

definition reprocessMessage ::
    "('m dlq_message, 'c) documents \<Rightarrow> dlq_options \<Rightarrow> retry_attempt \<Rightarrow> string \<Rightarrow> 'c dlq_service \<Rightarrow> bool \<times> 'c dlq_service" where
  \<comment> \<open>the message read before its count is reset is the one that is retried\<close>
  "reprocessMessage D cfg a i w =
     (case dc_findOne D (\<lambda>d. dm_dlq_id d = i) (dq_store w) of
        None \<Rightarrow> (False, w)
      | Some m \<Rightarrow> retryMessage D cfg a m
          (w\<lparr>dq_store := dlq_updateStatus D (ra_now a) i Dlq_Pending (Some 0) (dq_store w)\<rparr>))"

section \<open>Runs\<close>

datatype 'm dlq_op =
    Dlq_Store int string string int int "'m kafka_payload" thrown_error nat
  | Dlq_Pass "string \<Rightarrow> retry_attempt"
  | Dlq_Reprocess retry_attempt string
  | Dlq_Resolve int string
  | Dlq_Start
  | Dlq_Stop

fun dlq_step :: "('m dlq_message, 'c) documents \<Rightarrow> dlq_options \<Rightarrow> 'm dlq_op \<Rightarrow> 'c dlq_service \<Rightarrow> 'c dlq_service" where
  "dlq_step D cfg (Dlq_Store now i topic p off m e n) w = w\<lparr>dq_store := storeFailedMessage D now i topic p off m e n (dq_store w)\<rparr>"
| "dlq_step D cfg (Dlq_Pass env) w = (if dq_running w then snd (processPendingMessages D cfg env w) else w)"
| "dlq_step D cfg (Dlq_Reprocess a i) w = snd (reprocessMessage D cfg a i w)"
| "dlq_step D cfg (Dlq_Resolve now i) w = w\<lparr>dq_store := markResolved D now i (dq_store w)\<rparr>"
| "dlq_step D cfg Dlq_Start w = (case dlq_start w of Inl e \<Rightarrow> w | Inr w' \<Rightarrow> w')"
| "dlq_step D cfg Dlq_Stop w = dlq_stop w"

abbreviation dlq_run ::
    "('m dlq_message, 'c) documents \<Rightarrow> dlq_options \<Rightarrow> 'm dlq_op list \<Rightarrow> 'c dlq_service \<Rightarrow> 'c dlq_service" where
  "dlq_run D cfg \<equiv> fold (dlq_step D cfg)"

fun stored_as :: "string \<Rightarrow> 'm dlq_op \<Rightarrow> bool" where
  "stored_as i (Dlq_Store now j topic p off m e n) = (j = i)"
| "stored_as i _ = False"

fun reprocessed_as :: "string \<Rightarrow> 'm dlq_op \<Rightarrow> bool" where
  "reprocessed_as i (Dlq_Reprocess a j) = (j = i)"
| "reprocessed_as i _ = False"

definition times_sent :: "string \<Rightarrow> 'c dlq_service \<Rightarrow> nat" where
  "times_sent i w = length (filter (\<lambda>s. dr_dlq_id s = i) (dq_sent w))"

lemma set_dlq_status_fields [simp]:
  "dm_dlq_id (set_dlq_status now st n d) = dm_dlq_id d"
  "dm_status (set_dlq_status now st n d) = st"
  by (simp_all add: set_dlq_status_def)

lemma new_dlq_message_fields [simp]:
  "dm_dlq_id (new_dlq_message now i topic p off m e n) = i"
  "dm_status (new_dlq_message now i topic p off m e n) = Dlq_Pending"
  by (simp_all add: new_dlq_message_def)

section \<open>One message in the collection\<close>

locale dead_letters = document_store D for D :: "('m dlq_message, 'c) documents"
begin

definition filed :: "string \<Rightarrow> 'c \<Rightarrow> 'm dlq_message multiset" where
  "filed i c = filter_mset (\<lambda>d. dm_dlq_id d = i) (contents D c)"

lemma filed_store:
  "filed i (storeFailedMessage D now j topic p off m e n c) =
     (if j = i then add_mset (new_dlq_message now i topic p off m e n) (filed i c) else filed i c)"
  by (simp add: filed_def storeFailedMessage_def insertOne)

lemma filed_other: "j \<noteq> i \<Longrightarrow> filed i (dlq_updateStatus D now j st n c) = filed i c"
proof (cases "\<exists>x \<in># contents D c. dm_dlq_id x = j")
  case True
  assume "j \<noteq> i"
  obtain x where "x \<in># contents D c" "dm_dlq_id x = j"
      "contents D (dlq_updateStatus D now j st n c) = add_mset (set_dlq_status now st n x) (contents D c - {#x#})"
    using update_present [OF True] unfolding dlq_updateStatus_def by blast
  with \<open>j \<noteq> i\<close> show ?thesis by (auto simp: filed_def)
next
  case False
  then show ?thesis using update_absent [of c "\<lambda>d. dm_dlq_id d = j"] by (simp add: filed_def dlq_updateStatus_def)
qed

lemma filed_absent: "filed i c = {#} \<Longrightarrow> filed i (dlq_updateStatus D now i st n c) = {#}"
proof -
  assume none: "filed i c = {#}"
  have "dm_dlq_id x \<noteq> i" if "x \<in># contents D c" for x
  proof
    assume "dm_dlq_id x = i"
    with that have "x \<in># filed i c" by (simp add: filed_def)
    with none show False by simp
  qed
  with update_absent [of c "\<lambda>d. dm_dlq_id d = i"] none show ?thesis by (simp add: filed_def dlq_updateStatus_def)
qed

lemma filed_update: "filed i c = {#d#} \<Longrightarrow> filed i (dlq_updateStatus D now i st n c) = {#set_dlq_status now st n d#}"
proof -
  assume only: "filed i c = {#d#}"
  have "d \<in># filed i c" by (simp add: only)
  then have "\<exists>x \<in># contents D c. dm_dlq_id x = i" by (auto simp: filed_def)
  from update_present [OF this] obtain x where x: "x \<in># contents D c" "dm_dlq_id x = i"
      "contents D (dlq_updateStatus D now i st n c) = add_mset (set_dlq_status now st n x) (contents D c - {#x#})"
    unfolding dlq_updateStatus_def by blast
  from x have "x \<in># filed i c" by (simp add: filed_def)
  with only have "x = d" by simp
  with x(2) only have "filter_mset (\<lambda>d. dm_dlq_id d = i) (contents D c - {#x#}) = {#}"
    by (simp add: filed_def [symmetric])
  with x \<open>x = d\<close> show ?thesis by (simp add: filed_def)
qed

definition sent_within :: "string \<Rightarrow> nat \<Rightarrow> 'c dlq_service \<Rightarrow> bool" where
  \<comment> \<open>a message waiting to be retried was sent at most \<open>n\<close> times, any other at most once more\<close>
  "sent_within i n w \<longleftrightarrow> (filed i (dq_store w) = {#} \<and> times_sent i w = 0) \<or>
     (\<exists>d. filed i (dq_store w) = {#d#} \<and> times_sent i w \<le> n + (if dm_status d = Dlq_Pending then 0 else 1))"

lemma retry_other:
  assumes "dm_dlq_id m \<noteq> i"
  shows "filed i (dq_store (snd (retryMessage D cfg a m w))) = filed i (dq_store w)
    \<and> times_sent i (snd (retryMessage D cfg a m w)) = times_sent i w"
  using assms by (simp add: retryMessage_def retry_fallback_def markFailed_def times_sent_def filed_other Let_def)

lemma retry_same:
  assumes "filed i (dq_store w) = {#d#}" "times_sent i w \<le> n" "dm_dlq_id m = i"
  shows "sent_within i n (snd (retryMessage D cfg a m w))"
proof -
  note up = filed_update [OF assms(1)]
  have "filed i (dlq_updateStatus D now i st k (dlq_updateStatus D now' i st' k' (dq_store w))) =
      {#set_dlq_status now st k (set_dlq_status now' st' k' d)#}" for now st k now' st' k'
    by (rule filed_update [OF up])
  with up assms show ?thesis
    by (auto simp: retryMessage_def retry_fallback_def markFailed_def times_sent_def sent_within_def Let_def)
qed

lemma retry_each_other:
  "\<forall>m \<in> set ms. dm_dlq_id m \<noteq> i \<Longrightarrow>
     filed i (dq_store (snd (retry_each D cfg env ms w))) = filed i (dq_store w)
     \<and> times_sent i (snd (retry_each D cfg env ms w)) = times_sent i w"
proof (induction ms arbitrary: w)
  case (Cons m ms)
  obtain b w' where 1: "retryMessage D cfg (env (dm_dlq_id m)) m w = (b, w')" by fastforce
  with Cons.prems retry_other [of m i cfg "env (dm_dlq_id m)" w] Cons.IH [of w'] show ?case
    by (cases b) auto
qed simp

lemma retry_each_within:
  assumes "length (filter (\<lambda>m. dm_dlq_id m = i) ms) \<le> 1" "sent_within i n w"
    and "\<exists>m \<in> set ms. dm_dlq_id m = i \<Longrightarrow> (\<exists>d. filed i (dq_store w) = {#d#}) \<and> times_sent i w \<le> n"
  shows "sent_within i n (snd (retry_each D cfg env ms w))"
  using assms
proof (induction ms arbitrary: w)
  case (Cons m ms)
  obtain b w' where 1: "retryMessage D cfg (env (dm_dlq_id m)) m w = (b, w')" by fastforce
  show ?case
  proof (cases "dm_dlq_id m = i")
    case True
    with Cons.prems(1) have none: "\<forall>x \<in> set ms. dm_dlq_id x \<noteq> i" by (auto simp: filter_empty_conv)
    from Cons.prems(3) True obtain d where "filed i (dq_store w) = {#d#}" "times_sent i w \<le> n" by auto
    from retry_same [OF this True, of cfg "env (dm_dlq_id m)"] 1 have "sent_within i n w'" by simp
    with retry_each_other [OF none, of cfg env w'] 1 show ?thesis by (cases b) (auto simp: sent_within_def)
  next
    case False
    from retry_other [OF this, of cfg "env (dm_dlq_id m)" w] 1
    have same: "filed i (dq_store w') = filed i (dq_store w)" "times_sent i w' = times_sent i w" by auto
    with Cons.prems(2) have w': "sent_within i n w'" by (simp add: sent_within_def)
    have "sent_within i n (snd (retry_each D cfg env ms w'))"
    proof (rule Cons.IH)
      show "length (filter (\<lambda>m. dm_dlq_id m = i) ms) \<le> 1" using Cons.prems(1) False by simp
      show "(\<exists>d. filed i (dq_store w') = {#d#}) \<and> times_sent i w' \<le> n" if "\<exists>m \<in> set ms. dm_dlq_id m = i"
        using Cons.prems(3) that same by simp
    qed (rule w')
    with w' 1 show ?thesis by (cases b) auto
  qed
qed simp

lemma pending_of:
  assumes "sent_within i n w"
  shows "length (filter (\<lambda>m. dm_dlq_id m = i) (getPendingMessages D k (dq_store w))) \<le> 1"
    and "\<exists>m \<in> set (getPendingMessages D k (dq_store w)). dm_dlq_id m = i \<Longrightarrow>
      (\<exists>d. filed i (dq_store w) = {#d#}) \<and> times_sent i w \<le> n"
proof -
  let ?c = "dq_store w"
  let ?found = "dc_find D to_be_retried ?c"
  have "mset (filter (\<lambda>m. dm_dlq_id m = i) ?found) = filter_mset to_be_retried (filed i ?c)"
    by (simp add: find_filter filed_def filter_filter_mset conj_commute)
  then have "length (filter (\<lambda>m. dm_dlq_id m = i) ?found) = size (filter_mset to_be_retried (filed i ?c))"
    by (metis size_mset)
  also have "\<dots> \<le> 1" using assms by (auto simp: sent_within_def)
  finally have one: "length (filter (\<lambda>m. dm_dlq_id m = i) ?found) \<le> 1" .
  have "filter (\<lambda>m. dm_dlq_id m = i) ?found =
      filter (\<lambda>m. dm_dlq_id m = i) (take k ?found) @ filter (\<lambda>m. dm_dlq_id m = i) (drop k ?found)"
    by (metis append_take_drop_id filter_append)
  with one show "length (filter (\<lambda>m. dm_dlq_id m = i) (getPendingMessages D k ?c)) \<le> 1"
    by (simp add: getPendingMessages_def)
  assume "\<exists>m \<in> set (getPendingMessages D k ?c). dm_dlq_id m = i"
  then obtain m where "m \<in> set ?found" "dm_dlq_id m = i"
    unfolding getPendingMessages_def by (meson in_set_takeD)
  then have m: "m \<in># filed i ?c" "dm_status m = Dlq_Pending" by (auto simp: set_find filed_def to_be_retried_def)
  with assms show "(\<exists>d. filed i ?c = {#d#}) \<and> times_sent i w \<le> n" by (auto simp: sent_within_def)
qed

lemma sent_within_step:
  assumes "sent_within i n w" "stored_as i op \<Longrightarrow> filed i (dq_store w) = {#}"
  shows "sent_within i (if reprocessed_as i op then Suc n else n) (dlq_step D cfg op w)"
proof (cases op)
  case (Dlq_Pass env)
  with assms retry_each_within [OF pending_of(1) assms(1) pending_of(2)] show ?thesis
    by (simp add: processPendingMessages_def)
next
  case (Dlq_Reprocess a j)
  show ?thesis
  proof (cases "dc_findOne D (\<lambda>d. dm_dlq_id d = j) (dq_store w)")
    case None
    with assms Dlq_Reprocess show ?thesis by (auto simp: reprocessMessage_def sent_within_def)
  next
    case (Some m)
    let ?w = "w\<lparr>dq_store := dlq_updateStatus D (ra_now a) j Dlq_Pending (Some 0) (dq_store w)\<rparr>"
    from findOne_Some [OF Some] have m: "m \<in># contents D (dq_store w)" "dm_dlq_id m = j" by auto
    have step: "dlq_step D cfg op w = snd (retryMessage D cfg a m ?w)"
      using Some Dlq_Reprocess by (simp add: reprocessMessage_def)
    show ?thesis
    proof (cases "j = i")
      case True
      then have "m \<in># filed i (dq_store w)" using m by (simp add: filed_def)
      then obtain d where d: "filed i (dq_store w) = {#d#}" "times_sent i w \<le> Suc n"
        using assms(1) by (auto simp: sent_within_def split: if_splits)
      from filed_update [OF d(1), of "ra_now a" Dlq_Pending "Some 0"] True
      have "filed i (dq_store ?w) = {#set_dlq_status (ra_now a) Dlq_Pending (Some 0) d#}" by simp
      from retry_same [OF this, of "Suc n" m cfg a] d m True step Dlq_Reprocess show ?thesis by (simp add: times_sent_def)
    next
      case False
      with m retry_other [of m i cfg a ?w] filed_other [OF False] have
        "filed i (dq_store (dlq_step D cfg op w)) = filed i (dq_store w)" "times_sent i (dlq_step D cfg op w) = times_sent i w"
        by (auto simp: step times_sent_def)
      with assms(1) False Dlq_Reprocess show ?thesis by (simp add: sent_within_def)
    qed
  qed
next
  case (Dlq_Resolve now j)
  show ?thesis
  proof (cases "j = i")
    case True
    with assms(1) Dlq_Resolve show ?thesis
      by (auto simp: sent_within_def markResolved_def times_sent_def filed_absent filed_update split: if_splits)
  next
    case False
    with assms(1) Dlq_Resolve show ?thesis by (simp add: sent_within_def markResolved_def times_sent_def filed_other)
  qed
qed (use assms in \<open>auto simp: sent_within_def filed_store times_sent_def dlq_start_def dlq_stop_def split: if_splits\<close>)

lemma filed_size [simp]: "size (filed i (dlq_updateStatus D now j st n c)) = size (filed i c)"
proof (cases "j = i \<and> (\<exists>x \<in># contents D c. dm_dlq_id x = i)")
  case True
  then obtain x where x: "x \<in># contents D c" "dm_dlq_id x = i"
      "contents D (dlq_updateStatus D now j st n c) = add_mset (set_dlq_status now st n x) (contents D c - {#x#})"
    using update_present [of c "\<lambda>d. dm_dlq_id d = i"] unfolding dlq_updateStatus_def by blast
  then have "x \<in># filed i c" by (simp add: filed_def)
  then have "size (filed i c - {#x#}) + 1 = size (filed i c)"
    by (metis Suc_eq_plus1 insert_DiffM size_add_mset)
  with x show ?thesis by (simp add: filed_def)
next
  case False
  then have "j \<noteq> i \<or> filed i c = {#}" by (auto simp: filed_def multiset_eq_iff not_in_iff)
  then show ?thesis using filed_other filed_absent by (metis size_empty)
qed

lemma filed_size_retry [simp]:
  "size (filed i (dq_store (snd (retryMessage D cfg a m w)))) = size (filed i (dq_store w))"
  by (simp add: retryMessage_def retry_fallback_def markFailed_def Let_def)

lemma filed_size_each [simp]:
  "size (filed i (dq_store (snd (retry_each D cfg env ms w)))) = size (filed i (dq_store w))"
proof (induction ms arbitrary: w)
  case (Cons m ms)
  from Cons.IH filed_size_retry [of i cfg "env (dm_dlq_id m)" m w] show ?case
    by (cases "retryMessage D cfg (env (dm_dlq_id m)) m w") (auto split: bool.split)
qed simp

lemma filed_size_step:
  "size (filed i (dq_store (dlq_step D cfg op w))) = (if stored_as i op then 1 else 0) + size (filed i (dq_store w))"
  by (cases op) (auto simp: filed_store processPendingMessages_def reprocessMessage_def markResolved_def dlq_start_def
    dlq_stop_def split: option.split)

lemma sent_within_run:
  assumes "sent_within i n w" "length (filter (stored_as i) ops) + size (filed i (dq_store w)) \<le> 1"
  shows "sent_within i (n + length (filter (reprocessed_as i) ops)) (dlq_run D cfg ops w)"
  using assms
proof (induction ops arbitrary: n w)
  case (Cons op ops)
  let ?n = "if reprocessed_as i op then Suc n else n"
  have "filed i (dq_store w) = {#}" if "stored_as i op"
    using Cons.prems(2) that by simp
  from sent_within_step [OF Cons.prems(1) this]
  have ok: "sent_within i ?n (dlq_step D cfg op w)" .
  have "length (filter (stored_as i) ops) + size (filed i (dq_store (dlq_step D cfg op w))) \<le> 1"
    using Cons.prems(2) by (simp add: filed_size_step split: if_splits)
  from Cons.IH [OF ok this] show ?case by (simp split: if_splits)
qed simp

end

interpretation kdl: dead_letters list_documents
  by unfold_locales

section \<open>How often a message is sent\<close>

definition within_retries :: "dlq_options \<Rightarrow> 'c dlq_service \<Rightarrow> bool" where
  "within_retries cfg w \<longleftrightarrow> list_all (\<lambda>s. dr_count s \<le> do_maxRetries cfg) (dq_sent w)"

lemma within_retries_store [simp]: "within_retries cfg (w\<lparr>dq_store := c\<rparr>) = within_retries cfg w"
  by (simp add: within_retries_def)

lemma retry_counts: "within_retries cfg w \<Longrightarrow> within_retries cfg (snd (retryMessage D cfg a m w))"
  by (simp add: retryMessage_def retry_fallback_def Let_def within_retries_def)

lemma retry_each_counts: "within_retries cfg w \<Longrightarrow> within_retries cfg (snd (retry_each D cfg env ms w))"
proof (induction ms arbitrary: w)
  case (Cons m ms)
  from Cons.IH retry_counts [OF Cons.prems, of D "env (dm_dlq_id m)" m] show ?case
    by (cases "retryMessage D cfg (env (dm_dlq_id m)) m w") (auto simp: Cons.prems split: bool.split)
qed simp

lemma dlq_step_counts: "within_retries cfg w \<Longrightarrow> within_retries cfg (dlq_step D cfg op w)"
proof (cases op)
  case Dlq_Start
  moreover assume "within_retries cfg w"
  ultimately show ?thesis by (simp add: dlq_start_def within_retries_def)
next
  case Dlq_Stop
  moreover assume "within_retries cfg w"
  ultimately show ?thesis by (simp add: dlq_stop_def within_retries_def)
qed (auto simp: processPendingMessages_def reprocessMessage_def retry_each_counts retry_counts split: option.split)

lemma dlq_run_counts: "within_retries cfg w \<Longrightarrow> within_retries cfg (dlq_run D cfg ops w)"
proof (induction ops arbitrary: w)
  case (Cons op ops)
  from Cons.IH [OF dlq_step_counts [OF Cons.prems]] show ?case by simp
qed simp

text \<open>
  C23: A dead letter is sent at most once per request. In every run from an empty service in which a
  message is stored at most once under an identifier, the message stored under it is sent to a retry
  topic at most once, and once more for each time it is reprocessed by hand: a message that was sent
  is no longer pending, even if nothing comes back from its retry. No copy carries a retry count
  beyond the configured number of retries.
\<close>
theorem dead_letters_sent_at_most_once:
  assumes "document_store D" "contents D (dq_store w0) = {#}" "dq_sent w0 = []"
    and "length (filter (stored_as i) ops) \<le> 1"
    and "w = dlq_run D cfg ops w0"
  shows "times_sent i w \<le> 1 + length (filter (reprocessed_as i) ops)
    \<and> list_all (\<lambda>s. dr_count s \<le> do_maxRetries cfg) (dq_sent w)"
proof
  have L: "dead_letters D" by (simp add: dead_letters_def assms(1))
  have "dead_letters.filed D i (dq_store w0) = {#}" by (simp add: dead_letters.filed_def [OF L] assms(2))
  moreover from this have "dead_letters.sent_within D i 0 w0"
    by (simp add: dead_letters.sent_within_def [OF L] times_sent_def assms(3))
  ultimately have "dead_letters.sent_within D i (0 + length (filter (reprocessed_as i) ops)) w"
    unfolding assms(5) using assms(4) by (intro dead_letters.sent_within_run [OF L]) simp_all
  then show "times_sent i w \<le> 1 + length (filter (reprocessed_as i) ops)"
    by (auto simp: dead_letters.sent_within_def [OF L] split: if_splits)
  show "list_all (\<lambda>s. dr_count s \<le> do_maxRetries cfg) (dq_sent w)"
    using dlq_run_counts [of cfg w0 D ops] assms(3,5) by (simp add: within_retries_def)
qed

definition demo_dead_letters :: "bool dlq_message list dlq_service" where
  "demo_dead_letters = \<lparr>dq_store = [], dq_kafka = True, dq_producer = False, dq_running = False, dq_sent = []\<rparr>"

definition demo_dlq_ops :: "nat \<Rightarrow> bool dlq_op list" where
  "demo_dlq_ops n =
     [Dlq_Start, Dlq_Store 0 ''d'' ''chat'' 0 7 \<lparr>kp_message_id = Some ''m'', kp_tenant_id = None, kp_rest = True\<rparr>
        \<lparr>te_name = ''TimeoutError'', te_message = '''', te_stack = None\<rparr> n,
      Dlq_Pass (\<lambda>i. \<lparr>ra_now = 600000, ra_update_up = True, ra_send_up = False, ra_fallback_up = True\<rparr>),
      Dlq_Pass (\<lambda>i. \<lparr>ra_now = 1200000, ra_update_up = True, ra_send_up = True, ra_fallback_up = True\<rparr>),
      Dlq_Pass (\<lambda>i. \<lparr>ra_now = 9990000, ra_update_up = True, ra_send_up = True, ra_fallback_up = True\<rparr>)]"

theorem dead_letters_sent_at_most_once_witness:
  "let w = dlq_run list_documents (new_DLQRetryService None None) (demo_dlq_ops 0) demo_dead_letters
   in times_sent ''d'' w \<le> 1 \<and> map dr_count (dq_sent w) = [2]"
proof -
  let ?w = "dlq_run list_documents (new_DLQRetryService None None) (demo_dlq_ops 0) demo_dead_letters"
  have "length (filter (stored_as ''d'') (demo_dlq_ops 0)) \<le> 1" "length (filter (reprocessed_as ''d'') (demo_dlq_ops 0)) = 0"
    by code_simp+
  with dead_letters_sent_at_most_once [OF ld.document_store_axioms _ _ this(1) refl, of demo_dead_letters "new_DLQRetryService None None"]
  have "times_sent ''d'' ?w \<le> 1" by (simp add: demo_dead_letters_def contents_def list_documents_def)
  moreover have "map dr_count (dq_sent ?w) = [2]" by code_simp
  ultimately show ?thesis by (simp add: Let_def)
qed

section \<open>What becomes of exhausted messages\<close>

context dead_letters
begin

definition none_failed :: "'c dlq_service \<Rightarrow> bool" where
  "none_failed w \<longleftrightarrow> (\<forall>d \<in># contents D (dq_store w). dm_status d \<noteq> Dlq_Failed)"

lemma updated_status:
  assumes "st \<noteq> Dlq_Failed" "none_failed w"
  shows "none_failed (w\<lparr>dq_store := dlq_updateStatus D now i st n (dq_store w)\<rparr>)"
proof (cases "\<exists>x \<in># contents D (dq_store w). dm_dlq_id x = i")
  case True
  from update_present [OF True] obtain x where
    "contents D (dlq_updateStatus D now i st n (dq_store w)) =
       add_mset (set_dlq_status now st n x) (contents D (dq_store w) - {#x#})"
    unfolding dlq_updateStatus_def by blast
  with assms show ?thesis by (auto simp: none_failed_def dest: in_diffD)
next
  case False
  then have "contents D (dlq_updateStatus D now i st n (dq_store w)) = contents D (dq_store w)"
    unfolding dlq_updateStatus_def using update_absent [of "dq_store w" "\<lambda>d. dm_dlq_id d = i"] by blast
  with assms show ?thesis by (simp add: none_failed_def)
qed

lemma none_failed_sent [simp]: "none_failed (w\<lparr>dq_sent := s\<rparr>) = none_failed w"
  by (simp add: none_failed_def)

lemma fallback_none_failed: "none_failed w \<Longrightarrow> none_failed (snd (retry_fallback D a m w))"
  by (simp add: retry_fallback_def updated_status)

lemma retry_none_failed:
  assumes "none_failed w" "dm_retry_count m < do_maxRetries cfg"
  shows "none_failed (snd (retryMessage D cfg a m w))"
  using assms by (simp add: retryMessage_def Let_def updated_status fallback_none_failed)

lemma retry_each_none_failed:
  "none_failed w \<Longrightarrow> \<forall>m \<in> set ms. dm_retry_count m < do_maxRetries cfg \<Longrightarrow> none_failed (snd (retry_each D cfg env ms w))"
proof (induction ms arbitrary: w)
  case (Cons m ms)
  from Cons.IH Cons.prems retry_none_failed [OF Cons.prems(1), of m cfg "env (dm_dlq_id m)"] show ?case
    by (cases "retryMessage D cfg (env (dm_dlq_id m)) m w") (auto split: bool.split)
qed simp

lemma step_none_failed:
  assumes "none_failed w" "3 \<le> do_maxRetries cfg" "\<And>i. \<not> reprocessed_as i op"
  shows "none_failed (dlq_step D cfg op w)"
proof (cases op)
  case (Dlq_Store now i topic p off m e n)
  with assms show ?thesis by (simp add: none_failed_def storeFailedMessage_def insertOne)
next
  case (Dlq_Pass env)
  have "\<forall>m \<in> set (getPendingMessages D 100 (dq_store w)). dm_retry_count m < do_maxRetries cfg"
    using assms(2) set_take_subset [of 100 "dc_find D to_be_retried (dq_store w)"]
    by (auto simp: getPendingMessages_def set_find to_be_retried_def)
  from retry_each_none_failed [OF assms(1) this] assms(1) Dlq_Pass show ?thesis by (simp add: processPendingMessages_def)
next
  case (Dlq_Reprocess a i)
  with assms(3) [of i] show ?thesis by simp
next
  case (Dlq_Resolve now i)
  with assms(1) show ?thesis by (simp add: markResolved_def updated_status)
qed (use assms(1) in \<open>simp_all add: none_failed_def dlq_start_def dlq_stop_def\<close>)

lemma run_none_failed:
  "none_failed w \<Longrightarrow> 3 \<le> do_maxRetries cfg \<Longrightarrow> (\<And>op i. op \<in> set ops \<Longrightarrow> \<not> reprocessed_as i op) \<Longrightarrow>
     none_failed (dlq_run D cfg ops w)"
  by (induction ops arbitrary: w) (simp_all add: step_none_failed)

lemma none_counted: "ds_failed (dlq_getStatistics D (dq_store w)) = 0 \<longleftrightarrow> none_failed w"
  by (simp add: dlq_getStatistics_def dc_countDocuments_def none_failed_def)
    (metis (mono_tags, lifting) empty_iff empty_set list.set_intros(1) mem_Collect_eq neq_Nil_conv set_find)

end

text \<open>
  No dead letter is ever marked as failed. With the default of three retries or more, in every
  run without manual reprocessing from a service without failed messages, the statistics count no
  failed message: the loop reads only messages retried fewer than three times, so the branch that
  marks an exhausted message is never reached, and the message stays pending for ever.
\<close>
lemma exhausted_dead_letters_stay_pending:
  assumes "document_store D" "ds_failed (dlq_getStatistics D (dq_store w0)) = 0" "3 \<le> do_maxRetries cfg"
    and "\<And>op i. op \<in> set ops \<Longrightarrow> \<not> reprocessed_as i op"
  shows "ds_failed (dlq_getStatistics D (dq_store (dlq_run D cfg ops w0))) = 0"
proof -
  have L: "dead_letters D" by (simp add: dead_letters_def assms(1))
  show ?thesis using assms(2-4) by (simp add: dead_letters.none_counted [OF L] dead_letters.run_none_failed [OF L])
qed

lemma exhausted_dead_letters_stay_pending_example:
  "let w = dlq_run list_documents (new_DLQRetryService None None) (demo_dlq_ops 2) demo_dead_letters
   in ds_failed (dlq_getStatistics list_documents (dq_store w)) = 0
    \<and> map (\<lambda>d. (dm_status d, dm_retry_count d)) (dq_store w) = [(Dlq_Pending, 3)]"
proof -
  let ?cfg = "new_DLQRetryService None None"
  let ?w = "dlq_run list_documents ?cfg (demo_dlq_ops 2) demo_dead_letters"
  have "ds_failed (dlq_getStatistics list_documents (dq_store demo_dead_letters)) = 0" by code_simp
  moreover have "3 \<le> do_maxRetries ?cfg" by code_simp
  moreover have "op \<in> set (demo_dlq_ops 2) \<Longrightarrow> \<not> reprocessed_as i op" for op i by (auto simp: demo_dlq_ops_def)
  ultimately have "ds_failed (dlq_getStatistics list_documents (dq_store ?w)) = 0"
    by (rule exhausted_dead_letters_stay_pending [OF ld.document_store_axioms])
  moreover have "map (\<lambda>d. (dm_status d, dm_retry_count d)) (dq_store ?w) = [(Dlq_Pending, 3)]" by code_simp
  ultimately show ?thesis by (simp add: Let_def)
qed

end
