(* ===== verification/KfRetry.thy ===== *)
theory KfRetry
  imports KfDlq RtRouting
begin

text \<open>
  The retry consumer of the Kafka service (services/kafka-service/src/consumers/retry-consumer.ts): a
  message of the retry topic is held until its time, at most thirty seconds, and then published again
  to its original topic, or to the dead letter topic when its retries are used up. Shown: a message
  that fails every time is published again exactly as often as its retries allow and then becomes a
  dead letter.
\<close>

section \<open>Handler\<close>

record 'm retry_envelope =
  rv_retry_count :: "nat option"
  rv_original_topic :: "string option"
  rv_event_type :: "string option"
  rv_retry_at :: "int option"
  rv_max_retries :: "nat option"
  rv_rest :: 'm

datatype 'm retry_value = No_Value | Unparseable string | Retry_Value "'m retry_envelope"

record 'm republished =
  rp_topic :: string
  rp_key :: "string option"
  rp_envelope :: "'m retry_envelope"
  rp_retry_count :: nat \<comment> \<open>\<open>x-retry-count\<close>\<close>

record 'm retry_dead_letter =
  rx_reason :: string
  rx_key :: "string option"
  rx_original :: "'m retry_value"

record 'm retry_output =
  ro_published :: "'m republished list"
  ro_dead :: "'m retry_dead_letter list"

record retry_env =
  \<comment> \<open>arrival, the moment of the publication, and whether publication and dead letter are sent\<close>
  ry_now :: int
  ry_sent_at :: int
  ry_publish :: bool
  ry_dlq :: bool

definition hold_ms :: "int \<Rightarrow> int option \<Rightarrow> int" where
  \<comment> \<open>how long the consumer sleeps\<close>
  "hold_ms now retryAt = (case retryAt of None \<Rightarrow> 0 | Some t \<Rightarrow> if now < t then min (t - now) 30000 else 0)"

definition retry_routing :: "'m retry_envelope \<Rightarrow> routing_entry option" where
  "retry_routing e = (if truthy_str (rv_event_type e) then getRoutingEntry (the (rv_event_type e)) else None)"

definition retry_limit :: "'m retry_envelope \<Rightarrow> nat" where
  "retry_limit e =
     (case rv_max_retries e of Some n \<Rightarrow> n
      | None \<Rightarrow> (case retry_routing e of Some r \<Rightarrow> rt_max_retries r | None \<Rightarrow> 3))"

definition retry_count :: "'m retry_envelope \<Rightarrow> nat" where
  "retry_count e = (case rv_retry_count e of None \<Rightarrow> 0 | Some n \<Rightarrow> n)"

definition next_delay :: "'m retry_envelope \<Rightarrow> nat" where
  \<comment> \<open>of the routing table, by the number of the next attempt; thirty seconds if there is none\<close>
  "next_delay e =
     (let ds = (case retry_routing e of Some r \<Rightarrow> rt_retry_delays_ms r | None \<Rightarrow> [1000, 5000, 30000]);
          d = (if ds = [] then 0 else ds ! min (retry_count e + 1) (length ds - 1))
      in if d = 0 then 30000 else d)"

definition sendToDlq :: "bool \<Rightarrow> string \<Rightarrow> string option \<Rightarrow> 'm retry_value \<Rightarrow> 'm retry_output \<Rightarrow> 'm retry_output" where
  \<comment> \<open>a failure to send is logged only\<close>
  "sendToDlq up reason key v s =
     (if up then s\<lparr>ro_dead := ro_dead s @ [\<lparr>rx_reason = reason, rx_key = key, rx_original = v\<rparr>]\<rparr> else s)"

definition next_attempt :: "int \<Rightarrow> 'm retry_envelope \<Rightarrow> 'm retry_envelope" where
  "next_attempt now e = e\<lparr>rv_retry_count := Some (retry_count e + 1), rv_retry_at := Some (now + int (next_delay e))\<rparr>"

definition retry_handleMessage :: "retry_env \<Rightarrow> string option \<Rightarrow> 'm retry_value \<Rightarrow> 'm retry_output \<Rightarrow> 'm retry_output" where
  "retry_handleMessage env key v s =
     (case v of
        No_Value \<Rightarrow> s
      | Unparseable raw \<Rightarrow> sendToDlq (ry_dlq env) ''UNPARSEABLE_RETRY_MESSAGE'' key v s
      | Retry_Value e \<Rightarrow>
          if retry_limit e \<le> retry_count e then sendToDlq (ry_dlq env) ''MAX_RETRIES_EXHAUSTED'' key v s
          else if \<not> truthy_str (rv_original_topic e) then sendToDlq (ry_dlq env) ''MISSING_ORIGINAL_TOPIC'' key v s
          else if \<not> ry_publish env then sendToDlq (ry_dlq env) ''RETRY_REPUBLISH_FAILED'' key v s
          else s\<lparr>ro_published := ro_published s @ [\<lparr>rp_topic = the (rv_original_topic e), rp_key = key,
            rp_envelope = next_attempt (ry_sent_at env) e, rp_retry_count = retry_count e + 1\<rparr>]\<rparr>)"

section \<open>A message that fails every time\<close>

definition no_output :: "'m retry_output" where
  "no_output = \<lparr>ro_published = [], ro_dead = []\<rparr>"

fun keeps_failing :: "retry_env list \<Rightarrow> string option \<Rightarrow> 'm retry_envelope \<Rightarrow> 'm retry_output \<Rightarrow> 'm retry_output" where
  \<comment> \<open>each time it is published the service that reads the original topic returns it to the retry topic as it is\<close>
  "keeps_failing [] key e s = s"
| "keeps_failing (env # envs) key e s =
     (let s' = retry_handleMessage env key (Retry_Value e) s
      in if length (ro_published s') = length (ro_published s) then s'
         else keeps_failing envs key (rp_envelope (last (ro_published s'))) s')"

lemma next_attempt_routing [simp]: "retry_routing (next_attempt t e) = retry_routing e"
  by (simp add: next_attempt_def retry_routing_def)

lemma next_attempt_fields [simp]:
  "rv_original_topic (next_attempt t e) = rv_original_topic e" "retry_limit (next_attempt t e) = retry_limit e"
  "retry_count (next_attempt t e) = Suc (retry_count e)"
  by (simp_all add: retry_limit_def split: option.split) (simp_all add: next_attempt_def retry_count_def)

lemma keeps_failing_from:
  assumes "\<forall>env \<in> set envs. ry_publish env \<and> ry_dlq env" "truthy_str (rv_original_topic e)"
    and "length envs = Suc (retry_limit e - retry_count e)"
  shows "\<exists>ps v. keeps_failing envs key e s = \<lparr>ro_published = ro_published s @ ps,
       ro_dead = ro_dead s @ [\<lparr>rx_reason = ''MAX_RETRIES_EXHAUSTED'', rx_key = key, rx_original = v\<rparr>]\<rparr>
     \<and> map rp_topic ps = replicate (retry_limit e - retry_count e) (the (rv_original_topic e))
     \<and> map rp_retry_count ps = map (\<lambda>n. retry_count e + n + 1) [0..<retry_limit e - retry_count e]"
  using assms
proof (induction envs arbitrary: e s)
  case (Cons env envs)
  show ?case
  proof (cases "retry_limit e \<le> retry_count e")
    case True
    with Cons.prems show ?thesis
      by (intro exI [of _ "[]"] exI [of _ "Retry_Value e"], cases s) (simp add: retry_handleMessage_def sendToDlq_def Let_def)
  next
    case False
    let ?e = "next_attempt (ry_sent_at env) e"
    let ?p = "\<lparr>rp_topic = the (rv_original_topic e), rp_key = key, rp_envelope = ?e, rp_retry_count = retry_count e + 1\<rparr>"
    let ?s = "s\<lparr>ro_published := ro_published s @ [?p]\<rparr>"
    have handled: "retry_handleMessage env key (Retry_Value e) s = ?s"
      using Cons.prems(1,2) False by (simp add: retry_handleMessage_def)
    have "length envs = Suc (retry_limit ?e - retry_count ?e)" using Cons.prems(3) False by simp
    with Cons.IH [of ?e ?s] Cons.prems(1,2) obtain ps v where
      ih: "keeps_failing envs key ?e ?s = \<lparr>ro_published = ro_published ?s @ ps,
          ro_dead = ro_dead ?s @ [\<lparr>rx_reason = ''MAX_RETRIES_EXHAUSTED'', rx_key = key, rx_original = v\<rparr>]\<rparr>"
        "map rp_topic ps = replicate (retry_limit ?e - retry_count ?e) (the (rv_original_topic ?e))"
        "map rp_retry_count ps = map (\<lambda>n. retry_count ?e + n + 1) [0..<retry_limit ?e - retry_count ?e]"
      by auto
    obtain k where k: "retry_limit e - retry_count e = Suc k" "retry_limit e - Suc (retry_count e) = k"
      using False by (metis Suc_diff_Suc not_le)
    have "map (\<lambda>n. retry_count e + n + 1) [0..<Suc k] = (retry_count e + 1) # map (\<lambda>n. Suc (retry_count e) + n + 1) [0..<k]"
      by (simp add: upt_conv_Cons map_Suc_upt [symmetric] del: upt_Suc)
    with ih k handled show ?thesis by (intro exI [of _ "?p # ps"] exI [of _ v]) simp
  qed
qed simp

text \<open>
  C24: A message that keeps failing ends as a dead letter. If a message with an original topic comes
  back from every attempt, the consumer publishes it to that topic again exactly as often as its
  limit still allows, numbering the attempts, and then sends one dead letter, with no attempt left
  out or repeated; for as long as the broker accepts what is sent.
\<close>
theorem failing_message_ends_as_dead_letter:
  assumes "list_all (\<lambda>env. ry_publish env \<and> ry_dlq env) envs" "truthy_str (rv_original_topic e)"
    and "length envs = Suc (retry_limit e - retry_count e)"
    and "r = keeps_failing envs key e no_output"
  shows "map rp_topic (ro_published r) = replicate (retry_limit e - retry_count e) (the (rv_original_topic e))
    \<and> map rp_retry_count (ro_published r) = map (\<lambda>n. retry_count e + n + 1) [0..<retry_limit e - retry_count e]
    \<and> map rx_reason (ro_dead r) = [''MAX_RETRIES_EXHAUSTED'']"
  using keeps_failing_from [of envs e key no_output] assms by (auto simp: list_all_iff no_output_def)

definition demo_retry :: "string \<Rightarrow> bool retry_envelope" where
  "demo_retry event = \<lparr>rv_retry_count = None, rv_original_topic = Some ''chat.messages'', rv_event_type = Some event,
     rv_retry_at = None, rv_max_retries = None, rv_rest = True\<rparr>"

lemma message_routing: "getRoutingEntry ''message.created'' =
    Some (route ''message.*'' ''chat.messages'' ByConversation RetryStandard 3 [1000, 5000, 30000] True)"
  by (simp add: getRoutingEntry_def EVENT_ROUTING_TABLE_def)

lemma presence_routing: "getRoutingEntry ''presence.updated'' =
    Some (route ''presence.*'' ''presence-events'' ByUser RetryNone 0 [] False)"
  by (simp add: getRoutingEntry_def EVENT_ROUTING_TABLE_def)

definition steady :: retry_env where
  "steady = \<lparr>ry_now = 0, ry_sent_at = 0, ry_publish = True, ry_dlq = True\<rparr>"

theorem failing_message_ends_as_dead_letter_witness:
  "let r = keeps_failing (replicate 4 steady) None (demo_retry ''message.created'') no_output
   in map rp_retry_count (ro_published r) = [1, 2, 3] \<and> map rx_reason (ro_dead r) = [''MAX_RETRIES_EXHAUSTED'']"
proof -
  have limit: "retry_limit (demo_retry ''message.created'') = 3" "retry_count (demo_retry ''message.created'') = 0"
    by (simp_all add: retry_limit_def retry_count_def retry_routing_def message_routing demo_retry_def)
  have "list_all (\<lambda>env. ry_publish env \<and> ry_dlq env) (replicate 4 steady)" by code_simp
  moreover have "truthy_str (rv_original_topic (demo_retry ''message.created''))" by code_simp
  moreover have "length (replicate 4 steady) =
      Suc (retry_limit (demo_retry ''message.created'') - retry_count (demo_retry ''message.created''))" by (simp add: limit)
  ultimately show ?thesis
    using failing_message_ends_as_dead_letter [of "replicate 4 steady" "demo_retry ''message.created''" _ None]
    by (simp add: Let_def limit upt_rec del: keeps_failing.simps)
qed

section \<open>Shortfalls\<close>

lemma first_delay_never_used:
  \<comment> \<open>the table starts with one second; the first retry waits five\<close>
  "next_delay (demo_retry ''message.created'') = 5000"
  by (simp add: next_delay_def retry_routing_def retry_count_def message_routing demo_retry_def)

lemma unwanted_dead_letter:
  \<comment> \<open>the entry of presence events says that they are dropped; they become dead letters\<close>
  "map rt_dlq_on_exhaust (case getRoutingEntry ''presence.updated'' of Some r \<Rightarrow> [r] | None \<Rightarrow> []) = [False]
   \<and> map rx_reason (ro_dead (retry_handleMessage steady None (Retry_Value (demo_retry ''presence.updated'')) no_output))
     = [''MAX_RETRIES_EXHAUSTED'']"
  by (simp add: retry_handleMessage_def retry_limit_def retry_routing_def retry_count_def presence_routing demo_retry_def
    sendToDlq_def steady_def no_output_def)

lemma long_delay_cut_short:
  \<comment> \<open>a retry due in a minute is published after half a minute\<close>
  "hold_ms 0 (Some 60000) = 30000"
  by (simp add: hold_ms_def)

lemma retried_letters_unread:
  \<comment> \<open>no dead letter is sent to the topic the consumer reads by default\<close>
  "getRetryTopic n \<noteq> ''internal.retry''"
  by (simp add: getRetryTopic_def)

end
