(* ===== verification/Spec2Isabelle.thy ===== *)
theory Spec2Isabelle
  imports CircuitBreakers DsFallback DsPool DsMigration DsControlPlane DsGuard DsResidency
    DsSecurity DsOps DsSchema AuthzDecisions AuthRefreshSafety AuthzRoles AuthzGrants AuthzCache
    GwSafety GwReach RtSchemas RtGovernance SkRoomSafety SkCallSafety SkRateBounds AuthMfaSafety
    AuthSessionSafety AuditChains CpAudit CpRequests CryptoKeys KfGuardSafety KfPersistSafety KfRetry
begin

text \<open>
  A verification development for CAAS, a multi-tenant chat platform in TypeScript. It models
  the parts of the platform whose decisions keep tenants apart and keep requests on the right
  database: the flexible datastore (services/flexible-datastore/src), the circuit breakers of
  the services, the authorization, tokens, sessions and second factors of the auth service
  (services/auth-service/src), the chain of hooks of the gateway (services/gateway/src/middleware),
  the contracts of realtime events (packages/realtime-contracts/src), the rooms, calls and
  rate limits of the socket service (services/socket-service/src), the persistence, retries and
  guardrails of the Kafka service (services/kafka-service/src), the keys of the crypto service
  (services/crypto-service/src), and the audit logs and requests of the audit and compliance
  services (services/audit-service/src, services/compliance-service/src).

  \<^bold>\<open>The program.\<close> The datastore's control plane (control-plane-service.ts) manages
  profiles, that is configured connections of a tenant or one of its projects to a database
  provider. It stores them in the tenant configuration store (tenant-config-store.ts), their
  secrets in the credential manager (credential-manager.ts), and registers the active ones with
  the routing engine (routing-engine.ts), which decides for each request which provider serves
  it. Beside this chain stand the fallback controller with its circuit breakers, the connection
  pools, the migration service that moves a tenant between providers, and services for
  throttling, residency and legal holds, network and encryption controls, incidents and costs.
  The policy engine decides access requests from loaded policies, behind a two-level cache of
  decisions; beside it stand the registry of permissions, roles, assignments and grants on
  single resources. The refresh service keeps sessions alive by exchanging refresh tokens kept
  in Redis; access tokens are signed for a session, and validated against keys, claims and lists
  of revocations; a second factor is asked for by challenges and waived for trusted devices. Every
  request enters by the gateway, whose hooks authenticate it, find its tenant, authorize it, count
  it and tell the services behind who sent it. Events of the socket service are described by a
  registry with the roles they are open to, their schemas and their routes; the service keeps rooms,
  bans, calls and counts of requests in Redis. Messages travel through Kafka to a consumer that
  writes them to MongoDB in batches; what fails goes to a retry topic or becomes a dead letter. Two
  services keep audit logs as chains of hashes, one of them also the requests of data subjects and
  the retention policies; another service keeps keys and encrypts under them.

  \<^bold>\<open>Theories.\<close>
  \<^item> \<open>Prelude\<close>: insertion-ordered maps, strings, numbers, hexadecimal, and the two locales
    every stateful service is shown to satisfy, \<open>machine\<close> (an invariant kept by each operation
    is kept by every run) and \<open>audited_machine\<close> (a log is only ever extended).
  \<^item> \<open>DsTypes\<close>: types/index.ts and errors/index.ts.
  \<^item> \<open>CircuitBreakers\<close>: the breakers of the datastore (class ProviderCircuitBreaker of
    fallback-controller.ts), of the MongoDB service (connections/circuit-breaker.ts) and of the
    gateway (utils/circuit-breaker.ts), and the contract they share.
  \<^item> \<open>DsFallback\<close>: FallbackController, its rules, replay queue and resolution.
  \<^item> \<open>DsPool\<close>: TenantPool and ConnectionPoolManager of pool/connection-pool.ts.
  \<^item> \<open>DsMigration\<close>: MigrationService of migration/migration-service.ts, with the relation
    \<open>phase_edge\<close> as the specification of its phases and \<open>mig_reachable\<close> its reachable states.
  \<^item> \<open>DsConfig\<close>: TenantConfigStore of tenant-config/tenant-config-store.ts, with the locale
    \<open>profile_store\<close> as the contract the control plane relies on.
  \<^item> \<open>DsCredentials\<close>: CredentialManager of credentials/credential-manager.ts.
  \<^item> \<open>DsRouting\<close>: RoutingPolicyEngine of routing/routing-engine.ts.
  \<^item> \<open>DsControl\<close>: ControlPlaneService of control-plane/control-plane-service.ts, composed of
    the three before; \<open>DsControlSafety\<close> its invariants, \<open>DsControlPlane\<close> its properties.
  \<^item> \<open>DsGuard\<close>, \<open>DsResidency\<close>, \<open>DsSecurity\<close>, \<open>DsOps\<close>: GuardProfileManager,
    ResidencyService, SecurityControlsService and OpsPlaybookManager.
  \<^item> \<open>DsSchema\<close>: the capability matrix and its negotiator (query), the entity schemas,
    index strategies and type conversions (schema-mapping).
  \<^item> \<open>AuthzValues\<close>, \<open>AuthzEngine\<close>, \<open>AuthzDecisions\<close>: the values the policy engine compares,
    the engine (policy-engine.ts, decision.ts, target-matcher.ts, condition-evaluator.ts,
    policy-parser.ts), and what it decides.
  \<^item> \<open>AuthRedis\<close>, \<open>AuthRefresh\<close>, \<open>AuthRefreshSafety\<close>: Redis as the auth service relies on it
    (locale \<open>redis_store\<close>), the token store, families, reuse detection, rotation and the refresh
    service (refresh), and what a run of it guarantees of tokens (locale \<open>token_service\<close>).
  \<^item> \<open>Descent\<close>: recursion along a relation without memory, the shape of implication and
    inheritance (locale \<open>descent\<close>): what it gives and when it returns.
  \<^item> \<open>AuthzPermissions\<close>, \<open>AuthzRoles\<close>: the registered permissions, their resolution
    (authorization/permissions), and roles with their repository and service (roles).
  \<^item> \<open>AuthMongo\<close>, \<open>AuthzGrants\<close>: document collections (locale \<open>document_store\<close>), and role
    assignments, resource permissions, tenant configuration and automatic rules.
  \<^item> \<open>AuthzCache\<close>: authorization/cache, its LRU level, the two-level decision cache, its
    invalidation and metrics.
  \<^item> \<open>GwAuth\<close>, \<open>GwAuthz\<close>, \<open>GwPipeline\<close>: the hooks of the gateway in the order they run
    (middleware/auth, tenant, authorization, rate-limit, services/tenant-service.ts and
    quota-service.ts), composed to \<open>preHandler\<close> as in app.ts.
  \<^item> \<open>GwStores\<close>, \<open>GwSafety\<close>, \<open>GwReach\<close>: its Redis stores (locales \<open>tenant_cache\<close> and
    \<open>counter_store\<close>), fixed windows, the tenant of an admitted request, and what an ordinary
    user is allowed.
  \<^item> \<open>AuthTokens\<close>, \<open>AuthSessions\<close>, \<open>AuthSessionService\<close>, \<open>AuthSessionSecurity\<close>,
    \<open>AuthSessionSafety\<close>: access tokens with their keys, claims and revocation (tokens, revocation),
    the session store, the service with renewal and termination, the security checks on sessions
    (sessions, sessions/security), and what every run guarantees (locale \<open>session_server\<close>).
  \<^item> \<open>AuthMfa\<close>, \<open>AuthMfaSafety\<close>: base32, backup codes, challenges, trusted devices and the
    tenant policy (mfa), and their bounds (locale \<open>challenge_server\<close>).
  \<^item> \<open>RtRegistry\<close>, \<open>RtRouting\<close>, \<open>RtAccess\<close>, \<open>RtGovernance\<close>, \<open>RtSchemas\<close>: the registered
    events with their envelopes, topics and partitions (index.ts), access-control.ts,
    governance.ts and the payload schemas with their validation (schemas/index.ts).
  \<^item> \<open>SkStore\<close>, \<open>SkRooms\<close>, \<open>SkRoomSafety\<close>: Redis as the socket service relies on it (locale
    \<open>kv_store\<close>), and its rooms: authorization, state and moderation (rooms).
  \<^item> \<open>SkCalls\<close>, \<open>SkCallSafety\<close>: one-to-one and group calls (webrtc/call-*.ts and
    group-call-manager.ts), with the relation \<open>call_edge\<close> as the specification of their statuses.
  \<^item> \<open>SkRate\<close>, \<open>SkRateBounds\<close>: the sliding window over sorted sets (locale \<open>window_store\<close>), the
    limits built on it (ratelimit) and the detection of spam (abuse).

  \<^item> \<open>AuditTrail\<close>, \<open>AuditChains\<close>: the audit service, its hash chain, storage, queries and
    statistics, and what a verified chain shows.
  \<^item> \<open>CpAudit\<close>, \<open>CpRequests\<close>: the audit log of the compliance service (audit.service.ts,
    hash-chain.service.ts; locale \<open>compliance_logs\<close>), and consent, requests and retention
    (gdpr.service.ts, retention.service.ts; locale \<open>retention_store\<close>).
  \<^item> \<open>CryptoKeys\<close>: encryption.service.ts, with what is known of a key in every run (locale
    \<open>key_store\<close>).
  \<^item> \<open>KfPersist\<close>, \<open>KfPersistSafety\<close>: the persistence consumer with its repository, announcements
    and dead letters (consumers/message-persistence-consumer.ts), over an unordered bulk write
    (locale \<open>message_collection\<close>).
  \<^item> \<open>KfDlq\<close>, \<open>KfRetry\<close>: the collection of dead letters and its retry loop (dlq; locale
    \<open>dead_letters\<close>), and the consumer of the retry topic (consumers/retry-consumer.ts).
  \<^item> \<open>KfGuard\<close>, \<open>KfGuardSafety\<close>: objectives, feature flags and forensic log
    (runtime/operational-guardrails.ts).

  \<^bold>\<open>How the code is read.\<close> A class is a record of its fields and each method a function
  from the record (and its arguments) to a result and the new record; a method that throws has a
  sum as its result, \<open>Inl\<close> the error. A JavaScript \<open>Map\<close> is an association list in insertion
  order, since the code iterates over it. Where an object is shared by two services (the
  profile registered with the routing engine is the object held by the store) the model updates
  both views as the code does. Identifiers from \<open>uuid\<close> and times from the clock are
  arguments of the operations (a method that reads the clock several times without waiting takes
  one reading, except where the readings are compared: \<open>acquire\<close> of a pool takes two); a
  statement about a run that needs distinct identifiers says so with a counter in the state. Numbers that are doubles in the code are exact rationals or
  integers here, except the 32-bit arithmetic of CIDR matching, which is on words.
  Concurrency: a run is a sequence of whole operations, as for the synchronous services of the
  datastore. The other services await Redis between their steps; where the interleaving matters
  (two refreshes with one token, a validation beside the termination of its session) the operation
  is split at that point and the interleaving written out. Timeouts of the event loop (ringing
  calls) are queued in the state and served by a step of their own.

  \<^bold>\<open>What is a parameter.\<close> The authenticated cipher of node:crypto (a cipher that inverts
  under the same key and whose tags verify), regular expressions and inherited properties
  (\<open>js_env\<close>), the conversion of non-decimal text to numbers (\<open>Number\<close> of an octet), random
  draws, and the functions whose outcome a breaker observes. Redis and MongoDB are records of
  the commands the code sends, each with a locale for their documented behaviour and a concrete
  server that interprets it; a stored JSON text is represented by the value it denotes. SHA-256,
  the library that signs, decodes and verifies tokens (what is relied on of it is
  \<open>jwt_law\<close>, kept by a concrete instance), the one that computes one-time passwords,
  \<open>JSON.parse\<close>, the answers of the auth service and the parsing of URLs are arguments. Whether
  a call to a server succeeds is an input of the step where the code goes on after a failure. A hash
  or a JSON text that is only compared is represented by the values it is computed from.

  \<^bold>\<open>What the lemmas show.\<close> Each service has an invariant with one preservation lemma per
  operation, interpreted as a \<open>machine\<close>; the properties are then statements about every run.
  For the control plane: one active profile per slot, tenant isolation, and that routing
  follows the store. For the breakers, pools and migrations: thresholds, slot and rate bounds,
  the phase graph, and cutovers that are executed exactly if the log of the plan allows them.
  For the policy engine: the decision as a function of the matching policies,
  finality of denials, independence of load order, and conditions as propositional formulas.
  For permissions and roles: resolution as a closure, its termination, and what the built-in
  roles hold. For caches: the LRU level as a bounded map and the origin of every cached decision.
  For refresh tokens: single use, the end of all sessions after a reuse, and rotation. For sessions
  and access tokens: the life of a session, the end of its tokens with it, and when an issued token
  validates. For second factors: bounds on guesses and on trust. For realtime events: that envelopes,
  routes and access decisions agree with the registry. For the socket service: bans, members and
  moderation of rooms, the graph of call statuses, that calls stop ringing, and windows of requests.
  For the gateway: the tenant of every admitted request, the reach of an ordinary user, fixed windows.
  For the Kafka service: that a buffered message is stored before it is forgotten or announced, how
  often a message is retried, and that pruning and percentiles leave alerts exact. For keys: reading
  back what was encrypted, and the end of a rotated key. For audit logs: what a verified chain
  determines, and why the check of the compliance service always fails.
  Some properties record what the code does where its comments or names promise more; the
  manifest lists these as findings.

  \<^bold>\<open>Bounds.\<close> Most recursions are structural or over a list. The resolution of
  implications and the inheritance of roles recurse along data that may be cyclic: they take a
  depth, and a depth of two more than the number of implied permissions, or one more than the
  number of inherited roles, suffices whenever any does (\<open>permission_resolution_terminates\<close>,
  \<open>role_permissions_are_inherited\<close>). Loops along the parents of a permission are partial
  functions, \<open>None\<close> when they never end.

  \<^bold>\<open>Not modelled.\<close> HTTP servers and routes, drivers and repositories (pure I/O), the
  singletons that hold the services, JSON parsing of policies, loading of keys, encrypted storage of
  secrets, multi-device synchronisation, the routes, plugins and clients of the gateway, the
  namespaces, presence, messaging, signaling and end-to-end encryption of the socket service, the
  clients, producers, schemas and topics of the Kafka service, the media and search services, the
  SDKs and the portal: they are wiring around client libraries whose behaviour is not in the
  repository, or user interface.
\<close>

end
